(* ===== verification/Rellm_Prelude.thy ===== *)
theory Rellm_Prelude
  imports Main
begin

text \<open>
  The vocabulary every component of the client model shares: the ways a JavaScript statement can
  fail, the string and array primitives the store uses (\<open>split\<close>, \<open>indexOf\<close>, \<open>splice\<close>,
  \<open>toLowerCase\<close>), dictionaries as partial maps, and the named theorem collections that carry the
  automation of the component theories.

  Conventions.  A JavaScript value that may be \<open>undefined\<close> is an \<open>option\<close>.  A plain object used as a
  dictionary is a map \<open>'k \<rightharpoonup> 'v\<close>; a key holding \<open>undefined\<close> and a missing key are the same for every
  reader in the store.  An array indexed by page number is a map from \<open>nat\<close>, because pages may be
  written out of order and JavaScript then leaves holes that read as \<open>undefined\<close>.
\<close>

section \<open>Failures\<close>

text \<open>
  \<open>TypeError\<close> is what a property access or a method call on \<open>undefined\<close> raises; \<open>Thrown\<close> is an
  explicit \<open>throw\<close> of the source.  \<open>Untyped\<close> marks the places where the code would go on with an object
  the types of the source exclude (an entity without its identifier, spread out of \<open>undefined\<close>): the
  model stops there instead of inventing such an object.  A computation that can fail has type
  \<open>'a result\<close>.
\<close>

datatype js_error = TypeError | Thrown string | Untyped

type_synonym 'a result = "js_error + 'a"

definition bind_result :: "'a result \<Rightarrow> ('a \<Rightarrow> 'b result) \<Rightarrow> 'b result" where
  "bind_result r f = (case r of Inl e \<Rightarrow> Inl e | Inr x \<Rightarrow> f x)"

text \<open>\<open>deref v\<close> is the read of a field through a non-null assertion, as in \<open>v!.f\<close>.\<close>

definition deref :: "'a option \<Rightarrow> 'a result" where
  "deref v = (case v of None \<Rightarrow> Inl TypeError | Some x \<Rightarrow> Inr x)"

text \<open>\<open>a ?? b\<close>.\<close>

definition nullish :: "'a option \<Rightarrow> 'a \<Rightarrow> 'a" where
  "nullish v d = (case v of None \<Rightarrow> d | Some x \<Rightarrow> x)"

named_theorems store_simps
  "defining equations of store operations, for unfolding a handler"
named_theorems effect_simps
  "what a handler schedules"
named_theorems id_simps
  "parsing and printing of identifiers"

lemma bind_result_simps [simp]:
  "bind_result (Inl e) f = Inl e" "bind_result (Inr x) f = f x"
  by (simp_all add: bind_result_def)

lemma bind_result_eq_Inr:
  "bind_result r f = Inr y \<longleftrightarrow> (\<exists>x. r = Inr x \<and> f x = Inr y)"
  by (cases r) auto

lemma bind_result_cong [fundef_cong]:
  "r = r' \<Longrightarrow> (\<And>x. r' = Inr x \<Longrightarrow> f x = g x) \<Longrightarrow> bind_result r f = bind_result r' g"
  by (cases r') auto

lemma deref_simps [simp]: "deref None = Inl TypeError" "deref (Some x) = Inr x"
  by (simp_all add: deref_def)

lemma deref_eq_Inr: "deref v = Inr x \<longleftrightarrow> v = Some x"
  by (cases v) auto

lemma nullish_simps [simp]: "nullish None d = d" "nullish (Some x) d = x"
  by (simp_all add: nullish_def)


section \<open>Strings\<close>

text \<open>\<open>s.split(c)\<close> for a one-character separator.\<close>

fun js_split :: "char \<Rightarrow> string \<Rightarrow> string list" where
  "js_split c [] = [[]]"
| "js_split c (x # xs) =
     (if x = c then [] # js_split c xs
      else (case js_split c xs of [] \<Rightarrow> [[x]] | y # ys \<Rightarrow> (x # y) # ys))"

text \<open>The element at an index, \<open>undefined\<close> when there is none.\<close>

definition js_at :: "'a list \<Rightarrow> nat \<Rightarrow> 'a option" where
  "js_at xs i = (if i < length xs then Some (xs ! i) else None)"

text \<open>\<open>s.split(c)[0]\<close>: there is always a first part.\<close>

definition split_head :: "char \<Rightarrow> string \<Rightarrow> string" where
  "split_head c s = hd (js_split c s)"

lemma js_split_not_Nil [simp]: "js_split c s \<noteq> []"
  by (induction s) (auto split: list.splits)

lemma js_split_absent: "c \<notin> set s \<Longrightarrow> js_split c s = [s]"
  by (induction s) auto

lemma js_split_append: "c \<notin> set a \<Longrightarrow> js_split c (a @ c # b) = a # js_split c b"
  by (induction a) auto

lemma split_head_absent [simp]: "c \<notin> set s \<Longrightarrow> split_head c s = s"
  by (simp add: split_head_def js_split_absent)

lemma split_head_append [simp]: "c \<notin> set a \<Longrightarrow> split_head c (a @ c # b) = a"
  by (simp add: split_head_def js_split_append)

lemma split_head_prefix: "c \<notin> set a \<Longrightarrow> split_head c (a @ b) = a @ split_head c b"
  unfolding split_head_def
  by (induction a) (auto split: list.splits)

lemma split_head_before: "split_head c (h @ c # u) = split_head c h"
proof (cases "c \<in> set h")
  case True
  then obtain x y where h: "h = x @ c # y" "c \<notin> set x"
    by (metis split_list_first)
  then show ?thesis by simp
next
  case False
  then show ?thesis by simp
qed

lemma split_head_free [simp]: "c \<notin> set (split_head c s)"
  unfolding split_head_def
  by (induction s) (auto split: list.splits)

lemma js_at_simps [simp]:
  "js_at [] i = None" "js_at (x # xs) 0 = Some x" "js_at (x # xs) (Suc i) = js_at xs i"
  by (simp_all add: js_at_def)

lemma js_at_0_hd: "js_at xs 0 = (if xs = [] then None else Some (hd xs))"
  by (cases xs) auto

text \<open>\<open>s.includes(p)\<close>.\<close>

fun contains :: "string \<Rightarrow> string \<Rightarrow> bool" where
  "contains p [] = (p = [])"
| "contains p (c # cs) = (take (length p) (c # cs) = p \<or> contains p cs)"

text \<open>
  \<open>toLowerCase\<close> on characters of the Latin-1 range, which is what a HOL \<open>char\<close> holds: the ASCII
  capitals and the accented capitals from code 192 to 222, except the multiplication sign 215.
\<close>

definition char_lower :: "char \<Rightarrow> char" where
  "char_lower c =
     (let n = of_char c :: nat
      in if (65 \<le> n \<and> n \<le> 90) \<or> (192 \<le> n \<and> n \<le> 222 \<and> n \<noteq> 215) then char_of (n + 32) else c)"

definition to_lower :: "string \<Rightarrow> string" where
  "to_lower = map char_lower"

lemma to_lower_append [simp]: "to_lower (a @ b) = to_lower a @ to_lower b"
  by (simp add: to_lower_def)


section \<open>Arrays\<close>

text \<open>\<open>xs.indexOf(x)\<close>: the first position, or \<open>-1\<close>.\<close>

fun js_indexOf :: "'a list \<Rightarrow> 'a \<Rightarrow> int" where
  "js_indexOf [] x = -1"
| "js_indexOf (y # ys) x =
     (if y = x then 0 else (let i = js_indexOf ys x in if i < 0 then -1 else i + 1))"

text \<open>The start index \<open>splice\<close> really uses: a negative one counts from the end.\<close>

definition splice_start :: "'a list \<Rightarrow> int \<Rightarrow> nat" where
  "splice_start xs i = (if i < 0 then nat (int (length xs) + i) else min (nat i) (length xs))"

text \<open>
  \<open>xs.splice(i, 1)[0]\<close> with the array it leaves behind, and \<open>xs.splice(i, 0, x)\<close>.
\<close>

definition splice_take :: "'a list \<Rightarrow> int \<Rightarrow> 'a option \<times> 'a list" where
  "splice_take xs i =
     (let k = splice_start xs i in (js_at xs k, take k xs @ drop (Suc k) xs))"

definition splice_insert :: "'a list \<Rightarrow> int \<Rightarrow> 'a \<Rightarrow> 'a list" where
  "splice_insert xs i x = (let k = splice_start xs i in take k xs @ x # drop k xs)"

lemma js_indexOf_absent: "x \<notin> set xs \<Longrightarrow> js_indexOf xs x = -1"
  by (induction xs) (auto simp: Let_def)

lemma js_indexOf_append:
  "x \<notin> set as \<Longrightarrow> js_indexOf (as @ x # bs) x = int (length as)"
  by (induction as) (auto simp: Let_def)

lemma js_indexOf_present_bounds:
  "x \<in> set xs \<Longrightarrow> 0 \<le> js_indexOf xs x \<and> js_indexOf xs x < int (length xs)"
  by (induction xs) (auto simp: Let_def)

lemma split_list_at:
  assumes "x \<in> set xs"
  obtains as bs where "xs = as @ x # bs" "x \<notin> set as"
  using split_list_first [OF assms] by blast

lemma splice_take_mid:
  "splice_take (as @ x # bs) (int (length as)) = (Some x, as @ bs)"
  by (simp add: splice_take_def splice_start_def js_at_def)

lemma splice_insert_mid:
  "splice_insert (as @ bs) (int (length as)) x = as @ x # bs"
  by (simp add: splice_insert_def splice_start_def)

text \<open>
  The two moves of the pinned lists: the guard, the removal and the re-insertion next to the old
  place, exactly as the reducers write them.
\<close>

definition move_up :: "'a list \<Rightarrow> 'a \<Rightarrow> 'a list" where
  "move_up xs x =
     (let index = js_indexOf xs x
      in if index > 0
         then (case splice_take xs index of
                 (Some element, rest) \<Rightarrow> splice_insert rest (index - 1) element
               | (None, rest) \<Rightarrow> rest)
         else xs)"

definition move_down :: "'a list \<Rightarrow> 'a \<Rightarrow> 'a list" where
  "move_down xs x =
     (let index = js_indexOf xs x
      in if index < int (length xs) - 1
         then (case splice_take xs index of
                 (Some element, rest) \<Rightarrow> splice_insert rest (index + 1) element
               | (None, rest) \<Rightarrow> rest)
         else xs)"

lemma move_up_mid:
  assumes "x \<notin> set as" "a \<noteq> x"
  shows "move_up (as @ a # x # bs) x = as @ x # a # bs"
proof -
  have i: "js_indexOf (as @ a # x # bs) x = int (Suc (length as))"
    using js_indexOf_append [of x "as @ [a]" bs] assms by simp
  have t: "splice_take (as @ a # x # bs) (int (Suc (length as))) = (Some x, as @ a # bs)"
    using splice_take_mid [of "as @ [a]" x bs] by simp
  have n: "splice_insert (as @ a # bs) (int (length as)) x = as @ x # a # bs"
    by (rule splice_insert_mid)
  show ?thesis
    using i t n by (simp add: move_up_def)
qed

lemma move_up_first: "move_up (x # bs) x = x # bs"
  by (simp add: move_up_def)

lemma move_up_absent: "x \<notin> set xs \<Longrightarrow> move_up xs x = xs"
  by (simp add: move_up_def js_indexOf_absent)

lemma move_down_mid:
  assumes "x \<notin> set as"
  shows "move_down (as @ x # b # bs) x = as @ b # x # bs"
proof -
  have i: "js_indexOf (as @ x # b # bs) x = int (length as)"
    using assms by (rule js_indexOf_append)
  have t: "splice_take (as @ x # b # bs) (int (length as)) = (Some x, as @ b # bs)"
    by (rule splice_take_mid)
  have "splice_insert ((as @ [b]) @ bs) (int (length (as @ [b]))) x = (as @ [b]) @ x # bs"
    by (rule splice_insert_mid)
  then have n: "splice_insert (as @ b # bs) (int (length as) + 1) x = as @ b # x # bs"
    by (simp add: add.commute)
  show ?thesis
    using i t n by (simp add: move_down_def)
qed

lemma move_down_last: "x \<notin> set as \<Longrightarrow> move_down (as @ [x]) x = as @ [x]"
  by (simp add: move_down_def js_indexOf_append)

text \<open>An index of \<open>-1\<close> passes the guard of the downward move: the last element is moved to the front.\<close>

lemma move_down_absent:
  assumes "x \<notin> set xs" "xs \<noteq> []"
  shows "move_down xs x = last xs # butlast xs"
proof -
  obtain ys y where xs: "xs = ys @ [y]"
    using assms(2) by (metis rev_exhaust)
  show ?thesis
    using assms(1) unfolding xs
    by (simp add: move_down_def js_indexOf_absent splice_take_def splice_start_def js_at_def
        splice_insert_def nth_append)
qed

lemma move_down_Nil: "move_down [] x = []"
  by (simp add: move_down_def)

lemma mset_move_up: "distinct xs \<Longrightarrow> set (move_up xs x) = set xs \<and> distinct (move_up xs x)"
proof (cases "x \<in> set xs")
  case True
  assume d: "distinct xs"
  obtain as bs where xs: "xs = as @ x # bs" "x \<notin> set as"
    using True by (rule split_list_at)
  show ?thesis
  proof (cases as rule: rev_cases)
    case Nil
    then show ?thesis using xs d by (simp add: move_up_first)
  next
    case (snoc cs c)
    then show ?thesis using xs d by (auto simp: move_up_mid)
  qed
next
  case False
  assume "distinct xs"
  then show ?thesis using False by (simp add: move_up_absent)
qed

lemma mset_move_down: "distinct xs \<Longrightarrow> set (move_down xs x) = set xs \<and> distinct (move_down xs x)"
proof (cases "x \<in> set xs")
  case True
  assume d: "distinct xs"
  obtain as bs where xs: "xs = as @ x # bs" "x \<notin> set as"
    using True by (rule split_list_at)
  show ?thesis
    using xs d by (cases bs) (auto simp: move_down_last move_down_mid)
next
  case False
  assume d: "distinct xs"
  show ?thesis
  proof (cases xs rule: rev_cases)
    case Nil
    then show ?thesis by (simp add: move_down_Nil)
  next
    case (snoc ys y)
    then show ?thesis using False d by (auto simp: move_down_absent)
  qed
qed


section \<open>Dictionaries\<close>

text \<open>\<open>Object.keys(d).filter(P).forEach(k => delete d[k])\<close>.\<close>

definition dict_delete_where :: "('k \<Rightarrow> bool) \<Rightarrow> ('k \<rightharpoonup> 'v) \<Rightarrow> ('k \<rightharpoonup> 'v)" where
  "dict_delete_where P d = (\<lambda>k. if P k then None else d k)"

text \<open>A loop over the values of a dictionary that replaces each one.\<close>

definition dict_map :: "('v \<Rightarrow> 'w) \<Rightarrow> ('k \<rightharpoonup> 'v) \<Rightarrow> ('k \<rightharpoonup> 'w)" where
  "dict_map f d = (\<lambda>k. map_option f (d k))"

lemma dict_delete_where_apply [simp]:
  "dict_delete_where P d k = (if P k then None else d k)"
  by (simp add: dict_delete_where_def)

lemma dom_dict_delete_where: "dom (dict_delete_where P d) = {k \<in> dom d. \<not> P k}"
  by (auto simp: dict_delete_where_def dom_def)

lemma dict_delete_where_idem:
  "dict_delete_where P (dict_delete_where P d) = dict_delete_where P d"
  by (auto simp: dict_delete_where_def)

lemma dict_delete_where_commute:
  "dict_delete_where P (dict_delete_where Q d) = dict_delete_where Q (dict_delete_where P d)"
  by (auto simp: dict_delete_where_def)

lemma dict_map_apply [simp]: "dict_map f d k = map_option f (d k)"
  by (simp add: dict_map_def)

lemma dom_dict_map [simp]: "dom (dict_map f d) = dom d"
  by (auto simp: dom_def)

end
