(* ===== verification/Api_Enums.thy ===== *)
theory Api_Enums
  imports Rellm_Prelude
begin

text \<open>
  The enumerations of the protocol that the client store reads, from the TypeScript module the
  protobuf compiler emits (packages/api/generated).  Each enumeration is a datatype with the source's
  constructors, qualified by the enumeration's name; its numbers and names are one table, and the
  two \<open>switch\<close> statements \<open>xFromJSON\<close> and \<open>xToJSON\<close> are lookups in it.  The locale \<open>enum_codec\<close> says
  what the tables owe to each other and proves the round trips once; it is interpreted for every
  enumeration.
\<close>

section \<open>Scalars of a JSON document, and the two switches\<close>

text \<open>\<open>JOther\<close> stands for every value that is neither an integer nor a string.\<close>

datatype json_scalar = JNumber int | JString string | JOther

definition enum_fromJSON :: "('c \<times> int \<times> string) list \<Rightarrow> 'c \<Rightarrow> json_scalar \<Rightarrow> 'c" where
  "enum_fromJSON table other obj =
     (case find (\<lambda>(c, n, s). obj = JNumber n \<or> obj = JString s) table of
        Some (c, _) \<Rightarrow> c
      | None \<Rightarrow> other)"

definition enum_toJSON :: "('c \<times> int \<times> string) list \<Rightarrow> 'c \<Rightarrow> string" where
  "enum_toJSON table x =
     (case find (\<lambda>(c, n, s). x = c) table of
        Some (_, _, s) \<Rightarrow> s
      | None \<Rightarrow> ''UNRECOGNIZED'')"

definition enum_number :: "('c \<times> int \<times> string) list \<Rightarrow> 'c \<Rightarrow> int" where
  "enum_number table x =
     (case find (\<lambda>(c, n, s). x = c) table of Some (_, n, _) \<Rightarrow> n | None \<Rightarrow> -1)"

locale enum_codec =
  fixes table :: "('c \<times> int \<times> string) list"
    and other :: "'c"
  assumes distinct_codes: "distinct (map fst table)"
    and distinct_numbers: "distinct (map (fst \<circ> snd) table)"
    and distinct_names: "distinct (map (snd \<circ> snd) table)"
    and other_free: "other \<notin> fst ` set table"
    and reserved_number: "-1 \<notin> (fst \<circ> snd) ` set table"
    and reserved_name: "''UNRECOGNIZED'' \<notin> (snd \<circ> snd) ` set table"
    and complete: "UNIV = insert other (fst ` set table)"
begin

lemma find_code:
  assumes "(c, n, s) \<in> set table"
  shows "find (\<lambda>(c', n', s'). c = c') table = Some (c, n, s)"
proof -
  have "find (\<lambda>(c', n', s'). c = c') t = Some (c, n, s)"
    if "distinct (map fst t)" "(c, n, s) \<in> set t" for t :: "('c \<times> int \<times> string) list"
    using that by (induction t) (force split: prod.splits)+
  then show ?thesis using assms distinct_codes by blast
qed

lemma find_name:
  assumes "(c, n, s) \<in> set table"
  shows "find (\<lambda>(c', n', s'). JString s = JNumber n' \<or> JString s = JString s') table = Some (c, n, s)"
proof -
  have "find (\<lambda>(c', n', s'). JString s = JNumber n' \<or> JString s = JString s') t = Some (c, n, s)"
    if "distinct (map (snd \<circ> snd) t)" "(c, n, s) \<in> set t" for t :: "('c \<times> int \<times> string) list"
    using that by (induction t) (force split: prod.splits)+
  then show ?thesis using assms distinct_names by blast
qed

lemma find_number:
  assumes "(c, n, s) \<in> set table"
  shows "find (\<lambda>(c', n', s'). JNumber n = JNumber n' \<or> JNumber n = JString s') table = Some (c, n, s)"
proof -
  have "find (\<lambda>(c', n', s'). JNumber n = JNumber n' \<or> JNumber n = JString s') t = Some (c, n, s)"
    if "distinct (map (fst \<circ> snd) t)" "(c, n, s) \<in> set t" for t :: "('c \<times> int \<times> string) list"
    using that by (induction t) (force split: prod.splits)+
  then show ?thesis using assms distinct_numbers by blast
qed

lemma find_other: "find (\<lambda>(c', n', s'). other = c') table = None"
  using other_free by (force simp: find_None_iff)

lemma code_cases:
  obtains (other) "c = other" | (code) n s where "(c, n, s) \<in> set table"
proof -
  have "c \<in> insert other (fst ` set table)"
    using complete by blast
  then show ?thesis
    using that by force
qed

lemma fromJSON_toJSON: "enum_fromJSON table other (JString (enum_toJSON table c)) = c"
proof (cases c rule: code_cases)
  case other
  then have s: "enum_toJSON table c = ''UNRECOGNIZED''"
    by (simp add: enum_toJSON_def find_other)
  have "find (\<lambda>(c, n, s). JString ''UNRECOGNIZED'' = JNumber n \<or> JString ''UNRECOGNIZED'' = JString s) table = None"
    using reserved_name by (force simp: find_None_iff)
  then show ?thesis
    unfolding s by (simp add: enum_fromJSON_def other del: json_scalar.inject)
next
  case (code n s)
  show ?thesis
    unfolding enum_fromJSON_def enum_toJSON_def find_code [OF code]
    by (simp add: find_name [OF code] del: json_scalar.inject json_scalar.simps)
qed

lemma fromJSON_number: "enum_fromJSON table other (JNumber (enum_number table c)) = c"
proof (cases c rule: code_cases)
  case other
  then have n: "enum_number table c = -1"
    by (simp add: enum_number_def find_other)
  have "find (\<lambda>(c, n, s). JNumber (-1) = JNumber n \<or> JNumber (-1) = JString s) table = None"
    using reserved_number by (force simp: find_None_iff)
  then show ?thesis
    unfolding n by (simp add: enum_fromJSON_def other del: json_scalar.inject)
next
  case (code n s)
  show ?thesis
    unfolding enum_fromJSON_def enum_number_def find_code [OF code]
    by (simp add: find_number [OF code] del: json_scalar.inject json_scalar.simps)
qed

lemma toJSON_inj: "enum_toJSON table c = enum_toJSON table d \<Longrightarrow> c = d"
  by (metis fromJSON_toJSON)

end


section \<open>The enumerations\<close>

subsection \<open>Visibility (visibility_moderation.ts)\<close>

datatype visibility =
    Visibility_VISIBILITY_UNKNOWN
  | Visibility_PRIVATE
  | Visibility_LIMITED
  | Visibility_SERVER_PUBLIC
  | Visibility_GLOBAL_PUBLIC
  | Visibility_DIRECT
  | Visibility_LICENSED
  | Visibility_UNRECOGNIZED

definition visibility_table :: "(visibility \<times> int \<times> string) list" where
  "visibility_table =
    [(Visibility_VISIBILITY_UNKNOWN, 0, ''VISIBILITY_UNKNOWN''),
     (Visibility_PRIVATE, 1, ''PRIVATE''),
     (Visibility_LIMITED, 2, ''LIMITED''),
     (Visibility_SERVER_PUBLIC, 3, ''SERVER_PUBLIC''),
     (Visibility_GLOBAL_PUBLIC, 4, ''GLOBAL_PUBLIC''),
     (Visibility_DIRECT, 5, ''DIRECT''),
     (Visibility_LICENSED, 6, ''LICENSED'')]"

definition visibilityFromJSON :: "json_scalar \<Rightarrow> visibility" where
  "visibilityFromJSON = enum_fromJSON visibility_table Visibility_UNRECOGNIZED"

definition visibilityToJSON :: "visibility \<Rightarrow> string" where
  "visibilityToJSON = enum_toJSON visibility_table"

lemma UNIV_visibility:
  "UNIV = {Visibility_UNRECOGNIZED, Visibility_VISIBILITY_UNKNOWN, Visibility_PRIVATE, Visibility_LIMITED, Visibility_SERVER_PUBLIC, Visibility_GLOBAL_PUBLIC, Visibility_DIRECT, Visibility_LICENSED}"
  by (auto intro: visibility.exhaust)

interpretation visibility_codec: enum_codec visibility_table Visibility_UNRECOGNIZED
  by unfold_locales
    (simp_all add: visibility_table_def UNIV_visibility)

subsection \<open>Moderation (visibility_moderation.ts)\<close>

datatype moderation =
    Moderation_MODERATION_UNKNOWN
  | Moderation_UNMODERATED
  | Moderation_PENDING
  | Moderation_APPROVED
  | Moderation_REJECTED
  | Moderation_UNRECOGNIZED

definition moderation_table :: "(moderation \<times> int \<times> string) list" where
  "moderation_table =
    [(Moderation_MODERATION_UNKNOWN, 0, ''MODERATION_UNKNOWN''),
     (Moderation_UNMODERATED, 1, ''UNMODERATED''),
     (Moderation_PENDING, 2, ''PENDING''),
     (Moderation_APPROVED, 3, ''APPROVED''),
     (Moderation_REJECTED, 4, ''REJECTED'')]"

definition moderationFromJSON :: "json_scalar \<Rightarrow> moderation" where
  "moderationFromJSON = enum_fromJSON moderation_table Moderation_UNRECOGNIZED"

definition moderationToJSON :: "moderation \<Rightarrow> string" where
  "moderationToJSON = enum_toJSON moderation_table"

lemma UNIV_moderation:
  "UNIV = {Moderation_UNRECOGNIZED, Moderation_MODERATION_UNKNOWN, Moderation_UNMODERATED, Moderation_PENDING, Moderation_APPROVED, Moderation_REJECTED}"
  by (auto intro: moderation.exhaust)

interpretation moderation_codec: enum_codec moderation_table Moderation_UNRECOGNIZED
  by unfold_locales
    (simp_all add: moderation_table_def UNIV_moderation)

subsection \<open>Permission (permissions.ts)\<close>

datatype permission =
    Permission_PERMISSION_UNKNOWN
  | Permission_VIEW_USERS
  | Permission_PUBLISH_USERS_LOCALLY
  | Permission_PUBLISH_USERS_GLOBALLY
  | Permission_MODERATE_USERS
  | Permission_FOLLOW_USERS
  | Permission_GRANT_BASIC_PERMISSIONS
  | Permission_VIEW_GROUPS
  | Permission_CREATE_GROUPS
  | Permission_PUBLISH_GROUPS_LOCALLY
  | Permission_PUBLISH_GROUPS_GLOBALLY
  | Permission_MODERATE_GROUPS
  | Permission_JOIN_GROUPS
  | Permission_INVITE_GROUP_MEMBERS
  | Permission_VIEW_POSTS
  | Permission_CREATE_POSTS
  | Permission_PUBLISH_POSTS_LOCALLY
  | Permission_PUBLISH_POSTS_GLOBALLY
  | Permission_MODERATE_POSTS
  | Permission_REPLY_TO_POSTS
  | Permission_EDIT_POST_TITLES_AND_LINKS
  | Permission_VIEW_EVENTS
  | Permission_CREATE_EVENTS
  | Permission_PUBLISH_EVENTS_LOCALLY
  | Permission_PUBLISH_EVENTS_GLOBALLY
  | Permission_MODERATE_EVENTS
  | Permission_RSVP_TO_EVENTS
  | Permission_VIEW_MEDIA
  | Permission_CREATE_MEDIA
  | Permission_PUBLISH_MEDIA_LOCALLY
  | Permission_PUBLISH_MEDIA_GLOBALLY
  | Permission_MODERATE_MEDIA
  | Permission_READ_PERSONAL_MESSAGES
  | Permission_READ_ALL_SYSTEM_MESSAGES
  | Permission_CREATE_AI_PROVIDERS
  | Permission_SYNC_EVENTS_FROM_ICS
  | Permission_SYNC_POSTS_FROM_RSS
  | Permission_SYNC_POSTS_FROM_ATOM
  | Permission_SYNC_EVENTS_TO_FACEBOOK
  | Permission_SYNC_POSTS_TO_FACEBOOK
  | Permission_SYNC_EVENTS_TO_INSTAGRAM
  | Permission_SYNC_POSTS_TO_INSTAGRAM
  | Permission_SYNC_EVENTS_TO_MASTODON
  | Permission_SYNC_POSTS_TO_MASTODON
  | Permission_SYNC_EVENTS_TO_BLUESKY
  | Permission_SYNC_POSTS_TO_BLUESKY
  | Permission_SYNC_EVENTS_TO_X_TWITTER
  | Permission_SYNC_POSTS_TO_X_TWITTER
  | Permission_SYNC_EVENTS_TO_THREADS
  | Permission_SYNC_POSTS_TO_THREADS
  | Permission_BUSINESS
  | Permission_RUN_BOTS
  | Permission_ADMIN
  | Permission_VIEW_PRIVATE_CONTACT_METHODS
  | Permission_EDIT_CLUSTER_SETTINGS
  | Permission_EDIT_SERVER_MEDIA_ALLOCATION
  | Permission_VIEW_SERVER_LOGS
  | Permission_UNRECOGNIZED

definition permission_table :: "(permission \<times> int \<times> string) list" where
  "permission_table =
    [(Permission_PERMISSION_UNKNOWN, 0, ''PERMISSION_UNKNOWN''),
     (Permission_VIEW_USERS, 1, ''VIEW_USERS''),
     (Permission_PUBLISH_USERS_LOCALLY, 2, ''PUBLISH_USERS_LOCALLY''),
     (Permission_PUBLISH_USERS_GLOBALLY, 3, ''PUBLISH_USERS_GLOBALLY''),
     (Permission_MODERATE_USERS, 4, ''MODERATE_USERS''),
     (Permission_FOLLOW_USERS, 5, ''FOLLOW_USERS''),
     (Permission_GRANT_BASIC_PERMISSIONS, 6, ''GRANT_BASIC_PERMISSIONS''),
     (Permission_VIEW_GROUPS, 10, ''VIEW_GROUPS''),
     (Permission_CREATE_GROUPS, 11, ''CREATE_GROUPS''),
     (Permission_PUBLISH_GROUPS_LOCALLY, 12, ''PUBLISH_GROUPS_LOCALLY''),
     (Permission_PUBLISH_GROUPS_GLOBALLY, 13, ''PUBLISH_GROUPS_GLOBALLY''),
     (Permission_MODERATE_GROUPS, 14, ''MODERATE_GROUPS''),
     (Permission_JOIN_GROUPS, 15, ''JOIN_GROUPS''),
     (Permission_INVITE_GROUP_MEMBERS, 16, ''INVITE_GROUP_MEMBERS''),
     (Permission_VIEW_POSTS, 20, ''VIEW_POSTS''),
     (Permission_CREATE_POSTS, 21, ''CREATE_POSTS''),
     (Permission_PUBLISH_POSTS_LOCALLY, 22, ''PUBLISH_POSTS_LOCALLY''),
     (Permission_PUBLISH_POSTS_GLOBALLY, 23, ''PUBLISH_POSTS_GLOBALLY''),
     (Permission_MODERATE_POSTS, 24, ''MODERATE_POSTS''),
     (Permission_REPLY_TO_POSTS, 25, ''REPLY_TO_POSTS''),
     (Permission_EDIT_POST_TITLES_AND_LINKS, 26, ''EDIT_POST_TITLES_AND_LINKS''),
     (Permission_VIEW_EVENTS, 30, ''VIEW_EVENTS''),
     (Permission_CREATE_EVENTS, 31, ''CREATE_EVENTS''),
     (Permission_PUBLISH_EVENTS_LOCALLY, 32, ''PUBLISH_EVENTS_LOCALLY''),
     (Permission_PUBLISH_EVENTS_GLOBALLY, 33, ''PUBLISH_EVENTS_GLOBALLY''),
     (Permission_MODERATE_EVENTS, 34, ''MODERATE_EVENTS''),
     (Permission_RSVP_TO_EVENTS, 35, ''RSVP_TO_EVENTS''),
     (Permission_VIEW_MEDIA, 40, ''VIEW_MEDIA''),
     (Permission_CREATE_MEDIA, 41, ''CREATE_MEDIA''),
     (Permission_PUBLISH_MEDIA_LOCALLY, 42, ''PUBLISH_MEDIA_LOCALLY''),
     (Permission_PUBLISH_MEDIA_GLOBALLY, 43, ''PUBLISH_MEDIA_GLOBALLY''),
     (Permission_MODERATE_MEDIA, 44, ''MODERATE_MEDIA''),
     (Permission_READ_PERSONAL_MESSAGES, 50, ''READ_PERSONAL_MESSAGES''),
     (Permission_READ_ALL_SYSTEM_MESSAGES, 51, ''READ_ALL_SYSTEM_MESSAGES''),
     (Permission_CREATE_AI_PROVIDERS, 60, ''CREATE_AI_PROVIDERS''),
     (Permission_SYNC_EVENTS_FROM_ICS, 700, ''SYNC_EVENTS_FROM_ICS''),
     (Permission_SYNC_POSTS_FROM_RSS, 701, ''SYNC_POSTS_FROM_RSS''),
     (Permission_SYNC_POSTS_FROM_ATOM, 702, ''SYNC_POSTS_FROM_ATOM''),
     (Permission_SYNC_EVENTS_TO_FACEBOOK, 1000, ''SYNC_EVENTS_TO_FACEBOOK''),
     (Permission_SYNC_POSTS_TO_FACEBOOK, 1001, ''SYNC_POSTS_TO_FACEBOOK''),
     (Permission_SYNC_EVENTS_TO_INSTAGRAM, 1010, ''SYNC_EVENTS_TO_INSTAGRAM''),
     (Permission_SYNC_POSTS_TO_INSTAGRAM, 1011, ''SYNC_POSTS_TO_INSTAGRAM''),
     (Permission_SYNC_EVENTS_TO_MASTODON, 1020, ''SYNC_EVENTS_TO_MASTODON''),
     (Permission_SYNC_POSTS_TO_MASTODON, 1021, ''SYNC_POSTS_TO_MASTODON''),
     (Permission_SYNC_EVENTS_TO_BLUESKY, 1030, ''SYNC_EVENTS_TO_BLUESKY''),
     (Permission_SYNC_POSTS_TO_BLUESKY, 1031, ''SYNC_POSTS_TO_BLUESKY''),
     (Permission_SYNC_EVENTS_TO_X_TWITTER, 1040, ''SYNC_EVENTS_TO_X_TWITTER''),
     (Permission_SYNC_POSTS_TO_X_TWITTER, 1041, ''SYNC_POSTS_TO_X_TWITTER''),
     (Permission_SYNC_EVENTS_TO_THREADS, 1050, ''SYNC_EVENTS_TO_THREADS''),
     (Permission_SYNC_POSTS_TO_THREADS, 1051, ''SYNC_POSTS_TO_THREADS''),
     (Permission_BUSINESS, 9998, ''BUSINESS''),
     (Permission_RUN_BOTS, 9999, ''RUN_BOTS''),
     (Permission_ADMIN, 10000, ''ADMIN''),
     (Permission_VIEW_PRIVATE_CONTACT_METHODS, 10001, ''VIEW_PRIVATE_CONTACT_METHODS''),
     (Permission_EDIT_CLUSTER_SETTINGS, 10002, ''EDIT_CLUSTER_SETTINGS''),
     (Permission_EDIT_SERVER_MEDIA_ALLOCATION, 10003, ''EDIT_SERVER_MEDIA_ALLOCATION''),
     (Permission_VIEW_SERVER_LOGS, 10004, ''VIEW_SERVER_LOGS'')]"

definition permissionFromJSON :: "json_scalar \<Rightarrow> permission" where
  "permissionFromJSON = enum_fromJSON permission_table Permission_UNRECOGNIZED"

definition permissionToJSON :: "permission \<Rightarrow> string" where
  "permissionToJSON = enum_toJSON permission_table"

lemma UNIV_permission:
  "UNIV = {Permission_UNRECOGNIZED, Permission_PERMISSION_UNKNOWN, Permission_VIEW_USERS, Permission_PUBLISH_USERS_LOCALLY, Permission_PUBLISH_USERS_GLOBALLY, Permission_MODERATE_USERS, Permission_FOLLOW_USERS, Permission_GRANT_BASIC_PERMISSIONS, Permission_VIEW_GROUPS, Permission_CREATE_GROUPS, Permission_PUBLISH_GROUPS_LOCALLY, Permission_PUBLISH_GROUPS_GLOBALLY, Permission_MODERATE_GROUPS, Permission_JOIN_GROUPS, Permission_INVITE_GROUP_MEMBERS, Permission_VIEW_POSTS, Permission_CREATE_POSTS, Permission_PUBLISH_POSTS_LOCALLY, Permission_PUBLISH_POSTS_GLOBALLY, Permission_MODERATE_POSTS, Permission_REPLY_TO_POSTS, Permission_EDIT_POST_TITLES_AND_LINKS, Permission_VIEW_EVENTS, Permission_CREATE_EVENTS, Permission_PUBLISH_EVENTS_LOCALLY, Permission_PUBLISH_EVENTS_GLOBALLY, Permission_MODERATE_EVENTS, Permission_RSVP_TO_EVENTS, Permission_VIEW_MEDIA, Permission_CREATE_MEDIA, Permission_PUBLISH_MEDIA_LOCALLY, Permission_PUBLISH_MEDIA_GLOBALLY, Permission_MODERATE_MEDIA, Permission_READ_PERSONAL_MESSAGES, Permission_READ_ALL_SYSTEM_MESSAGES, Permission_CREATE_AI_PROVIDERS, Permission_SYNC_EVENTS_FROM_ICS, Permission_SYNC_POSTS_FROM_RSS, Permission_SYNC_POSTS_FROM_ATOM, Permission_SYNC_EVENTS_TO_FACEBOOK, Permission_SYNC_POSTS_TO_FACEBOOK, Permission_SYNC_EVENTS_TO_INSTAGRAM, Permission_SYNC_POSTS_TO_INSTAGRAM, Permission_SYNC_EVENTS_TO_MASTODON, Permission_SYNC_POSTS_TO_MASTODON, Permission_SYNC_EVENTS_TO_BLUESKY, Permission_SYNC_POSTS_TO_BLUESKY, Permission_SYNC_EVENTS_TO_X_TWITTER, Permission_SYNC_POSTS_TO_X_TWITTER, Permission_SYNC_EVENTS_TO_THREADS, Permission_SYNC_POSTS_TO_THREADS, Permission_BUSINESS, Permission_RUN_BOTS, Permission_ADMIN, Permission_VIEW_PRIVATE_CONTACT_METHODS, Permission_EDIT_CLUSTER_SETTINGS, Permission_EDIT_SERVER_MEDIA_ALLOCATION, Permission_VIEW_SERVER_LOGS}"
  by (auto intro: permission.exhaust)

interpretation permission_codec: enum_codec permission_table Permission_UNRECOGNIZED
  by unfold_locales
    (simp_all add: permission_table_def UNIV_permission)

subsection \<open>PostListingType (posts.ts)\<close>

datatype post_listing_type =
    PostListingType_ALL_ACCESSIBLE_POSTS
  | PostListingType_FOLLOWING_POSTS
  | PostListingType_MY_GROUPS_POSTS
  | PostListingType_DIRECT_POSTS
  | PostListingType_POSTS_PENDING_MODERATION
  | PostListingType_TEXT_SEARCH
  | PostListingType_RECENTLY_POPULAR_POSTS
  | PostListingType_GROUP_POSTS
  | PostListingType_GROUP_POSTS_PENDING_MODERATION
  | PostListingType_UNRECOGNIZED

definition postListingType_table :: "(post_listing_type \<times> int \<times> string) list" where
  "postListingType_table =
    [(PostListingType_ALL_ACCESSIBLE_POSTS, 0, ''ALL_ACCESSIBLE_POSTS''),
     (PostListingType_FOLLOWING_POSTS, 1, ''FOLLOWING_POSTS''),
     (PostListingType_MY_GROUPS_POSTS, 2, ''MY_GROUPS_POSTS''),
     (PostListingType_DIRECT_POSTS, 3, ''DIRECT_POSTS''),
     (PostListingType_POSTS_PENDING_MODERATION, 4, ''POSTS_PENDING_MODERATION''),
     (PostListingType_TEXT_SEARCH, 5, ''TEXT_SEARCH''),
     (PostListingType_RECENTLY_POPULAR_POSTS, 6, ''RECENTLY_POPULAR_POSTS''),
     (PostListingType_GROUP_POSTS, 10, ''GROUP_POSTS''),
     (PostListingType_GROUP_POSTS_PENDING_MODERATION, 11, ''GROUP_POSTS_PENDING_MODERATION'')]"

definition postListingTypeFromJSON :: "json_scalar \<Rightarrow> post_listing_type" where
  "postListingTypeFromJSON = enum_fromJSON postListingType_table PostListingType_UNRECOGNIZED"

definition postListingTypeToJSON :: "post_listing_type \<Rightarrow> string" where
  "postListingTypeToJSON = enum_toJSON postListingType_table"

lemma UNIV_post_listing_type:
  "UNIV = {PostListingType_UNRECOGNIZED, PostListingType_ALL_ACCESSIBLE_POSTS, PostListingType_FOLLOWING_POSTS, PostListingType_MY_GROUPS_POSTS, PostListingType_DIRECT_POSTS, PostListingType_POSTS_PENDING_MODERATION, PostListingType_TEXT_SEARCH, PostListingType_RECENTLY_POPULAR_POSTS, PostListingType_GROUP_POSTS, PostListingType_GROUP_POSTS_PENDING_MODERATION}"
  by (auto intro: post_listing_type.exhaust)

interpretation post_listing_type_codec: enum_codec postListingType_table PostListingType_UNRECOGNIZED
  by unfold_locales
    (simp_all add: postListingType_table_def UNIV_post_listing_type)

subsection \<open>EventListingType (events.ts)\<close>

datatype event_listing_type =
    EventListingType_ALL_ACCESSIBLE_EVENTS
  | EventListingType_FOLLOWING_EVENTS
  | EventListingType_MY_GROUPS_EVENTS
  | EventListingType_DIRECT_EVENTS
  | EventListingType_EVENTS_PENDING_MODERATION
  | EventListingType_EVENT_TEXT_SEARCH
  | EventListingType_GROUP_EVENTS
  | EventListingType_GROUP_EVENTS_PENDING_MODERATION
  | EventListingType_NEWLY_ADDED_EVENTS
  | EventListingType_UNRECOGNIZED

definition eventListingType_table :: "(event_listing_type \<times> int \<times> string) list" where
  "eventListingType_table =
    [(EventListingType_ALL_ACCESSIBLE_EVENTS, 0, ''ALL_ACCESSIBLE_EVENTS''),
     (EventListingType_FOLLOWING_EVENTS, 1, ''FOLLOWING_EVENTS''),
     (EventListingType_MY_GROUPS_EVENTS, 2, ''MY_GROUPS_EVENTS''),
     (EventListingType_DIRECT_EVENTS, 3, ''DIRECT_EVENTS''),
     (EventListingType_EVENTS_PENDING_MODERATION, 4, ''EVENTS_PENDING_MODERATION''),
     (EventListingType_EVENT_TEXT_SEARCH, 5, ''EVENT_TEXT_SEARCH''),
     (EventListingType_GROUP_EVENTS, 10, ''GROUP_EVENTS''),
     (EventListingType_GROUP_EVENTS_PENDING_MODERATION, 11, ''GROUP_EVENTS_PENDING_MODERATION''),
     (EventListingType_NEWLY_ADDED_EVENTS, 20, ''NEWLY_ADDED_EVENTS'')]"

definition eventListingTypeFromJSON :: "json_scalar \<Rightarrow> event_listing_type" where
  "eventListingTypeFromJSON = enum_fromJSON eventListingType_table EventListingType_UNRECOGNIZED"

definition eventListingTypeToJSON :: "event_listing_type \<Rightarrow> string" where
  "eventListingTypeToJSON = enum_toJSON eventListingType_table"

lemma UNIV_event_listing_type:
  "UNIV = {EventListingType_UNRECOGNIZED, EventListingType_ALL_ACCESSIBLE_EVENTS, EventListingType_FOLLOWING_EVENTS, EventListingType_MY_GROUPS_EVENTS, EventListingType_DIRECT_EVENTS, EventListingType_EVENTS_PENDING_MODERATION, EventListingType_EVENT_TEXT_SEARCH, EventListingType_GROUP_EVENTS, EventListingType_GROUP_EVENTS_PENDING_MODERATION, EventListingType_NEWLY_ADDED_EVENTS}"
  by (auto intro: event_listing_type.exhaust)

interpretation event_listing_type_codec: enum_codec eventListingType_table EventListingType_UNRECOGNIZED
  by unfold_locales
    (simp_all add: eventListingType_table_def UNIV_event_listing_type)

subsection \<open>GroupListingType (groups.ts)\<close>

datatype group_listing_type =
    GroupListingType_ALL_GROUPS
  | GroupListingType_MY_GROUPS
  | GroupListingType_REQUESTED_GROUPS
  | GroupListingType_INVITED_GROUPS
  | GroupListingType_UNRECOGNIZED

definition groupListingType_table :: "(group_listing_type \<times> int \<times> string) list" where
  "groupListingType_table =
    [(GroupListingType_ALL_GROUPS, 0, ''ALL_GROUPS''),
     (GroupListingType_MY_GROUPS, 1, ''MY_GROUPS''),
     (GroupListingType_REQUESTED_GROUPS, 2, ''REQUESTED_GROUPS''),
     (GroupListingType_INVITED_GROUPS, 3, ''INVITED_GROUPS'')]"

definition groupListingTypeFromJSON :: "json_scalar \<Rightarrow> group_listing_type" where
  "groupListingTypeFromJSON = enum_fromJSON groupListingType_table GroupListingType_UNRECOGNIZED"

definition groupListingTypeToJSON :: "group_listing_type \<Rightarrow> string" where
  "groupListingTypeToJSON = enum_toJSON groupListingType_table"

lemma UNIV_group_listing_type:
  "UNIV = {GroupListingType_UNRECOGNIZED, GroupListingType_ALL_GROUPS, GroupListingType_MY_GROUPS, GroupListingType_REQUESTED_GROUPS, GroupListingType_INVITED_GROUPS}"
  by (auto intro: group_listing_type.exhaust)

interpretation group_listing_type_codec: enum_codec groupListingType_table GroupListingType_UNRECOGNIZED
  by unfold_locales
    (simp_all add: groupListingType_table_def UNIV_group_listing_type)

subsection \<open>UserListingType (users.ts)\<close>

datatype user_listing_type =
    UserListingType_EVERYONE
  | UserListingType_FOLLOWING
  | UserListingType_FRIENDS
  | UserListingType_FOLLOWERS
  | UserListingType_FOLLOW_REQUESTS
  | UserListingType_USERS_TEXT_SEARCH
  | UserListingType_FOLLOWERS_TEXT_SEARCH
  | UserListingType_FOLLOWING_TEXT_SEARCH
  | UserListingType_FRIENDS_TEXT_SEARCH
  | UserListingType_FOLLOW_REQUESTS_TEXT_SEARCH
  | UserListingType_ADMINS
  | UserListingType_UNRECOGNIZED

definition userListingType_table :: "(user_listing_type \<times> int \<times> string) list" where
  "userListingType_table =
    [(UserListingType_EVERYONE, 0, ''EVERYONE''),
     (UserListingType_FOLLOWING, 1, ''FOLLOWING''),
     (UserListingType_FRIENDS, 2, ''FRIENDS''),
     (UserListingType_FOLLOWERS, 3, ''FOLLOWERS''),
     (UserListingType_FOLLOW_REQUESTS, 4, ''FOLLOW_REQUESTS''),
     (UserListingType_USERS_TEXT_SEARCH, 5, ''USERS_TEXT_SEARCH''),
     (UserListingType_FOLLOWERS_TEXT_SEARCH, 6, ''FOLLOWERS_TEXT_SEARCH''),
     (UserListingType_FOLLOWING_TEXT_SEARCH, 7, ''FOLLOWING_TEXT_SEARCH''),
     (UserListingType_FRIENDS_TEXT_SEARCH, 8, ''FRIENDS_TEXT_SEARCH''),
     (UserListingType_FOLLOW_REQUESTS_TEXT_SEARCH, 9, ''FOLLOW_REQUESTS_TEXT_SEARCH''),
     (UserListingType_ADMINS, 10, ''ADMINS'')]"

definition userListingTypeFromJSON :: "json_scalar \<Rightarrow> user_listing_type" where
  "userListingTypeFromJSON = enum_fromJSON userListingType_table UserListingType_UNRECOGNIZED"

definition userListingTypeToJSON :: "user_listing_type \<Rightarrow> string" where
  "userListingTypeToJSON = enum_toJSON userListingType_table"

lemma UNIV_user_listing_type:
  "UNIV = {UserListingType_UNRECOGNIZED, UserListingType_EVERYONE, UserListingType_FOLLOWING, UserListingType_FRIENDS, UserListingType_FOLLOWERS, UserListingType_FOLLOW_REQUESTS, UserListingType_USERS_TEXT_SEARCH, UserListingType_FOLLOWERS_TEXT_SEARCH, UserListingType_FOLLOWING_TEXT_SEARCH, UserListingType_FRIENDS_TEXT_SEARCH, UserListingType_FOLLOW_REQUESTS_TEXT_SEARCH, UserListingType_ADMINS}"
  by (auto intro: user_listing_type.exhaust)

interpretation user_listing_type_codec: enum_codec userListingType_table UserListingType_UNRECOGNIZED
  by unfold_locales
    (simp_all add: userListingType_table_def UNIV_user_listing_type)

subsection \<open>MediaConversion (media.ts)\<close>

datatype media_conversion =
    MediaConversion_MEDIA_CONVERSION_ORIGINAL
  | MediaConversion_MEDIA_CONVERSION_SMALL
  | MediaConversion_MEDIA_CONVERSION_MEDIUM
  | MediaConversion_MEDIA_CONVERSION_LARGE
  | MediaConversion_VIDEO_PREVIEW_THUMBNAIL_SMALL
  | MediaConversion_VIDEO_PREVIEW_THUMBNAIL_MEDIUM
  | MediaConversion_VIDEO_PREVIEW_THUMBNAIL_LARGE
  | MediaConversion_AUDIO_PREVIEW_THUMBNAIL_SMALL
  | MediaConversion_AUDIO_PREVIEW_THUMBNAIL_MEDIUM
  | MediaConversion_AUDIO_PREVIEW_THUMBNAIL_LARGE
  | MediaConversion_UNLICENSED_PREVIEW_MEDIUM
  | MediaConversion_AUDIO_COVER_ART_SMALL
  | MediaConversion_AUDIO_COVER_ART_MEDIUM
  | MediaConversion_AUDIO_COVER_ART_LARGE
  | MediaConversion_UNRECOGNIZED

definition mediaConversion_table :: "(media_conversion \<times> int \<times> string) list" where
  "mediaConversion_table =
    [(MediaConversion_MEDIA_CONVERSION_ORIGINAL, 0, ''MEDIA_CONVERSION_ORIGINAL''),
     (MediaConversion_MEDIA_CONVERSION_SMALL, 1, ''MEDIA_CONVERSION_SMALL''),
     (MediaConversion_MEDIA_CONVERSION_MEDIUM, 2, ''MEDIA_CONVERSION_MEDIUM''),
     (MediaConversion_MEDIA_CONVERSION_LARGE, 3, ''MEDIA_CONVERSION_LARGE''),
     (MediaConversion_VIDEO_PREVIEW_THUMBNAIL_SMALL, 5, ''VIDEO_PREVIEW_THUMBNAIL_SMALL''),
     (MediaConversion_VIDEO_PREVIEW_THUMBNAIL_MEDIUM, 6, ''VIDEO_PREVIEW_THUMBNAIL_MEDIUM''),
     (MediaConversion_VIDEO_PREVIEW_THUMBNAIL_LARGE, 7, ''VIDEO_PREVIEW_THUMBNAIL_LARGE''),
     (MediaConversion_AUDIO_PREVIEW_THUMBNAIL_SMALL, 10, ''AUDIO_PREVIEW_THUMBNAIL_SMALL''),
     (MediaConversion_AUDIO_PREVIEW_THUMBNAIL_MEDIUM, 11, ''AUDIO_PREVIEW_THUMBNAIL_MEDIUM''),
     (MediaConversion_AUDIO_PREVIEW_THUMBNAIL_LARGE, 12, ''AUDIO_PREVIEW_THUMBNAIL_LARGE''),
     (MediaConversion_UNLICENSED_PREVIEW_MEDIUM, 13, ''UNLICENSED_PREVIEW_MEDIUM''),
     (MediaConversion_AUDIO_COVER_ART_SMALL, 15, ''AUDIO_COVER_ART_SMALL''),
     (MediaConversion_AUDIO_COVER_ART_MEDIUM, 16, ''AUDIO_COVER_ART_MEDIUM''),
     (MediaConversion_AUDIO_COVER_ART_LARGE, 17, ''AUDIO_COVER_ART_LARGE'')]"

definition mediaConversionFromJSON :: "json_scalar \<Rightarrow> media_conversion" where
  "mediaConversionFromJSON = enum_fromJSON mediaConversion_table MediaConversion_UNRECOGNIZED"

definition mediaConversionToJSON :: "media_conversion \<Rightarrow> string" where
  "mediaConversionToJSON = enum_toJSON mediaConversion_table"

lemma UNIV_media_conversion:
  "UNIV = {MediaConversion_UNRECOGNIZED, MediaConversion_MEDIA_CONVERSION_ORIGINAL, MediaConversion_MEDIA_CONVERSION_SMALL, MediaConversion_MEDIA_CONVERSION_MEDIUM, MediaConversion_MEDIA_CONVERSION_LARGE, MediaConversion_VIDEO_PREVIEW_THUMBNAIL_SMALL, MediaConversion_VIDEO_PREVIEW_THUMBNAIL_MEDIUM, MediaConversion_VIDEO_PREVIEW_THUMBNAIL_LARGE, MediaConversion_AUDIO_PREVIEW_THUMBNAIL_SMALL, MediaConversion_AUDIO_PREVIEW_THUMBNAIL_MEDIUM, MediaConversion_AUDIO_PREVIEW_THUMBNAIL_LARGE, MediaConversion_UNLICENSED_PREVIEW_MEDIUM, MediaConversion_AUDIO_COVER_ART_SMALL, MediaConversion_AUDIO_COVER_ART_MEDIUM, MediaConversion_AUDIO_COVER_ART_LARGE}"
  by (auto intro: media_conversion.exhaust)

interpretation media_conversion_codec: enum_codec mediaConversion_table MediaConversion_UNRECOGNIZED
  by unfold_locales
    (simp_all add: mediaConversion_table_def UNIV_media_conversion)

end
