(* ===== verification/Api_Types.thy ===== *)
theory Api_Types
  imports Api_Enums
begin

text \<open>
  The protocol messages the client keeps in its store, from packages/api/generated.  Small messages
  are modelled field by field.  Of the large ones (posts, events, users, groups, media, the server
  configuration) every field some store operation reads or writes is a field of its own; the other
  fields travel through the store unread and are kept together as the field \<open>*_rest\<close>.

  Timestamps are the ISO strings the protocol carries, numbers are integers.
\<close>

section \<open>Small messages\<close>

record expirable_token =
  token :: string
  expiresAt :: "string option"

record federated_account =
  fa_host :: string
  fa_userId :: string

record author =
  author_userId :: string
  author_username :: "string option"
  author_realName :: "string option"
  author_permissions :: "permission list"
  author_rest :: string

record follow =
  follow_userId :: string
  follow_targetUserId :: string
  follow_targetUserModeration :: moderation
  follow_createdAt :: "string option"
  follow_updatedAt :: "string option"

record membership =
  m_userId :: string
  m_groupId :: string
  m_permissions :: "permission list"
  m_groupModeration :: moderation
  m_userModeration :: moderation
  m_createdAt :: "string option"
  m_updatedAt :: "string option"

record group_post =
  gp_groupId :: string
  gp_postId :: string
  gp_userId :: string
  gp_groupModeration :: moderation
  gp_createdAt :: "string option"
  gp_sharedBy :: "author option"

record time_filter =
  startsAfter :: "string option"
  endsAfter :: "string option"
  startsBefore :: "string option"
  endsBefore :: "string option"

record federated_server =
  fs_host :: string
  fs_configuredByDefault :: "bool option"
  fs_pinnedByDefault :: "bool option"

text \<open>\<open>aspectRatio\<close> is a decimal number that is only ever handed on, so it is kept as text.\<close>

record media_size =
  ms_conversion :: media_conversion
  ms_sizeBytes :: int
  ms_aspectRatio :: "string option"
  ms_contentType :: string


section \<open>Servers\<close>

record service_version =
  version :: string

record server_configuration =
  sc_frontendHost :: "string option"        \<comment> \<open>\<open>externalCdnConfig?.frontendHost\<close>\<close>
  sc_federatedServers :: "federated_server list option"  \<comment> \<open>\<open>federationInfo?.servers\<close>\<close>
  sc_primaryColor :: "nat option"           \<comment> \<open>\<open>serverInfo?.colors?.primary\<close>\<close>
  sc_navigationColor :: "nat option"        \<comment> \<open>\<open>serverInfo?.colors?.navigation\<close>\<close>
  sc_rest :: string


section \<open>Users, groups, media\<close>

record user =
  u_id :: string
  u_username :: string
  u_permissions :: "permission list"
  u_followerCount :: "int option"
  u_followingCount :: "int option"
  u_currentUserFollow :: "follow option"
  u_targetCurrentUserFollow :: "follow option"
  u_currentGroupMembership :: "membership option"
  u_federatedProfiles :: "federated_account list"
  u_createdAt :: "string option"
  u_rest :: string

record api_member =
  member_user :: "user option"
  member_membership :: "membership option"

record group =
  g_id :: string
  g_name :: string
  g_shortname :: string
  g_memberCount :: int
  g_currentUserMembership :: "membership option"
  g_createdAt :: "string option"
  g_rest :: string

record media =
  media_id :: string
  media_sizes :: "media_size list"
  media_createdAt :: "string option"
  media_rest :: string


section \<open>Posts\<close>

text \<open>A post holds the tree of its replies, so its own fields are a record inside a datatype.\<close>

record post_fields =
  p_id :: string
  p_author :: "author option"
  p_replyToPostId :: "string option"
  p_title :: "string option"
  p_link :: "string option"
  p_content :: "string option"
  p_responseCount :: int
  p_replyCount :: int
  p_visibility :: visibility
  p_createdAt :: "string option"
  p_rest :: string

datatype post = Post (own: post_fields) (replies: "post list")

definition post_id :: "post \<Rightarrow> string" where
  "post_id p = p_id (own p)"

definition set_replies :: "post list \<Rightarrow> post \<Rightarrow> post" where
  "set_replies rs p = Post (own p) rs"

definition update_fields :: "(post_fields \<Rightarrow> post_fields) \<Rightarrow> post \<Rightarrow> post" where
  "update_fields f p = Post (f (own p)) (replies p)"

lemma post_access [simp]:
  "own (set_replies rs p) = own p"
  "replies (set_replies rs p) = rs"
  "own (update_fields f p) = f (own p)"
  "replies (update_fields f p) = replies p"
  "post_id (set_replies rs p) = post_id p"
  "post_id (Post pf rs) = p_id pf"
  by (simp_all add: set_replies_def update_fields_def post_id_def)

text \<open>\<open>Post.fromPartial\<close> fills what it is not given with the defaults of \<open>createBasePost\<close>.\<close>

definition createBasePost :: post_fields where
  "createBasePost =
     \<lparr>p_id = [], p_author = None, p_replyToPostId = None, p_title = None, p_link = None,
      p_content = None, p_responseCount = 0, p_replyCount = 0,
      p_visibility = Visibility_VISIBILITY_UNKNOWN, p_createdAt = None, p_rest = []\<rparr>"

definition bare_post :: "string \<Rightarrow> post list \<Rightarrow> post" where
  "bare_post i rs = Post (createBasePost\<lparr>p_id := i\<rparr>) rs"

lemma bare_post_access [simp]:
  "post_id (bare_post i rs) = i" "replies (bare_post i rs) = rs"
  by (simp_all add: bare_post_def post_id_def)

lemma set_replies_same [simp]: "set_replies (replies p) p = p"
  by (simp add: set_replies_def)


section \<open>Events\<close>

record occasion =
  o_eventId :: string
  o_post :: "post option"
  o_startsAt :: "string option"
  o_endsAt :: "string option"
  o_rest :: string

record event =
  e_post :: "post option"
  e_occasions :: "occasion list"
  e_rest :: string

record rsvps =
  r_data :: string

end
