(* ===== verification/Utils.thy ===== *)
theory Utils
  imports Api_Types
begin

text \<open>
  The pure helpers of packages/app/utils: moderation, visibility and permission checks, the choice of
  a media size, and the ordering of occasions.  The date library is a parameter: \<open>parse\<close> gives the
  instant a timestamp denotes, or \<open>None\<close> for an invalid date, for which every comparison is false.
\<close>

section \<open>Moderation and visibility\<close>

definition passes :: "moderation option \<Rightarrow> bool" where
  "passes moderation \<longleftrightarrow>
     (case moderation of
        None \<Rightarrow> False
      | Some m \<Rightarrow> m \<in> set [Moderation_UNMODERATED, Moderation_APPROVED])"

definition pending :: "moderation option \<Rightarrow> bool" where
  "pending moderation \<longleftrightarrow>
     (case moderation of None \<Rightarrow> False | Some m \<Rightarrow> m \<in> set [Moderation_PENDING])"

definition rejected :: "moderation option \<Rightarrow> bool" where
  "rejected moderation \<longleftrightarrow>
     (case moderation of None \<Rightarrow> False | Some m \<Rightarrow> m \<in> set [Moderation_REJECTED])"

definition publicVisibility :: "visibility option \<Rightarrow> bool" where
  "publicVisibility visibility \<longleftrightarrow>
     (case visibility of
        None \<Rightarrow> False
      | Some v \<Rightarrow> v \<in> set [Visibility_SERVER_PUBLIC, Visibility_GLOBAL_PUBLIC])"

definition publicOrPrivateVisibility :: "visibility option \<Rightarrow> bool" where
  "publicOrPrivateVisibility visibility \<longleftrightarrow>
     (case visibility of
        None \<Rightarrow> False
      | Some v \<Rightarrow>
          v \<in> set [Visibility_SERVER_PUBLIC, Visibility_GLOBAL_PUBLIC, Visibility_PRIVATE])"

lemma passes_simps [simp]:
  "passes None = False"
  "passes (Some m) = (m = Moderation_UNMODERATED \<or> m = Moderation_APPROVED)"
  by (simp_all add: passes_def)

lemma moderation_verdicts_disjoint:
  "\<not> (passes m \<and> pending m)" "\<not> (passes m \<and> rejected m)" "\<not> (pending m \<and> rejected m)"
  by (auto simp: passes_def pending_def rejected_def split: option.splits)


section \<open>Permissions\<close>

text \<open>\<open>HasPermissions\<close> is an object with an optional list, a bare list, or \<open>undefined\<close>.\<close>

datatype has_permissions =
    ContainsPermissions "permission list option"
  | PermissionList "permission list"
  | NoPermissions

definition has_permission_list :: "permission list option \<Rightarrow> permission \<Rightarrow> bool" where
  "has_permission_list ps permission \<longleftrightarrow>
     (case ps of
        None \<Rightarrow> False
      | Some l \<Rightarrow>
          permission \<in> set l
          \<or> (permission \<notin> set [Permission_BUSINESS, Permission_RUN_BOTS, Permission_UNRECOGNIZED,
                               Permission_VIEW_PRIVATE_CONTACT_METHODS]
             \<and> Permission_ADMIN \<in> set l))"

definition has_admin_list :: "permission list option \<Rightarrow> bool" where
  "has_admin_list ps \<longleftrightarrow> (case ps of None \<Rightarrow> False | Some l \<Rightarrow> Permission_ADMIN \<in> set l)"

definition hasPermission :: "has_permissions \<Rightarrow> permission \<Rightarrow> bool" where
  "hasPermission item permission \<longleftrightarrow>
     (case item of
        NoPermissions \<Rightarrow> False
      | PermissionList l \<Rightarrow> has_admin_list (Some l)
      | ContainsPermissions ps \<Rightarrow> has_permission_list ps permission)"

definition hasAdminPermission :: "has_permissions \<Rightarrow> bool" where
  "hasAdminPermission item \<longleftrightarrow>
     (case item of
        NoPermissions \<Rightarrow> False
      | PermissionList l \<Rightarrow> has_admin_list (Some l)
      | ContainsPermissions ps \<Rightarrow> has_admin_list ps)"

text \<open>The permissions an administrator does not hold implicitly.\<close>

definition admin_exempt :: "permission \<Rightarrow> bool" where
  "admin_exempt p \<longleftrightarrow>
     p \<in> {Permission_BUSINESS, Permission_RUN_BOTS, Permission_UNRECOGNIZED,
          Permission_VIEW_PRIVATE_CONTACT_METHODS}"

text \<open>
  \<open>hasPermission\<close> on an object grants a permission exactly when it is listed, or when the
  administrator permission is listed and implies it; more permissions never revoke one.  On a bare
  list it answers the administrator question whatever permission is asked for.
\<close>

lemma hasPermission_container:
  "hasPermission (ContainsPermissions (Some l)) p \<longleftrightarrow>
     p \<in> set l \<or> (\<not> admin_exempt p \<and> Permission_ADMIN \<in> set l)"
  by (auto simp: hasPermission_def has_permission_list_def admin_exempt_def)

lemma hasPermission_mono:
  "set l \<subseteq> set l' \<Longrightarrow> hasPermission (ContainsPermissions (Some l)) p \<Longrightarrow>
     hasPermission (ContainsPermissions (Some l')) p"
  by (auto simp: hasPermission_container)

lemma hasPermission_list: "hasPermission (PermissionList l) p \<longleftrightarrow> Permission_ADMIN \<in> set l"
  by (simp add: hasPermission_def has_admin_list_def)


section \<open>Media sizes\<close>

text \<open>\<open>MediaRef\<close> is a media item or a reference to one; both carry \<open>sizes\<close>.\<close>

definition getMediaSize :: "media_size list \<Rightarrow> media_conversion \<Rightarrow> media_size option" where
  "getMediaSize sizes conversion = find (\<lambda>size. ms_conversion size = conversion) sizes"

definition getOriginalSize :: "media_size list \<Rightarrow> media_size option" where
  "getOriginalSize sizes = getMediaSize sizes MediaConversion_MEDIA_CONVERSION_ORIGINAL"

definition getOriginalContentType :: "media_size list \<Rightarrow> string" where
  "getOriginalContentType sizes =
     nullish (map_option ms_contentType (getOriginalSize sizes)) []"

definition js_startsWith :: "string \<Rightarrow> string \<Rightarrow> bool" where
  "js_startsWith s p \<longleftrightarrow> take (length p) s = p"

definition isImageMedia :: "media_size list \<Rightarrow> bool" where
  "isImageMedia sizes \<longleftrightarrow> js_startsWith (getOriginalContentType sizes) ''image/''"

definition getOriginalAspectRatio :: "media_size list \<Rightarrow> string option" where
  "getOriginalAspectRatio sizes = Option.bind (getOriginalSize sizes) ms_aspectRatio"


section \<open>Time\<close>

text \<open>\<open>moment(v)\<close> is the current time for \<open>undefined\<close>.\<close>

definition moment_of :: "(string \<Rightarrow> int option) \<Rightarrow> int \<Rightarrow> string option \<Rightarrow> int option" where
  "moment_of parse now v = (case v of None \<Rightarrow> Some now | Some s \<Rightarrow> parse s)"

definition isBefore :: "int option \<Rightarrow> int option \<Rightarrow> bool" where
  "isBefore a b \<longleftrightarrow> (case (a, b) of (Some x, Some y) \<Rightarrow> x < y | _ \<Rightarrow> False)"

definition isAfter :: "int option \<Rightarrow> int option \<Rightarrow> bool" where
  "isAfter a b \<longleftrightarrow> (case (a, b) of (Some x, Some y) \<Rightarrow> y < x | _ \<Rightarrow> False)"

definition isNotPastOccasion :: "(string \<Rightarrow> int option) \<Rightarrow> int \<Rightarrow> occasion \<Rightarrow> bool" where
  "isNotPastOccasion parse now i \<longleftrightarrow> isAfter (moment_of parse now (o_endsAt i)) (Some now)"

definition isPastOccasion :: "(string \<Rightarrow> int option) \<Rightarrow> int \<Rightarrow> occasion \<Rightarrow> bool" where
  "isPastOccasion parse now i \<longleftrightarrow> \<not> isNotPastOccasion parse now i"

definition timeSort :: "(string \<Rightarrow> int option) \<Rightarrow> int \<Rightarrow> string option \<Rightarrow> string option \<Rightarrow> int" where
  "timeSort parse now a b =
     (if isBefore (moment_of parse now a) (moment_of parse now b) then -1
      else if isAfter (moment_of parse now a) (moment_of parse now b) then 1 else 0)"

definition occasionTimeSort ::
  "(string \<Rightarrow> int option) \<Rightarrow> int \<Rightarrow> ('z occasion_scheme) \<Rightarrow> 'z occasion_scheme \<Rightarrow> int" where
  "occasionTimeSort parse now a b =
     (let startSort = timeSort parse now (o_startsAt a) (o_startsAt b)
      in if startSort \<noteq> 0 then startSort else timeSort parse now (o_endsAt a) (o_endsAt b))"

lemma timeSort_swap: "timeSort parse now b a = - timeSort parse now a b"
  by (auto simp: timeSort_def isBefore_def isAfter_def split: option.splits)

lemma timeSort_values:
  "timeSort parse now a b = 0 \<or> timeSort parse now a b = 1 \<or> timeSort parse now a b = -1"
  by (simp add: timeSort_def)

text \<open>On valid dates the comparator is the order of the instants.\<close>

lemma timeSort_valid:
  assumes "moment_of parse now a = Some x" "moment_of parse now b = Some y"
  shows "timeSort parse now a b = sgn (x - y)"
  using assms by (auto simp: timeSort_def isBefore_def isAfter_def sgn_if)

lemma occasionTimeSort_swap:
  "occasionTimeSort parse now b a = - occasionTimeSort parse now a b"
  by (simp add: occasionTimeSort_def Let_def timeSort_swap [of parse now "o_startsAt b"]
      timeSort_swap [of parse now "o_endsAt b"])

definition valid_times :: "(string \<Rightarrow> int option) \<Rightarrow> int \<Rightarrow> 'z occasion_scheme \<Rightarrow> bool" where
  "valid_times parse now i \<longleftrightarrow>
     moment_of parse now (o_startsAt i) \<noteq> None \<and> moment_of parse now (o_endsAt i) \<noteq> None"

lemma occasionTimeSort_lex:
  assumes "moment_of parse now (o_startsAt a) = Some sa" "moment_of parse now (o_startsAt b) = Some sb"
    and "moment_of parse now (o_endsAt a) = Some ea" "moment_of parse now (o_endsAt b) = Some eb"
  shows "occasionTimeSort parse now a b \<le> 0 \<longleftrightarrow> sa < sb \<or> (sa = sb \<and> ea \<le> eb)"
  using assms by (auto simp: occasionTimeSort_def Let_def timeSort_valid sgn_if)

text \<open>The comparator is transitive on occasions with valid dates, so sorting with it is meaningful.\<close>

lemma occasionTimeSort_trans:
  assumes "valid_times parse now a" "valid_times parse now b" "valid_times parse now c"
    and "occasionTimeSort parse now a b \<le> 0" "occasionTimeSort parse now b c \<le> 0"
  shows "occasionTimeSort parse now a c \<le> 0"
proof -
  obtain sa ea sb eb sc ec where
    a: "moment_of parse now (o_startsAt a) = Some sa" "moment_of parse now (o_endsAt a) = Some ea" and
    b: "moment_of parse now (o_startsAt b) = Some sb" "moment_of parse now (o_endsAt b) = Some eb" and
    c: "moment_of parse now (o_startsAt c) = Some sc" "moment_of parse now (o_endsAt c) = Some ec"
    using assms(1-3) by (auto simp: valid_times_def)
  show ?thesis
    using assms(4,5)
    unfolding occasionTimeSort_lex [OF a(1) b(1) a(2) b(2)] occasionTimeSort_lex [OF b(1) c(1) b(2) c(2)]
      occasionTimeSort_lex [OF a(1) c(1) a(2) c(2)]
    by auto
qed

end
