(* ===== verification/Store_Types.thy ===== *)
theory Store_Types
  imports Api_Types
begin

text \<open>
  The types of store/types.ts, the identifiers of servers and accounts (servers_state.ts,
  accounts_state.ts), and the effects a reducer leaves behind: the callbacks it hands to
  \<open>setTimeout\<close> and the calls it makes into the credential and client caches.
\<close>

section \<open>Servers and accounts\<close>

record rellm_server =
  host :: string
  secure :: bool
  serviceVersion :: "service_version option"
  serverConfiguration :: "server_configuration option"
  lastConnectionFailed :: "bool option"

record rellm_account =
  acct_user :: user
  refreshToken :: expirable_token
  accessToken :: expirable_token
  acct_server :: rellm_server
  lastSynced :: "int option"
  needsReauthentication :: "bool option"
  lastSyncFailed :: "bool option"
  pushSubscription :: "string option"

record account_or_server =
  aos_account :: "rellm_account option"
  aos_server :: "rellm_server option"


section \<open>Identifiers\<close>

definition serverID :: "rellm_server \<Rightarrow> string" where
  "serverID server = ''http'' @ (if secure server then ''s'' else []) @ '':'' @ host server"

definition optServerID :: "rellm_server option \<Rightarrow> string option" where
  "optServerID server = map_option serverID server"

text \<open>\<open>serverId.split(':')[1]!\<close> is \<open>undefined\<close> for a string without a colon.\<close>

definition serverIDHost :: "string \<Rightarrow> string option" where
  "serverIDHost serverId = js_at (js_split (CHR '':'') serverId) 1"

definition serverUrl :: "rellm_server \<Rightarrow> string" where
  "serverUrl server = ''http'' @ (if secure server then ''s'' else []) @ ''://'' @ host server"

definition frontendServerUrl :: "rellm_server \<Rightarrow> string" where
  "frontendServerUrl server =
     (let h = nullish (Option.bind (serverConfiguration server) sc_frontendHost) (host server)
      in ''http'' @ (if secure server then ''s'' else []) @ ''://'' @ h)"

definition accountID :: "rellm_account option \<Rightarrow> string option" where
  "accountID account =
     (case account of
        None \<Rightarrow> None
      | Some a \<Rightarrow> Some (serverID (acct_server a) @ ''-'' @ u_id (acct_user a)))"

definition account_key :: "rellm_account \<Rightarrow> string" where
  "account_key a = serverID (acct_server a) @ ''-'' @ u_id (acct_user a)"

definition accountIDHost :: "string \<Rightarrow> string option" where
  "accountIDHost accountId = js_at (js_split (CHR '':'') (split_head (CHR ''-'') accountId)) 1"

definition accountOrServerId :: "account_or_server \<Rightarrow> string" where
  "accountOrServerId aos =
     (case aos_account aos of
        Some a \<Rightarrow> ''account-'' @ account_key a
      | None \<Rightarrow>
         (case aos_server aos of
            Some s \<Rightarrow> ''server-'' @ serverID s
          | None \<Rightarrow> ''undefined''))"

lemma accountID_simps [simp]:
  "accountID None = None" "accountID (Some a) = Some (account_key a)"
  by (simp_all add: accountID_def account_key_def)

lemma serverID_split:
  "js_split (CHR '':'') (serverID s) =
     (''http'' @ (if secure s then ''s'' else [])) # js_split (CHR '':'') (host s)"
proof -
  have "CHR '':'' \<notin> set (''http'' @ (if secure s then ''s'' else []))"
    by simp
  from js_split_append [OF this] show ?thesis
    by (simp add: serverID_def)
qed

lemma serverIDHost_serverID [id_simps]:
  "serverIDHost (serverID s) = Some (split_head (CHR '':'') (host s))"
  by (simp add: serverIDHost_def serverID_split js_at_0_hd split_head_def)

lemma accountIDHost_account_key [id_simps]:
  "accountIDHost (account_key a) =
     Some (split_head (CHR '':'') (split_head (CHR ''-'') (host (acct_server a))))"
proof -
  define pre where "pre = ''http'' @ (if secure (acct_server a) then ''s'' else []) @ '':''"
  define h where "h = host (acct_server a)"
  have pre_free: "CHR ''-'' \<notin> set pre"
    by (simp add: pre_def)
  have "account_key a = pre @ (h @ CHR ''-'' # u_id (acct_user a))"
    by (simp add: account_key_def serverID_def pre_def h_def)
  then have head: "split_head (CHR ''-'') (account_key a) = pre @ split_head (CHR ''-'') h"
    using pre_free by (simp add: split_head_prefix split_head_before del: append_assoc)
  have free: "CHR '':'' \<notin> set (''http'' @ (if secure (acct_server a) then ''s'' else []))"
    by simp
  have parts: "js_split (CHR '':'') (pre @ split_head (CHR ''-'') h) =
     (''http'' @ (if secure (acct_server a) then ''s'' else [])) # js_split (CHR '':'') (split_head (CHR ''-'') h)"
    using js_split_append [OF free] by (simp add: pre_def)
  have "accountIDHost (account_key a) = js_at (js_split (CHR '':'') (pre @ split_head (CHR ''-'') h)) 1"
    by (simp only: accountIDHost_def head)
  also have "\<dots> = Some (split_head (CHR '':'') (split_head (CHR ''-'') h))"
    by (simp add: parts js_at_0_hd split_head_def [of "CHR '':''"])
  finally show ?thesis
    by (simp add: h_def)
qed


section \<open>Pinned servers\<close>

record pinned_server =
  ps_serverId :: string
  ps_accountId :: "string option"
  ps_pinned :: bool


section \<open>Effects of a reducer\<close>

text \<open>
  A reducer may schedule work with \<open>setTimeout\<close>.  Each kind of callback the store schedules is a
  \<open>task\<close>; what it does when it fires is modelled with the store, because it reads the store then.
\<close>

datatype task =
    T_pinServer pinned_server
  | T_ensureCreationServerPinned string
  | T_syncExcludeCurrentServer pinned_server
  | T_clearServerAlerts
  | T_clearAccountAlerts
  | T_resetForSelectedAccount "rellm_account option"
  | T_verifySelectedAccount rellm_account
  | T_verifyPinnedAccount rellm_account
  | T_unpinCurrentServerAccount
  | T_resetCredentialedData "string option"
  | T_upsertAccount rellm_account
  | T_upsertServer rellm_server
  | T_upsertUserData "rellm_server option" "user list"
  | T_notifyUserDeleted "rellm_server option" user
  | T_resetUserPages "string option"
  | T_markGroupVisit group string
  | T_reloadGroupPages string

text \<open>
  \<open>After ms t\<close> is \<open>setTimeout(t, ms)\<close> and \<open>NextFrame t\<close> is \<open>requestAnimationFrame(t)\<close>; the \<open>Call\<close> effects are the calls a reducer makes while it runs.
\<close>

datatype effect =
    After nat task
  | NextFrame task
  | Call_resetCredentialedData "string option"
  | Call_resetAccessTokens
  | Call_deleteClient rellm_server

end
