(* ===== verification/Federation.thy ===== *)
theory Federation
  imports Store_Types
begin

text \<open>
  store/federation.ts: values keyed by server host (\<open>Federated\<close>), entities stamped with the host they
  came from (\<open>FederatedEntity\<close>), and the identifiers \<open>id@host\<close> under which the entity adapters file
  them.  The locale \<open>federated_store\<close> is the interface the slices rely on.
\<close>

section \<open>Which host a value belongs to\<close>

text \<open>
  \<open>HasServer\<close> is the union type of the source.  An action is represented by the server of its
  argument (\<open>action.meta.arg.server\<close>).
\<close>

datatype has_server =
    FederatedAction "rellm_server option"
  | FromServer rellm_server
  | FromAccountOrServer account_or_server
  | FromHost string
  | NoServer

definition federationKey :: "rellm_server option \<Rightarrow> string" where
  "federationKey server = (case server of None \<Rightarrow> ''default'' | Some s \<Rightarrow> host s)"

text \<open>
  The third branch of the source casts the \<open>AccountOrServer\<close> itself to a server and reads its \<open>host\<close>,
  a field it does not have; the fourth treats whatever is left, including an \<open>AccountOrServer\<close>
  without a \<open>server\<close> key, as a server.  In both cases the key is \<open>''default''\<close>.
\<close>

definition serverHost :: "has_server \<Rightarrow> string" where
  "serverHost server =
     (case server of
        FromHost h \<Rightarrow> h
      | FederatedAction s \<Rightarrow> federationKey s
      | FromAccountOrServer aos \<Rightarrow> ''default''
      | FromServer s \<Rightarrow> federationKey (Some s)
      | NoServer \<Rightarrow> federationKey None)"

lemma serverHost_simps [simp, id_simps]:
  "serverHost (FromHost h) = h"
  "serverHost (FederatedAction (Some s)) = host s"
  "serverHost (FederatedAction None) = ''default''"
  "serverHost (FromServer s) = host s"
  "serverHost (FromAccountOrServer aos) = ''default''"
  "serverHost NoServer = ''default''"
  by (simp_all add: serverHost_def federationKey_def)


section \<open>Federated identifiers\<close>

definition mk_federated_id :: "string \<Rightarrow> string \<Rightarrow> string" where
  "mk_federated_id i h = i @ ''@'' @ h"

definition defederateId :: "string \<Rightarrow> string" where
  "defederateId i = split_head (CHR ''@'') i"

definition federateId :: "string \<Rightarrow> has_server \<Rightarrow> string" where
  "federateId i server = mk_federated_id (defederateId i) (serverHost server)"

record federated_id_pair =
  fip_serverId :: string
  fip_federatedID :: string

definition federatedIDPair :: "string \<Rightarrow> has_server \<Rightarrow> federated_id_pair" where
  "federatedIDPair serverId server =
     \<lparr>fip_serverId = serverId, fip_federatedID = federateId serverId server\<rparr>"

text \<open>An empty \<open>serverId\<close> is falsy as well.\<close>

definition optionalFederatedIDPair :: "string option \<Rightarrow> has_server \<Rightarrow> federated_id_pair option" where
  "optionalFederatedIDPair serverId server =
     (case serverId of
        None \<Rightarrow> None
      | Some i \<Rightarrow> if i = [] then None else Some (federatedIDPair i server))"

record federated_id_parsing =
  parsed_id :: string
  parsed_serverHost :: string

definition parseFederatedIdOr :: "string \<Rightarrow> string option \<Rightarrow> federated_id_parsing" where
  "parseFederatedIdOr i defaultServerHost =
     (let parts = js_split (CHR ''@'') i
      in \<lparr>parsed_id = hd parts,
          parsed_serverHost = nullish (js_at parts 1) (nullish defaultServerHost ''default'')\<rparr>)"

abbreviation parseFederatedId :: "string \<Rightarrow> federated_id_parsing" where
  "parseFederatedId i \<equiv> parseFederatedIdOr i None"

definition toFederatedId :: "federated_id_parsing \<Rightarrow> string" where
  "toFederatedId p = mk_federated_id (parsed_id p) (parsed_serverHost p)"

text \<open>The test every \<open>resetX\<close> reducer applies to its keys.\<close>

definition id_on_host :: "string \<Rightarrow> string \<Rightarrow> bool" where
  "id_on_host h i \<longleftrightarrow> parsed_serverHost (parseFederatedId i) = h"

lemma parse_mk_federated_id [simp, id_simps]:
  assumes "CHR ''@'' \<notin> set i"
  shows "parseFederatedIdOr (mk_federated_id i h) d =
    \<lparr>parsed_id = i, parsed_serverHost = split_head (CHR ''@'') h\<rparr>"
  using js_split_append [OF assms, of h]
  by (simp add: parseFederatedIdOr_def mk_federated_id_def js_at_0_hd split_head_def)

lemma mk_federated_id_eq:
  assumes "CHR ''@'' \<notin> set i" "CHR ''@'' \<notin> set j"
  shows "mk_federated_id i h = mk_federated_id j g \<longleftrightarrow> i = j \<and> h = g"
proof
  assume eq: "mk_federated_id i h = mk_federated_id j g"
  have "js_split (CHR ''@'') (mk_federated_id i h) = i # js_split (CHR ''@'') h"
    "js_split (CHR ''@'') (mk_federated_id j g) = j # js_split (CHR ''@'') g"
    using js_split_append assms by (simp_all add: mk_federated_id_def)
  with eq have "i = j" by simp
  with eq show "i = j \<and> h = g" by (simp add: mk_federated_id_def)
qed simp

lemma defederateId_mk [simp, id_simps]:
  "CHR ''@'' \<notin> set i \<Longrightarrow> defederateId (mk_federated_id i h) = i"
  by (simp add: defederateId_def mk_federated_id_def)

lemma defederateId_free [simp]: "CHR ''@'' \<notin> set (defederateId i)"
  by (simp add: defederateId_def)

lemma defederateId_plain [simp]: "CHR ''@'' \<notin> set i \<Longrightarrow> defederateId i = i"
  by (simp add: defederateId_def)

lemma defederateId_federateId [simp, id_simps]:
  "defederateId (federateId i s) = defederateId i"
  by (simp add: federateId_def)

lemma federateId_federateId [simp, id_simps]:
  "federateId (federateId i s) t = federateId i t"
  by (simp add: federateId_def)

lemma federateId_eq_iff:
  "federateId i s = federateId j t \<longleftrightarrow>
     defederateId i = defederateId j \<and> serverHost s = serverHost t"
proof
  assume eq: "federateId i s = federateId j t"
  have "defederateId i = defederateId j"
    using arg_cong [OF eq, of defederateId] by simp
  with eq show "defederateId i = defederateId j \<and> serverHost s = serverHost t"
    by (simp add: federateId_def mk_federated_id_def)
qed (simp add: federateId_def)

lemma id_on_host_federateId [simp, id_simps]:
  "id_on_host h (federateId i s) \<longleftrightarrow> split_head (CHR ''@'') (serverHost s) = h"
  by (simp add: id_on_host_def federateId_def)

lemma id_on_host_mk [simp, id_simps]:
  "CHR ''@'' \<notin> set i \<Longrightarrow> id_on_host h (mk_federated_id i h') \<longleftrightarrow> split_head (CHR ''@'') h' = h"
  by (simp add: id_on_host_def)


section \<open>Federated entities\<close>

text \<open>
  \<open>FederatedEntity<T>\<close> is \<open>T & { serverHost: string }\<close>.  The functions that read the identifier of a
  generic entity take the projection \<open>idOf\<close> for \<open>.id\<close>.
\<close>

record 'e federated_entity =
  entity :: 'e
  serverHostOf :: string

definition federatedEntity :: "'e \<Rightarrow> has_server \<Rightarrow> 'e federated_entity" where
  "federatedEntity e server = \<lparr>entity = e, serverHostOf = serverHost server\<rparr>"

definition federatedPayload :: "rellm_server option \<Rightarrow> 'e \<Rightarrow> 'e federated_entity" where
  "federatedPayload actionServer payload = federatedEntity payload (FederatedAction actionServer)"

definition federatedId :: "('e \<Rightarrow> string) \<Rightarrow> ('e, 'z) federated_entity_scheme \<Rightarrow> string" where
  "federatedId idOf e = mk_federated_id (idOf (entity e)) (serverHostOf e)"

definition optFederatedId :: "('e \<Rightarrow> string) \<Rightarrow> 'e federated_entity option \<Rightarrow> string option" where
  "optFederatedId idOf e = map_option (federatedId idOf) e"

definition federatedEntityId :: "('e \<Rightarrow> string) \<Rightarrow> 'e \<Rightarrow> has_server \<Rightarrow> string" where
  "federatedEntityId idOf e server = federatedId idOf (federatedEntity e server)"

definition federatedEntities :: "'e list \<Rightarrow> has_server \<Rightarrow> 'e federated_entity list" where
  "federatedEntities es server = map (\<lambda>e. federatedEntity e server) es"

lemma federatedEntity_access [simp]:
  "entity (federatedEntity e s) = e" "serverHostOf (federatedEntity e s) = serverHost s"
  by (simp_all add: federatedEntity_def)

lemma federatedId_federatedEntity [simp]:
  "federatedId idOf (federatedEntity e s) = mk_federated_id (idOf e) (serverHost s)"
  by (simp add: federatedId_def)

lemma federatedEntityId_eq_federateId:
  "CHR ''@'' \<notin> set (idOf e) \<Longrightarrow> federatedEntityId idOf e s = federateId (idOf e) s"
  by (simp add: federatedEntityId_def federateId_def)


section \<open>Federated values\<close>

record 'v federated =
  fvalues :: "string \<rightharpoonup> 'v"
  defaultValue :: 'v

definition createFederated :: "'v \<Rightarrow> 'v federated" where
  "createFederated d = \<lparr>fvalues = Map.empty, defaultValue = d\<rparr>"

text \<open>
  The copy the source makes of the default value keeps a caller's in-place edits away from it; values
  are immutable here, so the read alone is left.
\<close>

definition getFederated :: "'v federated \<Rightarrow> has_server \<Rightarrow> 'v" where
  "getFederated f server = nullish (fvalues f (serverHost server)) (defaultValue f)"

definition setFederated :: "'v federated \<Rightarrow> has_server \<Rightarrow> 'v \<Rightarrow> 'v federated" where
  "setFederated f server v = f\<lparr>fvalues := (fvalues f)(serverHost server \<mapsto> v)\<rparr>"

text \<open>\<open>delete federated.values[host]\<close>, the statement of the \<open>resetX\<close> reducers.\<close>

definition deleteFederated :: "'v federated \<Rightarrow> string \<Rightarrow> 'v federated" where
  "deleteFederated f h = f\<lparr>fvalues := (fvalues f)(h := None)\<rparr>"

locale federated_store =
  fixes create :: "'v \<Rightarrow> 'f"
    and get :: "'f \<Rightarrow> 's \<Rightarrow> 'v"
    and put :: "'f \<Rightarrow> 's \<Rightarrow> 'v \<Rightarrow> 'f"
    and remove :: "'f \<Rightarrow> string \<Rightarrow> 'f"
    and default :: "'f \<Rightarrow> 'v"
    and key :: "'s \<Rightarrow> string"
  assumes get_create: "get (create d) s = d"
    and default_create: "default (create d) = d"
    and get_put: "get (put f s v) t = (if key t = key s then v else get f t)"
    and default_put: "default (put f s v) = default f"
    and get_remove: "get (remove f h) t = (if key t = h then default f else get f t)"
    and default_remove: "default (remove f h) = default f"
begin

lemma get_put_same: "get (put f s v) s = v"
  by (simp add: get_put)

lemma get_put_other: "key t \<noteq> key s \<Longrightarrow> get (put f s v) t = get f t"
  by (simp add: get_put)

lemma get_put_put: "get (put (put f s v) s w) t = get (put f s w) t"
  by (simp add: get_put)

lemma get_put_commute:
  "key s \<noteq> key s' \<Longrightarrow> get (put (put f s v) s' w) t = get (put (put f s' w) s v) t"
  by (simp add: get_put)

lemma get_remove_put: "get (remove (put f s v) (key s)) t = get (remove f (key s)) t"
  by (simp add: get_remove get_put default_put)

text \<open>Any sequence of writes for other hosts is invisible at a host.\<close>

lemma get_foldl_put_other:
  "\<forall>u \<in> set ups. key (fst u) \<noteq> key t \<Longrightarrow>
     get (foldl (\<lambda>f u. put f (fst u) (snd u)) f ups) t = get f t"
  by (induction ups arbitrary: f) (auto simp: get_put)

text \<open>Writes for one host: the last one is read.\<close>

lemma get_foldl_put_last:
  "ups \<noteq> [] \<Longrightarrow> get (foldl (\<lambda>f v. put f s v) f ups) s = last ups"
  by (induction ups arbitrary: f rule: rev_induct) (auto simp: get_put)

end

interpretation fed: federated_store
  createFederated getFederated setFederated deleteFederated defaultValue serverHost
  by unfold_locales
    (simp_all add: createFederated_def getFederated_def setFederated_def deleteFederated_def)

lemmas federated_simps [simp] =
  fed.get_create fed.default_create fed.get_put fed.default_put fed.get_remove fed.default_remove

end
