(* ===== verification/Movable_List.thy ===== *)
theory Movable_List
  imports Rellm_Prelude
begin

text \<open>
  Three slices keep a list the user reorders by hand: the accounts, the servers and the starred posts.
  The locale \<open>movable_list\<close> is their contract: the upward and the downward move act on the list as
  \<open>move_up\<close> and \<open>move_down\<close>.  Its lemmas say what a move does to the order, that it neither loses nor
  duplicates an element, and that the two moves undo each other.  The slices interpret it.
\<close>

lemma move_up_down_inverse:
  assumes "distinct xs" "x \<in> set xs" "hd xs \<noteq> x"
  shows "move_down (move_up xs x) x = xs"
proof -
  obtain as bs where xs: "xs = as @ x # bs" "x \<notin> set as"
    using assms(2) by (rule split_list_at)
  obtain cs c where as: "as = cs @ [c]"
    using assms(3) xs by (cases as rule: rev_cases) auto
  show ?thesis
    using assms(1) xs(2) move_up_mid [of x cs c bs] move_down_mid [of x cs c bs]
    unfolding xs(1) as by auto
qed

lemma move_down_up_inverse:
  assumes "distinct xs" "x \<in> set xs" "last xs \<noteq> x"
  shows "move_up (move_down xs x) x = xs"
proof -
  obtain as bs where xs: "xs = as @ x # bs" "x \<notin> set as"
    using assms(2) by (rule split_list_at)
  obtain b cs where bs: "bs = b # cs"
    using assms(3) xs by (cases bs) auto
  show ?thesis
    using assms(1) xs(2) move_down_mid [of x as b cs] move_up_mid [of x as b cs]
    unfolding xs(1) bs by auto
qed

lemma move_up_swaps:
  "distinct (as @ a # x # bs) \<Longrightarrow> move_up (as @ a # x # bs) x = as @ x # a # bs"
  by (rule move_up_mid) auto

lemma move_down_swaps:
  "distinct (as @ x # b # bs) \<Longrightarrow> move_down (as @ x # b # bs) x = as @ b # x # bs"
  by (rule move_down_mid) auto

locale movable_list =
  fixes order :: "'s \<Rightarrow> string list"
    and up :: "string \<Rightarrow> 's \<Rightarrow> 's"
    and down :: "string \<Rightarrow> 's \<Rightarrow> 's"
  assumes order_up: "order (up x s) = move_up (order s) x"
    and order_down: "order (down x s) = move_down (order s) x"
begin

lemma up_keeps:
  "distinct (order s) \<Longrightarrow> set (order (up x s)) = set (order s) \<and> distinct (order (up x s))"
  by (simp add: order_up mset_move_up)

lemma down_keeps:
  "distinct (order s) \<Longrightarrow> set (order (down x s)) = set (order s) \<and> distinct (order (down x s))"
  by (simp add: order_down mset_move_down)

lemma up_swaps:
  "order s = as @ a # x # bs \<Longrightarrow> distinct (order s) \<Longrightarrow> order (up x s) = as @ x # a # bs"
  by (simp add: order_up move_up_mid)

lemma down_swaps:
  "order s = as @ x # b # bs \<Longrightarrow> distinct (order s) \<Longrightarrow> order (down x s) = as @ b # x # bs"
  by (simp add: order_down move_down_mid)

lemma up_then_down:
  "distinct (order s) \<Longrightarrow> x \<in> set (order s) \<Longrightarrow> hd (order s) \<noteq> x \<Longrightarrow>
     order (down x (up x s)) = order s"
  by (simp add: order_up order_down move_up_down_inverse)

lemma down_then_up:
  "distinct (order s) \<Longrightarrow> x \<in> set (order s) \<Longrightarrow> last (order s) \<noteq> x \<Longrightarrow>
     order (up x (down x s)) = order s"
  by (simp add: order_up order_down move_down_up_inverse)

lemma up_unknown: "x \<notin> set (order s) \<Longrightarrow> order (up x s) = order s"
  by (simp add: order_up move_up_absent)

text \<open>An identifier that is not in the list still passes the guard of the downward move.\<close>

lemma down_unknown:
  "x \<notin> set (order s) \<Longrightarrow> order s \<noteq> [] \<Longrightarrow>
     order (down x s) = last (order s) # butlast (order s)"
  by (simp add: order_down move_down_absent)

end

end
