(* ===== verification/Config.thy ===== *)
theory Config
  imports Federation Movable_List
begin

text \<open>
  The persisted preferences of the client (store/modules/config.ts) and the transient ones
  (temporary_config.ts): the record of settings, every reducer of the slice, and the page initialisers
  that repair a state persisted by an older version of the app.

  Three fields can be \<open>undefined\<close> at run time although their type says otherwise, because
  redux-persist may bring back a state written before they existed; the reducers and initialisers test
  for it.  They are options here, and a reducer that touches one without testing fails with
  \<open>TypeError\<close>.
\<close>

section \<open>State\<close>

datatype date_time_renderer = CustomRenderer | NativeRenderer

datatype calendar_implementation = FullCalendar | BigCalendar | DayPilot

record config =
  deviceName :: string
  showIntro :: bool
  darkModeAuto :: bool
  darkMode :: bool
  allowServerSelection :: bool
  browsingServers :: bool
  viewingRecommendedServers :: bool
  separateAccountsByServer :: bool
  showBetaNavigation :: bool
  discussionChatUI :: bool
  autoRefreshDiscussions :: bool
  discussionRefreshIntervalSeconds :: int
  showUserIds :: bool
  showEventsOnLatest :: bool
  recentGroups :: "string list option"
  inlineFeatureNavigation :: "bool option"
  shrinkFeatureNavigation :: "bool option"
  browseRsvpsFromPreviews :: bool
  showHelp :: bool
  showPinnedServers :: bool
  autoHideNavigation :: bool
  hideNavigation :: bool
  imagePostBackgrounds :: bool
  fancyPostBackgrounds :: bool
  shrinkPreviews :: bool
  dateTimeRenderer :: "date_time_renderer option"
  showBigCalendar :: bool
  starredPostIds :: "string list option"
  starredPostLastOpenedResponseCounts :: "(string \<rightharpoonup> int) option"
  openedStarredPostId :: "string option"
  eventPagesOnHome :: bool
  calendarImplementation :: calendar_implementation
  hasOpenedAccounts :: bool
  alwaysShowHideButton :: bool

text \<open>The device name and the platform test of the initial state are inputs.\<close>

definition initial_config :: "string \<Rightarrow> bool \<Rightarrow> config" where
  "initial_config defaultDeviceName notWeb =
    \<lparr>deviceName = defaultDeviceName,
     showIntro = True,
     darkModeAuto = True,
     darkMode = False,
     allowServerSelection = notWeb,
     browsingServers = False,
     viewingRecommendedServers = False,
     separateAccountsByServer = True,
     showBetaNavigation = False,
     discussionChatUI = True,
     autoRefreshDiscussions = True,
     discussionRefreshIntervalSeconds = 6,
     showUserIds = False,
     showEventsOnLatest = True,
     recentGroups = Some [],
     inlineFeatureNavigation = None,
     shrinkFeatureNavigation = None,
     browseRsvpsFromPreviews = True,
     showHelp = True,
     showPinnedServers = True,
     autoHideNavigation = False,
     hideNavigation = False,
     imagePostBackgrounds = False,
     fancyPostBackgrounds = False,
     shrinkPreviews = False,
     dateTimeRenderer = Some NativeRenderer,
     showBigCalendar = True,
     starredPostIds = Some [],
     starredPostLastOpenedResponseCounts = Some Map.empty,
     openedStarredPostId = None,
     eventPagesOnHome = False,
     calendarImplementation = BigCalendar,
     hasOpenedAccounts = False,
     alwaysShowHideButton = False\<rparr>"


section \<open>Device names\<close>

text \<open>
  The user agent is matched against a list of case-insensitive substrings; every entry is tried and the
  last match wins.  The alternatives of one regular expression are the list of its substrings.
\<close>

definition js_contains :: "string \<Rightarrow> string \<Rightarrow> bool" where
  "js_contains s t \<longleftrightarrow> (\<exists>i \<in> set [0..<Suc (length s)]. take (length t) (drop i s) = t)"

definition contains_ci :: "string \<Rightarrow> string \<Rightarrow> bool" where
  "contains_ci s t \<longleftrightarrow> js_contains (to_lower s) (to_lower t)"

definition device_table :: "(string \<times> string list) list" where
  "device_table =
    [(''Generic Linux'', [''Linux'']),
     (''Android'', [''Android'']),
     (''BlackBerry'', [''BlackBerry'']),
     (''Bluebird'', [''EF500'']),
     (''Chrome OS'', [''CrOS'']),
     (''Datalogic'', [''DL-AXIS'']),
     (''Honeywell'', [''CT50'']),
     (''iPad'', [''iPad'']),
     (''iPhone'', [''iPhone'']),
     (''iPod'', [''iPod'']),
     (''macOS'', [''Macintosh'']),
     (''Windows'', [''IEMobile'', ''Windows'']),
     (''Zebra'', [''TC70'', ''TC55''])]"

definition detect_device :: "string \<Rightarrow> string \<Rightarrow> string" where
  "detect_device unknown userAgent =
     foldl (\<lambda>device (v, patterns). if \<exists>p \<in> set patterns. contains_ci userAgent p then v else device)
       unknown device_table"

definition generateDeviceName :: "string \<Rightarrow> string \<Rightarrow> string \<Rightarrow> string" where
  "generateDeviceName userAgent hostname nowISO =
     detect_device ''Unknown'' userAgent @ '' at '' @ hostname @ '' (first accessed '' @ nowISO @ '')''"


section \<open>Reducers\<close>

definition markGroupVisit :: "group federated_entity \<Rightarrow> config \<Rightarrow> config" where
  "markGroupVisit grp s =
     (let recent = nullish (recentGroups s) [];
          groupId = federatedId g_id grp
      in s\<lparr>recentGroups := Some (groupId # filter (\<lambda>g. g \<noteq> groupId) recent)\<rparr>)"

text \<open>\<open>[payload, ...state.starredPostIds]\<close> on \<open>undefined\<close> is a spread of a non-iterable.\<close>

definition starPost :: "string \<Rightarrow> config \<Rightarrow> config result" where
  "starPost postId s =
     bind_result (deref (starredPostIds s)) (\<lambda>starred.
       Inr (s\<lparr>starredPostIds := Some (postId # starred)\<rparr>))"

definition unstarPost :: "string \<Rightarrow> config \<Rightarrow> config result" where
  "unstarPost postId s =
     bind_result (deref (starredPostIds s)) (\<lambda>starred.
     bind_result (deref (starredPostLastOpenedResponseCounts s)) (\<lambda>counts.
       Inr (s\<lparr>starredPostIds := Some (filter (\<lambda>i. i \<noteq> postId) starred),
              starredPostLastOpenedResponseCounts := Some (counts(postId := None))\<rparr>)))"

definition moveStarredPostUp :: "string \<Rightarrow> config \<Rightarrow> config result" where
  "moveStarredPostUp postId s =
     bind_result (deref (starredPostIds s)) (\<lambda>starred.
       Inr (s\<lparr>starredPostIds := Some (move_up starred postId)\<rparr>))"

definition moveStarredPostDown :: "string \<Rightarrow> config \<Rightarrow> config result" where
  "moveStarredPostDown postId s =
     bind_result (deref (starredPostIds s)) (\<lambda>starred.
       Inr (s\<lparr>starredPostIds := Some (move_down starred postId)\<rparr>))"

definition updateStarredPostLastOpenedResponseCount :: "string \<Rightarrow> int \<Rightarrow> config \<Rightarrow> config result" where
  "updateStarredPostLastOpenedResponseCount postId count s =
     (let counts = nullish (starredPostLastOpenedResponseCounts s) Map.empty
      in bind_result (deref (starredPostIds s)) (\<lambda>starred.
           Inr (s\<lparr>starredPostLastOpenedResponseCounts :=
                    Some (if postId \<in> set starred then counts(postId \<mapsto> count) else counts)\<rparr>)))"

datatype config_action =
    ResetConfig
  | SetShowIntro bool
  | SetDarkMode bool
  | SetDarkModeAuto bool
  | SetAllowServerSelection bool
  | SetBrowsingServers bool
  | SetViewingRecommendedServers bool
  | SetSeparateAccountsByServer bool
  | SetShowBetaNavigation bool
  | SetDiscussionChatUI bool
  | SetAutoRefreshDiscussions bool
  | SetDiscussionRefreshIntervalSeconds int
  | SetShowUserIds bool
  | SetShowEventsOnLatest bool
  | SetInlineFeatureNavigation "bool option"
  | SetShrinkFeatureNavigation "bool option"
  | SetBrowseRsvpsFromPreviews bool
  | SetShowHelp bool
  | SetShowPinnedServers bool
  | SetAutoHideNavigation bool
  | SetHideNavigation bool
  | SetFancyPostBackgrounds bool
  | SetShrinkPreviews bool
  | SetDateTimeRenderer date_time_renderer
  | SetShowBigCalendar bool
  | SetImagePostBackgrounds bool
  | SetStarredPostIds "string list"
  | SetOpenedStarredPost "string option"
  | SetEventPagesOnHome bool
  | SetCalendarImplementation calendar_implementation
  | SetHasOpenedAccounts bool
  | SetAlwaysShowHideButton bool
  | SetDeviceName string
  | MarkGroupVisit "group federated_entity"
  | StarPost string
  | UnstarPost string
  | MoveStarredPostUp string
  | MoveStarredPostDown string
  | UpdateStarredPostLastOpenedResponseCount string int

text \<open>\<open>i\<close> is the initial state the slice was created with.\<close>

fun config_reducer :: "config \<Rightarrow> config_action \<Rightarrow> config \<Rightarrow> config result" where
  "config_reducer i ResetConfig s = Inr i"
| "config_reducer i (SetShowIntro v) s = Inr (s\<lparr>showIntro := v\<rparr>)"
| "config_reducer i (SetDarkMode v) s = Inr (s\<lparr>darkMode := v\<rparr>)"
| "config_reducer i (SetDarkModeAuto v) s = Inr (s\<lparr>darkModeAuto := v\<rparr>)"
| "config_reducer i (SetAllowServerSelection v) s = Inr (s\<lparr>allowServerSelection := v\<rparr>)"
| "config_reducer i (SetBrowsingServers v) s = Inr (s\<lparr>browsingServers := v\<rparr>)"
| "config_reducer i (SetViewingRecommendedServers v) s = Inr (s\<lparr>viewingRecommendedServers := v\<rparr>)"
| "config_reducer i (SetSeparateAccountsByServer v) s = Inr (s\<lparr>separateAccountsByServer := v\<rparr>)"
| "config_reducer i (SetShowBetaNavigation v) s = Inr (s\<lparr>showBetaNavigation := v\<rparr>)"
| "config_reducer i (SetDiscussionChatUI v) s = Inr (s\<lparr>discussionChatUI := v\<rparr>)"
| "config_reducer i (SetAutoRefreshDiscussions v) s = Inr (s\<lparr>autoRefreshDiscussions := v\<rparr>)"
| "config_reducer i (SetDiscussionRefreshIntervalSeconds v) s = Inr (s\<lparr>discussionRefreshIntervalSeconds := v\<rparr>)"
| "config_reducer i (SetShowUserIds v) s = Inr (s\<lparr>showUserIds := v\<rparr>)"
| "config_reducer i (SetShowEventsOnLatest v) s = Inr (s\<lparr>showEventsOnLatest := v\<rparr>)"
| "config_reducer i (SetInlineFeatureNavigation v) s = Inr (s\<lparr>inlineFeatureNavigation := v\<rparr>)"
| "config_reducer i (SetShrinkFeatureNavigation v) s = Inr (s\<lparr>shrinkFeatureNavigation := v\<rparr>)"
| "config_reducer i (SetBrowseRsvpsFromPreviews v) s = Inr (s\<lparr>browseRsvpsFromPreviews := v\<rparr>)"
| "config_reducer i (SetShowHelp v) s = Inr (s\<lparr>showHelp := v\<rparr>)"
| "config_reducer i (SetShowPinnedServers v) s = Inr (s\<lparr>showPinnedServers := v\<rparr>)"
| "config_reducer i (SetAutoHideNavigation v) s = Inr (s\<lparr>autoHideNavigation := v\<rparr>)"
| "config_reducer i (SetHideNavigation v) s = Inr (s\<lparr>hideNavigation := v\<rparr>)"
| "config_reducer i (SetFancyPostBackgrounds v) s = Inr (s\<lparr>fancyPostBackgrounds := v\<rparr>)"
| "config_reducer i (SetShrinkPreviews v) s = Inr (s\<lparr>shrinkPreviews := v\<rparr>)"
| "config_reducer i (SetDateTimeRenderer v) s = Inr (s\<lparr>dateTimeRenderer := Some v\<rparr>)"
| "config_reducer i (SetShowBigCalendar v) s = Inr (s\<lparr>showBigCalendar := v\<rparr>)"
| "config_reducer i (SetImagePostBackgrounds v) s = Inr (s\<lparr>imagePostBackgrounds := v\<rparr>)"
| "config_reducer i (SetStarredPostIds v) s = Inr (s\<lparr>starredPostIds := Some v\<rparr>)"
| "config_reducer i (SetOpenedStarredPost v) s = Inr (s\<lparr>openedStarredPostId := v\<rparr>)"
| "config_reducer i (SetEventPagesOnHome v) s = Inr (s\<lparr>eventPagesOnHome := v\<rparr>)"
| "config_reducer i (SetCalendarImplementation v) s = Inr (s\<lparr>calendarImplementation := v\<rparr>)"
| "config_reducer i (SetHasOpenedAccounts v) s = Inr (s\<lparr>hasOpenedAccounts := v\<rparr>)"
| "config_reducer i (SetAlwaysShowHideButton v) s = Inr (s\<lparr>alwaysShowHideButton := v\<rparr>)"
| "config_reducer i (SetDeviceName v) s = Inr (s\<lparr>deviceName := v\<rparr>)"
| "config_reducer i (MarkGroupVisit g) s = Inr (markGroupVisit g s)"
| "config_reducer i (StarPost p) s = starPost p s"
| "config_reducer i (UnstarPost p) s = unstarPost p s"
| "config_reducer i (MoveStarredPostUp p) s = moveStarredPostUp p s"
| "config_reducer i (MoveStarredPostDown p) s = moveStarredPostDown p s"
| "config_reducer i (UpdateStarredPostLastOpenedResponseCount p n) s =
     updateStarredPostLastOpenedResponseCount p n s"

text \<open>A reducer that throws leaves the store as it was.\<close>

definition config_dispatch :: "config \<Rightarrow> config_action \<Rightarrow> config \<Rightarrow> config" where
  "config_dispatch i a s = (case config_reducer i a s of Inl _ \<Rightarrow> s | Inr s' \<Rightarrow> s')"


section \<open>Page initialisers\<close>

definition init_device_name :: "string \<Rightarrow> string \<Rightarrow> config \<Rightarrow> config" where
  "init_device_name defaultDeviceName generated s =
     (if deviceName s = defaultDeviceName then s\<lparr>deviceName := generated\<rparr> else s)"

text \<open>The second initialiser dispatches up to three actions, each on the state the last one left.\<close>

definition init_migrate :: "config \<Rightarrow> config \<Rightarrow> config" where
  "init_migrate i s =
     (let s1 = (if dateTimeRenderer s = None
                then config_dispatch i (SetDateTimeRenderer NativeRenderer) s else s);
          s2 = (if starredPostIds s = None then config_dispatch i (SetStarredPostIds []) s1 else s1)
      in if starredPostLastOpenedResponseCounts s = None
         then config_dispatch i
                (UpdateStarredPostLastOpenedResponseCount ''data-migration-artifact'' 0) s2
         else s2)"


section \<open>Transient configuration\<close>

record temporary_config =
  forceHideAccountSheetGuide :: bool

definition initial_temporary_config :: temporary_config where
  "initial_temporary_config = \<lparr>forceHideAccountSheetGuide = False\<rparr>"

datatype temporary_config_action = ResetTemporaryConfig | SetForceHideAccountSheetGuide bool

fun temporary_config_reducer :: "temporary_config_action \<Rightarrow> temporary_config \<Rightarrow> temporary_config" where
  "temporary_config_reducer ResetTemporaryConfig s = initial_temporary_config"
| "temporary_config_reducer (SetForceHideAccountSheetGuide v) s = s\<lparr>forceHideAccountSheetGuide := v\<rparr>"


section \<open>What the reducers keep\<close>

interpretation starred_posts: movable_list "\<lambda>s. nullish (starredPostIds s) []"
  "\<lambda>p. config_dispatch i (MoveStarredPostUp p)" "\<lambda>p. config_dispatch i (MoveStarredPostDown p)" for i
  by unfold_locales
    (auto simp: config_dispatch_def moveStarredPostUp_def moveStarredPostDown_def move_up_absent
      move_down_Nil deref_def split: option.splits)

text \<open>A state whose late additions are all present.\<close>

definition config_ready :: "config \<Rightarrow> bool" where
  "config_ready s \<longleftrightarrow>
     dateTimeRenderer s \<noteq> None \<and> starredPostIds s \<noteq> None \<and> starredPostLastOpenedResponseCounts s \<noteq> None"

lemma config_ready_initial [simp]: "config_ready (initial_config n w)"
  by (simp add: config_ready_def initial_config_def)

lemma config_reducer_ready_lemma:
  assumes "config_ready i" "config_ready s"
  shows "\<exists>s'. config_reducer i a s = Inr s' \<and> config_ready s'"
proof -
  obtain starred counts where
    "starredPostIds s = Some starred" "starredPostLastOpenedResponseCounts s = Some counts"
    using assms(2) by (auto simp: config_ready_def)
  with assms show ?thesis
    by (cases a)
      (auto simp: config_ready_def markGroupVisit_def starPost_def unstarPost_def moveStarredPostUp_def
        moveStarredPostDown_def updateStarredPostLastOpenedResponseCount_def Let_def)
qed

lemma config_dispatch_fields:
  "config_dispatch i (SetDateTimeRenderer r) s = s\<lparr>dateTimeRenderer := Some r\<rparr>"
  "config_dispatch i (SetStarredPostIds l) s = s\<lparr>starredPostIds := Some l\<rparr>"
  "starredPostIds s = Some l \<Longrightarrow>
     config_dispatch i (UpdateStarredPostLastOpenedResponseCount p n) s =
       s\<lparr>starredPostLastOpenedResponseCounts :=
           Some (if p \<in> set l then (nullish (starredPostLastOpenedResponseCounts s) Map.empty)(p \<mapsto> n)
                 else nullish (starredPostLastOpenedResponseCounts s) Map.empty)\<rparr>"
  by (simp_all add: config_dispatch_def updateStarredPostLastOpenedResponseCount_def)

lemma init_migrate_ready_lemma: "config_ready (init_migrate i s)"
  by (cases "starredPostIds s")
    (auto simp: init_migrate_def Let_def config_dispatch_fields config_ready_def)

text \<open>Response counts are kept for starred posts only.\<close>

definition counts_starred :: "config \<Rightarrow> bool" where
  "counts_starred s \<longleftrightarrow>
     dom (nullish (starredPostLastOpenedResponseCounts s) Map.empty) \<subseteq> set (nullish (starredPostIds s) [])"

lemma counts_starred_iff:
  "counts_starred s \<longleftrightarrow>
     (\<forall>k v. nullish (starredPostLastOpenedResponseCounts s) Map.empty k = Some v \<longrightarrow>
            k \<in> set (nullish (starredPostIds s) []))"
  by (auto simp: counts_starred_def)

text \<open>The actions that touch the starred posts; every other one leaves both fields alone.\<close>

fun touches_starred :: "config_action \<Rightarrow> bool" where
  "touches_starred ResetConfig = True"
| "touches_starred (SetStarredPostIds l) = True"
| "touches_starred (StarPost p) = True"
| "touches_starred (UnstarPost p) = True"
| "touches_starred (MoveStarredPostUp p) = True"
| "touches_starred (MoveStarredPostDown p) = True"
| "touches_starred (UpdateStarredPostLastOpenedResponseCount p n) = True"
| "touches_starred _ = False"

lemma config_reducer_frame:
  assumes "\<not> touches_starred a"
  shows "\<exists>s'. config_reducer i a s = Inr s' \<and> starredPostIds s' = starredPostIds s \<and>
    starredPostLastOpenedResponseCounts s' = starredPostLastOpenedResponseCounts s"
  using assms by (cases a) (simp_all add: markGroupVisit_def Let_def)

lemma counts_starred_touch:
  assumes inv: "counts_starred s" "distinct (nullish (starredPostIds s) [])"
  shows "starPost p s = Inr s' \<Longrightarrow> counts_starred s'"
    and "unstarPost p s = Inr s' \<Longrightarrow> counts_starred s'"
    and "moveStarredPostUp p s = Inr s' \<Longrightarrow> counts_starred s'"
    and "moveStarredPostDown p s = Inr s' \<Longrightarrow> counts_starred s'"
    and "updateStarredPostLastOpenedResponseCount p n s = Inr s' \<Longrightarrow> counts_starred s'"
proof -
  note unfold = counts_starred_iff bind_result_eq_Inr deref_eq_Inr Let_def
  show "starPost p s = Inr s' \<Longrightarrow> counts_starred s'"
    using inv by (auto simp: unfold starPost_def)
  show "unstarPost p s = Inr s' \<Longrightarrow> counts_starred s'"
    using inv by (auto simp: unfold unstarPost_def split: if_splits)
  show "moveStarredPostUp p s = Inr s' \<Longrightarrow> counts_starred s'"
    using inv by (auto simp: unfold moveStarredPostUp_def mset_move_up)
  show "moveStarredPostDown p s = Inr s' \<Longrightarrow> counts_starred s'"
    using inv by (auto simp: unfold moveStarredPostDown_def mset_move_down)
  show "updateStarredPostLastOpenedResponseCount p n s = Inr s' \<Longrightarrow> counts_starred s'"
  proof -
    assume upd: "updateStarredPostLastOpenedResponseCount p n s = Inr s'"
    obtain l where l: "starredPostIds s = Some l"
      using upd by (auto simp: unfold updateStarredPostLastOpenedResponseCount_def)
    show "counts_starred s'"
    proof (cases "p \<in> set l")
      case True
      then show ?thesis
        using upd inv(1) l
        by (clarsimp simp: updateStarredPostLastOpenedResponseCount_def Let_def counts_starred_def)
          (fastforce split: if_splits)
    next
      case False
      then show ?thesis
        using upd inv(1) l
        by (clarsimp simp: updateStarredPostLastOpenedResponseCount_def Let_def counts_starred_def)
          fastforce
    qed
  qed
qed

lemma counts_starred_step:
  assumes "counts_starred i" "counts_starred s" "distinct (nullish (starredPostIds s) [])"
    and "\<not> (\<exists>l. a = SetStarredPostIds l)" and "config_reducer i a s = Inr s'"
  shows "counts_starred s'"
proof (cases "touches_starred a")
  case True
  then show ?thesis
    using assms counts_starred_touch [OF assms(2,3)] by (cases a) simp_all
next
  case False
  then obtain t where "config_reducer i a s = Inr t" "starredPostIds t = starredPostIds s"
    "starredPostLastOpenedResponseCounts t = starredPostLastOpenedResponseCounts s"
    using config_reducer_frame by blast
  then show ?thesis
    using assms(2,5) by (simp add: counts_starred_def)
qed

lemma markGroupVisit_recent:
  assumes "recentGroups s = Some gs"
  shows "recentGroups (markGroupVisit g s) = Some (federatedId g_id g # filter (\<lambda>h. h \<noteq> federatedId g_id g) gs)"
  using assms by (simp add: markGroupVisit_def Let_def)

lemma markGroupVisit_distinct:
  "distinct (nullish (recentGroups s) []) \<Longrightarrow>
     distinct (nullish (recentGroups (markGroupVisit g s)) []) \<and>
     set (nullish (recentGroups (markGroupVisit g s)) []) = insert (federatedId g_id g) (set (nullish (recentGroups s) []))"
  by (auto simp: markGroupVisit_def Let_def)

text \<open>
  \<open>StarPost\<close> does not look whether the post is starred already, \<open>UnstarPost\<close> removes every copy and the
  count: starring and unstarring returns to the list without the post.
\<close>

lemma unstar_star:
  assumes "config_ready s"
  shows "config_dispatch i (UnstarPost p) (config_dispatch i (StarPost p) s) =
         config_dispatch i (UnstarPost p) s"
  using assms by (auto simp: config_dispatch_def starPost_def unstarPost_def config_ready_def)

lemma star_twice_duplicates:
  "starredPostIds s = Some l \<Longrightarrow>
     starredPostIds (config_dispatch i (StarPost p) (config_dispatch i (StarPost p) s)) = Some (p # p # l)"
  by (simp add: config_dispatch_def starPost_def)


section \<open>Runs of the slice\<close>

lemma distinct_starred_step:
  assumes "distinct (nullish (starredPostIds s) [])" "distinct (nullish (starredPostIds i) [])"
    and "\<forall>p. a = StarPost p \<longrightarrow> p \<notin> set (nullish (starredPostIds s) [])"
    and "\<not> (\<exists>l. a = SetStarredPostIds l)" and "config_reducer i a s = Inr s'"
  shows "distinct (nullish (starredPostIds s') [])"
proof (cases "touches_starred a")
  case True
  note unfold = bind_result_eq_Inr deref_eq_Inr Let_def
  show ?thesis
    using True assms
    by (cases a)
      (auto simp: unfold starPost_def unstarPost_def moveStarredPostUp_def moveStarredPostDown_def
        updateStarredPostLastOpenedResponseCount_def mset_move_up mset_move_down)
next
  case False
  then obtain t where "config_reducer i a s = Inr t" "starredPostIds t = starredPostIds s"
    using config_reducer_frame by blast
  then show ?thesis
    using assms(1,5) by simp
qed

text \<open>
  The states the user interface reaches: it stars a post only when it is not starred yet, and replaces
  the whole list only when it repairs an old state.
\<close>

definition ordinary_action :: "config \<Rightarrow> config_action \<Rightarrow> bool" where
  "ordinary_action s a \<longleftrightarrow>
     (case a of
        SetStarredPostIds l \<Rightarrow> False
      | StarPost p \<Rightarrow> p \<notin> set (nullish (starredPostIds s) [])
      | _ \<Rightarrow> True)"

inductive config_reach :: "config \<Rightarrow> config \<Rightarrow> bool" for i where
  start: "config_reach i i"
| dispatch: "config_reach i s \<Longrightarrow> ordinary_action s a \<Longrightarrow> config_reach i (config_dispatch i a s)"

inductive_cases config_reachE: "config_reach i s"

lemma ordinary_action_simps [simp]:
  "ordinary_action s (SetStarredPostIds l) = False"
  "ordinary_action s (StarPost p) = (p \<notin> set (nullish (starredPostIds s) []))"
  by (simp_all add: ordinary_action_def)

lemma config_reach_invariant:
  assumes "config_reach i s" "counts_starred i" "distinct (nullish (starredPostIds i) [])"
  shows "distinct (nullish (starredPostIds s) []) \<and> counts_starred s"
  using assms(1)
proof (induction rule: config_reach.induct)
  case start
  then show ?case using assms(2,3) by simp
next
  case (dispatch s a)
  have a: "\<not> (\<exists>l. a = SetStarredPostIds l)" "\<forall>p. a = StarPost p \<longrightarrow> p \<notin> set (nullish (starredPostIds s) [])"
    using dispatch.hyps(2) by auto
  show ?case
  proof (cases "config_reducer i a s")
    case (Inl e)
    then show ?thesis using dispatch.IH by (simp add: config_dispatch_def)
  next
    case (Inr s')
    then show ?thesis
      using distinct_starred_step [OF _ assms(3) a(2,1) Inr] counts_starred_step [OF assms(2) _ _ a(1) Inr]
        dispatch.IH
      by (simp add: config_dispatch_def)
  qed
qed

lemma counts_starred_initial: "counts_starred (initial_config n w)"
  by (simp add: counts_starred_def initial_config_def)

definition config_run :: "config \<Rightarrow> config_action list \<Rightarrow> config result \<Rightarrow> config result" where
  "config_run i as r = foldl (\<lambda>r a. bind_result r (config_reducer i a)) r as"

lemma config_run_ready:
  assumes "config_ready i" "config_ready s"
  shows "\<exists>s'. config_run i as (Inr s) = Inr s' \<and> config_ready s'"
  using assms(2)
proof (induction as arbitrary: s)
  case Nil
  then show ?case by (simp add: config_run_def)
next
  case (Cons a as)
  obtain t where t: "config_reducer i a s = Inr t" "config_ready t"
    using config_reducer_ready_lemma [OF assms(1) Cons.prems] by blast
  show ?case
    using Cons.IH [OF t(2)] t(1) by (simp add: config_run_def)
qed


section \<open>Properties\<close>

text \<open>
  In every state reached from the initial configuration by dispatching
  ordinary actions, the starred posts are listed once each and the last-opened response counts are
  kept for starred posts only.
\<close>

theorem config_counts_invariant:
  assumes "config_reach (initial_config n w) s"
  shows "distinct (nullish (starredPostIds s) []) \<and>
    dom (nullish (starredPostLastOpenedResponseCounts s) Map.empty) \<subseteq> set (nullish (starredPostIds s) [])"
  using config_reach_invariant [OF assms counts_starred_initial]
  by (simp add: counts_starred_def initial_config_def)

theorem config_counts_invariant_witness:
  "\<exists>s. config_reach (initial_config ''d'' False) s \<and> starredPostIds s = Some [''q'', ''p''] \<and>
     distinct (nullish (starredPostIds s) []) \<and>
     dom (nullish (starredPostLastOpenedResponseCounts s) Map.empty) \<subseteq> set (nullish (starredPostIds s) [])"
proof -
  let ?i = "initial_config ''d'' False"
  let ?s = "config_dispatch ?i (StarPost ''q'') (config_dispatch ?i (StarPost ''p'') ?i)"
  have s: "starredPostIds ?s = Some [''q'', ''p'']"
    by (simp add: config_dispatch_def starPost_def initial_config_def)
  have r: "config_reach ?i ?s"
    by (rule config_reach.dispatch, rule config_reach.dispatch, rule config_reach.start)
      (simp_all add: config_dispatch_def starPost_def initial_config_def)
  show ?thesis
    using r s config_counts_invariant [OF r] by blast
qed

text \<open>
  After the page initialiser has repaired a persisted state, whatever that
  state lacked, no sequence of configuration actions makes a reducer throw.
\<close>

theorem config_migration_total:
  "\<exists>s'. config_run (initial_config n w) as (Inr (init_migrate (initial_config n w) s)) = Inr s' \<and>
        starredPostIds s' \<noteq> None \<and> starredPostLastOpenedResponseCounts s' \<noteq> None"
  using config_run_ready [OF config_ready_initial init_migrate_ready_lemma, of n w as "initial_config n w" s]
  by (auto simp: config_ready_def)

text \<open>
  Moving a starred post up swaps it with its predecessor, and moving it down
  again restores the list.
\<close>

theorem starred_posts_moves:
  assumes "starredPostIds s = Some (as @ a # p # bs)" "distinct (as @ a # p # bs)"
  shows "starredPostIds (config_dispatch i (MoveStarredPostUp p) s) = Some (as @ p # a # bs) \<and>
    starredPostIds (config_dispatch i (MoveStarredPostDown p)
      (config_dispatch i (MoveStarredPostUp p) s)) = Some (as @ a # p # bs)"
proof -
  have p: "p \<notin> set as" "a \<noteq> p"
    using assms(2) by auto
  show ?thesis
    using assms(1) p move_up_mid [of p as a bs] move_down_mid [of p as a bs]
    by (simp add: config_dispatch_def moveStarredPostUp_def moveStarredPostDown_def)
qed

theorem starred_posts_moves_witness:
  "starredPostIds (config_dispatch (initial_config ''d'' False) (MoveStarredPostUp ''r'')
     ((initial_config ''d'' False)\<lparr>starredPostIds := Some [''p'', ''q'', ''r'', ''t'']\<rparr>)) =
       Some [''p'', ''r'', ''q'', ''t'']"
  using starred_posts_moves [of "(initial_config ''d'' False)\<lparr>starredPostIds := Some [''p'', ''q'', ''r'', ''t'']\<rparr>"
      "[''p'']" "''q''" "''r''" "[''t'']" "initial_config ''d'' False"]
  by simp

end
