(* ===== verification/Entity_Adapter.thy ===== *)
theory Entity_Adapter
  imports Store_Types
begin

text \<open>
  The entity adapters of Redux Toolkit are a library the store only calls, so an adapter is a
  parameter of the slices: the record \<open>adapter\<close> holds the operations they use.  The locale
  \<open>entity_adapter\<close> states the documented contract: \<open>upsertOne\<close> adds an entity or merges its fields into
  the stored one, \<open>removeOne\<close> and \<open>removeMany\<close> delete by identifier, the selectors read the
  \<open>entities\<close> dictionary and the \<open>ids\<close> array, and the two stay in step.  Nothing is assumed about the
  order of \<open>ids\<close> beyond its being an enumeration of the keys.

  \<open>ref_adapter\<close> is a complete implementation of the contract, with and without a sort key; the slices
  interpret the locale with it.
\<close>

record 'e entity_state =
  ids :: "string list"
  entities :: "string \<rightharpoonup> 'e"

definition empty_entities :: "'e entity_state" where
  "empty_entities = \<lparr>ids = [], entities = Map.empty\<rparr>"

definition wf_entities :: "('e \<Rightarrow> string) \<Rightarrow> 'e entity_state \<Rightarrow> bool" where
  "wf_entities selectId s \<longleftrightarrow>
     distinct (ids s) \<and> set (ids s) = dom (entities s) \<and>
     (\<forall>k e. entities s k = Some e \<longrightarrow> selectId e = k)"

text \<open>What an upsert stores under the identifier.\<close>

definition upserted :: "('e \<Rightarrow> 'e \<Rightarrow> 'e) \<Rightarrow> 'e option \<Rightarrow> 'e \<Rightarrow> 'e" where
  "upserted merge old e = (case old of None \<Rightarrow> e | Some o' \<Rightarrow> merge o' e)"

text \<open>The shallow merge of objects that always carry all their keys.\<close>

definition replace_all :: "'e \<Rightarrow> 'e \<Rightarrow> 'e" where
  "replace_all old e = e"

lemma upserted_replace_all [simp]: "upserted replace_all old e = e"
  by (simp add: upserted_def replace_all_def split: option.split)

record 'e adapter =
  upsertOne :: "'e entity_state \<Rightarrow> 'e \<Rightarrow> 'e entity_state"
  upsertMany :: "'e entity_state \<Rightarrow> 'e list \<Rightarrow> 'e entity_state"
  removeOne :: "'e entity_state \<Rightarrow> string \<Rightarrow> 'e entity_state"
  removeMany :: "'e entity_state \<Rightarrow> string list \<Rightarrow> 'e entity_state"
  selectById :: "'e entity_state \<Rightarrow> string \<Rightarrow> 'e option"
  selectAll :: "'e entity_state \<Rightarrow> 'e list"

locale entity_adapter =
  fixes A :: "'e adapter"
    and selectId :: "'e \<Rightarrow> string"
    and merge :: "'e \<Rightarrow> 'e \<Rightarrow> 'e"
  assumes merge_id: "selectId (merge old e) = selectId e"
    and entities_upsertOne:
      "entities (upsertOne A s e) =
         (entities s)(selectId e \<mapsto> upserted merge (entities s (selectId e)) e)"
    and wf_upsertOne: "wf_entities selectId s \<Longrightarrow> wf_entities selectId (upsertOne A s e)"
    and entities_upsertMany:
      "distinct (map selectId es) \<Longrightarrow>
         entities (upsertMany A s es) =
           (\<lambda>k. case find (\<lambda>e. selectId e = k) es of
                  None \<Rightarrow> entities s k
                | Some e \<Rightarrow> Some (upserted merge (entities s k) e))"
    and dom_upsertMany:
      "dom (entities (upsertMany A s es)) = dom (entities s) \<union> selectId ` set es"
    and upsertMany_other:
      "k \<notin> selectId ` set es \<Longrightarrow> entities (upsertMany A s es) k = entities s k"
    and wf_upsertMany: "wf_entities selectId s \<Longrightarrow> wf_entities selectId (upsertMany A s es)"
    and entities_removeOne: "entities (removeOne A s k) = (entities s)(k := None)"
    and wf_removeOne: "wf_entities selectId s \<Longrightarrow> wf_entities selectId (removeOne A s k)"
    and entities_removeMany:
      "entities (removeMany A s ks) = dict_delete_where (\<lambda>k. k \<in> set ks) (entities s)"
    and wf_removeMany: "wf_entities selectId s \<Longrightarrow> wf_entities selectId (removeMany A s ks)"
    and selectById_entities: "selectById A s k = entities s k"
    and selectAll_entities: "selectAll A s = List.map_filter (entities s) (ids s)"
begin

lemmas adapter_simps =
  entities_upsertOne entities_removeOne entities_removeMany selectById_entities

lemma select_upsertOne_same:
  "selectById A (upsertOne A s e) (selectId e) = Some (upserted merge (entities s (selectId e)) e)"
  by (simp add: adapter_simps)

lemma select_upsertOne_other:
  "k \<noteq> selectId e \<Longrightarrow> selectById A (upsertOne A s e) k = selectById A s k"
  by (simp add: adapter_simps)

lemma select_removeOne: "selectById A (removeOne A s k) k' = (if k' = k then None else selectById A s k')"
  by (simp add: adapter_simps)

lemma selectAll_present:
  "wf_entities selectId s \<Longrightarrow> e \<in> set (selectAll A s) \<longleftrightarrow> selectById A s (selectId e) = Some e"
  by (force simp: selectAll_entities selectById_entities wf_entities_def List.map_filter_def)

lemma wf_foldl_upsert:
  "wf_entities selectId s \<Longrightarrow> wf_entities selectId (foldl (upsertOne A) s es)"
  by (induction es arbitrary: s) (auto intro: wf_upsertOne)

text \<open>Removing by a filter over \<open>ids\<close> removes exactly the entities whose key passes the filter.\<close>

lemma removeMany_filter:
  assumes "wf_entities selectId s"
  shows "entities (removeMany A s (filter P (ids s))) = dict_delete_where P (entities s)"
  using assms by (auto simp: entities_removeMany dict_delete_where_def wf_entities_def dom_def fun_eq_iff)

end

lemmas adapter_wf =
  entity_adapter.wf_upsertOne entity_adapter.wf_upsertMany entity_adapter.wf_removeOne
  entity_adapter.wf_removeMany

lemmas adapter_entities =
  entity_adapter.entities_upsertOne entity_adapter.entities_removeOne
  entity_adapter.entities_removeMany entity_adapter.selectById_entities

lemma wf_empty_entities [simp]: "wf_entities selectId empty_entities"
  by (simp add: wf_entities_def empty_entities_def)

text \<open>The removal every \<open>resetX\<close> reducer makes: all entities whose identifier passes a test.\<close>

lemma removeMany_reset:
  assumes "entity_adapter A selectId merge" "wf_entities selectId s"
  shows "entities (removeMany A s (filter P (ids s))) = dict_delete_where P (entities s)"
  by (rule entity_adapter.removeMany_filter [OF assms])


section \<open>A reference implementation\<close>

definition reorder :: "('e \<Rightarrow> int) option \<Rightarrow> 'e entity_state \<Rightarrow> 'e entity_state" where
  "reorder key s =
     (case key of
        None \<Rightarrow> s
      | Some f \<Rightarrow> s\<lparr>ids := sort_key (\<lambda>k. case entities s k of None \<Rightarrow> 0 | Some e \<Rightarrow> f e) (ids s)\<rparr>)"

definition ref_upsertOne ::
  "('e \<Rightarrow> string) \<Rightarrow> ('e \<Rightarrow> 'e \<Rightarrow> 'e) \<Rightarrow> ('e \<Rightarrow> int) option \<Rightarrow> 'e entity_state \<Rightarrow> 'e \<Rightarrow> 'e entity_state"
where
  "ref_upsertOne selectId merge key s e =
     (let k = selectId e
      in reorder key
          \<lparr>ids = (if entities s k = None then ids s @ [k] else ids s),
           entities = (entities s)(k \<mapsto> upserted merge (entities s k) e)\<rparr>)"

definition ref_removeMany :: "'e entity_state \<Rightarrow> string list \<Rightarrow> 'e entity_state" where
  "ref_removeMany s ks =
     \<lparr>ids = filter (\<lambda>k. k \<notin> set ks) (ids s),
      entities = dict_delete_where (\<lambda>k. k \<in> set ks) (entities s)\<rparr>"

definition ref_adapter :: "('e \<Rightarrow> string) \<Rightarrow> ('e \<Rightarrow> 'e \<Rightarrow> 'e) \<Rightarrow> ('e \<Rightarrow> int) option \<Rightarrow> 'e adapter" where
  "ref_adapter selectId merge key =
     \<lparr>upsertOne = ref_upsertOne selectId merge key,
      upsertMany = foldl (ref_upsertOne selectId merge key),
      removeOne = (\<lambda>s k. ref_removeMany s [k]),
      removeMany = ref_removeMany,
      selectById = entities,
      selectAll = (\<lambda>s. List.map_filter (entities s) (ids s))\<rparr>"

lemma ref_adapter_access [simp]:
  "upsertOne (ref_adapter i m k) = ref_upsertOne i m k"
  "upsertMany (ref_adapter i m k) = foldl (ref_upsertOne i m k)"
  "removeOne (ref_adapter i m k) s x = ref_removeMany s [x]"
  "removeMany (ref_adapter i m k) = ref_removeMany"
  "selectById (ref_adapter i m k) = entities"
  "selectAll (ref_adapter i m k) s = List.map_filter (entities s) (ids s)"
  by (simp_all add: ref_adapter_def)

lemma reorder_entities [simp]: "entities (reorder key s) = entities s"
  by (simp add: reorder_def split: option.split)

lemma reorder_ids [simp]:
  "set (ids (reorder key s)) = set (ids s)" "distinct (ids (reorder key s)) = distinct (ids s)"
  by (simp_all add: reorder_def split: option.split)

lemma ref_upsertOne_entities [simp]:
  "entities (ref_upsertOne i m k s e) = (entities s)(i e \<mapsto> upserted m (entities s (i e)) e)"
  by (simp add: ref_upsertOne_def Let_def)

lemma ref_upsertOne_wf:
  assumes "\<And>old e. i (m old e) = i e" "wf_entities i s"
  shows "wf_entities i (ref_upsertOne i m k s e)"
  using assms
  by (auto simp: wf_entities_def ref_upsertOne_def Let_def upserted_def dom_def split: option.splits if_splits)

lemma ref_fold_other:
  "k' \<notin> i ` set es \<Longrightarrow> entities (foldl (ref_upsertOne i m k) s es) k' = entities s k'"
  by (induction es arbitrary: s) auto

lemma ref_fold_dom:
  "dom (entities (foldl (ref_upsertOne i m k) s es)) = dom (entities s) \<union> i ` set es"
  by (induction es arbitrary: s) auto

lemma ref_fold_entities:
  "distinct (map i es) \<Longrightarrow>
     entities (foldl (ref_upsertOne i m k) s es) =
       (\<lambda>k'. case find (\<lambda>e. i e = k') es of
               None \<Rightarrow> entities s k'
             | Some e \<Rightarrow> Some (upserted m (entities s k') e))"
proof (induction es arbitrary: s)
  case Nil
  then show ?case by simp
next
  case (Cons e es)
  have "find (\<lambda>e'. i e' = i e) es = None"
    using Cons.prems by (auto simp: find_None_iff image_iff)
  with Cons show ?case
    by (auto simp: fun_eq_iff split: option.split)
qed

lemma ref_fold_wf:
  assumes "\<And>old e. i (m old e) = i e" "wf_entities i s"
  shows "wf_entities i (foldl (ref_upsertOne i m k) s es)"
  using assms(2)
proof (induction es arbitrary: s)
  case Nil
  then show ?case by simp
next
  case (Cons e es)
  have "wf_entities i (ref_upsertOne i m k s e)"
    by (rule ref_upsertOne_wf [OF assms(1) Cons.prems])
  then show ?case
    using Cons.IH by simp
qed

lemma ref_removeMany_wf: "wf_entities i s \<Longrightarrow> wf_entities i (ref_removeMany s ks)"
  by (auto simp: wf_entities_def ref_removeMany_def dom_dict_delete_where split: if_splits)

theorem ref_adapter_laws:
  assumes "\<And>old e. i (m old e) = i e"
  shows "entity_adapter (ref_adapter i m k) i m"
proof (unfold_locales, goal_cases)
  case 1 show ?case by (rule assms)
next
  case 3 then show ?case using ref_upsertOne_wf [of i m] assms by simp
next
  case 4 then show ?case by (simp add: ref_fold_entities)
next
  case 7 then show ?case using ref_fold_wf [of i m] assms by simp
next
  case 8 show ?case by (auto simp: ref_removeMany_def dict_delete_where_def fun_eq_iff)
next
  case 11 then show ?case by (simp add: ref_removeMany_wf)
qed (simp_all add: ref_fold_dom ref_fold_other ref_removeMany_wf, simp_all add: ref_removeMany_def)

end
