(* ===== verification/Pages.thy ===== *)
theory Pages
  imports Entity_Adapter Federation
begin

text \<open>
  The pagination building blocks of packages/app/store/pagination: the load status of a server's pages,
  pages of identifiers grouped by a listing key, and the two contracts every slice of federated
  entities keeps: how a loaded page is filed (\<open>paged_slice\<close>) and what a reset of one host forgets
  (\<open>resettable_slice\<close>).
\<close>

section \<open>Status\<close>

text \<open>
  The type of the source names the first four; the media slice writes the other two as well.
\<close>

datatype pages_status = Unloaded | Loading | Loaded | Errored | Deleting | Deleted

type_synonym federated_pages_status = "pages_status federated"

definition createFederatedPagesStatus :: federated_pages_status where
  "createFederatedPagesStatus = createFederated Unloaded"

definition someWithStatus ::
  "pages_status \<Rightarrow> federated_pages_status \<Rightarrow> account_or_server list \<Rightarrow> bool" where
  "someWithStatus status pagesStatus servers \<longleftrightarrow>
     (\<exists>server \<in> set servers.
        case aos_server server of
          None \<Rightarrow> False
        | Some s \<Rightarrow> getFederated pagesStatus (FromServer s) = status)"

definition someLoading :: "federated_pages_status \<Rightarrow> account_or_server list \<Rightarrow> bool" where
  "someLoading = someWithStatus Loading"

definition someUnloaded :: "federated_pages_status \<Rightarrow> account_or_server list \<Rightarrow> bool" where
  "someUnloaded = someWithStatus Unloaded"


section \<open>Pages of identifiers\<close>

type_synonym paginated_ids = "nat \<rightharpoonup> string list"
type_synonym 'k grouped_pages = "'k \<rightharpoonup> paginated_ids"

text \<open>\<open>(pages[key] ?? {})[page]\<close>.\<close>

definition page_at :: "('k \<rightharpoonup> (nat \<rightharpoonup> 'v)) \<Rightarrow> 'k \<Rightarrow> nat \<Rightarrow> 'v option" where
  "page_at pages key page = Option.bind (pages key) (\<lambda>ps. ps page)"

text \<open>
  Filing a page: the listing starts afresh when it is missing or when the first page arrives, then the
  page is written.
\<close>

definition put_page :: "'k \<Rightarrow> nat \<Rightarrow> 'v \<Rightarrow> ('k \<rightharpoonup> (nat \<rightharpoonup> 'v)) \<Rightarrow> ('k \<rightharpoonup> (nat \<rightharpoonup> 'v))" where
  "put_page key page v pages =
     (let fresh = (if pages key = None \<or> page = 0 then pages(key \<mapsto> Map.empty) else pages);
          old = nullish (fresh key) Map.empty
      in fresh(key \<mapsto> old(page \<mapsto> v)))"

text \<open>The pages a server holds, and whether one of them is missing there.\<close>

definition server_page ::
  "'k grouped_pages federated \<Rightarrow> rellm_server option \<Rightarrow> 'k \<Rightarrow> nat \<Rightarrow> string list option" where
  "server_page pages server key page = page_at (getFederated pages (FederatedAction server)) key page"

lemma page_at_put_page:
  "page_at (put_page k p v pages) k' p' =
     (if k' = k then (if p' = p then Some v else if p = 0 then None else page_at pages k p')
      else page_at pages k' p')"
  by (auto simp: page_at_def put_page_def Let_def)

lemma page_at_empty [simp]: "page_at Map.empty k p = None"
  by (simp add: page_at_def)


section \<open>The contract of a loaded page\<close>

locale paged_slice =
  fixes pagesOf :: "'s \<Rightarrow> 'k grouped_pages federated"
    and load :: "'r \<Rightarrow> 's \<Rightarrow> 's"
    and serverOf :: "'r \<Rightarrow> rellm_server option"
    and keyOf :: "'r \<Rightarrow> 'k"
    and pageOf :: "'r \<Rightarrow> nat"
    and idsOf :: "'r \<Rightarrow> string list"
  assumes pages_load:
    "pagesOf (load r s) =
       setFederated (pagesOf s) (FederatedAction (serverOf r))
         (put_page (keyOf r) (pageOf r) (idsOf r)
           (getFederated (pagesOf s) (FederatedAction (serverOf r))))"
begin

lemma server_page_load:
  "server_page (pagesOf (load r s)) server k p =
     (if federationKey server = federationKey (serverOf r) \<and> k = keyOf r
      then (if p = pageOf r then Some (idsOf r)
            else if pageOf r = 0 then None else server_page (pagesOf s) (serverOf r) k p)
      else server_page (pagesOf s) server k p)"
proof -
  have h: "serverHost (FederatedAction x) = federationKey x" for x
    by (simp add: serverHost_def)
  show ?thesis
    by (auto simp: server_page_def pages_load page_at_put_page h getFederated_def setFederated_def)
qed

text \<open>A page that was just loaded is there.\<close>

lemma loaded_page: "server_page (pagesOf (load r s)) (serverOf r) (keyOf r) (pageOf r) = Some (idsOf r)"
  by (simp add: server_page_load)

text \<open>Loading touches one listing of one host.\<close>

lemma load_other_host:
  "federationKey server \<noteq> federationKey (serverOf r) \<Longrightarrow>
     server_page (pagesOf (load r s)) server k p = server_page (pagesOf s) server k p"
  by (simp add: server_page_load)

lemma load_other_key:
  "k \<noteq> keyOf r \<Longrightarrow> server_page (pagesOf (load r s)) server k p = server_page (pagesOf s) server k p"
  by (simp add: server_page_load)

text \<open>The first page invalidates the later ones, a later page leaves the others alone.\<close>

lemma load_first_page:
  "pageOf r = 0 \<Longrightarrow> p \<noteq> 0 \<Longrightarrow> server_page (pagesOf (load r s)) (serverOf r) (keyOf r) p = None"
  by (simp add: server_page_load)

lemma load_later_page:
  "pageOf r \<noteq> 0 \<Longrightarrow> p \<noteq> pageOf r \<Longrightarrow>
     server_page (pagesOf (load r s)) (serverOf r) (keyOf r) p = server_page (pagesOf s) (serverOf r) (keyOf r) p"
  by (simp add: server_page_load)

text \<open>Loading pages 0 to n in order leaves exactly these pages, whatever was there before.\<close>

lemma load_in_order:
  assumes "rs \<noteq> []" "\<forall>i < length rs. pageOf (rs ! i) = i \<and> keyOf (rs ! i) = k \<and>
      federationKey (serverOf (rs ! i)) = federationKey server"
  shows "server_page (pagesOf (foldl (\<lambda>s r. load r s) s rs)) server k p =
    (if p < length rs then Some (idsOf (rs ! p)) else None)"
  using assms
proof (induction rs arbitrary: p rule: rev_induct)
  case Nil
  then show ?case by simp
next
  case (snoc r rs)
  have r: "pageOf r = length rs" "keyOf r = k" "federationKey (serverOf r) = federationKey server"
    using snoc.prems(2) by (auto simp: nth_append)
  have sp: "server_page f (serverOf r) k q = server_page f server k q" for f q
    using r(3) by (simp add: server_page_def getFederated_def serverHost_def)
  show ?case
  proof (cases "rs = []")
    case True
    then show ?thesis
      using r by (auto simp: server_page_load)
  next
    case False
    have earlier: "pageOf (rs ! i) = i \<and> keyOf (rs ! i) = k \<and>
        federationKey (serverOf (rs ! i)) = federationKey server" if "i < length rs" for i
      using snoc.prems(2) [rule_format, of i] that by (simp add: nth_append)
    show ?thesis
      using snoc.IH [OF False] earlier r False
      by (auto simp: server_page_load sp nth_append)
  qed
qed

end


section \<open>The contract of a reset\<close>

locale resettable_slice =
  fixes reset :: "string option \<Rightarrow> 's \<Rightarrow> 's"
    and wf :: "'s \<Rightarrow> bool"
    and stored :: "'s \<Rightarrow> string \<rightharpoonup> 'e"
    and pagesOf :: "'s \<Rightarrow> 'p federated"
    and statusOf :: "'s \<Rightarrow> federated_pages_status"
  assumes stored_reset:
      "wf s \<Longrightarrow> h \<noteq> [] \<Longrightarrow> stored (reset (Some h) s) = dict_delete_where (id_on_host h) (stored s)"
    and pages_reset: "h \<noteq> [] \<Longrightarrow> pagesOf (reset (Some h) s) = deleteFederated (pagesOf s) h"
    and status_reset: "h \<noteq> [] \<Longrightarrow> statusOf (reset (Some h) s) = deleteFederated (statusOf s) h"
    and wf_reset: "wf s \<Longrightarrow> wf (reset hst s)"
    and reset_nothing: "reset None s = s" "reset (Some []) s = s"
begin

lemma reset_forgets:
  "wf s \<Longrightarrow> h \<noteq> [] \<Longrightarrow> id_on_host h k \<Longrightarrow> stored (reset (Some h) s) k = None"
  by (simp add: stored_reset)

lemma reset_keeps:
  "wf s \<Longrightarrow> \<not> id_on_host h k \<Longrightarrow> stored (reset (Some h) s) k = stored s k"
  by (cases "h = []") (simp_all add: stored_reset reset_nothing)

lemma reset_pages_default:
  "h \<noteq> [] \<Longrightarrow> getFederated (pagesOf (reset (Some h) s)) (FromHost h) = defaultValue (pagesOf s)"
  by (simp add: pages_reset)

lemma reset_pages_other:
  "h' \<noteq> h \<Longrightarrow> getFederated (pagesOf (reset (Some h) s)) (FromHost h') = getFederated (pagesOf s) (FromHost h')"
  by (cases "h = []") (simp_all add: pages_reset reset_nothing)

lemma reset_commute:
  assumes "wf s"
  shows "stored (reset a (reset b s)) = stored (reset b (reset a s))"
proof -
  have eff: "stored (reset x s') = (case x of None \<Rightarrow> stored s' | Some h \<Rightarrow>
      if h = [] then stored s' else dict_delete_where (id_on_host h) (stored s'))" if "wf s'" for x s'
    using that by (auto simp: stored_reset reset_nothing split: option.split)
  show ?thesis
    using assms wf_reset [OF assms] eff
    by (auto simp: dict_delete_where_commute split: option.split)
qed

lemma reset_idem:
  assumes "wf s"
  shows "stored (reset a (reset a s)) = stored (reset a s)"
  using assms wf_reset [OF assms]
  by (cases a; cases "a = Some []") (auto simp: stored_reset reset_nothing dict_delete_where_idem)

end

end
