(* ===== verification/Media.thy ===== *)
theory Media
  imports Pages
begin

text \<open>
  The media slice (store/modules/media_state.ts): the media a client has seen, the pages of media per
  owner, and its nine asynchronous outcomes.  Requests are the thunk arguments the reducers read.
\<close>

section \<open>State and requests\<close>

type_synonym federated_media = "media federated_entity"

record media_state =
  media_pagesStatus :: federated_pages_status
  media_entities :: "federated_media entity_state"
  userMediaPages :: "string grouped_pages federated"
  failedMediaIds :: "string list"

definition initial_media :: media_state where
  "initial_media =
     \<lparr>media_pagesStatus = createFederatedPagesStatus,
      media_entities = empty_entities,
      userMediaPages = createFederated Map.empty,
      failedMediaIds = []\<rparr>"

abbreviation media_key :: "federated_media \<Rightarrow> string" where
  "media_key \<equiv> federatedId media_id"

record load_media_request =
  lmr_server :: "rellm_server option"
  lmr_userId :: "string option"
  lmr_page :: "nat option"

record media_request =
  mr_server :: "rellm_server option"
  mr_id :: string


section \<open>Reducers\<close>

definition upsertMedia :: "federated_media adapter \<Rightarrow> federated_media \<Rightarrow> media_state \<Rightarrow> media_state" where
  "upsertMedia A m s = s\<lparr>media_entities := upsertOne A (media_entities s) m\<rparr>"

definition removeMedia :: "federated_media adapter \<Rightarrow> string \<Rightarrow> media_state \<Rightarrow> media_state" where
  "removeMedia A i s = s\<lparr>media_entities := removeOne A (media_entities s) i\<rparr>"

definition resetMedia :: "federated_media adapter \<Rightarrow> string option \<Rightarrow> media_state \<Rightarrow> media_state" where
  "resetMedia A payload s =
     (case payload of
        None \<Rightarrow> s
      | Some h \<Rightarrow>
         if h = [] then s
         else
           (let mediaIdsToRemove = filter (id_on_host h) (ids (media_entities s))
            in s\<lparr>media_entities := removeMany A (media_entities s) mediaIdsToRemove,
                 failedMediaIds := filter (\<lambda>i. \<not> id_on_host h i) (failedMediaIds s),
                 userMediaPages := deleteFederated (userMediaPages s) h,
                 media_pagesStatus := deleteFederated (media_pagesStatus s) h\<rparr>))"

definition loadMediaPage_pending :: "load_media_request \<Rightarrow> media_state \<Rightarrow> media_state" where
  "loadMediaPage_pending req s =
     s\<lparr>media_pagesStatus := setFederated (media_pagesStatus s) (FederatedAction (lmr_server req)) Loading\<rparr>"

text \<open>An owner that is \<open>undefined\<close> becomes the property name \<open>"undefined"\<close>.\<close>

definition loadMediaPage_fulfilled ::
  "federated_media adapter \<Rightarrow> load_media_request \<Rightarrow> media list \<Rightarrow> media_state \<Rightarrow> media_state" where
  "loadMediaPage_fulfilled A req response s =
     (let action = FederatedAction (lmr_server req);
          federatedMedia = federatedEntities response action;
          mediaIds = map media_key federatedMedia;
          page = nullish (lmr_page req) 0;
          userId = nullish (lmr_userId req) ''undefined'';
          serverUserMediaPages = put_page userId page mediaIds (getFederated (userMediaPages s) action)
      in s\<lparr>media_pagesStatus := setFederated (media_pagesStatus s) action Loaded,
           media_entities := upsertMany A (media_entities s) federatedMedia,
           userMediaPages := setFederated (userMediaPages s) action serverUserMediaPages\<rparr>)"

definition loadMediaPage_rejected :: "load_media_request \<Rightarrow> media_state \<Rightarrow> media_state" where
  "loadMediaPage_rejected req s =
     s\<lparr>media_pagesStatus := setFederated (media_pagesStatus s) (FederatedAction (lmr_server req)) Errored\<rparr>"

definition loadMedia_pending :: "media_request \<Rightarrow> media_state \<Rightarrow> media_state" where
  "loadMedia_pending req s =
     s\<lparr>media_pagesStatus := setFederated (media_pagesStatus s) (FederatedAction (mr_server req)) Loading\<rparr>"

definition loadMedia_fulfilled ::
  "federated_media adapter \<Rightarrow> media_request \<Rightarrow> media \<Rightarrow> media_state \<Rightarrow> media_state" where
  "loadMedia_fulfilled A req payload s =
     s\<lparr>media_pagesStatus := setFederated (media_pagesStatus s) (FederatedAction (mr_server req)) Loaded,
       media_entities := upsertOne A (media_entities s) (federatedPayload (mr_server req) payload)\<rparr>"

definition loadMedia_rejected :: "media_request \<Rightarrow> media_state \<Rightarrow> media_state" where
  "loadMedia_rejected req s =
     s\<lparr>media_pagesStatus := setFederated (media_pagesStatus s) (FederatedAction (mr_server req)) Errored,
       failedMediaIds := failedMediaIds s @ [mr_id req]\<rparr>"

definition deleteMedia_pending :: "media_request \<Rightarrow> media_state \<Rightarrow> media_state" where
  "deleteMedia_pending req s =
     s\<lparr>media_pagesStatus := setFederated (media_pagesStatus s) (FederatedAction (mr_server req)) Deleting\<rparr>"

text \<open>The pages are filtered by the identifier of the request, which carries no host.\<close>

definition deleteMedia_fulfilled ::
  "federated_media adapter \<Rightarrow> media_request \<Rightarrow> media_state \<Rightarrow> media_state" where
  "deleteMedia_fulfilled A req s =
     (let action = FederatedAction (mr_server req);
          filteredPages =
            dict_map (dict_map (filter (\<lambda>i. i \<noteq> mr_id req))) (getFederated (userMediaPages s) action)
      in s\<lparr>media_pagesStatus := setFederated (media_pagesStatus s) action Deleted,
           media_entities := removeOne A (media_entities s) (federateId (mr_id req) action),
           userMediaPages := setFederated (userMediaPages s) action filteredPages\<rparr>)"

definition deleteMedia_rejected :: "media_request \<Rightarrow> media_state \<Rightarrow> media_state" where
  "deleteMedia_rejected req s =
     s\<lparr>media_pagesStatus := setFederated (media_pagesStatus s) (FederatedAction (mr_server req)) Errored,
       failedMediaIds := failedMediaIds s @ [mr_id req]\<rparr>"

datatype media_action =
    UpsertMedia federated_media
  | RemoveMedia string
  | ResetMedia "string option"
  | LoadMediaPage_pending load_media_request
  | LoadMediaPage_fulfilled load_media_request "media list"
  | LoadMediaPage_rejected load_media_request
  | LoadMedia_pending media_request
  | LoadMedia_fulfilled media_request media
  | LoadMedia_rejected media_request
  | DeleteMedia_pending media_request
  | DeleteMedia_fulfilled media_request
  | DeleteMedia_rejected media_request

fun media_reducer :: "federated_media adapter \<Rightarrow> media_action \<Rightarrow> media_state \<Rightarrow> media_state" where
  "media_reducer A (UpsertMedia m) s = upsertMedia A m s"
| "media_reducer A (RemoveMedia i) s = removeMedia A i s"
| "media_reducer A (ResetMedia h) s = resetMedia A h s"
| "media_reducer A (LoadMediaPage_pending r) s = loadMediaPage_pending r s"
| "media_reducer A (LoadMediaPage_fulfilled r ms) s = loadMediaPage_fulfilled A r ms s"
| "media_reducer A (LoadMediaPage_rejected r) s = loadMediaPage_rejected r s"
| "media_reducer A (LoadMedia_pending r) s = loadMedia_pending r s"
| "media_reducer A (LoadMedia_fulfilled r m) s = loadMedia_fulfilled A r m s"
| "media_reducer A (LoadMedia_rejected r) s = loadMedia_rejected r s"
| "media_reducer A (DeleteMedia_pending r) s = deleteMedia_pending r s"
| "media_reducer A (DeleteMedia_fulfilled r) s = deleteMedia_fulfilled A r s"
| "media_reducer A (DeleteMedia_rejected r) s = deleteMedia_rejected r s"

lemmas media_defs =
  upsertMedia_def removeMedia_def resetMedia_def loadMediaPage_pending_def loadMediaPage_fulfilled_def
  loadMediaPage_rejected_def loadMedia_pending_def loadMedia_fulfilled_def loadMedia_rejected_def
  deleteMedia_pending_def deleteMedia_fulfilled_def deleteMedia_rejected_def


section \<open>Invariant and interfaces\<close>

definition media_wf :: "media_state \<Rightarrow> bool" where
  "media_wf s \<longleftrightarrow> wf_entities media_key (media_entities s)"

lemma initial_media_wf [simp]: "media_wf initial_media"
  by (simp add: media_wf_def initial_media_def)

interpretation media_ref: entity_adapter "ref_adapter media_key replace_all key" media_key replace_all
  for key
  by (rule ref_adapter_laws) (simp add: replace_all_def)

lemma media_reducer_wf:
  assumes "entity_adapter A media_key replace_all" "media_wf s"
  shows "media_wf (media_reducer A a s)"
  using assms(2) adapter_wf [OF assms(1)]
  by (cases a) (simp_all add: media_defs media_wf_def Let_def split: option.split)

interpretation media_pages: paged_slice userMediaPages
  "\<lambda>(req, response). loadMediaPage_fulfilled A req response" "\<lambda>(req, response). lmr_server req"
  "\<lambda>(req, response). nullish (lmr_userId req) ''undefined''" "\<lambda>(req, response). nullish (lmr_page req) 0"
  "\<lambda>(req, response). map media_key (federatedEntities response (FederatedAction (lmr_server req)))"
  for A
  by unfold_locales (auto simp: loadMediaPage_fulfilled_def Let_def)

lemma media_resettable:
  assumes "entity_adapter A media_key replace_all"
  shows "resettable_slice (resetMedia A) media_wf (\<lambda>s. entities (media_entities s)) userMediaPages
    media_pagesStatus"
  by unfold_locales
    (auto simp: resetMedia_def media_wf_def Let_def removeMany_reset [OF assms] adapter_wf [OF assms]
      split: option.split)

interpretation media_reset: resettable_slice
  "resetMedia (ref_adapter media_key replace_all key)" media_wf "\<lambda>s. entities (media_entities s)"
  userMediaPages media_pagesStatus for key
  by (rule media_resettable, rule media_ref.entity_adapter_axioms)


section \<open>Properties\<close>

text \<open>
  Deleting a media item by its plain identifier removes it from the store, but the
  owner's pages, which hold identifiers with a host, keep listing it.
\<close>

theorem media_delete_dangling:
  assumes "entity_adapter A media_key replace_all"
    and "CHR ''@'' \<notin> set (mr_id req)"
    and "\<forall>k p is i. server_page (userMediaPages s) (mr_server req) k p = Some is \<longrightarrow> i \<in> set is \<longrightarrow> CHR ''@'' \<in> set i"
  shows "entities (media_entities (deleteMedia_fulfilled A req s))
      (mk_federated_id (mr_id req) (federationKey (mr_server req))) = None \<and>
    server_page (userMediaPages (deleteMedia_fulfilled A req s)) (mr_server req) k p =
      server_page (userMediaPages s) (mr_server req) k p"
proof -
  let ?h = "FederatedAction (mr_server req)"
  have "page_at (dict_map (dict_map (filter (\<lambda>i. i \<noteq> mr_id req))) (getFederated (userMediaPages s) ?h)) k p =
      map_option (filter (\<lambda>i. i \<noteq> mr_id req)) (page_at (getFederated (userMediaPages s) ?h) k p)"
    by (cases "getFederated (userMediaPages s) ?h k") (simp_all add: page_at_def)
  also have "\<dots> = page_at (getFederated (userMediaPages s) ?h) k p"
  proof (cases "page_at (getFederated (userMediaPages s) ?h) k p")
    case (Some l)
    then have "\<forall>i \<in> set l. i \<noteq> mr_id req"
      using assms(2,3) unfolding server_page_def by blast
    then show ?thesis using Some by simp
  qed simp
  finally show ?thesis
    using adapter_entities [OF assms(1)] assms(2)
    by (simp add: deleteMedia_fulfilled_def Let_def server_page_def federateId_def serverHost_def)
qed

theorem media_delete_dangling_witness:
  "let req = \<lparr>mr_server = None, mr_id = ''m''\<rparr>;
       s = loadMediaPage_fulfilled (ref_adapter media_key replace_all None)
             \<lparr>lmr_server = None, lmr_userId = Some ''u'', lmr_page = None\<rparr>
             [\<lparr>media_id = ''m'', media_sizes = [], media_createdAt = None, media_rest = []\<rparr>] initial_media
   in server_page (userMediaPages (deleteMedia_fulfilled (ref_adapter media_key replace_all None) req s))
        None ''u'' 0 = Some [''m@default'']"
proof -
  let ?A = "ref_adapter media_key replace_all None"
  let ?r = "\<lparr>lmr_server = None, lmr_userId = Some ''u'', lmr_page = None\<rparr>"
  let ?ms = "[\<lparr>media_id = ''m'', media_sizes = [], media_createdAt = None, media_rest = []\<rparr>]"
  let ?s = "loadMediaPage_fulfilled ?A ?r ?ms initial_media"
  have page: "server_page (userMediaPages ?s) None k p =
      (if k = ''u'' \<and> p = 0 then Some [''m@default''] else None)" for k p
    using media_pages.server_page_load [of ?A "(?r, ?ms)" initial_media None k p]
    by (simp add: server_page_def initial_media_def federatedEntities_def federatedId_def
        mk_federated_id_def federationKey_def)
  show ?thesis
    using media_delete_dangling [OF media_ref.entity_adapter_axioms,
        of "\<lparr>mr_server = None, mr_id = ''m''\<rparr>" ?s None "''u''" 0] page
    by (simp add: Let_def)
qed

text \<open>
  Every reducer of the media slice keeps its table well formed: identifiers are listed
  once, each under the key built from its own identifier and host.
\<close>

theorem media_invariant:
  assumes "entity_adapter A media_key replace_all"
  shows "wf_entities media_key (media_entities (foldl (\<lambda>s a. media_reducer A a s) initial_media as))"
  using media_reducer_wf [OF assms]
  by (induction as rule: rev_induct) (auto simp: media_wf_def [symmetric])

theorem media_invariant_witness:
  "wf_entities media_key (media_entities
     (foldl (\<lambda>s a. media_reducer (ref_adapter media_key replace_all None) a s) initial_media
       [LoadMedia_fulfilled \<lparr>mr_server = None, mr_id = ''m''\<rparr>
          \<lparr>media_id = ''m'', media_sizes = [], media_createdAt = None, media_rest = []\<rparr>,
        ResetMedia (Some ''default'')]))"
  by (rule media_invariant, rule media_ref.entity_adapter_axioms)

end
