(* ===== verification/Identified_Events.thy ===== *)
theory Identified_Events
  imports Pages
begin

text \<open>
  The boundary of store/modules/event_actions.ts: an event or occasion of the protocol has no
  identifier of its own, so the client stamps the identifier of its post on it.  An event without a
  post cannot be stamped; \<open>identifyEvent\<close> fails then, and an identified event therefore always carries
  its post.  The second part is the key under which filtered event pages are filed
  (\<open>serializeTimeFilter\<close> of events_state.ts).
\<close>

section \<open>Stamping\<close>

record ident_occasion =
  io_id :: string
  io_post :: post
  io_startsAt :: "string option"
  io_endsAt :: "string option"
  io_eventId :: string
  io_rest :: string

record ident_event =
  ie_id :: string
  ie_post :: post
  ie_occasions :: "ident_occasion list"
  ie_rest :: string

definition identifyOccasion :: "occasion \<Rightarrow> ident_occasion result" where
  "identifyOccasion i =
     bind_result (deref (o_post i)) (\<lambda>p.
       Inr \<lparr>io_id = post_id p, io_post = p, io_startsAt = o_startsAt i, io_endsAt = o_endsAt i,
            io_eventId = o_eventId i, io_rest = o_rest i\<rparr>)"

fun map_result :: "('a \<Rightarrow> 'b result) \<Rightarrow> 'a list \<Rightarrow> 'b list result" where
  "map_result f [] = Inr []"
| "map_result f (x # xs) = bind_result (f x) (\<lambda>y. bind_result (map_result f xs) (\<lambda>ys. Inr (y # ys)))"

definition identifyEvent :: "event \<Rightarrow> ident_event result" where
  "identifyEvent e =
     bind_result (deref (e_post e)) (\<lambda>p.
     bind_result (map_result identifyOccasion (e_occasions e)) (\<lambda>os.
       Inr \<lparr>ie_id = post_id p, ie_post = p, ie_occasions = os, ie_rest = e_rest e\<rparr>))"

definition identifyGetEventsResponse :: "event list \<Rightarrow> ident_event list result" where
  "identifyGetEventsResponse events = map_result identifyEvent events"

lemma map_result_eq_Inr:
  "map_result f xs = Inr ys \<longleftrightarrow> list_all2 (\<lambda>x y. f x = Inr y) xs ys"
  by (induction xs arbitrary: ys) (auto simp: bind_result_eq_Inr list_all2_Cons1)

lemma map_result_total:
  "(\<exists>ys. map_result f xs = Inr ys) \<longleftrightarrow> (\<forall>x \<in> set xs. \<exists>y. f x = Inr y)"
  by (induction xs) (auto simp: bind_result_eq_Inr)

lemma identifyOccasion_total: "(\<exists>j. identifyOccasion i = Inr j) \<longleftrightarrow> o_post i \<noteq> None"
  by (cases "o_post i") (simp_all add: identifyOccasion_def)

lemma identifyEvent_total:
  "(\<exists>j. identifyEvent e = Inr j) \<longleftrightarrow> e_post e \<noteq> None \<and> (\<forall>i \<in> set (e_occasions e). o_post i \<noteq> None)"
  using map_result_total [of identifyOccasion "e_occasions e"]
  by (auto simp: identifyEvent_def bind_result_eq_Inr deref_eq_Inr identifyOccasion_total)

text \<open>Every identifier in an identified event is the identifier of the post beside it.\<close>

definition stamped :: "ident_event \<Rightarrow> bool" where
  "stamped e \<longleftrightarrow> ie_id e = post_id (ie_post e) \<and>
     (\<forall>i \<in> set (ie_occasions e). io_id i = post_id (io_post i))"

lemma identifyOccasion_stamped: "identifyOccasion i = Inr j \<Longrightarrow> io_id j = post_id (io_post j)"
  by (auto simp: identifyOccasion_def bind_result_eq_Inr deref_eq_Inr)

lemma identifyEvent_stamped: "identifyEvent e = Inr j \<Longrightarrow> stamped j"
  by (auto simp: identifyEvent_def stamped_def bind_result_eq_Inr deref_eq_Inr map_result_eq_Inr
      list_all2_conv_all_nth in_set_conv_nth) (blast intro: identifyOccasion_stamped)

lemma identifyGetEventsResponse_stamped:
  "identifyGetEventsResponse es = Inr js \<Longrightarrow> j \<in> set js \<Longrightarrow> stamped j"
  by (auto simp: identifyGetEventsResponse_def map_result_eq_Inr list_all2_conv_all_nth in_set_conv_nth
      identifyEvent_stamped)


section \<open>The key of a time filter\<close>

text \<open>
  \<open>JSON.stringify\<close> of the object \<open>TimeFilter.toJSON\<close> builds: the set bounds in a fixed order, each as a
  quoted string.  \<open>json_quote\<close> escapes what JSON must escape; the other control characters are written
  as \<open>\u00xx\<close>.
\<close>

definition hex_digit :: "nat \<Rightarrow> char" where
  "hex_digit n = ''0123456789abcdef'' ! (n mod 16)"

definition escape_tail :: "nat \<Rightarrow> string" where
  "escape_tail n =
     (if n = 34 then [CHR 34]
      else if n = 92 then [CHR 92]
      else if n = 8 then ''b''
      else if n = 9 then ''t''
      else if n = 10 then ''n''
      else if n = 12 then ''f''
      else if n = 13 then ''r''
      else if n < 32 then [CHR ''u'', CHR ''0'', CHR ''0'', hex_digit (n div 16), hex_digit n]
      else [])"

definition json_escape_char :: "char \<Rightarrow> string" where
  "json_escape_char c = (case escape_tail (of_char c) of [] \<Rightarrow> [c] | t \<Rightarrow> CHR 92 # t)"

definition json_quote :: "string \<Rightarrow> string" where
  "json_quote s = CHR 34 # concat (map json_escape_char s) @ [CHR 34]"

definition json_member :: "string \<times> string \<Rightarrow> string" where
  "json_member m = json_quote (fst m) @ '':'' @ json_quote (snd m)"

fun join_comma :: "string list \<Rightarrow> string" where
  "join_comma [] = []"
| "join_comma [x] = x"
| "join_comma (x # y # zs) = x @ '','' @ join_comma (y # zs)"

definition json_object :: "(string \<times> string) list \<Rightarrow> string" where
  "json_object ms = ''{'' @ join_comma (map json_member ms) @ ''}''"

definition opt_member :: "string \<Rightarrow> string option \<Rightarrow> (string \<times> string) list" where
  "opt_member name v = (case v of None \<Rightarrow> [] | Some x \<Rightarrow> [(name, x)])"

definition timeFilter_toJSON :: "time_filter \<Rightarrow> (string \<times> string) list" where
  "timeFilter_toJSON f =
     opt_member ''startsAfter'' (startsAfter f) @ opt_member ''endsAfter'' (endsAfter f)
     @ opt_member ''startsBefore'' (startsBefore f) @ opt_member ''endsBefore'' (endsBefore f)"

definition unfilteredTime :: string where
  "unfilteredTime = ''unfiltered''"

definition serializeTimeFilter :: "time_filter option \<Rightarrow> string" where
  "serializeTimeFilter filtr =
     (case filtr of
        None \<Rightarrow> unfilteredTime
      | Some f \<Rightarrow> json_object (timeFilter_toJSON f))"

lemma hex_digit_eq: "hex_digit a = hex_digit b \<longleftrightarrow> a mod 16 = b mod 16"
proof -
  have "distinct ''0123456789abcdef''" by simp
  then show ?thesis
    unfolding hex_digit_def by (subst nth_eq_iff_index_eq) simp_all
qed

text \<open>The escapes form a prefix code that never starts with a quote.\<close>

definition short_escapes :: "(char \<times> nat) list" where
  "short_escapes =
     [(CHR 34, 34), (CHR 92, 92), (CHR ''b'', 8), (CHR ''t'', 9), (CHR ''n'', 10), (CHR ''f'', 12),
      (CHR ''r'', 13)]"

lemma escape_tail_cases:
  assumes "escape_tail n \<noteq> []"
  obtains (short) c where "escape_tail n = [c]" "c \<noteq> CHR ''u''" "map_of short_escapes c = Some n"
  | (long) "n < 32"
      "escape_tail n = [CHR ''u'', CHR ''0'', CHR ''0'', hex_digit (n div 16), hex_digit n]"
proof (cases "n \<in> {34, 92, 8, 9, 10, 12, 13}")
  case True
  then have "\<exists>c. escape_tail n = [c] \<and> c \<noteq> CHR ''u'' \<and> map_of short_escapes c = Some n"
    by (auto simp: escape_tail_def short_escapes_def)
  then show ?thesis using short by blast
next
  case False
  then have "n < 32" "escape_tail n = [CHR ''u'', CHR ''0'', CHR ''0'', hex_digit (n div 16), hex_digit n]"
    using assms by (auto simp: escape_tail_def split: if_splits)
  then show ?thesis by (rule long)
qed

lemma escape_tail_cancel:
  assumes "escape_tail m @ X = escape_tail n @ Y" "escape_tail m \<noteq> []" "escape_tail n \<noteq> []"
  shows "m = n \<and> X = Y"
proof -
  have low: "a = b" if "a < 32" "b < 32" "a div 16 mod 16 = b div 16 mod 16" "a mod 16 = b mod 16"
    for a b :: nat
  proof -
    have "a div 16 = b div 16" using that(1-3) by simp
    then show ?thesis using that(4) by (metis div_mult_mod_eq)
  qed
  from assms(2) show ?thesis
  proof (cases rule: escape_tail_cases)
    case (short c)
    note m = this
    from assms(3) show ?thesis
      by (cases rule: escape_tail_cases) (use assms(1) m in auto)
  next
    case long
    note m = this
    from assms(3) show ?thesis
    proof (cases rule: escape_tail_cases)
      case (short c)
      then show ?thesis using assms(1) m by auto
    next
      case long
      then show ?thesis
        using assms(1) m low [of m n] by (auto simp: hex_digit_eq)
    qed
  qed
qed

lemma escape_plain: "escape_tail (of_char c) = [] \<Longrightarrow> c \<noteq> CHR 92 \<and> c \<noteq> CHR 34"
  by (auto simp: escape_tail_def)

lemma escape_cancel: "json_escape_char c @ X = json_escape_char d @ Y \<longleftrightarrow> c = d \<and> X = Y"
proof
  assume eq: "json_escape_char c @ X = json_escape_char d @ Y"
  show "c = d \<and> X = Y"
  proof (cases "escape_tail (of_char c) = [] \<or> escape_tail (of_char d) = []")
    case True
    then show ?thesis
      using eq escape_plain [of c] escape_plain [of d]
      by (auto simp: json_escape_char_def split: list.splits)
  next
    case False
    then have "escape_tail (of_char c) @ X = escape_tail (of_char d) @ Y"
      using eq by (auto simp: json_escape_char_def split: list.splits)
    then show ?thesis
      using escape_tail_cancel [of "of_char c" X "of_char d" Y] False by auto
  qed
qed simp

lemma escape_not_quote: "json_escape_char c @ X \<noteq> CHR 34 # Y"
  using escape_plain [of c] by (auto simp: json_escape_char_def split: list.splits)

lemma quoted_cancel:
  "concat (map json_escape_char s) @ CHR 34 # X = concat (map json_escape_char t) @ CHR 34 # Y \<longleftrightarrow>
     s = t \<and> X = Y"
proof (induction s arbitrary: t)
  case Nil
  then show ?case
    using escape_not_quote [symmetric] by (cases t) auto
next
  case (Cons c s)
  then show ?case
    using escape_not_quote by (cases t) (auto simp: escape_cancel)
qed

lemma json_quote_cancel: "json_quote s @ X = json_quote t @ Y \<longleftrightarrow> s = t \<and> X = Y"
  by (simp add: json_quote_def quoted_cancel)

lemma json_member_cancel: "json_member m @ X = json_member n @ Y \<longleftrightarrow> m = n \<and> X = Y"
  by (auto simp: json_member_def json_quote_cancel prod_eq_iff)

lemmas json_member_cancels =
  json_member_cancel json_member_cancel [where X = "[]", simplified]
  json_member_cancel [where Y = "[]", simplified] json_member_cancel [where X = "[]" and Y = "[]", simplified]

lemma json_member_start: "json_member m @ X \<noteq> CHR ''}'' # Y" "json_member m \<noteq> []"
  by (simp_all add: json_member_def json_quote_def)

lemma join_members_inj:
  "join_comma (map json_member ms) @ ''}'' = join_comma (map json_member ns) @ ''}'' \<Longrightarrow> ms = ns"
proof (induction ms arbitrary: ns rule: induct_list012)
  case 1
  then show ?case
    using json_member_start json_member_start [symmetric] by (cases ns; cases "tl ns") auto
next
  case (2 m)
  then show ?case
    using json_member_start by (cases ns; cases "tl ns") (auto simp: json_member_cancels)
next
  case (3 m m' ms)
  show ?case
    using json_member_start "3.prems" "3.IH"(2) [of "tl ns"] by (cases ns; cases "tl ns") (auto simp: json_member_cancels)
qed

lemma json_object_inj: "json_object ms = json_object ns \<longleftrightarrow> ms = ns"
  using join_members_inj by (auto simp: json_object_def)

lemma timeFilter_toJSON_lookup:
  "map_of (timeFilter_toJSON f) ''startsAfter'' = startsAfter f"
  "map_of (timeFilter_toJSON f) ''endsAfter'' = endsAfter f"
  "map_of (timeFilter_toJSON f) ''startsBefore'' = startsBefore f"
  "map_of (timeFilter_toJSON f) ''endsBefore'' = endsBefore f"
  by (simp_all add: timeFilter_toJSON_def opt_member_def map_add_def split: option.split)

lemma timeFilter_toJSON_inj: "timeFilter_toJSON f = timeFilter_toJSON g \<longleftrightarrow> f = (g :: time_filter)"
proof
  assume "timeFilter_toJSON f = timeFilter_toJSON g"
  then show "f = g"
    using timeFilter_toJSON_lookup [of f] timeFilter_toJSON_lookup [of g]
    by (intro time_filter.equality) auto
qed simp


lemma serializeTimeFilter_inj: "serializeTimeFilter f = serializeTimeFilter g \<longleftrightarrow> f = g"
proof -
  have "json_object ms \<noteq> unfilteredTime" "unfilteredTime \<noteq> json_object ms" for ms
    by (simp_all add: json_object_def unfilteredTime_def)
  then show ?thesis
    by (cases f; cases g)
      (auto simp: serializeTimeFilter_def json_object_inj timeFilter_toJSON_inj)
qed


section \<open>Properties\<close>

text \<open>
  Two filters share a page key only when they are the same filter; the
  key of the unfiltered listing is shared with no filter.
\<close>

theorem serializeTimeFilter_injective:
  "serializeTimeFilter f = serializeTimeFilter g \<longleftrightarrow> f = g"
  by (rule serializeTimeFilter_inj)

text \<open>
  Stamping succeeds exactly when the event and all its occasions have posts, and
  then every identifier is the identifier of the post beside it.
\<close>

theorem identifyEvent_spec:
  "(case identifyEvent e of
      Inl err \<Rightarrow> err = TypeError \<and> (e_post e = None \<or> (\<exists>i \<in> set (e_occasions e). o_post i = None))
    | Inr j \<Rightarrow> e_post e = Some (ie_post j) \<and> map o_post (e_occasions e) = map (Some \<circ> io_post) (ie_occasions j)
        \<and> stamped j)"
proof (cases "identifyEvent e")
  case (Inl err)
  have only: "map_result identifyOccasion os = Inl x \<Longrightarrow> x = TypeError" for os x
    by (induction os) (auto simp: identifyOccasion_def deref_def bind_result_def split: option.splits sum.splits)
  have "err = TypeError"
    using Inl only by (auto simp: identifyEvent_def deref_def bind_result_def split: option.splits sum.splits)
  then show ?thesis
    using Inl identifyEvent_total [of e] by auto
next
  case (Inr j)
  have "map o_post os = map (Some \<circ> io_post) js" if "map_result identifyOccasion os = Inr js" for os js
    using that
    by (induction os arbitrary: js)
      (auto simp: bind_result_eq_Inr identifyOccasion_def deref_eq_Inr)
  then show ?thesis
    using Inr identifyEvent_stamped [OF Inr]
    by (auto simp: identifyEvent_def bind_result_eq_Inr deref_eq_Inr)
qed

end
