(* ===== verification/Reply_Trees.thy ===== *)
theory Reply_Trees
  imports Federation
begin

text \<open>
  The reply trees of posts: the walk along a path of post identifiers, the insertion of a reply at its
  end (\<open>replyToPost\<close> of store/modules/posts_state.ts) and the replacement of the replies there
  (\<open>loadPostReplies\<close>).  Both handlers copy the posts along the path and write the copy back, so the
  functions are persistent updates of the tree.
\<close>

section \<open>Walking a path\<close>

text \<open>\<open>posts.find(p => p.id === i)\<close>.\<close>

definition find_post :: "string \<Rightarrow> post list \<Rightarrow> post option" where
  "find_post i ps = find (\<lambda>p. post_id p = i) ps"

fun post_at :: "string list \<Rightarrow> post \<Rightarrow> post option" where
  "post_at [] p = Some p"
| "post_at (i # ks) p = Option.bind (find_post i (replies p)) (post_at ks)"

text \<open>The first post with an identifier is replaced by what \<open>f\<close> makes of it.\<close>

fun update_post :: "string \<Rightarrow> (post \<Rightarrow> post option) \<Rightarrow> post list \<Rightarrow> post list option" where
  "update_post i f [] = None"
| "update_post i f (p # ps) =
     (if post_id p = i then map_option (\<lambda>q. q # ps) (f p)
      else map_option (\<lambda>qs. p # qs) (update_post i f ps))"

lemma find_post_simps [simp]:
  "find_post i [] = None"
  "find_post i (p # ps) = (if post_id p = i then Some p else find_post i ps)"
  by (simp_all add: find_post_def)

lemma find_post_id: "find_post i ps = Some p \<Longrightarrow> post_id p = i"
  by (induction ps) (auto split: if_splits)

lemma update_post_defined:
  "update_post i f ps = None \<longleftrightarrow> (case find_post i ps of None \<Rightarrow> True | Some p \<Rightarrow> f p = None)"
  by (induction ps) (auto split: option.split)

lemma update_post_find:
  assumes "update_post i f ps = Some qs" "\<And>p q. f p = Some q \<Longrightarrow> post_id q = post_id p"
  shows "find_post j qs = (if j = i then Option.bind (find_post i ps) f else find_post j ps)"
  using assms(1)
proof (induction ps arbitrary: qs)
  case Nil
  then show ?case by simp
next
  case (Cons p ps)
  show ?case
  proof (cases "post_id p = i")
    case True
    then obtain q where q: "f p = Some q" "qs = q # ps"
      using Cons.prems by auto
    then show ?thesis
      using True assms(2) [OF q(1)] by auto
  next
    case False
    then obtain rs where "update_post i f ps = Some rs" "qs = p # rs"
      using Cons.prems by auto
    then show ?thesis
      using Cons.IH False by auto
  qed
qed

lemma update_post_ids:
  "update_post i f ps = Some qs \<Longrightarrow> (\<And>p q. f p = Some q \<Longrightarrow> post_id q = post_id p) \<Longrightarrow>
     map post_id qs = map post_id ps"
  by (induction ps arbitrary: qs) (auto split: if_splits)


section \<open>The two updates\<close>

text \<open>
  One step of the loop of \<open>replyToPost\<close>: a post that is passed counts one more response, and one more
  reply when the next identifier is the last one of the path.
\<close>

definition count_response :: "bool \<Rightarrow> post \<Rightarrow> post" where
  "count_response isLast p =
     update_fields (\<lambda>f. f\<lparr>p_responseCount := p_responseCount f + 1,
                          p_replyCount := p_replyCount f + (if isLast then 1 else 0)\<rparr>) p"

primrec insert_reply :: "string list \<Rightarrow> string \<Rightarrow> post \<Rightarrow> post \<Rightarrow> post option" where
  "insert_reply [] lastId reply parent = Some (set_replies (reply # replies parent) parent)"
| "insert_reply (i # ks) lastId reply parent =
     (let parent' = count_response (i = lastId) parent
      in map_option (\<lambda>rs. set_replies rs parent')
           (update_post i (insert_reply ks lastId reply) (replies parent')))"

text \<open>\<open>loadPostReplies\<close> keeps the replies already loaded below a post it loads again.\<close>

definition merge_replies :: "post list \<Rightarrow> post list \<Rightarrow> post list" where
  "merge_replies old new =
     map (\<lambda>reply. set_replies (nullish (map_option replies (find_post (post_id reply) old)) (replies reply)) reply)
       new"

primrec replace_replies :: "string list \<Rightarrow> post list \<Rightarrow> post \<Rightarrow> post option" where
  "replace_replies [] new p = Some (set_replies (merge_replies (replies p) new) p)"
| "replace_replies (i # ks) new p =
     map_option (\<lambda>rs. set_replies rs p) (update_post i (replace_replies ks new) (replies p))"

lemma count_response_access [simp]:
  "post_id (count_response b p) = post_id p" "replies (count_response b p) = replies p"
  "p_responseCount (own (count_response b p)) = p_responseCount (own p) + 1"
  "p_replyCount (own (count_response b p)) = p_replyCount (own p) + (if b then 1 else 0)"
  by (simp_all add: count_response_def update_fields_def post_id_def)

lemma insert_reply_id: "insert_reply path l reply p = Some q \<Longrightarrow> post_id q = post_id p"
  by (cases path) (auto simp: Let_def)

lemma replace_replies_id: "replace_replies path new p = Some q \<Longrightarrow> post_id q = post_id p"
  by (cases path) auto

text \<open>Both updates succeed exactly when the path leads somewhere.\<close>

lemma insert_reply_defined: "(insert_reply path l reply p = None) = (post_at path p = None)"
proof (induction path arbitrary: p)
  case (Cons i ks)
  then show ?case
    by (auto simp: Let_def update_post_defined split: option.split)
qed simp

lemma replace_replies_defined: "(replace_replies path new p = None) = (post_at path p = None)"
proof (induction path arbitrary: p)
  case (Cons i ks)
  then show ?case
    by (auto simp: update_post_defined split: option.split)
qed simp

text \<open>Where a walk into the updated tree ends.\<close>

lemma post_at_insert_reply:
  assumes "insert_reply path l reply p = Some q" "post_at path p = Some target"
  shows "post_at path q = Some (set_replies (reply # replies target) target)"
  using assms
proof (induction path arbitrary: p q)
  case Nil
  then show ?case by simp
next
  case (Cons i ks)
  from Cons.prems(1) obtain rs where
    rs: "update_post i (insert_reply ks l reply) (replies p) = Some rs"
    and q: "q = set_replies rs (count_response (i = l) p)"
    by (auto simp: Let_def)
  from Cons.prems(2) obtain c where c: "find_post i (replies p) = Some c" "post_at ks c = Some target"
    by (auto simp: bind_eq_Some_conv)
  obtain d where d: "insert_reply ks l reply c = Some d"
    using c(2) insert_reply_defined [of ks l reply c] by auto
  have "find_post i rs = Some d"
    using update_post_find [OF rs insert_reply_id] c(1) d by simp
  then show ?case
    using q Cons.IH [OF d c(2)] by simp
qed

lemma post_at_insert_reply_prefix:
  assumes "insert_reply (as @ i # bs) l reply p = Some q" "post_at as p = Some n"
  shows "\<exists>m. post_at as q = Some m \<and> post_id m = post_id n \<and>
    p_responseCount (own m) = p_responseCount (own n) + 1 \<and>
    p_replyCount (own m) = p_replyCount (own n) + (if i = l then 1 else 0) \<and>
    map post_id (replies m) = map post_id (replies n)"
  using assms
proof (induction as arbitrary: p q)
  case Nil
  from Nil.prems(1) obtain rs where rs: "update_post i (insert_reply bs l reply) (replies p) = Some rs"
    and q: "q = set_replies rs (count_response (i = l) p)"
    by (auto simp: Let_def)
  have "map post_id rs = map post_id (replies p)"
    using update_post_ids [OF rs insert_reply_id] by simp
  then show ?case
    using q Nil.prems(2) by simp
next
  case (Cons a as)
  from Cons.prems(1) obtain rs where
    rs: "update_post a (insert_reply (as @ i # bs) l reply) (replies p) = Some rs"
    and q: "q = set_replies rs (count_response (a = l) p)"
    by (auto simp: Let_def)
  from Cons.prems(2) obtain c where c: "find_post a (replies p) = Some c" "post_at as c = Some n"
    by (auto simp: bind_eq_Some_conv)
  obtain d where d: "insert_reply (as @ i # bs) l reply c = Some d"
  proof (cases "insert_reply (as @ i # bs) l reply c")
    case None
    then have "update_post a (insert_reply (as @ i # bs) l reply) (replies p) = None"
      using c(1) by (simp add: update_post_defined)
    then show ?thesis using rs by simp
  next
    case (Some d)
    then show ?thesis by (rule that)
  qed
  have "find_post a rs = Some d"
    using update_post_find [OF rs insert_reply_id] c(1) d by simp
  then show ?case
    using q Cons.IH [OF d c(2)] by simp
qed

text \<open>A walk that leaves the path sees the old tree.\<close>

lemma post_at_insert_reply_off:
  assumes "insert_reply (as @ i # bs) l reply p = Some q" "j \<noteq> i"
  shows "post_at (as @ j # cs) q = post_at (as @ j # cs) p"
  using assms(1)
proof (induction as arbitrary: p q)
  case Nil
  then obtain rs where rs: "update_post i (insert_reply bs l reply) (replies p) = Some rs"
    and q: "q = set_replies rs (count_response (i = l) p)"
    by (auto simp: Let_def)
  show ?case
    using update_post_find [where j = j, OF rs insert_reply_id] assms(2) q by simp
next
  case (Cons a as)
  from Cons.prems obtain rs where
    rs: "update_post a (insert_reply (as @ i # bs) l reply) (replies p) = Some rs"
    and q: "q = set_replies rs (count_response (a = l) p)"
    by (auto simp: Let_def)
  show ?case
  proof (cases "Option.bind (find_post a (replies p)) (insert_reply (as @ i # bs) l reply)")
    case None
    then have "update_post a (insert_reply (as @ i # bs) l reply) (replies p) = None"
      by (cases "find_post a (replies p)") (simp_all add: update_post_defined)
    then show ?thesis using rs by simp
  next
    case (Some d)
    then obtain c where c: "find_post a (replies p) = Some c" "insert_reply (as @ i # bs) l reply c = Some d"
      by (auto simp: bind_eq_Some_conv)
    have "find_post a rs = Some d"
      using update_post_find [OF rs insert_reply_id] Some by simp
    then show ?thesis
      using q c Cons.IH [OF c(2)] by simp
  qed
qed

lemma post_at_replace_replies:
  assumes "replace_replies path new p = Some q" "post_at path p = Some target"
  shows "post_at path q = Some (set_replies (merge_replies (replies target) new) target)"
  using assms
proof (induction path arbitrary: p q)
  case Nil
  then show ?case by simp
next
  case (Cons i ks)
  from Cons.prems(1) obtain rs where
    rs: "update_post i (replace_replies ks new) (replies p) = Some rs" and q: "q = set_replies rs p"
    by auto
  from Cons.prems(2) obtain c where c: "find_post i (replies p) = Some c" "post_at ks c = Some target"
    by (auto simp: bind_eq_Some_conv)
  obtain d where d: "replace_replies ks new c = Some d"
    using c(2) replace_replies_defined [of ks new c] by auto
  have "find_post i rs = Some d"
    using update_post_find [OF rs replace_replies_id] c(1) d by simp
  then show ?case
    using q Cons.IH [OF d c(2)] by simp
qed

lemma find_merge_replies:
  assumes "find_post i new = Some n"
  shows "find_post i (merge_replies old new) =
    Some (set_replies (nullish (map_option replies (find_post i old)) (replies n)) n)"
  using assms by (induction new) (auto simp: merge_replies_def split: if_splits)

lemma merge_replies_ids [simp]: "map post_id (merge_replies old new) = map post_id new"
  by (simp add: merge_replies_def)

end
