(* ===== verification/Posts.thy ===== *)
theory Posts
  imports Reply_Trees Identified_Events Utils
begin

text \<open>
  The posts slice (store/modules/posts_state.ts): posts with their reply trees, the pages of posts per
  listing type, and every asynchronous outcome the slice listens to.  The walk along a reply path is in
  the theory \<open>Reply_Trees\<close>; a path without a root makes \<open>federateId(undefined)\<close> throw, so the two
  handlers that take a path return a result.
\<close>

section \<open>State and requests\<close>

type_synonym federated_post = "post federated_entity"

record posts_state =
  posts_pagesStatus :: federated_pages_status
  posts_entities :: "federated_post entity_state"
  postPages :: "post_listing_type grouped_pages federated"
  failedPostIds :: "string list"

definition initial_posts :: posts_state where
  "initial_posts =
     \<lparr>posts_pagesStatus = createFederatedPagesStatus,
      posts_entities = empty_entities,
      postPages = createFederated Map.empty,
      failedPostIds = []\<rparr>"

abbreviation post_key :: "federated_post \<Rightarrow> string" where
  "post_key \<equiv> federatedId post_id"

definition defaultPostListingType :: post_listing_type where
  "defaultPostListingType = PostListingType_ALL_ACCESSIBLE_POSTS"

record load_posts_request =
  lpr_server :: "rellm_server option"
  lpr_listingType :: "post_listing_type option"
  lpr_page :: "nat option"

record path_request =
  pr_server :: "rellm_server option"
  pr_postIdPath :: "string list"

record load_post_request =
  lp_server :: "rellm_server option"
  lp_id :: "string option"

definition lpr_key :: "load_posts_request \<Rightarrow> post_listing_type" where
  "lpr_key req = nullish (lpr_listingType req) defaultPostListingType"


section \<open>Reducers\<close>

definition upsert_posts ::
  "federated_post adapter \<Rightarrow> federated_post list \<Rightarrow> posts_state \<Rightarrow> posts_state" where
  "upsert_posts A ps s = s\<lparr>posts_entities := upsertMany A (posts_entities s) ps\<rparr>"

definition upsert_post ::
  "federated_post adapter \<Rightarrow> federated_post \<Rightarrow> posts_state \<Rightarrow> posts_state" where
  "upsert_post A p s = s\<lparr>posts_entities := upsertOne A (posts_entities s) p\<rparr>"

definition removePost :: "federated_post adapter \<Rightarrow> string \<Rightarrow> posts_state \<Rightarrow> posts_state" where
  "removePost A i s = s\<lparr>posts_entities := removeOne A (posts_entities s) i\<rparr>"

definition upsertPost :: "federated_post adapter \<Rightarrow> federated_post \<Rightarrow> posts_state \<Rightarrow> posts_state" where
  "upsertPost A p s = (if post_id (entity p) \<noteq> [] then upsert_post A p s else s)"

definition resetPosts :: "federated_post adapter \<Rightarrow> string option \<Rightarrow> posts_state \<Rightarrow> posts_state" where
  "resetPosts A payload s =
     (case payload of
        None \<Rightarrow> s
      | Some h \<Rightarrow>
         if h = [] then s
         else
           (let postIdsToRemove = filter (id_on_host h) (ids (posts_entities s))
            in s\<lparr>posts_entities := removeMany A (posts_entities s) postIdsToRemove,
                 failedPostIds := filter (\<lambda>i. \<not> id_on_host h i) (failedPostIds s),
                 postPages := deleteFederated (postPages s) h,
                 posts_pagesStatus := deleteFederated (posts_pagesStatus s) h\<rparr>))"

definition createPost_fulfilled ::
  "federated_post adapter \<Rightarrow> rellm_server option \<Rightarrow> post \<Rightarrow> posts_state \<Rightarrow> posts_state" where
  "createPost_fulfilled A server payload s =
     (let action = FederatedAction server;
          post = federatedPayload server payload;
          s1 = upsert_post A post s
      in if publicOrPrivateVisibility (Some (p_visibility (own payload)))
         then
           (let serverPostPages = getFederated (postPages s1) action;
                pages = nullish (serverPostPages defaultPostListingType) Map.empty;
                firstPage = nullish (pages 0) []
            in s1\<lparr>postPages := setFederated (postPages s1) action
                     (serverPostPages(defaultPostListingType \<mapsto> pages(0 \<mapsto> post_key post # firstPage)))\<rparr>)
         else s1)"

text \<open>The root of a path, its copy with the walk's update applied, and the write of the copy.\<close>

definition update_root ::
  "federated_post adapter \<Rightarrow> path_request \<Rightarrow> (string list \<Rightarrow> post \<Rightarrow> post option) \<Rightarrow> posts_state \<Rightarrow> posts_state result"
where
  "update_root A req walk s =
     (let action = FederatedAction (pr_server req)
      in case pr_postIdPath req of
           [] \<Rightarrow> Inl TypeError
         | root # path \<Rightarrow>
            (let basePostId = federateId root action
             in case selectById A (posts_entities s) basePostId of
                  None \<Rightarrow> Inr s
                | Some basePost \<Rightarrow>
                   (case walk path (entity basePost) of
                      None \<Rightarrow> Inr s
                    | Some rootPost \<Rightarrow> Inr (upsert_post A (federatedEntity rootPost action) s))))"

definition replyToPost_fulfilled ::
  "federated_post adapter \<Rightarrow> path_request \<Rightarrow> post \<Rightarrow> posts_state \<Rightarrow> posts_state result" where
  "replyToPost_fulfilled A req reply s =
     update_root A req (\<lambda>path. insert_reply path (last (pr_postIdPath req)) reply) s"

definition loadPostReplies_fulfilled ::
  "federated_post adapter \<Rightarrow> path_request \<Rightarrow> post list \<Rightarrow> posts_state \<Rightarrow> posts_state result" where
  "loadPostReplies_fulfilled A req response s =
     update_root A req (\<lambda>path. replace_replies path response) s"

text \<open>
  A post of a loaded page keeps the replies of the old post, which is looked up by the identifier
  without its host.
\<close>

definition keep_replies :: "federated_post option \<Rightarrow> federated_post \<Rightarrow> federated_post" where
  "keep_replies oldPost p =
     p\<lparr>entity := set_replies (nullish (map_option (\<lambda>o'. replies (entity o')) oldPost) (replies (entity p))) (entity p)\<rparr>"

definition loadPostsPage_fulfilled ::
  "federated_post adapter \<Rightarrow> load_posts_request \<Rightarrow> post list \<Rightarrow> posts_state \<Rightarrow> posts_state" where
  "loadPostsPage_fulfilled A req response s =
     (let action = FederatedAction (lpr_server req);
          federatedPosts = federatedEntities response action;
          es = foldl (\<lambda>es p. upsertOne A es (keep_replies (selectById A es (post_id (entity p))) p))
                 (posts_entities s) federatedPosts;
          postIds = map post_key federatedPosts;
          page = nullish (lpr_page req) 0;
          serverPostPages = put_page (lpr_key req) page postIds (getFederated (postPages s) action)
      in s\<lparr>posts_pagesStatus := setFederated (posts_pagesStatus s) action Loaded,
           posts_entities := es,
           postPages := setFederated (postPages s) action serverPostPages\<rparr>)"

definition loadPostsPage_rejected :: "load_posts_request \<Rightarrow> posts_state \<Rightarrow> posts_state" where
  "loadPostsPage_rejected req s =
     s\<lparr>posts_pagesStatus := setFederated (posts_pagesStatus s) (FederatedAction (lpr_server req)) Errored\<rparr>"

text \<open>\<open>loadPost.fulfilled\<close> and \<open>updatePost.fulfilled\<close> have the same body.\<close>

definition loadPost_fulfilled ::
  "federated_post adapter \<Rightarrow> rellm_server option \<Rightarrow> post \<Rightarrow> posts_state \<Rightarrow> posts_state" where
  "loadPost_fulfilled A server payload s =
     (let federatedPost = federatedPayload server payload;
          oldPost = selectById A (posts_entities s) (post_key federatedPost)
      in upsert_post A (keep_replies oldPost federatedPost) s)"

definition updatePost_fulfilled ::
  "federated_post adapter \<Rightarrow> rellm_server option \<Rightarrow> post \<Rightarrow> posts_state \<Rightarrow> posts_state" where
  "updatePost_fulfilled A server payload s =
     (let federatedPost = federatedPayload server payload;
          oldPost = selectById A (posts_entities s) (post_key federatedPost)
      in upsert_post A (keep_replies oldPost federatedPost) s)"

definition loadPost_rejected :: "load_post_request \<Rightarrow> posts_state \<Rightarrow> posts_state" where
  "loadPost_rejected req s =
     s\<lparr>failedPostIds := failedPostIds s @ [federateId (nullish (lp_id req) []) (FederatedAction (lp_server req))]\<rparr>"

definition upsertListedPosts ::
  "federated_post adapter \<Rightarrow> rellm_server option \<Rightarrow> post list \<Rightarrow> posts_state \<Rightarrow> posts_state" where
  "upsertListedPosts A server ps s = upsert_posts A (federatedEntities ps (FederatedAction server)) s"

definition deletePost_fulfilled ::
  "federated_post adapter \<Rightarrow> rellm_server option \<Rightarrow> post \<Rightarrow> posts_state \<Rightarrow> posts_state" where
  "deletePost_fulfilled A server payload s =
     s\<lparr>posts_entities := removeOne A (posts_entities s) (post_key (federatedPayload server payload))\<rparr>"

definition event_posts :: "ident_event \<Rightarrow> post list" where
  "event_posts e = ie_post e # map io_post (ie_occasions e)"

definition saveEventPosts ::
  "federated_post adapter \<Rightarrow> rellm_server option \<Rightarrow> ident_event \<Rightarrow> posts_state \<Rightarrow> posts_state" where
  "saveEventPosts A server payload s = upsertListedPosts A server (event_posts payload) s"

definition saveEventsPagePosts ::
  "federated_post adapter \<Rightarrow> rellm_server option \<Rightarrow> ident_event list \<Rightarrow> posts_state \<Rightarrow> posts_state" where
  "saveEventsPagePosts A server events s = upsertListedPosts A server (concat (map event_posts events)) s"

datatype posts_action =
    RemovePost string
  | UpsertPost federated_post
  | ResetPosts "string option"
  | CreatePost_fulfilled "rellm_server option" post
  | ReplyToPost_fulfilled path_request post
  | LoadPostsPage_fulfilled load_posts_request "post list"
  | LoadPostsPage_rejected load_posts_request
  | LoadPost_fulfilled "rellm_server option" post
  | LoadPost_rejected load_post_request
  | UpdatePost_fulfilled "rellm_server option" post
  | LoadPostReplies_fulfilled path_request "post list"
  | LoadListedPosts_fulfilled "rellm_server option" "post list"
  | DeletePost_fulfilled "rellm_server option" post
  | SaveEvent_fulfilled "rellm_server option" ident_event
  | LoadEventsPagePosts_fulfilled "rellm_server option" "ident_event list"

fun posts_reducer :: "federated_post adapter \<Rightarrow> posts_action \<Rightarrow> posts_state \<Rightarrow> posts_state result" where
  "posts_reducer A (RemovePost i) s = Inr (removePost A i s)"
| "posts_reducer A (UpsertPost p) s = Inr (upsertPost A p s)"
| "posts_reducer A (ResetPosts h) s = Inr (resetPosts A h s)"
| "posts_reducer A (CreatePost_fulfilled sv p) s = Inr (createPost_fulfilled A sv p s)"
| "posts_reducer A (ReplyToPost_fulfilled r p) s = replyToPost_fulfilled A r p s"
| "posts_reducer A (LoadPostsPage_fulfilled r ps) s = Inr (loadPostsPage_fulfilled A r ps s)"
| "posts_reducer A (LoadPostsPage_rejected r) s = Inr (loadPostsPage_rejected r s)"
| "posts_reducer A (LoadPost_fulfilled sv p) s = Inr (loadPost_fulfilled A sv p s)"
| "posts_reducer A (LoadPost_rejected r) s = Inr (loadPost_rejected r s)"
| "posts_reducer A (UpdatePost_fulfilled sv p) s = Inr (updatePost_fulfilled A sv p s)"
| "posts_reducer A (LoadPostReplies_fulfilled r ps) s = loadPostReplies_fulfilled A r ps s"
| "posts_reducer A (LoadListedPosts_fulfilled sv ps) s = Inr (upsertListedPosts A sv ps s)"
| "posts_reducer A (DeletePost_fulfilled sv p) s = Inr (deletePost_fulfilled A sv p s)"
| "posts_reducer A (SaveEvent_fulfilled sv e) s = Inr (saveEventPosts A sv e s)"
| "posts_reducer A (LoadEventsPagePosts_fulfilled sv es) s = Inr (saveEventsPagePosts A sv es s)"

lemmas posts_defs =
  upsert_posts_def upsert_post_def removePost_def upsertPost_def resetPosts_def createPost_fulfilled_def
  loadPostsPage_fulfilled_def loadPostsPage_rejected_def loadPost_fulfilled_def updatePost_fulfilled_def
  loadPost_rejected_def upsertListedPosts_def deletePost_fulfilled_def saveEventPosts_def
  saveEventsPagePosts_def replyToPost_fulfilled_def loadPostReplies_fulfilled_def


section \<open>Invariant and interfaces\<close>

definition posts_wf :: "posts_state \<Rightarrow> bool" where
  "posts_wf s \<longleftrightarrow> wf_entities post_key (posts_entities s)"

lemma initial_posts_wf [simp]: "posts_wf initial_posts"
  by (simp add: posts_wf_def initial_posts_def)

interpretation posts_ref: entity_adapter "ref_adapter post_key replace_all key" post_key replace_all
  for key
  by (rule ref_adapter_laws) (simp add: replace_all_def)

lemma keep_replies_key [simp]: "post_key (keep_replies o' p) = post_key p"
  by (simp add: keep_replies_def federatedId_def)

lemma wf_fold_upserts:
  assumes "entity_adapter A selectId merge" "wf_entities selectId es"
  shows "wf_entities selectId (foldl (\<lambda>es p. upsertOne A es (f es p)) es ps)"
  using assms(2) by (induction ps arbitrary: es) (auto intro: adapter_wf(1) [OF assms(1)])

lemma update_root_wf:
  assumes "entity_adapter A post_key replace_all" "posts_wf s" "update_root A req walk s = Inr s'"
  shows "posts_wf s'"
  using assms(2,3) adapter_wf [OF assms(1)]
  by (auto simp: update_root_def Let_def posts_wf_def upsert_post_def split: list.splits option.splits)

lemma posts_reducer_wf:
  assumes "entity_adapter A post_key replace_all" "posts_wf s" "posts_reducer A a s = Inr s'"
  shows "posts_wf s'"
proof (cases "(\<exists>r p. a = ReplyToPost_fulfilled r p) \<or> (\<exists>r p. a = LoadPostReplies_fulfilled r p)")
  case True
  then show ?thesis
    using update_root_wf [OF assms(1,2)] assms(3)
    by (auto simp: replyToPost_fulfilled_def loadPostReplies_fulfilled_def)
next
  case False
  then show ?thesis
    using assms(2,3) adapter_wf [OF assms(1)]
      wf_fold_upserts [OF assms(1), where f = "\<lambda>es p. keep_replies (selectById A es (post_id (entity p))) p"]
    by (cases a) (auto simp: posts_defs posts_wf_def Let_def split: option.split)
qed

interpretation posts_pages: paged_slice postPages
  "\<lambda>(req, response). loadPostsPage_fulfilled A req response" "\<lambda>(req, response). lpr_server req"
  "\<lambda>(req, response). lpr_key req" "\<lambda>(req, response). nullish (lpr_page req) 0"
  "\<lambda>(req, response). map post_key (federatedEntities response (FederatedAction (lpr_server req)))"
  for A
  by unfold_locales (auto simp: loadPostsPage_fulfilled_def Let_def)

lemma posts_resettable:
  assumes "entity_adapter A post_key replace_all"
  shows "resettable_slice (resetPosts A) posts_wf (\<lambda>s. entities (posts_entities s)) postPages
    posts_pagesStatus"
  by unfold_locales
    (auto simp: resetPosts_def posts_wf_def Let_def removeMany_reset [OF assms] adapter_wf [OF assms]
      split: option.split)

interpretation posts_reset: resettable_slice
  "resetPosts (ref_adapter post_key replace_all key)" posts_wf "\<lambda>s. entities (posts_entities s)"
  postPages posts_pagesStatus for key
  by (rule posts_resettable, rule posts_ref.entity_adapter_axioms)


section \<open>The handlers on a cached post\<close>

text \<open>What is stored under a key, and under which key an identifier of a host is stored.\<close>

abbreviation post_stored :: "posts_state \<Rightarrow> string \<Rightarrow> federated_post option" where
  "post_stored s \<equiv> entities (posts_entities s)"

lemma stored_key:
  assumes "posts_wf s" "post_stored s (federateId i sv) = Some b" "CHR ''@'' \<notin> set (post_id (entity b))"
  shows "post_id (entity b) = defederateId i" "serverHostOf b = serverHost sv"
proof -
  have "mk_federated_id (post_id (entity b)) (serverHostOf b) = mk_federated_id (defederateId i) (serverHost sv)"
    using assms(1,2) by (auto simp: posts_wf_def wf_entities_def federatedId_def federateId_def)
  then show "post_id (entity b) = defederateId i" "serverHostOf b = serverHost sv"
    by (simp_all add: mk_federated_id_eq assms(3))
qed

lemma update_root_stored:
  assumes "entity_adapter A post_key replace_all" "posts_wf s"
    and "post_stored s (federateId root (FederatedAction sv)) = Some b" "CHR ''@'' \<notin> set (post_id (entity b))"
    and "walk path (entity b) = Some q" "post_id q = post_id (entity b)"
  shows "\<exists>s'. update_root A \<lparr>pr_server = sv, pr_postIdPath = root # path\<rparr> walk s = Inr s' \<and>
    post_stored s' = (post_stored s)(federateId root (FederatedAction sv) \<mapsto> b\<lparr>entity := q\<rparr>) \<and>
    postPages s' = postPages s"
proof -
  note key = stored_key [OF assms(2-4)]
  have "federatedEntity q (FederatedAction sv) = b\<lparr>entity := q\<rparr>"
    using key(2) by (simp add: federatedEntity_def)
  moreover have "post_key (b\<lparr>entity := q\<rparr>) = federateId root (FederatedAction sv)"
    using key assms(6) by (simp add: federatedId_def federateId_def)
  ultimately show ?thesis
    using assms(3,5) adapter_entities [OF assms(1)]
    by (simp add: update_root_def Let_def upsert_post_def)
qed

lemma update_root_total: "pr_postIdPath req \<noteq> [] \<Longrightarrow> \<exists>s'. update_root A req walk s = Inr s'"
  by (cases "pr_postIdPath req") (simp_all add: update_root_def Let_def split: option.split)


section \<open>Properties\<close>

text \<open>
  C3: A reply to a post reachable along a path becomes the first reply of that post,
  whose own counts stay as they were; every post passed on the way counts one more response, and the
  parent of the target one more reply (every parent whose next identifier is the target's); all other
  stored posts stay.
\<close>

theorem reply_inserted:
  assumes "entity_adapter A post_key replace_all" "posts_wf s"
    and "post_stored s (federateId root (FederatedAction sv)) = Some b" "CHR ''@'' \<notin> set (post_id (entity b))"
    and "post_at path (entity b) = Some target"
  shows "\<exists>s' b'. replyToPost_fulfilled A \<lparr>pr_server = sv, pr_postIdPath = root # path\<rparr> reply s = Inr s' \<and>
    post_stored s' = (post_stored s)(federateId root (FederatedAction sv) \<mapsto> b') \<and>
    post_at path (entity b') = Some (set_replies (reply # replies target) target) \<and>
    (\<forall>as i bs n. path = as @ i # bs \<longrightarrow> post_at as (entity b) = Some n \<longrightarrow>
       (\<exists>m. post_at as (entity b') = Some m \<and>
          p_responseCount (own m) = p_responseCount (own n) + 1 \<and>
          p_replyCount (own m) = p_replyCount (own n) + (if i = last path then 1 else 0)))"
proof -
  obtain q where q: "insert_reply path (last (root # path)) reply (entity b) = Some q"
    using insert_reply_defined [of path _ reply "entity b"] assms(5) by (metis not_None_eq)
  obtain s' where s': "replyToPost_fulfilled A \<lparr>pr_server = sv, pr_postIdPath = root # path\<rparr> reply s = Inr s'"
    "post_stored s' = (post_stored s)(federateId root (FederatedAction sv) \<mapsto> b\<lparr>entity := q\<rparr>)"
    using update_root_stored [OF assms(1-4), where walk = "\<lambda>p. insert_reply p (last (root # path)) reply" and path = path]
      q insert_reply_id [OF q] by (auto simp: replyToPost_fulfilled_def)
  have "\<exists>m. post_at as q = Some m \<and> p_responseCount (own m) = p_responseCount (own n) + 1 \<and>
      p_replyCount (own m) = p_replyCount (own n) + (if i = last path then 1 else 0)"
    if "path = as @ i # bs" "post_at as (entity b) = Some n" for as i bs n
    using post_at_insert_reply_prefix [of as i bs "last path" reply "entity b" q n] that q by auto
  then show ?thesis
    using s' post_at_insert_reply [OF q assms(5)] by (intro exI [of _ s'] exI [of _ "b\<lparr>entity := q\<rparr>"]) auto
qed

definition sample_posts :: posts_state where
  "sample_posts =
     initial_posts\<lparr>posts_entities :=
       \<lparr>ids = [''a@h''],
        entities = [''a@h'' \<mapsto> \<lparr>entity = bare_post ''a'' [bare_post ''b'' [], bare_post ''c'' []],
                               serverHostOf = ''h''\<rparr>]\<rparr>\<rparr>"

definition sample_server :: rellm_server where
  "sample_server =
     \<lparr>host = ''h'', secure = True, serviceVersion = None, serverConfiguration = None,
      lastConnectionFailed = None\<rparr>"

lemma sample_posts_wf: "posts_wf sample_posts"
  by (simp add: posts_wf_def wf_entities_def sample_posts_def federatedId_def mk_federated_id_def)

lemma sample_key: "federateId ''a'' (FederatedAction (Some sample_server)) = ''a@h''"
  by (simp add: federateId_def mk_federated_id_def sample_server_def)

theorem reply_inserted_witness:
  "\<exists>s' b'. replyToPost_fulfilled (ref_adapter post_key replace_all None)
      \<lparr>pr_server = Some sample_server, pr_postIdPath = [''a'', ''b'']\<rparr> (bare_post ''r'' []) sample_posts = Inr s' \<and>
    post_stored s' ''a@h'' = Some b' \<and>
    post_at [''b''] (entity b') = Some (bare_post ''b'' [bare_post ''r'' []])"
  using reply_inserted [OF posts_ref.entity_adapter_axioms sample_posts_wf, of "''a''" "Some sample_server"
      _ "[''b'']" "bare_post ''b'' []" None "bare_post ''r'' []"]
  by (auto simp: sample_posts_def sample_key set_replies_def bare_post_def)

text \<open>
  A reply along a path leaves every post off that path as it was, and when the root or
  a post of the path is not cached nothing changes at all.
\<close>

theorem reply_frame:
  assumes "entity_adapter A post_key replace_all" "posts_wf s"
    and "post_stored s (federateId root (FederatedAction sv)) = Some b" "CHR ''@'' \<notin> set (post_id (entity b))"
    and "replyToPost_fulfilled A \<lparr>pr_server = sv, pr_postIdPath = root # as @ i # bs\<rparr> reply s = Inr s'"
  shows "if post_at (as @ i # bs) (entity b) = None then s' = s
    else \<exists>b'. post_stored s' (federateId root (FederatedAction sv)) = Some b' \<and>
      (\<forall>j cs. j \<noteq> i \<longrightarrow> post_at (as @ j # cs) (entity b') = post_at (as @ j # cs) (entity b))"
proof (cases "insert_reply (as @ i # bs) (last (root # as @ i # bs)) reply (entity b)")
  case None
  then show ?thesis
    using assms(3,5) insert_reply_defined [of "as @ i # bs" _ reply "entity b"] adapter_entities [OF assms(1)]
    by (simp add: replyToPost_fulfilled_def update_root_def Let_def)
next
  case (Some q)
  have "post_stored s' = (post_stored s)(federateId root (FederatedAction sv) \<mapsto> b\<lparr>entity := q\<rparr>)"
    using update_root_stored [OF assms(1-4), where walk = "\<lambda>p. insert_reply p (last (root # as @ i # bs)) reply"
        and path = "as @ i # bs"] Some insert_reply_id [OF Some] assms(5)
    by (simp add: replyToPost_fulfilled_def)
  moreover have "post_at (as @ i # bs) (entity b) \<noteq> None"
    using insert_reply_defined [of "as @ i # bs" _ reply "entity b"] Some by (metis option.distinct(1))
  ultimately show ?thesis
    using post_at_insert_reply_off [OF Some] by auto
qed

theorem reply_frame_witness:
  "\<exists>s' b'. replyToPost_fulfilled (ref_adapter post_key replace_all None)
      \<lparr>pr_server = Some sample_server, pr_postIdPath = [''a'', ''b'']\<rparr> (bare_post ''r'' []) sample_posts = Inr s' \<and>
    post_stored s' ''a@h'' = Some b' \<and> post_at [''c''] (entity b') = Some (bare_post ''c'' [])"
proof -
  let ?b = "\<lparr>entity = bare_post ''a'' [bare_post ''b'' [], bare_post ''c'' []], serverHostOf = ''h''\<rparr>"
  obtain s' where s': "replyToPost_fulfilled (ref_adapter post_key replace_all None)
      \<lparr>pr_server = Some sample_server, pr_postIdPath = [''a'', ''b'']\<rparr> (bare_post ''r'' []) sample_posts = Inr s'"
    using update_root_total [of "\<lparr>pr_server = Some sample_server, pr_postIdPath = [''a'', ''b'']\<rparr>"]
    by (fastforce simp: replyToPost_fulfilled_def)
  show ?thesis
    using reply_frame [OF posts_ref.entity_adapter_axioms sample_posts_wf, of "''a''" "Some sample_server" ?b
        None "[]" "''b''" "[]" "bare_post ''r'' []" s'] s'
    by (force simp: sample_posts_def sample_key)
qed

text \<open>
  C24: Loading the replies of a post replaces its replies by the loaded ones, in their
  order, and a reply that was already there keeps the replies below it.
\<close>

theorem replies_loaded:
  assumes "entity_adapter A post_key replace_all" "posts_wf s"
    and "post_stored s (federateId root (FederatedAction sv)) = Some b" "CHR ''@'' \<notin> set (post_id (entity b))"
    and "post_at path (entity b) = Some target"
  shows "\<exists>s' b' t'. loadPostReplies_fulfilled A \<lparr>pr_server = sv, pr_postIdPath = root # path\<rparr> loaded s = Inr s' \<and>
    post_stored s' (federateId root (FederatedAction sv)) = Some b' \<and> post_at path (entity b') = Some t' \<and>
    own t' = own target \<and> map post_id (replies t') = map post_id loaded \<and>
    (\<forall>i n. find_post i loaded = Some n \<longrightarrow>
       (\<exists>m. find_post i (replies t') = Some m \<and> own m = own n \<and>
          replies m = (case find_post i (replies target) of Some o' \<Rightarrow> replies o' | None \<Rightarrow> replies n)))"
proof -
  obtain q where q: "replace_replies path loaded (entity b) = Some q"
    using replace_replies_defined [of path loaded "entity b"] assms(5) by (metis not_None_eq)
  obtain s' where s': "loadPostReplies_fulfilled A \<lparr>pr_server = sv, pr_postIdPath = root # path\<rparr> loaded s = Inr s'"
    "post_stored s' = (post_stored s)(federateId root (FederatedAction sv) \<mapsto> b\<lparr>entity := q\<rparr>)"
    using update_root_stored [OF assms(1-4), where walk = "\<lambda>p. replace_replies p loaded" and path = path]
      q replace_replies_id [OF q] by (auto simp: loadPostReplies_fulfilled_def)
  let ?t = "set_replies (merge_replies (replies target) loaded) target"
  have "\<exists>m. find_post i (replies ?t) = Some m \<and> own m = own n \<and>
      replies m = (case find_post i (replies target) of Some o' \<Rightarrow> replies o' | None \<Rightarrow> replies n)"
    if "find_post i loaded = Some n" for i n
    using find_merge_replies [OF that, of "replies target"] by (auto split: option.split)
  then show ?thesis
    using s' post_at_replace_replies [OF q assms(5)]
    by (intro exI [of _ s'] exI [of _ "b\<lparr>entity := q\<rparr>"] exI [of _ ?t]) auto
qed

theorem replies_loaded_witness:
  "\<exists>s' b'. loadPostReplies_fulfilled (ref_adapter post_key replace_all None)
      \<lparr>pr_server = Some sample_server, pr_postIdPath = [''a'']\<rparr> [bare_post ''c'' [], bare_post ''d'' []] sample_posts = Inr s' \<and>
    post_stored s' ''a@h'' = Some b' \<and> map post_id (replies (entity b')) = [''c'', ''d'']"
  using replies_loaded [OF posts_ref.entity_adapter_axioms sample_posts_wf, of "''a''" "Some sample_server"
      _ "[]" _ None "[bare_post ''c'' [], bare_post ''d'' []]"]
  by (fastforce simp: sample_posts_def sample_key)

text \<open>
  Loading one post again refreshes its own fields and keeps the reply tree the
  client has loaded for it.
\<close>

theorem loadPost_keeps_replies:
  assumes "entity_adapter A post_key replace_all"
  shows "post_stored (loadPost_fulfilled A sv p s) =
    (post_stored s)(mk_federated_id (post_id p) (federationKey sv) \<mapsto>
       \<lparr>entity = set_replies
          (case post_stored s (mk_federated_id (post_id p) (federationKey sv)) of
             Some o' \<Rightarrow> replies (entity o') | None \<Rightarrow> replies p) p,
        serverHostOf = federationKey sv\<rparr>)"
  using adapter_entities [OF assms]
  by (simp add: loadPost_fulfilled_def Let_def upsert_post_def keep_replies_def federatedPayload_def
      federatedEntity_def federatedId_def serverHost_def split: option.split)

theorem loadPost_keeps_replies_witness:
  "post_stored (loadPost_fulfilled (ref_adapter post_key replace_all None) (Some sample_server)
     (bare_post ''a'' []) sample_posts) ''a@h'' =
     Some \<lparr>entity = bare_post ''a'' [bare_post ''b'' [], bare_post ''c'' []], serverHostOf = ''h''\<rparr>"
  using loadPost_keeps_replies [OF posts_ref.entity_adapter_axioms, of None "Some sample_server"
      "bare_post ''a'' []" sample_posts]
  by (simp add: sample_server_def sample_posts_def mk_federated_id_def federationKey_def set_replies_def
      bare_post_def)

lemma wf_no_plain_key:
  assumes "wf_entities post_key es" "CHR ''@'' \<notin> set i"
  shows "entities es i = None"
proof (rule ccontr)
  assume "entities es i \<noteq> None"
  then obtain e where "post_key e = i"
    using assms(1) by (auto simp: wf_entities_def)
  then show False
    using assms(2) by (auto simp: federatedId_def mk_federated_id_def)
qed

lemma fold_plain_upserts:
  assumes "entity_adapter A post_key replace_all" "wf_entities post_key es"
    and "\<forall>p \<in> set ps. CHR ''@'' \<notin> set (post_id (entity p))"
  shows "foldl (\<lambda>es p. upsertOne A es (keep_replies (selectById A es (post_id (entity p))) p)) es ps =
    foldl (upsertOne A) es ps"
  using assms(2,3)
proof (induction ps arbitrary: es)
  case (Cons p ps)
  have "keep_replies None p = p"
    by (simp add: keep_replies_def)
  then show ?case
    using Cons wf_no_plain_key [OF Cons.prems(1)] adapter_entities [OF assms(1)] adapter_wf [OF assms(1)]
    by simp
qed simp

lemma fold_upserts_stored:
  assumes "entity_adapter A selectId replace_all" "distinct (map selectId ps)" "p \<in> set ps"
  shows "entities (foldl (upsertOne A) es ps) (selectId p) = Some p"
  using assms(2,3)
proof (induction ps arbitrary: es rule: rev_induct)
  case (snoc q qs)
  then show ?case
    using adapter_entities(1) [OF assms(1)] by (cases "p = q") (auto simp: image_iff)
qed simp

lemma page_post_stored:
  assumes "entity_adapter A post_key replace_all" "posts_wf s"
    and "distinct (map post_id ps)" "\<forall>p \<in> set ps. CHR ''@'' \<notin> set (post_id p)" "p \<in> set ps"
  shows "post_stored (loadPostsPage_fulfilled A req ps s)
     (mk_federated_id (post_id p) (federationKey (lpr_server req))) =
     Some \<lparr>entity = p, serverHostOf = federationKey (lpr_server req)\<rparr>"
proof -
  let ?fs = "federatedEntities ps (FederatedAction (lpr_server req))"
  let ?f = "\<lparr>entity = p, serverHostOf = federationKey (lpr_server req)\<rparr>"
  have f: "?f \<in> set ?fs"
    using assms(5) by (auto simp: federatedEntities_def federatedEntity_def serverHost_def image_iff)
  have "map post_key ?fs = map (\<lambda>i. mk_federated_id i (federationKey (lpr_server req))) (map post_id ps)"
    by (simp add: federatedEntities_def federatedId_def serverHost_def)
  then have d: "distinct (map post_key ?fs)"
    using assms(3,4) by (auto simp: distinct_map inj_on_def mk_federated_id_eq)
  show ?thesis
    using fold_upserts_stored [OF assms(1) d f] fold_plain_upserts [OF assms(1), of "posts_entities s" ?fs] assms(2,4)
    by (auto simp: loadPostsPage_fulfilled_def Let_def posts_wf_def federatedEntities_def federatedId_def)
qed

text \<open>
  A page of posts looks the cached post up without its host and never
  finds it, so a listed post overwrites the reply tree the client had loaded.
\<close>

theorem loadPostsPage_drops_replies:
  assumes "entity_adapter A post_key replace_all" "posts_wf s"
    and "distinct (map post_id ps)" "\<forall>p \<in> set ps. CHR ''@'' \<notin> set (post_id p)" "p \<in> set ps"
  shows "post_stored (loadPostsPage_fulfilled A req ps s)
     (mk_federated_id (post_id p) (federationKey (lpr_server req))) =
     Some \<lparr>entity = p, serverHostOf = federationKey (lpr_server req)\<rparr>"
  by (rule page_post_stored [OF assms])

theorem loadPostsPage_drops_replies_witness:
  "post_stored (loadPostsPage_fulfilled (ref_adapter post_key replace_all None)
      \<lparr>lpr_server = Some sample_server, lpr_listingType = None, lpr_page = None\<rparr>
      [bare_post ''a'' []] sample_posts) ''a@h'' = Some \<lparr>entity = bare_post ''a'' [], serverHostOf = ''h''\<rparr>"
  using loadPostsPage_drops_replies [OF posts_ref.entity_adapter_axioms sample_posts_wf,
      of "[bare_post ''a'' []]" "bare_post ''a'' []" None
        "\<lparr>lpr_server = Some sample_server, lpr_listingType = None, lpr_page = None\<rparr>"]
  by (simp add: sample_server_def federationKey_def mk_federated_id_def)

text \<open>
  Loading the pages 0 to n of a listing in order leaves exactly these pages on
  the server's listing, whatever the listing held before.
\<close>

theorem posts_pages_in_order:
  assumes "rs \<noteq> []" "\<forall>i < length rs. nullish (lpr_page (fst (rs ! i))) 0 = i \<and> lpr_key (fst (rs ! i)) = k \<and>
      lpr_server (fst (rs ! i)) = server"
  shows "server_page (postPages (foldl (\<lambda>s (req, response). loadPostsPage_fulfilled A req response s) s rs)) server k p =
    (if p < length rs
     then Some (map (\<lambda>q. mk_federated_id (post_id q) (federationKey server)) (snd (rs ! p))) else None)"
proof -
  have "(\<lambda>s r. (case r of (req, response) \<Rightarrow> loadPostsPage_fulfilled A req response) s) =
      (\<lambda>s (req, response). loadPostsPage_fulfilled A req response s)"
    by auto
  then show ?thesis
    using posts_pages.load_in_order [OF assms(1), of k server A s p] assms(2)
    by (auto simp: split_def federatedEntities_def federatedId_def serverHost_def o_def)
qed

theorem posts_pages_in_order_witness:
  "server_page (postPages
     (foldl (\<lambda>s (req, response). loadPostsPage_fulfilled (ref_adapter post_key replace_all None) req response s)
       sample_posts
       [(\<lparr>lpr_server = Some sample_server, lpr_listingType = None, lpr_page = None\<rparr>, [bare_post ''a'' []]),
        (\<lparr>lpr_server = Some sample_server, lpr_listingType = None, lpr_page = Some 1\<rparr>, [bare_post ''b'' []])]))
     (Some sample_server) PostListingType_ALL_ACCESSIBLE_POSTS 1 = Some [''b@h'']"
  using posts_pages_in_order [of "[(\<lparr>lpr_server = Some sample_server, lpr_listingType = None, lpr_page = None\<rparr>, [bare_post ''a'' []]),
        (\<lparr>lpr_server = Some sample_server, lpr_listingType = None, lpr_page = Some 1\<rparr>, [bare_post ''b'' []])]"
      PostListingType_ALL_ACCESSIBLE_POSTS "Some sample_server" "ref_adapter post_key replace_all None" sample_posts 1]
  by (simp add: less_Suc_eq lpr_key_def defaultPostListingType_def sample_server_def federationKey_def
      mk_federated_id_def)

end
