(* ===== verification/Events.thy ===== *)
theory Events
  imports Identified_Events Posts
begin

text \<open>
  The events slice (store/modules/events_state.ts): events with their occasions, the links from
  occasions and posts to events, the pages of occasions per listing type and time filter, and the
  attendance data.  \<open>unix\<close> stands for \<open>moment.utc(t).unix()\<close> of the date library, with the current time
  for \<open>undefined\<close>; timestamps are valid, so it is total.
\<close>

section \<open>State and requests\<close>

type_synonym federated_event = "ident_event federated_entity"
type_synonym grouped_occasion_pages = "event_listing_type \<rightharpoonup> (string \<rightharpoonup> paginated_ids)"

record events_state =
  events_pagesStatus :: federated_pages_status
  events_entities :: "federated_event entity_state"
  occasionEvents :: "string \<rightharpoonup> string"
  occasionPages :: "grouped_occasion_pages federated"
  failedEventIds :: "string list"
  failedOccasionIds :: "string list"
  failedEventPostIds :: "string list"
  postEvents :: "string \<rightharpoonup> string"
  postOccasions :: "string \<rightharpoonup> string"
  upcomingEventsTime :: string
  upcomingEventsTimeFilter :: "time_filter option"
  rsvpData :: "string \<rightharpoonup> rsvps"

definition initial_events :: "string \<Rightarrow> events_state" where
  "initial_events nowISO =
     \<lparr>events_pagesStatus = createFederatedPagesStatus,
      events_entities = empty_entities,
      occasionEvents = Map.empty,
      occasionPages = createFederated Map.empty,
      failedEventIds = [],
      failedOccasionIds = [],
      failedEventPostIds = [],
      postEvents = Map.empty,
      postOccasions = Map.empty,
      upcomingEventsTime = nowISO,
      upcomingEventsTimeFilter = None,
      rsvpData = Map.empty\<rparr>"

abbreviation event_key :: "federated_event \<Rightarrow> string" where
  "event_key \<equiv> federatedId ie_id"

definition defaultEventListingType :: event_listing_type where
  "defaultEventListingType = EventListingType_ALL_ACCESSIBLE_EVENTS"

record load_events_request =
  ler_server :: "rellm_server option"
  ler_listingType :: "event_listing_type option"
  ler_page :: "nat option"
  ler_filter :: "time_filter option"

record load_event_request =
  le_server :: "rellm_server option"
  le_id :: "string option"
  le_postId :: "string option"
  le_occasionId :: "string option"

definition ler_key :: "load_events_request \<Rightarrow> event_listing_type \<times> string" where
  "ler_key req = (nullish (ler_listingType req) defaultEventListingType, serializeTimeFilter (ler_filter req))"

text \<open>Filing a page two levels deep.\<close>

definition put_filtered_page ::
  "'l \<Rightarrow> string \<Rightarrow> nat \<Rightarrow> string list \<Rightarrow> ('l \<rightharpoonup> (string \<rightharpoonup> paginated_ids)) \<Rightarrow> ('l \<rightharpoonup> (string \<rightharpoonup> paginated_ids))"
where
  "put_filtered_page listingType filterKey page occasionIds pages =
     (let fresh = (if pages listingType = None then pages(listingType \<mapsto> Map.empty) else pages);
          filtered = nullish (fresh listingType) Map.empty
      in fresh(listingType \<mapsto> put_page filterKey page occasionIds filtered))"


section \<open>Merging an event\<close>

definition sort_occasions :: "(string option \<Rightarrow> int) \<Rightarrow> ident_event \<Rightarrow> ident_event" where
  "sort_occasions unix e = e\<lparr>ie_occasions := sort_key (\<lambda>i. unix (io_startsAt i)) (ie_occasions e)\<rparr>"

text \<open>The dictionary with one more link per occasion, in order.\<close>

definition link_occasions ::
  "(ident_occasion \<Rightarrow> string) \<Rightarrow> (ident_occasion \<Rightarrow> string) \<Rightarrow> ident_occasion list \<Rightarrow> (string \<rightharpoonup> string) \<Rightarrow> (string \<rightharpoonup> string)"
where
  "link_occasions keyOf valueOf os d = foldl (\<lambda>d i. d(keyOf i \<mapsto> valueOf i)) d os"

text \<open>
  The occasions of the stored event are the old ones the event does not replace, followed by the new
  ones.  The new ones are sorted in place afterwards: when there was no old event the stored list is
  that very array, otherwise it is a copy made before.
\<close>

definition merged_occasions ::
  "(string option \<Rightarrow> int) \<Rightarrow> federated_event option \<Rightarrow> ident_event \<Rightarrow> ident_occasion list" where
  "merged_occasions unix oldEvent e =
     (case oldEvent of
        None \<Rightarrow> ie_occasions (sort_occasions unix e)
      | Some old \<Rightarrow>
          filter (\<lambda>oi. find (\<lambda>ni. io_id ni = io_id oi) (ie_occasions e) = None) (ie_occasions (entity old))
          @ ie_occasions e)"

definition mergeEvent ::
  "(string option \<Rightarrow> int) \<Rightarrow> federated_event adapter \<Rightarrow> has_server \<Rightarrow> events_state \<Rightarrow> federated_event \<Rightarrow> events_state"
where
  "mergeEvent unix A action s e =
     (let federatedEventId = federateId (ie_id (entity e)) action;
          oldEvent = selectById A (events_entities s) (event_key e);
          os = ie_occasions (entity e);
          occasions = merged_occasions unix oldEvent (entity e)
      in s\<lparr>postEvents := (postEvents s)(federateId (post_id (ie_post (entity e))) action \<mapsto> federatedEventId),
           occasionEvents := link_occasions (\<lambda>i. federateId (io_id i) action) (\<lambda>i. federatedEventId) os (occasionEvents s),
           postOccasions := link_occasions (\<lambda>i. federateId (post_id (io_post i)) action)
             (\<lambda>i. federateId (io_id i) action) os (postOccasions s),
           events_entities := upsertOne A (events_entities s) (e\<lparr>entity := (entity e)\<lparr>ie_occasions := occasions\<rparr>\<rparr>)\<rparr>)"

definition mergeEvents ::
  "(string option \<Rightarrow> int) \<Rightarrow> federated_event adapter \<Rightarrow> rellm_server option \<Rightarrow> ident_event list \<Rightarrow> events_state \<Rightarrow> events_state"
where
  "mergeEvents unix A server events s =
     foldl (mergeEvent unix A (FederatedAction server)) s (federatedEntities events (FederatedAction server))"


section \<open>Reducers\<close>

definition upsertEvent :: "federated_event adapter \<Rightarrow> federated_event \<Rightarrow> events_state \<Rightarrow> events_state" where
  "upsertEvent A e s = s\<lparr>events_entities := upsertOne A (events_entities s) e\<rparr>"

definition removeEvent :: "federated_event adapter \<Rightarrow> string \<Rightarrow> events_state \<Rightarrow> events_state" where
  "removeEvent A i s = s\<lparr>events_entities := removeOne A (events_entities s) i\<rparr>"

definition resetEvents :: "federated_event adapter \<Rightarrow> string option \<Rightarrow> events_state \<Rightarrow> events_state" where
  "resetEvents A payload s =
     (case payload of
        None \<Rightarrow> s
      | Some h \<Rightarrow>
         if h = [] then s
         else
           (let eventsIdsToRemove = filter (id_on_host h) (ids (events_entities s))
            in s\<lparr>events_entities := removeMany A (events_entities s) eventsIdsToRemove,
                 occasionEvents := dict_delete_where (id_on_host h) (occasionEvents s),
                 postEvents := dict_delete_where (id_on_host h) (postEvents s),
                 postOccasions := dict_delete_where (id_on_host h) (postOccasions s),
                 failedEventIds := filter (\<lambda>i. \<not> id_on_host h i) (failedEventIds s),
                 failedOccasionIds := filter (\<lambda>i. \<not> id_on_host h i) (failedOccasionIds s),
                 occasionPages := deleteFederated (occasionPages s) h,
                 events_pagesStatus := deleteFederated (events_pagesStatus s) h\<rparr>))"

definition setUpcomingEventsTimeFilter :: "time_filter \<Rightarrow> events_state \<Rightarrow> events_state" where
  "setUpcomingEventsTimeFilter f s = s\<lparr>upcomingEventsTimeFilter := Some f\<rparr>"

text \<open>
  A new event is put in front of every page the server holds, whatever its listing type and filter,
  once the server's pages are loaded.
\<close>

definition createEvent_fulfilled ::
  "federated_event adapter \<Rightarrow> rellm_server option \<Rightarrow> ident_event \<Rightarrow> events_state \<Rightarrow> events_state" where
  "createEvent_fulfilled A server payload s =
     (let action = FederatedAction server;
          e = federatedPayload server payload;
          occasionIds = map (\<lambda>i. federateId (io_id i) action) (ie_occasions payload);
          s1 = s\<lparr>events_entities := upsertOne A (events_entities s) e,
                 occasionEvents := link_occasions (\<lambda>i. federateId (io_id i) action)
                   (\<lambda>i. federateId (ie_id payload) action) (ie_occasions payload) (occasionEvents s)\<rparr>
      in if getFederated (events_pagesStatus s1) action = Loaded
         then s1\<lparr>occasionPages := setFederated (occasionPages s1) action
                   (dict_map (dict_map (dict_map (\<lambda>page. occasionIds @ page)))
                     (getFederated (occasionPages s1) action))\<rparr>
         else s1)"

definition saveSingleEvent ::
  "(string option \<Rightarrow> int) \<Rightarrow> federated_event adapter \<Rightarrow> rellm_server option \<Rightarrow> ident_event \<Rightarrow> events_state \<Rightarrow> events_state"
where
  "saveSingleEvent unix A server payload s =
     mergeEvent unix A (FederatedAction server) s (federatedPayload server payload)"

definition loadEventsPage_pending :: "load_events_request \<Rightarrow> events_state \<Rightarrow> events_state" where
  "loadEventsPage_pending req s =
     s\<lparr>events_pagesStatus := setFederated (events_pagesStatus s) (FederatedAction (ler_server req)) Loading\<rparr>"

text \<open>The page lists the occasions of the response after the merge has sorted them.\<close>

definition page_occasion_ids :: "(string option \<Rightarrow> int) \<Rightarrow> rellm_server option \<Rightarrow> ident_event list \<Rightarrow> string list" where
  "page_occasion_ids unix server events =
     concat (map (\<lambda>e. map (\<lambda>i. federateId (io_id i) (FederatedAction server)) (ie_occasions (sort_occasions unix e))) events)"

definition loadEventsPage_fulfilled ::
  "(string option \<Rightarrow> int) \<Rightarrow> federated_event adapter \<Rightarrow> load_events_request \<Rightarrow> ident_event list \<Rightarrow> events_state \<Rightarrow> events_state"
where
  "loadEventsPage_fulfilled unix A req response s =
     (let action = FederatedAction (ler_server req);
          s1 = mergeEvents unix A (ler_server req) response
                 (s\<lparr>events_pagesStatus := setFederated (events_pagesStatus s) action Loaded\<rparr>);
          occasionIds = page_occasion_ids unix (ler_server req) response;
          page = nullish (ler_page req) 0;
          serverEventPages = put_filtered_page (fst (ler_key req)) (snd (ler_key req)) page occasionIds
            (getFederated (occasionPages s1) action)
      in s1\<lparr>occasionPages := setFederated (occasionPages s1) action serverEventPages\<rparr>)"

definition loadEventsPage_rejected :: "load_events_request \<Rightarrow> events_state \<Rightarrow> events_state" where
  "loadEventsPage_rejected req s =
     s\<lparr>events_pagesStatus := setFederated (events_pagesStatus s) (FederatedAction (ler_server req)) Errored\<rparr>"

definition push_failed :: "string option \<Rightarrow> has_server \<Rightarrow> string list \<Rightarrow> string list" where
  "push_failed i action l =
     (case i of None \<Rightarrow> l | Some x \<Rightarrow> if x = [] then l else l @ [federateId x action])"

definition loadEvent_rejected :: "load_event_request \<Rightarrow> events_state \<Rightarrow> events_state" where
  "loadEvent_rejected req s =
     (let action = FederatedAction (le_server req)
      in s\<lparr>failedEventIds := push_failed (le_id req) action (failedEventIds s),
           failedEventPostIds := push_failed (le_postId req) action (failedEventPostIds s),
           failedOccasionIds := push_failed (le_occasionId req) action (failedOccasionIds s)\<rparr>)"

text \<open>The events of a user are merged twice; the second pass sees the occasions the first one sorted.\<close>

definition loadUserEvents_fulfilled ::
  "(string option \<Rightarrow> int) \<Rightarrow> federated_event adapter \<Rightarrow> rellm_server option \<Rightarrow> ident_event list \<Rightarrow> events_state \<Rightarrow> events_state"
where
  "loadUserEvents_fulfilled unix A server events s =
     mergeEvents unix A server (map (sort_occasions unix) events) (mergeEvents unix A server events s)"

definition loadGroupEventsPage_events ::
  "(string option \<Rightarrow> int) \<Rightarrow> federated_event adapter \<Rightarrow> rellm_server option \<Rightarrow> ident_event list \<Rightarrow> events_state \<Rightarrow> events_state"
where
  "loadGroupEventsPage_events unix A server events s = mergeEvents unix A server events s"

definition deleteEvent_fulfilled ::
  "federated_event adapter \<Rightarrow> rellm_server option \<Rightarrow> ident_event \<Rightarrow> events_state \<Rightarrow> events_state" where
  "deleteEvent_fulfilled A server payload s =
     s\<lparr>events_entities := removeOne A (events_entities s) (event_key (federatedPayload server payload))\<rparr>"

definition loadRsvpData_fulfilled :: "rellm_server option \<Rightarrow> string \<Rightarrow> rsvps \<Rightarrow> events_state \<Rightarrow> events_state" where
  "loadRsvpData_fulfilled server occasionId payload s =
     s\<lparr>rsvpData := (rsvpData s)(federateId occasionId (FederatedAction server) \<mapsto> payload)\<rparr>"

datatype events_action =
    UpsertEvent federated_event
  | RemoveEvent string
  | ResetEvents "string option"
  | SetUpcomingEventsTimeFilter time_filter
  | CreateEvent_fulfilled "rellm_server option" ident_event
  | UpdateEvent_fulfilled "rellm_server option" ident_event
  | LoadEventsPage_pending load_events_request
  | LoadEventsPage_fulfilled load_events_request "ident_event list"
  | LoadEventsPage_rejected load_events_request
  | LoadEvent_fulfilled "rellm_server option" ident_event
  | LoadEvent_rejected load_event_request
  | LoadUserEvents_fulfilled "rellm_server option" "ident_event list"
  | LoadGroupEventsPage_fulfilled "rellm_server option" "ident_event list"
  | DeleteEvent_fulfilled "rellm_server option" ident_event
  | LoadRsvpData_fulfilled "rellm_server option" string rsvps

fun events_reducer ::
  "(string option \<Rightarrow> int) \<Rightarrow> federated_event adapter \<Rightarrow> events_action \<Rightarrow> events_state \<Rightarrow> events_state" where
  "events_reducer u A (UpsertEvent e) s = upsertEvent A e s"
| "events_reducer u A (RemoveEvent i) s = removeEvent A i s"
| "events_reducer u A (ResetEvents h) s = resetEvents A h s"
| "events_reducer u A (SetUpcomingEventsTimeFilter f) s = setUpcomingEventsTimeFilter f s"
| "events_reducer u A (CreateEvent_fulfilled sv e) s = createEvent_fulfilled A sv e s"
| "events_reducer u A (UpdateEvent_fulfilled sv e) s = saveSingleEvent u A sv e s"
| "events_reducer u A (LoadEventsPage_pending r) s = loadEventsPage_pending r s"
| "events_reducer u A (LoadEventsPage_fulfilled r es) s = loadEventsPage_fulfilled u A r es s"
| "events_reducer u A (LoadEventsPage_rejected r) s = loadEventsPage_rejected r s"
| "events_reducer u A (LoadEvent_fulfilled sv e) s = saveSingleEvent u A sv e s"
| "events_reducer u A (LoadEvent_rejected r) s = loadEvent_rejected r s"
| "events_reducer u A (LoadUserEvents_fulfilled sv es) s = loadUserEvents_fulfilled u A sv es s"
| "events_reducer u A (LoadGroupEventsPage_fulfilled sv es) s = loadGroupEventsPage_events u A sv es s"
| "events_reducer u A (DeleteEvent_fulfilled sv e) s = deleteEvent_fulfilled A sv e s"
| "events_reducer u A (LoadRsvpData_fulfilled sv i d) s = loadRsvpData_fulfilled sv i d s"


section \<open>Invariant and interfaces\<close>

definition events_wf :: "events_state \<Rightarrow> bool" where
  "events_wf s \<longleftrightarrow> wf_entities event_key (events_entities s)"

lemma initial_events_wf [simp]: "events_wf (initial_events now)"
  by (simp add: events_wf_def initial_events_def)

interpretation events_ref: entity_adapter "ref_adapter event_key replace_all key" event_key replace_all
  for key
  by (rule ref_adapter_laws) (simp add: replace_all_def)

lemma mergeEvent_wf:
  "entity_adapter A event_key replace_all \<Longrightarrow> events_wf s \<Longrightarrow> events_wf (mergeEvent u A action s e)"
  by (simp add: mergeEvent_def Let_def events_wf_def adapter_wf)

lemma mergeEvents_wf:
  assumes "entity_adapter A event_key replace_all" "events_wf s"
  shows "events_wf (mergeEvents u A server es s)"
proof -
  have "events_wf (foldl (mergeEvent u A action) s fs)" for action fs
    using assms(2) by (induction fs arbitrary: s) (simp_all add: mergeEvent_wf [OF assms(1)])
  then show ?thesis by (simp add: mergeEvents_def)
qed

lemma events_wf_update [simp]:
  "events_wf (s\<lparr>events_pagesStatus := x1\<rparr>) = events_wf s"
  "events_wf (s\<lparr>occasionPages := x2\<rparr>) = events_wf s"
  "events_wf (s\<lparr>upcomingEventsTimeFilter := x3\<rparr>) = events_wf s"
  "events_wf (s\<lparr>rsvpData := x4\<rparr>) = events_wf s"
  by (simp_all add: events_wf_def)

lemma events_reducer_wf:
  assumes "entity_adapter A event_key replace_all" "events_wf s"
  shows "events_wf (events_reducer u A a s)"
proof -
  note adapters = adapter_wf [OF assms(1)]
  show ?thesis
    using assms(2) mergeEvent_wf [OF assms(1)] mergeEvents_wf [OF assms(1)]
  proof (cases a)
    case (ResetEvents h)
    then show ?thesis
      using assms(2) adapters by (auto simp: resetEvents_def Let_def events_wf_def split: option.split)
  next
    case (CreateEvent_fulfilled sv e)
    then show ?thesis
      using assms(2) adapters by (simp add: createEvent_fulfilled_def Let_def events_wf_def)
  next
    case (LoadEventsPage_fulfilled r es)
    then show ?thesis
      using assms(2) mergeEvents_wf [OF assms(1)] by (simp add: loadEventsPage_fulfilled_def Let_def)
  next
    case (LoadUserEvents_fulfilled sv es)
    then show ?thesis
      using assms(2) mergeEvents_wf [OF assms(1)] by (simp add: loadUserEvents_fulfilled_def)
  qed (use assms(2) adapters mergeEvent_wf [OF assms(1)] mergeEvents_wf [OF assms(1)] in
      \<open>simp_all add: upsertEvent_def removeEvent_def setUpcomingEventsTimeFilter_def saveSingleEvent_def
        loadEventsPage_pending_def loadEventsPage_rejected_def loadEvent_rejected_def Let_def
        loadGroupEventsPage_events_def deleteEvent_fulfilled_def loadRsvpData_fulfilled_def\<close>,
      simp_all add: events_wf_def)
qed

text \<open>
  Two nested dictionaries keyed by listing type and filter refine one dictionary keyed by the pair; seen
  that way the slice keeps the contract of a loaded page.
\<close>

definition flat_pages :: "('l \<rightharpoonup> ('f \<rightharpoonup> 'v)) \<Rightarrow> ('l \<times> 'f \<rightharpoonup> 'v)" where
  "flat_pages pages = (\<lambda>(l, f). Option.bind (pages l) (\<lambda>d. d f))"

definition flat_federated :: "('l \<rightharpoonup> ('f \<rightharpoonup> 'v)) federated \<Rightarrow> ('l \<times> 'f \<rightharpoonup> 'v) federated" where
  "flat_federated p = \<lparr>fvalues = dict_map flat_pages (fvalues p), defaultValue = flat_pages (defaultValue p)\<rparr>"

lemma flat_put_filtered_page:
  "flat_pages (put_filtered_page l f p v pages) = put_page (l, f) p v (flat_pages pages)"
  by (auto simp: fun_eq_iff flat_pages_def put_filtered_page_def put_page_def Let_def bind_eq_Some_conv
      split: option.splits)

lemma flat_getFederated: "getFederated (flat_federated p) sv = flat_pages (getFederated p sv)"
  by (cases "fvalues p (serverHost sv)") (simp_all add: getFederated_def flat_federated_def)

lemma flat_setFederated: "flat_federated (setFederated p sv v) = setFederated (flat_federated p) sv (flat_pages v)"
  by (auto simp: setFederated_def flat_federated_def fun_eq_iff)

lemma mergeEvents_pages [simp]:
  "occasionPages (mergeEvents u A server es s) = occasionPages s"
  "events_pagesStatus (mergeEvents u A server es s) = events_pagesStatus s"
proof -
  have "occasionPages (foldl (mergeEvent u A action) s fs) = occasionPages s \<and>
      events_pagesStatus (foldl (mergeEvent u A action) s fs) = events_pagesStatus s" for action fs
    by (induction fs arbitrary: s) (simp_all add: mergeEvent_def Let_def)
  then show "occasionPages (mergeEvents u A server es s) = occasionPages s"
    "events_pagesStatus (mergeEvents u A server es s) = events_pagesStatus s"
    by (simp_all add: mergeEvents_def)
qed

interpretation events_pages: paged_slice "\<lambda>s. flat_federated (occasionPages s)"
  "\<lambda>(req, response). loadEventsPage_fulfilled u A req response" "\<lambda>(req, response). ler_server req"
  "\<lambda>(req, response). ler_key req" "\<lambda>(req, response). nullish (ler_page req) 0"
  "\<lambda>(req, response). page_occasion_ids u (ler_server req) response" for u A
  by unfold_locales
    (auto simp: loadEventsPage_fulfilled_def Let_def flat_setFederated flat_getFederated flat_put_filtered_page)

lemma events_resettable:
  assumes "entity_adapter A event_key replace_all"
  shows "resettable_slice (resetEvents A) events_wf (\<lambda>s. entities (events_entities s)) occasionPages
    events_pagesStatus"
  by unfold_locales
    (auto simp: resetEvents_def events_wf_def Let_def removeMany_reset [OF assms] adapter_wf [OF assms]
      split: option.split)

interpretation events_reset: resettable_slice
  "resetEvents (ref_adapter event_key replace_all key)" events_wf "\<lambda>s. entities (events_entities s)"
  occasionPages events_pagesStatus for key
  by (rule events_resettable, rule events_ref.entity_adapter_axioms)

section \<open>What a merge leaves behind\<close>

lemma link_occasions_other:
  "k \<notin> keyOf ` set os \<Longrightarrow> link_occasions keyOf valueOf os d k = d k"
  by (induction os arbitrary: d) (auto simp: link_occasions_def)

lemma link_occasions_const:
  "i \<in> set os \<Longrightarrow> link_occasions keyOf (\<lambda>i. v) os d (keyOf i) = Some v"
proof (induction os arbitrary: d rule: rev_induct)
  case (snoc x xs)
  then show ?case by (auto simp: link_occasions_def)
qed simp

lemma find_same_id: "find (\<lambda>ni. io_id ni = x) os = None \<longleftrightarrow> x \<notin> io_id ` set os"
  by (auto simp: find_None_iff)

lemma merged_occasions_ids:
  "io_id ` set (merged_occasions u old e) =
     (case old of None \<Rightarrow> {} | Some o' \<Rightarrow> io_id ` set (ie_occasions (entity o'))) \<union> io_id ` set (ie_occasions e)"
  by (auto simp: merged_occasions_def sort_occasions_def find_same_id split: option.split)

lemma merged_occasions_new: "set (ie_occasions e) \<subseteq> set (merged_occasions u old e)"
  by (auto simp: merged_occasions_def sort_occasions_def split: option.split)

lemma distinct_sort_map: "distinct (map f xs) \<Longrightarrow> distinct (map f (sort_key g xs))"
  by (simp add: distinct_map)

lemma merged_occasions_distinct:
  assumes "distinct (map io_id (ie_occasions e))"
    and "\<forall>o'. old = Some o' \<longrightarrow> distinct (map io_id (ie_occasions (entity o')))"
  shows "distinct (map io_id (merged_occasions u old e))"
proof (cases old)
  case None
  then show ?thesis
    using assms(1) by (simp add: merged_occasions_def sort_occasions_def distinct_sort_map)
next
  case (Some o')
  then have "distinct (map io_id (filter P (ie_occasions (entity o'))))" for P
    using assms(2) by (simp add: distinct_map_filter)
  then show ?thesis
    using Some assms(1) by (auto simp: merged_occasions_def find_same_id image_iff)
qed

lemma save_stored:
  assumes "entity_adapter A event_key replace_all"
  shows "entities (events_entities (saveSingleEvent u A sv e s)) =
    (entities (events_entities s))(mk_federated_id (ie_id e) (federationKey sv) \<mapsto>
       \<lparr>entity = e\<lparr>ie_occasions := merged_occasions u
          (entities (events_entities s) (mk_federated_id (ie_id e) (federationKey sv))) e\<rparr>,
        serverHostOf = federationKey sv\<rparr>)"
  using adapter_entities [OF assms]
  by (simp add: saveSingleEvent_def mergeEvent_def Let_def federatedPayload_def federatedEntity_def
      federatedId_def serverHost_def)


lemma dict_map_fun: "dict_map f = (\<lambda>d k. map_option f (d k))"
  by (simp add: fun_eq_iff)


section \<open>Properties\<close>

definition sample_occasion :: "string \<Rightarrow> string \<Rightarrow> ident_occasion" where
  "sample_occasion i t =
     \<lparr>io_id = i, io_post = bare_post i [], io_startsAt = Some t, io_endsAt = None, io_eventId = [], io_rest = []\<rparr>"

definition sample_event :: ident_event where
  "sample_event =
     \<lparr>ie_id = ''e'', ie_post = bare_post ''e'' [],
      ie_occasions = [sample_occasion ''j'' ''22'', sample_occasion ''i'' ''1''], ie_rest = []\<rparr>"

definition length_clock :: "string option \<Rightarrow> int" where
  "length_clock t = (case t of None \<Rightarrow> 0 | Some x \<Rightarrow> int (length x))"

text \<open>
  C22: After an event is saved, every one of its occasions resolves: the occasion's
  identifier is linked to an event the store holds, and that event has the occasion.
\<close>

theorem merged_event_resolves:
  assumes "entity_adapter A event_key replace_all" "CHR ''@'' \<notin> set (ie_id e)" "i \<in> set (ie_occasions e)"
  shows "\<exists>k b. occasionEvents (saveSingleEvent u A sv e s) (federateId (io_id i) (FederatedAction sv)) = Some k \<and>
    entities (events_entities (saveSingleEvent u A sv e s)) k = Some b \<and>
    ie_id (entity b) = ie_id e \<and> i \<in> set (ie_occasions (entity b))"
proof -
  have "occasionEvents (saveSingleEvent u A sv e s) (federateId (io_id i) (FederatedAction sv)) =
      Some (mk_federated_id (ie_id e) (federationKey sv))"
    using link_occasions_const [OF assms(3), where keyOf = "\<lambda>i. federateId (io_id i) (FederatedAction sv)"] assms(2)
    by (simp add: saveSingleEvent_def mergeEvent_def Let_def federatedPayload_def federateId_def serverHost_def)
  then show ?thesis
    using save_stored [OF assms(1), of u sv e s] merged_occasions_new assms(3)
    by auto
qed

theorem merged_event_resolves_witness:
  "\<exists>k b. occasionEvents (saveSingleEvent length_clock (ref_adapter event_key replace_all None) None sample_event
        (initial_events [])) (federateId ''j'' (FederatedAction None)) = Some k \<and>
    entities (events_entities (saveSingleEvent length_clock (ref_adapter event_key replace_all None) None
      sample_event (initial_events []))) k = Some b \<and>
    ie_id (entity b) = ''e'' \<and> sample_occasion ''j'' ''22'' \<in> set (ie_occasions (entity b))"
  using merged_event_resolves [OF events_ref.entity_adapter_axioms, of sample_event "sample_occasion ''j'' ''22''"
      length_clock None None "initial_events []"]
  by (simp add: sample_event_def sample_occasion_def)

text \<open>
  C23: Saving an event keeps the old occasions the new version does not mention and
  takes the new version of the others, each identifier once; the occasions are put in the order of their
  start only when the event was not cached before.
\<close>

theorem merged_event_occasions:
  assumes "entity_adapter A event_key replace_all" "distinct (map io_id (ie_occasions e))"
    and "\<forall>b. entities (events_entities s) (mk_federated_id (ie_id e) (federationKey sv)) = Some b \<longrightarrow>
           distinct (map io_id (ie_occasions (entity b)))"
  shows "\<exists>b. entities (events_entities (saveSingleEvent u A sv e s))
      (mk_federated_id (ie_id e) (federationKey sv)) = Some b \<and>
    distinct (map io_id (ie_occasions (entity b))) \<and>
    (case entities (events_entities s) (mk_federated_id (ie_id e) (federationKey sv)) of
       None \<Rightarrow> set (ie_occasions (entity b)) = set (ie_occasions e) \<and>
              sorted (map (\<lambda>i. u (io_startsAt i)) (ie_occasions (entity b)))
     | Some old \<Rightarrow> ie_occasions (entity b) =
         filter (\<lambda>oi. io_id oi \<notin> io_id ` set (ie_occasions e)) (ie_occasions (entity old)) @ ie_occasions e)"
  using save_stored [OF assms(1), of u sv e s] merged_occasions_distinct [OF assms(2,3), of u]
  by (auto simp: merged_occasions_def sort_occasions_def find_same_id split: option.split)

theorem merged_event_occasions_witness:
  "\<exists>b. entities (events_entities (saveSingleEvent length_clock (ref_adapter event_key replace_all None) None
      sample_event (initial_events []))) ''e@default'' = Some b \<and>
    sorted (map (\<lambda>i. length_clock (io_startsAt i)) (ie_occasions (entity b)))"
  using merged_event_occasions [OF events_ref.entity_adapter_axioms [where key = None],
      where e = sample_event and s = "initial_events []" and sv = None and u = length_clock]
  by (auto simp: sample_event_def sample_occasion_def initial_events_def empty_entities_def
      mk_federated_id_def federationKey_def)

text \<open>
  A created event is put in front of every page the server's listings hold when the
  server's pages are loaded, and no page changes otherwise; other hosts never change.
\<close>

theorem createEvent_pages:
  "getFederated (occasionPages (createEvent_fulfilled A sv e s)) (FromHost h) l =
     (if h = federationKey sv \<and> getFederated (events_pagesStatus s) (FromHost h) = Loaded
      then map_option (\<lambda>d f. map_option (\<lambda>ps p. map_option
             (\<lambda>page. map (\<lambda>i. federateId (io_id i) (FederatedAction sv)) (ie_occasions e) @ page) (ps p)) (d f))
             (getFederated (occasionPages s) (FromHost h) l)
      else getFederated (occasionPages s) (FromHost h) l)"
proof -
  have "getFederated (events_pagesStatus s) (FederatedAction sv) =
      getFederated (events_pagesStatus s) (FromHost (federationKey sv))"
    "getFederated (occasionPages s) (FederatedAction sv) =
      getFederated (occasionPages s) (FromHost (federationKey sv))"
    by (simp_all add: getFederated_def serverHost_def)
  then show ?thesis
    by (auto simp: createEvent_fulfilled_def Let_def serverHost_def dict_map_fun)
qed

text \<open>
  A loaded page of events is filed under its own time filter: it is found
  there, and the same page of every other filter is untouched.
\<close>

theorem events_pages_by_filter:
  "let s' = loadEventsPage_fulfilled u A req response s;
       l = nullish (ler_listingType req) defaultEventListingType;
       page = (\<lambda>s f. Option.bind (getFederated (occasionPages s) (FederatedAction (ler_server req)) l)
                 (\<lambda>d. Option.bind (d (serializeTimeFilter f)) (\<lambda>ps. ps (nullish (ler_page req) 0))))
   in page s' f = (if f = ler_filter req then Some (page_occasion_ids u (ler_server req) response) else page s f)"
proof -
  let ?s' = "loadEventsPage_fulfilled u A req response s"
  let ?l = "nullish (ler_listingType req) defaultEventListingType"
  have flat: "server_page (flat_federated (occasionPages t)) (ler_server req) (?l, k) p =
      Option.bind (getFederated (occasionPages t) (FederatedAction (ler_server req)) ?l)
        (\<lambda>d. Option.bind (d k) (\<lambda>ps. ps p))" for t k p
    by (cases "getFederated (occasionPages t) (FederatedAction (ler_server req)) ?l")
      (simp_all add: server_page_def page_at_def flat_getFederated flat_pages_def)
  show ?thesis
    using events_pages.server_page_load [of u A "(req, response)" s "ler_server req"
        "(?l, serializeTimeFilter f)" "nullish (ler_page req) 0"] serializeTimeFilter_inj [of f "ler_filter req"]
    by (simp add: Let_def flat ler_key_def)
qed

end
