(* ===== verification/Locks.thy ===== *)
theory Locks
  imports Rellm_Prelude
begin

text \<open>
  Groups and users are locked while a request that changes them is under way
  (\<open>lockGroup\<close>/\<open>unlockGroup\<close>/\<open>isGroupLocked\<close> and their namesakes for users).  The locale \<open>lock_set\<close> is
  the contract of the three functions; both slices interpret it.
\<close>

text \<open>The requests of a session: one that starts on an identifier, one that is settled.\<close>

datatype lock_event = Started string | Settled string

fun lock_target :: "lock_event \<Rightarrow> string" where
  "lock_target (Started i) = i"
| "lock_target (Settled i) = i"

locale lock_set =
  fixes lock :: "'s \<Rightarrow> string \<Rightarrow> 's"
    and unlock :: "'s \<Rightarrow> string \<Rightarrow> 's"
    and locked :: "'s \<Rightarrow> string \<Rightarrow> bool"
  assumes locked_lock: "locked (lock s i) j \<longleftrightarrow> i = j \<or> locked s j"
    and locked_unlock: "locked (unlock s i) j \<longleftrightarrow> i \<noteq> j \<and> locked s j"
begin

lemma unlock_releases: "\<not> locked (unlock s i) i"
  by (simp add: locked_unlock)

lemma lock_other: "i \<noteq> j \<Longrightarrow> locked (lock s i) j = locked s j"
  by (simp add: locked_lock)

lemma unlock_other: "i \<noteq> j \<Longrightarrow> locked (unlock s i) j = locked s j"
  by (simp add: locked_unlock)

text \<open>One settled request releases the lock of every request under way for the identifier.\<close>

lemma lock_lock_unlock: "\<not> locked (unlock (lock (lock s i) i) i) i"
  by (simp add: locked_unlock)

text \<open>What the lock of an identifier says: its last request has started and is not settled.\<close>

lemma locked_iff_last:
  "locked (foldl (\<lambda>s ev. case ev of Started i \<Rightarrow> lock s i | Settled i \<Rightarrow> unlock s i) s evs) j =
     (case filter (\<lambda>ev. lock_target ev = j) (rev evs) of
        [] \<Rightarrow> locked s j
      | ev # _ \<Rightarrow> ev = Started j)"
proof (induction evs rule: rev_induct)
  case (snoc ev evs)
  then show ?case
    by (cases ev) (auto simp: locked_lock locked_unlock)
qed simp

end

end
