(* ===== verification/Groups_Slice.thy ===== *)
theory Groups_Slice
  imports Events Locks
begin

text \<open>
  The groups slice (store/modules/groups_state.ts): groups and the shortnames that lead to them, the pages
  of groups, of a group's posts, events and members, the shares of a post, and the locks of groups with a
  membership request under way.  A reducer returns the new state with what it schedules; one that reads
  through a non-null assertion returns a result.
\<close>

section \<open>State and requests\<close>

type_synonym federated_group = "group federated_entity"

record groups_state =
  groups_pagesStatus :: federated_pages_status
  groups_entities :: "federated_group entity_state"
  groupPages :: "group_listing_type grouped_pages federated"
  shortnameIds :: "string \<rightharpoonup> string"
  groupMembershipPages :: "string \<rightharpoonup> (moderation \<rightharpoonup> (nat \<rightharpoonup> membership list))"
  groupPostPages :: "string grouped_pages"
  groupEventPages :: "string \<rightharpoonup> (string \<rightharpoonup> paginated_ids)"
  postIdGroupPosts :: "string \<rightharpoonup> group_post list"
  failedShortnames :: "string list"
  failedPostIdGroupPosts :: "string list"
  mutatingGroupIds :: "string list"

definition initial_groups :: groups_state where
  "initial_groups =
     \<lparr>groups_pagesStatus = createFederatedPagesStatus,
      groups_entities = empty_entities,
      groupPages = createFederated Map.empty,
      shortnameIds = Map.empty,
      groupMembershipPages = Map.empty,
      groupPostPages = Map.empty,
      groupEventPages = Map.empty,
      postIdGroupPosts = Map.empty,
      failedShortnames = [],
      failedPostIdGroupPosts = [],
      mutatingGroupIds = []\<rparr>"

abbreviation group_key :: "federated_group \<Rightarrow> string" where
  "group_key \<equiv> federatedId g_id"

definition federatedShortname :: "federated_group \<Rightarrow> string" where
  "federatedShortname g = g_shortname (entity g) @ ''@'' @ serverHostOf g"

definition defaultGroupListingType :: group_listing_type where
  "defaultGroupListingType = GroupListingType_ALL_GROUPS"

record load_groups_request =
  lgr_server :: "rellm_server option"
  lgr_listingType :: "group_listing_type option"
  lgr_page :: "nat option"

record load_group_page_request =
  lgp_server :: "rellm_server option"
  lgp_groupId :: string
  lgp_page :: "nat option"
  lgp_filter :: "time_filter option"

record join_request =
  jr_aos :: account_or_server
  jr_groupId :: string
  jr_join :: bool

record respond_request =
  rr_aos :: account_or_server
  rr_userId :: string
  rr_groupId :: string
  rr_accept :: bool

record load_members_request =
  lmb_server :: "rellm_server option"
  lmb_id :: string
  lmb_page :: "nat option"
  lmb_groupModeration :: "moderation option"

definition lgr_key :: "load_groups_request \<Rightarrow> group_listing_type" where
  "lgr_key req = nullish (lgr_listingType req) defaultGroupListingType"


section \<open>Locks\<close>

definition lockGroup :: "groups_state \<Rightarrow> string \<Rightarrow> groups_state" where
  "lockGroup s groupId = s\<lparr>mutatingGroupIds := groupId # mutatingGroupIds s\<rparr>"

definition unlockGroup :: "groups_state \<Rightarrow> string \<Rightarrow> groups_state" where
  "unlockGroup s groupId = s\<lparr>mutatingGroupIds := filter (\<lambda>u. u \<noteq> groupId) (mutatingGroupIds s)\<rparr>"

definition isGroupLocked :: "groups_state \<Rightarrow> string \<Rightarrow> bool" where
  "isGroupLocked s groupId \<longleftrightarrow> groupId \<in> set (mutatingGroupIds s)"

interpretation group_locks: lock_set lockGroup unlockGroup isGroupLocked
  by unfold_locales (auto simp: lockGroup_def unlockGroup_def isGroupLocked_def)


section \<open>Reducers\<close>

definition upsertGroup :: "federated_group adapter \<Rightarrow> federated_group \<Rightarrow> groups_state \<Rightarrow> groups_state" where
  "upsertGroup A g s = s\<lparr>groups_entities := upsertOne A (groups_entities s) g\<rparr>"

definition removeGroup :: "federated_group adapter \<Rightarrow> string \<Rightarrow> groups_state \<Rightarrow> groups_state" where
  "removeGroup A i s = s\<lparr>groups_entities := removeOne A (groups_entities s) i\<rparr>"

definition resetGroups :: "federated_group adapter \<Rightarrow> string option \<Rightarrow> groups_state \<Rightarrow> groups_state" where
  "resetGroups A payload s =
     (case payload of
        None \<Rightarrow> s
      | Some h \<Rightarrow>
         if h = [] then s
         else
           (let groupIdsToRemove = filter (id_on_host h) (ids (groups_entities s))
            in s\<lparr>groups_entities := removeMany A (groups_entities s) groupIdsToRemove,
                 failedShortnames := filter (\<lambda>i. \<not> id_on_host h i) (failedShortnames s),
                 failedPostIdGroupPosts := filter (\<lambda>i. \<not> id_on_host h i) (failedPostIdGroupPosts s),
                 groupPages := deleteFederated (groupPages s) h,
                 groupPostPages := dict_delete_where (id_on_host h) (groupPostPages s),
                 groupEventPages := dict_delete_where (id_on_host h) (groupEventPages s),
                 postIdGroupPosts := dict_delete_where (id_on_host h) (postIdGroupPosts s),
                 groups_pagesStatus := deleteFederated (groups_pagesStatus s) h\<rparr>))"

text \<open>The link every handler writes beside a group it stores.\<close>

definition link_shortname :: "federated_group \<Rightarrow> groups_state \<Rightarrow> groups_state" where
  "link_shortname g s =
     s\<lparr>shortnameIds := (shortnameIds s)(to_lower (federatedShortname g) \<mapsto> group_key g)\<rparr>"

definition createGroup_fulfilled ::
  "federated_group adapter \<Rightarrow> rellm_server option \<Rightarrow> group \<Rightarrow> groups_state \<Rightarrow> groups_state \<times> effect list" where
  "createGroup_fulfilled A server payload s =
     (let action = FederatedAction server;
          g = federatedPayload server payload;
          s1 = link_shortname g (upsertGroup A g s);
          pages = getFederated (groupPages s1) action;
          s2 = (case page_at pages GroupListingType_ALL_GROUPS 0 of
                  None \<Rightarrow> s1
                | Some firstPage \<Rightarrow>
                    s1\<lparr>groupPages := setFederated (groupPages s1) action
                        (pages(GroupListingType_ALL_GROUPS \<mapsto>
                           (nullish (pages GroupListingType_ALL_GROUPS) Map.empty)(0 \<mapsto> group_key g # firstPage)))\<rparr>)
      in (s2, [After 1 (T_markGroupVisit payload (serverHostOf g))]))"

definition updateGroup_fulfilled ::
  "federated_group adapter \<Rightarrow> rellm_server option \<Rightarrow> group \<Rightarrow> groups_state \<Rightarrow> groups_state \<times> effect list" where
  "updateGroup_fulfilled A server payload s =
     (let g = federatedPayload server payload
      in (link_shortname g (upsertGroup A g s), [After 1 (T_markGroupVisit payload (serverHostOf g))]))"

text \<open>
  The page is edited in place.  A server without an entry reads a copy of the default value, which has
  no listing, so only an existing entry can change.
\<close>

definition deleteGroup_fulfilled ::
  "federated_group adapter \<Rightarrow> rellm_server option \<Rightarrow> string \<Rightarrow> groups_state \<Rightarrow> groups_state" where
  "deleteGroup_fulfilled A server groupId s =
     (let action = FederatedAction server;
          federatedGroupId = federateId groupId action;
          s1 = removeGroup A federatedGroupId s
      in case fvalues (groupPages s1) (serverHost action) of
           None \<Rightarrow> s1
         | Some pages \<Rightarrow>
            (case page_at pages GroupListingType_ALL_GROUPS 0 of
               None \<Rightarrow> s1
             | Some firstPage \<Rightarrow>
                 s1\<lparr>groupPages := setFederated (groupPages s1) action
                     (pages(GroupListingType_ALL_GROUPS \<mapsto>
                        (nullish (pages GroupListingType_ALL_GROUPS) Map.empty)
                          (0 \<mapsto> filter (\<lambda>i. i \<noteq> federatedGroupId) firstPage)))\<rparr>))"

definition loadGroupsPage_pending :: "load_groups_request \<Rightarrow> groups_state \<Rightarrow> groups_state" where
  "loadGroupsPage_pending req s =
     s\<lparr>groups_pagesStatus := setFederated (groups_pagesStatus s) (FederatedAction (lgr_server req)) Loading\<rparr>"

definition loadGroupsPage_fulfilled ::
  "federated_group adapter \<Rightarrow> load_groups_request \<Rightarrow> group list \<Rightarrow> groups_state \<Rightarrow> groups_state" where
  "loadGroupsPage_fulfilled A req response s =
     (let action = FederatedAction (lgr_server req);
          gs = federatedEntities response action;
          s1 = s\<lparr>groups_pagesStatus := setFederated (groups_pagesStatus s) action Loaded,
                 groups_entities := upsertMany A (groups_entities s) gs\<rparr>;
          s2 = foldl (\<lambda>s g. link_shortname g s) s1 gs;
          page = nullish (lgr_page req) 0;
          serverPages = put_page (lgr_key req) page (map group_key gs) (getFederated (groupPages s2) action)
      in s2\<lparr>groupPages := setFederated (groupPages s2) action serverPages\<rparr>)"

definition loadGroupsPage_rejected :: "load_groups_request \<Rightarrow> groups_state \<Rightarrow> groups_state" where
  "loadGroupsPage_rejected req s =
     s\<lparr>groups_pagesStatus := setFederated (groups_pagesStatus s) (FederatedAction (lgr_server req)) Errored\<rparr>"

definition loadPostGroupPosts_fulfilled ::
  "rellm_server option \<Rightarrow> string \<Rightarrow> group_post list \<Rightarrow> groups_state \<Rightarrow> groups_state" where
  "loadPostGroupPosts_fulfilled server postId groupPosts s =
     s\<lparr>postIdGroupPosts := (postIdGroupPosts s)(federateId postId (FederatedAction server) \<mapsto> groupPosts)\<rparr>"

definition loadPostGroupPosts_rejected ::
  "rellm_server option \<Rightarrow> string \<Rightarrow> groups_state \<Rightarrow> groups_state" where
  "loadPostGroupPosts_rejected server postId s =
     s\<lparr>failedPostIdGroupPosts := federateId postId (FederatedAction server) # failedPostIdGroupPosts s\<rparr>"

definition createGroupPost_fulfilled ::
  "rellm_server option \<Rightarrow> group_post \<Rightarrow> groups_state \<Rightarrow> groups_state \<times> effect list" where
  "createGroupPost_fulfilled server groupPost s =
     (let postId = federateId (gp_postId groupPost) (FederatedAction server)
      in (s\<lparr>postIdGroupPosts := (postIdGroupPosts s)
              (postId \<mapsto> groupPost # nullish (postIdGroupPosts s postId) [])\<rparr>,
          [NextFrame (T_reloadGroupPages (gp_groupId groupPost))]))"

definition deleteGroupPost_fulfilled ::
  "rellm_server option \<Rightarrow> string \<Rightarrow> string \<Rightarrow> groups_state \<Rightarrow> groups_state" where
  "deleteGroupPost_fulfilled server groupId argPostId s =
     (let postId = federateId argPostId (FederatedAction server)
      in s\<lparr>postIdGroupPosts := (postIdGroupPosts s)
             (postId \<mapsto> filter (\<lambda>gp. gp_groupId gp \<noteq> groupId) (nullish (postIdGroupPosts s postId) []))\<rparr>)"

definition loadGroupPostsPage_fulfilled ::
  "load_group_page_request \<Rightarrow> post list \<Rightarrow> groups_state \<Rightarrow> groups_state" where
  "loadGroupPostsPage_fulfilled req ps s =
     (let action = FederatedAction (lgp_server req);
          postIds = map (\<lambda>p. federateId (post_id p) action) ps;
          groupId = federateId (lgp_groupId req) action;
          page = nullish (lgp_page req) 0
      in s\<lparr>groupPostPages := put_page groupId page postIds (groupPostPages s)\<rparr>)"

text \<open>
  The first occasion of each event is listed.  The events slice runs before this one and has sorted the
  occasions of the payload in place by then.
\<close>

definition loadGroupEventsPage_fulfilled ::
  "load_group_page_request \<Rightarrow> ident_event list \<Rightarrow> groups_state \<Rightarrow> groups_state result" where
  "loadGroupEventsPage_fulfilled req events s =
     (let action = FederatedAction (lgp_server req)
      in bind_result
           (map_result (\<lambda>e. bind_result (deref (js_at (ie_occasions e) 0)) (\<lambda>i. Inr (federateId (io_id i) action))) events)
           (\<lambda>occasionIds.
             (let groupId = federateId (lgp_groupId req) action;
                  page = nullish (lgp_page req) 0
              in Inr (s\<lparr>groupEventPages := put_filtered_page groupId (serializeTimeFilter (lgp_filter req)) page
                    occasionIds (groupEventPages s)\<rparr>))))"

definition loadGroup_fulfilled ::
  "federated_group adapter \<Rightarrow> rellm_server option \<Rightarrow> group \<Rightarrow> groups_state \<Rightarrow> groups_state" where
  "loadGroup_fulfilled A server payload s =
     (let g = federatedPayload server payload in link_shortname g (upsertGroup A g s))"

definition loadGroupByShortname_fulfilled ::
  "federated_group adapter \<Rightarrow> rellm_server option \<Rightarrow> group list \<Rightarrow> groups_state \<Rightarrow> groups_state" where
  "loadGroupByShortname_fulfilled A server payload s =
     foldl (\<lambda>s serverGroup. let g = federatedEntity serverGroup (FederatedAction server)
                            in link_shortname g (upsertGroup A g s)) s payload"

text \<open>The key under which a request locks its group.\<close>

definition jr_key :: "join_request \<Rightarrow> string" where
  "jr_key req = federateId (parsed_id (parseFederatedId (jr_groupId req))) (FederatedAction (aos_server (jr_aos req)))"

definition joinLeaveGroup_pending :: "join_request \<Rightarrow> groups_state \<Rightarrow> groups_state" where
  "joinLeaveGroup_pending req s = lockGroup s (jr_key req)"

definition joinLeaveGroup_rejected :: "join_request \<Rightarrow> groups_state \<Rightarrow> groups_state" where
  "joinLeaveGroup_rejected req s = unlockGroup s (jr_key req)"

definition passing_membership :: "membership option \<Rightarrow> bool" where
  "passing_membership m \<longleftrightarrow>
     passes (map_option m_userModeration m) \<and> passes (map_option m_groupModeration m)"

definition set_membership :: "(int \<Rightarrow> int) \<Rightarrow> membership option \<Rightarrow> federated_group \<Rightarrow> federated_group" where
  "set_membership count m g =
     g\<lparr>entity := (entity g)\<lparr>g_memberCount := count (g_memberCount (entity g)), g_currentUserMembership := m\<rparr>\<rparr>"

definition joinLeaveGroup_fulfilled ::
  "federated_group adapter \<Rightarrow> join_request \<Rightarrow> membership option \<Rightarrow> groups_state \<Rightarrow> groups_state result" where
  "joinLeaveGroup_fulfilled A req payload s =
     (let s1 = unlockGroup s (jr_key req);
          stored = selectById A (groups_entities s1) (jr_key req)
      in if jr_join req
         then bind_result (deref payload) (\<lambda>result.
                (case stored of
                   None \<Rightarrow> Inl (if passing_membership (Some result) then TypeError else Untyped)
                 | Some g \<Rightarrow>
                     Inr (upsertGroup A (set_membership
                        (\<lambda>n. if passing_membership (Some result) then n + 1 else n) (Some result) g) s1)))
         else bind_result (deref stored) (\<lambda>g.
                Inr (upsertGroup A (set_membership
                  (\<lambda>n. if passing_membership (g_currentUserMembership (entity g)) then n - 1 else n) None g) s1)))"

definition rr_key :: "respond_request \<Rightarrow> string" where
  "rr_key req = federateId (rr_groupId req) (FederatedAction (aos_server (rr_aos req)))"

definition respondToMembershipRequest_pending :: "respond_request \<Rightarrow> groups_state \<Rightarrow> groups_state" where
  "respondToMembershipRequest_pending req s = lockGroup s (rr_key req)"

definition respondToMembershipRequest_rejected :: "respond_request \<Rightarrow> groups_state \<Rightarrow> groups_state" where
  "respondToMembershipRequest_rejected req s = unlockGroup s (rr_key req)"

text \<open>The first page of all members, with one membership replaced by its new version.\<close>

definition replace_membership ::
  "string \<Rightarrow> membership option \<Rightarrow> groups_state \<Rightarrow> groups_state" where
  "replace_membership groupId payload s =
     (case Option.bind (groupMembershipPages s groupId) (\<lambda>ms. page_at ms Moderation_MODERATION_UNKNOWN 0) of
        None \<Rightarrow> s
      | Some members \<Rightarrow>
         (let ms = nullish (groupMembershipPages s groupId) Map.empty;
              ps = nullish (ms Moderation_MODERATION_UNKNOWN) Map.empty;
              members' = map (\<lambda>m. case payload of None \<Rightarrow> m | Some new \<Rightarrow> if m_userId m = m_userId new then new else m) members
          in s\<lparr>groupMembershipPages := (groupMembershipPages s)
                 (groupId \<mapsto> ms(Moderation_MODERATION_UNKNOWN \<mapsto> ps(0 \<mapsto> members')))\<rparr>))"

text \<open>
  The group is looked up by the identifier of the request as it came.  An acceptance is written with the
  membership of the answering account, which is the new membership only when the account answers itself.
\<close>

definition respondToMembershipRequest_fulfilled ::
  "federated_group adapter \<Rightarrow> respond_request \<Rightarrow> membership option \<Rightarrow> groups_state \<Rightarrow> groups_state result" where
  "respondToMembershipRequest_fulfilled A req payload s =
     (let s1 = unlockGroup s (rr_key req);
          currentUserId = map_option (\<lambda>a. u_id (acct_user a)) (aos_account (rr_aos req));
          stored = selectById A (groups_entities s1) (rr_groupId req);
          self = (Some (rr_userId req) = currentUserId);
          updated =
            (if rr_accept req
             then bind_result (deref stored) (\<lambda>g.
                    let g' = set_membership (\<lambda>n. n + 1) (if self then payload else None) g
                    in Inr (upsertGroup A g' (upsertGroup A g' s1)))
             else if self
             then (case stored of
                     None \<Rightarrow> Inl Untyped
                   | Some g \<Rightarrow> Inr (upsertGroup A (set_membership (\<lambda>n. n) None g) s1))
             else bind_result (deref stored) (\<lambda>g. Inr (upsertGroup A g s1)))
      in bind_result updated (\<lambda>s2. Inr (replace_membership (rr_groupId req) payload s2)))"

definition updateMembership_fulfilled ::
  "federated_group adapter \<Rightarrow> rellm_server option \<Rightarrow> string \<Rightarrow> membership option \<Rightarrow> groups_state \<Rightarrow> groups_state" where
  "updateMembership_fulfilled A server argGroupId payload s =
     (let federatedGroupId = federateId argGroupId (FederatedAction server);
          s1 = unlockGroup s federatedGroupId
      in case groupMembershipPages s1 federatedGroupId of
           None \<Rightarrow> s1
         | Some _ \<Rightarrow>
            (let s2 = replace_membership federatedGroupId payload s1
             in case selectById A (groups_entities s2) federatedGroupId of
                  None \<Rightarrow> s2
                | Some g \<Rightarrow>
                   if map_option m_userId (g_currentUserMembership (entity g)) = map_option m_userId payload
                   then upsertGroup A (set_membership (\<lambda>n. n) payload g) s2
                   else s2))"

definition loadGroupMembers_fulfilled ::
  "load_members_request \<Rightarrow> api_member list \<Rightarrow> groups_state \<Rightarrow> groups_state" where
  "loadGroupMembers_fulfilled req members s =
     (let actionServerHost = serverHost (FederatedAction (lmb_server req));
          page = nullish (lmb_page req) 0;
          moderation = nullish (lmb_groupModeration req) Moderation_MODERATION_UNKNOWN;
          groupId = toFederatedId (parseFederatedIdOr (lmb_id req) (Some actionServerHost));
          memberships = List.map_filter member_membership members;
          byModeration = nullish (groupMembershipPages s groupId) Map.empty;
          byPage = nullish (byModeration moderation) Map.empty
      in s\<lparr>groupMembershipPages := (groupMembershipPages s)
             (groupId \<mapsto> byModeration(moderation \<mapsto> byPage(page \<mapsto> memberships)))\<rparr>)"

datatype groups_action =
    UpsertGroup federated_group
  | RemoveGroup string
  | ResetGroups "string option"
  | CreateGroup_fulfilled "rellm_server option" group
  | UpdateGroup_fulfilled "rellm_server option" group
  | DeleteGroup_fulfilled "rellm_server option" string
  | LoadGroupsPage_pending load_groups_request
  | LoadGroupsPage_fulfilled load_groups_request "group list"
  | LoadGroupsPage_rejected load_groups_request
  | LoadPostGroupPosts_fulfilled "rellm_server option" string "group_post list"
  | LoadPostGroupPosts_rejected "rellm_server option" string
  | CreateGroupPost_fulfilled "rellm_server option" group_post
  | DeleteGroupPost_fulfilled "rellm_server option" string string
  | GroupPostsPage_fulfilled load_group_page_request "post list"
  | GroupEventsPage_fulfilled load_group_page_request "ident_event list"
  | LoadGroup_fulfilled "rellm_server option" group
  | LoadGroupByShortname_fulfilled "rellm_server option" "group list"
  | JoinLeaveGroup_pending join_request
  | JoinLeaveGroup_rejected join_request
  | JoinLeaveGroup_fulfilled join_request "membership option"
  | RespondToMembershipRequest_pending respond_request
  | RespondToMembershipRequest_rejected respond_request
  | RespondToMembershipRequest_fulfilled respond_request "membership option"
  | UpdateMembership_fulfilled "rellm_server option" string "membership option"
  | LoadGroupMembers_fulfilled load_members_request "api_member list"

abbreviation quiet :: "'s \<Rightarrow> ('s \<times> effect list) result" where
  "quiet s \<equiv> Inr (s, [])"

fun groups_reducer ::
  "federated_group adapter \<Rightarrow> groups_action \<Rightarrow> groups_state \<Rightarrow> (groups_state \<times> effect list) result" where
  "groups_reducer A (UpsertGroup g) s = quiet (upsertGroup A g s)"
| "groups_reducer A (RemoveGroup i) s = quiet (removeGroup A i s)"
| "groups_reducer A (ResetGroups h) s = quiet (resetGroups A h s)"
| "groups_reducer A (CreateGroup_fulfilled sv g) s = Inr (createGroup_fulfilled A sv g s)"
| "groups_reducer A (UpdateGroup_fulfilled sv g) s = Inr (updateGroup_fulfilled A sv g s)"
| "groups_reducer A (DeleteGroup_fulfilled sv i) s = quiet (deleteGroup_fulfilled A sv i s)"
| "groups_reducer A (LoadGroupsPage_pending r) s = quiet (loadGroupsPage_pending r s)"
| "groups_reducer A (LoadGroupsPage_fulfilled r gs) s = quiet (loadGroupsPage_fulfilled A r gs s)"
| "groups_reducer A (LoadGroupsPage_rejected r) s = quiet (loadGroupsPage_rejected r s)"
| "groups_reducer A (LoadPostGroupPosts_fulfilled sv p gps) s = quiet (loadPostGroupPosts_fulfilled sv p gps s)"
| "groups_reducer A (LoadPostGroupPosts_rejected sv p) s = quiet (loadPostGroupPosts_rejected sv p s)"
| "groups_reducer A (CreateGroupPost_fulfilled sv gp) s = Inr (createGroupPost_fulfilled sv gp s)"
| "groups_reducer A (DeleteGroupPost_fulfilled sv g p) s = quiet (deleteGroupPost_fulfilled sv g p s)"
| "groups_reducer A (GroupPostsPage_fulfilled r ps) s = quiet (loadGroupPostsPage_fulfilled r ps s)"
| "groups_reducer A (GroupEventsPage_fulfilled r es) s =
     bind_result (loadGroupEventsPage_fulfilled r es s) quiet"
| "groups_reducer A (LoadGroup_fulfilled sv g) s = quiet (loadGroup_fulfilled A sv g s)"
| "groups_reducer A (LoadGroupByShortname_fulfilled sv gs) s = quiet (loadGroupByShortname_fulfilled A sv gs s)"
| "groups_reducer A (JoinLeaveGroup_pending r) s = quiet (joinLeaveGroup_pending r s)"
| "groups_reducer A (JoinLeaveGroup_rejected r) s = quiet (joinLeaveGroup_rejected r s)"
| "groups_reducer A (JoinLeaveGroup_fulfilled r m) s =
     bind_result (joinLeaveGroup_fulfilled A r m s) quiet"
| "groups_reducer A (RespondToMembershipRequest_pending r) s = quiet (respondToMembershipRequest_pending r s)"
| "groups_reducer A (RespondToMembershipRequest_rejected r) s = quiet (respondToMembershipRequest_rejected r s)"
| "groups_reducer A (RespondToMembershipRequest_fulfilled r m) s =
     bind_result (respondToMembershipRequest_fulfilled A r m s) quiet"
| "groups_reducer A (UpdateMembership_fulfilled sv g m) s = quiet (updateMembership_fulfilled A sv g m s)"
| "groups_reducer A (LoadGroupMembers_fulfilled r ms) s = quiet (loadGroupMembers_fulfilled r ms s)"

section \<open>Invariant and interfaces\<close>

definition groups_wf :: "groups_state \<Rightarrow> bool" where
  "groups_wf s \<longleftrightarrow> wf_entities group_key (groups_entities s)"

lemma initial_groups_wf [simp]: "groups_wf initial_groups"
  by (simp add: groups_wf_def initial_groups_def)

interpretation groups_ref: entity_adapter "ref_adapter group_key replace_all key" group_key replace_all
  for key
  by (rule ref_adapter_laws) (simp add: replace_all_def)

lemma link_shortname_frame [simp]:
  "groups_entities (link_shortname g s) = groups_entities s"
  "groupPages (link_shortname g s) = groupPages s"
  "groups_pagesStatus (link_shortname g s) = groups_pagesStatus s"
  by (simp_all add: link_shortname_def)

lemma link_shortnames_frame [simp]:
  "groups_entities (foldl (\<lambda>s g. link_shortname g s) s gs) = groups_entities s"
  "groupPages (foldl (\<lambda>s g. link_shortname g s) s gs) = groupPages s"
  by (induction gs arbitrary: s) simp_all

lemma lock_frame [simp]:
  "groups_entities (lockGroup s i) = groups_entities s"
  "groups_entities (unlockGroup s i) = groups_entities s"
  by (simp_all add: lockGroup_def unlockGroup_def)

lemma replace_membership_frame [simp]:
  "groups_entities (replace_membership i m s) = groups_entities s"
  by (simp add: replace_membership_def Let_def split: option.split)

lemma upsertGroup_wf:
  "entity_adapter A group_key replace_all \<Longrightarrow> wf_entities group_key (groups_entities s) \<Longrightarrow>
     wf_entities group_key (groups_entities (upsertGroup A g s))"
  by (simp add: upsertGroup_def adapter_wf)

lemma groups_fulfilled_wf:
  assumes "entity_adapter A group_key replace_all" "wf_entities group_key (groups_entities s)"
  shows "joinLeaveGroup_fulfilled A jr m s = Inr s' \<Longrightarrow> wf_entities group_key (groups_entities s')"
    and "respondToMembershipRequest_fulfilled A rr m s = Inr s' \<Longrightarrow> wf_entities group_key (groups_entities s')"
    and "wf_entities group_key (groups_entities (updateMembership_fulfilled A sv i m s))"
    and "wf_entities group_key (groups_entities (loadGroupByShortname_fulfilled A sv gs s))"
    and "wf_entities group_key (groups_entities (fst (createGroup_fulfilled A sv g s)))"
    and "wf_entities group_key (groups_entities (deleteGroup_fulfilled A sv i s))"
proof -
  note up = upsertGroup_wf [OF assms(1)]
  show "joinLeaveGroup_fulfilled A jr m s = Inr s' \<Longrightarrow> wf_entities group_key (groups_entities s')"
    using assms(2) up
    by (auto simp: joinLeaveGroup_fulfilled_def Let_def bind_result_eq_Inr split: if_splits option.splits)
  show "respondToMembershipRequest_fulfilled A rr m s = Inr s' \<Longrightarrow> wf_entities group_key (groups_entities s')"
    using assms(2) up
    by (auto simp: respondToMembershipRequest_fulfilled_def Let_def bind_result_eq_Inr
        split: if_splits option.splits)
  show "wf_entities group_key (groups_entities (updateMembership_fulfilled A sv i m s))"
    using assms(2) up
    by (auto simp: updateMembership_fulfilled_def Let_def split: option.split)
  show "wf_entities group_key (groups_entities (loadGroupByShortname_fulfilled A sv gs s))"
    using assms(2) up
    unfolding loadGroupByShortname_fulfilled_def by (induction gs arbitrary: s) (simp_all add: Let_def)
  show "wf_entities group_key (groups_entities (fst (createGroup_fulfilled A sv g s)))"
    using assms(2) up
    by (simp add: createGroup_fulfilled_def Let_def split: option.split)
  show "wf_entities group_key (groups_entities (deleteGroup_fulfilled A sv i s))"
    using assms(2) adapter_wf [OF assms(1)]
    by (simp add: deleteGroup_fulfilled_def removeGroup_def Let_def split: option.split)
qed

lemma groups_reducer_wf:
  assumes "entity_adapter A group_key replace_all" "groups_wf s" "groups_reducer A a s = Inr (s', effs)"
  shows "groups_wf s'"
proof -
  have wf: "wf_entities group_key (groups_entities s)"
    using assms(2) by (simp add: groups_wf_def)
  note adapters = adapter_wf [OF assms(1)]
  note big = groups_fulfilled_wf [OF assms(1) wf]
  have "wf_entities group_key (groups_entities s')"
    using assms(3)
  proof (cases a)
    case (ResetGroups h)
    then show ?thesis
      using assms(3) wf adapters by (auto simp: resetGroups_def Let_def split: option.splits if_splits)
  next
    case (CreateGroup_fulfilled sv g)
    then show ?thesis
      using assms(3) big(5) [of sv g] by simp
  next
    case (LoadGroupsPage_fulfilled r gs)
    then show ?thesis
      using assms(3) wf adapters by (auto simp: loadGroupsPage_fulfilled_def Let_def)
  next
    case (JoinLeaveGroup_fulfilled r m)
    then show ?thesis
      using assms(3) big(1) by (auto simp: bind_result_eq_Inr)
  next
    case (RespondToMembershipRequest_fulfilled r m)
    then show ?thesis
      using assms(3) big(2) by (auto simp: bind_result_eq_Inr)
  next
    case (GroupEventsPage_fulfilled r es)
    then show ?thesis
      using assms(3) wf by (auto simp: loadGroupEventsPage_fulfilled_def Let_def bind_result_eq_Inr)
  qed (use assms(3) wf adapters big(3,4,6) upsertGroup_wf [OF assms(1)] in
      \<open>auto simp: upsertGroup_def removeGroup_def updateGroup_fulfilled_def loadGroupsPage_pending_def
        loadGroupsPage_rejected_def loadPostGroupPosts_fulfilled_def loadPostGroupPosts_rejected_def
        createGroupPost_fulfilled_def deleteGroupPost_fulfilled_def loadGroupPostsPage_fulfilled_def
        loadGroup_fulfilled_def joinLeaveGroup_pending_def joinLeaveGroup_rejected_def
        respondToMembershipRequest_pending_def respondToMembershipRequest_rejected_def
        loadGroupMembers_fulfilled_def Let_def\<close>)
  then show ?thesis by (simp add: groups_wf_def)
qed

interpretation groups_pages: paged_slice groupPages
  "\<lambda>(req, response). loadGroupsPage_fulfilled A req response" "\<lambda>(req, response). lgr_server req"
  "\<lambda>(req, response). lgr_key req" "\<lambda>(req, response). nullish (lgr_page req) 0"
  "\<lambda>(req, response). map group_key (federatedEntities response (FederatedAction (lgr_server req)))"
  for A
  by unfold_locales (auto simp: loadGroupsPage_fulfilled_def Let_def)

lemma groups_resettable:
  assumes "entity_adapter A group_key replace_all"
  shows "resettable_slice (resetGroups A) groups_wf (\<lambda>s. entities (groups_entities s)) groupPages
    groups_pagesStatus"
  by unfold_locales
    (auto simp: resetGroups_def groups_wf_def Let_def removeMany_reset [OF assms] adapter_wf [OF assms]
      split: option.split)

interpretation groups_reset: resettable_slice
  "resetGroups (ref_adapter group_key replace_all key)" groups_wf "\<lambda>s. entities (groups_entities s)"
  groupPages groups_pagesStatus for key
  by (rule groups_resettable, rule groups_ref.entity_adapter_axioms)


section \<open>Properties\<close>

definition sample_group :: group where
  "sample_group =
     \<lparr>g_id = ''g'', g_name = ''G'', g_shortname = ''Sh'', g_memberCount = 3, g_currentUserMembership = None,
      g_createdAt = None, g_rest = []\<rparr>"

definition sample_membership :: membership where
  "sample_membership =
     \<lparr>m_userId = ''u'', m_groupId = ''g'', m_permissions = [], m_groupModeration = Moderation_APPROVED,
      m_userModeration = Moderation_UNMODERATED, m_createdAt = None, m_updatedAt = None\<rparr>"

definition sample_groups :: groups_state where
  "sample_groups = loadGroup_fulfilled (ref_adapter group_key replace_all None) None sample_group initial_groups"

text \<open>
  Over any sequence of started and settled requests, a group is locked exactly when
  the last of its requests has started and not been settled; one settled request releases them all.
\<close>

theorem group_locks_in_flight:
  "isGroupLocked (foldl (\<lambda>s ev. case ev of Started i \<Rightarrow> lockGroup s i | Settled i \<Rightarrow> unlockGroup s i)
       initial_groups evs) j =
     (case filter (\<lambda>ev. lock_target ev = j) (rev evs) of [] \<Rightarrow> False | ev # _ \<Rightarrow> ev = Started j)"
proof -
  have "\<not> isGroupLocked initial_groups j"
    by (simp add: isGroupLocked_def initial_groups_def)
  then show ?thesis
    using group_locks.locked_iff_last [of initial_groups evs j] by (simp split: list.split)
qed

text \<open>
  A group loaded by identifier or shortname is found by its shortname in any
  capitalisation, on its own host.
\<close>

theorem shortname_resolves:
  assumes "entity_adapter A group_key replace_all"
  shows "\<exists>k. shortnameIds (loadGroup_fulfilled A sv g s) (to_lower (g_shortname g) @ ''@'' @ to_lower (federationKey sv)) = Some k \<and>
    entities (groups_entities (loadGroup_fulfilled A sv g s)) k =
      Some \<lparr>entity = g, serverHostOf = federationKey sv\<rparr>"
  using adapter_entities [OF assms]
  by (simp add: loadGroup_fulfilled_def Let_def link_shortname_def upsertGroup_def federatedPayload_def
      federatedEntity_def federatedShortname_def serverHost_def to_lower_def char_lower_def)

theorem shortname_resolves_witness:
  "\<exists>k. shortnameIds sample_groups ''sh@default'' = Some k \<and>
     entities (groups_entities sample_groups) k = Some \<lparr>entity = sample_group, serverHostOf = ''default''\<rparr>"
proof -
  have "to_lower ''Sh'' = ''sh''" "to_lower ''default'' = ''default''"
    by code_simp+
  then show ?thesis
    using shortname_resolves [OF groups_ref.entity_adapter_axioms, of None None sample_group initial_groups]
    by (simp add: sample_groups_def federationKey_def) (simp add: sample_group_def)
qed

text \<open>
  Joining a cached group with an approved membership counts one more member and stores
  the membership; leaving it again restores the count, clears the membership and releases the lock.
\<close>

theorem join_then_leave:
  assumes "entity_adapter A group_key replace_all" "groups_wf s"
    and "entities (groups_entities s) (jr_key req) = Some g" "jr_join req"
    and "passes (Some (m_userModeration m))" "passes (Some (m_groupModeration m))"
  shows "\<exists>s1 s2. joinLeaveGroup_fulfilled A req (Some m) s = Inr s1 \<and>
    entities (groups_entities s1) (jr_key req) =
      Some (set_membership (\<lambda>n. n + 1) (Some m) g) \<and>
    joinLeaveGroup_fulfilled A (req\<lparr>jr_join := False\<rparr>) None s1 = Inr s2 \<and>
    entities (groups_entities s2) (jr_key req) = Some (set_membership (\<lambda>n. n) None g) \<and>
    \<not> isGroupLocked s2 (jr_key req)"
proof -
  have key: "group_key g = jr_key req"
    using assms(2,3) by (auto simp: groups_wf_def wf_entities_def)
  have sm: "group_key (set_membership f x h) = group_key h" for f x h
    by (simp add: set_membership_def federatedId_def)
  have k2: "jr_key (req\<lparr>jr_join := False\<rparr>) = jr_key req"
    by (simp add: jr_key_def)
  have pm: "passing_membership (Some m)"
    using assms(5,6) by (simp add: passing_membership_def)
  have twice: "set_membership (\<lambda>n. n - 1) None (set_membership (\<lambda>n. n + 1) (Some m) g) =
      set_membership (\<lambda>n. n) None g"
    by (simp add: set_membership_def)
  have cur: "g_currentUserMembership (entity (set_membership (\<lambda>n. n + 1) (Some m) g)) = Some m"
    by (simp add: set_membership_def)
  note ad = adapter_entities [OF assms(1)]
  define s1 where "s1 = upsertGroup A (set_membership (\<lambda>n. n + 1) (Some m) g) (unlockGroup s (jr_key req))"
  define s2 where "s2 = upsertGroup A (set_membership (\<lambda>n. n) None g) (unlockGroup s1 (jr_key req))"
  have j1: "joinLeaveGroup_fulfilled A req (Some m) s = Inr s1"
    using assms(3,4) pm ad by (simp add: joinLeaveGroup_fulfilled_def s1_def)
  have e1: "entities (groups_entities s1) (jr_key req) = Some (set_membership (\<lambda>n. n + 1) (Some m) g)"
    using ad sm key by (simp add: s1_def upsertGroup_def)
  have j2: "joinLeaveGroup_fulfilled A (req\<lparr>jr_join := False\<rparr>) None s1 = Inr s2"
    using e1 pm ad by (simp add: joinLeaveGroup_fulfilled_def k2 cur twice s2_def)
  have e2: "entities (groups_entities s2) (jr_key req) = Some (set_membership (\<lambda>n. n) None g)"
    using ad sm key by (simp add: s2_def upsertGroup_def)
  have "\<not> isGroupLocked s2 (jr_key req)"
    by (simp add: s2_def isGroupLocked_def upsertGroup_def unlockGroup_def)
  with j1 e1 j2 e2 show ?thesis by blast
qed

theorem join_then_leave_witness:
  "\<exists>s1. joinLeaveGroup_fulfilled (ref_adapter group_key replace_all None)
      \<lparr>jr_aos = \<lparr>aos_account = None, aos_server = None\<rparr>, jr_groupId = ''g'', jr_join = True\<rparr>
      (Some sample_membership) sample_groups = Inr s1 \<and>
    map_option (\<lambda>g. g_memberCount (entity g)) (entities (groups_entities s1) ''g@default'') = Some 4"
proof -
  let ?A = "ref_adapter group_key replace_all None"
  let ?r = "\<lparr>jr_aos = \<lparr>aos_account = None, aos_server = None\<rparr>, jr_groupId = ''g'', jr_join = True\<rparr>"
  have key: "jr_key ?r = ''g@default''"
    by (simp add: jr_key_def parseFederatedIdOr_def federateId_def mk_federated_id_def)
  have stored: "entities (groups_entities sample_groups) ''g@default'' =
      Some \<lparr>entity = sample_group, serverHostOf = ''default''\<rparr>"
    by (simp add: sample_groups_def loadGroup_fulfilled_def Let_def upsertGroup_def sample_group_def
        federatedPayload_def federatedEntity_def federatedId_def mk_federated_id_def)
  have wf: "groups_wf sample_groups"
    using groups_reducer_wf [OF groups_ref.entity_adapter_axioms initial_groups_wf,
        where a = "LoadGroup_fulfilled None sample_group"]
    by (simp add: sample_groups_def)
  show ?thesis
    using join_then_leave [OF groups_ref.entity_adapter_axioms wf, of ?r _ sample_membership None] key stored
    by (auto simp: sample_membership_def sample_group_def set_membership_def)
qed

text \<open>
  When an account accepts the membership request of somebody else, the stored
  group loses the account's own membership, although the account is still a member.
\<close>

theorem respond_accept_forgets:
  assumes "entity_adapter A group_key replace_all" "groups_wf s"
    and "entities (groups_entities s) (rr_groupId req) = Some g" "rr_accept req"
    and "map_option (\<lambda>a. u_id (acct_user a)) (aos_account (rr_aos req)) \<noteq> Some (rr_userId req)"
  shows "\<exists>s'. respondToMembershipRequest_fulfilled A req payload s = Inr s' \<and>
    entities (groups_entities s') (rr_groupId req) = Some (set_membership (\<lambda>n. n + 1) None g)"
proof -
  have "group_key (set_membership (\<lambda>n. n + 1) None g) = rr_groupId req"
    using assms(2,3) by (auto simp: groups_wf_def wf_entities_def set_membership_def federatedId_def)
  then show ?thesis
    using assms(3-5) adapter_entities [OF assms(1)] not_sym [OF assms(5)]
    by (simp add: respondToMembershipRequest_fulfilled_def Let_def upsertGroup_def)
qed

theorem respond_accept_forgets_witness:
  "\<exists>s'. respondToMembershipRequest_fulfilled (ref_adapter group_key replace_all None)
      \<lparr>rr_aos = \<lparr>aos_account = None, aos_server = None\<rparr>, rr_userId = ''v'', rr_groupId = ''g@default'', rr_accept = True\<rparr>
      (Some sample_membership)
      (upsertGroup (ref_adapter group_key replace_all None)
         \<lparr>entity = sample_group\<lparr>g_currentUserMembership := Some sample_membership\<rparr>, serverHostOf = ''default''\<rparr>
         initial_groups) = Inr s' \<and>
    map_option (\<lambda>g. g_currentUserMembership (entity g)) (entities (groups_entities s') ''g@default'') = Some None"
proof -
  let ?A = "ref_adapter group_key replace_all None"
  let ?g = "\<lparr>entity = sample_group\<lparr>g_currentUserMembership := Some sample_membership\<rparr>, serverHostOf = ''default''\<rparr>"
  have wf: "groups_wf (upsertGroup ?A ?g initial_groups)"
    using upsertGroup_wf [OF groups_ref.entity_adapter_axioms] initial_groups_wf by (simp add: groups_wf_def)
  have "entities (groups_entities (upsertGroup ?A ?g initial_groups)) ''g@default'' = Some ?g"
    by (simp add: upsertGroup_def federatedId_def mk_federated_id_def sample_group_def)
  then show ?thesis
    using respond_accept_forgets [OF groups_ref.entity_adapter_axioms wf,
        of "\<lparr>rr_aos = \<lparr>aos_account = None, aos_server = None\<rparr>, rr_userId = ''v'', rr_groupId = ''g@default'', rr_accept = True\<rparr>"
          ?g None "Some sample_membership"]
    by (auto simp: set_membership_def)
qed

text \<open>
  Sharing a post with a group puts the share in front of the post's shares, and
  unsharing it leaves the shares with other groups as they were.
\<close>

theorem share_and_unshare:
  assumes "gp_groupId gp \<notin> gp_groupId ` set (nullish (postIdGroupPosts s (federateId (gp_postId gp) (FederatedAction sv))) [])"
  shows "postIdGroupPosts (deleteGroupPost_fulfilled sv (gp_groupId gp) (gp_postId gp)
      (fst (createGroupPost_fulfilled sv gp s))) (federateId (gp_postId gp) (FederatedAction sv)) =
    Some (nullish (postIdGroupPosts s (federateId (gp_postId gp) (FederatedAction sv))) [])"
proof -
  have "filter (\<lambda>h. gp_groupId h \<noteq> gp_groupId gp) l = l" if "gp_groupId gp \<notin> gp_groupId ` set l" for l
    using that by (induction l) auto
  then show ?thesis
    using assms by (simp add: deleteGroupPost_fulfilled_def createGroupPost_fulfilled_def Let_def)
qed

theorem share_and_unshare_witness:
  "let gp = \<lparr>gp_groupId = ''g'', gp_postId = ''p'', gp_userId = ''u'', gp_groupModeration = Moderation_APPROVED,
             gp_createdAt = None, gp_sharedBy = None\<rparr>
   in postIdGroupPosts (deleteGroupPost_fulfilled None ''g'' ''p'' (fst (createGroupPost_fulfilled None gp initial_groups)))
        ''p@default'' = Some []"
  using share_and_unshare [of "\<lparr>gp_groupId = ''g'', gp_postId = ''p'', gp_userId = ''u'',
      gp_groupModeration = Moderation_APPROVED, gp_createdAt = None, gp_sharedBy = None\<rparr>" initial_groups None]
  by (simp add: Let_def initial_groups_def federateId_def mk_federated_id_def)

end
