(* ===== verification/Users.thy ===== *)
theory Users
  imports Events Locks
begin

text \<open>
  The users slice (store/modules/users_state.ts): users stamped with their host, the names that lead to
  them, the posts, replies and occasions of a user, the pages of users, the follow relation with its
  counts, the linking of accounts across servers, and the locks of users with a request under way.
\<close>

section \<open>State and requests\<close>

text \<open>
  \<open>hasAdvancedData\<close> is set by the single-user lookups only.  An upsert keeps the fields its argument does
  not carry, and this is the one field a listed user does not carry.
\<close>

record federated_user = "user federated_entity" +
  hasAdvancedData :: "bool option"

definition merge_user :: "federated_user \<Rightarrow> federated_user \<Rightarrow> federated_user" where
  "merge_user old new =
     new\<lparr>hasAdvancedData := (case hasAdvancedData new of None \<Rightarrow> hasAdvancedData old | Some b \<Rightarrow> Some b)\<rparr>"

definition fed_user :: "user \<Rightarrow> has_server \<Rightarrow> bool option \<Rightarrow> federated_user" where
  "fed_user u server adv = \<lparr>entity = u, serverHostOf = serverHost server, hasAdvancedData = adv\<rparr>"

abbreviation user_key :: "federated_user \<Rightarrow> string" where
  "user_key \<equiv> federatedId u_id"

definition federatedUsername :: "federated_user \<Rightarrow> string" where
  "federatedUsername u = u_username (entity u) @ ''@'' @ serverHostOf u"

record users_state =
  users_pagesStatus :: federated_pages_status
  users_entities :: "federated_user entity_state"
  usernameIds :: "(string \<rightharpoonup> string) federated"
  failedUsernames :: "string list federated"
  failedUserIds :: "string list"
  idPosts :: "string \<rightharpoonup> string list"
  idReplies :: "string \<rightharpoonup> string list"
  idOccasions :: "string \<rightharpoonup> string list"
  userPages :: "user_listing_type grouped_pages federated"
  mutatingUserIds :: "string list"

definition initial_users :: users_state where
  "initial_users =
     \<lparr>users_pagesStatus = createFederatedPagesStatus,
      users_entities = empty_entities,
      usernameIds = createFederated Map.empty,
      failedUsernames = createFederated [],
      failedUserIds = [],
      idPosts = Map.empty,
      idReplies = Map.empty,
      idOccasions = Map.empty,
      userPages = createFederated Map.empty,
      mutatingUserIds = []\<rparr>"

definition defaultUserListingType :: user_listing_type where
  "defaultUserListingType = UserListingType_EVERYONE"

record load_users_request =
  lur_server :: "rellm_server option"
  lur_page :: "nat option"
  lur_listingType :: "user_listing_type option"

text \<open>A request about one user, made for an account on a server.\<close>

record user_request =
  ur_aos :: account_or_server
  ur_userId :: string

datatype user_loader = LoadUser string | LoadUsername string | UpdateUser

definition federateUserId :: "user_request \<Rightarrow> string" where
  "federateUserId req = federateId (ur_userId req) (FederatedAction (aos_server (ur_aos req)))"

definition accountUserId :: "user_request \<Rightarrow> string result" where
  "accountUserId req =
     bind_result (deref (aos_account (ur_aos req))) (\<lambda>a.
       Inr (federatedEntityId u_id (acct_user a) (FederatedAction (aos_server (ur_aos req)))))"


section \<open>Locks\<close>

definition lockUser :: "users_state \<Rightarrow> string \<Rightarrow> users_state" where
  "lockUser s userId = s\<lparr>mutatingUserIds := userId # mutatingUserIds s\<rparr>"

definition unlockUser :: "users_state \<Rightarrow> string \<Rightarrow> users_state" where
  "unlockUser s userId = s\<lparr>mutatingUserIds := filter (\<lambda>u. u \<noteq> userId) (mutatingUserIds s)\<rparr>"

definition isUserLocked :: "users_state \<Rightarrow> string \<Rightarrow> bool" where
  "isUserLocked s userId \<longleftrightarrow> userId \<in> set (mutatingUserIds s)"

interpretation user_locks: lock_set lockUser unlockUser isUserLocked
  by unfold_locales (auto simp: lockUser_def unlockUser_def isUserLocked_def)


section \<open>Reducers\<close>

definition upsert_user :: "federated_user adapter \<Rightarrow> federated_user \<Rightarrow> users_state \<Rightarrow> users_state" where
  "upsert_user A u s = s\<lparr>users_entities := upsertOne A (users_entities s) u\<rparr>"

text \<open>
  The reset assigns the failed names to a property of the \<open>Federated\<close> object itself, next to \<open>values\<close>,
  where nothing reads them: they survive, and so do the name links.
\<close>

definition resetUsers :: "federated_user adapter \<Rightarrow> string option \<Rightarrow> users_state \<Rightarrow> users_state \<times> effect list" where
  "resetUsers A payload s =
     (case payload of
        None \<Rightarrow> (s, [])
      | Some h \<Rightarrow>
         if h = [] then (s, [])
         else
           (let userIdsToRemove = filter (id_on_host h) (ids (users_entities s))
            in (s\<lparr>users_entities := removeMany A (users_entities s) userIdsToRemove,
                  failedUserIds := filter (\<lambda>i. \<not> id_on_host h i) (failedUserIds s),
                  userPages := deleteFederated (userPages s) h,
                  users_pagesStatus := deleteFederated (users_pagesStatus s) h\<rparr>,
                [After 1 (T_resetUserPages payload)])))"

definition resetUserEvents :: "string option \<Rightarrow> users_state \<Rightarrow> users_state" where
  "resetUserEvents payload s =
     (case payload of
        None \<Rightarrow> s
      | Some h \<Rightarrow> if h = [] then s else s\<lparr>idOccasions := dict_delete_where (id_on_host h) (idOccasions s)\<rparr>)"

definition resetUserPosts :: "string option \<Rightarrow> users_state \<Rightarrow> users_state" where
  "resetUserPosts payload s =
     (case payload of
        None \<Rightarrow> s
      | Some h \<Rightarrow>
         if h = [] then s
         else s\<lparr>idPosts := dict_delete_where (id_on_host h) (idPosts s),
                idReplies := dict_delete_where (id_on_host h) (idReplies s)\<rparr>)"

definition loadUsersPage_pending :: "load_users_request \<Rightarrow> users_state \<Rightarrow> users_state" where
  "loadUsersPage_pending req s =
     s\<lparr>users_pagesStatus := setFederated (users_pagesStatus s) (FederatedAction (lur_server req)) Loading\<rparr>"

text \<open>Unlike the other slices this one keeps the later pages when the first page arrives.\<close>

definition loadUsersPage_fulfilled ::
  "federated_user adapter \<Rightarrow> load_users_request \<Rightarrow> user list \<Rightarrow> users_state \<Rightarrow> users_state \<times> effect list" where
  "loadUsersPage_fulfilled A req response s =
     (let action = FederatedAction (lur_server req);
          userIds = map (\<lambda>u. federatedEntityId u_id u action) response;
          page = nullish (lur_page req) 0;
          listingType = nullish (lur_listingType req) defaultUserListingType;
          pages = getFederated (userPages s) action;
          listed = nullish (pages listingType) Map.empty
      in (s\<lparr>users_pagesStatus := setFederated (users_pagesStatus s) action Loaded,
            users_entities := upsertMany A (users_entities s) (map (\<lambda>u. fed_user u action None) response),
            userPages := setFederated (userPages s) action (pages(listingType \<mapsto> listed(page \<mapsto> userIds)))\<rparr>,
          [After 1 (T_upsertUserData (lur_server req) response)]))"

definition loadUsersPage_rejected :: "load_users_request \<Rightarrow> users_state \<Rightarrow> users_state" where
  "loadUsersPage_rejected req s =
     s\<lparr>users_pagesStatus := setFederated (users_pagesStatus s) (FederatedAction (lur_server req)) Errored\<rparr>"

definition loader_fulfilled ::
  "federated_user adapter \<Rightarrow> rellm_server option \<Rightarrow> user \<Rightarrow> users_state \<Rightarrow> users_state \<times> effect list" where
  "loader_fulfilled A server user s =
     (let action = FederatedAction server;
          s1 = upsert_user A (fed_user user action (Some True)) s;
          names = getFederated (usernameIds s1) action
      in (s1\<lparr>usernameIds := setFederated (usernameIds s1) action
               (names(split_head (CHR ''@'') (u_username user) \<mapsto> federatedEntityId u_id user action))\<rparr>,
          [After 1 (T_upsertUserData server [user])]))"

definition loader_rejected :: "rellm_server option \<Rightarrow> user_loader \<Rightarrow> users_state \<Rightarrow> users_state" where
  "loader_rejected server loader s =
     (let action = FederatedAction server
      in case loader of
           LoadUsername username \<Rightarrow>
             s\<lparr>failedUsernames := setFederated (failedUsernames s) action
                 (getFederated (failedUsernames s) action @ [username])\<rparr>
         | LoadUser userId \<Rightarrow>
             (let requestUserId = federateId userId action
              in if requestUserId \<notin> set (failedUserIds s)
                 then s\<lparr>failedUserIds := failedUserIds s @ [requestUserId]\<rparr> else s)
         | UpdateUser \<Rightarrow> s)"

definition deleteUser_fulfilled ::
  "rellm_server option \<Rightarrow> user \<Rightarrow> users_state \<Rightarrow> users_state \<times> effect list" where
  "deleteUser_fulfilled server user s = (s, [After 1 (T_notifyUserDeleted server user)])"

text \<open>\<open>new Set(xs)\<close> in its iteration order: each element at its first position.\<close>

definition js_set :: "'a list \<Rightarrow> 'a list" where
  "js_set xs = rev (remdups (rev xs))"

text \<open>The old entries that are not new, followed by the new ones.\<close>

definition merge_ids :: "string list option \<Rightarrow> string list \<Rightarrow> string list" where
  "merge_ids old new =
     filter (\<lambda>p. p \<notin> set new) (nullish old []) @ js_set new"

definition loadUserPosts_fulfilled :: "user_request \<Rightarrow> post list \<Rightarrow> users_state \<Rightarrow> users_state" where
  "loadUserPosts_fulfilled req response s =
     (let action = FederatedAction (aos_server (ur_aos req));
          newPostIds = map (\<lambda>p. federatedEntityId post_id p action) response;
          userId = federateUserId req
      in s\<lparr>idPosts := (idPosts s)(userId \<mapsto> merge_ids (idPosts s userId) newPostIds)\<rparr>)"

definition loadUserReplies_fulfilled :: "user_request \<Rightarrow> post list \<Rightarrow> users_state \<Rightarrow> users_state" where
  "loadUserReplies_fulfilled req response s =
     (let action = FederatedAction (aos_server (ur_aos req));
          newPostIds = map (\<lambda>p. federatedEntityId post_id p action) response;
          userId = federateUserId req
      in s\<lparr>idReplies := (idReplies s)(userId \<mapsto> merge_ids (idReplies s userId) newPostIds)\<rparr>)"

definition loadUserEvents_ids ::
  "user_request \<Rightarrow> ident_event list \<Rightarrow> users_state \<Rightarrow> users_state result" where
  "loadUserEvents_ids req events s =
     (let action = FederatedAction (aos_server (ur_aos req));
          userId = federateUserId req
      in bind_result
           (map_result (\<lambda>e. bind_result (deref (js_at (ie_occasions e) 0)) (\<lambda>i. Inr (federateId (io_id i) action))) events)
           (\<lambda>newOccasionIds.
             Inr (s\<lparr>idOccasions := (idOccasions s)(userId \<mapsto> merge_ids (idOccasions s userId) newOccasionIds)\<rparr>)))"

text \<open>A created post or event joins the lists of its author that are loaded.\<close>

definition createPost_author :: "rellm_server option \<Rightarrow> post \<Rightarrow> users_state \<Rightarrow> users_state" where
  "createPost_author server payload s =
     (let action = FederatedAction server
      in case map_option author_userId (p_author (own payload)) of
           None \<Rightarrow> s
         | Some serverUserId \<Rightarrow>
            if serverUserId = [] then s
            else
              (let userId = federateId serverUserId action;
                   postId = federatedEntityId post_id payload action
               in case idPosts s userId of
                    None \<Rightarrow> s
                  | Some currentUserPosts \<Rightarrow> s\<lparr>idPosts := (idPosts s)(userId \<mapsto> postId # currentUserPosts)\<rparr>))"

definition createEvent_author :: "rellm_server option \<Rightarrow> ident_event \<Rightarrow> users_state \<Rightarrow> users_state" where
  "createEvent_author server payload s =
     (let action = FederatedAction server
      in case map_option author_userId (p_author (own (ie_post payload))) of
           None \<Rightarrow> s
         | Some serverUserId \<Rightarrow>
            if serverUserId = [] then s
            else
              (let userId = federateId serverUserId action;
                   occasionIds = map (\<lambda>i. federateId (io_id i) action) (ie_occasions payload)
               in case idOccasions s userId of
                    None \<Rightarrow> s
                  | Some oldOccasionIds \<Rightarrow>
                      s\<lparr>idOccasions := (idOccasions s)(userId \<mapsto> occasionIds @ oldOccasionIds)\<rparr>))"

definition user_pending :: "user_request \<Rightarrow> users_state \<Rightarrow> users_state" where
  "user_pending req s = lockUser s (federateUserId req)"

definition user_rejected :: "user_request \<Rightarrow> users_state \<Rightarrow> users_state" where
  "user_rejected req s = unlockUser s (federateUserId req)"

text \<open>\<open>(count || 0) + n\<close>.\<close>

definition add_count :: "int \<Rightarrow> int option \<Rightarrow> int option" where
  "add_count n count = Some (nullish count 0 + n)"

definition edit_user :: "(user \<Rightarrow> user) \<Rightarrow> federated_user \<Rightarrow> federated_user" where
  "edit_user f u = u\<lparr>entity := f (entity u)\<rparr>"

definition follow_passes :: "follow option \<Rightarrow> bool" where
  "follow_passes f \<longleftrightarrow> passes (map_option follow_targetUserModeration f)"

definition upsert_opt_user :: "federated_user adapter \<Rightarrow> federated_user option \<Rightarrow> users_state \<Rightarrow> users_state" where
  "upsert_opt_user A u s = (case u of None \<Rightarrow> s | Some v \<Rightarrow> upsert_user A v s)"

text \<open>
  The two counts move only when the follow passes moderation: the new follow when following, the stored
  one when unfollowing.  The followed user is written before the current user.
\<close>

definition followUnfollowUser_fulfilled ::
  "federated_user adapter \<Rightarrow> user_request \<Rightarrow> bool \<Rightarrow> follow option \<Rightarrow> users_state \<Rightarrow> users_state result" where
  "followUnfollowUser_fulfilled A req doFollow payload s =
     (let s1 = unlockUser s (federateUserId req);
          stored = selectById A (users_entities s1)
            (federateId (federateUserId req) (FederatedAction (aos_server (ur_aos req))))
      in bind_result (accountUserId req) (\<lambda>currentId.
           (let currentUser = selectById A (users_entities s1) currentId
            in if doFollow
               then bind_result (deref payload) (\<lambda>result.
                      (case stored of
                         None \<Rightarrow> Inl (if follow_passes (Some result) then TypeError else Untyped)
                       | Some user \<Rightarrow>
                          (let n = (if follow_passes (Some result) then 1 else 0);
                               user' = edit_user (\<lambda>u. u\<lparr>u_followerCount :=
                                         (if n = 0 then u_followerCount u else add_count n (u_followerCount u)),
                                         u_currentUserFollow := Some result\<rparr>) user;
                               current' = map_option (edit_user (\<lambda>u. u\<lparr>u_followingCount :=
                                            (if n = 0 then u_followingCount u else add_count n (u_followingCount u))\<rparr>)) currentUser
                           in Inr (upsert_opt_user A current' (upsert_user A user' s1)))))
               else bind_result (deref stored) (\<lambda>user.
                      (let n = (if follow_passes (u_currentUserFollow (entity user)) then -1 else 0);
                           user' = edit_user (\<lambda>u. u\<lparr>u_followerCount :=
                                     (if n = 0 then u_followerCount u else add_count n (u_followerCount u)),
                                     u_currentUserFollow := None\<rparr>) user;
                           current' = map_option (edit_user (\<lambda>u. u\<lparr>u_followingCount :=
                                        (if n = 0 then u_followingCount u else add_count n (u_followingCount u))\<rparr>)) currentUser
                       in Inr (upsert_opt_user A current' (upsert_user A user' s1)))))))"

definition respondToFollowRequest_fulfilled ::
  "federated_user adapter \<Rightarrow> user_request \<Rightarrow> bool \<Rightarrow> follow option \<Rightarrow> users_state \<Rightarrow> users_state result" where
  "respondToFollowRequest_fulfilled A req accept payload s =
     (let s1 = unlockUser s (federateUserId req);
          stored = selectById A (users_entities s1) (federateUserId req)
      in if accept
         then bind_result (deref stored) (\<lambda>user.
              bind_result (accountUserId req) (\<lambda>currentId.
                (let user' = edit_user (\<lambda>u. u\<lparr>u_followingCount := add_count 1 (u_followingCount u),
                       u_targetCurrentUserFollow := payload\<rparr>) user;
                     current' = map_option (edit_user (\<lambda>u. u\<lparr>u_followerCount := add_count 1 (u_followerCount u)\<rparr>))
                       (selectById A (users_entities s1) currentId)
                 in Inr (upsert_user A user' (upsert_opt_user A current' s1)))))
         else
           (case stored of
              None \<Rightarrow> Inl Untyped
            | Some user \<Rightarrow> Inr (upsert_user A (edit_user (\<lambda>u. u\<lparr>u_targetCurrentUserFollow := None\<rparr>) user) s1)))"

definition loadGroupMembers_users ::
  "federated_user adapter \<Rightarrow> rellm_server option \<Rightarrow> api_member list \<Rightarrow> users_state \<Rightarrow> users_state" where
  "loadGroupMembers_users A server members s =
     s\<lparr>users_entities := upsertMany A (users_entities s)
         (map (\<lambda>u. fed_user u (FederatedAction server) None) (List.map_filter member_user members))\<rparr>"


section \<open>Linked accounts\<close>

text \<open>\<open>account.server?.host\<close> as a \<open>HasServer\<close>, and \<open>account.server!.host\<close>.\<close>

definition aos_host :: "account_or_server \<Rightarrow> has_server" where
  "aos_host aos = (case aos_server aos of None \<Rightarrow> NoServer | Some sv \<Rightarrow> FromHost (host sv))"

definition profile_of :: "account_or_server \<Rightarrow> federated_account result" where
  "profile_of aos =
     bind_result (deref (aos_account aos)) (\<lambda>a.
     bind_result (deref (aos_server aos)) (\<lambda>sv.
       Inr \<lparr>fa_host = host sv, fa_userId = u_id (acct_user a)\<rparr>))"

definition edit_profiles ::
  "federated_user adapter \<Rightarrow> federated_user option \<Rightarrow> federated_account result
     \<Rightarrow> (federated_account \<Rightarrow> federated_account list \<Rightarrow> federated_account list) \<Rightarrow> users_state \<Rightarrow> users_state result"
where
  "edit_profiles A stored other f s =
     (case stored of
        None \<Rightarrow> Inr s
      | Some u \<Rightarrow> bind_result other (\<lambda>p.
          Inr (upsert_user A (edit_user (\<lambda>v. v\<lparr>u_federatedProfiles := f p (u_federatedProfiles v)\<rparr>) u) s)))"

definition federateAccounts_fulfilled ::
  "federated_user adapter \<Rightarrow> account_or_server \<Rightarrow> account_or_server \<Rightarrow> users_state \<Rightarrow> users_state result" where
  "federateAccounts_fulfilled A account1 account2 s =
     bind_result (deref (aos_account account1)) (\<lambda>a1.
     bind_result (deref (aos_account account2)) (\<lambda>a2.
       (let user1 = selectById A (users_entities s) (federateId (u_id (acct_user a1)) (aos_host account1));
            user2 = selectById A (users_entities s) (federateId (u_id (acct_user a2)) (aos_host account2));
            link = (\<lambda>p ps. ps @ [p])
        in bind_result (edit_profiles A user1 (profile_of account2) link s) (\<lambda>s1.
             edit_profiles A user2 (profile_of account1) link s1))))"

definition drop_profile :: "federated_account \<Rightarrow> federated_account list \<Rightarrow> federated_account list" where
  "drop_profile p ps = filter (\<lambda>q. fa_userId q \<noteq> fa_userId p \<or> fa_host q \<noteq> fa_host p) ps"

text \<open>
  What is unlinked from the second user.  Without a server the filter of the source fails on the first
  profile with the user's identifier, and keeps every other one.
\<close>

definition unlink_target :: "account_or_server \<Rightarrow> rellm_account \<Rightarrow> federated_user option \<Rightarrow> federated_account result" where
  "unlink_target aos a stored =
     (case aos_server aos of
        Some sv \<Rightarrow> Inr \<lparr>fa_host = host sv, fa_userId = u_id (acct_user a)\<rparr>
      | None \<Rightarrow>
         if (case stored of None \<Rightarrow> False
             | Some u \<Rightarrow> \<exists>p \<in> set (u_federatedProfiles (entity u)). fa_userId p = u_id (acct_user a))
         then Inl TypeError else Inr \<lparr>fa_host = [], fa_userId = u_id (acct_user a)\<rparr>)"

definition defederateAccounts_fulfilled ::
  "federated_user adapter \<Rightarrow> account_or_server \<Rightarrow> federated_account \<Rightarrow> users_state \<Rightarrow> users_state result" where
  "defederateAccounts_fulfilled A account1 account2Profile s =
     bind_result (deref (aos_account account1)) (\<lambda>a1.
       (let user1 = selectById A (users_entities s) (federateId (u_id (acct_user a1)) (aos_host account1));
            user2 = selectById A (users_entities s)
              (federateId (fa_userId account2Profile) (FromHost (fa_host account2Profile)))
        in bind_result (edit_profiles A user1 (Inr account2Profile) drop_profile s) (\<lambda>s1.
             edit_profiles A user2 (unlink_target account1 a1 user2) drop_profile s1)))"

datatype users_action =
    ResetUsers "string option"
  | ResetUserEvents "string option"
  | ResetUserPosts "string option"
  | LoadUsersPage_pending load_users_request
  | LoadUsersPage_fulfilled load_users_request "user list"
  | LoadUsersPage_rejected load_users_request
  | Loader_fulfilled "rellm_server option" user
  | Loader_rejected "rellm_server option" user_loader
  | DeleteUser_fulfilled "rellm_server option" user
  | LoadUserPosts_fulfilled user_request "post list"
  | LoadUserReplies_fulfilled user_request "post list"
  | UserEvents_fulfilled user_request "ident_event list"
  | UserCreatePost_fulfilled "rellm_server option" post
  | UserCreateEvent_fulfilled "rellm_server option" ident_event
  | FollowUnfollowUser_pending user_request
  | FollowUnfollowUser_rejected user_request
  | FollowUnfollowUser_fulfilled user_request bool "follow option"
  | RespondToFollowRequest_pending user_request
  | RespondToFollowRequest_rejected user_request
  | RespondToFollowRequest_fulfilled user_request bool "follow option"
  | GroupMembers_fulfilled "rellm_server option" "api_member list"
  | FederateAccounts_fulfilled account_or_server account_or_server
  | DefederateAccounts_fulfilled account_or_server federated_account

abbreviation silent :: "'s \<Rightarrow> ('s \<times> effect list) result" where
  "silent s \<equiv> Inr (s, [])"

fun users_reducer ::
  "federated_user adapter \<Rightarrow> users_action \<Rightarrow> users_state \<Rightarrow> (users_state \<times> effect list) result" where
  "users_reducer A (ResetUsers h) s = Inr (resetUsers A h s)"
| "users_reducer A (ResetUserEvents h) s = silent (resetUserEvents h s)"
| "users_reducer A (ResetUserPosts h) s = silent (resetUserPosts h s)"
| "users_reducer A (LoadUsersPage_pending r) s = silent (loadUsersPage_pending r s)"
| "users_reducer A (LoadUsersPage_fulfilled r us) s = Inr (loadUsersPage_fulfilled A r us s)"
| "users_reducer A (LoadUsersPage_rejected r) s = silent (loadUsersPage_rejected r s)"
| "users_reducer A (Loader_fulfilled sv u) s = Inr (loader_fulfilled A sv u s)"
| "users_reducer A (Loader_rejected sv l) s = silent (loader_rejected sv l s)"
| "users_reducer A (DeleteUser_fulfilled sv u) s = Inr (deleteUser_fulfilled sv u s)"
| "users_reducer A (LoadUserPosts_fulfilled r ps) s = silent (loadUserPosts_fulfilled r ps s)"
| "users_reducer A (LoadUserReplies_fulfilled r ps) s = silent (loadUserReplies_fulfilled r ps s)"
| "users_reducer A (UserEvents_fulfilled r es) s = bind_result (loadUserEvents_ids r es s) silent"
| "users_reducer A (UserCreatePost_fulfilled sv p) s = silent (createPost_author sv p s)"
| "users_reducer A (UserCreateEvent_fulfilled sv e) s = silent (createEvent_author sv e s)"
| "users_reducer A (FollowUnfollowUser_pending r) s = silent (user_pending r s)"
| "users_reducer A (FollowUnfollowUser_rejected r) s = silent (user_rejected r s)"
| "users_reducer A (FollowUnfollowUser_fulfilled r b f) s =
     bind_result (followUnfollowUser_fulfilled A r b f s) silent"
| "users_reducer A (RespondToFollowRequest_pending r) s = silent (user_pending r s)"
| "users_reducer A (RespondToFollowRequest_rejected r) s = silent (user_rejected r s)"
| "users_reducer A (RespondToFollowRequest_fulfilled r b f) s =
     bind_result (respondToFollowRequest_fulfilled A r b f s) silent"
| "users_reducer A (GroupMembers_fulfilled sv ms) s = silent (loadGroupMembers_users A sv ms s)"
| "users_reducer A (FederateAccounts_fulfilled a b) s =
     bind_result (federateAccounts_fulfilled A a b s) silent"
| "users_reducer A (DefederateAccounts_fulfilled a p) s =
     bind_result (defederateAccounts_fulfilled A a p s) silent"

section \<open>Invariant and interfaces\<close>

definition users_wf :: "users_state \<Rightarrow> bool" where
  "users_wf s \<longleftrightarrow> wf_entities user_key (users_entities s)"

lemma initial_users_wf [simp]: "users_wf initial_users"
  by (simp add: users_wf_def initial_users_def)

lemma merge_user_key [simp]: "user_key (merge_user old new) = user_key new"
  by (simp add: merge_user_def federatedId_def split: option.split)

lemma fed_user_key [simp]: "user_key (fed_user u sv adv) = mk_federated_id (u_id u) (serverHost sv)"
  by (simp add: fed_user_def federatedId_def)

lemma edit_user_access [simp]:
  "entity (edit_user f u) = f (entity u)" "hasAdvancedData (edit_user f u) = hasAdvancedData u"
  "serverHostOf (edit_user f u) = serverHostOf u"
  by (simp_all add: edit_user_def)

lemma edit_user_key: "u_id (f (entity u)) = u_id (entity u) \<Longrightarrow> user_key (edit_user f u) = user_key u"
  by (simp add: federatedId_def)

text \<open>An edited copy of a stored user replaces it: the copy carries the flag of the original.\<close>

lemma merge_edited: "merge_user u (edit_user f u) = edit_user f u"
  by (simp add: merge_user_def edit_user_def split: option.split)

interpretation users_ref: entity_adapter "ref_adapter user_key merge_user key" user_key merge_user
  for key
  by (rule ref_adapter_laws) simp

lemma users_lock_frame [simp]:
  "users_entities (lockUser s i) = users_entities s"
  "users_entities (unlockUser s i) = users_entities s"
  by (simp_all add: lockUser_def unlockUser_def)

lemma upsert_user_wf:
  "entity_adapter A user_key merge_user \<Longrightarrow> wf_entities user_key (users_entities s) \<Longrightarrow>
     wf_entities user_key (users_entities (upsert_user A u s))"
  by (simp add: upsert_user_def adapter_wf)

lemma upsert_opt_user_wf:
  "entity_adapter A user_key merge_user \<Longrightarrow> wf_entities user_key (users_entities s) \<Longrightarrow>
     wf_entities user_key (users_entities (upsert_opt_user A u s))"
  by (simp add: upsert_opt_user_def upsert_user_wf split: option.split)

lemma edit_profiles_wf:
  "entity_adapter A user_key merge_user \<Longrightarrow> wf_entities user_key (users_entities s) \<Longrightarrow>
     edit_profiles A stored other f s = Inr s' \<Longrightarrow> wf_entities user_key (users_entities s')"
  by (auto simp: edit_profiles_def bind_result_eq_Inr upsert_user_wf split: option.splits)

lemma users_reducer_wf:
  assumes "entity_adapter A user_key merge_user" "users_wf s" "users_reducer A a s = Inr (s', effs)"
  shows "users_wf s'"
proof -
  have wf: "wf_entities user_key (users_entities s)"
    using assms(2) by (simp add: users_wf_def)
  note ad = adapter_wf [OF assms(1)]
  note up = upsert_user_wf [OF assms(1)] upsert_opt_user_wf [OF assms(1)]
  have "wf_entities user_key (users_entities s')"
    using assms(3)
  proof (cases a)
    case (ResetUsers h)
    then show ?thesis
      using assms(3) wf ad by (auto simp: resetUsers_def Let_def split: option.splits if_splits)
  next
    case (Loader_rejected sv l)
    then show ?thesis
      using assms(3) wf by (cases l) (auto simp: loader_rejected_def Let_def split: if_splits)
  next
    case (FollowUnfollowUser_fulfilled r b f)
    then show ?thesis
      using assms(3) wf up
      by (auto simp: followUnfollowUser_fulfilled_def Let_def bind_result_eq_Inr split: if_splits option.splits)
  next
    case (RespondToFollowRequest_fulfilled r b f)
    then show ?thesis
      using assms(3) wf up
      by (auto simp: respondToFollowRequest_fulfilled_def Let_def bind_result_eq_Inr
          split: if_splits option.splits)
  next
    case (FederateAccounts_fulfilled x y)
    then show ?thesis
      using assms(3) edit_profiles_wf [OF assms(1) wf] edit_profiles_wf [OF assms(1)]
      by (clarsimp simp: federateAccounts_fulfilled_def Let_def bind_result_eq_Inr) blast
  next
    case (DefederateAccounts_fulfilled x y)
    then show ?thesis
      using assms(3) edit_profiles_wf [OF assms(1) wf] edit_profiles_wf [OF assms(1)]
      by (clarsimp simp: defederateAccounts_fulfilled_def Let_def bind_result_eq_Inr) blast
  qed (use assms(3) wf ad up in
      \<open>auto simp: resetUserEvents_def resetUserPosts_def loadUsersPage_pending_def loadUsersPage_fulfilled_def
        loadUsersPage_rejected_def loader_fulfilled_def deleteUser_fulfilled_def loadUserPosts_fulfilled_def
        loadUserReplies_fulfilled_def loadUserEvents_ids_def createPost_author_def createEvent_author_def
        user_pending_def user_rejected_def loadGroupMembers_users_def Let_def bind_result_eq_Inr
        split: option.split\<close>)
  then show ?thesis by (simp add: users_wf_def)
qed

lemma users_resettable:
  assumes "entity_adapter A user_key merge_user"
  shows "resettable_slice (\<lambda>h s. fst (resetUsers A h s)) users_wf (\<lambda>s. entities (users_entities s)) userPages
    users_pagesStatus"
  by unfold_locales
    (auto simp: resetUsers_def users_wf_def Let_def removeMany_reset [OF assms] adapter_wf [OF assms]
      split: option.split)

interpretation users_reset: resettable_slice
  "\<lambda>h s. fst (resetUsers (ref_adapter user_key merge_user key) h s)" users_wf
  "\<lambda>s. entities (users_entities s)" userPages users_pagesStatus for key
  by (rule users_resettable, rule users_ref.entity_adapter_axioms)


section \<open>Lists of a user\<close>

lemma js_set_props: "distinct (js_set xs)" "set (js_set xs) = set xs"
  by (simp_all add: js_set_def)

lemma js_set_distinct: "distinct xs \<Longrightarrow> js_set xs = xs"
  by (simp add: js_set_def distinct_remdups_id)

lemma merge_ids_distinct:
  "(\<forall>l. old = Some l \<longrightarrow> distinct l) \<Longrightarrow> distinct (merge_ids old new)"
  by (cases old) (auto simp: merge_ids_def js_set_props)

lemma set_merge_ids: "set (merge_ids old new) = set (nullish old []) \<union> set new"
  by (auto simp: merge_ids_def js_set_props)

lemma merge_ids_again: "merge_ids (Some (merge_ids old new)) new = merge_ids old new"
  by (simp add: merge_ids_def js_set_props)


section \<open>Properties\<close>

definition sample_user :: "string \<Rightarrow> user" where
  "sample_user i =
     \<lparr>u_id = i, u_username = i @ ''name'', u_permissions = [], u_followerCount = Some 1, u_followingCount = None,
      u_currentUserFollow = None, u_targetCurrentUserFollow = None, u_currentGroupMembership = None,
      u_federatedProfiles = [], u_createdAt = None, u_rest = []\<rparr>"

definition sample_account :: "string \<Rightarrow> rellm_server \<Rightarrow> rellm_account" where
  "sample_account i sv =
     \<lparr>acct_user = sample_user i, refreshToken = \<lparr>token = [], expiresAt = None\<rparr>,
      accessToken = \<lparr>token = [], expiresAt = None\<rparr>, acct_server = sv, lastSynced = None,
      needsReauthentication = None, lastSyncFailed = None, pushSubscription = None\<rparr>"

definition sample_follow :: follow where
  "sample_follow =
     \<lparr>follow_userId = ''me'', follow_targetUserId = ''you'', follow_targetUserModeration = Moderation_APPROVED,
      follow_createdAt = None, follow_updatedAt = None\<rparr>"

abbreviation sample_users_adapter :: "federated_user adapter" where
  "sample_users_adapter \<equiv> ref_adapter user_key merge_user None"

definition sample_users :: users_state where
  "sample_users =
     initial_users\<lparr>users_entities :=
       \<lparr>ids = [''you@h'', ''me@h''],
        entities = [''you@h'' \<mapsto> fed_user (sample_user ''you'') (FromHost ''h'') None,
                    ''me@h'' \<mapsto> fed_user (sample_user ''me'') (FromHost ''h'') (Some True)]\<rparr>\<rparr>"

definition sample_user_request :: user_request where
  "sample_user_request =
     \<lparr>ur_aos = \<lparr>aos_account = Some (sample_account ''me'' sample_server), aos_server = Some sample_server\<rparr>,
      ur_userId = ''you''\<rparr>"

lemma sample_users_wf: "users_wf sample_users"
  by (auto simp: users_wf_def wf_entities_def sample_users_def mk_federated_id_def sample_user_def
      split: if_splits)

lemma sample_user_keys:
  "federateUserId sample_user_request = ''you@h''" "accountUserId sample_user_request = Inr ''me@h''"
  "aos_server (ur_aos sample_user_request) = Some sample_server" "host sample_server = ''h''"
  by (simp_all add: federateUserId_def accountUserId_def sample_user_request_def sample_server_def
      sample_account_def sample_user_def federateId_def federatedEntityId_def mk_federated_id_def)

text \<open>
  Over any sequence of started and settled requests, a user is locked exactly when
  the last of its requests has started and not been settled.
\<close>

theorem user_locks_in_flight:
  "isUserLocked (foldl (\<lambda>s ev. case ev of Started i \<Rightarrow> lockUser s i | Settled i \<Rightarrow> unlockUser s i)
       initial_users evs) j =
     (case filter (\<lambda>ev. lock_target ev = j) (rev evs) of [] \<Rightarrow> False | ev # _ \<Rightarrow> ev = Started j)"
proof -
  have "\<not> isUserLocked initial_users j"
    by (simp add: isUserLocked_def initial_users_def)
  then show ?thesis
    using user_locks.locked_iff_last [of initial_users evs j] by (simp split: list.split)
qed

text \<open>
  C36: Following another cached user with an approved follow counts one follower more
  on the one side and one followed user more on the other; unfollowing restores both counts (an absent
  one becomes 0), clears the follow and releases the lock.
\<close>

lemma follow_keys:
  assumes "users_wf s" "entities (users_entities s) k = Some u"
  shows "user_key u = k"
  using assms by (auto simp: users_wf_def wf_entities_def)

theorem follow_then_unfollow:
  assumes "entity_adapter A user_key merge_user" "users_wf s" "accountUserId req = Inr me"
    and "entities (users_entities s) (federateUserId req) = Some you"
    and "entities (users_entities s) me = Some self" "me \<noteq> federateUserId req"
    and "passes (Some (follow_targetUserModeration f))"
  shows "\<exists>s1 s2. followUnfollowUser_fulfilled A req True (Some f) s = Inr s1 \<and>
    entities (users_entities s1) (federateUserId req) =
      Some (edit_user (\<lambda>u. u\<lparr>u_followerCount := add_count 1 (u_followerCount u), u_currentUserFollow := Some f\<rparr>) you) \<and>
    entities (users_entities s1) me =
      Some (edit_user (\<lambda>u. u\<lparr>u_followingCount := add_count 1 (u_followingCount u)\<rparr>) self) \<and>
    followUnfollowUser_fulfilled A req False None s1 = Inr s2 \<and>
    entities (users_entities s2) (federateUserId req) =
      Some (edit_user (\<lambda>u. u\<lparr>u_followerCount := add_count 0 (u_followerCount u), u_currentUserFollow := None\<rparr>) you) \<and>
    entities (users_entities s2) me =
      Some (edit_user (\<lambda>u. u\<lparr>u_followingCount := add_count 0 (u_followingCount u)\<rparr>) self) \<and>
    \<not> isUserLocked s2 (federateUserId req)"
proof -
  let ?you = "federateUserId req"
  define you1 where "you1 = edit_user (\<lambda>u. u\<lparr>u_followerCount := add_count 1 (u_followerCount u), u_currentUserFollow := Some f\<rparr>) you"
  define self1 where "self1 = edit_user (\<lambda>u. u\<lparr>u_followingCount := add_count 1 (u_followingCount u)\<rparr>) self"
  define you2 where "you2 = edit_user (\<lambda>u. u\<lparr>u_followerCount := add_count (-1) (u_followerCount u), u_currentUserFollow := None\<rparr>) you1"
  define self2 where "self2 = edit_user (\<lambda>u. u\<lparr>u_followingCount := add_count (-1) (u_followingCount u)\<rparr>) self1"
  define s1 where "s1 = upsert_user A self1 (upsert_user A you1 (unlockUser s ?you))"
  define s2 where "s2 = upsert_user A self2 (upsert_user A you2 (unlockUser s1 ?you))"
  note ad = adapter_entities [OF assms(1)]
  have keys: "user_key you = ?you" "user_key self = me"
    using follow_keys [OF assms(2)] assms(4,5) by blast+
  have keys1: "user_key you1 = ?you" "user_key self1 = me" "user_key you2 = ?you" "user_key self2 = me"
    using keys by (simp_all add: you1_def self1_def you2_def self2_def federatedId_def)
  have fed: "federateId (federateUserId req) (FederatedAction (aos_server (ur_aos req))) = ?you"
    by (simp add: federateUserId_def)
  have fp: "follow_passes (Some f)"
    using assms(7) by (simp add: follow_passes_def)
  have m1: "merge_user you you1 = you1" "merge_user self self1 = self1"
    "merge_user you1 you2 = you2" "merge_user self1 self2 = self2"
    by (simp_all add: you1_def self1_def you2_def self2_def merge_edited)
  have j1: "followUnfollowUser_fulfilled A req True (Some f) s = Inr s1"
    using assms(3-5) ad fp
    by (simp add: followUnfollowUser_fulfilled_def Let_def fed s1_def you1_def self1_def upsert_opt_user_def)
  have e1: "entities (users_entities s1) ?you = Some you1" "entities (users_entities s1) me = Some self1"
    using ad keys1 assms(4-6) m1 by (simp_all add: s1_def upsert_user_def upserted_def)
  have cur: "follow_passes (u_currentUserFollow (entity you1))"
    using fp by (simp add: you1_def)
  have j2: "followUnfollowUser_fulfilled A req False None s1 = Inr s2"
    using assms(3) ad e1 cur
    by (simp add: followUnfollowUser_fulfilled_def Let_def fed s2_def you2_def self2_def upsert_opt_user_def)
  have e2: "entities (users_entities s2) ?you = Some you2" "entities (users_entities s2) me = Some self2"
    using ad keys1 assms(6) m1 e1 by (simp_all add: s2_def upsert_user_def upserted_def)
  have undone: "you2 = edit_user (\<lambda>u. u\<lparr>u_followerCount := add_count 0 (u_followerCount u), u_currentUserFollow := None\<rparr>) you"
    "self2 = edit_user (\<lambda>u. u\<lparr>u_followingCount := add_count 0 (u_followingCount u)\<rparr>) self"
    by (simp_all add: you2_def you1_def self2_def self1_def edit_user_def add_count_def)
  have "\<not> isUserLocked s2 ?you"
    by (simp add: s2_def isUserLocked_def upsert_user_def unlockUser_def)
  then show ?thesis
    using j1 e1 j2 e2 undone you1_def self1_def by auto
qed

theorem follow_then_unfollow_witness:
  "\<exists>s1. followUnfollowUser_fulfilled sample_users_adapter sample_user_request True (Some sample_follow) sample_users = Inr s1 \<and>
     map_option (\<lambda>u. u_followerCount (entity u)) (entities (users_entities s1) ''you@h'') = Some (Some 2)"
  using follow_then_unfollow [OF users_ref.entity_adapter_axioms sample_users_wf sample_user_keys(2),
      of "fed_user (sample_user ''you'') (FromHost ''h'') None" "fed_user (sample_user ''me'') (FromHost ''h'') (Some True)"
        sample_follow None]
  by (auto simp: sample_user_keys sample_users_def sample_follow_def fed_user_def sample_user_def add_count_def)

text \<open>
  The posts of a user are listed without duplicates, exactly the old and the new
  ones, and loading the same response again changes nothing.
\<close>

theorem user_posts_merge:
  assumes "\<forall>l. idPosts s (federateUserId req) = Some l \<longrightarrow> distinct l"
  shows "\<exists>l. idPosts (loadUserPosts_fulfilled req ps s) (federateUserId req) = Some l \<and> distinct l \<and>
    set l = set (nullish (idPosts s (federateUserId req)) []) \<union>
      (\<lambda>p. mk_federated_id (post_id p) (federationKey (aos_server (ur_aos req)))) ` set ps \<and>
    loadUserPosts_fulfilled req ps (loadUserPosts_fulfilled req ps s) = loadUserPosts_fulfilled req ps s"
  using merge_ids_distinct [OF assms]
  by (auto simp: loadUserPosts_fulfilled_def Let_def set_merge_ids merge_ids_again federatedEntityId_def
      serverHost_def)

theorem user_posts_merge_witness:
  "\<exists>l. idPosts (loadUserPosts_fulfilled sample_user_request [bare_post ''p'' [], bare_post ''p'' []] sample_users)
     ''you@h'' = Some l \<and> distinct l \<and> set l = {''p@h''}"
proof -
  have "idPosts sample_users = Map.empty" "federationKey (Some sample_server) = ''h''"
    by (simp_all add: sample_users_def initial_users_def federationKey_def sample_user_keys)
  then show ?thesis
    using user_posts_merge [of sample_users sample_user_request "[bare_post ''p'' [], bare_post ''p'' []]"]
    by (auto simp: sample_user_keys mk_federated_id_def)
qed

text \<open>
  Linking two cached accounts adds to each user the profile of the other, and
  unlinking the second profile from the first removes exactly these two links.
\<close>

theorem link_then_unlink:
  assumes "entity_adapter A user_key merge_user" "users_wf s"
    and "a1 = \<lparr>aos_account = Some x, aos_server = Some sx\<rparr>" "a2 = \<lparr>aos_account = Some y, aos_server = Some sy\<rparr>"
    and "k1 = federateId (u_id (acct_user x)) (FromHost (host sx))"
    and "k2 = federateId (u_id (acct_user y)) (FromHost (host sy))" "k1 \<noteq> k2"
    and "entities (users_entities s) k1 = Some u1" "entities (users_entities s) k2 = Some u2"
    and "p1 = \<lparr>fa_host = host sx, fa_userId = u_id (acct_user x)\<rparr>"
    and "p2 = \<lparr>fa_host = host sy, fa_userId = u_id (acct_user y)\<rparr>"
  shows "\<exists>s1 s2. federateAccounts_fulfilled A a1 a2 s = Inr s1 \<and>
    entities (users_entities s1) k1 = Some (edit_user (\<lambda>u. u\<lparr>u_federatedProfiles := u_federatedProfiles u @ [p2]\<rparr>) u1) \<and>
    entities (users_entities s1) k2 = Some (edit_user (\<lambda>u. u\<lparr>u_federatedProfiles := u_federatedProfiles u @ [p1]\<rparr>) u2) \<and>
    defederateAccounts_fulfilled A a1 p2 s1 = Inr s2 \<and>
    entities (users_entities s2) k1 = Some (edit_user (\<lambda>u. u\<lparr>u_federatedProfiles := drop_profile p2 (u_federatedProfiles u)\<rparr>) u1) \<and>
    entities (users_entities s2) k2 = Some (edit_user (\<lambda>u. u\<lparr>u_federatedProfiles := drop_profile p1 (u_federatedProfiles u)\<rparr>) u2)"
proof -
  note ad = adapter_entities [OF assms(1)]
  have keys: "user_key u1 = k1" "user_key u2 = k2"
    using follow_keys [OF assms(2)] assms(8,9) by blast+
  define v1 where "v1 = edit_user (\<lambda>u. u\<lparr>u_federatedProfiles := u_federatedProfiles u @ [p2]\<rparr>) u1"
  define v2 where "v2 = edit_user (\<lambda>u. u\<lparr>u_federatedProfiles := u_federatedProfiles u @ [p1]\<rparr>) u2"
  define w1 where "w1 = edit_user (\<lambda>u. u\<lparr>u_federatedProfiles := drop_profile p2 (u_federatedProfiles u)\<rparr>) v1"
  define w2 where "w2 = edit_user (\<lambda>u. u\<lparr>u_federatedProfiles := drop_profile p1 (u_federatedProfiles u)\<rparr>) v2"
  have k: "user_key v1 = k1" "user_key v2 = k2" "user_key w1 = k1" "user_key w2 = k2"
    using keys by (simp_all add: v1_def v2_def w1_def w2_def federatedId_def)
  have m: "merge_user u1 v1 = v1" "merge_user u2 v2 = v2" "merge_user v1 w1 = w1" "merge_user v2 w2 = w2"
    by (simp_all add: v1_def v2_def w1_def w2_def merge_edited)
  define s1 where "s1 = upsert_user A v2 (upsert_user A v1 s)"
  define s2 where "s2 = upsert_user A w2 (upsert_user A w1 s1)"
  have h: "aos_host a1 = FromHost (host sx)" "aos_host a2 = FromHost (host sy)"
    "profile_of a1 = Inr p1" "profile_of a2 = Inr p2" "\<And>z. unlink_target a1 x z = Inr p1"
    using assms(3,4,10,11) by (simp_all add: aos_host_def profile_of_def unlink_target_def)
  have j1: "federateAccounts_fulfilled A a1 a2 s = Inr s1"
    using assms(3,4,5,6,8,9) ad h
    by (simp add: federateAccounts_fulfilled_def edit_profiles_def s1_def v1_def v2_def)
  have e1: "entities (users_entities s1) k1 = Some v1" "entities (users_entities s1) k2 = Some v2"
    using ad k m assms(7-9) by (simp_all add: s1_def upsert_user_def upserted_def)
  have j2: "defederateAccounts_fulfilled A a1 p2 s1 = Inr s2"
    using assms(3,5,6,11) ad h e1
    by (simp add: defederateAccounts_fulfilled_def edit_profiles_def s2_def w1_def w2_def)
  have e2: "entities (users_entities s2) k1 = Some w1" "entities (users_entities s2) k2 = Some w2"
    using ad k m assms(7) e1 by (simp_all add: s2_def upsert_user_def upserted_def)
  have undone: "w1 = edit_user (\<lambda>u. u\<lparr>u_federatedProfiles := drop_profile p2 (u_federatedProfiles u)\<rparr>) u1"
    "w2 = edit_user (\<lambda>u. u\<lparr>u_federatedProfiles := drop_profile p1 (u_federatedProfiles u)\<rparr>) u2"
    by (simp_all add: w1_def w2_def v1_def v2_def edit_user_def drop_profile_def)
  show ?thesis
    using j1 e1 j2 e2 undone v1_def v2_def by auto
qed

theorem link_then_unlink_witness:
  "\<exists>s1. federateAccounts_fulfilled sample_users_adapter
      \<lparr>aos_account = Some (sample_account ''me'' sample_server), aos_server = Some sample_server\<rparr>
      \<lparr>aos_account = Some (sample_account ''you'' sample_server), aos_server = Some sample_server\<rparr> sample_users = Inr s1 \<and>
    map_option (\<lambda>u. u_federatedProfiles (entity u)) (entities (users_entities s1) ''me@h'') =
      Some [\<lparr>fa_host = ''h'', fa_userId = ''you''\<rparr>]"
proof -
  have k: "federateId ''me'' (FromHost ''h'') = ''me@h''" "federateId ''you'' (FromHost ''h'') = ''you@h''"
    by (simp_all add: federateId_def mk_federated_id_def)
  show ?thesis
    using link_then_unlink [OF users_ref.entity_adapter_axioms sample_users_wf refl refl,
        of "''me@h''" "sample_account ''me'' sample_server" sample_server "''you@h''"
          "sample_account ''you'' sample_server" sample_server
          "fed_user (sample_user ''me'') (FromHost ''h'') (Some True)" "fed_user (sample_user ''you'') (FromHost ''h'') None"
          "\<lparr>fa_host = ''h'', fa_userId = ''me''\<rparr>" "\<lparr>fa_host = ''h'', fa_userId = ''you''\<rparr>" None]
    by (auto simp: k sample_account_def sample_user_def sample_server_def sample_users_def fed_user_def)
qed

text \<open>
  Resetting a host forgets its users, their pages and their failed
  identifiers, but not the names that failed to load there, nor the name links.
\<close>

theorem reset_keeps_failed_usernames:
  assumes "entity_adapter A user_key merge_user" "users_wf s" "h \<noteq> []"
  shows "let s' = fst (resetUsers A (Some h) s) in
    (\<forall>k. id_on_host h k \<longrightarrow> entities (users_entities s') k = None) \<and>
    (\<forall>i \<in> set (failedUserIds s'). \<not> id_on_host h i) \<and>
    getFederated (failedUsernames s') (FromHost h) = getFederated (failedUsernames s) (FromHost h) \<and>
    getFederated (usernameIds s') (FromHost h) = getFederated (usernameIds s) (FromHost h) \<and>
    snd (resetUsers A (Some h) s) = [After 1 (T_resetUserPages (Some h))]"
  using resettable_slice.reset_forgets [OF users_resettable [OF assms(1)] assms(2,3)] assms(3)
  by (simp add: Let_def) (simp add: resetUsers_def Let_def)

theorem reset_keeps_failed_usernames_witness:
  "getFederated (failedUsernames (fst (resetUsers sample_users_adapter (Some ''h'')
     (loader_rejected (Some sample_server) (LoadUsername ''nobody'') sample_users)))) (FromHost ''h'') = [''nobody'']"
proof -
  have wf: "users_wf (loader_rejected (Some sample_server) (LoadUsername ''nobody'') sample_users)"
    using sample_users_wf by (simp add: loader_rejected_def Let_def users_wf_def)
  show ?thesis
    using reset_keeps_failed_usernames [OF users_ref.entity_adapter_axioms [where key = None] wf, of "''h''"]
    by (simp add: Let_def) (simp add: loader_rejected_def Let_def sample_users_def initial_users_def sample_server_def
        getFederated_def setFederated_def createFederated_def)
qed

text \<open>
  A user from a single lookup is found by name and marked as complete; a
  later page of users overwrites its fields, linked profiles included, and leaves the mark.
\<close>

theorem advanced_flag_survives_lists:
  assumes "entity_adapter A user_key merge_user" "u_id v = u_id u"
  shows "let k = mk_federated_id (u_id u) (federationKey sv);
      s1 = fst (loader_fulfilled A sv u s);
      s2 = fst (loadUsersPage_fulfilled A \<lparr>lur_server = sv, lur_page = p, lur_listingType = t\<rparr> [v] s1) in
    getFederated (usernameIds s1) (FederatedAction sv) (split_head (CHR ''@'') (u_username u)) = Some k \<and>
    map_option hasAdvancedData (entities (users_entities s1) k) = Some (Some True) \<and>
    map_option hasAdvancedData (entities (users_entities s2) k) = Some (Some True) \<and>
    map_option entity (entities (users_entities s2) k) = Some v"
proof -
  have many: "entities (upsertMany A es [fed_user v (FederatedAction sv) None]) =
      (\<lambda>k. if user_key (fed_user v (FederatedAction sv) None) = k
           then Some (upserted merge_user (entities es k) (fed_user v (FederatedAction sv) None)) else entities es k)" for es
    using entity_adapter.entities_upsertMany [OF assms(1), of "[fed_user v (FederatedAction sv) None]" es]
    by (auto simp: fun_eq_iff)
  show ?thesis
    using assms(2) adapter_entities [OF assms(1)] many
    by (simp add: Let_def loader_fulfilled_def loadUsersPage_fulfilled_def upsert_user_def upserted_def
        federatedEntityId_def serverHost_def)
      (simp add: fed_user_def merge_user_def split: option.split)
qed

theorem advanced_flag_survives_lists_witness:
  "map_option hasAdvancedData (entities (users_entities (fst (loadUsersPage_fulfilled sample_users_adapter
     \<lparr>lur_server = None, lur_page = None, lur_listingType = None\<rparr> [sample_user ''z'']
     (fst (loader_fulfilled sample_users_adapter None (sample_user ''z'') initial_users))))) ''z@default'') = Some (Some True)"
  using advanced_flag_survives_lists [OF users_ref.entity_adapter_axioms [where key = None],
      where u = "sample_user ''z''" and v = "sample_user ''z''" and sv = None and p = None and t = None
        and s = initial_users]
  by (simp add: Let_def) (simp add: sample_user_def mk_federated_id_def federationKey_def)

end
