(* ===== verification/Error_Parsing.thy ===== *)
theory Error_Parsing
  imports Rellm_Prelude
begin

text \<open>
  packages/ui/src/error_parsing.ts: the status and message inside a gRPC error, and the sentence shown for
  an error code.  The regular expressions of the source are anchored at both ends; each is translated to
  a function that returns its groups.  Strings are over Latin-1, so the line terminators the pattern \<open>.\<close>
  excludes are the line feed and the carriage return.
\<close>

section \<open>The regular expressions\<close>

definition word_char :: "char \<Rightarrow> bool" where
  "word_char c =
     (let n = of_char c :: nat
      in (48 \<le> n \<and> n \<le> 57) \<or> (65 \<le> n \<and> n \<le> 90) \<or> (97 \<le> n \<and> n \<le> 122) \<or> n = 95)"

definition digit_char :: "char \<Rightarrow> bool" where
  "digit_char c = (let n = of_char c :: nat in 48 \<le> n \<and> n \<le> 57)"

definition any_char :: "char \<Rightarrow> bool" where
  "any_char c = (let n = of_char c :: nat in n \<noteq> 10 \<and> n \<noteq> 13)"

text \<open>\<open>^\w+$\<close>\<close>

definition match_word :: "string \<Rightarrow> bool" where
  "match_word s \<longleftrightarrow> s \<noteq> [] \<and> list_all word_char s"

text \<open>\<open>^_?([\d]+)$\<close>\<close>

definition match_bound :: "string \<Rightarrow> string option" where
  "match_bound s =
     (let d = (case s of c # cs \<Rightarrow> if c = CHR ''_'' then cs else s | [] \<Rightarrow> [])
      in if d \<noteq> [] \<and> list_all digit_char d then Some d else None)"

fun strip_prefix :: "string \<Rightarrow> string \<Rightarrow> string option" where
  "strip_prefix [] s = Some s"
| "strip_prefix (p # ps) [] = None"
| "strip_prefix (p # ps) (c # cs) = (if p = c then strip_prefix ps cs else None)"

text \<open>
  \<open>^([\w]+)infix_?([\d]+)$\<close>.  The first group is greedy: splits are tried from the longest one down.
\<close>

definition match_split :: "string \<Rightarrow> string \<Rightarrow> nat \<Rightarrow> (string \<times> string) option" where
  "match_split mid s n =
     (if match_word (take n s)
      then (case strip_prefix mid (drop n s) of
              None \<Rightarrow> None
            | Some rest \<Rightarrow> map_option (\<lambda>d. (take n s, d)) (match_bound rest))
      else None)"

fun match_from :: "string \<Rightarrow> string \<Rightarrow> nat \<Rightarrow> (string \<times> string) option" where
  "match_from mid s 0 = match_split mid s 0"
| "match_from mid s (Suc n) =
     (case match_split mid s (Suc n) of Some r \<Rightarrow> Some r | None \<Rightarrow> match_from mid s n)"

definition match_field_bound :: "string \<Rightarrow> string \<Rightarrow> (string \<times> string) option" where
  "match_field_bound mid s = match_from mid s (length s)"


section \<open>Parsing a gRPC error\<close>

record parsed_error =
  pe_status :: string
  pe_message :: string

text \<open>
  \<open>/^\/rellm.Rellm\/\w+ (\w+): (.*)$/\<close>.  A run of word characters ends where the space or the colon
  begins, so the groups are determined; an empty message is falsy and gives \<open>undefined\<close>.
\<close>

definition parseErrorMessage :: "string \<Rightarrow> parsed_error option" where
  "parseErrorMessage unparsed =
     (case strip_prefix ''/rellm'' unparsed of
        Some (c # afterDot) \<Rightarrow>
          (case strip_prefix ''Rellm/'' afterDot of
             Some call \<Rightarrow>
               (let mname = takeWhile word_char call; r1 = dropWhile word_char call
                in (case strip_prefix '' '' r1 of
                      Some r2 \<Rightarrow>
                        (let status = takeWhile word_char r2; r3 = dropWhile word_char r2
                         in (case strip_prefix '': '' r3 of
                               Some m \<Rightarrow>
                                 if any_char c \<and> mname \<noteq> [] \<and> status \<noteq> [] \<and> list_all any_char m \<and> m \<noteq> []
                                 then Some \<lparr>pe_status = status, pe_message = m\<rparr> else None
                             | None \<Rightarrow> None))
                    | None \<Rightarrow> None))
           | None \<Rightarrow> None)
      | _ \<Rightarrow> None)"


section \<open>The sentence for an error code\<close>

text \<open>\<open>capitalize\<close> is applied to runs of word characters only, which are ASCII.\<close>

definition char_upper :: "char \<Rightarrow> char" where
  "char_upper c = (let n = of_char c :: nat in if 97 \<le> n \<and> n \<le> 122 then char_of (n - 32) else c)"

definition capitalize :: "string \<Rightarrow> string" where
  "capitalize str = (case str of [] \<Rightarrow> [] | c # cs \<Rightarrow> char_upper c # cs)"

definition sIfPlural :: "string \<Rightarrow> string" where
  "sIfPlural s = (if s = ''1'' then [] else ''s'')"

definition too_short :: "string \<Rightarrow> string" where
  "too_short message =
     (case match_field_bound ''_too_short_min'' message of
        Some (field, bound) \<Rightarrow>
          capitalize field @ '' must be at least '' @ bound @ '' character'' @ sIfPlural bound @ ''.''
      | None \<Rightarrow> message)"

definition too_long :: "string \<Rightarrow> string" where
  "too_long message =
     (case match_field_bound ''_too_long_max'' message of
        Some (field, bound) \<Rightarrow>
          capitalize field @ '' must be less than '' @ bound @ '' character'' @ sIfPlural bound @ ''.''
      | None \<Rightarrow> message)"

definition public_users :: "string \<Rightarrow> string" where
  "public_users message =
     (if message = ''global_public_users_require_PUBLISH_USERS_GLOBALLY_permission''
      then ''\"Global Public\" user visibility requires \"Globally Publish Profile\" permission.''
      else message)"

definition any_code :: "string \<Rightarrow> string" where
  "any_code message =
     (if match_word message
      then map (\<lambda>c. if c = CHR ''_'' then CHR '' '' else c) (capitalize message) @ ''.''
      else message)"

definition grpcErrorConversions :: "(string \<Rightarrow> string) list" where
  "grpcErrorConversions = [too_short, too_long, public_users, any_code]"

record js_error_value =
  ev_message :: "string option"
  ev_toString :: string

definition base_message :: "js_error_value option \<Rightarrow> string" where
  "base_message err =
     (case err of
        None \<Rightarrow> ''unknown_error''
      | Some e \<Rightarrow> nullish (ev_message e) (ev_toString e))"

definition formatError :: "js_error_value option \<Rightarrow> string" where
  "formatError err =
     (let base = base_message err;
          message = (case parseErrorMessage base of Some p \<Rightarrow> pe_message p | None \<Rightarrow> base)
      in foldl (\<lambda>msg conv. conv msg) message grpcErrorConversions)"


section \<open>Lemmas\<close>

lemma strip_prefix_append [simp]: "strip_prefix p (p @ s) = Some s"
  by (induction p) auto

lemma strip_prefix_eq: "strip_prefix p s = Some r \<longleftrightarrow> s = p @ r"
  by (induction p s rule: strip_prefix.induct) auto

lemma word_chars [simp]: "digit_char c \<Longrightarrow> word_char c" "word_char (CHR ''_'')"
  by (auto simp: digit_char_def word_char_def Let_def)

lemma digits_are_words: "list_all digit_char s \<Longrightarrow> list_all word_char s"
  by (auto simp: list_all_iff)

lemma matched_bound_word: "match_bound s = Some d \<Longrightarrow> list_all word_char s"
  by (auto simp: match_bound_def Let_def digits_are_words split: list.splits if_splits)

lemma match_from_None: "(\<And>i. i \<le> n \<Longrightarrow> match_split mid s i = None) \<Longrightarrow> match_from mid s n = None"
  by (induction n) auto

lemma match_from_skip:
  "i \<le> n \<Longrightarrow> (\<And>j. i < j \<Longrightarrow> j \<le> n \<Longrightarrow> match_split mid s j = None) \<Longrightarrow>
    match_from mid s n = match_from mid s i"
proof (induction n)
  case (Suc n)
  show ?case
  proof (cases "i = Suc n")
    case False
    then have "match_split mid s (Suc n) = None"
      using Suc.prems by simp
    then show ?thesis
      using Suc False by simp
  qed simp
qed simp

lemma match_from_hit: "match_split mid s n = Some r \<Longrightarrow> match_from mid s n = Some r"
  by (cases n) simp_all

lemma match_split_parts:
  assumes "match_split mid s n = Some (w, d)"
  obtains rest where "s = w @ mid @ rest" "match_word w" "match_bound rest = Some d"
proof -
  have "w = take n s" "match_word w" and ex: "\<exists>rest. drop n s = mid @ rest \<and> match_bound rest = Some d"
    using assms by (auto simp: match_split_def strip_prefix_eq split: if_splits option.splits)
  then obtain rest where "drop n s = mid @ rest" "match_bound rest = Some d"
    by blast
  then show ?thesis
    using that \<open>w = take n s\<close> \<open>match_word w\<close> by (metis append_take_drop_id)
qed

lemma match_from_split: "match_from mid s n = Some r \<Longrightarrow> \<exists>i. match_split mid s i = Some r"
  by (induction n) (auto split: option.splits)

text \<open>A sentence holds a space or a full stop, so no pattern for a code matches it.\<close>

lemma not_word_no_match:
  assumes "\<not> list_all word_char s" "list_all word_char mid"
  shows "match_field_bound mid s = None"
proof (rule ccontr)
  assume "match_field_bound mid s \<noteq> None"
  then obtain w d i where "match_split mid s i = Some (w, d)"
    using match_from_split by (fastforce simp: match_field_bound_def)
  then obtain rest where "s = w @ mid @ rest" "match_word w" "match_bound rest = Some d"
    by (rule match_split_parts)
  then show False
    using assms matched_bound_word by (simp add: match_word_def)
qed

text \<open>The infix ends in a character the bound cannot hold, so the split is unique.\<close>

lemma match_field_bound_unique:
  assumes w: "match_word w" and b: "match_bound rest = Some d"
    and mid: "mid = ms @ [c]" "\<not> digit_char c" "c \<noteq> CHR ''_''"
  shows "match_field_bound mid (w @ mid @ rest) = Some (w, d)"
proof -
  let ?s = "w @ mid @ rest"
  have rest: "digit_char x \<or> x = CHR ''_''" if "x \<in> set rest" for x
    using b that by (auto simp: match_bound_def Let_def list_all_iff split: list.splits if_splits)
  have longer: "match_split mid ?s j = None" if "length w < j" for j
  proof (rule ccontr)
    assume "match_split mid ?s j \<noteq> None"
    then obtain r where r: "drop j ?s = mid @ r"
      by (auto simp: match_split_def strip_prefix_eq split: if_splits option.splits)
    define k where "k = j - length w"
    have k: "0 < k" "j = length w + k"
      using that by (auto simp: k_def)
    have eq: "drop k (mid @ rest) = mid @ r"
      using r k by simp
    have "drop k (mid @ rest) ! length ms = c"
      using eq mid(1) by simp
    moreover have "drop k (mid @ rest) ! length ms = rest ! (k - 1)" "k - 1 < length rest"
    proof -
      have "length mid \<le> length (mid @ rest) - k"
        using arg_cong [OF eq, of length] by simp
      then show "k - 1 < length rest"
        using mid(1) k by simp
      have "drop k (mid @ rest) ! length ms = (mid @ rest) ! (length mid + (k - 1))"
        using mid(1) k \<open>k - 1 < length rest\<close>
        by (subst nth_drop) (simp_all del: append_assoc add: add.commute)
      also have "\<dots> = rest ! (k - 1)"
        by (rule nth_append_length_plus)
      finally show "drop k (mid @ rest) ! length ms = rest ! (k - 1)" .
    qed
    ultimately have "c \<in> set rest"
      by (metis nth_mem)
    then show False
      using rest mid by blast
  qed
  have here: "match_split mid ?s (length w) = Some (w, d)"
    using w b by (simp add: match_split_def)
  have "match_from mid ?s (length ?s) = match_from mid ?s (length w)"
    by (rule match_from_skip) (use longer in auto)
  then show ?thesis
    using match_from_hit [OF here] by (simp add: match_field_bound_def)
qed

lemma takeWhile_stop: "list_all P xs \<Longrightarrow> \<not> P y \<Longrightarrow> takeWhile P (xs @ y # ys) = xs"
  "list_all P xs \<Longrightarrow> \<not> P y \<Longrightarrow> dropWhile P (xs @ y # ys) = y # ys"
  by (auto simp: list_all_iff takeWhile_append dropWhile_append)

lemma not_word_chars [simp]:
  "\<not> word_char (CHR '' '')" "\<not> word_char (CHR '':'')" "\<not> word_char (CHR ''.'')"
  by (simp_all add: word_char_def)

lemma words_any: "list_all word_char m \<Longrightarrow> list_all any_char m"
  by (auto simp: list_all_iff word_char_def any_char_def Let_def)

definition wire_error :: "string \<Rightarrow> string \<Rightarrow> string \<Rightarrow> js_error_value option" where
  "wire_error mname status message =
     Some \<lparr>ev_message = Some (''/rellm.Rellm/'' @ mname @ '' '' @ status @ '': '' @ message), ev_toString = []\<rparr>"

lemma parse_wire:
  assumes "match_word mname" "match_word status" "list_all any_char m" "m \<noteq> []"
  shows "parseErrorMessage (''/rellm.Rellm/'' @ mname @ '' '' @ status @ '': '' @ m) =
    Some \<lparr>pe_status = status, pe_message = m\<rparr>"
proof -
  have "takeWhile word_char (mname @ CHR '' '' # r) = mname"
    "dropWhile word_char (mname @ CHR '' '' # r) = CHR '' '' # r"
    "takeWhile word_char (status @ CHR '':'' # r) = status"
    "dropWhile word_char (status @ CHR '':'' # r) = CHR '':'' # r" for r
    using assms by (simp_all add: takeWhile_stop match_word_def)
  then show ?thesis
    using assms by (simp add: parseErrorMessage_def match_word_def Let_def any_char_def)
qed

lemma sentence_not_word [simp]:
  "\<not> list_all word_char (a @ '' must be at least '' @ b)"
  "\<not> list_all word_char (a @ '' must be less than '' @ b)"
  "\<not> list_all word_char (a @ [CHR ''.''])"
  by simp_all

lemma not_word_unconverted:
  assumes "\<not> list_all word_char m"
  shows "too_short m = m" "too_long m = m" "public_users m = m" "any_code m = m"
proof -
  have words: "list_all word_char ''_too_short_min''" "list_all word_char ''_too_long_max''"
    "list_all word_char ''global_public_users_require_PUBLISH_USERS_GLOBALLY_permission''"
    by (simp_all add: word_char_def)
  show "too_short m = m" "too_long m = m"
    using not_word_no_match [OF assms words(1)] not_word_no_match [OF assms words(2)]
    by (simp_all add: too_short_def too_long_def)
  show "public_users m = m" "any_code m = m"
    using assms words(3) by (auto simp: public_users_def any_code_def match_word_def)
qed

text \<open>Every conversion leaves a message alone or turns a code into a sentence.\<close>

lemma converted_code:
  assumes "c \<in> set grpcErrorConversions" "c m \<noteq> m"
  shows "\<not> list_all word_char (c m)"
  using assms
  by (auto simp: grpcErrorConversions_def too_short_def too_long_def public_users_def any_code_def word_char_def
      split: option.splits if_splits)

lemma sentence_fixed: "\<not> list_all word_char m \<Longrightarrow> c \<in> set grpcErrorConversions \<Longrightarrow> c m = m"
  by (auto simp: grpcErrorConversions_def not_word_unconverted)

lemma foldl_fixed: "(\<And>c. c \<in> set cs \<Longrightarrow> c m = m) \<Longrightarrow> foldl (\<lambda>msg conv. conv msg) m cs = m"
proof (induction cs)
  case (Cons c cs)
  have cm: "c m = m"
    by (rule Cons.prems) simp
  have "foldl (\<lambda>msg conv. conv msg) m cs = m"
    by (rule Cons.IH, rule Cons.prems) simp
  then show ?case
    by (simp only: foldl.simps cm)
qed simp

lemma foldl_first:
  "set cs \<subseteq> set grpcErrorConversions \<Longrightarrow>
     foldl (\<lambda>msg conv. conv msg) m cs = (case find (\<lambda>c. c m \<noteq> m) cs of None \<Rightarrow> m | Some c \<Rightarrow> c m)"
proof (induction cs)
  case (Cons c cs)
  show ?case
  proof (cases "c m = m")
    case True
    then show ?thesis using Cons by simp
  next
    case False
    then have "\<not> list_all word_char (c m)"
      using Cons.prems converted_code by simp
    then have "foldl (\<lambda>msg conv. conv msg) (c m) cs = c m"
      using Cons.prems sentence_fixed by (intro foldl_fixed) auto
    then show ?thesis using False by simp
  qed
qed simp


section \<open>Properties\<close>

text \<open>
  Although every conversion is tried on what the earlier ones left, the sentence
  is that of the first conversion that applies to the message; the later ones never see a code.
\<close>

theorem format_first_conversion:
  "formatError err =
     (let base = base_message err;
          message = (case parseErrorMessage base of Some p \<Rightarrow> pe_message p | None \<Rightarrow> base)
      in case find (\<lambda>c. c message \<noteq> message) grpcErrorConversions of None \<Rightarrow> message | Some c \<Rightarrow> c message)"
  unfolding formatError_def Let_def by (rule foldl_first) simp

text \<open>
  A field error of any call is shown as a sentence that names the field and its
  bound, whatever underscores the name of the field holds, with the singular for the bound 1.
\<close>

theorem format_field_too_short:
  assumes "match_word mname" "match_word status" "match_word field" "match_word d" "list_all digit_char d"
  shows "formatError (wire_error mname status (field @ ''_too_short_min_'' @ d)) =
    capitalize field @ '' must be at least '' @ d @ '' character'' @
      (if d = ''1'' then [] else ''s'') @ ''.''"
proof -
  let ?code = "field @ ''_too_short_min_'' @ d"
  have code: "list_all any_char ?code" "?code \<noteq> []"
    using assms words_any by (auto simp: match_word_def any_char_def)
  have "match_bound (''_'' @ d) = Some d"
    using assms by (simp add: match_bound_def match_word_def)
  then have split: "match_field_bound ''_too_short_min'' (field @ ''_too_short_min'' @ (''_'' @ d)) = Some (field, d)"
    by (rule match_field_bound_unique [OF assms(3), where ms = "''_too_short_mi''" and c = "CHR ''n''"])
      (simp_all add: digit_char_def)
  have short: "too_short ?code =
      capitalize field @ '' must be at least '' @ d @ '' character'' @ sIfPlural d @ ''.''"
    using split by (simp add: too_short_def)
  have "foldl (\<lambda>msg conv. conv msg) ?code grpcErrorConversions = too_short ?code"
    unfolding short grpcErrorConversions_def foldl.simps
    by (simp only: short not_word_unconverted sentence_not_word not_False_eq_True)
  then have "foldl (\<lambda>msg conv. conv msg) ?code grpcErrorConversions =
      capitalize field @ '' must be at least '' @ d @ '' character'' @ sIfPlural d @ ''.''"
    unfolding short .
  moreover have "formatError (wire_error mname status ?code) = foldl (\<lambda>msg conv. conv msg) ?code grpcErrorConversions"
    unfolding formatError_def wire_error_def base_message_def Let_def
    by (simp only: option.case js_error_value.simps nullish_simps parse_wire [OF assms(1,2) code] parsed_error.simps)
  ultimately show ?thesis
    by (simp add: sIfPlural_def)
qed

theorem format_field_too_short_witness:
  "formatError (wire_error ''Login'' ''INVALID_ARGUMENT'' (''user_name'' @ ''_too_short_min_'' @ ''3'')) =
     ''User_name must be at least 3 characters.''"
proof -
  have "match_word ''Login''" "match_word ''INVALID_ARGUMENT''" "match_word ''user_name''" "match_word ''3''"
    "list_all digit_char ''3''"
    by code_simp+
  moreover have "capitalize ''user_name'' = ''User_name''"
    by code_simp
  ultimately show ?thesis
    using format_field_too_short [of "''Login''" "''INVALID_ARGUMENT''" "''user_name''" "''3''"] by simp
qed

end
