(* ===== verification/Servers.thy ===== *)
theory Servers
  imports Entity_Adapter Movable_List Pages Error_Parsing
begin

text \<open>
  The servers slice (store/modules/servers_state.ts): the servers the client knows, which of them the page
  shows and which one creates data, and the arrangement of the servers a federation recommends.
\<close>

section \<open>State\<close>

record servers_state =
  servers_status :: pages_status
  configuringFederation :: bool
  servers_error :: "js_error_value option"
  servers_successMessage :: "string option"
  servers_errorMessage :: "string option"
  currentServerId :: "string option"
  creationServerId :: "string option"
  servers_entities :: "rellm_server entity_state"

definition initial_servers :: servers_state where
  "initial_servers =
     \<lparr>servers_status = Unloaded, configuringFederation = True, servers_error = None,
      servers_successMessage = None, servers_errorMessage = None, currentServerId = None,
      creationServerId = None, servers_entities = empty_entities\<rparr>"

text \<open>
  The adapter's shallow merge of server objects: an optional field the new object does not carry keeps
  its old value.
\<close>

definition keep_absent :: "'a option \<Rightarrow> 'a option \<Rightarrow> 'a option" where
  "keep_absent old new = (case new of None \<Rightarrow> old | Some x \<Rightarrow> Some x)"

definition merge_server :: "rellm_server \<Rightarrow> rellm_server \<Rightarrow> rellm_server" where
  "merge_server old new =
     \<lparr>host = host new, secure = secure new,
      serviceVersion = keep_absent (serviceVersion old) (serviceVersion new),
      serverConfiguration = keep_absent (serverConfiguration old) (serverConfiguration new),
      lastConnectionFailed = keep_absent (lastConnectionFailed old) (lastConnectionFailed new)\<rparr>"


section \<open>Reducers\<close>

definition upsertServer_reducer ::
  "rellm_server adapter \<Rightarrow> rellm_server \<Rightarrow> servers_state \<Rightarrow> servers_state \<times> effect list" where
  "upsertServer_reducer A server s =
     (let isAdd = (selectById A (servers_entities s) (serverID server) = None)
      in (s\<lparr>servers_entities := upsertOne A (servers_entities s) server\<rparr>,
          if isAdd
          then [After 1 (T_pinServer \<lparr>ps_serverId = serverID server, ps_accountId = None, ps_pinned = True\<rparr>)]
          else []))"

definition removeServer ::
  "rellm_server adapter \<Rightarrow> rellm_server \<Rightarrow> servers_state \<Rightarrow> servers_state \<times> effect list" where
  "removeServer A server s =
     (s\<lparr>servers_entities := removeOne A (servers_entities s) (serverID server)\<rparr>,
      [Call_deleteClient server,
       After 1 (T_pinServer \<lparr>ps_serverId = serverID server, ps_accountId = None, ps_pinned = False\<rparr>),
       Call_resetCredentialedData (Some (host server))])"

definition resetServers :: "servers_state \<Rightarrow> servers_state" where
  "resetServers s = initial_servers"

definition clearServerAlerts :: "servers_state \<Rightarrow> servers_state" where
  "clearServerAlerts s =
     s\<lparr>servers_errorMessage := None, servers_successMessage := None, servers_error := None\<rparr>"

text \<open>\<open>serverID(undefined!)\<close> throws before the guard on the new identifier is reached.\<close>

definition selectServer :: "rellm_server option \<Rightarrow> servers_state \<Rightarrow> servers_state result" where
  "selectServer payload s =
     bind_result (deref payload) (\<lambda>server.
       let newServerId = serverID server
       in Inr (if newServerId \<notin> set (ids (servers_entities s)) then s
               else s\<lparr>currentServerId := Some newServerId, creationServerId := Some newServerId\<rparr>))"

definition selectCreationServer ::
  "rellm_server option \<Rightarrow> servers_state \<Rightarrow> (servers_state \<times> effect list) result" where
  "selectCreationServer payload s =
     bind_result (deref payload) (\<lambda>server.
       Inr (s\<lparr>creationServerId := Some (serverID server)\<rparr>,
            [After 1 (T_ensureCreationServerPinned (serverID server))]))"

definition edit_server_ids :: "(string list \<Rightarrow> string list) \<Rightarrow> servers_state \<Rightarrow> servers_state" where
  "edit_server_ids f s = s\<lparr>servers_entities := (servers_entities s)\<lparr>ids := f (ids (servers_entities s))\<rparr>\<rparr>"

definition moveServerUp :: "string \<Rightarrow> servers_state \<Rightarrow> servers_state" where
  "moveServerUp i s = edit_server_ids (\<lambda>xs. move_up xs i) s"

definition moveServerDown :: "string \<Rightarrow> servers_state \<Rightarrow> servers_state" where
  "moveServerDown i s = edit_server_ids (\<lambda>xs. move_down xs i) s"

definition setServerIdOrder :: "string list \<Rightarrow> servers_state \<Rightarrow> servers_state" where
  "setServerIdOrder order s = edit_server_ids (\<lambda>_. order) s"

definition startConfiguringFederation :: "servers_state \<Rightarrow> servers_state" where
  "startConfiguringFederation s = s\<lparr>configuringFederation := True\<rparr>"

definition finishConfiguringFederation :: "servers_state \<Rightarrow> servers_state" where
  "finishConfiguringFederation s = s\<lparr>configuringFederation := False\<rparr>"

definition upsertServer_pending :: "servers_state \<Rightarrow> servers_state" where
  "upsertServer_pending s = s\<lparr>servers_status := Loading, servers_error := None\<rparr>"

definition upsertServer_fulfilled ::
  "rellm_server adapter \<Rightarrow> rellm_server \<Rightarrow> servers_state \<Rightarrow> servers_state \<times> effect list" where
  "upsertServer_fulfilled A server s =
     (s\<lparr>servers_status := Loaded, servers_entities := upsertOne A (servers_entities s) server,
        servers_successMessage := Some ''Server added.''\<rparr>,
      [After 5000 T_clearServerAlerts])"

definition upsertServer_rejected :: "rellm_server \<Rightarrow> js_error_value \<Rightarrow> servers_state \<Rightarrow> servers_state" where
  "upsertServer_rejected server err s =
     s\<lparr>servers_status := Errored,
       servers_errorMessage := Some (''Error connecting to '' @ host server @ ''.''),
       servers_error := Some err\<rparr>"

datatype servers_action =
    UpsertServer rellm_server
  | RemoveServer rellm_server
  | ResetServers
  | ClearServerAlerts
  | SelectServer "rellm_server option"
  | SelectCreationServer "rellm_server option"
  | MoveServerUp string
  | MoveServerDown string
  | SetServerIdOrder "string list"
  | StartConfiguringFederation
  | FinishConfiguringFederation
  | UpsertServer_pending
  | UpsertServer_fulfilled rellm_server
  | UpsertServer_rejected rellm_server js_error_value

fun servers_reducer ::
  "rellm_server adapter \<Rightarrow> servers_action \<Rightarrow> servers_state \<Rightarrow> (servers_state \<times> effect list) result" where
  "servers_reducer A (UpsertServer sv) s = Inr (upsertServer_reducer A sv s)"
| "servers_reducer A (RemoveServer sv) s = Inr (removeServer A sv s)"
| "servers_reducer A ResetServers s = Inr (resetServers s, [])"
| "servers_reducer A ClearServerAlerts s = Inr (clearServerAlerts s, [])"
| "servers_reducer A (SelectServer sv) s = map_sum id (\<lambda>t. (t, [])) (selectServer sv s)"
| "servers_reducer A (SelectCreationServer sv) s = selectCreationServer sv s"
| "servers_reducer A (MoveServerUp i) s = Inr (moveServerUp i s, [])"
| "servers_reducer A (MoveServerDown i) s = Inr (moveServerDown i s, [])"
| "servers_reducer A (SetServerIdOrder is) s = Inr (setServerIdOrder is s, [])"
| "servers_reducer A StartConfiguringFederation s = Inr (startConfiguringFederation s, [])"
| "servers_reducer A FinishConfiguringFederation s = Inr (finishConfiguringFederation s, [])"
| "servers_reducer A UpsertServer_pending s = Inr (upsertServer_pending s, [])"
| "servers_reducer A (UpsertServer_fulfilled sv) s = Inr (upsertServer_fulfilled A sv s)"
| "servers_reducer A (UpsertServer_rejected sv e) s = Inr (upsertServer_rejected sv e s, [])"


section \<open>The servers a federation recommends\<close>

text \<open>
  \<open>initializeWithServer\<close>: the primary server, then the servers its configuration recommends, are visited
  in order.  A recommended server is contacted when it is configured by default, pinned when contacting it
  succeeds and it is pinned by default; the identifiers are arranged after every visit.
\<close>

definition recommended_servers :: "rellm_server \<Rightarrow> federated_server list" where
  "recommended_servers primary =
     nullish (Option.bind (serverConfiguration primary) sc_federatedServers) []"

definition allFederatedServers :: "rellm_server \<Rightarrow> federated_server list" where
  "allFederatedServers primary =
     \<lparr>fs_host = host primary, fs_configuredByDefault = Some True, fs_pinnedByDefault = Some True\<rparr> #
     filter (\<lambda>s. fs_host s \<noteq> host primary) (recommended_servers primary)"

definition bare_server :: "string \<Rightarrow> bool \<Rightarrow> rellm_server" where
  "bare_server h sec =
     \<lparr>host = h, secure = sec, serviceVersion = None, serverConfiguration = None, lastConnectionFailed = None\<rparr>"

definition recommendedServer :: "federated_server \<Rightarrow> rellm_server" where
  "recommendedServer fs = bare_server (fs_host fs) (fs_host fs \<noteq> ''localhost'')"

text \<open>What a visit asks for: the server to contact and whether to pin it on success.\<close>

definition visit :: "rellm_server \<Rightarrow> federated_server \<Rightarrow> (rellm_server \<times> pinned_server option) option" where
  "visit primary fs =
     (if fs_configuredByDefault fs = Some True \<and> fs_host fs \<noteq> host primary
      then Some (recommendedServer fs,
                 if fs_pinnedByDefault fs = Some True
                 then Some \<lparr>ps_serverId = serverID (recommendedServer fs), ps_accountId = None, ps_pinned = True\<rparr>
                 else None)
      else None)"

definition expectedOrder :: "rellm_server \<Rightarrow> rellm_server \<Rightarrow> string list \<Rightarrow> string list" where
  "expectedOrder initialServer primary actualOrder =
     serverID initialServer #
     List.map_filter (\<lambda>s. find (\<lambda>i. serverIDHost i = Some (fs_host s)) actualOrder) (recommended_servers primary)"

definition arrange_servers :: "rellm_server \<Rightarrow> rellm_server \<Rightarrow> servers_state \<Rightarrow> servers_state" where
  "arrange_servers initialServer primary s =
     (let actual = ids (servers_entities s);
          expected = expectedOrder initialServer primary actual
      in if length actual = length expected \<and> actual \<noteq> expected then setServerIdOrder expected s else s)"

text \<open>
  The server of the page: \<open>jonline.io\<close> off the web and where there is no location, the location's host
  otherwise.
\<close>

definition initialServerOf :: "bool \<Rightarrow> (string \<times> string) option \<Rightarrow> rellm_server" where
  "initialServerOf web location =
     (case location of
        Some (hostname, protocol) \<Rightarrow>
          if web then bare_server hostname (protocol = ''https:'') else bare_server ''jonline.io'' True
      | None \<Rightarrow> bare_server ''jonline.io'' True)"


section \<open>Invariant and interfaces\<close>

abbreviation servers_wf :: "servers_state \<Rightarrow> bool" where
  "servers_wf s \<equiv> wf_entities serverID (servers_entities s)"

lemma keep_absent_simps [simp]: "keep_absent old None = old" "keep_absent old (Some x) = Some x"
  by (simp_all add: keep_absent_def)

lemma merge_server_id: "serverID (merge_server old new) = serverID new"
  by (simp add: merge_server_def serverID_def)

interpretation servers_ref: entity_adapter "ref_adapter serverID merge_server key" serverID merge_server
  for key
  by (rule ref_adapter_laws) (rule merge_server_id)

lemma edit_server_ids_access [simp]:
  "ids (servers_entities (edit_server_ids f s)) = f (ids (servers_entities s))"
  "entities (servers_entities (edit_server_ids f s)) = entities (servers_entities s)"
  "currentServerId (edit_server_ids f s) = currentServerId s"
  by (simp_all add: edit_server_ids_def)

interpretation server_list: movable_list "\<lambda>s. ids (servers_entities s)" moveServerUp moveServerDown
  by unfold_locales (simp_all add: moveServerUp_def moveServerDown_def)

lemmas server_defs =
  upsertServer_reducer_def removeServer_def resetServers_def clearServerAlerts_def selectServer_def
  selectCreationServer_def startConfiguringFederation_def finishConfiguringFederation_def
  upsertServer_pending_def upsertServer_fulfilled_def upsertServer_rejected_def

lemma edit_server_ids_wf:
  "servers_wf s \<Longrightarrow> distinct (f (ids (servers_entities s))) \<Longrightarrow>
    set (f (ids (servers_entities s))) = set (ids (servers_entities s)) \<Longrightarrow> servers_wf (edit_server_ids f s)"
  by (simp add: wf_entities_def)

lemma wf_ids_distinct: "wf_entities f s \<Longrightarrow> distinct (ids s)"
  by (simp add: wf_entities_def)

lemma map_sum_Inr: "map_sum id f r = Inr y \<longleftrightarrow> (\<exists>x. r = Inr x \<and> y = f x)"
  by (cases r) auto

lemma initial_servers_wf [simp]: "servers_wf initial_servers"
  by (simp add: initial_servers_def)

lemma servers_reducer_wf:
  assumes "entity_adapter A serverID merge_server" "servers_wf s"
    and "servers_reducer A a s = Inr (s', es)" "\<forall>order. a \<noteq> SetServerIdOrder order"
  shows "servers_wf s'"
proof (cases a)
  case (MoveServerUp i)
  then show ?thesis
    using assms(2,3) mset_move_up [OF wf_ids_distinct [OF assms(2)]]
    by (auto simp: moveServerUp_def intro!: edit_server_ids_wf)
next
  case (MoveServerDown i)
  then show ?thesis
    using assms(2,3) mset_move_down [OF wf_ids_distinct [OF assms(2)]]
    by (auto simp: moveServerDown_def intro!: edit_server_ids_wf)
next
  case (SelectServer sv)
  then show ?thesis
    using assms(2,3) by (auto simp: selectServer_def map_sum_Inr bind_result_eq_Inr Let_def)
next
  case (SelectCreationServer sv)
  then show ?thesis
    using assms(2,3) by (auto simp: selectCreationServer_def bind_result_eq_Inr)
qed (use assms(2-4) adapter_wf [OF assms(1)] in
    \<open>simp_all add: server_defs initial_servers_def Let_def\<close>, auto)

text \<open>Redux keeps the state when a reducer throws.\<close>

definition servers_step :: "rellm_server adapter \<Rightarrow> servers_state \<Rightarrow> servers_action \<Rightarrow> servers_state" where
  "servers_step A s a = (case servers_reducer A a s of Inl _ \<Rightarrow> s | Inr (s', _) \<Rightarrow> s')"

lemma servers_step_wf:
  assumes "entity_adapter A serverID merge_server" "servers_wf s" "\<forall>order. a \<noteq> SetServerIdOrder order"
  shows "servers_wf (servers_step A s a)"
  using servers_reducer_wf [OF assms(1,2) _ assms(3)] assms(2)
  by (auto simp: servers_step_def split: sum.split)


section \<open>Arrangement\<close>

lemma found_host: "find (\<lambda>i. f i = Some h) xs = Some i \<Longrightarrow> i \<in> set xs \<and> f i = Some h"
  by (auto simp: find_Some_iff)

lemma distinct_found:
  assumes "distinct hs"
  shows "distinct (List.map_filter (\<lambda>h. find (\<lambda>i. f i = Some h) xs) hs)"
  using assms
proof (induction hs)
  case (Cons h hs)
  show ?case
  proof (cases "find (\<lambda>i. f i = Some h) xs")
    case (Some i)
    have "j \<noteq> i" if "h' \<in> set hs" "find (\<lambda>i. f i = Some h') xs = Some j" for h' j
    proof
      assume "j = i"
      then have "h' = h"
        using found_host [OF that(2)] found_host [OF Some] by simp
      then show False
        using that(1) Cons.prems by simp
    qed
    then have "i \<notin> set (List.map_filter (\<lambda>h. find (\<lambda>i. f i = Some h) xs) hs)"
      by (fastforce simp: List.map_filter_def)
    then show ?thesis
      using Some Cons by (simp add: List.map_filter_def)
  qed (use Cons in \<open>simp add: List.map_filter_def\<close>)
qed (simp add: List.map_filter_def)

lemma map_filter_comp: "List.map_filter (\<lambda>x. g (f x)) xs = List.map_filter g (map f xs)"
  by (simp add: List.map_filter_def filter_map comp_def)

lemma expectedOrder_props:
  assumes known: "serverID initialServer \<in> set actual"
    and hosts: "distinct (map fs_host (recommended_servers primary))"
      "host initialServer \<notin> fs_host ` set (recommended_servers primary)"
    and plain: "CHR '':'' \<notin> set (host initialServer)"
  shows "distinct (expectedOrder initialServer primary actual)"
    "set (expectedOrder initialServer primary actual) \<subseteq> set actual"
proof -
  let ?look = "\<lambda>h. find (\<lambda>i. serverIDHost i = Some h) actual"
  let ?hs = "map fs_host (recommended_servers primary)"
  have order: "expectedOrder initialServer primary actual = serverID initialServer # List.map_filter ?look ?hs"
    using map_filter_comp [of ?look fs_host "recommended_servers primary"] by (simp add: expectedOrder_def)
  have elems: "\<exists>h \<in> set ?hs. i \<in> set actual \<and> serverIDHost i = Some h" if "i \<in> set (List.map_filter ?look ?hs)" for i
    using that found_host [of serverIDHost _ actual i] by (fastforce simp: List.map_filter_def)
  have "serverIDHost (serverID initialServer) = Some (host initialServer)"
    using plain by (simp add: serverIDHost_serverID)
  then have "serverID initialServer \<notin> set (List.map_filter ?look ?hs)"
    using elems hosts(2) by fastforce
  then show "distinct (expectedOrder initialServer primary actual)"
    using order distinct_found [OF hosts(1), of serverIDHost actual] by simp
  show "set (expectedOrder initialServer primary actual) \<subseteq> set actual"
    using order elems known by auto
qed

lemma same_length_set_eq:
  assumes "distinct xs" "distinct ys" "length xs = length ys" "set ys \<subseteq> set xs"
  shows "set ys = set xs"
  using assms by (metis List.finite_set card_subset_eq distinct_card)


section \<open>Properties\<close>

definition sample_recommendation :: "string \<Rightarrow> federated_server" where
  "sample_recommendation h = \<lparr>fs_host = h, fs_configuredByDefault = Some True, fs_pinnedByDefault = None\<rparr>"

definition sample_primary :: "string list \<Rightarrow> rellm_server" where
  "sample_primary hs =
     (bare_server ''p'' True)\<lparr>serverConfiguration :=
       Some \<lparr>sc_frontendHost = None, sc_federatedServers = Some (map sample_recommendation hs),
             sc_primaryColor = None, sc_navigationColor = None, sc_rest = []\<rparr>\<rparr>"

definition sample_server_states :: "rellm_server \<Rightarrow> servers_state" where
  "sample_server_states primary =
     foldl (\<lambda>s sv. fst (upsertServer_fulfilled (ref_adapter serverID merge_server None) sv s)) initial_servers
       [bare_server ''b'' True, primary, bare_server ''a'' True]"

lemma sample_server_states_ids:
  "host primary = ''p'' \<Longrightarrow> secure primary \<Longrightarrow>
     ids (servers_entities (sample_server_states primary)) = [''https:b'', ''https:p'', ''https:a'']"
  by (simp add: sample_server_states_def upsertServer_fulfilled_def initial_servers_def empty_entities_def
      ref_upsertOne_def reorder_def serverID_def bare_server_def Let_def)

lemma sample_server_states_wf: "servers_wf (sample_server_states primary)"
  unfolding sample_server_states_def
  by (simp add: upsertServer_fulfilled_def servers_ref.wf_upsertOne initial_servers_def
      del: ref_adapter_access)

text \<open>
  Arranging the servers in the order a federation recommends neither loses nor
  duplicates a server when the recommendation lists every host once and not the primary one; an adopted
  arrangement starts with the primary server.
\<close>

theorem arranged_servers_kept:
  assumes "servers_wf s" "serverID initialServer \<in> set (ids (servers_entities s))"
    and "distinct (map fs_host (recommended_servers primary))"
    and "host initialServer \<notin> fs_host ` set (recommended_servers primary)"
    and "CHR '':'' \<notin> set (host initialServer)"
  shows "servers_wf (arrange_servers initialServer primary s) \<and>
    set (ids (servers_entities (arrange_servers initialServer primary s))) = set (ids (servers_entities s)) \<and>
    (length (ids (servers_entities s)) = length (expectedOrder initialServer primary (ids (servers_entities s))) \<longrightarrow>
       hd (ids (servers_entities (arrange_servers initialServer primary s))) = serverID initialServer)"
proof -
  let ?actual = "ids (servers_entities s)"
  let ?expected = "expectedOrder initialServer primary ?actual"
  note props = expectedOrder_props [OF assms(2-5)]
  show ?thesis
  proof (cases "length ?actual = length ?expected \<and> ?actual \<noteq> ?expected")
    case True
    then have "set ?expected = set ?actual"
      using same_length_set_eq [OF wf_ids_distinct [OF assms(1)] props(1) _ props(2)] by simp
    then show ?thesis
      using True props(1) edit_server_ids_wf [OF assms(1), of "\<lambda>_. ?expected"]
      by (simp add: arrange_servers_def Let_def setServerIdOrder_def expectedOrder_def)
  next
    case False
    have "hd ?expected = serverID initialServer"
      by (simp add: expectedOrder_def)
    then have "hd ?actual = serverID initialServer" if "length ?actual = length ?expected"
      using False that by metis
    moreover have "arrange_servers initialServer primary s = s"
      using False by (auto simp: arrange_servers_def Let_def)
    ultimately show ?thesis
      using assms(1) by simp
  qed
qed

theorem arranged_servers_kept_witness:
  "let p = sample_primary [''a'', ''b''] in
   ids (servers_entities (arrange_servers p p (sample_server_states p))) = [''https:p'', ''https:a'', ''https:b''] \<and>
   servers_wf (arrange_servers p p (sample_server_states p))"
proof -
  let ?p = "sample_primary [''a'', ''b'']"
  have p: "host ?p = ''p''" "secure ?p" "serverID ?p = ''https:p''"
    "map fs_host (recommended_servers ?p) = [''a'', ''b'']"
    by (simp_all add: sample_primary_def bare_server_def serverID_def recommended_servers_def
        sample_recommendation_def)
  have fresh: "''p'' \<notin> fs_host ` set (recommended_servers ?p)"
    by (simp add: recommended_servers_def sample_primary_def sample_recommendation_def)
  have "servers_wf (arrange_servers ?p ?p (sample_server_states ?p))"
    using arranged_servers_kept [OF sample_server_states_wf, of ?p ?p ?p] p fresh
    by (simp add: sample_server_states_ids)
  moreover have "ids (servers_entities (arrange_servers ?p ?p (sample_server_states ?p))) = [''https:p'', ''https:a'', ''https:b'']"
    using p sample_server_states_ids [OF p(1,2)]
    by (simp add: arrange_servers_def Let_def expectedOrder_def setServerIdOrder_def recommended_servers_def
        sample_primary_def sample_recommendation_def List.map_filter_def serverIDHost_def js_at_def)
  ultimately show ?thesis
    by (simp add: Let_def)
qed

text \<open>
  A recommendation that lists the primary server itself makes an adopted
  arrangement list it twice, so the identifiers and the stored servers fall out of step.
\<close>

theorem arranged_servers_lost:
  assumes "length (ids (servers_entities s)) = length (expectedOrder initialServer primary (ids (servers_entities s)))"
    and "host initialServer \<in> fs_host ` set (recommended_servers primary)"
    and "CHR '':'' \<notin> set (host initialServer)"
    and "serverID initialServer \<in> set (ids (servers_entities s))"
    and "\<forall>i \<in> set (ids (servers_entities s)). serverIDHost i = Some (host initialServer) \<longrightarrow> i = serverID initialServer"
  shows "\<not> distinct (ids (servers_entities (arrange_servers initialServer primary s)))"
proof -
  let ?actual = "ids (servers_entities s)"
  let ?look = "\<lambda>h. find (\<lambda>i. serverIDHost i = Some h) ?actual"
  have here: "serverIDHost (serverID initialServer) = Some (host initialServer)"
    using assms(3) by (simp add: serverIDHost_serverID)
  have "?look (host initialServer) \<noteq> None"
    using assms(4) here by (auto simp: find_None_iff)
  then obtain i where "?look (host initialServer) = Some i"
    by blast
  then have "?look (host initialServer) = Some (serverID initialServer)"
    using assms(5) found_host [of serverIDHost "host initialServer" ?actual i] by auto
  then have "serverID initialServer \<in> set (List.map_filter (\<lambda>fs. ?look (fs_host fs)) (recommended_servers primary))"
    using assms(2) by (force simp: List.map_filter_def)
  then have "\<not> distinct (expectedOrder initialServer primary ?actual)"
    by (simp add: expectedOrder_def)
  moreover have "ids (servers_entities (arrange_servers initialServer primary s)) = expectedOrder initialServer primary ?actual"
    using assms(1) by (auto simp: arrange_servers_def Let_def setServerIdOrder_def)
  ultimately show ?thesis
    by simp
qed

theorem arranged_servers_lost_witness:
  "let p = sample_primary [''p'', ''a''] in
   servers_wf (sample_server_states p) \<and>
   \<not> distinct (ids (servers_entities (arrange_servers p p (sample_server_states p))))"
proof -
  let ?p = "sample_primary [''p'', ''a'']"
  have p: "host ?p = ''p''" "secure ?p" "serverID ?p = ''https:p''"
    "map fs_host (recommended_servers ?p) = [''p'', ''a'']"
    by (simp_all add: sample_primary_def bare_server_def serverID_def recommended_servers_def
        sample_recommendation_def)
  have hosts: "serverIDHost ''https:a'' = Some ''a''" "serverIDHost ''https:b'' = Some ''b''"
    "serverIDHost ''https:p'' = Some ''p''"
    by (simp_all add: serverIDHost_def)
  have "length (expectedOrder ?p ?p [''https:b'', ''https:p'', ''https:a'']) = 3"
    using p hosts by (simp add: expectedOrder_def List.map_filter_def recommended_servers_def sample_primary_def
        sample_recommendation_def)
  moreover have "''p'' \<in> fs_host ` set (recommended_servers ?p)"
    using p(4) by (metis image_set list.set_intros(1))
  ultimately show ?thesis
    using arranged_servers_lost [of "sample_server_states ?p" ?p ?p] p hosts sample_server_states_wf [of ?p]
    by (simp add: Let_def sample_server_states_ids)
qed

text \<open>
  Selecting a stored server makes it the current and the creation server,
  selecting any other changes nothing, and selecting none throws.
\<close>

theorem current_server_selected:
  "selectServer None s = Inl TypeError \<and>
   (servers_wf s \<longrightarrow> selectServer (Some sv) s =
      Inr (if entities (servers_entities s) (serverID sv) = None then s
           else s\<lparr>currentServerId := Some (serverID sv), creationServerId := Some (serverID sv)\<rparr>))"
  by (auto simp: selectServer_def Let_def wf_entities_def dom_def)

theorem current_server_selected_witness:
  "selectServer (Some (bare_server ''a'' True)) initial_servers = Inr initial_servers"
proof -
  have "entities (servers_entities initial_servers) = Map.empty"
    by (simp add: initial_servers_def empty_entities_def)
  then show ?thesis
    using current_server_selected [of initial_servers "bare_server ''a'' True"] initial_servers_wf by simp
qed

end
