(* ===== verification/Accounts.thy ===== *)
theory Accounts
  imports Servers
begin

text \<open>
  The accounts slice (store/modules/accounts_state.ts): the accounts a person is signed in to, and the
  pinned servers, which say for every server whether it is shown and which account is used there.
\<close>

section \<open>State\<close>

record accounts_state =
  accounts_status :: pages_status
  accounts_error :: "js_error_value option"
  accounts_successMessage :: "string option"
  accounts_errorMessage :: "string option"
  pinnedServers :: "pinned_server list"
  excludeCurrentServer :: bool
  accounts_entities :: "rellm_account entity_state"

definition initial_accounts :: accounts_state where
  "initial_accounts =
     \<lparr>accounts_status = Unloaded, accounts_error = None, accounts_successMessage = None,
      accounts_errorMessage = None, pinnedServers = [], excludeCurrentServer = False,
      accounts_entities = empty_entities\<rparr>"

definition merge_account :: "rellm_account \<Rightarrow> rellm_account \<Rightarrow> rellm_account" where
  "merge_account old new =
     new\<lparr>lastSynced := keep_absent (lastSynced old) (lastSynced new),
         needsReauthentication := keep_absent (needsReauthentication old) (needsReauthentication new),
         lastSyncFailed := keep_absent (lastSyncFailed old) (lastSyncFailed new),
         pushSubscription := keep_absent (pushSubscription old) (pushSubscription new)\<rparr>"

definition withAccountUnpinned :: "pinned_server \<Rightarrow> string \<Rightarrow> pinned_server" where
  "withAccountUnpinned ps accountId =
     (if ps_accountId ps = Some accountId \<or> serverIDHost (ps_serverId ps) = accountIDHost accountId
      then ps\<lparr>ps_accountId := None\<rparr> else ps)"

definition withServerAccountUnpinned :: "pinned_server \<Rightarrow> string \<Rightarrow> pinned_server" where
  "withServerAccountUnpinned ps serverId =
     (if serverIDHost (ps_serverId ps) = serverIDHost serverId then ps\<lparr>ps_accountId := None\<rparr> else ps)"

definition withAccountPinned :: "pinned_server \<Rightarrow> string \<Rightarrow> pinned_server" where
  "withAccountPinned ps accountId =
     (if serverIDHost (ps_serverId ps) = accountIDHost accountId
      then ps\<lparr>ps_accountId := Some accountId\<rparr> else ps)"

definition unpin_everywhere :: "string \<Rightarrow> accounts_state \<Rightarrow> accounts_state" where
  "unpin_everywhere accountId s =
     s\<lparr>pinnedServers := map (\<lambda>ps. withAccountUnpinned ps accountId) (pinnedServers s)\<rparr>"

definition pin_everywhere :: "string \<Rightarrow> accounts_state \<Rightarrow> accounts_state" where
  "pin_everywhere accountId s =
     s\<lparr>pinnedServers := map (\<lambda>ps. withAccountPinned ps accountId) (pinnedServers s)\<rparr>"


section \<open>Accounts\<close>

definition upsertAccount :: "rellm_account adapter \<Rightarrow> rellm_account \<Rightarrow> accounts_state \<Rightarrow> accounts_state" where
  "upsertAccount A account s = s\<lparr>accounts_entities := upsertOne A (accounts_entities s) account\<rparr>"

definition removeAccount :: "rellm_account adapter \<Rightarrow> string \<Rightarrow> accounts_state \<Rightarrow> accounts_state" where
  "removeAccount A accountId s =
     (let s1 = unpin_everywhere accountId s
      in s1\<lparr>accounts_entities := removeOne A (accounts_entities s1) accountId\<rparr>)"

definition resetAccounts :: "accounts_state \<Rightarrow> accounts_state" where
  "resetAccounts s = initial_accounts"

definition deselectAccount :: "string \<Rightarrow> accounts_state \<Rightarrow> accounts_state" where
  "deselectAccount accountId s = unpin_everywhere accountId s"

definition selectAccount :: "rellm_account option \<Rightarrow> accounts_state \<Rightarrow> accounts_state \<times> effect list" where
  "selectAccount payload s =
     (case payload of
        Some account \<Rightarrow>
          (let accountId = account_key account;
               s1 = pin_everywhere accountId s;
               s2 = s1\<lparr>pinnedServers :=
                      map (\<lambda>ps. if serverIDHost (ps_serverId ps) = accountIDHost accountId
                                then ps\<lparr>ps_accountId := Some accountId\<rparr> else ps) (pinnedServers s1)\<rparr>
           in (s2, [After 1 (T_resetForSelectedAccount payload), Call_resetAccessTokens,
                    After 1 (T_verifySelectedAccount account)]))
      | None \<Rightarrow>
          (s, [After 1 (T_resetForSelectedAccount payload), Call_resetAccessTokens,
               After 1 T_unpinCurrentServerAccount]))"

definition setExcludeCurrentServer :: "bool \<Rightarrow> accounts_state \<Rightarrow> accounts_state" where
  "setExcludeCurrentServer b s = s\<lparr>excludeCurrentServer := b\<rparr>"

definition clearAccountAlerts :: "accounts_state \<Rightarrow> accounts_state" where
  "clearAccountAlerts s =
     s\<lparr>accounts_errorMessage := None, accounts_successMessage := None, accounts_error := None\<rparr>"

definition edit_accounts :: "(rellm_account \<Rightarrow> rellm_account) \<Rightarrow> accounts_state \<Rightarrow> accounts_state" where
  "edit_accounts f s =
     s\<lparr>accounts_entities := (accounts_entities s)\<lparr>entities := dict_map f (entities (accounts_entities s))\<rparr>\<rparr>"

definition same_user :: "rellm_server \<Rightarrow> user \<Rightarrow> rellm_account \<Rightarrow> bool" where
  "same_user server u account \<longleftrightarrow>
     serverID (acct_server account) = serverID server \<and> u_id (acct_user account) = u_id u"

text \<open>
  The payload's server is read once per stored account, so an undefined server throws unless there is none.
\<close>

definition upsertUserData ::
  "rellm_server option \<Rightarrow> user \<Rightarrow> accounts_state \<Rightarrow> accounts_state result" where
  "upsertUserData payloadServer payloadUser s =
     (if ids (accounts_entities s) = [] then Inr s
      else bind_result (deref payloadServer) (\<lambda>server.
        Inr (edit_accounts
          (\<lambda>a. if same_user server payloadUser a then a\<lparr>acct_user := payloadUser\<rparr> else a) s)))"

definition notifyUserDeleted ::
  "rellm_server option \<Rightarrow> user \<Rightarrow> accounts_state \<Rightarrow> accounts_state result" where
  "notifyUserDeleted payloadServer payloadUser s =
     (if ids (accounts_entities s) = [] then Inr s
      else bind_result (deref payloadServer) (\<lambda>server.
        Inr (edit_accounts
          (\<lambda>a. if same_user server payloadUser a
               then a\<lparr>needsReauthentication := Some True, lastSyncFailed := Some True\<rparr> else a) s)))"

definition edit_account_ids :: "(string list \<Rightarrow> string list) \<Rightarrow> accounts_state \<Rightarrow> accounts_state" where
  "edit_account_ids f s = s\<lparr>accounts_entities := (accounts_entities s)\<lparr>ids := f (ids (accounts_entities s))\<rparr>\<rparr>"

definition moveAccountUp :: "string \<Rightarrow> accounts_state \<Rightarrow> accounts_state" where
  "moveAccountUp i s = edit_account_ids (\<lambda>xs. move_up xs i) s"

definition moveAccountDown :: "string \<Rightarrow> accounts_state \<Rightarrow> accounts_state" where
  "moveAccountDown i s = edit_account_ids (\<lambda>xs. move_down xs i) s"


section \<open>Pins\<close>

text \<open>\<open>find\<close> returns the first pin of a server, which the reducers then edit in place.\<close>

fun edit_pin :: "string \<Rightarrow> (pinned_server \<Rightarrow> pinned_server) \<Rightarrow> pinned_server list \<Rightarrow> pinned_server list" where
  "edit_pin serverId f [] = []"
| "edit_pin serverId f (ps # pss) =
     (if ps_serverId ps = serverId then f ps # pss else ps # edit_pin serverId f pss)"

definition find_pin :: "string \<Rightarrow> pinned_server list \<Rightarrow> pinned_server option" where
  "find_pin serverId pss = find (\<lambda>ps. ps_serverId ps = serverId) pss"

text \<open>The pin of a server edited, or a new one added at the end.\<close>

definition edit_or_push ::
  "string \<Rightarrow> (pinned_server \<Rightarrow> pinned_server) \<Rightarrow> pinned_server \<Rightarrow> accounts_state \<Rightarrow> accounts_state" where
  "edit_or_push serverId f new s =
     s\<lparr>pinnedServers :=
         (case find_pin serverId (pinnedServers s) of
            Some existing \<Rightarrow> edit_pin serverId f (pinnedServers s)
          | None \<Rightarrow> pinnedServers s @ [new])\<rparr>"

definition pinServer :: "pinned_server \<Rightarrow> accounts_state \<Rightarrow> accounts_state \<times> effect list" where
  "pinServer payload s =
     (edit_or_push (ps_serverId payload)
        (\<lambda>ps. ps\<lparr>ps_accountId := (case ps_accountId payload of None \<Rightarrow> ps_accountId ps | Some a \<Rightarrow> Some a),
                ps_pinned := ps_pinned payload\<rparr>)
        payload s,
      [After 1 (T_syncExcludeCurrentServer payload)])"

definition pinAccount :: "rellm_account \<Rightarrow> accounts_state \<Rightarrow> accounts_state \<times> effect list" where
  "pinAccount account s =
     (let serverId = serverID (acct_server account);
          existing = find_pin serverId (pinnedServers s);
          reset = (if Option.bind existing ps_accountId \<noteq> Some (account_key account)
                   then [Call_resetCredentialedData (Some (host (acct_server account)))] else [])
      in (edit_or_push serverId (\<lambda>ps. ps\<lparr>ps_accountId := Some (account_key account)\<rparr>)
            \<lparr>ps_serverId = serverId, ps_accountId = Some (account_key account), ps_pinned = True\<rparr> s,
          reset @ (if existing = None then [After 1 (T_verifyPinnedAccount account)] else [])))"

definition unpin_server_account :: "string \<Rightarrow> accounts_state \<Rightarrow> accounts_state" where
  "unpin_server_account serverId s =
     edit_or_push serverId (\<lambda>ps. ps\<lparr>ps_accountId := None\<rparr>)
       \<lparr>ps_serverId = serverId, ps_accountId = None, ps_pinned = True\<rparr> s"

definition unpinAccount :: "rellm_account \<Rightarrow> accounts_state \<Rightarrow> accounts_state \<times> effect list" where
  "unpinAccount account s =
     (unpin_server_account (serverID (acct_server account)) s,
      [After 1 (T_resetCredentialedData (Some (host (acct_server account))))])"

definition unpinAccountByServerId :: "string \<Rightarrow> accounts_state \<Rightarrow> accounts_state \<times> effect list" where
  "unpinAccountByServerId serverId s =
     (unpin_server_account serverId s, [After 1 (T_resetCredentialedData (serverIDHost serverId))])"


section \<open>Sign-in\<close>

definition signin_pending :: "accounts_state \<Rightarrow> accounts_state" where
  "signin_pending s = s\<lparr>accounts_status := Loading, accounts_error := None\<rparr>"

definition signin_rejected :: "js_error_value \<Rightarrow> accounts_state \<Rightarrow> accounts_state" where
  "signin_rejected err s =
     s\<lparr>accounts_status := Errored, accounts_error := Some err,
       accounts_errorMessage := Some (formatError (Some err))\<rparr>"

definition createAccount_fulfilled ::
  "rellm_account adapter \<Rightarrow> bool \<Rightarrow> rellm_account \<Rightarrow> accounts_state \<Rightarrow> accounts_state \<times> effect list" where
  "createAccount_fulfilled A skipSelection account s =
     (let s1 = s\<lparr>accounts_status := Loaded\<rparr>;
          s2 = (if \<not> skipSelection then pin_everywhere (account_key account) s1 else s1)
      in (s2\<lparr>accounts_entities := upsertOne A (accounts_entities s2) account,
             accounts_successMessage := Some (''Created account '' @ u_username (acct_user account))\<rparr>,
          [After 5000 T_clearAccountAlerts,
           Call_resetCredentialedData (Some (host (acct_server account)))]))"

definition login_fulfilled ::
  "rellm_account adapter \<Rightarrow> rellm_account \<Rightarrow> accounts_state \<Rightarrow> accounts_state \<times> effect list" where
  "login_fulfilled A account s =
     (let s1 = pin_everywhere (account_key account) (s\<lparr>accounts_status := Loaded\<rparr>)
      in (s1\<lparr>accounts_entities :=
               upsertOne A (accounts_entities s1)
                 (account\<lparr>lastSyncFailed := Some False, needsReauthentication := Some False\<rparr>),
             accounts_successMessage := Some (''Logged in as '' @ u_username (acct_user account))\<rparr>,
          [After 5000 T_clearAccountAlerts,
           Call_resetCredentialedData (Some (host (acct_server account)))]))"

definition upsertServer_accounts :: "rellm_server \<Rightarrow> accounts_state \<Rightarrow> accounts_state" where
  "upsertServer_accounts server s =
     edit_accounts
       (\<lambda>a. if serverID (acct_server a) = serverID server then a\<lparr>acct_server := server\<rparr> else a) s"

datatype accounts_action =
    UpsertAccount rellm_account
  | RemoveAccount string
  | ResetAccounts
  | DeselectAccount string
  | SelectAccount "rellm_account option"
  | SetExcludeCurrentServer bool
  | ClearAccountAlerts
  | UpsertUserData "rellm_server option" user
  | NotifyUserDeleted "rellm_server option" user
  | MoveAccountUp string
  | MoveAccountDown string
  | PinServer pinned_server
  | PinAccount rellm_account
  | UnpinAccount rellm_account
  | UnpinAccountByServerId string
  | CreateAccount_pending
  | CreateAccount_fulfilled bool rellm_account
  | CreateAccount_rejected js_error_value
  | Login_pending
  | Login_fulfilled rellm_account
  | Login_rejected js_error_value
  | UpsertServer_accounts rellm_server
  | UserLoad_rejected

fun accounts_reducer ::
  "rellm_account adapter \<Rightarrow> accounts_action \<Rightarrow> accounts_state \<Rightarrow> (accounts_state \<times> effect list) result" where
  "accounts_reducer A (UpsertAccount a) s = Inr (upsertAccount A a s, [])"
| "accounts_reducer A (RemoveAccount i) s = Inr (removeAccount A i s, [])"
| "accounts_reducer A ResetAccounts s = Inr (resetAccounts s, [])"
| "accounts_reducer A (DeselectAccount i) s = Inr (deselectAccount i s, [])"
| "accounts_reducer A (SelectAccount a) s = Inr (selectAccount a s)"
| "accounts_reducer A (SetExcludeCurrentServer b) s = Inr (setExcludeCurrentServer b s, [])"
| "accounts_reducer A ClearAccountAlerts s = Inr (clearAccountAlerts s, [])"
| "accounts_reducer A (UpsertUserData sv u) s = map_sum id (\<lambda>t. (t, [])) (upsertUserData sv u s)"
| "accounts_reducer A (NotifyUserDeleted sv u) s = map_sum id (\<lambda>t. (t, [])) (notifyUserDeleted sv u s)"
| "accounts_reducer A (MoveAccountUp i) s = Inr (moveAccountUp i s, [])"
| "accounts_reducer A (MoveAccountDown i) s = Inr (moveAccountDown i s, [])"
| "accounts_reducer A (PinServer p) s = Inr (pinServer p s)"
| "accounts_reducer A (PinAccount a) s = Inr (pinAccount a s)"
| "accounts_reducer A (UnpinAccount a) s = Inr (unpinAccount a s)"
| "accounts_reducer A (UnpinAccountByServerId i) s = Inr (unpinAccountByServerId i s)"
| "accounts_reducer A CreateAccount_pending s = Inr (signin_pending s, [])"
| "accounts_reducer A (CreateAccount_fulfilled skip a) s = Inr (createAccount_fulfilled A skip a s)"
| "accounts_reducer A (CreateAccount_rejected e) s = Inr (signin_rejected e s, [])"
| "accounts_reducer A Login_pending s = Inr (signin_pending s, [])"
| "accounts_reducer A (Login_fulfilled a) s = Inr (login_fulfilled A a s)"
| "accounts_reducer A (Login_rejected e) s = Inr (signin_rejected e s, [])"
| "accounts_reducer A (UpsertServer_accounts sv) s = Inr (upsertServer_accounts sv s, [])"
| "accounts_reducer A UserLoad_rejected s = Inr (s, [])"


section \<open>Invariant and interfaces\<close>

abbreviation pins_distinct :: "accounts_state \<Rightarrow> bool" where
  "pins_distinct s \<equiv> distinct (map ps_serverId (pinnedServers s))"

definition accounts_wf :: "accounts_state \<Rightarrow> bool" where
  "accounts_wf s \<longleftrightarrow> wf_entities account_key (accounts_entities s) \<and> pins_distinct s"

lemma merge_account_id: "account_key (merge_account old new) = account_key new"
  by (simp add: merge_account_def account_key_def)

interpretation accounts_ref: entity_adapter "ref_adapter account_key merge_account key" account_key merge_account
  for key
  by (rule ref_adapter_laws) (rule merge_account_id)

lemma edit_account_ids_access [simp]:
  "ids (accounts_entities (edit_account_ids f s)) = f (ids (accounts_entities s))"
  "entities (accounts_entities (edit_account_ids f s)) = entities (accounts_entities s)"
  "pinnedServers (edit_account_ids f s) = pinnedServers s"
  by (simp_all add: edit_account_ids_def)

lemma edit_accounts_access [simp]:
  "entities (accounts_entities (edit_accounts f s)) = dict_map f (entities (accounts_entities s))"
  "ids (accounts_entities (edit_accounts f s)) = ids (accounts_entities s)"
  "pinnedServers (edit_accounts f s) = pinnedServers s"
  by (simp_all add: edit_accounts_def)

lemma pin_access [simp]:
  "accounts_entities (unpin_everywhere i s) = accounts_entities s"
  "accounts_entities (pin_everywhere i s) = accounts_entities s"
  "accounts_entities (edit_or_push k f new s) = accounts_entities s"
  "pinnedServers (pin_everywhere i s) = map (\<lambda>ps. withAccountPinned ps i) (pinnedServers s)"
  "pinnedServers (unpin_everywhere i s) = map (\<lambda>ps. withAccountUnpinned ps i) (pinnedServers s)"
  by (simp_all add: unpin_everywhere_def pin_everywhere_def edit_or_push_def)

interpretation account_list: movable_list "\<lambda>s. ids (accounts_entities s)" moveAccountUp moveAccountDown
  by unfold_locales (simp_all add: moveAccountUp_def moveAccountDown_def)

lemma edit_pin_ids: "(\<And>p. ps_serverId (f p) = ps_serverId p) \<Longrightarrow>
    map ps_serverId (edit_pin k f ps) = map ps_serverId ps"
  by (induction ps) auto

lemma find_pin_None: "find_pin k ps = None \<longleftrightarrow> k \<notin> ps_serverId ` set ps"
  by (auto simp: find_pin_def find_None_iff)

lemma find_pin_edit:
  assumes "\<And>p. ps_serverId (f p) = ps_serverId p"
  shows "find_pin k' (edit_pin k f ps) =
    (if k' = k then map_option f (find_pin k ps) else find_pin k' ps)"
  using assms by (induction ps) (auto simp: find_pin_def)

lemma find_pin_append:
  "find_pin k (ps @ qs) = (case find_pin k ps of None \<Rightarrow> find_pin k qs | Some p \<Rightarrow> Some p)"
  by (induction ps) (auto simp: find_pin_def)

lemma edit_or_push_distinct:
  assumes "pins_distinct s" "\<And>p. ps_serverId (f p) = ps_serverId p" "ps_serverId new = k"
  shows "pins_distinct (edit_or_push k f new s)"
  using assms edit_pin_ids [of f k "pinnedServers s"]
  by (auto simp: edit_or_push_def find_pin_None split: option.split)

lemma find_pin_edit_or_push:
  assumes "\<And>p. ps_serverId (f p) = ps_serverId p" "ps_serverId new = k"
  shows "find_pin k' (pinnedServers (edit_or_push k f new s)) =
    (if k' = k then Some (case find_pin k (pinnedServers s) of None \<Rightarrow> new | Some p \<Rightarrow> f p)
     else find_pin k' (pinnedServers s))"
proof (cases "find_pin k (pinnedServers s)")
  case None
  then show ?thesis
    using assms(2) by (simp add: edit_or_push_def find_pin_append) (auto simp: find_pin_def split: option.split)
next
  case (Some p)
  then show ?thesis
    using assms(1) by (simp add: edit_or_push_def find_pin_edit)
qed

lemma map_pin_ids:
  "map ps_serverId (map (\<lambda>ps. withAccountPinned ps i) pss) = map ps_serverId pss"
  "map ps_serverId (map (\<lambda>ps. withAccountUnpinned ps i) pss) = map ps_serverId pss"
  by (simp_all add: withAccountPinned_def withAccountUnpinned_def)

lemma pin_everywhere_distinct [simp]:
  "pins_distinct (pin_everywhere i s) = pins_distinct s"
  "pins_distinct (unpin_everywhere i s) = pins_distinct s"
  by (simp_all only: pin_access map_pin_ids)

lemma edit_accounts_wf:
  assumes "accounts_wf s" "\<And>a. account_key (f a) = account_key a"
  shows "accounts_wf (edit_accounts f s)"
  using assms by (auto simp: accounts_wf_def wf_entities_def)

lemma same_user_key [simp]:
  "same_user server u a \<Longrightarrow> account_key (a\<lparr>acct_user := u\<rparr>) = account_key a"
  "account_key (a\<lparr>needsReauthentication := x, lastSyncFailed := y\<rparr>) = account_key a"
  "serverID (acct_server a) = serverID sv \<Longrightarrow> account_key (a\<lparr>acct_server := sv\<rparr>) = account_key a"
  by (simp_all add: same_user_def account_key_def)

lemma edit_account_ids_wf:
  "accounts_wf s \<Longrightarrow> distinct (f (ids (accounts_entities s))) \<Longrightarrow>
    set (f (ids (accounts_entities s))) = set (ids (accounts_entities s)) \<Longrightarrow> accounts_wf (edit_account_ids f s)"
  by (simp add: accounts_wf_def wf_entities_def)

text \<open>The second loop of the selection repeats what the first one did.\<close>

lemma selectAccount_pins:
  "pinnedServers (fst (selectAccount (Some a) s)) =
     map (\<lambda>ps. withAccountPinned ps (account_key a)) (pinnedServers s)"
  "accounts_entities (fst (selectAccount p s)) = accounts_entities s"
  by (simp_all add: selectAccount_def Let_def withAccountPinned_def pin_everywhere_def split: option.split)

lemma selectAccount_wf: "accounts_wf s \<Longrightarrow> accounts_wf (fst (selectAccount p s))"
proof (cases p)
  case (Some a)
  assume "accounts_wf s"
  then show ?thesis
    unfolding accounts_wf_def Some selectAccount_pins map_pin_ids .
qed (simp add: selectAccount_def)

lemma upsert_account_wf:
  assumes "entity_adapter A account_key merge_account" "accounts_wf s"
  shows "accounts_wf (s\<lparr>accounts_entities := upsertOne A (accounts_entities s) a\<rparr>)"
  using assms adapter_wf [OF assms(1)] by (simp add: accounts_wf_def)

lemma signin_wf:
  assumes "entity_adapter A account_key merge_account" "accounts_wf s"
  shows "accounts_wf (fst (createAccount_fulfilled A skip a s))" "accounts_wf (fst (login_fulfilled A a s))"
  using assms(2) adapter_wf [OF assms(1)]
  by (auto simp: createAccount_fulfilled_def login_fulfilled_def Let_def accounts_wf_def map_pin_ids
      simp del: map_map)

lemma pinning_wf:
  assumes "accounts_wf s"
  shows "accounts_wf (fst (pinServer p s))" "accounts_wf (fst (pinAccount a s))"
    "accounts_wf (unpin_server_account k s)"
  using assms edit_or_push_distinct [of s]
  by (simp_all add: pinServer_def pinAccount_def unpin_server_account_def Let_def accounts_wf_def)

lemma move_accounts_wf:
  assumes "accounts_wf s"
  shows "accounts_wf (moveAccountUp i s)" "accounts_wf (moveAccountDown i s)"
proof -
  have d: "distinct (ids (accounts_entities s))"
    using assms by (simp add: accounts_wf_def wf_entities_def)
  show "accounts_wf (moveAccountUp i s)"
    unfolding moveAccountUp_def using mset_move_up [OF d] by (intro edit_account_ids_wf assms) auto
  show "accounts_wf (moveAccountDown i s)"
    unfolding moveAccountDown_def using mset_move_down [OF d] by (intro edit_account_ids_wf assms) auto
qed

lemma user_data_wf:
  assumes "accounts_wf s"
  shows "upsertUserData sv u s = Inr t \<Longrightarrow> accounts_wf t" "notifyUserDeleted sv u s = Inr t \<Longrightarrow> accounts_wf t"
  using assms edit_accounts_wf [OF assms]
  by (auto simp: upsertUserData_def notifyUserDeleted_def bind_result_eq_Inr split: if_splits)

lemma accounts_flag_wf:
  "accounts_wf (s\<lparr>accounts_status := a\<rparr>) = accounts_wf s" "accounts_wf (s\<lparr>accounts_error := b\<rparr>) = accounts_wf s"
  "accounts_wf (s\<lparr>excludeCurrentServer := d\<rparr>) = accounts_wf s"
  "accounts_wf (s\<lparr>accounts_errorMessage := e\<rparr>) = accounts_wf s"
  "accounts_wf (s\<lparr>accounts_successMessage := e\<rparr>) = accounts_wf s"
  by (simp_all add: accounts_wf_def)

lemma initial_accounts_wf [simp]: "accounts_wf initial_accounts"
  by (simp add: accounts_wf_def initial_accounts_def)

lemma accounts_reducer_wf:
  assumes "entity_adapter A account_key merge_account" "accounts_wf s" "accounts_reducer A a s = Inr p"
  shows "accounts_wf (fst p)"
proof -
  note wf = upsert_account_wf [OF assms(1,2)] move_accounts_wf [OF assms(2)] signin_wf [OF assms(1,2)]
    pinning_wf [OF assms(2)] selectAccount_wf [OF assms(2)]
  have removed: "accounts_wf (removeAccount A i s)" "accounts_wf (unpin_everywhere i s)" for i
    using assms(2) adapter_wf [OF assms(1)]
    by (simp_all add: removeAccount_def Let_def accounts_wf_def map_pin_ids del: map_map)
  have edited: "accounts_wf (upsertServer_accounts sv s)" for sv
    unfolding upsertServer_accounts_def by (rule edit_accounts_wf [OF assms(2)]) simp
  show ?thesis
    using assms(2,3)
    by (cases a)
      (auto simp: wf removed edited upsertAccount_def resetAccounts_def deselectAccount_def accounts_flag_wf
        setExcludeCurrentServer_def clearAccountAlerts_def signin_pending_def signin_rejected_def map_sum_Inr
        unpinAccount_def unpinAccountByServerId_def dest: user_data_wf [OF assms(2)])
qed

definition accounts_step :: "rellm_account adapter \<Rightarrow> accounts_state \<Rightarrow> accounts_action \<Rightarrow> accounts_state" where
  "accounts_step A s a = (case accounts_reducer A a s of Inl _ \<Rightarrow> s | Inr p \<Rightarrow> fst p)"

lemma accounts_step_wf:
  assumes "entity_adapter A account_key merge_account" "accounts_wf s"
  shows "accounts_wf (accounts_step A s a)"
  using accounts_reducer_wf [OF assms] assms(2) by (auto simp: accounts_step_def split: sum.split)


section \<open>Properties\<close>

text \<open>A host whose identifiers parse back to it: no dash and no colon.\<close>

definition plain_host :: "string \<Rightarrow> bool" where
  "plain_host h \<longleftrightarrow> CHR ''-'' \<notin> set h \<and> CHR '':'' \<notin> set h"

lemma accountIDHost_plain:
  "plain_host (host (acct_server a)) \<Longrightarrow> accountIDHost (account_key a) = Some (host (acct_server a))"
  by (simp add: accountIDHost_account_key plain_host_def)

definition sample_acct :: "string \<Rightarrow> string \<Rightarrow> rellm_account" where
  "sample_acct i h =
     \<lparr>acct_user = \<lparr>u_id = i, u_username = i, u_permissions = [], u_followerCount = None, u_followingCount = None,
        u_currentUserFollow = None, u_targetCurrentUserFollow = None, u_currentGroupMembership = None,
        u_federatedProfiles = [], u_createdAt = None, u_rest = []\<rparr>,
      refreshToken = \<lparr>token = [], expiresAt = None\<rparr>, accessToken = \<lparr>token = [], expiresAt = None\<rparr>,
      acct_server = bare_server h True, lastSynced = None, needsReauthentication = None,
      lastSyncFailed = None, pushSubscription = None\<rparr>"

definition sample_pin :: "string \<Rightarrow> string option \<Rightarrow> pinned_server" where
  "sample_pin k a = \<lparr>ps_serverId = k, ps_accountId = a, ps_pinned = True\<rparr>"

text \<open>
  Over any sequence of actions, throwing ones included, every account is stored once
  under its own identifier and every server is pinned at most once.
\<close>

theorem accounts_invariant:
  assumes "entity_adapter A account_key merge_account"
  shows "wf_entities account_key (accounts_entities (foldl (accounts_step A) initial_accounts as)) \<and>
    distinct (map ps_serverId (pinnedServers (foldl (accounts_step A) initial_accounts as)))"
proof -
  have "accounts_wf (foldl (accounts_step A) initial_accounts as)"
    by (induction as rule: rev_induct) (simp_all add: accounts_step_wf [OF assms])
  then show ?thesis by (simp add: accounts_wf_def)
qed

theorem accounts_invariant_witness:
  "distinct (map ps_serverId (pinnedServers (foldl (accounts_step (ref_adapter account_key merge_account None))
     initial_accounts
     [PinServer (sample_pin ''https:a'' None), PinAccount (sample_acct ''u'' ''a''), UpsertUserData None (acct_user (sample_acct ''u'' ''a''))])))"
  by (rule accounts_invariant [OF accounts_ref.entity_adapter_axioms, THEN conjunct2])

text \<open>
  C38: Selecting an account uses it for exactly the pinned servers of one host and leaves the other
  pins, all servers and their order as they were; deselecting it afterwards leaves no account on that host.  The host is
  the account's, cut at its first dash or colon, so it is the account's own host only when that has neither.
\<close>

theorem selected_account_pinned:
  assumes "h = split_head (CHR '':'') (split_head (CHR ''-'') (host (acct_server a)))"
  shows "pinnedServers (fst (selectAccount (Some a) s)) =
      map (\<lambda>ps. if serverIDHost (ps_serverId ps) = Some h
                then ps\<lparr>ps_accountId := Some (account_key a)\<rparr> else ps) (pinnedServers s) \<and>
    (\<forall>ps \<in> set (pinnedServers (deselectAccount (account_key a) (fst (selectAccount (Some a) s)))).
       serverIDHost (ps_serverId ps) = Some h \<longrightarrow> ps_accountId ps = None) \<and>
    (plain_host (host (acct_server a)) \<longrightarrow> h = host (acct_server a)) \<and>
    (CHR ''-'' \<in> set (host (acct_server a)) \<longrightarrow> h \<noteq> host (acct_server a))"
proof -
  have h: "accountIDHost (account_key a) = Some h"
    by (simp add: accountIDHost_account_key assms)
  have "set (split_head c s) \<subseteq> set s" for c s
  proof (cases "c \<in> set s")
    case True
    then obtain x y where "s = x @ c # y" "c \<notin> set x"
      by (metis split_list_first)
    then show ?thesis by auto
  qed simp
  then have "CHR ''-'' \<notin> set h"
    unfolding assms using split_head_free by blast
  with h accountIDHost_plain [of a] show ?thesis
    by (auto simp: selectAccount_pins withAccountPinned_def deselectAccount_def withAccountUnpinned_def)
qed

theorem selected_account_pinned_witness:
  "pinnedServers (fst (selectAccount (Some (sample_acct ''u'' ''a''))
      (initial_accounts\<lparr>pinnedServers := [sample_pin ''https:a'' None, sample_pin ''https:b'' None]\<rparr>))) =
    [sample_pin ''https:a'' (Some ''https:a-u''), sample_pin ''https:b'' None]"
  using selected_account_pinned [OF refl, of "sample_acct ''u'' ''a''"]
  by (simp add: sample_acct_def sample_pin_def bare_server_def serverIDHost_def account_key_def serverID_def split_head_def)

text \<open>
  Removing an account forgets it and every pin that used it, and also unpins
  whichever other account was in use on the same host.
\<close>

theorem removal_unpins_host:
  assumes "entity_adapter A account_key merge_account" "plain_host (host (acct_server a))"
  shows "entities (accounts_entities (removeAccount A (account_key a) s)) (account_key a) = None \<and>
    (\<forall>k. k \<noteq> account_key a \<longrightarrow>
       entities (accounts_entities (removeAccount A (account_key a) s)) k = entities (accounts_entities s) k) \<and>
    pinnedServers (removeAccount A (account_key a) s) =
      map (\<lambda>ps. if ps_accountId ps = Some (account_key a) \<or> serverIDHost (ps_serverId ps) = Some (host (acct_server a))
                then ps\<lparr>ps_accountId := None\<rparr> else ps) (pinnedServers s)"
  using adapter_entities [OF assms(1)] accountIDHost_plain [OF assms(2)]
  by (simp add: removeAccount_def Let_def withAccountUnpinned_def unpin_everywhere_def)

theorem removal_unpins_host_witness:
  "pinnedServers (removeAccount (ref_adapter account_key merge_account None) ''https:a-other''
      (initial_accounts\<lparr>pinnedServers := [sample_pin ''https:a'' (Some ''https:a-u'')]\<rparr>)) =
    [sample_pin ''https:a'' None]"
proof -
  have "plain_host (host (acct_server (sample_acct ''other'' ''a'')))"
    and key: "account_key (sample_acct ''other'' ''a'') = ''https:a-other''"
    by (simp_all add: plain_host_def sample_acct_def bare_server_def account_key_def serverID_def)
  from removal_unpins_host [OF accounts_ref.entity_adapter_axioms [where key = None] this(1)] show ?thesis
    unfolding key
    by (simp add: sample_acct_def sample_pin_def bare_server_def serverIDHost_def)
qed

text \<open>
  Pinning an account to its server and unpinning it by the server's identifier leaves the
  server pinned without an account and no other pin changed.
\<close>

theorem pin_then_unpin:
  "find_pin k (pinnedServers (fst (unpinAccountByServerId (serverID (acct_server a)) (fst (pinAccount a s))))) =
     (if k = serverID (acct_server a)
      then Some \<lparr>ps_serverId = k, ps_accountId = None,
                 ps_pinned = (case find_pin k (pinnedServers s) of None \<Rightarrow> True | Some p \<Rightarrow> ps_pinned p)\<rparr>
      else find_pin k (pinnedServers s))"
proof -
  have "ps_serverId p = k" if "find_pin k (pinnedServers s) = Some p" for p
    using that by (auto simp: find_pin_def find_Some_iff)
  then show ?thesis
    by (auto simp: unpinAccountByServerId_def unpin_server_account_def pinAccount_def Let_def find_pin_edit_or_push
        split: option.split)
qed

end
