(* ===== verification/Clients.thy ===== *)
theory Clients
  imports Servers
begin

text \<open>
  The cache of gRPC clients (store/clients.ts).  Several callers may ask for the same server at once: each
  runs the loop of \<open>getConfiguredServerClient\<close>, one of them creates the client and the others wait.  The
  loop is modelled as the steps a caller takes between two \<open>await\<close>s; a system of callers is driven by a
  schedule.  What the network answers is a parameter.
\<close>

section \<open>State\<close>

record configured_client = rellm_server +
  grpc_client :: string

record client_cache =
  clients :: "string \<rightharpoonup> configured_client"
  loadingClients :: "string list"

definition empty_cache :: client_cache where
  "empty_cache = \<lparr>clients = Map.empty, loadingClients = []\<rparr>"

definition deleteClient :: "rellm_server \<Rightarrow> client_cache \<Rightarrow> client_cache" where
  "deleteClient server st =
     st\<lparr>clients := (clients st)(serverID server := None),
        loadingClients := removeAll (serverID server) (loadingClients st)\<rparr>"

definition getCachedServerClient :: "rellm_server \<Rightarrow> client_cache \<Rightarrow> configured_client option" where
  "getCachedServerClient server st = clients st (serverID server)"

definition start_loading :: "string \<Rightarrow> client_cache \<Rightarrow> client_cache" where
  "start_loading k st =
     st\<lparr>loadingClients := (if k \<in> set (loadingClients st) then loadingClients st else loadingClients st @ [k])\<rparr>"

definition stop_loading :: "string \<Rightarrow> client_cache \<Rightarrow> client_cache" where
  "stop_loading k st = st\<lparr>loadingClients := removeAll k (loadingClients st)\<rparr>"


section \<open>Creating a client\<close>

text \<open>
  What the network answers to one attempt: the text at \<open>/backend_host\<close>, \<open>None\<close> when the fetch fails, and
  the two start-up calls, \<open>None\<close> when a call fails or runs into its time limit.
\<close>

record attempt =
  at_backendHost :: "string option"
  at_serviceVersion :: "service_version option"
  at_serverConfiguration :: "server_configuration option"

text \<open>\<open>s.replace(":", "://")\<close> replaces the first colon.\<close>

definition replace_colon :: "string \<Rightarrow> string" where
  "replace_colon s =
     takeWhile (\<lambda>c. c \<noteq> CHR '':'') s @
     (case dropWhile (\<lambda>c. c \<noteq> CHR '':'') s of [] \<Rightarrow> [] | _ # rest \<Rightarrow> ''://'' @ rest)"

definition resolvedHost :: "attempt \<Rightarrow> rellm_server \<Rightarrow> string" where
  "resolvedHost a server =
     (case at_backendHost a of None \<Rightarrow> host server | Some domain \<Rightarrow> if domain = [] then host server else domain)"

definition grpc_host :: "attempt \<Rightarrow> rellm_server \<Rightarrow> string" where
  "grpc_host a server = replace_colon (serverID (server\<lparr>host := resolvedHost a server\<rparr>)) @ '':27707''"

definition createRellmGrpcClient ::
  "string \<Rightarrow> attempt \<Rightarrow> rellm_server \<Rightarrow> client_cache \<Rightarrow> client_cache result" where
  "createRellmGrpcClient grpcHost a server st =
     (case (at_serviceVersion a, at_serverConfiguration a) of
        (Some v, Some c) \<Rightarrow>
          Inr (st\<lparr>clients := (clients st)(serverID server \<mapsto>
            \<lparr>host = grpcHost, secure = secure server, serviceVersion = Some v, serverConfiguration = Some c,
             lastConnectionFailed = lastConnectionFailed server, grpc_client = grpcHost\<rparr>)\<rparr>)
      | _ \<Rightarrow> Inl (Thrown ''Failed to load service version or server configuration''))"

definition resolveHostAndCreateClient :: "attempt \<Rightarrow> rellm_server \<Rightarrow> client_cache \<Rightarrow> client_cache result" where
  "resolveHostAndCreateClient a server st = createRellmGrpcClient (grpc_host a server) a server st"


section \<open>A caller\<close>

text \<open>
  The number is \<open>remainingRetries\<close>.  A caller checks the cache, fetches while its server is marked as
  loading, and ends with a client or with the error of its last attempt.
\<close>

datatype caller =
    Checking nat
  | Fetching nat
  | Connected configured_client
  | Failed js_error

definition totalRetries :: nat where
  "totalRetries = 5"

definition caller_step :: "attempt \<Rightarrow> rellm_server \<Rightarrow> caller \<Rightarrow> client_cache \<Rightarrow> caller \<times> client_cache" where
  "caller_step a server c st =
     (let k = serverID server
      in case c of
           Checking r \<Rightarrow>
             (case clients st k of
                Some cc \<Rightarrow> (Connected cc, st)
              | None \<Rightarrow>
                  if k \<in> set (loadingClients st) then (Checking r, st)
                  else (Fetching r, start_loading k st))
         | Fetching r \<Rightarrow>
             (case resolveHostAndCreateClient a server st of
                Inr st' \<Rightarrow> (Checking r, stop_loading k st')
              | Inl e \<Rightarrow>
                  (if r = 0 then Failed e else Checking (r - 1), stop_loading k st))
         | _ \<Rightarrow> (c, st))"

text \<open>\<open>getConfiguredServerClient\<close> for a caller nobody interferes with: the network answers attempt \<open>n\<close> with
  \<open>net n\<close>; every failed attempt uses up one retry.\<close>

definition attempt_no :: "caller \<Rightarrow> nat" where
  "attempt_no c = (case c of Checking r \<Rightarrow> totalRetries - r | Fetching r \<Rightarrow> totalRetries - r | _ \<Rightarrow> 0)"

fun run_alone :: "nat \<Rightarrow> (nat \<Rightarrow> attempt) \<Rightarrow> rellm_server \<Rightarrow> caller \<Rightarrow> client_cache \<Rightarrow> caller \<times> client_cache" where
  "run_alone 0 net server c st = (c, st)"
| "run_alone (Suc n) net server c st =
     (let (c', st') = caller_step (net (attempt_no c)) server c st in run_alone n net server c' st')"

definition getConfiguredServerClient ::
  "(nat \<Rightarrow> attempt) \<Rightarrow> rellm_server \<Rightarrow> client_cache \<Rightarrow> caller \<times> client_cache" where
  "getConfiguredServerClient net server st =
     run_alone (2 * Suc totalRetries + 1) net server (Checking totalRetries) st"


section \<open>Many callers\<close>

record system =
  callers :: "(rellm_server \<times> caller) list"
  cache :: client_cache

text \<open>An event lets one caller take a step, with what the network answers, or removes a server.\<close>

datatype client_event = Step nat attempt | Delete rellm_server

definition system_step :: "system \<Rightarrow> client_event \<Rightarrow> system" where
  "system_step s ev =
     (case ev of
        Step i a \<Rightarrow>
          if i < length (callers s) then
            (let (server, c) = callers s ! i;
                 (c', st') = caller_step a server c (cache s)
             in \<lparr>callers = (callers s)[i := (server, c')], cache = st'\<rparr>)
          else s
      | Delete server \<Rightarrow> s\<lparr>cache := deleteClient server (cache s)\<rparr>)"

text \<open>What a list of events leads to, from callers that have just come and an empty cache.\<close>

inductive reachable_system :: "rellm_server list \<Rightarrow> client_event list \<Rightarrow> system \<Rightarrow> bool" for servers where
  start: "reachable_system servers []
    \<lparr>callers = map (\<lambda>sv. (sv, Checking totalRetries)) servers, cache = empty_cache\<rparr>"
| step: "reachable_system servers evs s \<Longrightarrow> reachable_system servers (evs @ [ev]) (system_step s ev)"

text \<open>How often a server has been removed.\<close>

definition deletions :: "string \<Rightarrow> client_event list \<Rightarrow> nat" where
  "deletions k evs = length (filter (\<lambda>ev. case ev of Delete server \<Rightarrow> serverID server = k | _ \<Rightarrow> False) evs)"

definition is_fetching :: "string \<Rightarrow> rellm_server \<times> caller \<Rightarrow> bool" where
  "is_fetching k p \<longleftrightarrow> serverID (fst p) = k \<and> (case snd p of Fetching _ \<Rightarrow> True | _ \<Rightarrow> False)"


section \<open>A client for a server\<close>

text \<open>
  \<open>getServerClient\<close> after the configured client is known: the result is the client, the effects are the
  upserts it schedules, the last component is what \<open>onServerConfigured\<close> is called with.  Two messages have
  the same JSON text exactly when they are equal, because the decoder always writes the same keys.
\<close>

definition getServerClient ::
  "bool \<Rightarrow> rellm_server \<Rightarrow> configured_client option result \<Rightarrow> rellm_server option \<Rightarrow>
     string result \<times> effect list \<times> rellm_server option" where
  "getServerClient skipUpsert server configured latestServer =
     (if host server = ''default'' then (Inl (Thrown ''Server host is default''), [], None)
      else case configured of
             Inl e \<Rightarrow> (Inl e, [], None)
           | Inr None \<Rightarrow>
               (Inl (Thrown ''Failed to load client''),
                [After 1 (T_upsertServer (server\<lparr>lastConnectionFailed := Some True\<rparr>))], None)
           | Inr (Some cc) \<Rightarrow>
               (let updatedServer = server\<lparr>serviceVersion := serviceVersion cc,
                                          serverConfiguration := serverConfiguration cc,
                                          lastConnectionFailed := Some False\<rparr>
                in (Inr (grpc_client cc),
                    if \<not> skipUpsert \<and>
                       (Option.bind latestServer serviceVersion \<noteq> serviceVersion cc \<or>
                        Option.bind latestServer serverConfiguration \<noteq> serverConfiguration cc)
                    then [After 1 (T_upsertServer updatedServer)] else [],
                    Some updatedServer)))"

text \<open>What the loop hands to it.\<close>

definition caller_result :: "caller \<Rightarrow> configured_client option result" where
  "caller_result c = (case c of Connected cc \<Rightarrow> Inr (Some cc) | Failed e \<Rightarrow> Inl e | _ \<Rightarrow> Inr None)"


section \<open>One caller\<close>

definition answers :: "attempt \<Rightarrow> bool" where
  "answers a \<longleftrightarrow> at_serviceVersion a \<noteq> None \<and> at_serverConfiguration a \<noteq> None"

definition client_of :: "attempt \<Rightarrow> rellm_server \<Rightarrow> configured_client" where
  "client_of a server =
     \<lparr>host = grpc_host a server, secure = secure server, serviceVersion = at_serviceVersion a,
      serverConfiguration = at_serverConfiguration a, lastConnectionFailed = lastConnectionFailed server,
      grpc_client = grpc_host a server\<rparr>"

lemma resolve_cases:
  "resolveHostAndCreateClient a server st =
     (if answers a then Inr (st\<lparr>clients := (clients st)(serverID server \<mapsto> client_of a server)\<rparr>)
      else Inl (Thrown ''Failed to load service version or server configuration''))"
  by (auto simp: resolveHostAndCreateClient_def createRellmGrpcClient_def answers_def client_of_def
      split: option.split)

lemma loading_access [simp]:
  "clients (start_loading k st) = clients st" "clients (stop_loading k st) = clients st"
  "set (loadingClients (start_loading k st)) = insert k (set (loadingClients st))"
  "set (loadingClients (stop_loading k st)) = set (loadingClients st) - {k}"
  "loadingClients (st\<lparr>clients := cs\<rparr>) = loadingClients st"
  by (auto simp: start_loading_def stop_loading_def)

lemma stop_start [simp]:
  "k \<notin> set (loadingClients st) \<Longrightarrow> stop_loading k (start_loading k st) = st"
  "k \<notin> set (loadingClients st) \<Longrightarrow>
     stop_loading k ((start_loading k st)\<lparr>clients := cs\<rparr>) = st\<lparr>clients := cs\<rparr>"
  by (simp_all add: start_loading_def stop_loading_def removeAll_id)

lemma run_alone_settled:
  "run_alone n net server (Connected cc) st = (Connected cc, st)"
  "run_alone n net server (Failed e) st = (Failed e, st)"
  by (induction n) (simp_all add: caller_step_def)

lemma run_alone_cached:
  "clients st (serverID server) = Some cc \<Longrightarrow>
     run_alone (Suc n) net server (Checking r) st = (Connected cc, st)"
  by (simp add: caller_step_def run_alone_settled)

lemma run_alone_attempt:
  assumes "clients st (serverID server) = None" "serverID server \<notin> set (loadingClients st)"
  shows "run_alone (Suc (Suc n)) net server (Checking r) st =
    (if answers (net (totalRetries - r))
     then run_alone n net server (Checking r)
       (st\<lparr>clients := (clients st)(serverID server \<mapsto> client_of (net (totalRetries - r)) server)\<rparr>)
     else if r = 0 then run_alone n net server
       (Failed (Thrown ''Failed to load service version or server configuration'')) st
     else run_alone n net server (Checking (r - 1)) st)"
  using assms by (simp add: caller_step_def attempt_no_def resolve_cases)

definition settled_outcome ::
  "(nat \<Rightarrow> attempt) \<Rightarrow> rellm_server \<Rightarrow> client_cache \<Rightarrow> nat option \<Rightarrow> caller \<times> client_cache" where
  "settled_outcome net server st k =
     (case k of
        None \<Rightarrow> (Failed (Thrown ''Failed to load service version or server configuration''), st)
      | Some k \<Rightarrow>
          (Connected (client_of (net k) server),
           st\<lparr>clients := (clients st)(serverID server \<mapsto> client_of (net k) server)\<rparr>))"

lemma run_alone_outcome:
  assumes "clients st (serverID server) = None" "serverID server \<notin> set (loadingClients st)"
    and "r \<le> totalRetries" "2 * r + 3 \<le> n"
  shows "run_alone n net server (Checking r) st =
    settled_outcome net server st (find (\<lambda>k. answers (net k)) [totalRetries - r ..< Suc totalRetries])"
  using assms(3,4)
proof (induction r arbitrary: n)
  case 0
  then obtain m where n: "n = Suc (Suc (Suc m))"
    by (cases n; cases "n - 1"; cases "n - 2") auto
  have range: "[totalRetries - 0 ..< Suc totalRetries] = [totalRetries]"
    by simp
  show ?case
    unfolding range n run_alone_attempt [OF assms(1,2)]
    by (simp add: settled_outcome_def run_alone_settled run_alone_cached del: run_alone.simps(2))
next
  case (Suc r)
  then obtain m where n: "n = Suc (Suc (Suc m))" "2 * r + 3 \<le> Suc m"
    by (cases n; cases "n - 1"; cases "n - 2") auto
  have range: "[totalRetries - Suc r ..< Suc totalRetries] =
      (totalRetries - Suc r) # [totalRetries - r ..< Suc totalRetries]"
    using Suc.prems(1) by (subst upt_conv_Cons) (auto simp: Suc_diff_Suc)
  show ?case
    unfolding range n(1) run_alone_attempt [OF assms(1,2)]
    using Suc.IH [OF _ n(2)] Suc.prems(1)
    by (simp add: settled_outcome_def run_alone_cached del: upt_Suc run_alone.simps(2))
qed

section \<open>Many callers: the invariant\<close>

definition fetching_count :: "string \<Rightarrow> (rellm_server \<times> caller) list \<Rightarrow> nat" where
  "fetching_count k cs = length (filter (is_fetching k) cs)"

text \<open>
  For one server: the callers that fetch are at most one and as many as the removals of it, and one only if it is marked;
  without removals exactly the marked one fetches, and a client that a caller has got is in the cache.
\<close>

definition mark_of :: "string \<Rightarrow> client_cache \<Rightarrow> nat" where
  "mark_of k st = (if k \<in> set (loadingClients st) then 1 else 0)"

definition bounded_flight :: "nat \<Rightarrow> string \<Rightarrow> system \<Rightarrow> bool" where
  "bounded_flight n k s \<longleftrightarrow> fetching_count k (callers s) \<le> mark_of k (cache s) + n"

definition single_flight :: "string \<Rightarrow> system \<Rightarrow> bool" where
  "single_flight k s \<longleftrightarrow>
     fetching_count k (callers s) = mark_of k (cache s) \<and>
     (mark_of k (cache s) = 1 \<longrightarrow> clients (cache s) k = None) \<and>
     (\<forall>(server, c) \<in> set (callers s). serverID server = k \<longrightarrow> (\<forall>cc. c = Connected cc \<longrightarrow> clients (cache s) k = Some cc))"

lemma fetching_count_update:
  assumes "i < length cs"
  shows "fetching_count k (cs[i := p]) + of_bool (is_fetching k (cs ! i)) =
    fetching_count k cs + of_bool (is_fetching k p)"
proof -
  have "cs = take i cs @ cs ! i # drop (Suc i) cs" "cs[i := p] = take i cs @ p # drop (Suc i) cs"
    using assms by (simp_all add: id_take_nth_drop upd_conv_take_nth_drop)
  then have "filter (is_fetching k) cs = filter (is_fetching k) (take i cs @ cs ! i # drop (Suc i) cs)"
    "filter (is_fetching k) (cs[i := p]) = filter (is_fetching k) (take i cs @ p # drop (Suc i) cs)"
    by simp_all
  then show ?thesis
    by (simp add: fetching_count_def)
qed

lemma fetching_count_member: "p \<in> set cs \<Longrightarrow> is_fetching k p \<Longrightarrow> 0 < fetching_count k cs"
  by (auto simp: fetching_count_def filter_empty_conv)

text \<open>One step of the caller at position \<open>i\<close>, by what it does.\<close>

lemma caller_step_cases:
  assumes "caller_step a server c st = (c', st')"
  obtains (idle) "c' = c" "st' = st"
  | (hit) cc r where "c = Checking r" "clients st (serverID server) = Some cc" "c' = Connected cc" "st' = st"
  | (begin_fetch) r where "c = Checking r" "clients st (serverID server) = None"
      "serverID server \<notin> set (loadingClients st)" "c' = Fetching r" "st' = start_loading (serverID server) st"
  | (fetched) r where "c = Fetching r" "c' = Checking r"
      "st' = stop_loading (serverID server) (st\<lparr>clients := (clients st)(serverID server \<mapsto> client_of a server)\<rparr>)"
  | (retry) r r' where "c = Fetching r" "c' = Checking r'" "st' = stop_loading (serverID server) st"
  | (gave_up) r e where "c = Fetching r" "c' = Failed e" "st' = stop_loading (serverID server) st"
  using assms
  by (cases c) (auto simp: caller_step_def resolve_cases Let_def split: option.splits if_splits)

lemma mark_of_simps [simp]:
  "mark_of k (start_loading j st) = (if j = k then 1 else mark_of k st)"
  "mark_of k (stop_loading j st) = (if j = k then 0 else mark_of k st)"
  "mark_of k (deleteClient sv st) = (if serverID sv = k then 0 else mark_of k st)"
  "mark_of k (st\<lparr>clients := cs\<rparr>) = mark_of k st"
  by (auto simp: mark_of_def deleteClient_def start_loading_def)

text \<open>A step changes the fetching callers of a server and its mark by the same, unless the mark has been removed.\<close>

lemma caller_step_flight:
  assumes "caller_step a server c st = (c', st')"
  shows "mark_of k st' + of_bool (is_fetching k (server, c)) = mark_of k st + of_bool (is_fetching k (server, c')) \<or>
    (is_fetching k (server, c) \<and> \<not> is_fetching k (server, c') \<and> mark_of k st = 0 \<and> mark_of k st' = 0)"
  using assms
  by (cases rule: caller_step_cases) (auto simp: is_fetching_def mark_of_def)

lemma bounded_flight_step:
  assumes "bounded_flight n k s" "m = n + deletions k [ev]"
  shows "bounded_flight m k (system_step s ev)"
proof (cases ev)
  case (Step i a)
  show ?thesis
  proof (cases "i < length (callers s)")
    case True
    obtain server c where p: "callers s ! i = (server, c)" by (cases "callers s ! i")
    obtain c' st' where st: "caller_step a server c (cache s) = (c', st')"
      by (cases "caller_step a server c (cache s)")
    have "system_step s ev = \<lparr>callers = (callers s)[i := (server, c')], cache = st'\<rparr>"
      using True p st Step by (simp add: system_step_def)
    then show ?thesis
      using fetching_count_update [OF True, of k "(server, c')"] caller_step_flight [OF st, of k] assms Step p
      by (auto simp: bounded_flight_def deletions_def)
  qed (use assms Step in \<open>simp add: system_step_def deletions_def\<close>)
next
  case (Delete server)
  then show ?thesis
    using assms mark_of_simps(3) [of k server "cache s"]
    by (auto simp: bounded_flight_def system_step_def deletions_def simp del: mark_of_simps)
      (auto simp: mark_of_def split: if_splits)
qed

lemma single_flight_step:
  assumes flight: "single_flight k s" and none: "deletions k [ev] = 0"
  shows "single_flight k (system_step s ev)"
proof (cases ev)
  case (Step i a)
  show ?thesis
  proof (cases "i < length (callers s)")
    case True
    obtain server c where p: "callers s ! i = (server, c)" by (cases "callers s ! i")
    obtain c' st' where st: "caller_step a server c (cache s) = (c', st')"
      by (cases "caller_step a server c (cache s)")
    have next_state: "system_step s ev = \<lparr>callers = (callers s)[i := (server, c')], cache = st'\<rparr>"
      using True p st Step by (simp add: system_step_def)
    have mem: "(server, c) \<in> set (callers s)" using True p nth_mem by fastforce
    have marked: "mark_of k (cache s) = 1" if "is_fetching k (server, c)"
      using fetching_count_member [OF mem that] flight by (auto simp: single_flight_def mark_of_def split: if_splits)
    then have count: "fetching_count k ((callers s)[i := (server, c')]) = mark_of k st'"
      using fetching_count_update [OF True, of k "(server, c')"] caller_step_flight [OF st, of k] flight p
      by (auto simp: single_flight_def)
    have members: "q \<in> set (callers s) \<or> q = (server, c')" if "q \<in> set ((callers s)[i := (server, c')])" for q
      using that set_update_subset_insert [of "callers s" i "(server, c')"] by blast
    have kept: "(mark_of k st' = 1 \<longrightarrow> clients st' k = None) \<and>
      (clients (cache s) k = None \<or> clients st' k = clients (cache s) k) \<and>
      (serverID server = k \<longrightarrow> (\<forall>cc. c' = Connected cc \<longrightarrow> clients st' k = Some cc))"
      using st
    proof (cases rule: caller_step_cases)
      case idle
      then show ?thesis using flight mem by (fastforce simp: single_flight_def)
    next
      case (fetched r)
      have "clients (cache s) k = None" if "serverID server = k"
        using marked flight that fetched by (simp add: is_fetching_def single_flight_def)
      then show ?thesis using fetched flight by (auto simp: single_flight_def)
    qed (use flight in \<open>auto simp: single_flight_def\<close>)
    have "clients st' k = Some cc" if "(sv, Connected cc) \<in> set ((callers s)[i := (server, c')])" "serverID sv = k" for sv cc
      using members [OF that(1)] that(2) kept flight by (fastforce simp: single_flight_def)
    then show ?thesis
      using count kept by (auto simp: next_state single_flight_def)
  qed (use flight Step in \<open>simp add: system_step_def\<close>)
next
  case (Delete server)
  then show ?thesis
    using assms by (auto simp: single_flight_def system_step_def deletions_def deleteClient_def mark_of_def split: if_splits)
qed

lemma start_no_fetching: "fetching_count k (map (\<lambda>sv. (sv, Checking n)) servers) = 0"
  by (auto simp: fetching_count_def is_fetching_def filter_empty_conv)

lemma reachable_flight:
  "reachable_system servers evs s \<Longrightarrow>
     bounded_flight (deletions k evs) k s \<and> (deletions k evs = 0 \<longrightarrow> single_flight k s)"
proof (induction rule: reachable_system.induct)
  case start
  then show ?case
    using start_no_fetching by (auto simp: bounded_flight_def single_flight_def mark_of_def empty_cache_def)
next
  case (step evs s ev)
  have "deletions k (evs @ [ev]) = deletions k evs + deletions k [ev]"
    by (simp add: deletions_def)
  then show ?case
    using step.IH bounded_flight_step single_flight_step by auto
qed

section \<open>Properties\<close>

definition dead_attempt :: attempt where
  "dead_attempt = \<lparr>at_backendHost = None, at_serviceVersion = None, at_serverConfiguration = None\<rparr>"

definition live_attempt :: attempt where
  "live_attempt =
     \<lparr>at_backendHost = Some ''b'', at_serviceVersion = Some \<lparr>version = ''1''\<rparr>,
      at_serverConfiguration = Some \<lparr>sc_frontendHost = None, sc_federatedServers = None, sc_primaryColor = None,
        sc_navigationColor = None, sc_rest = []\<rparr>\<rparr>"

lemma attempts_answer [simp]: "answers live_attempt" "\<not> answers dead_attempt"
  by (simp_all add: answers_def live_attempt_def dead_attempt_def)

text \<open>
  C8: A caller nobody interferes with always comes to an end, after six attempts at
  most: with the client of the first attempt that is answered, which is then cached, or with an error and
  the cache as it was; either way nothing stays marked as loading.
\<close>

theorem connection_outcome:
  assumes "clients st (serverID server) = None" "serverID server \<notin> set (loadingClients st)"
  shows "getConfiguredServerClient net server st =
    (case find (\<lambda>k. answers (net k)) [0 ..< 6] of
       None \<Rightarrow> (Failed (Thrown ''Failed to load service version or server configuration''), st)
     | Some k \<Rightarrow>
         (Connected (client_of (net k) server),
          st\<lparr>clients := (clients st)(serverID server \<mapsto> client_of (net k) server)\<rparr>))"
proof -
  have "getConfiguredServerClient net server st =
      settled_outcome net server st (find (\<lambda>k. answers (net k)) [totalRetries - totalRetries ..< Suc totalRetries])"
    unfolding getConfiguredServerClient_def
    by (rule run_alone_outcome [OF assms]) (simp_all add: totalRetries_def)
  moreover have "[totalRetries - totalRetries ..< Suc totalRetries] = [0 ..< 6]"
    by (simp add: totalRetries_def numeral_eq_Suc)
  ultimately show ?thesis
    by (simp only: settled_outcome_def)
qed

theorem connection_outcome_witness:
  "fst (getConfiguredServerClient (\<lambda>n. if n < 2 then dead_attempt else live_attempt)
      (bare_server ''h'' True) empty_cache) = Connected (client_of live_attempt (bare_server ''h'' True))"
proof -
  have "[0 ..< 6] = [0, 1, 2, 3, 4, 5 :: nat]"
    by (simp add: upt_rec)
  then have "find (\<lambda>k. answers (if k < 2 then dead_attempt else live_attempt)) [0 ..< 6] = Some 2"
    by simp
  then show ?thesis
    using connection_outcome [of empty_cache "bare_server ''h'' True" "\<lambda>n. if n < 2 then dead_attempt else live_attempt"]
    by (simp add: empty_cache_def)
qed

text \<open>
  C7: However the callers are interleaved with each other and with removals of servers, the callers that
  create a client for a server at one time are at most one more than the times it has been removed.  As long as it has not
  been removed at most one of them creates a client, the mark says whether one does, and all callers that get a client for
  it get the same one.
\<close>

theorem client_single_flight:
  assumes "reachable_system servers evs s"
  shows "length (filter (is_fetching k) (callers s)) \<le> 1 + deletions k evs \<and>
    (deletions k evs = 0 \<longrightarrow>
       length (filter (is_fetching k) (callers s)) = (if k \<in> set (loadingClients (cache s)) then 1 else 0) \<and>
       (\<forall>sv1 c1 sv2 c2. (sv1, Connected c1) \<in> set (callers s) \<and> (sv2, Connected c2) \<in> set (callers s) \<and>
          serverID sv1 = k \<and> serverID sv2 = k \<longrightarrow> c1 = c2))"
proof -
  have "mark_of k (cache s) \<le> 1" by (simp add: mark_of_def)
  moreover have "c1 = c2"
    if "single_flight k s" "(sv1, Connected c1) \<in> set (callers s)" "(sv2, Connected c2) \<in> set (callers s)"
      "serverID sv1 = k" "serverID sv2 = k" for sv1 c1 sv2 c2
  proof -
    have "clients (cache s) k = Some c1" "clients (cache s) k = Some c2"
      using that by (auto simp: single_flight_def)
    then show ?thesis by simp
  qed
  ultimately show ?thesis
    using reachable_flight [OF assms, of k]
    by (auto simp: bounded_flight_def single_flight_def mark_of_def fetching_count_def)
qed

definition sample_callers :: system where
  "sample_callers =
     system_step (system_step
       \<lparr>callers = map (\<lambda>sv. (sv, Checking totalRetries)) [bare_server ''h'' True, bare_server ''h'' True],
        cache = empty_cache\<rparr> (Step 0 live_attempt)) (Step 1 live_attempt)"

lemma sample_callers_reachable:
  "reachable_system [bare_server ''h'' True, bare_server ''h'' True] [Step 0 live_attempt, Step 1 live_attempt] sample_callers"
  using reachable_system.step [OF reachable_system.step [OF reachable_system.start], of _ "Step 0 live_attempt" "Step 1 live_attempt"]
  unfolding sample_callers_def append.simps .

lemma sample_callers_value:
  "callers sample_callers = [(bare_server ''h'' True, Fetching 5), (bare_server ''h'' True, Checking 5)]"
  "loadingClients (cache sample_callers) = [serverID (bare_server ''h'' True)]"
  by (simp_all add: sample_callers_def system_step_def caller_step_def empty_cache_def start_loading_def
      totalRetries_def Let_def)

theorem client_single_flight_witness:
  "length (filter (is_fetching (serverID (bare_server ''h'' True))) (callers sample_callers)) = 1"
  using client_single_flight [OF sample_callers_reachable, of "serverID (bare_server ''h'' True)"]
  by (simp add: sample_callers_value deletions_def)

text \<open>Removing a server while a client for it is being created clears the mark, and a second caller starts.\<close>

lemma delete_lets_two_fetch:
  "length (filter (is_fetching (serverID (bare_server ''h'' True)))
     (callers (system_step (system_step sample_callers (Delete (bare_server ''h'' True))) (Step 1 live_attempt)))) = 2"
  by (simp add: sample_callers_def system_step_def caller_step_def empty_cache_def start_loading_def
      totalRetries_def Let_def deleteClient_def is_fetching_def)

text \<open>
  When all attempts fail, the caller gets the error of the loop and nothing
  is scheduled: the server is never marked as \<open>lastConnectionFailed\<close>.
\<close>

theorem failed_connection_unrecorded:
  assumes "clients st (serverID server) = None" "serverID server \<notin> set (loadingClients st)"
    and "\<forall>k < 6. \<not> answers (net k)" "host server \<noteq> ''default''"
  shows "getServerClient skipUpsert server (caller_result (fst (getConfiguredServerClient net server st))) latest =
    (Inl (Thrown ''Failed to load service version or server configuration''), [], None)"
proof -
  have "find (\<lambda>k. answers (net k)) [0 ..< 6] = None"
    using assms(3) by (auto simp: find_None_iff)
  then show ?thesis
    using connection_outcome [OF assms(1,2), of net] assms(4) by (simp add: getServerClient_def caller_result_def)
qed

theorem failed_connection_unrecorded_witness:
  "getServerClient False (bare_server ''h'' True)
     (caller_result (fst (getConfiguredServerClient (\<lambda>_. dead_attempt) (bare_server ''h'' True) empty_cache))) None =
   (Inl (Thrown ''Failed to load service version or server configuration''), [], None)"
  by (rule failed_connection_unrecorded) (simp_all add: empty_cache_def bare_server_def)

end
