(* ===== verification/Credentials.thy ===== *)
theory Credentials
  imports Accounts Clients
begin

text \<open>
  store/credentialed_data.ts: the access token a call is made with, the cache of refreshed tokens, and the
  debounced reset of everything that was loaded with some account's permissions.  The connection to the
  server, the answer of its \<open>accessToken\<close> call and the reading of a date are parameters.
\<close>

section \<open>Tokens\<close>

record access_token_response =
  atr_refreshToken :: "expirable_token option"
  atr_accessToken :: "expirable_token option"

record cached_tokens =
  ct_accessToken :: "expirable_token option"
  ct_refreshToken :: "expirable_token option"

type_synonym token_cache = "string \<rightharpoonup> cached_tokens"

definition updatedTokenKey :: "account_or_server \<Rightarrow> string" where
  "updatedTokenKey aos =
     (case aos_account aos of None \<Rightarrow> [] | Some a \<Rightarrow> account_key a) @ ''@'' @
     (case aos_server aos of None \<Rightarrow> [] | Some s \<Rightarrow> serverID s)"

definition resetAccessTokens :: "token_cache \<Rightarrow> token_cache" where
  "resetAccessTokens tokens = Map.empty"

text \<open>
  \<open>moment.utc(undefined)\<close> is the current time, which is before itself once two minutes are subtracted; a
  comparison with an invalid date is false.  Times are milliseconds.
\<close>

definition token_expired :: "(string \<Rightarrow> int option) \<Rightarrow> int \<Rightarrow> expirable_token \<Rightarrow> bool" where
  "token_expired unix now t =
     (case expiresAt t of
        None \<Rightarrow> True
      | Some d \<Rightarrow> (case unix d of None \<Rightarrow> False | Some ms \<Rightarrow> ms - 120000 < now))"

record credential_client =
  cred_client :: string
  credential :: "string option"

definition refreshed_account :: "rellm_account \<Rightarrow> access_token_response \<Rightarrow> rellm_account" where
  "refreshed_account account r =
     account\<lparr>accessToken := nullish (atr_accessToken r) (accessToken account),
             refreshToken := nullish (atr_refreshToken r) (refreshToken account),
             lastSyncFailed := Some False, needsReauthentication := Some False\<rparr>"

definition failed_account :: "rellm_account \<Rightarrow> rellm_account" where
  "failed_account account = account\<lparr>lastSyncFailed := Some True, needsReauthentication := Some True\<rparr>"

text \<open>
  \<open>connect\<close> is \<open>getServerClient\<close>, \<open>refresh\<close> the answer of the server to a refresh token, \<open>None\<close> when the
  call fails; there is one attempt.  A response without an access token is cached before it is read.
\<close>

definition getCredentialClient ::
  "(string \<Rightarrow> int option) \<Rightarrow> int \<Rightarrow> (rellm_server \<Rightarrow> string result) \<Rightarrow>
     (string \<Rightarrow> access_token_response option) \<Rightarrow> account_or_server \<Rightarrow> token_cache \<Rightarrow>
     (credential_client \<times> effect list) result \<times> token_cache" where
  "getCredentialClient unix now connect refresh aos tokens =
     (case bind_result (deref (aos_server aos)) connect of
        Inl e \<Rightarrow> (Inl e, tokens)
      | Inr client \<Rightarrow>
          (case aos_account aos of
             None \<Rightarrow> (Inr (\<lparr>cred_client = client, credential = None\<rparr>, []), tokens)
           | Some account \<Rightarrow>
               if token_expired unix now (accessToken account) then
                 (case Option.bind (tokens (updatedTokenKey aos)) ct_accessToken of
                    Some t \<Rightarrow> (Inr (\<lparr>cred_client = client, credential = Some (token t)\<rparr>, []), tokens)
                  | None \<Rightarrow>
                      (case refresh (token (refreshToken account)) of
                         None \<Rightarrow>
                           (Inr (\<lparr>cred_client = client, credential = None\<rparr>,
                                 [After 1000 (T_upsertAccount (failed_account account))]), tokens)
                       | Some r \<Rightarrow>
                           (let tokens' = tokens(updatedTokenKey aos \<mapsto>
                                  \<lparr>ct_accessToken = atr_accessToken r, ct_refreshToken = atr_refreshToken r\<rparr>)
                            in case atr_accessToken r of
                                 None \<Rightarrow> (Inl TypeError, tokens')
                               | Some t \<Rightarrow>
                                   (Inr (\<lparr>cred_client = client, credential = Some (token t)\<rparr>,
                                         [After 1000 (T_upsertAccount (refreshed_account account r))]), tokens'))))
               else
                 (Inr (\<lparr>cred_client = client, credential = Some (token (accessToken account))\<rparr>, []), tokens)))"


section \<open>The debounced reset\<close>

text \<open>
  \<open>pendingServerHostResets\<close> with the timers that are outstanding.  A timer fires in any order: the \<open>n\<close>-th
  outstanding one, which deletes its host from the set and resets the slices.
\<close>

record reset_queue =
  pendingServerHostResets :: "string list"
  resetTimers :: "string list"

definition empty_queue :: reset_queue where
  "empty_queue = \<lparr>pendingServerHostResets = [], resetTimers = []\<rparr>"

definition resetCredentialedData :: "string option \<Rightarrow> reset_queue \<Rightarrow> reset_queue" where
  "resetCredentialedData resetHost q =
     (case resetHost of
        None \<Rightarrow> q
      | Some h \<Rightarrow>
          if h \<in> set (pendingServerHostResets q) \<or> h = [] then q
          else \<lparr>pendingServerHostResets = pendingServerHostResets q @ [h],
                resetTimers = resetTimers q @ [h]\<rparr>)"

text \<open>The queue after the \<open>n\<close>-th timer and the host whose slices it resets.\<close>

definition fire_reset :: "nat \<Rightarrow> reset_queue \<Rightarrow> reset_queue \<times> string option" where
  "fire_reset n q =
     (if n < length (resetTimers q)
      then (let h = resetTimers q ! n
            in (\<lparr>pendingServerHostResets = removeAll h (pendingServerHostResets q),
                 resetTimers = take n (resetTimers q) @ drop (Suc n) (resetTimers q)\<rparr>, Some h))
      else (q, None))"

datatype reset_event = Request "string option" | Fire nat

definition reset_step :: "reset_queue \<Rightarrow> reset_event \<Rightarrow> reset_queue" where
  "reset_step q ev = (case ev of Request h \<Rightarrow> resetCredentialedData h q | Fire n \<Rightarrow> fst (fire_reset n q))"


section \<open>Lemmas\<close>

definition queue_wf :: "reset_queue \<Rightarrow> bool" where
  "queue_wf q \<longleftrightarrow> pendingServerHostResets q = resetTimers q \<and> distinct (resetTimers q) \<and> [] \<notin> set (resetTimers q)"

lemma removeAll_nth:
  "distinct xs \<Longrightarrow> n < length xs \<Longrightarrow> removeAll (xs ! n) xs = take n xs @ drop (Suc n) xs"
proof -
  assume d: "distinct xs" and n: "n < length xs"
  have xs: "xs = take n xs @ xs ! n # drop (Suc n) xs"
    using n by (rule id_take_nth_drop)
  have "xs ! n \<notin> set (take n xs)" "xs ! n \<notin> set (drop (Suc n) xs)"
    using d by (subst (asm) xs, simp)+
  then have "removeAll (xs ! n) (take n xs @ xs ! n # drop (Suc n) xs) = take n xs @ drop (Suc n) xs"
    by (simp add: removeAll_id)
  then show ?thesis
    using xs by simp
qed

lemma distinct_occurrences: "distinct xs \<Longrightarrow> count_list xs x = of_bool (x \<in> set xs)"
  by (induction xs) (auto simp: count_list_0_iff)

lemma reset_step_wf: "queue_wf q \<Longrightarrow> queue_wf (reset_step q ev)"
proof (cases ev)
  case (Fire n)
  assume "queue_wf q"
  then show ?thesis
    using Fire removeAll_nth [of "resetTimers q" n, symmetric]
    by (auto simp: reset_step_def fire_reset_def queue_wf_def Let_def distinct_removeAll)
qed (auto simp: reset_step_def resetCredentialedData_def queue_wf_def split: option.split)

lemma reset_run_wf: "queue_wf (foldl reset_step empty_queue evs)"
  by (induction evs rule: rev_induct) (simp_all add: reset_step_wf, simp add: queue_wf_def empty_queue_def)


section \<open>Properties\<close>

text \<open>
  C37: Over any interleaving of requests and timers, each host has at most one reset
  outstanding, exactly when it is marked as pending; and no request is lost: after one, a reset of its
  host is outstanding.
\<close>

theorem one_reset_per_host:
  "count_list (resetTimers (foldl reset_step empty_queue evs)) h =
     of_bool (h \<in> set (pendingServerHostResets (foldl reset_step empty_queue evs))) \<and>
   (h = [] \<or> h \<in> set (resetTimers (reset_step (foldl reset_step empty_queue evs) (Request (Some h)))))"
proof -
  let ?q = "foldl reset_step empty_queue evs"
  have wf: "queue_wf ?q"
    by (rule reset_run_wf)
  then have "count_list (resetTimers ?q) h = of_bool (h \<in> set (pendingServerHostResets ?q))"
    by (simp add: queue_wf_def distinct_occurrences)
  moreover have "h = [] \<or> h \<in> set (resetTimers (reset_step ?q (Request (Some h))))"
    using wf by (auto simp: queue_wf_def reset_step_def resetCredentialedData_def)
  ultimately show ?thesis by blast
qed

text \<open>
  Once the token of an expired account has been refreshed, every later call for
  the same account and server uses that token and asks for no other, whatever the time and whatever the
  server would answer, until the cache is cleared.
\<close>

theorem refreshed_token_reused:
  assumes "getCredentialClient unix now connect refresh \<lparr>aos_account = Some a, aos_server = Some sv\<rparr> tokens = (Inr (cl, es), tokens')"
    and "token_expired unix now (accessToken a)" "token_expired unix now' (accessToken a)"
    and "connect' sv = Inr g" "refresh (token (refreshToken a)) \<noteq> None"
  shows "getCredentialClient unix now' connect' refresh' \<lparr>aos_account = Some a, aos_server = Some sv\<rparr> tokens' =
      (Inr (\<lparr>cred_client = g, credential = credential cl\<rparr>, []), tokens') \<and>
    credential cl \<noteq> None"
  using assms
  by (auto simp: getCredentialClient_def Let_def split: sum.splits option.splits if_splits)

definition sample_response :: access_token_response where
  "sample_response =
     \<lparr>atr_refreshToken = None, atr_accessToken = Some \<lparr>token = ''fresh'', expiresAt = Some ''soon''\<rparr>\<rparr>"

theorem refreshed_token_reused_witness:
  "\<exists>tokens'. getCredentialClient (\<lambda>_. Some 0) 999999999 (\<lambda>_. Inr ''c'') (\<lambda>_. None)
      \<lparr>aos_account = Some (sample_acct ''u'' ''h''), aos_server = Some (bare_server ''h'' True)\<rparr> tokens' =
    (Inr (\<lparr>cred_client = ''c'', credential = Some ''fresh''\<rparr>, []), tokens')"
proof -
  have old: "token_expired u n (accessToken (sample_acct ''u'' ''h''))" for u n
    by (simp add: token_expired_def sample_acct_def)
  have first: "\<exists>tokens'. getCredentialClient (\<lambda>_. Some 0) 0 (\<lambda>_. Inr ''c'') (\<lambda>_. Some sample_response)
      \<lparr>aos_account = Some (sample_acct ''u'' ''h''), aos_server = Some (bare_server ''h'' True)\<rparr> Map.empty =
    (Inr (\<lparr>cred_client = ''c'', credential = Some ''fresh''\<rparr>,
          [After 1000 (T_upsertAccount (refreshed_account (sample_acct ''u'' ''h'') sample_response))]), tokens')"
    using old by (simp add: getCredentialClient_def sample_response_def)
  then obtain tokens' where "getCredentialClient (\<lambda>_. Some 0) 0 (\<lambda>_. Inr ''c'') (\<lambda>_. Some sample_response)
      \<lparr>aos_account = Some (sample_acct ''u'' ''h''), aos_server = Some (bare_server ''h'' True)\<rparr> Map.empty =
    (Inr (\<lparr>cred_client = ''c'', credential = Some ''fresh''\<rparr>,
          [After 1000 (T_upsertAccount (refreshed_account (sample_acct ''u'' ''h'') sample_response))]), tokens')"
    by blast
  from refreshed_token_reused [OF this old old] show ?thesis
    by fastforce
qed

end
