(* ===== verification/Store.thy ===== *)
theory Store
  imports Config Media Groups_Slice Users Credentials
begin

text \<open>
  store/store.ts: the root reducer that hands every action to every slice, the module-level state beside
  the store (client cache, refreshed tokens, pending resets), and the callbacks the reducers schedule.  A run
  of the program is a sequence of dispatched actions and of timers that fire, in any order.
\<close>

section \<open>The store and what surrounds it\<close>

record store_state =
  st_config :: config
  st_temporaryConfig :: temporary_config
  st_accounts :: accounts_state
  st_servers :: servers_state
  st_media :: media_state
  st_posts :: posts_state
  st_events :: events_state
  st_users :: users_state
  st_groups :: groups_state

text \<open>
  What the store is built with: the adapters of the slices, the initial configuration, and the reading of a
  date as a number.
\<close>

record deps =
  d_unix :: "string option \<Rightarrow> int"
  d_config :: config
  d_accounts :: "rellm_account adapter"
  d_servers :: "rellm_server adapter"
  d_media :: "federated_media adapter"
  d_posts :: "federated_post adapter"
  d_events :: "federated_event adapter"
  d_users :: "federated_user adapter"
  d_groups :: "federated_group adapter"

record runtime =
  rt_store :: store_state
  rt_timers :: "task list"
  rt_frames :: "task list"
  rt_cache :: client_cache
  rt_tokens :: token_cache
  rt_resets :: reset_queue

definition initial_store :: "config \<Rightarrow> string \<Rightarrow> store_state" where
  "initial_store c now =
     \<lparr>st_config = c, st_temporaryConfig = initial_temporary_config, st_accounts = initial_accounts,
      st_servers = initial_servers, st_media = initial_media, st_posts = initial_posts,
      st_events = initial_events now, st_users = initial_users, st_groups = initial_groups\<rparr>"

definition initial_runtime :: "config \<Rightarrow> string \<Rightarrow> runtime" where
  "initial_runtime c now =
     \<lparr>rt_store = initial_store c now, rt_timers = [], rt_frames = [], rt_cache = empty_cache,
      rt_tokens = Map.empty, rt_resets = empty_queue\<rparr>"


section \<open>Actions\<close>

text \<open>
  An action reaches every slice; most are handled by one of them.  The outcomes of the thunks below are
  handled by several slices.
\<close>

datatype root_action =
    R_config config_action
  | R_temporaryConfig temporary_config_action
  | R_accounts accounts_action
  | R_servers servers_action
  | R_media media_action
  | R_posts posts_action
  | R_events events_action
  | R_users users_action
  | R_groups groups_action
  | R_upsertServer_fulfilled rellm_server
  | R_createPost_fulfilled "rellm_server option" post
  | R_createEvent_fulfilled "rellm_server option" ident_event
  | R_updateEvent_fulfilled "rellm_server option" ident_event
  | R_loadEvent_fulfilled "rellm_server option" ident_event
  | R_loadEventsPage_fulfilled load_events_request "ident_event list"
  | R_loadUserPosts_fulfilled user_request "post list"
  | R_loadUserReplies_fulfilled user_request "post list"
  | R_loadUserEvents_fulfilled user_request "ident_event list"
  | R_loadGroupPostsPage_fulfilled load_group_page_request "post list"
  | R_loadGroupEventsPage_fulfilled load_group_page_request "ident_event list"
  | R_loadGroupMembers_fulfilled load_members_request "api_member list"

datatype slice_action =
    S_config config_action
  | S_temporaryConfig temporary_config_action
  | S_accounts accounts_action
  | S_servers servers_action
  | S_media media_action
  | S_posts posts_action
  | S_events events_action
  | S_users users_action
  | S_groups groups_action

text \<open>
  The slices that handle an action, in the order \<open>combineReducers\<close> calls them.  The events reducer sorts
  the occasions of a response in place, so the slices after it see them sorted.
\<close>

fun slices_of :: "(string option \<Rightarrow> int) \<Rightarrow> root_action \<Rightarrow> slice_action list" where
  "slices_of unix (R_config a) = [S_config a]"
| "slices_of unix (R_temporaryConfig a) = [S_temporaryConfig a]"
| "slices_of unix (R_accounts a) = [S_accounts a]"
| "slices_of unix (R_servers a) = [S_servers a]"
| "slices_of unix (R_media a) = [S_media a]"
| "slices_of unix (R_posts a) = [S_posts a]"
| "slices_of unix (R_events a) = [S_events a]"
| "slices_of unix (R_users a) = [S_users a]"
| "slices_of unix (R_groups a) = [S_groups a]"
| "slices_of unix (R_upsertServer_fulfilled sv) =
     [S_accounts (UpsertServer_accounts sv), S_servers (UpsertServer_fulfilled sv)]"
| "slices_of unix (R_createPost_fulfilled sv p) =
     [S_posts (CreatePost_fulfilled sv p), S_users (UserCreatePost_fulfilled sv p)]"
| "slices_of unix (R_createEvent_fulfilled sv e) =
     [S_posts (SaveEvent_fulfilled sv e), S_events (CreateEvent_fulfilled sv e),
      S_users (UserCreateEvent_fulfilled sv e)]"
| "slices_of unix (R_updateEvent_fulfilled sv e) =
     [S_posts (SaveEvent_fulfilled sv e), S_events (UpdateEvent_fulfilled sv e)]"
| "slices_of unix (R_loadEvent_fulfilled sv e) =
     [S_posts (SaveEvent_fulfilled sv e), S_events (LoadEvent_fulfilled sv e)]"
| "slices_of unix (R_loadEventsPage_fulfilled r es) =
     [S_posts (LoadEventsPagePosts_fulfilled (ler_server r) es), S_events (LoadEventsPage_fulfilled r es)]"
| "slices_of unix (R_loadUserPosts_fulfilled r ps) =
     [S_posts (LoadListedPosts_fulfilled (aos_server (ur_aos r)) ps), S_users (LoadUserPosts_fulfilled r ps)]"
| "slices_of unix (R_loadUserReplies_fulfilled r ps) =
     [S_posts (LoadListedPosts_fulfilled (aos_server (ur_aos r)) ps), S_users (LoadUserReplies_fulfilled r ps)]"
| "slices_of unix (R_loadUserEvents_fulfilled r es) =
     [S_events (LoadUserEvents_fulfilled (aos_server (ur_aos r)) es),
      S_users (UserEvents_fulfilled r (map (sort_occasions unix) es))]"
| "slices_of unix (R_loadGroupPostsPage_fulfilled r ps) =
     [S_posts (LoadListedPosts_fulfilled (lgp_server r) ps), S_groups (GroupPostsPage_fulfilled r ps)]"
| "slices_of unix (R_loadGroupEventsPage_fulfilled r es) =
     [S_events (LoadGroupEventsPage_fulfilled (lgp_server r) es),
      S_groups (GroupEventsPage_fulfilled r (map (sort_occasions unix) es))]"
| "slices_of unix (R_loadGroupMembers_fulfilled r ms) =
     [S_users (GroupMembers_fulfilled (lmb_server r) ms), S_groups (LoadGroupMembers_fulfilled r ms)]"

fun slice_reducer :: "deps \<Rightarrow> slice_action \<Rightarrow> store_state \<Rightarrow> (store_state \<times> effect list) result" where
  "slice_reducer d (S_config a) s =
     map_sum id (\<lambda>x. (s\<lparr>st_config := x\<rparr>, [])) (config_reducer (d_config d) a (st_config s))"
| "slice_reducer d (S_temporaryConfig a) s =
     Inr (s\<lparr>st_temporaryConfig := temporary_config_reducer a (st_temporaryConfig s)\<rparr>, [])"
| "slice_reducer d (S_accounts a) s =
     map_sum id (\<lambda>(x, es). (s\<lparr>st_accounts := x\<rparr>, es)) (accounts_reducer (d_accounts d) a (st_accounts s))"
| "slice_reducer d (S_servers a) s =
     map_sum id (\<lambda>(x, es). (s\<lparr>st_servers := x\<rparr>, es)) (servers_reducer (d_servers d) a (st_servers s))"
| "slice_reducer d (S_media a) s = Inr (s\<lparr>st_media := media_reducer (d_media d) a (st_media s)\<rparr>, [])"
| "slice_reducer d (S_posts a) s =
     map_sum id (\<lambda>x. (s\<lparr>st_posts := x\<rparr>, [])) (posts_reducer (d_posts d) a (st_posts s))"
| "slice_reducer d (S_events a) s =
     Inr (s\<lparr>st_events := events_reducer (d_unix d) (d_events d) a (st_events s)\<rparr>, [])"
| "slice_reducer d (S_users a) s =
     map_sum id (\<lambda>(x, es). (s\<lparr>st_users := x\<rparr>, es)) (users_reducer (d_users d) a (st_users s))"
| "slice_reducer d (S_groups a) s =
     map_sum id (\<lambda>(x, es). (s\<lparr>st_groups := x\<rparr>, es)) (groups_reducer (d_groups d) a (st_groups s))"

text \<open>
  The root reducer.  When a slice throws, the new states of the earlier slices are lost, but what they have
  scheduled stays scheduled.
\<close>

fun reduce_slices :: "deps \<Rightarrow> slice_action list \<Rightarrow> store_state \<Rightarrow> store_state result \<times> effect list" where
  "reduce_slices d [] s = (Inr s, [])"
| "reduce_slices d (a # as) s =
     (case slice_reducer d a s of
        Inl e \<Rightarrow> (Inl e, [])
      | Inr (s', es) \<Rightarrow> (let (r, es') = reduce_slices d as s' in (r, es @ es')))"

definition rootReducer :: "deps \<Rightarrow> root_action \<Rightarrow> store_state \<Rightarrow> store_state result \<times> effect list" where
  "rootReducer d a s = reduce_slices d (slices_of (d_unix d) a) s"


section \<open>Effects\<close>

definition perform :: "runtime \<Rightarrow> effect \<Rightarrow> runtime" where
  "perform rt e =
     (case e of
        After ms t \<Rightarrow> rt\<lparr>rt_timers := rt_timers rt @ [t]\<rparr>
      | NextFrame t \<Rightarrow> rt\<lparr>rt_frames := rt_frames rt @ [t]\<rparr>
      | Call_resetCredentialedData h \<Rightarrow> rt\<lparr>rt_resets := resetCredentialedData h (rt_resets rt)\<rparr>
      | Call_resetAccessTokens \<Rightarrow> rt\<lparr>rt_tokens := resetAccessTokens (rt_tokens rt)\<rparr>
      | Call_deleteClient server \<Rightarrow> rt\<lparr>rt_cache := deleteClient server (rt_cache rt)\<rparr>)"

definition dispatch :: "deps \<Rightarrow> root_action \<Rightarrow> runtime \<Rightarrow> runtime" where
  "dispatch d a rt =
     (let (r, es) = rootReducer d a (rt_store rt);
          rt' = (case r of Inl e \<Rightarrow> rt | Inr s \<Rightarrow> rt\<lparr>rt_store := s\<rparr>)
      in foldl perform rt' es)"

definition dispatch_all :: "deps \<Rightarrow> root_action list \<Rightarrow> runtime \<Rightarrow> runtime" where
  "dispatch_all d as rt = foldl (\<lambda>rt a. dispatch d a rt) rt as"

definition request_reset :: "string option \<Rightarrow> runtime \<Rightarrow> runtime" where
  "request_reset h rt = rt\<lparr>rt_resets := resetCredentialedData h (rt_resets rt)\<rparr>"

text \<open>
  The verification of an account asks the server for the current user: there may be no client to ask with,
  the call may be answered, or it may be refused.
\<close>

datatype verification = NoClient | Verified user | Refused

definition verify_account :: "deps \<Rightarrow> rellm_account \<Rightarrow> verification \<Rightarrow> runtime \<Rightarrow> runtime" where
  "verify_account d account v rt =
     (case v of
        NoClient \<Rightarrow> rt
      | Verified u \<Rightarrow> dispatch d (R_accounts (UpsertAccount (account\<lparr>acct_user := u\<rparr>))) rt
      | Refused \<Rightarrow> dispatch d (R_accounts (UpsertAccount (failed_account account))) rt)"

text \<open>
  What a callback does when it fires.  Reloading the pages of a group and updating a server start thunks:
  only the outcome of a thunk changes the slices, and that is an action of its own, except for the marking
  of the servers slice.  An empty \<open>currentServerId\<close> is as falsy as a missing one.
\<close>

definition current_server :: "runtime \<Rightarrow> string option" where
  "current_server rt =
     (case currentServerId (st_servers (rt_store rt)) of Some i \<Rightarrow> (if i = [] then None else Some i) | None \<Rightarrow> None)"

fun fire_task :: "deps \<Rightarrow> verification \<Rightarrow> task \<Rightarrow> runtime \<Rightarrow> runtime" where
  "fire_task d v (T_pinServer p) rt = dispatch d (R_accounts (PinServer p)) rt"
| "fire_task d v (T_ensureCreationServerPinned i) rt =
     (let pin = find_pin i (pinnedServers (st_accounts (rt_store rt)))
      in if (case pin of None \<Rightarrow> True | Some p \<Rightarrow> \<not> ps_pinned p)
         then dispatch d (R_accounts (PinServer
                \<lparr>ps_serverId = i, ps_accountId = Option.bind pin ps_accountId, ps_pinned = True\<rparr>)) rt
         else rt)"
| "fire_task d v (T_syncExcludeCurrentServer p) rt =
     (if currentServerId (st_servers (rt_store rt)) = Some (ps_serverId p)
      then dispatch d (R_accounts (SetExcludeCurrentServer (\<not> ps_pinned p))) rt else rt)"
| "fire_task d v T_clearServerAlerts rt = dispatch d (R_servers ClearServerAlerts) rt"
| "fire_task d v T_clearAccountAlerts rt = dispatch d (R_accounts ClearAccountAlerts) rt"
| "fire_task d v (T_resetForSelectedAccount account) rt =
     (case current_server rt of
        None \<Rightarrow> rt
      | Some i \<Rightarrow>
          (let h = serverIDHost i;
               ah = map_option (\<lambda>a. host (acct_server a)) account;
               rt' = request_reset h rt
           in if h \<noteq> ah then request_reset ah rt' else rt'))"
| "fire_task d v (T_verifySelectedAccount account) rt = verify_account d account v rt"
| "fire_task d v (T_verifyPinnedAccount account) rt =
     (let rt' = verify_account d account v rt
      in case v of Verified u \<Rightarrow> request_reset (Some (host (acct_server account))) rt' | _ \<Rightarrow> rt')"
| "fire_task d v T_unpinCurrentServerAccount rt =
     (case current_server rt of
        None \<Rightarrow> rt
      | Some i \<Rightarrow> dispatch d (R_accounts (UnpinAccountByServerId i)) rt)"
| "fire_task d v (T_resetCredentialedData h) rt = request_reset h rt"
| "fire_task d v (T_upsertAccount account) rt = dispatch d (R_accounts (UpsertAccount account)) rt"
| "fire_task d v (T_upsertServer server) rt = dispatch d (R_servers UpsertServer_pending) rt"
| "fire_task d v (T_upsertUserData server us) rt =
     dispatch_all d (map (\<lambda>u. R_accounts (UpsertUserData server u)) us) rt"
| "fire_task d v (T_notifyUserDeleted server u) rt = dispatch d (R_accounts (NotifyUserDeleted server u)) rt"
| "fire_task d v (T_resetUserPages h) rt =
     dispatch_all d [R_users (ResetUserPosts h), R_users (ResetUserEvents h)] rt"
| "fire_task d v (T_markGroupVisit g h) rt =
     dispatch d (R_config (MarkGroupVisit \<lparr>entity = g, serverHostOf = h\<rparr>)) rt"
| "fire_task d v (T_reloadGroupPages i) rt = rt"

definition fire_timer :: "deps \<Rightarrow> verification \<Rightarrow> nat \<Rightarrow> runtime \<Rightarrow> runtime" where
  "fire_timer d v n rt =
     (if n < length (rt_timers rt)
      then fire_task d v (rt_timers rt ! n)
             (rt\<lparr>rt_timers := take n (rt_timers rt) @ drop (Suc n) (rt_timers rt)\<rparr>)
      else rt)"

text \<open>The timer of \<open>resetCredentialedData\<close>.\<close>

definition reset_slices :: "string \<Rightarrow> root_action list" where
  "reset_slices h =
     [R_media (ResetMedia (Some h)), R_events (ResetEvents (Some h)), R_posts (ResetPosts (Some h)),
      R_groups (ResetGroups (Some h)), R_users (ResetUsers (Some h))]"

definition fire_reset_timer :: "deps \<Rightarrow> nat \<Rightarrow> runtime \<Rightarrow> runtime" where
  "fire_reset_timer d n rt =
     (case fire_reset n (rt_resets rt) of
        (q, None) \<Rightarrow> rt
      | (q, Some h) \<Rightarrow> dispatch_all d (reset_slices h) (rt\<lparr>rt_resets := q\<rparr>))"

definition resetAllData :: "deps \<Rightarrow> runtime \<Rightarrow> runtime" where
  "resetAllData d rt =
     (let serverHosts = map serverIDHost (ids (servers_entities (st_servers (rt_store rt))))
      in dispatch_all d
           ([R_servers ResetServers, R_accounts ResetAccounts] @
            concat (map (\<lambda>h. [R_posts (ResetPosts h), R_groups (ResetGroups h), R_users (ResetUsers h),
                              R_media (ResetMedia h)]) serverHosts) @
            [R_config ResetConfig]) rt)"


section \<open>Runs\<close>

datatype runtime_event =
    Dispatched root_action
  | Timer nat verification
  | ResetTimer nat
  | ResetAll

definition runtime_step :: "deps \<Rightarrow> runtime \<Rightarrow> runtime_event \<Rightarrow> runtime" where
  "runtime_step d rt ev =
     (case ev of
        Dispatched a \<Rightarrow> dispatch d a rt
      | Timer n v \<Rightarrow> fire_timer d v n rt
      | ResetTimer n \<Rightarrow> fire_reset_timer d n rt
      | ResetAll \<Rightarrow> resetAllData d rt)"

section \<open>Well-formedness of a run\<close>

text \<open>
  The servers are looked at apart (\<open>srv\<close>): SetServerIdOrder writes an order unchecked, and the other slices do not depend
  on it.
\<close>

definition store_wf :: "bool \<Rightarrow> store_state \<Rightarrow> bool" where
  "store_wf srv s \<longleftrightarrow> accounts_wf (st_accounts s) \<and> (srv \<longrightarrow> servers_wf (st_servers s)) \<and> media_wf (st_media s) \<and>
     posts_wf (st_posts s) \<and> events_wf (st_events s) \<and> users_wf (st_users s) \<and> groups_wf (st_groups s)"

definition deps_ok :: "deps \<Rightarrow> bool" where
  "deps_ok d \<longleftrightarrow>
     entity_adapter (d_accounts d) account_key merge_account \<and>
     entity_adapter (d_servers d) serverID merge_server \<and>
     entity_adapter (d_media d) media_key replace_all \<and>
     entity_adapter (d_posts d) post_key replace_all \<and>
     entity_adapter (d_events d) event_key replace_all \<and>
     entity_adapter (d_users d) user_key merge_user \<and>
     entity_adapter (d_groups d) group_key replace_all"

definition runtime_wf :: "bool \<Rightarrow> runtime \<Rightarrow> bool" where
  "runtime_wf srv rt \<longleftrightarrow> store_wf srv (rt_store rt) \<and> queue_wf (rt_resets rt)"

lemma map_sum_pair: "map_sum id (\<lambda>(x, es). (f x, es)) r = Inr p \<longleftrightarrow> (\<exists>x es. r = Inr (x, es) \<and> p = (f x, es))"
  by (cases r) auto

lemma slice_reducer_wf:
  assumes "deps_ok d" "store_wf srv s" "slice_reducer d a s = Inr p" "srv \<longrightarrow> (\<forall>order. a \<noteq> S_servers (SetServerIdOrder order))"
  shows "store_wf srv (fst p)"
  using assms unfolding deps_ok_def store_wf_def
  by (cases a)
    (auto simp: map_sum_Inr map_sum_pair media_reducer_wf events_reducer_wf
      dest: accounts_reducer_wf servers_reducer_wf posts_reducer_wf users_reducer_wf groups_reducer_wf)

lemma reduce_slices_wf:
  assumes "deps_ok d" "srv \<longrightarrow> (\<forall>a \<in> set as. \<forall>order. a \<noteq> S_servers (SetServerIdOrder order))"
  shows "store_wf srv s \<Longrightarrow> fst (reduce_slices d as s) = Inr s' \<Longrightarrow> store_wf srv s'"
  using assms(2)
proof (induction as arbitrary: s)
  case (Cons a as)
  then obtain p where p: "slice_reducer d a s = Inr p"
    by (cases "slice_reducer d a s") auto
  then have "store_wf srv (fst p)"
    using slice_reducer_wf [OF assms(1) Cons.prems(1)] Cons.prems(3) by simp
  then show ?case
    using Cons p by (auto split: prod.splits)
qed simp

lemma slices_of_order:
  "a \<noteq> R_servers (SetServerIdOrder order) \<Longrightarrow> S_servers (SetServerIdOrder order) \<notin> set (slices_of u a)"
  by (cases a) auto

lemma perform_access [simp]: "rt_store (perform rt e) = rt_store rt"
  by (simp add: perform_def split: effect.split)

lemma perform_all_store [simp]: "rt_store (foldl perform rt es) = rt_store rt"
  by (induction es arbitrary: rt) simp_all

lemma reset_request_wf: "queue_wf q \<Longrightarrow> queue_wf (resetCredentialedData h q)"
  using reset_step_wf [of q "Request h"] by (simp add: reset_step_def)

lemma perform_queue: "queue_wf (rt_resets rt) \<Longrightarrow> queue_wf (rt_resets (perform rt e))"
  by (auto simp: perform_def reset_request_wf split: effect.split)

lemma perform_all_queue: "queue_wf (rt_resets rt) \<Longrightarrow> queue_wf (rt_resets (foldl perform rt es))"
  by (induction es arbitrary: rt) (simp_all add: perform_queue)

lemma dispatch_store:
  "rt_store (dispatch d a rt) =
     (case fst (rootReducer d a (rt_store rt)) of Inl e \<Rightarrow> rt_store rt | Inr s \<Rightarrow> s)"
  by (simp add: dispatch_def Let_def split: prod.split sum.split)

lemma dispatch_wf:
  assumes "deps_ok d" "runtime_wf srv rt" "srv \<longrightarrow> (\<forall>order. a \<noteq> R_servers (SetServerIdOrder order))"
  shows "runtime_wf srv (dispatch d a rt)"
proof -
  have "srv \<longrightarrow> (\<forall>b \<in> set (slices_of (d_unix d) a). \<forall>order. b \<noteq> S_servers (SetServerIdOrder order))"
    using slices_of_order [of a _ "d_unix d"] assms(3) by blast
  then have "store_wf srv s'" if "fst (rootReducer d a (rt_store rt)) = Inr s'" for s'
    using that reduce_slices_wf [OF assms(1), where as = "slices_of (d_unix d) a" and s = "rt_store rt"] assms(2)
    by (simp add: rootReducer_def runtime_wf_def)
  moreover have "queue_wf (rt_resets (dispatch d a rt))"
    using assms(2) by (auto simp: dispatch_def runtime_wf_def Let_def intro!: perform_all_queue split: prod.split sum.split)
  ultimately show ?thesis
    using assms(2) by (auto simp: runtime_wf_def dispatch_store split: sum.split)
qed

lemma dispatch_all_wf:
  assumes "deps_ok d" "srv \<longrightarrow> (\<forall>a \<in> set as. \<forall>order. a \<noteq> R_servers (SetServerIdOrder order))"
  shows "runtime_wf srv rt \<Longrightarrow> runtime_wf srv (dispatch_all d as rt)"
  using assms(2)
  by (induction as arbitrary: rt) (simp_all add: dispatch_all_def dispatch_wf [OF assms(1)])

lemma request_reset_wf: "runtime_wf srv rt \<Longrightarrow> runtime_wf srv (request_reset h rt)"
  by (simp add: runtime_wf_def request_reset_def reset_request_wf)

lemma verify_account_wf: "deps_ok d \<Longrightarrow> runtime_wf srv rt \<Longrightarrow> runtime_wf srv (verify_account d a v rt)"
  by (simp add: verify_account_def dispatch_wf split: verification.split)

lemma fire_task_wf:
  assumes "deps_ok d" "runtime_wf srv rt"
  shows "runtime_wf srv (fire_task d v t rt)"
  using assms
  by (cases t)
    (auto simp: Let_def dispatch_wf dispatch_all_wf request_reset_wf verify_account_wf
      split: option.split verification.split)

lemma fire_timer_wf: "deps_ok d \<Longrightarrow> runtime_wf srv rt \<Longrightarrow> runtime_wf srv (fire_timer d v n rt)"
  by (auto simp: fire_timer_def runtime_wf_def intro!: fire_task_wf [unfolded runtime_wf_def])

lemma fire_reset_timer_wf:
  assumes "deps_ok d" "runtime_wf srv rt"
  shows "runtime_wf srv (fire_reset_timer d n rt)"
proof -
  have "queue_wf (fst (fire_reset n (rt_resets rt)))"
    using reset_step_wf [of "rt_resets rt" "Fire n"] assms(2) by (simp add: reset_step_def runtime_wf_def)
  then show ?thesis
    using assms
    by (auto simp: fire_reset_timer_def reset_slices_def runtime_wf_def
        intro!: dispatch_all_wf [OF assms(1), unfolded runtime_wf_def] split: prod.split option.split)
qed

lemma runtime_step_wf:
  assumes "deps_ok d" "runtime_wf srv rt" "srv \<longrightarrow> (\<forall>order. ev \<noteq> Dispatched (R_servers (SetServerIdOrder order)))"
  shows "runtime_wf srv (runtime_step d rt ev)"
  using assms
  by (cases ev)
    (auto simp: runtime_step_def fire_timer_wf fire_reset_timer_wf dispatch_wf resetAllData_def Let_def
      intro!: dispatch_all_wf)

text \<open>An order that lists every server once.\<close>

definition full_order :: "string list \<Rightarrow> store_state \<Rightarrow> bool" where
  "full_order order s \<longleftrightarrow> distinct order \<and> set order = set (ids (servers_entities (st_servers s)))"

lemma dispatch_order_wf:
  assumes "runtime_wf srv rt" "srv \<longrightarrow> full_order order (rt_store rt)"
  shows "runtime_wf srv (dispatch d (R_servers (SetServerIdOrder order)) rt)"
proof -
  have "rt_store (dispatch d (R_servers (SetServerIdOrder order)) rt) =
      (rt_store rt)\<lparr>st_servers := setServerIdOrder order (st_servers (rt_store rt))\<rparr>"
    by (simp add: dispatch_store rootReducer_def)
  moreover have "rt_resets (dispatch d (R_servers (SetServerIdOrder order)) rt) = rt_resets rt"
    by (simp add: dispatch_def rootReducer_def)
  ultimately show ?thesis
    using assms edit_server_ids_wf [of "st_servers (rt_store rt)" "\<lambda>_. order"]
    by (auto simp: runtime_wf_def store_wf_def full_order_def setServerIdOrder_def)
qed

lemma initial_runtime_wf: "runtime_wf srv (initial_runtime c now)"
  by (simp add: runtime_wf_def initial_runtime_def initial_store_def store_wf_def queue_wf_def empty_queue_def)

section \<open>Resets\<close>

lemma dispatch_all_Cons: "dispatch_all d (a # as) rt = dispatch_all d as (dispatch d a rt)"
  by (simp add: dispatch_all_def)

lemma dispatch_all_Nil [simp]: "dispatch_all d [] rt = rt"
  by (simp add: dispatch_all_def)

lemma dispatch_all_append: "dispatch_all d (as @ bs) rt = dispatch_all d bs (dispatch_all d as rt)"
  by (simp add: dispatch_all_def)

text \<open>The state after each of the actions that reset something.\<close>

lemma dispatch_resets [store_simps]:
  "rt_store (dispatch d (R_media (ResetMedia h)) rt) = (rt_store rt)\<lparr>st_media := resetMedia (d_media d) h (st_media (rt_store rt))\<rparr>"
  "rt_store (dispatch d (R_posts (ResetPosts h)) rt) = (rt_store rt)\<lparr>st_posts := resetPosts (d_posts d) h (st_posts (rt_store rt))\<rparr>"
  "rt_store (dispatch d (R_events (ResetEvents h)) rt) = (rt_store rt)\<lparr>st_events := resetEvents (d_events d) h (st_events (rt_store rt))\<rparr>"
  "rt_store (dispatch d (R_groups (ResetGroups h)) rt) = (rt_store rt)\<lparr>st_groups := resetGroups (d_groups d) h (st_groups (rt_store rt))\<rparr>"
  "rt_store (dispatch d (R_users (ResetUsers h)) rt) = (rt_store rt)\<lparr>st_users := fst (resetUsers (d_users d) h (st_users (rt_store rt)))\<rparr>"
  "rt_store (dispatch d (R_servers ResetServers) rt) = (rt_store rt)\<lparr>st_servers := initial_servers\<rparr>"
  "rt_store (dispatch d (R_accounts ResetAccounts) rt) = (rt_store rt)\<lparr>st_accounts := initial_accounts\<rparr>"
  "rt_store (dispatch d (R_config ResetConfig) rt) = (rt_store rt)\<lparr>st_config := d_config d\<rparr>"
  by (simp_all add: dispatch_store rootReducer_def resetServers_def resetAccounts_def split: prod.split)

text \<open>What the five slices that hold what was loaded from a host have under an identifier, and the pages of their lists.\<close>

definition filed_at ::
  "store_state \<Rightarrow> string \<Rightarrow>
     federated_media option \<times> federated_post option \<times> federated_event option \<times> federated_user option \<times> federated_group option"
where
  "filed_at s k =
     (entities (media_entities (st_media s)) k, entities (posts_entities (st_posts s)) k,
      entities (events_entities (st_events s)) k, entities (users_entities (st_users s)) k,
      entities (groups_entities (st_groups s)) k)"

abbreviation pages_of where
  "pages_of s \<equiv> (userMediaPages (st_media s), postPages (st_posts s), occasionPages (st_events s), userPages (st_users s),
     groupPages (st_groups s))"

lemma slice_resets:
  assumes "deps_ok d" "h \<noteq> []"
  shows "media_wf m \<Longrightarrow> entities (media_entities (resetMedia (d_media d) (Some h) m)) =
      dict_delete_where (id_on_host h) (entities (media_entities m))"
    "posts_wf p \<Longrightarrow> entities (posts_entities (resetPosts (d_posts d) (Some h) p)) =
      dict_delete_where (id_on_host h) (entities (posts_entities p))"
    "events_wf e \<Longrightarrow> entities (events_entities (resetEvents (d_events d) (Some h) e)) =
      dict_delete_where (id_on_host h) (entities (events_entities e))"
    "users_wf u \<Longrightarrow> entities (users_entities (fst (resetUsers (d_users d) (Some h) u))) =
      dict_delete_where (id_on_host h) (entities (users_entities u))"
    "groups_wf g \<Longrightarrow> entities (groups_entities (resetGroups (d_groups d) (Some h) g)) =
      dict_delete_where (id_on_host h) (entities (groups_entities g))"
  using assms resettable_slice.stored_reset [OF media_resettable] resettable_slice.stored_reset [OF posts_resettable]
    resettable_slice.stored_reset [OF events_resettable] resettable_slice.stored_reset [OF users_resettable]
    resettable_slice.stored_reset [OF groups_resettable]
  by (auto simp: deps_ok_def)

lemma reset_slices_store:
  assumes "deps_ok d" "store_wf srv (rt_store rt)" "h \<noteq> []"
    and "s' = rt_store (dispatch_all d (reset_slices h) rt)" "s = rt_store rt"
  shows "entities (media_entities (st_media s')) = dict_delete_where (id_on_host h) (entities (media_entities (st_media s)))"
    "entities (posts_entities (st_posts s')) = dict_delete_where (id_on_host h) (entities (posts_entities (st_posts s)))"
    "entities (events_entities (st_events s')) = dict_delete_where (id_on_host h) (entities (events_entities (st_events s)))"
    "entities (users_entities (st_users s')) = dict_delete_where (id_on_host h) (entities (users_entities (st_users s)))"
    "entities (groups_entities (st_groups s')) = dict_delete_where (id_on_host h) (entities (groups_entities (st_groups s)))"
    "st_config s' = st_config s" "st_accounts s' = st_accounts s" "st_servers s' = st_servers s"
    "userMediaPages (st_media s') = deleteFederated (userMediaPages (st_media s)) h"
    "postPages (st_posts s') = deleteFederated (postPages (st_posts s)) h"
    "occasionPages (st_events s') = deleteFederated (occasionPages (st_events s)) h"
    "userPages (st_users s') = deleteFederated (userPages (st_users s)) h"
    "groupPages (st_groups s') = deleteFederated (groupPages (st_groups s)) h"
    "failedUsernames (st_users s') = failedUsernames (st_users s)" "usernameIds (st_users s') = usernameIds (st_users s)"
  using assms(2,3) slice_resets [OF assms(1,3)]
  unfolding assms(4,5)
  by (simp_all add: reset_slices_def dispatch_all_Cons store_simps store_wf_def)
    (simp_all add: resetMedia_def resetPosts_def resetEvents_def resetUsers_def resetGroups_def Let_def)

lemma reset_all_events:
  "as = concat (map (\<lambda>h. [R_posts (ResetPosts h), R_groups (ResetGroups h), R_users (ResetUsers h),
                              R_media (ResetMedia h)]) hosts) \<Longrightarrow>
   st_events (rt_store (dispatch_all d as rt)) = st_events (rt_store rt) \<and>
   st_servers (rt_store (dispatch_all d as rt)) = st_servers (rt_store rt) \<and>
   st_accounts (rt_store (dispatch_all d as rt)) = st_accounts (rt_store rt)"
  by (induction hosts arbitrary: as rt) (simp_all add: dispatch_all_Cons store_simps)


section \<open>Properties\<close>

definition sample_config :: config where
  "sample_config = initial_config [] False"

definition sample_deps :: deps where
  "sample_deps =
     \<lparr>d_unix = (\<lambda>_. 0), d_config = sample_config,
      d_accounts = ref_adapter account_key merge_account None, d_servers = ref_adapter serverID merge_server None,
      d_media = ref_adapter media_key replace_all None, d_posts = ref_adapter post_key replace_all None,
      d_events = ref_adapter event_key replace_all None, d_users = ref_adapter user_key merge_user None,
      d_groups = ref_adapter group_key replace_all None\<rparr>"

lemma sample_deps_ok: "deps_ok sample_deps"
  unfolding deps_ok_def sample_deps_def
  by (simp add: accounts_ref.entity_adapter_axioms servers_ref.entity_adapter_axioms
      media_ref.entity_adapter_axioms posts_ref.entity_adapter_axioms events_ref.entity_adapter_axioms
      users_ref.entity_adapter_axioms groups_ref.entity_adapter_axioms)

text \<open>
  C1: Whatever is dispatched and whichever timers fire, in any order, the accounts, the media, the posts,
  the events, the users and the groups keep their tables well formed, every server is pinned at most once, and every host
  has at most one reset outstanding.  The table of the servers is well formed too, as long as every order the servers are
  given by SetServerIdOrder lists each of them once.
\<close>

theorem store_invariant:
  assumes "deps_ok d" "rt = foldl (runtime_step d) (initial_runtime c now) evs" "s = rt_store rt"
  shows "wf_entities account_key (accounts_entities (st_accounts s)) \<and>
    distinct (map ps_serverId (pinnedServers (st_accounts s))) \<and>
    wf_entities media_key (media_entities (st_media s)) \<and>
    wf_entities post_key (posts_entities (st_posts s)) \<and>
    wf_entities event_key (events_entities (st_events s)) \<and>
    wf_entities user_key (users_entities (st_users s)) \<and>
    wf_entities group_key (groups_entities (st_groups s)) \<and>
    distinct (resetTimers (rt_resets rt)) \<and>
    ((\<forall>before order after. evs = before @ Dispatched (R_servers (SetServerIdOrder order)) # after \<longrightarrow>
        full_order order (rt_store (foldl (runtime_step d) (initial_runtime c now) before))) \<longrightarrow>
      wf_entities serverID (servers_entities (st_servers s)))"
proof -
  let ?run = "foldl (runtime_step d) (initial_runtime c now)"
  let ?full = "\<lambda>evs. \<forall>before order after. evs = before @ Dispatched (R_servers (SetServerIdOrder order)) # after \<longrightarrow>
    full_order order (rt_store (?run before))"
  have "runtime_wf srv (?run evs)" if "srv \<longrightarrow> ?full evs" for srv
    using that
  proof (induction evs rule: rev_induct)
    case (snoc ev evs)
    have "srv \<longrightarrow> ?full evs" using snoc.prems by auto
    from snoc.IH [OF this] have wf: "runtime_wf srv (?run evs)" .
    show ?case
    proof (cases "\<exists>order. ev = Dispatched (R_servers (SetServerIdOrder order))")
      case True
      then obtain order where ev: "ev = Dispatched (R_servers (SetServerIdOrder order))" by blast
      have "srv \<longrightarrow> full_order order (rt_store (?run evs))"
        using snoc.prems unfolding ev by blast
      from dispatch_order_wf [OF wf this, of d] show ?thesis
        by (simp add: ev runtime_step_def [of d _ "Dispatched (R_servers (SetServerIdOrder order))"])
    next
      case False
      then show ?thesis using runtime_step_wf [OF assms(1) wf] by simp
    qed
  qed (simp add: initial_runtime_wf)
  from this [of False] this [of "?full evs"] show ?thesis
    unfolding assms(2,3)
    by (simp add: runtime_wf_def store_wf_def accounts_wf_def media_wf_def posts_wf_def events_wf_def
        users_wf_def groups_wf_def queue_wf_def)
qed

theorem store_invariant_witness:
  "let s = rt_store (foldl (runtime_step sample_deps) (initial_runtime sample_config [])
     [Dispatched (R_accounts (PinServer (sample_pin ''https:h'' None))), Timer 0 NoClient,
      Dispatched (R_servers (SetServerIdOrder [''x'', ''x''])), ResetAll])
   in distinct (map ps_serverId (pinnedServers (st_accounts s)))"
  using store_invariant [OF sample_deps_ok refl refl,
      of sample_config "[]" "[Dispatched (R_accounts (PinServer (sample_pin ''https:h'' None))), Timer 0 NoClient,
      Dispatched (R_servers (SetServerIdOrder [''x'', ''x''])), ResetAll]"]
  by (simp add: Let_def)

text \<open>
  C11: When the debounced reset of a host fires, the tables of media, posts, events, users and
  groups lose exactly the entries of that host, and so do the pages of their lists; the accounts, the servers and the
  configuration stay as they are.  The names of users stay too, those that failed and those that are known by name, also
  the ones of the host.
\<close>

theorem reset_timer_forgets_host:
  assumes "deps_ok d" "runtime_wf False rt" "n < length (resetTimers (rt_resets rt))"
    and "h = resetTimers (rt_resets rt) ! n" "s = rt_store rt" "s' = rt_store (fire_reset_timer d n rt)"
  shows "filed_at s' k = (if id_on_host h k then (None, None, None, None, None) else filed_at s k) \<and>
    pages_of s' = (case pages_of s of (m, p, e, u, g) \<Rightarrow>
      (deleteFederated m h, deleteFederated p h, deleteFederated e h, deleteFederated u h, deleteFederated g h)) \<and>
    st_accounts s' = st_accounts s \<and> st_servers s' = st_servers s \<and> st_config s' = st_config s \<and>
    failedUsernames (st_users s') = failedUsernames (st_users s) \<and> usernameIds (st_users s') = usernameIds (st_users s)"
proof -
  have h: "h \<noteq> []"
    using assms(2-4) nth_mem by (fastforce simp: runtime_wf_def queue_wf_def)
  obtain q where q: "fire_reset n (rt_resets rt) = (q, Some h)"
    using assms(3,4) by (simp add: fire_reset_def Let_def)
  have s': "s' = rt_store (dispatch_all d (reset_slices h) (rt\<lparr>rt_resets := q\<rparr>))"
    unfolding assms(6) by (simp add: fire_reset_timer_def q)
  have s: "s = rt_store (rt\<lparr>rt_resets := q\<rparr>)"
    unfolding assms(5) by simp
  have wf: "store_wf False (rt_store (rt\<lparr>rt_resets := q\<rparr>))"
    using assms(2) by (simp add: runtime_wf_def)
  note after = reset_slices_store [OF assms(1) wf h s' s]
  show ?thesis
    using after by (simp add: filed_at_def)
qed

definition sample_runtime :: runtime where
  "sample_runtime =
     (dispatch sample_deps (R_media (LoadMedia_fulfilled \<lparr>mr_server = None, mr_id = ''m''\<rparr>
        \<lparr>media_id = ''m'', media_sizes = [], media_createdAt = None, media_rest = []\<rparr>))
       (initial_runtime sample_config []))
     \<lparr>rt_resets := resetCredentialedData (Some ''default'') empty_queue\<rparr>"

lemma sample_runtime_wf: "runtime_wf False sample_runtime"
proof -
  have "runtime_wf False (dispatch sample_deps (R_media (LoadMedia_fulfilled \<lparr>mr_server = None, mr_id = ''m''\<rparr>
        \<lparr>media_id = ''m'', media_sizes = [], media_createdAt = None, media_rest = []\<rparr>))
       (initial_runtime sample_config []))"
    by (rule dispatch_wf [OF sample_deps_ok initial_runtime_wf]) simp
  moreover have "queue_wf empty_queue"
    by (simp add: queue_wf_def empty_queue_def)
  ultimately show ?thesis
    by (simp add: sample_runtime_def runtime_wf_def reset_request_wf)
qed

lemma sample_runtime_queue: "resetTimers (rt_resets sample_runtime) = [''default'']"
  by (simp add: sample_runtime_def resetCredentialedData_def empty_queue_def)

theorem reset_timer_forgets_host_witness:
  "filed_at (rt_store (fire_reset_timer sample_deps 0 sample_runtime)) ''m@default'' = (None, None, None, None, None)"
proof -
  have "id_on_host ''default'' ''m@default''"
    using id_on_host_mk [of "''m''" "''default''" "''default''"] by (simp add: mk_federated_id_def)
  moreover have "filed_at (rt_store (fire_reset_timer sample_deps 0 sample_runtime)) ''m@default'' =
      (if id_on_host ''default'' ''m@default'' then (None, None, None, None, None)
       else filed_at (rt_store sample_runtime) ''m@default'')"
    by (rule reset_timer_forgets_host [OF sample_deps_ok sample_runtime_wf _ _ refl refl, THEN conjunct1])
      (simp_all only: sample_runtime_queue list.size nth_Cons_0 One_nat_def add_0 zero_less_Suc)
  ultimately show ?thesis
    by (simp only: if_True)
qed

text \<open>
  The reset of everything clears the accounts and the servers, but the events
  and their pages stay as they were.
\<close>

theorem resetAllData_keeps_events:
  "st_events (rt_store (resetAllData d rt)) = st_events (rt_store rt) \<and>
   st_accounts (rt_store (resetAllData d rt)) = initial_accounts \<and>
   st_servers (rt_store (resetAllData d rt)) = initial_servers \<and>
   st_config (rt_store (resetAllData d rt)) = d_config d"
  by (simp add: resetAllData_def Let_def dispatch_all_Cons dispatch_all_append store_simps
      reset_all_events [OF refl] del: map_map)

text \<open>
  Removing a server drops it, its client and, once the timer has fired, its
  pin's mark, and requests a reset of its host; the account chosen there and the current server stay.
\<close>

theorem removed_server_unpinned:
  assumes "deps_ok d"
    and "rt1 = dispatch d (R_servers (RemoveServer sv)) rt" "rt2 = fire_timer d v (length (rt_timers rt)) rt1"
  shows "entities (servers_entities (st_servers (rt_store rt2))) (serverID sv) = None \<and>
    clients (rt_cache rt2) (serverID sv) = None \<and>
    (\<exists>p. find_pin (serverID sv) (pinnedServers (st_accounts (rt_store rt2))) = Some p \<and> \<not> ps_pinned p \<and>
         ps_accountId p = Option.bind (find_pin (serverID sv) (pinnedServers (st_accounts (rt_store rt)))) ps_accountId) \<and>
    (host sv = [] \<or> host sv \<in> set (pendingServerHostResets (rt_resets rt2))) \<and>
    currentServerId (st_servers (rt_store rt2)) = currentServerId (st_servers (rt_store rt))"
proof -
  let ?pin = "\<lparr>ps_serverId = serverID sv, ps_accountId = None, ps_pinned = False\<rparr>"
  have ad: "entity_adapter (d_servers d) serverID merge_server"
    using assms(1) by (simp add: deps_ok_def)
  have rt1: "rt1 = rt\<lparr>rt_store := (rt_store rt)\<lparr>st_servers := fst (removeServer (d_servers d) sv (st_servers (rt_store rt)))\<rparr>,
      rt_timers := rt_timers rt @ [T_pinServer ?pin], rt_cache := deleteClient sv (rt_cache rt),
      rt_resets := resetCredentialedData (Some (host sv)) (rt_resets rt)\<rparr>"
    unfolding assms(2) by (simp add: dispatch_def rootReducer_def removeServer_def perform_def)
  have rt2: "rt2 = dispatch d (R_accounts (PinServer ?pin)) (rt1\<lparr>rt_timers := rt_timers rt\<rparr>)"
    unfolding assms(3) by (simp add: fire_timer_def rt1 nth_append)
  have store2: "rt_store rt2 = (rt_store rt1)\<lparr>st_accounts := fst (pinServer ?pin (st_accounts (rt_store rt1)))\<rparr>"
    unfolding rt2 by (simp add: dispatch_store rootReducer_def split: prod.split)
  have others: "rt_cache rt2 = rt_cache rt1" "rt_resets rt2 = rt_resets rt1"
    unfolding rt2 by (simp_all add: dispatch_def rootReducer_def pinServer_def perform_def)
  have pinned: "find_pin (serverID sv) (pinnedServers (fst (pinServer ?pin s))) =
      Some \<lparr>ps_serverId = serverID sv, ps_accountId = Option.bind (find_pin (serverID sv) (pinnedServers s)) ps_accountId,
            ps_pinned = False\<rparr>" for s
  proof (cases "find_pin (serverID sv) (pinnedServers s)")
    case (Some p)
    then have "ps_serverId p = serverID sv"
      by (auto simp: find_pin_def find_Some_iff)
    then show ?thesis
      using Some by (auto simp: pinServer_def find_pin_edit_or_push intro!: pinned_server.equality)
  qed (simp add: pinServer_def find_pin_edit_or_push)
  show ?thesis
    using adapter_entities [OF ad]
    by (auto simp: store2 others rt1 pinned removeServer_def deleteClient_def resetCredentialedData_def)
qed

theorem removed_server_unpinned_witness:
  "\<exists>p. find_pin ''https:h'' (pinnedServers (st_accounts (rt_store (fire_timer sample_deps NoClient
     (length (rt_timers sample_runtime)) (dispatch sample_deps (R_servers (RemoveServer (bare_server ''h'' True))) sample_runtime))))) = Some p \<and>
     \<not> ps_pinned p"
proof -
  have "serverID (bare_server ''h'' True) = ''https:h''"
    by (simp add: serverID_def bare_server_def)
  then show ?thesis
    using removed_server_unpinned [OF sample_deps_ok refl refl, where sv = "bare_server ''h'' True"
        and rt = sample_runtime and v = NoClient]
    by auto
qed

end
