(* ===== verification/Theme.thy ===== *)
theory Theme
  imports Store_Types
begin

text \<open>
  The colours of a server's theme (hooks/server_theme_hooks.ts): from one colour, a text colour and the
  variants for dark and for light backgrounds, found by two shading loops.

  Channels are natural numbers.  The shading factors are 0.8 and 1.2 and channels are integers, so products
  are multiples of one fifth, and \<open>Math.round\<close> of the floating-point product is that of the exact
  one.  The luma of a colour is a sum of three rounded products compared with one half.  Scaled by
  2 550 000 it is an integer, so only an exact tie can be decided by rounding: the parameter \<open>tie\<close> says
  how, nothing is assumed about it, and every lemma holds for each.  Colours in \<open>hsl\<close> notation are outside the model
  (\<open>Untyped\<close>).
\<close>

section \<open>Hexadecimal notation\<close>

definition hex_value :: "char \<Rightarrow> nat option" where
  "hex_value c =
     (let n = of_char c :: nat
      in if 48 \<le> n \<and> n \<le> 57 then Some (n - 48)
         else if 97 \<le> n \<and> n \<le> 102 then Some (n - 87)
         else if 65 \<le> n \<and> n \<le> 70 then Some (n - 55)
         else None)"

definition hex_digit :: "nat \<Rightarrow> char" where
  "hex_digit n = char_of (if n < 10 then n + 48 else n + 87)"

text \<open>\<open>n.toString(16)\<close>\<close>

fun to_hex :: "nat \<Rightarrow> string" where
  "to_hex n = (if n < 16 then [hex_digit n] else to_hex (n div 16) @ [hex_digit (n mod 16)])"

declare to_hex.simps [simp del]

type_synonym rgb = "nat \<times> nat \<times> nat"

definition hex_pair :: "char \<Rightarrow> char \<Rightarrow> nat option" where
  "hex_pair a b =
     (case (hex_value a, hex_value b) of (Some x, Some y) \<Rightarrow> Some (16 * x + y) | _ \<Rightarrow> None)"

text \<open>\<open>/^#?([a-f\d]{2})([a-f\d]{2})([a-f\d]{2})$/i\<close> with \<open>parseInt(_, 16)\<close> on the groups.\<close>

definition parse_color :: "string \<Rightarrow> rgb option" where
  "parse_color color =
     (case (case color of c # cs \<Rightarrow> if c = CHR ''#'' then cs else color | [] \<Rightarrow> []) of
        [a, b, c, d, e, f] \<Rightarrow>
          (case (hex_pair a b, hex_pair c d, hex_pair e f) of
             (Some r, Some g, Some bl) \<Rightarrow> Some (r, g, bl)
           | _ \<Rightarrow> None)
      | _ \<Rightarrow> None)"

definition pad_hex :: "string \<Rightarrow> string" where
  "pad_hex s = (if length s = 1 then ''0'' @ s else s)"

definition encodeAsColor :: "rgb \<Rightarrow> string" where
  "encodeAsColor c =
     (case c of (r, g, b) \<Rightarrow> ''#'' @ pad_hex (to_hex r) @ pad_hex (to_hex g) @ pad_hex (to_hex b))"


section \<open>Luma\<close>

definition luma_excess :: "rgb \<Rightarrow> int" where
  "luma_excess c = (case c of (r, g, b) \<Rightarrow> 2126 * int r + 7152 * int g + 722 * int b - 1275000)"

text \<open>The sign of \<open>luma - 0.5\<close> as the floating-point comparison sees it.\<close>

definition luma_sign :: "(rgb \<Rightarrow> int) \<Rightarrow> rgb \<Rightarrow> int" where
  "luma_sign tie c = (if luma_excess c = 0 then tie c else sgn (luma_excess c))"

text \<open>A colour that is not hexadecimal: \<open>hsl\<close> notation is not modelled, anything else throws.\<close>

definition read_color :: "string \<Rightarrow> rgb result" where
  "read_color color =
     (case parse_color color of
        Some c \<Rightarrow> Inr c
      | None \<Rightarrow> Inl (if contains ''hsl('' color then Untyped else Thrown (''Invalid color: '' @ color)))"

definition colorLuma :: "(rgb \<Rightarrow> int) \<Rightarrow> string \<Rightarrow> int result" where
  "colorLuma tie color =
     bind_result (read_color color) (\<lambda>(r, g, b). Inr (luma_sign tie (min r 255, min g 255, min b 255)))"


section \<open>Shading\<close>

text \<open>
  \<open>percent\<close> is 20 or -20.  A channel the factor would leave unchanged after rounding moves by one; then it
  is clamped and rounded.
\<close>

definition round_fifths :: "int \<Rightarrow> int" where
  "round_fifths n = (2 * n + 5) div 10"

definition shade_channel :: "int \<Rightarrow> nat \<Rightarrow> nat" where
  "shade_channel percent n =
     (let scaled = int n * (100 + percent) div 20;
          moved = (if round_fifths scaled = int n
                   then (if percent > 0 then 5 * (int n + 1) else if percent < 0 then 5 * (int n - 1) else scaled)
                   else scaled)
      in nat (round_fifths (max 0 (min moved (5 * 255)))))"

definition shade :: "int \<Rightarrow> rgb \<Rightarrow> rgb" where
  "shade percent c =
     (case c of (r, g, b) \<Rightarrow> (shade_channel percent r, shade_channel percent g, shade_channel percent b))"

text \<open>
  The channels are cut out of the string by position, so the number sign is needed; the function is only
  called on encoded colours.
\<close>

definition shadeColor :: "string \<Rightarrow> int \<Rightarrow> string result" where
  "shadeColor color percent =
     (case parse_color color of
        Some c \<Rightarrow> if hd color = CHR ''#'' then Inr (encodeAsColor (shade percent c)) else Inl Untyped
      | None \<Rightarrow> Inl Untyped)"

definition channel_sum :: "string \<Rightarrow> nat" where
  "channel_sum color = (case parse_color color of Some (r, g, b) \<Rightarrow> r + g + b | None \<Rightarrow> 0)"


section \<open>Lemmas on notation\<close>

lemma hex_value_digit: "n < 16 \<Longrightarrow> hex_value (hex_digit n) = Some n"
  by (auto simp: hex_value_def hex_digit_def Let_def)

lemma two_hex_digits:
  assumes "n < 256"
  obtains a b where "pad_hex (to_hex n) = [a, b]" "hex_pair a b = Some n"
proof (cases "n < 16")
  case True
  then have "pad_hex (to_hex n) = [CHR ''0'', hex_digit n]"
    by (simp add: to_hex.simps [of n] pad_hex_def)
  moreover have "hex_pair (CHR ''0'') (hex_digit n) = Some n"
    using hex_value_digit [OF True] by (simp add: hex_pair_def hex_value_def)
  ultimately show ?thesis by (rule that)
next
  case False
  then have d: "n div 16 < 16"
    using assms by auto
  then have "pad_hex (to_hex n) = [hex_digit (n div 16), hex_digit (n mod 16)]"
    using False by (simp add: to_hex.simps [of n] to_hex.simps [of "n div 16"] pad_hex_def)
  moreover have "hex_pair (hex_digit (n div 16)) (hex_digit (n mod 16)) = Some n"
    using hex_value_digit [OF d] hex_value_digit [of "n mod 16"] by (simp add: hex_pair_def)
  ultimately show ?thesis by (rule that)
qed

lemma parse_encode:
  assumes "r < 256" "g < 256" "b < 256"
  shows "parse_color (encodeAsColor (r, g, b)) = Some (r, g, b)"
proof -
  obtain r1 r2 where "pad_hex (to_hex r) = [r1, r2]" "hex_pair r1 r2 = Some r"
    using two_hex_digits [OF assms(1)] .
  moreover obtain g1 g2 where "pad_hex (to_hex g) = [g1, g2]" "hex_pair g1 g2 = Some g"
    using two_hex_digits [OF assms(2)] .
  moreover obtain b1 b2 where "pad_hex (to_hex b) = [b1, b2]" "hex_pair b1 b2 = Some b"
    using two_hex_digits [OF assms(3)] .
  ultimately show ?thesis
    by (simp add: encodeAsColor_def parse_color_def)
qed

lemma hex_value_bound: "hex_value c = Some n \<Longrightarrow> n < 16"
  by (auto simp: hex_value_def Let_def split: if_splits)

lemma hex_pair_bound: "hex_pair a b = Some n \<Longrightarrow> n < 256"
  using hex_value_bound [of a] hex_value_bound [of b]
  by (fastforce simp: hex_pair_def split: option.splits)

lemma parse_bound: "parse_color color = Some (r, g, b) \<Longrightarrow> r < 256 \<and> g < 256 \<and> b < 256"
  using hex_pair_bound by (auto simp: parse_color_def split: list.splits option.splits if_splits)


section \<open>Lemmas on shading\<close>

lemma round_fifths_whole: "round_fifths (5 * n) = n"
  by (simp add: round_fifths_def)

lemma round_fifths_mono: "x \<le> y \<Longrightarrow> round_fifths x \<le> round_fifths y"
  unfolding round_fifths_def by (rule zdiv_mono1) simp_all

lemma clamped_bound: "nat (round_fifths (max 0 (min m 1275))) < 256"
proof -
  have "round_fifths (max 0 (min m 1275)) \<le> round_fifths (5 * 255)"
    by (rule round_fifths_mono) simp
  then show ?thesis
    unfolding round_fifths_whole by (simp add: nat_less_iff)
qed

lemma shade_channel_bound: "shade_channel percent n < 256"
  unfolding shade_channel_def Let_def using clamped_bound by simp

lemma shade_channel_cases:
  "shade_channel (-20) n =
     nat (round_fifths (max 0 (min (if round_fifths (4 * int n) = int n then 5 * (int n - 1) else 4 * int n) (5 * 255))))"
  "shade_channel 20 n =
     nat (round_fifths (max 0 (min (if round_fifths (6 * int n) = int n then 5 * (int n + 1) else 6 * int n) (5 * 255))))"
proof -
  have "int n * (100 + - 20) div 20 = 4 * int n" "int n * (100 + 20) div 20 = 6 * int n"
    by simp_all
  then show
    "shade_channel (-20) n =
       nat (round_fifths (max 0 (min (if round_fifths (4 * int n) = int n then 5 * (int n - 1) else 4 * int n) (5 * 255))))"
    "shade_channel 20 n =
       nat (round_fifths (max 0 (min (if round_fifths (6 * int n) = int n then 5 * (int n + 1) else 6 * int n) (5 * 255))))"
    unfolding shade_channel_def Let_def by simp_all
qed

lemma round_fifths_four: "round_fifths (4 * int n) \<le> int n"
  using round_fifths_mono [of "4 * int n" "5 * int n"] by (simp add: round_fifths_whole)

lemma round_fifths_six: "int n \<le> round_fifths (6 * int n)"
  using round_fifths_mono [of "5 * int n" "6 * int n"] by (simp add: round_fifths_whole)

lemma darker_channel:
  assumes "n < 256"
  shows "if n = 0 then shade_channel (-20) n = 0 else shade_channel (-20) n < n"
proof (cases "n = 0")
  case True
  then show ?thesis
    using round_fifths_whole [of 0] round_fifths_mono [of "-5" 0] by (simp add: shade_channel_cases)
next
  case False
  show ?thesis
  proof (cases "round_fifths (4 * int n) = int n")
    case True
    have "1 \<le> int n" "int n \<le> 255"
      using assms False by simp_all
    then have "max 0 (min (5 * (int n - 1)) (5 * 255)) = 5 * (int n - 1)"
      by (simp add: min_def max_def)
    then have "shade_channel (-20) n = nat (int n - 1)"
      unfolding shade_channel_cases using True by (simp only: simp_thms if_True round_fifths_whole)
    then show ?thesis
      using False by simp
  next
    case other: False
    have "max 0 (min (4 * int n) (5 * 255)) = 4 * int n"
      using assms by linarith
    then have "shade_channel (-20) n = nat (round_fifths (4 * int n))"
      unfolding shade_channel_cases using other by (simp only: if_False)
    then show ?thesis
      using round_fifths_four [of n] other False by (simp add: nat_less_iff)
  qed
qed

lemma lighter_channel:
  assumes "n < 256"
  shows "if n = 255 then shade_channel 20 n = 255 else n < shade_channel 20 n"
proof (cases "n = 255")
  case True
  have "round_fifths (6 * int 255) = 306"
    by (simp add: round_fifths_def)
  then have "shade_channel 20 n = nat (round_fifths (5 * 255))"
    unfolding shade_channel_cases True by simp
  then show ?thesis
    unfolding round_fifths_whole using True by simp
next
  case False
  show ?thesis
  proof (cases "round_fifths (6 * int n) = int n")
    case True
    have "int n < 255"
      using assms False by simp
    then have "max 0 (min (5 * (int n + 1)) (5 * 255)) = 5 * (int n + 1)"
      by (simp add: min_def max_def)
    then have "shade_channel 20 n = nat (int n + 1)"
      unfolding shade_channel_cases using True by (simp only: simp_thms if_True round_fifths_whole)
    then show ?thesis
      using False by simp
  next
    case other: False
    have eq: "shade_channel 20 n = nat (round_fifths (max 0 (min (6 * int n) (5 * 255))))"
      unfolding shade_channel_cases using other by (simp only: if_False)
    show ?thesis
    proof (cases "6 * int n \<le> 5 * 255")
      case True
      then have "max 0 (min (6 * int n) (5 * 255)) = 6 * int n"
        by linarith
      then show ?thesis
        using eq round_fifths_six [of n] other False by (simp add: zless_nat_eq_int_zless)
    next
      case big: False
      then have "max 0 (min (6 * int n) (5 * 255)) = 5 * (255::int)"
        by linarith
      then have "shade_channel 20 n = 255"
        using eq by (simp add: round_fifths_def)
      then show ?thesis
        using False assms by simp
    qed
  qed
qed

lemma shade_bound: "shade percent c = (r, g, b) \<Longrightarrow> r < 256 \<and> g < 256 \<and> b < 256"
  by (cases c) (auto simp: shade_def shade_channel_bound)

lemma parse_shaded: "parse_color (encodeAsColor (shade percent c)) = Some (shade percent c)"
  using shade_bound [of percent c] by (cases "shade percent c") (simp add: parse_encode)

lemma hd_encoded [simp]: "hd (encodeAsColor c) = CHR ''#''"
  by (cases c) (simp add: encodeAsColor_def)

lemma shadeColor_encoded:
  "parse_color color = Some c \<Longrightarrow> hd color = CHR ''#'' \<Longrightarrow> shadeColor color p = Inr (encodeAsColor (shade p c))"
  by (simp add: shadeColor_def)

definition rgb_sum :: "rgb \<Rightarrow> nat" where
  "rgb_sum c = (case c of (r, g, b) \<Rightarrow> r + g + b)"

definition rgb_wf :: "rgb \<Rightarrow> bool" where
  "rgb_wf c = (case c of (r, g, b) \<Rightarrow> r < 256 \<and> g < 256 \<and> b < 256)"

lemma rgb_wf_shade [simp]: "rgb_wf (shade p c)"
  using shade_bound [of p c] by (cases "shade p c") (simp add: rgb_wf_def)

lemma rgb_wf_parse: "parse_color color = Some c \<Longrightarrow> rgb_wf c"
  using parse_bound by (cases c) (auto simp: rgb_wf_def)

lemma darker_sum: "rgb_wf c \<Longrightarrow> c \<noteq> (0, 0, 0) \<Longrightarrow> rgb_sum (shade (-20) c) < rgb_sum c"
proof -
  assume wf: "rgb_wf c" and nz: "c \<noteq> (0, 0, 0)"
  obtain r g b where c: "c = (r, g, b)" by (cases c)
  have "shade_channel (-20) n \<le> n \<and> (n \<noteq> 0 \<longrightarrow> shade_channel (-20) n < n)" if "n < 256" for n
    using darker_channel [OF that] by (auto split: if_splits)
  from this [of r] this [of g] this [of b] show ?thesis
    using wf nz unfolding c by (auto simp: rgb_wf_def rgb_sum_def shade_def)
qed

lemma lighter_sum: "rgb_wf c \<Longrightarrow> c \<noteq> (255, 255, 255) \<Longrightarrow> rgb_sum c < rgb_sum (shade 20 c)"
proof -
  assume wf: "rgb_wf c" and nw: "c \<noteq> (255, 255, 255)"
  obtain r g b where c: "c = (r, g, b)" by (cases c)
  have "n \<le> shade_channel 20 n \<and> (n \<noteq> 255 \<longrightarrow> n < shade_channel 20 n)" if "n < 256" for n
    using lighter_channel [OF that] by (auto split: if_splits)
  from this [of r] this [of g] this [of b] show ?thesis
    using wf nw unfolding c by (auto simp: rgb_wf_def rgb_sum_def shade_def)
qed

lemma rgb_sum_bound: "rgb_wf c \<Longrightarrow> rgb_sum c \<le> 765"
  by (cases c) (auto simp: rgb_wf_def rgb_sum_def)

lemma colorLuma_parsed:
  assumes "parse_color color = Some c"
  shows "colorLuma tie color = Inr (luma_sign tie c)"
  using parse_bound [of color] assms by (cases c) (simp add: colorLuma_def read_color_def min_def)

lemma luma_black: "luma_sign tie (0, 0, 0) = -1"
  by (simp add: luma_sign_def luma_excess_def)

lemma luma_white: "luma_sign tie (255, 255, 255) = 1"
  by (simp add: luma_sign_def luma_excess_def)


section \<open>The shading loops\<close>

text \<open>
  \<open>while (colorLuma(c) > 0.5) { old = c; c = shadeColor(old, -20); if (c == old) break; }\<close> and its mirror
  image.  A round makes the colour strictly darker or lighter, so the loops end.
\<close>

function darken :: "(rgb \<Rightarrow> int) \<Rightarrow> string \<Rightarrow> string result" where
  "darken tie color =
     bind_result (colorLuma tie color) (\<lambda>l.
       if l > 0
       then (case shadeColor color (-20) of
               Inl e \<Rightarrow> Inl e
             | Inr c' \<Rightarrow> if c' = color then Inr c' else darken tie c')
       else Inr color)"
  by pat_completeness auto

function lighten :: "(rgb \<Rightarrow> int) \<Rightarrow> string \<Rightarrow> string result" where
  "lighten tie color =
     bind_result (colorLuma tie color) (\<lambda>l.
       if l < 0
       then (case shadeColor color 20 of
               Inl e \<Rightarrow> Inl e
             | Inr c' \<Rightarrow> if c' = color then Inr c' else lighten tie c')
       else Inr color)"
  by pat_completeness auto

lemma shadeColor_Inr:
  "shadeColor color p = Inr c' \<Longrightarrow>
     \<exists>c. parse_color color = Some c \<and> rgb_wf c \<and> hd color = CHR ''#'' \<and> c' = encodeAsColor (shade p c)"
  using rgb_wf_parse by (auto simp: shadeColor_def split: option.splits if_splits)

definition darkness :: "string \<Rightarrow> nat" where
  "darkness color = (case parse_color color of Some c \<Rightarrow> 765 - rgb_sum c | None \<Rightarrow> 0)"

definition lightness :: "string \<Rightarrow> nat" where
  "lightness color = (case parse_color color of Some c \<Rightarrow> rgb_sum c | None \<Rightarrow> 0)"

lemma darker_round:
  assumes "shadeColor color (-20) = Inr c'" "colorLuma tie color = Inr l" "l > 0"
  shows "lightness c' < lightness color"
proof -
  obtain c where c: "parse_color color = Some c" "rgb_wf c" "c' = encodeAsColor (shade (-20) c)"
    using shadeColor_Inr [OF assms(1)] by blast
  then have "c \<noteq> (0, 0, 0)"
    using assms(2,3) colorLuma_parsed [of color c tie] luma_black by auto
  then show ?thesis
    using c darker_sum [of c] by (simp add: lightness_def parse_shaded)
qed

lemma lighter_round:
  assumes "shadeColor color 20 = Inr c'" "colorLuma tie color = Inr l" "l < 0"
  shows "darkness c' < darkness color"
proof -
  obtain c where c: "parse_color color = Some c" "rgb_wf c" "c' = encodeAsColor (shade 20 c)"
    using shadeColor_Inr [OF assms(1)] by blast
  then have "c \<noteq> (255, 255, 255)"
    using assms(2,3) colorLuma_parsed [of color c tie] luma_white by auto
  then have "rgb_sum c < rgb_sum (shade 20 c)" "rgb_sum (shade 20 c) \<le> 765"
    using c lighter_sum rgb_sum_bound by auto
  then show ?thesis
    using c by (simp add: darkness_def parse_shaded)
qed

termination darken
  by (relation "measure (\<lambda>(tie, color). lightness color)") (auto dest: darker_round)

termination lighten
  by (relation "measure (\<lambda>(tie, color). darkness color)") (auto dest: lighter_round)

declare darken.simps [simp del] lighten.simps [simp del]

lemma darken_result:
  "parse_color color = Some c \<Longrightarrow> hd color = CHR ''#'' \<Longrightarrow>
     \<exists>d. darken tie color = Inr d \<and> hd d = CHR ''#'' \<and>
         (\<exists>c'. parse_color d = Some c' \<and> luma_sign tie c' \<le> 0)"
proof (induction tie color arbitrary: c rule: darken.induct)
  case (1 tie color)
  have l: "colorLuma tie color = Inr (luma_sign tie c)"
    using "1.prems"(1) by (rule colorLuma_parsed)
  show ?case
  proof (cases "luma_sign tie c > 0")
    case True
    let ?c' = "encodeAsColor (shade (-20) c)"
    have sh: "shadeColor color (-20) = Inr ?c'"
      using "1.prems" by (rule shadeColor_encoded)
    have ne: "?c' \<noteq> color"
      using darker_round [OF sh l True] by auto
    have "darken tie color = darken tie ?c'"
      by (subst darken.simps) (simp add: l sh True ne)
    then show ?thesis
      using "1.IH" [OF l True sh ne parse_shaded hd_encoded] by simp
  next
    case False
    then show ?thesis
      using "1.prems" l by (subst darken.simps) (auto simp del: split_paired_Ex)
  qed
qed

lemma lighten_result:
  "parse_color color = Some c \<Longrightarrow> hd color = CHR ''#'' \<Longrightarrow>
     \<exists>d. lighten tie color = Inr d \<and> hd d = CHR ''#'' \<and>
         (\<exists>c'. parse_color d = Some c' \<and> luma_sign tie c' \<ge> 0)"
proof (induction tie color arbitrary: c rule: lighten.induct)
  case (1 tie color)
  have l: "colorLuma tie color = Inr (luma_sign tie c)"
    using "1.prems"(1) by (rule colorLuma_parsed)
  show ?case
  proof (cases "luma_sign tie c < 0")
    case True
    let ?c' = "encodeAsColor (shade 20 c)"
    have sh: "shadeColor color 20 = Inr ?c'"
      using "1.prems" by (rule shadeColor_encoded)
    have ne: "?c' \<noteq> color"
      using lighter_round [OF sh l True] by auto
    have "lighten tie color = lighten tie ?c'"
      by (subst lighten.simps) (simp add: l sh True ne)
    then show ?thesis
      using "1.IH" [OF l True sh ne parse_shaded hd_encoded] by simp
  next
    case False
    then show ?thesis
      using "1.prems" l by (subst lighten.simps) (auto simp del: split_paired_Ex)
  qed
qed


section \<open>The colours of a theme\<close>

text \<open>\<open>cm_luma\<close> is the sign of the luma's distance from one half, all its readers compare.\<close>

record color_meta =
  cm_color :: string
  cm_textColor :: string
  cm_darkColor :: string
  cm_lightColor :: string
  cm_luma :: int
  cm_isDark :: bool

definition colorMeta :: "(rgb \<Rightarrow> int) \<Rightarrow> string option \<Rightarrow> color_meta result" where
  "colorMeta tie sourceColor =
     (let color = (case sourceColor of None \<Rightarrow> ''#000000'' | Some c \<Rightarrow> if c = [] then ''#000000'' else c)
      in bind_result (read_color color) (\<lambda>rgb.
           let colorAsHex = encodeAsColor rgb;
               luma = luma_sign tie rgb;
               isDark = (luma > 0)
           in if isDark
              then bind_result (bind_result (shadeColor colorAsHex (-20)) (darken tie)) (\<lambda>dark.
                     Inr \<lparr>cm_color = color, cm_textColor = ''#000000'', cm_darkColor = dark,
                          cm_lightColor = color, cm_luma = luma, cm_isDark = isDark\<rparr>)
              else bind_result (bind_result (shadeColor colorAsHex 20) (lighten tie)) (\<lambda>light.
                     Inr \<lparr>cm_color = color, cm_textColor = ''#FFFFFF'', cm_darkColor = color,
                          cm_lightColor = light, cm_luma = luma, cm_isDark = isDark\<rparr>)))"

text \<open>\<open>colorInt.toString(16).slice(-6)\<close>\<close>

definition colorIntMeta :: "(rgb \<Rightarrow> int) \<Rightarrow> nat \<Rightarrow> color_meta result" where
  "colorIntMeta tie colorInt =
     (let digits = to_hex colorInt
      in colorMeta tie (Some (''#'' @ drop (length digits - 6) digits)))"

record server_theme =
  th_backgroundColor :: string
  th_textColor :: string
  th_darkMode :: bool
  th_primary :: color_meta
  th_nav :: color_meta
  th_primaryBgColor :: string
  th_primaryAnchorColor :: string
  th_navBgColor :: string
  th_navAnchorColor :: string
  th_warningAnchorColor :: string
  th_transparentBackgroundColor :: string
  th_barelyTransparentBackgroundColor :: string
  th_transparentPrimaryColor :: string
  th_inverse :: bool

text \<open>
  \<open>base\<close> is the background of the surrounding theme and \<open>background\<close> that of the theme for a value of
  \<open>inverse\<close>; the theme library provides both.
\<close>

definition getServerTheme ::
  "(rgb \<Rightarrow> int) \<Rightarrow> string option \<Rightarrow> (bool \<Rightarrow> string option) \<Rightarrow> bool \<Rightarrow> bool \<Rightarrow> rellm_server option \<Rightarrow>
     server_theme result" where
  "getServerTheme tie base background darkModeAuto appDarkMode server =
     bind_result (colorMeta tie (Some (nullish base ''#FFFFFF''))) (\<lambda>baseMeta.
       let systemDark = (cm_luma baseMeta \<le> 0);
           inverse = (\<not> darkModeAuto \<and> systemDark \<noteq> appDarkMode);
           backgroundColor = nullish (background inverse) ''#FFFFFF'';
           conf = Option.bind server serverConfiguration
       in bind_result (colorMeta tie (Some backgroundColor)) (\<lambda>bg.
          bind_result (colorIntMeta tie (nullish (Option.bind conf sc_primaryColor) 0x424242)) (\<lambda>primary.
          bind_result (colorIntMeta tie (nullish (Option.bind conf sc_navigationColor) 0xFFFFFF)) (\<lambda>nav.
            let darkMode = (cm_luma bg \<le> 0)
            in Inr \<lparr>th_backgroundColor = backgroundColor, th_textColor = cm_textColor bg, th_darkMode = darkMode,
                 th_primary = primary, th_nav = nav,
                 th_primaryBgColor = (if darkMode then cm_darkColor primary else cm_lightColor primary),
                 th_primaryAnchorColor = (if \<not> darkMode then cm_darkColor primary else cm_lightColor primary),
                 th_navBgColor = (if \<not> darkMode then cm_darkColor nav else cm_lightColor nav),
                 th_navAnchorColor = (if \<not> darkMode then cm_darkColor nav else cm_lightColor nav),
                 th_warningAnchorColor = (if \<not> darkMode then ''#bf6d00'' else ''#EBDF1C''),
                 th_transparentBackgroundColor = (if darkMode then ''#000A'' else ''#FFFA''),
                 th_barelyTransparentBackgroundColor = (if darkMode then ''#000D'' else ''#FFFD''),
                 th_transparentPrimaryColor = cm_color primary @ ''F0'',
                 th_inverse = inverse\<rparr>))))"

lemma colorMeta_result:
  assumes "parse_color color = Some c"
  shows "\<exists>m d l. colorMeta tie (Some color) = Inr m \<and> cm_color m = color \<and> cm_luma m = luma_sign tie c \<and>
    parse_color (cm_darkColor m) = Some d \<and> luma_sign tie d \<le> 0 \<and>
    parse_color (cm_lightColor m) = Some l \<and> luma_sign tie l \<ge> 0 \<and>
    cm_textColor m = (if luma_sign tie c > 0 then ''#000000'' else ''#FFFFFF'')"
proof -
  obtain r g b where c: "c = (r, g, b)" by (cases c)
  have enc: "parse_color (encodeAsColor c) = Some c"
    using parse_bound assms unfolding c by (blast intro: parse_encode)
  have ne: "color \<noteq> []"
    using assms by (auto simp: parse_color_def)
  have rd: "read_color color = Inr c"
    using assms by (simp add: read_color_def)
  obtain d d' where d: "darken tie (encodeAsColor (shade (-20) c)) = Inr d" "parse_color d = Some d'" "luma_sign tie d' \<le> 0"
    using darken_result [OF parse_shaded hd_encoded] by metis
  obtain l l' where l: "lighten tie (encodeAsColor (shade 20 c)) = Inr l" "parse_color l = Some l'" "luma_sign tie l' \<ge> 0"
    using lighten_result [OF parse_shaded hd_encoded] by metis
  show ?thesis
    using assms d l ne rd shadeColor_encoded [OF enc hd_encoded]
    by (cases "luma_sign tie c > 0") (auto simp: colorMeta_def Let_def simp del: split_paired_Ex)
qed

section \<open>Colours given as numbers\<close>

lemma to_hex_digits: "list_all (\<lambda>c. hex_value c \<noteq> None) (to_hex n)"
proof (induction n rule: to_hex.induct)
  case (1 n)
  show ?case
  proof (cases "n < 16")
    case True
    then show ?thesis
      using hex_value_digit [OF True] by (subst to_hex.simps) simp
  next
    case False
    then show ?thesis
      using 1 hex_value_digit [of "n mod 16"] by (subst to_hex.simps) simp
  qed
qed

lemma to_hex_length: "n < 16 ^ Suc k \<Longrightarrow> length (to_hex n) \<le> Suc k"
proof (induction k arbitrary: n)
  case 0
  then show ?case by (subst to_hex.simps) simp
next
  case (Suc k)
  show ?case
  proof (cases "n < 16")
    case False
    have "n div 16 < 16 ^ Suc k"
      using Suc.prems by (simp add: less_mult_imp_div_less mult.commute)
    then show ?thesis
      using Suc.IH [of "n div 16"] False by (subst to_hex.simps) simp
  qed (subst to_hex.simps, simp)
qed

lemma to_hex_length_ge: "16 ^ k \<le> n \<Longrightarrow> Suc k \<le> length (to_hex n)"
proof (induction k arbitrary: n)
  case 0
  then show ?case by (subst to_hex.simps) simp
next
  case (Suc k)
  have "1 \<le> (16 :: nat) ^ k"
    by simp
  with Suc.prems have ge: "16 \<le> n"
    unfolding power_Suc by linarith
  have "16 ^ k \<le> n div 16"
    using Suc.prems by (simp add: less_eq_div_iff_mult_less_eq mult.commute)
  then show ?case
    using Suc.IH [of "n div 16"] ge by (subst to_hex.simps) simp
qed

lemma parse_six_digits:
  assumes "length s = 6" "list_all (\<lambda>c. hex_value c \<noteq> None) s"
  shows "\<exists>c. parse_color (''#'' @ s) = Some c"
proof -
  obtain a b c d e f where "s = [a, b, c, d, e, f]"
    using assms(1) by (auto simp: numeral_eq_Suc length_Suc_conv)
  then show ?thesis
    using assms(2) by (auto simp: parse_color_def hex_pair_def)
qed

lemma parse_color_length: "parse_color (''#'' @ s) = Some c \<Longrightarrow> length s = 6"
  by (auto simp: parse_color_def split: list.splits)

lemma number_sign_no_hsl: "list_all (\<lambda>c. hex_value c \<noteq> None) s \<Longrightarrow> \<not> contains ''hsl('' s"
proof (induction s)
  case (Cons c s)
  then have "c \<noteq> CHR ''h''"
    by (auto simp: hex_value_def)
  then show ?case
    using Cons by (simp add: numeral_eq_Suc)
qed simp


section \<open>Properties\<close>

text \<open>
  For every hexadecimal colour both shading loops end; the dark variant has a luma of
  at most one half and the light variant of at least one half, whatever rounding makes of a tie, and the
  text on the colour is black exactly when its luma is above one half.
\<close>

theorem theme_colors_contrast:
  assumes "parse_color color = Some c"
  shows "\<exists>m d l. colorMeta tie (Some color) = Inr m \<and>
    colorLuma tie (cm_darkColor m) = Inr d \<and> d \<le> 0 \<and>
    colorLuma tie (cm_lightColor m) = Inr l \<and> l \<ge> 0 \<and>
    cm_textColor m = (if luma_sign tie c > 0 then ''#000000'' else ''#FFFFFF'')"
proof -
  obtain m d l where "colorMeta tie (Some color) = Inr m"
    "parse_color (cm_darkColor m) = Some d" "luma_sign tie d \<le> 0"
    "parse_color (cm_lightColor m) = Some l" "luma_sign tie l \<ge> 0"
    "cm_textColor m = (if luma_sign tie c > 0 then ''#000000'' else ''#FFFFFF'')"
    using colorMeta_result [OF assms, of tie] by auto
  then show ?thesis
    using colorLuma_parsed by blast
qed

theorem theme_colors_contrast_witness:
  "\<exists>m d. colorMeta (\<lambda>_. 0) (Some ''#ffffff'') = Inr m \<and> colorLuma (\<lambda>_. 0) (cm_darkColor m) = Inr d \<and> d \<le> 0 \<and>
     cm_textColor m = ''#000000''"
proof -
  have "parse_color ''#ffffff'' = Some (255, 255, 255)"
    by (simp add: parse_color_def hex_pair_def hex_value_def)
  from theme_colors_contrast [OF this, of "\<lambda>_. 0"] show ?thesis
    by (auto simp: luma_white)
qed

text \<open>
  Shading a colour by 20 percent in either direction gives a well-formed colour
  whose channels stay between 0 and 255, each at most (at least) what it was, and only black (white) is
  left unchanged.
\<close>

theorem shades_stay_in_range:
  assumes "parse_color color = Some (r, g, b)" "hd color = CHR ''#''"
  shows "\<exists>dark light r1 g1 b1 r2 g2 b2.
    shadeColor color (-20) = Inr dark \<and> parse_color dark = Some (r1, g1, b1) \<and>
    r1 \<le> r \<and> g1 \<le> g \<and> b1 \<le> b \<and> ((r1, g1, b1) = (r, g, b) \<longleftrightarrow> r = 0 \<and> g = 0 \<and> b = 0) \<and>
    shadeColor color 20 = Inr light \<and> parse_color light = Some (r2, g2, b2) \<and>
    r \<le> r2 \<and> g \<le> g2 \<and> b \<le> b2 \<and> r2 \<le> 255 \<and> g2 \<le> 255 \<and> b2 \<le> 255 \<and>
    ((r2, g2, b2) = (r, g, b) \<longleftrightarrow> r = 255 \<and> g = 255 \<and> b = 255)"
proof -
  have n: "r < 256" "g < 256" "b < 256"
    using parse_bound [OF assms(1)] by auto
  have down: "shade_channel (-20) x \<le> x \<and> (shade_channel (-20) x = x \<longleftrightarrow> x = 0)" if "x < 256" for x
    using darker_channel [OF that] by (auto split: if_splits)
  have up: "x \<le> shade_channel 20 x \<and> shade_channel 20 x \<le> 255 \<and> (shade_channel 20 x = x \<longleftrightarrow> x = 255)" if "x < 256" for x
    using lighter_channel [OF that] shade_channel_bound [of 20 x] by (auto split: if_splits)
  show ?thesis
    using shadeColor_encoded [OF assms, of "-20"] shadeColor_encoded [OF assms, of 20]
      down [OF n(1)] down [OF n(2)] down [OF n(3)] up [OF n(1)] up [OF n(2)] up [OF n(3)]
      parse_shaded [of "-20" "(r, g, b)"] parse_shaded [of 20 "(r, g, b)"]
    unfolding shade_def by auto
qed

theorem shades_stay_in_range_witness:
  "\<exists>dark. shadeColor ''#000000'' (-20) = Inr dark \<and> parse_color dark = Some (0, 0, 0)"
proof -
  have "parse_color ''#000000'' = Some (0, 0, 0)"
    by (simp add: parse_color_def hex_pair_def hex_value_def)
  from shades_stay_in_range [OF this] show ?thesis
    by auto
qed

text \<open>
  A server colour given as a number has a theme exactly when it has six hexadecimal
  digits: every number below 0x100000, such as a pure blue without a leading byte, makes the theme throw.
\<close>

theorem small_colors_throw:
  "(\<exists>m. colorIntMeta tie n = Inr m) \<longleftrightarrow> 0x100000 \<le> n"
proof -
  let ?s = "drop (length (to_hex n) - 6) (to_hex n)"
  have hex: "list_all (\<lambda>c. hex_value c \<noteq> None) ?s"
    using to_hex_digits [of n] by (auto simp: list_all_iff dest: in_set_dropD)
  show ?thesis
  proof (cases "0x100000 \<le> n")
    case True
    then have "6 \<le> length (to_hex n)"
      using to_hex_length_ge [of 5 n] by simp
    then obtain c where "parse_color (''#'' @ ?s) = Some c"
      using parse_six_digits [OF _ hex] by auto
    then show ?thesis
      using colorMeta_result [of "''#'' @ ?s" c tie] True by (auto simp: colorIntMeta_def Let_def)
  next
    case False
    then have "length (to_hex n) \<le> 5"
      using to_hex_length [of n 4] by simp
    then have "parse_color (''#'' @ ?s) = None"
      using parse_color_length [of ?s] by (cases "parse_color (''#'' @ ?s)") auto
    then show ?thesis
      using False by (auto simp: colorIntMeta_def Let_def colorMeta_def read_color_def)
  qed
qed

end
