(* ===== verification/Js_Sort.thy ===== *)
theory Js_Sort
  imports "HOL-Library.Multiset" Utils
begin

text \<open>
  \<open>Array.prototype.sort\<close> with a comparator.  The language promises a stable sort when the comparator
  is consistent; \<open>js_sort\<close> is insertion from the right, which is stable, and the locale
  \<open>js_comparator\<close> states what consistent means.  The comparators of the client are \<open>localeCompare\<close> on
  timestamps (a parameter, since it depends on the locale of the browser) and the comparison of moments.
\<close>

section \<open>Sorting with a comparator\<close>

fun sort_insert :: "('a \<Rightarrow> 'a \<Rightarrow> int) \<Rightarrow> 'a \<Rightarrow> 'a list \<Rightarrow> 'a list" where
  "sort_insert cmp x [] = [x]"
| "sort_insert cmp x (y # ys) = (if cmp x y \<le> 0 then x # y # ys else y # sort_insert cmp x ys)"

fun js_sort :: "('a \<Rightarrow> 'a \<Rightarrow> int) \<Rightarrow> 'a list \<Rightarrow> 'a list" where
  "js_sort cmp [] = []"
| "js_sort cmp (x # xs) = sort_insert cmp x (js_sort cmp xs)"

lemma mset_sort_insert [simp]: "mset (sort_insert cmp x xs) = add_mset x (mset xs)"
  by (induction xs) auto

lemma mset_js_sort [simp]: "mset (js_sort cmp xs) = mset xs"
  by (induction xs) auto

lemma set_sort_insert [simp]: "set (sort_insert cmp x xs) = insert x (set xs)"
  by (metis mset_sort_insert set_mset_add_mset_insert set_mset_mset)

lemma set_js_sort [simp]: "set (js_sort cmp xs) = set xs"
  by (metis mset_js_sort set_mset_mset)

lemma length_js_sort [simp]: "length (js_sort cmp xs) = length xs"
  by (metis mset_js_sort size_mset)

lemma js_sort_sorted_id: "sorted_wrt (\<lambda>a b. cmp a b \<le> 0) xs \<Longrightarrow> js_sort cmp xs = xs"
proof (induction xs)
  case (Cons x xs)
  then show ?case by (cases xs) auto
qed simp


section \<open>Consistent comparators\<close>

locale js_comparator =
  fixes cmp :: "'a \<Rightarrow> 'a \<Rightarrow> int"
  assumes sgn_swap: "sgn (cmp b a) = - sgn (cmp a b)"
    and le_trans: "cmp a b \<le> 0 \<Longrightarrow> cmp b c \<le> 0 \<Longrightarrow> cmp a c \<le> 0"
begin

lemma swap_le: "\<not> cmp a b \<le> 0 \<Longrightarrow> cmp b a \<le> 0"
  using sgn_swap [of a b] by (auto simp: sgn_if split: if_splits)

lemma eq_zero_iff: "cmp a b = 0 \<longleftrightarrow> cmp a b \<le> 0 \<and> cmp b a \<le> 0"
  using sgn_swap [of a b] by (auto simp: sgn_if split: if_splits)

lemma sort_insert_sorted:
  "sorted_wrt (\<lambda>a b. cmp a b \<le> 0) xs \<Longrightarrow> sorted_wrt (\<lambda>a b. cmp a b \<le> 0) (sort_insert cmp x xs)"
proof (induction xs)
  case (Cons y ys)
  then show ?case
    using swap_le [of x y] by (auto intro: le_trans)
qed simp

lemma js_sort_sorted: "sorted_wrt (\<lambda>a b. cmp a b \<le> 0) (js_sort cmp xs)"
  by (induction xs) (simp_all add: sort_insert_sorted)

text \<open>Elements that compare equal keep their order.\<close>

lemma sort_insert_stable:
  "filter (\<lambda>y. cmp z y = 0) (sort_insert cmp x xs) =
     (if cmp z x = 0 then x # filter (\<lambda>y. cmp z y = 0) xs else filter (\<lambda>y. cmp z y = 0) xs)"
proof (induction xs)
  case (Cons y ys)
  have "\<not> (cmp z x = 0 \<and> cmp z y = 0 \<and> \<not> cmp x y \<le> 0)"
    using eq_zero_iff le_trans by blast
  then show ?case
    using Cons by auto
qed simp

lemma js_sort_stable: "filter (\<lambda>y. cmp z y = 0) (js_sort cmp xs) = filter (\<lambda>y. cmp z y = 0) xs"
  by (induction xs) (simp_all add: sort_insert_stable)

text \<open>Comparing by a key, in either direction.\<close>

lemma by_key: "js_comparator (\<lambda>a b. cmp (f a) (f b))"
  by unfold_locales (rule sgn_swap, rule le_trans)

lemma by_key_descending: "js_comparator (\<lambda>a b. cmp (f b) (f a))"
  by unfold_locales (rule sgn_swap, blast intro: le_trans)

end


section \<open>The comparators of the client\<close>

text \<open>Moments compare consistently when all dates parse.\<close>

lemma timeSort_total:
  "timeSort (\<lambda>s. Some (f s)) now a b =
     (if case_option now f a < case_option now f b then -1
      else if case_option now f b < case_option now f a then 1 else 0)"
  by (cases a; cases b) (simp_all add: timeSort_def isBefore_def isAfter_def moment_of_def)

interpretation time_comparator: js_comparator "timeSort (\<lambda>s. Some (f s)) now" for f now
  by unfold_locales (simp_all add: timeSort_total sgn_if split: if_splits)

text \<open>A comparison by code units, one consistent choice for \<open>localeCompare\<close>.\<close>

fun compare_units :: "string \<Rightarrow> string \<Rightarrow> int" where
  "compare_units [] [] = 0"
| "compare_units [] (c # cs) = -1"
| "compare_units (c # cs) [] = 1"
| "compare_units (c # cs) (d # ds) =
     (if (of_char c :: nat) < of_char d then -1
      else if (of_char d :: nat) < of_char c then 1 else compare_units cs ds)"

lemma compare_units_swap: "compare_units b a = - compare_units a b"
  by (induction a b rule: compare_units.induct) simp_all

lemma compare_units_eq: "compare_units a b = 0 \<Longrightarrow> a = b"
  by (induction a b rule: compare_units.induct) (simp_all split: if_splits)

lemma compare_units_trans:
  "compare_units a b \<le> 0 \<Longrightarrow> compare_units b c \<le> 0 \<Longrightarrow> compare_units a c \<le> 0"
proof (induction a b arbitrary: c rule: compare_units.induct)
  case (2 y ys)
  then show ?case by (cases c) simp_all
next
  case (4 x xs y ys)
  show ?case
  proof (cases c)
    case Nil
    then show ?thesis using "4.prems" by simp
  next
    case (Cons z zs)
    then show ?thesis
      using "4.prems" "4.IH" [of zs] by (auto split: if_splits)
  qed
qed simp_all

interpretation unit_comparator: js_comparator compare_units
  proof unfold_locales
  show "sgn (compare_units b a) = - sgn (compare_units a b)" for a b
    by (subst compare_units_swap) (simp add: sgn_minus)
qed (rule compare_units_trans)

end
