(* ===== verification/Pagination.thy ===== *)
theory Pagination
  imports Js_Sort Media Events Groups_Slice Users
begin

text \<open>
  The selectors of store/pagination: which entities a list shows through a page, and which servers have
  not answered for it yet.  A list draws on several servers at once; each server's page is an array of
  identifiers filed by the slice, and the entities are looked up when the list is read.

  \<open>loc\<close> is \<open>localeCompare\<close>.  The \<open>getHasMoreXPages\<close> of the federated lists are in List_Hooks; the two for a
  group are here.
\<close>

section \<open>Lists drawn from several servers\<close>

text \<open>The loop \<open>for (page = 0; page <= throughPage; page++) result.push(...)\<close>.\<close>

definition through_page :: "(nat \<Rightarrow> 'a list) \<Rightarrow> nat \<Rightarrow> 'a list" where
  "through_page onPage throughPage = concat (map onPage [0..<Suc throughPage])"

text \<open>\<open>servers.flatMap(server => pageOf(server) ?? [])\<close>.\<close>

definition listed_ids :: "(account_or_server \<Rightarrow> string list option) \<Rightarrow> account_or_server list \<Rightarrow> string list" where
  "listed_ids pageOf servers = concat (map (\<lambda>server. nullish (pageOf server) []) servers)"

text \<open>\<open>ids.map(select).filter(p => p)\<close>.\<close>

definition present :: "(string \<Rightarrow> 'e option) \<Rightarrow> string list \<Rightarrow> 'e list" where
  "present select is = List.map_filter select is"

lemma through_page_Suc: "through_page f (Suc n) = through_page f n @ f (Suc n)"
  by (simp add: through_page_def)

lemma present_all:
  "\<forall>i \<in> set is. select i = Some (f i) \<Longrightarrow> present select is = map f is"
  by (induction "is") (simp_all add: present_def map_filter_def)

lemma map_filter_each:
  "\<forall>x \<in> set xs. \<exists>v. f (g x) = Some v \<and> h v = k x \<Longrightarrow> map h (List.map_filter f (map g xs)) = map k xs"
  by (induction xs) (auto simp: map_filter_def)

lemma listed_ids_one [simp]: "listed_ids P [server] = nullish (P server) []"
  by (simp add: listed_ids_def)


section \<open>Posts\<close>

definition posts_page_of :: "posts_state \<Rightarrow> post_listing_type \<Rightarrow> nat \<Rightarrow> account_or_server \<Rightarrow> string list option" where
  "posts_page_of s listingType page server = server_page (postPages s) (aos_server server) listingType page"

definition getPostsPage ::
  "federated_post adapter \<Rightarrow> (string \<Rightarrow> string \<Rightarrow> int) \<Rightarrow> posts_state \<Rightarrow> post_listing_type \<Rightarrow> nat \<Rightarrow>
     account_or_server list \<Rightarrow> federated_post list"
where
  "getPostsPage A loc s listingType page servers =
     (let pagePostIds = listed_ids (posts_page_of s listingType page) servers;
          pagePosts = present (selectById A (posts_entities s)) pagePostIds
      in js_sort (\<lambda>a b. loc (nullish (p_createdAt (own (entity b))) []) (nullish (p_createdAt (own (entity a))) []))
           pagePosts)"

definition getPostsPages ::
  "federated_post adapter \<Rightarrow> (string \<Rightarrow> string \<Rightarrow> int) \<Rightarrow> posts_state \<Rightarrow> post_listing_type \<Rightarrow> nat \<Rightarrow>
     account_or_server list \<Rightarrow> federated_post list"
where
  "getPostsPages A loc s listingType throughPage servers =
     through_page (\<lambda>page. getPostsPage A loc s listingType page servers) throughPage"

definition getHasPostsPage :: "posts_state \<Rightarrow> post_listing_type \<Rightarrow> nat \<Rightarrow> account_or_server list \<Rightarrow> bool" where
  "getHasPostsPage s listingType page servers \<longleftrightarrow>
     \<not> list_ex (\<lambda>server. posts_page_of s listingType page server = None) servers"

definition getServersMissingPostsPage ::
  "posts_state \<Rightarrow> post_listing_type \<Rightarrow> nat \<Rightarrow> account_or_server list \<Rightarrow> account_or_server list" where
  "getServersMissingPostsPage s listingType page servers =
     filter (\<lambda>server. posts_page_of s listingType page server = None) servers"

definition getGroupPostsPage ::
  "federated_post adapter \<Rightarrow> posts_state \<Rightarrow> groups_state \<Rightarrow> federated_group \<Rightarrow> nat \<Rightarrow> federated_post list" where
  "getGroupPostsPage A posts groups g page =
     present (selectById A (posts_entities posts)) (nullish (page_at (groupPostPages groups) (group_key g) page) [])"

definition getGroupPostPages ::
  "federated_post adapter \<Rightarrow> posts_state \<Rightarrow> groups_state \<Rightarrow> federated_group \<Rightarrow> nat \<Rightarrow> federated_post list" where
  "getGroupPostPages A posts groups g throughPage = through_page (getGroupPostsPage A posts groups g) throughPage"

definition getHasGroupPostsPage :: "groups_state \<Rightarrow> federated_group \<Rightarrow> nat \<Rightarrow> bool" where
  "getHasGroupPostsPage groups g page \<longleftrightarrow> page_at (groupPostPages groups) (group_key g) page \<noteq> None"

definition getHasMoreGroupPostPages :: "groups_state \<Rightarrow> federated_group \<Rightarrow> nat \<Rightarrow> bool" where
  "getHasMoreGroupPostPages groups g currentPage \<longleftrightarrow>
     nullish (map_option length (page_at (groupPostPages groups) (group_key g) currentPage)) 0 > 0"


section \<open>Events\<close>

text \<open>\<open>((pages[listingType] ?? {})[timeFilter] ?? {})[page]\<close>.\<close>

definition filtered_page ::
  "('l \<rightharpoonup> (string \<rightharpoonup> paginated_ids)) \<Rightarrow> 'l \<Rightarrow> string \<Rightarrow> nat \<Rightarrow> string list option" where
  "filtered_page pages l timeFilter page = page_at (nullish (pages l) Map.empty) timeFilter page"

definition events_page_of ::
  "events_state \<Rightarrow> event_listing_type \<Rightarrow> string \<Rightarrow> nat \<Rightarrow> account_or_server \<Rightarrow> string list option" where
  "events_page_of s listingType timeFilter page server =
     filtered_page (getFederated (occasionPages s) (FederatedAction (aos_server server))) listingType timeFilter page"

text \<open>One event per occasion, holding that occasion only.\<close>

definition occasion_event :: "federated_event adapter \<Rightarrow> events_state \<Rightarrow> string \<Rightarrow> federated_event option" where
  "occasion_event A s occasionId =
     (case occasionEvents s occasionId of
        None \<Rightarrow> None
      | Some eventId \<Rightarrow>
         if eventId = [] then None
         else map_option (\<lambda>e. e\<lparr>entity := (entity e)\<lparr>ie_occasions :=
                filter (\<lambda>i. io_id i = defederateId occasionId) (ie_occasions (entity e))\<rparr>\<rparr>)
                (selectById A (events_entities s) eventId))"

definition occasionsToEvents :: "federated_event adapter \<Rightarrow> events_state \<Rightarrow> string list \<Rightarrow> federated_event list" where
  "occasionsToEvents A s occasionIds = present (occasion_event A s) occasionIds"

definition first_start :: "federated_event \<Rightarrow> string" where
  "first_start e = nullish (Option.bind (js_at (ie_occasions (entity e)) 0) io_startsAt) []"

definition getEventsPage ::
  "federated_event adapter \<Rightarrow> (string \<Rightarrow> string \<Rightarrow> int) \<Rightarrow> events_state \<Rightarrow> event_listing_type \<Rightarrow> string \<Rightarrow> nat \<Rightarrow>
     account_or_server list \<Rightarrow> federated_event list"
where
  "getEventsPage A loc s listingType timeFilter page servers =
     (let pageOccasionIds = listed_ids (events_page_of s listingType timeFilter page) servers
      in js_sort (\<lambda>a b. loc (first_start a) (first_start b)) (occasionsToEvents A s pageOccasionIds))"

definition getEventsPages ::
  "federated_event adapter \<Rightarrow> (string \<Rightarrow> string \<Rightarrow> int) \<Rightarrow> events_state \<Rightarrow> event_listing_type \<Rightarrow> string \<Rightarrow> nat \<Rightarrow>
     account_or_server list \<Rightarrow> federated_event list"
where
  "getEventsPages A loc s listingType timeFilter throughPage servers =
     through_page (\<lambda>page. getEventsPage A loc s listingType timeFilter page servers) throughPage"

definition getHasEventsPage ::
  "events_state \<Rightarrow> event_listing_type \<Rightarrow> string \<Rightarrow> nat \<Rightarrow> account_or_server list \<Rightarrow> bool" where
  "getHasEventsPage s listingType timeFilter page servers \<longleftrightarrow>
     \<not> list_ex (\<lambda>server. events_page_of s listingType timeFilter page server = None) servers"

definition getServersMissingEventsPage ::
  "events_state \<Rightarrow> event_listing_type \<Rightarrow> string \<Rightarrow> nat \<Rightarrow> account_or_server list \<Rightarrow> account_or_server list" where
  "getServersMissingEventsPage s listingType timeFilter page servers =
     filter (\<lambda>server. events_page_of s listingType timeFilter page server = None) servers"

definition getGroupEventsPage ::
  "federated_event adapter \<Rightarrow> events_state \<Rightarrow> groups_state \<Rightarrow> federated_group \<Rightarrow> string \<Rightarrow> nat \<Rightarrow> federated_event list"
where
  "getGroupEventsPage A events groups g timeFilter page =
     occasionsToEvents A events (nullish (filtered_page (groupEventPages groups) (group_key g) timeFilter page) [])"

definition getGroupEventPages ::
  "federated_event adapter \<Rightarrow> events_state \<Rightarrow> groups_state \<Rightarrow> federated_group \<Rightarrow> string \<Rightarrow> nat \<Rightarrow> federated_event list"
where
  "getGroupEventPages A events groups g timeFilter throughPage =
     through_page (getGroupEventsPage A events groups g timeFilter) throughPage"

definition getHasGroupEventsPage :: "groups_state \<Rightarrow> federated_group \<Rightarrow> string \<Rightarrow> nat \<Rightarrow> bool" where
  "getHasGroupEventsPage groups g timeFilter page \<longleftrightarrow>
     filtered_page (groupEventPages groups) (group_key g) timeFilter page \<noteq> None"

definition getHasMoreGroupEventPages :: "groups_state \<Rightarrow> federated_group \<Rightarrow> string \<Rightarrow> nat \<Rightarrow> bool" where
  "getHasMoreGroupEventPages groups g timeFilter currentPage \<longleftrightarrow>
     nullish (map_option length (filtered_page (groupEventPages groups) (group_key g) timeFilter currentPage)) 0 > 0"

definition selectEventsLoading :: "events_state \<Rightarrow> account_or_server list \<Rightarrow> bool" where
  "selectEventsLoading s servers = someLoading (events_pagesStatus s) servers"


section \<open>Groups and media\<close>

definition groups_page_of :: "groups_state \<Rightarrow> group_listing_type \<Rightarrow> nat \<Rightarrow> account_or_server \<Rightarrow> string list option" where
  "groups_page_of s listingType page server = server_page (groupPages s) (aos_server server) listingType page"

definition getGroupsPage ::
  "federated_group adapter \<Rightarrow> groups_state \<Rightarrow> group_listing_type \<Rightarrow> nat \<Rightarrow> account_or_server list \<Rightarrow>
     federated_group list"
where
  "getGroupsPage A s listingType page servers =
     present (selectById A (groups_entities s)) (listed_ids (groups_page_of s listingType page) servers)"

definition getGroupsPages ::
  "federated_group adapter \<Rightarrow> groups_state \<Rightarrow> group_listing_type \<Rightarrow> nat \<Rightarrow> account_or_server list \<Rightarrow>
     federated_group list"
where
  "getGroupsPages A s listingType throughPage servers =
     through_page (\<lambda>page. getGroupsPage A s listingType page servers) throughPage"

definition getHasGroupsPage :: "groups_state \<Rightarrow> group_listing_type \<Rightarrow> nat \<Rightarrow> account_or_server list \<Rightarrow> bool" where
  "getHasGroupsPage s listingType page servers \<longleftrightarrow>
     \<not> list_ex (\<lambda>server. groups_page_of s listingType page server = None) servers"

definition getServersMissingGroupsPage ::
  "groups_state \<Rightarrow> group_listing_type \<Rightarrow> nat \<Rightarrow> account_or_server list \<Rightarrow> account_or_server list" where
  "getServersMissingGroupsPage s listingType page servers =
     filter (\<lambda>server. groups_page_of s listingType page server = None) servers"

text \<open>Media are listed per owner, the account of the server; a server without account is never missing.\<close>

definition media_owner :: "account_or_server \<Rightarrow> string" where
  "media_owner server = nullish (map_option (\<lambda>a. u_id (acct_user a)) (aos_account server)) []"

definition media_page_of :: "media_state \<Rightarrow> nat \<Rightarrow> account_or_server \<Rightarrow> string list option" where
  "media_page_of s page server = server_page (userMediaPages s) (aos_server server) (media_owner server) page"

definition getMediaPage ::
  "federated_media adapter \<Rightarrow> (string \<Rightarrow> string \<Rightarrow> int) \<Rightarrow> media_state \<Rightarrow> nat \<Rightarrow> account_or_server list \<Rightarrow>
     federated_media list"
where
  "getMediaPage A loc s page servers =
     (let pageMediaIds = listed_ids (media_page_of s page) servers;
          pageMedia = present (selectById A (media_entities s)) pageMediaIds
      in js_sort (\<lambda>a b. loc (nullish (media_createdAt (entity b)) []) (nullish (media_createdAt (entity a)) []))
           pageMedia)"

definition getMediaPages ::
  "federated_media adapter \<Rightarrow> (string \<Rightarrow> string \<Rightarrow> int) \<Rightarrow> media_state \<Rightarrow> nat \<Rightarrow> account_or_server list \<Rightarrow>
     federated_media list"
where
  "getMediaPages A loc s throughPage servers = through_page (\<lambda>page. getMediaPage A loc s page servers) throughPage"

definition missing_media_page :: "media_state \<Rightarrow> nat \<Rightarrow> account_or_server \<Rightarrow> bool" where
  "missing_media_page s page server \<longleftrightarrow> aos_account server \<noteq> None \<and> media_page_of s page server = None"

definition getHasMediaPage :: "media_state \<Rightarrow> nat \<Rightarrow> account_or_server list \<Rightarrow> bool" where
  "getHasMediaPage s page servers \<longleftrightarrow> \<not> list_ex (missing_media_page s page) servers"

definition getServersMissingMediaPage ::
  "media_state \<Rightarrow> nat \<Rightarrow> account_or_server list \<Rightarrow> account_or_server list" where
  "getServersMissingMediaPage s page servers = filter (missing_media_page s page) servers"


section \<open>Users and members\<close>

record users_page =
  up_users :: "federated_user list"
  up_hadUndefinedServers :: bool

text \<open>One round of the loop over the servers; the users found are stamped with the server's host.\<close>

definition users_round ::
  "federated_user adapter \<Rightarrow> users_state \<Rightarrow> user_listing_type \<Rightarrow> nat \<Rightarrow> users_page \<Rightarrow> account_or_server \<Rightarrow> users_page"
where
  "users_round A s listingType page acc aos =
     (case aos_server aos of
        None \<Rightarrow> acc
      | Some server \<Rightarrow>
         (case server_page (userPages s) (Some server) listingType page of
            None \<Rightarrow> acc\<lparr>up_hadUndefinedServers := True\<rparr>
          | Some serverUserIds \<Rightarrow>
             acc\<lparr>up_users := up_users acc @
               map (\<lambda>u. u\<lparr>serverHostOf := serverHost (FromServer server)\<rparr>)
                 (present (selectById A (users_entities s)) serverUserIds)\<rparr>))"

definition getUsersPage ::
  "federated_user adapter \<Rightarrow> users_state \<Rightarrow> user_listing_type \<Rightarrow> nat \<Rightarrow> account_or_server list \<Rightarrow> users_page" where
  "getUsersPage A s listingType page pinnedServers =
     foldl (users_round A s listingType page) \<lparr>up_users = [], up_hadUndefinedServers = False\<rparr> pinnedServers"

definition getServersMissingUsersPage ::
  "users_state \<Rightarrow> user_listing_type \<Rightarrow> nat \<Rightarrow> account_or_server list \<Rightarrow> account_or_server list" where
  "getServersMissingUsersPage s listingType page servers =
     filter (\<lambda>server. server_page (userPages s) (aos_server server) listingType page = None) servers"

definition listed_member ::
  "federated_user adapter \<Rightarrow> users_state \<Rightarrow> string \<Rightarrow> membership \<Rightarrow> federated_user option" where
  "listed_member A s hst m =
     map_option (edit_user (\<lambda>u. u\<lparr>u_currentGroupMembership := Some m\<rparr>))
       (selectById A (users_entities s) (federateId (m_userId m) (FromHost hst)))"

definition getMembersPage ::
  "federated_user adapter \<Rightarrow> users_state \<Rightarrow> groups_state \<Rightarrow> string \<Rightarrow> nat \<Rightarrow> moderation option \<Rightarrow> users_page" where
  "getMembersPage A users groups groupId page groupModeration =
     (let moderation = nullish groupModeration Moderation_MODERATION_UNKNOWN;
          memberships = Option.bind (groupMembershipPages groups groupId) (\<lambda>p. page_at p moderation page);
          hst = parsed_serverHost (parseFederatedId groupId);
          users = map_option (List.map_filter (listed_member A users hst)) memberships
      in \<lparr>up_users = nullish users [], up_hadUndefinedServers = (users = None)\<rparr>)"


section \<open>Loading what is missing\<close>

context paged_slice
begin

text \<open>
  Pages that arrive in any order, all for one page of one listing: each server ends with the last answer
  it gave.
\<close>

lemma load_each:
  assumes "\<forall>r \<in> set rs. keyOf r = k \<and> pageOf r = p"
  shows "server_page (pagesOf (foldl (\<lambda>s r. load r s) s rs)) server k p =
    (case find (\<lambda>r. federationKey (serverOf r) = federationKey server) (rev rs) of
       None \<Rightarrow> server_page (pagesOf s) server k p
     | Some r \<Rightarrow> Some (idsOf r))"
  using assms
proof (induction rs rule: rev_induct)
  case (snoc r rs)
  then show ?case by (auto simp: server_page_load)
qed simp

lemma answered_page:
  assumes "\<forall>r \<in> set rs. keyOf r = k \<and> pageOf r = p"
    and "r \<in> set rs" "federationKey (serverOf r) = federationKey server"
  shows "server_page (pagesOf (foldl (\<lambda>s r. load r s) s rs)) server k p \<noteq> None"
proof -
  have "find (\<lambda>r. federationKey (serverOf r) = federationKey server) (rev rs) \<noteq> None"
    using assms(2,3) by (auto simp: find_None_iff)
  then show ?thesis
    by (auto simp: load_each [OF assms(1)] split: option.split)
qed

lemma present_page_kept:
  assumes "\<forall>r \<in> set rs. keyOf r = k \<and> pageOf r = p"
    and "server_page (pagesOf s) server k p \<noteq> None"
  shows "server_page (pagesOf (foldl (\<lambda>s r. load r s) s rs)) server k p \<noteq> None"
  using assms(2) by (auto simp: load_each [OF assms(1)] split: option.split)

text \<open>Once every server that missed the page has answered, none misses it.\<close>

lemma missing_answered:
  assumes "\<forall>r \<in> set rs. keyOf r = k \<and> pageOf r = p"
    and "\<forall>server \<in> set servers. server_page (pagesOf s) (aos_server server) k p = None \<longrightarrow>
      (\<exists>r \<in> set rs. federationKey (serverOf r) = federationKey (aos_server server))"
  shows "\<forall>server \<in> set servers. server_page (pagesOf (foldl (\<lambda>s r. load r s) s rs)) (aos_server server) k p \<noteq> None"
proof
  fix server assume "server \<in> set servers"
  then show "server_page (pagesOf (foldl (\<lambda>s r. load r s) s rs)) (aos_server server) k p \<noteq> None"
    using assms(2) answered_page [OF assms(1)] present_page_kept [OF assms(1)]
    by (cases "server_page (pagesOf s) (aos_server server) k p = None") blast+
qed

end

lemma has_page_iff:
  "\<not> list_ex (\<lambda>server. P server = None) servers \<longleftrightarrow> (\<forall>server \<in> set servers. P server \<noteq> None)"
  by (auto simp: list_ex_iff)

lemma events_page_of_flat:
  "events_page_of s l f page server =
     server_page (flat_federated (occasionPages s)) (aos_server server) (l, f) page"
  by (cases "getFederated (occasionPages s) (FederatedAction (aos_server server)) l")
    (simp_all add: events_page_of_def filtered_page_def server_page_def page_at_def flat_getFederated flat_pages_def)


section \<open>What a list shows\<close>

lemma getPostsPage_shows:
  assumes "\<forall>i \<in> set (listed_ids (posts_page_of s k page) servers). selectById A (posts_entities s) i = Some (f i)"
  shows "mset (getPostsPage A loc s k page servers) =
    image_mset f (mset (listed_ids (posts_page_of s k page) servers))"
  by (simp add: getPostsPage_def Let_def present_all [OF assms])

lemma getPostsPage_sorted:
  assumes "js_comparator loc"
  shows "sorted_wrt (\<lambda>a b. loc (nullish (p_createdAt (own (entity b))) []) (nullish (p_createdAt (own (entity a))) []) \<le> 0)
    (getPostsPage A loc s k page servers)"
  unfolding getPostsPage_def Let_def
  by (rule js_comparator.js_sort_sorted [OF js_comparator.by_key_descending [OF assms]])

lemma filter_same_id:
  "distinct (map f xs) \<Longrightarrow> x \<in> set xs \<Longrightarrow> filter (\<lambda>y. f y = f x) xs = [x]"
proof (induction xs)
  case (Cons y ys)
  then show ?case by (auto simp: filter_empty_conv image_iff)
qed simp

lemma occasion_event_saved:
  assumes "entity_adapter A event_key replace_all" "CHR ''@'' \<notin> set (ie_id e)"
    and "i \<in> set (ie_occasions e)" "CHR ''@'' \<notin> set (io_id i)" "distinct (map io_id (ie_occasions e))"
    and "\<forall>b. entities (events_entities s) (mk_federated_id (ie_id e) (federationKey sv)) = Some b \<longrightarrow>
           distinct (map io_id (ie_occasions (entity b)))"
  shows "occasion_event A (saveSingleEvent u A sv e s) (federateId (io_id i) (FederatedAction sv)) =
    Some \<lparr>entity = e\<lparr>ie_occasions := [i]\<rparr>, serverHostOf = federationKey sv\<rparr>"
proof -
  let ?k = "mk_federated_id (ie_id e) (federationKey sv)"
  let ?m = "merged_occasions u (entities (events_entities s) ?k) e"
  have link: "occasionEvents (saveSingleEvent u A sv e s) (federateId (io_id i) (FederatedAction sv)) = Some ?k"
    using link_occasions_const [OF assms(3), where keyOf = "\<lambda>i. federateId (io_id i) (FederatedAction sv)"] assms(2)
    by (simp add: saveSingleEvent_def mergeEvent_def Let_def federatedPayload_def federateId_def serverHost_def)
  have "filter (\<lambda>j. io_id j = io_id i) ?m = [i]"
    using assms(3) by (intro filter_same_id merged_occasions_distinct [OF assms(5,6)] subsetD [OF merged_occasions_new])
  then show ?thesis
    using link save_stored [OF assms(1), of u sv e s] assms(4) adapter_entities(4) [OF assms(1)]
    by (simp add: occasion_event_def mk_federated_id_def)
qed

lemma users_round_undefined:
  "up_hadUndefinedServers (foldl (users_round A s k p) acc servers) \<longleftrightarrow>
     up_hadUndefinedServers acc \<or>
     (\<exists>aos \<in> set servers. aos_server aos \<noteq> None \<and> server_page (userPages s) (aos_server aos) k p = None)"
  by (induction servers arbitrary: acc) (auto simp: users_round_def split: option.splits)

lemma users_round_users:
  "up_users (foldl (users_round A s k p) acc servers) =
     up_users acc @ concat (map (\<lambda>aos. case aos_server aos of None \<Rightarrow> [] | Some server \<Rightarrow>
       map (\<lambda>u. u\<lparr>serverHostOf := host server\<rparr>)
         (present (selectById A (users_entities s))
           (nullish (server_page (userPages s) (Some server) k p) []))) servers)"
  by (induction servers arbitrary: acc)
    (auto simp: users_round_def present_def map_filter_def split: option.splits)


lemma find_same_key: "distinct (map f xs) \<Longrightarrow> x \<in> set xs \<Longrightarrow> find (\<lambda>y. f y = f x) xs = Some x"
proof (induction xs)
  case (Cons y ys)
  then show ?case by (auto simp: image_iff)
qed simp

lemma entity_upserted_user: "entity (upserted merge_user old (fed_user u sv adv)) = u"
  by (cases old) (simp_all add: upserted_def merge_user_def fed_user_def)

lemma group_member_stored:
  assumes "entity_adapter A user_key merge_user"
    and "distinct (map (\<lambda>m. u_id (fst m)) pairs)" "\<forall>m \<in> set pairs. CHR ''@'' \<notin> set (u_id (fst m))" "m \<in> set pairs"
  shows "\<exists>v. selectById A (users_entities (loadGroupMembers_users A sv
      (map (\<lambda>(u, m). \<lparr>api_member.member_user = Some u, member_membership = Some m\<rparr>) pairs) us))
        (mk_federated_id (u_id (fst m)) (federationKey sv)) = Some v \<and> entity v = fst m"
proof -
  let ?es = "map (\<lambda>m. fed_user (fst m) (FederatedAction sv) None) pairs"
  have users: "map (\<lambda>u. fed_user u (FederatedAction sv) None) (List.map_filter api_member.member_user
      (map (\<lambda>(u, m). \<lparr>api_member.member_user = Some u, member_membership = Some m\<rparr>) pairs)) = ?es"
    by (induction pairs) (auto simp: map_filter_def)
  have keys: "map user_key ?es = map (\<lambda>i. mk_federated_id i (federationKey sv)) (map (\<lambda>m. u_id (fst m)) pairs)"
    by (simp add: serverHost_def)
  have d: "distinct (map user_key ?es)"
    unfolding keys using assms(2,3) by (auto simp: distinct_map inj_on_def mk_federated_id_eq)
  have "find (\<lambda>e. user_key e = user_key (fed_user (fst m) (FederatedAction sv) None)) ?es =
      Some (fed_user (fst m) (FederatedAction sv) None)"
    using assms(4) by (intro find_same_key [OF d]) auto
  then have "find (\<lambda>e. user_key e = mk_federated_id (u_id (fst m)) (federationKey sv)) ?es =
      Some (fed_user (fst m) (FederatedAction sv) None)"
    by (simp only: fed_user_key serverHost_def has_server.case)
  then show ?thesis
    using entity_adapter.entities_upsertMany [OF assms(1) d] adapter_entities(4) [OF assms(1)]
    by (simp add: loadGroupMembers_users_def users entity_upserted_user)
qed

section \<open>Properties\<close>

text \<open>
  C10: After a server has answered with a page of posts, the list of that server and
  page is complete and shows exactly the posts of the answer, stamped with the server's host, newest
  first.
\<close>

theorem loaded_posts_shown:
  assumes "entity_adapter A post_key replace_all" "js_comparator loc" "posts_wf s"
    and "distinct (map post_id ps)" "\<forall>p \<in> set ps. CHR ''@'' \<notin> set (post_id p)"
    and "aos_server server = lpr_server req"
  shows "let s' = loadPostsPage_fulfilled A req ps s;
             page = nullish (lpr_page req) 0;
             shown = getPostsPage A loc s' (lpr_key req) page [server]
         in getHasPostsPage s' (lpr_key req) page [server] \<and>
            mset shown = mset (federatedEntities ps (FederatedAction (lpr_server req))) \<and>
            sorted_wrt (\<lambda>a b. loc (nullish (p_createdAt (own (entity b))) [])
              (nullish (p_createdAt (own (entity a))) []) \<le> 0) shown"
proof -
  let ?s = "loadPostsPage_fulfilled A req ps s"
  let ?h = "federationKey (lpr_server req)"
  have page: "posts_page_of ?s (lpr_key req) (nullish (lpr_page req) 0) server =
      Some (map (\<lambda>p. mk_federated_id (post_id p) ?h) ps)"
    using posts_pages.loaded_page [of A "(req, ps)" s] assms(6)
    by (simp add: posts_page_of_def federatedEntities_def serverHost_def o_def)
  have "present (selectById A (posts_entities ?s)) (map (\<lambda>p. mk_federated_id (post_id p) ?h) ps) =
      map (\<lambda>p. \<lparr>entity = p, serverHostOf = ?h\<rparr>) ps"
    using page_post_stored [OF assms(1,3-5)] adapter_entities(4) [OF assms(1)]
    by (induction ps) (simp_all add: present_def map_filter_def)
  then have "mset (getPostsPage A loc ?s (lpr_key req) (nullish (lpr_page req) 0) [server]) =
      mset (federatedEntities ps (FederatedAction (lpr_server req)))"
    by (simp add: getPostsPage_def Let_def page federatedEntities_def federatedEntity_def serverHost_def)
  then show ?thesis
    using getPostsPage_sorted [OF assms(2)] page by (simp add: Let_def getHasPostsPage_def)
qed

theorem loaded_posts_shown_witness:
  "mset (getPostsPage (ref_adapter post_key replace_all None) compare_units
      (loadPostsPage_fulfilled (ref_adapter post_key replace_all None)
        \<lparr>lpr_server = Some sample_server, lpr_listingType = None, lpr_page = None\<rparr>
        [bare_post ''a'' [], bare_post ''b'' []] sample_posts)
      PostListingType_ALL_ACCESSIBLE_POSTS 0 [\<lparr>aos_account = None, aos_server = Some sample_server\<rparr>]) =
    {# \<lparr>entity = bare_post ''a'' [], serverHostOf = ''h''\<rparr>, \<lparr>entity = bare_post ''b'' [], serverHostOf = ''h''\<rparr> #}"
  using loaded_posts_shown [OF posts_ref.entity_adapter_axioms unit_comparator.js_comparator_axioms sample_posts_wf,
      of "[bare_post ''a'' [], bare_post ''b'' []]" "\<lparr>aos_account = None, aos_server = Some sample_server\<rparr>"
        "\<lparr>lpr_server = Some sample_server, lpr_listingType = None, lpr_page = None\<rparr>" None]
  by (simp add: Let_def lpr_key_def defaultPostListingType_def federatedEntities_def federatedEntity_def
      sample_server_def)

text \<open>
  C20: When every server that misses a page of a listing has answered for it, in any
  order and any number of times, the page is complete for the whole list of servers.
\<close>

theorem missing_servers_load:
  assumes "\<forall>(req, response) \<in> set rs. lpr_key req = k \<and> nullish (lpr_page req) 0 = page"
    and "\<forall>server \<in> set (getServersMissingPostsPage s k page servers).
      \<exists>(req, response) \<in> set rs. lpr_server req = aos_server server"
  shows "getHasPostsPage (foldl (\<lambda>s (req, response). loadPostsPage_fulfilled A req response s) s rs) k page servers \<and>
    getServersMissingPostsPage (foldl (\<lambda>s (req, response). loadPostsPage_fulfilled A req response s) s rs) k page servers = []"
proof -
  have *: "(\<lambda>s r. (case r of (req, response) \<Rightarrow> loadPostsPage_fulfilled A req response) s) =
      (\<lambda>s (req, response). loadPostsPage_fulfilled A req response s)"
    by auto
  have "\<forall>server \<in> set servers. server_page (postPages
      (foldl (\<lambda>s (req, response). loadPostsPage_fulfilled A req response s) s rs)) (aos_server server) k page \<noteq> None"
    using posts_pages.missing_answered [of rs k page servers s A] assms unfolding *
    by (fastforce simp: getServersMissingPostsPage_def posts_page_of_def)
  then show ?thesis
    by (simp add: getHasPostsPage_def getServersMissingPostsPage_def posts_page_of_def list_ex_iff)
qed

theorem missing_servers_load_witness:
  "getHasPostsPage (loadPostsPage_fulfilled (ref_adapter post_key replace_all None)
      \<lparr>lpr_server = Some sample_server, lpr_listingType = None, lpr_page = None\<rparr> [bare_post ''a'' []] initial_posts)
    PostListingType_ALL_ACCESSIBLE_POSTS 0 [\<lparr>aos_account = None, aos_server = Some sample_server\<rparr>]"
  using missing_servers_load [of
      "[(\<lparr>lpr_server = Some sample_server, lpr_listingType = None, lpr_page = None\<rparr>, [bare_post ''a'' []])]"
      PostListingType_ALL_ACCESSIBLE_POSTS 0 initial_posts "[\<lparr>aos_account = None, aos_server = Some sample_server\<rparr>]"
      "ref_adapter post_key replace_all None"]
  by (simp add: lpr_key_def defaultPostListingType_def getServersMissingPostsPage_def)

text \<open>
  C39: After an event is saved, a list of its occasions shows one event per occasion, in
  the order of the list, each holding that occasion alone.
\<close>

theorem saved_event_listed:
  assumes "entity_adapter A event_key replace_all" "CHR ''@'' \<notin> set (ie_id e)"
    and "distinct (map io_id (ie_occasions e))" "\<forall>i \<in> set (ie_occasions e). CHR ''@'' \<notin> set (io_id i)"
    and "\<forall>b. entities (events_entities s) (mk_federated_id (ie_id e) (federationKey sv)) = Some b \<longrightarrow>
           distinct (map io_id (ie_occasions (entity b)))"
    and "set os \<subseteq> set (ie_occasions e)"
  shows "occasionsToEvents A (saveSingleEvent u A sv e s) (map (\<lambda>i. federateId (io_id i) (FederatedAction sv)) os) =
    map (\<lambda>i. \<lparr>entity = e\<lparr>ie_occasions := [i]\<rparr>, serverHostOf = federationKey sv\<rparr>) os"
  using assms(6)
proof (induction os)
  case (Cons i os)
  then show ?case
    using occasion_event_saved [OF assms(1,2) _ _ assms(3,5), of i u] assms(4)
    by (simp add: occasionsToEvents_def present_def map_filter_def)
qed (simp add: occasionsToEvents_def present_def map_filter_def)

theorem saved_event_listed_witness:
  "occasionsToEvents (ref_adapter event_key replace_all None)
     (saveSingleEvent length_clock (ref_adapter event_key replace_all None) None sample_event (initial_events []))
     [''i@default''] =
   [\<lparr>entity = sample_event\<lparr>ie_occasions := [sample_occasion ''i'' ''1'']\<rparr>, serverHostOf = ''default''\<rparr>]"
  using saved_event_listed [OF events_ref.entity_adapter_axioms [where key = None], where e = sample_event
      and s = "initial_events []" and sv = None and u = length_clock and os = "[sample_occasion ''i'' ''1'']"]
  by (simp add: sample_event_def sample_occasion_def initial_events_def empty_entities_def federateId_def
      mk_federated_id_def federationKey_def)

text \<open>
  The list of users reports an unanswered server exactly when a server that is
  known misses the page, and shows the users of every server that answered, in the order of the servers.
\<close>

theorem users_page_complete:
  "(up_hadUndefinedServers (getUsersPage A s k page servers) \<longleftrightarrow>
     (\<exists>server \<in> set (getServersMissingUsersPage s k page servers). aos_server server \<noteq> None)) \<and>
   up_users (getUsersPage A s k page servers) =
     concat (map (\<lambda>aos. case aos_server aos of None \<Rightarrow> [] | Some server \<Rightarrow>
       map (\<lambda>u. u\<lparr>serverHostOf := host server\<rparr>)
         (present (selectById A (users_entities s))
           (nullish (server_page (userPages s) (Some server) k page) []))) servers)"
  unfolding getUsersPage_def users_round_users users_round_undefined
  by (auto simp: getServersMissingUsersPage_def)


text \<open>
  After a page of a group's members has been loaded, the members list of that page
  and moderation is defined and shows every member of the answer in order, each with the membership that
  came with it.
\<close>

theorem loaded_members_shown:
  assumes "entity_adapter A user_key merge_user"
    and "distinct (map (\<lambda>m. u_id (fst m)) pairs)"
    and "\<forall>(u, m) \<in> set pairs. m_userId m = u_id u \<and> CHR ''@'' \<notin> set (u_id u)"
    and "CHR ''@'' \<notin> set gid" "CHR ''@'' \<notin> set (federationKey (lmb_server req))"
    and "lmb_id req = mk_federated_id gid (federationKey (lmb_server req))"
  shows "let members = map (\<lambda>(u, m). \<lparr>api_member.member_user = Some u, member_membership = Some m\<rparr>) pairs;
             users = loadGroupMembers_users A (lmb_server req) members us;
             groups = loadGroupMembers_fulfilled req members gs;
             result = getMembersPage A users groups (lmb_id req) (nullish (lmb_page req) 0) (lmb_groupModeration req)
         in \<not> up_hadUndefinedServers result \<and>
            map entity (up_users result) = map (\<lambda>(u, m). u\<lparr>u_currentGroupMembership := Some m\<rparr>) pairs"
proof -
  let ?h = "federationKey (lmb_server req)"
  let ?members = "map (\<lambda>(u, m). \<lparr>api_member.member_user = Some u, member_membership = Some m\<rparr>) pairs"
  let ?users = "loadGroupMembers_users A (lmb_server req) ?members us"
  have parsed: "parseFederatedIdOr (lmb_id req) d = \<lparr>parsed_id = gid, parsed_serverHost = ?h\<rparr>" for d
    using assms(4,5) by (simp add: assms(6))
  have ms: "List.map_filter member_membership ?members = map snd pairs"
    by (induction pairs) (auto simp: map_filter_def)
  have page: "Option.bind (groupMembershipPages (loadGroupMembers_fulfilled req ?members gs) (lmb_id req))
      (\<lambda>p. page_at p (nullish (lmb_groupModeration req) Moderation_MODERATION_UNKNOWN) (nullish (lmb_page req) 0)) =
      Some (map snd pairs)"
    unfolding loadGroupMembers_fulfilled_def Let_def parsed ms
    by (simp add: toFederatedId_def assms(6) page_at_def)
  have plain: "\<forall>m \<in> set pairs. CHR ''@'' \<notin> set (u_id (fst m))"
    using assms(3) by auto
  have one: "\<exists>v. listed_member A ?users ?h (snd m) = Some v \<and>
      entity v = (fst m)\<lparr>u_currentGroupMembership := Some (snd m)\<rparr>" if "m \<in> set pairs" for m
  proof -
    have "federateId (m_userId (snd m)) (FromHost ?h) = mk_federated_id (u_id (fst m)) ?h"
      using assms(3) that by (auto simp: federateId_def)
    then show ?thesis
      using group_member_stored [OF assms(1,2) plain that, of "lmb_server req" us]
      by (auto simp: listed_member_def edit_user_def)
  qed
  have "map entity (List.map_filter (listed_member A ?users ?h) (map snd pairs)) =
      map (\<lambda>(u, m). u\<lparr>u_currentGroupMembership := Some m\<rparr>) pairs"
    by (rule map_filter_each) (use one in \<open>auto simp: split_def\<close>)
  then show ?thesis
    by (simp add: getMembersPage_def Let_def page parsed)
qed

theorem loaded_members_shown_witness:
  "map entity (up_users (getMembersPage sample_users_adapter
      (loadGroupMembers_users sample_users_adapter (Some sample_server)
        [\<lparr>api_member.member_user = Some (sample_user ''you''), member_membership = Some (sample_membership\<lparr>m_userId := ''you''\<rparr>)\<rparr>]
        sample_users)
      (loadGroupMembers_fulfilled \<lparr>lmb_server = Some sample_server, lmb_id = ''g@h'', lmb_page = None, lmb_groupModeration = None\<rparr>
        [\<lparr>api_member.member_user = Some (sample_user ''you''), member_membership = Some (sample_membership\<lparr>m_userId := ''you''\<rparr>)\<rparr>]
        sample_groups) ''g@h'' 0 None)) =
   [(sample_user ''you'')\<lparr>u_currentGroupMembership := Some (sample_membership\<lparr>m_userId := ''you''\<rparr>)\<rparr>]"
  using loaded_members_shown [OF users_ref.entity_adapter_axioms [where key = None],
      where pairs = "[(sample_user ''you'', sample_membership\<lparr>m_userId := ''you''\<rparr>)]" and gid = "''g''" and
      req = "\<lparr>lmb_server = Some sample_server, lmb_id = ''g@h'', lmb_page = None, lmb_groupModeration = None\<rparr>" and
      us = sample_users and gs = sample_groups]
  by (simp add: Let_def sample_user_def sample_server_def federationKey_def mk_federated_id_def)

end
