(* ===== verification/Paging_Hooks.thy ===== *)
theory Paging_Hooks
  imports Pagination
begin

text \<open>
  What the hooks of hooks/pagination compute: the page number kept in the address bar, the slice of a
  list that is rendered, which servers a reload asks, and the mutex that keeps two components from
  loading the same events at once.

  A page number is \<open>None\<close> where the source has \<open>NaN\<close>.  Numbers are exact; JavaScript is exact up to
  2^53, far more than any list has pages.
\<close>

section \<open>Numbers in the address bar\<close>

text \<open>\<open>(n).toString()\<close>.\<close>

definition decimal_digit :: "nat \<Rightarrow> char" where
  "decimal_digit n = char_of (n + 48)"

fun to_decimal :: "nat \<Rightarrow> string" where
  "to_decimal n = (if n < 10 then [decimal_digit n] else to_decimal (n div 10) @ [decimal_digit (n mod 10)])"

declare to_decimal.simps [simp del]

text \<open>\<open>parseInt(s)\<close>: white space, a sign, perhaps \<open>0x\<close>, and as many digits as there are; \<open>NaN\<close> without a digit.\<close>

definition is_space :: "char \<Rightarrow> bool" where
  "is_space c \<longleftrightarrow> (of_char c :: nat) \<in> {9, 10, 11, 12, 13, 32, 160}"

definition digit_value :: "nat \<Rightarrow> char \<Rightarrow> nat option" where
  "digit_value radix c =
     (let n = of_char c :: nat;
          v = (if 48 \<le> n \<and> n \<le> 57 then n - 48
               else if 97 \<le> n \<and> n \<le> 122 then n - 87
               else if 65 \<le> n \<and> n \<le> 90 then n - 55
               else 36)
      in if v < radix then Some v else None)"

fun digits_value :: "nat \<Rightarrow> nat \<Rightarrow> string \<Rightarrow> nat" where
  "digits_value radix acc [] = acc"
| "digits_value radix acc (c # cs) =
     (case digit_value radix c of None \<Rightarrow> acc | Some v \<Rightarrow> digits_value radix (radix * acc + v) cs)"

definition js_parseInt :: "string \<Rightarrow> int option" where
  "js_parseInt s =
     (let s1 = dropWhile is_space s;
          negative = (s1 \<noteq> [] \<and> hd s1 = CHR ''-'');
          s2 = (if s1 \<noteq> [] \<and> (hd s1 = CHR ''-'' \<or> hd s1 = CHR ''+'') then tl s1 else s1);
          hexadecimal = (take 2 s2 = ''0x'' \<or> take 2 s2 = ''0X'');
          radix = (if hexadecimal then 16 else 10);
          s3 = (if hexadecimal then drop 2 s2 else s2)
      in if s3 = [] \<or> digit_value radix (hd s3) = None then None
         else Some ((if negative then -1 else 1) * int (digits_value radix 0 s3)))"

text \<open>
  \<open>Math.max(0, parseInt(pageParam ?? '1') - 1)\<close>.  \<open>parseInt\<close> does not throw, so the surrounding \<open>catch\<close> is
  never reached and \<open>NaN\<close> passes through \<open>??\<close>.
\<close>

definition usePageParam :: "string option \<Rightarrow> nat option" where
  "usePageParam pageParam = map_option (\<lambda>n. nat (max 0 (n - 1))) (js_parseInt (nullish pageParam ''1''))"

text \<open>The parameter after \<open>setPage(p)\<close>: nothing happens on the current page, page 0 drops it.\<close>

definition setPage :: "nat \<Rightarrow> string option \<Rightarrow> string option" where
  "setPage p pageParam =
     (if usePageParam pageParam = Some p then pageParam
      else if p = 0 then None else Some (to_decimal (p + 1)))"


section \<open>The slice that is rendered\<close>

definition maxPagesToRender :: nat where
  "maxPagesToRender = 1"

text \<open>\<open>xs.slice(a, b)\<close> for numbers that are not negative.\<close>

definition js_slice :: "nat \<Rightarrow> nat \<Rightarrow> 'a list \<Rightarrow> 'a list" where
  "js_slice a b xs = take (b - a) (drop a xs)"

record 'a pagination =
  pgn_results :: "'a list"
  pgn_page :: "nat option"
  pgn_pageCount :: nat
  pgn_pageSize :: nat
  pgn_resultCount :: nat
  pgn_hasNextPage :: bool

text \<open>With \<open>NaN\<close> both bounds of the slice are 0 and the comparison for a next page fails.\<close>

definition usePaginatedRendering :: "'a list \<Rightarrow> nat \<Rightarrow> nat option \<Rightarrow> 'a pagination" where
  "usePaginatedRendering dataSet pageSize page =
     (let pageCount = (length dataSet + pageSize - 1) div pageSize
      in case page of
           None \<Rightarrow>
             \<lparr>pgn_results = js_slice 0 0 dataSet, pgn_page = None, pgn_pageCount = pageCount, pgn_pageSize = pageSize,
              pgn_resultCount = length dataSet, pgn_hasNextPage = False\<rparr>
         | Some p \<Rightarrow>
             (let lowerBoundPage = p + 1 - maxPagesToRender;
                  upperBoundPage = p + 1
              in \<lparr>pgn_results = js_slice (lowerBoundPage * pageSize) (upperBoundPage * pageSize) dataSet,
                  pgn_page = page, pgn_pageCount = pageCount, pgn_pageSize = pageSize,
                  pgn_resultCount = length dataSet,
                  pgn_hasNextPage = (length dataSet > upperBoundPage * pageSize)\<rparr>))"

text \<open>\<open>reset\<close>: the page goes back to the first one, once a second at most and only when something is shown.\<close>

record paging_state =
  ps_param :: "string option"
  ps_loadingPage :: bool

definition reset_paging :: "'a list \<Rightarrow> nat \<Rightarrow> paging_state \<Rightarrow> paging_state" where
  "reset_paging dataSet pageSize st =
     (if ps_loadingPage st then st
      else if pgn_results (usePaginatedRendering dataSet pageSize (usePageParam (ps_param st))) = [] then st
      else \<lparr>ps_param = setPage 0 (ps_param st), ps_loadingPage = True\<rparr>)"

definition reset_timer :: "paging_state \<Rightarrow> paging_state" where
  "reset_timer st = st\<lparr>ps_loadingPage := False\<rparr>"


section \<open>Which servers a reload asks\<close>

definition serversAllDefined :: "account_or_server list \<Rightarrow> bool" where
  "serversAllDefined servers \<longleftrightarrow> \<not> list_ex (\<lambda>s. aos_server s = None) servers"

definition posts_serversToUpdate ::
  "posts_state \<Rightarrow> post_listing_type \<Rightarrow> bool \<Rightarrow> account_or_server list \<Rightarrow> account_or_server list" where
  "posts_serversToUpdate s listingType force servers =
     (if force then servers else getServersMissingPostsPage s listingType 0 servers)"

definition posts_needsLoading :: "posts_state \<Rightarrow> post_listing_type \<Rightarrow> account_or_server list \<Rightarrow> bool" where
  "posts_needsLoading s listingType servers \<longleftrightarrow>
     length (getServersMissingPostsPage s listingType 0 servers) > 0 \<and>
     \<not> someLoading (posts_pagesStatus s) servers \<and> serversAllDefined servers"

definition events_serversToUpdate ::
  "events_state \<Rightarrow> event_listing_type \<Rightarrow> string \<Rightarrow> bool \<Rightarrow> account_or_server list \<Rightarrow> account_or_server list" where
  "events_serversToUpdate s listingType timeFilter force servers =
     (if force then servers else getServersMissingEventsPage s listingType timeFilter 0 servers)"

definition events_needsLoading ::
  "events_state \<Rightarrow> event_listing_type \<Rightarrow> string \<Rightarrow> account_or_server list \<Rightarrow> bool" where
  "events_needsLoading s listingType timeFilter servers \<longleftrightarrow>
     length (getServersMissingEventsPage s listingType timeFilter 0 servers) > 0 \<and>
     \<not> selectEventsLoading s servers \<and> serversAllDefined servers"


section \<open>The loading mutex\<close>

text \<open>
  The mutex is one per kind of list; every component has its own \<open>initiatedLoading\<close>.  \<open>lk_running\<close> lists the
  components whose reload has been started and has not settled, \<open>lk_polls\<close> counts the updates scheduled for
  a component that found the mutex taken.
\<close>

record loading_lock =
  lk_loading :: bool
  lk_initiated :: "nat \<Rightarrow> bool"
  lk_running :: "nat list"
  lk_polls :: "nat \<Rightarrow> nat"

definition createLoadingMutex :: loading_lock where
  "createLoadingMutex = \<lparr>lk_loading = False, lk_initiated = (\<lambda>_. False), lk_running = [], lk_polls = (\<lambda>_. 0)\<rparr>"

definition lockLoading :: "nat \<Rightarrow> loading_lock \<Rightarrow> loading_lock" where
  "lockLoading c st = st\<lparr>lk_initiated := (lk_initiated st)(c := True), lk_loading := True\<rparr>"

definition unlockLoading :: "nat \<Rightarrow> loading_lock \<Rightarrow> loading_lock" where
  "unlockLoading c st = st\<lparr>lk_loading := False, lk_initiated := (lk_initiated st)(c := False)\<rparr>"

definition tryReload :: "nat \<Rightarrow> loading_lock \<Rightarrow> loading_lock" where
  "tryReload c st = st\<lparr>lk_polls := (lk_polls st)(c := lk_polls st c + 1)\<rparr>"

text \<open>The function \<open>createReload\<close> returns, for a component \<open>c\<close> that sees \<open>loading\<close>.\<close>

definition reload :: "nat \<Rightarrow> bool \<Rightarrow> loading_lock \<Rightarrow> loading_lock" where
  "reload c loading st =
     (if loading then st
      else if lk_loading st then tryReload c st
      else (lockLoading c st)\<lparr>lk_running := lk_running st @ [c]\<rparr>)"

text \<open>\<open>reload(force).finally(unlockLoading)\<close>: the promise of component \<open>c\<close> settles, whichever way.\<close>

definition settled :: "nat \<Rightarrow> loading_lock \<Rightarrow> loading_lock" where
  "settled c st = (if c \<in> set (lk_running st) then (unlockLoading c st)\<lparr>lk_running := remove1 c (lk_running st)\<rparr> else st)"

definition shouldReload :: "nat \<Rightarrow> loading_lock \<Rightarrow> bool" where
  "shouldReload c st \<longleftrightarrow> lk_loading st \<and> \<not> lk_initiated st c"

inductive lock_step :: "loading_lock \<Rightarrow> loading_lock \<Rightarrow> bool" where
  Reload: "lock_step st (reload c loading st)"
| Settled: "c \<in> set (lk_running st) \<Longrightarrow> lock_step st (settled c st)"

inductive_cases lock_stepE: "lock_step st st'"

inductive lock_reachable :: "loading_lock \<Rightarrow> bool" where
  Initial: "lock_reachable createLoadingMutex"
| Step: "lock_reachable st \<Longrightarrow> lock_step st st' \<Longrightarrow> lock_reachable st'"


section \<open>Lemmas on numbers\<close>

lemma decimal_digit_value: "n < 10 \<Longrightarrow> digit_value 10 (decimal_digit n) = Some n"
  by (simp add: digit_value_def decimal_digit_def Let_def)

lemma digits_value_append:
  "\<forall>c \<in> set xs. digit_value radix c \<noteq> None \<Longrightarrow>
     digits_value radix acc (xs @ ys) = digits_value radix (digits_value radix acc xs) ys"
  by (induction xs arbitrary: acc) auto

lemma to_decimal_digits: "c \<in> set (to_decimal n) \<Longrightarrow> \<exists>v < 10. c = decimal_digit v"
proof (induction n rule: to_decimal.induct)
  case (1 n)
  show ?case
  proof (cases "n < 10")
    case True
    then show ?thesis using "1.prems" by (auto simp: to_decimal.simps [of n])
  next
    case False
    then have "c \<in> set (to_decimal (n div 10)) \<or> c = decimal_digit (n mod 10)"
      using "1.prems" by (auto simp: to_decimal.simps [of n])
    then show ?thesis
      using "1.IH" [OF False] by (auto intro: exI [of _ "n mod 10"])
  qed
qed

lemma to_decimal_value: "digits_value 10 0 (to_decimal n) = n"
proof (induction n rule: to_decimal.induct)
  case (1 n)
  show ?case
  proof (cases "n < 10")
    case True
    then show ?thesis
      by (simp add: to_decimal.simps [of n] decimal_digit_value)
  next
    case False
    have "\<forall>c \<in> set (to_decimal (n div 10)). digit_value 10 c \<noteq> None"
      using to_decimal_digits decimal_digit_value by fastforce
    then show ?thesis
      using 1 [OF False] False
      by (simp add: to_decimal.simps [of n] digits_value_append decimal_digit_value)
  qed
qed

lemma to_decimal_not_Nil [simp]: "to_decimal n \<noteq> []"
  by (subst to_decimal.simps) simp

lemma decimal_digit_plain:
  assumes "v < 10"
  shows "\<not> is_space (decimal_digit v)" "decimal_digit v \<noteq> CHR ''-''" "decimal_digit v \<noteq> CHR ''+''"
    "decimal_digit v \<noteq> CHR ''x''" "decimal_digit v \<noteq> CHR ''X''"
proof -
  have n: "(of_char (decimal_digit v) :: nat) = v + 48"
    using assms by (simp add: decimal_digit_def)
  show "\<not> is_space (decimal_digit v)"
    using assms n by (simp add: is_space_def)
  have "decimal_digit v \<noteq> c" if "(of_char c :: nat) < 48 \<or> 58 \<le> (of_char c :: nat)" for c
    using assms n that by auto
  from this [of "CHR ''-''"] this [of "CHR ''+''"] this [of "CHR ''x''"] this [of "CHR ''X''"]
  show "decimal_digit v \<noteq> CHR ''-''" "decimal_digit v \<noteq> CHR ''+''"
    "decimal_digit v \<noteq> CHR ''x''" "decimal_digit v \<noteq> CHR ''X''"
    by simp_all
qed

text \<open>Printing and parsing a number.\<close>

lemma js_parseInt_to_decimal: "js_parseInt (to_decimal n) = Some (int n)"
proof -
  obtain c cs where cs: "to_decimal n = c # cs"
    by (cases "to_decimal n") simp_all
  obtain v where v: "v < 10" "c = decimal_digit v"
    using to_decimal_digits [of c n] cs by auto
  have tail: "d \<in> set cs \<Longrightarrow> d \<noteq> CHR ''x'' \<and> d \<noteq> CHR ''X''" for d
    using to_decimal_digits [of d n] cs decimal_digit_plain by auto
  have "take (Suc 0) cs \<noteq> ''x''" "take (Suc 0) cs \<noteq> ''X''"
    using tail by (cases cs; simp)+
  moreover have "digit_value 10 c = Some v"
    using v by (simp add: decimal_digit_value)
  ultimately show ?thesis
    using decimal_digit_plain [OF v(1)] v(2) to_decimal_value [of n]
    by (simp add: js_parseInt_def Let_def cs)
qed


section \<open>Lemmas on pages\<close>

lemma concat_pages:
  "concat (map (\<lambda>p. js_slice (p * k) ((p + 1) * k) xs) [0..<n]) = take (n * k) xs"
proof (induction n)
  case (Suc n)
  have "take (n * k) xs @ take k (drop (n * k) xs) = take (n * k + k) xs"
    by (simp add: take_add)
  then show ?case
    using Suc by (simp add: js_slice_def add.commute)
qed simp

lemma page_count_bound:
  fixes n k p :: nat
  assumes "0 < k"
  shows "n \<le> (n + k - 1) div k * k" "(p + 1) * k < n \<longleftrightarrow> p + 1 < (n + k - 1) div k"
proof -
  have "n + k - 1 = (n + k - 1) div k * k + (n + k - 1) mod k"
    by simp
  moreover have "(n + k - 1) mod k < k"
    using assms by simp
  ultimately show "n \<le> (n + k - 1) div k * k"
    by linarith
  have "p + 1 < (n + k - 1) div k \<longleftrightarrow> (p + 2) \<le> (n + k - 1) div k"
    by linarith
  also have "\<dots> \<longleftrightarrow> (p + 2) * k \<le> n + k - 1"
    by (rule less_eq_div_iff_mult_less_eq [OF assms])
  also have "(p + 2) * k = (p + 1) * k + k"
    by simp
  also have "(p + 1) * k + k \<le> n + k - 1 \<longleftrightarrow> (p + 1) * k < n"
    using assms by linarith
  finally show "(p + 1) * k < n \<longleftrightarrow> p + 1 < (n + k - 1) div k"
    by simp
qed


section \<open>Lemmas on the mutex\<close>

definition lock_ok :: "loading_lock \<Rightarrow> bool" where
  "lock_ok st \<longleftrightarrow>
     length (lk_running st) \<le> 1 \<and> (lk_loading st \<longleftrightarrow> lk_running st \<noteq> []) \<and>
     (\<forall>c. lk_initiated st c \<longleftrightarrow> c \<in> set (lk_running st))"

lemma lock_step_ok:
  assumes "lock_step st st'" "lock_ok st"
  shows "lock_ok st'"
  using assms(1)
proof (cases rule: lock_step.cases)
  case (Reload c loading)
  then show ?thesis
    using assms(2) by (auto simp: lock_ok_def reload_def lockLoading_def tryReload_def)
next
  case (Settled c)
  then have "lk_running st = [c]"
    using assms(2) by (cases "lk_running st") (auto simp: lock_ok_def)
  then show ?thesis
    using assms(2) Settled by (auto simp: lock_ok_def settled_def unlockLoading_def)
qed

lemma lock_reachable_ok: "lock_reachable st \<Longrightarrow> lock_ok st"
proof (induction rule: lock_reachable.induct)
  case Initial
  show ?case by (simp add: lock_ok_def createLoadingMutex_def)
qed (rule lock_step_ok)


section \<open>Properties\<close>

text \<open>
  After a page has been chosen, the address bar reads back as that page, whatever
  it held before.
\<close>

theorem page_param_roundtrip: "usePageParam (setPage p pageParam) = Some p"
proof (cases "usePageParam pageParam = Some p")
  case False
  have "js_parseInt ''1'' = Some 1"
    by (simp add: js_parseInt_def Let_def is_space_def digit_value_def)
  then show ?thesis
    using False js_parseInt_to_decimal [of "p + 1"] by (simp add: setPage_def usePageParam_def [of None] usePageParam_def [of "Some _"])
qed (simp add: setPage_def)

text \<open>
  C40: The rendered pages 0 to pageCount - 1 are the list, cut into pieces of at most the
  page size: nothing is shown twice and nothing is skipped; there is a next page exactly before the last
  one.
\<close>

theorem pages_partition:
  assumes "0 < pageSize"
  shows "concat (map (\<lambda>p. pgn_results (usePaginatedRendering dataSet pageSize (Some p)))
      [0..<pgn_pageCount (usePaginatedRendering dataSet pageSize page)]) = dataSet \<and>
    length (pgn_results (usePaginatedRendering dataSet pageSize page)) \<le> pageSize \<and>
    (pgn_hasNextPage (usePaginatedRendering dataSet pageSize (Some p)) \<longleftrightarrow>
      p + 1 < pgn_pageCount (usePaginatedRendering dataSet pageSize page))"
proof -
  have count: "pgn_pageCount (usePaginatedRendering dataSet pageSize page) = (length dataSet + pageSize - 1) div pageSize"
    by (simp add: usePaginatedRendering_def Let_def split: option.split)
  have res: "pgn_results (usePaginatedRendering dataSet pageSize (Some p)) =
      js_slice (p * pageSize) ((p + 1) * pageSize) dataSet" for p
    by (simp add: usePaginatedRendering_def Let_def maxPagesToRender_def)
  have all: "concat (map (\<lambda>p. pgn_results (usePaginatedRendering dataSet pageSize (Some p)))
      [0..<pgn_pageCount (usePaginatedRendering dataSet pageSize page)]) = dataSet"
    unfolding count res concat_pages using page_count_bound(1) [OF assms] by simp
  have len: "length (pgn_results (usePaginatedRendering dataSet pageSize page)) \<le> pageSize"
    by (simp add: usePaginatedRendering_def Let_def maxPagesToRender_def js_slice_def split: option.split)
  have next_page: "pgn_hasNextPage (usePaginatedRendering dataSet pageSize (Some p)) \<longleftrightarrow>
      p + 1 < pgn_pageCount (usePaginatedRendering dataSet pageSize page)"
    unfolding count using page_count_bound(2) [OF assms, of p "length dataSet"]
    by (simp add: usePaginatedRendering_def Let_def)
  show ?thesis
    using all len next_page by blast
qed

theorem pages_partition_witness:
  "concat (map (\<lambda>p. pgn_results (usePaginatedRendering [1, 2, 3 :: nat] 2 (Some p))) [0..<2]) = [1, 2, 3]"
proof -
  have "pgn_pageCount (usePaginatedRendering [1, 2, 3 :: nat] 2 None) = 2"
    by (simp add: usePaginatedRendering_def)
  then show ?thesis
    using pages_partition [of 2 "[1, 2, 3 :: nat]" None 0] by (simp only: zero_less_numeral simp_thms)
qed

text \<open>
  A page parameter that does not start with a number renders nothing and offers no
  next page, because \<open>NaN\<close> is neither caught nor replaced.
\<close>

theorem unreadable_page_empty:
  assumes "js_parseInt s = None"
  shows "pgn_results (usePaginatedRendering dataSet pageSize (usePageParam (Some s))) = [] \<and>
    \<not> pgn_hasNextPage (usePaginatedRendering dataSet pageSize (usePageParam (Some s)))"
  by (simp add: usePageParam_def assms usePaginatedRendering_def Let_def js_slice_def)

theorem unreadable_page_empty_witness:
  "pgn_results (usePaginatedRendering [1 :: nat] 2 (usePageParam (Some ''last''))) = []"
proof -
  have "js_parseInt ''last'' = None"
    by (simp add: js_parseInt_def Let_def is_space_def digit_value_def)
  from unreadable_page_empty [OF this] show ?thesis by blast
qed

text \<open>
  Over any interleaving of requests and settling promises at most one component's reload
  runs, the mutex is taken exactly while one does, and exactly that component has initiated loading; after
  the running one settles, a request of any component that sees no loading runs.
\<close>

theorem one_reload_runs:
  assumes "lock_reachable st"
  shows "length (lk_running st) \<le> 1 \<and> (lk_loading st \<longleftrightarrow> lk_running st \<noteq> []) \<and>
      (\<forall>c. lk_initiated st c \<longleftrightarrow> c \<in> set (lk_running st)) \<and>
    lk_running (reload c False (foldl (\<lambda>st c. settled c st) st (lk_running st))) = [c]"
proof -
  have ok: "length (lk_running st) \<le> 1 \<and> (lk_loading st \<longleftrightarrow> lk_running st \<noteq> []) \<and>
      (\<forall>c. lk_initiated st c \<longleftrightarrow> c \<in> set (lk_running st))"
    using lock_reachable_ok [OF assms] by (simp add: lock_ok_def)
  have "lk_running (reload c False (foldl (\<lambda>st c. settled c st) st (lk_running st))) = [c]"
  proof (cases "lk_running st")
    case Nil
    then show ?thesis using ok by (simp add: reload_def lockLoading_def)
  next
    case (Cons d ds)
    then have "lk_running st = [d]" using ok by simp
    then show ?thesis
      by (simp add: reload_def lockLoading_def settled_def unlockLoading_def)
  qed
  with ok show ?thesis by blast
qed

theorem one_reload_runs_witness:
  "lk_running (reload 2 False (foldl (\<lambda>st c. settled c st) (reload 1 False createLoadingMutex) [1])) = [2] \<and>
   lk_running (reload 2 False (reload 1 False createLoadingMutex)) = [1]"
proof -
  have r: "lock_reachable (reload 1 False createLoadingMutex)"
    by (intro lock_reachable.Step [OF lock_reachable.Initial] lock_step.Reload)
  have run: "lk_running (reload 1 False createLoadingMutex) = [1]"
    by (simp add: reload_def createLoadingMutex_def lockLoading_def)
  show ?thesis
    using one_reload_runs [OF r, of 2] run
    by (simp add: reload_def createLoadingMutex_def lockLoading_def tryReload_def)
qed

text \<open>
  A reload of the missing servers' first page asks exactly for what is missing, so
  after all of them have answered the list needs no loading.
\<close>

theorem posts_reload_settles:
  assumes "\<forall>(req, response) \<in> set rs. lpr_key req = k \<and> nullish (lpr_page req) 0 = 0"
    and "\<forall>server \<in> set (posts_serversToUpdate s k force servers).
      \<exists>(req, response) \<in> set rs. lpr_server req = aos_server server"
  shows "\<not> posts_needsLoading (foldl (\<lambda>s (req, response). loadPostsPage_fulfilled A req response s) s rs) k servers"
proof -
  have *: "(\<lambda>s r. (case r of (req, response) \<Rightarrow> loadPostsPage_fulfilled A req response) s) =
      (\<lambda>s (req, response). loadPostsPage_fulfilled A req response s)"
    by auto
  have "\<forall>server \<in> set servers. server_page (postPages
      (foldl (\<lambda>s (req, response). loadPostsPage_fulfilled A req response s) s rs)) (aos_server server) k 0 \<noteq> None"
    using posts_pages.missing_answered [of rs k 0 servers s A] assms unfolding *
    by (fastforce simp: posts_serversToUpdate_def getServersMissingPostsPage_def posts_page_of_def split: if_splits)
  then show ?thesis
    by (simp add: posts_needsLoading_def getServersMissingPostsPage_def posts_page_of_def)
qed

theorem posts_reload_settles_witness:
  "\<not> posts_needsLoading (loadPostsPage_fulfilled (ref_adapter post_key replace_all None)
      \<lparr>lpr_server = Some sample_server, lpr_listingType = None, lpr_page = None\<rparr> [bare_post ''a'' []] initial_posts)
    PostListingType_ALL_ACCESSIBLE_POSTS [\<lparr>aos_account = None, aos_server = Some sample_server\<rparr>]"
  using posts_reload_settles [of
      "[(\<lparr>lpr_server = Some sample_server, lpr_listingType = None, lpr_page = None\<rparr>, [bare_post ''a'' []])]"
      PostListingType_ALL_ACCESSIBLE_POSTS initial_posts True "[\<lparr>aos_account = None, aos_server = Some sample_server\<rparr>]"
      "ref_adapter post_key replace_all None"]
  by (simp add: lpr_key_def defaultPostListingType_def posts_serversToUpdate_def)

end
