(* ===== verification/Account_Selection.thy ===== *)
theory Account_Selection
  imports Accounts Clients
begin

text \<open>
  Which account and which server a component talks to: the hooks of hooks/account_or_server,
  hooks/credential_dispatch_hooks.ts and hooks/use_media_url.ts, as functions of the accounts slice, the
  servers slice, the client cache and the \<open>AccountOrServer\<close> of the surrounding context.  The dispatch they
  return besides is the store's; the dispatches they make in an effect are returned as a list.
\<close>

section \<open>The current account and server\<close>

definition useCurrentAccountId :: "accounts_state \<Rightarrow> servers_state \<Rightarrow> string option" where
  "useCurrentAccountId accounts servers =
     Option.bind (find (\<lambda>ps. Some (ps_serverId ps) = currentServerId servers) (pinnedServers accounts)) ps_accountId"

text \<open>\<open>id ? selectById(state, id) : undefined\<close>: an empty identifier is falsy.\<close>

definition select_opt :: "'e adapter \<Rightarrow> 'e entity_state \<Rightarrow> string option \<Rightarrow> 'e option" where
  "select_opt A es i = (case i of None \<Rightarrow> None | Some k \<Rightarrow> if k = [] then None else selectById A es k)"

definition useCurrentAccount ::
  "rellm_account adapter \<Rightarrow> accounts_state \<Rightarrow> servers_state \<Rightarrow> rellm_account option" where
  "useCurrentAccount A accounts servers =
     select_opt A (accounts_entities accounts) (useCurrentAccountId accounts servers)"

text \<open>An account that has to sign in again is deselected.\<close>

definition current_account_effect :: "rellm_account option \<Rightarrow> accounts_state \<Rightarrow> accounts_state \<times> effect list" where
  "current_account_effect account s =
     (if Option.bind account needsReauthentication = Some True then selectAccount None s else (s, []))"

definition useCurrentServer :: "rellm_server adapter \<Rightarrow> servers_state \<Rightarrow> rellm_server option" where
  "useCurrentServer S servers = select_opt S (servers_entities servers) (currentServerId servers)"

definition useCurrentAccountOrServer ::
  "rellm_account adapter \<Rightarrow> rellm_server adapter \<Rightarrow> accounts_state \<Rightarrow> servers_state \<Rightarrow> account_or_server" where
  "useCurrentAccountOrServer A S accounts servers =
     \<lparr>aos_account = useCurrentAccount A accounts servers, aos_server = useCurrentServer S servers\<rparr>"


section \<open>Pinned servers\<close>

definition selectPinnedAccountsAndServers ::
  "rellm_account adapter \<Rightarrow> rellm_server adapter \<Rightarrow> accounts_state \<Rightarrow> servers_state \<Rightarrow> rellm_server option \<Rightarrow> bool \<Rightarrow>
     account_or_server list"
where
  "selectPinnedAccountsAndServers A S accounts servers server includeUnpinned =
     filter (\<lambda>aos. aos_server aos \<noteq> None)
       (map (\<lambda>ps. \<lparr>aos_account = find (\<lambda>a. Some (account_key a) = ps_accountId ps)
                     (selectAll A (accounts_entities accounts)),
                   aos_server = find (\<lambda>sv. serverID sv = ps_serverId ps) (selectAll S (servers_entities servers))\<rparr>)
         (filter (\<lambda>ps. (ps_pinned ps \<or> includeUnpinned) \<and>
                       (case server of None \<Rightarrow> True | Some sv \<Rightarrow> ps_serverId ps \<noteq> serverID sv))
           (pinnedServers accounts)))"

definition usePinnedAccountsAndServers ::
  "rellm_account adapter \<Rightarrow> rellm_server adapter \<Rightarrow> accounts_state \<Rightarrow> servers_state \<Rightarrow> bool \<Rightarrow> account_or_server list"
where
  "usePinnedAccountsAndServers A S accounts servers includeUnpinned =
     (let accountOrServer = useCurrentAccountOrServer A S accounts servers;
          pinned = selectPinnedAccountsAndServers A S accounts servers (aos_server accountOrServer) includeUnpinned
      in if excludeCurrentServer accounts \<and> \<not> includeUnpinned then pinned else accountOrServer # pinned)"

text \<open>The accounts the effect unpins: those of a pinned server that have to sign in again.\<close>

definition accounts_to_unpin :: "account_or_server list \<Rightarrow> accounts_state \<Rightarrow> rellm_account list" where
  "accounts_to_unpin pinned accounts =
     List.map_filter (\<lambda>aos.
       case (aos_account aos, aos_server aos) of
         (Some a, Some sv) \<Rightarrow>
           if needsReauthentication a = Some True \<and>
              map_option ps_pinned (find_pin (serverID sv) (pinnedServers accounts)) = Some True
           then Some a else None
       | _ \<Rightarrow> None) pinned"

definition pinned_accounts_effect ::
  "account_or_server list \<Rightarrow> accounts_state \<Rightarrow> accounts_state \<times> effect list" where
  "pinned_accounts_effect pinned accounts =
     foldl (\<lambda>(s, effs) a. let (s', effs') = unpinAccount a s in (s', effs @ effs')) (accounts, [])
       (accounts_to_unpin pinned accounts)"


section \<open>Creating data\<close>

definition useCreationServer :: "rellm_server adapter \<Rightarrow> servers_state \<Rightarrow> rellm_server option" where
  "useCreationServer S servers = select_opt S (servers_entities servers) (creationServerId servers)"

definition no_account_or_server :: account_or_server where
  "no_account_or_server = \<lparr>aos_account = None, aos_server = None\<rparr>"

definition useCreationAccountOrServer ::
  "rellm_account adapter \<Rightarrow> rellm_server adapter \<Rightarrow> accounts_state \<Rightarrow> servers_state \<Rightarrow> account_or_server" where
  "useCreationAccountOrServer A S accounts servers =
     (let creationServer = useCreationServer S servers
      in nullish (find (\<lambda>aos. map_option host (aos_server aos) = map_option host creationServer)
                    (usePinnedAccountsAndServers A S accounts servers True))
           no_account_or_server)"


section \<open>Talking to the server of an entity\<close>

text \<open>The argument is an entity with its host, or a host; an empty host string is falsy, an entity never is.\<close>

datatype entity_ref = OfEntity (ref_host: string) | OfHost (ref_host: string)

text \<open>The temporary server takes over what the cached client of the host says about its server.\<close>

definition temporaryServer :: "client_cache \<Rightarrow> string \<Rightarrow> rellm_server" where
  "temporaryServer cc h =
     (let bare = \<lparr>host = h, secure = True, serviceVersion = None, serverConfiguration = None,
                  lastConnectionFailed = None\<rparr>
      in case getCachedServerClient bare cc of
           Some c \<Rightarrow> (rellm_server.truncate c)\<lparr>host := h, secure := True\<rparr>
         | None \<Rightarrow> bare)"

definition useFederatedAccountOrServer ::
  "rellm_account adapter \<Rightarrow> rellm_server adapter \<Rightarrow> accounts_state \<Rightarrow> servers_state \<Rightarrow> client_cache \<Rightarrow>
     entity_ref option \<Rightarrow> account_or_server"
where
  "useFederatedAccountOrServer A S accounts servers cc ent =
     (let currentAccountOrServer = useCurrentAccountOrServer A S accounts servers
      in if ent = None \<or> ent = Some (OfHost []) then currentAccountOrServer
         else
           (let h = ref_host (the ent);
                pinnedAccountOrServer = find (\<lambda>aos. map_option host (aos_server aos) = Some h)
                  (usePinnedAccountsAndServers A S accounts servers True)
            in if map_option host (aos_server currentAccountOrServer) = Some h then currentAccountOrServer
               else nullish pinnedAccountOrServer
                      \<lparr>aos_account = None, aos_server = Some (temporaryServer cc h)\<rparr>))"

definition useProvidedAccountOrServer ::
  "account_or_server option \<Rightarrow> account_or_server \<Rightarrow> rellm_server option \<Rightarrow> account_or_server" where
  "useProvidedAccountOrServer context current serverOverride =
     (let accountOrServer = nullish context current
      in case serverOverride of
           None \<Rightarrow> accountOrServer
         | Some sv \<Rightarrow>
             if Some (host sv) = map_option host (aos_server accountOrServer) then accountOrServer
             else \<lparr>aos_account = None, aos_server = Some sv\<rparr>)"

text \<open>A post that came through the store carries its host; a bare one belongs to the context.\<close>

definition usePostDispatch_host ::
  "string option \<Rightarrow> account_or_server option \<Rightarrow> account_or_server \<Rightarrow> string option" where
  "usePostDispatch_host postHost context current =
     (case postHost of
        Some h \<Rightarrow> Some h
      | None \<Rightarrow>
         (case Option.bind context (\<lambda>aos. map_option host (aos_server aos)) of
            Some h \<Rightarrow> Some h
          | None \<Rightarrow> map_option host (aos_server current)))"


section \<open>Media\<close>

record media_url_source =
  mus_id :: "string option"
  mus_url :: "string option"

text \<open>A missing server makes \<open>frontendServerUrl\<close> throw; the hook answers \<open>undefined\<close>.\<close>

definition media_path :: "rellm_server \<Rightarrow> string \<Rightarrow> string" where
  "media_path server mediaId = frontendServerUrl server @ ''/media/'' @ mediaId"

definition useMediaUrl ::
  "media_url_source option \<Rightarrow> account_or_server \<Rightarrow> account_or_server option \<Rightarrow> string option" where
  "useMediaUrl media provided override =
     (let mediaId = Option.bind media mus_id;
          url = Option.bind media mus_url
      in if url \<noteq> None \<and> url \<noteq> Some [] then url
         else (case mediaId of
                 None \<Rightarrow> None
               | Some i \<Rightarrow>
                   if i = [] then None
                   else
                     (let account = (case Option.bind override aos_account of
                                       None \<Rightarrow> aos_account provided | Some a \<Rightarrow> Some a);
                          server = (case Option.bind override aos_server of
                                      None \<Rightarrow> aos_server provided | Some sv \<Rightarrow> Some sv)
                      in case (account, override) of
                           (Some a, None) \<Rightarrow>
                             map_option (\<lambda>sv. media_path sv i @ ''?authorization='' @ token (accessToken a)) server
                         | _ \<Rightarrow> map_option (\<lambda>sv. media_path sv i) server)))"


section \<open>Lemmas\<close>

lemma select_opt_Some:
  assumes "entity_adapter A selectId merge" "wf_entities selectId es" "select_opt A es i = Some e"
  shows "i = Some (selectId e)"
  using assms by (auto simp: select_opt_def entity_adapter.selectById_entities [OF assms(1)] wf_entities_def
      split: option.splits if_splits)

lemma pinned_servers_ids:
  "aos \<in> set (selectPinnedAccountsAndServers A S accounts servers server inc) \<Longrightarrow>
     \<exists>ps sv. ps \<in> set (pinnedServers accounts) \<and> aos_server aos = Some sv \<and> serverID sv = ps_serverId ps \<and>
       (ps_pinned ps \<or> inc) \<and> (\<forall>cur. server = Some cur \<longrightarrow> serverID cur \<noteq> ps_serverId ps) \<and>
       (\<forall>a. aos_account aos = Some a \<longrightarrow> Some (account_key a) = ps_accountId ps)"
  by (fastforce simp: selectPinnedAccountsAndServers_def find_Some_iff split: option.splits)

text \<open>The servers of the list, in the order of the pins; a pin of an unknown server is left out.\<close>

lemma pinned_servers_map:
  "map (\<lambda>aos. map_option serverID (aos_server aos)) (selectPinnedAccountsAndServers A S accounts servers server inc) =
     map Some (filter (\<lambda>k. \<exists>sv \<in> set (selectAll S (servers_entities servers)). serverID sv = k)
       (map ps_serverId (filter (\<lambda>ps. (ps_pinned ps \<or> inc) \<and>
          (case server of None \<Rightarrow> True | Some sv \<Rightarrow> ps_serverId ps \<noteq> serverID sv)) (pinnedServers accounts))))"
proof -
  have one: "map_option serverID (find (\<lambda>sv. serverID sv = k) svs) =
      (if \<exists>sv \<in> set svs. serverID sv = k then Some k else None)" for k svs
    by (induction svs) (simp_all del: map_option_eq_Some)
  have none: "find (\<lambda>sv. serverID sv = k) svs \<noteq> None \<longleftrightarrow> (\<exists>sv \<in> set svs. serverID sv = k)" for k svs
    by (auto simp: find_None_iff)
  have "map (\<lambda>aos. map_option serverID (aos_server aos)) (filter (\<lambda>aos. aos_server aos \<noteq> None)
      (map (\<lambda>ps. \<lparr>aos_account = f ps, aos_server = find (\<lambda>sv. serverID sv = ps_serverId ps) svs\<rparr>) pss)) =
      map Some (filter (\<lambda>k. \<exists>sv \<in> set svs. serverID sv = k) (map ps_serverId pss))" for f svs pss
  proof (induction pss)
    case (Cons ps pss)
    then show ?case
      using one [of "ps_serverId ps" svs] none [of "ps_serverId ps" svs] by auto
  qed simp
  then show ?thesis
    unfolding selectPinnedAccountsAndServers_def .
qed

lemma use_pinned_cases:
  "aos \<in> set (usePinnedAccountsAndServers A S accounts servers inc) \<Longrightarrow>
     aos = useCurrentAccountOrServer A S accounts servers \<or>
     aos \<in> set (selectPinnedAccountsAndServers A S accounts servers
       (aos_server (useCurrentAccountOrServer A S accounts servers)) inc)"
  by (auto simp: usePinnedAccountsAndServers_def Let_def split: if_splits)

text \<open>An account is used only where a pin of that server names it.\<close>

definition account_pinned_for :: "accounts_state \<Rightarrow> account_or_server \<Rightarrow> bool" where
  "account_pinned_for accounts aos \<longleftrightarrow>
     (case aos_account aos of
        None \<Rightarrow> True
      | Some a \<Rightarrow> (case aos_server aos of
          None \<Rightarrow> True
        | Some sv \<Rightarrow> list_ex (\<lambda>ps. ps_serverId ps = serverID sv \<and> ps_accountId ps = Some (account_key a))
                      (pinnedServers accounts)))"

lemma current_account_pinned:
  assumes "entity_adapter A account_key ma" "accounts_wf accounts"
    and "entity_adapter S serverID ms" "wf_entities serverID (servers_entities servers)"
  shows "account_pinned_for accounts (useCurrentAccountOrServer A S accounts servers)"
proof -
  have "\<exists>ps \<in> set (pinnedServers accounts). ps_serverId ps = serverID sv \<and> ps_accountId ps = Some (account_key a)"
    if a: "useCurrentAccount A accounts servers = Some a" and sv: "useCurrentServer S servers = Some sv" for a sv
  proof -
    have cur: "currentServerId servers = Some (serverID sv)"
      using select_opt_Some [OF assms(3,4)] sv by (simp add: useCurrentServer_def)
    have "useCurrentAccountId accounts servers = Some (account_key a)"
      using select_opt_Some [OF assms(1)] assms(2) a by (auto simp: useCurrentAccount_def accounts_wf_def)
    then show ?thesis
      using cur by (fastforce simp: useCurrentAccountId_def bind_eq_Some_conv find_Some_iff)
  qed
  then show ?thesis
    by (auto simp: account_pinned_for_def useCurrentAccountOrServer_def list_ex_iff split: option.splits)
qed

lemma pinned_account_pinned:
  "aos \<in> set (selectPinnedAccountsAndServers A S accounts servers server inc) \<Longrightarrow> account_pinned_for accounts aos"
  by (drule pinned_servers_ids) (fastforce simp: account_pinned_for_def list_ex_iff split: option.splits)


section \<open>Properties\<close>

text \<open>
  C9: Whatever is signed in, pinned or cached, an entity is always fetched from its
  own host, and with an account only when a pin of that very server names the account.
\<close>

theorem requests_reach_their_host:
  assumes "entity_adapter A account_key ma" "accounts_wf accounts"
    and "entity_adapter S serverID ms" "wf_entities serverID (servers_entities servers)"
    and "ent \<noteq> OfHost []"
  shows "map_option host (aos_server (useFederatedAccountOrServer A S accounts servers cc (Some ent))) = Some (ref_host ent) \<and>
    account_pinned_for accounts (useFederatedAccountOrServer A S accounts servers cc (Some ent))"
proof -
  let ?cur = "useCurrentAccountOrServer A S accounts servers"
  let ?f = "find (\<lambda>aos. map_option host (aos_server aos) = Some (ref_host ent))
    (usePinnedAccountsAndServers A S accounts servers True)"
  have cur: "account_pinned_for accounts ?cur"
    by (rule current_account_pinned [OF assms(1-4)])
  have found: "map_option host (aos_server aos) = Some (ref_host ent) \<and> account_pinned_for accounts aos"
    if "?f = Some aos" for aos
  proof -
    have "aos \<in> set (usePinnedAccountsAndServers A S accounts servers True)"
      "map_option host (aos_server aos) = Some (ref_host ent)"
      using that by (auto simp: find_Some_iff in_set_conv_nth)
    then show ?thesis
      using use_pinned_cases cur pinned_account_pinned by blast
  qed
  have temp: "host (temporaryServer cc (ref_host ent)) = ref_host ent"
    by (simp add: temporaryServer_def Let_def split: option.split)
  have eq: "useFederatedAccountOrServer A S accounts servers cc (Some ent) =
      (if map_option host (aos_server ?cur) = Some (ref_host ent) then ?cur
       else nullish ?f \<lparr>aos_account = None, aos_server = Some (temporaryServer cc (ref_host ent))\<rparr>)"
    using assms(5) by (simp only: useFederatedAccountOrServer_def Let_def option.inject option.distinct option.sel
        simp_thms if_False)
  show ?thesis
  proof (cases "map_option host (aos_server ?cur) = Some (ref_host ent)")
    case True
    then show ?thesis
      using cur unfolding eq by (simp only: if_True simp_thms)
  next
    case False
    show ?thesis
    proof (cases ?f)
      case None
      then show ?thesis
        unfolding eq if_not_P [OF False] None using temp by (simp add: account_pinned_for_def)
    next
      case (Some aos)
      then show ?thesis
        unfolding eq if_not_P [OF False] Some using found [OF Some] by (simp only: nullish_simps simp_thms)
    qed
  qed
qed

theorem requests_reach_their_host_witness:
  "map_option host (aos_server (useFederatedAccountOrServer (ref_adapter account_key merge_account None)
     (ref_adapter serverID merge_server None) initial_accounts initial_servers empty_cache (Some (OfEntity ''a'')))) =
   Some ''a''"
  using requests_reach_their_host [OF accounts_ref.entity_adapter_axioms [where key = None] _
      servers_ref.entity_adapter_axioms [where key = None], of initial_accounts initial_servers "OfEntity ''a''" empty_cache]
  by (simp add: initial_accounts_def initial_servers_def accounts_wf_def)

text \<open>
  The servers a list draws on are distinct, the pinned ones in the order of their
  pins, and the current server comes first unless it is excluded.
\<close>

theorem servers_listed_once:
  assumes "accounts_wf accounts"
  shows "let current = useCurrentAccountOrServer A S accounts servers;
             listed = usePinnedAccountsAndServers A S accounts servers inc
         in distinct (map (\<lambda>aos. map_option serverID (aos_server aos)) listed) \<and>
            (inc \<or> \<not> excludeCurrentServer accounts \<longrightarrow> hd listed = current) \<and>
            (excludeCurrentServer accounts \<and> \<not> inc \<longrightarrow>
               current \<notin> set (filter (\<lambda>aos. aos_server aos \<noteq> None) listed))"
proof -
  let ?cur = "useCurrentAccountOrServer A S accounts servers"
  let ?pins = "selectPinnedAccountsAndServers A S accounts servers (aos_server ?cur) inc"
  have d: "distinct (map (\<lambda>aos. map_option serverID (aos_server aos)) ?pins)"
    using assms unfolding pinned_servers_map
    by (simp add: distinct_map accounts_wf_def inj_on_def)
  have out: "map_option serverID (aos_server ?cur) \<notin> set (map (\<lambda>aos. map_option serverID (aos_server aos)) ?pins)"
  proof
    assume "map_option serverID (aos_server ?cur) \<in> set (map (\<lambda>aos. map_option serverID (aos_server aos)) ?pins)"
    then obtain aos where aos: "aos \<in> set ?pins" "map_option serverID (aos_server ?cur) = map_option serverID (aos_server aos)"
      by (meson imageE list.set_map [THEN equalityD1, THEN subsetD])
    then show False
      using pinned_servers_ids [OF aos(1)] by (cases "aos_server ?cur") auto
  qed
  then have "?cur \<notin> set ?pins"
    by (metis (mono_tags, lifting) image_eqI list.set_map)
  then show ?thesis
    using d out by (cases inc) (simp_all add: usePinnedAccountsAndServers_def Let_def)
qed

theorem servers_listed_once_witness:
  "distinct (map (\<lambda>aos. map_option serverID (aos_server aos))
     (usePinnedAccountsAndServers (ref_adapter account_key merge_account None) (ref_adapter serverID merge_server None)
        (initial_accounts\<lparr>pinnedServers := [sample_pin ''https:a'' None, sample_pin ''https:b'' None]\<rparr>)
        initial_servers False))"
  by (rule servers_listed_once [unfolded Let_def, THEN conjunct1])
    (simp add: accounts_wf_def initial_accounts_def sample_pin_def)

text \<open>
  Selecting a stored account on the host of the current, pinned server makes it
  the current account, and deselecting it leaves none.
\<close>

theorem selected_account_current:
  assumes "entity_adapter A account_key merge_account" "plain_host (host (acct_server a))"
    and "entities (accounts_entities s) (account_key a) = Some a"
    and "currentServerId servers = Some k" "serverIDHost k = Some (host (acct_server a))"
    and "k \<in> set (map ps_serverId (pinnedServers s))"
  shows "useCurrentAccount A (fst (selectAccount (Some a) s)) servers = Some a \<and>
    useCurrentAccount A (deselectAccount (account_key a) (fst (selectAccount (Some a) s))) servers = None"
proof -
  let ?s = "fst (selectAccount (Some a) s)"
  have sel: "pinnedServers ?s =
      map (\<lambda>ps. if serverIDHost (ps_serverId ps) = Some (host (acct_server a))
                then ps\<lparr>ps_accountId := Some (account_key a)\<rparr> else ps) (pinnedServers s)"
    using accountIDHost_plain [OF assms(2)]
    by (auto simp: selectAccount_pins withAccountPinned_def)
  have ents: "accounts_entities ?s = accounts_entities s"
    by (simp add: selectAccount_def Let_def pin_everywhere_def)
  have find_map: "\<exists>ps. find (\<lambda>ps. Some (ps_serverId ps) = Some k) (map g pss) = Some (g ps) \<and> ps_serverId ps = k"
    if "k \<in> set (map ps_serverId pss)" "\<forall>ps. ps_serverId (g ps) = ps_serverId ps" for g :: "pinned_server \<Rightarrow> pinned_server" and pss
    using that by (induction pss) auto
  have "\<exists>ps. find (\<lambda>ps. Some (ps_serverId ps) = Some k) (pinnedServers ?s) =
      Some (if serverIDHost (ps_serverId ps) = Some (host (acct_server a))
            then ps\<lparr>ps_accountId := Some (account_key a)\<rparr> else ps) \<and> ps_serverId ps = k"
    unfolding sel by (rule find_map [OF assms(6)]) simp
  then obtain ps where "find (\<lambda>ps. Some (ps_serverId ps) = Some k) (pinnedServers ?s) =
      Some (if serverIDHost (ps_serverId ps) = Some (host (acct_server a))
            then ps\<lparr>ps_accountId := Some (account_key a)\<rparr> else ps)" "ps_serverId ps = k"
    by blast
  then have "useCurrentAccountId ?s servers = Some (account_key a)"
    using assms(4,5) by (simp add: useCurrentAccountId_def)
  moreover have "account_key a \<noteq> []"
    by (simp add: account_key_def serverID_def)
  ultimately have current: "useCurrentAccount A ?s servers = Some a"
    using assms(3) by (simp add: useCurrentAccount_def select_opt_def ents entity_adapter.selectById_entities [OF assms(1)])
  have "\<forall>q \<in> set (pinnedServers (deselectAccount (account_key a) ?s)).
      serverIDHost (ps_serverId q) = Some (host (acct_server a)) \<longrightarrow> ps_accountId q = None"
    using accountIDHost_plain [OF assms(2)]
    by (auto simp: deselectAccount_def unpin_everywhere_def withAccountUnpinned_def)
  then have "ps_accountId q = None"
    if "find (\<lambda>ps. Some (ps_serverId ps) = Some k) (pinnedServers (deselectAccount (account_key a) ?s)) = Some q" for q
    using that assms(5) by (fastforce simp: find_Some_iff in_set_conv_nth)
  then have "useCurrentAccountId (deselectAccount (account_key a) ?s) servers = None"
    unfolding useCurrentAccountId_def assms(4)
    by (cases "find (\<lambda>ps. Some (ps_serverId ps) = Some k) (pinnedServers (deselectAccount (account_key a) ?s))")
      (simp_all only: bind.simps)
  with current show ?thesis
    by (simp add: useCurrentAccount_def [of A "deselectAccount _ _"] select_opt_def)
qed


theorem selected_account_current_witness:
  "useCurrentAccount (ref_adapter account_key merge_account None)
     (fst (selectAccount (Some (sample_acct ''u'' ''a''))
        (initial_accounts\<lparr>pinnedServers := [sample_pin ''https:a'' None],
           accounts_entities := \<lparr>ids = [''https:a-u''], entities = [''https:a-u'' \<mapsto> sample_acct ''u'' ''a'']\<rparr>\<rparr>)))
     (initial_servers\<lparr>currentServerId := Some ''https:a''\<rparr>) = Some (sample_acct ''u'' ''a'')"
proof -
  have a: "plain_host (host (acct_server (sample_acct ''u'' ''a'')))"
    and key: "account_key (sample_acct ''u'' ''a'') = ''https:a-u''"
    and h: "serverIDHost ''https:a'' = Some (host (acct_server (sample_acct ''u'' ''a'')))"
    by (simp_all add: plain_host_def sample_acct_def bare_server_def account_key_def serverID_def serverIDHost_def)
  show ?thesis
    by (rule selected_account_current [OF accounts_ref.entity_adapter_axioms a _ _ h, THEN conjunct1])
      (simp_all add: key sample_pin_def)
qed

text \<open>
  The address of a media item carries an access token only when no other account or
  server was asked for, and then it is the token of the account in use, sent to the front end of the server
  in use.
\<close>

theorem media_token_stays:
  assumes "Option.bind media mus_url = None" "useMediaUrl media provided override = Some address"
  shows "\<exists>sv i. Option.bind media mus_id = Some i \<and> i \<noteq> [] \<and>
    (case override of
       None \<Rightarrow> aos_server provided = Some sv \<and>
         address = media_path sv i @ (case aos_account provided of
           None \<Rightarrow> [] | Some a \<Rightarrow> ''?authorization='' @ token (accessToken a))
     | Some aos \<Rightarrow> address = media_path sv i \<and>
         (aos_server aos = Some sv \<or> aos_server aos = None \<and> aos_server provided = Some sv))"
  using assms
  by (cases override) (auto simp: useMediaUrl_def Let_def split: option.splits if_splits)

theorem media_token_stays_witness:
  "useMediaUrl (Some \<lparr>mus_id = Some ''m'', mus_url = None\<rparr>)
     \<lparr>aos_account = Some (sample_acct ''u'' ''a''), aos_server = Some (bare_server ''a'' True)\<rparr>
     (Some \<lparr>aos_account = None, aos_server = Some (bare_server ''b'' True)\<rparr>) = Some ''https://b/media/m'' \<and>
   (\<exists>sv i. ''https://b/media/m'' = media_path sv i)"
proof -
  let ?u = "useMediaUrl (Some \<lparr>mus_id = Some ''m'', mus_url = None\<rparr>)
     \<lparr>aos_account = Some (sample_acct ''u'' ''a''), aos_server = Some (bare_server ''a'' True)\<rparr>
     (Some \<lparr>aos_account = None, aos_server = Some (bare_server ''b'' True)\<rparr>)"
  have u: "?u = Some ''https://b/media/m''"
    by (simp add: useMediaUrl_def media_path_def frontendServerUrl_def bare_server_def)
  show ?thesis
    using media_token_stays [OF _ u] u by auto
qed

end
