(* ===== verification/Conversation.thy ===== *)
theory Conversation
  imports Js_Sort Posts
begin

text \<open>
  The conversation below a post (features/post/conversation_manager.tsx): the reply tree flattened into
  the list of comments that is shown, as a discussion (threads, in tree order) or as a chat (by time), with
  the path of identifiers under which each comment is answered.
\<close>

section \<open>Flattening\<close>

record flattened_reply =
  fr_postIdPath :: "string list"
  fr_reply :: post
  fr_parentPost :: "post option"
  fr_lastReplyTo :: "string option"

text \<open>Whether nothing is shown below a post: it is collapsed, or has no replies (or none loaded).\<close>

definition is_leaf :: "string list \<Rightarrow> post \<Rightarrow> bool" where
  "is_leaf collapsed p \<longleftrightarrow> post_id p \<in> set collapsed \<or> p_replyCount (own p) = 0 \<or> replies p = []"

text \<open>\<open>(index == last && includeSelf) || (!includeSelf && collapsed(child) || ...)\<close>, where \<open>isLastIndex\<close> is the first test.\<close>

definition is_child_last :: "string list \<Rightarrow> bool \<Rightarrow> bool \<Rightarrow> post \<Rightarrow> bool" where
  "is_child_last collapsed includeSelf isLastIndex child \<longleftrightarrow>
     (isLastIndex \<and> includeSelf) \<or>
     (\<not> includeSelf \<and> post_id child \<in> set collapsed \<or> p_replyCount (own child) = 0 \<or> replies child = [])"

lemma size_replies: "size_list size (replies p) < size p"
  by (cases p) simp

function flattenReplies ::
  "string list \<Rightarrow> post \<Rightarrow> string list \<Rightarrow> bool \<Rightarrow> post option \<Rightarrow> string option \<Rightarrow> bool \<Rightarrow> flattened_reply list"
and flattenChildren ::
  "string list \<Rightarrow> post \<Rightarrow> string list \<Rightarrow> bool \<Rightarrow> string option \<Rightarrow> post list \<Rightarrow> flattened_reply list"
where
  "flattenReplies collapsed reply postIdPath includeSelf parentPost lastReplyTo isLastReply =
     (if includeSelf
      then [\<lparr>fr_postIdPath = postIdPath, fr_reply = reply, fr_parentPost = parentPost,
             fr_lastReplyTo = (if isLastReply \<and> is_leaf collapsed reply then lastReplyTo else None)\<rparr>]
      else []) @
     (if post_id reply \<in> set collapsed then []
      else flattenChildren collapsed reply postIdPath includeSelf lastReplyTo (replies reply))"
| "flattenChildren collapsed reply postIdPath includeSelf lastReplyTo [] = []"
| "flattenChildren collapsed reply postIdPath includeSelf lastReplyTo (child # rest) =
     (let isChildLastReply = is_child_last collapsed includeSelf (rest = []) child;
          childIsLastReplyTo = (if isChildLastReply then Some (nullish lastReplyTo (post_id reply)) else None)
      in flattenReplies collapsed child (postIdPath @ [post_id child]) True (Some reply) childIsLastReplyTo isChildLastReply
         @ flattenChildren collapsed reply postIdPath includeSelf lastReplyTo rest)"
  by pat_completeness auto

termination
  by (relation "measure (\<lambda>x. case x of
      Inl (_, reply, _) \<Rightarrow> Suc (2 * size reply)
    | Inr (_, _, _, _, _, children) \<Rightarrow> 2 * size_list size children)")
    (auto simp: less_Suc_eq_le less_imp_le [OF size_replies])

definition flattenedReplies ::
  "(string \<Rightarrow> string \<Rightarrow> int) \<Rightarrow> bool \<Rightarrow> string list \<Rightarrow> string option \<Rightarrow> post option \<Rightarrow> flattened_reply list result"
where
  "flattenedReplies loc chatUI collapsed rootPostId post =
     (let result = (case post of
            None \<Rightarrow> []
          | Some p \<Rightarrow> flattenReplies collapsed p (case rootPostId of None \<Rightarrow> [] | Some i \<Rightarrow> [i]) False None None False)
      in if chatUI
         then (if length result < 2 \<or> list_all (\<lambda>r. p_createdAt (own (fr_reply r)) \<noteq> None) result
               then Inr (js_sort (\<lambda>a b. loc (the (p_createdAt (own (fr_reply a)))) (the (p_createdAt (own (fr_reply b))))) result)
               else Inl Untyped)
         else Inr result)"

definition toggleCollapseReplies :: "string \<Rightarrow> string list \<Rightarrow> string list" where
  "toggleCollapseReplies i collapsed = (if i \<in> set collapsed then removeAll i collapsed else collapsed @ [i])"

text \<open>Choosing a comment to answer; choosing it again goes back to the post itself.\<close>

definition onPressReply :: "string \<Rightarrow> string list \<Rightarrow> string list \<Rightarrow> string list" where
  "onPressReply rootPostId postIdPath replyPostIdPath =
     (if (replyPostIdPath \<noteq> [] \<and> postIdPath \<noteq> [] \<and> last replyPostIdPath = last postIdPath) \<or>
         (replyPostIdPath = [] \<and> postIdPath = [])
      then [rootPostId] else postIdPath)"


section \<open>The tree in order\<close>

text \<open>The reference: the posts below a post that are visible, in tree order.\<close>

fun visible :: "string list \<Rightarrow> post \<Rightarrow> post list" where
  "visible collapsed (Post f rs) =
     (if p_id f \<in> set collapsed then [] else concat (map (\<lambda>c. c # visible collapsed c) rs))"

text \<open>No two replies to one post share an identifier, anywhere in the tree.\<close>

fun distinct_siblings :: "post \<Rightarrow> bool" where
  "distinct_siblings (Post f rs) \<longleftrightarrow> distinct (map post_id rs) \<and> list_all distinct_siblings rs"

lemma visible_step:
  "visible collapsed p =
     (if post_id p \<in> set collapsed then [] else concat (map (\<lambda>c. c # visible collapsed c) (replies p)))"
  by (cases p) simp

lemma distinct_siblings_step:
  "distinct_siblings p \<longleftrightarrow> distinct (map post_id (replies p)) \<and> (\<forall>c \<in> set (replies p). distinct_siblings c)"
  by (cases p) (simp add: list_all_iff)

lemma flatten_visible:
  "map fr_reply (flattenReplies collapsed p path self parent lastTo isLast) =
     (if self then [p] else []) @ visible collapsed p"
  "map fr_reply (flattenChildren collapsed p path self lastTo cs) =
     concat (map (\<lambda>c. c # visible collapsed c) cs)"
proof (induction collapsed p path self parent lastTo isLast and collapsed p path self lastTo cs
    rule: flattenReplies_flattenChildren.induct)
  case (1 collapsed reply postIdPath includeSelf parentPost lastReplyTo isLastReply)
  then show ?case
    by (subst visible_step) auto
qed (auto simp: Let_def)

lemma find_distinct_post: "distinct (map post_id ps) \<Longrightarrow> c \<in> set ps \<Longrightarrow> find_post (post_id c) ps = Some c"
  by (induction ps) (auto simp: image_iff)

lemma post_at_append: "post_at (ks @ ls) p = Option.bind (post_at ks p) (post_at ls)"
proof (induction ks arbitrary: p)
  case (Cons i ks)
  then show ?case by (cases "find_post i (replies p)") simp_all
qed simp

text \<open>Every comment is shown with a path that leads to it, and with its parent.\<close>

definition resolves :: "post \<Rightarrow> string list \<Rightarrow> flattened_reply \<Rightarrow> bool" where
  "resolves root prefix r \<longleftrightarrow>
     (\<exists>ks. fr_postIdPath r = prefix @ ks \<and> post_at ks root = Some (fr_reply r) \<and>
       (ks \<noteq> [] \<longrightarrow> post_at (butlast ks) root = fr_parentPost r \<and> post_id (fr_reply r) = last ks))"

lemma flatten_resolves:
  "distinct_siblings root \<Longrightarrow> path = prefix @ ks \<Longrightarrow> post_at ks root = Some p \<Longrightarrow> distinct_siblings p \<Longrightarrow>
     (ks \<noteq> [] \<longrightarrow> post_at (butlast ks) root = parent \<and> post_id p = last ks) \<Longrightarrow>
     \<forall>r \<in> set (flattenReplies collapsed p path self parent lastTo isLast). resolves root prefix r"
  "distinct_siblings root \<Longrightarrow> path = prefix @ ks \<Longrightarrow> post_at ks root = Some p \<Longrightarrow> distinct_siblings p \<Longrightarrow>
     set cs \<subseteq> set (replies p) \<Longrightarrow>
     \<forall>r \<in> set (flattenChildren collapsed p path self lastTo cs). resolves root prefix r"
proof (induction collapsed p path self parent lastTo isLast and collapsed p path self lastTo cs
    arbitrary: ks and ks rule: flattenReplies_flattenChildren.induct)
  case (1 collapsed reply postIdPath includeSelf parentPost lastReplyTo isLastReply)
  have "resolves root prefix \<lparr>fr_postIdPath = postIdPath, fr_reply = reply, fr_parentPost = parentPost,
      fr_lastReplyTo = l\<rparr>" for l
    using "1.prems" by (auto simp: resolves_def)
  then show ?case
    using "1.IH" [OF _ "1.prems"(1-4)] by auto
next
  case (2 collapsed reply postIdPath includeSelf lastReplyTo)
  then show ?case by simp
next
  case (3 collapsed reply postIdPath includeSelf lastReplyTo child rest)
  have mem: "child \<in> set (replies reply)"
    using "3.prems"(5) by simp
  have "find_post (post_id child) (replies reply) = Some child"
    using "3.prems"(4) mem distinct_siblings_step [of reply] find_distinct_post by blast
  then have at: "post_at (ks @ [post_id child]) root = Some child"
    using "3.prems"(3) by (simp add: post_at_append)
  have ds: "distinct_siblings child"
    using "3.prems"(4) mem distinct_siblings_step [of reply] by blast
  have "\<forall>r \<in> set (flattenReplies collapsed child (postIdPath @ [post_id child]) True (Some reply) l b).
      resolves root prefix r"
    if "b = is_child_last collapsed includeSelf (rest = []) child"
      "l = (if b then Some (nullish lastReplyTo (post_id reply)) else None)" for l b
    using "3.IH"(1) [OF that "3.prems"(1) _ at ds] "3.prems"(2,3) by simp
  moreover have "\<forall>r \<in> set (flattenChildren collapsed reply postIdPath includeSelf lastReplyTo rest). resolves root prefix r"
    using "3.IH"(2) [OF refl refl "3.prems"(1-4)] "3.prems"(5) by simp
  ultimately show ?case
    by (simp add: Let_def ball_Un)
qed


declare flattenReplies.simps [simp del]


section \<open>Properties\<close>

text \<open>
  C21: The discussion shows exactly the posts below the post that no collapsed post
  hides, in tree order; the chat shows the same posts ordered by the time they were created.
\<close>

theorem conversation_shows_tree:
  assumes "js_comparator loc" "flattenedReplies loc chatUI collapsed rootPostId (Some p) = Inr shown"
  shows "if chatUI
    then mset (map fr_reply shown) = mset (visible collapsed p) \<and>
         sorted_wrt (\<lambda>a b. loc (the (p_createdAt (own a))) (the (p_createdAt (own b))) \<le> 0) (map fr_reply shown)
    else map fr_reply shown = visible collapsed p"
proof -
  let ?key = "\<lambda>r. the (p_createdAt (own (fr_reply r)))"
  let ?tree = "flattenReplies collapsed p (case rootPostId of None \<Rightarrow> [] | Some i \<Rightarrow> [i]) False None None False"
  have tree: "map fr_reply ?tree = visible collapsed p"
    by (simp add: flatten_visible)
  show ?thesis
  proof (cases chatUI)
    case True
    then have shown: "shown = js_sort (\<lambda>a b. loc (?key a) (?key b)) ?tree"
      using assms(2) by (auto simp: flattenedReplies_def Let_def split: if_splits)
    have "sorted_wrt (\<lambda>a b. loc (?key a) (?key b) \<le> 0) shown"
      unfolding shown by (rule js_comparator.js_sort_sorted [OF js_comparator.by_key [OF assms(1)]])
    moreover have "mset (map fr_reply shown) = mset (visible collapsed p)"
      unfolding shown tree [symmetric] by (simp only: mset_map mset_js_sort)
    ultimately show ?thesis
      using True by (simp add: sorted_wrt_map)
  next
    case False
    then show ?thesis
      using assms(2) tree by (simp add: flattenedReplies_def)
  qed
qed

text \<open>
  C6: A reply to a comment of the list, sent along the path the list gives it,
  becomes the first reply of that very comment, in the discussion and in the chat alike.
\<close>

theorem shown_replies_answerable:
  assumes "entity_adapter A post_key replace_all" "posts_wf s"
    and "post_stored s (federateId root (FederatedAction sv)) = Some b" "CHR ''@'' \<notin> set (post_id (entity b))"
    and "distinct_siblings (entity b)"
    and "flattenedReplies loc chatUI collapsed (Some root) (Some (entity b)) = Inr shown" "r \<in> set shown"
  shows "\<exists>s' b' path. fr_postIdPath r = root # path \<and>
    replyToPost_fulfilled A \<lparr>pr_server = sv, pr_postIdPath = fr_postIdPath r\<rparr> reply s = Inr s' \<and>
    post_stored s' (federateId root (FederatedAction sv)) = Some b' \<and>
    post_at path (entity b') = Some (set_replies (reply # replies (fr_reply r)) (fr_reply r))"
proof -
  have "r \<in> set (flattenReplies collapsed (entity b) ([root] @ []) False None None False)"
    using assms(6,7) by (auto simp: flattenedReplies_def Let_def split: if_splits)
  then have "resolves (entity b) [root] r"
    using flatten_resolves(1) [of "entity b" "[root]" "[root]" "[]" "entity b"] assms(5) by auto
  then obtain path where path: "fr_postIdPath r = root # path" "post_at path (entity b) = Some (fr_reply r)"
    by (auto simp: resolves_def)
  let ?walk = "\<lambda>p. insert_reply p (last (root # path)) reply"
  obtain q where q: "?walk path (entity b) = Some q"
    using insert_reply_defined [of path "last (root # path)" reply "entity b"] path(2)
    by (cases "?walk path (entity b)") simp_all
  obtain s' where s': "replyToPost_fulfilled A \<lparr>pr_server = sv, pr_postIdPath = root # path\<rparr> reply s = Inr s'"
    "post_stored s' = (post_stored s)(federateId root (FederatedAction sv) \<mapsto> b\<lparr>entity := q\<rparr>)"
    using update_root_stored [OF assms(1-4), where walk = ?walk and path = path] q insert_reply_id [OF q]
    by (auto simp: replyToPost_fulfilled_def)
  show ?thesis
    using s' path post_at_insert_reply [OF q path(2)]
    by (intro exI [of _ s'] exI [of _ "b\<lparr>entity := q\<rparr>"] exI [of _ path]) simp
qed

definition sample_thread :: post where
  "sample_thread = bare_post ''a'' [bare_post ''b'' [], bare_post ''c'' []]"

lemma sample_thread_shown:
  "flattenedReplies compare_units False [] (Some ''a@h'') (Some sample_thread) =
     Inr [\<lparr>fr_postIdPath = [''a@h'', ''b''], fr_reply = bare_post ''b'' [], fr_parentPost = Some sample_thread,
            fr_lastReplyTo = Some ''a''\<rparr>,
          \<lparr>fr_postIdPath = [''a@h'', ''c''], fr_reply = bare_post ''c'' [], fr_parentPost = Some sample_thread,
            fr_lastReplyTo = Some ''a''\<rparr>]"
  by (simp add: flattenedReplies_def flattenReplies.simps sample_thread_def is_child_last_def is_leaf_def)

theorem conversation_shows_tree_witness:
  "map fr_reply [\<lparr>fr_postIdPath = [''a@h'', ''b''], fr_reply = bare_post ''b'' [], fr_parentPost = Some sample_thread,
            fr_lastReplyTo = Some ''a''\<rparr>,
          \<lparr>fr_postIdPath = [''a@h'', ''c''], fr_reply = bare_post ''c'' [], fr_parentPost = Some sample_thread,
            fr_lastReplyTo = Some ''a''\<rparr>] = visible [] sample_thread"
  using conversation_shows_tree [OF unit_comparator.js_comparator_axioms sample_thread_shown] by simp

theorem shown_replies_answerable_witness:
  "\<exists>s' b'. replyToPost_fulfilled (ref_adapter post_key replace_all None)
      \<lparr>pr_server = Some sample_server, pr_postIdPath = [''a@h'', ''b'']\<rparr> (bare_post ''n'' []) sample_posts = Inr s' \<and>
    post_stored s' ''a@h'' = Some b' \<and> post_at [''b''] (entity b') = Some (bare_post ''b'' [bare_post ''n'' []])"
proof -
  have key: "federateId ''a@h'' (FederatedAction (Some sample_server)) = ''a@h''"
    by (simp add: federateId_def mk_federated_id_def sample_server_def defederateId_def split_head_def)
  have stored: "post_stored sample_posts (federateId ''a@h'' (FederatedAction (Some sample_server))) =
      Some \<lparr>entity = sample_thread, serverHostOf = ''h''\<rparr>"
    unfolding key by (simp add: sample_posts_def sample_thread_def)
  show ?thesis
    using shown_replies_answerable [OF posts_ref.entity_adapter_axioms sample_posts_wf stored, of compare_units False
        "[]" _ _ None "bare_post ''n'' []"] sample_thread_shown
    by (fastforce simp: key sample_thread_def bare_post_def set_replies_def post_id_def)
qed

end
