(* ===== verification/Thunks.thy ===== *)
theory Thunks
  imports Pagination Credentials Conversation
begin

text \<open>
  The asynchronous actions (store/modules/*_actions.ts): what a request asks the server and what it makes of
  the answer.  The server is a parameter: \<open>connect\<close> is \<open>getCredentialClient\<close> applied to the account or server
  of the request, and an \<open>api\<close> holds the calls of the generated client, each answering with a value or
  failing.  The client fills a partial message with the defaults of the protocol and drops what the message
  does not have, so the requests below have the fields of the messages the calls take.
\<close>

section \<open>The calls of the client\<close>

datatype post_context = PostContext_POST | PostContext_REPLY | PostContext_EVENT | PostContext_OCCASION
  | PostContext_FEDERATED_REPLY | PostContext_UNRECOGNIZED

record get_posts_request =
  gpr_postId :: "string option"
  gpr_authorUserId :: "string option"
  gpr_excludedAuthorUserIds :: "string list"
  gpr_groupId :: "string option"
  gpr_replyDepth :: "nat option"
  gpr_context :: "post_context option"
  gpr_postIds :: "string option"
  gpr_listingType :: post_listing_type
  gpr_page :: nat
  gpr_searchText :: "string option"
  gpr_publishedOrCreatedBefore :: "string option"

datatype rsvp_status = RsvpStatus_INTERESTED | RsvpStatus_REQUESTED | RsvpStatus_GOING | RsvpStatus_NOT_GOING
  | RsvpStatus_UNRECOGNIZED

text \<open>\<open>GetEventsRequest\<close> has no page.\<close>

record get_events_request =
  ger_authorUserId :: "string option"
  ger_excludedAuthorUserIds :: "string list"
  ger_groupId :: "string option"
  ger_timeFilter :: "time_filter option"
  ger_attendeeId :: "string option"
  ger_rsvpStatuses :: "rsvp_status list"
  ger_postId :: "string option"
  ger_listingType :: event_listing_type
  ger_searchText :: "string option"
  ger_occasionPostIds :: "string list"
  ger_anonymousAttendeeAuthToken :: "string option"

record get_groups_request =
  ggr_groupId :: "string option"
  ggr_groupName :: "string option"
  ggr_groupShortname :: "string option"
  ggr_listingType :: group_listing_type
  ggr_page :: "nat option"

record get_members_request =
  gmr_groupId :: string
  gmr_username :: "string option"
  gmr_groupModeration :: "moderation option"
  gmr_page :: "nat option"

record reset_password_request =
  rpr_userId :: "string option"
  rpr_password :: string

record get_users_request =
  gur_username :: "string option"
  gur_userId :: "string option"
  gur_searchText :: "string option"
  gur_page :: "nat option"
  gur_listingType :: user_listing_type

record get_media_request =
  gme_mediaId :: "string option"
  gme_userId :: "string option"
  gme_contentType :: "string option"
  gme_searchText :: "string option"
  gme_page :: nat

record api =
  api_getPosts :: "get_posts_request \<Rightarrow> post list result"
  api_createPost :: "post \<Rightarrow> post result"
  api_updatePost :: "post \<Rightarrow> post result"
  api_deletePost :: "post \<Rightarrow> post result"
  api_getEvents :: "get_events_request \<Rightarrow> event list result"
  api_createEvent :: "event \<Rightarrow> event result"
  api_updateEvent :: "event \<Rightarrow> event result"
  api_deleteEvent :: "event \<Rightarrow> event result"
  api_getRsvps :: "string \<Rightarrow> string option \<Rightarrow> rsvps result"
  api_getGroups :: "get_groups_request \<Rightarrow> group list result"
  api_createGroup :: "group \<Rightarrow> group result"
  api_updateGroup :: "group \<Rightarrow> group result"
  api_deleteGroup :: "group \<Rightarrow> unit result"
  api_getGroupPosts :: "string \<Rightarrow> group_post list result"
  api_createGroupPost :: "string \<Rightarrow> string \<Rightarrow> group_post result"
  api_deleteGroupPost :: "string \<Rightarrow> string \<Rightarrow> unit result"
  api_getMembers :: "get_members_request \<Rightarrow> api_member list result"
  api_createMembership :: "membership \<Rightarrow> membership result"
  api_updateMembership :: "membership \<Rightarrow> membership result"
  api_deleteMembership :: "membership \<Rightarrow> unit result"
  api_getUsers :: "get_users_request \<Rightarrow> user list result"
  api_updateUser :: "user \<Rightarrow> user result"
  api_deleteUser :: "user \<Rightarrow> unit result"
  api_resetPassword :: "reset_password_request \<Rightarrow> unit result"
  api_createFollow :: "follow \<Rightarrow> follow result"
  api_updateFollow :: "follow \<Rightarrow> follow result"
  api_deleteFollow :: "follow \<Rightarrow> unit result"
  api_getMedia :: "get_media_request \<Rightarrow> media list result"
  api_deleteMedia :: "media \<Rightarrow> unit result"
  api_federateProfile :: "federated_account \<Rightarrow> unit result"
  api_defederateProfile :: "federated_account \<Rightarrow> unit result"

text \<open>The empty messages of the protocol.\<close>

definition base_posts_request :: get_posts_request where
  "base_posts_request =
     \<lparr>gpr_postId = None, gpr_authorUserId = None, gpr_excludedAuthorUserIds = [], gpr_groupId = None,
      gpr_replyDepth = None, gpr_context = None, gpr_postIds = None,
      gpr_listingType = PostListingType_ALL_ACCESSIBLE_POSTS, gpr_page = 0, gpr_searchText = None,
      gpr_publishedOrCreatedBefore = None\<rparr>"

definition base_events_request :: get_events_request where
  "base_events_request =
     \<lparr>ger_authorUserId = None, ger_excludedAuthorUserIds = [], ger_groupId = None, ger_timeFilter = None,
      ger_attendeeId = None, ger_rsvpStatuses = [], ger_postId = None,
      ger_listingType = EventListingType_ALL_ACCESSIBLE_EVENTS, ger_searchText = None, ger_occasionPostIds = [],
      ger_anonymousAttendeeAuthToken = None\<rparr>"

definition base_groups_request :: get_groups_request where
  "base_groups_request =
     \<lparr>ggr_groupId = None, ggr_groupName = None, ggr_groupShortname = None,
      ggr_listingType = GroupListingType_ALL_GROUPS, ggr_page = None\<rparr>"

definition base_members_request :: get_members_request where
  "base_members_request =
     \<lparr>gmr_groupId = [], gmr_username = None, gmr_groupModeration = None, gmr_page = None\<rparr>"

definition base_users_request :: get_users_request where
  "base_users_request =
     \<lparr>gur_username = None, gur_userId = None, gur_searchText = None, gur_page = None,
      gur_listingType = UserListingType_EVERYONE\<rparr>"

definition base_media_request :: get_media_request where
  "base_media_request =
     \<lparr>gme_mediaId = None, gme_userId = None, gme_contentType = None, gme_searchText = None, gme_page = 0\<rparr>"

definition createBaseFollow :: follow where
  "createBaseFollow =
     \<lparr>follow_userId = [], follow_targetUserId = [], follow_targetUserModeration = Moderation_MODERATION_UNKNOWN,
      follow_createdAt = None, follow_updatedAt = None\<rparr>"

definition createBaseMembership :: membership where
  "createBaseMembership =
     \<lparr>m_userId = [], m_groupId = [], m_permissions = [], m_groupModeration = Moderation_MODERATION_UNKNOWN,
      m_userModeration = Moderation_MODERATION_UNKNOWN, m_createdAt = None, m_updatedAt = None\<rparr>"

text \<open>\<open>response.xs[0]!\<close> after the check that there is one, with the message it throws otherwise.\<close>

definition first_or :: "string \<Rightarrow> 'a list \<Rightarrow> 'a result" where
  "first_or message xs = (case xs of [] \<Rightarrow> Inl (Thrown message) | x # _ \<Rightarrow> Inr x)"

text \<open>\<open>i.split('@')[0]\<close>\<close>

definition plain_id :: "string \<Rightarrow> string" where
  "plain_id i = split_head (CHR ''@'') i"


section \<open>Posts\<close>

definition createPost :: "api result \<Rightarrow> post \<Rightarrow> post result" where
  "createPost client request = bind_result client (\<lambda>c. api_createPost c request)"

definition updatePost :: "api result \<Rightarrow> post \<Rightarrow> post result" where
  "updatePost client request = bind_result client (\<lambda>c. api_updatePost c request)"

definition deletePost :: "api result \<Rightarrow> post \<Rightarrow> post result" where
  "deletePost client request = bind_result client (\<lambda>c. api_deletePost c request)"

text \<open>
  An empty path asks for a post that replies to nothing.  The media of the reply are among the fields the
  store does not read.  The answer is stamped with the current time.
\<close>

definition replyToPost :: "api result \<Rightarrow> string \<Rightarrow> string list \<Rightarrow> string \<Rightarrow> string \<Rightarrow> post result" where
  "replyToPost client nowISO postIdPath content media =
     bind_result client (\<lambda>c.
       let newPost = Post (createBasePost\<lparr>
             p_replyToPostId := (if postIdPath = [] then None else Some (plain_id (last postIdPath))),
             p_content := Some content, p_rest := media\<rparr>) []
       in bind_result (api_createPost c newPost) (\<lambda>result.
            Inr (update_fields (\<lambda>f. f\<lparr>p_createdAt := Some nowISO\<rparr>) result)))"

text \<open>The client the thunks connect to is that of the request's account and server.\<close>

definition loadPostsPage :: "api result \<Rightarrow> load_posts_request \<Rightarrow> post list result" where
  "loadPostsPage client request =
     bind_result client (\<lambda>c. api_getPosts c (base_posts_request\<lparr>
       gpr_listingType := nullish (lpr_listingType request) defaultPostListingType,
       gpr_page := nullish (lpr_page request) 0\<rparr>))"

definition loadPost :: "api result \<Rightarrow> string \<Rightarrow> post result" where
  "loadPost client i =
     bind_result client (\<lambda>c.
     bind_result (api_getPosts c (base_posts_request\<lparr>gpr_postId := Some (plain_id i)\<rparr>)) (first_or ''Post not found''))"

definition loadPostReplies :: "api result \<Rightarrow> string list \<Rightarrow> post list result" where
  "loadPostReplies client postIdPath =
     bind_result client (\<lambda>c. api_getPosts c (base_posts_request\<lparr>
       gpr_postId := Some (if postIdPath = [] then [] else plain_id (last postIdPath)),
       gpr_replyDepth := Some 2\<rparr>))"


section \<open>Events\<close>

definition createEvent :: "api result \<Rightarrow> event \<Rightarrow> ident_event result" where
  "createEvent client request = bind_result client (\<lambda>c. bind_result (api_createEvent c request) identifyEvent)"

definition updateEvent :: "api result \<Rightarrow> event \<Rightarrow> ident_event result" where
  "updateEvent client request = bind_result client (\<lambda>c. bind_result (api_updateEvent c request) identifyEvent)"

definition deleteEvent :: "api result \<Rightarrow> event \<Rightarrow> ident_event result" where
  "deleteEvent client request = bind_result client (\<lambda>c. bind_result (api_deleteEvent c request) identifyEvent)"

text \<open>The page of the request is not part of the message.\<close>

definition loadEventsPage :: "api result \<Rightarrow> load_events_request \<Rightarrow> ident_event list result" where
  "loadEventsPage client request =
     bind_result client (\<lambda>c.
     bind_result (api_getEvents c (base_events_request\<lparr>
         ger_listingType := nullish (ler_listingType request) defaultEventListingType,
         ger_timeFilter := ler_filter request\<rparr>))
       identifyGetEventsResponse)"

definition loadEvent :: "api result \<Rightarrow> load_event_request \<Rightarrow> ident_event result" where
  "loadEvent client request =
     bind_result client (\<lambda>c.
     bind_result (api_getEvents c (base_events_request\<lparr>
         ger_postId := (case le_id request of
             Some i \<Rightarrow> Some i
           | None \<Rightarrow> (case le_postId request of Some i \<Rightarrow> Some i | None \<Rightarrow> le_occasionId request))\<rparr>)) (\<lambda>events.
     bind_result (first_or ''Event not found'' events) identifyEvent))"

definition loadRsvpData :: "api result \<Rightarrow> string \<Rightarrow> string option \<Rightarrow> rsvps result" where
  "loadRsvpData client occasionId authToken = bind_result client (\<lambda>c. api_getRsvps c occasionId authToken)"


section \<open>Groups\<close>

definition createGroup :: "api result \<Rightarrow> group \<Rightarrow> group result" where
  "createGroup client request = bind_result client (\<lambda>c. api_createGroup c request)"

definition updateGroup :: "api result \<Rightarrow> group \<Rightarrow> group result" where
  "updateGroup client request = bind_result client (\<lambda>c. api_updateGroup c request)"

definition deleteGroup :: "api result \<Rightarrow> group \<Rightarrow> unit result" where
  "deleteGroup client request = bind_result client (\<lambda>c. api_deleteGroup c request)"

definition loadGroupsPage :: "api result \<Rightarrow> get_groups_request \<Rightarrow> group list result" where
  "loadGroupsPage client request = bind_result client (\<lambda>c. api_getGroups c request)"

definition loadPostGroupPosts :: "api result \<Rightarrow> string \<Rightarrow> group_post list result" where
  "loadPostGroupPosts client postId =
     bind_result client (\<lambda>c. api_getGroupPosts c (parsed_id (parseFederatedId postId)))"

text \<open>The page of the request is not sent, for posts and for events.\<close>

definition loadGroupPostsPage :: "api result \<Rightarrow> load_group_page_request \<Rightarrow> post list result" where
  "loadGroupPostsPage client request =
     bind_result client (\<lambda>c. api_getPosts c (base_posts_request\<lparr>
       gpr_groupId := Some (parsed_id (parseFederatedId (lgp_groupId request))),
       gpr_listingType := PostListingType_GROUP_POSTS\<rparr>))"

definition loadGroupEventsPage :: "api result \<Rightarrow> load_group_page_request \<Rightarrow> ident_event list result" where
  "loadGroupEventsPage client request =
     bind_result client (\<lambda>c.
     bind_result (api_getEvents c (base_events_request\<lparr>
         ger_groupId := Some (lgp_groupId request), ger_listingType := EventListingType_GROUP_EVENTS,
         ger_timeFilter := lgp_filter request\<rparr>))
       identifyGetEventsResponse)"

text \<open>\<open>response.groups[0]!\<close> without a check: \<open>None\<close> is the undefined group of an empty answer.\<close>

definition loadGroup :: "api result \<Rightarrow> string \<Rightarrow> group option result" where
  "loadGroup client i =
     bind_result client (\<lambda>c.
     bind_result (api_getGroups c (base_groups_request\<lparr>ggr_groupId := Some (parsed_id (parseFederatedId i))\<rparr>))
       (\<lambda>groups. Inr (js_at groups 0)))"

definition loadGroupByShortname :: "api result \<Rightarrow> string \<Rightarrow> group list result" where
  "loadGroupByShortname client shortname =
     bind_result client (\<lambda>c. api_getGroups c (base_groups_request\<lparr>
       ggr_groupShortname := Some (parsed_id (parseFederatedId shortname))\<rparr>))"

definition loadGroupMembers :: "api result \<Rightarrow> load_members_request \<Rightarrow> api_member list result" where
  "loadGroupMembers client request =
     bind_result client (\<lambda>c. api_getMembers c (base_members_request\<lparr>
       gmr_groupId := parsed_id (parseFederatedId (lmb_id request)),
       gmr_groupModeration := lmb_groupModeration request, gmr_page := lmb_page request\<rparr>))"

definition loadGroupPostsForPost :: "api result \<Rightarrow> string \<Rightarrow> group_post list result" where
  "loadGroupPostsForPost client postId = bind_result client (\<lambda>c. api_getGroupPosts c postId)"

definition createGroupPost :: "api result \<Rightarrow> string \<Rightarrow> string \<Rightarrow> group_post result" where
  "createGroupPost client groupId postId = bind_result client (\<lambda>c. api_createGroupPost c groupId postId)"

definition deleteGroupPost :: "api result \<Rightarrow> string \<Rightarrow> string \<Rightarrow> unit result" where
  "deleteGroupPost client groupId postId = bind_result client (\<lambda>c. api_deleteGroupPost c groupId postId)"

definition joinLeaveGroup :: "api result \<Rightarrow> join_request \<Rightarrow> membership option result" where
  "joinLeaveGroup client request =
     bind_result client (\<lambda>c.
     bind_result (deref (aos_account (jr_aos request))) (\<lambda>a.
       let m = createBaseMembership\<lparr>m_userId := u_id (acct_user a), m_groupId := jr_groupId request\<rparr>
       in if jr_join request
          then bind_result (api_createMembership c m) (\<lambda>r. Inr (Some r))
          else bind_result (api_deleteMembership c m) (\<lambda>_. Inr None)))"

text \<open>
  The object sent has a \<open>targetUserModeration\<close>, a field of a follow that a membership does not have, so
  the decision is dropped and both moderations of the message stay unknown.
\<close>

definition respondToMembershipRequest :: "api result \<Rightarrow> respond_request \<Rightarrow> membership option result" where
  "respondToMembershipRequest client request =
     bind_result client (\<lambda>c.
       let m = createBaseMembership\<lparr>m_userId := rr_userId request, m_groupId := rr_groupId request\<rparr>
       in if rr_accept request
          then bind_result (api_updateMembership c m) (\<lambda>r. Inr (Some r))
          else bind_result (api_deleteMembership c m) (\<lambda>_. Inr None))"

definition updateMembership :: "api result \<Rightarrow> membership \<Rightarrow> membership option result" where
  "updateMembership client request =
     bind_result client (\<lambda>c. bind_result (api_updateMembership c request) (\<lambda>r. Inr (Some r)))"


section \<open>Media\<close>

definition loadMediaPage :: "api result \<Rightarrow> load_media_request \<Rightarrow> media list result" where
  "loadMediaPage client request =
     bind_result client (\<lambda>c. api_getMedia c (base_media_request\<lparr>
       gme_userId := lmr_userId request, gme_page := nullish (lmr_page request) 0\<rparr>))"

definition loadMedia :: "api result \<Rightarrow> string \<Rightarrow> media result" where
  "loadMedia client i =
     bind_result client (\<lambda>c.
     bind_result (api_getMedia c (base_media_request\<lparr>gme_mediaId := Some i\<rparr>)) (first_or ''Media not found''))"

text \<open>\<open>Media.fromJSON(request)\<close> keeps the identifier.\<close>

definition deleteMedia :: "api result \<Rightarrow> string \<Rightarrow> unit result" where
  "deleteMedia client i =
     bind_result client (\<lambda>c. api_deleteMedia c
       \<lparr>media_id = i, media_sizes = [], media_createdAt = None, media_rest = []\<rparr>)"


section \<open>Users\<close>

definition loadUsersPage :: "api result \<Rightarrow> load_users_request \<Rightarrow> user list result" where
  "loadUsersPage client request =
     bind_result client (\<lambda>c. api_getUsers c (base_users_request\<lparr>
       gur_page := lur_page request, gur_listingType := nullish (lur_listingType request) defaultUserListingType\<rparr>))"

definition loadUserPosts :: "api result \<Rightarrow> string \<Rightarrow> post list result" where
  "loadUserPosts client userId =
     bind_result client (\<lambda>c. api_getPosts c (base_posts_request\<lparr>gpr_authorUserId := Some (plain_id userId)\<rparr>))"

definition loadUserReplies :: "api result \<Rightarrow> string \<Rightarrow> post list result" where
  "loadUserReplies client userId =
     bind_result client (\<lambda>c. api_getPosts c (base_posts_request\<lparr>
       gpr_authorUserId := Some (plain_id userId), gpr_context := Some PostContext_REPLY\<rparr>))"

definition loadUserEvents :: "api result \<Rightarrow> string \<Rightarrow> time_filter option \<Rightarrow> ident_event list result" where
  "loadUserEvents client userId timeFilter =
     bind_result client (\<lambda>c.
     bind_result (api_getEvents c (base_events_request\<lparr>
         ger_authorUserId := Some (plain_id userId), ger_timeFilter := timeFilter\<rparr>))
       identifyGetEventsResponse)"

definition updateUser :: "api result \<Rightarrow> user \<Rightarrow> user result" where
  "updateUser client request = bind_result client (\<lambda>c. api_updateUser c request)"

definition deleteUser :: "api result \<Rightarrow> user \<Rightarrow> unit result" where
  "deleteUser client request = bind_result client (\<lambda>c. api_deleteUser c request)"

definition resetPassword :: "api result \<Rightarrow> reset_password_request \<Rightarrow> unit result" where
  "resetPassword client request = bind_result client (\<lambda>c. api_resetPassword c request)"

definition followUnfollowUser :: "api result \<Rightarrow> user_request \<Rightarrow> bool \<Rightarrow> follow option result" where
  "followUnfollowUser client request follow =
     bind_result client (\<lambda>c.
     bind_result (deref (aos_account (ur_aos request))) (\<lambda>a.
       let f = createBaseFollow\<lparr>follow_userId := u_id (acct_user a), follow_targetUserId := ur_userId request\<rparr>
       in if follow
          then bind_result (api_createFollow c f) (\<lambda>r. Inr (Some r))
          else bind_result (api_deleteFollow c f) (\<lambda>_. Inr None)))"

definition respondToFollowRequest :: "api result \<Rightarrow> user_request \<Rightarrow> bool \<Rightarrow> follow option result" where
  "respondToFollowRequest client request accept =
     bind_result client (\<lambda>c.
     bind_result (deref (aos_account (ur_aos request))) (\<lambda>a.
       let f = createBaseFollow\<lparr>follow_userId := ur_userId request, follow_targetUserId := u_id (acct_user a),
             follow_targetUserModeration := (if accept then Moderation_APPROVED else Moderation_REJECTED)\<rparr>
       in if accept
          then bind_result (api_updateFollow c f) (\<lambda>r. Inr (Some r))
          else bind_result (api_deleteFollow c f) (\<lambda>_. Inr None)))"

text \<open>
  \<open>loadUser\<close>: the set of users being loaded holds federated identifiers.  The part before the first \<open>await\<close>
  and the part after the answer are separate, so that calls can overlap.  A failure leaves the identifier in
  the set, and so does success, unless the request named the user by the federated identifier.
\<close>

definition loadUser_start ::
  "string list \<Rightarrow> user_request \<Rightarrow> string list \<Rightarrow> unit result \<times> string list" where
  "loadUser_start failedIds request loadingUserIds =
     (let federatedId = federateId (ur_userId request) (aos_host (ur_aos request))
      in if federatedId \<in> set loadingUserIds then (Inl (Thrown ''Already loading user...''), loadingUserIds)
         else if ur_userId request \<in> set failedIds then (Inl (Thrown ''User not found''), loadingUserIds)
         else (Inr (), federatedId # loadingUserIds))"

definition loadUser_finish ::
  "user list result \<Rightarrow> user_request \<Rightarrow> string list \<Rightarrow> user result \<times> string list" where
  "loadUser_finish response request loadingUserIds =
     (case response of
        Inl e \<Rightarrow> (Inl e, loadingUserIds)
      | Inr users \<Rightarrow> (first_or ''User not found'' users, removeAll (ur_userId request) loadingUserIds))"

definition loadUser_call :: "api result \<Rightarrow> user_request \<Rightarrow> user list result" where
  "loadUser_call client request =
     bind_result client (\<lambda>c. api_getUsers c (base_users_request\<lparr>gur_userId := Some (ur_userId request)\<rparr>))"

text \<open>One call that nothing overlaps.\<close>

definition loadUser ::
  "api result \<Rightarrow> string list \<Rightarrow> user_request \<Rightarrow> string list \<Rightarrow> user result \<times> string list" where
  "loadUser client failedIds request loadingUserIds =
     (case loadUser_start failedIds request loadingUserIds of
        (Inl e, loading) \<Rightarrow> (Inl e, loading)
      | (Inr _, loading) \<Rightarrow> loadUser_finish (loadUser_call client request) request loading)"

text \<open>
  \<open>loadUsername\<close>: a caller polls while the name is being loaded.  The user it looks up meanwhile is always
  \<open>undefined\<close>, since \<open>usernameIds\<close> is keyed by host; so a caller that leaves the loop loads the name itself.
  A failed call leaves the name in the set.
\<close>

datatype name_caller = NameWaiting | NameFetching | NameDone "user result"

definition loadUsername_call :: "api result \<Rightarrow> string \<Rightarrow> user list result" where
  "loadUsername_call client username =
     bind_result client (\<lambda>c. api_getUsers c (base_users_request\<lparr>gur_username := Some username\<rparr>))"

definition username_step ::
  "user list result \<Rightarrow> string \<Rightarrow> name_caller \<Rightarrow> string list \<Rightarrow> name_caller \<times> string list" where
  "username_step response username c loadingUsernames =
     (case c of
        NameWaiting \<Rightarrow>
          if username \<in> set loadingUsernames then (NameWaiting, loadingUsernames)
          else (NameFetching, username # loadingUsernames)
      | NameFetching \<Rightarrow>
          (case response of
             Inl e \<Rightarrow> (NameDone (Inl e), loadingUsernames)
           | Inr users \<Rightarrow> (NameDone (first_or ''User not found'' users), removeAll username loadingUsernames))
      | NameDone r \<Rightarrow> (NameDone r, loadingUsernames))"

text \<open>Callers of names, driven by a schedule: which caller moves, and what the server answers it if it asks.\<close>

record name_system =
  nm_callers :: "(string \<times> name_caller) list"
  nm_loading :: "string list"

definition name_move :: "name_system \<Rightarrow> nat \<times> user list result \<Rightarrow> name_system" where
  "name_move sys ev =
     (case ev of (n, response) \<Rightarrow>
        if n < length (nm_callers sys)
        then (case nm_callers sys ! n of (username, c) \<Rightarrow>
                (case username_step response username c (nm_loading sys) of
                   (c', loading) \<Rightarrow> \<lparr>nm_callers = (nm_callers sys)[n := (username, c')], nm_loading = loading\<rparr>))
        else sys)"


section \<open>Accounts\<close>

text \<open>One direction of linking two accounts: \<open>aos\<close> tells its server about the account of \<open>other\<close>.\<close>

definition federate_call ::
  "(account_or_server \<Rightarrow> api result) \<Rightarrow> (api \<Rightarrow> federated_account \<Rightarrow> unit result) \<Rightarrow> account_or_server \<Rightarrow>
     account_or_server \<Rightarrow> unit result"
where
  "federate_call connect call aos other =
     bind_result (connect aos) (\<lambda>c.
     bind_result (deref (aos_account other)) (\<lambda>a.
       call c \<lparr>fa_host = host (acct_server a), fa_userId = u_id (acct_user a)\<rparr>))"

definition federateAccounts ::
  "(account_or_server \<Rightarrow> api result) \<Rightarrow> account_or_server \<Rightarrow> account_or_server \<Rightarrow> unit result" where
  "federateAccounts connect account1 account2 =
     bind_result (federate_call connect api_federateProfile account1 account2) (\<lambda>_.
       federate_call connect api_federateProfile account2 account1)"

definition defederateAccounts ::
  "(account_or_server \<Rightarrow> api result) \<Rightarrow> account_or_server \<Rightarrow> account_or_server option \<Rightarrow> federated_account \<Rightarrow>
     unit result"
where
  "defederateAccounts connect account1 account2 account2Profile =
     (case Option.bind account2 (\<lambda>a2. map_option (\<lambda>_. a2) (aos_account a2)) of
        Some a2 \<Rightarrow>
          bind_result (federate_call connect api_defederateProfile account1 a2) (\<lambda>_.
            federate_call connect api_defederateProfile a2 account1)
      | None \<Rightarrow> bind_result (connect account1) (\<lambda>c. api_defederateProfile c account2Profile))"

record signin_response =
  sr_refreshToken :: "expirable_token option"
  sr_accessToken :: "expirable_token option"
  sr_user :: "user option"

text \<open>
  The account a sign-in makes; one without user or tokens has no value of the type.  The server it keeps is
  a copy of the request, of which \<open>rellm_server\<close> has the server's own fields.
\<close>

definition signed_in :: "rellm_server \<Rightarrow> signin_response \<Rightarrow> rellm_account result" where
  "signed_in server r =
     (case (sr_user r, sr_refreshToken r, sr_accessToken r) of
        (Some u, Some rt, Some act) \<Rightarrow>
          Inr \<lparr>acct_user = u, refreshToken = rt, accessToken = act, acct_server = server, lastSynced = None,
               needsReauthentication = None, lastSyncFailed = None, pushSubscription = None\<rparr>
      | _ \<Rightarrow> Inl Untyped)"

text \<open>\<open>connect\<close> is \<open>getServerClient\<close>, \<open>call\<close> is \<open>createAccount\<close> or \<open>login\<close> of the generated client, given the name of the device.\<close>

definition createAccount ::
  "(rellm_server \<Rightarrow> 'c result) \<Rightarrow> ('c \<Rightarrow> string \<Rightarrow> signin_response result) \<Rightarrow> string \<Rightarrow> rellm_server \<Rightarrow>
     rellm_account result"
where
  "createAccount connect call deviceName server =
     bind_result (connect server) (\<lambda>c. bind_result (call c deviceName) (signed_in server))"

definition login ::
  "(rellm_server \<Rightarrow> 'c result) \<Rightarrow> ('c \<Rightarrow> string \<Rightarrow> signin_response result) \<Rightarrow> string \<Rightarrow> rellm_server \<Rightarrow>
     rellm_account result"
where
  "login connect call deviceName server =
     bind_result (connect server) (\<lambda>c. bind_result (call c deviceName) (signed_in server))"

text \<open>The table of \<open>getDeviceName\<close>; a later entry that matches wins.\<close>

definition device_patterns :: "(string \<times> string list) list" where
  "device_patterns =
     [(''Generic Linux'', [''linux'']), (''Android'', [''android'']), (''BlackBerry'', [''blackberry'']),
      (''Bluebird'', [''ef500'']), (''Chrome OS'', [''cros'']), (''Datalogic'', [''dl-axis'']),
      (''Honeywell'', [''ct50'']), (''iPad'', [''ipad'']), (''iPhone'', [''iphone'']), (''iPod'', [''ipod'']),
      (''macOS'', [''macintosh'']), (''Windows'', [''iemobile'', ''windows'']), (''Zebra'', [''tc70'', ''tc55''])]"

definition getDeviceName :: "string \<Rightarrow> string" where
  "getDeviceName userAgent =
     foldl (\<lambda>device (name, patterns). if list_ex (\<lambda>p. contains p (to_lower userAgent)) patterns then name else device)
       ''Unknown Device'' device_patterns"


section \<open>Lemmas on names being loaded\<close>

text \<open>A name that is in the set while none of its callers is asking the server.\<close>

definition name_stuck :: "string \<Rightarrow> name_system \<Rightarrow> bool" where
  "name_stuck username sys \<longleftrightarrow>
     username \<in> set (nm_loading sys) \<and> (username, NameFetching) \<notin> set (nm_callers sys)"

lemma name_stuck_move:
  assumes "name_stuck username sys"
  shows "name_stuck username (name_move sys ev) \<and>
    (\<forall>n < length (nm_callers sys). nm_callers sys ! n = (username, NameWaiting) \<longrightarrow>
       nm_callers (name_move sys ev) ! n = (username, NameWaiting)) \<and>
    length (nm_callers (name_move sys ev)) = length (nm_callers sys)"
proof -
  obtain n response where ev: "ev = (n, response)" by (cases ev)
  show ?thesis
  proof (cases "n < length (nm_callers sys)")
    case True
    obtain name c where nc: "nm_callers sys ! n = (name, c)"
      by (cases "nm_callers sys ! n")
    obtain c' loading where step: "username_step response name c (nm_loading sys) = (c', loading)"
      by (cases "username_step response name c (nm_loading sys)")
    have fetching: "\<not> (name = username \<and> c = NameFetching)"
      using assms nc True by (metis name_stuck_def nth_mem)
    have kept: "username \<in> set loading"
      using step assms fetching
      by (auto simp: username_step_def name_stuck_def split: name_caller.splits sum.splits if_splits)
    have waits: "name = username \<Longrightarrow> c' \<noteq> NameFetching \<and> (c = NameWaiting \<longrightarrow> c' = NameWaiting)"
      using step assms fetching
      by (auto simp: username_step_def name_stuck_def split: name_caller.splits sum.splits if_splits)
    have moved: "name_move sys ev = \<lparr>nm_callers = (nm_callers sys)[n := (name, c')], nm_loading = loading\<rparr>"
      by (simp add: name_move_def ev True nc step)
    have "(username, NameFetching) \<notin> set ((nm_callers sys)[n := (name, c')])"
      using waits assms set_update_subset_insert [of "nm_callers sys" n "(name, c')"]
      by (auto simp: name_stuck_def)
    then show ?thesis
      using kept waits nc True by (auto simp: name_stuck_def moved nth_list_update)
  next
    case False
    then show ?thesis
      using assms by (simp add: name_move_def ev)
  qed
qed

lemma name_stuck_moves:
  assumes "name_stuck username sys" "n < length (nm_callers sys)" "nm_callers sys ! n = (username, NameWaiting)"
  shows "name_stuck username (foldl name_move sys evs) \<and>
    length (nm_callers (foldl name_move sys evs)) = length (nm_callers sys) \<and>
    nm_callers (foldl name_move sys evs) ! n = (username, NameWaiting)"
proof (induction evs rule: rev_induct)
  case (snoc ev evs)
  then show ?case
    using name_stuck_move [of username "foldl name_move sys evs" ev] assms(2) by simp
qed (use assms in simp)


section \<open>Properties\<close>

text \<open>
  When loading a user by name fails, everybody who waits for that name, then or
  later, waits forever, whatever the schedule and whatever the server would answer.
\<close>

theorem failed_username_blocks:
  assumes "nm_callers sys ! k = (username, NameFetching)" "k < length (nm_callers sys)"
    and "username \<in> set (nm_loading sys)"
    and "\<forall>j < length (nm_callers sys). j \<noteq> k \<longrightarrow> nm_callers sys ! j \<noteq> (username, NameFetching)"
    and "n < length (nm_callers sys)" "nm_callers sys ! n = (username, NameWaiting)"
  shows "nm_callers (foldl name_move (name_move sys (k, Inl e)) evs) ! n = (username, NameWaiting)"
proof -
  let ?sys = "name_move sys (k, Inl e)"
  have moved: "?sys = \<lparr>nm_callers = (nm_callers sys)[k := (username, NameDone (Inl e))], nm_loading = nm_loading sys\<rparr>"
    by (simp add: name_move_def assms(1,2) username_step_def)
  have "name_stuck username ?sys"
    using assms(2-4) by (auto simp: name_stuck_def moved in_set_conv_nth nth_list_update split: if_splits)
  moreover have "k \<noteq> n"
    using assms(1,6) by auto
  then have "nm_callers ?sys ! n = (username, NameWaiting)" "n < length (nm_callers ?sys)"
    using assms(5,6) by (simp_all add: moved)
  ultimately show ?thesis
    using name_stuck_moves by blast
qed

theorem failed_username_blocks_witness:
  "nm_callers (foldl name_move
      (name_move \<lparr>nm_callers = [(''ann'', NameFetching), (''ann'', NameWaiting)], nm_loading = [''ann'']\<rparr> (0, Inl TypeError))
      (replicate 100 (1, Inr [sample_user ''a'']))) ! 1 = (''ann'', NameWaiting)"
  by (rule failed_username_blocks) (auto simp: less_Suc_eq)

text \<open>
  A user asked for by its plain identifier is loaded once: a second request for it from
  the same server throws ''Already loading user...'', although the first has been answered.
\<close>

theorem user_loads_once:
  assumes "CHR ''@'' \<notin> set (ur_userId request)" "fst (loadUser client failed request loading) = Inr user"
  shows "loadUser client' failed' request (snd (loadUser client failed request loading)) =
    (Inl (Thrown ''Already loading user...''), snd (loadUser client failed request loading))"
proof -
  let ?fid = "federateId (ur_userId request) (aos_host (ur_aos request))"
  have "CHR ''@'' \<in> set ?fid"
    by (simp add: federateId_def mk_federated_id_def)
  then have ne: "?fid \<noteq> ur_userId request"
    using assms(1) by metis
  have "snd (loadUser client failed request loading) = removeAll (ur_userId request) (?fid # loading)"
    using assms(2)
    by (auto simp: loadUser_def loadUser_start_def loadUser_finish_def Let_def split: if_splits sum.splits)
  then have "?fid \<in> set (snd (loadUser client failed request loading))"
    using ne by auto
  then show ?thesis
    by (simp add: loadUser_def loadUser_start_def Let_def)
qed


text \<open>A client that answers nothing, to be given the answers an example needs.\<close>

definition silent_api :: api where
  "silent_api =
     \<lparr>api_getPosts = (\<lambda>_. Inl TypeError), api_createPost = (\<lambda>_. Inl TypeError), api_updatePost = (\<lambda>_. Inl TypeError),
      api_deletePost = (\<lambda>_. Inl TypeError), api_getEvents = (\<lambda>_. Inl TypeError), api_createEvent = (\<lambda>_. Inl TypeError),
      api_updateEvent = (\<lambda>_. Inl TypeError), api_deleteEvent = (\<lambda>_. Inl TypeError),
      api_getRsvps = (\<lambda>_ _. Inl TypeError), api_getGroups = (\<lambda>_. Inl TypeError),
      api_createGroup = (\<lambda>_. Inl TypeError), api_updateGroup = (\<lambda>_. Inl TypeError),
      api_deleteGroup = (\<lambda>_. Inl TypeError), api_getGroupPosts = (\<lambda>_. Inl TypeError),
      api_createGroupPost = (\<lambda>_ _. Inl TypeError), api_deleteGroupPost = (\<lambda>_ _. Inl TypeError),
      api_getMembers = (\<lambda>_. Inl TypeError), api_createMembership = (\<lambda>_. Inl TypeError),
      api_updateMembership = (\<lambda>_. Inl TypeError), api_deleteMembership = (\<lambda>_. Inl TypeError),
      api_getUsers = (\<lambda>_. Inl TypeError), api_updateUser = (\<lambda>_. Inl TypeError), api_deleteUser = (\<lambda>_. Inl TypeError),
      api_resetPassword = (\<lambda>_. Inl TypeError),
      api_createFollow = (\<lambda>_. Inl TypeError), api_updateFollow = (\<lambda>_. Inl TypeError),
      api_deleteFollow = (\<lambda>_. Inl TypeError), api_getMedia = (\<lambda>_. Inl TypeError), api_deleteMedia = (\<lambda>_. Inl TypeError),
      api_federateProfile = (\<lambda>_. Inl TypeError), api_defederateProfile = (\<lambda>_. Inl TypeError)\<rparr>"

theorem user_loads_once_witness:
  "fst (loadUser (Inr silent_api) [] sample_user_request
     (snd (loadUser (Inr (silent_api\<lparr>api_getUsers := (\<lambda>_. Inr [sample_user ''you''])\<rparr>)) [] sample_user_request []))) =
   Inl (Thrown ''Already loading user...'')"
proof -
  have plain: "CHR ''@'' \<notin> set (ur_userId sample_user_request)"
    by (simp add: sample_user_request_def)
  have "fst (loadUser (Inr (silent_api\<lparr>api_getUsers := (\<lambda>_. Inr [sample_user ''you''])\<rparr>)) [] sample_user_request []) =
      Inr (sample_user ''you'')"
    by (simp add: loadUser_def loadUser_start_def loadUser_finish_def loadUser_call_def first_or_def)
  from user_loads_once [OF plain this] show ?thesis
    by simp
qed

text \<open>
  With a server that stores what it is sent, accepting a follow request leaves
  a follow that passes, while accepting a membership request leaves a membership that does not: the message
  carries no decision.
\<close>

theorem accepted_member_unapproved:
  assumes "\<forall>m. api_updateMembership c m = Inr m" "\<forall>f. api_updateFollow c f = Inr f"
    and "aos_account (ur_aos follow_request) \<noteq> None"
  shows "(\<exists>m. respondToMembershipRequest (Inr c) (request\<lparr>rr_accept := True\<rparr>) = Inr (Some m) \<and>
      m_userId m = rr_userId request \<and> m_groupId m = rr_groupId request \<and> \<not> passing_membership (Some m)) \<and>
    (\<exists>f. respondToFollowRequest (Inr c) follow_request True = Inr (Some f) \<and>
      follow_userId f = ur_userId follow_request \<and> follow_passes (Some f))"
  using assms
  by (auto simp: respondToMembershipRequest_def respondToFollowRequest_def passing_membership_def follow_passes_def
      createBaseMembership_def createBaseFollow_def passes_def deref_def split: option.split)

theorem accepted_member_unapproved_witness:
  "\<exists>m. respondToMembershipRequest
      (Inr (silent_api\<lparr>api_updateMembership := Inr, api_updateFollow := Inr\<rparr>))
      \<lparr>rr_aos = \<lparr>aos_account = None, aos_server = Some sample_server\<rparr>, rr_userId = ''you'', rr_groupId = ''g'', rr_accept = True\<rparr> =
      Inr (Some m) \<and> \<not> passing_membership (Some m)"
  using accepted_member_unapproved [of "silent_api\<lparr>api_updateMembership := Inr, api_updateFollow := Inr\<rparr>" sample_user_request
      "\<lparr>rr_aos = \<lparr>aos_account = None, aos_server = Some sample_server\<rparr>, rr_userId = ''you'', rr_groupId = ''g'', rr_accept = True\<rparr>"]
  by (auto simp: sample_user_request_def)

text \<open>
  The page of a group's posts is not sent to the server, so loading the first two pages
  from a server whose answer does not change files the same posts twice, and the list through the second
  page shows every post of the first one again.
\<close>

theorem group_pages_repeat:
  assumes "loadGroupPostsPage client request0 = Inr ps0" "loadGroupPostsPage client request1 = Inr ps1"
    and "request1 = request0\<lparr>lgp_page := Some 1\<rparr>" "lgp_page request0 = None"
    and "federateId (lgp_groupId request0) (FederatedAction (lgp_server request0)) = group_key g"
  shows "ps1 = ps0 \<and>
    (let groups = loadGroupPostsPage_fulfilled request1 ps1 (loadGroupPostsPage_fulfilled request0 ps0 gs)
     in getGroupPostPages A posts groups g 1 =
          getGroupPostsPage A posts groups g 0 @ getGroupPostsPage A posts groups g 0)"
proof -
  have same: "ps1 = ps0"
    using assms(1-3) by (simp add: loadGroupPostsPage_def)
  let ?ids = "map (\<lambda>p. federateId (post_id p) (FederatedAction (lgp_server request0))) ps0"
  let ?groups = "loadGroupPostsPage_fulfilled request1 ps1 (loadGroupPostsPage_fulfilled request0 ps0 gs)"
  have "page_at (groupPostPages ?groups) (group_key g) 0 = Some ?ids"
    "page_at (groupPostPages ?groups) (group_key g) 1 = Some ?ids"
    unfolding same assms(5) [symmetric]
    by (simp_all add: loadGroupPostsPage_fulfilled_def Let_def page_at_put_page assms(3,4))
  then show ?thesis
    by (simp add: same getGroupPostPages_def getGroupPostsPage_def through_page_def)
qed

theorem group_pages_repeat_witness:
  "getGroupPostPages (ref_adapter post_key replace_all None) sample_posts
     (loadGroupPostsPage_fulfilled \<lparr>lgp_server = Some sample_server, lgp_groupId = ''g'', lgp_page = Some 1, lgp_filter = None\<rparr>
        [bare_post ''a'' []]
       (loadGroupPostsPage_fulfilled \<lparr>lgp_server = Some sample_server, lgp_groupId = ''g'', lgp_page = None, lgp_filter = None\<rparr>
          [bare_post ''a'' []] initial_groups))
     \<lparr>entity = sample_group\<lparr>g_id := ''g''\<rparr>, serverHostOf = ''h''\<rparr> 1 =
   [\<lparr>entity = sample_thread, serverHostOf = ''h''\<rparr>, \<lparr>entity = sample_thread, serverHostOf = ''h''\<rparr>]"
proof -
  let ?r0 = "\<lparr>lgp_server = Some sample_server, lgp_groupId = ''g'', lgp_page = None, lgp_filter = None\<rparr>"
  let ?c = "Inr (silent_api\<lparr>api_getPosts := (\<lambda>_. Inr [bare_post ''a'' []])\<rparr>)"
  let ?g = "\<lparr>entity = sample_group\<lparr>g_id := ''g''\<rparr>, serverHostOf = ''h''\<rparr>"
  have r: "loadGroupPostsPage ?c ?r0 = Inr [bare_post ''a'' []]"
    "loadGroupPostsPage ?c (?r0\<lparr>lgp_page := Some 1\<rparr>) = Inr [bare_post ''a'' []]"
    by (simp_all add: loadGroupPostsPage_def)
  have k: "federateId (lgp_groupId ?r0) (FederatedAction (lgp_server ?r0)) = group_key ?g"
    by (simp add: federateId_def mk_federated_id_def federatedId_def sample_server_def)
  show ?thesis
    using group_pages_repeat [OF r refl _ k, of initial_groups "ref_adapter post_key replace_all None" sample_posts]
    by (simp add: Let_def getGroupPostsPage_def loadGroupPostsPage_fulfilled_def page_at_put_page present_def
        map_filter_def federateId_def mk_federated_id_def federatedId_def sample_server_def sample_posts_def sample_thread_def)
qed

end
