(* ===== verification/Post_Catalogue.thy ===== *)
theory Post_Catalogue
  imports Posts
begin

text \<open>
  What the posts slice promises, without adapters, key strings and arrays: a catalogue of the posts of every
  host.  Each action has its meaning on the catalogue, and the reducer implements it: a step of the slice is
  the step of the catalogue it stands for, and it throws exactly when the catalogue has no step.
\<close>

section \<open>The catalogue\<close>

type_synonym catalogue = "string \<times> string \<rightharpoonup> post"

definition put_post :: "string \<Rightarrow> catalogue \<Rightarrow> post \<Rightarrow> catalogue" where
  "put_post h K p = K((h, post_id p) \<mapsto> p)"

definition put_posts :: "string \<Rightarrow> post list \<Rightarrow> catalogue \<Rightarrow> catalogue" where
  "put_posts h ps K = foldl (put_post h) K ps"

text \<open>The new version of a post with the replies the catalogue has for it.\<close>

definition refresh_post :: "string \<Rightarrow> post \<Rightarrow> catalogue \<Rightarrow> catalogue" where
  "refresh_post h p K = put_post h K (set_replies (nullish (map_option replies (K (h, post_id p))) (replies p)) p)"

text \<open>An update of the tree of replies below the first post of a path.\<close>

definition edit_tree ::
  "string \<Rightarrow> string list \<Rightarrow> (string list \<Rightarrow> post \<Rightarrow> post option) \<Rightarrow> catalogue \<Rightarrow> catalogue option" where
  "edit_tree h path walk K =
     (case path of
        [] \<Rightarrow> None
      | root # path \<Rightarrow>
         Some (case Option.bind (K (h, defederateId root)) (walk path) of None \<Rightarrow> K | Some q \<Rightarrow> put_post h K q))"

fun catalogue_step :: "posts_action \<Rightarrow> catalogue \<Rightarrow> catalogue option" where
  "catalogue_step (RemovePost i) K = Some (\<lambda>(h, j). if mk_federated_id j h = i then None else K (h, j))"
| "catalogue_step (UpsertPost p) K =
     Some (if post_id (entity p) \<noteq> [] then put_post (serverHostOf p) K (entity p) else K)"
| "catalogue_step (ResetPosts hst) K =
     Some (case hst of None \<Rightarrow> K | Some h \<Rightarrow> if h = [] then K else (\<lambda>(h', j). if h' = h then None else K (h', j)))"
| "catalogue_step (CreatePost_fulfilled sv p) K = Some (put_post (federationKey sv) K p)"
| "catalogue_step (ReplyToPost_fulfilled r reply) K =
     edit_tree (federationKey (pr_server r)) (pr_postIdPath r)
       (\<lambda>path. insert_reply path (last (pr_postIdPath r)) reply) K"
| "catalogue_step (LoadPostsPage_fulfilled r ps) K = Some (put_posts (federationKey (lpr_server r)) ps K)"
| "catalogue_step (LoadPostsPage_rejected r) K = Some K"
| "catalogue_step (LoadPost_fulfilled sv p) K = Some (refresh_post (federationKey sv) p K)"
| "catalogue_step (LoadPost_rejected r) K = Some K"
| "catalogue_step (UpdatePost_fulfilled sv p) K = Some (refresh_post (federationKey sv) p K)"
| "catalogue_step (LoadPostReplies_fulfilled r ps) K =
     edit_tree (federationKey (pr_server r)) (pr_postIdPath r) (\<lambda>path. replace_replies path ps) K"
| "catalogue_step (LoadListedPosts_fulfilled sv ps) K = Some (put_posts (federationKey sv) ps K)"
| "catalogue_step (DeletePost_fulfilled sv p) K = Some (K((federationKey sv, post_id p) := None))"
| "catalogue_step (SaveEvent_fulfilled sv e) K = Some (put_posts (federationKey sv) (event_posts e) K)"
| "catalogue_step (LoadEventsPagePosts_fulfilled sv es) K =
     Some (put_posts (federationKey sv) (concat (map event_posts es)) K)"


section \<open>What the catalogue is in the slice\<close>

definition at_free :: "string \<Rightarrow> bool" where
  "at_free s \<longleftrightarrow> CHR ''@'' \<notin> set s"

definition content_of :: "(string \<rightharpoonup> federated_post) \<Rightarrow> catalogue" where
  "content_of m = (\<lambda>(h, i). if at_free h \<and> at_free i then map_option entity (m (mk_federated_id i h)) else None)"

definition plain_table :: "(string \<rightharpoonup> federated_post) \<Rightarrow> bool" where
  "plain_table m \<longleftrightarrow> (\<forall>k e. m k = Some e \<longrightarrow> at_free (post_id (entity e)) \<and> at_free (serverHostOf e))"

text \<open>The slice stands for the catalogue.\<close>

definition stands_for :: "posts_state \<Rightarrow> catalogue \<Rightarrow> bool" where
  "stands_for s K \<longleftrightarrow> posts_wf s \<and> plain_table (post_stored s) \<and> content_of (post_stored s) = K"

text \<open>
  Actions whose identifiers and hosts contain no \<open>@\<close>; the posts of one answer have distinct identifiers.
\<close>

definition plain_posts :: "string \<Rightarrow> post list \<Rightarrow> bool" where
  "plain_posts h ps \<longleftrightarrow> at_free h \<and> distinct (map post_id ps) \<and> (\<forall>p \<in> set ps. at_free (post_id p))"

fun plain_action :: "posts_action \<Rightarrow> bool" where
  "plain_action (UpsertPost p) \<longleftrightarrow> plain_posts (serverHostOf p) [entity p]"
| "plain_action (CreatePost_fulfilled sv p) \<longleftrightarrow> plain_posts (federationKey sv) [p]"
| "plain_action (LoadPostsPage_fulfilled r ps) \<longleftrightarrow> plain_posts (federationKey (lpr_server r)) ps"
| "plain_action (LoadPost_fulfilled sv p) \<longleftrightarrow> plain_posts (federationKey sv) [p]"
| "plain_action (UpdatePost_fulfilled sv p) \<longleftrightarrow> plain_posts (federationKey sv) [p]"
| "plain_action (LoadListedPosts_fulfilled sv ps) \<longleftrightarrow> plain_posts (federationKey sv) ps"
| "plain_action (DeletePost_fulfilled sv p) \<longleftrightarrow> plain_posts (federationKey sv) [p]"
| "plain_action (SaveEvent_fulfilled sv e) \<longleftrightarrow> plain_posts (federationKey sv) (event_posts e)"
| "plain_action (LoadEventsPagePosts_fulfilled sv es) \<longleftrightarrow>
     plain_posts (federationKey sv) (concat (map event_posts es))"
| "plain_action (ReplyToPost_fulfilled r p) \<longleftrightarrow> at_free (federationKey (pr_server r))"
| "plain_action (LoadPostReplies_fulfilled r ps) \<longleftrightarrow> at_free (federationKey (pr_server r))"
| "plain_action a \<longleftrightarrow> True"


section \<open>Writing and deleting\<close>

lemma content_of_put:
  "at_free h \<Longrightarrow> at_free i \<Longrightarrow> content_of (m(mk_federated_id i h \<mapsto> e)) = (content_of m)((h, i) \<mapsto> entity e)"
  by (auto simp: content_of_def fun_eq_iff at_free_def mk_federated_id_eq)

lemma content_of_delete:
  "at_free h \<Longrightarrow> at_free i \<Longrightarrow> content_of (m(mk_federated_id i h := None)) = (content_of m)((h, i) := None)"
  by (auto simp: content_of_def fun_eq_iff at_free_def mk_federated_id_eq)

lemma content_of_remove:
  "content_of (m(k := None)) = (\<lambda>(h, j). if mk_federated_id j h = k then None else content_of m (h, j))"
  by (auto simp: content_of_def fun_eq_iff)

lemma content_of_reset:
  "content_of (dict_delete_where (id_on_host h) m) = (\<lambda>(h', j). if h' = h then None else content_of m (h', j))"
  by (auto simp: content_of_def fun_eq_iff at_free_def dict_delete_where_def)

lemma content_of_get: "at_free h \<Longrightarrow> at_free i \<Longrightarrow> content_of m (h, i) = map_option entity (m (mk_federated_id i h))"
  by (simp add: content_of_def)

lemma plain_table_put:
  "plain_table m \<Longrightarrow> at_free (post_id (entity e)) \<Longrightarrow> at_free (serverHostOf e) \<Longrightarrow> plain_table (m(k \<mapsto> e))"
  by (auto simp: plain_table_def)

lemma plain_table_delete:
  "plain_table m \<Longrightarrow> plain_table (m(k := None))" "plain_table m \<Longrightarrow> plain_table (dict_delete_where P m)"
  by (auto simp: plain_table_def dict_delete_where_def split: if_splits)

lemma upsertMany_fold:
  assumes "entity_adapter A selectId replace_all" "distinct (map selectId es)"
  shows "entities (upsertMany A st es) = entities (foldl (upsertOne A) st es)"
proof -
  have "entities (foldl (upsertOne A) st es) =
      (\<lambda>k. case find (\<lambda>e. selectId e = k) es of None \<Rightarrow> entities st k | Some e \<Rightarrow> Some e)"
    using assms(2)
  proof (induction es arbitrary: st)
    case (Cons e es)
    have "find (\<lambda>e'. selectId e' = selectId e) es = None"
      using Cons.prems by (auto simp: find_None_iff image_iff)
    then show ?case
      using Cons adapter_entities(1) [OF assms(1)] by (auto simp: fun_eq_iff split: option.split)
  qed simp
  then show ?thesis
    using entity_adapter.entities_upsertMany [OF assms] by (simp add: fun_eq_iff split: option.split)
qed

lemma stands_for_put:
  assumes "entity_adapter A post_key replace_all" "stands_for s K" "at_free h" "at_free (post_id p)"
  shows "stands_for (upsert_post A \<lparr>entity = p, serverHostOf = h\<rparr> s) (put_post h K p)"
  using assms(2-4) adapter_entities(1) [OF assms(1)] adapter_wf(1) [OF assms(1)]
  by (simp add: stands_for_def upsert_post_def posts_wf_def federatedId_def content_of_put put_post_def plain_table_put)

lemma stands_for_other:
  "posts_entities s' = posts_entities s \<Longrightarrow> stands_for s' K = stands_for s K"
  by (simp add: stands_for_def posts_wf_def)

lemma stands_for_puts:
  assumes "entity_adapter A post_key replace_all" "stands_for s K" "plain_posts h ps"
  shows "stands_for (foldl (\<lambda>s p. upsert_post A \<lparr>entity = p, serverHostOf = h\<rparr> s) s ps) (put_posts h ps K)"
  using assms(2,3)
proof (induction ps arbitrary: s K)
  case (Cons p ps)
  have "stands_for (upsert_post A \<lparr>entity = p, serverHostOf = h\<rparr> s) (put_post h K p)"
    using Cons.prems by (intro stands_for_put [OF assms(1)]) (auto simp: plain_posts_def)
  then show ?case
    using Cons by (simp add: plain_posts_def put_posts_def)
qed (simp add: put_posts_def)

lemma entities_foldl_upsert:
  "posts_entities (foldl (\<lambda>s p. upsert_post A \<lparr>entity = p, serverHostOf = h\<rparr> s) s ps) =
     foldl (upsertOne A) (posts_entities s) (map (\<lambda>p. \<lparr>entity = p, serverHostOf = h\<rparr>) ps)"
  by (induction ps arbitrary: s) (simp_all add: upsert_post_def)

lemma federated_list:
  "federatedEntities ps (FederatedAction sv) = map (\<lambda>p. \<lparr>entity = p, serverHostOf = federationKey sv\<rparr>) ps"
  by (simp add: federatedEntities_def federatedEntity_def serverHost_def)

lemma plain_keys_distinct:
  assumes "plain_posts h ps"
  shows "distinct (map post_key (map (\<lambda>p. \<lparr>entity = p, serverHostOf = h\<rparr>) ps))"
proof -
  have "map post_key (map (\<lambda>p. \<lparr>entity = p, serverHostOf = h\<rparr>) ps) = map (\<lambda>i. mk_federated_id i h) (map post_id ps)"
    by (simp add: federatedId_def)
  then show ?thesis
    using assms by (auto simp: plain_posts_def at_free_def distinct_map inj_on_def mk_federated_id_eq)
qed

lemma stands_for_listed:
  assumes "entity_adapter A post_key replace_all" "stands_for s K" "plain_posts (federationKey sv) ps"
  shows "stands_for (upsertListedPosts A sv ps s) (put_posts (federationKey sv) ps K)"
proof -
  have "entities (posts_entities (upsertListedPosts A sv ps s)) =
      entities (posts_entities (foldl (\<lambda>s p. upsert_post A \<lparr>entity = p, serverHostOf = federationKey sv\<rparr> s) s ps))"
    by (simp add: upsertListedPosts_def upsert_posts_def federated_list entities_foldl_upsert
        upsertMany_fold [OF assms(1) plain_keys_distinct [OF assms(3)]])
  moreover have "posts_wf (upsertListedPosts A sv ps s)"
    using assms(2) adapter_wf(2) [OF assms(1)]
    by (simp add: stands_for_def posts_wf_def upsertListedPosts_def upsert_posts_def)
  ultimately show ?thesis
    using stands_for_puts [OF assms] by (simp add: stands_for_def)
qed


section \<open>The actions\<close>

lemma stands_for_refresh:
  assumes "entity_adapter A post_key replace_all" "stands_for s K" "plain_posts (federationKey sv) [p]"
  shows "stands_for (loadPost_fulfilled A sv p s) (refresh_post (federationKey sv) p K)"
proof -
  let ?h = "federationKey sv"
  let ?old = "post_stored s (mk_federated_id (post_id p) ?h)"
  let ?p = "set_replies (nullish (map_option replies (K (?h, post_id p))) (replies p)) p"
  have plain: "at_free ?h" "at_free (post_id p)"
    using assms(3) by (simp_all add: plain_posts_def)
  have "K (?h, post_id p) = map_option entity ?old"
    using assms(2) plain content_of_get by (metis stands_for_def)
  then have "keep_replies ?old (federatedPayload sv p) = \<lparr>entity = ?p, serverHostOf = ?h\<rparr>"
    by (simp add: keep_replies_def federatedPayload_def federatedEntity_def serverHost_def option.map_comp o_def)
  then have "loadPost_fulfilled A sv p s = upsert_post A \<lparr>entity = ?p, serverHostOf = ?h\<rparr> s"
    using adapter_entities(4) [OF assms(1)]
    by (simp add: loadPost_fulfilled_def Let_def federatedPayload_def federatedEntity_def federatedId_def serverHost_def)
  then show ?thesis
    using stands_for_put [OF assms(1,2) plain(1), of ?p] plain by (simp add: refresh_post_def)
qed

lemma at_free_root: "at_free (defederateId i)"
  by (simp add: at_free_def)

lemma stands_for_edit:
  assumes "entity_adapter A post_key replace_all" "stands_for s K" "at_free (federationKey (pr_server r))"
    and "\<And>path p q. walk path p = Some q \<Longrightarrow> post_id q = post_id p"
  shows "case update_root A r walk s of
      Inl _ \<Rightarrow> edit_tree (federationKey (pr_server r)) (pr_postIdPath r) walk K = None
    | Inr s' \<Rightarrow> (\<exists>K'. edit_tree (federationKey (pr_server r)) (pr_postIdPath r) walk K = Some K' \<and> stands_for s' K')"
proof (cases "pr_postIdPath r")
  case Nil
  then show ?thesis by (simp add: update_root_def edit_tree_def)
next
  case (Cons root path)
  let ?h = "federationKey (pr_server r)"
  have key: "federateId root (FederatedAction (pr_server r)) = mk_federated_id (defederateId root) ?h"
    by (simp add: federateId_def serverHost_def)
  have K: "K (?h, defederateId root) = map_option entity (post_stored s (mk_federated_id (defederateId root) ?h))"
    using content_of_get [OF assms(3) at_free_root, of "post_stored s"] assms(2) by (simp add: stands_for_def)
  show ?thesis
  proof (cases "post_stored s (mk_federated_id (defederateId root) ?h)")
    case None
    then show ?thesis
      using assms(2) K adapter_entities(4) [OF assms(1)]
      by (simp add: update_root_def edit_tree_def Cons Let_def key)
  next
    case (Some b)
    have b: "at_free (post_id (entity b))"
      using assms(2) Some by (auto simp: stands_for_def plain_table_def)
    show ?thesis
    proof (cases "walk path (entity b)")
      case None
      then show ?thesis
        using assms(2) K Some adapter_entities(4) [OF assms(1)]
        by (simp add: update_root_def edit_tree_def Cons Let_def key)
    next
      case q: (Some q)
      have "stands_for (upsert_post A \<lparr>entity = q, serverHostOf = ?h\<rparr> s) (put_post ?h K q)"
        using b assms(4) [OF q] by (intro stands_for_put [OF assms(1-3)]) simp
      then show ?thesis
        using K Some q adapter_entities(4) [OF assms(1)]
        by (simp add: update_root_def edit_tree_def Cons Let_def key federatedEntity_def serverHost_def)
    qed
  qed
qed

lemma stands_for_page:
  assumes "entity_adapter A post_key replace_all" "stands_for s K" "plain_posts (federationKey (lpr_server r)) ps"
  shows "stands_for (loadPostsPage_fulfilled A r ps s) (put_posts (federationKey (lpr_server r)) ps K)"
proof -
  let ?h = "federationKey (lpr_server r)"
  have "posts_entities (loadPostsPage_fulfilled A r ps s) =
      posts_entities (foldl (\<lambda>s p. upsert_post A \<lparr>entity = p, serverHostOf = ?h\<rparr> s) s ps)"
    using fold_plain_upserts [OF assms(1), of "posts_entities s" "map (\<lambda>p. \<lparr>entity = p, serverHostOf = ?h\<rparr>) ps"] assms(2,3)
    by (simp add: loadPostsPage_fulfilled_def Let_def federated_list entities_foldl_upsert stands_for_def posts_wf_def
        plain_posts_def at_free_def)
  then show ?thesis
    using stands_for_puts [OF assms] stands_for_other by blast
qed

lemma stands_for_reset:
  assumes "entity_adapter A post_key replace_all" "stands_for s K"
  shows "stands_for (resetPosts A hst s)
    (case hst of None \<Rightarrow> K | Some h \<Rightarrow> if h = [] then K else (\<lambda>(h', j). if h' = h then None else K (h', j)))"
  using assms(2) resettable_slice.stored_reset [OF posts_resettable [OF assms(1)]]
    resettable_slice.wf_reset [OF posts_resettable [OF assms(1)]]
    resettable_slice.reset_nothing [OF posts_resettable [OF assms(1)]]
  by (cases hst) (auto simp: stands_for_def content_of_reset plain_table_delete)

lemma stands_for_pages:
  "stands_for (s\<lparr>postPages := pages\<rparr>) K = stands_for s K"
  "stands_for (s\<lparr>posts_pagesStatus := status\<rparr>) K = stands_for s K"
  "stands_for (s\<lparr>failedPostIds := failed\<rparr>) K = stands_for s K"
  by (simp_all add: stands_for_def posts_wf_def)

lemma stands_for_written:
  assumes "entity_adapter A post_key replace_all" "stands_for s K" "plain_posts (serverHostOf e) [entity e]"
  shows "stands_for (upsert_post A e s) (put_post (serverHostOf e) K (entity e))"
  using stands_for_put [OF assms(1,2), of "serverHostOf e" "entity e"] assms(3)
  by (cases e) (simp add: plain_posts_def)

lemma stands_for_deleted:
  assumes "entity_adapter A post_key replace_all" "stands_for s K"
  shows "stands_for (s\<lparr>posts_entities := removeOne A (posts_entities s) i\<rparr>)
    (\<lambda>(h, j). if mk_federated_id j h = i then None else K (h, j))"
  using assms(2) adapter_entities(2) [OF assms(1)] adapter_wf(3) [OF assms(1)]
  by (auto simp: stands_for_def posts_wf_def content_of_remove plain_table_delete)

lemma stands_for_unlisted:
  assumes "entity_adapter A post_key replace_all" "stands_for s K" "plain_posts (federationKey sv) [p]"
  shows "stands_for (deletePost_fulfilled A sv p s) (K((federationKey sv, post_id p) := None))"
  using assms(2,3) adapter_entities(2) [OF assms(1)] adapter_wf(3) [OF assms(1)]
  by (simp add: stands_for_def posts_wf_def deletePost_fulfilled_def federatedPayload_def federatedEntity_def
      federatedId_def serverHost_def plain_posts_def content_of_delete plain_table_delete del: fun_upd_apply)

lemma updatePost_loadPost: "updatePost_fulfilled A sv p s = loadPost_fulfilled A sv p s"
  by (simp add: updatePost_fulfilled_def loadPost_fulfilled_def)

text \<open>
  C2: the posts slice implements the catalogue of posts: every action whose identifiers
  and hosts contain no @ (and whose answer lists a post once) has on the slice the effect its meaning has on
  the catalogue the slice stands for, and the reducer throws exactly where the catalogue has no step (a path of
  replies with nothing in it).
\<close>

lemma posts_refine_catalogue:
  assumes "entity_adapter A post_key replace_all" "stands_for s K" "plain_action a"
  shows "case posts_reducer A a s of
      Inl e \<Rightarrow> catalogue_step a K = None
    | Inr s' \<Rightarrow> (\<exists>K'. catalogue_step a K = Some K' \<and> stands_for s' K')"
proof (cases a)
  case (ReplyToPost_fulfilled r p)
  then show ?thesis
    using stands_for_edit [OF assms(1,2), of r "\<lambda>path. insert_reply path (last (pr_postIdPath r)) p"] assms(3)
      insert_reply_id
    by (auto simp: replyToPost_fulfilled_def split: sum.split)
next
  case (LoadPostReplies_fulfilled r ps)
  then show ?thesis
    using stands_for_edit [OF assms(1,2), of r "\<lambda>path. replace_replies path ps", OF _ replace_replies_id] assms(3)
    by (auto simp: loadPostReplies_fulfilled_def split: sum.split)
next
  case (UpsertPost e)
  then show ?thesis
    using assms(2,3) stands_for_written [OF assms(1,2), of e] by (simp add: upsertPost_def)
next
  case (CreatePost_fulfilled sv p)
  then show ?thesis
    using assms stands_for_written [OF assms(1,2), of "federatedPayload sv p"]
    by (simp add: createPost_fulfilled_def federatedPayload_def federatedEntity_def serverHost_def Let_def
        stands_for_pages)
qed (use assms stands_for_deleted [OF assms(1,2)] stands_for_reset [OF assms(1,2)] in
    \<open>auto simp: removePost_def loadPostsPage_rejected_def loadPost_rejected_def updatePost_loadPost stands_for_pages
      stands_for_page stands_for_refresh stands_for_listed stands_for_unlisted saveEventPosts_def
      saveEventsPagePosts_def\<close>)

lemma sample_posts_stand: "stands_for sample_posts (content_of (post_stored sample_posts))"
  using sample_posts_wf
  by (auto simp: stands_for_def plain_table_def at_free_def sample_posts_def bare_post_def)

theorem posts_refine_catalogue_witness:
  "content_of (post_stored sample_posts) (''h'', ''a'') \<noteq> None \<and>
   stands_for (deletePost_fulfilled (ref_adapter post_key replace_all None) (Some sample_server)
       (bare_post ''a'' []) sample_posts)
     ((content_of (post_stored sample_posts))((''h'', ''a'') := None))"
proof -
  have h: "federationKey (Some sample_server) = ''h''"
    by (simp add: sample_server_def federationKey_def)
  have "plain_action (DeletePost_fulfilled (Some sample_server) (bare_post ''a'' []))"
    by (simp add: plain_posts_def at_free_def h bare_post_def)
  moreover have "content_of (post_stored sample_posts) (''h'', ''a'') \<noteq> None"
    by (simp add: content_of_def at_free_def sample_posts_def mk_federated_id_def)
  ultimately show ?thesis
    using posts_refine_catalogue [OF posts_ref.entity_adapter_axioms sample_posts_stand,
        of "DeletePost_fulfilled (Some sample_server) (bare_post ''a'' [])" None]
    by (simp add: h bare_post_def del: content_of_def fun_upd_apply)
qed

end
