(* ===== verification/Wire.thy ===== *)
theory Wire
  imports Complex_Main Rellm_Prelude "HOL-Library.Word"
begin

text \<open>
  What the generated protocol codecs (packages/api/generated) have in common: the writer and the reader of
  the wire library, the decoding loop every message shares, and the calculus that carries the round trip of
  every message.

  The library (@bufbuild/protobuf/wire) is a parameter, the record \<open>wire\<close>: what each \<open>writer.x(v)\<close> appends and
  what each \<open>reader.x()\<close> reads.  The locale \<open>wire_format\<close> says what the documentation of the format promises: a
  reader gets back what the writer put, a nested message is its length and its bytes, an unknown field can be
  skipped, and a read that succeeds moves forward within the buffer.
\<close>

section \<open>The wire library\<close>

type_synonym bytes = "8 word list"

text \<open>A \<open>BinaryReader\<close> is its buffer and its position; \<open>len\<close> is the length of the buffer.\<close>

record reader =
  rd_buf :: bytes
  rd_pos :: nat

definition rd_len :: "reader \<Rightarrow> nat" where
  "rd_len r = length (rd_buf r)"

definition new_reader :: "bytes \<Rightarrow> reader" where
  "new_reader b = \<lparr>rd_buf = b, rd_pos = 0\<rparr>"

text \<open>
  Numbers are integers, apart from the fields of type \<open>float\<close>, which are rationals; \<open>put_NaN\<close> is what
  \<open>writer.int64(NaN)\<close> makes.  \<open>put_delimited\<close> is \<open>join()\<close> of a forked writer: what it appends for the bytes
  written since \<open>fork()\<close>.  \<open>other_dates\<close> is no part of the library: it is what \<open>new Date(s).getTime()\<close> makes of the
  strings the language leaves to the implementation (theory Js_Date).
\<close>

record wire =
  put_uint32 :: "int \<Rightarrow> bytes result"
  put_int32 :: "int \<Rightarrow> bytes result"
  put_uint64 :: "int \<Rightarrow> bytes result"
  put_int64 :: "int \<Rightarrow> bytes result"
  put_NaN :: "bytes result"
  put_bool :: "bool \<Rightarrow> bytes result"
  put_string :: "string \<Rightarrow> bytes result"
  put_float :: "rat \<Rightarrow> bytes result"
  put_delimited :: "bytes \<Rightarrow> bytes result"
  get_uint32 :: "reader \<Rightarrow> (int \<times> reader) result"
  get_int32 :: "reader \<Rightarrow> (int \<times> reader) result"
  get_uint64 :: "reader \<Rightarrow> (int \<times> reader) result"
  get_int64 :: "reader \<Rightarrow> (int \<times> reader) result"
  get_bool :: "reader \<Rightarrow> (bool \<times> reader) result"
  get_string :: "reader \<Rightarrow> (string \<times> reader) result"
  get_float :: "reader \<Rightarrow> (rat \<times> reader) result"
  skip_field :: "int \<Rightarrow> reader \<Rightarrow> reader result"
  other_dates :: "string \<Rightarrow> int option"

text \<open>A reader that stands behind \<open>pre\<close> and before \<open>rest\<close>.\<close>

definition between :: "bytes \<Rightarrow> bytes \<Rightarrow> reader" where
  "between pre rest = \<lparr>rd_buf = pre @ rest, rd_pos = length pre\<rparr>"

definition reads :: "(reader \<Rightarrow> ('a \<times> reader) result) \<Rightarrow> 'a \<Rightarrow> bytes \<Rightarrow> bool" where
  "reads get v b \<longleftrightarrow> (\<forall>pre rest. get (between pre (b @ rest)) = Inr (v, between (pre @ b) rest))"

definition skips :: "(reader \<Rightarrow> reader result) \<Rightarrow> bytes \<Rightarrow> bool" where
  "skips skip b \<longleftrightarrow> (\<forall>pre rest. skip (between pre (b @ rest)) = Inr (between (pre @ b) rest))"

definition moves_to :: "reader \<Rightarrow> reader \<Rightarrow> bool" where
  "moves_to r r' \<longleftrightarrow> rd_buf r' = rd_buf r \<and> rd_pos r \<le> rd_pos r' \<and> rd_pos r' \<le> rd_len r"

definition forward :: "(reader \<Rightarrow> ('a \<times> reader) result) \<Rightarrow> bool" where
  "forward get \<longleftrightarrow> (\<forall>r v r'. get r = Inr (v, r') \<longrightarrow> moves_to r r' \<and> rd_pos r \<noteq> rd_pos r')"

locale wire_format =
  fixes W :: wire
  assumes uint32_back: "put_uint32 W n = Inr b \<Longrightarrow> reads (get_uint32 W) n b"
    and uint32_bytes: "put_uint32 W n = Inr b \<Longrightarrow> b \<noteq> []"
    and int32_back: "put_int32 W n = Inr b \<Longrightarrow> reads (get_int32 W) n b"
    and int32_bytes: "put_int32 W n = Inr b \<Longrightarrow> b \<noteq> []"
    and uint64_back: "put_uint64 W n = Inr b \<Longrightarrow> reads (get_uint64 W) n b"
    and int64_back: "put_int64 W n = Inr b \<Longrightarrow> reads (get_int64 W) n b"
    and NaN_throws: "put_NaN W \<noteq> Inr b"
    and bool_back: "put_bool W v = Inr b \<Longrightarrow> reads (get_bool W) v b"
    and string_back: "put_string W s = Inr b \<Longrightarrow> reads (get_string W) s b"
    and delimited: "put_delimited W b = Inr d \<Longrightarrow> \<exists>n. put_uint32 W (int (length b)) = Inr n \<and> d = n @ b"
    and varint_skipped: "put_uint32 W n = Inr b \<Longrightarrow> skips (skip_field W 0) b"
    and delimited_skipped: "put_delimited W b = Inr d \<Longrightarrow> skips (skip_field W 2) d"
    and uint32_forward: "forward (get_uint32 W)" and int32_forward: "forward (get_int32 W)"
    and uint64_forward: "forward (get_uint64 W)" and int64_forward: "forward (get_int64 W)"
    and bool_forward: "forward (get_bool W)" and string_forward: "forward (get_string W)"
    and float_forward: "forward (get_float W)"
    and skip_forward: "skip_field W t r = Inr r' \<Longrightarrow> moves_to r r'"

text \<open>A number that \<open>float\<close> keeps.\<close>

definition float_exact :: "wire \<Rightarrow> rat \<Rightarrow> bool" where
  "float_exact W x \<longleftrightarrow> (\<forall>b. put_float W x = Inr b \<longrightarrow> reads (get_float W) x b)"


section \<open>Writing\<close>

text \<open>The bytes a sequence of statements appends; the first one that throws ends it.\<close>

fun concat_results :: "bytes result list \<Rightarrow> bytes result" where
  "concat_results [] = Inr []"
| "concat_results (c # cs) = bind_result c (\<lambda>b. bind_result (concat_results cs) (\<lambda>bs. Inr (b @ bs)))"

definition write_all :: "bytes result list \<Rightarrow> bytes \<Rightarrow> bytes result" where
  "write_all cs w = bind_result (concat_results cs) (\<lambda>b. Inr (w @ b))"

text \<open>\<open>writer.uint32(tag).x(v)\<close>.\<close>

definition tagged :: "wire \<Rightarrow> int \<Rightarrow> bytes result \<Rightarrow> bytes result" where
  "tagged W tag p = bind_result (put_uint32 W tag) (\<lambda>t. bind_result p (\<lambda>b. Inr (t @ b)))"

text \<open>\<open>if (message.f !== default) { \<dots> }\<close> and \<open>if (message.f !== undefined) { \<dots> }\<close>.\<close>

definition write_when :: "bool \<Rightarrow> bytes result \<Rightarrow> bytes result" where
  "write_when c p = (if c then p else Inr [])"

definition write_given :: "'a option \<Rightarrow> ('a \<Rightarrow> bytes result) \<Rightarrow> bytes result" where
  "write_given x p = (case x of None \<Rightarrow> Inr [] | Some v \<Rightarrow> p v)"

text \<open>\<open>for (const v of message.f) { \<dots> }\<close>.\<close>

definition write_each :: "'a list \<Rightarrow> ('a \<Rightarrow> bytes result) \<Rightarrow> bytes result" where
  "write_each vs p = concat_results (map p vs)"

text \<open>\<open>X.encode(v, writer.uint32(tag).fork()).join()\<close>.\<close>

definition nested :: "wire \<Rightarrow> int \<Rightarrow> (bytes \<Rightarrow> bytes result) \<Rightarrow> bytes result" where
  "nested W tag enc = tagged W tag (bind_result (enc []) (put_delimited W))"

text \<open>\<open>writer.uint32(tag).fork(); for (const v of message.f) { writer.x(v); } writer.join();\<close>.\<close>

definition packed :: "wire \<Rightarrow> int \<Rightarrow> ('a \<Rightarrow> bytes result) \<Rightarrow> 'a list \<Rightarrow> bytes result" where
  "packed W tag put vs = tagged W tag (bind_result (concat_results (map put vs)) (put_delimited W))"


section \<open>Reading\<close>

text \<open>
  A run of the decoder: it may not return (\<open>None\<close>), throw, or give a value.  \<open>Continue\<close> and \<open>Break\<close> are how a
  \<open>case\<close> of the switch over the field number ends.
\<close>

type_synonym 'a run = "'a result option"

definition bind_run :: "'a run \<Rightarrow> ('a \<Rightarrow> 'b run) \<Rightarrow> 'b run" where
  "bind_run x f = Option.bind x (\<lambda>r. case r of Inl e \<Rightarrow> Some (Inl e) | Inr v \<Rightarrow> f v)"

lemma bind_run_simps [simp]:
  "bind_run None f = None" "bind_run (Some (Inl e)) f = Some (Inl e)" "bind_run (Some (Inr v)) f = f v"
  by (simp_all add: bind_run_def)

lemma bind_run_mono [partial_function_mono]:
  assumes "mono_option B" "\<And>y. mono_option (\<lambda>f. C y f)"
  shows "mono_option (\<lambda>f. bind_run (B f) (\<lambda>y. C y f))"
proof -
  have "mono_option (\<lambda>f. case y of Inl e \<Rightarrow> Some (Inl e) | Inr v \<Rightarrow> C v f)" for y
    using assms(2) option.const_mono by (cases y) auto
  then show ?thesis
    unfolding bind_run_def by (intro bind_mono assms(1))
qed

datatype 'm loop_step = Continue 'm reader | Break

text \<open>
  The loop of every \<open>decode\<close>: while the reader is before the end, read a tag and switch over its field number;
  an unhandled field ends the loop when it closes a group or is zero and is skipped otherwise.
\<close>

partial_function (option) decode_loop ::
  "wire \<Rightarrow> (int \<Rightarrow> reader \<Rightarrow> 'm \<Rightarrow> 'm loop_step run) \<Rightarrow> nat \<Rightarrow> reader \<Rightarrow> 'm \<Rightarrow> ('m \<times> reader) run"
where
  "decode_loop W sw e r m =
     (if rd_pos r < e then
        bind_run (Some (get_uint32 W r)) (\<lambda>x. case x of (tag, r1) \<Rightarrow>
          bind_run (sw tag r1 m) (\<lambda>st. case st of
              Continue m' r' \<Rightarrow> decode_loop W sw e r' m'
            | Break \<Rightarrow>
                if tag mod 8 = 4 \<or> tag = 0 then Some (Inr (m, r1))
                else bind_run (Some (skip_field W (tag mod 8) r1)) (\<lambda>r2. decode_loop W sw e r2 m)))
      else Some (Inr (m, r)))"

text \<open>\<open>length === undefined ? reader.len : reader.pos + length\<close>.\<close>

definition decode_end :: "reader \<Rightarrow> int option \<Rightarrow> nat" where
  "decode_end r len = (case len of None \<Rightarrow> rd_len r | Some n \<Rightarrow> nat (int (rd_pos r) + n))"

definition decode_message ::
  "wire \<Rightarrow> (int \<Rightarrow> reader \<Rightarrow> 'm \<Rightarrow> 'm loop_step run) \<Rightarrow> 'm \<Rightarrow> reader \<Rightarrow> int option \<Rightarrow> ('m \<times> reader) run" where
  "decode_message W sw base r len = decode_loop W sw (decode_end r len) r base"

text \<open>\<open>switch (tag >>> 3) { case n: { if (tag !== t) { break; } \<dots> continue; } \<dots> }\<close>.\<close>

fun switch_alternatives :: "int \<Rightarrow> (int \<times> 'm loop_step run) list \<Rightarrow> 'm loop_step run" where
  "switch_alternatives tag [] = Some (Inr Break)"
| "switch_alternatives tag ((t, action) # rest) =
     (if tag = t then action else switch_alternatives tag rest)"

fun switch_field :: "int \<Rightarrow> (int \<times> (int \<times> 'm loop_step run) list) list \<Rightarrow> 'm loop_step run" where
  "switch_field tag [] = Some (Inr Break)"
| "switch_field tag ((n, alternatives) # rest) =
     (if tag div 8 = n then switch_alternatives tag alternatives else switch_field tag rest)"

lemma switch_field_unknown:
  "tag div 8 \<notin> fst ` set cases \<Longrightarrow> switch_field tag cases = Some (Inr Break)"
  by (induction tag cases rule: switch_field.induct) auto

text \<open>\<open>message.f = reader.x(); continue;\<close>.\<close>

definition read_field :: "(reader \<Rightarrow> ('a \<times> reader) result) \<Rightarrow> ('a \<Rightarrow> 'm) \<Rightarrow> reader \<Rightarrow> 'm loop_step run" where
  "read_field get u r = bind_run (Some (get r)) (\<lambda>(v, r'). Some (Inr (Continue (u v) r')))"

text \<open>\<open>message.f = X.decode(reader, reader.uint32()); continue;\<close>.\<close>

definition read_message ::
  "wire \<Rightarrow> (reader \<Rightarrow> int option \<Rightarrow> ('a \<times> reader) run) \<Rightarrow> ('a \<Rightarrow> 'm) \<Rightarrow> reader \<Rightarrow> 'm loop_step run" where
  "read_message W dec u r =
     bind_run (Some (get_uint32 W r)) (\<lambda>(n, r1).
       bind_run (dec r1 (Some n)) (\<lambda>(v, r2). Some (Inr (Continue (u v) r2))))"

text \<open>\<open>const end2 = reader.uint32() + reader.pos; while (reader.pos < end2) { message.f.push(reader.x()); }\<close>.\<close>

partial_function (option) packed_loop ::
  "(reader \<Rightarrow> ('a \<times> reader) result) \<Rightarrow> nat \<Rightarrow> reader \<Rightarrow> 'a list \<Rightarrow> ('a list \<times> reader) run"
where
  "packed_loop get e r vs =
     (if rd_pos r < e
      then bind_run (Some (get r)) (\<lambda>x. case x of (v, r') \<Rightarrow> packed_loop get e r' (vs @ [v]))
      else Some (Inr (vs, r)))"

definition read_packed ::
  "wire \<Rightarrow> (reader \<Rightarrow> ('a \<times> reader) result) \<Rightarrow> 'a list \<Rightarrow> ('a list \<Rightarrow> 'm) \<Rightarrow> reader \<Rightarrow> 'm loop_step run" where
  "read_packed W get vs u r =
     bind_run (Some (get_uint32 W r)) (\<lambda>(n, r1).
       bind_run (packed_loop get (nat (n + int (rd_pos r1))) r1 vs) (\<lambda>(vs', r2). Some (Inr (Continue (u vs') r2))))"

text \<open>\<open>longToNumber(reader.uint64())\<close>.\<close>

definition max_safe_integer :: int where
  "max_safe_integer = 9007199254740991"

definition longToNumber :: "int \<Rightarrow> int result" where
  "longToNumber num =
     (if num > max_safe_integer then Inl (Thrown ''Value is larger than Number.MAX_SAFE_INTEGER'')
      else if num < - max_safe_integer then Inl (Thrown ''Value is smaller than Number.MIN_SAFE_INTEGER'')
      else Inr num)"

definition get_long :: "(reader \<Rightarrow> (int \<times> reader) result) \<Rightarrow> reader \<Rightarrow> (int \<times> reader) result" where
  "get_long get r = bind_result (get r) (\<lambda>(v, r'). bind_result (longToNumber v) (\<lambda>n. Inr (n, r')))"

definition safe_long :: "int \<Rightarrow> bool" where
  "safe_long n \<longleftrightarrow> - max_safe_integer \<le> n \<and> n \<le> max_safe_integer"

lemma longToNumber_safe: "longToNumber n = (if safe_long n then Inr n else longToNumber n)"
  by (auto simp: longToNumber_def safe_long_def)


section \<open>A chunk and what it makes of the message\<close>

text \<open>
  \<open>chunk W sw b u\<close>: wherever the bytes \<open>b\<close> stand before the end, the decoding loop reads them and goes on with the
  message changed by \<open>u\<close>.
\<close>

definition chunk ::
  "wire \<Rightarrow> (int \<Rightarrow> reader \<Rightarrow> 'm \<Rightarrow> 'm loop_step run) \<Rightarrow> bytes \<Rightarrow> ('m \<Rightarrow> 'm) \<Rightarrow> bool" where
  "chunk W sw b u \<longleftrightarrow>
     (\<forall>pre rest e m. length pre + length b \<le> e \<longrightarrow>
        decode_loop W sw e (between pre (b @ rest)) m = decode_loop W sw e (between (pre @ b) rest) (u m))"

text \<open>\<open>decodes dec v b\<close>: on the bytes \<open>b\<close>, wherever they stand, the decoder gives \<open>v\<close> and stops behind them.\<close>

definition decodes :: "(reader \<Rightarrow> int option \<Rightarrow> ('a \<times> reader) run) \<Rightarrow> 'a \<Rightarrow> bytes \<Rightarrow> bool" where
  "decodes dec v b \<longleftrightarrow>
     (\<forall>pre rest. dec (between pre (b @ rest)) (Some (int (length b))) = Some (Inr (v, between (pre @ b) rest)))"

lemma rd_pos_between [simp]: "rd_pos (between pre rest) = length pre"
  by (simp add: between_def)

lemma between_append: "between pre (b @ c @ rest) = between pre ((b @ c) @ rest)"
  by simp

lemma chunk_Nil: "chunk W sw [] (\<lambda>m. m)"
  by (simp add: chunk_def)

lemma chunk_append:
  assumes "chunk W sw b u" "chunk W sw c v"
  shows "chunk W sw (b @ c) (\<lambda>m. v (u m))"
proof -
  have "decode_loop W sw e (between pre (b @ c @ rest)) m = decode_loop W sw e (between (pre @ b @ c) rest) (v (u m))"
    if "length pre + length (b @ c) \<le> e" for pre rest e m
  proof -
    have "decode_loop W sw e (between pre (b @ (c @ rest))) m =
        decode_loop W sw e (between (pre @ b) (c @ rest)) (u m)"
      using assms(1) that by (auto simp: chunk_def)
    also have "\<dots> = decode_loop W sw e (between ((pre @ b) @ c) rest) (v (u m))"
      using assms(2) that unfolding chunk_def by (metis add.assoc length_append)
    finally show ?thesis by simp
  qed
  then show ?thesis by (auto simp: chunk_def)
qed

context wire_format
begin

text \<open>What one case of the switch does with a tag followed by \<open>b\<close>.\<close>

lemma chunk_tagged:
  assumes "put_uint32 W tag = Inr t"
    and "\<And>pre rest m. sw tag (between pre (b @ rest)) m = Some (Inr (Continue (u m) (between (pre @ b) rest)))"
  shows "chunk W sw (t @ b) u"
proof -
  have "decode_loop W sw e (between pre (t @ b @ rest)) m = decode_loop W sw e (between (pre @ t @ b) rest) (u m)"
    if "length pre + length (t @ b) \<le> e" for pre rest e m
  proof -
    have "length pre < e"
      using that uint32_bytes [OF assms(1)] by (cases t) auto
    moreover have "get_uint32 W (between pre (t @ b @ rest)) = Inr (tag, between (pre @ t) (b @ rest))"
      using uint32_back [OF assms(1)] by (auto simp: reads_def)
    moreover have "sw tag (between (pre @ t) (b @ rest)) m = Some (Inr (Continue (u m) (between (pre @ t @ b) rest)))"
      using assms(2) [of "pre @ t"] by simp
    ultimately show ?thesis
      by (subst decode_loop.simps) simp
  qed
  then show ?thesis by (auto simp: chunk_def)
qed

lemma read_field_between:
  "reads get v b \<Longrightarrow>
     read_field get u (between pre (b @ rest)) = Some (Inr (Continue (u v) (between (pre @ b) rest)))"
  by (simp add: read_field_def reads_def)

text \<open>A nested message: its length, then its bytes.\<close>

lemma read_message_between:
  assumes "decodes dec v b" "put_delimited W b = Inr d"
  shows "read_message W dec u (between pre (d @ rest)) = Some (Inr (Continue (u v) (between (pre @ d) rest)))"
proof -
  obtain n where n: "put_uint32 W (int (length b)) = Inr n" "d = n @ b"
    using delimited [OF assms(2)] by blast
  have "get_uint32 W (between pre (n @ b @ rest)) = Inr (int (length b), between (pre @ n) (b @ rest))"
    using uint32_back [OF n(1)] by (auto simp: reads_def)
  then show ?thesis
    using assms(1) n(2) by (simp add: read_message_def decodes_def)
qed

lemma packed_loop_between:
  assumes "\<And>v c. v \<in> set vs \<Longrightarrow> put v = Inr c \<Longrightarrow> reads get v c \<and> c \<noteq> []"
    and "concat_results (map put vs) = Inr b"
  shows "packed_loop get (length pre + length b) (between pre (b @ rest)) acc =
    Some (Inr (acc @ vs, between (pre @ b) rest))"
  using assms
proof (induction vs arbitrary: pre b acc)
  case Nil
  then show ?case by (subst packed_loop.simps) simp
next
  case (Cons v vs)
  obtain c d where cd: "put v = Inr c" "concat_results (map put vs) = Inr d" "b = c @ d"
    using Cons.prems(2) by (auto simp: bind_result_eq_Inr)
  have c: "get (between pre (c @ d @ rest)) = Inr (v, between (pre @ c) (d @ rest))" "c \<noteq> []"
    using Cons.prems(1) [OF _ cd(1)] by (auto simp: reads_def)
  have "packed_loop get (length (pre @ c) + length d) (between (pre @ c) (d @ rest)) (acc @ [v]) =
      Some (Inr ((acc @ [v]) @ vs, between ((pre @ c) @ d) rest))"
    using Cons.prems(1) by (intro Cons.IH cd(2)) auto
  then show ?case
    using c cd(3) by (subst packed_loop.simps) (simp add: add.assoc)
qed

lemma read_packed_between:
  assumes "\<And>v c. v \<in> set vs \<Longrightarrow> put v = Inr c \<Longrightarrow> reads get v c \<and> c \<noteq> []"
    and "concat_results (map put vs) = Inr b" "put_delimited W b = Inr d"
  shows "read_packed W get acc u (between pre (d @ rest)) =
    Some (Inr (Continue (u (acc @ vs)) (between (pre @ d) rest)))"
proof -
  obtain n where n: "put_uint32 W (int (length b)) = Inr n" "d = n @ b"
    using delimited [OF assms(3)] by blast
  have "get_uint32 W (between pre (n @ b @ rest)) = Inr (int (length b), between (pre @ n) (b @ rest))"
    using uint32_back [OF n(1)] by (auto simp: reads_def)
  then show ?thesis
    using packed_loop_between [where put = put and get = get and vs = vs and pre = "pre @ n" and rest = rest
        and b = b and acc = acc, OF assms(1,2)] n(2)
    by (simp add: read_packed_def nat_add_distrib add.commute)
qed

end


section \<open>The fields of a message\<close>

text \<open>
  \<open>carries W sw c u\<close>: if the statement \<open>c\<close> writes, the decoder makes \<open>u\<close> of what it wrote.  The changes a field can
  make of the message under construction: an assignment, a given optional value, elements pushed.
\<close>

definition carries ::
  "wire \<Rightarrow> (int \<Rightarrow> reader \<Rightarrow> 'm \<Rightarrow> 'm loop_step run) \<Rightarrow> bytes result \<Rightarrow> ('m \<Rightarrow> 'm) \<Rightarrow> bool" where
  "carries W sw c u \<longleftrightarrow> (\<forall>b. c = Inr b \<longrightarrow> chunk W sw b u)"

type_synonym ('m, 'a) updater = "('a \<Rightarrow> 'a) \<Rightarrow> 'm \<Rightarrow> 'm"

definition plain :: "('m, 'a) updater \<Rightarrow> 'a \<Rightarrow> 'a \<Rightarrow> 'm \<Rightarrow> 'm" where
  "plain upd v d = upd (\<lambda>old. if v \<noteq> d then v else old)"

definition given_value :: "'a option \<Rightarrow> 'a option \<Rightarrow> 'a option" where
  "given_value x old = (case x of None \<Rightarrow> old | Some v \<Rightarrow> Some v)"

definition given :: "('m, 'a option) updater \<Rightarrow> 'a option \<Rightarrow> 'm \<Rightarrow> 'm" where
  "given upd x = upd (given_value x)"

definition pushed :: "('m, 'a list) updater \<Rightarrow> 'a list \<Rightarrow> 'm \<Rightarrow> 'm" where
  "pushed upd vs = upd (\<lambda>old. old @ vs)"

lemma settled_fields [simp]:
  "(if v \<noteq> d then v else d) = v" "given_value x None = x" "given_value None old = old" "given_value (Some v) old = Some v"
  "given_value None = (\<lambda>old. old)" "given_value (Some v) = (\<lambda>old. Some v)"
  by (auto simp: given_value_def fun_eq_iff split: option.split)

text \<open>The updater of a record field.\<close>

definition updater :: "('m, 'a) updater \<Rightarrow> bool" where
  "updater upd \<longleftrightarrow> (\<forall>m. upd (\<lambda>x. x) m = m) \<and> (\<forall>f g m. upd f (upd g m) = upd (\<lambda>x. f (g x)) m)"

lemma list_all2_carries:
  assumes "list_all2 (carries W sw) cs us" "concat_results cs = Inr b"
  shows "chunk W sw b (\<lambda>m. foldl (\<lambda>m u. u m) m us)"
  using assms
proof (induction cs us arbitrary: b rule: list_all2_induct)
  case (Cons c cs u us)
  then show ?case by (auto simp: bind_result_eq_Inr carries_def intro: chunk_append)
qed (simp add: chunk_Nil)

text \<open>The bytes \<open>b\<close> make the message \<open>m\<close> of the empty message, whatever stands around them.\<close>

definition builds ::
  "wire \<Rightarrow> (int \<Rightarrow> reader \<Rightarrow> 'm \<Rightarrow> 'm loop_step run) \<Rightarrow> 'm \<Rightarrow> 'm \<Rightarrow> bytes \<Rightarrow> bool" where
  "builds W sw base m b \<longleftrightarrow> (\<exists>u. chunk W sw b u \<and> u base = m)"

lemma message_builds:
  assumes "write_all cs [] = Inr out" "list_all2 (carries W sw) cs us" "foldl (\<lambda>m u. u m) base us = m"
  shows "builds W sw base m out"
  using assms(1,3) list_all2_carries [OF assms(2)] by (auto simp: builds_def write_all_def bind_result_eq_Inr)

text \<open>The round trip of a message from its fields.\<close>

lemma builds_decodes:
  assumes "builds W sw base m out"
  shows "decodes (decode_message W sw base) m out"
proof -
  have "decode_loop W sw (length pre + length out) (between (pre @ out) rest) m =
      Some (Inr (m, between (pre @ out) rest))" for pre rest
    by (subst decode_loop.simps) simp
  then show ?thesis
    using assms by (auto simp: builds_def decodes_def decode_message_def decode_end_def chunk_def nat_add_distrib)
qed

lemmas message_decodes = builds_decodes [OF message_builds]

text \<open>The whole buffer.\<close>

lemma decodes_all:
  assumes "decodes (decode_message W sw base) m b"
  shows "decode_message W sw base (new_reader b) None = Some (Inr (m, between b []))"
proof -
  have "decode_message W sw base (between [] (b @ [])) (Some (int (length b))) = Some (Inr (m, between ([] @ b) []))"
    using assms unfolding decodes_def by blast
  then show ?thesis
    by (simp add: decode_message_def decode_end_def new_reader_def between_def rd_len_def)
qed

context wire_format
begin

lemma carries_Inr_Nil: "(\<And>m. u m = m) \<Longrightarrow> carries W sw (Inr []) u"
  using chunk_Nil [of W sw] by (simp add: carries_def chunk_def)

lemma carries_tagged:
  assumes "\<And>b pre rest m. put = Inr b \<Longrightarrow>
      sw tag (between pre (b @ rest)) m = Some (Inr (Continue (u m) (between (pre @ b) rest)))"
  shows "carries W sw (tagged W tag put) u"
  unfolding carries_def
proof (intro allI impI)
  fix c assume "tagged W tag put = Inr c"
  then obtain t b where "put_uint32 W tag = Inr t" "put = Inr b" "c = t @ b"
    by (auto simp: tagged_def bind_result_eq_Inr)
  then show "chunk W sw c u"
    using chunk_tagged [of tag t sw b u] assms by simp
qed

lemma carries_field:
  assumes "\<And>b. put = Inr b \<Longrightarrow> reads get v b" "\<And>r m. sw tag r m = read_field get (\<lambda>v. upd (\<lambda>_. v) m) r"
  shows "carries W sw (tagged W tag put) (upd (\<lambda>_. v))"
  unfolding assms(2)
  by (rule carries_tagged) (simp add: assms(2) read_field_between [OF assms(1)])

lemma carries_message:
  assumes "\<And>b. enc [] = Inr b \<Longrightarrow> decodes dec v b" "\<And>r m. sw tag r m = read_message W dec (\<lambda>v. u v m) r"
  shows "carries W sw (nested W tag enc) (u v)"
  unfolding nested_def
  by (rule carries_tagged)
    (auto simp: assms(2) bind_result_eq_Inr read_message_between [OF assms(1)])

lemma carries_plain:
  assumes "\<And>b. put = Inr b \<Longrightarrow> reads get v b" "\<And>r m. sw tag r m = read_field get (\<lambda>v. upd (\<lambda>_. v) m) r"
    and "updater upd"
  shows "carries W sw (write_when (v \<noteq> d) (tagged W tag put)) (plain upd v d)"
  using carries_field [where put = put and get = get and upd = upd and v = v and sw = sw and tag = tag] assms
  by (auto simp: write_when_def plain_def updater_def intro: carries_Inr_Nil)

lemma carries_given:
  assumes "\<And>v b. x = Some v \<Longrightarrow> put v = Inr b \<Longrightarrow> reads get v b"
    and "\<And>r m. sw tag r m = read_field get (\<lambda>v. upd (\<lambda>_. Some v) m) r" "updater upd"
  shows "carries W sw (write_given x (\<lambda>v. tagged W tag (put v))) (given upd x)"
proof (cases x)
  case None
  then show ?thesis
    using assms(3) by (auto simp: write_given_def given_def updater_def intro: carries_Inr_Nil)
next
  case (Some v)
  have "carries W sw (tagged W tag (put v)) (\<lambda>m. upd (\<lambda>_. Some v) m)"
    by (rule carries_tagged) (simp add: assms(2) read_field_between [OF assms(1) [OF Some]])
  then show ?thesis
    by (simp add: Some write_given_def given_def fun_eq_iff given_value_def)
qed

lemma carries_given_message:
  assumes "\<And>v b. x = Some v \<Longrightarrow> enc v [] = Inr b \<Longrightarrow> decodes dec v b"
    and "\<And>r m. sw tag r m = read_message W dec (\<lambda>v. upd (\<lambda>_. Some v) m) r" "updater upd"
  shows "carries W sw (write_given x (\<lambda>v. nested W tag (enc v))) (given upd x)"
proof (cases x)
  case None
  then show ?thesis
    using assms(3) by (auto simp: write_given_def given_def updater_def intro: carries_Inr_Nil)
next
  case (Some v)
  have "carries W sw (nested W tag (enc v)) ((\<lambda>v m. upd (\<lambda>_. Some v) m) v)"
    by (rule carries_message) (auto simp: assms(2) intro: assms(1) [OF Some])
  then show ?thesis
    by (simp add: Some write_given_def given_def fun_eq_iff given_value_def)
qed

text \<open>A loop of writes pushes one element after the other.\<close>

lemma carries_each:
  assumes "updater upd" "\<And>v. v \<in> set vs \<Longrightarrow> carries W sw (p v) (upd (\<lambda>old. old @ [v]))"
  shows "carries W sw (write_each vs p) (pushed upd vs)"
  using assms(2)
proof (induction vs)
  case Nil
  then show ?case
    using assms(1) by (auto simp: write_each_def pushed_def updater_def intro: carries_Inr_Nil)
next
  case (Cons v vs)
  have "carries W sw (p v) (upd (\<lambda>old. old @ [v]))" "carries W sw (write_each vs p) (pushed upd vs)"
    using Cons by auto
  moreover have "(\<lambda>m. pushed upd vs (upd (\<lambda>old. old @ [v]) m)) = pushed upd (v # vs)"
    using assms(1) by (simp add: pushed_def updater_def fun_eq_iff)
  ultimately show ?case
    using chunk_append [where u = "upd (\<lambda>old. old @ [v])" and v = "pushed upd vs"]
    by (auto simp: carries_def write_each_def bind_result_eq_Inr)
qed

lemma carries_each_message:
  assumes "\<And>v b. v \<in> set vs \<Longrightarrow> enc v [] = Inr b \<Longrightarrow> decodes dec v b"
    and "\<And>r m. sw tag r m = read_message W dec (\<lambda>v. upd (\<lambda>old. old @ [v]) m) r" "updater upd"
  shows "carries W sw (write_each vs (\<lambda>v. nested W tag (enc v))) (pushed upd vs)"
proof (rule carries_each [OF assms(3)])
  fix v assume v: "v \<in> set vs"
  show "carries W sw (nested W tag (enc v)) (upd (\<lambda>old. old @ [v]))"
    by (rule carries_message [where u = "\<lambda>v. upd (\<lambda>old. old @ [v])"]) (auto simp: assms(2) intro: assms(1) [OF v])
qed

lemma carries_each_field:
  assumes "\<And>v b. v \<in> set vs \<Longrightarrow> put v = Inr b \<Longrightarrow> reads get v b"
    and "\<And>r m. sw tag r m = read_field get (\<lambda>v. upd (\<lambda>old. old @ [v]) m) r" "updater upd"
  shows "carries W sw (write_each vs (\<lambda>v. tagged W tag (put v))) (pushed upd vs)"
proof (rule carries_each [OF assms(3)])
  fix v assume v: "v \<in> set vs"
  show "carries W sw (tagged W tag (put v)) (upd (\<lambda>old. old @ [v]))"
    by (rule carries_tagged) (simp add: assms(2) read_field_between [OF assms(1) [OF v]])
qed

lemma carries_packed:
  assumes "\<And>v b. v \<in> set vs \<Longrightarrow> put v = Inr b \<Longrightarrow> reads get v b \<and> b \<noteq> []"
    and "\<And>r m. sw tag r m = read_packed W get (sel m) (\<lambda>vs. upd (\<lambda>_. vs) m) r"
    and "\<And>m. upd (\<lambda>_. sel m @ vs) m = upd (\<lambda>old. old @ vs) m"
  shows "carries W sw (packed W tag put vs) (pushed upd vs)"
  unfolding packed_def
proof (rule carries_tagged)
  fix b pre rest m
  assume "bind_result (concat_results (map put vs)) (put_delimited W) = Inr b"
  then obtain c where c: "concat_results (map put vs) = Inr c" "put_delimited W c = Inr b"
    by (auto simp: bind_result_eq_Inr)
  show "sw tag (between pre (b @ rest)) m = Some (Inr (Continue (pushed upd vs m) (between (pre @ b) rest)))"
    unfolding assms(2) pushed_def using assms(3)
    by (subst read_packed_between [where put = put and vs = vs, OF assms(1) c]) auto
qed

text \<open>A field no case of the switch handles is skipped.\<close>

lemma chunk_unknown:
  assumes "put_uint32 W tag = Inr t" "skips (skip_field W (tag mod 8)) p" "\<And>r m. sw tag r m = Some (Inr Break)"
    and "tag mod 8 \<noteq> 4" "tag \<noteq> 0"
  shows "chunk W sw (t @ p) (\<lambda>m. m)"
proof -
  have "decode_loop W sw e (between pre (t @ p @ rest)) m = decode_loop W sw e (between (pre @ t @ p) rest) m"
    if "length pre + length (t @ p) \<le> e" for pre rest e m
  proof -
    have "length pre < e"
      using that uint32_bytes [OF assms(1)] by (cases t) auto
    moreover have "get_uint32 W (between pre (t @ p @ rest)) = Inr (tag, between (pre @ t) (p @ rest))"
      using uint32_back [OF assms(1)] by (auto simp: reads_def)
    moreover have "skip_field W (tag mod 8) (between (pre @ t) (p @ rest)) = Inr (between (pre @ t @ p) rest)"
      using assms(2) by (simp add: skips_def)
    ultimately show ?thesis
      using assms(3-5) by (subst decode_loop.simps) simp
  qed
  then show ?thesis by (simp add: chunk_def)
qed

text \<open>A number that fits survives \<open>longToNumber\<close>.\<close>

lemma long_back: "reads get n b \<Longrightarrow> safe_long n \<Longrightarrow> reads (get_long get) n b"
  by (auto simp: reads_def get_long_def longToNumber_def safe_long_def)

lemma safe_long_back:
  "safe_long n \<Longrightarrow> put_uint64 W n = Inr b \<Longrightarrow> reads (get_long (get_uint64 W)) n b"
  "safe_long n \<Longrightarrow> put_int64 W n = Inr b \<Longrightarrow> reads (get_long (get_int64 W)) n b"
  using uint64_back int64_back long_back by auto

lemma float_back: "float_exact W x \<Longrightarrow> put_float W x = Inr b \<Longrightarrow> reads (get_float W) x b"
  by (simp add: float_exact_def)

text \<open>The rules per type of field; a premise about the value is left where the type asks for one.\<close>

lemmas carries_plain_field =
  carries_plain [OF string_back] carries_plain [OF bool_back] carries_plain [OF int32_back]
  carries_plain [OF uint32_back] carries_plain [OF safe_long_back(1)] carries_plain [OF safe_long_back(2)]

lemmas carries_given_field =
  carries_given [where put = "put_string W", OF string_back] carries_given [where put = "put_bool W", OF bool_back]
  carries_given [where put = "put_int32 W", OF int32_back] carries_given [where put = "put_uint32 W", OF uint32_back]
  carries_given [where put = "put_uint64 W", OF safe_long_back(1)]
  carries_given [where put = "put_float W", OF float_back]

lemmas carries_list_field =
  carries_each_field [where put = "put_string W", OF string_back]
  carries_packed [where put = "put_int32 W", OF conjI [OF int32_back int32_bytes]]
  carries_packed [where put = "put_uint32 W", OF conjI [OF uint32_back uint32_bytes]]

end

lemmas wire_fields =
  list.rel_intros wire_format.carries_plain_field wire_format.carries_given_field wire_format.carries_list_field
  wire_format.carries_given_message wire_format.carries_each_message

lemmas field_changes = plain_def given_def pushed_def

named_theorems message_codecs
  "the round trip of each message, for the messages that contain it"


section \<open>Messages that contain themselves\<close>

text \<open>
  A message that can occur inside itself has a decoder defined by its equation, so what the equation uses must be
  monotone in the decoder of the inner messages.
\<close>

lemma bind_run_more:
  assumes "bind_run x f = Some y" "\<And>z. x = Some z \<Longrightarrow> x' = Some z" "\<And>v y. f v = Some y \<Longrightarrow> f' v = Some y"
  shows "bind_run x' f' = Some y"
proof (cases x)
  case (Some z)
  then show ?thesis using assms(1,3) assms(2) [OF Some] by (cases z) auto
qed (use assms(1) in simp)

lemma decode_loop_more:
  assumes "decode_loop W sw e r m = Some y" "\<forall>tag r m x. sw tag r m = Some x \<longrightarrow> sw' tag r m = Some x"
  shows "decode_loop W sw' e r m = Some y"
proof (rule decode_loop.raw_induct [where P = "\<lambda>W sw e r m y.
      (\<forall>tag r m x. sw tag r m = Some x \<longrightarrow> sw' tag r m = Some x) \<longrightarrow> decode_loop W sw' e r m = Some y",
      OF _ assms(1), THEN mp, OF _ assms(2)], intro impI)
  fix loop :: "wire \<Rightarrow> (int \<Rightarrow> reader \<Rightarrow> 'a \<Rightarrow> 'a loop_step run) \<Rightarrow> nat \<Rightarrow> reader \<Rightarrow> 'a \<Rightarrow> ('a \<times> reader) run"
    and W sw e r m y
  assume IH: "\<And>W sw e r m y. loop W sw e r m = Some y \<Longrightarrow>
      (\<forall>tag r m x. sw tag r m = Some x \<longrightarrow> sw' tag r m = Some x) \<longrightarrow> decode_loop W sw' e r m = Some y"
    and more: "\<forall>tag r m x. sw tag r m = Some x \<longrightarrow> sw' tag r m = Some x"
    and body: "(if rd_pos r < e then
        bind_run (Some (get_uint32 W r)) (\<lambda>x. case x of (tag, r1) \<Rightarrow>
          bind_run (sw tag r1 m) (\<lambda>st. case st of
              Continue m' r' \<Rightarrow> loop W sw e r' m'
            | Break \<Rightarrow>
                if tag mod 8 = 4 \<or> tag = 0 then Some (Inr (m, r1))
                else bind_run (Some (skip_field W (tag mod 8) r1)) (\<lambda>r2. loop W sw e r2 m)))
      else Some (Inr (m, r))) = Some y"
  show "decode_loop W sw' e r m = Some y"
  proof (cases "rd_pos r < e")
    case True
    show ?thesis
      unfolding decode_loop.simps [of W sw' e r m] if_P [OF True]
    proof (rule bind_run_more [OF body [unfolded if_P [OF True]]])
      fix x y
      assume "(case x of (tag, r1) \<Rightarrow>
          bind_run (sw tag r1 m) (\<lambda>st. case st of
              Continue m' r' \<Rightarrow> loop W sw e r' m'
            | Break \<Rightarrow>
                if tag mod 8 = 4 \<or> tag = 0 then Some (Inr (m, r1))
                else bind_run (Some (skip_field W (tag mod 8) r1)) (\<lambda>r2. loop W sw e r2 m))) = Some y"
      then show "(case x of (tag, r1) \<Rightarrow>
          bind_run (sw' tag r1 m) (\<lambda>st. case st of
              Continue m' r' \<Rightarrow> decode_loop W sw' e r' m'
            | Break \<Rightarrow>
                if tag mod 8 = 4 \<or> tag = 0 then Some (Inr (m, r1))
                else bind_run (Some (skip_field W (tag mod 8) r1)) (\<lambda>r2. decode_loop W sw' e r2 m))) = Some y"
        using IH more
        by (auto elim!: bind_run_more split: prod.splits loop_step.splits if_splits)
    qed
  next
    case False
    then show ?thesis using body by (simp add: decode_loop.simps)
  qed
qed

lemma decode_loop_mono [partial_function_mono]:
  assumes "\<And>tag r m. mono_option (\<lambda>f. S f tag r m)"
  shows "mono_option (\<lambda>f. decode_loop W (S f) e r m)"
proof (rule monotoneI)
  fix f g :: "'b \<Rightarrow> 'c option" assume "fun_ord option_ord f g"
  then have "option_ord (S f tag r m) (S g tag r m)" for tag r m
    using assms by (rule monotoneD [rotated])
  then have "\<forall>tag r m x. S f tag r m = Some x \<longrightarrow> S g tag r m = Some x"
    by (metis flat_ord_def option.distinct(1))
  then show "option_ord (decode_loop W (S f) e r m) (decode_loop W (S g) e r m)"
    using decode_loop_more [of W "S f" e r m _ "S g"]
    by (cases "decode_loop W (S f) e r m") (auto simp: flat_ord_def)
qed

lemma decode_message_mono [partial_function_mono]:
  assumes "\<And>tag r m. mono_option (\<lambda>f. S f tag r m)"
  shows "mono_option (\<lambda>f. decode_message W (S f) base r len)"
  unfolding decode_message_def by (intro decode_loop_mono assms)

lemma read_message_mono [partial_function_mono]:
  assumes "\<And>r len. mono_option (\<lambda>f. D f r len)"
  shows "mono_option (\<lambda>f. read_message W (D f) u r)"
  unfolding read_message_def split_def by (intro bind_run_mono assms option.const_mono)

text \<open>Congruence rules for the recursion of the writers.\<close>

lemma write_given_cong [fundef_cong]:
  "x = y \<Longrightarrow> (\<And>v. y = Some v \<Longrightarrow> p v = q v) \<Longrightarrow> write_given x p = write_given y q"
  by (cases y) (simp_all add: write_given_def)

lemma write_each_cong [fundef_cong]:
  "vs = ws \<Longrightarrow> (\<And>v. v \<in> set ws \<Longrightarrow> p v = q v) \<Longrightarrow> write_each vs p = write_each ws q"
  by (simp add: write_each_def cong: map_cong)

lemma pred_option_cong' [fundef_cong]:
  "x = y \<Longrightarrow> (\<And>v. y = Some v \<Longrightarrow> P v = Q v) \<Longrightarrow> pred_option P x = pred_option Q y"
  by (cases y) simp_all

lemma list_all_cong' [fundef_cong]:
  "vs = ws \<Longrightarrow> (\<And>v. v \<in> set ws \<Longrightarrow> P v = Q v) \<Longrightarrow> list_all P vs = list_all Q ws"
  by (simp add: list_all_iff)

lemma nested_cong [fundef_cong]:
  "enc = enc' \<Longrightarrow> nested W tag enc = nested W tag enc'"
  by simp


section \<open>Decoding returns\<close>

text \<open>
  \<open>settles k dec\<close>: on a reader with fewer than \<open>k\<close> bytes to go the decoder returns or throws, and what it leaves is a
  later position of the same buffer; \<open>ends k action\<close>: the same of one case of a switch.
\<close>

definition close :: "nat \<Rightarrow> reader \<Rightarrow> bool" where
  "close k r \<longleftrightarrow> rd_pos r \<le> rd_len r \<and> rd_len r - rd_pos r < k"

definition settles :: "nat \<Rightarrow> (reader \<Rightarrow> int option \<Rightarrow> ('a \<times> reader) run) \<Rightarrow> bool" where
  "settles k dec \<longleftrightarrow>
     (\<forall>r len. close k r \<longrightarrow> (\<exists>x. dec r len = Some x \<and> (\<forall>v r'. x = Inr (v, r') \<longrightarrow> moves_to r r')))"

definition ends :: "nat \<Rightarrow> (reader \<Rightarrow> 'm loop_step run) \<Rightarrow> bool" where
  "ends k action \<longleftrightarrow>
     (\<forall>r. close k r \<longrightarrow> (\<exists>x. action r = Some x \<and> (\<forall>m r'. x = Inr (Continue m r') \<longrightarrow> moves_to r r')))"

lemma moves_to_trans: "moves_to r r' \<Longrightarrow> moves_to r' r'' \<Longrightarrow> moves_to r r''"
  by (auto simp: moves_to_def rd_len_def)

lemma close_moves: "close k r \<Longrightarrow> moves_to r r' \<Longrightarrow> close k r'"
  by (auto simp: close_def moves_to_def rd_len_def)

lemma close_Suc_moves: "close (Suc k) r \<Longrightarrow> moves_to r r' \<Longrightarrow> rd_pos r \<noteq> rd_pos r' \<Longrightarrow> close k r'"
  by (auto simp: close_def moves_to_def rd_len_def)

lemma ends_break: "ends k (\<lambda>r. Some (Inr Break))"
  by (simp add: ends_def)

lemma ends_if: "ends k A \<Longrightarrow> ends k B \<Longrightarrow> ends k (\<lambda>r. if c then A r else B r)"
  by (simp add: ends_def)

lemma ends_field:
  assumes "forward get"
  shows "ends k (read_field get u)"
  unfolding ends_def
proof (intro allI impI)
  fix r assume "close k r"
  show "\<exists>x. read_field get u r = Some x \<and> (\<forall>m r'. x = Inr (Continue m r') \<longrightarrow> moves_to r r')"
    using assms by (cases "get r") (auto simp: read_field_def forward_def)
qed

context wire_format
begin

lemma ends_message:
  assumes "settles k dec"
  shows "ends k (read_message W dec u)"
  unfolding ends_def
proof (intro allI impI)
  fix r assume r: "close k r"
  show "\<exists>x. read_message W dec u r = Some x \<and> (\<forall>m r'. x = Inr (Continue m r') \<longrightarrow> moves_to r r')"
  proof (cases "get_uint32 W r")
    case (Inr p)
    obtain n r1 where p: "p = (n, r1)" by fastforce
    then have m: "moves_to r r1"
      using uint32_forward Inr by (auto simp: forward_def)
    then obtain x where x: "dec r1 (Some n) = Some x" "\<forall>v r'. x = Inr (v, r') \<longrightarrow> moves_to r1 r'"
      using assms close_moves [OF r m] unfolding settles_def by blast
    show ?thesis
      using Inr p x moves_to_trans [OF m] by (cases x) (auto simp: read_message_def)
  qed (simp add: read_message_def)
qed

lemma packed_loop_returns:
  assumes "forward get" "rd_pos r \<le> rd_len r"
  shows "\<exists>x. packed_loop get e r vs = Some x \<and> (\<forall>v r'. x = Inr (v, r') \<longrightarrow> moves_to r r')"
  using assms(2)
proof (induction "rd_len r - rd_pos r" arbitrary: r vs rule: less_induct)
  case less
  show ?case
  proof (cases "rd_pos r < e")
    case True
    show ?thesis
    proof (cases "get r")
      case (Inl x)
      then show ?thesis using True by (simp add: packed_loop.simps [of get e r])
    next
      case (Inr p)
      obtain v r1 where p: "p = (v, r1)" by fastforce
      then have m: "moves_to r r1" "rd_pos r \<noteq> rd_pos r1"
        using assms(1) Inr by (auto simp: forward_def)
      then have "\<exists>x. packed_loop get e r1 (vs @ [v]) = Some x \<and> (\<forall>v r'. x = Inr (v, r') \<longrightarrow> moves_to r1 r')"
        using less.prems by (intro less.hyps) (auto simp: moves_to_def rd_len_def)
      then show ?thesis
        using True Inr p moves_to_trans [OF m(1)] by (auto simp: packed_loop.simps [of get e r])
    qed
  next
    case False
    then show ?thesis
      using less.prems by (simp add: packed_loop.simps [of get e r] moves_to_def)
  qed
qed

lemma ends_packed:
  assumes "forward get"
  shows "ends k (read_packed W get vs u)"
  unfolding ends_def
proof (intro allI impI)
  fix r assume r: "close k r"
  show "\<exists>x. read_packed W get vs u r = Some x \<and> (\<forall>m r'. x = Inr (Continue m r') \<longrightarrow> moves_to r r')"
  proof (cases "get_uint32 W r")
    case (Inr p)
    obtain n r1 where p: "p = (n, r1)" by fastforce
    then have m: "moves_to r r1"
      using uint32_forward Inr by (auto simp: forward_def)
    then obtain x where x: "packed_loop get (nat (n + int (rd_pos r1))) r1 vs = Some x"
      "\<forall>v r'. x = Inr (v, r') \<longrightarrow> moves_to r1 r'"
      using packed_loop_returns [OF assms] by (meson moves_to_def order_trans rd_len_def close_moves close_def r)
    show ?thesis
      using Inr p x moves_to_trans [OF m] by (cases x) (auto simp: read_packed_def)
  qed (simp add: read_packed_def)
qed

lemma decode_loop_returns:
  assumes "\<And>tag m. ends k (\<lambda>r. sw tag r m)" "close (Suc k) r"
  shows "\<exists>x. decode_loop W sw e r m = Some x \<and> (\<forall>v r'. x = Inr (v, r') \<longrightarrow> moves_to r r')"
  using assms(2)
proof (induction "rd_len r - rd_pos r" arbitrary: r m rule: less_induct)
  case less
  show ?case
  proof (cases "rd_pos r < e")
    case True
    show ?thesis
    proof (cases "get_uint32 W r")
      case (Inl x)
      then show ?thesis using True by (simp add: decode_loop.simps [of W sw e r])
    next
      case (Inr p)
      obtain tag r1 where p: "p = (tag, r1)" by fastforce
      then have m: "moves_to r r1" "rd_pos r \<noteq> rd_pos r1"
        using uint32_forward Inr by (auto simp: forward_def)
      then have r1: "close k r1" using close_Suc_moves less.prems by blast
      obtain y where y: "sw tag r1 m = Some y" "\<forall>m' r'. y = Inr (Continue m' r') \<longrightarrow> moves_to r1 r'"
        using assms(1) [of tag m] r1 unfolding ends_def by blast
      have again: "\<exists>x. decode_loop W sw e r2 m' = Some x \<and> (\<forall>v r'. x = Inr (v, r') \<longrightarrow> moves_to r r')"
        if "moves_to r1 r2" for r2 m'
      proof -
        have "\<exists>x. decode_loop W sw e r2 m' = Some x \<and> (\<forall>v r'. x = Inr (v, r') \<longrightarrow> moves_to r2 r')"
          using m that less.prems by (intro less.hyps) (auto simp: moves_to_def rd_len_def close_def)
        then show ?thesis using moves_to_trans [OF m(1)] moves_to_trans [OF that] by blast
      qed
      show ?thesis
      proof (cases y)
        case (Inl x)
        then show ?thesis using True Inr p y(1) by (simp add: decode_loop.simps [of W sw e r])
      next
        case y': (Inr st)
        show ?thesis
        proof (cases st)
          case (Continue m' r')
          then show ?thesis
            using True Inr p y y' again [of r' m'] by (simp add: decode_loop.simps [of W sw e r])
        next
          case Break
          then show ?thesis
            using True Inr p y(1) y' m(1) again [OF skip_forward, of "tag mod 8"]
            by (cases "skip_field W (tag mod 8) r1") (auto simp: decode_loop.simps [of W sw e r])
        qed
      qed
    qed
  next
    case False
    then show ?thesis
      using less.prems by (simp add: decode_loop.simps [of W sw e r] moves_to_def close_def)
  qed
qed

lemma settles_Suc_message:
  "(\<And>tag m. ends k (\<lambda>r. sw tag r m)) \<Longrightarrow> settles (Suc k) (decode_message W sw base)"
  unfolding settles_def decode_message_def by (intro allI impI) (rule decode_loop_returns)

lemma settles_message:
  assumes "\<And>tag m. ends k (\<lambda>r. sw tag r m)"
  shows "settles k (decode_message W sw base)"
  using settles_Suc_message [OF assms] by (auto simp: settles_def close_def)

lemma forward_long: "forward get \<Longrightarrow> forward (get_long get)"
  by (auto simp: forward_def get_long_def bind_result_eq_Inr)

lemmas forward_reads =
  uint32_forward int32_forward bool_forward string_forward float_forward
  forward_long [OF uint64_forward] forward_long [OF int64_forward]

end

lemmas wire_ends =
  ends_break ends_if ends_field wire_format.ends_packed wire_format.ends_message wire_format.forward_reads

text \<open>On a whole buffer.\<close>

lemma settles_all:
  assumes "\<And>k. settles k dec"
  shows "\<exists>x. dec (new_reader b) None = Some x"
proof -
  have "close (Suc (length b)) (new_reader b)"
    by (simp add: close_def new_reader_def rd_len_def)
  then show ?thesis
    using assms [of "Suc (length b)"] unfolding settles_def by blast
qed

named_theorems message_returns
  "decoding each message returns, for the messages that contain it"

end
