(* ===== verification/Wire_Reference.thy ===== *)
theory Wire_Reference
  imports Wire
begin

text \<open>
  The wire format as its documentation describes it, as an instance of what the codecs rely on: base-128 numbers with
  the low group first, negative numbers as their residue modulo 2^64, strings and nested messages behind their
  length.  It shows that the laws of \<open>wire_format\<close> can hold, and the concrete examples of the codec theories run on
  it.  Two simplifications: a string is one byte per character, and a \<open>float\<close> is kept only when it is a whole number
  of at most 24 bits.
\<close>

section \<open>Numbers in base 128\<close>

fun varint :: "nat \<Rightarrow> bytes" where
  "varint n = (if n < 128 then [of_nat n] else of_nat (128 + n mod 128) # varint (n div 128))"

declare varint.simps [simp del]

type_synonym 'a parser = "bytes \<Rightarrow> ('a \<times> bytes) option"

fun parse_varint :: "nat parser" where
  "parse_varint [] = None"
| "parse_varint (b # bs) =
     (if unat b < 128 then Some (unat b, bs)
      else (case parse_varint bs of None \<Rightarrow> None | Some (n, rest) \<Rightarrow> Some (unat b - 128 + 128 * n, rest)))"

definition parse_bytes :: "nat \<Rightarrow> bytes parser" where
  "parse_bytes n bs = (if n \<le> length bs then Some (take n bs, drop n bs) else None)"

definition parse_delimited :: "bytes parser" where
  "parse_delimited bs =
     (case parse_varint bs of None \<Rightarrow> None | Some (n, rest) \<Rightarrow> parse_bytes n rest)"

text \<open>A parser that succeeds has eaten something.\<close>

definition eats :: "'a parser \<Rightarrow> bool" where
  "eats p \<longleftrightarrow> (\<forall>bs v rest. p bs = Some (v, rest) \<longrightarrow> length rest < length bs)"

lemma eats_varint: "eats parse_varint"
proof -
  have "parse_varint bs = Some (v, rest) \<Longrightarrow> length rest < length bs" for bs v rest
    by (induction bs arbitrary: v rest) (fastforce split: if_splits option.splits)+
  then show ?thesis by (auto simp: eats_def)
qed

lemma eats_delimited: "eats parse_delimited"
  using eats_varint by (fastforce simp: eats_def parse_delimited_def parse_bytes_def split: option.splits if_splits)

lemma parse_varint_back: "parse_varint (varint n @ rest) = Some (n, rest)"
proof (induction n rule: varint.induct)
  case (1 n)
  have byte: "unat (of_nat k :: 8 word) = k" if "k < 256" for k
    using that by (simp add: unat_of_nat take_bit_nat_eq_self_iff)
  show ?case
  proof (cases "n < 128")
    case True
    then show ?thesis by (simp add: varint.simps [of n] byte)
  next
    case False
    have "n mod 128 + 128 < 256" by simp
    then show ?thesis
      using False 1 byte [of "128 + n mod 128"] by (simp add: varint.simps [of n])
  qed
qed

lemma varint_not_Nil: "varint n \<noteq> []"
  by (subst varint.simps) simp


section \<open>The instance\<close>

definition reading :: "'a parser \<Rightarrow> reader \<Rightarrow> ('a \<times> reader) result" where
  "reading p r =
     (case p (drop (rd_pos r) (rd_buf r)) of
        None \<Rightarrow> Inl (Thrown ''RangeError: premature EOF'')
      | Some (v, rest) \<Rightarrow> Inr (v, r\<lparr>rd_pos := length (rd_buf r) - length rest\<rparr>))"

definition reading_map :: "('a \<Rightarrow> 'b) \<Rightarrow> 'a parser \<Rightarrow> reader \<Rightarrow> ('b \<times> reader) result" where
  "reading_map f p r = bind_result (reading p r) (\<lambda>(v, r'). Inr (f v, r'))"

definition put_number :: "int \<Rightarrow> int \<Rightarrow> int \<Rightarrow> bytes result" where
  "put_number low high n =
     (if low \<le> n \<and> n < high then Inr (varint (nat (n mod 2 ^ 64))) else Inl (Thrown ''RangeError''))"

definition from_residue :: "int \<Rightarrow> int \<Rightarrow> int" where
  "from_residue m n = (let w = n mod m in if 2 * w < m then w else w - m)"

definition put_bytes :: "bytes \<Rightarrow> bytes result" where
  "put_bytes b =
     (if length b < 2 ^ 32 then Inr (varint (length b) @ b) else Inl (Thrown ''RangeError''))"

definition whole_24 :: "rat \<Rightarrow> bool" where
  "whole_24 x \<longleftrightarrow> (let n = \<lfloor>x\<rfloor> in of_int n = x \<and> \<bar>n\<bar> < 2 ^ 24)"

definition ref_wire :: wire where
  "ref_wire =
     \<lparr>put_uint32 = put_number 0 (2 ^ 32), put_int32 = put_number (- (2 ^ 31)) (2 ^ 31),
      put_uint64 = put_number 0 (2 ^ 64), put_int64 = put_number (- (2 ^ 63)) (2 ^ 63),
      put_NaN = Inl (Thrown ''RangeError''),
      put_bool = (\<lambda>v. Inr (varint (if v then 1 else 0))),
      put_string = (\<lambda>s. put_bytes (map (\<lambda>c. of_nat (of_char c)) s)),
      put_float = (\<lambda>x. if whole_24 x then put_number (- (2 ^ 31)) (2 ^ 31) \<lfloor>x\<rfloor> else Inl (Thrown ''RangeError'')),
      put_delimited = put_bytes,
      get_uint32 = reading_map (\<lambda>n. int n mod 2 ^ 32) parse_varint,
      get_int32 = reading_map (\<lambda>n. from_residue (2 ^ 32) (int n)) parse_varint,
      get_uint64 = reading_map (\<lambda>n. int n mod 2 ^ 64) parse_varint,
      get_int64 = reading_map (\<lambda>n. from_residue (2 ^ 64) (int n)) parse_varint,
      get_bool = reading_map (\<lambda>n. n \<noteq> 0) parse_varint,
      get_string = reading_map (map (\<lambda>b. char_of (unat b))) parse_delimited,
      get_float = reading_map (\<lambda>n. of_int (from_residue (2 ^ 32) (int n))) parse_varint,
      skip_field = (\<lambda>t r.
        if t = 0 then bind_result (reading parse_varint r) (\<lambda>(v, r'). Inr r')
        else if t = 1 then bind_result (reading (parse_bytes 8) r) (\<lambda>(v, r'). Inr r')
        else if t = 2 then bind_result (reading parse_delimited r) (\<lambda>(v, r'). Inr r')
        else if t = 5 then bind_result (reading (parse_bytes 4) r) (\<lambda>(v, r'). Inr r')
        else Inl (Thrown ''invalid wire type'')),
      other_dates = (\<lambda>s. None)\<rparr>"

lemma reading_between:
  assumes "p (b @ rest) = Some (v, rest)"
  shows "reading p (between pre (b @ rest)) = Inr (v, between (pre @ b) rest)"
  using assms by (simp add: reading_def between_def)

lemma reads_map:
  assumes "\<And>rest. p (b @ rest) = Some (v, rest)" "f v = w"
  shows "reads (reading_map f p) w b"
  using assms by (simp add: reads_def reading_map_def reading_between)

lemma reading_moves:
  assumes "eats p" "reading p r = Inr (v, r')"
  shows "moves_to r r' \<and> rd_pos r \<noteq> rd_pos r'"
proof -
  obtain rest where p: "p (drop (rd_pos r) (rd_buf r)) = Some (v, rest)"
    "r' = r\<lparr>rd_pos := length (rd_buf r) - length rest\<rparr>"
    using assms(2) by (auto simp: reading_def split: option.splits)
  then have "length rest < length (rd_buf r) - rd_pos r"
    using assms(1) by (fastforce simp: eats_def)
  then show ?thesis
    using p(2) by (auto simp: moves_to_def rd_len_def)
qed

lemma forward_map: "eats p \<Longrightarrow> forward (reading_map f p)"
  using reading_moves by (fastforce simp: forward_def reading_map_def bind_result_eq_Inr)

lemma from_residue_back:
  assumes "0 < m" "- m \<le> 2 * n" "2 * n < m"
  shows "from_residue m n = n"
proof (cases "0 \<le> n")
  case True
  then have "n mod m = n" using assms by (simp add: mod_pos_pos_trivial)
  then show ?thesis using assms by (simp add: from_residue_def)
next
  case False
  then have "(n + m) mod m = n + m" using assms by (intro mod_pos_pos_trivial) simp_all
  then have "n mod m = n + m" by simp
  then show ?thesis using assms by (simp add: from_residue_def)
qed

lemma from_residue_mod: "m dvd k \<Longrightarrow> from_residue m (n mod k) = from_residue m n"
  by (simp add: from_residue_def mod_mod_cancel)

lemma eats_bytes: "0 < n \<Longrightarrow> eats (parse_bytes n)"
  by (auto simp: eats_def parse_bytes_def split: if_splits)

lemma varint_reads: "f n = w \<Longrightarrow> reads (reading_map f parse_varint) w (varint n)"
  by (rule reads_map) (simp_all add: parse_varint_back)

lemma put_number_reads:
  assumes "put_number low high n = Inr b" "low \<le> n \<Longrightarrow> n < high \<Longrightarrow> f (nat (n mod 2 ^ 64)) = w"
  shows "reads (reading_map f parse_varint) w b \<and> b \<noteq> []"
  using assms by (auto simp: put_number_def varint_not_Nil intro: varint_reads split: if_splits)

lemma from_residue_low:
  "- 2147483648 \<le> n \<Longrightarrow> n < 2147483648 \<Longrightarrow> from_residue 4294967296 (n mod 18446744073709551616) = n"
  "- 9223372036854775808 \<le> n \<Longrightarrow> n < 9223372036854775808 \<Longrightarrow>
    from_residue 18446744073709551616 (n mod 18446744073709551616) = n"
  by (simp_all add: from_residue_mod from_residue_back)

lemma parse_delimited_back: "parse_delimited (varint (length b) @ b @ rest) = Some (b, rest)"
  by (simp add: parse_delimited_def parse_varint_back parse_bytes_def)

lemma delimited_reads: "f b = w \<Longrightarrow> reads (reading_map f parse_delimited) w (varint (length b) @ b)"
  by (rule reads_map) (simp_all add: parse_delimited_back)

lemma char_bytes: "map (\<lambda>b. char_of (unat (b :: 8 word))) (map (\<lambda>c. of_nat (of_char c)) s) = s"
proof (induction s)
  case (Cons c s)
  have "(of_char c :: nat) < 256" using nat_of_char_less_256 [of c] by simp
  then have "unat (of_nat (of_char c) :: 8 word) = of_char c"
    by (simp add: unat_of_nat take_bit_nat_eq_self_iff)
  then show ?case using Cons by simp
qed simp

lemma put_bytes_delimited:
  assumes "put_bytes b = Inr d"
  shows "d = varint (length b) @ b \<and> length b < 2 ^ 32"
  using assms by (simp add: put_bytes_def split: if_splits)

lemma skips_bytes:
  assumes "put_bytes b = Inr d"
  shows "skips (\<lambda>r. bind_result (reading parse_delimited r) (\<lambda>(v, r'). Inr r')) d"
  using put_bytes_delimited [OF assms] reading_between [of parse_delimited d _ b] parse_delimited_back [of b]
  by (auto simp: skips_def)

lemma skips_varint: "skips (\<lambda>r. bind_result (reading parse_varint r) (\<lambda>(v, r'). Inr r')) (varint n)"
  using reading_between [of parse_varint "varint n" _ n] by (auto simp: skips_def parse_varint_back)

interpretation reference: wire_format ref_wire
proof
  fix n b
  show "put_uint32 ref_wire n = Inr b \<Longrightarrow> reads (get_uint32 ref_wire) n b"
    "put_uint32 ref_wire n = Inr b \<Longrightarrow> b \<noteq> []"
    by (auto simp: ref_wire_def dest!: put_number_reads [where f = "\<lambda>n. int n mod 2 ^ 32" and w = n])
  show "put_int32 ref_wire n = Inr b \<Longrightarrow> reads (get_int32 ref_wire) n b"
    "put_int32 ref_wire n = Inr b \<Longrightarrow> b \<noteq> []"
    by (auto simp: ref_wire_def from_residue_low dest!: put_number_reads [where f = "\<lambda>n. from_residue (2 ^ 32) (int n)" and w = n])
  show "put_uint64 ref_wire n = Inr b \<Longrightarrow> reads (get_uint64 ref_wire) n b"
    by (auto simp: ref_wire_def dest!: put_number_reads [where f = "\<lambda>n. int n mod 2 ^ 64" and w = n])
  show "put_int64 ref_wire n = Inr b \<Longrightarrow> reads (get_int64 ref_wire) n b"
    by (auto simp: ref_wire_def from_residue_low dest!: put_number_reads [where f = "\<lambda>n. from_residue (2 ^ 64) (int n)" and w = n])
  show "put_uint32 ref_wire n = Inr b \<Longrightarrow> skips (skip_field ref_wire 0) b"
    by (auto simp: ref_wire_def put_number_def intro: skips_varint split: if_splits)
next
  fix v b
  show "put_bool ref_wire v = Inr b \<Longrightarrow> reads (get_bool ref_wire) v b"
    by (cases v) (auto simp: ref_wire_def intro!: varint_reads)
next
  fix s b
  show "put_string ref_wire s = Inr b \<Longrightarrow> reads (get_string ref_wire) s b"
    using char_bytes [of s]
    by (auto simp: ref_wire_def dest!: put_bytes_delimited intro!: delimited_reads)
next
  fix b d
  show "put_delimited ref_wire b = Inr d \<Longrightarrow> \<exists>n. put_uint32 ref_wire (int (length b)) = Inr n \<and> d = n @ b"
    by (auto simp: ref_wire_def put_number_def dest!: put_bytes_delimited)
  show "put_delimited ref_wire b = Inr d \<Longrightarrow> skips (skip_field ref_wire 2) d"
    by (simp add: ref_wire_def skips_bytes)
next
  fix t r r'
  show "skip_field ref_wire t r = Inr r' \<Longrightarrow> moves_to r r'"
    using reading_moves [OF eats_varint] reading_moves [OF eats_delimited] reading_moves [OF eats_bytes [of 8]]
      reading_moves [OF eats_bytes [of 4]]
    by (auto simp: ref_wire_def bind_result_eq_Inr split: if_splits)
qed (simp_all add: ref_wire_def forward_map eats_varint eats_delimited)

end
