(* ===== verification/Js_Date.thy ===== *)
theory Js_Date
  imports Wire "HOL-Library.Log_Nat"
begin

text \<open>
  The dates of the protocol: an ISO string in the client, seconds and nanoseconds on the wire.  This theory models
  what \<open>toTimestamp\<close> and \<open>fromTimestamp\<close> of the generated modules use of JavaScript: the arithmetic of numbers that
  are not integers (rounding to 53 bits), the calendar of \<open>Date.prototype.toISOString\<close>, and \<open>new Date(s)\<close> for the
  strings it prints.  What \<open>new Date(s)\<close> makes of any other string is left to the implementation by the language, so
  it is a parameter.
\<close>

section \<open>Numbers\<close>

text \<open>Rounding to the nearest number with 53 significant bits, ties to even.\<close>

definition round_even :: "rat \<Rightarrow> int" where
  "round_even x =
     (let f = \<lfloor>x\<rfloor>; d = x - of_int f
      in if d < 1 / 2 then f else if d > 1 / 2 then f + 1 else if even f then f else f + 1)"

definition double_exponent :: "rat \<Rightarrow> int" where
  "double_exponent y =
     (if y \<ge> 1 then int (floorlog 2 (nat \<lfloor>y\<rfloor>)) - 53 else - int (floorlog 2 (nat (\<lceil>1 / y\<rceil> - 1))) - 52)"

definition double :: "rat \<Rightarrow> rat" where
  "double x =
     (if x = 0 then 0
      else (let e = double_exponent \<bar>x\<bar> in of_int (round_even (x / 2 powi e)) * 2 powi e))"

definition trunc :: "rat \<Rightarrow> int" where
  "trunc x = (if x < 0 then \<lceil>x\<rceil> else \<lfloor>x\<rfloor>)"

text \<open>\<open>Math.trunc(a / b)\<close> and \<open>a % b\<close> of integers: the remainder has the sign of the dividend.\<close>

definition trunc_div :: "int \<Rightarrow> int \<Rightarrow> int" where
  "trunc_div a b = (if a < 0 then - ((- a) div b) else a div b)"

definition js_rem :: "int \<Rightarrow> int \<Rightarrow> int" where
  "js_rem a b = (if a < 0 then - ((- a) mod b) else a mod b)"


section \<open>The calendar\<close>

definition day_from_year :: "int \<Rightarrow> int" where
  "day_from_year y = 365 * (y - 1970) + (y - 1969) div 4 - (y - 1901) div 100 + (y - 1601) div 400"

definition leap_year :: "int \<Rightarrow> bool" where
  "leap_year y \<longleftrightarrow> (y mod 4 = 0 \<and> y mod 100 \<noteq> 0) \<or> y mod 400 = 0"

definition year_of_day :: "int \<Rightarrow> int" where
  "year_of_day d =
     (let y = 1970 + (d * 400) div 146097
      in if d < day_from_year y then y - 1 else if day_from_year (y + 1) \<le> d then y + 1 else y)"

text \<open>The days of a year before each month, and the months as (first day, length).\<close>

definition month_table :: "bool \<Rightarrow> (int \<times> int) list" where
  "month_table leap =
     (let l = (if leap then 1 else 0)
      in [(0, 31), (31, 28 + l), (59 + l, 31), (90 + l, 30), (120 + l, 31), (151 + l, 30), (181 + l, 31),
          (212 + l, 31), (243 + l, 30), (273 + l, 31), (304 + l, 30), (334 + l, 31)])"

fun month_of :: "nat \<Rightarrow> (int \<times> int) list \<Rightarrow> int \<Rightarrow> nat \<times> int" where
  "month_of k [] d = (k, d)"
| "month_of k ((start, len) # rest) d = (if d < start + len then (k, d - start) else month_of (Suc k) rest d)"

definition ms_per_day :: int where
  "ms_per_day = 86400000"

definition max_time :: int where
  "max_time = 8640000000000000"


section \<open>ISO strings\<close>

definition digit :: "int \<Rightarrow> char" where
  "digit n = char_of (48 + nat (n mod 10))"

definition digits2 :: "int \<Rightarrow> string" where
  "digits2 n = [digit (n div 10), digit n]"

definition digits3 :: "int \<Rightarrow> string" where
  "digits3 n = [digit (n div 100), digit (n div 10), digit n]"

definition digits4 :: "int \<Rightarrow> string" where
  "digits4 n = [digit (n div 1000), digit (n div 100), digit (n div 10), digit n]"

definition digits6 :: "int \<Rightarrow> string" where
  "digits6 n = [digit (n div 100000), digit (n div 10000), digit (n div 1000), digit (n div 100), digit (n div 10), digit n]"

definition year_string :: "int \<Rightarrow> string" where
  "year_string y =
     (if 0 \<le> y \<and> y \<le> 9999 then digits4 y else if y < 0 then CHR ''-'' # digits6 (- y) else CHR ''+'' # digits6 y)"

text \<open>\<open>new Date(t).toISOString()\<close> for a time value.\<close>

definition toISOString :: "int \<Rightarrow> string" where
  "toISOString t =
     (let day = t div ms_per_day; ms = t mod ms_per_day;
          y = year_of_day day;
          (month, date) = month_of 0 (month_table (leap_year y)) (day - day_from_year y)
      in year_string y @ ''-'' @ digits2 (int month + 1) @ ''-'' @ digits2 (date + 1) @ ''T'' @
         digits2 (ms div 3600000) @ '':'' @ digits2 (ms div 60000 mod 60) @ '':'' @ digits2 (ms div 1000 mod 60) @
         ''.'' @ digits3 (ms mod 1000) @ ''Z'')"

definition digits_number :: "string \<Rightarrow> int option" where
  "digits_number s =
     (if list_all (\<lambda>c. 48 \<le> (of_char c :: nat) \<and> (of_char c :: nat) \<le> 57) s
      then Some (foldl (\<lambda>n c. 10 * n + (int (of_char c) - 48)) 0 s) else None)"

definition date_fields :: "int \<Rightarrow> string \<Rightarrow> int option" where
  "date_fields y s =
     (case s of
        [c0, m1, m2, c1, d1, d2, c2, h1, h2, c3, i1, i2, c4, s1, s2, c5, l1, l2, l3, c6] \<Rightarrow>
          if [c0, c1, c2, c3, c4, c5, c6] \<noteq> ''--T::.Z'' then None
          else
            (case (digits_number [m1, m2], digits_number [d1, d2], digits_number [h1, h2], digits_number [i1, i2],
                   digits_number [s1, s2], digits_number [l1, l2, l3]) of
               (Some m, Some d, Some h, Some i, Some s, Some l) \<Rightarrow>
                 if 1 \<le> m \<and> m \<le> 12 \<and> 1 \<le> d \<and> d \<le> snd (month_table (leap_year y) ! nat (m - 1)) \<and> h < 24 \<and> i < 60 \<and> s < 60
                 then Some ((day_from_year y + fst (month_table (leap_year y) ! nat (m - 1)) + d - 1) * ms_per_day
                   + h * 3600000 + i * 60000 + s * 1000 + l)
                 else None
             | _ \<Rightarrow> None)
      | _ \<Rightarrow> None)"

text \<open>The strings \<open>toISOString\<close> prints.\<close>

definition parse_iso :: "string \<Rightarrow> int option" where
  "parse_iso s =
     (if take 1 s = ''-''
      then (case digits_number (take 6 (drop 1 s)) of
              Some y \<Rightarrow> if y = 0 then None else date_fields (- y) (drop 7 s) | None \<Rightarrow> None)
      else if take 1 s = ''+''
      then (case digits_number (take 6 (drop 1 s)) of Some y \<Rightarrow> date_fields y (drop 7 s) | None \<Rightarrow> None)
      else (case digits_number (take 4 s) of Some y \<Rightarrow> date_fields y (drop 4 s) | None \<Rightarrow> None))"

text \<open>
  \<open>new Date(s).getTime()\<close>, \<open>NaN\<close> being \<open>None\<close>: what the strings of \<open>toISOString\<close> mean, and what the implementation
  \<open>other\<close> makes of the rest.
\<close>

definition date_value :: "(string \<Rightarrow> int option) \<Rightarrow> string \<Rightarrow> int option" where
  "date_value other s =
     (case parse_iso s of
        Some t \<Rightarrow> if \<bar>t\<bar> \<le> max_time then Some t else None
      | None \<Rightarrow> other s)"


section \<open>Printing and reading back\<close>

lemma digit_value_eq: "(of_char (digit n) :: nat) = 48 + nat (n mod 10)"
  by (simp add: digit_def)

lemma digit_bounds: "48 \<le> (of_char (digit n) :: nat) \<and> (of_char (digit n) :: nat) \<le> 57"
  by (simp add: digit_value_eq nat_le_iff)

lemma digit_int: "(int (of_char (digit n)) - 48) = n mod 10"
  by (simp add: digit_value_eq)

lemmas digits_defs = digits2_def digits3_def digits4_def digits6_def

lemma div_steps:
  "(n :: int) div 100 = n div 10 div 10" "n div 1000 = n div 100 div 10" "n div 10000 = n div 1000 div 10"
  "n div 100000 = n div 10000 div 10"
  by (simp_all flip: zdiv_zmult2_eq)

lemma top_digit:
  assumes "0 \<le> (n :: int)" "n < 10 * b" "0 < b"
  shows "n div b mod 10 = n div b"
proof -
  have "n div b * b \<le> n"
    using assms by (metis div_mod_decomp_int less_add_same_cancel1 linorder_not_le pos_mod_sign zle_add1_eq_le add_le_cancel_left le_add_same_cancel1)
  then have "n div b * b < 10 * b" using assms(2) by simp
  then have "n div b < 10" using assms(3) by simp
  then show ?thesis
    using assms by (simp add: pos_imp_zdiv_nonneg_iff)
qed

lemma digits_number_digits: "digits_number (map digit xs) = Some (foldl (\<lambda>n x. 10 * n + x mod 10) 0 xs)"
proof -
  have "foldl (\<lambda>n c. 10 * n + (int (of_char c) - 48)) a (map digit xs) = foldl (\<lambda>n x. 10 * n + x mod 10) a xs" for a
    by (induction xs arbitrary: a) (simp_all add: digit_int del: of_char_of)
  then show ?thesis
    by (simp add: digits_number_def list_all_iff digit_bounds)
qed

lemma digit_join: "(x :: int) div 10 = q \<Longrightarrow> 10 * q + x mod 10 = x"
  using mult_div_mod_eq [of 10 x] by simp

lemma digits_numbers:
  "0 \<le> n \<Longrightarrow> n < 100 \<Longrightarrow> digits_number [digit (n div 10), digit n] = Some n"
  "0 \<le> n \<Longrightarrow> n < 1000 \<Longrightarrow> digits_number [digit (n div 100), digit (n div 10), digit n] = Some n"
  "0 \<le> n \<Longrightarrow> n < 10000 \<Longrightarrow> digits_number (digits4 n) = Some n"
  "0 \<le> n \<Longrightarrow> n < 1000000 \<Longrightarrow> digits_number (digits6 n) = Some n"
  using digits_number_digits [of "[n div 10, n]"] digits_number_digits [of "[n div 100, n div 10, n]"]
    digits_number_digits [of "[n div 1000, n div 100, n div 10, n]"]
    digits_number_digits [of "[n div 100000, n div 10000, n div 1000, n div 100, n div 10, n]"]
  by (simp_all add: digits_defs top_digit digit_join div_steps [symmetric])

lemma digit_not_sign: "digit n \<noteq> CHR ''-''" "digit n \<noteq> CHR ''+''"
  using digit_bounds [of n] by auto

lemma div_bounds: "0 < (n :: int) \<Longrightarrow> n * (x div n) \<le> x \<and> x < n * (x div n) + n"
  using mult_div_mod_eq [of n x] pos_mod_bound [of n x] pos_mod_sign [of n x] by linarith

lemma year_of_day_bounds:
  "day_from_year (year_of_day d) \<le> d \<and> d < day_from_year (year_of_day d + 1)"
proof -
  define z where "z = (d * 400) div 146097"
  have z: "146097 * z \<le> 400 * d" "400 * d < 146097 * z + 146097"
    using div_bounds [of 146097 "d * 400"] by (simp_all add: z_def)
  have low: "day_from_year (1970 + z - 1) \<le> d"
    using z div_bounds [of 4 z] div_bounds [of 100 "z + 68"] div_bounds [of 400 "z + 368"]
    by (simp add: day_from_year_def)
  have high: "d < day_from_year (1970 + z + 2)"
    using z div_bounds [of 4 "z + 3"] div_bounds [of 100 "z + 71"] div_bounds [of 400 "z + 371"]
    by (simp add: day_from_year_def)
  show ?thesis
    using low high unfolding year_of_day_def Let_def z_def [symmetric]
    by (auto simp: algebra_simps)
qed

lemma div_next:
  assumes "1 < (n :: int)"
  shows "(x + 1) div n = x div n + (if (x + 1) mod n = 0 then 1 else 0)"
proof (cases "x mod n + 1 = n")
  case True
  then have "x + 1 = n + n * (x div n)"
    using mult_div_mod_eq [of n x] by linarith
  then show ?thesis using assms by simp
next
  case False
  then have small: "x mod n + 1 < n" "0 < x mod n + 1"
    using assms pos_mod_bound [of n x] pos_mod_sign [of n x] by linarith+
  have x: "x + 1 = (x mod n + 1) + n * (x div n)"
    using mult_div_mod_eq [of n x] by linarith
  have "(x mod n + 1) div n = 0" "(x mod n + 1) mod n = x mod n + 1"
    using small by (simp_all only: div_pos_pos_trivial mod_pos_pos_trivial less_imp_le)
  moreover have "(x + 1) div n = x div n + (x mod n + 1) div n"
    unfolding x [THEN arg_cong [where f = "\<lambda>x. x div n"]] using assms by (intro div_mult_self2) simp
  moreover have "(x + 1) mod n = (x mod n + 1) mod n"
    unfolding x [THEN arg_cong [where f = "\<lambda>x. x mod n"]] by (rule mod_mult_self2)
  ultimately show ?thesis using small by simp
qed

lemma year_length: "day_from_year (y + 1) = day_from_year y + 365 + (if leap_year y then 1 else 0)"
proof -
  have mods: "(y - 1969 + 1) mod 4 = y mod 4" "(y - 1901 + 1) mod 100 = y mod 100" "(y - 1601 + 1) mod 400 = y mod 400"
    using mod_mult_self2 [of "y - 1968" 4 492] mod_mult_self2 [of "y - 1900" 100 19]
      mod_mult_self2 [of "y - 1600" 400 4] by simp_all
  have shift: "y + 1 - 1969 = y - 1969 + 1" "y + 1 - 1901 = y - 1901 + 1" "y + 1 - 1601 = y - 1601 + 1"
    by simp_all
  have divs: "(y - 1969 + 1) div 4 = (y - 1969) div 4 + (if y mod 4 = 0 then 1 else 0)"
    "(y - 1901 + 1) div 100 = (y - 1901) div 100 + (if y mod 100 = 0 then 1 else 0)"
    "(y - 1601 + 1) div 400 = (y - 1601) div 400 + (if y mod 400 = 0 then 1 else 0)"
    unfolding mods [symmetric] by (rule div_next, simp)+
  have "y mod 400 = 0 \<longrightarrow> y mod 100 = 0" "y mod 100 = 0 \<longrightarrow> y mod 4 = 0"
    using dvd_trans [of 100 "400 :: int" y] dvd_trans [of 4 "100 :: int" y] by (simp_all add: mod_eq_0_iff_dvd)
  moreover define a b c where "a = (y - 1969) div 4" "b = (y - 1901) div 100" "c = (y - 1601) div 400"
  ultimately show ?thesis
    unfolding day_from_year_def leap_year_def shift divs a_b_c_def [symmetric]
    by (cases "y mod 4 = 0"; cases "y mod 100 = 0"; cases "y mod 400 = 0") simp_all
qed

lemma month_of_bounds:
  assumes "0 \<le> d" "d < 365 + (if l then 1 else 0)" "month_of 0 (month_table l) d = (k, e)"
  shows "k < 12 \<and> 0 \<le> e \<and> e < snd (month_table l ! k) \<and> fst (month_table l ! k) + e = d"
  using assms by (cases l) (auto simp: month_table_def Let_def split: if_splits)

lemma month_table_short: "k < 12 \<Longrightarrow> snd (month_table l ! k) \<le> 31"
  by (auto simp: month_table_def Let_def less_Suc_eq numeral_nat split: if_splits)

lemma clock_parts:
  assumes "0 \<le> ms" "ms < ms_per_day"
  shows "ms div 3600000 < 24" "0 \<le> ms div 3600000"
    "ms div 3600000 * 3600000 + ms div 60000 mod 60 * 60000 + ms div 1000 mod 60 * 1000 + ms mod 1000 = ms"
proof -
  have sum: "60 * h + i = m \<Longrightarrow> 60 * m + s = q \<Longrightarrow> 1000 * q + l = t \<Longrightarrow>
      h * 3600000 + i * 60000 + s * 1000 + l = t" for h i m s q l t :: int
    by linarith
  have "ms div 3600000 = ms div 60000 div 60" "ms div 60000 = ms div 1000 div 60"
    by (simp_all flip: zdiv_zmult2_eq)
  then show "ms div 3600000 * 3600000 + ms div 60000 mod 60 * 60000 + ms div 1000 mod 60 * 1000 + ms mod 1000 = ms"
    by (intro sum [of _ _ "ms div 60000" _ "ms div 1000"]) (simp_all only: mult_div_mod_eq)
  show "ms div 3600000 < 24" "0 \<le> ms div 3600000"
    using assms div_bounds [of 3600000 ms] by (simp_all add: ms_per_day_def pos_imp_zdiv_nonneg_iff)
qed

lemma date_fields_digits:
  assumes "digits_number [m1, m2] = Some (int k + 1)" "digits_number [d1, d2] = Some (e + 1)"
    "digits_number [h1, h2] = Some h" "digits_number [i1, i2] = Some i" "digits_number [s1, s2] = Some s"
    "digits_number [l1, l2, l3] = Some l"
    "k < 12" "0 \<le> e" "e < snd (month_table (leap_year y) ! k)" "h < 24" "i < 60" "s < 60"
  shows "date_fields y [CHR ''-'', m1, m2, CHR ''-'', d1, d2, CHR ''T'', h1, h2, CHR '':'', i1, i2, CHR '':'', s1, s2,
      CHR ''.'', l1, l2, l3, CHR ''Z''] =
    Some ((day_from_year y + fst (month_table (leap_year y) ! k) + e) * ms_per_day
      + (h * 3600000 + i * 60000 + s * 1000 + l))"
  using assms by (simp add: date_fields_def)

lemma date_fields_print:
  assumes "k < 12" "0 \<le> e" "e < snd (month_table (leap_year y) ! k)" "0 \<le> ms" "ms < ms_per_day"
  shows "date_fields y (''-'' @ digits2 (int k + 1) @ ''-'' @ digits2 (e + 1) @ ''T'' @
      digits2 (ms div 3600000) @ '':'' @ digits2 (ms div 60000 mod 60) @ '':'' @ digits2 (ms div 1000 mod 60) @
      ''.'' @ digits3 (ms mod 1000) @ ''Z'') =
    Some ((day_from_year y + fst (month_table (leap_year y) ! k) + e) * ms_per_day + ms)"
proof -
  have numbers: "digits_number [digit ((int k + 1) div 10), digit (int k + 1)] = Some (int k + 1)"
    "digits_number [digit ((e + 1) div 10), digit (e + 1)] = Some (e + 1)"
    "digits_number [digit (ms div 3600000 div 10), digit (ms div 3600000)] = Some (ms div 3600000)"
    "digits_number [digit (ms div 60000 mod 60 div 10), digit (ms div 60000 mod 60)] = Some (ms div 60000 mod 60)"
    "digits_number [digit (ms div 1000 mod 60 div 10), digit (ms div 1000 mod 60)] = Some (ms div 1000 mod 60)"
    "digits_number [digit (ms mod 1000 div 100), digit (ms mod 1000 div 10), digit (ms mod 1000)] = Some (ms mod 1000)"
    using assms month_table_short [OF assms(1), of "leap_year y"] clock_parts(1,2) [OF assms(4,5)]
    by (auto intro!: digits_numbers intro: order_less_trans [OF pos_mod_bound] order_le_less_trans)
  have small: "ms div 60000 mod 60 < 60" "ms div 1000 mod 60 < 60"
    by (rule pos_mod_bound, simp)+
  show ?thesis
    using date_fields_digits [OF numbers assms(1-3) clock_parts(1) [OF assms(4,5)] small]
    unfolding clock_parts(3) [OF assms(4,5)] digits2_def digits3_def by simp
qed

lemma year_range:
  assumes "\<bar>d\<bar> \<le> 100000000"
  shows "-1000000 < year_of_day d \<and> year_of_day d < 1000000"
proof -
  define z where "z = (d * 400) div 146097"
  have "1969 + z \<le> year_of_day d \<and> year_of_day d \<le> 1971 + z"
    by (simp add: year_of_day_def z_def Let_def)
  moreover have "- 300000 \<le> z \<and> z \<le> 300000"
    using assms div_bounds [of 146097 "d * 400"] unfolding z_def by linarith
  ultimately show ?thesis by linarith
qed

lemma parse_year:
  assumes "-1000000 < y" "y < 1000000"
  shows "parse_iso (year_string y @ rest) = date_fields y rest"
proof -
  consider "0 \<le> y" "y \<le> 9999" | "y < 0" | "9999 < y" by linarith
  then show ?thesis
  proof cases
    case 1
    then show ?thesis
      using digits_numbers(3) [of y] digit_not_sign [of "y div 1000"]
      by (simp add: parse_iso_def year_string_def digits4_def)
  next
    case 2
    then show ?thesis
      using digits_numbers(4) [of "- y"] assms by (simp add: parse_iso_def year_string_def digits6_def)
  next
    case 3
    then show ?thesis
      using digits_numbers(4) [of y] assms by (simp add: parse_iso_def year_string_def digits6_def)
  qed
qed

lemma parse_iso_print:
  assumes "\<bar>t\<bar> \<le> max_time"
  shows "parse_iso (toISOString t) = Some t"
proof -
  define day ms where "day = t div ms_per_day" "ms = t mod ms_per_day"
  define y where "y = year_of_day day"
  obtain k e where k: "month_of 0 (month_table (leap_year y)) (day - day_from_year y) = (k, e)"
    by fastforce
  have ms: "0 \<le> ms" "ms < ms_per_day"
    by (simp_all add: day_ms_def ms_per_day_def)
  have "\<bar>day\<bar> \<le> 100000000"
    using assms div_bounds [of ms_per_day t] by (auto simp: day_ms_def ms_per_day_def max_time_def)
  then have year: "-1000000 < y" "y < 1000000"
    using year_range [of day] by (simp_all add: y_def)
  have "0 \<le> day - day_from_year y" "day - day_from_year y < 365 + (if leap_year y then 1 else 0)"
    using year_of_day_bounds [of day] year_length [of y] by (simp_all add: y_def)
  note month = month_of_bounds [OF this k]
  have "(day_from_year y + fst (month_table (leap_year y) ! k) + e) * ms_per_day + ms = day * ms_per_day + ms"
    using month by (simp add: algebra_simps)
  also have "\<dots> = t"
    by (simp add: day_ms_def)
  finally show ?thesis
    using date_fields_print [of k e y ms] month ms parse_year [OF year] k
    by (simp add: toISOString_def Let_def flip: day_ms_def y_def)
qed

lemma date_value_print [simp]: "\<bar>t\<bar> \<le> max_time \<Longrightarrow> date_value other (toISOString t) = Some t"
  by (simp add: date_value_def parse_iso_print)


section \<open>Timestamps\<close>

record Timestamp =
  Timestamp_seconds :: int
  Timestamp_nanos :: int

text \<open>\<open>NaN\<close> in both fields is \<open>None\<close>.\<close>

definition toTimestamp :: "(string \<Rightarrow> int option) \<Rightarrow> string \<Rightarrow> Timestamp option" where
  "toTimestamp other dateStr =
     (case date_value other dateStr of
        None \<Rightarrow> None
      | Some t \<Rightarrow> Some \<lparr>Timestamp_seconds = trunc_div t 1000, Timestamp_nanos = js_rem t 1000 * 1000000\<rparr>)"

definition fromTimestamp :: "Timestamp \<Rightarrow> string result" where
  "fromTimestamp t =
     (let millis = double (double (of_int (Timestamp_seconds t * 1000)) + double (of_int (Timestamp_nanos t) / 1000000))
      in if \<bar>millis\<bar> > of_int max_time then Inl (Thrown ''RangeError: Invalid time value'')
         else Inr (toISOString (trunc millis)))"

definition canonical_date :: "string \<Rightarrow> bool" where
  "canonical_date s \<longleftrightarrow>
     (case parse_iso s of Some t \<Rightarrow> \<bar>t\<bar> \<le> max_time \<and> toISOString t = s | None \<Rightarrow> False)"

lemma double_int:
  assumes "\<bar>n\<bar> < 2 ^ 53"
  shows "double (of_int n) = of_int n"
proof (cases "n = 0")
  case False
  have "nat \<bar>n\<bar> < 2 ^ 53" using assms by (simp add: nat_less_iff)
  then have "floorlog 2 (nat \<bar>n\<bar>) \<le> 53"
    using floorlog_leI [of "nat \<bar>n\<bar>" 2 53] by simp
  moreover have "1 \<le> \<bar>n\<bar>" using False by linarith
  ultimately have "double_exponent (of_int \<bar>n\<bar>) = - int (53 - floorlog 2 (nat \<bar>n\<bar>))"
    by (simp add: double_exponent_def del: of_int_abs)
  then obtain e where e: "double_exponent \<bar>of_int n\<bar> = - int e"
    by (metis of_int_abs)
  have "(of_int n :: rat) / 2 powi (- int e) = of_int (n * 2 ^ e)"
    by (simp add: power_int_minus field_simps)
  then have "round_even ((of_int n :: rat) / 2 powi (- int e)) = n * 2 ^ e"
    unfolding round_even_def Let_def by (simp only: floor_of_int) simp
  then show ?thesis
    using False e by (simp add: double_def Let_def power_int_minus)
qed (simp add: double_def)

lemma trunc_of_int [simp]: "trunc (of_int n) = n"
  by (simp add: trunc_def)

lemma trunc_parts: "trunc_div t 1000 * 1000 + js_rem t 1000 = t"
proof (cases "t < 0")
  case True
  then have "trunc_div t 1000 = - ((- t) div 1000)" "js_rem t 1000 = - ((- t) mod 1000)"
    by (simp_all add: trunc_div_def js_rem_def)
  then show ?thesis using div_mult_mod_eq [of "- t" 1000] by linarith
qed (simp add: trunc_div_def js_rem_def)

text \<open>A date in any notation is carried as its moment, and read in the notation of \<open>toISOString\<close>.\<close>

lemma timestamp_moment:
  assumes "date_value other s = Some t" "\<bar>t\<bar> \<le> max_time"
  shows "\<exists>ts. toTimestamp other s = Some ts \<and> fromTimestamp ts = Inr (toISOString t)"
proof -
  let ?q = "trunc_div t 1000 * 1000" and ?r = "js_rem t 1000"
  have parts: "?q + ?r = t" by (rule trunc_parts)
  have "0 \<le> \<bar>t\<bar> mod 1000" "\<bar>t\<bar> mod 1000 < 1000" by simp_all
  then have small: "\<bar>?r\<bar> < 1000"
    by (auto simp: js_rem_def abs_if split: if_splits)
  have bounds: "\<bar>?q\<bar> < 2 ^ 53" "\<bar>?r\<bar> < 2 ^ 53" "\<bar>t\<bar> < 2 ^ 53"
    using parts small assms(2) by (auto simp: max_time_def)
  have sub: "(of_int (?r * 1000000) :: rat) / 1000000 = of_int ?r" "(of_int ?q :: rat) + of_int ?r = of_int t"
    using parts by (simp_all flip: of_int_add)
  have "double (double (of_int ?q) + double (of_int (?r * 1000000) / 1000000)) = of_int t"
    by (simp only: sub double_int [OF bounds(1)] double_int [OF bounds(2)] double_int [OF bounds(3)])
  then have "fromTimestamp \<lparr>Timestamp_seconds = trunc_div t 1000, Timestamp_nanos = ?r * 1000000\<rparr> = Inr (toISOString t)"
    using assms(2) unfolding fromTimestamp_def Let_def Timestamp.select_convs by (simp flip: of_int_abs)
  then show ?thesis
    using assms(1) by (auto simp: toTimestamp_def)
qed

lemma timestamp_roundtrip:
  assumes "canonical_date s"
  shows "\<exists>t. toTimestamp other s = Some t \<and> fromTimestamp t = Inr s"
proof -
  obtain t where t: "parse_iso s = Some t" "\<bar>t\<bar> \<le> max_time" "toISOString t = s"
    using assms by (auto simp: canonical_date_def split: option.splits)
  then have "date_value other s = Some t" by (simp add: date_value_def)
  from timestamp_moment [OF this t(2)] t(3) show ?thesis by simp
qed

end
