(* ===== verification/Wire_Time.thy ===== *)
theory Wire_Time
  imports Js_Date
begin

text \<open>
  The codecs of google.protobuf.Timestamp and google.protobuf.Empty, and the two functions every generated module
  wraps around the first: a date is an ISO string in the client and a Timestamp on the wire.
\<close>

section \<open>google/protobuf/timestamp.ts, google/protobuf/empty.ts\<close>

definition base_Timestamp :: Timestamp where
  "base_Timestamp =
     \<lparr>Timestamp_seconds = 0,
      Timestamp_nanos = 0\<rparr>"

definition encode_Timestamp :: "wire \<Rightarrow> Timestamp \<Rightarrow> bytes \<Rightarrow> bytes result" where
  "encode_Timestamp W m =
     write_all
       [write_when (Timestamp_seconds m \<noteq> 0) (tagged W 8 (put_int64 W (Timestamp_seconds m))),
        write_when (Timestamp_nanos m \<noteq> 0) (tagged W 16 (put_int32 W (Timestamp_nanos m)))]"

definition switch_Timestamp :: "wire \<Rightarrow> int \<Rightarrow> reader \<Rightarrow> Timestamp \<Rightarrow> Timestamp loop_step run" where
  "switch_Timestamp W tag r m =
     switch_field tag
       [(1, [(8, read_field (get_long (get_int64 W)) (\<lambda>v. m\<lparr>Timestamp_seconds := v\<rparr>) r)]),
        (2, [(16, read_field (get_int32 W) (\<lambda>v. m\<lparr>Timestamp_nanos := v\<rparr>) r)])]"

definition decode_Timestamp :: "wire \<Rightarrow> reader \<Rightarrow> int option \<Rightarrow> (Timestamp \<times> reader) run" where
  "decode_Timestamp W = decode_message W (switch_Timestamp W) base_Timestamp"

definition safe_Timestamp :: "wire \<Rightarrow> Timestamp \<Rightarrow> bool" where
  "safe_Timestamp W m \<longleftrightarrow>
     safe_long (Timestamp_seconds m)"

lemma decodes_Timestamp [message_codecs]:
  assumes "wire_format W" "safe_Timestamp W m" "encode_Timestamp W m [] = Inr b"
  shows "decodes (decode_Timestamp W) m b"
  unfolding decode_Timestamp_def
proof (rule message_decodes [OF assms(3) [unfolded encode_Timestamp_def]])
  show "foldl (\<lambda>m u. u m) base_Timestamp
      [plain Timestamp_seconds_update (Timestamp_seconds m) 0,
       plain Timestamp_nanos_update (Timestamp_nanos m) 0] = m"
    by (cases m) (simp add: field_changes base_Timestamp_def)
qed (insert assms(1,2),
    (rule wire_fields message_codecs | (simp add: updater_def switch_Timestamp_def safe_Timestamp_def list_all_iff; fail))+)

lemma settles_Timestamp [message_returns]: "wire_format W \<Longrightarrow> settles k (decode_Timestamp W)"
  unfolding decode_Timestamp_def
  by (rule wire_format.settles_message, assumption,
      unfold switch_Timestamp_def switch_field.simps switch_alternatives.simps)
    (rule wire_ends message_returns | assumption)+

datatype Empty = Empty_message

definition base_Empty :: Empty where
  "base_Empty = Empty_message"

definition encode_Empty :: "wire \<Rightarrow> Empty \<Rightarrow> bytes \<Rightarrow> bytes result" where
  "encode_Empty W m =
     write_all
       []"

definition switch_Empty :: "wire \<Rightarrow> int \<Rightarrow> reader \<Rightarrow> Empty \<Rightarrow> Empty loop_step run" where
  "switch_Empty W tag r m =
     switch_field tag
       []"

definition decode_Empty :: "wire \<Rightarrow> reader \<Rightarrow> int option \<Rightarrow> (Empty \<times> reader) run" where
  "decode_Empty W = decode_message W (switch_Empty W) base_Empty"

lemma decodes_Empty [message_codecs]:
  assumes "wire_format W" "encode_Empty W m [] = Inr b"
  shows "decodes (decode_Empty W) m b"
  unfolding decode_Empty_def
  by (rule message_decodes [OF assms(2) [unfolded encode_Empty_def], where us = "[]"]) (cases m; simp add: base_Empty_def)+

lemma settles_Empty [message_returns]: "wire_format W \<Longrightarrow> settles k (decode_Empty W)"
  unfolding decode_Empty_def
  by (rule wire_format.settles_message, assumption,
      unfold switch_Empty_def switch_field.simps switch_alternatives.simps)
    (rule wire_ends message_returns | assumption)+

section \<open>Dates on the wire\<close>

text \<open>
  \<open>Timestamp.encode(toTimestamp(s), \<dots>)\<close>: for a string that is no date both numbers are \<open>NaN\<close>, and
  \<open>writer.uint32(8).int64(NaN)\<close> is the first thing written.  \<open>fromTimestamp(Timestamp.decode(\<dots>))\<close>.
\<close>

definition encode_date :: "wire \<Rightarrow> string \<Rightarrow> bytes \<Rightarrow> bytes result" where
  "encode_date W s w =
     (case toTimestamp (other_dates W) s of
        Some t \<Rightarrow> encode_Timestamp W t w
      | None \<Rightarrow> write_all [tagged W 8 (put_NaN W)] w)"

definition decode_date :: "wire \<Rightarrow> reader \<Rightarrow> int option \<Rightarrow> (string \<times> reader) run" where
  "decode_date W r len =
     bind_run (decode_Timestamp W r len) (\<lambda>(t, r').
       case fromTimestamp t of Inl e \<Rightarrow> Some (Inl e) | Inr s \<Rightarrow> Some (Inr (s, r')))"

lemma toTimestamp_safe:
  assumes "canonical_date s" "toTimestamp other s = Some t"
  shows "safe_Timestamp W t"
proof -
  obtain n where n: "parse_iso s = Some n" "\<bar>n\<bar> \<le> max_time"
    using assms(1) by (auto simp: canonical_date_def split: option.splits)
  then have "Timestamp_seconds t = trunc_div n 1000"
    using assms(2) by (auto simp: toTimestamp_def date_value_def)
  moreover have "\<bar>trunc_div n 1000\<bar> \<le> \<bar>n\<bar>"
    using div_bounds [of 1000 n] div_bounds [of 1000 "- n"] by (cases "n < 0") (simp_all add: trunc_div_def)
  ultimately show ?thesis
    using n by (simp add: safe_Timestamp_def safe_long_def max_safe_integer_def max_time_def abs_le_iff) linarith
qed

lemma decodes_date [message_codecs]:
  assumes "wire_format W" "canonical_date s" "encode_date W s [] = Inr b"
  shows "decodes (decode_date W) s b"
proof -
  obtain t where t: "toTimestamp (other_dates W) s = Some t" "fromTimestamp t = Inr s"
    using timestamp_roundtrip [OF assms(2)] by blast
  then have "decodes (decode_Timestamp W) t b"
    using assms decodes_Timestamp [OF assms(1) toTimestamp_safe [OF assms(2) t(1)]] by (simp add: encode_date_def)
  then show ?thesis
    using t(2) by (simp add: decodes_def decode_date_def)
qed

lemma settles_date [message_returns]:
  assumes "wire_format W"
  shows "settles k (decode_date W)"
  unfolding settles_def
proof (intro allI impI)
  fix r len assume "close k r"
  then obtain x where x: "decode_Timestamp W r len = Some x" "\<forall>v r'. x = Inr (v, r') \<longrightarrow> moves_to r r'"
    using settles_Timestamp [OF assms, of k] unfolding settles_def by blast
  show "\<exists>x. decode_date W r len = Some x \<and> (\<forall>v r'. x = Inr (v, r') \<longrightarrow> moves_to r r')"
  proof (cases x)
    case (Inr p)
    then show ?thesis
      using x by (cases p; cases "fromTimestamp (fst p)") (auto simp: decode_date_def)
  qed (use x in \<open>simp add: decode_date_def\<close>)
qed

end
