(* ===== verification/Wire_Media.thy ===== *)
theory Wire_Media
  imports Wire_Time
begin

text \<open>
  The codecs of packages/api/generated/media.ts: of each message the record, the empty message, writing, reading, and that
  reading what was written gives the message back.
\<close>

section \<open>MediaMetadata\<close>

record MediaMetadata =
  MediaMetadata_videoPreviewTimeMs :: "int option"
  MediaMetadata_artist :: "string option"
  MediaMetadata_album :: "string option"
  MediaMetadata_composer :: "string option"
  MediaMetadata_director :: "string option"
  MediaMetadata_producer :: "string option"
  MediaMetadata_starring :: "string option"
  MediaMetadata_cast :: "string option"
  MediaMetadata_crew :: "string option"
  MediaMetadata_narrator :: "string option"
  MediaMetadata_publisher :: "string option"
  MediaMetadata_unlicensedPreviewStartMs :: "int option"
  MediaMetadata_unlicensedPreviewEndMs :: "int option"
  MediaMetadata_coverArtMediaId :: "string option"
  MediaMetadata_startBpm :: "rat option"
  MediaMetadata_endBpm :: "rat option"
  MediaMetadata_minBpm :: "rat option"
  MediaMetadata_maxBpm :: "rat option"
  MediaMetadata_startKey :: "string option"
  MediaMetadata_endKey :: "string option"

definition base_MediaMetadata :: MediaMetadata where
  "base_MediaMetadata =
     \<lparr>MediaMetadata_videoPreviewTimeMs = None,
      MediaMetadata_artist = None,
      MediaMetadata_album = None,
      MediaMetadata_composer = None,
      MediaMetadata_director = None,
      MediaMetadata_producer = None,
      MediaMetadata_starring = None,
      MediaMetadata_cast = None,
      MediaMetadata_crew = None,
      MediaMetadata_narrator = None,
      MediaMetadata_publisher = None,
      MediaMetadata_unlicensedPreviewStartMs = None,
      MediaMetadata_unlicensedPreviewEndMs = None,
      MediaMetadata_coverArtMediaId = None,
      MediaMetadata_startBpm = None,
      MediaMetadata_endBpm = None,
      MediaMetadata_minBpm = None,
      MediaMetadata_maxBpm = None,
      MediaMetadata_startKey = None,
      MediaMetadata_endKey = None\<rparr>"

definition encode_MediaMetadata :: "wire \<Rightarrow> MediaMetadata \<Rightarrow> bytes \<Rightarrow> bytes result" where
  "encode_MediaMetadata W m =
     write_all
       [write_given (MediaMetadata_videoPreviewTimeMs m) (\<lambda>v. tagged W 8 (put_uint64 W v)),
        write_given (MediaMetadata_artist m) (\<lambda>v. tagged W 18 (put_string W v)),
        write_given (MediaMetadata_album m) (\<lambda>v. tagged W 26 (put_string W v)),
        write_given (MediaMetadata_composer m) (\<lambda>v. tagged W 34 (put_string W v)),
        write_given (MediaMetadata_director m) (\<lambda>v. tagged W 42 (put_string W v)),
        write_given (MediaMetadata_producer m) (\<lambda>v. tagged W 50 (put_string W v)),
        write_given (MediaMetadata_starring m) (\<lambda>v. tagged W 58 (put_string W v)),
        write_given (MediaMetadata_cast m) (\<lambda>v. tagged W 66 (put_string W v)),
        write_given (MediaMetadata_crew m) (\<lambda>v. tagged W 74 (put_string W v)),
        write_given (MediaMetadata_narrator m) (\<lambda>v. tagged W 82 (put_string W v)),
        write_given (MediaMetadata_publisher m) (\<lambda>v. tagged W 90 (put_string W v)),
        write_given (MediaMetadata_unlicensedPreviewStartMs m) (\<lambda>v. tagged W 96 (put_uint64 W v)),
        write_given (MediaMetadata_unlicensedPreviewEndMs m) (\<lambda>v. tagged W 104 (put_uint64 W v)),
        write_given (MediaMetadata_coverArtMediaId m) (\<lambda>v. tagged W 114 (put_string W v)),
        write_given (MediaMetadata_startBpm m) (\<lambda>v. tagged W 125 (put_float W v)),
        write_given (MediaMetadata_endBpm m) (\<lambda>v. tagged W 133 (put_float W v)),
        write_given (MediaMetadata_minBpm m) (\<lambda>v. tagged W 141 (put_float W v)),
        write_given (MediaMetadata_maxBpm m) (\<lambda>v. tagged W 149 (put_float W v)),
        write_given (MediaMetadata_startKey m) (\<lambda>v. tagged W 154 (put_string W v)),
        write_given (MediaMetadata_endKey m) (\<lambda>v. tagged W 162 (put_string W v))]"

definition switch_MediaMetadata :: "wire \<Rightarrow> int \<Rightarrow> reader \<Rightarrow> MediaMetadata \<Rightarrow> MediaMetadata loop_step run" where
  "switch_MediaMetadata W tag r m =
     switch_field tag
       [(1, [(8, read_field (get_long (get_uint64 W)) (\<lambda>v. m\<lparr>MediaMetadata_videoPreviewTimeMs := Some v\<rparr>) r)]),
        (2, [(18, read_field (get_string W) (\<lambda>v. m\<lparr>MediaMetadata_artist := Some v\<rparr>) r)]),
        (3, [(26, read_field (get_string W) (\<lambda>v. m\<lparr>MediaMetadata_album := Some v\<rparr>) r)]),
        (4, [(34, read_field (get_string W) (\<lambda>v. m\<lparr>MediaMetadata_composer := Some v\<rparr>) r)]),
        (5, [(42, read_field (get_string W) (\<lambda>v. m\<lparr>MediaMetadata_director := Some v\<rparr>) r)]),
        (6, [(50, read_field (get_string W) (\<lambda>v. m\<lparr>MediaMetadata_producer := Some v\<rparr>) r)]),
        (7, [(58, read_field (get_string W) (\<lambda>v. m\<lparr>MediaMetadata_starring := Some v\<rparr>) r)]),
        (8, [(66, read_field (get_string W) (\<lambda>v. m\<lparr>MediaMetadata_cast := Some v\<rparr>) r)]),
        (9, [(74, read_field (get_string W) (\<lambda>v. m\<lparr>MediaMetadata_crew := Some v\<rparr>) r)]),
        (10, [(82, read_field (get_string W) (\<lambda>v. m\<lparr>MediaMetadata_narrator := Some v\<rparr>) r)]),
        (11, [(90, read_field (get_string W) (\<lambda>v. m\<lparr>MediaMetadata_publisher := Some v\<rparr>) r)]),
        (12, [(96, read_field (get_long (get_uint64 W)) (\<lambda>v. m\<lparr>MediaMetadata_unlicensedPreviewStartMs := Some v\<rparr>) r)]),
        (13, [(104, read_field (get_long (get_uint64 W)) (\<lambda>v. m\<lparr>MediaMetadata_unlicensedPreviewEndMs := Some v\<rparr>) r)]),
        (14, [(114, read_field (get_string W) (\<lambda>v. m\<lparr>MediaMetadata_coverArtMediaId := Some v\<rparr>) r)]),
        (15, [(125, read_field (get_float W) (\<lambda>v. m\<lparr>MediaMetadata_startBpm := Some v\<rparr>) r)]),
        (16, [(133, read_field (get_float W) (\<lambda>v. m\<lparr>MediaMetadata_endBpm := Some v\<rparr>) r)]),
        (17, [(141, read_field (get_float W) (\<lambda>v. m\<lparr>MediaMetadata_minBpm := Some v\<rparr>) r)]),
        (18, [(149, read_field (get_float W) (\<lambda>v. m\<lparr>MediaMetadata_maxBpm := Some v\<rparr>) r)]),
        (19, [(154, read_field (get_string W) (\<lambda>v. m\<lparr>MediaMetadata_startKey := Some v\<rparr>) r)]),
        (20, [(162, read_field (get_string W) (\<lambda>v. m\<lparr>MediaMetadata_endKey := Some v\<rparr>) r)])]"

definition decode_MediaMetadata :: "wire \<Rightarrow> reader \<Rightarrow> int option \<Rightarrow> (MediaMetadata \<times> reader) run" where
  "decode_MediaMetadata W = decode_message W (switch_MediaMetadata W) base_MediaMetadata"

definition safe_MediaMetadata :: "wire \<Rightarrow> MediaMetadata \<Rightarrow> bool" where
  "safe_MediaMetadata W m \<longleftrightarrow>
     pred_option safe_long (MediaMetadata_videoPreviewTimeMs m) \<and>
     pred_option safe_long (MediaMetadata_unlicensedPreviewStartMs m) \<and>
     pred_option safe_long (MediaMetadata_unlicensedPreviewEndMs m) \<and>
     pred_option (float_exact W) (MediaMetadata_startBpm m) \<and>
     pred_option (float_exact W) (MediaMetadata_endBpm m) \<and>
     pred_option (float_exact W) (MediaMetadata_minBpm m) \<and>
     pred_option (float_exact W) (MediaMetadata_maxBpm m)"

lemma builds_MediaMetadata:
  assumes "wire_format W" "safe_MediaMetadata W m" "encode_MediaMetadata W m [] = Inr b"
  shows "builds W (switch_MediaMetadata W) base_MediaMetadata m b"
proof (rule message_builds [OF assms(3) [unfolded encode_MediaMetadata_def]])
  show "foldl (\<lambda>m u. u m) base_MediaMetadata
      [given MediaMetadata_videoPreviewTimeMs_update (MediaMetadata_videoPreviewTimeMs m),
       given MediaMetadata_artist_update (MediaMetadata_artist m),
       given MediaMetadata_album_update (MediaMetadata_album m),
       given MediaMetadata_composer_update (MediaMetadata_composer m),
       given MediaMetadata_director_update (MediaMetadata_director m),
       given MediaMetadata_producer_update (MediaMetadata_producer m),
       given MediaMetadata_starring_update (MediaMetadata_starring m),
       given MediaMetadata_cast_update (MediaMetadata_cast m),
       given MediaMetadata_crew_update (MediaMetadata_crew m),
       given MediaMetadata_narrator_update (MediaMetadata_narrator m),
       given MediaMetadata_publisher_update (MediaMetadata_publisher m),
       given MediaMetadata_unlicensedPreviewStartMs_update (MediaMetadata_unlicensedPreviewStartMs m),
       given MediaMetadata_unlicensedPreviewEndMs_update (MediaMetadata_unlicensedPreviewEndMs m),
       given MediaMetadata_coverArtMediaId_update (MediaMetadata_coverArtMediaId m),
       given MediaMetadata_startBpm_update (MediaMetadata_startBpm m),
       given MediaMetadata_endBpm_update (MediaMetadata_endBpm m),
       given MediaMetadata_minBpm_update (MediaMetadata_minBpm m),
       given MediaMetadata_maxBpm_update (MediaMetadata_maxBpm m),
       given MediaMetadata_startKey_update (MediaMetadata_startKey m),
       given MediaMetadata_endKey_update (MediaMetadata_endKey m)] = m"
    by (cases m) (simp add: field_changes base_MediaMetadata_def)
qed (insert assms(1,2),
    (rule wire_fields message_codecs | (simp add: updater_def switch_MediaMetadata_def safe_MediaMetadata_def list_all_iff; fail))+)

lemma decodes_MediaMetadata [message_codecs]:
  assumes "wire_format W" "safe_MediaMetadata W m" "encode_MediaMetadata W m [] = Inr b"
  shows "decodes (decode_MediaMetadata W) m b"
  unfolding decode_MediaMetadata_def by (rule builds_decodes [OF builds_MediaMetadata [OF assms]])

lemma settles_MediaMetadata [message_returns]: "wire_format W \<Longrightarrow> settles k (decode_MediaMetadata W)"
  unfolding decode_MediaMetadata_def
  by (rule wire_format.settles_message, assumption,
      unfold switch_MediaMetadata_def switch_field.simps switch_alternatives.simps)
    (rule wire_ends message_returns | assumption)+

section \<open>MediaSize\<close>

record MediaSize =
  MediaSize_conversion :: int
  MediaSize_sizeBytes :: int
  MediaSize_aspectRatio :: "rat option"
  MediaSize_contentType :: string

definition base_MediaSize :: MediaSize where
  "base_MediaSize =
     \<lparr>MediaSize_conversion = 0,
      MediaSize_sizeBytes = 0,
      MediaSize_aspectRatio = None,
      MediaSize_contentType = []\<rparr>"

definition encode_MediaSize :: "wire \<Rightarrow> MediaSize \<Rightarrow> bytes \<Rightarrow> bytes result" where
  "encode_MediaSize W m =
     write_all
       [write_when (MediaSize_conversion m \<noteq> 0) (tagged W 8 (put_int32 W (MediaSize_conversion m))),
        write_when (MediaSize_sizeBytes m \<noteq> 0) (tagged W 16 (put_uint64 W (MediaSize_sizeBytes m))),
        write_given (MediaSize_aspectRatio m) (\<lambda>v. tagged W 29 (put_float W v)),
        write_when (MediaSize_contentType m \<noteq> []) (tagged W 34 (put_string W (MediaSize_contentType m)))]"

definition switch_MediaSize :: "wire \<Rightarrow> int \<Rightarrow> reader \<Rightarrow> MediaSize \<Rightarrow> MediaSize loop_step run" where
  "switch_MediaSize W tag r m =
     switch_field tag
       [(1, [(8, read_field (get_int32 W) (\<lambda>v. m\<lparr>MediaSize_conversion := v\<rparr>) r)]),
        (2, [(16, read_field (get_long (get_uint64 W)) (\<lambda>v. m\<lparr>MediaSize_sizeBytes := v\<rparr>) r)]),
        (3, [(29, read_field (get_float W) (\<lambda>v. m\<lparr>MediaSize_aspectRatio := Some v\<rparr>) r)]),
        (4, [(34, read_field (get_string W) (\<lambda>v. m\<lparr>MediaSize_contentType := v\<rparr>) r)])]"

definition decode_MediaSize :: "wire \<Rightarrow> reader \<Rightarrow> int option \<Rightarrow> (MediaSize \<times> reader) run" where
  "decode_MediaSize W = decode_message W (switch_MediaSize W) base_MediaSize"

definition safe_MediaSize :: "wire \<Rightarrow> MediaSize \<Rightarrow> bool" where
  "safe_MediaSize W m \<longleftrightarrow>
     safe_long (MediaSize_sizeBytes m) \<and>
     pred_option (float_exact W) (MediaSize_aspectRatio m)"

lemma builds_MediaSize:
  assumes "wire_format W" "safe_MediaSize W m" "encode_MediaSize W m [] = Inr b"
  shows "builds W (switch_MediaSize W) base_MediaSize m b"
proof (rule message_builds [OF assms(3) [unfolded encode_MediaSize_def]])
  show "foldl (\<lambda>m u. u m) base_MediaSize
      [plain MediaSize_conversion_update (MediaSize_conversion m) 0,
       plain MediaSize_sizeBytes_update (MediaSize_sizeBytes m) 0,
       given MediaSize_aspectRatio_update (MediaSize_aspectRatio m),
       plain MediaSize_contentType_update (MediaSize_contentType m) []] = m"
    by (cases m) (simp add: field_changes base_MediaSize_def)
qed (insert assms(1,2),
    (rule wire_fields message_codecs | (simp add: updater_def switch_MediaSize_def safe_MediaSize_def list_all_iff; fail))+)

lemma decodes_MediaSize [message_codecs]:
  assumes "wire_format W" "safe_MediaSize W m" "encode_MediaSize W m [] = Inr b"
  shows "decodes (decode_MediaSize W) m b"
  unfolding decode_MediaSize_def by (rule builds_decodes [OF builds_MediaSize [OF assms]])

lemma settles_MediaSize [message_returns]: "wire_format W \<Longrightarrow> settles k (decode_MediaSize W)"
  unfolding decode_MediaSize_def
  by (rule wire_format.settles_message, assumption,
      unfold switch_MediaSize_def switch_field.simps switch_alternatives.simps)
    (rule wire_ends message_returns | assumption)+

section \<open>MediaReference\<close>

record MediaReference_fields =
  MediaReference_id :: string
  MediaReference_name :: "string option"
  MediaReference_generated :: bool
  MediaReference_metadata :: "MediaMetadata option"
  MediaReference_sizes :: "MediaSize list"
  MediaReference_url :: "string option"
  MediaReference_description :: "string option"
  MediaReference_visibility :: int

record Author_fields =
  Author_userId :: string
  Author_username :: "string option"
  Author_realName :: "string option"
  Author_permissions :: "int list"

text \<open>
  An author has an avatar and a media reference has an author, so the two contain each other; \<open>'r\<close> is the type of
  the avatar.
\<close>

datatype 'r AuthorOf = Author_of (Author_own: Author_fields) (Author_avatar: "'r option")

datatype MediaReference =
  MediaReference_of (MediaReference_own: MediaReference_fields) (MediaReference_author: "MediaReference AuthorOf option")

type_synonym Author = "MediaReference AuthorOf"

definition Author_upd :: "(Author_fields \<Rightarrow> Author_fields) \<Rightarrow> 'r AuthorOf \<Rightarrow> 'r AuthorOf" where
  "Author_upd f m = Author_of (f (Author_own m)) (Author_avatar m)"

definition Author_avatar_upd :: "('r option \<Rightarrow> 'r option) \<Rightarrow> 'r AuthorOf \<Rightarrow> 'r AuthorOf" where
  "Author_avatar_upd f m = Author_of (Author_own m) (f (Author_avatar m))"

definition MediaReference_upd ::
  "(MediaReference_fields \<Rightarrow> MediaReference_fields) \<Rightarrow> MediaReference \<Rightarrow> MediaReference" where
  "MediaReference_upd f m = MediaReference_of (f (MediaReference_own m)) (MediaReference_author m)"

definition MediaReference_author_upd :: "(Author option \<Rightarrow> Author option) \<Rightarrow> MediaReference \<Rightarrow> MediaReference" where
  "MediaReference_author_upd f m = MediaReference_of (MediaReference_own m) (f (MediaReference_author m))"

lemmas reference_updates =
  Author_upd_def Author_avatar_upd_def MediaReference_upd_def MediaReference_author_upd_def

lemma reference_updaters:
  "updater u \<Longrightarrow> updater (\<lambda>f. Author_upd (u f))" "updater Author_avatar_upd"
  "updater u' \<Longrightarrow> updater (\<lambda>f. MediaReference_upd (u' f))" "updater MediaReference_author_upd"
  by (simp_all add: updater_def reference_updates)

lemma Author_permissions_push:
  "x\<lparr>Author_permissions := Author_permissions x @ vs\<rparr> = Author_permissions_update (\<lambda>old. old @ vs) x"
  by simp

definition base_Author :: "'r AuthorOf" where
  "base_Author =
     Author_of
       \<lparr>Author_userId = [],
         Author_username = None,
         Author_realName = None,
         Author_permissions = []\<rparr>
       None"

definition base_MediaReference :: MediaReference where
  "base_MediaReference =
     MediaReference_of
       \<lparr>MediaReference_id = [],
         MediaReference_name = None,
         MediaReference_generated = False,
         MediaReference_metadata = None,
         MediaReference_sizes = [],
         MediaReference_url = None,
         MediaReference_description = None,
         MediaReference_visibility = 0\<rparr>
       None"

text \<open>Writing.\<close>

definition encode_Author_with :: "('r \<Rightarrow> bytes \<Rightarrow> bytes result) \<Rightarrow> wire \<Rightarrow> 'r AuthorOf \<Rightarrow> bytes \<Rightarrow> bytes result" where
  "encode_Author_with enc W m =
     write_all
       [write_when (Author_userId (Author_own m) \<noteq> []) (tagged W 10 (put_string W (Author_userId (Author_own m)))),
        write_given (Author_username (Author_own m)) (\<lambda>v. tagged W 18 (put_string W v)),
        write_given (Author_avatar m) (\<lambda>v. nested W 26 (enc v)),
        write_given (Author_realName (Author_own m)) (\<lambda>v. tagged W 34 (put_string W v)),
        packed W 42 (put_int32 W) (Author_permissions (Author_own m))]"

lemma encode_Author_with_cong [fundef_cong]:
  "m = m' \<Longrightarrow> (\<And>x. Author_avatar m' = Some x \<Longrightarrow> enc x = enc' x) \<Longrightarrow>
    encode_Author_with enc W m = encode_Author_with enc' W m'"
  by (simp add: encode_Author_with_def cong: write_given_cong)

lemma reference_smaller:
  "MediaReference_author m = Some a \<Longrightarrow> Author_avatar a = Some x \<Longrightarrow> size x < size m"
  by (cases m; cases a) auto

function encode_MediaReference :: "wire \<Rightarrow> MediaReference \<Rightarrow> bytes \<Rightarrow> bytes result" where
  "encode_MediaReference W m =
     write_all
       [write_when (MediaReference_id (MediaReference_own m) \<noteq> []) (tagged W 18 (put_string W (MediaReference_id (MediaReference_own m)))),
        write_given (MediaReference_name (MediaReference_own m)) (\<lambda>v. tagged W 26 (put_string W v)),
        write_when (MediaReference_generated (MediaReference_own m) \<noteq> False) (tagged W 32 (put_bool W (MediaReference_generated (MediaReference_own m)))),
        write_given (MediaReference_metadata (MediaReference_own m)) (\<lambda>v. nested W 42 (encode_MediaMetadata W v)),
        write_each (MediaReference_sizes (MediaReference_own m)) (\<lambda>v. nested W 50 (encode_MediaSize W v)),
        write_given (MediaReference_url (MediaReference_own m)) (\<lambda>v. tagged W 90 (put_string W v)),
        write_given (MediaReference_description (MediaReference_own m)) (\<lambda>v. tagged W 98 (put_string W v)),
        write_given (MediaReference_author m) (\<lambda>v. nested W 106 (encode_Author_with (encode_MediaReference W) W v)),
        write_when (MediaReference_visibility (MediaReference_own m) \<noteq> 0) (tagged W 112 (put_int32 W (MediaReference_visibility (MediaReference_own m))))]"
  by pat_completeness auto

termination
  by (relation "measure (\<lambda>(W, m). size m)") (auto intro: reference_smaller)

declare encode_MediaReference.simps [simp del]

definition encode_Author :: "wire \<Rightarrow> Author \<Rightarrow> bytes \<Rightarrow> bytes result" where
  "encode_Author W = encode_Author_with (encode_MediaReference W) W"

text \<open>Reading.\<close>

definition switch_Author_with ::
  "(reader \<Rightarrow> int option \<Rightarrow> ('r \<times> reader) run) \<Rightarrow> wire \<Rightarrow> int \<Rightarrow> reader \<Rightarrow> 'r AuthorOf \<Rightarrow> 'r AuthorOf loop_step run"
where
  "switch_Author_with dec W tag r m =
     switch_field tag
       [(1, [(10, read_field (get_string W) (\<lambda>v. Author_upd (Author_userId_update (\<lambda>_. v)) m) r)]),
        (2, [(18, read_field (get_string W) (\<lambda>v. Author_upd (Author_username_update (\<lambda>_. Some v)) m) r)]),
        (3, [(26, read_message W dec (\<lambda>v. Author_avatar_upd (\<lambda>_. Some v) m) r)]),
        (4, [(34, read_field (get_string W) (\<lambda>v. Author_upd (Author_realName_update (\<lambda>_. Some v)) m) r)]),
        (5, [(40, read_field (get_int32 W) (\<lambda>v. Author_upd (Author_permissions_update (\<lambda>old. old @ [v])) m) r), (42, read_packed W (get_int32 W) (Author_permissions (Author_own m)) (\<lambda>vs. Author_upd (Author_permissions_update (\<lambda>_. vs)) m) r)])]"

definition decode_Author_with ::
  "(reader \<Rightarrow> int option \<Rightarrow> ('r \<times> reader) run) \<Rightarrow> wire \<Rightarrow> reader \<Rightarrow> int option \<Rightarrow> ('r AuthorOf \<times> reader) run" where
  "decode_Author_with dec W = decode_message W (switch_Author_with dec W) base_Author"

definition switch_MediaReference_with ::
  "(reader \<Rightarrow> int option \<Rightarrow> (MediaReference \<times> reader) run) \<Rightarrow>
     wire \<Rightarrow> int \<Rightarrow> reader \<Rightarrow> MediaReference \<Rightarrow> MediaReference loop_step run"
where
  "switch_MediaReference_with dec W tag r m =
     switch_field tag
       [(2, [(18, read_field (get_string W) (\<lambda>v. MediaReference_upd (MediaReference_id_update (\<lambda>_. v)) m) r)]),
        (3, [(26, read_field (get_string W) (\<lambda>v. MediaReference_upd (MediaReference_name_update (\<lambda>_. Some v)) m) r)]),
        (4, [(32, read_field (get_bool W) (\<lambda>v. MediaReference_upd (MediaReference_generated_update (\<lambda>_. v)) m) r)]),
        (5, [(42, read_message W (decode_MediaMetadata W) (\<lambda>v. MediaReference_upd (MediaReference_metadata_update (\<lambda>_. Some v)) m) r)]),
        (6, [(50, read_message W (decode_MediaSize W) (\<lambda>v. MediaReference_upd (MediaReference_sizes_update (\<lambda>old. old @ [v])) m) r)]),
        (11, [(90, read_field (get_string W) (\<lambda>v. MediaReference_upd (MediaReference_url_update (\<lambda>_. Some v)) m) r)]),
        (12, [(98, read_field (get_string W) (\<lambda>v. MediaReference_upd (MediaReference_description_update (\<lambda>_. Some v)) m) r)]),
        (13, [(106, read_message W (decode_Author_with dec W) (\<lambda>v. MediaReference_author_upd (\<lambda>_. Some v) m) r)]),
        (14, [(112, read_field (get_int32 W) (\<lambda>v. MediaReference_upd (MediaReference_visibility_update (\<lambda>_. v)) m) r)])]"

lemma switch_Author_with_mono [partial_function_mono]:
  assumes "\<And>r len. mono_option (\<lambda>f. D f r len)"
  shows "mono_option (\<lambda>f. switch_Author_with (D f) W tag r m)"
  unfolding switch_Author_with_def switch_field.simps switch_alternatives.simps
  by (intro partial_function_mono option.const_mono assms)

lemma decode_Author_with_mono [partial_function_mono]:
  assumes "\<And>r len. mono_option (\<lambda>f. D f r len)"
  shows "mono_option (\<lambda>f. decode_Author_with (D f) W r len)"
  unfolding decode_Author_with_def by (intro decode_message_mono switch_Author_with_mono assms)

lemma switch_MediaReference_with_mono [partial_function_mono]:
  assumes "\<And>r len. mono_option (\<lambda>f. D f r len)"
  shows "mono_option (\<lambda>f. switch_MediaReference_with (D f) W tag r m)"
  unfolding switch_MediaReference_with_def switch_field.simps switch_alternatives.simps
  by (intro partial_function_mono decode_Author_with_mono option.const_mono assms)

partial_function (option) decode_MediaReference ::
  "wire \<Rightarrow> reader \<Rightarrow> int option \<Rightarrow> (MediaReference \<times> reader) run" where
  "decode_MediaReference W r len =
     decode_message W (switch_MediaReference_with (\<lambda>r' len'. decode_MediaReference W r' len') W)
       base_MediaReference r len"

definition decode_Author :: "wire \<Rightarrow> reader \<Rightarrow> int option \<Rightarrow> (Author \<times> reader) run" where
  "decode_Author W = decode_Author_with (decode_MediaReference W) W"

text \<open>The round trip, by induction on the size of the message.\<close>

definition safe_Author_with :: "('r \<Rightarrow> bool) \<Rightarrow> wire \<Rightarrow> 'r AuthorOf \<Rightarrow> bool" where
  "safe_Author_with safe W m \<longleftrightarrow> pred_option safe (Author_avatar m)"

lemma safe_Author_with_cong [fundef_cong]:
  "m = m' \<Longrightarrow> (\<And>x. Author_avatar m' = Some x \<Longrightarrow> safe x = safe' x) \<Longrightarrow>
    safe_Author_with safe W m = safe_Author_with safe' W m'"
  by (cases "Author_avatar m'") (simp_all add: safe_Author_with_def)

function safe_MediaReference :: "wire \<Rightarrow> MediaReference \<Rightarrow> bool" where
  "safe_MediaReference W m \<longleftrightarrow>
     pred_option (safe_MediaMetadata W) (MediaReference_metadata (MediaReference_own m)) \<and>
     list_all (safe_MediaSize W) (MediaReference_sizes (MediaReference_own m)) \<and>
     pred_option (safe_Author_with (safe_MediaReference W) W) (MediaReference_author m)"
  by pat_completeness auto

termination
  by (relation "measure (\<lambda>(W, m). size m)") (auto intro: reference_smaller)

declare safe_MediaReference.simps [simp del]

definition safe_Author :: "wire \<Rightarrow> Author \<Rightarrow> bool" where
  "safe_Author W = safe_Author_with (safe_MediaReference W) W"

lemma decodes_Author_with:
  assumes "wire_format W" "safe_Author_with safe W m" "encode_Author_with enc W m [] = Inr b"
    and "\<And>x c. Author_avatar m = Some x \<Longrightarrow> safe x \<Longrightarrow> enc x [] = Inr c \<Longrightarrow> decodes dec x c"
  shows "decodes (decode_Author_with dec W) m b"
  unfolding decode_Author_with_def
proof (rule message_decodes [OF assms(3) [unfolded encode_Author_with_def]])
  show "foldl (\<lambda>m u. u m) base_Author
      [plain (\<lambda>f. Author_upd (Author_userId_update f)) (Author_userId (Author_own m)) [],
       given (\<lambda>f. Author_upd (Author_username_update f)) (Author_username (Author_own m)),
       given Author_avatar_upd (Author_avatar m),
       given (\<lambda>f. Author_upd (Author_realName_update f)) (Author_realName (Author_own m)),
       pushed (\<lambda>f. Author_upd (Author_permissions_update f)) (Author_permissions (Author_own m))] = m"
    by (cases m) (simp add: field_changes base_Author_def reference_updates)
qed (insert assms(1,2), (rule wire_fields reference_updaters assms(4) message_codecs |
    (simp add: updater_def switch_Author_with_def safe_Author_with_def reference_updates list_all_iff Author_permissions_push; fail))+)

lemma decodes_MediaReference [message_codecs]:
  "wire_format W \<Longrightarrow> safe_MediaReference W m \<Longrightarrow> encode_MediaReference W m [] = Inr b \<Longrightarrow>
    decodes (decode_MediaReference W) m b"
proof (induction m arbitrary: b rule: measure_induct_rule [where f = size])
  case (less m)
  have author: "decodes (decode_Author_with (decode_MediaReference W) W) a c"
    if "MediaReference_author m = Some a" "encode_Author_with (encode_MediaReference W) W a [] = Inr c" for a c
  proof (rule decodes_Author_with [OF less.prems(1) _ that(2)])
    show "safe_Author_with (safe_MediaReference W) W a"
      using less.prems(2) that(1) by (simp add: safe_MediaReference.simps [of W m] list_all_iff)
  qed (use less.IH less.prems(1) reference_smaller [OF that(1)] in blast)
  have enc: "write_all
       [write_when (MediaReference_id (MediaReference_own m) \<noteq> []) (tagged W 18 (put_string W (MediaReference_id (MediaReference_own m)))),
        write_given (MediaReference_name (MediaReference_own m)) (\<lambda>v. tagged W 26 (put_string W v)),
        write_when (MediaReference_generated (MediaReference_own m) \<noteq> False) (tagged W 32 (put_bool W (MediaReference_generated (MediaReference_own m)))),
        write_given (MediaReference_metadata (MediaReference_own m)) (\<lambda>v. nested W 42 (encode_MediaMetadata W v)),
        write_each (MediaReference_sizes (MediaReference_own m)) (\<lambda>v. nested W 50 (encode_MediaSize W v)),
        write_given (MediaReference_url (MediaReference_own m)) (\<lambda>v. tagged W 90 (put_string W v)),
        write_given (MediaReference_description (MediaReference_own m)) (\<lambda>v. tagged W 98 (put_string W v)),
        write_given (MediaReference_author m) (\<lambda>v. nested W 106 (encode_Author_with (encode_MediaReference W) W v)),
        write_when (MediaReference_visibility (MediaReference_own m) \<noteq> 0) (tagged W 112 (put_int32 W (MediaReference_visibility (MediaReference_own m))))] [] = Inr b"
    using less.prems(3) unfolding encode_MediaReference.simps [of W m] .
  have dec: "decode_MediaReference W =
      decode_message W (switch_MediaReference_with (decode_MediaReference W) W) base_MediaReference"
    by (intro ext) (rule decode_MediaReference.simps)
  show ?case
  proof (subst dec, rule message_decodes [OF enc])
    show "foldl (\<lambda>m u. u m) base_MediaReference
        [plain (\<lambda>f. MediaReference_upd (MediaReference_id_update f)) (MediaReference_id (MediaReference_own m)) [],
       given (\<lambda>f. MediaReference_upd (MediaReference_name_update f)) (MediaReference_name (MediaReference_own m)),
       plain (\<lambda>f. MediaReference_upd (MediaReference_generated_update f)) (MediaReference_generated (MediaReference_own m)) False,
       given (\<lambda>f. MediaReference_upd (MediaReference_metadata_update f)) (MediaReference_metadata (MediaReference_own m)),
       pushed (\<lambda>f. MediaReference_upd (MediaReference_sizes_update f)) (MediaReference_sizes (MediaReference_own m)),
       given (\<lambda>f. MediaReference_upd (MediaReference_url_update f)) (MediaReference_url (MediaReference_own m)),
       given (\<lambda>f. MediaReference_upd (MediaReference_description_update f)) (MediaReference_description (MediaReference_own m)),
       given MediaReference_author_upd (MediaReference_author m),
       plain (\<lambda>f. MediaReference_upd (MediaReference_visibility_update f)) (MediaReference_visibility (MediaReference_own m)) 0] = m"
      by (cases m) (simp add: field_changes base_MediaReference_def reference_updates)
  qed (insert less.prems(1,2), (rule wire_fields author message_codecs reference_updaters |
      (simp add: updater_def switch_MediaReference_with_def safe_MediaReference.simps [of W m] reference_updates
        list_all_iff; fail))+)
qed

lemma decodes_Author [message_codecs]:
  "wire_format W \<Longrightarrow> safe_Author W m \<Longrightarrow> encode_Author W m [] = Inr b \<Longrightarrow> decodes (decode_Author W) m b"
  unfolding decode_Author_def encode_Author_def safe_Author_def
  using decodes_Author_with [where safe = "safe_MediaReference W" and enc = "encode_MediaReference W"]
    decodes_MediaReference by blast

text \<open>Reading returns: the references and authors inside are shorter.\<close>

lemma settles_Author_with:
  "wire_format W \<Longrightarrow> settles k dec \<Longrightarrow> settles k (decode_Author_with dec W)"
  unfolding decode_Author_with_def
  by (rule wire_format.settles_message, assumption,
      unfold switch_Author_with_def switch_field.simps switch_alternatives.simps)
    (rule wire_ends message_returns | assumption)+

lemma settles_MediaReference [message_returns]: "wire_format W \<Longrightarrow> settles k (decode_MediaReference W)"
proof (induction k)
  case (Suc k)
  have dec: "decode_MediaReference W = decode_message W (switch_MediaReference_with (decode_MediaReference W) W) base_MediaReference"
    by (intro ext) (rule decode_MediaReference.simps)
  have inner: "settles k (decode_Author_with (decode_MediaReference W) W)" "settles k (decode_MediaReference W)"
    using Suc settles_Author_with by blast+
  show ?case
    by (subst dec, rule wire_format.settles_Suc_message [OF Suc.prems],
        unfold switch_MediaReference_with_def switch_field.simps switch_alternatives.simps, insert Suc.prems)
      (rule inner wire_ends message_returns | assumption)+
qed (simp add: settles_def close_def)

lemma settles_Author [message_returns]: "wire_format W \<Longrightarrow> settles k (decode_Author W)"
  unfolding decode_Author_def by (intro settles_Author_with settles_MediaReference)

section \<open>Media\<close>

record Media =
  Media_id :: string
  Media_author :: "Author option"
  Media_name :: "string option"
  Media_description :: "string option"
  Media_visibility :: int
  Media_moderation :: int
  Media_generated :: bool
  Media_processed :: bool
  Media_createdAt :: "string option"
  Media_updatedAt :: "string option"
  Media_metadata :: "MediaMetadata option"
  Media_url :: "string option"
  Media_sizes :: "MediaSize list"

definition base_Media :: Media where
  "base_Media =
     \<lparr>Media_id = [],
      Media_author = None,
      Media_name = None,
      Media_description = None,
      Media_visibility = 0,
      Media_moderation = 0,
      Media_generated = False,
      Media_processed = False,
      Media_createdAt = None,
      Media_updatedAt = None,
      Media_metadata = None,
      Media_url = None,
      Media_sizes = []\<rparr>"

definition encode_Media :: "wire \<Rightarrow> Media \<Rightarrow> bytes \<Rightarrow> bytes result" where
  "encode_Media W m =
     write_all
       [write_when (Media_id m \<noteq> []) (tagged W 10 (put_string W (Media_id m))),
        write_given (Media_author m) (\<lambda>v. nested W 18 (encode_Author W v)),
        write_given (Media_name m) (\<lambda>v. tagged W 34 (put_string W v)),
        write_given (Media_description m) (\<lambda>v. tagged W 42 (put_string W v)),
        write_when (Media_visibility m \<noteq> 0) (tagged W 48 (put_int32 W (Media_visibility m))),
        write_when (Media_moderation m \<noteq> 0) (tagged W 56 (put_int32 W (Media_moderation m))),
        write_when (Media_generated m \<noteq> False) (tagged W 64 (put_bool W (Media_generated m))),
        write_when (Media_processed m \<noteq> False) (tagged W 72 (put_bool W (Media_processed m))),
        write_given (Media_createdAt m) (\<lambda>v. nested W 122 (encode_date W v)),
        write_given (Media_updatedAt m) (\<lambda>v. nested W 130 (encode_date W v)),
        write_given (Media_metadata m) (\<lambda>v. nested W 138 (encode_MediaMetadata W v)),
        write_given (Media_url m) (\<lambda>v. tagged W 146 (put_string W v)),
        write_each (Media_sizes m) (\<lambda>v. nested W 154 (encode_MediaSize W v))]"

definition switch_Media :: "wire \<Rightarrow> int \<Rightarrow> reader \<Rightarrow> Media \<Rightarrow> Media loop_step run" where
  "switch_Media W tag r m =
     switch_field tag
       [(1, [(10, read_field (get_string W) (\<lambda>v. m\<lparr>Media_id := v\<rparr>) r)]),
        (2, [(18, read_message W (decode_Author W) (\<lambda>v. m\<lparr>Media_author := Some v\<rparr>) r)]),
        (4, [(34, read_field (get_string W) (\<lambda>v. m\<lparr>Media_name := Some v\<rparr>) r)]),
        (5, [(42, read_field (get_string W) (\<lambda>v. m\<lparr>Media_description := Some v\<rparr>) r)]),
        (6, [(48, read_field (get_int32 W) (\<lambda>v. m\<lparr>Media_visibility := v\<rparr>) r)]),
        (7, [(56, read_field (get_int32 W) (\<lambda>v. m\<lparr>Media_moderation := v\<rparr>) r)]),
        (8, [(64, read_field (get_bool W) (\<lambda>v. m\<lparr>Media_generated := v\<rparr>) r)]),
        (9, [(72, read_field (get_bool W) (\<lambda>v. m\<lparr>Media_processed := v\<rparr>) r)]),
        (15, [(122, read_message W (decode_date W) (\<lambda>v. m\<lparr>Media_createdAt := Some v\<rparr>) r)]),
        (16, [(130, read_message W (decode_date W) (\<lambda>v. m\<lparr>Media_updatedAt := Some v\<rparr>) r)]),
        (17, [(138, read_message W (decode_MediaMetadata W) (\<lambda>v. m\<lparr>Media_metadata := Some v\<rparr>) r)]),
        (18, [(146, read_field (get_string W) (\<lambda>v. m\<lparr>Media_url := Some v\<rparr>) r)]),
        (19, [(154, read_message W (decode_MediaSize W) (\<lambda>v. Media_sizes_update (\<lambda>old. old @ [v]) m) r)])]"

definition decode_Media :: "wire \<Rightarrow> reader \<Rightarrow> int option \<Rightarrow> (Media \<times> reader) run" where
  "decode_Media W = decode_message W (switch_Media W) base_Media"

definition safe_Media :: "wire \<Rightarrow> Media \<Rightarrow> bool" where
  "safe_Media W m \<longleftrightarrow>
     pred_option (safe_Author W) (Media_author m) \<and>
     pred_option canonical_date (Media_createdAt m) \<and>
     pred_option canonical_date (Media_updatedAt m) \<and>
     pred_option (safe_MediaMetadata W) (Media_metadata m) \<and>
     list_all (safe_MediaSize W) (Media_sizes m)"

lemma builds_Media:
  assumes "wire_format W" "safe_Media W m" "encode_Media W m [] = Inr b"
  shows "builds W (switch_Media W) base_Media m b"
proof (rule message_builds [OF assms(3) [unfolded encode_Media_def]])
  show "foldl (\<lambda>m u. u m) base_Media
      [plain Media_id_update (Media_id m) [],
       given Media_author_update (Media_author m),
       given Media_name_update (Media_name m),
       given Media_description_update (Media_description m),
       plain Media_visibility_update (Media_visibility m) 0,
       plain Media_moderation_update (Media_moderation m) 0,
       plain Media_generated_update (Media_generated m) False,
       plain Media_processed_update (Media_processed m) False,
       given Media_createdAt_update (Media_createdAt m),
       given Media_updatedAt_update (Media_updatedAt m),
       given Media_metadata_update (Media_metadata m),
       given Media_url_update (Media_url m),
       pushed Media_sizes_update (Media_sizes m)] = m"
    by (cases m) (simp add: field_changes base_Media_def)
qed (insert assms(1,2),
    (rule wire_fields message_codecs | (simp add: updater_def switch_Media_def safe_Media_def list_all_iff; fail))+)

lemma decodes_Media [message_codecs]:
  assumes "wire_format W" "safe_Media W m" "encode_Media W m [] = Inr b"
  shows "decodes (decode_Media W) m b"
  unfolding decode_Media_def by (rule builds_decodes [OF builds_Media [OF assms]])

lemma settles_Media [message_returns]: "wire_format W \<Longrightarrow> settles k (decode_Media W)"
  unfolding decode_Media_def
  by (rule wire_format.settles_message, assumption,
      unfold switch_Media_def switch_field.simps switch_alternatives.simps)
    (rule wire_ends message_returns | assumption)+

section \<open>License\<close>

record License =
  License_id :: string
  License_licensedTo :: "Author option"
  License_media :: "MediaReference option"
  License_createdAt :: "string option"
  License_revokedAt :: "string option"

definition base_License :: License where
  "base_License =
     \<lparr>License_id = [],
      License_licensedTo = None,
      License_media = None,
      License_createdAt = None,
      License_revokedAt = None\<rparr>"

definition encode_License :: "wire \<Rightarrow> License \<Rightarrow> bytes \<Rightarrow> bytes result" where
  "encode_License W m =
     write_all
       [write_when (License_id m \<noteq> []) (tagged W 10 (put_string W (License_id m))),
        write_given (License_licensedTo m) (\<lambda>v. nested W 18 (encode_Author W v)),
        write_given (License_media m) (\<lambda>v. nested W 26 (encode_MediaReference W v)),
        write_given (License_createdAt m) (\<lambda>v. nested W 34 (encode_date W v)),
        write_given (License_revokedAt m) (\<lambda>v. nested W 42 (encode_date W v))]"

definition switch_License :: "wire \<Rightarrow> int \<Rightarrow> reader \<Rightarrow> License \<Rightarrow> License loop_step run" where
  "switch_License W tag r m =
     switch_field tag
       [(1, [(10, read_field (get_string W) (\<lambda>v. m\<lparr>License_id := v\<rparr>) r)]),
        (2, [(18, read_message W (decode_Author W) (\<lambda>v. m\<lparr>License_licensedTo := Some v\<rparr>) r)]),
        (3, [(26, read_message W (decode_MediaReference W) (\<lambda>v. m\<lparr>License_media := Some v\<rparr>) r)]),
        (4, [(34, read_message W (decode_date W) (\<lambda>v. m\<lparr>License_createdAt := Some v\<rparr>) r)]),
        (5, [(42, read_message W (decode_date W) (\<lambda>v. m\<lparr>License_revokedAt := Some v\<rparr>) r)])]"

definition decode_License :: "wire \<Rightarrow> reader \<Rightarrow> int option \<Rightarrow> (License \<times> reader) run" where
  "decode_License W = decode_message W (switch_License W) base_License"

definition safe_License :: "wire \<Rightarrow> License \<Rightarrow> bool" where
  "safe_License W m \<longleftrightarrow>
     pred_option (safe_Author W) (License_licensedTo m) \<and>
     pred_option (safe_MediaReference W) (License_media m) \<and>
     pred_option canonical_date (License_createdAt m) \<and>
     pred_option canonical_date (License_revokedAt m)"

lemma builds_License:
  assumes "wire_format W" "safe_License W m" "encode_License W m [] = Inr b"
  shows "builds W (switch_License W) base_License m b"
proof (rule message_builds [OF assms(3) [unfolded encode_License_def]])
  show "foldl (\<lambda>m u. u m) base_License
      [plain License_id_update (License_id m) [],
       given License_licensedTo_update (License_licensedTo m),
       given License_media_update (License_media m),
       given License_createdAt_update (License_createdAt m),
       given License_revokedAt_update (License_revokedAt m)] = m"
    by (cases m) (simp add: field_changes base_License_def)
qed (insert assms(1,2),
    (rule wire_fields message_codecs | (simp add: updater_def switch_License_def safe_License_def list_all_iff; fail))+)

lemma decodes_License [message_codecs]:
  assumes "wire_format W" "safe_License W m" "encode_License W m [] = Inr b"
  shows "decodes (decode_License W) m b"
  unfolding decode_License_def by (rule builds_decodes [OF builds_License [OF assms]])

lemma settles_License [message_returns]: "wire_format W \<Longrightarrow> settles k (decode_License W)"
  unfolding decode_License_def
  by (rule wire_format.settles_message, assumption,
      unfold switch_License_def switch_field.simps switch_alternatives.simps)
    (rule wire_ends message_returns | assumption)+

section \<open>GetMediaRequest\<close>

record GetMediaRequest =
  GetMediaRequest_mediaId :: "string option"
  GetMediaRequest_userId :: "string option"
  GetMediaRequest_contentType :: "string option"
  GetMediaRequest_searchText :: "string option"
  GetMediaRequest_page :: int

definition base_GetMediaRequest :: GetMediaRequest where
  "base_GetMediaRequest =
     \<lparr>GetMediaRequest_mediaId = None,
      GetMediaRequest_userId = None,
      GetMediaRequest_contentType = None,
      GetMediaRequest_searchText = None,
      GetMediaRequest_page = 0\<rparr>"

definition encode_GetMediaRequest :: "wire \<Rightarrow> GetMediaRequest \<Rightarrow> bytes \<Rightarrow> bytes result" where
  "encode_GetMediaRequest W m =
     write_all
       [write_given (GetMediaRequest_mediaId m) (\<lambda>v. tagged W 10 (put_string W v)),
        write_given (GetMediaRequest_userId m) (\<lambda>v. tagged W 18 (put_string W v)),
        write_given (GetMediaRequest_contentType m) (\<lambda>v. tagged W 26 (put_string W v)),
        write_given (GetMediaRequest_searchText m) (\<lambda>v. tagged W 34 (put_string W v)),
        write_when (GetMediaRequest_page m \<noteq> 0) (tagged W 88 (put_uint32 W (GetMediaRequest_page m)))]"

definition switch_GetMediaRequest :: "wire \<Rightarrow> int \<Rightarrow> reader \<Rightarrow> GetMediaRequest \<Rightarrow> GetMediaRequest loop_step run" where
  "switch_GetMediaRequest W tag r m =
     switch_field tag
       [(1, [(10, read_field (get_string W) (\<lambda>v. m\<lparr>GetMediaRequest_mediaId := Some v\<rparr>) r)]),
        (2, [(18, read_field (get_string W) (\<lambda>v. m\<lparr>GetMediaRequest_userId := Some v\<rparr>) r)]),
        (3, [(26, read_field (get_string W) (\<lambda>v. m\<lparr>GetMediaRequest_contentType := Some v\<rparr>) r)]),
        (4, [(34, read_field (get_string W) (\<lambda>v. m\<lparr>GetMediaRequest_searchText := Some v\<rparr>) r)]),
        (11, [(88, read_field (get_uint32 W) (\<lambda>v. m\<lparr>GetMediaRequest_page := v\<rparr>) r)])]"

definition decode_GetMediaRequest :: "wire \<Rightarrow> reader \<Rightarrow> int option \<Rightarrow> (GetMediaRequest \<times> reader) run" where
  "decode_GetMediaRequest W = decode_message W (switch_GetMediaRequest W) base_GetMediaRequest"

lemma builds_GetMediaRequest:
  assumes "wire_format W" "encode_GetMediaRequest W m [] = Inr b"
  shows "builds W (switch_GetMediaRequest W) base_GetMediaRequest m b"
proof (rule message_builds [OF assms(2) [unfolded encode_GetMediaRequest_def]])
  show "foldl (\<lambda>m u. u m) base_GetMediaRequest
      [given GetMediaRequest_mediaId_update (GetMediaRequest_mediaId m),
       given GetMediaRequest_userId_update (GetMediaRequest_userId m),
       given GetMediaRequest_contentType_update (GetMediaRequest_contentType m),
       given GetMediaRequest_searchText_update (GetMediaRequest_searchText m),
       plain GetMediaRequest_page_update (GetMediaRequest_page m) 0] = m"
    by (cases m) (simp add: field_changes base_GetMediaRequest_def)
qed (insert assms(1),
    (rule wire_fields message_codecs | (simp add: updater_def switch_GetMediaRequest_def list_all_iff; fail))+)

lemma decodes_GetMediaRequest [message_codecs]:
  assumes "wire_format W" "encode_GetMediaRequest W m [] = Inr b"
  shows "decodes (decode_GetMediaRequest W) m b"
  unfolding decode_GetMediaRequest_def by (rule builds_decodes [OF builds_GetMediaRequest [OF assms]])

lemma settles_GetMediaRequest [message_returns]: "wire_format W \<Longrightarrow> settles k (decode_GetMediaRequest W)"
  unfolding decode_GetMediaRequest_def
  by (rule wire_format.settles_message, assumption,
      unfold switch_GetMediaRequest_def switch_field.simps switch_alternatives.simps)
    (rule wire_ends message_returns | assumption)+

section \<open>GetMediaResponse\<close>

record GetMediaResponse =
  GetMediaResponse_media :: "Media list"
  GetMediaResponse_hasNextPage :: bool

definition base_GetMediaResponse :: GetMediaResponse where
  "base_GetMediaResponse =
     \<lparr>GetMediaResponse_media = [],
      GetMediaResponse_hasNextPage = False\<rparr>"

definition encode_GetMediaResponse :: "wire \<Rightarrow> GetMediaResponse \<Rightarrow> bytes \<Rightarrow> bytes result" where
  "encode_GetMediaResponse W m =
     write_all
       [write_each (GetMediaResponse_media m) (\<lambda>v. nested W 10 (encode_Media W v)),
        write_when (GetMediaResponse_hasNextPage m \<noteq> False) (tagged W 16 (put_bool W (GetMediaResponse_hasNextPage m)))]"

definition switch_GetMediaResponse :: "wire \<Rightarrow> int \<Rightarrow> reader \<Rightarrow> GetMediaResponse \<Rightarrow> GetMediaResponse loop_step run" where
  "switch_GetMediaResponse W tag r m =
     switch_field tag
       [(1, [(10, read_message W (decode_Media W) (\<lambda>v. GetMediaResponse_media_update (\<lambda>old. old @ [v]) m) r)]),
        (2, [(16, read_field (get_bool W) (\<lambda>v. m\<lparr>GetMediaResponse_hasNextPage := v\<rparr>) r)])]"

definition decode_GetMediaResponse :: "wire \<Rightarrow> reader \<Rightarrow> int option \<Rightarrow> (GetMediaResponse \<times> reader) run" where
  "decode_GetMediaResponse W = decode_message W (switch_GetMediaResponse W) base_GetMediaResponse"

definition safe_GetMediaResponse :: "wire \<Rightarrow> GetMediaResponse \<Rightarrow> bool" where
  "safe_GetMediaResponse W m \<longleftrightarrow>
     list_all (safe_Media W) (GetMediaResponse_media m)"

lemma builds_GetMediaResponse:
  assumes "wire_format W" "safe_GetMediaResponse W m" "encode_GetMediaResponse W m [] = Inr b"
  shows "builds W (switch_GetMediaResponse W) base_GetMediaResponse m b"
proof (rule message_builds [OF assms(3) [unfolded encode_GetMediaResponse_def]])
  show "foldl (\<lambda>m u. u m) base_GetMediaResponse
      [pushed GetMediaResponse_media_update (GetMediaResponse_media m),
       plain GetMediaResponse_hasNextPage_update (GetMediaResponse_hasNextPage m) False] = m"
    by (cases m) (simp add: field_changes base_GetMediaResponse_def)
qed (insert assms(1,2),
    (rule wire_fields message_codecs | (simp add: updater_def switch_GetMediaResponse_def safe_GetMediaResponse_def list_all_iff; fail))+)

lemma decodes_GetMediaResponse [message_codecs]:
  assumes "wire_format W" "safe_GetMediaResponse W m" "encode_GetMediaResponse W m [] = Inr b"
  shows "decodes (decode_GetMediaResponse W) m b"
  unfolding decode_GetMediaResponse_def by (rule builds_decodes [OF builds_GetMediaResponse [OF assms]])

lemma settles_GetMediaResponse [message_returns]: "wire_format W \<Longrightarrow> settles k (decode_GetMediaResponse W)"
  unfolding decode_GetMediaResponse_def
  by (rule wire_format.settles_message, assumption,
      unfold switch_GetMediaResponse_def switch_field.simps switch_alternatives.simps)
    (rule wire_ends message_returns | assumption)+

end
