(* ===== verification/Wire_Ai_Providers.thy ===== *)
theory Wire_Ai_Providers
  imports Wire_Media
begin

text \<open>
  The codecs of packages/api/generated/ai_providers.ts: of each message the record, the empty message, writing, reading, and that
  reading what was written gives the message back.
\<close>

section \<open>AIProviderGrant\<close>

record AIProviderGrant =
  AIProviderGrant_aiProviderId :: string
  AIProviderGrant_aiModelGrantee :: "Author option"
  AIProviderGrant_modelNames :: "string list"
  AIProviderGrant_tokensRemaining :: int
  AIProviderGrant_overage :: int
  AIProviderGrant_createdAt :: "string option"
  AIProviderGrant_updatedAt :: "string option"

definition base_AIProviderGrant :: AIProviderGrant where
  "base_AIProviderGrant =
     \<lparr>AIProviderGrant_aiProviderId = [],
      AIProviderGrant_aiModelGrantee = None,
      AIProviderGrant_modelNames = [],
      AIProviderGrant_tokensRemaining = 0,
      AIProviderGrant_overage = 0,
      AIProviderGrant_createdAt = None,
      AIProviderGrant_updatedAt = None\<rparr>"

definition encode_AIProviderGrant :: "wire \<Rightarrow> AIProviderGrant \<Rightarrow> bytes \<Rightarrow> bytes result" where
  "encode_AIProviderGrant W m =
     write_all
       [write_when (AIProviderGrant_aiProviderId m \<noteq> []) (tagged W 10 (put_string W (AIProviderGrant_aiProviderId m))),
        write_given (AIProviderGrant_aiModelGrantee m) (\<lambda>v. nested W 18 (encode_Author W v)),
        write_each (AIProviderGrant_modelNames m) (\<lambda>v. tagged W 26 (put_string W v)),
        write_when (AIProviderGrant_tokensRemaining m \<noteq> 0) (tagged W 32 (put_uint64 W (AIProviderGrant_tokensRemaining m))),
        write_when (AIProviderGrant_overage m \<noteq> 0) (tagged W 40 (put_uint64 W (AIProviderGrant_overage m))),
        write_given (AIProviderGrant_createdAt m) (\<lambda>v. nested W 122 (encode_date W v)),
        write_given (AIProviderGrant_updatedAt m) (\<lambda>v. nested W 130 (encode_date W v))]"

definition switch_AIProviderGrant :: "wire \<Rightarrow> int \<Rightarrow> reader \<Rightarrow> AIProviderGrant \<Rightarrow> AIProviderGrant loop_step run" where
  "switch_AIProviderGrant W tag r m =
     switch_field tag
       [(1, [(10, read_field (get_string W) (\<lambda>v. m\<lparr>AIProviderGrant_aiProviderId := v\<rparr>) r)]),
        (2, [(18, read_message W (decode_Author W) (\<lambda>v. m\<lparr>AIProviderGrant_aiModelGrantee := Some v\<rparr>) r)]),
        (3, [(26, read_field (get_string W) (\<lambda>v. AIProviderGrant_modelNames_update (\<lambda>old. old @ [v]) m) r)]),
        (4, [(32, read_field (get_long (get_uint64 W)) (\<lambda>v. m\<lparr>AIProviderGrant_tokensRemaining := v\<rparr>) r)]),
        (5, [(40, read_field (get_long (get_uint64 W)) (\<lambda>v. m\<lparr>AIProviderGrant_overage := v\<rparr>) r)]),
        (15, [(122, read_message W (decode_date W) (\<lambda>v. m\<lparr>AIProviderGrant_createdAt := Some v\<rparr>) r)]),
        (16, [(130, read_message W (decode_date W) (\<lambda>v. m\<lparr>AIProviderGrant_updatedAt := Some v\<rparr>) r)])]"

definition decode_AIProviderGrant :: "wire \<Rightarrow> reader \<Rightarrow> int option \<Rightarrow> (AIProviderGrant \<times> reader) run" where
  "decode_AIProviderGrant W = decode_message W (switch_AIProviderGrant W) base_AIProviderGrant"

definition safe_AIProviderGrant :: "wire \<Rightarrow> AIProviderGrant \<Rightarrow> bool" where
  "safe_AIProviderGrant W m \<longleftrightarrow>
     pred_option (safe_Author W) (AIProviderGrant_aiModelGrantee m) \<and>
     safe_long (AIProviderGrant_tokensRemaining m) \<and>
     safe_long (AIProviderGrant_overage m) \<and>
     pred_option canonical_date (AIProviderGrant_createdAt m) \<and>
     pred_option canonical_date (AIProviderGrant_updatedAt m)"

lemma builds_AIProviderGrant:
  assumes "wire_format W" "safe_AIProviderGrant W m" "encode_AIProviderGrant W m [] = Inr b"
  shows "builds W (switch_AIProviderGrant W) base_AIProviderGrant m b"
proof (rule message_builds [OF assms(3) [unfolded encode_AIProviderGrant_def]])
  show "foldl (\<lambda>m u. u m) base_AIProviderGrant
      [plain AIProviderGrant_aiProviderId_update (AIProviderGrant_aiProviderId m) [],
       given AIProviderGrant_aiModelGrantee_update (AIProviderGrant_aiModelGrantee m),
       pushed AIProviderGrant_modelNames_update (AIProviderGrant_modelNames m),
       plain AIProviderGrant_tokensRemaining_update (AIProviderGrant_tokensRemaining m) 0,
       plain AIProviderGrant_overage_update (AIProviderGrant_overage m) 0,
       given AIProviderGrant_createdAt_update (AIProviderGrant_createdAt m),
       given AIProviderGrant_updatedAt_update (AIProviderGrant_updatedAt m)] = m"
    by (cases m) (simp add: field_changes base_AIProviderGrant_def)
qed (insert assms(1,2),
    (rule wire_fields message_codecs | (simp add: updater_def switch_AIProviderGrant_def safe_AIProviderGrant_def list_all_iff; fail))+)

lemma decodes_AIProviderGrant [message_codecs]:
  assumes "wire_format W" "safe_AIProviderGrant W m" "encode_AIProviderGrant W m [] = Inr b"
  shows "decodes (decode_AIProviderGrant W) m b"
  unfolding decode_AIProviderGrant_def by (rule builds_decodes [OF builds_AIProviderGrant [OF assms]])

lemma settles_AIProviderGrant [message_returns]: "wire_format W \<Longrightarrow> settles k (decode_AIProviderGrant W)"
  unfolding decode_AIProviderGrant_def
  by (rule wire_format.settles_message, assumption,
      unfold switch_AIProviderGrant_def switch_field.simps switch_alternatives.simps)
    (rule wire_ends message_returns | assumption)+

section \<open>AnthropicCredentials\<close>

record AnthropicCredentials =
  AnthropicCredentials_anthropicApiKey :: "string option"

definition base_AnthropicCredentials :: AnthropicCredentials where
  "base_AnthropicCredentials =
     \<lparr>AnthropicCredentials_anthropicApiKey = None\<rparr>"

definition encode_AnthropicCredentials :: "wire \<Rightarrow> AnthropicCredentials \<Rightarrow> bytes \<Rightarrow> bytes result" where
  "encode_AnthropicCredentials W m =
     write_all
       [write_given (AnthropicCredentials_anthropicApiKey m) (\<lambda>v. tagged W 10 (put_string W v))]"

definition switch_AnthropicCredentials :: "wire \<Rightarrow> int \<Rightarrow> reader \<Rightarrow> AnthropicCredentials \<Rightarrow> AnthropicCredentials loop_step run" where
  "switch_AnthropicCredentials W tag r m =
     switch_field tag
       [(1, [(10, read_field (get_string W) (\<lambda>v. m\<lparr>AnthropicCredentials_anthropicApiKey := Some v\<rparr>) r)])]"

definition decode_AnthropicCredentials :: "wire \<Rightarrow> reader \<Rightarrow> int option \<Rightarrow> (AnthropicCredentials \<times> reader) run" where
  "decode_AnthropicCredentials W = decode_message W (switch_AnthropicCredentials W) base_AnthropicCredentials"

lemma builds_AnthropicCredentials:
  assumes "wire_format W" "encode_AnthropicCredentials W m [] = Inr b"
  shows "builds W (switch_AnthropicCredentials W) base_AnthropicCredentials m b"
proof (rule message_builds [OF assms(2) [unfolded encode_AnthropicCredentials_def]])
  show "foldl (\<lambda>m u. u m) base_AnthropicCredentials
      [given AnthropicCredentials_anthropicApiKey_update (AnthropicCredentials_anthropicApiKey m)] = m"
    by (cases m) (simp add: field_changes base_AnthropicCredentials_def)
qed (insert assms(1),
    (rule wire_fields message_codecs | (simp add: updater_def switch_AnthropicCredentials_def list_all_iff; fail))+)

lemma decodes_AnthropicCredentials [message_codecs]:
  assumes "wire_format W" "encode_AnthropicCredentials W m [] = Inr b"
  shows "decodes (decode_AnthropicCredentials W) m b"
  unfolding decode_AnthropicCredentials_def by (rule builds_decodes [OF builds_AnthropicCredentials [OF assms]])

lemma settles_AnthropicCredentials [message_returns]: "wire_format W \<Longrightarrow> settles k (decode_AnthropicCredentials W)"
  unfolding decode_AnthropicCredentials_def
  by (rule wire_format.settles_message, assumption,
      unfold switch_AnthropicCredentials_def switch_field.simps switch_alternatives.simps)
    (rule wire_ends message_returns | assumption)+

section \<open>DigitalOceanCredentials\<close>

record DigitalOceanCredentials =
  DigitalOceanCredentials_digitaloceanApiKey :: "string option"

definition base_DigitalOceanCredentials :: DigitalOceanCredentials where
  "base_DigitalOceanCredentials =
     \<lparr>DigitalOceanCredentials_digitaloceanApiKey = None\<rparr>"

definition encode_DigitalOceanCredentials :: "wire \<Rightarrow> DigitalOceanCredentials \<Rightarrow> bytes \<Rightarrow> bytes result" where
  "encode_DigitalOceanCredentials W m =
     write_all
       [write_given (DigitalOceanCredentials_digitaloceanApiKey m) (\<lambda>v. tagged W 10 (put_string W v))]"

definition switch_DigitalOceanCredentials :: "wire \<Rightarrow> int \<Rightarrow> reader \<Rightarrow> DigitalOceanCredentials \<Rightarrow> DigitalOceanCredentials loop_step run" where
  "switch_DigitalOceanCredentials W tag r m =
     switch_field tag
       [(1, [(10, read_field (get_string W) (\<lambda>v. m\<lparr>DigitalOceanCredentials_digitaloceanApiKey := Some v\<rparr>) r)])]"

definition decode_DigitalOceanCredentials :: "wire \<Rightarrow> reader \<Rightarrow> int option \<Rightarrow> (DigitalOceanCredentials \<times> reader) run" where
  "decode_DigitalOceanCredentials W = decode_message W (switch_DigitalOceanCredentials W) base_DigitalOceanCredentials"

lemma builds_DigitalOceanCredentials:
  assumes "wire_format W" "encode_DigitalOceanCredentials W m [] = Inr b"
  shows "builds W (switch_DigitalOceanCredentials W) base_DigitalOceanCredentials m b"
proof (rule message_builds [OF assms(2) [unfolded encode_DigitalOceanCredentials_def]])
  show "foldl (\<lambda>m u. u m) base_DigitalOceanCredentials
      [given DigitalOceanCredentials_digitaloceanApiKey_update (DigitalOceanCredentials_digitaloceanApiKey m)] = m"
    by (cases m) (simp add: field_changes base_DigitalOceanCredentials_def)
qed (insert assms(1),
    (rule wire_fields message_codecs | (simp add: updater_def switch_DigitalOceanCredentials_def list_all_iff; fail))+)

lemma decodes_DigitalOceanCredentials [message_codecs]:
  assumes "wire_format W" "encode_DigitalOceanCredentials W m [] = Inr b"
  shows "decodes (decode_DigitalOceanCredentials W) m b"
  unfolding decode_DigitalOceanCredentials_def by (rule builds_decodes [OF builds_DigitalOceanCredentials [OF assms]])

lemma settles_DigitalOceanCredentials [message_returns]: "wire_format W \<Longrightarrow> settles k (decode_DigitalOceanCredentials W)"
  unfolding decode_DigitalOceanCredentials_def
  by (rule wire_format.settles_message, assumption,
      unfold switch_DigitalOceanCredentials_def switch_field.simps switch_alternatives.simps)
    (rule wire_ends message_returns | assumption)+

section \<open>GeminiCredentials\<close>

record GeminiCredentials =
  GeminiCredentials_geminiApiKey :: "string option"

definition base_GeminiCredentials :: GeminiCredentials where
  "base_GeminiCredentials =
     \<lparr>GeminiCredentials_geminiApiKey = None\<rparr>"

definition encode_GeminiCredentials :: "wire \<Rightarrow> GeminiCredentials \<Rightarrow> bytes \<Rightarrow> bytes result" where
  "encode_GeminiCredentials W m =
     write_all
       [write_given (GeminiCredentials_geminiApiKey m) (\<lambda>v. tagged W 10 (put_string W v))]"

definition switch_GeminiCredentials :: "wire \<Rightarrow> int \<Rightarrow> reader \<Rightarrow> GeminiCredentials \<Rightarrow> GeminiCredentials loop_step run" where
  "switch_GeminiCredentials W tag r m =
     switch_field tag
       [(1, [(10, read_field (get_string W) (\<lambda>v. m\<lparr>GeminiCredentials_geminiApiKey := Some v\<rparr>) r)])]"

definition decode_GeminiCredentials :: "wire \<Rightarrow> reader \<Rightarrow> int option \<Rightarrow> (GeminiCredentials \<times> reader) run" where
  "decode_GeminiCredentials W = decode_message W (switch_GeminiCredentials W) base_GeminiCredentials"

lemma builds_GeminiCredentials:
  assumes "wire_format W" "encode_GeminiCredentials W m [] = Inr b"
  shows "builds W (switch_GeminiCredentials W) base_GeminiCredentials m b"
proof (rule message_builds [OF assms(2) [unfolded encode_GeminiCredentials_def]])
  show "foldl (\<lambda>m u. u m) base_GeminiCredentials
      [given GeminiCredentials_geminiApiKey_update (GeminiCredentials_geminiApiKey m)] = m"
    by (cases m) (simp add: field_changes base_GeminiCredentials_def)
qed (insert assms(1),
    (rule wire_fields message_codecs | (simp add: updater_def switch_GeminiCredentials_def list_all_iff; fail))+)

lemma decodes_GeminiCredentials [message_codecs]:
  assumes "wire_format W" "encode_GeminiCredentials W m [] = Inr b"
  shows "decodes (decode_GeminiCredentials W) m b"
  unfolding decode_GeminiCredentials_def by (rule builds_decodes [OF builds_GeminiCredentials [OF assms]])

lemma settles_GeminiCredentials [message_returns]: "wire_format W \<Longrightarrow> settles k (decode_GeminiCredentials W)"
  unfolding decode_GeminiCredentials_def
  by (rule wire_format.settles_message, assumption,
      unfold switch_GeminiCredentials_def switch_field.simps switch_alternatives.simps)
    (rule wire_ends message_returns | assumption)+

section \<open>OpenAICredentials\<close>

record OpenAICredentials =
  OpenAICredentials_openaiApiKey :: "string option"

definition base_OpenAICredentials :: OpenAICredentials where
  "base_OpenAICredentials =
     \<lparr>OpenAICredentials_openaiApiKey = None\<rparr>"

definition encode_OpenAICredentials :: "wire \<Rightarrow> OpenAICredentials \<Rightarrow> bytes \<Rightarrow> bytes result" where
  "encode_OpenAICredentials W m =
     write_all
       [write_given (OpenAICredentials_openaiApiKey m) (\<lambda>v. tagged W 10 (put_string W v))]"

definition switch_OpenAICredentials :: "wire \<Rightarrow> int \<Rightarrow> reader \<Rightarrow> OpenAICredentials \<Rightarrow> OpenAICredentials loop_step run" where
  "switch_OpenAICredentials W tag r m =
     switch_field tag
       [(1, [(10, read_field (get_string W) (\<lambda>v. m\<lparr>OpenAICredentials_openaiApiKey := Some v\<rparr>) r)])]"

definition decode_OpenAICredentials :: "wire \<Rightarrow> reader \<Rightarrow> int option \<Rightarrow> (OpenAICredentials \<times> reader) run" where
  "decode_OpenAICredentials W = decode_message W (switch_OpenAICredentials W) base_OpenAICredentials"

lemma builds_OpenAICredentials:
  assumes "wire_format W" "encode_OpenAICredentials W m [] = Inr b"
  shows "builds W (switch_OpenAICredentials W) base_OpenAICredentials m b"
proof (rule message_builds [OF assms(2) [unfolded encode_OpenAICredentials_def]])
  show "foldl (\<lambda>m u. u m) base_OpenAICredentials
      [given OpenAICredentials_openaiApiKey_update (OpenAICredentials_openaiApiKey m)] = m"
    by (cases m) (simp add: field_changes base_OpenAICredentials_def)
qed (insert assms(1),
    (rule wire_fields message_codecs | (simp add: updater_def switch_OpenAICredentials_def list_all_iff; fail))+)

lemma decodes_OpenAICredentials [message_codecs]:
  assumes "wire_format W" "encode_OpenAICredentials W m [] = Inr b"
  shows "decodes (decode_OpenAICredentials W) m b"
  unfolding decode_OpenAICredentials_def by (rule builds_decodes [OF builds_OpenAICredentials [OF assms]])

lemma settles_OpenAICredentials [message_returns]: "wire_format W \<Longrightarrow> settles k (decode_OpenAICredentials W)"
  unfolding decode_OpenAICredentials_def
  by (rule wire_format.settles_message, assumption,
      unfold switch_OpenAICredentials_def switch_field.simps switch_alternatives.simps)
    (rule wire_ends message_returns | assumption)+

section \<open>AIProvider\<close>

record AIProvider =
  AIProvider_id :: string
  AIProvider_owner :: "Author option"
  AIProvider_name :: string
  AIProvider_geminiCredentials :: "GeminiCredentials option"
  AIProvider_openaiCredentials :: "OpenAICredentials option"
  AIProvider_anthropicCredentials :: "AnthropicCredentials option"
  AIProvider_digitaloceanCredentials :: "DigitalOceanCredentials option"
  AIProvider_grants :: "AIProviderGrant list"
  AIProvider_createdAt :: "string option"
  AIProvider_updatedAt :: "string option"

definition base_AIProvider :: AIProvider where
  "base_AIProvider =
     \<lparr>AIProvider_id = [],
      AIProvider_owner = None,
      AIProvider_name = [],
      AIProvider_geminiCredentials = None,
      AIProvider_openaiCredentials = None,
      AIProvider_anthropicCredentials = None,
      AIProvider_digitaloceanCredentials = None,
      AIProvider_grants = [],
      AIProvider_createdAt = None,
      AIProvider_updatedAt = None\<rparr>"

definition encode_AIProvider :: "wire \<Rightarrow> AIProvider \<Rightarrow> bytes \<Rightarrow> bytes result" where
  "encode_AIProvider W m =
     write_all
       [write_when (AIProvider_id m \<noteq> []) (tagged W 10 (put_string W (AIProvider_id m))),
        write_given (AIProvider_owner m) (\<lambda>v. nested W 18 (encode_Author W v)),
        write_when (AIProvider_name m \<noteq> []) (tagged W 26 (put_string W (AIProvider_name m))),
        write_given (AIProvider_geminiCredentials m) (\<lambda>v. nested W 34 (encode_GeminiCredentials W v)),
        write_given (AIProvider_openaiCredentials m) (\<lambda>v. nested W 42 (encode_OpenAICredentials W v)),
        write_given (AIProvider_anthropicCredentials m) (\<lambda>v. nested W 50 (encode_AnthropicCredentials W v)),
        write_given (AIProvider_digitaloceanCredentials m) (\<lambda>v. nested W 58 (encode_DigitalOceanCredentials W v)),
        write_each (AIProvider_grants m) (\<lambda>v. nested W 114 (encode_AIProviderGrant W v)),
        write_given (AIProvider_createdAt m) (\<lambda>v. nested W 122 (encode_date W v)),
        write_given (AIProvider_updatedAt m) (\<lambda>v. nested W 130 (encode_date W v))]"

definition switch_AIProvider :: "wire \<Rightarrow> int \<Rightarrow> reader \<Rightarrow> AIProvider \<Rightarrow> AIProvider loop_step run" where
  "switch_AIProvider W tag r m =
     switch_field tag
       [(1, [(10, read_field (get_string W) (\<lambda>v. m\<lparr>AIProvider_id := v\<rparr>) r)]),
        (2, [(18, read_message W (decode_Author W) (\<lambda>v. m\<lparr>AIProvider_owner := Some v\<rparr>) r)]),
        (3, [(26, read_field (get_string W) (\<lambda>v. m\<lparr>AIProvider_name := v\<rparr>) r)]),
        (4, [(34, read_message W (decode_GeminiCredentials W) (\<lambda>v. m\<lparr>AIProvider_geminiCredentials := Some v\<rparr>) r)]),
        (5, [(42, read_message W (decode_OpenAICredentials W) (\<lambda>v. m\<lparr>AIProvider_openaiCredentials := Some v\<rparr>) r)]),
        (6, [(50, read_message W (decode_AnthropicCredentials W) (\<lambda>v. m\<lparr>AIProvider_anthropicCredentials := Some v\<rparr>) r)]),
        (7, [(58, read_message W (decode_DigitalOceanCredentials W) (\<lambda>v. m\<lparr>AIProvider_digitaloceanCredentials := Some v\<rparr>) r)]),
        (14, [(114, read_message W (decode_AIProviderGrant W) (\<lambda>v. AIProvider_grants_update (\<lambda>old. old @ [v]) m) r)]),
        (15, [(122, read_message W (decode_date W) (\<lambda>v. m\<lparr>AIProvider_createdAt := Some v\<rparr>) r)]),
        (16, [(130, read_message W (decode_date W) (\<lambda>v. m\<lparr>AIProvider_updatedAt := Some v\<rparr>) r)])]"

definition decode_AIProvider :: "wire \<Rightarrow> reader \<Rightarrow> int option \<Rightarrow> (AIProvider \<times> reader) run" where
  "decode_AIProvider W = decode_message W (switch_AIProvider W) base_AIProvider"

definition safe_AIProvider :: "wire \<Rightarrow> AIProvider \<Rightarrow> bool" where
  "safe_AIProvider W m \<longleftrightarrow>
     pred_option (safe_Author W) (AIProvider_owner m) \<and>
     list_all (safe_AIProviderGrant W) (AIProvider_grants m) \<and>
     pred_option canonical_date (AIProvider_createdAt m) \<and>
     pred_option canonical_date (AIProvider_updatedAt m)"

lemma builds_AIProvider:
  assumes "wire_format W" "safe_AIProvider W m" "encode_AIProvider W m [] = Inr b"
  shows "builds W (switch_AIProvider W) base_AIProvider m b"
proof (rule message_builds [OF assms(3) [unfolded encode_AIProvider_def]])
  show "foldl (\<lambda>m u. u m) base_AIProvider
      [plain AIProvider_id_update (AIProvider_id m) [],
       given AIProvider_owner_update (AIProvider_owner m),
       plain AIProvider_name_update (AIProvider_name m) [],
       given AIProvider_geminiCredentials_update (AIProvider_geminiCredentials m),
       given AIProvider_openaiCredentials_update (AIProvider_openaiCredentials m),
       given AIProvider_anthropicCredentials_update (AIProvider_anthropicCredentials m),
       given AIProvider_digitaloceanCredentials_update (AIProvider_digitaloceanCredentials m),
       pushed AIProvider_grants_update (AIProvider_grants m),
       given AIProvider_createdAt_update (AIProvider_createdAt m),
       given AIProvider_updatedAt_update (AIProvider_updatedAt m)] = m"
    by (cases m) (simp add: field_changes base_AIProvider_def)
qed (insert assms(1,2),
    (rule wire_fields message_codecs | (simp add: updater_def switch_AIProvider_def safe_AIProvider_def list_all_iff; fail))+)

lemma decodes_AIProvider [message_codecs]:
  assumes "wire_format W" "safe_AIProvider W m" "encode_AIProvider W m [] = Inr b"
  shows "decodes (decode_AIProvider W) m b"
  unfolding decode_AIProvider_def by (rule builds_decodes [OF builds_AIProvider [OF assms]])

lemma settles_AIProvider [message_returns]: "wire_format W \<Longrightarrow> settles k (decode_AIProvider W)"
  unfolding decode_AIProvider_def
  by (rule wire_format.settles_message, assumption,
      unfold switch_AIProvider_def switch_field.simps switch_alternatives.simps)
    (rule wire_ends message_returns | assumption)+

section \<open>AIModel\<close>

record AIModel =
  AIModel_modelName :: string
  AIModel_capabilities :: "int list"
  AIModel_grant :: "AIProviderGrant option"
  AIModel_provider :: "AIProvider option"

definition base_AIModel :: AIModel where
  "base_AIModel =
     \<lparr>AIModel_modelName = [],
      AIModel_capabilities = [],
      AIModel_grant = None,
      AIModel_provider = None\<rparr>"

definition encode_AIModel :: "wire \<Rightarrow> AIModel \<Rightarrow> bytes \<Rightarrow> bytes result" where
  "encode_AIModel W m =
     write_all
       [write_when (AIModel_modelName m \<noteq> []) (tagged W 10 (put_string W (AIModel_modelName m))),
        packed W 18 (put_int32 W) (AIModel_capabilities m),
        write_given (AIModel_grant m) (\<lambda>v. nested W 26 (encode_AIProviderGrant W v)),
        write_given (AIModel_provider m) (\<lambda>v. nested W 34 (encode_AIProvider W v))]"

definition switch_AIModel :: "wire \<Rightarrow> int \<Rightarrow> reader \<Rightarrow> AIModel \<Rightarrow> AIModel loop_step run" where
  "switch_AIModel W tag r m =
     switch_field tag
       [(1, [(10, read_field (get_string W) (\<lambda>v. m\<lparr>AIModel_modelName := v\<rparr>) r)]),
        (2, [(16, read_field (get_int32 W) (\<lambda>v. AIModel_capabilities_update (\<lambda>old. old @ [v]) m) r), (18, read_packed W (get_int32 W) (AIModel_capabilities m) (\<lambda>vs. m\<lparr>AIModel_capabilities := vs\<rparr>) r)]),
        (3, [(26, read_message W (decode_AIProviderGrant W) (\<lambda>v. m\<lparr>AIModel_grant := Some v\<rparr>) r)]),
        (4, [(34, read_message W (decode_AIProvider W) (\<lambda>v. m\<lparr>AIModel_provider := Some v\<rparr>) r)])]"

definition decode_AIModel :: "wire \<Rightarrow> reader \<Rightarrow> int option \<Rightarrow> (AIModel \<times> reader) run" where
  "decode_AIModel W = decode_message W (switch_AIModel W) base_AIModel"

definition safe_AIModel :: "wire \<Rightarrow> AIModel \<Rightarrow> bool" where
  "safe_AIModel W m \<longleftrightarrow>
     pred_option (safe_AIProviderGrant W) (AIModel_grant m) \<and>
     pred_option (safe_AIProvider W) (AIModel_provider m)"

lemma builds_AIModel:
  assumes "wire_format W" "safe_AIModel W m" "encode_AIModel W m [] = Inr b"
  shows "builds W (switch_AIModel W) base_AIModel m b"
proof (rule message_builds [OF assms(3) [unfolded encode_AIModel_def]])
  show "foldl (\<lambda>m u. u m) base_AIModel
      [plain AIModel_modelName_update (AIModel_modelName m) [],
       pushed AIModel_capabilities_update (AIModel_capabilities m),
       given AIModel_grant_update (AIModel_grant m),
       given AIModel_provider_update (AIModel_provider m)] = m"
    by (cases m) (simp add: field_changes base_AIModel_def)
qed (insert assms(1,2),
    (rule wire_fields message_codecs | (simp add: updater_def switch_AIModel_def safe_AIModel_def list_all_iff; fail))+)

lemma decodes_AIModel [message_codecs]:
  assumes "wire_format W" "safe_AIModel W m" "encode_AIModel W m [] = Inr b"
  shows "decodes (decode_AIModel W) m b"
  unfolding decode_AIModel_def by (rule builds_decodes [OF builds_AIModel [OF assms]])

lemma settles_AIModel [message_returns]: "wire_format W \<Longrightarrow> settles k (decode_AIModel W)"
  unfolding decode_AIModel_def
  by (rule wire_format.settles_message, assumption,
      unfold switch_AIModel_def switch_field.simps switch_alternatives.simps)
    (rule wire_ends message_returns | assumption)+

section \<open>GenerateMediaRequest\<close>

record GenerateMediaRequest =
  GenerateMediaRequest_model :: "AIModel option"
  GenerateMediaRequest_userPrompt :: string
  GenerateMediaRequest_mediaIds :: "string list"
  GenerateMediaRequest_postId :: "string option"
  GenerateMediaRequest_occasionId :: "string option"

definition base_GenerateMediaRequest :: GenerateMediaRequest where
  "base_GenerateMediaRequest =
     \<lparr>GenerateMediaRequest_model = None,
      GenerateMediaRequest_userPrompt = [],
      GenerateMediaRequest_mediaIds = [],
      GenerateMediaRequest_postId = None,
      GenerateMediaRequest_occasionId = None\<rparr>"

definition encode_GenerateMediaRequest :: "wire \<Rightarrow> GenerateMediaRequest \<Rightarrow> bytes \<Rightarrow> bytes result" where
  "encode_GenerateMediaRequest W m =
     write_all
       [write_given (GenerateMediaRequest_model m) (\<lambda>v. nested W 10 (encode_AIModel W v)),
        write_when (GenerateMediaRequest_userPrompt m \<noteq> []) (tagged W 18 (put_string W (GenerateMediaRequest_userPrompt m))),
        write_each (GenerateMediaRequest_mediaIds m) (\<lambda>v. tagged W 26 (put_string W v)),
        write_given (GenerateMediaRequest_postId m) (\<lambda>v. tagged W 42 (put_string W v)),
        write_given (GenerateMediaRequest_occasionId m) (\<lambda>v. tagged W 50 (put_string W v))]"

definition switch_GenerateMediaRequest :: "wire \<Rightarrow> int \<Rightarrow> reader \<Rightarrow> GenerateMediaRequest \<Rightarrow> GenerateMediaRequest loop_step run" where
  "switch_GenerateMediaRequest W tag r m =
     switch_field tag
       [(1, [(10, read_message W (decode_AIModel W) (\<lambda>v. m\<lparr>GenerateMediaRequest_model := Some v\<rparr>) r)]),
        (2, [(18, read_field (get_string W) (\<lambda>v. m\<lparr>GenerateMediaRequest_userPrompt := v\<rparr>) r)]),
        (3, [(26, read_field (get_string W) (\<lambda>v. GenerateMediaRequest_mediaIds_update (\<lambda>old. old @ [v]) m) r)]),
        (5, [(42, read_field (get_string W) (\<lambda>v. m\<lparr>GenerateMediaRequest_postId := Some v\<rparr>) r)]),
        (6, [(50, read_field (get_string W) (\<lambda>v. m\<lparr>GenerateMediaRequest_occasionId := Some v\<rparr>) r)])]"

definition decode_GenerateMediaRequest :: "wire \<Rightarrow> reader \<Rightarrow> int option \<Rightarrow> (GenerateMediaRequest \<times> reader) run" where
  "decode_GenerateMediaRequest W = decode_message W (switch_GenerateMediaRequest W) base_GenerateMediaRequest"

definition safe_GenerateMediaRequest :: "wire \<Rightarrow> GenerateMediaRequest \<Rightarrow> bool" where
  "safe_GenerateMediaRequest W m \<longleftrightarrow>
     pred_option (safe_AIModel W) (GenerateMediaRequest_model m)"

lemma builds_GenerateMediaRequest:
  assumes "wire_format W" "safe_GenerateMediaRequest W m" "encode_GenerateMediaRequest W m [] = Inr b"
  shows "builds W (switch_GenerateMediaRequest W) base_GenerateMediaRequest m b"
proof (rule message_builds [OF assms(3) [unfolded encode_GenerateMediaRequest_def]])
  show "foldl (\<lambda>m u. u m) base_GenerateMediaRequest
      [given GenerateMediaRequest_model_update (GenerateMediaRequest_model m),
       plain GenerateMediaRequest_userPrompt_update (GenerateMediaRequest_userPrompt m) [],
       pushed GenerateMediaRequest_mediaIds_update (GenerateMediaRequest_mediaIds m),
       given GenerateMediaRequest_postId_update (GenerateMediaRequest_postId m),
       given GenerateMediaRequest_occasionId_update (GenerateMediaRequest_occasionId m)] = m"
    by (cases m) (simp add: field_changes base_GenerateMediaRequest_def)
qed (insert assms(1,2),
    (rule wire_fields message_codecs | (simp add: updater_def switch_GenerateMediaRequest_def safe_GenerateMediaRequest_def list_all_iff; fail))+)

lemma decodes_GenerateMediaRequest [message_codecs]:
  assumes "wire_format W" "safe_GenerateMediaRequest W m" "encode_GenerateMediaRequest W m [] = Inr b"
  shows "decodes (decode_GenerateMediaRequest W) m b"
  unfolding decode_GenerateMediaRequest_def by (rule builds_decodes [OF builds_GenerateMediaRequest [OF assms]])

lemma settles_GenerateMediaRequest [message_returns]: "wire_format W \<Longrightarrow> settles k (decode_GenerateMediaRequest W)"
  unfolding decode_GenerateMediaRequest_def
  by (rule wire_format.settles_message, assumption,
      unfold switch_GenerateMediaRequest_def switch_field.simps switch_alternatives.simps)
    (rule wire_ends message_returns | assumption)+

section \<open>GetAIProvidersResponse\<close>

record GetAIProvidersResponse =
  GetAIProvidersResponse_providers :: "AIProvider list"
  GetAIProvidersResponse_aiModels :: "AIModel list"

definition base_GetAIProvidersResponse :: GetAIProvidersResponse where
  "base_GetAIProvidersResponse =
     \<lparr>GetAIProvidersResponse_providers = [],
      GetAIProvidersResponse_aiModels = []\<rparr>"

definition encode_GetAIProvidersResponse :: "wire \<Rightarrow> GetAIProvidersResponse \<Rightarrow> bytes \<Rightarrow> bytes result" where
  "encode_GetAIProvidersResponse W m =
     write_all
       [write_each (GetAIProvidersResponse_providers m) (\<lambda>v. nested W 10 (encode_AIProvider W v)),
        write_each (GetAIProvidersResponse_aiModels m) (\<lambda>v. nested W 18 (encode_AIModel W v))]"

definition switch_GetAIProvidersResponse :: "wire \<Rightarrow> int \<Rightarrow> reader \<Rightarrow> GetAIProvidersResponse \<Rightarrow> GetAIProvidersResponse loop_step run" where
  "switch_GetAIProvidersResponse W tag r m =
     switch_field tag
       [(1, [(10, read_message W (decode_AIProvider W) (\<lambda>v. GetAIProvidersResponse_providers_update (\<lambda>old. old @ [v]) m) r)]),
        (2, [(18, read_message W (decode_AIModel W) (\<lambda>v. GetAIProvidersResponse_aiModels_update (\<lambda>old. old @ [v]) m) r)])]"

definition decode_GetAIProvidersResponse :: "wire \<Rightarrow> reader \<Rightarrow> int option \<Rightarrow> (GetAIProvidersResponse \<times> reader) run" where
  "decode_GetAIProvidersResponse W = decode_message W (switch_GetAIProvidersResponse W) base_GetAIProvidersResponse"

definition safe_GetAIProvidersResponse :: "wire \<Rightarrow> GetAIProvidersResponse \<Rightarrow> bool" where
  "safe_GetAIProvidersResponse W m \<longleftrightarrow>
     list_all (safe_AIProvider W) (GetAIProvidersResponse_providers m) \<and>
     list_all (safe_AIModel W) (GetAIProvidersResponse_aiModels m)"

lemma builds_GetAIProvidersResponse:
  assumes "wire_format W" "safe_GetAIProvidersResponse W m" "encode_GetAIProvidersResponse W m [] = Inr b"
  shows "builds W (switch_GetAIProvidersResponse W) base_GetAIProvidersResponse m b"
proof (rule message_builds [OF assms(3) [unfolded encode_GetAIProvidersResponse_def]])
  show "foldl (\<lambda>m u. u m) base_GetAIProvidersResponse
      [pushed GetAIProvidersResponse_providers_update (GetAIProvidersResponse_providers m),
       pushed GetAIProvidersResponse_aiModels_update (GetAIProvidersResponse_aiModels m)] = m"
    by (cases m) (simp add: field_changes base_GetAIProvidersResponse_def)
qed (insert assms(1,2),
    (rule wire_fields message_codecs | (simp add: updater_def switch_GetAIProvidersResponse_def safe_GetAIProvidersResponse_def list_all_iff; fail))+)

lemma decodes_GetAIProvidersResponse [message_codecs]:
  assumes "wire_format W" "safe_GetAIProvidersResponse W m" "encode_GetAIProvidersResponse W m [] = Inr b"
  shows "decodes (decode_GetAIProvidersResponse W) m b"
  unfolding decode_GetAIProvidersResponse_def by (rule builds_decodes [OF builds_GetAIProvidersResponse [OF assms]])

lemma settles_GetAIProvidersResponse [message_returns]: "wire_format W \<Longrightarrow> settles k (decode_GetAIProvidersResponse W)"
  unfolding decode_GetAIProvidersResponse_def
  by (rule wire_format.settles_message, assumption,
      unfold switch_GetAIProvidersResponse_def switch_field.simps switch_alternatives.simps)
    (rule wire_ends message_returns | assumption)+

section \<open>DeleteAIProviderRequest\<close>

record DeleteAIProviderRequest =
  DeleteAIProviderRequest_provider :: "AIProvider option"

definition base_DeleteAIProviderRequest :: DeleteAIProviderRequest where
  "base_DeleteAIProviderRequest =
     \<lparr>DeleteAIProviderRequest_provider = None\<rparr>"

definition encode_DeleteAIProviderRequest :: "wire \<Rightarrow> DeleteAIProviderRequest \<Rightarrow> bytes \<Rightarrow> bytes result" where
  "encode_DeleteAIProviderRequest W m =
     write_all
       [write_given (DeleteAIProviderRequest_provider m) (\<lambda>v. nested W 10 (encode_AIProvider W v))]"

definition switch_DeleteAIProviderRequest :: "wire \<Rightarrow> int \<Rightarrow> reader \<Rightarrow> DeleteAIProviderRequest \<Rightarrow> DeleteAIProviderRequest loop_step run" where
  "switch_DeleteAIProviderRequest W tag r m =
     switch_field tag
       [(1, [(10, read_message W (decode_AIProvider W) (\<lambda>v. m\<lparr>DeleteAIProviderRequest_provider := Some v\<rparr>) r)])]"

definition decode_DeleteAIProviderRequest :: "wire \<Rightarrow> reader \<Rightarrow> int option \<Rightarrow> (DeleteAIProviderRequest \<times> reader) run" where
  "decode_DeleteAIProviderRequest W = decode_message W (switch_DeleteAIProviderRequest W) base_DeleteAIProviderRequest"

definition safe_DeleteAIProviderRequest :: "wire \<Rightarrow> DeleteAIProviderRequest \<Rightarrow> bool" where
  "safe_DeleteAIProviderRequest W m \<longleftrightarrow>
     pred_option (safe_AIProvider W) (DeleteAIProviderRequest_provider m)"

lemma builds_DeleteAIProviderRequest:
  assumes "wire_format W" "safe_DeleteAIProviderRequest W m" "encode_DeleteAIProviderRequest W m [] = Inr b"
  shows "builds W (switch_DeleteAIProviderRequest W) base_DeleteAIProviderRequest m b"
proof (rule message_builds [OF assms(3) [unfolded encode_DeleteAIProviderRequest_def]])
  show "foldl (\<lambda>m u. u m) base_DeleteAIProviderRequest
      [given DeleteAIProviderRequest_provider_update (DeleteAIProviderRequest_provider m)] = m"
    by (cases m) (simp add: field_changes base_DeleteAIProviderRequest_def)
qed (insert assms(1,2),
    (rule wire_fields message_codecs | (simp add: updater_def switch_DeleteAIProviderRequest_def safe_DeleteAIProviderRequest_def list_all_iff; fail))+)

lemma decodes_DeleteAIProviderRequest [message_codecs]:
  assumes "wire_format W" "safe_DeleteAIProviderRequest W m" "encode_DeleteAIProviderRequest W m [] = Inr b"
  shows "decodes (decode_DeleteAIProviderRequest W) m b"
  unfolding decode_DeleteAIProviderRequest_def by (rule builds_decodes [OF builds_DeleteAIProviderRequest [OF assms]])

lemma settles_DeleteAIProviderRequest [message_returns]: "wire_format W \<Longrightarrow> settles k (decode_DeleteAIProviderRequest W)"
  unfolding decode_DeleteAIProviderRequest_def
  by (rule wire_format.settles_message, assumption,
      unfold switch_DeleteAIProviderRequest_def switch_field.simps switch_alternatives.simps)
    (rule wire_ends message_returns | assumption)+

section \<open>GrantAIProviderRequest\<close>

record GrantAIProviderRequest =
  GrantAIProviderRequest_userId :: string
  GrantAIProviderRequest_aiProviderId :: string
  GrantAIProviderRequest_tokens :: int
  GrantAIProviderRequest_modelNames :: "string list"

definition base_GrantAIProviderRequest :: GrantAIProviderRequest where
  "base_GrantAIProviderRequest =
     \<lparr>GrantAIProviderRequest_userId = [],
      GrantAIProviderRequest_aiProviderId = [],
      GrantAIProviderRequest_tokens = 0,
      GrantAIProviderRequest_modelNames = []\<rparr>"

definition encode_GrantAIProviderRequest :: "wire \<Rightarrow> GrantAIProviderRequest \<Rightarrow> bytes \<Rightarrow> bytes result" where
  "encode_GrantAIProviderRequest W m =
     write_all
       [write_when (GrantAIProviderRequest_userId m \<noteq> []) (tagged W 10 (put_string W (GrantAIProviderRequest_userId m))),
        write_when (GrantAIProviderRequest_aiProviderId m \<noteq> []) (tagged W 18 (put_string W (GrantAIProviderRequest_aiProviderId m))),
        write_when (GrantAIProviderRequest_tokens m \<noteq> 0) (tagged W 24 (put_uint64 W (GrantAIProviderRequest_tokens m))),
        write_each (GrantAIProviderRequest_modelNames m) (\<lambda>v. tagged W 34 (put_string W v))]"

definition switch_GrantAIProviderRequest :: "wire \<Rightarrow> int \<Rightarrow> reader \<Rightarrow> GrantAIProviderRequest \<Rightarrow> GrantAIProviderRequest loop_step run" where
  "switch_GrantAIProviderRequest W tag r m =
     switch_field tag
       [(1, [(10, read_field (get_string W) (\<lambda>v. m\<lparr>GrantAIProviderRequest_userId := v\<rparr>) r)]),
        (2, [(18, read_field (get_string W) (\<lambda>v. m\<lparr>GrantAIProviderRequest_aiProviderId := v\<rparr>) r)]),
        (3, [(24, read_field (get_long (get_uint64 W)) (\<lambda>v. m\<lparr>GrantAIProviderRequest_tokens := v\<rparr>) r)]),
        (4, [(34, read_field (get_string W) (\<lambda>v. GrantAIProviderRequest_modelNames_update (\<lambda>old. old @ [v]) m) r)])]"

definition decode_GrantAIProviderRequest :: "wire \<Rightarrow> reader \<Rightarrow> int option \<Rightarrow> (GrantAIProviderRequest \<times> reader) run" where
  "decode_GrantAIProviderRequest W = decode_message W (switch_GrantAIProviderRequest W) base_GrantAIProviderRequest"

definition safe_GrantAIProviderRequest :: "wire \<Rightarrow> GrantAIProviderRequest \<Rightarrow> bool" where
  "safe_GrantAIProviderRequest W m \<longleftrightarrow>
     safe_long (GrantAIProviderRequest_tokens m)"

lemma builds_GrantAIProviderRequest:
  assumes "wire_format W" "safe_GrantAIProviderRequest W m" "encode_GrantAIProviderRequest W m [] = Inr b"
  shows "builds W (switch_GrantAIProviderRequest W) base_GrantAIProviderRequest m b"
proof (rule message_builds [OF assms(3) [unfolded encode_GrantAIProviderRequest_def]])
  show "foldl (\<lambda>m u. u m) base_GrantAIProviderRequest
      [plain GrantAIProviderRequest_userId_update (GrantAIProviderRequest_userId m) [],
       plain GrantAIProviderRequest_aiProviderId_update (GrantAIProviderRequest_aiProviderId m) [],
       plain GrantAIProviderRequest_tokens_update (GrantAIProviderRequest_tokens m) 0,
       pushed GrantAIProviderRequest_modelNames_update (GrantAIProviderRequest_modelNames m)] = m"
    by (cases m) (simp add: field_changes base_GrantAIProviderRequest_def)
qed (insert assms(1,2),
    (rule wire_fields message_codecs | (simp add: updater_def switch_GrantAIProviderRequest_def safe_GrantAIProviderRequest_def list_all_iff; fail))+)

lemma decodes_GrantAIProviderRequest [message_codecs]:
  assumes "wire_format W" "safe_GrantAIProviderRequest W m" "encode_GrantAIProviderRequest W m [] = Inr b"
  shows "decodes (decode_GrantAIProviderRequest W) m b"
  unfolding decode_GrantAIProviderRequest_def by (rule builds_decodes [OF builds_GrantAIProviderRequest [OF assms]])

lemma settles_GrantAIProviderRequest [message_returns]: "wire_format W \<Longrightarrow> settles k (decode_GrantAIProviderRequest W)"
  unfolding decode_GrantAIProviderRequest_def
  by (rule wire_format.settles_message, assumption,
      unfold switch_GrantAIProviderRequest_def switch_field.simps switch_alternatives.simps)
    (rule wire_ends message_returns | assumption)+

section \<open>RevokeAIProviderRequest\<close>

record RevokeAIProviderRequest =
  RevokeAIProviderRequest_userId :: string
  RevokeAIProviderRequest_aiProviderId :: string

definition base_RevokeAIProviderRequest :: RevokeAIProviderRequest where
  "base_RevokeAIProviderRequest =
     \<lparr>RevokeAIProviderRequest_userId = [],
      RevokeAIProviderRequest_aiProviderId = []\<rparr>"

definition encode_RevokeAIProviderRequest :: "wire \<Rightarrow> RevokeAIProviderRequest \<Rightarrow> bytes \<Rightarrow> bytes result" where
  "encode_RevokeAIProviderRequest W m =
     write_all
       [write_when (RevokeAIProviderRequest_userId m \<noteq> []) (tagged W 10 (put_string W (RevokeAIProviderRequest_userId m))),
        write_when (RevokeAIProviderRequest_aiProviderId m \<noteq> []) (tagged W 18 (put_string W (RevokeAIProviderRequest_aiProviderId m)))]"

definition switch_RevokeAIProviderRequest :: "wire \<Rightarrow> int \<Rightarrow> reader \<Rightarrow> RevokeAIProviderRequest \<Rightarrow> RevokeAIProviderRequest loop_step run" where
  "switch_RevokeAIProviderRequest W tag r m =
     switch_field tag
       [(1, [(10, read_field (get_string W) (\<lambda>v. m\<lparr>RevokeAIProviderRequest_userId := v\<rparr>) r)]),
        (2, [(18, read_field (get_string W) (\<lambda>v. m\<lparr>RevokeAIProviderRequest_aiProviderId := v\<rparr>) r)])]"

definition decode_RevokeAIProviderRequest :: "wire \<Rightarrow> reader \<Rightarrow> int option \<Rightarrow> (RevokeAIProviderRequest \<times> reader) run" where
  "decode_RevokeAIProviderRequest W = decode_message W (switch_RevokeAIProviderRequest W) base_RevokeAIProviderRequest"

lemma builds_RevokeAIProviderRequest:
  assumes "wire_format W" "encode_RevokeAIProviderRequest W m [] = Inr b"
  shows "builds W (switch_RevokeAIProviderRequest W) base_RevokeAIProviderRequest m b"
proof (rule message_builds [OF assms(2) [unfolded encode_RevokeAIProviderRequest_def]])
  show "foldl (\<lambda>m u. u m) base_RevokeAIProviderRequest
      [plain RevokeAIProviderRequest_userId_update (RevokeAIProviderRequest_userId m) [],
       plain RevokeAIProviderRequest_aiProviderId_update (RevokeAIProviderRequest_aiProviderId m) []] = m"
    by (cases m) (simp add: field_changes base_RevokeAIProviderRequest_def)
qed (insert assms(1),
    (rule wire_fields message_codecs | (simp add: updater_def switch_RevokeAIProviderRequest_def list_all_iff; fail))+)

lemma decodes_RevokeAIProviderRequest [message_codecs]:
  assumes "wire_format W" "encode_RevokeAIProviderRequest W m [] = Inr b"
  shows "decodes (decode_RevokeAIProviderRequest W) m b"
  unfolding decode_RevokeAIProviderRequest_def by (rule builds_decodes [OF builds_RevokeAIProviderRequest [OF assms]])

lemma settles_RevokeAIProviderRequest [message_returns]: "wire_format W \<Longrightarrow> settles k (decode_RevokeAIProviderRequest W)"
  unfolding decode_RevokeAIProviderRequest_def
  by (rule wire_format.settles_message, assumption,
      unfold switch_RevokeAIProviderRequest_def switch_field.simps switch_alternatives.simps)
    (rule wire_ends message_returns | assumption)+

end
