(* ===== verification/Wire_Federation.thy ===== *)
theory Wire_Federation
  imports Wire_Time
begin

text \<open>
  The codecs of packages/api/generated/federation.ts: of each message the record, the empty message, writing, reading, and that
  reading what was written gives the message back.
\<close>

section \<open>GetServiceVersionResponse\<close>

record GetServiceVersionResponse =
  GetServiceVersionResponse_version :: string

definition base_GetServiceVersionResponse :: GetServiceVersionResponse where
  "base_GetServiceVersionResponse =
     \<lparr>GetServiceVersionResponse_version = []\<rparr>"

definition encode_GetServiceVersionResponse :: "wire \<Rightarrow> GetServiceVersionResponse \<Rightarrow> bytes \<Rightarrow> bytes result" where
  "encode_GetServiceVersionResponse W m =
     write_all
       [write_when (GetServiceVersionResponse_version m \<noteq> []) (tagged W 10 (put_string W (GetServiceVersionResponse_version m)))]"

definition switch_GetServiceVersionResponse :: "wire \<Rightarrow> int \<Rightarrow> reader \<Rightarrow> GetServiceVersionResponse \<Rightarrow> GetServiceVersionResponse loop_step run" where
  "switch_GetServiceVersionResponse W tag r m =
     switch_field tag
       [(1, [(10, read_field (get_string W) (\<lambda>v. m\<lparr>GetServiceVersionResponse_version := v\<rparr>) r)])]"

definition decode_GetServiceVersionResponse :: "wire \<Rightarrow> reader \<Rightarrow> int option \<Rightarrow> (GetServiceVersionResponse \<times> reader) run" where
  "decode_GetServiceVersionResponse W = decode_message W (switch_GetServiceVersionResponse W) base_GetServiceVersionResponse"

lemma builds_GetServiceVersionResponse:
  assumes "wire_format W" "encode_GetServiceVersionResponse W m [] = Inr b"
  shows "builds W (switch_GetServiceVersionResponse W) base_GetServiceVersionResponse m b"
proof (rule message_builds [OF assms(2) [unfolded encode_GetServiceVersionResponse_def]])
  show "foldl (\<lambda>m u. u m) base_GetServiceVersionResponse
      [plain GetServiceVersionResponse_version_update (GetServiceVersionResponse_version m) []] = m"
    by (cases m) (simp add: field_changes base_GetServiceVersionResponse_def)
qed (insert assms(1),
    (rule wire_fields message_codecs | (simp add: updater_def switch_GetServiceVersionResponse_def list_all_iff; fail))+)

lemma decodes_GetServiceVersionResponse [message_codecs]:
  assumes "wire_format W" "encode_GetServiceVersionResponse W m [] = Inr b"
  shows "decodes (decode_GetServiceVersionResponse W) m b"
  unfolding decode_GetServiceVersionResponse_def by (rule builds_decodes [OF builds_GetServiceVersionResponse [OF assms]])

lemma settles_GetServiceVersionResponse [message_returns]: "wire_format W \<Longrightarrow> settles k (decode_GetServiceVersionResponse W)"
  unfolding decode_GetServiceVersionResponse_def
  by (rule wire_format.settles_message, assumption,
      unfold switch_GetServiceVersionResponse_def switch_field.simps switch_alternatives.simps)
    (rule wire_ends message_returns | assumption)+

section \<open>BlueskyServer\<close>

record BlueskyServer =
  BlueskyServer_host :: string
  BlueskyServer_configuredByDefault :: "bool option"
  BlueskyServer_pinnedByDefault :: "bool option"
  BlueskyServer_logoUrl :: "string option"

definition base_BlueskyServer :: BlueskyServer where
  "base_BlueskyServer =
     \<lparr>BlueskyServer_host = [],
      BlueskyServer_configuredByDefault = None,
      BlueskyServer_pinnedByDefault = None,
      BlueskyServer_logoUrl = None\<rparr>"

definition encode_BlueskyServer :: "wire \<Rightarrow> BlueskyServer \<Rightarrow> bytes \<Rightarrow> bytes result" where
  "encode_BlueskyServer W m =
     write_all
       [write_when (BlueskyServer_host m \<noteq> []) (tagged W 10 (put_string W (BlueskyServer_host m))),
        write_given (BlueskyServer_configuredByDefault m) (\<lambda>v. tagged W 16 (put_bool W v)),
        write_given (BlueskyServer_pinnedByDefault m) (\<lambda>v. tagged W 24 (put_bool W v)),
        write_given (BlueskyServer_logoUrl m) (\<lambda>v. tagged W 34 (put_string W v))]"

definition switch_BlueskyServer :: "wire \<Rightarrow> int \<Rightarrow> reader \<Rightarrow> BlueskyServer \<Rightarrow> BlueskyServer loop_step run" where
  "switch_BlueskyServer W tag r m =
     switch_field tag
       [(1, [(10, read_field (get_string W) (\<lambda>v. m\<lparr>BlueskyServer_host := v\<rparr>) r)]),
        (2, [(16, read_field (get_bool W) (\<lambda>v. m\<lparr>BlueskyServer_configuredByDefault := Some v\<rparr>) r)]),
        (3, [(24, read_field (get_bool W) (\<lambda>v. m\<lparr>BlueskyServer_pinnedByDefault := Some v\<rparr>) r)]),
        (4, [(34, read_field (get_string W) (\<lambda>v. m\<lparr>BlueskyServer_logoUrl := Some v\<rparr>) r)])]"

definition decode_BlueskyServer :: "wire \<Rightarrow> reader \<Rightarrow> int option \<Rightarrow> (BlueskyServer \<times> reader) run" where
  "decode_BlueskyServer W = decode_message W (switch_BlueskyServer W) base_BlueskyServer"

lemma builds_BlueskyServer:
  assumes "wire_format W" "encode_BlueskyServer W m [] = Inr b"
  shows "builds W (switch_BlueskyServer W) base_BlueskyServer m b"
proof (rule message_builds [OF assms(2) [unfolded encode_BlueskyServer_def]])
  show "foldl (\<lambda>m u. u m) base_BlueskyServer
      [plain BlueskyServer_host_update (BlueskyServer_host m) [],
       given BlueskyServer_configuredByDefault_update (BlueskyServer_configuredByDefault m),
       given BlueskyServer_pinnedByDefault_update (BlueskyServer_pinnedByDefault m),
       given BlueskyServer_logoUrl_update (BlueskyServer_logoUrl m)] = m"
    by (cases m) (simp add: field_changes base_BlueskyServer_def)
qed (insert assms(1),
    (rule wire_fields message_codecs | (simp add: updater_def switch_BlueskyServer_def list_all_iff; fail))+)

lemma decodes_BlueskyServer [message_codecs]:
  assumes "wire_format W" "encode_BlueskyServer W m [] = Inr b"
  shows "decodes (decode_BlueskyServer W) m b"
  unfolding decode_BlueskyServer_def by (rule builds_decodes [OF builds_BlueskyServer [OF assms]])

lemma settles_BlueskyServer [message_returns]: "wire_format W \<Longrightarrow> settles k (decode_BlueskyServer W)"
  unfolding decode_BlueskyServer_def
  by (rule wire_format.settles_message, assumption,
      unfold switch_BlueskyServer_def switch_field.simps switch_alternatives.simps)
    (rule wire_ends message_returns | assumption)+

section \<open>FacebookAuthConfig\<close>

record FacebookAuthConfig =
  FacebookAuthConfig_appId :: string
  FacebookAuthConfig_appSecret :: string

definition base_FacebookAuthConfig :: FacebookAuthConfig where
  "base_FacebookAuthConfig =
     \<lparr>FacebookAuthConfig_appId = [],
      FacebookAuthConfig_appSecret = []\<rparr>"

definition encode_FacebookAuthConfig :: "wire \<Rightarrow> FacebookAuthConfig \<Rightarrow> bytes \<Rightarrow> bytes result" where
  "encode_FacebookAuthConfig W m =
     write_all
       [write_when (FacebookAuthConfig_appId m \<noteq> []) (tagged W 10 (put_string W (FacebookAuthConfig_appId m))),
        write_when (FacebookAuthConfig_appSecret m \<noteq> []) (tagged W 18 (put_string W (FacebookAuthConfig_appSecret m)))]"

definition switch_FacebookAuthConfig :: "wire \<Rightarrow> int \<Rightarrow> reader \<Rightarrow> FacebookAuthConfig \<Rightarrow> FacebookAuthConfig loop_step run" where
  "switch_FacebookAuthConfig W tag r m =
     switch_field tag
       [(1, [(10, read_field (get_string W) (\<lambda>v. m\<lparr>FacebookAuthConfig_appId := v\<rparr>) r)]),
        (2, [(18, read_field (get_string W) (\<lambda>v. m\<lparr>FacebookAuthConfig_appSecret := v\<rparr>) r)])]"

definition decode_FacebookAuthConfig :: "wire \<Rightarrow> reader \<Rightarrow> int option \<Rightarrow> (FacebookAuthConfig \<times> reader) run" where
  "decode_FacebookAuthConfig W = decode_message W (switch_FacebookAuthConfig W) base_FacebookAuthConfig"

lemma builds_FacebookAuthConfig:
  assumes "wire_format W" "encode_FacebookAuthConfig W m [] = Inr b"
  shows "builds W (switch_FacebookAuthConfig W) base_FacebookAuthConfig m b"
proof (rule message_builds [OF assms(2) [unfolded encode_FacebookAuthConfig_def]])
  show "foldl (\<lambda>m u. u m) base_FacebookAuthConfig
      [plain FacebookAuthConfig_appId_update (FacebookAuthConfig_appId m) [],
       plain FacebookAuthConfig_appSecret_update (FacebookAuthConfig_appSecret m) []] = m"
    by (cases m) (simp add: field_changes base_FacebookAuthConfig_def)
qed (insert assms(1),
    (rule wire_fields message_codecs | (simp add: updater_def switch_FacebookAuthConfig_def list_all_iff; fail))+)

lemma decodes_FacebookAuthConfig [message_codecs]:
  assumes "wire_format W" "encode_FacebookAuthConfig W m [] = Inr b"
  shows "decodes (decode_FacebookAuthConfig W) m b"
  unfolding decode_FacebookAuthConfig_def by (rule builds_decodes [OF builds_FacebookAuthConfig [OF assms]])

lemma settles_FacebookAuthConfig [message_returns]: "wire_format W \<Longrightarrow> settles k (decode_FacebookAuthConfig W)"
  unfolding decode_FacebookAuthConfig_def
  by (rule wire_format.settles_message, assumption,
      unfold switch_FacebookAuthConfig_def switch_field.simps switch_alternatives.simps)
    (rule wire_ends message_returns | assumption)+

section \<open>FederatedServer\<close>

record FederatedServer =
  FederatedServer_host :: string
  FederatedServer_configuredByDefault :: "bool option"
  FederatedServer_pinnedByDefault :: "bool option"

definition base_FederatedServer :: FederatedServer where
  "base_FederatedServer =
     \<lparr>FederatedServer_host = [],
      FederatedServer_configuredByDefault = None,
      FederatedServer_pinnedByDefault = None\<rparr>"

definition encode_FederatedServer :: "wire \<Rightarrow> FederatedServer \<Rightarrow> bytes \<Rightarrow> bytes result" where
  "encode_FederatedServer W m =
     write_all
       [write_when (FederatedServer_host m \<noteq> []) (tagged W 10 (put_string W (FederatedServer_host m))),
        write_given (FederatedServer_configuredByDefault m) (\<lambda>v. tagged W 16 (put_bool W v)),
        write_given (FederatedServer_pinnedByDefault m) (\<lambda>v. tagged W 24 (put_bool W v))]"

definition switch_FederatedServer :: "wire \<Rightarrow> int \<Rightarrow> reader \<Rightarrow> FederatedServer \<Rightarrow> FederatedServer loop_step run" where
  "switch_FederatedServer W tag r m =
     switch_field tag
       [(1, [(10, read_field (get_string W) (\<lambda>v. m\<lparr>FederatedServer_host := v\<rparr>) r)]),
        (2, [(16, read_field (get_bool W) (\<lambda>v. m\<lparr>FederatedServer_configuredByDefault := Some v\<rparr>) r)]),
        (3, [(24, read_field (get_bool W) (\<lambda>v. m\<lparr>FederatedServer_pinnedByDefault := Some v\<rparr>) r)])]"

definition decode_FederatedServer :: "wire \<Rightarrow> reader \<Rightarrow> int option \<Rightarrow> (FederatedServer \<times> reader) run" where
  "decode_FederatedServer W = decode_message W (switch_FederatedServer W) base_FederatedServer"

lemma builds_FederatedServer:
  assumes "wire_format W" "encode_FederatedServer W m [] = Inr b"
  shows "builds W (switch_FederatedServer W) base_FederatedServer m b"
proof (rule message_builds [OF assms(2) [unfolded encode_FederatedServer_def]])
  show "foldl (\<lambda>m u. u m) base_FederatedServer
      [plain FederatedServer_host_update (FederatedServer_host m) [],
       given FederatedServer_configuredByDefault_update (FederatedServer_configuredByDefault m),
       given FederatedServer_pinnedByDefault_update (FederatedServer_pinnedByDefault m)] = m"
    by (cases m) (simp add: field_changes base_FederatedServer_def)
qed (insert assms(1),
    (rule wire_fields message_codecs | (simp add: updater_def switch_FederatedServer_def list_all_iff; fail))+)

lemma decodes_FederatedServer [message_codecs]:
  assumes "wire_format W" "encode_FederatedServer W m [] = Inr b"
  shows "decodes (decode_FederatedServer W) m b"
  unfolding decode_FederatedServer_def by (rule builds_decodes [OF builds_FederatedServer [OF assms]])

lemma settles_FederatedServer [message_returns]: "wire_format W \<Longrightarrow> settles k (decode_FederatedServer W)"
  unfolding decode_FederatedServer_def
  by (rule wire_format.settles_message, assumption,
      unfold switch_FederatedServer_def switch_field.simps switch_alternatives.simps)
    (rule wire_ends message_returns | assumption)+

section \<open>MastodonServer\<close>

record MastodonServer =
  MastodonServer_domain :: string
  MastodonServer_appId :: string
  MastodonServer_appSecret :: string
  MastodonServer_configuredByDefault :: "bool option"
  MastodonServer_pinnedByDefault :: "bool option"

definition base_MastodonServer :: MastodonServer where
  "base_MastodonServer =
     \<lparr>MastodonServer_domain = [],
      MastodonServer_appId = [],
      MastodonServer_appSecret = [],
      MastodonServer_configuredByDefault = None,
      MastodonServer_pinnedByDefault = None\<rparr>"

definition encode_MastodonServer :: "wire \<Rightarrow> MastodonServer \<Rightarrow> bytes \<Rightarrow> bytes result" where
  "encode_MastodonServer W m =
     write_all
       [write_when (MastodonServer_domain m \<noteq> []) (tagged W 10 (put_string W (MastodonServer_domain m))),
        write_when (MastodonServer_appId m \<noteq> []) (tagged W 18 (put_string W (MastodonServer_appId m))),
        write_when (MastodonServer_appSecret m \<noteq> []) (tagged W 26 (put_string W (MastodonServer_appSecret m))),
        write_given (MastodonServer_configuredByDefault m) (\<lambda>v. tagged W 32 (put_bool W v)),
        write_given (MastodonServer_pinnedByDefault m) (\<lambda>v. tagged W 40 (put_bool W v))]"

definition switch_MastodonServer :: "wire \<Rightarrow> int \<Rightarrow> reader \<Rightarrow> MastodonServer \<Rightarrow> MastodonServer loop_step run" where
  "switch_MastodonServer W tag r m =
     switch_field tag
       [(1, [(10, read_field (get_string W) (\<lambda>v. m\<lparr>MastodonServer_domain := v\<rparr>) r)]),
        (2, [(18, read_field (get_string W) (\<lambda>v. m\<lparr>MastodonServer_appId := v\<rparr>) r)]),
        (3, [(26, read_field (get_string W) (\<lambda>v. m\<lparr>MastodonServer_appSecret := v\<rparr>) r)]),
        (4, [(32, read_field (get_bool W) (\<lambda>v. m\<lparr>MastodonServer_configuredByDefault := Some v\<rparr>) r)]),
        (5, [(40, read_field (get_bool W) (\<lambda>v. m\<lparr>MastodonServer_pinnedByDefault := Some v\<rparr>) r)])]"

definition decode_MastodonServer :: "wire \<Rightarrow> reader \<Rightarrow> int option \<Rightarrow> (MastodonServer \<times> reader) run" where
  "decode_MastodonServer W = decode_message W (switch_MastodonServer W) base_MastodonServer"

lemma builds_MastodonServer:
  assumes "wire_format W" "encode_MastodonServer W m [] = Inr b"
  shows "builds W (switch_MastodonServer W) base_MastodonServer m b"
proof (rule message_builds [OF assms(2) [unfolded encode_MastodonServer_def]])
  show "foldl (\<lambda>m u. u m) base_MastodonServer
      [plain MastodonServer_domain_update (MastodonServer_domain m) [],
       plain MastodonServer_appId_update (MastodonServer_appId m) [],
       plain MastodonServer_appSecret_update (MastodonServer_appSecret m) [],
       given MastodonServer_configuredByDefault_update (MastodonServer_configuredByDefault m),
       given MastodonServer_pinnedByDefault_update (MastodonServer_pinnedByDefault m)] = m"
    by (cases m) (simp add: field_changes base_MastodonServer_def)
qed (insert assms(1),
    (rule wire_fields message_codecs | (simp add: updater_def switch_MastodonServer_def list_all_iff; fail))+)

lemma decodes_MastodonServer [message_codecs]:
  assumes "wire_format W" "encode_MastodonServer W m [] = Inr b"
  shows "decodes (decode_MastodonServer W) m b"
  unfolding decode_MastodonServer_def by (rule builds_decodes [OF builds_MastodonServer [OF assms]])

lemma settles_MastodonServer [message_returns]: "wire_format W \<Longrightarrow> settles k (decode_MastodonServer W)"
  unfolding decode_MastodonServer_def
  by (rule wire_format.settles_message, assumption,
      unfold switch_MastodonServer_def switch_field.simps switch_alternatives.simps)
    (rule wire_ends message_returns | assumption)+

section \<open>XTwitterAuthConfig\<close>

record XTwitterAuthConfig =
  XTwitterAuthConfig_clientId :: string
  XTwitterAuthConfig_clientSecret :: string

definition base_XTwitterAuthConfig :: XTwitterAuthConfig where
  "base_XTwitterAuthConfig =
     \<lparr>XTwitterAuthConfig_clientId = [],
      XTwitterAuthConfig_clientSecret = []\<rparr>"

definition encode_XTwitterAuthConfig :: "wire \<Rightarrow> XTwitterAuthConfig \<Rightarrow> bytes \<Rightarrow> bytes result" where
  "encode_XTwitterAuthConfig W m =
     write_all
       [write_when (XTwitterAuthConfig_clientId m \<noteq> []) (tagged W 10 (put_string W (XTwitterAuthConfig_clientId m))),
        write_when (XTwitterAuthConfig_clientSecret m \<noteq> []) (tagged W 18 (put_string W (XTwitterAuthConfig_clientSecret m)))]"

definition switch_XTwitterAuthConfig :: "wire \<Rightarrow> int \<Rightarrow> reader \<Rightarrow> XTwitterAuthConfig \<Rightarrow> XTwitterAuthConfig loop_step run" where
  "switch_XTwitterAuthConfig W tag r m =
     switch_field tag
       [(1, [(10, read_field (get_string W) (\<lambda>v. m\<lparr>XTwitterAuthConfig_clientId := v\<rparr>) r)]),
        (2, [(18, read_field (get_string W) (\<lambda>v. m\<lparr>XTwitterAuthConfig_clientSecret := v\<rparr>) r)])]"

definition decode_XTwitterAuthConfig :: "wire \<Rightarrow> reader \<Rightarrow> int option \<Rightarrow> (XTwitterAuthConfig \<times> reader) run" where
  "decode_XTwitterAuthConfig W = decode_message W (switch_XTwitterAuthConfig W) base_XTwitterAuthConfig"

lemma builds_XTwitterAuthConfig:
  assumes "wire_format W" "encode_XTwitterAuthConfig W m [] = Inr b"
  shows "builds W (switch_XTwitterAuthConfig W) base_XTwitterAuthConfig m b"
proof (rule message_builds [OF assms(2) [unfolded encode_XTwitterAuthConfig_def]])
  show "foldl (\<lambda>m u. u m) base_XTwitterAuthConfig
      [plain XTwitterAuthConfig_clientId_update (XTwitterAuthConfig_clientId m) [],
       plain XTwitterAuthConfig_clientSecret_update (XTwitterAuthConfig_clientSecret m) []] = m"
    by (cases m) (simp add: field_changes base_XTwitterAuthConfig_def)
qed (insert assms(1),
    (rule wire_fields message_codecs | (simp add: updater_def switch_XTwitterAuthConfig_def list_all_iff; fail))+)

lemma decodes_XTwitterAuthConfig [message_codecs]:
  assumes "wire_format W" "encode_XTwitterAuthConfig W m [] = Inr b"
  shows "decodes (decode_XTwitterAuthConfig W) m b"
  unfolding decode_XTwitterAuthConfig_def by (rule builds_decodes [OF builds_XTwitterAuthConfig [OF assms]])

lemma settles_XTwitterAuthConfig [message_returns]: "wire_format W \<Longrightarrow> settles k (decode_XTwitterAuthConfig W)"
  unfolding decode_XTwitterAuthConfig_def
  by (rule wire_format.settles_message, assumption,
      unfold switch_XTwitterAuthConfig_def switch_field.simps switch_alternatives.simps)
    (rule wire_ends message_returns | assumption)+

section \<open>FederationInfo\<close>

record FederationInfo =
  FederationInfo_servers :: "FederatedServer list"
  FederationInfo_unsecureLocalhostFederatedAuthEnabled :: "bool option"
  FederationInfo_facebookAuthConfig :: "FacebookAuthConfig option"
  FederationInfo_xTwitterAuthConfig :: "XTwitterAuthConfig option"
  FederationInfo_mastodonServers :: "MastodonServer list"
  FederationInfo_blueskyServers :: "BlueskyServer list"

definition base_FederationInfo :: FederationInfo where
  "base_FederationInfo =
     \<lparr>FederationInfo_servers = [],
      FederationInfo_unsecureLocalhostFederatedAuthEnabled = None,
      FederationInfo_facebookAuthConfig = None,
      FederationInfo_xTwitterAuthConfig = None,
      FederationInfo_mastodonServers = [],
      FederationInfo_blueskyServers = []\<rparr>"

definition encode_FederationInfo :: "wire \<Rightarrow> FederationInfo \<Rightarrow> bytes \<Rightarrow> bytes result" where
  "encode_FederationInfo W m =
     write_all
       [write_each (FederationInfo_servers m) (\<lambda>v. nested W 10 (encode_FederatedServer W v)),
        write_given (FederationInfo_unsecureLocalhostFederatedAuthEnabled m) (\<lambda>v. tagged W 40 (put_bool W v)),
        write_given (FederationInfo_facebookAuthConfig m) (\<lambda>v. nested W 18 (encode_FacebookAuthConfig W v)),
        write_given (FederationInfo_xTwitterAuthConfig m) (\<lambda>v. nested W 26 (encode_XTwitterAuthConfig W v)),
        write_each (FederationInfo_mastodonServers m) (\<lambda>v. nested W 34 (encode_MastodonServer W v)),
        write_each (FederationInfo_blueskyServers m) (\<lambda>v. nested W 50 (encode_BlueskyServer W v))]"

definition switch_FederationInfo :: "wire \<Rightarrow> int \<Rightarrow> reader \<Rightarrow> FederationInfo \<Rightarrow> FederationInfo loop_step run" where
  "switch_FederationInfo W tag r m =
     switch_field tag
       [(1, [(10, read_message W (decode_FederatedServer W) (\<lambda>v. FederationInfo_servers_update (\<lambda>old. old @ [v]) m) r)]),
        (5, [(40, read_field (get_bool W) (\<lambda>v. m\<lparr>FederationInfo_unsecureLocalhostFederatedAuthEnabled := Some v\<rparr>) r)]),
        (2, [(18, read_message W (decode_FacebookAuthConfig W) (\<lambda>v. m\<lparr>FederationInfo_facebookAuthConfig := Some v\<rparr>) r)]),
        (3, [(26, read_message W (decode_XTwitterAuthConfig W) (\<lambda>v. m\<lparr>FederationInfo_xTwitterAuthConfig := Some v\<rparr>) r)]),
        (4, [(34, read_message W (decode_MastodonServer W) (\<lambda>v. FederationInfo_mastodonServers_update (\<lambda>old. old @ [v]) m) r)]),
        (6, [(50, read_message W (decode_BlueskyServer W) (\<lambda>v. FederationInfo_blueskyServers_update (\<lambda>old. old @ [v]) m) r)])]"

definition decode_FederationInfo :: "wire \<Rightarrow> reader \<Rightarrow> int option \<Rightarrow> (FederationInfo \<times> reader) run" where
  "decode_FederationInfo W = decode_message W (switch_FederationInfo W) base_FederationInfo"

lemma builds_FederationInfo:
  assumes "wire_format W" "encode_FederationInfo W m [] = Inr b"
  shows "builds W (switch_FederationInfo W) base_FederationInfo m b"
proof (rule message_builds [OF assms(2) [unfolded encode_FederationInfo_def]])
  show "foldl (\<lambda>m u. u m) base_FederationInfo
      [pushed FederationInfo_servers_update (FederationInfo_servers m),
       given FederationInfo_unsecureLocalhostFederatedAuthEnabled_update (FederationInfo_unsecureLocalhostFederatedAuthEnabled m),
       given FederationInfo_facebookAuthConfig_update (FederationInfo_facebookAuthConfig m),
       given FederationInfo_xTwitterAuthConfig_update (FederationInfo_xTwitterAuthConfig m),
       pushed FederationInfo_mastodonServers_update (FederationInfo_mastodonServers m),
       pushed FederationInfo_blueskyServers_update (FederationInfo_blueskyServers m)] = m"
    by (cases m) (simp add: field_changes base_FederationInfo_def)
qed (insert assms(1),
    (rule wire_fields message_codecs | (simp add: updater_def switch_FederationInfo_def list_all_iff; fail))+)

lemma decodes_FederationInfo [message_codecs]:
  assumes "wire_format W" "encode_FederationInfo W m [] = Inr b"
  shows "decodes (decode_FederationInfo W) m b"
  unfolding decode_FederationInfo_def by (rule builds_decodes [OF builds_FederationInfo [OF assms]])

lemma settles_FederationInfo [message_returns]: "wire_format W \<Longrightarrow> settles k (decode_FederationInfo W)"
  unfolding decode_FederationInfo_def
  by (rule wire_format.settles_message, assumption,
      unfold switch_FederationInfo_def switch_field.simps switch_alternatives.simps)
    (rule wire_ends message_returns | assumption)+

section \<open>FederatedAccount\<close>

record FederatedAccount =
  FederatedAccount_host :: string
  FederatedAccount_userId :: string

definition base_FederatedAccount :: FederatedAccount where
  "base_FederatedAccount =
     \<lparr>FederatedAccount_host = [],
      FederatedAccount_userId = []\<rparr>"

definition encode_FederatedAccount :: "wire \<Rightarrow> FederatedAccount \<Rightarrow> bytes \<Rightarrow> bytes result" where
  "encode_FederatedAccount W m =
     write_all
       [write_when (FederatedAccount_host m \<noteq> []) (tagged W 10 (put_string W (FederatedAccount_host m))),
        write_when (FederatedAccount_userId m \<noteq> []) (tagged W 18 (put_string W (FederatedAccount_userId m)))]"

definition switch_FederatedAccount :: "wire \<Rightarrow> int \<Rightarrow> reader \<Rightarrow> FederatedAccount \<Rightarrow> FederatedAccount loop_step run" where
  "switch_FederatedAccount W tag r m =
     switch_field tag
       [(1, [(10, read_field (get_string W) (\<lambda>v. m\<lparr>FederatedAccount_host := v\<rparr>) r)]),
        (2, [(18, read_field (get_string W) (\<lambda>v. m\<lparr>FederatedAccount_userId := v\<rparr>) r)])]"

definition decode_FederatedAccount :: "wire \<Rightarrow> reader \<Rightarrow> int option \<Rightarrow> (FederatedAccount \<times> reader) run" where
  "decode_FederatedAccount W = decode_message W (switch_FederatedAccount W) base_FederatedAccount"

lemma builds_FederatedAccount:
  assumes "wire_format W" "encode_FederatedAccount W m [] = Inr b"
  shows "builds W (switch_FederatedAccount W) base_FederatedAccount m b"
proof (rule message_builds [OF assms(2) [unfolded encode_FederatedAccount_def]])
  show "foldl (\<lambda>m u. u m) base_FederatedAccount
      [plain FederatedAccount_host_update (FederatedAccount_host m) [],
       plain FederatedAccount_userId_update (FederatedAccount_userId m) []] = m"
    by (cases m) (simp add: field_changes base_FederatedAccount_def)
qed (insert assms(1),
    (rule wire_fields message_codecs | (simp add: updater_def switch_FederatedAccount_def list_all_iff; fail))+)

lemma decodes_FederatedAccount [message_codecs]:
  assumes "wire_format W" "encode_FederatedAccount W m [] = Inr b"
  shows "decodes (decode_FederatedAccount W) m b"
  unfolding decode_FederatedAccount_def by (rule builds_decodes [OF builds_FederatedAccount [OF assms]])

lemma settles_FederatedAccount [message_returns]: "wire_format W \<Longrightarrow> settles k (decode_FederatedAccount W)"
  unfolding decode_FederatedAccount_def
  by (rule wire_format.settles_message, assumption,
      unfold switch_FederatedAccount_def switch_field.simps switch_alternatives.simps)
    (rule wire_ends message_returns | assumption)+

end
