(* ===== verification/Wire_Market.thy ===== *)
theory Wire_Market
  imports Wire_Media
begin

text \<open>
  The codecs of packages/api/generated/market.ts: of each message the record, the empty message, writing, reading, and that
  reading what was written gives the message back.
\<close>

section \<open>AIGrantSubscriptionDetails\<close>

record AIGrantSubscriptionDetails =
  AIGrantSubscriptionDetails_aiProviderId :: string
  AIGrantSubscriptionDetails_modelNames :: "string list"
  AIGrantSubscriptionDetails_tokens :: int

definition base_AIGrantSubscriptionDetails :: AIGrantSubscriptionDetails where
  "base_AIGrantSubscriptionDetails =
     \<lparr>AIGrantSubscriptionDetails_aiProviderId = [],
      AIGrantSubscriptionDetails_modelNames = [],
      AIGrantSubscriptionDetails_tokens = 0\<rparr>"

definition encode_AIGrantSubscriptionDetails :: "wire \<Rightarrow> AIGrantSubscriptionDetails \<Rightarrow> bytes \<Rightarrow> bytes result" where
  "encode_AIGrantSubscriptionDetails W m =
     write_all
       [write_when (AIGrantSubscriptionDetails_aiProviderId m \<noteq> []) (tagged W 10 (put_string W (AIGrantSubscriptionDetails_aiProviderId m))),
        write_each (AIGrantSubscriptionDetails_modelNames m) (\<lambda>v. tagged W 18 (put_string W v)),
        write_when (AIGrantSubscriptionDetails_tokens m \<noteq> 0) (tagged W 24 (put_uint64 W (AIGrantSubscriptionDetails_tokens m)))]"

definition switch_AIGrantSubscriptionDetails :: "wire \<Rightarrow> int \<Rightarrow> reader \<Rightarrow> AIGrantSubscriptionDetails \<Rightarrow> AIGrantSubscriptionDetails loop_step run" where
  "switch_AIGrantSubscriptionDetails W tag r m =
     switch_field tag
       [(1, [(10, read_field (get_string W) (\<lambda>v. m\<lparr>AIGrantSubscriptionDetails_aiProviderId := v\<rparr>) r)]),
        (2, [(18, read_field (get_string W) (\<lambda>v. AIGrantSubscriptionDetails_modelNames_update (\<lambda>old. old @ [v]) m) r)]),
        (3, [(24, read_field (get_long (get_uint64 W)) (\<lambda>v. m\<lparr>AIGrantSubscriptionDetails_tokens := v\<rparr>) r)])]"

definition decode_AIGrantSubscriptionDetails :: "wire \<Rightarrow> reader \<Rightarrow> int option \<Rightarrow> (AIGrantSubscriptionDetails \<times> reader) run" where
  "decode_AIGrantSubscriptionDetails W = decode_message W (switch_AIGrantSubscriptionDetails W) base_AIGrantSubscriptionDetails"

definition safe_AIGrantSubscriptionDetails :: "wire \<Rightarrow> AIGrantSubscriptionDetails \<Rightarrow> bool" where
  "safe_AIGrantSubscriptionDetails W m \<longleftrightarrow>
     safe_long (AIGrantSubscriptionDetails_tokens m)"

lemma builds_AIGrantSubscriptionDetails:
  assumes "wire_format W" "safe_AIGrantSubscriptionDetails W m" "encode_AIGrantSubscriptionDetails W m [] = Inr b"
  shows "builds W (switch_AIGrantSubscriptionDetails W) base_AIGrantSubscriptionDetails m b"
proof (rule message_builds [OF assms(3) [unfolded encode_AIGrantSubscriptionDetails_def]])
  show "foldl (\<lambda>m u. u m) base_AIGrantSubscriptionDetails
      [plain AIGrantSubscriptionDetails_aiProviderId_update (AIGrantSubscriptionDetails_aiProviderId m) [],
       pushed AIGrantSubscriptionDetails_modelNames_update (AIGrantSubscriptionDetails_modelNames m),
       plain AIGrantSubscriptionDetails_tokens_update (AIGrantSubscriptionDetails_tokens m) 0] = m"
    by (cases m) (simp add: field_changes base_AIGrantSubscriptionDetails_def)
qed (insert assms(1,2),
    (rule wire_fields message_codecs | (simp add: updater_def switch_AIGrantSubscriptionDetails_def safe_AIGrantSubscriptionDetails_def list_all_iff; fail))+)

lemma decodes_AIGrantSubscriptionDetails [message_codecs]:
  assumes "wire_format W" "safe_AIGrantSubscriptionDetails W m" "encode_AIGrantSubscriptionDetails W m [] = Inr b"
  shows "decodes (decode_AIGrantSubscriptionDetails W) m b"
  unfolding decode_AIGrantSubscriptionDetails_def by (rule builds_decodes [OF builds_AIGrantSubscriptionDetails [OF assms]])

lemma settles_AIGrantSubscriptionDetails [message_returns]: "wire_format W \<Longrightarrow> settles k (decode_AIGrantSubscriptionDetails W)"
  unfolding decode_AIGrantSubscriptionDetails_def
  by (rule wire_format.settles_message, assumption,
      unfold switch_AIGrantSubscriptionDetails_def switch_field.simps switch_alternatives.simps)
    (rule wire_ends message_returns | assumption)+

section \<open>MediaStorageSubscriptionDetails\<close>

record MediaStorageSubscriptionDetails =
  MediaStorageSubscriptionDetails_allocationBytes :: int

definition base_MediaStorageSubscriptionDetails :: MediaStorageSubscriptionDetails where
  "base_MediaStorageSubscriptionDetails =
     \<lparr>MediaStorageSubscriptionDetails_allocationBytes = 0\<rparr>"

definition encode_MediaStorageSubscriptionDetails :: "wire \<Rightarrow> MediaStorageSubscriptionDetails \<Rightarrow> bytes \<Rightarrow> bytes result" where
  "encode_MediaStorageSubscriptionDetails W m =
     write_all
       [write_when (MediaStorageSubscriptionDetails_allocationBytes m \<noteq> 0) (tagged W 8 (put_uint64 W (MediaStorageSubscriptionDetails_allocationBytes m)))]"

definition switch_MediaStorageSubscriptionDetails :: "wire \<Rightarrow> int \<Rightarrow> reader \<Rightarrow> MediaStorageSubscriptionDetails \<Rightarrow> MediaStorageSubscriptionDetails loop_step run" where
  "switch_MediaStorageSubscriptionDetails W tag r m =
     switch_field tag
       [(1, [(8, read_field (get_long (get_uint64 W)) (\<lambda>v. m\<lparr>MediaStorageSubscriptionDetails_allocationBytes := v\<rparr>) r)])]"

definition decode_MediaStorageSubscriptionDetails :: "wire \<Rightarrow> reader \<Rightarrow> int option \<Rightarrow> (MediaStorageSubscriptionDetails \<times> reader) run" where
  "decode_MediaStorageSubscriptionDetails W = decode_message W (switch_MediaStorageSubscriptionDetails W) base_MediaStorageSubscriptionDetails"

definition safe_MediaStorageSubscriptionDetails :: "wire \<Rightarrow> MediaStorageSubscriptionDetails \<Rightarrow> bool" where
  "safe_MediaStorageSubscriptionDetails W m \<longleftrightarrow>
     safe_long (MediaStorageSubscriptionDetails_allocationBytes m)"

lemma builds_MediaStorageSubscriptionDetails:
  assumes "wire_format W" "safe_MediaStorageSubscriptionDetails W m" "encode_MediaStorageSubscriptionDetails W m [] = Inr b"
  shows "builds W (switch_MediaStorageSubscriptionDetails W) base_MediaStorageSubscriptionDetails m b"
proof (rule message_builds [OF assms(3) [unfolded encode_MediaStorageSubscriptionDetails_def]])
  show "foldl (\<lambda>m u. u m) base_MediaStorageSubscriptionDetails
      [plain MediaStorageSubscriptionDetails_allocationBytes_update (MediaStorageSubscriptionDetails_allocationBytes m) 0] = m"
    by (cases m) (simp add: field_changes base_MediaStorageSubscriptionDetails_def)
qed (insert assms(1,2),
    (rule wire_fields message_codecs | (simp add: updater_def switch_MediaStorageSubscriptionDetails_def safe_MediaStorageSubscriptionDetails_def list_all_iff; fail))+)

lemma decodes_MediaStorageSubscriptionDetails [message_codecs]:
  assumes "wire_format W" "safe_MediaStorageSubscriptionDetails W m" "encode_MediaStorageSubscriptionDetails W m [] = Inr b"
  shows "decodes (decode_MediaStorageSubscriptionDetails W) m b"
  unfolding decode_MediaStorageSubscriptionDetails_def by (rule builds_decodes [OF builds_MediaStorageSubscriptionDetails [OF assms]])

lemma settles_MediaStorageSubscriptionDetails [message_returns]: "wire_format W \<Longrightarrow> settles k (decode_MediaStorageSubscriptionDetails W)"
  unfolding decode_MediaStorageSubscriptionDetails_def
  by (rule wire_format.settles_message, assumption,
      unfold switch_MediaStorageSubscriptionDetails_def switch_field.simps switch_alternatives.simps)
    (rule wire_ends message_returns | assumption)+

section \<open>PermissionsAccessSubscriptionDetails\<close>

record PermissionsAccessSubscriptionDetails =
  PermissionsAccessSubscriptionDetails_permissions :: "int list"
  PermissionsAccessSubscriptionDetails_name :: string
  PermissionsAccessSubscriptionDetails_description :: string

definition base_PermissionsAccessSubscriptionDetails :: PermissionsAccessSubscriptionDetails where
  "base_PermissionsAccessSubscriptionDetails =
     \<lparr>PermissionsAccessSubscriptionDetails_permissions = [],
      PermissionsAccessSubscriptionDetails_name = [],
      PermissionsAccessSubscriptionDetails_description = []\<rparr>"

definition encode_PermissionsAccessSubscriptionDetails :: "wire \<Rightarrow> PermissionsAccessSubscriptionDetails \<Rightarrow> bytes \<Rightarrow> bytes result" where
  "encode_PermissionsAccessSubscriptionDetails W m =
     write_all
       [packed W 10 (put_int32 W) (PermissionsAccessSubscriptionDetails_permissions m),
        write_when (PermissionsAccessSubscriptionDetails_name m \<noteq> []) (tagged W 18 (put_string W (PermissionsAccessSubscriptionDetails_name m))),
        write_when (PermissionsAccessSubscriptionDetails_description m \<noteq> []) (tagged W 26 (put_string W (PermissionsAccessSubscriptionDetails_description m)))]"

definition switch_PermissionsAccessSubscriptionDetails :: "wire \<Rightarrow> int \<Rightarrow> reader \<Rightarrow> PermissionsAccessSubscriptionDetails \<Rightarrow> PermissionsAccessSubscriptionDetails loop_step run" where
  "switch_PermissionsAccessSubscriptionDetails W tag r m =
     switch_field tag
       [(1, [(8, read_field (get_int32 W) (\<lambda>v. PermissionsAccessSubscriptionDetails_permissions_update (\<lambda>old. old @ [v]) m) r), (10, read_packed W (get_int32 W) (PermissionsAccessSubscriptionDetails_permissions m) (\<lambda>vs. m\<lparr>PermissionsAccessSubscriptionDetails_permissions := vs\<rparr>) r)]),
        (2, [(18, read_field (get_string W) (\<lambda>v. m\<lparr>PermissionsAccessSubscriptionDetails_name := v\<rparr>) r)]),
        (3, [(26, read_field (get_string W) (\<lambda>v. m\<lparr>PermissionsAccessSubscriptionDetails_description := v\<rparr>) r)])]"

definition decode_PermissionsAccessSubscriptionDetails :: "wire \<Rightarrow> reader \<Rightarrow> int option \<Rightarrow> (PermissionsAccessSubscriptionDetails \<times> reader) run" where
  "decode_PermissionsAccessSubscriptionDetails W = decode_message W (switch_PermissionsAccessSubscriptionDetails W) base_PermissionsAccessSubscriptionDetails"

lemma builds_PermissionsAccessSubscriptionDetails:
  assumes "wire_format W" "encode_PermissionsAccessSubscriptionDetails W m [] = Inr b"
  shows "builds W (switch_PermissionsAccessSubscriptionDetails W) base_PermissionsAccessSubscriptionDetails m b"
proof (rule message_builds [OF assms(2) [unfolded encode_PermissionsAccessSubscriptionDetails_def]])
  show "foldl (\<lambda>m u. u m) base_PermissionsAccessSubscriptionDetails
      [pushed PermissionsAccessSubscriptionDetails_permissions_update (PermissionsAccessSubscriptionDetails_permissions m),
       plain PermissionsAccessSubscriptionDetails_name_update (PermissionsAccessSubscriptionDetails_name m) [],
       plain PermissionsAccessSubscriptionDetails_description_update (PermissionsAccessSubscriptionDetails_description m) []] = m"
    by (cases m) (simp add: field_changes base_PermissionsAccessSubscriptionDetails_def)
qed (insert assms(1),
    (rule wire_fields message_codecs | (simp add: updater_def switch_PermissionsAccessSubscriptionDetails_def list_all_iff; fail))+)

lemma decodes_PermissionsAccessSubscriptionDetails [message_codecs]:
  assumes "wire_format W" "encode_PermissionsAccessSubscriptionDetails W m [] = Inr b"
  shows "decodes (decode_PermissionsAccessSubscriptionDetails W) m b"
  unfolding decode_PermissionsAccessSubscriptionDetails_def by (rule builds_decodes [OF builds_PermissionsAccessSubscriptionDetails [OF assms]])

lemma settles_PermissionsAccessSubscriptionDetails [message_returns]: "wire_format W \<Longrightarrow> settles k (decode_PermissionsAccessSubscriptionDetails W)"
  unfolding decode_PermissionsAccessSubscriptionDetails_def
  by (rule wire_format.settles_message, assumption,
      unfold switch_PermissionsAccessSubscriptionDetails_def switch_field.simps switch_alternatives.simps)
    (rule wire_ends message_returns | assumption)+

section \<open>FulfillmentNote\<close>

record FulfillmentNote =
  FulfillmentNote_userId :: string
  FulfillmentNote_note :: string
  FulfillmentNote_fulfillmentStatus :: int
  FulfillmentNote_createdAt :: "string option"

definition base_FulfillmentNote :: FulfillmentNote where
  "base_FulfillmentNote =
     \<lparr>FulfillmentNote_userId = [],
      FulfillmentNote_note = [],
      FulfillmentNote_fulfillmentStatus = 0,
      FulfillmentNote_createdAt = None\<rparr>"

definition encode_FulfillmentNote :: "wire \<Rightarrow> FulfillmentNote \<Rightarrow> bytes \<Rightarrow> bytes result" where
  "encode_FulfillmentNote W m =
     write_all
       [write_when (FulfillmentNote_userId m \<noteq> []) (tagged W 10 (put_string W (FulfillmentNote_userId m))),
        write_when (FulfillmentNote_note m \<noteq> []) (tagged W 18 (put_string W (FulfillmentNote_note m))),
        write_when (FulfillmentNote_fulfillmentStatus m \<noteq> 0) (tagged W 24 (put_int32 W (FulfillmentNote_fulfillmentStatus m))),
        write_given (FulfillmentNote_createdAt m) (\<lambda>v. nested W 34 (encode_date W v))]"

definition switch_FulfillmentNote :: "wire \<Rightarrow> int \<Rightarrow> reader \<Rightarrow> FulfillmentNote \<Rightarrow> FulfillmentNote loop_step run" where
  "switch_FulfillmentNote W tag r m =
     switch_field tag
       [(1, [(10, read_field (get_string W) (\<lambda>v. m\<lparr>FulfillmentNote_userId := v\<rparr>) r)]),
        (2, [(18, read_field (get_string W) (\<lambda>v. m\<lparr>FulfillmentNote_note := v\<rparr>) r)]),
        (3, [(24, read_field (get_int32 W) (\<lambda>v. m\<lparr>FulfillmentNote_fulfillmentStatus := v\<rparr>) r)]),
        (4, [(34, read_message W (decode_date W) (\<lambda>v. m\<lparr>FulfillmentNote_createdAt := Some v\<rparr>) r)])]"

definition decode_FulfillmentNote :: "wire \<Rightarrow> reader \<Rightarrow> int option \<Rightarrow> (FulfillmentNote \<times> reader) run" where
  "decode_FulfillmentNote W = decode_message W (switch_FulfillmentNote W) base_FulfillmentNote"

definition safe_FulfillmentNote :: "wire \<Rightarrow> FulfillmentNote \<Rightarrow> bool" where
  "safe_FulfillmentNote W m \<longleftrightarrow>
     pred_option canonical_date (FulfillmentNote_createdAt m)"

lemma builds_FulfillmentNote:
  assumes "wire_format W" "safe_FulfillmentNote W m" "encode_FulfillmentNote W m [] = Inr b"
  shows "builds W (switch_FulfillmentNote W) base_FulfillmentNote m b"
proof (rule message_builds [OF assms(3) [unfolded encode_FulfillmentNote_def]])
  show "foldl (\<lambda>m u. u m) base_FulfillmentNote
      [plain FulfillmentNote_userId_update (FulfillmentNote_userId m) [],
       plain FulfillmentNote_note_update (FulfillmentNote_note m) [],
       plain FulfillmentNote_fulfillmentStatus_update (FulfillmentNote_fulfillmentStatus m) 0,
       given FulfillmentNote_createdAt_update (FulfillmentNote_createdAt m)] = m"
    by (cases m) (simp add: field_changes base_FulfillmentNote_def)
qed (insert assms(1,2),
    (rule wire_fields message_codecs | (simp add: updater_def switch_FulfillmentNote_def safe_FulfillmentNote_def list_all_iff; fail))+)

lemma decodes_FulfillmentNote [message_codecs]:
  assumes "wire_format W" "safe_FulfillmentNote W m" "encode_FulfillmentNote W m [] = Inr b"
  shows "decodes (decode_FulfillmentNote W) m b"
  unfolding decode_FulfillmentNote_def by (rule builds_decodes [OF builds_FulfillmentNote [OF assms]])

lemma settles_FulfillmentNote [message_returns]: "wire_format W \<Longrightarrow> settles k (decode_FulfillmentNote W)"
  unfolding decode_FulfillmentNote_def
  by (rule wire_format.settles_message, assumption,
      unfold switch_FulfillmentNote_def switch_field.simps switch_alternatives.simps)
    (rule wire_ends message_returns | assumption)+

section \<open>RellmHostingSubscriptionDetails\<close>

record RellmHostingSubscriptionDetails =
  RellmHostingSubscriptionDetails_dbSizeBytes :: int
  RellmHostingSubscriptionDetails_objectStorageSizeBytes :: int
  RellmHostingSubscriptionDetails_additionalDescription :: string
  RellmHostingSubscriptionDetails_domain :: string
  RellmHostingSubscriptionDetails_contactEmail :: string
  RellmHostingSubscriptionDetails_additionalInformation :: string
  RellmHostingSubscriptionDetails_fulfillmentStatus :: int
  RellmHostingSubscriptionDetails_fulfillmentNotes :: "FulfillmentNote list"

definition base_RellmHostingSubscriptionDetails :: RellmHostingSubscriptionDetails where
  "base_RellmHostingSubscriptionDetails =
     \<lparr>RellmHostingSubscriptionDetails_dbSizeBytes = 0,
      RellmHostingSubscriptionDetails_objectStorageSizeBytes = 0,
      RellmHostingSubscriptionDetails_additionalDescription = [],
      RellmHostingSubscriptionDetails_domain = [],
      RellmHostingSubscriptionDetails_contactEmail = [],
      RellmHostingSubscriptionDetails_additionalInformation = [],
      RellmHostingSubscriptionDetails_fulfillmentStatus = 0,
      RellmHostingSubscriptionDetails_fulfillmentNotes = []\<rparr>"

definition encode_RellmHostingSubscriptionDetails :: "wire \<Rightarrow> RellmHostingSubscriptionDetails \<Rightarrow> bytes \<Rightarrow> bytes result" where
  "encode_RellmHostingSubscriptionDetails W m =
     write_all
       [write_when (RellmHostingSubscriptionDetails_dbSizeBytes m \<noteq> 0) (tagged W 8 (put_uint64 W (RellmHostingSubscriptionDetails_dbSizeBytes m))),
        write_when (RellmHostingSubscriptionDetails_objectStorageSizeBytes m \<noteq> 0) (tagged W 16 (put_uint64 W (RellmHostingSubscriptionDetails_objectStorageSizeBytes m))),
        write_when (RellmHostingSubscriptionDetails_additionalDescription m \<noteq> []) (tagged W 26 (put_string W (RellmHostingSubscriptionDetails_additionalDescription m))),
        write_when (RellmHostingSubscriptionDetails_domain m \<noteq> []) (tagged W 34 (put_string W (RellmHostingSubscriptionDetails_domain m))),
        write_when (RellmHostingSubscriptionDetails_contactEmail m \<noteq> []) (tagged W 42 (put_string W (RellmHostingSubscriptionDetails_contactEmail m))),
        write_when (RellmHostingSubscriptionDetails_additionalInformation m \<noteq> []) (tagged W 50 (put_string W (RellmHostingSubscriptionDetails_additionalInformation m))),
        write_when (RellmHostingSubscriptionDetails_fulfillmentStatus m \<noteq> 0) (tagged W 56 (put_int32 W (RellmHostingSubscriptionDetails_fulfillmentStatus m))),
        write_each (RellmHostingSubscriptionDetails_fulfillmentNotes m) (\<lambda>v. nested W 66 (encode_FulfillmentNote W v))]"

definition switch_RellmHostingSubscriptionDetails :: "wire \<Rightarrow> int \<Rightarrow> reader \<Rightarrow> RellmHostingSubscriptionDetails \<Rightarrow> RellmHostingSubscriptionDetails loop_step run" where
  "switch_RellmHostingSubscriptionDetails W tag r m =
     switch_field tag
       [(1, [(8, read_field (get_long (get_uint64 W)) (\<lambda>v. m\<lparr>RellmHostingSubscriptionDetails_dbSizeBytes := v\<rparr>) r)]),
        (2, [(16, read_field (get_long (get_uint64 W)) (\<lambda>v. m\<lparr>RellmHostingSubscriptionDetails_objectStorageSizeBytes := v\<rparr>) r)]),
        (3, [(26, read_field (get_string W) (\<lambda>v. m\<lparr>RellmHostingSubscriptionDetails_additionalDescription := v\<rparr>) r)]),
        (4, [(34, read_field (get_string W) (\<lambda>v. m\<lparr>RellmHostingSubscriptionDetails_domain := v\<rparr>) r)]),
        (5, [(42, read_field (get_string W) (\<lambda>v. m\<lparr>RellmHostingSubscriptionDetails_contactEmail := v\<rparr>) r)]),
        (6, [(50, read_field (get_string W) (\<lambda>v. m\<lparr>RellmHostingSubscriptionDetails_additionalInformation := v\<rparr>) r)]),
        (7, [(56, read_field (get_int32 W) (\<lambda>v. m\<lparr>RellmHostingSubscriptionDetails_fulfillmentStatus := v\<rparr>) r)]),
        (8, [(66, read_message W (decode_FulfillmentNote W) (\<lambda>v. RellmHostingSubscriptionDetails_fulfillmentNotes_update (\<lambda>old. old @ [v]) m) r)])]"

definition decode_RellmHostingSubscriptionDetails :: "wire \<Rightarrow> reader \<Rightarrow> int option \<Rightarrow> (RellmHostingSubscriptionDetails \<times> reader) run" where
  "decode_RellmHostingSubscriptionDetails W = decode_message W (switch_RellmHostingSubscriptionDetails W) base_RellmHostingSubscriptionDetails"

definition safe_RellmHostingSubscriptionDetails :: "wire \<Rightarrow> RellmHostingSubscriptionDetails \<Rightarrow> bool" where
  "safe_RellmHostingSubscriptionDetails W m \<longleftrightarrow>
     safe_long (RellmHostingSubscriptionDetails_dbSizeBytes m) \<and>
     safe_long (RellmHostingSubscriptionDetails_objectStorageSizeBytes m) \<and>
     list_all (safe_FulfillmentNote W) (RellmHostingSubscriptionDetails_fulfillmentNotes m)"

lemma builds_RellmHostingSubscriptionDetails:
  assumes "wire_format W" "safe_RellmHostingSubscriptionDetails W m" "encode_RellmHostingSubscriptionDetails W m [] = Inr b"
  shows "builds W (switch_RellmHostingSubscriptionDetails W) base_RellmHostingSubscriptionDetails m b"
proof (rule message_builds [OF assms(3) [unfolded encode_RellmHostingSubscriptionDetails_def]])
  show "foldl (\<lambda>m u. u m) base_RellmHostingSubscriptionDetails
      [plain RellmHostingSubscriptionDetails_dbSizeBytes_update (RellmHostingSubscriptionDetails_dbSizeBytes m) 0,
       plain RellmHostingSubscriptionDetails_objectStorageSizeBytes_update (RellmHostingSubscriptionDetails_objectStorageSizeBytes m) 0,
       plain RellmHostingSubscriptionDetails_additionalDescription_update (RellmHostingSubscriptionDetails_additionalDescription m) [],
       plain RellmHostingSubscriptionDetails_domain_update (RellmHostingSubscriptionDetails_domain m) [],
       plain RellmHostingSubscriptionDetails_contactEmail_update (RellmHostingSubscriptionDetails_contactEmail m) [],
       plain RellmHostingSubscriptionDetails_additionalInformation_update (RellmHostingSubscriptionDetails_additionalInformation m) [],
       plain RellmHostingSubscriptionDetails_fulfillmentStatus_update (RellmHostingSubscriptionDetails_fulfillmentStatus m) 0,
       pushed RellmHostingSubscriptionDetails_fulfillmentNotes_update (RellmHostingSubscriptionDetails_fulfillmentNotes m)] = m"
    by (cases m) (simp add: field_changes base_RellmHostingSubscriptionDetails_def)
qed (insert assms(1,2),
    (rule wire_fields message_codecs | (simp add: updater_def switch_RellmHostingSubscriptionDetails_def safe_RellmHostingSubscriptionDetails_def list_all_iff; fail))+)

lemma decodes_RellmHostingSubscriptionDetails [message_codecs]:
  assumes "wire_format W" "safe_RellmHostingSubscriptionDetails W m" "encode_RellmHostingSubscriptionDetails W m [] = Inr b"
  shows "decodes (decode_RellmHostingSubscriptionDetails W) m b"
  unfolding decode_RellmHostingSubscriptionDetails_def by (rule builds_decodes [OF builds_RellmHostingSubscriptionDetails [OF assms]])

lemma settles_RellmHostingSubscriptionDetails [message_returns]: "wire_format W \<Longrightarrow> settles k (decode_RellmHostingSubscriptionDetails W)"
  unfolding decode_RellmHostingSubscriptionDetails_def
  by (rule wire_format.settles_message, assumption,
      unfold switch_RellmHostingSubscriptionDetails_def switch_field.simps switch_alternatives.simps)
    (rule wire_ends message_returns | assumption)+

section \<open>MarketProduct\<close>

record MarketProduct =
  MarketProduct_id :: string
  MarketProduct_type :: int
  MarketProduct_period :: int
  MarketProduct_amount :: int
  MarketProduct_currency :: int
  MarketProduct_availableCount :: int
  MarketProduct_soldCount :: int
  MarketProduct_mediaStorageSubscriptionDetails :: "MediaStorageSubscriptionDetails option"
  MarketProduct_aiGrantSubscriptionDetails :: "AIGrantSubscriptionDetails option"
  MarketProduct_rellmHostingSubscriptionDetails :: "RellmHostingSubscriptionDetails option"
  MarketProduct_permissionsAccessSubscriptionDetails :: "PermissionsAccessSubscriptionDetails option"
  MarketProduct_createdAt :: "string option"
  MarketProduct_delistedAt :: "string option"

definition base_MarketProduct :: MarketProduct where
  "base_MarketProduct =
     \<lparr>MarketProduct_id = [],
      MarketProduct_type = 0,
      MarketProduct_period = 0,
      MarketProduct_amount = 0,
      MarketProduct_currency = 0,
      MarketProduct_availableCount = 0,
      MarketProduct_soldCount = 0,
      MarketProduct_mediaStorageSubscriptionDetails = None,
      MarketProduct_aiGrantSubscriptionDetails = None,
      MarketProduct_rellmHostingSubscriptionDetails = None,
      MarketProduct_permissionsAccessSubscriptionDetails = None,
      MarketProduct_createdAt = None,
      MarketProduct_delistedAt = None\<rparr>"

definition encode_MarketProduct :: "wire \<Rightarrow> MarketProduct \<Rightarrow> bytes \<Rightarrow> bytes result" where
  "encode_MarketProduct W m =
     write_all
       [write_when (MarketProduct_id m \<noteq> []) (tagged W 10 (put_string W (MarketProduct_id m))),
        write_when (MarketProduct_type m \<noteq> 0) (tagged W 16 (put_int32 W (MarketProduct_type m))),
        write_when (MarketProduct_period m \<noteq> 0) (tagged W 24 (put_int32 W (MarketProduct_period m))),
        write_when (MarketProduct_amount m \<noteq> 0) (tagged W 32 (put_uint32 W (MarketProduct_amount m))),
        write_when (MarketProduct_currency m \<noteq> 0) (tagged W 40 (put_uint32 W (MarketProduct_currency m))),
        write_when (MarketProduct_availableCount m \<noteq> 0) (tagged W 48 (put_uint32 W (MarketProduct_availableCount m))),
        write_when (MarketProduct_soldCount m \<noteq> 0) (tagged W 56 (put_uint32 W (MarketProduct_soldCount m))),
        write_given (MarketProduct_mediaStorageSubscriptionDetails m) (\<lambda>v. nested W 82 (encode_MediaStorageSubscriptionDetails W v)),
        write_given (MarketProduct_aiGrantSubscriptionDetails m) (\<lambda>v. nested W 90 (encode_AIGrantSubscriptionDetails W v)),
        write_given (MarketProduct_rellmHostingSubscriptionDetails m) (\<lambda>v. nested W 98 (encode_RellmHostingSubscriptionDetails W v)),
        write_given (MarketProduct_permissionsAccessSubscriptionDetails m) (\<lambda>v. nested W 106 (encode_PermissionsAccessSubscriptionDetails W v)),
        write_given (MarketProduct_createdAt m) (\<lambda>v. nested W 162 (encode_date W v)),
        write_given (MarketProduct_delistedAt m) (\<lambda>v. nested W 170 (encode_date W v))]"

definition switch_MarketProduct :: "wire \<Rightarrow> int \<Rightarrow> reader \<Rightarrow> MarketProduct \<Rightarrow> MarketProduct loop_step run" where
  "switch_MarketProduct W tag r m =
     switch_field tag
       [(1, [(10, read_field (get_string W) (\<lambda>v. m\<lparr>MarketProduct_id := v\<rparr>) r)]),
        (2, [(16, read_field (get_int32 W) (\<lambda>v. m\<lparr>MarketProduct_type := v\<rparr>) r)]),
        (3, [(24, read_field (get_int32 W) (\<lambda>v. m\<lparr>MarketProduct_period := v\<rparr>) r)]),
        (4, [(32, read_field (get_uint32 W) (\<lambda>v. m\<lparr>MarketProduct_amount := v\<rparr>) r)]),
        (5, [(40, read_field (get_uint32 W) (\<lambda>v. m\<lparr>MarketProduct_currency := v\<rparr>) r)]),
        (6, [(48, read_field (get_uint32 W) (\<lambda>v. m\<lparr>MarketProduct_availableCount := v\<rparr>) r)]),
        (7, [(56, read_field (get_uint32 W) (\<lambda>v. m\<lparr>MarketProduct_soldCount := v\<rparr>) r)]),
        (10, [(82, read_message W (decode_MediaStorageSubscriptionDetails W) (\<lambda>v. m\<lparr>MarketProduct_mediaStorageSubscriptionDetails := Some v\<rparr>) r)]),
        (11, [(90, read_message W (decode_AIGrantSubscriptionDetails W) (\<lambda>v. m\<lparr>MarketProduct_aiGrantSubscriptionDetails := Some v\<rparr>) r)]),
        (12, [(98, read_message W (decode_RellmHostingSubscriptionDetails W) (\<lambda>v. m\<lparr>MarketProduct_rellmHostingSubscriptionDetails := Some v\<rparr>) r)]),
        (13, [(106, read_message W (decode_PermissionsAccessSubscriptionDetails W) (\<lambda>v. m\<lparr>MarketProduct_permissionsAccessSubscriptionDetails := Some v\<rparr>) r)]),
        (20, [(162, read_message W (decode_date W) (\<lambda>v. m\<lparr>MarketProduct_createdAt := Some v\<rparr>) r)]),
        (21, [(170, read_message W (decode_date W) (\<lambda>v. m\<lparr>MarketProduct_delistedAt := Some v\<rparr>) r)])]"

definition decode_MarketProduct :: "wire \<Rightarrow> reader \<Rightarrow> int option \<Rightarrow> (MarketProduct \<times> reader) run" where
  "decode_MarketProduct W = decode_message W (switch_MarketProduct W) base_MarketProduct"

definition safe_MarketProduct :: "wire \<Rightarrow> MarketProduct \<Rightarrow> bool" where
  "safe_MarketProduct W m \<longleftrightarrow>
     pred_option (safe_MediaStorageSubscriptionDetails W) (MarketProduct_mediaStorageSubscriptionDetails m) \<and>
     pred_option (safe_AIGrantSubscriptionDetails W) (MarketProduct_aiGrantSubscriptionDetails m) \<and>
     pred_option (safe_RellmHostingSubscriptionDetails W) (MarketProduct_rellmHostingSubscriptionDetails m) \<and>
     pred_option canonical_date (MarketProduct_createdAt m) \<and>
     pred_option canonical_date (MarketProduct_delistedAt m)"

lemma builds_MarketProduct:
  assumes "wire_format W" "safe_MarketProduct W m" "encode_MarketProduct W m [] = Inr b"
  shows "builds W (switch_MarketProduct W) base_MarketProduct m b"
proof (rule message_builds [OF assms(3) [unfolded encode_MarketProduct_def]])
  show "foldl (\<lambda>m u. u m) base_MarketProduct
      [plain MarketProduct_id_update (MarketProduct_id m) [],
       plain MarketProduct_type_update (MarketProduct_type m) 0,
       plain MarketProduct_period_update (MarketProduct_period m) 0,
       plain MarketProduct_amount_update (MarketProduct_amount m) 0,
       plain MarketProduct_currency_update (MarketProduct_currency m) 0,
       plain MarketProduct_availableCount_update (MarketProduct_availableCount m) 0,
       plain MarketProduct_soldCount_update (MarketProduct_soldCount m) 0,
       given MarketProduct_mediaStorageSubscriptionDetails_update (MarketProduct_mediaStorageSubscriptionDetails m),
       given MarketProduct_aiGrantSubscriptionDetails_update (MarketProduct_aiGrantSubscriptionDetails m),
       given MarketProduct_rellmHostingSubscriptionDetails_update (MarketProduct_rellmHostingSubscriptionDetails m),
       given MarketProduct_permissionsAccessSubscriptionDetails_update (MarketProduct_permissionsAccessSubscriptionDetails m),
       given MarketProduct_createdAt_update (MarketProduct_createdAt m),
       given MarketProduct_delistedAt_update (MarketProduct_delistedAt m)] = m"
    by (cases m) (simp add: field_changes base_MarketProduct_def)
qed (insert assms(1,2),
    (rule wire_fields message_codecs | (simp add: updater_def switch_MarketProduct_def safe_MarketProduct_def list_all_iff; fail))+)

lemma decodes_MarketProduct [message_codecs]:
  assumes "wire_format W" "safe_MarketProduct W m" "encode_MarketProduct W m [] = Inr b"
  shows "decodes (decode_MarketProduct W) m b"
  unfolding decode_MarketProduct_def by (rule builds_decodes [OF builds_MarketProduct [OF assms]])

lemma settles_MarketProduct [message_returns]: "wire_format W \<Longrightarrow> settles k (decode_MarketProduct W)"
  unfolding decode_MarketProduct_def
  by (rule wire_format.settles_message, assumption,
      unfold switch_MarketProduct_def switch_field.simps switch_alternatives.simps)
    (rule wire_ends message_returns | assumption)+

section \<open>GetMarketProductsRequest\<close>

datatype GetMarketProductsRequest = GetMarketProductsRequest_message

definition base_GetMarketProductsRequest :: GetMarketProductsRequest where
  "base_GetMarketProductsRequest = GetMarketProductsRequest_message"

definition encode_GetMarketProductsRequest :: "wire \<Rightarrow> GetMarketProductsRequest \<Rightarrow> bytes \<Rightarrow> bytes result" where
  "encode_GetMarketProductsRequest W m =
     write_all
       []"

definition switch_GetMarketProductsRequest :: "wire \<Rightarrow> int \<Rightarrow> reader \<Rightarrow> GetMarketProductsRequest \<Rightarrow> GetMarketProductsRequest loop_step run" where
  "switch_GetMarketProductsRequest W tag r m =
     switch_field tag
       []"

definition decode_GetMarketProductsRequest :: "wire \<Rightarrow> reader \<Rightarrow> int option \<Rightarrow> (GetMarketProductsRequest \<times> reader) run" where
  "decode_GetMarketProductsRequest W = decode_message W (switch_GetMarketProductsRequest W) base_GetMarketProductsRequest"

lemma decodes_GetMarketProductsRequest [message_codecs]:
  assumes "wire_format W" "encode_GetMarketProductsRequest W m [] = Inr b"
  shows "decodes (decode_GetMarketProductsRequest W) m b"
  unfolding decode_GetMarketProductsRequest_def
  by (rule message_decodes [OF assms(2) [unfolded encode_GetMarketProductsRequest_def], where us = "[]"]) (cases m; simp add: base_GetMarketProductsRequest_def)+

lemma settles_GetMarketProductsRequest [message_returns]: "wire_format W \<Longrightarrow> settles k (decode_GetMarketProductsRequest W)"
  unfolding decode_GetMarketProductsRequest_def
  by (rule wire_format.settles_message, assumption,
      unfold switch_GetMarketProductsRequest_def switch_field.simps switch_alternatives.simps)
    (rule wire_ends message_returns | assumption)+

section \<open>GetMarketProductsResponse\<close>

record GetMarketProductsResponse =
  GetMarketProductsResponse_marketProducts :: "MarketProduct list"

definition base_GetMarketProductsResponse :: GetMarketProductsResponse where
  "base_GetMarketProductsResponse =
     \<lparr>GetMarketProductsResponse_marketProducts = []\<rparr>"

definition encode_GetMarketProductsResponse :: "wire \<Rightarrow> GetMarketProductsResponse \<Rightarrow> bytes \<Rightarrow> bytes result" where
  "encode_GetMarketProductsResponse W m =
     write_all
       [write_each (GetMarketProductsResponse_marketProducts m) (\<lambda>v. nested W 10 (encode_MarketProduct W v))]"

definition switch_GetMarketProductsResponse :: "wire \<Rightarrow> int \<Rightarrow> reader \<Rightarrow> GetMarketProductsResponse \<Rightarrow> GetMarketProductsResponse loop_step run" where
  "switch_GetMarketProductsResponse W tag r m =
     switch_field tag
       [(1, [(10, read_message W (decode_MarketProduct W) (\<lambda>v. GetMarketProductsResponse_marketProducts_update (\<lambda>old. old @ [v]) m) r)])]"

definition decode_GetMarketProductsResponse :: "wire \<Rightarrow> reader \<Rightarrow> int option \<Rightarrow> (GetMarketProductsResponse \<times> reader) run" where
  "decode_GetMarketProductsResponse W = decode_message W (switch_GetMarketProductsResponse W) base_GetMarketProductsResponse"

definition safe_GetMarketProductsResponse :: "wire \<Rightarrow> GetMarketProductsResponse \<Rightarrow> bool" where
  "safe_GetMarketProductsResponse W m \<longleftrightarrow>
     list_all (safe_MarketProduct W) (GetMarketProductsResponse_marketProducts m)"

lemma builds_GetMarketProductsResponse:
  assumes "wire_format W" "safe_GetMarketProductsResponse W m" "encode_GetMarketProductsResponse W m [] = Inr b"
  shows "builds W (switch_GetMarketProductsResponse W) base_GetMarketProductsResponse m b"
proof (rule message_builds [OF assms(3) [unfolded encode_GetMarketProductsResponse_def]])
  show "foldl (\<lambda>m u. u m) base_GetMarketProductsResponse
      [pushed GetMarketProductsResponse_marketProducts_update (GetMarketProductsResponse_marketProducts m)] = m"
    by (cases m) (simp add: field_changes base_GetMarketProductsResponse_def)
qed (insert assms(1,2),
    (rule wire_fields message_codecs | (simp add: updater_def switch_GetMarketProductsResponse_def safe_GetMarketProductsResponse_def list_all_iff; fail))+)

lemma decodes_GetMarketProductsResponse [message_codecs]:
  assumes "wire_format W" "safe_GetMarketProductsResponse W m" "encode_GetMarketProductsResponse W m [] = Inr b"
  shows "decodes (decode_GetMarketProductsResponse W) m b"
  unfolding decode_GetMarketProductsResponse_def by (rule builds_decodes [OF builds_GetMarketProductsResponse [OF assms]])

lemma settles_GetMarketProductsResponse [message_returns]: "wire_format W \<Longrightarrow> settles k (decode_GetMarketProductsResponse W)"
  unfolding decode_GetMarketProductsResponse_def
  by (rule wire_format.settles_message, assumption,
      unfold switch_GetMarketProductsResponse_def switch_field.simps switch_alternatives.simps)
    (rule wire_ends message_returns | assumption)+

section \<open>GetMarketSubscriptionsRequest\<close>

record GetMarketSubscriptionsRequest =
  GetMarketSubscriptionsRequest_requestType :: int

definition base_GetMarketSubscriptionsRequest :: GetMarketSubscriptionsRequest where
  "base_GetMarketSubscriptionsRequest =
     \<lparr>GetMarketSubscriptionsRequest_requestType = 0\<rparr>"

definition encode_GetMarketSubscriptionsRequest :: "wire \<Rightarrow> GetMarketSubscriptionsRequest \<Rightarrow> bytes \<Rightarrow> bytes result" where
  "encode_GetMarketSubscriptionsRequest W m =
     write_all
       [write_when (GetMarketSubscriptionsRequest_requestType m \<noteq> 0) (tagged W 8 (put_int32 W (GetMarketSubscriptionsRequest_requestType m)))]"

definition switch_GetMarketSubscriptionsRequest :: "wire \<Rightarrow> int \<Rightarrow> reader \<Rightarrow> GetMarketSubscriptionsRequest \<Rightarrow> GetMarketSubscriptionsRequest loop_step run" where
  "switch_GetMarketSubscriptionsRequest W tag r m =
     switch_field tag
       [(1, [(8, read_field (get_int32 W) (\<lambda>v. m\<lparr>GetMarketSubscriptionsRequest_requestType := v\<rparr>) r)])]"

definition decode_GetMarketSubscriptionsRequest :: "wire \<Rightarrow> reader \<Rightarrow> int option \<Rightarrow> (GetMarketSubscriptionsRequest \<times> reader) run" where
  "decode_GetMarketSubscriptionsRequest W = decode_message W (switch_GetMarketSubscriptionsRequest W) base_GetMarketSubscriptionsRequest"

lemma builds_GetMarketSubscriptionsRequest:
  assumes "wire_format W" "encode_GetMarketSubscriptionsRequest W m [] = Inr b"
  shows "builds W (switch_GetMarketSubscriptionsRequest W) base_GetMarketSubscriptionsRequest m b"
proof (rule message_builds [OF assms(2) [unfolded encode_GetMarketSubscriptionsRequest_def]])
  show "foldl (\<lambda>m u. u m) base_GetMarketSubscriptionsRequest
      [plain GetMarketSubscriptionsRequest_requestType_update (GetMarketSubscriptionsRequest_requestType m) 0] = m"
    by (cases m) (simp add: field_changes base_GetMarketSubscriptionsRequest_def)
qed (insert assms(1),
    (rule wire_fields message_codecs | (simp add: updater_def switch_GetMarketSubscriptionsRequest_def list_all_iff; fail))+)

lemma decodes_GetMarketSubscriptionsRequest [message_codecs]:
  assumes "wire_format W" "encode_GetMarketSubscriptionsRequest W m [] = Inr b"
  shows "decodes (decode_GetMarketSubscriptionsRequest W) m b"
  unfolding decode_GetMarketSubscriptionsRequest_def by (rule builds_decodes [OF builds_GetMarketSubscriptionsRequest [OF assms]])

lemma settles_GetMarketSubscriptionsRequest [message_returns]: "wire_format W \<Longrightarrow> settles k (decode_GetMarketSubscriptionsRequest W)"
  unfolding decode_GetMarketSubscriptionsRequest_def
  by (rule wire_format.settles_message, assumption,
      unfold switch_GetMarketSubscriptionsRequest_def switch_field.simps switch_alternatives.simps)
    (rule wire_ends message_returns | assumption)+

section \<open>AIGrantPurchaseDetails\<close>

record AIGrantPurchaseDetails =
  AIGrantPurchaseDetails_aiProviderId :: string
  AIGrantPurchaseDetails_modelNames :: "string list"
  AIGrantPurchaseDetails_tokens :: int

definition base_AIGrantPurchaseDetails :: AIGrantPurchaseDetails where
  "base_AIGrantPurchaseDetails =
     \<lparr>AIGrantPurchaseDetails_aiProviderId = [],
      AIGrantPurchaseDetails_modelNames = [],
      AIGrantPurchaseDetails_tokens = 0\<rparr>"

definition encode_AIGrantPurchaseDetails :: "wire \<Rightarrow> AIGrantPurchaseDetails \<Rightarrow> bytes \<Rightarrow> bytes result" where
  "encode_AIGrantPurchaseDetails W m =
     write_all
       [write_when (AIGrantPurchaseDetails_aiProviderId m \<noteq> []) (tagged W 10 (put_string W (AIGrantPurchaseDetails_aiProviderId m))),
        write_each (AIGrantPurchaseDetails_modelNames m) (\<lambda>v. tagged W 18 (put_string W v)),
        write_when (AIGrantPurchaseDetails_tokens m \<noteq> 0) (tagged W 24 (put_uint64 W (AIGrantPurchaseDetails_tokens m)))]"

definition switch_AIGrantPurchaseDetails :: "wire \<Rightarrow> int \<Rightarrow> reader \<Rightarrow> AIGrantPurchaseDetails \<Rightarrow> AIGrantPurchaseDetails loop_step run" where
  "switch_AIGrantPurchaseDetails W tag r m =
     switch_field tag
       [(1, [(10, read_field (get_string W) (\<lambda>v. m\<lparr>AIGrantPurchaseDetails_aiProviderId := v\<rparr>) r)]),
        (2, [(18, read_field (get_string W) (\<lambda>v. AIGrantPurchaseDetails_modelNames_update (\<lambda>old. old @ [v]) m) r)]),
        (3, [(24, read_field (get_long (get_uint64 W)) (\<lambda>v. m\<lparr>AIGrantPurchaseDetails_tokens := v\<rparr>) r)])]"

definition decode_AIGrantPurchaseDetails :: "wire \<Rightarrow> reader \<Rightarrow> int option \<Rightarrow> (AIGrantPurchaseDetails \<times> reader) run" where
  "decode_AIGrantPurchaseDetails W = decode_message W (switch_AIGrantPurchaseDetails W) base_AIGrantPurchaseDetails"

definition safe_AIGrantPurchaseDetails :: "wire \<Rightarrow> AIGrantPurchaseDetails \<Rightarrow> bool" where
  "safe_AIGrantPurchaseDetails W m \<longleftrightarrow>
     safe_long (AIGrantPurchaseDetails_tokens m)"

lemma builds_AIGrantPurchaseDetails:
  assumes "wire_format W" "safe_AIGrantPurchaseDetails W m" "encode_AIGrantPurchaseDetails W m [] = Inr b"
  shows "builds W (switch_AIGrantPurchaseDetails W) base_AIGrantPurchaseDetails m b"
proof (rule message_builds [OF assms(3) [unfolded encode_AIGrantPurchaseDetails_def]])
  show "foldl (\<lambda>m u. u m) base_AIGrantPurchaseDetails
      [plain AIGrantPurchaseDetails_aiProviderId_update (AIGrantPurchaseDetails_aiProviderId m) [],
       pushed AIGrantPurchaseDetails_modelNames_update (AIGrantPurchaseDetails_modelNames m),
       plain AIGrantPurchaseDetails_tokens_update (AIGrantPurchaseDetails_tokens m) 0] = m"
    by (cases m) (simp add: field_changes base_AIGrantPurchaseDetails_def)
qed (insert assms(1,2),
    (rule wire_fields message_codecs | (simp add: updater_def switch_AIGrantPurchaseDetails_def safe_AIGrantPurchaseDetails_def list_all_iff; fail))+)

lemma decodes_AIGrantPurchaseDetails [message_codecs]:
  assumes "wire_format W" "safe_AIGrantPurchaseDetails W m" "encode_AIGrantPurchaseDetails W m [] = Inr b"
  shows "decodes (decode_AIGrantPurchaseDetails W) m b"
  unfolding decode_AIGrantPurchaseDetails_def by (rule builds_decodes [OF builds_AIGrantPurchaseDetails [OF assms]])

lemma settles_AIGrantPurchaseDetails [message_returns]: "wire_format W \<Longrightarrow> settles k (decode_AIGrantPurchaseDetails W)"
  unfolding decode_AIGrantPurchaseDetails_def
  by (rule wire_format.settles_message, assumption,
      unfold switch_AIGrantPurchaseDetails_def switch_field.simps switch_alternatives.simps)
    (rule wire_ends message_returns | assumption)+

section \<open>MarketPaymentMethod\<close>

record MarketPaymentMethod =
  MarketPaymentMethod_cardBrand :: string
  MarketPaymentMethod_cardLast4 :: string
  MarketPaymentMethod_cardExpMonth :: int
  MarketPaymentMethod_cardExpYear :: int

definition base_MarketPaymentMethod :: MarketPaymentMethod where
  "base_MarketPaymentMethod =
     \<lparr>MarketPaymentMethod_cardBrand = [],
      MarketPaymentMethod_cardLast4 = [],
      MarketPaymentMethod_cardExpMonth = 0,
      MarketPaymentMethod_cardExpYear = 0\<rparr>"

definition encode_MarketPaymentMethod :: "wire \<Rightarrow> MarketPaymentMethod \<Rightarrow> bytes \<Rightarrow> bytes result" where
  "encode_MarketPaymentMethod W m =
     write_all
       [write_when (MarketPaymentMethod_cardBrand m \<noteq> []) (tagged W 10 (put_string W (MarketPaymentMethod_cardBrand m))),
        write_when (MarketPaymentMethod_cardLast4 m \<noteq> []) (tagged W 18 (put_string W (MarketPaymentMethod_cardLast4 m))),
        write_when (MarketPaymentMethod_cardExpMonth m \<noteq> 0) (tagged W 24 (put_uint32 W (MarketPaymentMethod_cardExpMonth m))),
        write_when (MarketPaymentMethod_cardExpYear m \<noteq> 0) (tagged W 32 (put_uint32 W (MarketPaymentMethod_cardExpYear m)))]"

definition switch_MarketPaymentMethod :: "wire \<Rightarrow> int \<Rightarrow> reader \<Rightarrow> MarketPaymentMethod \<Rightarrow> MarketPaymentMethod loop_step run" where
  "switch_MarketPaymentMethod W tag r m =
     switch_field tag
       [(1, [(10, read_field (get_string W) (\<lambda>v. m\<lparr>MarketPaymentMethod_cardBrand := v\<rparr>) r)]),
        (2, [(18, read_field (get_string W) (\<lambda>v. m\<lparr>MarketPaymentMethod_cardLast4 := v\<rparr>) r)]),
        (3, [(24, read_field (get_uint32 W) (\<lambda>v. m\<lparr>MarketPaymentMethod_cardExpMonth := v\<rparr>) r)]),
        (4, [(32, read_field (get_uint32 W) (\<lambda>v. m\<lparr>MarketPaymentMethod_cardExpYear := v\<rparr>) r)])]"

definition decode_MarketPaymentMethod :: "wire \<Rightarrow> reader \<Rightarrow> int option \<Rightarrow> (MarketPaymentMethod \<times> reader) run" where
  "decode_MarketPaymentMethod W = decode_message W (switch_MarketPaymentMethod W) base_MarketPaymentMethod"

lemma builds_MarketPaymentMethod:
  assumes "wire_format W" "encode_MarketPaymentMethod W m [] = Inr b"
  shows "builds W (switch_MarketPaymentMethod W) base_MarketPaymentMethod m b"
proof (rule message_builds [OF assms(2) [unfolded encode_MarketPaymentMethod_def]])
  show "foldl (\<lambda>m u. u m) base_MarketPaymentMethod
      [plain MarketPaymentMethod_cardBrand_update (MarketPaymentMethod_cardBrand m) [],
       plain MarketPaymentMethod_cardLast4_update (MarketPaymentMethod_cardLast4 m) [],
       plain MarketPaymentMethod_cardExpMonth_update (MarketPaymentMethod_cardExpMonth m) 0,
       plain MarketPaymentMethod_cardExpYear_update (MarketPaymentMethod_cardExpYear m) 0] = m"
    by (cases m) (simp add: field_changes base_MarketPaymentMethod_def)
qed (insert assms(1),
    (rule wire_fields message_codecs | (simp add: updater_def switch_MarketPaymentMethod_def list_all_iff; fail))+)

lemma decodes_MarketPaymentMethod [message_codecs]:
  assumes "wire_format W" "encode_MarketPaymentMethod W m [] = Inr b"
  shows "decodes (decode_MarketPaymentMethod W) m b"
  unfolding decode_MarketPaymentMethod_def by (rule builds_decodes [OF builds_MarketPaymentMethod [OF assms]])

lemma settles_MarketPaymentMethod [message_returns]: "wire_format W \<Longrightarrow> settles k (decode_MarketPaymentMethod W)"
  unfolding decode_MarketPaymentMethod_def
  by (rule wire_format.settles_message, assumption,
      unfold switch_MarketPaymentMethod_def switch_field.simps switch_alternatives.simps)
    (rule wire_ends message_returns | assumption)+

section \<open>MarketPayment\<close>

record MarketPayment =
  MarketPayment_amount :: int
  MarketPayment_currency :: int
  MarketPayment_marketPurchaseId :: string
  MarketPayment_method :: "MarketPaymentMethod option"
  MarketPayment_createdAt :: "string option"

definition base_MarketPayment :: MarketPayment where
  "base_MarketPayment =
     \<lparr>MarketPayment_amount = 0,
      MarketPayment_currency = 0,
      MarketPayment_marketPurchaseId = [],
      MarketPayment_method = None,
      MarketPayment_createdAt = None\<rparr>"

definition encode_MarketPayment :: "wire \<Rightarrow> MarketPayment \<Rightarrow> bytes \<Rightarrow> bytes result" where
  "encode_MarketPayment W m =
     write_all
       [write_when (MarketPayment_amount m \<noteq> 0) (tagged W 8 (put_uint32 W (MarketPayment_amount m))),
        write_when (MarketPayment_currency m \<noteq> 0) (tagged W 16 (put_uint32 W (MarketPayment_currency m))),
        write_when (MarketPayment_marketPurchaseId m \<noteq> []) (tagged W 26 (put_string W (MarketPayment_marketPurchaseId m))),
        write_given (MarketPayment_method m) (\<lambda>v. nested W 34 (encode_MarketPaymentMethod W v)),
        write_given (MarketPayment_createdAt m) (\<lambda>v. nested W 82 (encode_date W v))]"

definition switch_MarketPayment :: "wire \<Rightarrow> int \<Rightarrow> reader \<Rightarrow> MarketPayment \<Rightarrow> MarketPayment loop_step run" where
  "switch_MarketPayment W tag r m =
     switch_field tag
       [(1, [(8, read_field (get_uint32 W) (\<lambda>v. m\<lparr>MarketPayment_amount := v\<rparr>) r)]),
        (2, [(16, read_field (get_uint32 W) (\<lambda>v. m\<lparr>MarketPayment_currency := v\<rparr>) r)]),
        (3, [(26, read_field (get_string W) (\<lambda>v. m\<lparr>MarketPayment_marketPurchaseId := v\<rparr>) r)]),
        (4, [(34, read_message W (decode_MarketPaymentMethod W) (\<lambda>v. m\<lparr>MarketPayment_method := Some v\<rparr>) r)]),
        (10, [(82, read_message W (decode_date W) (\<lambda>v. m\<lparr>MarketPayment_createdAt := Some v\<rparr>) r)])]"

definition decode_MarketPayment :: "wire \<Rightarrow> reader \<Rightarrow> int option \<Rightarrow> (MarketPayment \<times> reader) run" where
  "decode_MarketPayment W = decode_message W (switch_MarketPayment W) base_MarketPayment"

definition safe_MarketPayment :: "wire \<Rightarrow> MarketPayment \<Rightarrow> bool" where
  "safe_MarketPayment W m \<longleftrightarrow>
     pred_option canonical_date (MarketPayment_createdAt m)"

lemma builds_MarketPayment:
  assumes "wire_format W" "safe_MarketPayment W m" "encode_MarketPayment W m [] = Inr b"
  shows "builds W (switch_MarketPayment W) base_MarketPayment m b"
proof (rule message_builds [OF assms(3) [unfolded encode_MarketPayment_def]])
  show "foldl (\<lambda>m u. u m) base_MarketPayment
      [plain MarketPayment_amount_update (MarketPayment_amount m) 0,
       plain MarketPayment_currency_update (MarketPayment_currency m) 0,
       plain MarketPayment_marketPurchaseId_update (MarketPayment_marketPurchaseId m) [],
       given MarketPayment_method_update (MarketPayment_method m),
       given MarketPayment_createdAt_update (MarketPayment_createdAt m)] = m"
    by (cases m) (simp add: field_changes base_MarketPayment_def)
qed (insert assms(1,2),
    (rule wire_fields message_codecs | (simp add: updater_def switch_MarketPayment_def safe_MarketPayment_def list_all_iff; fail))+)

lemma decodes_MarketPayment [message_codecs]:
  assumes "wire_format W" "safe_MarketPayment W m" "encode_MarketPayment W m [] = Inr b"
  shows "decodes (decode_MarketPayment W) m b"
  unfolding decode_MarketPayment_def by (rule builds_decodes [OF builds_MarketPayment [OF assms]])

lemma settles_MarketPayment [message_returns]: "wire_format W \<Longrightarrow> settles k (decode_MarketPayment W)"
  unfolding decode_MarketPayment_def
  by (rule wire_format.settles_message, assumption,
      unfold switch_MarketPayment_def switch_field.simps switch_alternatives.simps)
    (rule wire_ends message_returns | assumption)+

section \<open>MarketRefundMethod\<close>

record MarketRefundMethod =
  MarketRefundMethod_cardBrand :: string
  MarketRefundMethod_cardLast4 :: string
  MarketRefundMethod_cardExpMonth :: int
  MarketRefundMethod_cardExpYear :: int

definition base_MarketRefundMethod :: MarketRefundMethod where
  "base_MarketRefundMethod =
     \<lparr>MarketRefundMethod_cardBrand = [],
      MarketRefundMethod_cardLast4 = [],
      MarketRefundMethod_cardExpMonth = 0,
      MarketRefundMethod_cardExpYear = 0\<rparr>"

definition encode_MarketRefundMethod :: "wire \<Rightarrow> MarketRefundMethod \<Rightarrow> bytes \<Rightarrow> bytes result" where
  "encode_MarketRefundMethod W m =
     write_all
       [write_when (MarketRefundMethod_cardBrand m \<noteq> []) (tagged W 10 (put_string W (MarketRefundMethod_cardBrand m))),
        write_when (MarketRefundMethod_cardLast4 m \<noteq> []) (tagged W 18 (put_string W (MarketRefundMethod_cardLast4 m))),
        write_when (MarketRefundMethod_cardExpMonth m \<noteq> 0) (tagged W 24 (put_uint32 W (MarketRefundMethod_cardExpMonth m))),
        write_when (MarketRefundMethod_cardExpYear m \<noteq> 0) (tagged W 32 (put_uint32 W (MarketRefundMethod_cardExpYear m)))]"

definition switch_MarketRefundMethod :: "wire \<Rightarrow> int \<Rightarrow> reader \<Rightarrow> MarketRefundMethod \<Rightarrow> MarketRefundMethod loop_step run" where
  "switch_MarketRefundMethod W tag r m =
     switch_field tag
       [(1, [(10, read_field (get_string W) (\<lambda>v. m\<lparr>MarketRefundMethod_cardBrand := v\<rparr>) r)]),
        (2, [(18, read_field (get_string W) (\<lambda>v. m\<lparr>MarketRefundMethod_cardLast4 := v\<rparr>) r)]),
        (3, [(24, read_field (get_uint32 W) (\<lambda>v. m\<lparr>MarketRefundMethod_cardExpMonth := v\<rparr>) r)]),
        (4, [(32, read_field (get_uint32 W) (\<lambda>v. m\<lparr>MarketRefundMethod_cardExpYear := v\<rparr>) r)])]"

definition decode_MarketRefundMethod :: "wire \<Rightarrow> reader \<Rightarrow> int option \<Rightarrow> (MarketRefundMethod \<times> reader) run" where
  "decode_MarketRefundMethod W = decode_message W (switch_MarketRefundMethod W) base_MarketRefundMethod"

lemma builds_MarketRefundMethod:
  assumes "wire_format W" "encode_MarketRefundMethod W m [] = Inr b"
  shows "builds W (switch_MarketRefundMethod W) base_MarketRefundMethod m b"
proof (rule message_builds [OF assms(2) [unfolded encode_MarketRefundMethod_def]])
  show "foldl (\<lambda>m u. u m) base_MarketRefundMethod
      [plain MarketRefundMethod_cardBrand_update (MarketRefundMethod_cardBrand m) [],
       plain MarketRefundMethod_cardLast4_update (MarketRefundMethod_cardLast4 m) [],
       plain MarketRefundMethod_cardExpMonth_update (MarketRefundMethod_cardExpMonth m) 0,
       plain MarketRefundMethod_cardExpYear_update (MarketRefundMethod_cardExpYear m) 0] = m"
    by (cases m) (simp add: field_changes base_MarketRefundMethod_def)
qed (insert assms(1),
    (rule wire_fields message_codecs | (simp add: updater_def switch_MarketRefundMethod_def list_all_iff; fail))+)

lemma decodes_MarketRefundMethod [message_codecs]:
  assumes "wire_format W" "encode_MarketRefundMethod W m [] = Inr b"
  shows "decodes (decode_MarketRefundMethod W) m b"
  unfolding decode_MarketRefundMethod_def by (rule builds_decodes [OF builds_MarketRefundMethod [OF assms]])

lemma settles_MarketRefundMethod [message_returns]: "wire_format W \<Longrightarrow> settles k (decode_MarketRefundMethod W)"
  unfolding decode_MarketRefundMethod_def
  by (rule wire_format.settles_message, assumption,
      unfold switch_MarketRefundMethod_def switch_field.simps switch_alternatives.simps)
    (rule wire_ends message_returns | assumption)+

section \<open>MarketRefund\<close>

record MarketRefund =
  MarketRefund_amount :: int
  MarketRefund_currency :: int
  MarketRefund_marketPurchaseId :: string
  MarketRefund_method :: "MarketRefundMethod option"
  MarketRefund_createdAt :: "string option"

definition base_MarketRefund :: MarketRefund where
  "base_MarketRefund =
     \<lparr>MarketRefund_amount = 0,
      MarketRefund_currency = 0,
      MarketRefund_marketPurchaseId = [],
      MarketRefund_method = None,
      MarketRefund_createdAt = None\<rparr>"

definition encode_MarketRefund :: "wire \<Rightarrow> MarketRefund \<Rightarrow> bytes \<Rightarrow> bytes result" where
  "encode_MarketRefund W m =
     write_all
       [write_when (MarketRefund_amount m \<noteq> 0) (tagged W 8 (put_uint32 W (MarketRefund_amount m))),
        write_when (MarketRefund_currency m \<noteq> 0) (tagged W 16 (put_uint32 W (MarketRefund_currency m))),
        write_when (MarketRefund_marketPurchaseId m \<noteq> []) (tagged W 26 (put_string W (MarketRefund_marketPurchaseId m))),
        write_given (MarketRefund_method m) (\<lambda>v. nested W 34 (encode_MarketRefundMethod W v)),
        write_given (MarketRefund_createdAt m) (\<lambda>v. nested W 82 (encode_date W v))]"

definition switch_MarketRefund :: "wire \<Rightarrow> int \<Rightarrow> reader \<Rightarrow> MarketRefund \<Rightarrow> MarketRefund loop_step run" where
  "switch_MarketRefund W tag r m =
     switch_field tag
       [(1, [(8, read_field (get_uint32 W) (\<lambda>v. m\<lparr>MarketRefund_amount := v\<rparr>) r)]),
        (2, [(16, read_field (get_uint32 W) (\<lambda>v. m\<lparr>MarketRefund_currency := v\<rparr>) r)]),
        (3, [(26, read_field (get_string W) (\<lambda>v. m\<lparr>MarketRefund_marketPurchaseId := v\<rparr>) r)]),
        (4, [(34, read_message W (decode_MarketRefundMethod W) (\<lambda>v. m\<lparr>MarketRefund_method := Some v\<rparr>) r)]),
        (10, [(82, read_message W (decode_date W) (\<lambda>v. m\<lparr>MarketRefund_createdAt := Some v\<rparr>) r)])]"

definition decode_MarketRefund :: "wire \<Rightarrow> reader \<Rightarrow> int option \<Rightarrow> (MarketRefund \<times> reader) run" where
  "decode_MarketRefund W = decode_message W (switch_MarketRefund W) base_MarketRefund"

definition safe_MarketRefund :: "wire \<Rightarrow> MarketRefund \<Rightarrow> bool" where
  "safe_MarketRefund W m \<longleftrightarrow>
     pred_option canonical_date (MarketRefund_createdAt m)"

lemma builds_MarketRefund:
  assumes "wire_format W" "safe_MarketRefund W m" "encode_MarketRefund W m [] = Inr b"
  shows "builds W (switch_MarketRefund W) base_MarketRefund m b"
proof (rule message_builds [OF assms(3) [unfolded encode_MarketRefund_def]])
  show "foldl (\<lambda>m u. u m) base_MarketRefund
      [plain MarketRefund_amount_update (MarketRefund_amount m) 0,
       plain MarketRefund_currency_update (MarketRefund_currency m) 0,
       plain MarketRefund_marketPurchaseId_update (MarketRefund_marketPurchaseId m) [],
       given MarketRefund_method_update (MarketRefund_method m),
       given MarketRefund_createdAt_update (MarketRefund_createdAt m)] = m"
    by (cases m) (simp add: field_changes base_MarketRefund_def)
qed (insert assms(1,2),
    (rule wire_fields message_codecs | (simp add: updater_def switch_MarketRefund_def safe_MarketRefund_def list_all_iff; fail))+)

lemma decodes_MarketRefund [message_codecs]:
  assumes "wire_format W" "safe_MarketRefund W m" "encode_MarketRefund W m [] = Inr b"
  shows "decodes (decode_MarketRefund W) m b"
  unfolding decode_MarketRefund_def by (rule builds_decodes [OF builds_MarketRefund [OF assms]])

lemma settles_MarketRefund [message_returns]: "wire_format W \<Longrightarrow> settles k (decode_MarketRefund W)"
  unfolding decode_MarketRefund_def
  by (rule wire_format.settles_message, assumption,
      unfold switch_MarketRefund_def switch_field.simps switch_alternatives.simps)
    (rule wire_ends message_returns | assumption)+

section \<open>MediaStoragePurchaseDetails\<close>

record MediaStoragePurchaseDetails =
  MediaStoragePurchaseDetails_allocationBytes :: int

definition base_MediaStoragePurchaseDetails :: MediaStoragePurchaseDetails where
  "base_MediaStoragePurchaseDetails =
     \<lparr>MediaStoragePurchaseDetails_allocationBytes = 0\<rparr>"

definition encode_MediaStoragePurchaseDetails :: "wire \<Rightarrow> MediaStoragePurchaseDetails \<Rightarrow> bytes \<Rightarrow> bytes result" where
  "encode_MediaStoragePurchaseDetails W m =
     write_all
       [write_when (MediaStoragePurchaseDetails_allocationBytes m \<noteq> 0) (tagged W 8 (put_uint64 W (MediaStoragePurchaseDetails_allocationBytes m)))]"

definition switch_MediaStoragePurchaseDetails :: "wire \<Rightarrow> int \<Rightarrow> reader \<Rightarrow> MediaStoragePurchaseDetails \<Rightarrow> MediaStoragePurchaseDetails loop_step run" where
  "switch_MediaStoragePurchaseDetails W tag r m =
     switch_field tag
       [(1, [(8, read_field (get_long (get_uint64 W)) (\<lambda>v. m\<lparr>MediaStoragePurchaseDetails_allocationBytes := v\<rparr>) r)])]"

definition decode_MediaStoragePurchaseDetails :: "wire \<Rightarrow> reader \<Rightarrow> int option \<Rightarrow> (MediaStoragePurchaseDetails \<times> reader) run" where
  "decode_MediaStoragePurchaseDetails W = decode_message W (switch_MediaStoragePurchaseDetails W) base_MediaStoragePurchaseDetails"

definition safe_MediaStoragePurchaseDetails :: "wire \<Rightarrow> MediaStoragePurchaseDetails \<Rightarrow> bool" where
  "safe_MediaStoragePurchaseDetails W m \<longleftrightarrow>
     safe_long (MediaStoragePurchaseDetails_allocationBytes m)"

lemma builds_MediaStoragePurchaseDetails:
  assumes "wire_format W" "safe_MediaStoragePurchaseDetails W m" "encode_MediaStoragePurchaseDetails W m [] = Inr b"
  shows "builds W (switch_MediaStoragePurchaseDetails W) base_MediaStoragePurchaseDetails m b"
proof (rule message_builds [OF assms(3) [unfolded encode_MediaStoragePurchaseDetails_def]])
  show "foldl (\<lambda>m u. u m) base_MediaStoragePurchaseDetails
      [plain MediaStoragePurchaseDetails_allocationBytes_update (MediaStoragePurchaseDetails_allocationBytes m) 0] = m"
    by (cases m) (simp add: field_changes base_MediaStoragePurchaseDetails_def)
qed (insert assms(1,2),
    (rule wire_fields message_codecs | (simp add: updater_def switch_MediaStoragePurchaseDetails_def safe_MediaStoragePurchaseDetails_def list_all_iff; fail))+)

lemma decodes_MediaStoragePurchaseDetails [message_codecs]:
  assumes "wire_format W" "safe_MediaStoragePurchaseDetails W m" "encode_MediaStoragePurchaseDetails W m [] = Inr b"
  shows "decodes (decode_MediaStoragePurchaseDetails W) m b"
  unfolding decode_MediaStoragePurchaseDetails_def by (rule builds_decodes [OF builds_MediaStoragePurchaseDetails [OF assms]])

lemma settles_MediaStoragePurchaseDetails [message_returns]: "wire_format W \<Longrightarrow> settles k (decode_MediaStoragePurchaseDetails W)"
  unfolding decode_MediaStoragePurchaseDetails_def
  by (rule wire_format.settles_message, assumption,
      unfold switch_MediaStoragePurchaseDetails_def switch_field.simps switch_alternatives.simps)
    (rule wire_ends message_returns | assumption)+

section \<open>PermissionsAccessPurchaseDetails\<close>

record PermissionsAccessPurchaseDetails =
  PermissionsAccessPurchaseDetails_permissions :: "int list"
  PermissionsAccessPurchaseDetails_name :: string
  PermissionsAccessPurchaseDetails_description :: string

definition base_PermissionsAccessPurchaseDetails :: PermissionsAccessPurchaseDetails where
  "base_PermissionsAccessPurchaseDetails =
     \<lparr>PermissionsAccessPurchaseDetails_permissions = [],
      PermissionsAccessPurchaseDetails_name = [],
      PermissionsAccessPurchaseDetails_description = []\<rparr>"

definition encode_PermissionsAccessPurchaseDetails :: "wire \<Rightarrow> PermissionsAccessPurchaseDetails \<Rightarrow> bytes \<Rightarrow> bytes result" where
  "encode_PermissionsAccessPurchaseDetails W m =
     write_all
       [packed W 10 (put_int32 W) (PermissionsAccessPurchaseDetails_permissions m),
        write_when (PermissionsAccessPurchaseDetails_name m \<noteq> []) (tagged W 18 (put_string W (PermissionsAccessPurchaseDetails_name m))),
        write_when (PermissionsAccessPurchaseDetails_description m \<noteq> []) (tagged W 26 (put_string W (PermissionsAccessPurchaseDetails_description m)))]"

definition switch_PermissionsAccessPurchaseDetails :: "wire \<Rightarrow> int \<Rightarrow> reader \<Rightarrow> PermissionsAccessPurchaseDetails \<Rightarrow> PermissionsAccessPurchaseDetails loop_step run" where
  "switch_PermissionsAccessPurchaseDetails W tag r m =
     switch_field tag
       [(1, [(8, read_field (get_int32 W) (\<lambda>v. PermissionsAccessPurchaseDetails_permissions_update (\<lambda>old. old @ [v]) m) r), (10, read_packed W (get_int32 W) (PermissionsAccessPurchaseDetails_permissions m) (\<lambda>vs. m\<lparr>PermissionsAccessPurchaseDetails_permissions := vs\<rparr>) r)]),
        (2, [(18, read_field (get_string W) (\<lambda>v. m\<lparr>PermissionsAccessPurchaseDetails_name := v\<rparr>) r)]),
        (3, [(26, read_field (get_string W) (\<lambda>v. m\<lparr>PermissionsAccessPurchaseDetails_description := v\<rparr>) r)])]"

definition decode_PermissionsAccessPurchaseDetails :: "wire \<Rightarrow> reader \<Rightarrow> int option \<Rightarrow> (PermissionsAccessPurchaseDetails \<times> reader) run" where
  "decode_PermissionsAccessPurchaseDetails W = decode_message W (switch_PermissionsAccessPurchaseDetails W) base_PermissionsAccessPurchaseDetails"

lemma builds_PermissionsAccessPurchaseDetails:
  assumes "wire_format W" "encode_PermissionsAccessPurchaseDetails W m [] = Inr b"
  shows "builds W (switch_PermissionsAccessPurchaseDetails W) base_PermissionsAccessPurchaseDetails m b"
proof (rule message_builds [OF assms(2) [unfolded encode_PermissionsAccessPurchaseDetails_def]])
  show "foldl (\<lambda>m u. u m) base_PermissionsAccessPurchaseDetails
      [pushed PermissionsAccessPurchaseDetails_permissions_update (PermissionsAccessPurchaseDetails_permissions m),
       plain PermissionsAccessPurchaseDetails_name_update (PermissionsAccessPurchaseDetails_name m) [],
       plain PermissionsAccessPurchaseDetails_description_update (PermissionsAccessPurchaseDetails_description m) []] = m"
    by (cases m) (simp add: field_changes base_PermissionsAccessPurchaseDetails_def)
qed (insert assms(1),
    (rule wire_fields message_codecs | (simp add: updater_def switch_PermissionsAccessPurchaseDetails_def list_all_iff; fail))+)

lemma decodes_PermissionsAccessPurchaseDetails [message_codecs]:
  assumes "wire_format W" "encode_PermissionsAccessPurchaseDetails W m [] = Inr b"
  shows "decodes (decode_PermissionsAccessPurchaseDetails W) m b"
  unfolding decode_PermissionsAccessPurchaseDetails_def by (rule builds_decodes [OF builds_PermissionsAccessPurchaseDetails [OF assms]])

lemma settles_PermissionsAccessPurchaseDetails [message_returns]: "wire_format W \<Longrightarrow> settles k (decode_PermissionsAccessPurchaseDetails W)"
  unfolding decode_PermissionsAccessPurchaseDetails_def
  by (rule wire_format.settles_message, assumption,
      unfold switch_PermissionsAccessPurchaseDetails_def switch_field.simps switch_alternatives.simps)
    (rule wire_ends message_returns | assumption)+

section \<open>RellmHostingPurchaseDetails\<close>

record RellmHostingPurchaseDetails =
  RellmHostingPurchaseDetails_dbSizeBytes :: int
  RellmHostingPurchaseDetails_objectStorageSizeBytes :: int
  RellmHostingPurchaseDetails_additionalDescription :: string
  RellmHostingPurchaseDetails_domain :: string
  RellmHostingPurchaseDetails_contactEmail :: string
  RellmHostingPurchaseDetails_additionalInformation :: string

definition base_RellmHostingPurchaseDetails :: RellmHostingPurchaseDetails where
  "base_RellmHostingPurchaseDetails =
     \<lparr>RellmHostingPurchaseDetails_dbSizeBytes = 0,
      RellmHostingPurchaseDetails_objectStorageSizeBytes = 0,
      RellmHostingPurchaseDetails_additionalDescription = [],
      RellmHostingPurchaseDetails_domain = [],
      RellmHostingPurchaseDetails_contactEmail = [],
      RellmHostingPurchaseDetails_additionalInformation = []\<rparr>"

definition encode_RellmHostingPurchaseDetails :: "wire \<Rightarrow> RellmHostingPurchaseDetails \<Rightarrow> bytes \<Rightarrow> bytes result" where
  "encode_RellmHostingPurchaseDetails W m =
     write_all
       [write_when (RellmHostingPurchaseDetails_dbSizeBytes m \<noteq> 0) (tagged W 8 (put_uint64 W (RellmHostingPurchaseDetails_dbSizeBytes m))),
        write_when (RellmHostingPurchaseDetails_objectStorageSizeBytes m \<noteq> 0) (tagged W 16 (put_uint64 W (RellmHostingPurchaseDetails_objectStorageSizeBytes m))),
        write_when (RellmHostingPurchaseDetails_additionalDescription m \<noteq> []) (tagged W 26 (put_string W (RellmHostingPurchaseDetails_additionalDescription m))),
        write_when (RellmHostingPurchaseDetails_domain m \<noteq> []) (tagged W 34 (put_string W (RellmHostingPurchaseDetails_domain m))),
        write_when (RellmHostingPurchaseDetails_contactEmail m \<noteq> []) (tagged W 42 (put_string W (RellmHostingPurchaseDetails_contactEmail m))),
        write_when (RellmHostingPurchaseDetails_additionalInformation m \<noteq> []) (tagged W 50 (put_string W (RellmHostingPurchaseDetails_additionalInformation m)))]"

definition switch_RellmHostingPurchaseDetails :: "wire \<Rightarrow> int \<Rightarrow> reader \<Rightarrow> RellmHostingPurchaseDetails \<Rightarrow> RellmHostingPurchaseDetails loop_step run" where
  "switch_RellmHostingPurchaseDetails W tag r m =
     switch_field tag
       [(1, [(8, read_field (get_long (get_uint64 W)) (\<lambda>v. m\<lparr>RellmHostingPurchaseDetails_dbSizeBytes := v\<rparr>) r)]),
        (2, [(16, read_field (get_long (get_uint64 W)) (\<lambda>v. m\<lparr>RellmHostingPurchaseDetails_objectStorageSizeBytes := v\<rparr>) r)]),
        (3, [(26, read_field (get_string W) (\<lambda>v. m\<lparr>RellmHostingPurchaseDetails_additionalDescription := v\<rparr>) r)]),
        (4, [(34, read_field (get_string W) (\<lambda>v. m\<lparr>RellmHostingPurchaseDetails_domain := v\<rparr>) r)]),
        (5, [(42, read_field (get_string W) (\<lambda>v. m\<lparr>RellmHostingPurchaseDetails_contactEmail := v\<rparr>) r)]),
        (6, [(50, read_field (get_string W) (\<lambda>v. m\<lparr>RellmHostingPurchaseDetails_additionalInformation := v\<rparr>) r)])]"

definition decode_RellmHostingPurchaseDetails :: "wire \<Rightarrow> reader \<Rightarrow> int option \<Rightarrow> (RellmHostingPurchaseDetails \<times> reader) run" where
  "decode_RellmHostingPurchaseDetails W = decode_message W (switch_RellmHostingPurchaseDetails W) base_RellmHostingPurchaseDetails"

definition safe_RellmHostingPurchaseDetails :: "wire \<Rightarrow> RellmHostingPurchaseDetails \<Rightarrow> bool" where
  "safe_RellmHostingPurchaseDetails W m \<longleftrightarrow>
     safe_long (RellmHostingPurchaseDetails_dbSizeBytes m) \<and>
     safe_long (RellmHostingPurchaseDetails_objectStorageSizeBytes m)"

lemma builds_RellmHostingPurchaseDetails:
  assumes "wire_format W" "safe_RellmHostingPurchaseDetails W m" "encode_RellmHostingPurchaseDetails W m [] = Inr b"
  shows "builds W (switch_RellmHostingPurchaseDetails W) base_RellmHostingPurchaseDetails m b"
proof (rule message_builds [OF assms(3) [unfolded encode_RellmHostingPurchaseDetails_def]])
  show "foldl (\<lambda>m u. u m) base_RellmHostingPurchaseDetails
      [plain RellmHostingPurchaseDetails_dbSizeBytes_update (RellmHostingPurchaseDetails_dbSizeBytes m) 0,
       plain RellmHostingPurchaseDetails_objectStorageSizeBytes_update (RellmHostingPurchaseDetails_objectStorageSizeBytes m) 0,
       plain RellmHostingPurchaseDetails_additionalDescription_update (RellmHostingPurchaseDetails_additionalDescription m) [],
       plain RellmHostingPurchaseDetails_domain_update (RellmHostingPurchaseDetails_domain m) [],
       plain RellmHostingPurchaseDetails_contactEmail_update (RellmHostingPurchaseDetails_contactEmail m) [],
       plain RellmHostingPurchaseDetails_additionalInformation_update (RellmHostingPurchaseDetails_additionalInformation m) []] = m"
    by (cases m) (simp add: field_changes base_RellmHostingPurchaseDetails_def)
qed (insert assms(1,2),
    (rule wire_fields message_codecs | (simp add: updater_def switch_RellmHostingPurchaseDetails_def safe_RellmHostingPurchaseDetails_def list_all_iff; fail))+)

lemma decodes_RellmHostingPurchaseDetails [message_codecs]:
  assumes "wire_format W" "safe_RellmHostingPurchaseDetails W m" "encode_RellmHostingPurchaseDetails W m [] = Inr b"
  shows "decodes (decode_RellmHostingPurchaseDetails W) m b"
  unfolding decode_RellmHostingPurchaseDetails_def by (rule builds_decodes [OF builds_RellmHostingPurchaseDetails [OF assms]])

lemma settles_RellmHostingPurchaseDetails [message_returns]: "wire_format W \<Longrightarrow> settles k (decode_RellmHostingPurchaseDetails W)"
  unfolding decode_RellmHostingPurchaseDetails_def
  by (rule wire_format.settles_message, assumption,
      unfold switch_RellmHostingPurchaseDetails_def switch_field.simps switch_alternatives.simps)
    (rule wire_ends message_returns | assumption)+

section \<open>MarketSubscription\<close>

record MarketSubscription_fields =
  MarketSubscription_id :: string
  MarketSubscription_buyer :: "Author option"
  MarketSubscription_type :: int
  MarketSubscription_period :: int
  MarketSubscription_amount :: int
  MarketSubscription_currency :: int
  MarketSubscription_marketProduct :: "MarketProduct option"
  MarketSubscription_mediaStorageSubscriptionDetails :: "MediaStorageSubscriptionDetails option"
  MarketSubscription_aiGrantSubscriptionDetails :: "AIGrantSubscriptionDetails option"
  MarketSubscription_rellmHostingSubscriptionDetails :: "RellmHostingSubscriptionDetails option"
  MarketSubscription_permissionsAccessSubscriptionDetails :: "PermissionsAccessSubscriptionDetails option"
  MarketSubscription_createdAt :: "string option"
  MarketSubscription_renewsAt :: "string option"
  MarketSubscription_canceledAt :: "string option"
  MarketSubscription_serviceTerminatedAt :: "string option"

record MarketPurchase_fields =
  MarketPurchase_id :: string
  MarketPurchase_buyer :: "Author option"
  MarketPurchase_type :: int
  MarketPurchase_marketProduct :: "MarketProduct option"
  MarketPurchase_marketPayments :: "MarketPayment list"
  MarketPurchase_marketRefunds :: "MarketRefund list"
  MarketPurchase_mediaStoragePurchaseDetails :: "MediaStoragePurchaseDetails option"
  MarketPurchase_aiGrantPurchaseDetails :: "AIGrantPurchaseDetails option"
  MarketPurchase_rellmHostingPurchaseDetails :: "RellmHostingPurchaseDetails option"
  MarketPurchase_permissionsAccessPurchaseDetails :: "PermissionsAccessPurchaseDetails option"
  MarketPurchase_createdAt :: "string option"

text \<open>
  A subscription has the purchases of its billing history and a purchase its subscription; \<open>'r\<close> is the type of the
  subscription.
\<close>

datatype 'r MarketPurchaseOf = MarketPurchase_of (MarketPurchase_own: MarketPurchase_fields) (MarketPurchase_marketSubscription: "'r option")

datatype MarketSubscription =
  MarketSubscription_of (MarketSubscription_own: MarketSubscription_fields) (MarketSubscription_billingHistory: "MarketSubscription MarketPurchaseOf list")

type_synonym MarketPurchase = "MarketSubscription MarketPurchaseOf"

definition MarketPurchase_upd :: "(MarketPurchase_fields \<Rightarrow> MarketPurchase_fields) \<Rightarrow> 'r MarketPurchaseOf \<Rightarrow> 'r MarketPurchaseOf" where
  "MarketPurchase_upd f m = MarketPurchase_of (f (MarketPurchase_own m)) (MarketPurchase_marketSubscription m)"

definition MarketPurchase_marketSubscription_upd :: "('r option \<Rightarrow> 'r option) \<Rightarrow> 'r MarketPurchaseOf \<Rightarrow> 'r MarketPurchaseOf" where
  "MarketPurchase_marketSubscription_upd f m = MarketPurchase_of (MarketPurchase_own m) (f (MarketPurchase_marketSubscription m))"

definition MarketSubscription_upd ::
  "(MarketSubscription_fields \<Rightarrow> MarketSubscription_fields) \<Rightarrow> MarketSubscription \<Rightarrow> MarketSubscription" where
  "MarketSubscription_upd f m = MarketSubscription_of (f (MarketSubscription_own m)) (MarketSubscription_billingHistory m)"

definition MarketSubscription_billingHistory_upd :: "(MarketPurchase list \<Rightarrow> MarketPurchase list) \<Rightarrow> MarketSubscription \<Rightarrow> MarketSubscription" where
  "MarketSubscription_billingHistory_upd f m = MarketSubscription_of (MarketSubscription_own m) (f (MarketSubscription_billingHistory m))"

lemmas subscription_updates =
  MarketPurchase_upd_def MarketPurchase_marketSubscription_upd_def MarketSubscription_upd_def MarketSubscription_billingHistory_upd_def

lemma subscription_updaters:
  "updater u \<Longrightarrow> updater (\<lambda>f. MarketPurchase_upd (u f))" "updater MarketPurchase_marketSubscription_upd"
  "updater u' \<Longrightarrow> updater (\<lambda>f. MarketSubscription_upd (u' f))" "updater MarketSubscription_billingHistory_upd"
  by (simp_all add: updater_def subscription_updates)

definition base_MarketPurchase :: "'r MarketPurchaseOf" where
  "base_MarketPurchase =
     MarketPurchase_of
       \<lparr>MarketPurchase_id = [],
         MarketPurchase_buyer = None,
         MarketPurchase_type = 0,
         MarketPurchase_marketProduct = None,
         MarketPurchase_marketPayments = [],
         MarketPurchase_marketRefunds = [],
         MarketPurchase_mediaStoragePurchaseDetails = None,
         MarketPurchase_aiGrantPurchaseDetails = None,
         MarketPurchase_rellmHostingPurchaseDetails = None,
         MarketPurchase_permissionsAccessPurchaseDetails = None,
         MarketPurchase_createdAt = None\<rparr>
       None"

definition base_MarketSubscription :: MarketSubscription where
  "base_MarketSubscription =
     MarketSubscription_of
       \<lparr>MarketSubscription_id = [],
         MarketSubscription_buyer = None,
         MarketSubscription_type = 0,
         MarketSubscription_period = 0,
         MarketSubscription_amount = 0,
         MarketSubscription_currency = 0,
         MarketSubscription_marketProduct = None,
         MarketSubscription_mediaStorageSubscriptionDetails = None,
         MarketSubscription_aiGrantSubscriptionDetails = None,
         MarketSubscription_rellmHostingSubscriptionDetails = None,
         MarketSubscription_permissionsAccessSubscriptionDetails = None,
         MarketSubscription_createdAt = None,
         MarketSubscription_renewsAt = None,
         MarketSubscription_canceledAt = None,
         MarketSubscription_serviceTerminatedAt = None\<rparr>
       []"

text \<open>Writing.\<close>

definition encode_MarketPurchase_with :: "('r \<Rightarrow> bytes \<Rightarrow> bytes result) \<Rightarrow> wire \<Rightarrow> 'r MarketPurchaseOf \<Rightarrow> bytes \<Rightarrow> bytes result" where
  "encode_MarketPurchase_with enc W m =
     write_all
       [write_when (MarketPurchase_id (MarketPurchase_own m) \<noteq> []) (tagged W 10 (put_string W (MarketPurchase_id (MarketPurchase_own m)))),
        write_given (MarketPurchase_buyer (MarketPurchase_own m)) (\<lambda>v. nested W 18 (encode_Author W v)),
        write_when (MarketPurchase_type (MarketPurchase_own m) \<noteq> 0) (tagged W 24 (put_int32 W (MarketPurchase_type (MarketPurchase_own m)))),
        write_given (MarketPurchase_marketProduct (MarketPurchase_own m)) (\<lambda>v. nested W 34 (encode_MarketProduct W v)),
        write_given (MarketPurchase_marketSubscription m) (\<lambda>v. nested W 42 (enc v)),
        write_each (MarketPurchase_marketPayments (MarketPurchase_own m)) (\<lambda>v. nested W 50 (encode_MarketPayment W v)),
        write_each (MarketPurchase_marketRefunds (MarketPurchase_own m)) (\<lambda>v. nested W 58 (encode_MarketRefund W v)),
        write_given (MarketPurchase_mediaStoragePurchaseDetails (MarketPurchase_own m)) (\<lambda>v. nested W 82 (encode_MediaStoragePurchaseDetails W v)),
        write_given (MarketPurchase_aiGrantPurchaseDetails (MarketPurchase_own m)) (\<lambda>v. nested W 90 (encode_AIGrantPurchaseDetails W v)),
        write_given (MarketPurchase_rellmHostingPurchaseDetails (MarketPurchase_own m)) (\<lambda>v. nested W 98 (encode_RellmHostingPurchaseDetails W v)),
        write_given (MarketPurchase_permissionsAccessPurchaseDetails (MarketPurchase_own m)) (\<lambda>v. nested W 106 (encode_PermissionsAccessPurchaseDetails W v)),
        write_given (MarketPurchase_createdAt (MarketPurchase_own m)) (\<lambda>v. nested W 162 (encode_date W v))]"

lemma encode_MarketPurchase_with_cong [fundef_cong]:
  "m = m' \<Longrightarrow> (\<And>x. MarketPurchase_marketSubscription m' = Some x \<Longrightarrow> enc x = enc' x) \<Longrightarrow>
    encode_MarketPurchase_with enc W m = encode_MarketPurchase_with enc' W m'"
  by (simp add: encode_MarketPurchase_with_def cong: write_given_cong)

lemma subscription_smaller:
  "a \<in> set (MarketSubscription_billingHistory m) \<Longrightarrow> MarketPurchase_marketSubscription a = Some x \<Longrightarrow> size x < size m"
  by (cases m; cases a) (auto dest!: split_list)

function encode_MarketSubscription :: "wire \<Rightarrow> MarketSubscription \<Rightarrow> bytes \<Rightarrow> bytes result" where
  "encode_MarketSubscription W m =
     write_all
       [write_when (MarketSubscription_id (MarketSubscription_own m) \<noteq> []) (tagged W 10 (put_string W (MarketSubscription_id (MarketSubscription_own m)))),
        write_given (MarketSubscription_buyer (MarketSubscription_own m)) (\<lambda>v. nested W 18 (encode_Author W v)),
        write_when (MarketSubscription_type (MarketSubscription_own m) \<noteq> 0) (tagged W 24 (put_int32 W (MarketSubscription_type (MarketSubscription_own m)))),
        write_when (MarketSubscription_period (MarketSubscription_own m) \<noteq> 0) (tagged W 32 (put_int32 W (MarketSubscription_period (MarketSubscription_own m)))),
        write_when (MarketSubscription_amount (MarketSubscription_own m) \<noteq> 0) (tagged W 40 (put_uint32 W (MarketSubscription_amount (MarketSubscription_own m)))),
        write_when (MarketSubscription_currency (MarketSubscription_own m) \<noteq> 0) (tagged W 48 (put_uint32 W (MarketSubscription_currency (MarketSubscription_own m)))),
        write_given (MarketSubscription_marketProduct (MarketSubscription_own m)) (\<lambda>v. nested W 58 (encode_MarketProduct W v)),
        write_each (MarketSubscription_billingHistory m) (\<lambda>v. nested W 66 (encode_MarketPurchase_with (encode_MarketSubscription W) W v)),
        write_given (MarketSubscription_mediaStorageSubscriptionDetails (MarketSubscription_own m)) (\<lambda>v. nested W 82 (encode_MediaStorageSubscriptionDetails W v)),
        write_given (MarketSubscription_aiGrantSubscriptionDetails (MarketSubscription_own m)) (\<lambda>v. nested W 90 (encode_AIGrantSubscriptionDetails W v)),
        write_given (MarketSubscription_rellmHostingSubscriptionDetails (MarketSubscription_own m)) (\<lambda>v. nested W 98 (encode_RellmHostingSubscriptionDetails W v)),
        write_given (MarketSubscription_permissionsAccessSubscriptionDetails (MarketSubscription_own m)) (\<lambda>v. nested W 106 (encode_PermissionsAccessSubscriptionDetails W v)),
        write_given (MarketSubscription_createdAt (MarketSubscription_own m)) (\<lambda>v. nested W 162 (encode_date W v)),
        write_given (MarketSubscription_renewsAt (MarketSubscription_own m)) (\<lambda>v. nested W 170 (encode_date W v)),
        write_given (MarketSubscription_canceledAt (MarketSubscription_own m)) (\<lambda>v. nested W 178 (encode_date W v)),
        write_given (MarketSubscription_serviceTerminatedAt (MarketSubscription_own m)) (\<lambda>v. nested W 186 (encode_date W v))]"
  by pat_completeness auto

termination
  by (relation "measure (\<lambda>(W, m). size m)") (auto intro: subscription_smaller)

declare encode_MarketSubscription.simps [simp del]

definition encode_MarketPurchase :: "wire \<Rightarrow> MarketPurchase \<Rightarrow> bytes \<Rightarrow> bytes result" where
  "encode_MarketPurchase W = encode_MarketPurchase_with (encode_MarketSubscription W) W"

text \<open>Reading.\<close>

definition switch_MarketPurchase_with ::
  "(reader \<Rightarrow> int option \<Rightarrow> ('r \<times> reader) run) \<Rightarrow> wire \<Rightarrow> int \<Rightarrow> reader \<Rightarrow> 'r MarketPurchaseOf \<Rightarrow> 'r MarketPurchaseOf loop_step run"
where
  "switch_MarketPurchase_with dec W tag r m =
     switch_field tag
       [(1, [(10, read_field (get_string W) (\<lambda>v. MarketPurchase_upd (MarketPurchase_id_update (\<lambda>_. v)) m) r)]),
        (2, [(18, read_message W (decode_Author W) (\<lambda>v. MarketPurchase_upd (MarketPurchase_buyer_update (\<lambda>_. Some v)) m) r)]),
        (3, [(24, read_field (get_int32 W) (\<lambda>v. MarketPurchase_upd (MarketPurchase_type_update (\<lambda>_. v)) m) r)]),
        (4, [(34, read_message W (decode_MarketProduct W) (\<lambda>v. MarketPurchase_upd (MarketPurchase_marketProduct_update (\<lambda>_. Some v)) m) r)]),
        (5, [(42, read_message W dec (\<lambda>v. MarketPurchase_marketSubscription_upd (\<lambda>_. Some v) m) r)]),
        (6, [(50, read_message W (decode_MarketPayment W) (\<lambda>v. MarketPurchase_upd (MarketPurchase_marketPayments_update (\<lambda>old. old @ [v])) m) r)]),
        (7, [(58, read_message W (decode_MarketRefund W) (\<lambda>v. MarketPurchase_upd (MarketPurchase_marketRefunds_update (\<lambda>old. old @ [v])) m) r)]),
        (10, [(82, read_message W (decode_MediaStoragePurchaseDetails W) (\<lambda>v. MarketPurchase_upd (MarketPurchase_mediaStoragePurchaseDetails_update (\<lambda>_. Some v)) m) r)]),
        (11, [(90, read_message W (decode_AIGrantPurchaseDetails W) (\<lambda>v. MarketPurchase_upd (MarketPurchase_aiGrantPurchaseDetails_update (\<lambda>_. Some v)) m) r)]),
        (12, [(98, read_message W (decode_RellmHostingPurchaseDetails W) (\<lambda>v. MarketPurchase_upd (MarketPurchase_rellmHostingPurchaseDetails_update (\<lambda>_. Some v)) m) r)]),
        (13, [(106, read_message W (decode_PermissionsAccessPurchaseDetails W) (\<lambda>v. MarketPurchase_upd (MarketPurchase_permissionsAccessPurchaseDetails_update (\<lambda>_. Some v)) m) r)]),
        (20, [(162, read_message W (decode_date W) (\<lambda>v. MarketPurchase_upd (MarketPurchase_createdAt_update (\<lambda>_. Some v)) m) r)])]"

definition decode_MarketPurchase_with ::
  "(reader \<Rightarrow> int option \<Rightarrow> ('r \<times> reader) run) \<Rightarrow> wire \<Rightarrow> reader \<Rightarrow> int option \<Rightarrow> ('r MarketPurchaseOf \<times> reader) run" where
  "decode_MarketPurchase_with dec W = decode_message W (switch_MarketPurchase_with dec W) base_MarketPurchase"

definition switch_MarketSubscription_with ::
  "(reader \<Rightarrow> int option \<Rightarrow> (MarketSubscription \<times> reader) run) \<Rightarrow>
     wire \<Rightarrow> int \<Rightarrow> reader \<Rightarrow> MarketSubscription \<Rightarrow> MarketSubscription loop_step run"
where
  "switch_MarketSubscription_with dec W tag r m =
     switch_field tag
       [(1, [(10, read_field (get_string W) (\<lambda>v. MarketSubscription_upd (MarketSubscription_id_update (\<lambda>_. v)) m) r)]),
        (2, [(18, read_message W (decode_Author W) (\<lambda>v. MarketSubscription_upd (MarketSubscription_buyer_update (\<lambda>_. Some v)) m) r)]),
        (3, [(24, read_field (get_int32 W) (\<lambda>v. MarketSubscription_upd (MarketSubscription_type_update (\<lambda>_. v)) m) r)]),
        (4, [(32, read_field (get_int32 W) (\<lambda>v. MarketSubscription_upd (MarketSubscription_period_update (\<lambda>_. v)) m) r)]),
        (5, [(40, read_field (get_uint32 W) (\<lambda>v. MarketSubscription_upd (MarketSubscription_amount_update (\<lambda>_. v)) m) r)]),
        (6, [(48, read_field (get_uint32 W) (\<lambda>v. MarketSubscription_upd (MarketSubscription_currency_update (\<lambda>_. v)) m) r)]),
        (7, [(58, read_message W (decode_MarketProduct W) (\<lambda>v. MarketSubscription_upd (MarketSubscription_marketProduct_update (\<lambda>_. Some v)) m) r)]),
        (8, [(66, read_message W (decode_MarketPurchase_with dec W) (\<lambda>v. MarketSubscription_billingHistory_upd (\<lambda>old. old @ [v]) m) r)]),
        (10, [(82, read_message W (decode_MediaStorageSubscriptionDetails W) (\<lambda>v. MarketSubscription_upd (MarketSubscription_mediaStorageSubscriptionDetails_update (\<lambda>_. Some v)) m) r)]),
        (11, [(90, read_message W (decode_AIGrantSubscriptionDetails W) (\<lambda>v. MarketSubscription_upd (MarketSubscription_aiGrantSubscriptionDetails_update (\<lambda>_. Some v)) m) r)]),
        (12, [(98, read_message W (decode_RellmHostingSubscriptionDetails W) (\<lambda>v. MarketSubscription_upd (MarketSubscription_rellmHostingSubscriptionDetails_update (\<lambda>_. Some v)) m) r)]),
        (13, [(106, read_message W (decode_PermissionsAccessSubscriptionDetails W) (\<lambda>v. MarketSubscription_upd (MarketSubscription_permissionsAccessSubscriptionDetails_update (\<lambda>_. Some v)) m) r)]),
        (20, [(162, read_message W (decode_date W) (\<lambda>v. MarketSubscription_upd (MarketSubscription_createdAt_update (\<lambda>_. Some v)) m) r)]),
        (21, [(170, read_message W (decode_date W) (\<lambda>v. MarketSubscription_upd (MarketSubscription_renewsAt_update (\<lambda>_. Some v)) m) r)]),
        (22, [(178, read_message W (decode_date W) (\<lambda>v. MarketSubscription_upd (MarketSubscription_canceledAt_update (\<lambda>_. Some v)) m) r)]),
        (23, [(186, read_message W (decode_date W) (\<lambda>v. MarketSubscription_upd (MarketSubscription_serviceTerminatedAt_update (\<lambda>_. Some v)) m) r)])]"

lemma switch_MarketPurchase_with_mono [partial_function_mono]:
  assumes "\<And>r len. mono_option (\<lambda>f. D f r len)"
  shows "mono_option (\<lambda>f. switch_MarketPurchase_with (D f) W tag r m)"
  unfolding switch_MarketPurchase_with_def switch_field.simps switch_alternatives.simps
  by (intro partial_function_mono option.const_mono assms)

lemma decode_MarketPurchase_with_mono [partial_function_mono]:
  assumes "\<And>r len. mono_option (\<lambda>f. D f r len)"
  shows "mono_option (\<lambda>f. decode_MarketPurchase_with (D f) W r len)"
  unfolding decode_MarketPurchase_with_def by (intro decode_message_mono switch_MarketPurchase_with_mono assms)

lemma switch_MarketSubscription_with_mono [partial_function_mono]:
  assumes "\<And>r len. mono_option (\<lambda>f. D f r len)"
  shows "mono_option (\<lambda>f. switch_MarketSubscription_with (D f) W tag r m)"
  unfolding switch_MarketSubscription_with_def switch_field.simps switch_alternatives.simps
  by (intro partial_function_mono decode_MarketPurchase_with_mono option.const_mono assms)

partial_function (option) decode_MarketSubscription ::
  "wire \<Rightarrow> reader \<Rightarrow> int option \<Rightarrow> (MarketSubscription \<times> reader) run" where
  "decode_MarketSubscription W r len =
     decode_message W (switch_MarketSubscription_with (\<lambda>r' len'. decode_MarketSubscription W r' len') W)
       base_MarketSubscription r len"

definition decode_MarketPurchase :: "wire \<Rightarrow> reader \<Rightarrow> int option \<Rightarrow> (MarketPurchase \<times> reader) run" where
  "decode_MarketPurchase W = decode_MarketPurchase_with (decode_MarketSubscription W) W"

text \<open>The round trip, by induction on the size of the message.\<close>

definition safe_MarketPurchase_with :: "('r \<Rightarrow> bool) \<Rightarrow> wire \<Rightarrow> 'r MarketPurchaseOf \<Rightarrow> bool" where
  "safe_MarketPurchase_with safe W m \<longleftrightarrow> pred_option (safe_Author W) (MarketPurchase_buyer (MarketPurchase_own m)) \<and>
     pred_option (safe_MarketProduct W) (MarketPurchase_marketProduct (MarketPurchase_own m)) \<and>
     pred_option safe (MarketPurchase_marketSubscription m) \<and>
     list_all (safe_MarketPayment W) (MarketPurchase_marketPayments (MarketPurchase_own m)) \<and>
     list_all (safe_MarketRefund W) (MarketPurchase_marketRefunds (MarketPurchase_own m)) \<and>
     pred_option (safe_MediaStoragePurchaseDetails W) (MarketPurchase_mediaStoragePurchaseDetails (MarketPurchase_own m)) \<and>
     pred_option (safe_AIGrantPurchaseDetails W) (MarketPurchase_aiGrantPurchaseDetails (MarketPurchase_own m)) \<and>
     pred_option (safe_RellmHostingPurchaseDetails W) (MarketPurchase_rellmHostingPurchaseDetails (MarketPurchase_own m)) \<and>
     pred_option canonical_date (MarketPurchase_createdAt (MarketPurchase_own m))"

lemma safe_MarketPurchase_with_cong [fundef_cong]:
  "m = m' \<Longrightarrow> (\<And>x. MarketPurchase_marketSubscription m' = Some x \<Longrightarrow> safe x = safe' x) \<Longrightarrow>
    safe_MarketPurchase_with safe W m = safe_MarketPurchase_with safe' W m'"
  by (cases "MarketPurchase_marketSubscription m'") (simp_all add: safe_MarketPurchase_with_def)

function safe_MarketSubscription :: "wire \<Rightarrow> MarketSubscription \<Rightarrow> bool" where
  "safe_MarketSubscription W m \<longleftrightarrow>
     pred_option (safe_Author W) (MarketSubscription_buyer (MarketSubscription_own m)) \<and>
     pred_option (safe_MarketProduct W) (MarketSubscription_marketProduct (MarketSubscription_own m)) \<and>
     list_all (safe_MarketPurchase_with (safe_MarketSubscription W) W) (MarketSubscription_billingHistory m) \<and>
     pred_option (safe_MediaStorageSubscriptionDetails W) (MarketSubscription_mediaStorageSubscriptionDetails (MarketSubscription_own m)) \<and>
     pred_option (safe_AIGrantSubscriptionDetails W) (MarketSubscription_aiGrantSubscriptionDetails (MarketSubscription_own m)) \<and>
     pred_option (safe_RellmHostingSubscriptionDetails W) (MarketSubscription_rellmHostingSubscriptionDetails (MarketSubscription_own m)) \<and>
     pred_option canonical_date (MarketSubscription_createdAt (MarketSubscription_own m)) \<and>
     pred_option canonical_date (MarketSubscription_renewsAt (MarketSubscription_own m)) \<and>
     pred_option canonical_date (MarketSubscription_canceledAt (MarketSubscription_own m)) \<and>
     pred_option canonical_date (MarketSubscription_serviceTerminatedAt (MarketSubscription_own m))"
  by pat_completeness auto

termination
  by (relation "measure (\<lambda>(W, m). size m)") (auto intro: subscription_smaller)

declare safe_MarketSubscription.simps [simp del]

definition safe_MarketPurchase :: "wire \<Rightarrow> MarketPurchase \<Rightarrow> bool" where
  "safe_MarketPurchase W = safe_MarketPurchase_with (safe_MarketSubscription W) W"

lemma decodes_MarketPurchase_with:
  assumes "wire_format W" "safe_MarketPurchase_with safe W m" "encode_MarketPurchase_with enc W m [] = Inr b"
    and "\<And>x c. MarketPurchase_marketSubscription m = Some x \<Longrightarrow> safe x \<Longrightarrow> enc x [] = Inr c \<Longrightarrow> decodes dec x c"
  shows "decodes (decode_MarketPurchase_with dec W) m b"
  unfolding decode_MarketPurchase_with_def
proof (rule message_decodes [OF assms(3) [unfolded encode_MarketPurchase_with_def]])
  show "foldl (\<lambda>m u. u m) base_MarketPurchase
      [plain (\<lambda>f. MarketPurchase_upd (MarketPurchase_id_update f)) (MarketPurchase_id (MarketPurchase_own m)) [],
       given (\<lambda>f. MarketPurchase_upd (MarketPurchase_buyer_update f)) (MarketPurchase_buyer (MarketPurchase_own m)),
       plain (\<lambda>f. MarketPurchase_upd (MarketPurchase_type_update f)) (MarketPurchase_type (MarketPurchase_own m)) 0,
       given (\<lambda>f. MarketPurchase_upd (MarketPurchase_marketProduct_update f)) (MarketPurchase_marketProduct (MarketPurchase_own m)),
       given MarketPurchase_marketSubscription_upd (MarketPurchase_marketSubscription m),
       pushed (\<lambda>f. MarketPurchase_upd (MarketPurchase_marketPayments_update f)) (MarketPurchase_marketPayments (MarketPurchase_own m)),
       pushed (\<lambda>f. MarketPurchase_upd (MarketPurchase_marketRefunds_update f)) (MarketPurchase_marketRefunds (MarketPurchase_own m)),
       given (\<lambda>f. MarketPurchase_upd (MarketPurchase_mediaStoragePurchaseDetails_update f)) (MarketPurchase_mediaStoragePurchaseDetails (MarketPurchase_own m)),
       given (\<lambda>f. MarketPurchase_upd (MarketPurchase_aiGrantPurchaseDetails_update f)) (MarketPurchase_aiGrantPurchaseDetails (MarketPurchase_own m)),
       given (\<lambda>f. MarketPurchase_upd (MarketPurchase_rellmHostingPurchaseDetails_update f)) (MarketPurchase_rellmHostingPurchaseDetails (MarketPurchase_own m)),
       given (\<lambda>f. MarketPurchase_upd (MarketPurchase_permissionsAccessPurchaseDetails_update f)) (MarketPurchase_permissionsAccessPurchaseDetails (MarketPurchase_own m)),
       given (\<lambda>f. MarketPurchase_upd (MarketPurchase_createdAt_update f)) (MarketPurchase_createdAt (MarketPurchase_own m))] = m"
    by (cases m) (simp add: field_changes base_MarketPurchase_def subscription_updates)
qed (insert assms(1,2), (rule wire_fields subscription_updaters assms(4) message_codecs |
    (simp add: updater_def switch_MarketPurchase_with_def safe_MarketPurchase_with_def subscription_updates list_all_iff; fail))+)

lemma decodes_MarketSubscription [message_codecs]:
  "wire_format W \<Longrightarrow> safe_MarketSubscription W m \<Longrightarrow> encode_MarketSubscription W m [] = Inr b \<Longrightarrow>
    decodes (decode_MarketSubscription W) m b"
proof (induction m arbitrary: b rule: measure_induct_rule [where f = size])
  case (less m)
  have author: "decodes (decode_MarketPurchase_with (decode_MarketSubscription W) W) a c"
    if "a \<in> set (MarketSubscription_billingHistory m)" "encode_MarketPurchase_with (encode_MarketSubscription W) W a [] = Inr c" for a c
  proof (rule decodes_MarketPurchase_with [OF less.prems(1) _ that(2)])
    show "safe_MarketPurchase_with (safe_MarketSubscription W) W a"
      using less.prems(2) that(1) by (simp add: safe_MarketSubscription.simps [of W m] list_all_iff)
  qed (use less.IH less.prems(1) subscription_smaller [OF that(1)] in blast)
  have enc: "write_all
       [write_when (MarketSubscription_id (MarketSubscription_own m) \<noteq> []) (tagged W 10 (put_string W (MarketSubscription_id (MarketSubscription_own m)))),
        write_given (MarketSubscription_buyer (MarketSubscription_own m)) (\<lambda>v. nested W 18 (encode_Author W v)),
        write_when (MarketSubscription_type (MarketSubscription_own m) \<noteq> 0) (tagged W 24 (put_int32 W (MarketSubscription_type (MarketSubscription_own m)))),
        write_when (MarketSubscription_period (MarketSubscription_own m) \<noteq> 0) (tagged W 32 (put_int32 W (MarketSubscription_period (MarketSubscription_own m)))),
        write_when (MarketSubscription_amount (MarketSubscription_own m) \<noteq> 0) (tagged W 40 (put_uint32 W (MarketSubscription_amount (MarketSubscription_own m)))),
        write_when (MarketSubscription_currency (MarketSubscription_own m) \<noteq> 0) (tagged W 48 (put_uint32 W (MarketSubscription_currency (MarketSubscription_own m)))),
        write_given (MarketSubscription_marketProduct (MarketSubscription_own m)) (\<lambda>v. nested W 58 (encode_MarketProduct W v)),
        write_each (MarketSubscription_billingHistory m) (\<lambda>v. nested W 66 (encode_MarketPurchase_with (encode_MarketSubscription W) W v)),
        write_given (MarketSubscription_mediaStorageSubscriptionDetails (MarketSubscription_own m)) (\<lambda>v. nested W 82 (encode_MediaStorageSubscriptionDetails W v)),
        write_given (MarketSubscription_aiGrantSubscriptionDetails (MarketSubscription_own m)) (\<lambda>v. nested W 90 (encode_AIGrantSubscriptionDetails W v)),
        write_given (MarketSubscription_rellmHostingSubscriptionDetails (MarketSubscription_own m)) (\<lambda>v. nested W 98 (encode_RellmHostingSubscriptionDetails W v)),
        write_given (MarketSubscription_permissionsAccessSubscriptionDetails (MarketSubscription_own m)) (\<lambda>v. nested W 106 (encode_PermissionsAccessSubscriptionDetails W v)),
        write_given (MarketSubscription_createdAt (MarketSubscription_own m)) (\<lambda>v. nested W 162 (encode_date W v)),
        write_given (MarketSubscription_renewsAt (MarketSubscription_own m)) (\<lambda>v. nested W 170 (encode_date W v)),
        write_given (MarketSubscription_canceledAt (MarketSubscription_own m)) (\<lambda>v. nested W 178 (encode_date W v)),
        write_given (MarketSubscription_serviceTerminatedAt (MarketSubscription_own m)) (\<lambda>v. nested W 186 (encode_date W v))] [] = Inr b"
    using less.prems(3) unfolding encode_MarketSubscription.simps [of W m] .
  have dec: "decode_MarketSubscription W =
      decode_message W (switch_MarketSubscription_with (decode_MarketSubscription W) W) base_MarketSubscription"
    by (intro ext) (rule decode_MarketSubscription.simps)
  show ?case
  proof (subst dec, rule message_decodes [OF enc])
    show "foldl (\<lambda>m u. u m) base_MarketSubscription
        [plain (\<lambda>f. MarketSubscription_upd (MarketSubscription_id_update f)) (MarketSubscription_id (MarketSubscription_own m)) [],
       given (\<lambda>f. MarketSubscription_upd (MarketSubscription_buyer_update f)) (MarketSubscription_buyer (MarketSubscription_own m)),
       plain (\<lambda>f. MarketSubscription_upd (MarketSubscription_type_update f)) (MarketSubscription_type (MarketSubscription_own m)) 0,
       plain (\<lambda>f. MarketSubscription_upd (MarketSubscription_period_update f)) (MarketSubscription_period (MarketSubscription_own m)) 0,
       plain (\<lambda>f. MarketSubscription_upd (MarketSubscription_amount_update f)) (MarketSubscription_amount (MarketSubscription_own m)) 0,
       plain (\<lambda>f. MarketSubscription_upd (MarketSubscription_currency_update f)) (MarketSubscription_currency (MarketSubscription_own m)) 0,
       given (\<lambda>f. MarketSubscription_upd (MarketSubscription_marketProduct_update f)) (MarketSubscription_marketProduct (MarketSubscription_own m)),
       pushed MarketSubscription_billingHistory_upd (MarketSubscription_billingHistory m),
       given (\<lambda>f. MarketSubscription_upd (MarketSubscription_mediaStorageSubscriptionDetails_update f)) (MarketSubscription_mediaStorageSubscriptionDetails (MarketSubscription_own m)),
       given (\<lambda>f. MarketSubscription_upd (MarketSubscription_aiGrantSubscriptionDetails_update f)) (MarketSubscription_aiGrantSubscriptionDetails (MarketSubscription_own m)),
       given (\<lambda>f. MarketSubscription_upd (MarketSubscription_rellmHostingSubscriptionDetails_update f)) (MarketSubscription_rellmHostingSubscriptionDetails (MarketSubscription_own m)),
       given (\<lambda>f. MarketSubscription_upd (MarketSubscription_permissionsAccessSubscriptionDetails_update f)) (MarketSubscription_permissionsAccessSubscriptionDetails (MarketSubscription_own m)),
       given (\<lambda>f. MarketSubscription_upd (MarketSubscription_createdAt_update f)) (MarketSubscription_createdAt (MarketSubscription_own m)),
       given (\<lambda>f. MarketSubscription_upd (MarketSubscription_renewsAt_update f)) (MarketSubscription_renewsAt (MarketSubscription_own m)),
       given (\<lambda>f. MarketSubscription_upd (MarketSubscription_canceledAt_update f)) (MarketSubscription_canceledAt (MarketSubscription_own m)),
       given (\<lambda>f. MarketSubscription_upd (MarketSubscription_serviceTerminatedAt_update f)) (MarketSubscription_serviceTerminatedAt (MarketSubscription_own m))] = m"
      by (cases m) (simp add: field_changes base_MarketSubscription_def subscription_updates)
  qed (insert less.prems(1,2), (rule wire_fields author message_codecs subscription_updaters |
      (simp add: updater_def switch_MarketSubscription_with_def safe_MarketSubscription.simps [of W m] subscription_updates
        list_all_iff; fail))+)
qed

lemma decodes_MarketPurchase [message_codecs]:
  "wire_format W \<Longrightarrow> safe_MarketPurchase W m \<Longrightarrow> encode_MarketPurchase W m [] = Inr b \<Longrightarrow> decodes (decode_MarketPurchase W) m b"
  unfolding decode_MarketPurchase_def encode_MarketPurchase_def safe_MarketPurchase_def
  using decodes_MarketPurchase_with [where safe = "safe_MarketSubscription W" and enc = "encode_MarketSubscription W"]
    decodes_MarketSubscription by blast

text \<open>Reading returns: the references and authors inside are shorter.\<close>

lemma settles_MarketPurchase_with:
  "wire_format W \<Longrightarrow> settles k dec \<Longrightarrow> settles k (decode_MarketPurchase_with dec W)"
  unfolding decode_MarketPurchase_with_def
  by (rule wire_format.settles_message, assumption,
      unfold switch_MarketPurchase_with_def switch_field.simps switch_alternatives.simps)
    (rule wire_ends message_returns | assumption)+

lemma settles_MarketSubscription [message_returns]: "wire_format W \<Longrightarrow> settles k (decode_MarketSubscription W)"
proof (induction k)
  case (Suc k)
  have dec: "decode_MarketSubscription W = decode_message W (switch_MarketSubscription_with (decode_MarketSubscription W) W) base_MarketSubscription"
    by (intro ext) (rule decode_MarketSubscription.simps)
  have inner: "settles k (decode_MarketPurchase_with (decode_MarketSubscription W) W)" "settles k (decode_MarketSubscription W)"
    using Suc settles_MarketPurchase_with by blast+
  show ?case
    by (subst dec, rule wire_format.settles_Suc_message [OF Suc.prems],
        unfold switch_MarketSubscription_with_def switch_field.simps switch_alternatives.simps, insert Suc.prems)
      (rule inner wire_ends message_returns | assumption)+
qed (simp add: settles_def close_def)

lemma settles_MarketPurchase [message_returns]: "wire_format W \<Longrightarrow> settles k (decode_MarketPurchase W)"
  unfolding decode_MarketPurchase_def by (intro settles_MarketPurchase_with settles_MarketSubscription)

section \<open>GetMarketSubscriptionsResponse\<close>

record GetMarketSubscriptionsResponse =
  GetMarketSubscriptionsResponse_marketSubscriptions :: "MarketSubscription list"

definition base_GetMarketSubscriptionsResponse :: GetMarketSubscriptionsResponse where
  "base_GetMarketSubscriptionsResponse =
     \<lparr>GetMarketSubscriptionsResponse_marketSubscriptions = []\<rparr>"

definition encode_GetMarketSubscriptionsResponse :: "wire \<Rightarrow> GetMarketSubscriptionsResponse \<Rightarrow> bytes \<Rightarrow> bytes result" where
  "encode_GetMarketSubscriptionsResponse W m =
     write_all
       [write_each (GetMarketSubscriptionsResponse_marketSubscriptions m) (\<lambda>v. nested W 10 (encode_MarketSubscription W v))]"

definition switch_GetMarketSubscriptionsResponse :: "wire \<Rightarrow> int \<Rightarrow> reader \<Rightarrow> GetMarketSubscriptionsResponse \<Rightarrow> GetMarketSubscriptionsResponse loop_step run" where
  "switch_GetMarketSubscriptionsResponse W tag r m =
     switch_field tag
       [(1, [(10, read_message W (decode_MarketSubscription W) (\<lambda>v. GetMarketSubscriptionsResponse_marketSubscriptions_update (\<lambda>old. old @ [v]) m) r)])]"

definition decode_GetMarketSubscriptionsResponse :: "wire \<Rightarrow> reader \<Rightarrow> int option \<Rightarrow> (GetMarketSubscriptionsResponse \<times> reader) run" where
  "decode_GetMarketSubscriptionsResponse W = decode_message W (switch_GetMarketSubscriptionsResponse W) base_GetMarketSubscriptionsResponse"

definition safe_GetMarketSubscriptionsResponse :: "wire \<Rightarrow> GetMarketSubscriptionsResponse \<Rightarrow> bool" where
  "safe_GetMarketSubscriptionsResponse W m \<longleftrightarrow>
     list_all (safe_MarketSubscription W) (GetMarketSubscriptionsResponse_marketSubscriptions m)"

lemma builds_GetMarketSubscriptionsResponse:
  assumes "wire_format W" "safe_GetMarketSubscriptionsResponse W m" "encode_GetMarketSubscriptionsResponse W m [] = Inr b"
  shows "builds W (switch_GetMarketSubscriptionsResponse W) base_GetMarketSubscriptionsResponse m b"
proof (rule message_builds [OF assms(3) [unfolded encode_GetMarketSubscriptionsResponse_def]])
  show "foldl (\<lambda>m u. u m) base_GetMarketSubscriptionsResponse
      [pushed GetMarketSubscriptionsResponse_marketSubscriptions_update (GetMarketSubscriptionsResponse_marketSubscriptions m)] = m"
    by (cases m) (simp add: field_changes base_GetMarketSubscriptionsResponse_def)
qed (insert assms(1,2),
    (rule wire_fields message_codecs | (simp add: updater_def switch_GetMarketSubscriptionsResponse_def safe_GetMarketSubscriptionsResponse_def list_all_iff; fail))+)

lemma decodes_GetMarketSubscriptionsResponse [message_codecs]:
  assumes "wire_format W" "safe_GetMarketSubscriptionsResponse W m" "encode_GetMarketSubscriptionsResponse W m [] = Inr b"
  shows "decodes (decode_GetMarketSubscriptionsResponse W) m b"
  unfolding decode_GetMarketSubscriptionsResponse_def by (rule builds_decodes [OF builds_GetMarketSubscriptionsResponse [OF assms]])

lemma settles_GetMarketSubscriptionsResponse [message_returns]: "wire_format W \<Longrightarrow> settles k (decode_GetMarketSubscriptionsResponse W)"
  unfolding decode_GetMarketSubscriptionsResponse_def
  by (rule wire_format.settles_message, assumption,
      unfold switch_GetMarketSubscriptionsResponse_def switch_field.simps switch_alternatives.simps)
    (rule wire_ends message_returns | assumption)+

section \<open>MakeMarketPurchaseRequest\<close>

record MakeMarketPurchaseRequest =
  MakeMarketPurchaseRequest_marketProductId :: string
  MakeMarketPurchaseRequest_rellmHostingDetails :: "RellmHostingPurchaseDetails option"

definition base_MakeMarketPurchaseRequest :: MakeMarketPurchaseRequest where
  "base_MakeMarketPurchaseRequest =
     \<lparr>MakeMarketPurchaseRequest_marketProductId = [],
      MakeMarketPurchaseRequest_rellmHostingDetails = None\<rparr>"

definition encode_MakeMarketPurchaseRequest :: "wire \<Rightarrow> MakeMarketPurchaseRequest \<Rightarrow> bytes \<Rightarrow> bytes result" where
  "encode_MakeMarketPurchaseRequest W m =
     write_all
       [write_when (MakeMarketPurchaseRequest_marketProductId m \<noteq> []) (tagged W 10 (put_string W (MakeMarketPurchaseRequest_marketProductId m))),
        write_given (MakeMarketPurchaseRequest_rellmHostingDetails m) (\<lambda>v. nested W 18 (encode_RellmHostingPurchaseDetails W v))]"

definition switch_MakeMarketPurchaseRequest :: "wire \<Rightarrow> int \<Rightarrow> reader \<Rightarrow> MakeMarketPurchaseRequest \<Rightarrow> MakeMarketPurchaseRequest loop_step run" where
  "switch_MakeMarketPurchaseRequest W tag r m =
     switch_field tag
       [(1, [(10, read_field (get_string W) (\<lambda>v. m\<lparr>MakeMarketPurchaseRequest_marketProductId := v\<rparr>) r)]),
        (2, [(18, read_message W (decode_RellmHostingPurchaseDetails W) (\<lambda>v. m\<lparr>MakeMarketPurchaseRequest_rellmHostingDetails := Some v\<rparr>) r)])]"

definition decode_MakeMarketPurchaseRequest :: "wire \<Rightarrow> reader \<Rightarrow> int option \<Rightarrow> (MakeMarketPurchaseRequest \<times> reader) run" where
  "decode_MakeMarketPurchaseRequest W = decode_message W (switch_MakeMarketPurchaseRequest W) base_MakeMarketPurchaseRequest"

definition safe_MakeMarketPurchaseRequest :: "wire \<Rightarrow> MakeMarketPurchaseRequest \<Rightarrow> bool" where
  "safe_MakeMarketPurchaseRequest W m \<longleftrightarrow>
     pred_option (safe_RellmHostingPurchaseDetails W) (MakeMarketPurchaseRequest_rellmHostingDetails m)"

lemma builds_MakeMarketPurchaseRequest:
  assumes "wire_format W" "safe_MakeMarketPurchaseRequest W m" "encode_MakeMarketPurchaseRequest W m [] = Inr b"
  shows "builds W (switch_MakeMarketPurchaseRequest W) base_MakeMarketPurchaseRequest m b"
proof (rule message_builds [OF assms(3) [unfolded encode_MakeMarketPurchaseRequest_def]])
  show "foldl (\<lambda>m u. u m) base_MakeMarketPurchaseRequest
      [plain MakeMarketPurchaseRequest_marketProductId_update (MakeMarketPurchaseRequest_marketProductId m) [],
       given MakeMarketPurchaseRequest_rellmHostingDetails_update (MakeMarketPurchaseRequest_rellmHostingDetails m)] = m"
    by (cases m) (simp add: field_changes base_MakeMarketPurchaseRequest_def)
qed (insert assms(1,2),
    (rule wire_fields message_codecs | (simp add: updater_def switch_MakeMarketPurchaseRequest_def safe_MakeMarketPurchaseRequest_def list_all_iff; fail))+)

lemma decodes_MakeMarketPurchaseRequest [message_codecs]:
  assumes "wire_format W" "safe_MakeMarketPurchaseRequest W m" "encode_MakeMarketPurchaseRequest W m [] = Inr b"
  shows "decodes (decode_MakeMarketPurchaseRequest W) m b"
  unfolding decode_MakeMarketPurchaseRequest_def by (rule builds_decodes [OF builds_MakeMarketPurchaseRequest [OF assms]])

lemma settles_MakeMarketPurchaseRequest [message_returns]: "wire_format W \<Longrightarrow> settles k (decode_MakeMarketPurchaseRequest W)"
  unfolding decode_MakeMarketPurchaseRequest_def
  by (rule wire_format.settles_message, assumption,
      unfold switch_MakeMarketPurchaseRequest_def switch_field.simps switch_alternatives.simps)
    (rule wire_ends message_returns | assumption)+

section \<open>MakeMarketPurchaseResponse\<close>

record MakeMarketPurchaseResponse =
  MakeMarketPurchaseResponse_checkoutUrl :: string

definition base_MakeMarketPurchaseResponse :: MakeMarketPurchaseResponse where
  "base_MakeMarketPurchaseResponse =
     \<lparr>MakeMarketPurchaseResponse_checkoutUrl = []\<rparr>"

definition encode_MakeMarketPurchaseResponse :: "wire \<Rightarrow> MakeMarketPurchaseResponse \<Rightarrow> bytes \<Rightarrow> bytes result" where
  "encode_MakeMarketPurchaseResponse W m =
     write_all
       [write_when (MakeMarketPurchaseResponse_checkoutUrl m \<noteq> []) (tagged W 10 (put_string W (MakeMarketPurchaseResponse_checkoutUrl m)))]"

definition switch_MakeMarketPurchaseResponse :: "wire \<Rightarrow> int \<Rightarrow> reader \<Rightarrow> MakeMarketPurchaseResponse \<Rightarrow> MakeMarketPurchaseResponse loop_step run" where
  "switch_MakeMarketPurchaseResponse W tag r m =
     switch_field tag
       [(1, [(10, read_field (get_string W) (\<lambda>v. m\<lparr>MakeMarketPurchaseResponse_checkoutUrl := v\<rparr>) r)])]"

definition decode_MakeMarketPurchaseResponse :: "wire \<Rightarrow> reader \<Rightarrow> int option \<Rightarrow> (MakeMarketPurchaseResponse \<times> reader) run" where
  "decode_MakeMarketPurchaseResponse W = decode_message W (switch_MakeMarketPurchaseResponse W) base_MakeMarketPurchaseResponse"

lemma builds_MakeMarketPurchaseResponse:
  assumes "wire_format W" "encode_MakeMarketPurchaseResponse W m [] = Inr b"
  shows "builds W (switch_MakeMarketPurchaseResponse W) base_MakeMarketPurchaseResponse m b"
proof (rule message_builds [OF assms(2) [unfolded encode_MakeMarketPurchaseResponse_def]])
  show "foldl (\<lambda>m u. u m) base_MakeMarketPurchaseResponse
      [plain MakeMarketPurchaseResponse_checkoutUrl_update (MakeMarketPurchaseResponse_checkoutUrl m) []] = m"
    by (cases m) (simp add: field_changes base_MakeMarketPurchaseResponse_def)
qed (insert assms(1),
    (rule wire_fields message_codecs | (simp add: updater_def switch_MakeMarketPurchaseResponse_def list_all_iff; fail))+)

lemma decodes_MakeMarketPurchaseResponse [message_codecs]:
  assumes "wire_format W" "encode_MakeMarketPurchaseResponse W m [] = Inr b"
  shows "decodes (decode_MakeMarketPurchaseResponse W) m b"
  unfolding decode_MakeMarketPurchaseResponse_def by (rule builds_decodes [OF builds_MakeMarketPurchaseResponse [OF assms]])

lemma settles_MakeMarketPurchaseResponse [message_returns]: "wire_format W \<Longrightarrow> settles k (decode_MakeMarketPurchaseResponse W)"
  unfolding decode_MakeMarketPurchaseResponse_def
  by (rule wire_format.settles_message, assumption,
      unfold switch_MakeMarketPurchaseResponse_def switch_field.simps switch_alternatives.simps)
    (rule wire_ends message_returns | assumption)+

end
