(* ===== verification/Wire_Sync.thy ===== *)
theory Wire_Sync
  imports Wire_Media
begin

text \<open>
  The codecs of packages/api/generated/sync.ts: of each message the record, the empty message, writing, reading, and that
  reading what was written gives the message back.
\<close>

section \<open>BlueskyAccount\<close>

record BlueskyAccount =
  BlueskyAccount_handle :: string
  BlueskyAccount_did :: string
  BlueskyAccount_appPassword :: "string option"

definition base_BlueskyAccount :: BlueskyAccount where
  "base_BlueskyAccount =
     \<lparr>BlueskyAccount_handle = [],
      BlueskyAccount_did = [],
      BlueskyAccount_appPassword = None\<rparr>"

definition encode_BlueskyAccount :: "wire \<Rightarrow> BlueskyAccount \<Rightarrow> bytes \<Rightarrow> bytes result" where
  "encode_BlueskyAccount W m =
     write_all
       [write_when (BlueskyAccount_handle m \<noteq> []) (tagged W 10 (put_string W (BlueskyAccount_handle m))),
        write_when (BlueskyAccount_did m \<noteq> []) (tagged W 18 (put_string W (BlueskyAccount_did m))),
        write_given (BlueskyAccount_appPassword m) (\<lambda>v. tagged W 26 (put_string W v))]"

definition switch_BlueskyAccount :: "wire \<Rightarrow> int \<Rightarrow> reader \<Rightarrow> BlueskyAccount \<Rightarrow> BlueskyAccount loop_step run" where
  "switch_BlueskyAccount W tag r m =
     switch_field tag
       [(1, [(10, read_field (get_string W) (\<lambda>v. m\<lparr>BlueskyAccount_handle := v\<rparr>) r)]),
        (2, [(18, read_field (get_string W) (\<lambda>v. m\<lparr>BlueskyAccount_did := v\<rparr>) r)]),
        (3, [(26, read_field (get_string W) (\<lambda>v. m\<lparr>BlueskyAccount_appPassword := Some v\<rparr>) r)])]"

definition decode_BlueskyAccount :: "wire \<Rightarrow> reader \<Rightarrow> int option \<Rightarrow> (BlueskyAccount \<times> reader) run" where
  "decode_BlueskyAccount W = decode_message W (switch_BlueskyAccount W) base_BlueskyAccount"

lemma builds_BlueskyAccount:
  assumes "wire_format W" "encode_BlueskyAccount W m [] = Inr b"
  shows "builds W (switch_BlueskyAccount W) base_BlueskyAccount m b"
proof (rule message_builds [OF assms(2) [unfolded encode_BlueskyAccount_def]])
  show "foldl (\<lambda>m u. u m) base_BlueskyAccount
      [plain BlueskyAccount_handle_update (BlueskyAccount_handle m) [],
       plain BlueskyAccount_did_update (BlueskyAccount_did m) [],
       given BlueskyAccount_appPassword_update (BlueskyAccount_appPassword m)] = m"
    by (cases m) (simp add: field_changes base_BlueskyAccount_def)
qed (insert assms(1),
    (rule wire_fields message_codecs | (simp add: updater_def switch_BlueskyAccount_def list_all_iff; fail))+)

lemma decodes_BlueskyAccount [message_codecs]:
  assumes "wire_format W" "encode_BlueskyAccount W m [] = Inr b"
  shows "decodes (decode_BlueskyAccount W) m b"
  unfolding decode_BlueskyAccount_def by (rule builds_decodes [OF builds_BlueskyAccount [OF assms]])

lemma settles_BlueskyAccount [message_returns]: "wire_format W \<Longrightarrow> settles k (decode_BlueskyAccount W)"
  unfolding decode_BlueskyAccount_def
  by (rule wire_format.settles_message, assumption,
      unfold switch_BlueskyAccount_def switch_field.simps switch_alternatives.simps)
    (rule wire_ends message_returns | assumption)+

section \<open>FacebookPage\<close>

record FacebookPage =
  FacebookPage_pageId :: string
  FacebookPage_pageName :: string
  FacebookPage_shortLivedUserAccessToken :: "string option"

definition base_FacebookPage :: FacebookPage where
  "base_FacebookPage =
     \<lparr>FacebookPage_pageId = [],
      FacebookPage_pageName = [],
      FacebookPage_shortLivedUserAccessToken = None\<rparr>"

definition encode_FacebookPage :: "wire \<Rightarrow> FacebookPage \<Rightarrow> bytes \<Rightarrow> bytes result" where
  "encode_FacebookPage W m =
     write_all
       [write_when (FacebookPage_pageId m \<noteq> []) (tagged W 10 (put_string W (FacebookPage_pageId m))),
        write_when (FacebookPage_pageName m \<noteq> []) (tagged W 18 (put_string W (FacebookPage_pageName m))),
        write_given (FacebookPage_shortLivedUserAccessToken m) (\<lambda>v. tagged W 26 (put_string W v))]"

definition switch_FacebookPage :: "wire \<Rightarrow> int \<Rightarrow> reader \<Rightarrow> FacebookPage \<Rightarrow> FacebookPage loop_step run" where
  "switch_FacebookPage W tag r m =
     switch_field tag
       [(1, [(10, read_field (get_string W) (\<lambda>v. m\<lparr>FacebookPage_pageId := v\<rparr>) r)]),
        (2, [(18, read_field (get_string W) (\<lambda>v. m\<lparr>FacebookPage_pageName := v\<rparr>) r)]),
        (3, [(26, read_field (get_string W) (\<lambda>v. m\<lparr>FacebookPage_shortLivedUserAccessToken := Some v\<rparr>) r)])]"

definition decode_FacebookPage :: "wire \<Rightarrow> reader \<Rightarrow> int option \<Rightarrow> (FacebookPage \<times> reader) run" where
  "decode_FacebookPage W = decode_message W (switch_FacebookPage W) base_FacebookPage"

lemma builds_FacebookPage:
  assumes "wire_format W" "encode_FacebookPage W m [] = Inr b"
  shows "builds W (switch_FacebookPage W) base_FacebookPage m b"
proof (rule message_builds [OF assms(2) [unfolded encode_FacebookPage_def]])
  show "foldl (\<lambda>m u. u m) base_FacebookPage
      [plain FacebookPage_pageId_update (FacebookPage_pageId m) [],
       plain FacebookPage_pageName_update (FacebookPage_pageName m) [],
       given FacebookPage_shortLivedUserAccessToken_update (FacebookPage_shortLivedUserAccessToken m)] = m"
    by (cases m) (simp add: field_changes base_FacebookPage_def)
qed (insert assms(1),
    (rule wire_fields message_codecs | (simp add: updater_def switch_FacebookPage_def list_all_iff; fail))+)

lemma decodes_FacebookPage [message_codecs]:
  assumes "wire_format W" "encode_FacebookPage W m [] = Inr b"
  shows "decodes (decode_FacebookPage W) m b"
  unfolding decode_FacebookPage_def by (rule builds_decodes [OF builds_FacebookPage [OF assms]])

lemma settles_FacebookPage [message_returns]: "wire_format W \<Longrightarrow> settles k (decode_FacebookPage W)"
  unfolding decode_FacebookPage_def
  by (rule wire_format.settles_message, assumption,
      unfold switch_FacebookPage_def switch_field.simps switch_alternatives.simps)
    (rule wire_ends message_returns | assumption)+

section \<open>InstagramAccount\<close>

record InstagramAccount =
  InstagramAccount_instagramBusinessAccountId :: string
  InstagramAccount_username :: string
  InstagramAccount_pageId :: string
  InstagramAccount_shortLivedUserAccessToken :: "string option"

definition base_InstagramAccount :: InstagramAccount where
  "base_InstagramAccount =
     \<lparr>InstagramAccount_instagramBusinessAccountId = [],
      InstagramAccount_username = [],
      InstagramAccount_pageId = [],
      InstagramAccount_shortLivedUserAccessToken = None\<rparr>"

definition encode_InstagramAccount :: "wire \<Rightarrow> InstagramAccount \<Rightarrow> bytes \<Rightarrow> bytes result" where
  "encode_InstagramAccount W m =
     write_all
       [write_when (InstagramAccount_instagramBusinessAccountId m \<noteq> []) (tagged W 10 (put_string W (InstagramAccount_instagramBusinessAccountId m))),
        write_when (InstagramAccount_username m \<noteq> []) (tagged W 18 (put_string W (InstagramAccount_username m))),
        write_when (InstagramAccount_pageId m \<noteq> []) (tagged W 26 (put_string W (InstagramAccount_pageId m))),
        write_given (InstagramAccount_shortLivedUserAccessToken m) (\<lambda>v. tagged W 34 (put_string W v))]"

definition switch_InstagramAccount :: "wire \<Rightarrow> int \<Rightarrow> reader \<Rightarrow> InstagramAccount \<Rightarrow> InstagramAccount loop_step run" where
  "switch_InstagramAccount W tag r m =
     switch_field tag
       [(1, [(10, read_field (get_string W) (\<lambda>v. m\<lparr>InstagramAccount_instagramBusinessAccountId := v\<rparr>) r)]),
        (2, [(18, read_field (get_string W) (\<lambda>v. m\<lparr>InstagramAccount_username := v\<rparr>) r)]),
        (3, [(26, read_field (get_string W) (\<lambda>v. m\<lparr>InstagramAccount_pageId := v\<rparr>) r)]),
        (4, [(34, read_field (get_string W) (\<lambda>v. m\<lparr>InstagramAccount_shortLivedUserAccessToken := Some v\<rparr>) r)])]"

definition decode_InstagramAccount :: "wire \<Rightarrow> reader \<Rightarrow> int option \<Rightarrow> (InstagramAccount \<times> reader) run" where
  "decode_InstagramAccount W = decode_message W (switch_InstagramAccount W) base_InstagramAccount"

lemma builds_InstagramAccount:
  assumes "wire_format W" "encode_InstagramAccount W m [] = Inr b"
  shows "builds W (switch_InstagramAccount W) base_InstagramAccount m b"
proof (rule message_builds [OF assms(2) [unfolded encode_InstagramAccount_def]])
  show "foldl (\<lambda>m u. u m) base_InstagramAccount
      [plain InstagramAccount_instagramBusinessAccountId_update (InstagramAccount_instagramBusinessAccountId m) [],
       plain InstagramAccount_username_update (InstagramAccount_username m) [],
       plain InstagramAccount_pageId_update (InstagramAccount_pageId m) [],
       given InstagramAccount_shortLivedUserAccessToken_update (InstagramAccount_shortLivedUserAccessToken m)] = m"
    by (cases m) (simp add: field_changes base_InstagramAccount_def)
qed (insert assms(1),
    (rule wire_fields message_codecs | (simp add: updater_def switch_InstagramAccount_def list_all_iff; fail))+)

lemma decodes_InstagramAccount [message_codecs]:
  assumes "wire_format W" "encode_InstagramAccount W m [] = Inr b"
  shows "decodes (decode_InstagramAccount W) m b"
  unfolding decode_InstagramAccount_def by (rule builds_decodes [OF builds_InstagramAccount [OF assms]])

lemma settles_InstagramAccount [message_returns]: "wire_format W \<Longrightarrow> settles k (decode_InstagramAccount W)"
  unfolding decode_InstagramAccount_def
  by (rule wire_format.settles_message, assumption,
      unfold switch_InstagramAccount_def switch_field.simps switch_alternatives.simps)
    (rule wire_ends message_returns | assumption)+

section \<open>MastodonAccount\<close>

record MastodonAccount =
  MastodonAccount_instanceHost :: string
  MastodonAccount_username :: string
  MastodonAccount_accessToken :: "string option"

definition base_MastodonAccount :: MastodonAccount where
  "base_MastodonAccount =
     \<lparr>MastodonAccount_instanceHost = [],
      MastodonAccount_username = [],
      MastodonAccount_accessToken = None\<rparr>"

definition encode_MastodonAccount :: "wire \<Rightarrow> MastodonAccount \<Rightarrow> bytes \<Rightarrow> bytes result" where
  "encode_MastodonAccount W m =
     write_all
       [write_when (MastodonAccount_instanceHost m \<noteq> []) (tagged W 10 (put_string W (MastodonAccount_instanceHost m))),
        write_when (MastodonAccount_username m \<noteq> []) (tagged W 18 (put_string W (MastodonAccount_username m))),
        write_given (MastodonAccount_accessToken m) (\<lambda>v. tagged W 26 (put_string W v))]"

definition switch_MastodonAccount :: "wire \<Rightarrow> int \<Rightarrow> reader \<Rightarrow> MastodonAccount \<Rightarrow> MastodonAccount loop_step run" where
  "switch_MastodonAccount W tag r m =
     switch_field tag
       [(1, [(10, read_field (get_string W) (\<lambda>v. m\<lparr>MastodonAccount_instanceHost := v\<rparr>) r)]),
        (2, [(18, read_field (get_string W) (\<lambda>v. m\<lparr>MastodonAccount_username := v\<rparr>) r)]),
        (3, [(26, read_field (get_string W) (\<lambda>v. m\<lparr>MastodonAccount_accessToken := Some v\<rparr>) r)])]"

definition decode_MastodonAccount :: "wire \<Rightarrow> reader \<Rightarrow> int option \<Rightarrow> (MastodonAccount \<times> reader) run" where
  "decode_MastodonAccount W = decode_message W (switch_MastodonAccount W) base_MastodonAccount"

lemma builds_MastodonAccount:
  assumes "wire_format W" "encode_MastodonAccount W m [] = Inr b"
  shows "builds W (switch_MastodonAccount W) base_MastodonAccount m b"
proof (rule message_builds [OF assms(2) [unfolded encode_MastodonAccount_def]])
  show "foldl (\<lambda>m u. u m) base_MastodonAccount
      [plain MastodonAccount_instanceHost_update (MastodonAccount_instanceHost m) [],
       plain MastodonAccount_username_update (MastodonAccount_username m) [],
       given MastodonAccount_accessToken_update (MastodonAccount_accessToken m)] = m"
    by (cases m) (simp add: field_changes base_MastodonAccount_def)
qed (insert assms(1),
    (rule wire_fields message_codecs | (simp add: updater_def switch_MastodonAccount_def list_all_iff; fail))+)

lemma decodes_MastodonAccount [message_codecs]:
  assumes "wire_format W" "encode_MastodonAccount W m [] = Inr b"
  shows "decodes (decode_MastodonAccount W) m b"
  unfolding decode_MastodonAccount_def by (rule builds_decodes [OF builds_MastodonAccount [OF assms]])

lemma settles_MastodonAccount [message_returns]: "wire_format W \<Longrightarrow> settles k (decode_MastodonAccount W)"
  unfolding decode_MastodonAccount_def
  by (rule wire_format.settles_message, assumption,
      unfold switch_MastodonAccount_def switch_field.simps switch_alternatives.simps)
    (rule wire_ends message_returns | assumption)+

section \<open>ThreadsAccount\<close>

record ThreadsAccount =
  ThreadsAccount_threadsUserId :: string
  ThreadsAccount_username :: string
  ThreadsAccount_authorizationCode :: "string option"

definition base_ThreadsAccount :: ThreadsAccount where
  "base_ThreadsAccount =
     \<lparr>ThreadsAccount_threadsUserId = [],
      ThreadsAccount_username = [],
      ThreadsAccount_authorizationCode = None\<rparr>"

definition encode_ThreadsAccount :: "wire \<Rightarrow> ThreadsAccount \<Rightarrow> bytes \<Rightarrow> bytes result" where
  "encode_ThreadsAccount W m =
     write_all
       [write_when (ThreadsAccount_threadsUserId m \<noteq> []) (tagged W 10 (put_string W (ThreadsAccount_threadsUserId m))),
        write_when (ThreadsAccount_username m \<noteq> []) (tagged W 18 (put_string W (ThreadsAccount_username m))),
        write_given (ThreadsAccount_authorizationCode m) (\<lambda>v. tagged W 26 (put_string W v))]"

definition switch_ThreadsAccount :: "wire \<Rightarrow> int \<Rightarrow> reader \<Rightarrow> ThreadsAccount \<Rightarrow> ThreadsAccount loop_step run" where
  "switch_ThreadsAccount W tag r m =
     switch_field tag
       [(1, [(10, read_field (get_string W) (\<lambda>v. m\<lparr>ThreadsAccount_threadsUserId := v\<rparr>) r)]),
        (2, [(18, read_field (get_string W) (\<lambda>v. m\<lparr>ThreadsAccount_username := v\<rparr>) r)]),
        (3, [(26, read_field (get_string W) (\<lambda>v. m\<lparr>ThreadsAccount_authorizationCode := Some v\<rparr>) r)])]"

definition decode_ThreadsAccount :: "wire \<Rightarrow> reader \<Rightarrow> int option \<Rightarrow> (ThreadsAccount \<times> reader) run" where
  "decode_ThreadsAccount W = decode_message W (switch_ThreadsAccount W) base_ThreadsAccount"

lemma builds_ThreadsAccount:
  assumes "wire_format W" "encode_ThreadsAccount W m [] = Inr b"
  shows "builds W (switch_ThreadsAccount W) base_ThreadsAccount m b"
proof (rule message_builds [OF assms(2) [unfolded encode_ThreadsAccount_def]])
  show "foldl (\<lambda>m u. u m) base_ThreadsAccount
      [plain ThreadsAccount_threadsUserId_update (ThreadsAccount_threadsUserId m) [],
       plain ThreadsAccount_username_update (ThreadsAccount_username m) [],
       given ThreadsAccount_authorizationCode_update (ThreadsAccount_authorizationCode m)] = m"
    by (cases m) (simp add: field_changes base_ThreadsAccount_def)
qed (insert assms(1),
    (rule wire_fields message_codecs | (simp add: updater_def switch_ThreadsAccount_def list_all_iff; fail))+)

lemma decodes_ThreadsAccount [message_codecs]:
  assumes "wire_format W" "encode_ThreadsAccount W m [] = Inr b"
  shows "decodes (decode_ThreadsAccount W) m b"
  unfolding decode_ThreadsAccount_def by (rule builds_decodes [OF builds_ThreadsAccount [OF assms]])

lemma settles_ThreadsAccount [message_returns]: "wire_format W \<Longrightarrow> settles k (decode_ThreadsAccount W)"
  unfolding decode_ThreadsAccount_def
  by (rule wire_format.settles_message, assumption,
      unfold switch_ThreadsAccount_def switch_field.simps switch_alternatives.simps)
    (rule wire_ends message_returns | assumption)+

section \<open>XTwitterAccount\<close>

record XTwitterAccount =
  XTwitterAccount_username :: string
  XTwitterAccount_xUserId :: string
  XTwitterAccount_authorizationCode :: "string option"
  XTwitterAccount_codeVerifier :: "string option"

definition base_XTwitterAccount :: XTwitterAccount where
  "base_XTwitterAccount =
     \<lparr>XTwitterAccount_username = [],
      XTwitterAccount_xUserId = [],
      XTwitterAccount_authorizationCode = None,
      XTwitterAccount_codeVerifier = None\<rparr>"

definition encode_XTwitterAccount :: "wire \<Rightarrow> XTwitterAccount \<Rightarrow> bytes \<Rightarrow> bytes result" where
  "encode_XTwitterAccount W m =
     write_all
       [write_when (XTwitterAccount_username m \<noteq> []) (tagged W 10 (put_string W (XTwitterAccount_username m))),
        write_when (XTwitterAccount_xUserId m \<noteq> []) (tagged W 26 (put_string W (XTwitterAccount_xUserId m))),
        write_given (XTwitterAccount_authorizationCode m) (\<lambda>v. tagged W 34 (put_string W v)),
        write_given (XTwitterAccount_codeVerifier m) (\<lambda>v. tagged W 42 (put_string W v))]"

definition switch_XTwitterAccount :: "wire \<Rightarrow> int \<Rightarrow> reader \<Rightarrow> XTwitterAccount \<Rightarrow> XTwitterAccount loop_step run" where
  "switch_XTwitterAccount W tag r m =
     switch_field tag
       [(1, [(10, read_field (get_string W) (\<lambda>v. m\<lparr>XTwitterAccount_username := v\<rparr>) r)]),
        (3, [(26, read_field (get_string W) (\<lambda>v. m\<lparr>XTwitterAccount_xUserId := v\<rparr>) r)]),
        (4, [(34, read_field (get_string W) (\<lambda>v. m\<lparr>XTwitterAccount_authorizationCode := Some v\<rparr>) r)]),
        (5, [(42, read_field (get_string W) (\<lambda>v. m\<lparr>XTwitterAccount_codeVerifier := Some v\<rparr>) r)])]"

definition decode_XTwitterAccount :: "wire \<Rightarrow> reader \<Rightarrow> int option \<Rightarrow> (XTwitterAccount \<times> reader) run" where
  "decode_XTwitterAccount W = decode_message W (switch_XTwitterAccount W) base_XTwitterAccount"

lemma builds_XTwitterAccount:
  assumes "wire_format W" "encode_XTwitterAccount W m [] = Inr b"
  shows "builds W (switch_XTwitterAccount W) base_XTwitterAccount m b"
proof (rule message_builds [OF assms(2) [unfolded encode_XTwitterAccount_def]])
  show "foldl (\<lambda>m u. u m) base_XTwitterAccount
      [plain XTwitterAccount_username_update (XTwitterAccount_username m) [],
       plain XTwitterAccount_xUserId_update (XTwitterAccount_xUserId m) [],
       given XTwitterAccount_authorizationCode_update (XTwitterAccount_authorizationCode m),
       given XTwitterAccount_codeVerifier_update (XTwitterAccount_codeVerifier m)] = m"
    by (cases m) (simp add: field_changes base_XTwitterAccount_def)
qed (insert assms(1),
    (rule wire_fields message_codecs | (simp add: updater_def switch_XTwitterAccount_def list_all_iff; fail))+)

lemma decodes_XTwitterAccount [message_codecs]:
  assumes "wire_format W" "encode_XTwitterAccount W m [] = Inr b"
  shows "decodes (decode_XTwitterAccount W) m b"
  unfolding decode_XTwitterAccount_def by (rule builds_decodes [OF builds_XTwitterAccount [OF assms]])

lemma settles_XTwitterAccount [message_returns]: "wire_format W \<Longrightarrow> settles k (decode_XTwitterAccount W)"
  unfolding decode_XTwitterAccount_def
  by (rule wire_format.settles_message, assumption,
      unfold switch_XTwitterAccount_def switch_field.simps switch_alternatives.simps)
    (rule wire_ends message_returns | assumption)+

section \<open>SyncDestination\<close>

record SyncDestination =
  SyncDestination_id :: string
  SyncDestination_owner :: "Author option"
  SyncDestination_createdAt :: "string option"
  SyncDestination_updatedAt :: "string option"
  SyncDestination_syncedOccasionCount :: "int option"
  SyncDestination_syncedPostCount :: "int option"
  SyncDestination_facebookPage :: "FacebookPage option"
  SyncDestination_instagramAccount :: "InstagramAccount option"
  SyncDestination_mastodonAccount :: "MastodonAccount option"
  SyncDestination_blueskyAccount :: "BlueskyAccount option"
  SyncDestination_xTwitterAccount :: "XTwitterAccount option"
  SyncDestination_threadsAccount :: "ThreadsAccount option"

definition base_SyncDestination :: SyncDestination where
  "base_SyncDestination =
     \<lparr>SyncDestination_id = [],
      SyncDestination_owner = None,
      SyncDestination_createdAt = None,
      SyncDestination_updatedAt = None,
      SyncDestination_syncedOccasionCount = None,
      SyncDestination_syncedPostCount = None,
      SyncDestination_facebookPage = None,
      SyncDestination_instagramAccount = None,
      SyncDestination_mastodonAccount = None,
      SyncDestination_blueskyAccount = None,
      SyncDestination_xTwitterAccount = None,
      SyncDestination_threadsAccount = None\<rparr>"

definition encode_SyncDestination :: "wire \<Rightarrow> SyncDestination \<Rightarrow> bytes \<Rightarrow> bytes result" where
  "encode_SyncDestination W m =
     write_all
       [write_when (SyncDestination_id m \<noteq> []) (tagged W 10 (put_string W (SyncDestination_id m))),
        write_given (SyncDestination_owner m) (\<lambda>v. nested W 18 (encode_Author W v)),
        write_given (SyncDestination_createdAt m) (\<lambda>v. nested W 34 (encode_date W v)),
        write_given (SyncDestination_updatedAt m) (\<lambda>v. nested W 42 (encode_date W v)),
        write_given (SyncDestination_syncedOccasionCount m) (\<lambda>v. tagged W 48 (put_uint64 W v)),
        write_given (SyncDestination_syncedPostCount m) (\<lambda>v. tagged W 56 (put_uint64 W v)),
        write_given (SyncDestination_facebookPage m) (\<lambda>v. nested W 74 (encode_FacebookPage W v)),
        write_given (SyncDestination_instagramAccount m) (\<lambda>v. nested W 82 (encode_InstagramAccount W v)),
        write_given (SyncDestination_mastodonAccount m) (\<lambda>v. nested W 90 (encode_MastodonAccount W v)),
        write_given (SyncDestination_blueskyAccount m) (\<lambda>v. nested W 98 (encode_BlueskyAccount W v)),
        write_given (SyncDestination_xTwitterAccount m) (\<lambda>v. nested W 106 (encode_XTwitterAccount W v)),
        write_given (SyncDestination_threadsAccount m) (\<lambda>v. nested W 114 (encode_ThreadsAccount W v))]"

definition switch_SyncDestination :: "wire \<Rightarrow> int \<Rightarrow> reader \<Rightarrow> SyncDestination \<Rightarrow> SyncDestination loop_step run" where
  "switch_SyncDestination W tag r m =
     switch_field tag
       [(1, [(10, read_field (get_string W) (\<lambda>v. m\<lparr>SyncDestination_id := v\<rparr>) r)]),
        (2, [(18, read_message W (decode_Author W) (\<lambda>v. m\<lparr>SyncDestination_owner := Some v\<rparr>) r)]),
        (4, [(34, read_message W (decode_date W) (\<lambda>v. m\<lparr>SyncDestination_createdAt := Some v\<rparr>) r)]),
        (5, [(42, read_message W (decode_date W) (\<lambda>v. m\<lparr>SyncDestination_updatedAt := Some v\<rparr>) r)]),
        (6, [(48, read_field (get_long (get_uint64 W)) (\<lambda>v. m\<lparr>SyncDestination_syncedOccasionCount := Some v\<rparr>) r)]),
        (7, [(56, read_field (get_long (get_uint64 W)) (\<lambda>v. m\<lparr>SyncDestination_syncedPostCount := Some v\<rparr>) r)]),
        (9, [(74, read_message W (decode_FacebookPage W) (\<lambda>v. m\<lparr>SyncDestination_facebookPage := Some v\<rparr>) r)]),
        (10, [(82, read_message W (decode_InstagramAccount W) (\<lambda>v. m\<lparr>SyncDestination_instagramAccount := Some v\<rparr>) r)]),
        (11, [(90, read_message W (decode_MastodonAccount W) (\<lambda>v. m\<lparr>SyncDestination_mastodonAccount := Some v\<rparr>) r)]),
        (12, [(98, read_message W (decode_BlueskyAccount W) (\<lambda>v. m\<lparr>SyncDestination_blueskyAccount := Some v\<rparr>) r)]),
        (13, [(106, read_message W (decode_XTwitterAccount W) (\<lambda>v. m\<lparr>SyncDestination_xTwitterAccount := Some v\<rparr>) r)]),
        (14, [(114, read_message W (decode_ThreadsAccount W) (\<lambda>v. m\<lparr>SyncDestination_threadsAccount := Some v\<rparr>) r)])]"

definition decode_SyncDestination :: "wire \<Rightarrow> reader \<Rightarrow> int option \<Rightarrow> (SyncDestination \<times> reader) run" where
  "decode_SyncDestination W = decode_message W (switch_SyncDestination W) base_SyncDestination"

definition safe_SyncDestination :: "wire \<Rightarrow> SyncDestination \<Rightarrow> bool" where
  "safe_SyncDestination W m \<longleftrightarrow>
     pred_option (safe_Author W) (SyncDestination_owner m) \<and>
     pred_option canonical_date (SyncDestination_createdAt m) \<and>
     pred_option canonical_date (SyncDestination_updatedAt m) \<and>
     pred_option safe_long (SyncDestination_syncedOccasionCount m) \<and>
     pred_option safe_long (SyncDestination_syncedPostCount m)"

lemma builds_SyncDestination:
  assumes "wire_format W" "safe_SyncDestination W m" "encode_SyncDestination W m [] = Inr b"
  shows "builds W (switch_SyncDestination W) base_SyncDestination m b"
proof (rule message_builds [OF assms(3) [unfolded encode_SyncDestination_def]])
  show "foldl (\<lambda>m u. u m) base_SyncDestination
      [plain SyncDestination_id_update (SyncDestination_id m) [],
       given SyncDestination_owner_update (SyncDestination_owner m),
       given SyncDestination_createdAt_update (SyncDestination_createdAt m),
       given SyncDestination_updatedAt_update (SyncDestination_updatedAt m),
       given SyncDestination_syncedOccasionCount_update (SyncDestination_syncedOccasionCount m),
       given SyncDestination_syncedPostCount_update (SyncDestination_syncedPostCount m),
       given SyncDestination_facebookPage_update (SyncDestination_facebookPage m),
       given SyncDestination_instagramAccount_update (SyncDestination_instagramAccount m),
       given SyncDestination_mastodonAccount_update (SyncDestination_mastodonAccount m),
       given SyncDestination_blueskyAccount_update (SyncDestination_blueskyAccount m),
       given SyncDestination_xTwitterAccount_update (SyncDestination_xTwitterAccount m),
       given SyncDestination_threadsAccount_update (SyncDestination_threadsAccount m)] = m"
    by (cases m) (simp add: field_changes base_SyncDestination_def)
qed (insert assms(1,2),
    (rule wire_fields message_codecs | (simp add: updater_def switch_SyncDestination_def safe_SyncDestination_def list_all_iff; fail))+)

lemma decodes_SyncDestination [message_codecs]:
  assumes "wire_format W" "safe_SyncDestination W m" "encode_SyncDestination W m [] = Inr b"
  shows "decodes (decode_SyncDestination W) m b"
  unfolding decode_SyncDestination_def by (rule builds_decodes [OF builds_SyncDestination [OF assms]])

lemma settles_SyncDestination [message_returns]: "wire_format W \<Longrightarrow> settles k (decode_SyncDestination W)"
  unfolding decode_SyncDestination_def
  by (rule wire_format.settles_message, assumption,
      unfold switch_SyncDestination_def switch_field.simps switch_alternatives.simps)
    (rule wire_ends message_returns | assumption)+

section \<open>GetSyncDestinationsResponse\<close>

record GetSyncDestinationsResponse =
  GetSyncDestinationsResponse_destinations :: "SyncDestination list"

definition base_GetSyncDestinationsResponse :: GetSyncDestinationsResponse where
  "base_GetSyncDestinationsResponse =
     \<lparr>GetSyncDestinationsResponse_destinations = []\<rparr>"

definition encode_GetSyncDestinationsResponse :: "wire \<Rightarrow> GetSyncDestinationsResponse \<Rightarrow> bytes \<Rightarrow> bytes result" where
  "encode_GetSyncDestinationsResponse W m =
     write_all
       [write_each (GetSyncDestinationsResponse_destinations m) (\<lambda>v. nested W 10 (encode_SyncDestination W v))]"

definition switch_GetSyncDestinationsResponse :: "wire \<Rightarrow> int \<Rightarrow> reader \<Rightarrow> GetSyncDestinationsResponse \<Rightarrow> GetSyncDestinationsResponse loop_step run" where
  "switch_GetSyncDestinationsResponse W tag r m =
     switch_field tag
       [(1, [(10, read_message W (decode_SyncDestination W) (\<lambda>v. GetSyncDestinationsResponse_destinations_update (\<lambda>old. old @ [v]) m) r)])]"

definition decode_GetSyncDestinationsResponse :: "wire \<Rightarrow> reader \<Rightarrow> int option \<Rightarrow> (GetSyncDestinationsResponse \<times> reader) run" where
  "decode_GetSyncDestinationsResponse W = decode_message W (switch_GetSyncDestinationsResponse W) base_GetSyncDestinationsResponse"

definition safe_GetSyncDestinationsResponse :: "wire \<Rightarrow> GetSyncDestinationsResponse \<Rightarrow> bool" where
  "safe_GetSyncDestinationsResponse W m \<longleftrightarrow>
     list_all (safe_SyncDestination W) (GetSyncDestinationsResponse_destinations m)"

lemma builds_GetSyncDestinationsResponse:
  assumes "wire_format W" "safe_GetSyncDestinationsResponse W m" "encode_GetSyncDestinationsResponse W m [] = Inr b"
  shows "builds W (switch_GetSyncDestinationsResponse W) base_GetSyncDestinationsResponse m b"
proof (rule message_builds [OF assms(3) [unfolded encode_GetSyncDestinationsResponse_def]])
  show "foldl (\<lambda>m u. u m) base_GetSyncDestinationsResponse
      [pushed GetSyncDestinationsResponse_destinations_update (GetSyncDestinationsResponse_destinations m)] = m"
    by (cases m) (simp add: field_changes base_GetSyncDestinationsResponse_def)
qed (insert assms(1,2),
    (rule wire_fields message_codecs | (simp add: updater_def switch_GetSyncDestinationsResponse_def safe_GetSyncDestinationsResponse_def list_all_iff; fail))+)

lemma decodes_GetSyncDestinationsResponse [message_codecs]:
  assumes "wire_format W" "safe_GetSyncDestinationsResponse W m" "encode_GetSyncDestinationsResponse W m [] = Inr b"
  shows "decodes (decode_GetSyncDestinationsResponse W) m b"
  unfolding decode_GetSyncDestinationsResponse_def by (rule builds_decodes [OF builds_GetSyncDestinationsResponse [OF assms]])

lemma settles_GetSyncDestinationsResponse [message_returns]: "wire_format W \<Longrightarrow> settles k (decode_GetSyncDestinationsResponse W)"
  unfolding decode_GetSyncDestinationsResponse_def
  by (rule wire_format.settles_message, assumption,
      unfold switch_GetSyncDestinationsResponse_def switch_field.simps switch_alternatives.simps)
    (rule wire_ends message_returns | assumption)+

section \<open>DeleteSyncDestinationRequest\<close>

record DeleteSyncDestinationRequest =
  DeleteSyncDestinationRequest_destination :: "SyncDestination option"
  DeleteSyncDestinationRequest_deleteSyncedPosts :: bool

definition base_DeleteSyncDestinationRequest :: DeleteSyncDestinationRequest where
  "base_DeleteSyncDestinationRequest =
     \<lparr>DeleteSyncDestinationRequest_destination = None,
      DeleteSyncDestinationRequest_deleteSyncedPosts = False\<rparr>"

definition encode_DeleteSyncDestinationRequest :: "wire \<Rightarrow> DeleteSyncDestinationRequest \<Rightarrow> bytes \<Rightarrow> bytes result" where
  "encode_DeleteSyncDestinationRequest W m =
     write_all
       [write_given (DeleteSyncDestinationRequest_destination m) (\<lambda>v. nested W 10 (encode_SyncDestination W v)),
        write_when (DeleteSyncDestinationRequest_deleteSyncedPosts m \<noteq> False) (tagged W 16 (put_bool W (DeleteSyncDestinationRequest_deleteSyncedPosts m)))]"

definition switch_DeleteSyncDestinationRequest :: "wire \<Rightarrow> int \<Rightarrow> reader \<Rightarrow> DeleteSyncDestinationRequest \<Rightarrow> DeleteSyncDestinationRequest loop_step run" where
  "switch_DeleteSyncDestinationRequest W tag r m =
     switch_field tag
       [(1, [(10, read_message W (decode_SyncDestination W) (\<lambda>v. m\<lparr>DeleteSyncDestinationRequest_destination := Some v\<rparr>) r)]),
        (2, [(16, read_field (get_bool W) (\<lambda>v. m\<lparr>DeleteSyncDestinationRequest_deleteSyncedPosts := v\<rparr>) r)])]"

definition decode_DeleteSyncDestinationRequest :: "wire \<Rightarrow> reader \<Rightarrow> int option \<Rightarrow> (DeleteSyncDestinationRequest \<times> reader) run" where
  "decode_DeleteSyncDestinationRequest W = decode_message W (switch_DeleteSyncDestinationRequest W) base_DeleteSyncDestinationRequest"

definition safe_DeleteSyncDestinationRequest :: "wire \<Rightarrow> DeleteSyncDestinationRequest \<Rightarrow> bool" where
  "safe_DeleteSyncDestinationRequest W m \<longleftrightarrow>
     pred_option (safe_SyncDestination W) (DeleteSyncDestinationRequest_destination m)"

lemma builds_DeleteSyncDestinationRequest:
  assumes "wire_format W" "safe_DeleteSyncDestinationRequest W m" "encode_DeleteSyncDestinationRequest W m [] = Inr b"
  shows "builds W (switch_DeleteSyncDestinationRequest W) base_DeleteSyncDestinationRequest m b"
proof (rule message_builds [OF assms(3) [unfolded encode_DeleteSyncDestinationRequest_def]])
  show "foldl (\<lambda>m u. u m) base_DeleteSyncDestinationRequest
      [given DeleteSyncDestinationRequest_destination_update (DeleteSyncDestinationRequest_destination m),
       plain DeleteSyncDestinationRequest_deleteSyncedPosts_update (DeleteSyncDestinationRequest_deleteSyncedPosts m) False] = m"
    by (cases m) (simp add: field_changes base_DeleteSyncDestinationRequest_def)
qed (insert assms(1,2),
    (rule wire_fields message_codecs | (simp add: updater_def switch_DeleteSyncDestinationRequest_def safe_DeleteSyncDestinationRequest_def list_all_iff; fail))+)

lemma decodes_DeleteSyncDestinationRequest [message_codecs]:
  assumes "wire_format W" "safe_DeleteSyncDestinationRequest W m" "encode_DeleteSyncDestinationRequest W m [] = Inr b"
  shows "decodes (decode_DeleteSyncDestinationRequest W) m b"
  unfolding decode_DeleteSyncDestinationRequest_def by (rule builds_decodes [OF builds_DeleteSyncDestinationRequest [OF assms]])

lemma settles_DeleteSyncDestinationRequest [message_returns]: "wire_format W \<Longrightarrow> settles k (decode_DeleteSyncDestinationRequest W)"
  unfolding decode_DeleteSyncDestinationRequest_def
  by (rule wire_format.settles_message, assumption,
      unfold switch_DeleteSyncDestinationRequest_def switch_field.simps switch_alternatives.simps)
    (rule wire_ends message_returns | assumption)+

section \<open>SyncDestinationStatus\<close>

record SyncDestinationStatus =
  SyncDestinationStatus_syncDestinationId :: string
  SyncDestinationStatus_destinationInstanceId :: "string option"
  SyncDestinationStatus_destinationUrl :: "string option"
  SyncDestinationStatus_syncedAt :: "string option"

definition base_SyncDestinationStatus :: SyncDestinationStatus where
  "base_SyncDestinationStatus =
     \<lparr>SyncDestinationStatus_syncDestinationId = [],
      SyncDestinationStatus_destinationInstanceId = None,
      SyncDestinationStatus_destinationUrl = None,
      SyncDestinationStatus_syncedAt = None\<rparr>"

definition encode_SyncDestinationStatus :: "wire \<Rightarrow> SyncDestinationStatus \<Rightarrow> bytes \<Rightarrow> bytes result" where
  "encode_SyncDestinationStatus W m =
     write_all
       [write_when (SyncDestinationStatus_syncDestinationId m \<noteq> []) (tagged W 10 (put_string W (SyncDestinationStatus_syncDestinationId m))),
        write_given (SyncDestinationStatus_destinationInstanceId m) (\<lambda>v. tagged W 18 (put_string W v)),
        write_given (SyncDestinationStatus_destinationUrl m) (\<lambda>v. tagged W 26 (put_string W v)),
        write_given (SyncDestinationStatus_syncedAt m) (\<lambda>v. nested W 34 (encode_date W v))]"

definition switch_SyncDestinationStatus :: "wire \<Rightarrow> int \<Rightarrow> reader \<Rightarrow> SyncDestinationStatus \<Rightarrow> SyncDestinationStatus loop_step run" where
  "switch_SyncDestinationStatus W tag r m =
     switch_field tag
       [(1, [(10, read_field (get_string W) (\<lambda>v. m\<lparr>SyncDestinationStatus_syncDestinationId := v\<rparr>) r)]),
        (2, [(18, read_field (get_string W) (\<lambda>v. m\<lparr>SyncDestinationStatus_destinationInstanceId := Some v\<rparr>) r)]),
        (3, [(26, read_field (get_string W) (\<lambda>v. m\<lparr>SyncDestinationStatus_destinationUrl := Some v\<rparr>) r)]),
        (4, [(34, read_message W (decode_date W) (\<lambda>v. m\<lparr>SyncDestinationStatus_syncedAt := Some v\<rparr>) r)])]"

definition decode_SyncDestinationStatus :: "wire \<Rightarrow> reader \<Rightarrow> int option \<Rightarrow> (SyncDestinationStatus \<times> reader) run" where
  "decode_SyncDestinationStatus W = decode_message W (switch_SyncDestinationStatus W) base_SyncDestinationStatus"

definition safe_SyncDestinationStatus :: "wire \<Rightarrow> SyncDestinationStatus \<Rightarrow> bool" where
  "safe_SyncDestinationStatus W m \<longleftrightarrow>
     pred_option canonical_date (SyncDestinationStatus_syncedAt m)"

lemma builds_SyncDestinationStatus:
  assumes "wire_format W" "safe_SyncDestinationStatus W m" "encode_SyncDestinationStatus W m [] = Inr b"
  shows "builds W (switch_SyncDestinationStatus W) base_SyncDestinationStatus m b"
proof (rule message_builds [OF assms(3) [unfolded encode_SyncDestinationStatus_def]])
  show "foldl (\<lambda>m u. u m) base_SyncDestinationStatus
      [plain SyncDestinationStatus_syncDestinationId_update (SyncDestinationStatus_syncDestinationId m) [],
       given SyncDestinationStatus_destinationInstanceId_update (SyncDestinationStatus_destinationInstanceId m),
       given SyncDestinationStatus_destinationUrl_update (SyncDestinationStatus_destinationUrl m),
       given SyncDestinationStatus_syncedAt_update (SyncDestinationStatus_syncedAt m)] = m"
    by (cases m) (simp add: field_changes base_SyncDestinationStatus_def)
qed (insert assms(1,2),
    (rule wire_fields message_codecs | (simp add: updater_def switch_SyncDestinationStatus_def safe_SyncDestinationStatus_def list_all_iff; fail))+)

lemma decodes_SyncDestinationStatus [message_codecs]:
  assumes "wire_format W" "safe_SyncDestinationStatus W m" "encode_SyncDestinationStatus W m [] = Inr b"
  shows "decodes (decode_SyncDestinationStatus W) m b"
  unfolding decode_SyncDestinationStatus_def by (rule builds_decodes [OF builds_SyncDestinationStatus [OF assms]])

lemma settles_SyncDestinationStatus [message_returns]: "wire_format W \<Longrightarrow> settles k (decode_SyncDestinationStatus W)"
  unfolding decode_SyncDestinationStatus_def
  by (rule wire_format.settles_message, assumption,
      unfold switch_SyncDestinationStatus_def switch_field.simps switch_alternatives.simps)
    (rule wire_ends message_returns | assumption)+

section \<open>SyncSource\<close>

record SyncSource =
  SyncSource_id :: string
  SyncSource_owner :: "Author option"
  SyncSource_syncIntervalSeconds :: int
  SyncSource_createdAt :: "string option"
  SyncSource_updatedAt :: "string option"
  SyncSource_lastSyncedAt :: "string option"
  SyncSource_eventCount :: int
  SyncSource_occasionCount :: int
  SyncSource_postCount :: int
  SyncSource_userAgent :: "int option"
  SyncSource_icsSubscriptionUrl :: "string option"
  SyncSource_stellarwpIcsSubscriptionUrl :: "string option"
  SyncSource_rssSubscriptionUrl :: "string option"
  SyncSource_atomSubscriptionUrl :: "string option"

definition base_SyncSource :: SyncSource where
  "base_SyncSource =
     \<lparr>SyncSource_id = [],
      SyncSource_owner = None,
      SyncSource_syncIntervalSeconds = 0,
      SyncSource_createdAt = None,
      SyncSource_updatedAt = None,
      SyncSource_lastSyncedAt = None,
      SyncSource_eventCount = 0,
      SyncSource_occasionCount = 0,
      SyncSource_postCount = 0,
      SyncSource_userAgent = None,
      SyncSource_icsSubscriptionUrl = None,
      SyncSource_stellarwpIcsSubscriptionUrl = None,
      SyncSource_rssSubscriptionUrl = None,
      SyncSource_atomSubscriptionUrl = None\<rparr>"

definition encode_SyncSource :: "wire \<Rightarrow> SyncSource \<Rightarrow> bytes \<Rightarrow> bytes result" where
  "encode_SyncSource W m =
     write_all
       [write_when (SyncSource_id m \<noteq> []) (tagged W 10 (put_string W (SyncSource_id m))),
        write_given (SyncSource_owner m) (\<lambda>v. nested W 18 (encode_Author W v)),
        write_when (SyncSource_syncIntervalSeconds m \<noteq> 0) (tagged W 24 (put_uint64 W (SyncSource_syncIntervalSeconds m))),
        write_given (SyncSource_createdAt m) (\<lambda>v. nested W 34 (encode_date W v)),
        write_given (SyncSource_updatedAt m) (\<lambda>v. nested W 42 (encode_date W v)),
        write_given (SyncSource_lastSyncedAt m) (\<lambda>v. nested W 50 (encode_date W v)),
        write_when (SyncSource_eventCount m \<noteq> 0) (tagged W 56 (put_uint64 W (SyncSource_eventCount m))),
        write_when (SyncSource_occasionCount m \<noteq> 0) (tagged W 64 (put_uint64 W (SyncSource_occasionCount m))),
        write_when (SyncSource_postCount m \<noteq> 0) (tagged W 72 (put_uint64 W (SyncSource_postCount m))),
        write_given (SyncSource_userAgent m) (\<lambda>v. tagged W 104 (put_int32 W v)),
        write_given (SyncSource_icsSubscriptionUrl m) (\<lambda>v. tagged W 162 (put_string W v)),
        write_given (SyncSource_stellarwpIcsSubscriptionUrl m) (\<lambda>v. tagged W 170 (put_string W v)),
        write_given (SyncSource_rssSubscriptionUrl m) (\<lambda>v. tagged W 178 (put_string W v)),
        write_given (SyncSource_atomSubscriptionUrl m) (\<lambda>v. tagged W 186 (put_string W v))]"

definition switch_SyncSource :: "wire \<Rightarrow> int \<Rightarrow> reader \<Rightarrow> SyncSource \<Rightarrow> SyncSource loop_step run" where
  "switch_SyncSource W tag r m =
     switch_field tag
       [(1, [(10, read_field (get_string W) (\<lambda>v. m\<lparr>SyncSource_id := v\<rparr>) r)]),
        (2, [(18, read_message W (decode_Author W) (\<lambda>v. m\<lparr>SyncSource_owner := Some v\<rparr>) r)]),
        (3, [(24, read_field (get_long (get_uint64 W)) (\<lambda>v. m\<lparr>SyncSource_syncIntervalSeconds := v\<rparr>) r)]),
        (4, [(34, read_message W (decode_date W) (\<lambda>v. m\<lparr>SyncSource_createdAt := Some v\<rparr>) r)]),
        (5, [(42, read_message W (decode_date W) (\<lambda>v. m\<lparr>SyncSource_updatedAt := Some v\<rparr>) r)]),
        (6, [(50, read_message W (decode_date W) (\<lambda>v. m\<lparr>SyncSource_lastSyncedAt := Some v\<rparr>) r)]),
        (7, [(56, read_field (get_long (get_uint64 W)) (\<lambda>v. m\<lparr>SyncSource_eventCount := v\<rparr>) r)]),
        (8, [(64, read_field (get_long (get_uint64 W)) (\<lambda>v. m\<lparr>SyncSource_occasionCount := v\<rparr>) r)]),
        (9, [(72, read_field (get_long (get_uint64 W)) (\<lambda>v. m\<lparr>SyncSource_postCount := v\<rparr>) r)]),
        (13, [(104, read_field (get_int32 W) (\<lambda>v. m\<lparr>SyncSource_userAgent := Some v\<rparr>) r)]),
        (20, [(162, read_field (get_string W) (\<lambda>v. m\<lparr>SyncSource_icsSubscriptionUrl := Some v\<rparr>) r)]),
        (21, [(170, read_field (get_string W) (\<lambda>v. m\<lparr>SyncSource_stellarwpIcsSubscriptionUrl := Some v\<rparr>) r)]),
        (22, [(178, read_field (get_string W) (\<lambda>v. m\<lparr>SyncSource_rssSubscriptionUrl := Some v\<rparr>) r)]),
        (23, [(186, read_field (get_string W) (\<lambda>v. m\<lparr>SyncSource_atomSubscriptionUrl := Some v\<rparr>) r)])]"

definition decode_SyncSource :: "wire \<Rightarrow> reader \<Rightarrow> int option \<Rightarrow> (SyncSource \<times> reader) run" where
  "decode_SyncSource W = decode_message W (switch_SyncSource W) base_SyncSource"

definition safe_SyncSource :: "wire \<Rightarrow> SyncSource \<Rightarrow> bool" where
  "safe_SyncSource W m \<longleftrightarrow>
     pred_option (safe_Author W) (SyncSource_owner m) \<and>
     safe_long (SyncSource_syncIntervalSeconds m) \<and>
     pred_option canonical_date (SyncSource_createdAt m) \<and>
     pred_option canonical_date (SyncSource_updatedAt m) \<and>
     pred_option canonical_date (SyncSource_lastSyncedAt m) \<and>
     safe_long (SyncSource_eventCount m) \<and>
     safe_long (SyncSource_occasionCount m) \<and>
     safe_long (SyncSource_postCount m)"

lemma builds_SyncSource:
  assumes "wire_format W" "safe_SyncSource W m" "encode_SyncSource W m [] = Inr b"
  shows "builds W (switch_SyncSource W) base_SyncSource m b"
proof (rule message_builds [OF assms(3) [unfolded encode_SyncSource_def]])
  show "foldl (\<lambda>m u. u m) base_SyncSource
      [plain SyncSource_id_update (SyncSource_id m) [],
       given SyncSource_owner_update (SyncSource_owner m),
       plain SyncSource_syncIntervalSeconds_update (SyncSource_syncIntervalSeconds m) 0,
       given SyncSource_createdAt_update (SyncSource_createdAt m),
       given SyncSource_updatedAt_update (SyncSource_updatedAt m),
       given SyncSource_lastSyncedAt_update (SyncSource_lastSyncedAt m),
       plain SyncSource_eventCount_update (SyncSource_eventCount m) 0,
       plain SyncSource_occasionCount_update (SyncSource_occasionCount m) 0,
       plain SyncSource_postCount_update (SyncSource_postCount m) 0,
       given SyncSource_userAgent_update (SyncSource_userAgent m),
       given SyncSource_icsSubscriptionUrl_update (SyncSource_icsSubscriptionUrl m),
       given SyncSource_stellarwpIcsSubscriptionUrl_update (SyncSource_stellarwpIcsSubscriptionUrl m),
       given SyncSource_rssSubscriptionUrl_update (SyncSource_rssSubscriptionUrl m),
       given SyncSource_atomSubscriptionUrl_update (SyncSource_atomSubscriptionUrl m)] = m"
    by (cases m) (simp add: field_changes base_SyncSource_def)
qed (insert assms(1,2),
    (rule wire_fields message_codecs | (simp add: updater_def switch_SyncSource_def safe_SyncSource_def list_all_iff; fail))+)

lemma decodes_SyncSource [message_codecs]:
  assumes "wire_format W" "safe_SyncSource W m" "encode_SyncSource W m [] = Inr b"
  shows "decodes (decode_SyncSource W) m b"
  unfolding decode_SyncSource_def by (rule builds_decodes [OF builds_SyncSource [OF assms]])

lemma settles_SyncSource [message_returns]: "wire_format W \<Longrightarrow> settles k (decode_SyncSource W)"
  unfolding decode_SyncSource_def
  by (rule wire_format.settles_message, assumption,
      unfold switch_SyncSource_def switch_field.simps switch_alternatives.simps)
    (rule wire_ends message_returns | assumption)+

section \<open>GetSyncSourcesResponse\<close>

record GetSyncSourcesResponse =
  GetSyncSourcesResponse_sources :: "SyncSource list"

definition base_GetSyncSourcesResponse :: GetSyncSourcesResponse where
  "base_GetSyncSourcesResponse =
     \<lparr>GetSyncSourcesResponse_sources = []\<rparr>"

definition encode_GetSyncSourcesResponse :: "wire \<Rightarrow> GetSyncSourcesResponse \<Rightarrow> bytes \<Rightarrow> bytes result" where
  "encode_GetSyncSourcesResponse W m =
     write_all
       [write_each (GetSyncSourcesResponse_sources m) (\<lambda>v. nested W 10 (encode_SyncSource W v))]"

definition switch_GetSyncSourcesResponse :: "wire \<Rightarrow> int \<Rightarrow> reader \<Rightarrow> GetSyncSourcesResponse \<Rightarrow> GetSyncSourcesResponse loop_step run" where
  "switch_GetSyncSourcesResponse W tag r m =
     switch_field tag
       [(1, [(10, read_message W (decode_SyncSource W) (\<lambda>v. GetSyncSourcesResponse_sources_update (\<lambda>old. old @ [v]) m) r)])]"

definition decode_GetSyncSourcesResponse :: "wire \<Rightarrow> reader \<Rightarrow> int option \<Rightarrow> (GetSyncSourcesResponse \<times> reader) run" where
  "decode_GetSyncSourcesResponse W = decode_message W (switch_GetSyncSourcesResponse W) base_GetSyncSourcesResponse"

definition safe_GetSyncSourcesResponse :: "wire \<Rightarrow> GetSyncSourcesResponse \<Rightarrow> bool" where
  "safe_GetSyncSourcesResponse W m \<longleftrightarrow>
     list_all (safe_SyncSource W) (GetSyncSourcesResponse_sources m)"

lemma builds_GetSyncSourcesResponse:
  assumes "wire_format W" "safe_GetSyncSourcesResponse W m" "encode_GetSyncSourcesResponse W m [] = Inr b"
  shows "builds W (switch_GetSyncSourcesResponse W) base_GetSyncSourcesResponse m b"
proof (rule message_builds [OF assms(3) [unfolded encode_GetSyncSourcesResponse_def]])
  show "foldl (\<lambda>m u. u m) base_GetSyncSourcesResponse
      [pushed GetSyncSourcesResponse_sources_update (GetSyncSourcesResponse_sources m)] = m"
    by (cases m) (simp add: field_changes base_GetSyncSourcesResponse_def)
qed (insert assms(1,2),
    (rule wire_fields message_codecs | (simp add: updater_def switch_GetSyncSourcesResponse_def safe_GetSyncSourcesResponse_def list_all_iff; fail))+)

lemma decodes_GetSyncSourcesResponse [message_codecs]:
  assumes "wire_format W" "safe_GetSyncSourcesResponse W m" "encode_GetSyncSourcesResponse W m [] = Inr b"
  shows "decodes (decode_GetSyncSourcesResponse W) m b"
  unfolding decode_GetSyncSourcesResponse_def by (rule builds_decodes [OF builds_GetSyncSourcesResponse [OF assms]])

lemma settles_GetSyncSourcesResponse [message_returns]: "wire_format W \<Longrightarrow> settles k (decode_GetSyncSourcesResponse W)"
  unfolding decode_GetSyncSourcesResponse_def
  by (rule wire_format.settles_message, assumption,
      unfold switch_GetSyncSourcesResponse_def switch_field.simps switch_alternatives.simps)
    (rule wire_ends message_returns | assumption)+

section \<open>DeleteSyncSourceRequest\<close>

record DeleteSyncSourceRequest =
  DeleteSyncSourceRequest_source :: "SyncSource option"
  DeleteSyncSourceRequest_deleteSyncedEvents :: bool

definition base_DeleteSyncSourceRequest :: DeleteSyncSourceRequest where
  "base_DeleteSyncSourceRequest =
     \<lparr>DeleteSyncSourceRequest_source = None,
      DeleteSyncSourceRequest_deleteSyncedEvents = False\<rparr>"

definition encode_DeleteSyncSourceRequest :: "wire \<Rightarrow> DeleteSyncSourceRequest \<Rightarrow> bytes \<Rightarrow> bytes result" where
  "encode_DeleteSyncSourceRequest W m =
     write_all
       [write_given (DeleteSyncSourceRequest_source m) (\<lambda>v. nested W 10 (encode_SyncSource W v)),
        write_when (DeleteSyncSourceRequest_deleteSyncedEvents m \<noteq> False) (tagged W 16 (put_bool W (DeleteSyncSourceRequest_deleteSyncedEvents m)))]"

definition switch_DeleteSyncSourceRequest :: "wire \<Rightarrow> int \<Rightarrow> reader \<Rightarrow> DeleteSyncSourceRequest \<Rightarrow> DeleteSyncSourceRequest loop_step run" where
  "switch_DeleteSyncSourceRequest W tag r m =
     switch_field tag
       [(1, [(10, read_message W (decode_SyncSource W) (\<lambda>v. m\<lparr>DeleteSyncSourceRequest_source := Some v\<rparr>) r)]),
        (2, [(16, read_field (get_bool W) (\<lambda>v. m\<lparr>DeleteSyncSourceRequest_deleteSyncedEvents := v\<rparr>) r)])]"

definition decode_DeleteSyncSourceRequest :: "wire \<Rightarrow> reader \<Rightarrow> int option \<Rightarrow> (DeleteSyncSourceRequest \<times> reader) run" where
  "decode_DeleteSyncSourceRequest W = decode_message W (switch_DeleteSyncSourceRequest W) base_DeleteSyncSourceRequest"

definition safe_DeleteSyncSourceRequest :: "wire \<Rightarrow> DeleteSyncSourceRequest \<Rightarrow> bool" where
  "safe_DeleteSyncSourceRequest W m \<longleftrightarrow>
     pred_option (safe_SyncSource W) (DeleteSyncSourceRequest_source m)"

lemma builds_DeleteSyncSourceRequest:
  assumes "wire_format W" "safe_DeleteSyncSourceRequest W m" "encode_DeleteSyncSourceRequest W m [] = Inr b"
  shows "builds W (switch_DeleteSyncSourceRequest W) base_DeleteSyncSourceRequest m b"
proof (rule message_builds [OF assms(3) [unfolded encode_DeleteSyncSourceRequest_def]])
  show "foldl (\<lambda>m u. u m) base_DeleteSyncSourceRequest
      [given DeleteSyncSourceRequest_source_update (DeleteSyncSourceRequest_source m),
       plain DeleteSyncSourceRequest_deleteSyncedEvents_update (DeleteSyncSourceRequest_deleteSyncedEvents m) False] = m"
    by (cases m) (simp add: field_changes base_DeleteSyncSourceRequest_def)
qed (insert assms(1,2),
    (rule wire_fields message_codecs | (simp add: updater_def switch_DeleteSyncSourceRequest_def safe_DeleteSyncSourceRequest_def list_all_iff; fail))+)

lemma decodes_DeleteSyncSourceRequest [message_codecs]:
  assumes "wire_format W" "safe_DeleteSyncSourceRequest W m" "encode_DeleteSyncSourceRequest W m [] = Inr b"
  shows "decodes (decode_DeleteSyncSourceRequest W) m b"
  unfolding decode_DeleteSyncSourceRequest_def by (rule builds_decodes [OF builds_DeleteSyncSourceRequest [OF assms]])

lemma settles_DeleteSyncSourceRequest [message_returns]: "wire_format W \<Longrightarrow> settles k (decode_DeleteSyncSourceRequest W)"
  unfolding decode_DeleteSyncSourceRequest_def
  by (rule wire_format.settles_message, assumption,
      unfold switch_DeleteSyncSourceRequest_def switch_field.simps switch_alternatives.simps)
    (rule wire_ends message_returns | assumption)+

end
