(* ===== verification/Wire_Users.thy ===== *)
theory Wire_Users
  imports Wire_Ai_Providers Wire_Federation Wire_Market Wire_Sync
begin

text \<open>
  The codecs of packages/api/generated/users.ts: of each message the record, the empty message, writing, reading, and that
  reading what was written gives the message back.
\<close>

section \<open>ContactConsentChange\<close>

record ContactConsentChange =
  ContactConsentChange_state :: int
  ContactConsentChange_changedAt :: "string option"

definition base_ContactConsentChange :: ContactConsentChange where
  "base_ContactConsentChange =
     \<lparr>ContactConsentChange_state = 0,
      ContactConsentChange_changedAt = None\<rparr>"

definition encode_ContactConsentChange :: "wire \<Rightarrow> ContactConsentChange \<Rightarrow> bytes \<Rightarrow> bytes result" where
  "encode_ContactConsentChange W m =
     write_all
       [write_when (ContactConsentChange_state m \<noteq> 0) (tagged W 8 (put_int32 W (ContactConsentChange_state m))),
        write_given (ContactConsentChange_changedAt m) (\<lambda>v. nested W 18 (encode_date W v))]"

definition switch_ContactConsentChange :: "wire \<Rightarrow> int \<Rightarrow> reader \<Rightarrow> ContactConsentChange \<Rightarrow> ContactConsentChange loop_step run" where
  "switch_ContactConsentChange W tag r m =
     switch_field tag
       [(1, [(8, read_field (get_int32 W) (\<lambda>v. m\<lparr>ContactConsentChange_state := v\<rparr>) r)]),
        (2, [(18, read_message W (decode_date W) (\<lambda>v. m\<lparr>ContactConsentChange_changedAt := Some v\<rparr>) r)])]"

definition decode_ContactConsentChange :: "wire \<Rightarrow> reader \<Rightarrow> int option \<Rightarrow> (ContactConsentChange \<times> reader) run" where
  "decode_ContactConsentChange W = decode_message W (switch_ContactConsentChange W) base_ContactConsentChange"

definition safe_ContactConsentChange :: "wire \<Rightarrow> ContactConsentChange \<Rightarrow> bool" where
  "safe_ContactConsentChange W m \<longleftrightarrow>
     pred_option canonical_date (ContactConsentChange_changedAt m)"

lemma builds_ContactConsentChange:
  assumes "wire_format W" "safe_ContactConsentChange W m" "encode_ContactConsentChange W m [] = Inr b"
  shows "builds W (switch_ContactConsentChange W) base_ContactConsentChange m b"
proof (rule message_builds [OF assms(3) [unfolded encode_ContactConsentChange_def]])
  show "foldl (\<lambda>m u. u m) base_ContactConsentChange
      [plain ContactConsentChange_state_update (ContactConsentChange_state m) 0,
       given ContactConsentChange_changedAt_update (ContactConsentChange_changedAt m)] = m"
    by (cases m) (simp add: field_changes base_ContactConsentChange_def)
qed (insert assms(1,2),
    (rule wire_fields message_codecs | (simp add: updater_def switch_ContactConsentChange_def safe_ContactConsentChange_def list_all_iff; fail))+)

lemma decodes_ContactConsentChange [message_codecs]:
  assumes "wire_format W" "safe_ContactConsentChange W m" "encode_ContactConsentChange W m [] = Inr b"
  shows "decodes (decode_ContactConsentChange W) m b"
  unfolding decode_ContactConsentChange_def by (rule builds_decodes [OF builds_ContactConsentChange [OF assms]])

lemma settles_ContactConsentChange [message_returns]: "wire_format W \<Longrightarrow> settles k (decode_ContactConsentChange W)"
  unfolding decode_ContactConsentChange_def
  by (rule wire_format.settles_message, assumption,
      unfold switch_ContactConsentChange_def switch_field.simps switch_alternatives.simps)
    (rule wire_ends message_returns | assumption)+

section \<open>ContactMethodVerification\<close>

record ContactMethodVerification =
  ContactMethodVerification_verificationCode :: string
  ContactMethodVerification_verificationStartedAt :: "string option"
  ContactMethodVerification_attempts :: int

definition base_ContactMethodVerification :: ContactMethodVerification where
  "base_ContactMethodVerification =
     \<lparr>ContactMethodVerification_verificationCode = [],
      ContactMethodVerification_verificationStartedAt = None,
      ContactMethodVerification_attempts = 0\<rparr>"

definition encode_ContactMethodVerification :: "wire \<Rightarrow> ContactMethodVerification \<Rightarrow> bytes \<Rightarrow> bytes result" where
  "encode_ContactMethodVerification W m =
     write_all
       [write_when (ContactMethodVerification_verificationCode m \<noteq> []) (tagged W 10 (put_string W (ContactMethodVerification_verificationCode m))),
        write_given (ContactMethodVerification_verificationStartedAt m) (\<lambda>v. nested W 18 (encode_date W v)),
        write_when (ContactMethodVerification_attempts m \<noteq> 0) (tagged W 24 (put_int32 W (ContactMethodVerification_attempts m)))]"

definition switch_ContactMethodVerification :: "wire \<Rightarrow> int \<Rightarrow> reader \<Rightarrow> ContactMethodVerification \<Rightarrow> ContactMethodVerification loop_step run" where
  "switch_ContactMethodVerification W tag r m =
     switch_field tag
       [(1, [(10, read_field (get_string W) (\<lambda>v. m\<lparr>ContactMethodVerification_verificationCode := v\<rparr>) r)]),
        (2, [(18, read_message W (decode_date W) (\<lambda>v. m\<lparr>ContactMethodVerification_verificationStartedAt := Some v\<rparr>) r)]),
        (3, [(24, read_field (get_int32 W) (\<lambda>v. m\<lparr>ContactMethodVerification_attempts := v\<rparr>) r)])]"

definition decode_ContactMethodVerification :: "wire \<Rightarrow> reader \<Rightarrow> int option \<Rightarrow> (ContactMethodVerification \<times> reader) run" where
  "decode_ContactMethodVerification W = decode_message W (switch_ContactMethodVerification W) base_ContactMethodVerification"

definition safe_ContactMethodVerification :: "wire \<Rightarrow> ContactMethodVerification \<Rightarrow> bool" where
  "safe_ContactMethodVerification W m \<longleftrightarrow>
     pred_option canonical_date (ContactMethodVerification_verificationStartedAt m)"

lemma builds_ContactMethodVerification:
  assumes "wire_format W" "safe_ContactMethodVerification W m" "encode_ContactMethodVerification W m [] = Inr b"
  shows "builds W (switch_ContactMethodVerification W) base_ContactMethodVerification m b"
proof (rule message_builds [OF assms(3) [unfolded encode_ContactMethodVerification_def]])
  show "foldl (\<lambda>m u. u m) base_ContactMethodVerification
      [plain ContactMethodVerification_verificationCode_update (ContactMethodVerification_verificationCode m) [],
       given ContactMethodVerification_verificationStartedAt_update (ContactMethodVerification_verificationStartedAt m),
       plain ContactMethodVerification_attempts_update (ContactMethodVerification_attempts m) 0] = m"
    by (cases m) (simp add: field_changes base_ContactMethodVerification_def)
qed (insert assms(1,2),
    (rule wire_fields message_codecs | (simp add: updater_def switch_ContactMethodVerification_def safe_ContactMethodVerification_def list_all_iff; fail))+)

lemma decodes_ContactMethodVerification [message_codecs]:
  assumes "wire_format W" "safe_ContactMethodVerification W m" "encode_ContactMethodVerification W m [] = Inr b"
  shows "decodes (decode_ContactMethodVerification W) m b"
  unfolding decode_ContactMethodVerification_def by (rule builds_decodes [OF builds_ContactMethodVerification [OF assms]])

lemma settles_ContactMethodVerification [message_returns]: "wire_format W \<Longrightarrow> settles k (decode_ContactMethodVerification W)"
  unfolding decode_ContactMethodVerification_def
  by (rule wire_format.settles_message, assumption,
      unfold switch_ContactMethodVerification_def switch_field.simps switch_alternatives.simps)
    (rule wire_ends message_returns | assumption)+

section \<open>ContactMethod\<close>

record ContactMethod =
  ContactMethod_value :: "string option"
  ContactMethod_visibility :: int
  ContactMethod_supportedByServer :: bool
  ContactMethod_verifiedAt :: "string option"
  ContactMethod_verificationInProgress :: "ContactMethodVerification option"
  ContactMethod_consentState :: int
  ContactMethod_consentHistory :: "ContactConsentChange list"

definition base_ContactMethod :: ContactMethod where
  "base_ContactMethod =
     \<lparr>ContactMethod_value = None,
      ContactMethod_visibility = 0,
      ContactMethod_supportedByServer = False,
      ContactMethod_verifiedAt = None,
      ContactMethod_verificationInProgress = None,
      ContactMethod_consentState = 0,
      ContactMethod_consentHistory = []\<rparr>"

definition encode_ContactMethod :: "wire \<Rightarrow> ContactMethod \<Rightarrow> bytes \<Rightarrow> bytes result" where
  "encode_ContactMethod W m =
     write_all
       [write_given (ContactMethod_value m) (\<lambda>v. tagged W 10 (put_string W v)),
        write_when (ContactMethod_visibility m \<noteq> 0) (tagged W 16 (put_int32 W (ContactMethod_visibility m))),
        write_when (ContactMethod_supportedByServer m \<noteq> False) (tagged W 24 (put_bool W (ContactMethod_supportedByServer m))),
        write_given (ContactMethod_verifiedAt m) (\<lambda>v. nested W 34 (encode_date W v)),
        write_given (ContactMethod_verificationInProgress m) (\<lambda>v. nested W 42 (encode_ContactMethodVerification W v)),
        write_when (ContactMethod_consentState m \<noteq> 0) (tagged W 48 (put_int32 W (ContactMethod_consentState m))),
        write_each (ContactMethod_consentHistory m) (\<lambda>v. nested W 58 (encode_ContactConsentChange W v))]"

definition switch_ContactMethod :: "wire \<Rightarrow> int \<Rightarrow> reader \<Rightarrow> ContactMethod \<Rightarrow> ContactMethod loop_step run" where
  "switch_ContactMethod W tag r m =
     switch_field tag
       [(1, [(10, read_field (get_string W) (\<lambda>v. m\<lparr>ContactMethod_value := Some v\<rparr>) r)]),
        (2, [(16, read_field (get_int32 W) (\<lambda>v. m\<lparr>ContactMethod_visibility := v\<rparr>) r)]),
        (3, [(24, read_field (get_bool W) (\<lambda>v. m\<lparr>ContactMethod_supportedByServer := v\<rparr>) r)]),
        (4, [(34, read_message W (decode_date W) (\<lambda>v. m\<lparr>ContactMethod_verifiedAt := Some v\<rparr>) r)]),
        (5, [(42, read_message W (decode_ContactMethodVerification W) (\<lambda>v. m\<lparr>ContactMethod_verificationInProgress := Some v\<rparr>) r)]),
        (6, [(48, read_field (get_int32 W) (\<lambda>v. m\<lparr>ContactMethod_consentState := v\<rparr>) r)]),
        (7, [(58, read_message W (decode_ContactConsentChange W) (\<lambda>v. ContactMethod_consentHistory_update (\<lambda>old. old @ [v]) m) r)])]"

definition decode_ContactMethod :: "wire \<Rightarrow> reader \<Rightarrow> int option \<Rightarrow> (ContactMethod \<times> reader) run" where
  "decode_ContactMethod W = decode_message W (switch_ContactMethod W) base_ContactMethod"

definition safe_ContactMethod :: "wire \<Rightarrow> ContactMethod \<Rightarrow> bool" where
  "safe_ContactMethod W m \<longleftrightarrow>
     pred_option canonical_date (ContactMethod_verifiedAt m) \<and>
     pred_option (safe_ContactMethodVerification W) (ContactMethod_verificationInProgress m) \<and>
     list_all (safe_ContactConsentChange W) (ContactMethod_consentHistory m)"

lemma builds_ContactMethod:
  assumes "wire_format W" "safe_ContactMethod W m" "encode_ContactMethod W m [] = Inr b"
  shows "builds W (switch_ContactMethod W) base_ContactMethod m b"
proof (rule message_builds [OF assms(3) [unfolded encode_ContactMethod_def]])
  show "foldl (\<lambda>m u. u m) base_ContactMethod
      [given ContactMethod_value_update (ContactMethod_value m),
       plain ContactMethod_visibility_update (ContactMethod_visibility m) 0,
       plain ContactMethod_supportedByServer_update (ContactMethod_supportedByServer m) False,
       given ContactMethod_verifiedAt_update (ContactMethod_verifiedAt m),
       given ContactMethod_verificationInProgress_update (ContactMethod_verificationInProgress m),
       plain ContactMethod_consentState_update (ContactMethod_consentState m) 0,
       pushed ContactMethod_consentHistory_update (ContactMethod_consentHistory m)] = m"
    by (cases m) (simp add: field_changes base_ContactMethod_def)
qed (insert assms(1,2),
    (rule wire_fields message_codecs | (simp add: updater_def switch_ContactMethod_def safe_ContactMethod_def list_all_iff; fail))+)

lemma decodes_ContactMethod [message_codecs]:
  assumes "wire_format W" "safe_ContactMethod W m" "encode_ContactMethod W m [] = Inr b"
  shows "decodes (decode_ContactMethod W) m b"
  unfolding decode_ContactMethod_def by (rule builds_decodes [OF builds_ContactMethod [OF assms]])

lemma settles_ContactMethod [message_returns]: "wire_format W \<Longrightarrow> settles k (decode_ContactMethod W)"
  unfolding decode_ContactMethod_def
  by (rule wire_format.settles_message, assumption,
      unfold switch_ContactMethod_def switch_field.simps switch_alternatives.simps)
    (rule wire_ends message_returns | assumption)+

section \<open>Follow\<close>

record Follow =
  Follow_userId :: string
  Follow_targetUserId :: string
  Follow_targetUserModeration :: int
  Follow_createdAt :: "string option"
  Follow_updatedAt :: "string option"

definition base_Follow :: Follow where
  "base_Follow =
     \<lparr>Follow_userId = [],
      Follow_targetUserId = [],
      Follow_targetUserModeration = 0,
      Follow_createdAt = None,
      Follow_updatedAt = None\<rparr>"

definition encode_Follow :: "wire \<Rightarrow> Follow \<Rightarrow> bytes \<Rightarrow> bytes result" where
  "encode_Follow W m =
     write_all
       [write_when (Follow_userId m \<noteq> []) (tagged W 10 (put_string W (Follow_userId m))),
        write_when (Follow_targetUserId m \<noteq> []) (tagged W 18 (put_string W (Follow_targetUserId m))),
        write_when (Follow_targetUserModeration m \<noteq> 0) (tagged W 24 (put_int32 W (Follow_targetUserModeration m))),
        write_given (Follow_createdAt m) (\<lambda>v. nested W 34 (encode_date W v)),
        write_given (Follow_updatedAt m) (\<lambda>v. nested W 42 (encode_date W v))]"

definition switch_Follow :: "wire \<Rightarrow> int \<Rightarrow> reader \<Rightarrow> Follow \<Rightarrow> Follow loop_step run" where
  "switch_Follow W tag r m =
     switch_field tag
       [(1, [(10, read_field (get_string W) (\<lambda>v. m\<lparr>Follow_userId := v\<rparr>) r)]),
        (2, [(18, read_field (get_string W) (\<lambda>v. m\<lparr>Follow_targetUserId := v\<rparr>) r)]),
        (3, [(24, read_field (get_int32 W) (\<lambda>v. m\<lparr>Follow_targetUserModeration := v\<rparr>) r)]),
        (4, [(34, read_message W (decode_date W) (\<lambda>v. m\<lparr>Follow_createdAt := Some v\<rparr>) r)]),
        (5, [(42, read_message W (decode_date W) (\<lambda>v. m\<lparr>Follow_updatedAt := Some v\<rparr>) r)])]"

definition decode_Follow :: "wire \<Rightarrow> reader \<Rightarrow> int option \<Rightarrow> (Follow \<times> reader) run" where
  "decode_Follow W = decode_message W (switch_Follow W) base_Follow"

definition safe_Follow :: "wire \<Rightarrow> Follow \<Rightarrow> bool" where
  "safe_Follow W m \<longleftrightarrow>
     pred_option canonical_date (Follow_createdAt m) \<and>
     pred_option canonical_date (Follow_updatedAt m)"

lemma builds_Follow:
  assumes "wire_format W" "safe_Follow W m" "encode_Follow W m [] = Inr b"
  shows "builds W (switch_Follow W) base_Follow m b"
proof (rule message_builds [OF assms(3) [unfolded encode_Follow_def]])
  show "foldl (\<lambda>m u. u m) base_Follow
      [plain Follow_userId_update (Follow_userId m) [],
       plain Follow_targetUserId_update (Follow_targetUserId m) [],
       plain Follow_targetUserModeration_update (Follow_targetUserModeration m) 0,
       given Follow_createdAt_update (Follow_createdAt m),
       given Follow_updatedAt_update (Follow_updatedAt m)] = m"
    by (cases m) (simp add: field_changes base_Follow_def)
qed (insert assms(1,2),
    (rule wire_fields message_codecs | (simp add: updater_def switch_Follow_def safe_Follow_def list_all_iff; fail))+)

lemma decodes_Follow [message_codecs]:
  assumes "wire_format W" "safe_Follow W m" "encode_Follow W m [] = Inr b"
  shows "decodes (decode_Follow W) m b"
  unfolding decode_Follow_def by (rule builds_decodes [OF builds_Follow [OF assms]])

lemma settles_Follow [message_returns]: "wire_format W \<Longrightarrow> settles k (decode_Follow W)"
  unfolding decode_Follow_def
  by (rule wire_format.settles_message, assumption,
      unfold switch_Follow_def switch_field.simps switch_alternatives.simps)
    (rule wire_ends message_returns | assumption)+

section \<open>Membership\<close>

record Membership =
  Membership_userId :: string
  Membership_groupId :: string
  Membership_permissions :: "int list"
  Membership_groupModeration :: int
  Membership_userModeration :: int
  Membership_createdAt :: "string option"
  Membership_updatedAt :: "string option"

definition base_Membership :: Membership where
  "base_Membership =
     \<lparr>Membership_userId = [],
      Membership_groupId = [],
      Membership_permissions = [],
      Membership_groupModeration = 0,
      Membership_userModeration = 0,
      Membership_createdAt = None,
      Membership_updatedAt = None\<rparr>"

definition encode_Membership :: "wire \<Rightarrow> Membership \<Rightarrow> bytes \<Rightarrow> bytes result" where
  "encode_Membership W m =
     write_all
       [write_when (Membership_userId m \<noteq> []) (tagged W 10 (put_string W (Membership_userId m))),
        write_when (Membership_groupId m \<noteq> []) (tagged W 18 (put_string W (Membership_groupId m))),
        packed W 26 (put_int32 W) (Membership_permissions m),
        write_when (Membership_groupModeration m \<noteq> 0) (tagged W 32 (put_int32 W (Membership_groupModeration m))),
        write_when (Membership_userModeration m \<noteq> 0) (tagged W 40 (put_int32 W (Membership_userModeration m))),
        write_given (Membership_createdAt m) (\<lambda>v. nested W 50 (encode_date W v)),
        write_given (Membership_updatedAt m) (\<lambda>v. nested W 58 (encode_date W v))]"

definition switch_Membership :: "wire \<Rightarrow> int \<Rightarrow> reader \<Rightarrow> Membership \<Rightarrow> Membership loop_step run" where
  "switch_Membership W tag r m =
     switch_field tag
       [(1, [(10, read_field (get_string W) (\<lambda>v. m\<lparr>Membership_userId := v\<rparr>) r)]),
        (2, [(18, read_field (get_string W) (\<lambda>v. m\<lparr>Membership_groupId := v\<rparr>) r)]),
        (3, [(24, read_field (get_int32 W) (\<lambda>v. Membership_permissions_update (\<lambda>old. old @ [v]) m) r), (26, read_packed W (get_int32 W) (Membership_permissions m) (\<lambda>vs. m\<lparr>Membership_permissions := vs\<rparr>) r)]),
        (4, [(32, read_field (get_int32 W) (\<lambda>v. m\<lparr>Membership_groupModeration := v\<rparr>) r)]),
        (5, [(40, read_field (get_int32 W) (\<lambda>v. m\<lparr>Membership_userModeration := v\<rparr>) r)]),
        (6, [(50, read_message W (decode_date W) (\<lambda>v. m\<lparr>Membership_createdAt := Some v\<rparr>) r)]),
        (7, [(58, read_message W (decode_date W) (\<lambda>v. m\<lparr>Membership_updatedAt := Some v\<rparr>) r)])]"

definition decode_Membership :: "wire \<Rightarrow> reader \<Rightarrow> int option \<Rightarrow> (Membership \<times> reader) run" where
  "decode_Membership W = decode_message W (switch_Membership W) base_Membership"

definition safe_Membership :: "wire \<Rightarrow> Membership \<Rightarrow> bool" where
  "safe_Membership W m \<longleftrightarrow>
     pred_option canonical_date (Membership_createdAt m) \<and>
     pred_option canonical_date (Membership_updatedAt m)"

lemma builds_Membership:
  assumes "wire_format W" "safe_Membership W m" "encode_Membership W m [] = Inr b"
  shows "builds W (switch_Membership W) base_Membership m b"
proof (rule message_builds [OF assms(3) [unfolded encode_Membership_def]])
  show "foldl (\<lambda>m u. u m) base_Membership
      [plain Membership_userId_update (Membership_userId m) [],
       plain Membership_groupId_update (Membership_groupId m) [],
       pushed Membership_permissions_update (Membership_permissions m),
       plain Membership_groupModeration_update (Membership_groupModeration m) 0,
       plain Membership_userModeration_update (Membership_userModeration m) 0,
       given Membership_createdAt_update (Membership_createdAt m),
       given Membership_updatedAt_update (Membership_updatedAt m)] = m"
    by (cases m) (simp add: field_changes base_Membership_def)
qed (insert assms(1,2),
    (rule wire_fields message_codecs | (simp add: updater_def switch_Membership_def safe_Membership_def list_all_iff; fail))+)

lemma decodes_Membership [message_codecs]:
  assumes "wire_format W" "safe_Membership W m" "encode_Membership W m [] = Inr b"
  shows "decodes (decode_Membership W) m b"
  unfolding decode_Membership_def by (rule builds_decodes [OF builds_Membership [OF assms]])

lemma settles_Membership [message_returns]: "wire_format W \<Longrightarrow> settles k (decode_Membership W)"
  unfolding decode_Membership_def
  by (rule wire_format.settles_message, assumption,
      unfold switch_Membership_def switch_field.simps switch_alternatives.simps)
    (rule wire_ends message_returns | assumption)+

section \<open>User\<close>

record User =
  User_id :: string
  User_username :: string
  User_realName :: string
  User_email :: "ContactMethod option"
  User_phone :: "ContactMethod option"
  User_permissions :: "int list"
  User_avatar :: "MediaReference option"
  User_bio :: string
  User_mediaStorageLimitBytes :: "int option"
  User_mediaStorageBytesUsed :: int
  User_visibility :: int
  User_moderation :: int
  User_defaultFollowModeration :: int
  User_followerCount :: "int option"
  User_followingCount :: "int option"
  User_friendCount :: "int option"
  User_groupCount :: "int option"
  User_postCount :: "int option"
  User_responseCount :: "int option"
  User_eventCount :: "int option"
  User_occasionCount :: "int option"
  User_currentUserFollow :: "Follow option"
  User_targetCurrentUserFollow :: "Follow option"
  User_currentGroupMembership :: "Membership option"
  User_federatedProfiles :: "FederatedAccount list"
  User_syncDestinations :: "SyncDestination list"
  User_syncSources :: "SyncSource list"
  User_aiModels :: "AIModel list"
  User_marketSubscriptions :: "MarketSubscription list"
  User_createdAt :: "string option"
  User_updatedAt :: "string option"

definition base_User :: User where
  "base_User =
     \<lparr>User_id = [],
      User_username = [],
      User_realName = [],
      User_email = None,
      User_phone = None,
      User_permissions = [],
      User_avatar = None,
      User_bio = [],
      User_mediaStorageLimitBytes = None,
      User_mediaStorageBytesUsed = 0,
      User_visibility = 0,
      User_moderation = 0,
      User_defaultFollowModeration = 0,
      User_followerCount = None,
      User_followingCount = None,
      User_friendCount = None,
      User_groupCount = None,
      User_postCount = None,
      User_responseCount = None,
      User_eventCount = None,
      User_occasionCount = None,
      User_currentUserFollow = None,
      User_targetCurrentUserFollow = None,
      User_currentGroupMembership = None,
      User_federatedProfiles = [],
      User_syncDestinations = [],
      User_syncSources = [],
      User_aiModels = [],
      User_marketSubscriptions = [],
      User_createdAt = None,
      User_updatedAt = None\<rparr>"

definition encode_User :: "wire \<Rightarrow> User \<Rightarrow> bytes \<Rightarrow> bytes result" where
  "encode_User W m =
     write_all
       [write_when (User_id m \<noteq> []) (tagged W 10 (put_string W (User_id m))),
        write_when (User_username m \<noteq> []) (tagged W 18 (put_string W (User_username m))),
        write_when (User_realName m \<noteq> []) (tagged W 26 (put_string W (User_realName m))),
        write_given (User_email m) (\<lambda>v. nested W 34 (encode_ContactMethod W v)),
        write_given (User_phone m) (\<lambda>v. nested W 42 (encode_ContactMethod W v)),
        packed W 50 (put_int32 W) (User_permissions m),
        write_given (User_avatar m) (\<lambda>v. nested W 58 (encode_MediaReference W v)),
        write_when (User_bio m \<noteq> []) (tagged W 66 (put_string W (User_bio m))),
        write_given (User_mediaStorageLimitBytes m) (\<lambda>v. tagged W 80 (put_uint64 W v)),
        write_when (User_mediaStorageBytesUsed m \<noteq> 0) (tagged W 88 (put_uint64 W (User_mediaStorageBytesUsed m))),
        write_when (User_visibility m \<noteq> 0) (tagged W 160 (put_int32 W (User_visibility m))),
        write_when (User_moderation m \<noteq> 0) (tagged W 168 (put_int32 W (User_moderation m))),
        write_when (User_defaultFollowModeration m \<noteq> 0) (tagged W 240 (put_int32 W (User_defaultFollowModeration m))),
        write_given (User_followerCount m) (\<lambda>v. tagged W 248 (put_int32 W v)),
        write_given (User_followingCount m) (\<lambda>v. tagged W 256 (put_int32 W v)),
        write_given (User_friendCount m) (\<lambda>v. tagged W 264 (put_int32 W v)),
        write_given (User_groupCount m) (\<lambda>v. tagged W 272 (put_int32 W v)),
        write_given (User_postCount m) (\<lambda>v. tagged W 280 (put_int32 W v)),
        write_given (User_responseCount m) (\<lambda>v. tagged W 288 (put_int32 W v)),
        write_given (User_eventCount m) (\<lambda>v. tagged W 296 (put_int32 W v)),
        write_given (User_occasionCount m) (\<lambda>v. tagged W 304 (put_int32 W v)),
        write_given (User_currentUserFollow m) (\<lambda>v. nested W 402 (encode_Follow W v)),
        write_given (User_targetCurrentUserFollow m) (\<lambda>v. nested W 410 (encode_Follow W v)),
        write_given (User_currentGroupMembership m) (\<lambda>v. nested W 418 (encode_Membership W v)),
        write_each (User_federatedProfiles m) (\<lambda>v. nested W 650 (encode_FederatedAccount W v)),
        write_each (User_syncDestinations m) (\<lambda>v. nested W 658 (encode_SyncDestination W v)),
        write_each (User_syncSources m) (\<lambda>v. nested W 666 (encode_SyncSource W v)),
        write_each (User_aiModels m) (\<lambda>v. nested W 674 (encode_AIModel W v)),
        write_each (User_marketSubscriptions m) (\<lambda>v. nested W 682 (encode_MarketSubscription W v)),
        write_given (User_createdAt m) (\<lambda>v. nested W 802 (encode_date W v)),
        write_given (User_updatedAt m) (\<lambda>v. nested W 810 (encode_date W v))]"

definition switch_User :: "wire \<Rightarrow> int \<Rightarrow> reader \<Rightarrow> User \<Rightarrow> User loop_step run" where
  "switch_User W tag r m =
     switch_field tag
       [(1, [(10, read_field (get_string W) (\<lambda>v. m\<lparr>User_id := v\<rparr>) r)]),
        (2, [(18, read_field (get_string W) (\<lambda>v. m\<lparr>User_username := v\<rparr>) r)]),
        (3, [(26, read_field (get_string W) (\<lambda>v. m\<lparr>User_realName := v\<rparr>) r)]),
        (4, [(34, read_message W (decode_ContactMethod W) (\<lambda>v. m\<lparr>User_email := Some v\<rparr>) r)]),
        (5, [(42, read_message W (decode_ContactMethod W) (\<lambda>v. m\<lparr>User_phone := Some v\<rparr>) r)]),
        (6, [(48, read_field (get_int32 W) (\<lambda>v. User_permissions_update (\<lambda>old. old @ [v]) m) r), (50, read_packed W (get_int32 W) (User_permissions m) (\<lambda>vs. m\<lparr>User_permissions := vs\<rparr>) r)]),
        (7, [(58, read_message W (decode_MediaReference W) (\<lambda>v. m\<lparr>User_avatar := Some v\<rparr>) r)]),
        (8, [(66, read_field (get_string W) (\<lambda>v. m\<lparr>User_bio := v\<rparr>) r)]),
        (10, [(80, read_field (get_long (get_uint64 W)) (\<lambda>v. m\<lparr>User_mediaStorageLimitBytes := Some v\<rparr>) r)]),
        (11, [(88, read_field (get_long (get_uint64 W)) (\<lambda>v. m\<lparr>User_mediaStorageBytesUsed := v\<rparr>) r)]),
        (20, [(160, read_field (get_int32 W) (\<lambda>v. m\<lparr>User_visibility := v\<rparr>) r)]),
        (21, [(168, read_field (get_int32 W) (\<lambda>v. m\<lparr>User_moderation := v\<rparr>) r)]),
        (30, [(240, read_field (get_int32 W) (\<lambda>v. m\<lparr>User_defaultFollowModeration := v\<rparr>) r)]),
        (31, [(248, read_field (get_int32 W) (\<lambda>v. m\<lparr>User_followerCount := Some v\<rparr>) r)]),
        (32, [(256, read_field (get_int32 W) (\<lambda>v. m\<lparr>User_followingCount := Some v\<rparr>) r)]),
        (33, [(264, read_field (get_int32 W) (\<lambda>v. m\<lparr>User_friendCount := Some v\<rparr>) r)]),
        (34, [(272, read_field (get_int32 W) (\<lambda>v. m\<lparr>User_groupCount := Some v\<rparr>) r)]),
        (35, [(280, read_field (get_int32 W) (\<lambda>v. m\<lparr>User_postCount := Some v\<rparr>) r)]),
        (36, [(288, read_field (get_int32 W) (\<lambda>v. m\<lparr>User_responseCount := Some v\<rparr>) r)]),
        (37, [(296, read_field (get_int32 W) (\<lambda>v. m\<lparr>User_eventCount := Some v\<rparr>) r)]),
        (38, [(304, read_field (get_int32 W) (\<lambda>v. m\<lparr>User_occasionCount := Some v\<rparr>) r)]),
        (50, [(402, read_message W (decode_Follow W) (\<lambda>v. m\<lparr>User_currentUserFollow := Some v\<rparr>) r)]),
        (51, [(410, read_message W (decode_Follow W) (\<lambda>v. m\<lparr>User_targetCurrentUserFollow := Some v\<rparr>) r)]),
        (52, [(418, read_message W (decode_Membership W) (\<lambda>v. m\<lparr>User_currentGroupMembership := Some v\<rparr>) r)]),
        (81, [(650, read_message W (decode_FederatedAccount W) (\<lambda>v. User_federatedProfiles_update (\<lambda>old. old @ [v]) m) r)]),
        (82, [(658, read_message W (decode_SyncDestination W) (\<lambda>v. User_syncDestinations_update (\<lambda>old. old @ [v]) m) r)]),
        (83, [(666, read_message W (decode_SyncSource W) (\<lambda>v. User_syncSources_update (\<lambda>old. old @ [v]) m) r)]),
        (84, [(674, read_message W (decode_AIModel W) (\<lambda>v. User_aiModels_update (\<lambda>old. old @ [v]) m) r)]),
        (85, [(682, read_message W (decode_MarketSubscription W) (\<lambda>v. User_marketSubscriptions_update (\<lambda>old. old @ [v]) m) r)]),
        (100, [(802, read_message W (decode_date W) (\<lambda>v. m\<lparr>User_createdAt := Some v\<rparr>) r)]),
        (101, [(810, read_message W (decode_date W) (\<lambda>v. m\<lparr>User_updatedAt := Some v\<rparr>) r)])]"

definition decode_User :: "wire \<Rightarrow> reader \<Rightarrow> int option \<Rightarrow> (User \<times> reader) run" where
  "decode_User W = decode_message W (switch_User W) base_User"

definition safe_User :: "wire \<Rightarrow> User \<Rightarrow> bool" where
  "safe_User W m \<longleftrightarrow>
     pred_option (safe_ContactMethod W) (User_email m) \<and>
     pred_option (safe_ContactMethod W) (User_phone m) \<and>
     pred_option (safe_MediaReference W) (User_avatar m) \<and>
     pred_option safe_long (User_mediaStorageLimitBytes m) \<and>
     safe_long (User_mediaStorageBytesUsed m) \<and>
     pred_option (safe_Follow W) (User_currentUserFollow m) \<and>
     pred_option (safe_Follow W) (User_targetCurrentUserFollow m) \<and>
     pred_option (safe_Membership W) (User_currentGroupMembership m) \<and>
     list_all (safe_SyncDestination W) (User_syncDestinations m) \<and>
     list_all (safe_SyncSource W) (User_syncSources m) \<and>
     list_all (safe_AIModel W) (User_aiModels m) \<and>
     list_all (safe_MarketSubscription W) (User_marketSubscriptions m) \<and>
     pred_option canonical_date (User_createdAt m) \<and>
     pred_option canonical_date (User_updatedAt m)"

lemma builds_User:
  assumes "wire_format W" "safe_User W m" "encode_User W m [] = Inr b"
  shows "builds W (switch_User W) base_User m b"
proof (rule message_builds [OF assms(3) [unfolded encode_User_def]])
  show "foldl (\<lambda>m u. u m) base_User
      [plain User_id_update (User_id m) [],
       plain User_username_update (User_username m) [],
       plain User_realName_update (User_realName m) [],
       given User_email_update (User_email m),
       given User_phone_update (User_phone m),
       pushed User_permissions_update (User_permissions m),
       given User_avatar_update (User_avatar m),
       plain User_bio_update (User_bio m) [],
       given User_mediaStorageLimitBytes_update (User_mediaStorageLimitBytes m),
       plain User_mediaStorageBytesUsed_update (User_mediaStorageBytesUsed m) 0,
       plain User_visibility_update (User_visibility m) 0,
       plain User_moderation_update (User_moderation m) 0,
       plain User_defaultFollowModeration_update (User_defaultFollowModeration m) 0,
       given User_followerCount_update (User_followerCount m),
       given User_followingCount_update (User_followingCount m),
       given User_friendCount_update (User_friendCount m),
       given User_groupCount_update (User_groupCount m),
       given User_postCount_update (User_postCount m),
       given User_responseCount_update (User_responseCount m),
       given User_eventCount_update (User_eventCount m),
       given User_occasionCount_update (User_occasionCount m),
       given User_currentUserFollow_update (User_currentUserFollow m),
       given User_targetCurrentUserFollow_update (User_targetCurrentUserFollow m),
       given User_currentGroupMembership_update (User_currentGroupMembership m),
       pushed User_federatedProfiles_update (User_federatedProfiles m),
       pushed User_syncDestinations_update (User_syncDestinations m),
       pushed User_syncSources_update (User_syncSources m),
       pushed User_aiModels_update (User_aiModels m),
       pushed User_marketSubscriptions_update (User_marketSubscriptions m),
       given User_createdAt_update (User_createdAt m),
       given User_updatedAt_update (User_updatedAt m)] = m"
    by (cases m) (simp add: field_changes base_User_def)
qed (insert assms(1,2),
    (rule wire_fields message_codecs | (simp add: updater_def switch_User_def safe_User_def list_all_iff; fail))+)

lemma decodes_User [message_codecs]:
  assumes "wire_format W" "safe_User W m" "encode_User W m [] = Inr b"
  shows "decodes (decode_User W) m b"
  unfolding decode_User_def by (rule builds_decodes [OF builds_User [OF assms]])

lemma settles_User [message_returns]: "wire_format W \<Longrightarrow> settles k (decode_User W)"
  unfolding decode_User_def
  by (rule wire_format.settles_message, assumption,
      unfold switch_User_def switch_field.simps switch_alternatives.simps)
    (rule wire_ends message_returns | assumption)+

section \<open>GetUsersRequest\<close>

record GetUsersRequest =
  GetUsersRequest_username :: "string option"
  GetUsersRequest_userId :: "string option"
  GetUsersRequest_searchText :: "string option"
  GetUsersRequest_page :: "int option"
  GetUsersRequest_listingType :: int

definition base_GetUsersRequest :: GetUsersRequest where
  "base_GetUsersRequest =
     \<lparr>GetUsersRequest_username = None,
      GetUsersRequest_userId = None,
      GetUsersRequest_searchText = None,
      GetUsersRequest_page = None,
      GetUsersRequest_listingType = 0\<rparr>"

definition encode_GetUsersRequest :: "wire \<Rightarrow> GetUsersRequest \<Rightarrow> bytes \<Rightarrow> bytes result" where
  "encode_GetUsersRequest W m =
     write_all
       [write_given (GetUsersRequest_username m) (\<lambda>v. tagged W 10 (put_string W v)),
        write_given (GetUsersRequest_userId m) (\<lambda>v. tagged W 18 (put_string W v)),
        write_given (GetUsersRequest_searchText m) (\<lambda>v. tagged W 26 (put_string W v)),
        write_given (GetUsersRequest_page m) (\<lambda>v. tagged W 792 (put_int32 W v)),
        write_when (GetUsersRequest_listingType m \<noteq> 0) (tagged W 800 (put_int32 W (GetUsersRequest_listingType m)))]"

definition switch_GetUsersRequest :: "wire \<Rightarrow> int \<Rightarrow> reader \<Rightarrow> GetUsersRequest \<Rightarrow> GetUsersRequest loop_step run" where
  "switch_GetUsersRequest W tag r m =
     switch_field tag
       [(1, [(10, read_field (get_string W) (\<lambda>v. m\<lparr>GetUsersRequest_username := Some v\<rparr>) r)]),
        (2, [(18, read_field (get_string W) (\<lambda>v. m\<lparr>GetUsersRequest_userId := Some v\<rparr>) r)]),
        (3, [(26, read_field (get_string W) (\<lambda>v. m\<lparr>GetUsersRequest_searchText := Some v\<rparr>) r)]),
        (99, [(792, read_field (get_int32 W) (\<lambda>v. m\<lparr>GetUsersRequest_page := Some v\<rparr>) r)]),
        (100, [(800, read_field (get_int32 W) (\<lambda>v. m\<lparr>GetUsersRequest_listingType := v\<rparr>) r)])]"

definition decode_GetUsersRequest :: "wire \<Rightarrow> reader \<Rightarrow> int option \<Rightarrow> (GetUsersRequest \<times> reader) run" where
  "decode_GetUsersRequest W = decode_message W (switch_GetUsersRequest W) base_GetUsersRequest"

lemma builds_GetUsersRequest:
  assumes "wire_format W" "encode_GetUsersRequest W m [] = Inr b"
  shows "builds W (switch_GetUsersRequest W) base_GetUsersRequest m b"
proof (rule message_builds [OF assms(2) [unfolded encode_GetUsersRequest_def]])
  show "foldl (\<lambda>m u. u m) base_GetUsersRequest
      [given GetUsersRequest_username_update (GetUsersRequest_username m),
       given GetUsersRequest_userId_update (GetUsersRequest_userId m),
       given GetUsersRequest_searchText_update (GetUsersRequest_searchText m),
       given GetUsersRequest_page_update (GetUsersRequest_page m),
       plain GetUsersRequest_listingType_update (GetUsersRequest_listingType m) 0] = m"
    by (cases m) (simp add: field_changes base_GetUsersRequest_def)
qed (insert assms(1),
    (rule wire_fields message_codecs | (simp add: updater_def switch_GetUsersRequest_def list_all_iff; fail))+)

lemma decodes_GetUsersRequest [message_codecs]:
  assumes "wire_format W" "encode_GetUsersRequest W m [] = Inr b"
  shows "decodes (decode_GetUsersRequest W) m b"
  unfolding decode_GetUsersRequest_def by (rule builds_decodes [OF builds_GetUsersRequest [OF assms]])

lemma settles_GetUsersRequest [message_returns]: "wire_format W \<Longrightarrow> settles k (decode_GetUsersRequest W)"
  unfolding decode_GetUsersRequest_def
  by (rule wire_format.settles_message, assumption,
      unfold switch_GetUsersRequest_def switch_field.simps switch_alternatives.simps)
    (rule wire_ends message_returns | assumption)+

section \<open>GetUsersResponse\<close>

record GetUsersResponse =
  GetUsersResponse_users :: "User list"
  GetUsersResponse_hasNextPage :: bool

definition base_GetUsersResponse :: GetUsersResponse where
  "base_GetUsersResponse =
     \<lparr>GetUsersResponse_users = [],
      GetUsersResponse_hasNextPage = False\<rparr>"

definition encode_GetUsersResponse :: "wire \<Rightarrow> GetUsersResponse \<Rightarrow> bytes \<Rightarrow> bytes result" where
  "encode_GetUsersResponse W m =
     write_all
       [write_each (GetUsersResponse_users m) (\<lambda>v. nested W 10 (encode_User W v)),
        write_when (GetUsersResponse_hasNextPage m \<noteq> False) (tagged W 16 (put_bool W (GetUsersResponse_hasNextPage m)))]"

definition switch_GetUsersResponse :: "wire \<Rightarrow> int \<Rightarrow> reader \<Rightarrow> GetUsersResponse \<Rightarrow> GetUsersResponse loop_step run" where
  "switch_GetUsersResponse W tag r m =
     switch_field tag
       [(1, [(10, read_message W (decode_User W) (\<lambda>v. GetUsersResponse_users_update (\<lambda>old. old @ [v]) m) r)]),
        (2, [(16, read_field (get_bool W) (\<lambda>v. m\<lparr>GetUsersResponse_hasNextPage := v\<rparr>) r)])]"

definition decode_GetUsersResponse :: "wire \<Rightarrow> reader \<Rightarrow> int option \<Rightarrow> (GetUsersResponse \<times> reader) run" where
  "decode_GetUsersResponse W = decode_message W (switch_GetUsersResponse W) base_GetUsersResponse"

definition safe_GetUsersResponse :: "wire \<Rightarrow> GetUsersResponse \<Rightarrow> bool" where
  "safe_GetUsersResponse W m \<longleftrightarrow>
     list_all (safe_User W) (GetUsersResponse_users m)"

lemma builds_GetUsersResponse:
  assumes "wire_format W" "safe_GetUsersResponse W m" "encode_GetUsersResponse W m [] = Inr b"
  shows "builds W (switch_GetUsersResponse W) base_GetUsersResponse m b"
proof (rule message_builds [OF assms(3) [unfolded encode_GetUsersResponse_def]])
  show "foldl (\<lambda>m u. u m) base_GetUsersResponse
      [pushed GetUsersResponse_users_update (GetUsersResponse_users m),
       plain GetUsersResponse_hasNextPage_update (GetUsersResponse_hasNextPage m) False] = m"
    by (cases m) (simp add: field_changes base_GetUsersResponse_def)
qed (insert assms(1,2),
    (rule wire_fields message_codecs | (simp add: updater_def switch_GetUsersResponse_def safe_GetUsersResponse_def list_all_iff; fail))+)

lemma decodes_GetUsersResponse [message_codecs]:
  assumes "wire_format W" "safe_GetUsersResponse W m" "encode_GetUsersResponse W m [] = Inr b"
  shows "decodes (decode_GetUsersResponse W) m b"
  unfolding decode_GetUsersResponse_def by (rule builds_decodes [OF builds_GetUsersResponse [OF assms]])

lemma settles_GetUsersResponse [message_returns]: "wire_format W \<Longrightarrow> settles k (decode_GetUsersResponse W)"
  unfolding decode_GetUsersResponse_def
  by (rule wire_format.settles_message, assumption,
      unfold switch_GetUsersResponse_def switch_field.simps switch_alternatives.simps)
    (rule wire_ends message_returns | assumption)+

section \<open>VerifyContactMethodRequest\<close>

record VerifyContactMethodRequest =
  VerifyContactMethodRequest_value :: string
  VerifyContactMethodRequest_code :: string

definition base_VerifyContactMethodRequest :: VerifyContactMethodRequest where
  "base_VerifyContactMethodRequest =
     \<lparr>VerifyContactMethodRequest_value = [],
      VerifyContactMethodRequest_code = []\<rparr>"

definition encode_VerifyContactMethodRequest :: "wire \<Rightarrow> VerifyContactMethodRequest \<Rightarrow> bytes \<Rightarrow> bytes result" where
  "encode_VerifyContactMethodRequest W m =
     write_all
       [write_when (VerifyContactMethodRequest_value m \<noteq> []) (tagged W 10 (put_string W (VerifyContactMethodRequest_value m))),
        write_when (VerifyContactMethodRequest_code m \<noteq> []) (tagged W 18 (put_string W (VerifyContactMethodRequest_code m)))]"

definition switch_VerifyContactMethodRequest :: "wire \<Rightarrow> int \<Rightarrow> reader \<Rightarrow> VerifyContactMethodRequest \<Rightarrow> VerifyContactMethodRequest loop_step run" where
  "switch_VerifyContactMethodRequest W tag r m =
     switch_field tag
       [(1, [(10, read_field (get_string W) (\<lambda>v. m\<lparr>VerifyContactMethodRequest_value := v\<rparr>) r)]),
        (2, [(18, read_field (get_string W) (\<lambda>v. m\<lparr>VerifyContactMethodRequest_code := v\<rparr>) r)])]"

definition decode_VerifyContactMethodRequest :: "wire \<Rightarrow> reader \<Rightarrow> int option \<Rightarrow> (VerifyContactMethodRequest \<times> reader) run" where
  "decode_VerifyContactMethodRequest W = decode_message W (switch_VerifyContactMethodRequest W) base_VerifyContactMethodRequest"

lemma builds_VerifyContactMethodRequest:
  assumes "wire_format W" "encode_VerifyContactMethodRequest W m [] = Inr b"
  shows "builds W (switch_VerifyContactMethodRequest W) base_VerifyContactMethodRequest m b"
proof (rule message_builds [OF assms(2) [unfolded encode_VerifyContactMethodRequest_def]])
  show "foldl (\<lambda>m u. u m) base_VerifyContactMethodRequest
      [plain VerifyContactMethodRequest_value_update (VerifyContactMethodRequest_value m) [],
       plain VerifyContactMethodRequest_code_update (VerifyContactMethodRequest_code m) []] = m"
    by (cases m) (simp add: field_changes base_VerifyContactMethodRequest_def)
qed (insert assms(1),
    (rule wire_fields message_codecs | (simp add: updater_def switch_VerifyContactMethodRequest_def list_all_iff; fail))+)

lemma decodes_VerifyContactMethodRequest [message_codecs]:
  assumes "wire_format W" "encode_VerifyContactMethodRequest W m [] = Inr b"
  shows "decodes (decode_VerifyContactMethodRequest W) m b"
  unfolding decode_VerifyContactMethodRequest_def by (rule builds_decodes [OF builds_VerifyContactMethodRequest [OF assms]])

lemma settles_VerifyContactMethodRequest [message_returns]: "wire_format W \<Longrightarrow> settles k (decode_VerifyContactMethodRequest W)"
  unfolding decode_VerifyContactMethodRequest_def
  by (rule wire_format.settles_message, assumption,
      unfold switch_VerifyContactMethodRequest_def switch_field.simps switch_alternatives.simps)
    (rule wire_ends message_returns | assumption)+

end
