(* ===== verification/Wire_Authentication.thy ===== *)
theory Wire_Authentication
  imports Wire_Users
begin

text \<open>
  The codecs of packages/api/generated/authentication.ts: of each message the record, the empty message, writing, reading, and that
  reading what was written gives the message back.
\<close>

section \<open>CreateAccountRequest\<close>

record CreateAccountRequest =
  CreateAccountRequest_username :: string
  CreateAccountRequest_password :: string
  CreateAccountRequest_email :: "ContactMethod option"
  CreateAccountRequest_phone :: "ContactMethod option"
  CreateAccountRequest_expiresAt :: "string option"
  CreateAccountRequest_deviceName :: "string option"

definition base_CreateAccountRequest :: CreateAccountRequest where
  "base_CreateAccountRequest =
     \<lparr>CreateAccountRequest_username = [],
      CreateAccountRequest_password = [],
      CreateAccountRequest_email = None,
      CreateAccountRequest_phone = None,
      CreateAccountRequest_expiresAt = None,
      CreateAccountRequest_deviceName = None\<rparr>"

definition encode_CreateAccountRequest :: "wire \<Rightarrow> CreateAccountRequest \<Rightarrow> bytes \<Rightarrow> bytes result" where
  "encode_CreateAccountRequest W m =
     write_all
       [write_when (CreateAccountRequest_username m \<noteq> []) (tagged W 10 (put_string W (CreateAccountRequest_username m))),
        write_when (CreateAccountRequest_password m \<noteq> []) (tagged W 18 (put_string W (CreateAccountRequest_password m))),
        write_given (CreateAccountRequest_email m) (\<lambda>v. nested W 26 (encode_ContactMethod W v)),
        write_given (CreateAccountRequest_phone m) (\<lambda>v. nested W 34 (encode_ContactMethod W v)),
        write_given (CreateAccountRequest_expiresAt m) (\<lambda>v. nested W 42 (encode_date W v)),
        write_given (CreateAccountRequest_deviceName m) (\<lambda>v. tagged W 50 (put_string W v))]"

definition switch_CreateAccountRequest :: "wire \<Rightarrow> int \<Rightarrow> reader \<Rightarrow> CreateAccountRequest \<Rightarrow> CreateAccountRequest loop_step run" where
  "switch_CreateAccountRequest W tag r m =
     switch_field tag
       [(1, [(10, read_field (get_string W) (\<lambda>v. m\<lparr>CreateAccountRequest_username := v\<rparr>) r)]),
        (2, [(18, read_field (get_string W) (\<lambda>v. m\<lparr>CreateAccountRequest_password := v\<rparr>) r)]),
        (3, [(26, read_message W (decode_ContactMethod W) (\<lambda>v. m\<lparr>CreateAccountRequest_email := Some v\<rparr>) r)]),
        (4, [(34, read_message W (decode_ContactMethod W) (\<lambda>v. m\<lparr>CreateAccountRequest_phone := Some v\<rparr>) r)]),
        (5, [(42, read_message W (decode_date W) (\<lambda>v. m\<lparr>CreateAccountRequest_expiresAt := Some v\<rparr>) r)]),
        (6, [(50, read_field (get_string W) (\<lambda>v. m\<lparr>CreateAccountRequest_deviceName := Some v\<rparr>) r)])]"

definition decode_CreateAccountRequest :: "wire \<Rightarrow> reader \<Rightarrow> int option \<Rightarrow> (CreateAccountRequest \<times> reader) run" where
  "decode_CreateAccountRequest W = decode_message W (switch_CreateAccountRequest W) base_CreateAccountRequest"

definition safe_CreateAccountRequest :: "wire \<Rightarrow> CreateAccountRequest \<Rightarrow> bool" where
  "safe_CreateAccountRequest W m \<longleftrightarrow>
     pred_option (safe_ContactMethod W) (CreateAccountRequest_email m) \<and>
     pred_option (safe_ContactMethod W) (CreateAccountRequest_phone m) \<and>
     pred_option canonical_date (CreateAccountRequest_expiresAt m)"

lemma builds_CreateAccountRequest:
  assumes "wire_format W" "safe_CreateAccountRequest W m" "encode_CreateAccountRequest W m [] = Inr b"
  shows "builds W (switch_CreateAccountRequest W) base_CreateAccountRequest m b"
proof (rule message_builds [OF assms(3) [unfolded encode_CreateAccountRequest_def]])
  show "foldl (\<lambda>m u. u m) base_CreateAccountRequest
      [plain CreateAccountRequest_username_update (CreateAccountRequest_username m) [],
       plain CreateAccountRequest_password_update (CreateAccountRequest_password m) [],
       given CreateAccountRequest_email_update (CreateAccountRequest_email m),
       given CreateAccountRequest_phone_update (CreateAccountRequest_phone m),
       given CreateAccountRequest_expiresAt_update (CreateAccountRequest_expiresAt m),
       given CreateAccountRequest_deviceName_update (CreateAccountRequest_deviceName m)] = m"
    by (cases m) (simp add: field_changes base_CreateAccountRequest_def)
qed (insert assms(1,2),
    (rule wire_fields message_codecs | (simp add: updater_def switch_CreateAccountRequest_def safe_CreateAccountRequest_def list_all_iff; fail))+)

lemma decodes_CreateAccountRequest [message_codecs]:
  assumes "wire_format W" "safe_CreateAccountRequest W m" "encode_CreateAccountRequest W m [] = Inr b"
  shows "decodes (decode_CreateAccountRequest W) m b"
  unfolding decode_CreateAccountRequest_def by (rule builds_decodes [OF builds_CreateAccountRequest [OF assms]])

lemma settles_CreateAccountRequest [message_returns]: "wire_format W \<Longrightarrow> settles k (decode_CreateAccountRequest W)"
  unfolding decode_CreateAccountRequest_def
  by (rule wire_format.settles_message, assumption,
      unfold switch_CreateAccountRequest_def switch_field.simps switch_alternatives.simps)
    (rule wire_ends message_returns | assumption)+

section \<open>LoginRequest\<close>

record LoginRequest =
  LoginRequest_username :: string
  LoginRequest_password :: string
  LoginRequest_expiresAt :: "string option"
  LoginRequest_deviceName :: "string option"
  LoginRequest_userId :: "string option"

definition base_LoginRequest :: LoginRequest where
  "base_LoginRequest =
     \<lparr>LoginRequest_username = [],
      LoginRequest_password = [],
      LoginRequest_expiresAt = None,
      LoginRequest_deviceName = None,
      LoginRequest_userId = None\<rparr>"

definition encode_LoginRequest :: "wire \<Rightarrow> LoginRequest \<Rightarrow> bytes \<Rightarrow> bytes result" where
  "encode_LoginRequest W m =
     write_all
       [write_when (LoginRequest_username m \<noteq> []) (tagged W 10 (put_string W (LoginRequest_username m))),
        write_when (LoginRequest_password m \<noteq> []) (tagged W 18 (put_string W (LoginRequest_password m))),
        write_given (LoginRequest_expiresAt m) (\<lambda>v. nested W 26 (encode_date W v)),
        write_given (LoginRequest_deviceName m) (\<lambda>v. tagged W 34 (put_string W v)),
        write_given (LoginRequest_userId m) (\<lambda>v. tagged W 42 (put_string W v))]"

definition switch_LoginRequest :: "wire \<Rightarrow> int \<Rightarrow> reader \<Rightarrow> LoginRequest \<Rightarrow> LoginRequest loop_step run" where
  "switch_LoginRequest W tag r m =
     switch_field tag
       [(1, [(10, read_field (get_string W) (\<lambda>v. m\<lparr>LoginRequest_username := v\<rparr>) r)]),
        (2, [(18, read_field (get_string W) (\<lambda>v. m\<lparr>LoginRequest_password := v\<rparr>) r)]),
        (3, [(26, read_message W (decode_date W) (\<lambda>v. m\<lparr>LoginRequest_expiresAt := Some v\<rparr>) r)]),
        (4, [(34, read_field (get_string W) (\<lambda>v. m\<lparr>LoginRequest_deviceName := Some v\<rparr>) r)]),
        (5, [(42, read_field (get_string W) (\<lambda>v. m\<lparr>LoginRequest_userId := Some v\<rparr>) r)])]"

definition decode_LoginRequest :: "wire \<Rightarrow> reader \<Rightarrow> int option \<Rightarrow> (LoginRequest \<times> reader) run" where
  "decode_LoginRequest W = decode_message W (switch_LoginRequest W) base_LoginRequest"

definition safe_LoginRequest :: "wire \<Rightarrow> LoginRequest \<Rightarrow> bool" where
  "safe_LoginRequest W m \<longleftrightarrow>
     pred_option canonical_date (LoginRequest_expiresAt m)"

lemma builds_LoginRequest:
  assumes "wire_format W" "safe_LoginRequest W m" "encode_LoginRequest W m [] = Inr b"
  shows "builds W (switch_LoginRequest W) base_LoginRequest m b"
proof (rule message_builds [OF assms(3) [unfolded encode_LoginRequest_def]])
  show "foldl (\<lambda>m u. u m) base_LoginRequest
      [plain LoginRequest_username_update (LoginRequest_username m) [],
       plain LoginRequest_password_update (LoginRequest_password m) [],
       given LoginRequest_expiresAt_update (LoginRequest_expiresAt m),
       given LoginRequest_deviceName_update (LoginRequest_deviceName m),
       given LoginRequest_userId_update (LoginRequest_userId m)] = m"
    by (cases m) (simp add: field_changes base_LoginRequest_def)
qed (insert assms(1,2),
    (rule wire_fields message_codecs | (simp add: updater_def switch_LoginRequest_def safe_LoginRequest_def list_all_iff; fail))+)

lemma decodes_LoginRequest [message_codecs]:
  assumes "wire_format W" "safe_LoginRequest W m" "encode_LoginRequest W m [] = Inr b"
  shows "decodes (decode_LoginRequest W) m b"
  unfolding decode_LoginRequest_def by (rule builds_decodes [OF builds_LoginRequest [OF assms]])

lemma settles_LoginRequest [message_returns]: "wire_format W \<Longrightarrow> settles k (decode_LoginRequest W)"
  unfolding decode_LoginRequest_def
  by (rule wire_format.settles_message, assumption,
      unfold switch_LoginRequest_def switch_field.simps switch_alternatives.simps)
    (rule wire_ends message_returns | assumption)+

section \<open>CreateThirdPartyRefreshTokenRequest\<close>

record CreateThirdPartyRefreshTokenRequest =
  CreateThirdPartyRefreshTokenRequest_expiresAt :: "string option"
  CreateThirdPartyRefreshTokenRequest_userId :: string
  CreateThirdPartyRefreshTokenRequest_deviceName :: string

definition base_CreateThirdPartyRefreshTokenRequest :: CreateThirdPartyRefreshTokenRequest where
  "base_CreateThirdPartyRefreshTokenRequest =
     \<lparr>CreateThirdPartyRefreshTokenRequest_expiresAt = None,
      CreateThirdPartyRefreshTokenRequest_userId = [],
      CreateThirdPartyRefreshTokenRequest_deviceName = []\<rparr>"

definition encode_CreateThirdPartyRefreshTokenRequest :: "wire \<Rightarrow> CreateThirdPartyRefreshTokenRequest \<Rightarrow> bytes \<Rightarrow> bytes result" where
  "encode_CreateThirdPartyRefreshTokenRequest W m =
     write_all
       [write_given (CreateThirdPartyRefreshTokenRequest_expiresAt m) (\<lambda>v. nested W 18 (encode_date W v)),
        write_when (CreateThirdPartyRefreshTokenRequest_userId m \<noteq> []) (tagged W 26 (put_string W (CreateThirdPartyRefreshTokenRequest_userId m))),
        write_when (CreateThirdPartyRefreshTokenRequest_deviceName m \<noteq> []) (tagged W 34 (put_string W (CreateThirdPartyRefreshTokenRequest_deviceName m)))]"

definition switch_CreateThirdPartyRefreshTokenRequest :: "wire \<Rightarrow> int \<Rightarrow> reader \<Rightarrow> CreateThirdPartyRefreshTokenRequest \<Rightarrow> CreateThirdPartyRefreshTokenRequest loop_step run" where
  "switch_CreateThirdPartyRefreshTokenRequest W tag r m =
     switch_field tag
       [(2, [(18, read_message W (decode_date W) (\<lambda>v. m\<lparr>CreateThirdPartyRefreshTokenRequest_expiresAt := Some v\<rparr>) r)]),
        (3, [(26, read_field (get_string W) (\<lambda>v. m\<lparr>CreateThirdPartyRefreshTokenRequest_userId := v\<rparr>) r)]),
        (4, [(34, read_field (get_string W) (\<lambda>v. m\<lparr>CreateThirdPartyRefreshTokenRequest_deviceName := v\<rparr>) r)])]"

definition decode_CreateThirdPartyRefreshTokenRequest :: "wire \<Rightarrow> reader \<Rightarrow> int option \<Rightarrow> (CreateThirdPartyRefreshTokenRequest \<times> reader) run" where
  "decode_CreateThirdPartyRefreshTokenRequest W = decode_message W (switch_CreateThirdPartyRefreshTokenRequest W) base_CreateThirdPartyRefreshTokenRequest"

definition safe_CreateThirdPartyRefreshTokenRequest :: "wire \<Rightarrow> CreateThirdPartyRefreshTokenRequest \<Rightarrow> bool" where
  "safe_CreateThirdPartyRefreshTokenRequest W m \<longleftrightarrow>
     pred_option canonical_date (CreateThirdPartyRefreshTokenRequest_expiresAt m)"

lemma builds_CreateThirdPartyRefreshTokenRequest:
  assumes "wire_format W" "safe_CreateThirdPartyRefreshTokenRequest W m" "encode_CreateThirdPartyRefreshTokenRequest W m [] = Inr b"
  shows "builds W (switch_CreateThirdPartyRefreshTokenRequest W) base_CreateThirdPartyRefreshTokenRequest m b"
proof (rule message_builds [OF assms(3) [unfolded encode_CreateThirdPartyRefreshTokenRequest_def]])
  show "foldl (\<lambda>m u. u m) base_CreateThirdPartyRefreshTokenRequest
      [given CreateThirdPartyRefreshTokenRequest_expiresAt_update (CreateThirdPartyRefreshTokenRequest_expiresAt m),
       plain CreateThirdPartyRefreshTokenRequest_userId_update (CreateThirdPartyRefreshTokenRequest_userId m) [],
       plain CreateThirdPartyRefreshTokenRequest_deviceName_update (CreateThirdPartyRefreshTokenRequest_deviceName m) []] = m"
    by (cases m) (simp add: field_changes base_CreateThirdPartyRefreshTokenRequest_def)
qed (insert assms(1,2),
    (rule wire_fields message_codecs | (simp add: updater_def switch_CreateThirdPartyRefreshTokenRequest_def safe_CreateThirdPartyRefreshTokenRequest_def list_all_iff; fail))+)

lemma decodes_CreateThirdPartyRefreshTokenRequest [message_codecs]:
  assumes "wire_format W" "safe_CreateThirdPartyRefreshTokenRequest W m" "encode_CreateThirdPartyRefreshTokenRequest W m [] = Inr b"
  shows "decodes (decode_CreateThirdPartyRefreshTokenRequest W) m b"
  unfolding decode_CreateThirdPartyRefreshTokenRequest_def by (rule builds_decodes [OF builds_CreateThirdPartyRefreshTokenRequest [OF assms]])

lemma settles_CreateThirdPartyRefreshTokenRequest [message_returns]: "wire_format W \<Longrightarrow> settles k (decode_CreateThirdPartyRefreshTokenRequest W)"
  unfolding decode_CreateThirdPartyRefreshTokenRequest_def
  by (rule wire_format.settles_message, assumption,
      unfold switch_CreateThirdPartyRefreshTokenRequest_def switch_field.simps switch_alternatives.simps)
    (rule wire_ends message_returns | assumption)+

section \<open>ExpirableToken\<close>

record ExpirableToken =
  ExpirableToken_token :: string
  ExpirableToken_expiresAt :: "string option"

definition base_ExpirableToken :: ExpirableToken where
  "base_ExpirableToken =
     \<lparr>ExpirableToken_token = [],
      ExpirableToken_expiresAt = None\<rparr>"

definition encode_ExpirableToken :: "wire \<Rightarrow> ExpirableToken \<Rightarrow> bytes \<Rightarrow> bytes result" where
  "encode_ExpirableToken W m =
     write_all
       [write_when (ExpirableToken_token m \<noteq> []) (tagged W 10 (put_string W (ExpirableToken_token m))),
        write_given (ExpirableToken_expiresAt m) (\<lambda>v. nested W 18 (encode_date W v))]"

definition switch_ExpirableToken :: "wire \<Rightarrow> int \<Rightarrow> reader \<Rightarrow> ExpirableToken \<Rightarrow> ExpirableToken loop_step run" where
  "switch_ExpirableToken W tag r m =
     switch_field tag
       [(1, [(10, read_field (get_string W) (\<lambda>v. m\<lparr>ExpirableToken_token := v\<rparr>) r)]),
        (2, [(18, read_message W (decode_date W) (\<lambda>v. m\<lparr>ExpirableToken_expiresAt := Some v\<rparr>) r)])]"

definition decode_ExpirableToken :: "wire \<Rightarrow> reader \<Rightarrow> int option \<Rightarrow> (ExpirableToken \<times> reader) run" where
  "decode_ExpirableToken W = decode_message W (switch_ExpirableToken W) base_ExpirableToken"

definition safe_ExpirableToken :: "wire \<Rightarrow> ExpirableToken \<Rightarrow> bool" where
  "safe_ExpirableToken W m \<longleftrightarrow>
     pred_option canonical_date (ExpirableToken_expiresAt m)"

lemma builds_ExpirableToken:
  assumes "wire_format W" "safe_ExpirableToken W m" "encode_ExpirableToken W m [] = Inr b"
  shows "builds W (switch_ExpirableToken W) base_ExpirableToken m b"
proof (rule message_builds [OF assms(3) [unfolded encode_ExpirableToken_def]])
  show "foldl (\<lambda>m u. u m) base_ExpirableToken
      [plain ExpirableToken_token_update (ExpirableToken_token m) [],
       given ExpirableToken_expiresAt_update (ExpirableToken_expiresAt m)] = m"
    by (cases m) (simp add: field_changes base_ExpirableToken_def)
qed (insert assms(1,2),
    (rule wire_fields message_codecs | (simp add: updater_def switch_ExpirableToken_def safe_ExpirableToken_def list_all_iff; fail))+)

lemma decodes_ExpirableToken [message_codecs]:
  assumes "wire_format W" "safe_ExpirableToken W m" "encode_ExpirableToken W m [] = Inr b"
  shows "decodes (decode_ExpirableToken W) m b"
  unfolding decode_ExpirableToken_def by (rule builds_decodes [OF builds_ExpirableToken [OF assms]])

lemma settles_ExpirableToken [message_returns]: "wire_format W \<Longrightarrow> settles k (decode_ExpirableToken W)"
  unfolding decode_ExpirableToken_def
  by (rule wire_format.settles_message, assumption,
      unfold switch_ExpirableToken_def switch_field.simps switch_alternatives.simps)
    (rule wire_ends message_returns | assumption)+

section \<open>RefreshTokenResponse\<close>

record RefreshTokenResponse =
  RefreshTokenResponse_refreshToken :: "ExpirableToken option"
  RefreshTokenResponse_accessToken :: "ExpirableToken option"
  RefreshTokenResponse_user :: "User option"

definition base_RefreshTokenResponse :: RefreshTokenResponse where
  "base_RefreshTokenResponse =
     \<lparr>RefreshTokenResponse_refreshToken = None,
      RefreshTokenResponse_accessToken = None,
      RefreshTokenResponse_user = None\<rparr>"

definition encode_RefreshTokenResponse :: "wire \<Rightarrow> RefreshTokenResponse \<Rightarrow> bytes \<Rightarrow> bytes result" where
  "encode_RefreshTokenResponse W m =
     write_all
       [write_given (RefreshTokenResponse_refreshToken m) (\<lambda>v. nested W 10 (encode_ExpirableToken W v)),
        write_given (RefreshTokenResponse_accessToken m) (\<lambda>v. nested W 18 (encode_ExpirableToken W v)),
        write_given (RefreshTokenResponse_user m) (\<lambda>v. nested W 26 (encode_User W v))]"

definition switch_RefreshTokenResponse :: "wire \<Rightarrow> int \<Rightarrow> reader \<Rightarrow> RefreshTokenResponse \<Rightarrow> RefreshTokenResponse loop_step run" where
  "switch_RefreshTokenResponse W tag r m =
     switch_field tag
       [(1, [(10, read_message W (decode_ExpirableToken W) (\<lambda>v. m\<lparr>RefreshTokenResponse_refreshToken := Some v\<rparr>) r)]),
        (2, [(18, read_message W (decode_ExpirableToken W) (\<lambda>v. m\<lparr>RefreshTokenResponse_accessToken := Some v\<rparr>) r)]),
        (3, [(26, read_message W (decode_User W) (\<lambda>v. m\<lparr>RefreshTokenResponse_user := Some v\<rparr>) r)])]"

definition decode_RefreshTokenResponse :: "wire \<Rightarrow> reader \<Rightarrow> int option \<Rightarrow> (RefreshTokenResponse \<times> reader) run" where
  "decode_RefreshTokenResponse W = decode_message W (switch_RefreshTokenResponse W) base_RefreshTokenResponse"

definition safe_RefreshTokenResponse :: "wire \<Rightarrow> RefreshTokenResponse \<Rightarrow> bool" where
  "safe_RefreshTokenResponse W m \<longleftrightarrow>
     pred_option (safe_ExpirableToken W) (RefreshTokenResponse_refreshToken m) \<and>
     pred_option (safe_ExpirableToken W) (RefreshTokenResponse_accessToken m) \<and>
     pred_option (safe_User W) (RefreshTokenResponse_user m)"

lemma builds_RefreshTokenResponse:
  assumes "wire_format W" "safe_RefreshTokenResponse W m" "encode_RefreshTokenResponse W m [] = Inr b"
  shows "builds W (switch_RefreshTokenResponse W) base_RefreshTokenResponse m b"
proof (rule message_builds [OF assms(3) [unfolded encode_RefreshTokenResponse_def]])
  show "foldl (\<lambda>m u. u m) base_RefreshTokenResponse
      [given RefreshTokenResponse_refreshToken_update (RefreshTokenResponse_refreshToken m),
       given RefreshTokenResponse_accessToken_update (RefreshTokenResponse_accessToken m),
       given RefreshTokenResponse_user_update (RefreshTokenResponse_user m)] = m"
    by (cases m) (simp add: field_changes base_RefreshTokenResponse_def)
qed (insert assms(1,2),
    (rule wire_fields message_codecs | (simp add: updater_def switch_RefreshTokenResponse_def safe_RefreshTokenResponse_def list_all_iff; fail))+)

lemma decodes_RefreshTokenResponse [message_codecs]:
  assumes "wire_format W" "safe_RefreshTokenResponse W m" "encode_RefreshTokenResponse W m [] = Inr b"
  shows "decodes (decode_RefreshTokenResponse W) m b"
  unfolding decode_RefreshTokenResponse_def by (rule builds_decodes [OF builds_RefreshTokenResponse [OF assms]])

lemma settles_RefreshTokenResponse [message_returns]: "wire_format W \<Longrightarrow> settles k (decode_RefreshTokenResponse W)"
  unfolding decode_RefreshTokenResponse_def
  by (rule wire_format.settles_message, assumption,
      unfold switch_RefreshTokenResponse_def switch_field.simps switch_alternatives.simps)
    (rule wire_ends message_returns | assumption)+

section \<open>AccessTokenRequest\<close>

record AccessTokenRequest =
  AccessTokenRequest_refreshToken :: string
  AccessTokenRequest_expiresAt :: "string option"

definition base_AccessTokenRequest :: AccessTokenRequest where
  "base_AccessTokenRequest =
     \<lparr>AccessTokenRequest_refreshToken = [],
      AccessTokenRequest_expiresAt = None\<rparr>"

definition encode_AccessTokenRequest :: "wire \<Rightarrow> AccessTokenRequest \<Rightarrow> bytes \<Rightarrow> bytes result" where
  "encode_AccessTokenRequest W m =
     write_all
       [write_when (AccessTokenRequest_refreshToken m \<noteq> []) (tagged W 10 (put_string W (AccessTokenRequest_refreshToken m))),
        write_given (AccessTokenRequest_expiresAt m) (\<lambda>v. nested W 18 (encode_date W v))]"

definition switch_AccessTokenRequest :: "wire \<Rightarrow> int \<Rightarrow> reader \<Rightarrow> AccessTokenRequest \<Rightarrow> AccessTokenRequest loop_step run" where
  "switch_AccessTokenRequest W tag r m =
     switch_field tag
       [(1, [(10, read_field (get_string W) (\<lambda>v. m\<lparr>AccessTokenRequest_refreshToken := v\<rparr>) r)]),
        (2, [(18, read_message W (decode_date W) (\<lambda>v. m\<lparr>AccessTokenRequest_expiresAt := Some v\<rparr>) r)])]"

definition decode_AccessTokenRequest :: "wire \<Rightarrow> reader \<Rightarrow> int option \<Rightarrow> (AccessTokenRequest \<times> reader) run" where
  "decode_AccessTokenRequest W = decode_message W (switch_AccessTokenRequest W) base_AccessTokenRequest"

definition safe_AccessTokenRequest :: "wire \<Rightarrow> AccessTokenRequest \<Rightarrow> bool" where
  "safe_AccessTokenRequest W m \<longleftrightarrow>
     pred_option canonical_date (AccessTokenRequest_expiresAt m)"

lemma builds_AccessTokenRequest:
  assumes "wire_format W" "safe_AccessTokenRequest W m" "encode_AccessTokenRequest W m [] = Inr b"
  shows "builds W (switch_AccessTokenRequest W) base_AccessTokenRequest m b"
proof (rule message_builds [OF assms(3) [unfolded encode_AccessTokenRequest_def]])
  show "foldl (\<lambda>m u. u m) base_AccessTokenRequest
      [plain AccessTokenRequest_refreshToken_update (AccessTokenRequest_refreshToken m) [],
       given AccessTokenRequest_expiresAt_update (AccessTokenRequest_expiresAt m)] = m"
    by (cases m) (simp add: field_changes base_AccessTokenRequest_def)
qed (insert assms(1,2),
    (rule wire_fields message_codecs | (simp add: updater_def switch_AccessTokenRequest_def safe_AccessTokenRequest_def list_all_iff; fail))+)

lemma decodes_AccessTokenRequest [message_codecs]:
  assumes "wire_format W" "safe_AccessTokenRequest W m" "encode_AccessTokenRequest W m [] = Inr b"
  shows "decodes (decode_AccessTokenRequest W) m b"
  unfolding decode_AccessTokenRequest_def by (rule builds_decodes [OF builds_AccessTokenRequest [OF assms]])

lemma settles_AccessTokenRequest [message_returns]: "wire_format W \<Longrightarrow> settles k (decode_AccessTokenRequest W)"
  unfolding decode_AccessTokenRequest_def
  by (rule wire_format.settles_message, assumption,
      unfold switch_AccessTokenRequest_def switch_field.simps switch_alternatives.simps)
    (rule wire_ends message_returns | assumption)+

section \<open>AccessTokenResponse\<close>

record AccessTokenResponse =
  AccessTokenResponse_refreshToken :: "ExpirableToken option"
  AccessTokenResponse_accessToken :: "ExpirableToken option"

definition base_AccessTokenResponse :: AccessTokenResponse where
  "base_AccessTokenResponse =
     \<lparr>AccessTokenResponse_refreshToken = None,
      AccessTokenResponse_accessToken = None\<rparr>"

definition encode_AccessTokenResponse :: "wire \<Rightarrow> AccessTokenResponse \<Rightarrow> bytes \<Rightarrow> bytes result" where
  "encode_AccessTokenResponse W m =
     write_all
       [write_given (AccessTokenResponse_refreshToken m) (\<lambda>v. nested W 10 (encode_ExpirableToken W v)),
        write_given (AccessTokenResponse_accessToken m) (\<lambda>v. nested W 18 (encode_ExpirableToken W v))]"

definition switch_AccessTokenResponse :: "wire \<Rightarrow> int \<Rightarrow> reader \<Rightarrow> AccessTokenResponse \<Rightarrow> AccessTokenResponse loop_step run" where
  "switch_AccessTokenResponse W tag r m =
     switch_field tag
       [(1, [(10, read_message W (decode_ExpirableToken W) (\<lambda>v. m\<lparr>AccessTokenResponse_refreshToken := Some v\<rparr>) r)]),
        (2, [(18, read_message W (decode_ExpirableToken W) (\<lambda>v. m\<lparr>AccessTokenResponse_accessToken := Some v\<rparr>) r)])]"

definition decode_AccessTokenResponse :: "wire \<Rightarrow> reader \<Rightarrow> int option \<Rightarrow> (AccessTokenResponse \<times> reader) run" where
  "decode_AccessTokenResponse W = decode_message W (switch_AccessTokenResponse W) base_AccessTokenResponse"

definition safe_AccessTokenResponse :: "wire \<Rightarrow> AccessTokenResponse \<Rightarrow> bool" where
  "safe_AccessTokenResponse W m \<longleftrightarrow>
     pred_option (safe_ExpirableToken W) (AccessTokenResponse_refreshToken m) \<and>
     pred_option (safe_ExpirableToken W) (AccessTokenResponse_accessToken m)"

lemma builds_AccessTokenResponse:
  assumes "wire_format W" "safe_AccessTokenResponse W m" "encode_AccessTokenResponse W m [] = Inr b"
  shows "builds W (switch_AccessTokenResponse W) base_AccessTokenResponse m b"
proof (rule message_builds [OF assms(3) [unfolded encode_AccessTokenResponse_def]])
  show "foldl (\<lambda>m u. u m) base_AccessTokenResponse
      [given AccessTokenResponse_refreshToken_update (AccessTokenResponse_refreshToken m),
       given AccessTokenResponse_accessToken_update (AccessTokenResponse_accessToken m)] = m"
    by (cases m) (simp add: field_changes base_AccessTokenResponse_def)
qed (insert assms(1,2),
    (rule wire_fields message_codecs | (simp add: updater_def switch_AccessTokenResponse_def safe_AccessTokenResponse_def list_all_iff; fail))+)

lemma decodes_AccessTokenResponse [message_codecs]:
  assumes "wire_format W" "safe_AccessTokenResponse W m" "encode_AccessTokenResponse W m [] = Inr b"
  shows "decodes (decode_AccessTokenResponse W) m b"
  unfolding decode_AccessTokenResponse_def by (rule builds_decodes [OF builds_AccessTokenResponse [OF assms]])

lemma settles_AccessTokenResponse [message_returns]: "wire_format W \<Longrightarrow> settles k (decode_AccessTokenResponse W)"
  unfolding decode_AccessTokenResponse_def
  by (rule wire_format.settles_message, assumption,
      unfold switch_AccessTokenResponse_def switch_field.simps switch_alternatives.simps)
    (rule wire_ends message_returns | assumption)+

section \<open>ResetPasswordRequest\<close>

record ResetPasswordRequest =
  ResetPasswordRequest_userId :: "string option"
  ResetPasswordRequest_password :: string

definition base_ResetPasswordRequest :: ResetPasswordRequest where
  "base_ResetPasswordRequest =
     \<lparr>ResetPasswordRequest_userId = None,
      ResetPasswordRequest_password = []\<rparr>"

definition encode_ResetPasswordRequest :: "wire \<Rightarrow> ResetPasswordRequest \<Rightarrow> bytes \<Rightarrow> bytes result" where
  "encode_ResetPasswordRequest W m =
     write_all
       [write_given (ResetPasswordRequest_userId m) (\<lambda>v. tagged W 10 (put_string W v)),
        write_when (ResetPasswordRequest_password m \<noteq> []) (tagged W 26 (put_string W (ResetPasswordRequest_password m)))]"

definition switch_ResetPasswordRequest :: "wire \<Rightarrow> int \<Rightarrow> reader \<Rightarrow> ResetPasswordRequest \<Rightarrow> ResetPasswordRequest loop_step run" where
  "switch_ResetPasswordRequest W tag r m =
     switch_field tag
       [(1, [(10, read_field (get_string W) (\<lambda>v. m\<lparr>ResetPasswordRequest_userId := Some v\<rparr>) r)]),
        (3, [(26, read_field (get_string W) (\<lambda>v. m\<lparr>ResetPasswordRequest_password := v\<rparr>) r)])]"

definition decode_ResetPasswordRequest :: "wire \<Rightarrow> reader \<Rightarrow> int option \<Rightarrow> (ResetPasswordRequest \<times> reader) run" where
  "decode_ResetPasswordRequest W = decode_message W (switch_ResetPasswordRequest W) base_ResetPasswordRequest"

lemma builds_ResetPasswordRequest:
  assumes "wire_format W" "encode_ResetPasswordRequest W m [] = Inr b"
  shows "builds W (switch_ResetPasswordRequest W) base_ResetPasswordRequest m b"
proof (rule message_builds [OF assms(2) [unfolded encode_ResetPasswordRequest_def]])
  show "foldl (\<lambda>m u. u m) base_ResetPasswordRequest
      [given ResetPasswordRequest_userId_update (ResetPasswordRequest_userId m),
       plain ResetPasswordRequest_password_update (ResetPasswordRequest_password m) []] = m"
    by (cases m) (simp add: field_changes base_ResetPasswordRequest_def)
qed (insert assms(1),
    (rule wire_fields message_codecs | (simp add: updater_def switch_ResetPasswordRequest_def list_all_iff; fail))+)

lemma decodes_ResetPasswordRequest [message_codecs]:
  assumes "wire_format W" "encode_ResetPasswordRequest W m [] = Inr b"
  shows "decodes (decode_ResetPasswordRequest W) m b"
  unfolding decode_ResetPasswordRequest_def by (rule builds_decodes [OF builds_ResetPasswordRequest [OF assms]])

lemma settles_ResetPasswordRequest [message_returns]: "wire_format W \<Longrightarrow> settles k (decode_ResetPasswordRequest W)"
  unfolding decode_ResetPasswordRequest_def
  by (rule wire_format.settles_message, assumption,
      unfold switch_ResetPasswordRequest_def switch_field.simps switch_alternatives.simps)
    (rule wire_ends message_returns | assumption)+

section \<open>RefreshTokenMetadata\<close>

record RefreshTokenMetadata =
  RefreshTokenMetadata_id :: int
  RefreshTokenMetadata_expiresAt :: "string option"
  RefreshTokenMetadata_deviceName :: "string option"
  RefreshTokenMetadata_isThisDevice :: bool
  RefreshTokenMetadata_thirdParty :: bool

definition base_RefreshTokenMetadata :: RefreshTokenMetadata where
  "base_RefreshTokenMetadata =
     \<lparr>RefreshTokenMetadata_id = 0,
      RefreshTokenMetadata_expiresAt = None,
      RefreshTokenMetadata_deviceName = None,
      RefreshTokenMetadata_isThisDevice = False,
      RefreshTokenMetadata_thirdParty = False\<rparr>"

definition encode_RefreshTokenMetadata :: "wire \<Rightarrow> RefreshTokenMetadata \<Rightarrow> bytes \<Rightarrow> bytes result" where
  "encode_RefreshTokenMetadata W m =
     write_all
       [write_when (RefreshTokenMetadata_id m \<noteq> 0) (tagged W 8 (put_uint64 W (RefreshTokenMetadata_id m))),
        write_given (RefreshTokenMetadata_expiresAt m) (\<lambda>v. nested W 18 (encode_date W v)),
        write_given (RefreshTokenMetadata_deviceName m) (\<lambda>v. tagged W 26 (put_string W v)),
        write_when (RefreshTokenMetadata_isThisDevice m \<noteq> False) (tagged W 32 (put_bool W (RefreshTokenMetadata_isThisDevice m))),
        write_when (RefreshTokenMetadata_thirdParty m \<noteq> False) (tagged W 40 (put_bool W (RefreshTokenMetadata_thirdParty m)))]"

definition switch_RefreshTokenMetadata :: "wire \<Rightarrow> int \<Rightarrow> reader \<Rightarrow> RefreshTokenMetadata \<Rightarrow> RefreshTokenMetadata loop_step run" where
  "switch_RefreshTokenMetadata W tag r m =
     switch_field tag
       [(1, [(8, read_field (get_long (get_uint64 W)) (\<lambda>v. m\<lparr>RefreshTokenMetadata_id := v\<rparr>) r)]),
        (2, [(18, read_message W (decode_date W) (\<lambda>v. m\<lparr>RefreshTokenMetadata_expiresAt := Some v\<rparr>) r)]),
        (3, [(26, read_field (get_string W) (\<lambda>v. m\<lparr>RefreshTokenMetadata_deviceName := Some v\<rparr>) r)]),
        (4, [(32, read_field (get_bool W) (\<lambda>v. m\<lparr>RefreshTokenMetadata_isThisDevice := v\<rparr>) r)]),
        (5, [(40, read_field (get_bool W) (\<lambda>v. m\<lparr>RefreshTokenMetadata_thirdParty := v\<rparr>) r)])]"

definition decode_RefreshTokenMetadata :: "wire \<Rightarrow> reader \<Rightarrow> int option \<Rightarrow> (RefreshTokenMetadata \<times> reader) run" where
  "decode_RefreshTokenMetadata W = decode_message W (switch_RefreshTokenMetadata W) base_RefreshTokenMetadata"

definition safe_RefreshTokenMetadata :: "wire \<Rightarrow> RefreshTokenMetadata \<Rightarrow> bool" where
  "safe_RefreshTokenMetadata W m \<longleftrightarrow>
     safe_long (RefreshTokenMetadata_id m) \<and>
     pred_option canonical_date (RefreshTokenMetadata_expiresAt m)"

lemma builds_RefreshTokenMetadata:
  assumes "wire_format W" "safe_RefreshTokenMetadata W m" "encode_RefreshTokenMetadata W m [] = Inr b"
  shows "builds W (switch_RefreshTokenMetadata W) base_RefreshTokenMetadata m b"
proof (rule message_builds [OF assms(3) [unfolded encode_RefreshTokenMetadata_def]])
  show "foldl (\<lambda>m u. u m) base_RefreshTokenMetadata
      [plain RefreshTokenMetadata_id_update (RefreshTokenMetadata_id m) 0,
       given RefreshTokenMetadata_expiresAt_update (RefreshTokenMetadata_expiresAt m),
       given RefreshTokenMetadata_deviceName_update (RefreshTokenMetadata_deviceName m),
       plain RefreshTokenMetadata_isThisDevice_update (RefreshTokenMetadata_isThisDevice m) False,
       plain RefreshTokenMetadata_thirdParty_update (RefreshTokenMetadata_thirdParty m) False] = m"
    by (cases m) (simp add: field_changes base_RefreshTokenMetadata_def)
qed (insert assms(1,2),
    (rule wire_fields message_codecs | (simp add: updater_def switch_RefreshTokenMetadata_def safe_RefreshTokenMetadata_def list_all_iff; fail))+)

lemma decodes_RefreshTokenMetadata [message_codecs]:
  assumes "wire_format W" "safe_RefreshTokenMetadata W m" "encode_RefreshTokenMetadata W m [] = Inr b"
  shows "decodes (decode_RefreshTokenMetadata W) m b"
  unfolding decode_RefreshTokenMetadata_def by (rule builds_decodes [OF builds_RefreshTokenMetadata [OF assms]])

lemma settles_RefreshTokenMetadata [message_returns]: "wire_format W \<Longrightarrow> settles k (decode_RefreshTokenMetadata W)"
  unfolding decode_RefreshTokenMetadata_def
  by (rule wire_format.settles_message, assumption,
      unfold switch_RefreshTokenMetadata_def switch_field.simps switch_alternatives.simps)
    (rule wire_ends message_returns | assumption)+

section \<open>UserRefreshTokensResponse\<close>

record UserRefreshTokensResponse =
  UserRefreshTokensResponse_refreshTokens :: "RefreshTokenMetadata list"

definition base_UserRefreshTokensResponse :: UserRefreshTokensResponse where
  "base_UserRefreshTokensResponse =
     \<lparr>UserRefreshTokensResponse_refreshTokens = []\<rparr>"

definition encode_UserRefreshTokensResponse :: "wire \<Rightarrow> UserRefreshTokensResponse \<Rightarrow> bytes \<Rightarrow> bytes result" where
  "encode_UserRefreshTokensResponse W m =
     write_all
       [write_each (UserRefreshTokensResponse_refreshTokens m) (\<lambda>v. nested W 10 (encode_RefreshTokenMetadata W v))]"

definition switch_UserRefreshTokensResponse :: "wire \<Rightarrow> int \<Rightarrow> reader \<Rightarrow> UserRefreshTokensResponse \<Rightarrow> UserRefreshTokensResponse loop_step run" where
  "switch_UserRefreshTokensResponse W tag r m =
     switch_field tag
       [(1, [(10, read_message W (decode_RefreshTokenMetadata W) (\<lambda>v. UserRefreshTokensResponse_refreshTokens_update (\<lambda>old. old @ [v]) m) r)])]"

definition decode_UserRefreshTokensResponse :: "wire \<Rightarrow> reader \<Rightarrow> int option \<Rightarrow> (UserRefreshTokensResponse \<times> reader) run" where
  "decode_UserRefreshTokensResponse W = decode_message W (switch_UserRefreshTokensResponse W) base_UserRefreshTokensResponse"

definition safe_UserRefreshTokensResponse :: "wire \<Rightarrow> UserRefreshTokensResponse \<Rightarrow> bool" where
  "safe_UserRefreshTokensResponse W m \<longleftrightarrow>
     list_all (safe_RefreshTokenMetadata W) (UserRefreshTokensResponse_refreshTokens m)"

lemma builds_UserRefreshTokensResponse:
  assumes "wire_format W" "safe_UserRefreshTokensResponse W m" "encode_UserRefreshTokensResponse W m [] = Inr b"
  shows "builds W (switch_UserRefreshTokensResponse W) base_UserRefreshTokensResponse m b"
proof (rule message_builds [OF assms(3) [unfolded encode_UserRefreshTokensResponse_def]])
  show "foldl (\<lambda>m u. u m) base_UserRefreshTokensResponse
      [pushed UserRefreshTokensResponse_refreshTokens_update (UserRefreshTokensResponse_refreshTokens m)] = m"
    by (cases m) (simp add: field_changes base_UserRefreshTokensResponse_def)
qed (insert assms(1,2),
    (rule wire_fields message_codecs | (simp add: updater_def switch_UserRefreshTokensResponse_def safe_UserRefreshTokensResponse_def list_all_iff; fail))+)

lemma decodes_UserRefreshTokensResponse [message_codecs]:
  assumes "wire_format W" "safe_UserRefreshTokensResponse W m" "encode_UserRefreshTokensResponse W m [] = Inr b"
  shows "decodes (decode_UserRefreshTokensResponse W) m b"
  unfolding decode_UserRefreshTokensResponse_def by (rule builds_decodes [OF builds_UserRefreshTokensResponse [OF assms]])

lemma settles_UserRefreshTokensResponse [message_returns]: "wire_format W \<Longrightarrow> settles k (decode_UserRefreshTokensResponse W)"
  unfolding decode_UserRefreshTokensResponse_def
  by (rule wire_format.settles_message, assumption,
      unfold switch_UserRefreshTokensResponse_def switch_field.simps switch_alternatives.simps)
    (rule wire_ends message_returns | assumption)+

end
