(* ===== verification/Wire_Groups.thy ===== *)
theory Wire_Groups
  imports Wire_Users
begin

text \<open>
  The codecs of packages/api/generated/groups.ts: of each message the record, the empty message, writing, reading, and that
  reading what was written gives the message back.
\<close>

section \<open>Group\<close>

record Group =
  Group_id :: string
  Group_name :: string
  Group_shortname :: string
  Group_description :: string
  Group_avatar :: "MediaReference option"
  Group_defaultMembershipPermissions :: "int list"
  Group_defaultMembershipModeration :: int
  Group_defaultPostModeration :: int
  Group_defaultEventModeration :: int
  Group_visibility :: int
  Group_memberCount :: int
  Group_postCount :: int
  Group_eventCount :: int
  Group_nonMemberPermissions :: "int list"
  Group_currentUserMembership :: "Membership option"
  Group_createdAt :: "string option"
  Group_updatedAt :: "string option"

definition base_Group :: Group where
  "base_Group =
     \<lparr>Group_id = [],
      Group_name = [],
      Group_shortname = [],
      Group_description = [],
      Group_avatar = None,
      Group_defaultMembershipPermissions = [],
      Group_defaultMembershipModeration = 0,
      Group_defaultPostModeration = 0,
      Group_defaultEventModeration = 0,
      Group_visibility = 0,
      Group_memberCount = 0,
      Group_postCount = 0,
      Group_eventCount = 0,
      Group_nonMemberPermissions = [],
      Group_currentUserMembership = None,
      Group_createdAt = None,
      Group_updatedAt = None\<rparr>"

definition encode_Group :: "wire \<Rightarrow> Group \<Rightarrow> bytes \<Rightarrow> bytes result" where
  "encode_Group W m =
     write_all
       [write_when (Group_id m \<noteq> []) (tagged W 10 (put_string W (Group_id m))),
        write_when (Group_name m \<noteq> []) (tagged W 18 (put_string W (Group_name m))),
        write_when (Group_shortname m \<noteq> []) (tagged W 26 (put_string W (Group_shortname m))),
        write_when (Group_description m \<noteq> []) (tagged W 34 (put_string W (Group_description m))),
        write_given (Group_avatar m) (\<lambda>v. nested W 42 (encode_MediaReference W v)),
        packed W 50 (put_int32 W) (Group_defaultMembershipPermissions m),
        write_when (Group_defaultMembershipModeration m \<noteq> 0) (tagged W 56 (put_int32 W (Group_defaultMembershipModeration m))),
        write_when (Group_defaultPostModeration m \<noteq> 0) (tagged W 64 (put_int32 W (Group_defaultPostModeration m))),
        write_when (Group_defaultEventModeration m \<noteq> 0) (tagged W 72 (put_int32 W (Group_defaultEventModeration m))),
        write_when (Group_visibility m \<noteq> 0) (tagged W 80 (put_int32 W (Group_visibility m))),
        write_when (Group_memberCount m \<noteq> 0) (tagged W 88 (put_uint32 W (Group_memberCount m))),
        write_when (Group_postCount m \<noteq> 0) (tagged W 96 (put_uint32 W (Group_postCount m))),
        write_when (Group_eventCount m \<noteq> 0) (tagged W 104 (put_uint32 W (Group_eventCount m))),
        packed W 146 (put_int32 W) (Group_nonMemberPermissions m),
        write_given (Group_currentUserMembership m) (\<lambda>v. nested W 154 (encode_Membership W v)),
        write_given (Group_createdAt m) (\<lambda>v. nested W 162 (encode_date W v)),
        write_given (Group_updatedAt m) (\<lambda>v. nested W 170 (encode_date W v))]"

definition switch_Group :: "wire \<Rightarrow> int \<Rightarrow> reader \<Rightarrow> Group \<Rightarrow> Group loop_step run" where
  "switch_Group W tag r m =
     switch_field tag
       [(1, [(10, read_field (get_string W) (\<lambda>v. m\<lparr>Group_id := v\<rparr>) r)]),
        (2, [(18, read_field (get_string W) (\<lambda>v. m\<lparr>Group_name := v\<rparr>) r)]),
        (3, [(26, read_field (get_string W) (\<lambda>v. m\<lparr>Group_shortname := v\<rparr>) r)]),
        (4, [(34, read_field (get_string W) (\<lambda>v. m\<lparr>Group_description := v\<rparr>) r)]),
        (5, [(42, read_message W (decode_MediaReference W) (\<lambda>v. m\<lparr>Group_avatar := Some v\<rparr>) r)]),
        (6, [(48, read_field (get_int32 W) (\<lambda>v. Group_defaultMembershipPermissions_update (\<lambda>old. old @ [v]) m) r), (50, read_packed W (get_int32 W) (Group_defaultMembershipPermissions m) (\<lambda>vs. m\<lparr>Group_defaultMembershipPermissions := vs\<rparr>) r)]),
        (7, [(56, read_field (get_int32 W) (\<lambda>v. m\<lparr>Group_defaultMembershipModeration := v\<rparr>) r)]),
        (8, [(64, read_field (get_int32 W) (\<lambda>v. m\<lparr>Group_defaultPostModeration := v\<rparr>) r)]),
        (9, [(72, read_field (get_int32 W) (\<lambda>v. m\<lparr>Group_defaultEventModeration := v\<rparr>) r)]),
        (10, [(80, read_field (get_int32 W) (\<lambda>v. m\<lparr>Group_visibility := v\<rparr>) r)]),
        (11, [(88, read_field (get_uint32 W) (\<lambda>v. m\<lparr>Group_memberCount := v\<rparr>) r)]),
        (12, [(96, read_field (get_uint32 W) (\<lambda>v. m\<lparr>Group_postCount := v\<rparr>) r)]),
        (13, [(104, read_field (get_uint32 W) (\<lambda>v. m\<lparr>Group_eventCount := v\<rparr>) r)]),
        (18, [(144, read_field (get_int32 W) (\<lambda>v. Group_nonMemberPermissions_update (\<lambda>old. old @ [v]) m) r), (146, read_packed W (get_int32 W) (Group_nonMemberPermissions m) (\<lambda>vs. m\<lparr>Group_nonMemberPermissions := vs\<rparr>) r)]),
        (19, [(154, read_message W (decode_Membership W) (\<lambda>v. m\<lparr>Group_currentUserMembership := Some v\<rparr>) r)]),
        (20, [(162, read_message W (decode_date W) (\<lambda>v. m\<lparr>Group_createdAt := Some v\<rparr>) r)]),
        (21, [(170, read_message W (decode_date W) (\<lambda>v. m\<lparr>Group_updatedAt := Some v\<rparr>) r)])]"

definition decode_Group :: "wire \<Rightarrow> reader \<Rightarrow> int option \<Rightarrow> (Group \<times> reader) run" where
  "decode_Group W = decode_message W (switch_Group W) base_Group"

definition safe_Group :: "wire \<Rightarrow> Group \<Rightarrow> bool" where
  "safe_Group W m \<longleftrightarrow>
     pred_option (safe_MediaReference W) (Group_avatar m) \<and>
     pred_option (safe_Membership W) (Group_currentUserMembership m) \<and>
     pred_option canonical_date (Group_createdAt m) \<and>
     pred_option canonical_date (Group_updatedAt m)"

lemma builds_Group:
  assumes "wire_format W" "safe_Group W m" "encode_Group W m [] = Inr b"
  shows "builds W (switch_Group W) base_Group m b"
proof (rule message_builds [OF assms(3) [unfolded encode_Group_def]])
  show "foldl (\<lambda>m u. u m) base_Group
      [plain Group_id_update (Group_id m) [],
       plain Group_name_update (Group_name m) [],
       plain Group_shortname_update (Group_shortname m) [],
       plain Group_description_update (Group_description m) [],
       given Group_avatar_update (Group_avatar m),
       pushed Group_defaultMembershipPermissions_update (Group_defaultMembershipPermissions m),
       plain Group_defaultMembershipModeration_update (Group_defaultMembershipModeration m) 0,
       plain Group_defaultPostModeration_update (Group_defaultPostModeration m) 0,
       plain Group_defaultEventModeration_update (Group_defaultEventModeration m) 0,
       plain Group_visibility_update (Group_visibility m) 0,
       plain Group_memberCount_update (Group_memberCount m) 0,
       plain Group_postCount_update (Group_postCount m) 0,
       plain Group_eventCount_update (Group_eventCount m) 0,
       pushed Group_nonMemberPermissions_update (Group_nonMemberPermissions m),
       given Group_currentUserMembership_update (Group_currentUserMembership m),
       given Group_createdAt_update (Group_createdAt m),
       given Group_updatedAt_update (Group_updatedAt m)] = m"
    by (cases m) (simp add: field_changes base_Group_def)
qed (insert assms(1,2),
    (rule wire_fields message_codecs | (simp add: updater_def switch_Group_def safe_Group_def list_all_iff; fail))+)

lemma decodes_Group [message_codecs]:
  assumes "wire_format W" "safe_Group W m" "encode_Group W m [] = Inr b"
  shows "decodes (decode_Group W) m b"
  unfolding decode_Group_def by (rule builds_decodes [OF builds_Group [OF assms]])

lemma settles_Group [message_returns]: "wire_format W \<Longrightarrow> settles k (decode_Group W)"
  unfolding decode_Group_def
  by (rule wire_format.settles_message, assumption,
      unfold switch_Group_def switch_field.simps switch_alternatives.simps)
    (rule wire_ends message_returns | assumption)+

section \<open>GetGroupsRequest\<close>

record GetGroupsRequest =
  GetGroupsRequest_groupId :: "string option"
  GetGroupsRequest_groupName :: "string option"
  GetGroupsRequest_groupShortname :: "string option"
  GetGroupsRequest_listingType :: int
  GetGroupsRequest_page :: "int option"

definition base_GetGroupsRequest :: GetGroupsRequest where
  "base_GetGroupsRequest =
     \<lparr>GetGroupsRequest_groupId = None,
      GetGroupsRequest_groupName = None,
      GetGroupsRequest_groupShortname = None,
      GetGroupsRequest_listingType = 0,
      GetGroupsRequest_page = None\<rparr>"

definition encode_GetGroupsRequest :: "wire \<Rightarrow> GetGroupsRequest \<Rightarrow> bytes \<Rightarrow> bytes result" where
  "encode_GetGroupsRequest W m =
     write_all
       [write_given (GetGroupsRequest_groupId m) (\<lambda>v. tagged W 10 (put_string W v)),
        write_given (GetGroupsRequest_groupName m) (\<lambda>v. tagged W 18 (put_string W v)),
        write_given (GetGroupsRequest_groupShortname m) (\<lambda>v. tagged W 26 (put_string W v)),
        write_when (GetGroupsRequest_listingType m \<noteq> 0) (tagged W 80 (put_int32 W (GetGroupsRequest_listingType m))),
        write_given (GetGroupsRequest_page m) (\<lambda>v. tagged W 88 (put_int32 W v))]"

definition switch_GetGroupsRequest :: "wire \<Rightarrow> int \<Rightarrow> reader \<Rightarrow> GetGroupsRequest \<Rightarrow> GetGroupsRequest loop_step run" where
  "switch_GetGroupsRequest W tag r m =
     switch_field tag
       [(1, [(10, read_field (get_string W) (\<lambda>v. m\<lparr>GetGroupsRequest_groupId := Some v\<rparr>) r)]),
        (2, [(18, read_field (get_string W) (\<lambda>v. m\<lparr>GetGroupsRequest_groupName := Some v\<rparr>) r)]),
        (3, [(26, read_field (get_string W) (\<lambda>v. m\<lparr>GetGroupsRequest_groupShortname := Some v\<rparr>) r)]),
        (10, [(80, read_field (get_int32 W) (\<lambda>v. m\<lparr>GetGroupsRequest_listingType := v\<rparr>) r)]),
        (11, [(88, read_field (get_int32 W) (\<lambda>v. m\<lparr>GetGroupsRequest_page := Some v\<rparr>) r)])]"

definition decode_GetGroupsRequest :: "wire \<Rightarrow> reader \<Rightarrow> int option \<Rightarrow> (GetGroupsRequest \<times> reader) run" where
  "decode_GetGroupsRequest W = decode_message W (switch_GetGroupsRequest W) base_GetGroupsRequest"

lemma builds_GetGroupsRequest:
  assumes "wire_format W" "encode_GetGroupsRequest W m [] = Inr b"
  shows "builds W (switch_GetGroupsRequest W) base_GetGroupsRequest m b"
proof (rule message_builds [OF assms(2) [unfolded encode_GetGroupsRequest_def]])
  show "foldl (\<lambda>m u. u m) base_GetGroupsRequest
      [given GetGroupsRequest_groupId_update (GetGroupsRequest_groupId m),
       given GetGroupsRequest_groupName_update (GetGroupsRequest_groupName m),
       given GetGroupsRequest_groupShortname_update (GetGroupsRequest_groupShortname m),
       plain GetGroupsRequest_listingType_update (GetGroupsRequest_listingType m) 0,
       given GetGroupsRequest_page_update (GetGroupsRequest_page m)] = m"
    by (cases m) (simp add: field_changes base_GetGroupsRequest_def)
qed (insert assms(1),
    (rule wire_fields message_codecs | (simp add: updater_def switch_GetGroupsRequest_def list_all_iff; fail))+)

lemma decodes_GetGroupsRequest [message_codecs]:
  assumes "wire_format W" "encode_GetGroupsRequest W m [] = Inr b"
  shows "decodes (decode_GetGroupsRequest W) m b"
  unfolding decode_GetGroupsRequest_def by (rule builds_decodes [OF builds_GetGroupsRequest [OF assms]])

lemma settles_GetGroupsRequest [message_returns]: "wire_format W \<Longrightarrow> settles k (decode_GetGroupsRequest W)"
  unfolding decode_GetGroupsRequest_def
  by (rule wire_format.settles_message, assumption,
      unfold switch_GetGroupsRequest_def switch_field.simps switch_alternatives.simps)
    (rule wire_ends message_returns | assumption)+

section \<open>GetGroupsResponse\<close>

record GetGroupsResponse =
  GetGroupsResponse_groups :: "Group list"
  GetGroupsResponse_hasNextPage :: bool

definition base_GetGroupsResponse :: GetGroupsResponse where
  "base_GetGroupsResponse =
     \<lparr>GetGroupsResponse_groups = [],
      GetGroupsResponse_hasNextPage = False\<rparr>"

definition encode_GetGroupsResponse :: "wire \<Rightarrow> GetGroupsResponse \<Rightarrow> bytes \<Rightarrow> bytes result" where
  "encode_GetGroupsResponse W m =
     write_all
       [write_each (GetGroupsResponse_groups m) (\<lambda>v. nested W 10 (encode_Group W v)),
        write_when (GetGroupsResponse_hasNextPage m \<noteq> False) (tagged W 16 (put_bool W (GetGroupsResponse_hasNextPage m)))]"

definition switch_GetGroupsResponse :: "wire \<Rightarrow> int \<Rightarrow> reader \<Rightarrow> GetGroupsResponse \<Rightarrow> GetGroupsResponse loop_step run" where
  "switch_GetGroupsResponse W tag r m =
     switch_field tag
       [(1, [(10, read_message W (decode_Group W) (\<lambda>v. GetGroupsResponse_groups_update (\<lambda>old. old @ [v]) m) r)]),
        (2, [(16, read_field (get_bool W) (\<lambda>v. m\<lparr>GetGroupsResponse_hasNextPage := v\<rparr>) r)])]"

definition decode_GetGroupsResponse :: "wire \<Rightarrow> reader \<Rightarrow> int option \<Rightarrow> (GetGroupsResponse \<times> reader) run" where
  "decode_GetGroupsResponse W = decode_message W (switch_GetGroupsResponse W) base_GetGroupsResponse"

definition safe_GetGroupsResponse :: "wire \<Rightarrow> GetGroupsResponse \<Rightarrow> bool" where
  "safe_GetGroupsResponse W m \<longleftrightarrow>
     list_all (safe_Group W) (GetGroupsResponse_groups m)"

lemma builds_GetGroupsResponse:
  assumes "wire_format W" "safe_GetGroupsResponse W m" "encode_GetGroupsResponse W m [] = Inr b"
  shows "builds W (switch_GetGroupsResponse W) base_GetGroupsResponse m b"
proof (rule message_builds [OF assms(3) [unfolded encode_GetGroupsResponse_def]])
  show "foldl (\<lambda>m u. u m) base_GetGroupsResponse
      [pushed GetGroupsResponse_groups_update (GetGroupsResponse_groups m),
       plain GetGroupsResponse_hasNextPage_update (GetGroupsResponse_hasNextPage m) False] = m"
    by (cases m) (simp add: field_changes base_GetGroupsResponse_def)
qed (insert assms(1,2),
    (rule wire_fields message_codecs | (simp add: updater_def switch_GetGroupsResponse_def safe_GetGroupsResponse_def list_all_iff; fail))+)

lemma decodes_GetGroupsResponse [message_codecs]:
  assumes "wire_format W" "safe_GetGroupsResponse W m" "encode_GetGroupsResponse W m [] = Inr b"
  shows "decodes (decode_GetGroupsResponse W) m b"
  unfolding decode_GetGroupsResponse_def by (rule builds_decodes [OF builds_GetGroupsResponse [OF assms]])

lemma settles_GetGroupsResponse [message_returns]: "wire_format W \<Longrightarrow> settles k (decode_GetGroupsResponse W)"
  unfolding decode_GetGroupsResponse_def
  by (rule wire_format.settles_message, assumption,
      unfold switch_GetGroupsResponse_def switch_field.simps switch_alternatives.simps)
    (rule wire_ends message_returns | assumption)+

section \<open>Member\<close>

record Member =
  Member_user :: "User option"
  Member_membership :: "Membership option"

definition base_Member :: Member where
  "base_Member =
     \<lparr>Member_user = None,
      Member_membership = None\<rparr>"

definition encode_Member :: "wire \<Rightarrow> Member \<Rightarrow> bytes \<Rightarrow> bytes result" where
  "encode_Member W m =
     write_all
       [write_given (Member_user m) (\<lambda>v. nested W 10 (encode_User W v)),
        write_given (Member_membership m) (\<lambda>v. nested W 18 (encode_Membership W v))]"

definition switch_Member :: "wire \<Rightarrow> int \<Rightarrow> reader \<Rightarrow> Member \<Rightarrow> Member loop_step run" where
  "switch_Member W tag r m =
     switch_field tag
       [(1, [(10, read_message W (decode_User W) (\<lambda>v. m\<lparr>Member_user := Some v\<rparr>) r)]),
        (2, [(18, read_message W (decode_Membership W) (\<lambda>v. m\<lparr>Member_membership := Some v\<rparr>) r)])]"

definition decode_Member :: "wire \<Rightarrow> reader \<Rightarrow> int option \<Rightarrow> (Member \<times> reader) run" where
  "decode_Member W = decode_message W (switch_Member W) base_Member"

definition safe_Member :: "wire \<Rightarrow> Member \<Rightarrow> bool" where
  "safe_Member W m \<longleftrightarrow>
     pred_option (safe_User W) (Member_user m) \<and>
     pred_option (safe_Membership W) (Member_membership m)"

lemma builds_Member:
  assumes "wire_format W" "safe_Member W m" "encode_Member W m [] = Inr b"
  shows "builds W (switch_Member W) base_Member m b"
proof (rule message_builds [OF assms(3) [unfolded encode_Member_def]])
  show "foldl (\<lambda>m u. u m) base_Member
      [given Member_user_update (Member_user m),
       given Member_membership_update (Member_membership m)] = m"
    by (cases m) (simp add: field_changes base_Member_def)
qed (insert assms(1,2),
    (rule wire_fields message_codecs | (simp add: updater_def switch_Member_def safe_Member_def list_all_iff; fail))+)

lemma decodes_Member [message_codecs]:
  assumes "wire_format W" "safe_Member W m" "encode_Member W m [] = Inr b"
  shows "decodes (decode_Member W) m b"
  unfolding decode_Member_def by (rule builds_decodes [OF builds_Member [OF assms]])

lemma settles_Member [message_returns]: "wire_format W \<Longrightarrow> settles k (decode_Member W)"
  unfolding decode_Member_def
  by (rule wire_format.settles_message, assumption,
      unfold switch_Member_def switch_field.simps switch_alternatives.simps)
    (rule wire_ends message_returns | assumption)+

section \<open>GetMembersRequest\<close>

record GetMembersRequest =
  GetMembersRequest_groupId :: string
  GetMembersRequest_username :: "string option"
  GetMembersRequest_groupModeration :: "int option"
  GetMembersRequest_page :: "int option"

definition base_GetMembersRequest :: GetMembersRequest where
  "base_GetMembersRequest =
     \<lparr>GetMembersRequest_groupId = [],
      GetMembersRequest_username = None,
      GetMembersRequest_groupModeration = None,
      GetMembersRequest_page = None\<rparr>"

definition encode_GetMembersRequest :: "wire \<Rightarrow> GetMembersRequest \<Rightarrow> bytes \<Rightarrow> bytes result" where
  "encode_GetMembersRequest W m =
     write_all
       [write_when (GetMembersRequest_groupId m \<noteq> []) (tagged W 10 (put_string W (GetMembersRequest_groupId m))),
        write_given (GetMembersRequest_username m) (\<lambda>v. tagged W 18 (put_string W v)),
        write_given (GetMembersRequest_groupModeration m) (\<lambda>v. tagged W 24 (put_int32 W v)),
        write_given (GetMembersRequest_page m) (\<lambda>v. tagged W 80 (put_int32 W v))]"

definition switch_GetMembersRequest :: "wire \<Rightarrow> int \<Rightarrow> reader \<Rightarrow> GetMembersRequest \<Rightarrow> GetMembersRequest loop_step run" where
  "switch_GetMembersRequest W tag r m =
     switch_field tag
       [(1, [(10, read_field (get_string W) (\<lambda>v. m\<lparr>GetMembersRequest_groupId := v\<rparr>) r)]),
        (2, [(18, read_field (get_string W) (\<lambda>v. m\<lparr>GetMembersRequest_username := Some v\<rparr>) r)]),
        (3, [(24, read_field (get_int32 W) (\<lambda>v. m\<lparr>GetMembersRequest_groupModeration := Some v\<rparr>) r)]),
        (10, [(80, read_field (get_int32 W) (\<lambda>v. m\<lparr>GetMembersRequest_page := Some v\<rparr>) r)])]"

definition decode_GetMembersRequest :: "wire \<Rightarrow> reader \<Rightarrow> int option \<Rightarrow> (GetMembersRequest \<times> reader) run" where
  "decode_GetMembersRequest W = decode_message W (switch_GetMembersRequest W) base_GetMembersRequest"

lemma builds_GetMembersRequest:
  assumes "wire_format W" "encode_GetMembersRequest W m [] = Inr b"
  shows "builds W (switch_GetMembersRequest W) base_GetMembersRequest m b"
proof (rule message_builds [OF assms(2) [unfolded encode_GetMembersRequest_def]])
  show "foldl (\<lambda>m u. u m) base_GetMembersRequest
      [plain GetMembersRequest_groupId_update (GetMembersRequest_groupId m) [],
       given GetMembersRequest_username_update (GetMembersRequest_username m),
       given GetMembersRequest_groupModeration_update (GetMembersRequest_groupModeration m),
       given GetMembersRequest_page_update (GetMembersRequest_page m)] = m"
    by (cases m) (simp add: field_changes base_GetMembersRequest_def)
qed (insert assms(1),
    (rule wire_fields message_codecs | (simp add: updater_def switch_GetMembersRequest_def list_all_iff; fail))+)

lemma decodes_GetMembersRequest [message_codecs]:
  assumes "wire_format W" "encode_GetMembersRequest W m [] = Inr b"
  shows "decodes (decode_GetMembersRequest W) m b"
  unfolding decode_GetMembersRequest_def by (rule builds_decodes [OF builds_GetMembersRequest [OF assms]])

lemma settles_GetMembersRequest [message_returns]: "wire_format W \<Longrightarrow> settles k (decode_GetMembersRequest W)"
  unfolding decode_GetMembersRequest_def
  by (rule wire_format.settles_message, assumption,
      unfold switch_GetMembersRequest_def switch_field.simps switch_alternatives.simps)
    (rule wire_ends message_returns | assumption)+

section \<open>GetMembersResponse\<close>

record GetMembersResponse =
  GetMembersResponse_members :: "Member list"
  GetMembersResponse_hasNextPage :: bool

definition base_GetMembersResponse :: GetMembersResponse where
  "base_GetMembersResponse =
     \<lparr>GetMembersResponse_members = [],
      GetMembersResponse_hasNextPage = False\<rparr>"

definition encode_GetMembersResponse :: "wire \<Rightarrow> GetMembersResponse \<Rightarrow> bytes \<Rightarrow> bytes result" where
  "encode_GetMembersResponse W m =
     write_all
       [write_each (GetMembersResponse_members m) (\<lambda>v. nested W 10 (encode_Member W v)),
        write_when (GetMembersResponse_hasNextPage m \<noteq> False) (tagged W 16 (put_bool W (GetMembersResponse_hasNextPage m)))]"

definition switch_GetMembersResponse :: "wire \<Rightarrow> int \<Rightarrow> reader \<Rightarrow> GetMembersResponse \<Rightarrow> GetMembersResponse loop_step run" where
  "switch_GetMembersResponse W tag r m =
     switch_field tag
       [(1, [(10, read_message W (decode_Member W) (\<lambda>v. GetMembersResponse_members_update (\<lambda>old. old @ [v]) m) r)]),
        (2, [(16, read_field (get_bool W) (\<lambda>v. m\<lparr>GetMembersResponse_hasNextPage := v\<rparr>) r)])]"

definition decode_GetMembersResponse :: "wire \<Rightarrow> reader \<Rightarrow> int option \<Rightarrow> (GetMembersResponse \<times> reader) run" where
  "decode_GetMembersResponse W = decode_message W (switch_GetMembersResponse W) base_GetMembersResponse"

definition safe_GetMembersResponse :: "wire \<Rightarrow> GetMembersResponse \<Rightarrow> bool" where
  "safe_GetMembersResponse W m \<longleftrightarrow>
     list_all (safe_Member W) (GetMembersResponse_members m)"

lemma builds_GetMembersResponse:
  assumes "wire_format W" "safe_GetMembersResponse W m" "encode_GetMembersResponse W m [] = Inr b"
  shows "builds W (switch_GetMembersResponse W) base_GetMembersResponse m b"
proof (rule message_builds [OF assms(3) [unfolded encode_GetMembersResponse_def]])
  show "foldl (\<lambda>m u. u m) base_GetMembersResponse
      [pushed GetMembersResponse_members_update (GetMembersResponse_members m),
       plain GetMembersResponse_hasNextPage_update (GetMembersResponse_hasNextPage m) False] = m"
    by (cases m) (simp add: field_changes base_GetMembersResponse_def)
qed (insert assms(1,2),
    (rule wire_fields message_codecs | (simp add: updater_def switch_GetMembersResponse_def safe_GetMembersResponse_def list_all_iff; fail))+)

lemma decodes_GetMembersResponse [message_codecs]:
  assumes "wire_format W" "safe_GetMembersResponse W m" "encode_GetMembersResponse W m [] = Inr b"
  shows "decodes (decode_GetMembersResponse W) m b"
  unfolding decode_GetMembersResponse_def by (rule builds_decodes [OF builds_GetMembersResponse [OF assms]])

lemma settles_GetMembersResponse [message_returns]: "wire_format W \<Longrightarrow> settles k (decode_GetMembersResponse W)"
  unfolding decode_GetMembersResponse_def
  by (rule wire_format.settles_message, assumption,
      unfold switch_GetMembersResponse_def switch_field.simps switch_alternatives.simps)
    (rule wire_ends message_returns | assumption)+

end
