(* ===== verification/Wire_Location.thy ===== *)
theory Wire_Location
  imports Wire_Time
begin

text \<open>
  The codecs of packages/api/generated/location.ts: of each message the record, the empty message, writing, reading, and that
  reading what was written gives the message back.
\<close>

section \<open>Location\<close>

record Location =
  Location_id :: string
  Location_creatorId :: string
  Location_uniformlyFormattedAddress :: string

definition base_Location :: Location where
  "base_Location =
     \<lparr>Location_id = [],
      Location_creatorId = [],
      Location_uniformlyFormattedAddress = []\<rparr>"

definition encode_Location :: "wire \<Rightarrow> Location \<Rightarrow> bytes \<Rightarrow> bytes result" where
  "encode_Location W m =
     write_all
       [write_when (Location_id m \<noteq> []) (tagged W 10 (put_string W (Location_id m))),
        write_when (Location_creatorId m \<noteq> []) (tagged W 18 (put_string W (Location_creatorId m))),
        write_when (Location_uniformlyFormattedAddress m \<noteq> []) (tagged W 26 (put_string W (Location_uniformlyFormattedAddress m)))]"

definition switch_Location :: "wire \<Rightarrow> int \<Rightarrow> reader \<Rightarrow> Location \<Rightarrow> Location loop_step run" where
  "switch_Location W tag r m =
     switch_field tag
       [(1, [(10, read_field (get_string W) (\<lambda>v. m\<lparr>Location_id := v\<rparr>) r)]),
        (2, [(18, read_field (get_string W) (\<lambda>v. m\<lparr>Location_creatorId := v\<rparr>) r)]),
        (3, [(26, read_field (get_string W) (\<lambda>v. m\<lparr>Location_uniformlyFormattedAddress := v\<rparr>) r)])]"

definition decode_Location :: "wire \<Rightarrow> reader \<Rightarrow> int option \<Rightarrow> (Location \<times> reader) run" where
  "decode_Location W = decode_message W (switch_Location W) base_Location"

lemma builds_Location:
  assumes "wire_format W" "encode_Location W m [] = Inr b"
  shows "builds W (switch_Location W) base_Location m b"
proof (rule message_builds [OF assms(2) [unfolded encode_Location_def]])
  show "foldl (\<lambda>m u. u m) base_Location
      [plain Location_id_update (Location_id m) [],
       plain Location_creatorId_update (Location_creatorId m) [],
       plain Location_uniformlyFormattedAddress_update (Location_uniformlyFormattedAddress m) []] = m"
    by (cases m) (simp add: field_changes base_Location_def)
qed (insert assms(1),
    (rule wire_fields message_codecs | (simp add: updater_def switch_Location_def list_all_iff; fail))+)

lemma decodes_Location [message_codecs]:
  assumes "wire_format W" "encode_Location W m [] = Inr b"
  shows "decodes (decode_Location W) m b"
  unfolding decode_Location_def by (rule builds_decodes [OF builds_Location [OF assms]])

lemma settles_Location [message_returns]: "wire_format W \<Longrightarrow> settles k (decode_Location W)"
  unfolding decode_Location_def
  by (rule wire_format.settles_message, assumption,
      unfold switch_Location_def switch_field.simps switch_alternatives.simps)
    (rule wire_ends message_returns | assumption)+

end
