(* ===== verification/Wire_Posts.thy ===== *)
theory Wire_Posts
  imports Wire_Sync
begin

text \<open>
  The codecs of packages/api/generated/posts.ts: of each message the record, the empty message, writing, reading, and that
  reading what was written gives the message back.
\<close>

section \<open>GetPostsRequest\<close>

record GetPostsRequest =
  GetPostsRequest_postId :: "string option"
  GetPostsRequest_authorUserId :: "string option"
  GetPostsRequest_excludedAuthorUserIds :: "string list"
  GetPostsRequest_groupId :: "string option"
  GetPostsRequest_replyDepth :: "int option"
  GetPostsRequest_context :: "int option"
  GetPostsRequest_postIds :: "string option"
  GetPostsRequest_listingType :: int
  GetPostsRequest_page :: int
  GetPostsRequest_searchText :: "string option"
  GetPostsRequest_publishedOrCreatedBefore :: "string option"

definition base_GetPostsRequest :: GetPostsRequest where
  "base_GetPostsRequest =
     \<lparr>GetPostsRequest_postId = None,
      GetPostsRequest_authorUserId = None,
      GetPostsRequest_excludedAuthorUserIds = [],
      GetPostsRequest_groupId = None,
      GetPostsRequest_replyDepth = None,
      GetPostsRequest_context = None,
      GetPostsRequest_postIds = None,
      GetPostsRequest_listingType = 0,
      GetPostsRequest_page = 0,
      GetPostsRequest_searchText = None,
      GetPostsRequest_publishedOrCreatedBefore = None\<rparr>"

definition encode_GetPostsRequest :: "wire \<Rightarrow> GetPostsRequest \<Rightarrow> bytes \<Rightarrow> bytes result" where
  "encode_GetPostsRequest W m =
     write_all
       [write_given (GetPostsRequest_postId m) (\<lambda>v. tagged W 10 (put_string W v)),
        write_given (GetPostsRequest_authorUserId m) (\<lambda>v. tagged W 18 (put_string W v)),
        write_each (GetPostsRequest_excludedAuthorUserIds m) (\<lambda>v. tagged W 130 (put_string W v)),
        write_given (GetPostsRequest_groupId m) (\<lambda>v. tagged W 26 (put_string W v)),
        write_given (GetPostsRequest_replyDepth m) (\<lambda>v. tagged W 32 (put_uint32 W v)),
        write_given (GetPostsRequest_context m) (\<lambda>v. tagged W 40 (put_int32 W v)),
        write_given (GetPostsRequest_postIds m) (\<lambda>v. tagged W 74 (put_string W v)),
        write_when (GetPostsRequest_listingType m \<noteq> 0) (tagged W 80 (put_int32 W (GetPostsRequest_listingType m))),
        write_when (GetPostsRequest_page m \<noteq> 0) (tagged W 120 (put_uint32 W (GetPostsRequest_page m))),
        write_given (GetPostsRequest_searchText m) (\<lambda>v. tagged W 58 (put_string W v)),
        write_given (GetPostsRequest_publishedOrCreatedBefore m) (\<lambda>v. nested W 66 (encode_date W v))]"

definition switch_GetPostsRequest :: "wire \<Rightarrow> int \<Rightarrow> reader \<Rightarrow> GetPostsRequest \<Rightarrow> GetPostsRequest loop_step run" where
  "switch_GetPostsRequest W tag r m =
     switch_field tag
       [(1, [(10, read_field (get_string W) (\<lambda>v. m\<lparr>GetPostsRequest_postId := Some v\<rparr>) r)]),
        (2, [(18, read_field (get_string W) (\<lambda>v. m\<lparr>GetPostsRequest_authorUserId := Some v\<rparr>) r)]),
        (16, [(130, read_field (get_string W) (\<lambda>v. GetPostsRequest_excludedAuthorUserIds_update (\<lambda>old. old @ [v]) m) r)]),
        (3, [(26, read_field (get_string W) (\<lambda>v. m\<lparr>GetPostsRequest_groupId := Some v\<rparr>) r)]),
        (4, [(32, read_field (get_uint32 W) (\<lambda>v. m\<lparr>GetPostsRequest_replyDepth := Some v\<rparr>) r)]),
        (5, [(40, read_field (get_int32 W) (\<lambda>v. m\<lparr>GetPostsRequest_context := Some v\<rparr>) r)]),
        (9, [(74, read_field (get_string W) (\<lambda>v. m\<lparr>GetPostsRequest_postIds := Some v\<rparr>) r)]),
        (10, [(80, read_field (get_int32 W) (\<lambda>v. m\<lparr>GetPostsRequest_listingType := v\<rparr>) r)]),
        (15, [(120, read_field (get_uint32 W) (\<lambda>v. m\<lparr>GetPostsRequest_page := v\<rparr>) r)]),
        (7, [(58, read_field (get_string W) (\<lambda>v. m\<lparr>GetPostsRequest_searchText := Some v\<rparr>) r)]),
        (8, [(66, read_message W (decode_date W) (\<lambda>v. m\<lparr>GetPostsRequest_publishedOrCreatedBefore := Some v\<rparr>) r)])]"

definition decode_GetPostsRequest :: "wire \<Rightarrow> reader \<Rightarrow> int option \<Rightarrow> (GetPostsRequest \<times> reader) run" where
  "decode_GetPostsRequest W = decode_message W (switch_GetPostsRequest W) base_GetPostsRequest"

definition safe_GetPostsRequest :: "wire \<Rightarrow> GetPostsRequest \<Rightarrow> bool" where
  "safe_GetPostsRequest W m \<longleftrightarrow>
     pred_option canonical_date (GetPostsRequest_publishedOrCreatedBefore m)"

lemma builds_GetPostsRequest:
  assumes "wire_format W" "safe_GetPostsRequest W m" "encode_GetPostsRequest W m [] = Inr b"
  shows "builds W (switch_GetPostsRequest W) base_GetPostsRequest m b"
proof (rule message_builds [OF assms(3) [unfolded encode_GetPostsRequest_def]])
  show "foldl (\<lambda>m u. u m) base_GetPostsRequest
      [given GetPostsRequest_postId_update (GetPostsRequest_postId m),
       given GetPostsRequest_authorUserId_update (GetPostsRequest_authorUserId m),
       pushed GetPostsRequest_excludedAuthorUserIds_update (GetPostsRequest_excludedAuthorUserIds m),
       given GetPostsRequest_groupId_update (GetPostsRequest_groupId m),
       given GetPostsRequest_replyDepth_update (GetPostsRequest_replyDepth m),
       given GetPostsRequest_context_update (GetPostsRequest_context m),
       given GetPostsRequest_postIds_update (GetPostsRequest_postIds m),
       plain GetPostsRequest_listingType_update (GetPostsRequest_listingType m) 0,
       plain GetPostsRequest_page_update (GetPostsRequest_page m) 0,
       given GetPostsRequest_searchText_update (GetPostsRequest_searchText m),
       given GetPostsRequest_publishedOrCreatedBefore_update (GetPostsRequest_publishedOrCreatedBefore m)] = m"
    by (cases m) (simp add: field_changes base_GetPostsRequest_def)
qed (insert assms(1,2),
    (rule wire_fields message_codecs | (simp add: updater_def switch_GetPostsRequest_def safe_GetPostsRequest_def list_all_iff; fail))+)

lemma decodes_GetPostsRequest [message_codecs]:
  assumes "wire_format W" "safe_GetPostsRequest W m" "encode_GetPostsRequest W m [] = Inr b"
  shows "decodes (decode_GetPostsRequest W) m b"
  unfolding decode_GetPostsRequest_def by (rule builds_decodes [OF builds_GetPostsRequest [OF assms]])

lemma settles_GetPostsRequest [message_returns]: "wire_format W \<Longrightarrow> settles k (decode_GetPostsRequest W)"
  unfolding decode_GetPostsRequest_def
  by (rule wire_format.settles_message, assumption,
      unfold switch_GetPostsRequest_def switch_field.simps switch_alternatives.simps)
    (rule wire_ends message_returns | assumption)+

section \<open>GroupPost\<close>

record GroupPost =
  GroupPost_groupId :: string
  GroupPost_postId :: string
  GroupPost_userId :: string
  GroupPost_groupModeration :: int
  GroupPost_createdAt :: "string option"
  GroupPost_sharedBy :: "Author option"

definition base_GroupPost :: GroupPost where
  "base_GroupPost =
     \<lparr>GroupPost_groupId = [],
      GroupPost_postId = [],
      GroupPost_userId = [],
      GroupPost_groupModeration = 0,
      GroupPost_createdAt = None,
      GroupPost_sharedBy = None\<rparr>"

definition encode_GroupPost :: "wire \<Rightarrow> GroupPost \<Rightarrow> bytes \<Rightarrow> bytes result" where
  "encode_GroupPost W m =
     write_all
       [write_when (GroupPost_groupId m \<noteq> []) (tagged W 10 (put_string W (GroupPost_groupId m))),
        write_when (GroupPost_postId m \<noteq> []) (tagged W 18 (put_string W (GroupPost_postId m))),
        write_when (GroupPost_userId m \<noteq> []) (tagged W 26 (put_string W (GroupPost_userId m))),
        write_when (GroupPost_groupModeration m \<noteq> 0) (tagged W 32 (put_int32 W (GroupPost_groupModeration m))),
        write_given (GroupPost_createdAt m) (\<lambda>v. nested W 42 (encode_date W v)),
        write_given (GroupPost_sharedBy m) (\<lambda>v. nested W 50 (encode_Author W v))]"

definition switch_GroupPost :: "wire \<Rightarrow> int \<Rightarrow> reader \<Rightarrow> GroupPost \<Rightarrow> GroupPost loop_step run" where
  "switch_GroupPost W tag r m =
     switch_field tag
       [(1, [(10, read_field (get_string W) (\<lambda>v. m\<lparr>GroupPost_groupId := v\<rparr>) r)]),
        (2, [(18, read_field (get_string W) (\<lambda>v. m\<lparr>GroupPost_postId := v\<rparr>) r)]),
        (3, [(26, read_field (get_string W) (\<lambda>v. m\<lparr>GroupPost_userId := v\<rparr>) r)]),
        (4, [(32, read_field (get_int32 W) (\<lambda>v. m\<lparr>GroupPost_groupModeration := v\<rparr>) r)]),
        (5, [(42, read_message W (decode_date W) (\<lambda>v. m\<lparr>GroupPost_createdAt := Some v\<rparr>) r)]),
        (6, [(50, read_message W (decode_Author W) (\<lambda>v. m\<lparr>GroupPost_sharedBy := Some v\<rparr>) r)])]"

definition decode_GroupPost :: "wire \<Rightarrow> reader \<Rightarrow> int option \<Rightarrow> (GroupPost \<times> reader) run" where
  "decode_GroupPost W = decode_message W (switch_GroupPost W) base_GroupPost"

definition safe_GroupPost :: "wire \<Rightarrow> GroupPost \<Rightarrow> bool" where
  "safe_GroupPost W m \<longleftrightarrow>
     pred_option canonical_date (GroupPost_createdAt m) \<and>
     pred_option (safe_Author W) (GroupPost_sharedBy m)"

lemma builds_GroupPost:
  assumes "wire_format W" "safe_GroupPost W m" "encode_GroupPost W m [] = Inr b"
  shows "builds W (switch_GroupPost W) base_GroupPost m b"
proof (rule message_builds [OF assms(3) [unfolded encode_GroupPost_def]])
  show "foldl (\<lambda>m u. u m) base_GroupPost
      [plain GroupPost_groupId_update (GroupPost_groupId m) [],
       plain GroupPost_postId_update (GroupPost_postId m) [],
       plain GroupPost_userId_update (GroupPost_userId m) [],
       plain GroupPost_groupModeration_update (GroupPost_groupModeration m) 0,
       given GroupPost_createdAt_update (GroupPost_createdAt m),
       given GroupPost_sharedBy_update (GroupPost_sharedBy m)] = m"
    by (cases m) (simp add: field_changes base_GroupPost_def)
qed (insert assms(1,2),
    (rule wire_fields message_codecs | (simp add: updater_def switch_GroupPost_def safe_GroupPost_def list_all_iff; fail))+)

lemma decodes_GroupPost [message_codecs]:
  assumes "wire_format W" "safe_GroupPost W m" "encode_GroupPost W m [] = Inr b"
  shows "decodes (decode_GroupPost W) m b"
  unfolding decode_GroupPost_def by (rule builds_decodes [OF builds_GroupPost [OF assms]])

lemma settles_GroupPost [message_returns]: "wire_format W \<Longrightarrow> settles k (decode_GroupPost W)"
  unfolding decode_GroupPost_def
  by (rule wire_format.settles_message, assumption,
      unfold switch_GroupPost_def switch_field.simps switch_alternatives.simps)
    (rule wire_ends message_returns | assumption)+

section \<open>Post\<close>

record Post_fields =
  Post_id :: string
  Post_author :: "Author option"
  Post_replyToPostId :: "string option"
  Post_title :: "string option"
  Post_link :: "string option"
  Post_content :: "string option"
  Post_responseCount :: int
  Post_replyCount :: int
  Post_groupCount :: int
  Post_media :: "MediaReference list"
  Post_mediaGenerated :: bool
  Post_shareable :: bool
  Post_context :: int
  Post_visibility :: int
  Post_moderation :: int
  Post_postMediaLayout :: int
  Post_currentGroupPost :: "GroupPost option"
  Post_createdAt :: "string option"
  Post_updatedAt :: "string option"
  Post_publishedAt :: "string option"
  Post_lastActivityAt :: "string option"
  Post_unauthenticatedStarCount :: int
  Post_syncDestinations :: "SyncDestinationStatus list"
  Post_syncSource :: "SyncSource option"

text \<open>A post holds its replies and the post it quotes.\<close>

datatype Post =
  Post_of (Post_own: Post_fields) (Post_replies: "Post list") (Post_quotedPost: "Post option")

definition Post_upd :: "(Post_fields \<Rightarrow> Post_fields) \<Rightarrow> Post \<Rightarrow> Post" where
  "Post_upd f m = Post_of (f (Post_own m)) (Post_replies m) (Post_quotedPost m)"

definition Post_replies_upd :: "(Post list \<Rightarrow> Post list) \<Rightarrow> Post \<Rightarrow> Post" where
  "Post_replies_upd f m = Post_of (Post_own m) (f (Post_replies m)) (Post_quotedPost m)"

definition Post_quotedPost_upd :: "(Post option \<Rightarrow> Post option) \<Rightarrow> Post \<Rightarrow> Post" where
  "Post_quotedPost_upd f m = Post_of (Post_own m) (Post_replies m) (f (Post_quotedPost m))"

lemmas post_updates = Post_upd_def Post_replies_upd_def Post_quotedPost_upd_def

lemma post_updaters:
  "updater u \<Longrightarrow> updater (\<lambda>f. Post_upd (u f))" "updater Post_replies_upd" "updater Post_quotedPost_upd"
  by (simp_all add: updater_def post_updates)

definition base_Post :: Post where
  "base_Post =
     Post_of
       \<lparr>Post_id = [],
         Post_author = None,
         Post_replyToPostId = None,
         Post_title = None,
         Post_link = None,
         Post_content = None,
         Post_responseCount = 0,
         Post_replyCount = 0,
         Post_groupCount = 0,
         Post_media = [],
         Post_mediaGenerated = False,
         Post_shareable = False,
         Post_context = 0,
         Post_visibility = 0,
         Post_moderation = 0,
         Post_postMediaLayout = 0,
         Post_currentGroupPost = None,
         Post_createdAt = None,
         Post_updatedAt = None,
         Post_publishedAt = None,
         Post_lastActivityAt = None,
         Post_unauthenticatedStarCount = 0,
         Post_syncDestinations = [],
         Post_syncSource = None\<rparr>
       [] None"

lemma inner_post_smaller:
  "x \<in> set (Post_replies m) \<Longrightarrow> size x < size m" "Post_quotedPost m = Some y \<Longrightarrow> size y < size m"
  by (cases m; auto simp: less_Suc_eq_le intro: size_list_estimation' trans_le_add1)+

function encode_Post :: "wire \<Rightarrow> Post \<Rightarrow> bytes \<Rightarrow> bytes result" where
  "encode_Post W m =
     write_all
       [write_when (Post_id (Post_own m) \<noteq> []) (tagged W 10 (put_string W (Post_id (Post_own m)))),
        write_given (Post_author (Post_own m)) (\<lambda>v. nested W 18 (encode_Author W v)),
        write_given (Post_replyToPostId (Post_own m)) (\<lambda>v. tagged W 26 (put_string W v)),
        write_given (Post_title (Post_own m)) (\<lambda>v. tagged W 34 (put_string W v)),
        write_given (Post_link (Post_own m)) (\<lambda>v. tagged W 42 (put_string W v)),
        write_given (Post_content (Post_own m)) (\<lambda>v. tagged W 50 (put_string W v)),
        write_when (Post_responseCount (Post_own m) \<noteq> 0) (tagged W 56 (put_int32 W (Post_responseCount (Post_own m)))),
        write_when (Post_replyCount (Post_own m) \<noteq> 0) (tagged W 64 (put_int32 W (Post_replyCount (Post_own m)))),
        write_when (Post_groupCount (Post_own m) \<noteq> 0) (tagged W 72 (put_int32 W (Post_groupCount (Post_own m)))),
        write_each (Post_media (Post_own m)) (\<lambda>v. nested W 82 (encode_MediaReference W v)),
        write_when (Post_mediaGenerated (Post_own m) \<noteq> False) (tagged W 88 (put_bool W (Post_mediaGenerated (Post_own m)))),
        write_when (Post_shareable (Post_own m) \<noteq> False) (tagged W 104 (put_bool W (Post_shareable (Post_own m)))),
        write_when (Post_context (Post_own m) \<noteq> 0) (tagged W 112 (put_int32 W (Post_context (Post_own m)))),
        write_when (Post_visibility (Post_own m) \<noteq> 0) (tagged W 120 (put_int32 W (Post_visibility (Post_own m)))),
        write_when (Post_moderation (Post_own m) \<noteq> 0) (tagged W 128 (put_int32 W (Post_moderation (Post_own m)))),
        write_when (Post_postMediaLayout (Post_own m) \<noteq> 0) (tagged W 136 (put_int32 W (Post_postMediaLayout (Post_own m)))),
        write_given (Post_currentGroupPost (Post_own m)) (\<lambda>v. nested W 146 (encode_GroupPost W v)),
        write_each (Post_replies m) (\<lambda>v. nested W 154 (encode_Post W v)),
        write_given (Post_createdAt (Post_own m)) (\<lambda>v. nested W 162 (encode_date W v)),
        write_given (Post_updatedAt (Post_own m)) (\<lambda>v. nested W 170 (encode_date W v)),
        write_given (Post_publishedAt (Post_own m)) (\<lambda>v. nested W 178 (encode_date W v)),
        write_given (Post_lastActivityAt (Post_own m)) (\<lambda>v. nested W 186 (encode_date W v)),
        write_when (Post_unauthenticatedStarCount (Post_own m) \<noteq> 0) (tagged W 192 (put_int64 W (Post_unauthenticatedStarCount (Post_own m)))),
        write_each (Post_syncDestinations (Post_own m)) (\<lambda>v. nested W 202 (encode_SyncDestinationStatus W v)),
        write_given (Post_syncSource (Post_own m)) (\<lambda>v. nested W 210 (encode_SyncSource W v)),
        write_given (Post_quotedPost m) (\<lambda>v. nested W 218 (encode_Post W v))]"
  by pat_completeness auto

termination
  by (relation "measure (\<lambda>(W, m). size m)") (auto intro: inner_post_smaller)

declare encode_Post.simps [simp del]

definition switch_Post_with ::
  "(reader \<Rightarrow> int option \<Rightarrow> (Post \<times> reader) run) \<Rightarrow> wire \<Rightarrow> int \<Rightarrow> reader \<Rightarrow> Post \<Rightarrow> Post loop_step run"
where
  "switch_Post_with dec W tag r m =
     switch_field tag
       [(1, [(10, read_field (get_string W) (\<lambda>v. Post_upd (Post_id_update (\<lambda>_. v)) m) r)]),
        (2, [(18, read_message W (decode_Author W) (\<lambda>v. Post_upd (Post_author_update (\<lambda>_. Some v)) m) r)]),
        (3, [(26, read_field (get_string W) (\<lambda>v. Post_upd (Post_replyToPostId_update (\<lambda>_. Some v)) m) r)]),
        (4, [(34, read_field (get_string W) (\<lambda>v. Post_upd (Post_title_update (\<lambda>_. Some v)) m) r)]),
        (5, [(42, read_field (get_string W) (\<lambda>v. Post_upd (Post_link_update (\<lambda>_. Some v)) m) r)]),
        (6, [(50, read_field (get_string W) (\<lambda>v. Post_upd (Post_content_update (\<lambda>_. Some v)) m) r)]),
        (7, [(56, read_field (get_int32 W) (\<lambda>v. Post_upd (Post_responseCount_update (\<lambda>_. v)) m) r)]),
        (8, [(64, read_field (get_int32 W) (\<lambda>v. Post_upd (Post_replyCount_update (\<lambda>_. v)) m) r)]),
        (9, [(72, read_field (get_int32 W) (\<lambda>v. Post_upd (Post_groupCount_update (\<lambda>_. v)) m) r)]),
        (10, [(82, read_message W (decode_MediaReference W) (\<lambda>v. Post_upd (Post_media_update (\<lambda>old. old @ [v])) m) r)]),
        (11, [(88, read_field (get_bool W) (\<lambda>v. Post_upd (Post_mediaGenerated_update (\<lambda>_. v)) m) r)]),
        (13, [(104, read_field (get_bool W) (\<lambda>v. Post_upd (Post_shareable_update (\<lambda>_. v)) m) r)]),
        (14, [(112, read_field (get_int32 W) (\<lambda>v. Post_upd (Post_context_update (\<lambda>_. v)) m) r)]),
        (15, [(120, read_field (get_int32 W) (\<lambda>v. Post_upd (Post_visibility_update (\<lambda>_. v)) m) r)]),
        (16, [(128, read_field (get_int32 W) (\<lambda>v. Post_upd (Post_moderation_update (\<lambda>_. v)) m) r)]),
        (17, [(136, read_field (get_int32 W) (\<lambda>v. Post_upd (Post_postMediaLayout_update (\<lambda>_. v)) m) r)]),
        (18, [(146, read_message W (decode_GroupPost W) (\<lambda>v. Post_upd (Post_currentGroupPost_update (\<lambda>_. Some v)) m) r)]),
        (19, [(154, read_message W dec (\<lambda>v. Post_replies_upd (\<lambda>old. old @ [v]) m) r)]),
        (20, [(162, read_message W (decode_date W) (\<lambda>v. Post_upd (Post_createdAt_update (\<lambda>_. Some v)) m) r)]),
        (21, [(170, read_message W (decode_date W) (\<lambda>v. Post_upd (Post_updatedAt_update (\<lambda>_. Some v)) m) r)]),
        (22, [(178, read_message W (decode_date W) (\<lambda>v. Post_upd (Post_publishedAt_update (\<lambda>_. Some v)) m) r)]),
        (23, [(186, read_message W (decode_date W) (\<lambda>v. Post_upd (Post_lastActivityAt_update (\<lambda>_. Some v)) m) r)]),
        (24, [(192, read_field (get_long (get_int64 W)) (\<lambda>v. Post_upd (Post_unauthenticatedStarCount_update (\<lambda>_. v)) m) r)]),
        (25, [(202, read_message W (decode_SyncDestinationStatus W) (\<lambda>v. Post_upd (Post_syncDestinations_update (\<lambda>old. old @ [v])) m) r)]),
        (26, [(210, read_message W (decode_SyncSource W) (\<lambda>v. Post_upd (Post_syncSource_update (\<lambda>_. Some v)) m) r)]),
        (27, [(218, read_message W dec (\<lambda>v. Post_quotedPost_upd (\<lambda>_. Some v) m) r)])]"

lemma switch_Post_with_mono [partial_function_mono]:
  assumes "\<And>r len. mono_option (\<lambda>f. D f r len)"
  shows "mono_option (\<lambda>f. switch_Post_with (D f) W tag r m)"
  unfolding switch_Post_with_def switch_field.simps switch_alternatives.simps
  by (intro partial_function_mono option.const_mono assms)

partial_function (option) decode_Post :: "wire \<Rightarrow> reader \<Rightarrow> int option \<Rightarrow> (Post \<times> reader) run" where
  "decode_Post W r len =
     decode_message W (switch_Post_with (\<lambda>r' len'. decode_Post W r' len') W) base_Post r len"

function safe_Post :: "wire \<Rightarrow> Post \<Rightarrow> bool" where
  "safe_Post W m \<longleftrightarrow>
     pred_option (safe_Author W) (Post_author (Post_own m)) \<and>
     list_all (safe_MediaReference W) (Post_media (Post_own m)) \<and>
     pred_option (safe_GroupPost W) (Post_currentGroupPost (Post_own m)) \<and>
     list_all (safe_Post W) (Post_replies m) \<and>
     pred_option canonical_date (Post_createdAt (Post_own m)) \<and>
     pred_option canonical_date (Post_updatedAt (Post_own m)) \<and>
     pred_option canonical_date (Post_publishedAt (Post_own m)) \<and>
     pred_option canonical_date (Post_lastActivityAt (Post_own m)) \<and>
     safe_long (Post_unauthenticatedStarCount (Post_own m)) \<and>
     list_all (safe_SyncDestinationStatus W) (Post_syncDestinations (Post_own m)) \<and>
     pred_option (safe_SyncSource W) (Post_syncSource (Post_own m)) \<and>
     pred_option (safe_Post W) (Post_quotedPost m)"
  by pat_completeness auto

termination
  by (relation "measure (\<lambda>(W, m). size m)") (auto intro: inner_post_smaller)

declare safe_Post.simps [simp del]

lemma decodes_Post [message_codecs]:
  "wire_format W \<Longrightarrow> safe_Post W m \<Longrightarrow> encode_Post W m [] = Inr b \<Longrightarrow> decodes (decode_Post W) m b"
proof (induction m arbitrary: b rule: measure_induct_rule [where f = size])
  case (less m)
  have enc: "write_all
       [write_when (Post_id (Post_own m) \<noteq> []) (tagged W 10 (put_string W (Post_id (Post_own m)))),
        write_given (Post_author (Post_own m)) (\<lambda>v. nested W 18 (encode_Author W v)),
        write_given (Post_replyToPostId (Post_own m)) (\<lambda>v. tagged W 26 (put_string W v)),
        write_given (Post_title (Post_own m)) (\<lambda>v. tagged W 34 (put_string W v)),
        write_given (Post_link (Post_own m)) (\<lambda>v. tagged W 42 (put_string W v)),
        write_given (Post_content (Post_own m)) (\<lambda>v. tagged W 50 (put_string W v)),
        write_when (Post_responseCount (Post_own m) \<noteq> 0) (tagged W 56 (put_int32 W (Post_responseCount (Post_own m)))),
        write_when (Post_replyCount (Post_own m) \<noteq> 0) (tagged W 64 (put_int32 W (Post_replyCount (Post_own m)))),
        write_when (Post_groupCount (Post_own m) \<noteq> 0) (tagged W 72 (put_int32 W (Post_groupCount (Post_own m)))),
        write_each (Post_media (Post_own m)) (\<lambda>v. nested W 82 (encode_MediaReference W v)),
        write_when (Post_mediaGenerated (Post_own m) \<noteq> False) (tagged W 88 (put_bool W (Post_mediaGenerated (Post_own m)))),
        write_when (Post_shareable (Post_own m) \<noteq> False) (tagged W 104 (put_bool W (Post_shareable (Post_own m)))),
        write_when (Post_context (Post_own m) \<noteq> 0) (tagged W 112 (put_int32 W (Post_context (Post_own m)))),
        write_when (Post_visibility (Post_own m) \<noteq> 0) (tagged W 120 (put_int32 W (Post_visibility (Post_own m)))),
        write_when (Post_moderation (Post_own m) \<noteq> 0) (tagged W 128 (put_int32 W (Post_moderation (Post_own m)))),
        write_when (Post_postMediaLayout (Post_own m) \<noteq> 0) (tagged W 136 (put_int32 W (Post_postMediaLayout (Post_own m)))),
        write_given (Post_currentGroupPost (Post_own m)) (\<lambda>v. nested W 146 (encode_GroupPost W v)),
        write_each (Post_replies m) (\<lambda>v. nested W 154 (encode_Post W v)),
        write_given (Post_createdAt (Post_own m)) (\<lambda>v. nested W 162 (encode_date W v)),
        write_given (Post_updatedAt (Post_own m)) (\<lambda>v. nested W 170 (encode_date W v)),
        write_given (Post_publishedAt (Post_own m)) (\<lambda>v. nested W 178 (encode_date W v)),
        write_given (Post_lastActivityAt (Post_own m)) (\<lambda>v. nested W 186 (encode_date W v)),
        write_when (Post_unauthenticatedStarCount (Post_own m) \<noteq> 0) (tagged W 192 (put_int64 W (Post_unauthenticatedStarCount (Post_own m)))),
        write_each (Post_syncDestinations (Post_own m)) (\<lambda>v. nested W 202 (encode_SyncDestinationStatus W v)),
        write_given (Post_syncSource (Post_own m)) (\<lambda>v. nested W 210 (encode_SyncSource W v)),
        write_given (Post_quotedPost m) (\<lambda>v. nested W 218 (encode_Post W v))] [] = Inr b"
    using less.prems(3) unfolding encode_Post.simps [of W m] .
  have dec: "decode_Post W = decode_message W (switch_Post_with (decode_Post W) W) base_Post"
    by (intro ext) (rule decode_Post.simps)
  have inner: "decodes (decode_Post W) x c"
    if "x \<in> set (Post_replies m) \<or> Post_quotedPost m = Some x" "encode_Post W x [] = Inr c" for x c
    using that less.prems(1,2)
    by (intro less.IH) (auto simp: safe_Post.simps [of W m] list_all_iff intro: inner_post_smaller)
  show ?case
  proof (subst dec, rule message_decodes [OF enc])
    show "foldl (\<lambda>m u. u m) base_Post
        [plain (\<lambda>f. Post_upd (Post_id_update f)) (Post_id (Post_own m)) [],
       given (\<lambda>f. Post_upd (Post_author_update f)) (Post_author (Post_own m)),
       given (\<lambda>f. Post_upd (Post_replyToPostId_update f)) (Post_replyToPostId (Post_own m)),
       given (\<lambda>f. Post_upd (Post_title_update f)) (Post_title (Post_own m)),
       given (\<lambda>f. Post_upd (Post_link_update f)) (Post_link (Post_own m)),
       given (\<lambda>f. Post_upd (Post_content_update f)) (Post_content (Post_own m)),
       plain (\<lambda>f. Post_upd (Post_responseCount_update f)) (Post_responseCount (Post_own m)) 0,
       plain (\<lambda>f. Post_upd (Post_replyCount_update f)) (Post_replyCount (Post_own m)) 0,
       plain (\<lambda>f. Post_upd (Post_groupCount_update f)) (Post_groupCount (Post_own m)) 0,
       pushed (\<lambda>f. Post_upd (Post_media_update f)) (Post_media (Post_own m)),
       plain (\<lambda>f. Post_upd (Post_mediaGenerated_update f)) (Post_mediaGenerated (Post_own m)) False,
       plain (\<lambda>f. Post_upd (Post_shareable_update f)) (Post_shareable (Post_own m)) False,
       plain (\<lambda>f. Post_upd (Post_context_update f)) (Post_context (Post_own m)) 0,
       plain (\<lambda>f. Post_upd (Post_visibility_update f)) (Post_visibility (Post_own m)) 0,
       plain (\<lambda>f. Post_upd (Post_moderation_update f)) (Post_moderation (Post_own m)) 0,
       plain (\<lambda>f. Post_upd (Post_postMediaLayout_update f)) (Post_postMediaLayout (Post_own m)) 0,
       given (\<lambda>f. Post_upd (Post_currentGroupPost_update f)) (Post_currentGroupPost (Post_own m)),
       pushed Post_replies_upd (Post_replies m),
       given (\<lambda>f. Post_upd (Post_createdAt_update f)) (Post_createdAt (Post_own m)),
       given (\<lambda>f. Post_upd (Post_updatedAt_update f)) (Post_updatedAt (Post_own m)),
       given (\<lambda>f. Post_upd (Post_publishedAt_update f)) (Post_publishedAt (Post_own m)),
       given (\<lambda>f. Post_upd (Post_lastActivityAt_update f)) (Post_lastActivityAt (Post_own m)),
       plain (\<lambda>f. Post_upd (Post_unauthenticatedStarCount_update f)) (Post_unauthenticatedStarCount (Post_own m)) 0,
       pushed (\<lambda>f. Post_upd (Post_syncDestinations_update f)) (Post_syncDestinations (Post_own m)),
       given (\<lambda>f. Post_upd (Post_syncSource_update f)) (Post_syncSource (Post_own m)),
       given Post_quotedPost_upd (Post_quotedPost m)] = m"
      by (cases m) (simp add: field_changes base_Post_def post_updates)
  qed (insert less.prems(1,2), (rule wire_fields inner message_codecs post_updaters |
      (simp add: updater_def switch_Post_with_def safe_Post.simps [of W m] post_updates list_all_iff; fail))+)
qed

lemma settles_Post [message_returns]: "wire_format W \<Longrightarrow> settles k (decode_Post W)"
proof (induction k)
  case (Suc k)
  have dec: "decode_Post W = decode_message W (switch_Post_with (decode_Post W) W) base_Post"
    by (intro ext) (rule decode_Post.simps)
  show ?case
    by (subst dec, rule wire_format.settles_Suc_message [OF Suc.prems],
        unfold switch_Post_with_def switch_field.simps switch_alternatives.simps, insert Suc.prems)
      (rule Suc.IH wire_ends message_returns | assumption)+
qed (simp add: settles_def close_def)

section \<open>GetPostsResponse\<close>

record GetPostsResponse =
  GetPostsResponse_posts :: "Post list"

definition base_GetPostsResponse :: GetPostsResponse where
  "base_GetPostsResponse =
     \<lparr>GetPostsResponse_posts = []\<rparr>"

definition encode_GetPostsResponse :: "wire \<Rightarrow> GetPostsResponse \<Rightarrow> bytes \<Rightarrow> bytes result" where
  "encode_GetPostsResponse W m =
     write_all
       [write_each (GetPostsResponse_posts m) (\<lambda>v. nested W 10 (encode_Post W v))]"

definition switch_GetPostsResponse :: "wire \<Rightarrow> int \<Rightarrow> reader \<Rightarrow> GetPostsResponse \<Rightarrow> GetPostsResponse loop_step run" where
  "switch_GetPostsResponse W tag r m =
     switch_field tag
       [(1, [(10, read_message W (decode_Post W) (\<lambda>v. GetPostsResponse_posts_update (\<lambda>old. old @ [v]) m) r)])]"

definition decode_GetPostsResponse :: "wire \<Rightarrow> reader \<Rightarrow> int option \<Rightarrow> (GetPostsResponse \<times> reader) run" where
  "decode_GetPostsResponse W = decode_message W (switch_GetPostsResponse W) base_GetPostsResponse"

definition safe_GetPostsResponse :: "wire \<Rightarrow> GetPostsResponse \<Rightarrow> bool" where
  "safe_GetPostsResponse W m \<longleftrightarrow>
     list_all (safe_Post W) (GetPostsResponse_posts m)"

lemma builds_GetPostsResponse:
  assumes "wire_format W" "safe_GetPostsResponse W m" "encode_GetPostsResponse W m [] = Inr b"
  shows "builds W (switch_GetPostsResponse W) base_GetPostsResponse m b"
proof (rule message_builds [OF assms(3) [unfolded encode_GetPostsResponse_def]])
  show "foldl (\<lambda>m u. u m) base_GetPostsResponse
      [pushed GetPostsResponse_posts_update (GetPostsResponse_posts m)] = m"
    by (cases m) (simp add: field_changes base_GetPostsResponse_def)
qed (insert assms(1,2),
    (rule wire_fields message_codecs | (simp add: updater_def switch_GetPostsResponse_def safe_GetPostsResponse_def list_all_iff; fail))+)

lemma decodes_GetPostsResponse [message_codecs]:
  assumes "wire_format W" "safe_GetPostsResponse W m" "encode_GetPostsResponse W m [] = Inr b"
  shows "decodes (decode_GetPostsResponse W) m b"
  unfolding decode_GetPostsResponse_def by (rule builds_decodes [OF builds_GetPostsResponse [OF assms]])

lemma settles_GetPostsResponse [message_returns]: "wire_format W \<Longrightarrow> settles k (decode_GetPostsResponse W)"
  unfolding decode_GetPostsResponse_def
  by (rule wire_format.settles_message, assumption,
      unfold switch_GetPostsResponse_def switch_field.simps switch_alternatives.simps)
    (rule wire_ends message_returns | assumption)+

section \<open>SyncPostRequest\<close>

record SyncPostRequest =
  SyncPostRequest_postId :: string
  SyncPostRequest_syncDestinationId :: string

definition base_SyncPostRequest :: SyncPostRequest where
  "base_SyncPostRequest =
     \<lparr>SyncPostRequest_postId = [],
      SyncPostRequest_syncDestinationId = []\<rparr>"

definition encode_SyncPostRequest :: "wire \<Rightarrow> SyncPostRequest \<Rightarrow> bytes \<Rightarrow> bytes result" where
  "encode_SyncPostRequest W m =
     write_all
       [write_when (SyncPostRequest_postId m \<noteq> []) (tagged W 10 (put_string W (SyncPostRequest_postId m))),
        write_when (SyncPostRequest_syncDestinationId m \<noteq> []) (tagged W 18 (put_string W (SyncPostRequest_syncDestinationId m)))]"

definition switch_SyncPostRequest :: "wire \<Rightarrow> int \<Rightarrow> reader \<Rightarrow> SyncPostRequest \<Rightarrow> SyncPostRequest loop_step run" where
  "switch_SyncPostRequest W tag r m =
     switch_field tag
       [(1, [(10, read_field (get_string W) (\<lambda>v. m\<lparr>SyncPostRequest_postId := v\<rparr>) r)]),
        (2, [(18, read_field (get_string W) (\<lambda>v. m\<lparr>SyncPostRequest_syncDestinationId := v\<rparr>) r)])]"

definition decode_SyncPostRequest :: "wire \<Rightarrow> reader \<Rightarrow> int option \<Rightarrow> (SyncPostRequest \<times> reader) run" where
  "decode_SyncPostRequest W = decode_message W (switch_SyncPostRequest W) base_SyncPostRequest"

lemma builds_SyncPostRequest:
  assumes "wire_format W" "encode_SyncPostRequest W m [] = Inr b"
  shows "builds W (switch_SyncPostRequest W) base_SyncPostRequest m b"
proof (rule message_builds [OF assms(2) [unfolded encode_SyncPostRequest_def]])
  show "foldl (\<lambda>m u. u m) base_SyncPostRequest
      [plain SyncPostRequest_postId_update (SyncPostRequest_postId m) [],
       plain SyncPostRequest_syncDestinationId_update (SyncPostRequest_syncDestinationId m) []] = m"
    by (cases m) (simp add: field_changes base_SyncPostRequest_def)
qed (insert assms(1),
    (rule wire_fields message_codecs | (simp add: updater_def switch_SyncPostRequest_def list_all_iff; fail))+)

lemma decodes_SyncPostRequest [message_codecs]:
  assumes "wire_format W" "encode_SyncPostRequest W m [] = Inr b"
  shows "decodes (decode_SyncPostRequest W) m b"
  unfolding decode_SyncPostRequest_def by (rule builds_decodes [OF builds_SyncPostRequest [OF assms]])

lemma settles_SyncPostRequest [message_returns]: "wire_format W \<Longrightarrow> settles k (decode_SyncPostRequest W)"
  unfolding decode_SyncPostRequest_def
  by (rule wire_format.settles_message, assumption,
      unfold switch_SyncPostRequest_def switch_field.simps switch_alternatives.simps)
    (rule wire_ends message_returns | assumption)+

section \<open>DeletePostSyncDestinationRequest\<close>

record DeletePostSyncDestinationRequest =
  DeletePostSyncDestinationRequest_postId :: string
  DeletePostSyncDestinationRequest_syncDestinationId :: string

definition base_DeletePostSyncDestinationRequest :: DeletePostSyncDestinationRequest where
  "base_DeletePostSyncDestinationRequest =
     \<lparr>DeletePostSyncDestinationRequest_postId = [],
      DeletePostSyncDestinationRequest_syncDestinationId = []\<rparr>"

definition encode_DeletePostSyncDestinationRequest :: "wire \<Rightarrow> DeletePostSyncDestinationRequest \<Rightarrow> bytes \<Rightarrow> bytes result" where
  "encode_DeletePostSyncDestinationRequest W m =
     write_all
       [write_when (DeletePostSyncDestinationRequest_postId m \<noteq> []) (tagged W 10 (put_string W (DeletePostSyncDestinationRequest_postId m))),
        write_when (DeletePostSyncDestinationRequest_syncDestinationId m \<noteq> []) (tagged W 18 (put_string W (DeletePostSyncDestinationRequest_syncDestinationId m)))]"

definition switch_DeletePostSyncDestinationRequest :: "wire \<Rightarrow> int \<Rightarrow> reader \<Rightarrow> DeletePostSyncDestinationRequest \<Rightarrow> DeletePostSyncDestinationRequest loop_step run" where
  "switch_DeletePostSyncDestinationRequest W tag r m =
     switch_field tag
       [(1, [(10, read_field (get_string W) (\<lambda>v. m\<lparr>DeletePostSyncDestinationRequest_postId := v\<rparr>) r)]),
        (2, [(18, read_field (get_string W) (\<lambda>v. m\<lparr>DeletePostSyncDestinationRequest_syncDestinationId := v\<rparr>) r)])]"

definition decode_DeletePostSyncDestinationRequest :: "wire \<Rightarrow> reader \<Rightarrow> int option \<Rightarrow> (DeletePostSyncDestinationRequest \<times> reader) run" where
  "decode_DeletePostSyncDestinationRequest W = decode_message W (switch_DeletePostSyncDestinationRequest W) base_DeletePostSyncDestinationRequest"

lemma builds_DeletePostSyncDestinationRequest:
  assumes "wire_format W" "encode_DeletePostSyncDestinationRequest W m [] = Inr b"
  shows "builds W (switch_DeletePostSyncDestinationRequest W) base_DeletePostSyncDestinationRequest m b"
proof (rule message_builds [OF assms(2) [unfolded encode_DeletePostSyncDestinationRequest_def]])
  show "foldl (\<lambda>m u. u m) base_DeletePostSyncDestinationRequest
      [plain DeletePostSyncDestinationRequest_postId_update (DeletePostSyncDestinationRequest_postId m) [],
       plain DeletePostSyncDestinationRequest_syncDestinationId_update (DeletePostSyncDestinationRequest_syncDestinationId m) []] = m"
    by (cases m) (simp add: field_changes base_DeletePostSyncDestinationRequest_def)
qed (insert assms(1),
    (rule wire_fields message_codecs | (simp add: updater_def switch_DeletePostSyncDestinationRequest_def list_all_iff; fail))+)

lemma decodes_DeletePostSyncDestinationRequest [message_codecs]:
  assumes "wire_format W" "encode_DeletePostSyncDestinationRequest W m [] = Inr b"
  shows "decodes (decode_DeletePostSyncDestinationRequest W) m b"
  unfolding decode_DeletePostSyncDestinationRequest_def by (rule builds_decodes [OF builds_DeletePostSyncDestinationRequest [OF assms]])

lemma settles_DeletePostSyncDestinationRequest [message_returns]: "wire_format W \<Longrightarrow> settles k (decode_DeletePostSyncDestinationRequest W)"
  unfolding decode_DeletePostSyncDestinationRequest_def
  by (rule wire_format.settles_message, assumption,
      unfold switch_DeletePostSyncDestinationRequest_def switch_field.simps switch_alternatives.simps)
    (rule wire_ends message_returns | assumption)+

section \<open>UserPost\<close>

record UserPost =
  UserPost_userId :: string
  UserPost_postId :: string
  UserPost_createdAt :: "string option"

definition base_UserPost :: UserPost where
  "base_UserPost =
     \<lparr>UserPost_userId = [],
      UserPost_postId = [],
      UserPost_createdAt = None\<rparr>"

definition encode_UserPost :: "wire \<Rightarrow> UserPost \<Rightarrow> bytes \<Rightarrow> bytes result" where
  "encode_UserPost W m =
     write_all
       [write_when (UserPost_userId m \<noteq> []) (tagged W 10 (put_string W (UserPost_userId m))),
        write_when (UserPost_postId m \<noteq> []) (tagged W 18 (put_string W (UserPost_postId m))),
        write_given (UserPost_createdAt m) (\<lambda>v. nested W 26 (encode_date W v))]"

definition switch_UserPost :: "wire \<Rightarrow> int \<Rightarrow> reader \<Rightarrow> UserPost \<Rightarrow> UserPost loop_step run" where
  "switch_UserPost W tag r m =
     switch_field tag
       [(1, [(10, read_field (get_string W) (\<lambda>v. m\<lparr>UserPost_userId := v\<rparr>) r)]),
        (2, [(18, read_field (get_string W) (\<lambda>v. m\<lparr>UserPost_postId := v\<rparr>) r)]),
        (3, [(26, read_message W (decode_date W) (\<lambda>v. m\<lparr>UserPost_createdAt := Some v\<rparr>) r)])]"

definition decode_UserPost :: "wire \<Rightarrow> reader \<Rightarrow> int option \<Rightarrow> (UserPost \<times> reader) run" where
  "decode_UserPost W = decode_message W (switch_UserPost W) base_UserPost"

definition safe_UserPost :: "wire \<Rightarrow> UserPost \<Rightarrow> bool" where
  "safe_UserPost W m \<longleftrightarrow>
     pred_option canonical_date (UserPost_createdAt m)"

lemma builds_UserPost:
  assumes "wire_format W" "safe_UserPost W m" "encode_UserPost W m [] = Inr b"
  shows "builds W (switch_UserPost W) base_UserPost m b"
proof (rule message_builds [OF assms(3) [unfolded encode_UserPost_def]])
  show "foldl (\<lambda>m u. u m) base_UserPost
      [plain UserPost_userId_update (UserPost_userId m) [],
       plain UserPost_postId_update (UserPost_postId m) [],
       given UserPost_createdAt_update (UserPost_createdAt m)] = m"
    by (cases m) (simp add: field_changes base_UserPost_def)
qed (insert assms(1,2),
    (rule wire_fields message_codecs | (simp add: updater_def switch_UserPost_def safe_UserPost_def list_all_iff; fail))+)

lemma decodes_UserPost [message_codecs]:
  assumes "wire_format W" "safe_UserPost W m" "encode_UserPost W m [] = Inr b"
  shows "decodes (decode_UserPost W) m b"
  unfolding decode_UserPost_def by (rule builds_decodes [OF builds_UserPost [OF assms]])

lemma settles_UserPost [message_returns]: "wire_format W \<Longrightarrow> settles k (decode_UserPost W)"
  unfolding decode_UserPost_def
  by (rule wire_format.settles_message, assumption,
      unfold switch_UserPost_def switch_field.simps switch_alternatives.simps)
    (rule wire_ends message_returns | assumption)+

section \<open>GetGroupPostsRequest\<close>

record GetGroupPostsRequest =
  GetGroupPostsRequest_postId :: string
  GetGroupPostsRequest_groupId :: "string option"

definition base_GetGroupPostsRequest :: GetGroupPostsRequest where
  "base_GetGroupPostsRequest =
     \<lparr>GetGroupPostsRequest_postId = [],
      GetGroupPostsRequest_groupId = None\<rparr>"

definition encode_GetGroupPostsRequest :: "wire \<Rightarrow> GetGroupPostsRequest \<Rightarrow> bytes \<Rightarrow> bytes result" where
  "encode_GetGroupPostsRequest W m =
     write_all
       [write_when (GetGroupPostsRequest_postId m \<noteq> []) (tagged W 10 (put_string W (GetGroupPostsRequest_postId m))),
        write_given (GetGroupPostsRequest_groupId m) (\<lambda>v. tagged W 18 (put_string W v))]"

definition switch_GetGroupPostsRequest :: "wire \<Rightarrow> int \<Rightarrow> reader \<Rightarrow> GetGroupPostsRequest \<Rightarrow> GetGroupPostsRequest loop_step run" where
  "switch_GetGroupPostsRequest W tag r m =
     switch_field tag
       [(1, [(10, read_field (get_string W) (\<lambda>v. m\<lparr>GetGroupPostsRequest_postId := v\<rparr>) r)]),
        (2, [(18, read_field (get_string W) (\<lambda>v. m\<lparr>GetGroupPostsRequest_groupId := Some v\<rparr>) r)])]"

definition decode_GetGroupPostsRequest :: "wire \<Rightarrow> reader \<Rightarrow> int option \<Rightarrow> (GetGroupPostsRequest \<times> reader) run" where
  "decode_GetGroupPostsRequest W = decode_message W (switch_GetGroupPostsRequest W) base_GetGroupPostsRequest"

lemma builds_GetGroupPostsRequest:
  assumes "wire_format W" "encode_GetGroupPostsRequest W m [] = Inr b"
  shows "builds W (switch_GetGroupPostsRequest W) base_GetGroupPostsRequest m b"
proof (rule message_builds [OF assms(2) [unfolded encode_GetGroupPostsRequest_def]])
  show "foldl (\<lambda>m u. u m) base_GetGroupPostsRequest
      [plain GetGroupPostsRequest_postId_update (GetGroupPostsRequest_postId m) [],
       given GetGroupPostsRequest_groupId_update (GetGroupPostsRequest_groupId m)] = m"
    by (cases m) (simp add: field_changes base_GetGroupPostsRequest_def)
qed (insert assms(1),
    (rule wire_fields message_codecs | (simp add: updater_def switch_GetGroupPostsRequest_def list_all_iff; fail))+)

lemma decodes_GetGroupPostsRequest [message_codecs]:
  assumes "wire_format W" "encode_GetGroupPostsRequest W m [] = Inr b"
  shows "decodes (decode_GetGroupPostsRequest W) m b"
  unfolding decode_GetGroupPostsRequest_def by (rule builds_decodes [OF builds_GetGroupPostsRequest [OF assms]])

lemma settles_GetGroupPostsRequest [message_returns]: "wire_format W \<Longrightarrow> settles k (decode_GetGroupPostsRequest W)"
  unfolding decode_GetGroupPostsRequest_def
  by (rule wire_format.settles_message, assumption,
      unfold switch_GetGroupPostsRequest_def switch_field.simps switch_alternatives.simps)
    (rule wire_ends message_returns | assumption)+

section \<open>GetGroupPostsResponse\<close>

record GetGroupPostsResponse =
  GetGroupPostsResponse_groupPosts :: "GroupPost list"

definition base_GetGroupPostsResponse :: GetGroupPostsResponse where
  "base_GetGroupPostsResponse =
     \<lparr>GetGroupPostsResponse_groupPosts = []\<rparr>"

definition encode_GetGroupPostsResponse :: "wire \<Rightarrow> GetGroupPostsResponse \<Rightarrow> bytes \<Rightarrow> bytes result" where
  "encode_GetGroupPostsResponse W m =
     write_all
       [write_each (GetGroupPostsResponse_groupPosts m) (\<lambda>v. nested W 10 (encode_GroupPost W v))]"

definition switch_GetGroupPostsResponse :: "wire \<Rightarrow> int \<Rightarrow> reader \<Rightarrow> GetGroupPostsResponse \<Rightarrow> GetGroupPostsResponse loop_step run" where
  "switch_GetGroupPostsResponse W tag r m =
     switch_field tag
       [(1, [(10, read_message W (decode_GroupPost W) (\<lambda>v. GetGroupPostsResponse_groupPosts_update (\<lambda>old. old @ [v]) m) r)])]"

definition decode_GetGroupPostsResponse :: "wire \<Rightarrow> reader \<Rightarrow> int option \<Rightarrow> (GetGroupPostsResponse \<times> reader) run" where
  "decode_GetGroupPostsResponse W = decode_message W (switch_GetGroupPostsResponse W) base_GetGroupPostsResponse"

definition safe_GetGroupPostsResponse :: "wire \<Rightarrow> GetGroupPostsResponse \<Rightarrow> bool" where
  "safe_GetGroupPostsResponse W m \<longleftrightarrow>
     list_all (safe_GroupPost W) (GetGroupPostsResponse_groupPosts m)"

lemma builds_GetGroupPostsResponse:
  assumes "wire_format W" "safe_GetGroupPostsResponse W m" "encode_GetGroupPostsResponse W m [] = Inr b"
  shows "builds W (switch_GetGroupPostsResponse W) base_GetGroupPostsResponse m b"
proof (rule message_builds [OF assms(3) [unfolded encode_GetGroupPostsResponse_def]])
  show "foldl (\<lambda>m u. u m) base_GetGroupPostsResponse
      [pushed GetGroupPostsResponse_groupPosts_update (GetGroupPostsResponse_groupPosts m)] = m"
    by (cases m) (simp add: field_changes base_GetGroupPostsResponse_def)
qed (insert assms(1,2),
    (rule wire_fields message_codecs | (simp add: updater_def switch_GetGroupPostsResponse_def safe_GetGroupPostsResponse_def list_all_iff; fail))+)

lemma decodes_GetGroupPostsResponse [message_codecs]:
  assumes "wire_format W" "safe_GetGroupPostsResponse W m" "encode_GetGroupPostsResponse W m [] = Inr b"
  shows "decodes (decode_GetGroupPostsResponse W) m b"
  unfolding decode_GetGroupPostsResponse_def by (rule builds_decodes [OF builds_GetGroupPostsResponse [OF assms]])

lemma settles_GetGroupPostsResponse [message_returns]: "wire_format W \<Longrightarrow> settles k (decode_GetGroupPostsResponse W)"
  unfolding decode_GetGroupPostsResponse_def
  by (rule wire_format.settles_message, assumption,
      unfold switch_GetGroupPostsResponse_def switch_field.simps switch_alternatives.simps)
    (rule wire_ends message_returns | assumption)+

end
