(* ===== verification/Wire_Events.thy ===== *)
theory Wire_Events
  imports Wire_Location Wire_Posts Wire_Users
begin

text \<open>
  The codecs of packages/api/generated/events.ts: of each message the record, the empty message, writing, reading, and that
  reading what was written gives the message back.
\<close>

section \<open>TimeFilter\<close>

record TimeFilter =
  TimeFilter_startsAfter :: "string option"
  TimeFilter_endsAfter :: "string option"
  TimeFilter_startsBefore :: "string option"
  TimeFilter_endsBefore :: "string option"

definition base_TimeFilter :: TimeFilter where
  "base_TimeFilter =
     \<lparr>TimeFilter_startsAfter = None,
      TimeFilter_endsAfter = None,
      TimeFilter_startsBefore = None,
      TimeFilter_endsBefore = None\<rparr>"

definition encode_TimeFilter :: "wire \<Rightarrow> TimeFilter \<Rightarrow> bytes \<Rightarrow> bytes result" where
  "encode_TimeFilter W m =
     write_all
       [write_given (TimeFilter_startsAfter m) (\<lambda>v. nested W 10 (encode_date W v)),
        write_given (TimeFilter_endsAfter m) (\<lambda>v. nested W 18 (encode_date W v)),
        write_given (TimeFilter_startsBefore m) (\<lambda>v. nested W 26 (encode_date W v)),
        write_given (TimeFilter_endsBefore m) (\<lambda>v. nested W 34 (encode_date W v))]"

definition switch_TimeFilter :: "wire \<Rightarrow> int \<Rightarrow> reader \<Rightarrow> TimeFilter \<Rightarrow> TimeFilter loop_step run" where
  "switch_TimeFilter W tag r m =
     switch_field tag
       [(1, [(10, read_message W (decode_date W) (\<lambda>v. m\<lparr>TimeFilter_startsAfter := Some v\<rparr>) r)]),
        (2, [(18, read_message W (decode_date W) (\<lambda>v. m\<lparr>TimeFilter_endsAfter := Some v\<rparr>) r)]),
        (3, [(26, read_message W (decode_date W) (\<lambda>v. m\<lparr>TimeFilter_startsBefore := Some v\<rparr>) r)]),
        (4, [(34, read_message W (decode_date W) (\<lambda>v. m\<lparr>TimeFilter_endsBefore := Some v\<rparr>) r)])]"

definition decode_TimeFilter :: "wire \<Rightarrow> reader \<Rightarrow> int option \<Rightarrow> (TimeFilter \<times> reader) run" where
  "decode_TimeFilter W = decode_message W (switch_TimeFilter W) base_TimeFilter"

definition safe_TimeFilter :: "wire \<Rightarrow> TimeFilter \<Rightarrow> bool" where
  "safe_TimeFilter W m \<longleftrightarrow>
     pred_option canonical_date (TimeFilter_startsAfter m) \<and>
     pred_option canonical_date (TimeFilter_endsAfter m) \<and>
     pred_option canonical_date (TimeFilter_startsBefore m) \<and>
     pred_option canonical_date (TimeFilter_endsBefore m)"

lemma builds_TimeFilter:
  assumes "wire_format W" "safe_TimeFilter W m" "encode_TimeFilter W m [] = Inr b"
  shows "builds W (switch_TimeFilter W) base_TimeFilter m b"
proof (rule message_builds [OF assms(3) [unfolded encode_TimeFilter_def]])
  show "foldl (\<lambda>m u. u m) base_TimeFilter
      [given TimeFilter_startsAfter_update (TimeFilter_startsAfter m),
       given TimeFilter_endsAfter_update (TimeFilter_endsAfter m),
       given TimeFilter_startsBefore_update (TimeFilter_startsBefore m),
       given TimeFilter_endsBefore_update (TimeFilter_endsBefore m)] = m"
    by (cases m) (simp add: field_changes base_TimeFilter_def)
qed (insert assms(1,2),
    (rule wire_fields message_codecs | (simp add: updater_def switch_TimeFilter_def safe_TimeFilter_def list_all_iff; fail))+)

lemma decodes_TimeFilter [message_codecs]:
  assumes "wire_format W" "safe_TimeFilter W m" "encode_TimeFilter W m [] = Inr b"
  shows "decodes (decode_TimeFilter W) m b"
  unfolding decode_TimeFilter_def by (rule builds_decodes [OF builds_TimeFilter [OF assms]])

lemma settles_TimeFilter [message_returns]: "wire_format W \<Longrightarrow> settles k (decode_TimeFilter W)"
  unfolding decode_TimeFilter_def
  by (rule wire_format.settles_message, assumption,
      unfold switch_TimeFilter_def switch_field.simps switch_alternatives.simps)
    (rule wire_ends message_returns | assumption)+

section \<open>GetEventsRequest\<close>

record GetEventsRequest =
  GetEventsRequest_authorUserId :: "string option"
  GetEventsRequest_excludedAuthorUserIds :: "string list"
  GetEventsRequest_groupId :: "string option"
  GetEventsRequest_timeFilter :: "TimeFilter option"
  GetEventsRequest_attendeeId :: "string option"
  GetEventsRequest_rsvpStatuses :: "int list"
  GetEventsRequest_postId :: "string option"
  GetEventsRequest_listingType :: int
  GetEventsRequest_searchText :: "string option"
  GetEventsRequest_occasionPostIds :: "string list"
  GetEventsRequest_anonymousAttendeeAuthToken :: "string option"

definition base_GetEventsRequest :: GetEventsRequest where
  "base_GetEventsRequest =
     \<lparr>GetEventsRequest_authorUserId = None,
      GetEventsRequest_excludedAuthorUserIds = [],
      GetEventsRequest_groupId = None,
      GetEventsRequest_timeFilter = None,
      GetEventsRequest_attendeeId = None,
      GetEventsRequest_rsvpStatuses = [],
      GetEventsRequest_postId = None,
      GetEventsRequest_listingType = 0,
      GetEventsRequest_searchText = None,
      GetEventsRequest_occasionPostIds = [],
      GetEventsRequest_anonymousAttendeeAuthToken = None\<rparr>"

definition encode_GetEventsRequest :: "wire \<Rightarrow> GetEventsRequest \<Rightarrow> bytes \<Rightarrow> bytes result" where
  "encode_GetEventsRequest W m =
     write_all
       [write_given (GetEventsRequest_authorUserId m) (\<lambda>v. tagged W 18 (put_string W v)),
        write_each (GetEventsRequest_excludedAuthorUserIds m) (\<lambda>v. tagged W 114 (put_string W v)),
        write_given (GetEventsRequest_groupId m) (\<lambda>v. tagged W 26 (put_string W v)),
        write_given (GetEventsRequest_timeFilter m) (\<lambda>v. nested W 42 (encode_TimeFilter W v)),
        write_given (GetEventsRequest_attendeeId m) (\<lambda>v. tagged W 50 (put_string W v)),
        packed W 58 (put_int32 W) (GetEventsRequest_rsvpStatuses m),
        write_given (GetEventsRequest_postId m) (\<lambda>v. tagged W 66 (put_string W v)),
        write_when (GetEventsRequest_listingType m \<noteq> 0) (tagged W 80 (put_int32 W (GetEventsRequest_listingType m))),
        write_given (GetEventsRequest_searchText m) (\<lambda>v. tagged W 90 (put_string W v)),
        write_each (GetEventsRequest_occasionPostIds m) (\<lambda>v. tagged W 98 (put_string W v)),
        write_given (GetEventsRequest_anonymousAttendeeAuthToken m) (\<lambda>v. tagged W 106 (put_string W v))]"

definition switch_GetEventsRequest :: "wire \<Rightarrow> int \<Rightarrow> reader \<Rightarrow> GetEventsRequest \<Rightarrow> GetEventsRequest loop_step run" where
  "switch_GetEventsRequest W tag r m =
     switch_field tag
       [(2, [(18, read_field (get_string W) (\<lambda>v. m\<lparr>GetEventsRequest_authorUserId := Some v\<rparr>) r)]),
        (14, [(114, read_field (get_string W) (\<lambda>v. GetEventsRequest_excludedAuthorUserIds_update (\<lambda>old. old @ [v]) m) r)]),
        (3, [(26, read_field (get_string W) (\<lambda>v. m\<lparr>GetEventsRequest_groupId := Some v\<rparr>) r)]),
        (5, [(42, read_message W (decode_TimeFilter W) (\<lambda>v. m\<lparr>GetEventsRequest_timeFilter := Some v\<rparr>) r)]),
        (6, [(50, read_field (get_string W) (\<lambda>v. m\<lparr>GetEventsRequest_attendeeId := Some v\<rparr>) r)]),
        (7, [(56, read_field (get_int32 W) (\<lambda>v. GetEventsRequest_rsvpStatuses_update (\<lambda>old. old @ [v]) m) r), (58, read_packed W (get_int32 W) (GetEventsRequest_rsvpStatuses m) (\<lambda>vs. m\<lparr>GetEventsRequest_rsvpStatuses := vs\<rparr>) r)]),
        (8, [(66, read_field (get_string W) (\<lambda>v. m\<lparr>GetEventsRequest_postId := Some v\<rparr>) r)]),
        (10, [(80, read_field (get_int32 W) (\<lambda>v. m\<lparr>GetEventsRequest_listingType := v\<rparr>) r)]),
        (11, [(90, read_field (get_string W) (\<lambda>v. m\<lparr>GetEventsRequest_searchText := Some v\<rparr>) r)]),
        (12, [(98, read_field (get_string W) (\<lambda>v. GetEventsRequest_occasionPostIds_update (\<lambda>old. old @ [v]) m) r)]),
        (13, [(106, read_field (get_string W) (\<lambda>v. m\<lparr>GetEventsRequest_anonymousAttendeeAuthToken := Some v\<rparr>) r)])]"

definition decode_GetEventsRequest :: "wire \<Rightarrow> reader \<Rightarrow> int option \<Rightarrow> (GetEventsRequest \<times> reader) run" where
  "decode_GetEventsRequest W = decode_message W (switch_GetEventsRequest W) base_GetEventsRequest"

definition safe_GetEventsRequest :: "wire \<Rightarrow> GetEventsRequest \<Rightarrow> bool" where
  "safe_GetEventsRequest W m \<longleftrightarrow>
     pred_option (safe_TimeFilter W) (GetEventsRequest_timeFilter m)"

lemma builds_GetEventsRequest:
  assumes "wire_format W" "safe_GetEventsRequest W m" "encode_GetEventsRequest W m [] = Inr b"
  shows "builds W (switch_GetEventsRequest W) base_GetEventsRequest m b"
proof (rule message_builds [OF assms(3) [unfolded encode_GetEventsRequest_def]])
  show "foldl (\<lambda>m u. u m) base_GetEventsRequest
      [given GetEventsRequest_authorUserId_update (GetEventsRequest_authorUserId m),
       pushed GetEventsRequest_excludedAuthorUserIds_update (GetEventsRequest_excludedAuthorUserIds m),
       given GetEventsRequest_groupId_update (GetEventsRequest_groupId m),
       given GetEventsRequest_timeFilter_update (GetEventsRequest_timeFilter m),
       given GetEventsRequest_attendeeId_update (GetEventsRequest_attendeeId m),
       pushed GetEventsRequest_rsvpStatuses_update (GetEventsRequest_rsvpStatuses m),
       given GetEventsRequest_postId_update (GetEventsRequest_postId m),
       plain GetEventsRequest_listingType_update (GetEventsRequest_listingType m) 0,
       given GetEventsRequest_searchText_update (GetEventsRequest_searchText m),
       pushed GetEventsRequest_occasionPostIds_update (GetEventsRequest_occasionPostIds m),
       given GetEventsRequest_anonymousAttendeeAuthToken_update (GetEventsRequest_anonymousAttendeeAuthToken m)] = m"
    by (cases m) (simp add: field_changes base_GetEventsRequest_def)
qed (insert assms(1,2),
    (rule wire_fields message_codecs | (simp add: updater_def switch_GetEventsRequest_def safe_GetEventsRequest_def list_all_iff; fail))+)

lemma decodes_GetEventsRequest [message_codecs]:
  assumes "wire_format W" "safe_GetEventsRequest W m" "encode_GetEventsRequest W m [] = Inr b"
  shows "decodes (decode_GetEventsRequest W) m b"
  unfolding decode_GetEventsRequest_def by (rule builds_decodes [OF builds_GetEventsRequest [OF assms]])

lemma settles_GetEventsRequest [message_returns]: "wire_format W \<Longrightarrow> settles k (decode_GetEventsRequest W)"
  unfolding decode_GetEventsRequest_def
  by (rule wire_format.settles_message, assumption,
      unfold switch_GetEventsRequest_def switch_field.simps switch_alternatives.simps)
    (rule wire_ends message_returns | assumption)+

section \<open>EventInfo\<close>

record EventInfo =
  EventInfo_allowsRsvps :: "bool option"
  EventInfo_allowsAnonymousRsvps :: "bool option"
  EventInfo_maxAttendees :: "int option"
  EventInfo_hideLocationUntilRsvpApproved :: "bool option"
  EventInfo_defaultRsvpModeration :: "int option"

definition base_EventInfo :: EventInfo where
  "base_EventInfo =
     \<lparr>EventInfo_allowsRsvps = None,
      EventInfo_allowsAnonymousRsvps = None,
      EventInfo_maxAttendees = None,
      EventInfo_hideLocationUntilRsvpApproved = None,
      EventInfo_defaultRsvpModeration = None\<rparr>"

definition encode_EventInfo :: "wire \<Rightarrow> EventInfo \<Rightarrow> bytes \<Rightarrow> bytes result" where
  "encode_EventInfo W m =
     write_all
       [write_given (EventInfo_allowsRsvps m) (\<lambda>v. tagged W 8 (put_bool W v)),
        write_given (EventInfo_allowsAnonymousRsvps m) (\<lambda>v. tagged W 16 (put_bool W v)),
        write_given (EventInfo_maxAttendees m) (\<lambda>v. tagged W 24 (put_uint32 W v)),
        write_given (EventInfo_hideLocationUntilRsvpApproved m) (\<lambda>v. tagged W 32 (put_bool W v)),
        write_given (EventInfo_defaultRsvpModeration m) (\<lambda>v. tagged W 40 (put_int32 W v))]"

definition switch_EventInfo :: "wire \<Rightarrow> int \<Rightarrow> reader \<Rightarrow> EventInfo \<Rightarrow> EventInfo loop_step run" where
  "switch_EventInfo W tag r m =
     switch_field tag
       [(1, [(8, read_field (get_bool W) (\<lambda>v. m\<lparr>EventInfo_allowsRsvps := Some v\<rparr>) r)]),
        (2, [(16, read_field (get_bool W) (\<lambda>v. m\<lparr>EventInfo_allowsAnonymousRsvps := Some v\<rparr>) r)]),
        (3, [(24, read_field (get_uint32 W) (\<lambda>v. m\<lparr>EventInfo_maxAttendees := Some v\<rparr>) r)]),
        (4, [(32, read_field (get_bool W) (\<lambda>v. m\<lparr>EventInfo_hideLocationUntilRsvpApproved := Some v\<rparr>) r)]),
        (5, [(40, read_field (get_int32 W) (\<lambda>v. m\<lparr>EventInfo_defaultRsvpModeration := Some v\<rparr>) r)])]"

definition decode_EventInfo :: "wire \<Rightarrow> reader \<Rightarrow> int option \<Rightarrow> (EventInfo \<times> reader) run" where
  "decode_EventInfo W = decode_message W (switch_EventInfo W) base_EventInfo"

lemma builds_EventInfo:
  assumes "wire_format W" "encode_EventInfo W m [] = Inr b"
  shows "builds W (switch_EventInfo W) base_EventInfo m b"
proof (rule message_builds [OF assms(2) [unfolded encode_EventInfo_def]])
  show "foldl (\<lambda>m u. u m) base_EventInfo
      [given EventInfo_allowsRsvps_update (EventInfo_allowsRsvps m),
       given EventInfo_allowsAnonymousRsvps_update (EventInfo_allowsAnonymousRsvps m),
       given EventInfo_maxAttendees_update (EventInfo_maxAttendees m),
       given EventInfo_hideLocationUntilRsvpApproved_update (EventInfo_hideLocationUntilRsvpApproved m),
       given EventInfo_defaultRsvpModeration_update (EventInfo_defaultRsvpModeration m)] = m"
    by (cases m) (simp add: field_changes base_EventInfo_def)
qed (insert assms(1),
    (rule wire_fields message_codecs | (simp add: updater_def switch_EventInfo_def list_all_iff; fail))+)

lemma decodes_EventInfo [message_codecs]:
  assumes "wire_format W" "encode_EventInfo W m [] = Inr b"
  shows "decodes (decode_EventInfo W) m b"
  unfolding decode_EventInfo_def by (rule builds_decodes [OF builds_EventInfo [OF assms]])

lemma settles_EventInfo [message_returns]: "wire_format W \<Longrightarrow> settles k (decode_EventInfo W)"
  unfolding decode_EventInfo_def
  by (rule wire_format.settles_message, assumption,
      unfold switch_EventInfo_def switch_field.simps switch_alternatives.simps)
    (rule wire_ends message_returns | assumption)+

section \<open>OccasionRsvpInfo\<close>

record OccasionRsvpInfo =
  OccasionRsvpInfo_allowsRsvps :: "bool option"
  OccasionRsvpInfo_allowsAnonymousRsvps :: "bool option"
  OccasionRsvpInfo_maxAttendees :: "int option"
  OccasionRsvpInfo_goingRsvps :: "int option"
  OccasionRsvpInfo_goingAttendees :: "int option"
  OccasionRsvpInfo_interestedRsvps :: "int option"
  OccasionRsvpInfo_interestedAttendees :: "int option"
  OccasionRsvpInfo_invitedRsvps :: "int option"
  OccasionRsvpInfo_invitedAttendees :: "int option"

definition base_OccasionRsvpInfo :: OccasionRsvpInfo where
  "base_OccasionRsvpInfo =
     \<lparr>OccasionRsvpInfo_allowsRsvps = None,
      OccasionRsvpInfo_allowsAnonymousRsvps = None,
      OccasionRsvpInfo_maxAttendees = None,
      OccasionRsvpInfo_goingRsvps = None,
      OccasionRsvpInfo_goingAttendees = None,
      OccasionRsvpInfo_interestedRsvps = None,
      OccasionRsvpInfo_interestedAttendees = None,
      OccasionRsvpInfo_invitedRsvps = None,
      OccasionRsvpInfo_invitedAttendees = None\<rparr>"

definition encode_OccasionRsvpInfo :: "wire \<Rightarrow> OccasionRsvpInfo \<Rightarrow> bytes \<Rightarrow> bytes result" where
  "encode_OccasionRsvpInfo W m =
     write_all
       [write_given (OccasionRsvpInfo_allowsRsvps m) (\<lambda>v. tagged W 8 (put_bool W v)),
        write_given (OccasionRsvpInfo_allowsAnonymousRsvps m) (\<lambda>v. tagged W 16 (put_bool W v)),
        write_given (OccasionRsvpInfo_maxAttendees m) (\<lambda>v. tagged W 24 (put_uint32 W v)),
        write_given (OccasionRsvpInfo_goingRsvps m) (\<lambda>v. tagged W 32 (put_uint32 W v)),
        write_given (OccasionRsvpInfo_goingAttendees m) (\<lambda>v. tagged W 40 (put_uint32 W v)),
        write_given (OccasionRsvpInfo_interestedRsvps m) (\<lambda>v. tagged W 48 (put_uint32 W v)),
        write_given (OccasionRsvpInfo_interestedAttendees m) (\<lambda>v. tagged W 56 (put_uint32 W v)),
        write_given (OccasionRsvpInfo_invitedRsvps m) (\<lambda>v. tagged W 64 (put_uint32 W v)),
        write_given (OccasionRsvpInfo_invitedAttendees m) (\<lambda>v. tagged W 72 (put_uint32 W v))]"

definition switch_OccasionRsvpInfo :: "wire \<Rightarrow> int \<Rightarrow> reader \<Rightarrow> OccasionRsvpInfo \<Rightarrow> OccasionRsvpInfo loop_step run" where
  "switch_OccasionRsvpInfo W tag r m =
     switch_field tag
       [(1, [(8, read_field (get_bool W) (\<lambda>v. m\<lparr>OccasionRsvpInfo_allowsRsvps := Some v\<rparr>) r)]),
        (2, [(16, read_field (get_bool W) (\<lambda>v. m\<lparr>OccasionRsvpInfo_allowsAnonymousRsvps := Some v\<rparr>) r)]),
        (3, [(24, read_field (get_uint32 W) (\<lambda>v. m\<lparr>OccasionRsvpInfo_maxAttendees := Some v\<rparr>) r)]),
        (4, [(32, read_field (get_uint32 W) (\<lambda>v. m\<lparr>OccasionRsvpInfo_goingRsvps := Some v\<rparr>) r)]),
        (5, [(40, read_field (get_uint32 W) (\<lambda>v. m\<lparr>OccasionRsvpInfo_goingAttendees := Some v\<rparr>) r)]),
        (6, [(48, read_field (get_uint32 W) (\<lambda>v. m\<lparr>OccasionRsvpInfo_interestedRsvps := Some v\<rparr>) r)]),
        (7, [(56, read_field (get_uint32 W) (\<lambda>v. m\<lparr>OccasionRsvpInfo_interestedAttendees := Some v\<rparr>) r)]),
        (8, [(64, read_field (get_uint32 W) (\<lambda>v. m\<lparr>OccasionRsvpInfo_invitedRsvps := Some v\<rparr>) r)]),
        (9, [(72, read_field (get_uint32 W) (\<lambda>v. m\<lparr>OccasionRsvpInfo_invitedAttendees := Some v\<rparr>) r)])]"

definition decode_OccasionRsvpInfo :: "wire \<Rightarrow> reader \<Rightarrow> int option \<Rightarrow> (OccasionRsvpInfo \<times> reader) run" where
  "decode_OccasionRsvpInfo W = decode_message W (switch_OccasionRsvpInfo W) base_OccasionRsvpInfo"

lemma builds_OccasionRsvpInfo:
  assumes "wire_format W" "encode_OccasionRsvpInfo W m [] = Inr b"
  shows "builds W (switch_OccasionRsvpInfo W) base_OccasionRsvpInfo m b"
proof (rule message_builds [OF assms(2) [unfolded encode_OccasionRsvpInfo_def]])
  show "foldl (\<lambda>m u. u m) base_OccasionRsvpInfo
      [given OccasionRsvpInfo_allowsRsvps_update (OccasionRsvpInfo_allowsRsvps m),
       given OccasionRsvpInfo_allowsAnonymousRsvps_update (OccasionRsvpInfo_allowsAnonymousRsvps m),
       given OccasionRsvpInfo_maxAttendees_update (OccasionRsvpInfo_maxAttendees m),
       given OccasionRsvpInfo_goingRsvps_update (OccasionRsvpInfo_goingRsvps m),
       given OccasionRsvpInfo_goingAttendees_update (OccasionRsvpInfo_goingAttendees m),
       given OccasionRsvpInfo_interestedRsvps_update (OccasionRsvpInfo_interestedRsvps m),
       given OccasionRsvpInfo_interestedAttendees_update (OccasionRsvpInfo_interestedAttendees m),
       given OccasionRsvpInfo_invitedRsvps_update (OccasionRsvpInfo_invitedRsvps m),
       given OccasionRsvpInfo_invitedAttendees_update (OccasionRsvpInfo_invitedAttendees m)] = m"
    by (cases m) (simp add: field_changes base_OccasionRsvpInfo_def)
qed (insert assms(1),
    (rule wire_fields message_codecs | (simp add: updater_def switch_OccasionRsvpInfo_def list_all_iff; fail))+)

lemma decodes_OccasionRsvpInfo [message_codecs]:
  assumes "wire_format W" "encode_OccasionRsvpInfo W m [] = Inr b"
  shows "decodes (decode_OccasionRsvpInfo W) m b"
  unfolding decode_OccasionRsvpInfo_def by (rule builds_decodes [OF builds_OccasionRsvpInfo [OF assms]])

lemma settles_OccasionRsvpInfo [message_returns]: "wire_format W \<Longrightarrow> settles k (decode_OccasionRsvpInfo W)"
  unfolding decode_OccasionRsvpInfo_def
  by (rule wire_format.settles_message, assumption,
      unfold switch_OccasionRsvpInfo_def switch_field.simps switch_alternatives.simps)
    (rule wire_ends message_returns | assumption)+

section \<open>OccasionInfo\<close>

record OccasionInfo =
  OccasionInfo_rsvpInfo :: "OccasionRsvpInfo option"

definition base_OccasionInfo :: OccasionInfo where
  "base_OccasionInfo =
     \<lparr>OccasionInfo_rsvpInfo = None\<rparr>"

definition encode_OccasionInfo :: "wire \<Rightarrow> OccasionInfo \<Rightarrow> bytes \<Rightarrow> bytes result" where
  "encode_OccasionInfo W m =
     write_all
       [write_given (OccasionInfo_rsvpInfo m) (\<lambda>v. nested W 10 (encode_OccasionRsvpInfo W v))]"

definition switch_OccasionInfo :: "wire \<Rightarrow> int \<Rightarrow> reader \<Rightarrow> OccasionInfo \<Rightarrow> OccasionInfo loop_step run" where
  "switch_OccasionInfo W tag r m =
     switch_field tag
       [(1, [(10, read_message W (decode_OccasionRsvpInfo W) (\<lambda>v. m\<lparr>OccasionInfo_rsvpInfo := Some v\<rparr>) r)])]"

definition decode_OccasionInfo :: "wire \<Rightarrow> reader \<Rightarrow> int option \<Rightarrow> (OccasionInfo \<times> reader) run" where
  "decode_OccasionInfo W = decode_message W (switch_OccasionInfo W) base_OccasionInfo"

lemma builds_OccasionInfo:
  assumes "wire_format W" "encode_OccasionInfo W m [] = Inr b"
  shows "builds W (switch_OccasionInfo W) base_OccasionInfo m b"
proof (rule message_builds [OF assms(2) [unfolded encode_OccasionInfo_def]])
  show "foldl (\<lambda>m u. u m) base_OccasionInfo
      [given OccasionInfo_rsvpInfo_update (OccasionInfo_rsvpInfo m)] = m"
    by (cases m) (simp add: field_changes base_OccasionInfo_def)
qed (insert assms(1),
    (rule wire_fields message_codecs | (simp add: updater_def switch_OccasionInfo_def list_all_iff; fail))+)

lemma decodes_OccasionInfo [message_codecs]:
  assumes "wire_format W" "encode_OccasionInfo W m [] = Inr b"
  shows "decodes (decode_OccasionInfo W) m b"
  unfolding decode_OccasionInfo_def by (rule builds_decodes [OF builds_OccasionInfo [OF assms]])

lemma settles_OccasionInfo [message_returns]: "wire_format W \<Longrightarrow> settles k (decode_OccasionInfo W)"
  unfolding decode_OccasionInfo_def
  by (rule wire_format.settles_message, assumption,
      unfold switch_OccasionInfo_def switch_field.simps switch_alternatives.simps)
    (rule wire_ends message_returns | assumption)+

section \<open>AnonymousAttendee\<close>

record AnonymousAttendee =
  AnonymousAttendee_name :: string
  AnonymousAttendee_contactMethods :: "ContactMethod list"
  AnonymousAttendee_authToken :: "string option"

definition base_AnonymousAttendee :: AnonymousAttendee where
  "base_AnonymousAttendee =
     \<lparr>AnonymousAttendee_name = [],
      AnonymousAttendee_contactMethods = [],
      AnonymousAttendee_authToken = None\<rparr>"

definition encode_AnonymousAttendee :: "wire \<Rightarrow> AnonymousAttendee \<Rightarrow> bytes \<Rightarrow> bytes result" where
  "encode_AnonymousAttendee W m =
     write_all
       [write_when (AnonymousAttendee_name m \<noteq> []) (tagged W 10 (put_string W (AnonymousAttendee_name m))),
        write_each (AnonymousAttendee_contactMethods m) (\<lambda>v. nested W 18 (encode_ContactMethod W v)),
        write_given (AnonymousAttendee_authToken m) (\<lambda>v. tagged W 26 (put_string W v))]"

definition switch_AnonymousAttendee :: "wire \<Rightarrow> int \<Rightarrow> reader \<Rightarrow> AnonymousAttendee \<Rightarrow> AnonymousAttendee loop_step run" where
  "switch_AnonymousAttendee W tag r m =
     switch_field tag
       [(1, [(10, read_field (get_string W) (\<lambda>v. m\<lparr>AnonymousAttendee_name := v\<rparr>) r)]),
        (2, [(18, read_message W (decode_ContactMethod W) (\<lambda>v. AnonymousAttendee_contactMethods_update (\<lambda>old. old @ [v]) m) r)]),
        (3, [(26, read_field (get_string W) (\<lambda>v. m\<lparr>AnonymousAttendee_authToken := Some v\<rparr>) r)])]"

definition decode_AnonymousAttendee :: "wire \<Rightarrow> reader \<Rightarrow> int option \<Rightarrow> (AnonymousAttendee \<times> reader) run" where
  "decode_AnonymousAttendee W = decode_message W (switch_AnonymousAttendee W) base_AnonymousAttendee"

definition safe_AnonymousAttendee :: "wire \<Rightarrow> AnonymousAttendee \<Rightarrow> bool" where
  "safe_AnonymousAttendee W m \<longleftrightarrow>
     list_all (safe_ContactMethod W) (AnonymousAttendee_contactMethods m)"

lemma builds_AnonymousAttendee:
  assumes "wire_format W" "safe_AnonymousAttendee W m" "encode_AnonymousAttendee W m [] = Inr b"
  shows "builds W (switch_AnonymousAttendee W) base_AnonymousAttendee m b"
proof (rule message_builds [OF assms(3) [unfolded encode_AnonymousAttendee_def]])
  show "foldl (\<lambda>m u. u m) base_AnonymousAttendee
      [plain AnonymousAttendee_name_update (AnonymousAttendee_name m) [],
       pushed AnonymousAttendee_contactMethods_update (AnonymousAttendee_contactMethods m),
       given AnonymousAttendee_authToken_update (AnonymousAttendee_authToken m)] = m"
    by (cases m) (simp add: field_changes base_AnonymousAttendee_def)
qed (insert assms(1,2),
    (rule wire_fields message_codecs | (simp add: updater_def switch_AnonymousAttendee_def safe_AnonymousAttendee_def list_all_iff; fail))+)

lemma decodes_AnonymousAttendee [message_codecs]:
  assumes "wire_format W" "safe_AnonymousAttendee W m" "encode_AnonymousAttendee W m [] = Inr b"
  shows "decodes (decode_AnonymousAttendee W) m b"
  unfolding decode_AnonymousAttendee_def by (rule builds_decodes [OF builds_AnonymousAttendee [OF assms]])

lemma settles_AnonymousAttendee [message_returns]: "wire_format W \<Longrightarrow> settles k (decode_AnonymousAttendee W)"
  unfolding decode_AnonymousAttendee_def
  by (rule wire_format.settles_message, assumption,
      unfold switch_AnonymousAttendee_def switch_field.simps switch_alternatives.simps)
    (rule wire_ends message_returns | assumption)+

section \<open>UserAttendee\<close>

record UserAttendee =
  UserAttendee_userId :: string
  UserAttendee_username :: "string option"
  UserAttendee_avatar :: "MediaReference option"
  UserAttendee_realName :: "string option"
  UserAttendee_permissions :: "int list"

definition base_UserAttendee :: UserAttendee where
  "base_UserAttendee =
     \<lparr>UserAttendee_userId = [],
      UserAttendee_username = None,
      UserAttendee_avatar = None,
      UserAttendee_realName = None,
      UserAttendee_permissions = []\<rparr>"

definition encode_UserAttendee :: "wire \<Rightarrow> UserAttendee \<Rightarrow> bytes \<Rightarrow> bytes result" where
  "encode_UserAttendee W m =
     write_all
       [write_when (UserAttendee_userId m \<noteq> []) (tagged W 10 (put_string W (UserAttendee_userId m))),
        write_given (UserAttendee_username m) (\<lambda>v. tagged W 18 (put_string W v)),
        write_given (UserAttendee_avatar m) (\<lambda>v. nested W 26 (encode_MediaReference W v)),
        write_given (UserAttendee_realName m) (\<lambda>v. tagged W 34 (put_string W v)),
        packed W 42 (put_int32 W) (UserAttendee_permissions m)]"

definition switch_UserAttendee :: "wire \<Rightarrow> int \<Rightarrow> reader \<Rightarrow> UserAttendee \<Rightarrow> UserAttendee loop_step run" where
  "switch_UserAttendee W tag r m =
     switch_field tag
       [(1, [(10, read_field (get_string W) (\<lambda>v. m\<lparr>UserAttendee_userId := v\<rparr>) r)]),
        (2, [(18, read_field (get_string W) (\<lambda>v. m\<lparr>UserAttendee_username := Some v\<rparr>) r)]),
        (3, [(26, read_message W (decode_MediaReference W) (\<lambda>v. m\<lparr>UserAttendee_avatar := Some v\<rparr>) r)]),
        (4, [(34, read_field (get_string W) (\<lambda>v. m\<lparr>UserAttendee_realName := Some v\<rparr>) r)]),
        (5, [(40, read_field (get_int32 W) (\<lambda>v. UserAttendee_permissions_update (\<lambda>old. old @ [v]) m) r), (42, read_packed W (get_int32 W) (UserAttendee_permissions m) (\<lambda>vs. m\<lparr>UserAttendee_permissions := vs\<rparr>) r)])]"

definition decode_UserAttendee :: "wire \<Rightarrow> reader \<Rightarrow> int option \<Rightarrow> (UserAttendee \<times> reader) run" where
  "decode_UserAttendee W = decode_message W (switch_UserAttendee W) base_UserAttendee"

definition safe_UserAttendee :: "wire \<Rightarrow> UserAttendee \<Rightarrow> bool" where
  "safe_UserAttendee W m \<longleftrightarrow>
     pred_option (safe_MediaReference W) (UserAttendee_avatar m)"

lemma builds_UserAttendee:
  assumes "wire_format W" "safe_UserAttendee W m" "encode_UserAttendee W m [] = Inr b"
  shows "builds W (switch_UserAttendee W) base_UserAttendee m b"
proof (rule message_builds [OF assms(3) [unfolded encode_UserAttendee_def]])
  show "foldl (\<lambda>m u. u m) base_UserAttendee
      [plain UserAttendee_userId_update (UserAttendee_userId m) [],
       given UserAttendee_username_update (UserAttendee_username m),
       given UserAttendee_avatar_update (UserAttendee_avatar m),
       given UserAttendee_realName_update (UserAttendee_realName m),
       pushed UserAttendee_permissions_update (UserAttendee_permissions m)] = m"
    by (cases m) (simp add: field_changes base_UserAttendee_def)
qed (insert assms(1,2),
    (rule wire_fields message_codecs | (simp add: updater_def switch_UserAttendee_def safe_UserAttendee_def list_all_iff; fail))+)

lemma decodes_UserAttendee [message_codecs]:
  assumes "wire_format W" "safe_UserAttendee W m" "encode_UserAttendee W m [] = Inr b"
  shows "decodes (decode_UserAttendee W) m b"
  unfolding decode_UserAttendee_def by (rule builds_decodes [OF builds_UserAttendee [OF assms]])

lemma settles_UserAttendee [message_returns]: "wire_format W \<Longrightarrow> settles k (decode_UserAttendee W)"
  unfolding decode_UserAttendee_def
  by (rule wire_format.settles_message, assumption,
      unfold switch_UserAttendee_def switch_field.simps switch_alternatives.simps)
    (rule wire_ends message_returns | assumption)+

section \<open>Rsvp\<close>

record Rsvp =
  Rsvp_id :: string
  Rsvp_occasionId :: string
  Rsvp_userAttendee :: "UserAttendee option"
  Rsvp_anonymousAttendee :: "AnonymousAttendee option"
  Rsvp_numberOfGuests :: int
  Rsvp_status :: int
  Rsvp_invitingUserId :: "string option"
  Rsvp_privateNote :: string
  Rsvp_publicNote :: string
  Rsvp_moderation :: int
  Rsvp_createdAt :: "string option"
  Rsvp_updatedAt :: "string option"

definition base_Rsvp :: Rsvp where
  "base_Rsvp =
     \<lparr>Rsvp_id = [],
      Rsvp_occasionId = [],
      Rsvp_userAttendee = None,
      Rsvp_anonymousAttendee = None,
      Rsvp_numberOfGuests = 0,
      Rsvp_status = 0,
      Rsvp_invitingUserId = None,
      Rsvp_privateNote = [],
      Rsvp_publicNote = [],
      Rsvp_moderation = 0,
      Rsvp_createdAt = None,
      Rsvp_updatedAt = None\<rparr>"

definition encode_Rsvp :: "wire \<Rightarrow> Rsvp \<Rightarrow> bytes \<Rightarrow> bytes result" where
  "encode_Rsvp W m =
     write_all
       [write_when (Rsvp_id m \<noteq> []) (tagged W 10 (put_string W (Rsvp_id m))),
        write_when (Rsvp_occasionId m \<noteq> []) (tagged W 18 (put_string W (Rsvp_occasionId m))),
        write_given (Rsvp_userAttendee m) (\<lambda>v. nested W 26 (encode_UserAttendee W v)),
        write_given (Rsvp_anonymousAttendee m) (\<lambda>v. nested W 34 (encode_AnonymousAttendee W v)),
        write_when (Rsvp_numberOfGuests m \<noteq> 0) (tagged W 40 (put_uint32 W (Rsvp_numberOfGuests m))),
        write_when (Rsvp_status m \<noteq> 0) (tagged W 48 (put_int32 W (Rsvp_status m))),
        write_given (Rsvp_invitingUserId m) (\<lambda>v. tagged W 58 (put_string W v)),
        write_when (Rsvp_privateNote m \<noteq> []) (tagged W 66 (put_string W (Rsvp_privateNote m))),
        write_when (Rsvp_publicNote m \<noteq> []) (tagged W 74 (put_string W (Rsvp_publicNote m))),
        write_when (Rsvp_moderation m \<noteq> 0) (tagged W 80 (put_int32 W (Rsvp_moderation m))),
        write_given (Rsvp_createdAt m) (\<lambda>v. nested W 90 (encode_date W v)),
        write_given (Rsvp_updatedAt m) (\<lambda>v. nested W 98 (encode_date W v))]"

definition switch_Rsvp :: "wire \<Rightarrow> int \<Rightarrow> reader \<Rightarrow> Rsvp \<Rightarrow> Rsvp loop_step run" where
  "switch_Rsvp W tag r m =
     switch_field tag
       [(1, [(10, read_field (get_string W) (\<lambda>v. m\<lparr>Rsvp_id := v\<rparr>) r)]),
        (2, [(18, read_field (get_string W) (\<lambda>v. m\<lparr>Rsvp_occasionId := v\<rparr>) r)]),
        (3, [(26, read_message W (decode_UserAttendee W) (\<lambda>v. m\<lparr>Rsvp_userAttendee := Some v\<rparr>) r)]),
        (4, [(34, read_message W (decode_AnonymousAttendee W) (\<lambda>v. m\<lparr>Rsvp_anonymousAttendee := Some v\<rparr>) r)]),
        (5, [(40, read_field (get_uint32 W) (\<lambda>v. m\<lparr>Rsvp_numberOfGuests := v\<rparr>) r)]),
        (6, [(48, read_field (get_int32 W) (\<lambda>v. m\<lparr>Rsvp_status := v\<rparr>) r)]),
        (7, [(58, read_field (get_string W) (\<lambda>v. m\<lparr>Rsvp_invitingUserId := Some v\<rparr>) r)]),
        (8, [(66, read_field (get_string W) (\<lambda>v. m\<lparr>Rsvp_privateNote := v\<rparr>) r)]),
        (9, [(74, read_field (get_string W) (\<lambda>v. m\<lparr>Rsvp_publicNote := v\<rparr>) r)]),
        (10, [(80, read_field (get_int32 W) (\<lambda>v. m\<lparr>Rsvp_moderation := v\<rparr>) r)]),
        (11, [(90, read_message W (decode_date W) (\<lambda>v. m\<lparr>Rsvp_createdAt := Some v\<rparr>) r)]),
        (12, [(98, read_message W (decode_date W) (\<lambda>v. m\<lparr>Rsvp_updatedAt := Some v\<rparr>) r)])]"

definition decode_Rsvp :: "wire \<Rightarrow> reader \<Rightarrow> int option \<Rightarrow> (Rsvp \<times> reader) run" where
  "decode_Rsvp W = decode_message W (switch_Rsvp W) base_Rsvp"

definition safe_Rsvp :: "wire \<Rightarrow> Rsvp \<Rightarrow> bool" where
  "safe_Rsvp W m \<longleftrightarrow>
     pred_option (safe_UserAttendee W) (Rsvp_userAttendee m) \<and>
     pred_option (safe_AnonymousAttendee W) (Rsvp_anonymousAttendee m) \<and>
     pred_option canonical_date (Rsvp_createdAt m) \<and>
     pred_option canonical_date (Rsvp_updatedAt m)"

lemma builds_Rsvp:
  assumes "wire_format W" "safe_Rsvp W m" "encode_Rsvp W m [] = Inr b"
  shows "builds W (switch_Rsvp W) base_Rsvp m b"
proof (rule message_builds [OF assms(3) [unfolded encode_Rsvp_def]])
  show "foldl (\<lambda>m u. u m) base_Rsvp
      [plain Rsvp_id_update (Rsvp_id m) [],
       plain Rsvp_occasionId_update (Rsvp_occasionId m) [],
       given Rsvp_userAttendee_update (Rsvp_userAttendee m),
       given Rsvp_anonymousAttendee_update (Rsvp_anonymousAttendee m),
       plain Rsvp_numberOfGuests_update (Rsvp_numberOfGuests m) 0,
       plain Rsvp_status_update (Rsvp_status m) 0,
       given Rsvp_invitingUserId_update (Rsvp_invitingUserId m),
       plain Rsvp_privateNote_update (Rsvp_privateNote m) [],
       plain Rsvp_publicNote_update (Rsvp_publicNote m) [],
       plain Rsvp_moderation_update (Rsvp_moderation m) 0,
       given Rsvp_createdAt_update (Rsvp_createdAt m),
       given Rsvp_updatedAt_update (Rsvp_updatedAt m)] = m"
    by (cases m) (simp add: field_changes base_Rsvp_def)
qed (insert assms(1,2),
    (rule wire_fields message_codecs | (simp add: updater_def switch_Rsvp_def safe_Rsvp_def list_all_iff; fail))+)

lemma decodes_Rsvp [message_codecs]:
  assumes "wire_format W" "safe_Rsvp W m" "encode_Rsvp W m [] = Inr b"
  shows "decodes (decode_Rsvp W) m b"
  unfolding decode_Rsvp_def by (rule builds_decodes [OF builds_Rsvp [OF assms]])

lemma settles_Rsvp [message_returns]: "wire_format W \<Longrightarrow> settles k (decode_Rsvp W)"
  unfolding decode_Rsvp_def
  by (rule wire_format.settles_message, assumption,
      unfold switch_Rsvp_def switch_field.simps switch_alternatives.simps)
    (rule wire_ends message_returns | assumption)+

section \<open>Rsvps\<close>

record Rsvps =
  Rsvps_rsvps :: "Rsvp list"
  Rsvps_hiddenLocation :: "Location option"
  Rsvps_goingCount :: int
  Rsvps_goingAttendees :: int
  Rsvps_interestedCount :: int
  Rsvps_interestedAttendees :: int
  Rsvps_requestedCount :: int
  Rsvps_requestedAttendees :: int
  Rsvps_notGoingCount :: int
  Rsvps_notGoingAttendees :: int
  Rsvps_pendingCount :: int
  Rsvps_pendingAttendees :: int

definition base_Rsvps :: Rsvps where
  "base_Rsvps =
     \<lparr>Rsvps_rsvps = [],
      Rsvps_hiddenLocation = None,
      Rsvps_goingCount = 0,
      Rsvps_goingAttendees = 0,
      Rsvps_interestedCount = 0,
      Rsvps_interestedAttendees = 0,
      Rsvps_requestedCount = 0,
      Rsvps_requestedAttendees = 0,
      Rsvps_notGoingCount = 0,
      Rsvps_notGoingAttendees = 0,
      Rsvps_pendingCount = 0,
      Rsvps_pendingAttendees = 0\<rparr>"

definition encode_Rsvps :: "wire \<Rightarrow> Rsvps \<Rightarrow> bytes \<Rightarrow> bytes result" where
  "encode_Rsvps W m =
     write_all
       [write_each (Rsvps_rsvps m) (\<lambda>v. nested W 10 (encode_Rsvp W v)),
        write_given (Rsvps_hiddenLocation m) (\<lambda>v. nested W 18 (encode_Location W v)),
        write_when (Rsvps_goingCount m \<noteq> 0) (tagged W 24 (put_uint32 W (Rsvps_goingCount m))),
        write_when (Rsvps_goingAttendees m \<noteq> 0) (tagged W 32 (put_uint32 W (Rsvps_goingAttendees m))),
        write_when (Rsvps_interestedCount m \<noteq> 0) (tagged W 40 (put_uint32 W (Rsvps_interestedCount m))),
        write_when (Rsvps_interestedAttendees m \<noteq> 0) (tagged W 48 (put_uint32 W (Rsvps_interestedAttendees m))),
        write_when (Rsvps_requestedCount m \<noteq> 0) (tagged W 56 (put_uint32 W (Rsvps_requestedCount m))),
        write_when (Rsvps_requestedAttendees m \<noteq> 0) (tagged W 64 (put_uint32 W (Rsvps_requestedAttendees m))),
        write_when (Rsvps_notGoingCount m \<noteq> 0) (tagged W 72 (put_uint32 W (Rsvps_notGoingCount m))),
        write_when (Rsvps_notGoingAttendees m \<noteq> 0) (tagged W 80 (put_uint32 W (Rsvps_notGoingAttendees m))),
        write_when (Rsvps_pendingCount m \<noteq> 0) (tagged W 88 (put_uint32 W (Rsvps_pendingCount m))),
        write_when (Rsvps_pendingAttendees m \<noteq> 0) (tagged W 96 (put_uint32 W (Rsvps_pendingAttendees m)))]"

definition switch_Rsvps :: "wire \<Rightarrow> int \<Rightarrow> reader \<Rightarrow> Rsvps \<Rightarrow> Rsvps loop_step run" where
  "switch_Rsvps W tag r m =
     switch_field tag
       [(1, [(10, read_message W (decode_Rsvp W) (\<lambda>v. Rsvps_rsvps_update (\<lambda>old. old @ [v]) m) r)]),
        (2, [(18, read_message W (decode_Location W) (\<lambda>v. m\<lparr>Rsvps_hiddenLocation := Some v\<rparr>) r)]),
        (3, [(24, read_field (get_uint32 W) (\<lambda>v. m\<lparr>Rsvps_goingCount := v\<rparr>) r)]),
        (4, [(32, read_field (get_uint32 W) (\<lambda>v. m\<lparr>Rsvps_goingAttendees := v\<rparr>) r)]),
        (5, [(40, read_field (get_uint32 W) (\<lambda>v. m\<lparr>Rsvps_interestedCount := v\<rparr>) r)]),
        (6, [(48, read_field (get_uint32 W) (\<lambda>v. m\<lparr>Rsvps_interestedAttendees := v\<rparr>) r)]),
        (7, [(56, read_field (get_uint32 W) (\<lambda>v. m\<lparr>Rsvps_requestedCount := v\<rparr>) r)]),
        (8, [(64, read_field (get_uint32 W) (\<lambda>v. m\<lparr>Rsvps_requestedAttendees := v\<rparr>) r)]),
        (9, [(72, read_field (get_uint32 W) (\<lambda>v. m\<lparr>Rsvps_notGoingCount := v\<rparr>) r)]),
        (10, [(80, read_field (get_uint32 W) (\<lambda>v. m\<lparr>Rsvps_notGoingAttendees := v\<rparr>) r)]),
        (11, [(88, read_field (get_uint32 W) (\<lambda>v. m\<lparr>Rsvps_pendingCount := v\<rparr>) r)]),
        (12, [(96, read_field (get_uint32 W) (\<lambda>v. m\<lparr>Rsvps_pendingAttendees := v\<rparr>) r)])]"

definition decode_Rsvps :: "wire \<Rightarrow> reader \<Rightarrow> int option \<Rightarrow> (Rsvps \<times> reader) run" where
  "decode_Rsvps W = decode_message W (switch_Rsvps W) base_Rsvps"

definition safe_Rsvps :: "wire \<Rightarrow> Rsvps \<Rightarrow> bool" where
  "safe_Rsvps W m \<longleftrightarrow>
     list_all (safe_Rsvp W) (Rsvps_rsvps m)"

lemma builds_Rsvps:
  assumes "wire_format W" "safe_Rsvps W m" "encode_Rsvps W m [] = Inr b"
  shows "builds W (switch_Rsvps W) base_Rsvps m b"
proof (rule message_builds [OF assms(3) [unfolded encode_Rsvps_def]])
  show "foldl (\<lambda>m u. u m) base_Rsvps
      [pushed Rsvps_rsvps_update (Rsvps_rsvps m),
       given Rsvps_hiddenLocation_update (Rsvps_hiddenLocation m),
       plain Rsvps_goingCount_update (Rsvps_goingCount m) 0,
       plain Rsvps_goingAttendees_update (Rsvps_goingAttendees m) 0,
       plain Rsvps_interestedCount_update (Rsvps_interestedCount m) 0,
       plain Rsvps_interestedAttendees_update (Rsvps_interestedAttendees m) 0,
       plain Rsvps_requestedCount_update (Rsvps_requestedCount m) 0,
       plain Rsvps_requestedAttendees_update (Rsvps_requestedAttendees m) 0,
       plain Rsvps_notGoingCount_update (Rsvps_notGoingCount m) 0,
       plain Rsvps_notGoingAttendees_update (Rsvps_notGoingAttendees m) 0,
       plain Rsvps_pendingCount_update (Rsvps_pendingCount m) 0,
       plain Rsvps_pendingAttendees_update (Rsvps_pendingAttendees m) 0] = m"
    by (cases m) (simp add: field_changes base_Rsvps_def)
qed (insert assms(1,2),
    (rule wire_fields message_codecs | (simp add: updater_def switch_Rsvps_def safe_Rsvps_def list_all_iff; fail))+)

lemma decodes_Rsvps [message_codecs]:
  assumes "wire_format W" "safe_Rsvps W m" "encode_Rsvps W m [] = Inr b"
  shows "decodes (decode_Rsvps W) m b"
  unfolding decode_Rsvps_def by (rule builds_decodes [OF builds_Rsvps [OF assms]])

lemma settles_Rsvps [message_returns]: "wire_format W \<Longrightarrow> settles k (decode_Rsvps W)"
  unfolding decode_Rsvps_def
  by (rule wire_format.settles_message, assumption,
      unfold switch_Rsvps_def switch_field.simps switch_alternatives.simps)
    (rule wire_ends message_returns | assumption)+

section \<open>Occasion\<close>

record Occasion =
  Occasion_eventId :: string
  Occasion_post :: "Post option"
  Occasion_info :: "OccasionInfo option"
  Occasion_startsAt :: "string option"
  Occasion_endsAt :: "string option"
  Occasion_location :: "Location option"
  Occasion_syncMissingSince :: "string option"
  Occasion_rsvps :: "Rsvps option"
  Occasion_currentUserRsvp :: "Rsvp option"
  Occasion_syncDestinations :: "SyncDestinationStatus list"
  Occasion_timezone :: "string option"

definition base_Occasion :: Occasion where
  "base_Occasion =
     \<lparr>Occasion_eventId = [],
      Occasion_post = None,
      Occasion_info = None,
      Occasion_startsAt = None,
      Occasion_endsAt = None,
      Occasion_location = None,
      Occasion_syncMissingSince = None,
      Occasion_rsvps = None,
      Occasion_currentUserRsvp = None,
      Occasion_syncDestinations = [],
      Occasion_timezone = None\<rparr>"

definition encode_Occasion :: "wire \<Rightarrow> Occasion \<Rightarrow> bytes \<Rightarrow> bytes result" where
  "encode_Occasion W m =
     write_all
       [write_when (Occasion_eventId m \<noteq> []) (tagged W 18 (put_string W (Occasion_eventId m))),
        write_given (Occasion_post m) (\<lambda>v. nested W 26 (encode_Post W v)),
        write_given (Occasion_info m) (\<lambda>v. nested W 34 (encode_OccasionInfo W v)),
        write_given (Occasion_startsAt m) (\<lambda>v. nested W 42 (encode_date W v)),
        write_given (Occasion_endsAt m) (\<lambda>v. nested W 50 (encode_date W v)),
        write_given (Occasion_location m) (\<lambda>v. nested W 58 (encode_Location W v)),
        write_given (Occasion_syncMissingSince m) (\<lambda>v. nested W 74 (encode_date W v)),
        write_given (Occasion_rsvps m) (\<lambda>v. nested W 82 (encode_Rsvps W v)),
        write_given (Occasion_currentUserRsvp m) (\<lambda>v. nested W 90 (encode_Rsvp W v)),
        write_each (Occasion_syncDestinations m) (\<lambda>v. nested W 98 (encode_SyncDestinationStatus W v)),
        write_given (Occasion_timezone m) (\<lambda>v. tagged W 106 (put_string W v))]"

definition switch_Occasion :: "wire \<Rightarrow> int \<Rightarrow> reader \<Rightarrow> Occasion \<Rightarrow> Occasion loop_step run" where
  "switch_Occasion W tag r m =
     switch_field tag
       [(2, [(18, read_field (get_string W) (\<lambda>v. m\<lparr>Occasion_eventId := v\<rparr>) r)]),
        (3, [(26, read_message W (decode_Post W) (\<lambda>v. m\<lparr>Occasion_post := Some v\<rparr>) r)]),
        (4, [(34, read_message W (decode_OccasionInfo W) (\<lambda>v. m\<lparr>Occasion_info := Some v\<rparr>) r)]),
        (5, [(42, read_message W (decode_date W) (\<lambda>v. m\<lparr>Occasion_startsAt := Some v\<rparr>) r)]),
        (6, [(50, read_message W (decode_date W) (\<lambda>v. m\<lparr>Occasion_endsAt := Some v\<rparr>) r)]),
        (7, [(58, read_message W (decode_Location W) (\<lambda>v. m\<lparr>Occasion_location := Some v\<rparr>) r)]),
        (9, [(74, read_message W (decode_date W) (\<lambda>v. m\<lparr>Occasion_syncMissingSince := Some v\<rparr>) r)]),
        (10, [(82, read_message W (decode_Rsvps W) (\<lambda>v. m\<lparr>Occasion_rsvps := Some v\<rparr>) r)]),
        (11, [(90, read_message W (decode_Rsvp W) (\<lambda>v. m\<lparr>Occasion_currentUserRsvp := Some v\<rparr>) r)]),
        (12, [(98, read_message W (decode_SyncDestinationStatus W) (\<lambda>v. Occasion_syncDestinations_update (\<lambda>old. old @ [v]) m) r)]),
        (13, [(106, read_field (get_string W) (\<lambda>v. m\<lparr>Occasion_timezone := Some v\<rparr>) r)])]"

definition decode_Occasion :: "wire \<Rightarrow> reader \<Rightarrow> int option \<Rightarrow> (Occasion \<times> reader) run" where
  "decode_Occasion W = decode_message W (switch_Occasion W) base_Occasion"

definition safe_Occasion :: "wire \<Rightarrow> Occasion \<Rightarrow> bool" where
  "safe_Occasion W m \<longleftrightarrow>
     pred_option (safe_Post W) (Occasion_post m) \<and>
     pred_option canonical_date (Occasion_startsAt m) \<and>
     pred_option canonical_date (Occasion_endsAt m) \<and>
     pred_option canonical_date (Occasion_syncMissingSince m) \<and>
     pred_option (safe_Rsvps W) (Occasion_rsvps m) \<and>
     pred_option (safe_Rsvp W) (Occasion_currentUserRsvp m) \<and>
     list_all (safe_SyncDestinationStatus W) (Occasion_syncDestinations m)"

lemma builds_Occasion:
  assumes "wire_format W" "safe_Occasion W m" "encode_Occasion W m [] = Inr b"
  shows "builds W (switch_Occasion W) base_Occasion m b"
proof (rule message_builds [OF assms(3) [unfolded encode_Occasion_def]])
  show "foldl (\<lambda>m u. u m) base_Occasion
      [plain Occasion_eventId_update (Occasion_eventId m) [],
       given Occasion_post_update (Occasion_post m),
       given Occasion_info_update (Occasion_info m),
       given Occasion_startsAt_update (Occasion_startsAt m),
       given Occasion_endsAt_update (Occasion_endsAt m),
       given Occasion_location_update (Occasion_location m),
       given Occasion_syncMissingSince_update (Occasion_syncMissingSince m),
       given Occasion_rsvps_update (Occasion_rsvps m),
       given Occasion_currentUserRsvp_update (Occasion_currentUserRsvp m),
       pushed Occasion_syncDestinations_update (Occasion_syncDestinations m),
       given Occasion_timezone_update (Occasion_timezone m)] = m"
    by (cases m) (simp add: field_changes base_Occasion_def)
qed (insert assms(1,2),
    (rule wire_fields message_codecs | (simp add: updater_def switch_Occasion_def safe_Occasion_def list_all_iff; fail))+)

lemma decodes_Occasion [message_codecs]:
  assumes "wire_format W" "safe_Occasion W m" "encode_Occasion W m [] = Inr b"
  shows "decodes (decode_Occasion W) m b"
  unfolding decode_Occasion_def by (rule builds_decodes [OF builds_Occasion [OF assms]])

lemma settles_Occasion [message_returns]: "wire_format W \<Longrightarrow> settles k (decode_Occasion W)"
  unfolding decode_Occasion_def
  by (rule wire_format.settles_message, assumption,
      unfold switch_Occasion_def switch_field.simps switch_alternatives.simps)
    (rule wire_ends message_returns | assumption)+

section \<open>Event\<close>

record Event =
  Event_post :: "Post option"
  Event_info :: "EventInfo option"
  Event_occasions :: "Occasion list"
  Event_occasionCount :: int

definition base_Event :: Event where
  "base_Event =
     \<lparr>Event_post = None,
      Event_info = None,
      Event_occasions = [],
      Event_occasionCount = 0\<rparr>"

definition encode_Event :: "wire \<Rightarrow> Event \<Rightarrow> bytes \<Rightarrow> bytes result" where
  "encode_Event W m =
     write_all
       [write_given (Event_post m) (\<lambda>v. nested W 18 (encode_Post W v)),
        write_given (Event_info m) (\<lambda>v. nested W 26 (encode_EventInfo W v)),
        write_each (Event_occasions m) (\<lambda>v. nested W 34 (encode_Occasion W v)),
        write_when (Event_occasionCount m \<noteq> 0) (tagged W 40 (put_uint64 W (Event_occasionCount m)))]"

definition switch_Event :: "wire \<Rightarrow> int \<Rightarrow> reader \<Rightarrow> Event \<Rightarrow> Event loop_step run" where
  "switch_Event W tag r m =
     switch_field tag
       [(2, [(18, read_message W (decode_Post W) (\<lambda>v. m\<lparr>Event_post := Some v\<rparr>) r)]),
        (3, [(26, read_message W (decode_EventInfo W) (\<lambda>v. m\<lparr>Event_info := Some v\<rparr>) r)]),
        (4, [(34, read_message W (decode_Occasion W) (\<lambda>v. Event_occasions_update (\<lambda>old. old @ [v]) m) r)]),
        (5, [(40, read_field (get_long (get_uint64 W)) (\<lambda>v. m\<lparr>Event_occasionCount := v\<rparr>) r)])]"

definition decode_Event :: "wire \<Rightarrow> reader \<Rightarrow> int option \<Rightarrow> (Event \<times> reader) run" where
  "decode_Event W = decode_message W (switch_Event W) base_Event"

definition safe_Event :: "wire \<Rightarrow> Event \<Rightarrow> bool" where
  "safe_Event W m \<longleftrightarrow>
     pred_option (safe_Post W) (Event_post m) \<and>
     list_all (safe_Occasion W) (Event_occasions m) \<and>
     safe_long (Event_occasionCount m)"

lemma builds_Event:
  assumes "wire_format W" "safe_Event W m" "encode_Event W m [] = Inr b"
  shows "builds W (switch_Event W) base_Event m b"
proof (rule message_builds [OF assms(3) [unfolded encode_Event_def]])
  show "foldl (\<lambda>m u. u m) base_Event
      [given Event_post_update (Event_post m),
       given Event_info_update (Event_info m),
       pushed Event_occasions_update (Event_occasions m),
       plain Event_occasionCount_update (Event_occasionCount m) 0] = m"
    by (cases m) (simp add: field_changes base_Event_def)
qed (insert assms(1,2),
    (rule wire_fields message_codecs | (simp add: updater_def switch_Event_def safe_Event_def list_all_iff; fail))+)

lemma decodes_Event [message_codecs]:
  assumes "wire_format W" "safe_Event W m" "encode_Event W m [] = Inr b"
  shows "decodes (decode_Event W) m b"
  unfolding decode_Event_def by (rule builds_decodes [OF builds_Event [OF assms]])

lemma settles_Event [message_returns]: "wire_format W \<Longrightarrow> settles k (decode_Event W)"
  unfolding decode_Event_def
  by (rule wire_format.settles_message, assumption,
      unfold switch_Event_def switch_field.simps switch_alternatives.simps)
    (rule wire_ends message_returns | assumption)+

section \<open>GetEventsResponse\<close>

record GetEventsResponse =
  GetEventsResponse_events :: "Event list"

definition base_GetEventsResponse :: GetEventsResponse where
  "base_GetEventsResponse =
     \<lparr>GetEventsResponse_events = []\<rparr>"

definition encode_GetEventsResponse :: "wire \<Rightarrow> GetEventsResponse \<Rightarrow> bytes \<Rightarrow> bytes result" where
  "encode_GetEventsResponse W m =
     write_all
       [write_each (GetEventsResponse_events m) (\<lambda>v. nested W 10 (encode_Event W v))]"

definition switch_GetEventsResponse :: "wire \<Rightarrow> int \<Rightarrow> reader \<Rightarrow> GetEventsResponse \<Rightarrow> GetEventsResponse loop_step run" where
  "switch_GetEventsResponse W tag r m =
     switch_field tag
       [(1, [(10, read_message W (decode_Event W) (\<lambda>v. GetEventsResponse_events_update (\<lambda>old. old @ [v]) m) r)])]"

definition decode_GetEventsResponse :: "wire \<Rightarrow> reader \<Rightarrow> int option \<Rightarrow> (GetEventsResponse \<times> reader) run" where
  "decode_GetEventsResponse W = decode_message W (switch_GetEventsResponse W) base_GetEventsResponse"

definition safe_GetEventsResponse :: "wire \<Rightarrow> GetEventsResponse \<Rightarrow> bool" where
  "safe_GetEventsResponse W m \<longleftrightarrow>
     list_all (safe_Event W) (GetEventsResponse_events m)"

lemma builds_GetEventsResponse:
  assumes "wire_format W" "safe_GetEventsResponse W m" "encode_GetEventsResponse W m [] = Inr b"
  shows "builds W (switch_GetEventsResponse W) base_GetEventsResponse m b"
proof (rule message_builds [OF assms(3) [unfolded encode_GetEventsResponse_def]])
  show "foldl (\<lambda>m u. u m) base_GetEventsResponse
      [pushed GetEventsResponse_events_update (GetEventsResponse_events m)] = m"
    by (cases m) (simp add: field_changes base_GetEventsResponse_def)
qed (insert assms(1,2),
    (rule wire_fields message_codecs | (simp add: updater_def switch_GetEventsResponse_def safe_GetEventsResponse_def list_all_iff; fail))+)

lemma decodes_GetEventsResponse [message_codecs]:
  assumes "wire_format W" "safe_GetEventsResponse W m" "encode_GetEventsResponse W m [] = Inr b"
  shows "decodes (decode_GetEventsResponse W) m b"
  unfolding decode_GetEventsResponse_def by (rule builds_decodes [OF builds_GetEventsResponse [OF assms]])

lemma settles_GetEventsResponse [message_returns]: "wire_format W \<Longrightarrow> settles k (decode_GetEventsResponse W)"
  unfolding decode_GetEventsResponse_def
  by (rule wire_format.settles_message, assumption,
      unfold switch_GetEventsResponse_def switch_field.simps switch_alternatives.simps)
    (rule wire_ends message_returns | assumption)+

section \<open>SyncOccasionRequest\<close>

record SyncOccasionRequest =
  SyncOccasionRequest_occasionId :: string
  SyncOccasionRequest_syncDestinationId :: string

definition base_SyncOccasionRequest :: SyncOccasionRequest where
  "base_SyncOccasionRequest =
     \<lparr>SyncOccasionRequest_occasionId = [],
      SyncOccasionRequest_syncDestinationId = []\<rparr>"

definition encode_SyncOccasionRequest :: "wire \<Rightarrow> SyncOccasionRequest \<Rightarrow> bytes \<Rightarrow> bytes result" where
  "encode_SyncOccasionRequest W m =
     write_all
       [write_when (SyncOccasionRequest_occasionId m \<noteq> []) (tagged W 10 (put_string W (SyncOccasionRequest_occasionId m))),
        write_when (SyncOccasionRequest_syncDestinationId m \<noteq> []) (tagged W 18 (put_string W (SyncOccasionRequest_syncDestinationId m)))]"

definition switch_SyncOccasionRequest :: "wire \<Rightarrow> int \<Rightarrow> reader \<Rightarrow> SyncOccasionRequest \<Rightarrow> SyncOccasionRequest loop_step run" where
  "switch_SyncOccasionRequest W tag r m =
     switch_field tag
       [(1, [(10, read_field (get_string W) (\<lambda>v. m\<lparr>SyncOccasionRequest_occasionId := v\<rparr>) r)]),
        (2, [(18, read_field (get_string W) (\<lambda>v. m\<lparr>SyncOccasionRequest_syncDestinationId := v\<rparr>) r)])]"

definition decode_SyncOccasionRequest :: "wire \<Rightarrow> reader \<Rightarrow> int option \<Rightarrow> (SyncOccasionRequest \<times> reader) run" where
  "decode_SyncOccasionRequest W = decode_message W (switch_SyncOccasionRequest W) base_SyncOccasionRequest"

lemma builds_SyncOccasionRequest:
  assumes "wire_format W" "encode_SyncOccasionRequest W m [] = Inr b"
  shows "builds W (switch_SyncOccasionRequest W) base_SyncOccasionRequest m b"
proof (rule message_builds [OF assms(2) [unfolded encode_SyncOccasionRequest_def]])
  show "foldl (\<lambda>m u. u m) base_SyncOccasionRequest
      [plain SyncOccasionRequest_occasionId_update (SyncOccasionRequest_occasionId m) [],
       plain SyncOccasionRequest_syncDestinationId_update (SyncOccasionRequest_syncDestinationId m) []] = m"
    by (cases m) (simp add: field_changes base_SyncOccasionRequest_def)
qed (insert assms(1),
    (rule wire_fields message_codecs | (simp add: updater_def switch_SyncOccasionRequest_def list_all_iff; fail))+)

lemma decodes_SyncOccasionRequest [message_codecs]:
  assumes "wire_format W" "encode_SyncOccasionRequest W m [] = Inr b"
  shows "decodes (decode_SyncOccasionRequest W) m b"
  unfolding decode_SyncOccasionRequest_def by (rule builds_decodes [OF builds_SyncOccasionRequest [OF assms]])

lemma settles_SyncOccasionRequest [message_returns]: "wire_format W \<Longrightarrow> settles k (decode_SyncOccasionRequest W)"
  unfolding decode_SyncOccasionRequest_def
  by (rule wire_format.settles_message, assumption,
      unfold switch_SyncOccasionRequest_def switch_field.simps switch_alternatives.simps)
    (rule wire_ends message_returns | assumption)+

section \<open>DeleteOccasionSyncDestinationRequest\<close>

record DeleteOccasionSyncDestinationRequest =
  DeleteOccasionSyncDestinationRequest_occasionId :: string
  DeleteOccasionSyncDestinationRequest_syncDestinationId :: string

definition base_DeleteOccasionSyncDestinationRequest :: DeleteOccasionSyncDestinationRequest where
  "base_DeleteOccasionSyncDestinationRequest =
     \<lparr>DeleteOccasionSyncDestinationRequest_occasionId = [],
      DeleteOccasionSyncDestinationRequest_syncDestinationId = []\<rparr>"

definition encode_DeleteOccasionSyncDestinationRequest :: "wire \<Rightarrow> DeleteOccasionSyncDestinationRequest \<Rightarrow> bytes \<Rightarrow> bytes result" where
  "encode_DeleteOccasionSyncDestinationRequest W m =
     write_all
       [write_when (DeleteOccasionSyncDestinationRequest_occasionId m \<noteq> []) (tagged W 10 (put_string W (DeleteOccasionSyncDestinationRequest_occasionId m))),
        write_when (DeleteOccasionSyncDestinationRequest_syncDestinationId m \<noteq> []) (tagged W 18 (put_string W (DeleteOccasionSyncDestinationRequest_syncDestinationId m)))]"

definition switch_DeleteOccasionSyncDestinationRequest :: "wire \<Rightarrow> int \<Rightarrow> reader \<Rightarrow> DeleteOccasionSyncDestinationRequest \<Rightarrow> DeleteOccasionSyncDestinationRequest loop_step run" where
  "switch_DeleteOccasionSyncDestinationRequest W tag r m =
     switch_field tag
       [(1, [(10, read_field (get_string W) (\<lambda>v. m\<lparr>DeleteOccasionSyncDestinationRequest_occasionId := v\<rparr>) r)]),
        (2, [(18, read_field (get_string W) (\<lambda>v. m\<lparr>DeleteOccasionSyncDestinationRequest_syncDestinationId := v\<rparr>) r)])]"

definition decode_DeleteOccasionSyncDestinationRequest :: "wire \<Rightarrow> reader \<Rightarrow> int option \<Rightarrow> (DeleteOccasionSyncDestinationRequest \<times> reader) run" where
  "decode_DeleteOccasionSyncDestinationRequest W = decode_message W (switch_DeleteOccasionSyncDestinationRequest W) base_DeleteOccasionSyncDestinationRequest"

lemma builds_DeleteOccasionSyncDestinationRequest:
  assumes "wire_format W" "encode_DeleteOccasionSyncDestinationRequest W m [] = Inr b"
  shows "builds W (switch_DeleteOccasionSyncDestinationRequest W) base_DeleteOccasionSyncDestinationRequest m b"
proof (rule message_builds [OF assms(2) [unfolded encode_DeleteOccasionSyncDestinationRequest_def]])
  show "foldl (\<lambda>m u. u m) base_DeleteOccasionSyncDestinationRequest
      [plain DeleteOccasionSyncDestinationRequest_occasionId_update (DeleteOccasionSyncDestinationRequest_occasionId m) [],
       plain DeleteOccasionSyncDestinationRequest_syncDestinationId_update (DeleteOccasionSyncDestinationRequest_syncDestinationId m) []] = m"
    by (cases m) (simp add: field_changes base_DeleteOccasionSyncDestinationRequest_def)
qed (insert assms(1),
    (rule wire_fields message_codecs | (simp add: updater_def switch_DeleteOccasionSyncDestinationRequest_def list_all_iff; fail))+)

lemma decodes_DeleteOccasionSyncDestinationRequest [message_codecs]:
  assumes "wire_format W" "encode_DeleteOccasionSyncDestinationRequest W m [] = Inr b"
  shows "decodes (decode_DeleteOccasionSyncDestinationRequest W) m b"
  unfolding decode_DeleteOccasionSyncDestinationRequest_def by (rule builds_decodes [OF builds_DeleteOccasionSyncDestinationRequest [OF assms]])

lemma settles_DeleteOccasionSyncDestinationRequest [message_returns]: "wire_format W \<Longrightarrow> settles k (decode_DeleteOccasionSyncDestinationRequest W)"
  unfolding decode_DeleteOccasionSyncDestinationRequest_def
  by (rule wire_format.settles_message, assumption,
      unfold switch_DeleteOccasionSyncDestinationRequest_def switch_field.simps switch_alternatives.simps)
    (rule wire_ends message_returns | assumption)+

section \<open>GetRsvpsRequest\<close>

record GetRsvpsRequest =
  GetRsvpsRequest_occasionId :: string
  GetRsvpsRequest_anonymousAttendeeAuthToken :: "string option"

definition base_GetRsvpsRequest :: GetRsvpsRequest where
  "base_GetRsvpsRequest =
     \<lparr>GetRsvpsRequest_occasionId = [],
      GetRsvpsRequest_anonymousAttendeeAuthToken = None\<rparr>"

definition encode_GetRsvpsRequest :: "wire \<Rightarrow> GetRsvpsRequest \<Rightarrow> bytes \<Rightarrow> bytes result" where
  "encode_GetRsvpsRequest W m =
     write_all
       [write_when (GetRsvpsRequest_occasionId m \<noteq> []) (tagged W 10 (put_string W (GetRsvpsRequest_occasionId m))),
        write_given (GetRsvpsRequest_anonymousAttendeeAuthToken m) (\<lambda>v. tagged W 18 (put_string W v))]"

definition switch_GetRsvpsRequest :: "wire \<Rightarrow> int \<Rightarrow> reader \<Rightarrow> GetRsvpsRequest \<Rightarrow> GetRsvpsRequest loop_step run" where
  "switch_GetRsvpsRequest W tag r m =
     switch_field tag
       [(1, [(10, read_field (get_string W) (\<lambda>v. m\<lparr>GetRsvpsRequest_occasionId := v\<rparr>) r)]),
        (2, [(18, read_field (get_string W) (\<lambda>v. m\<lparr>GetRsvpsRequest_anonymousAttendeeAuthToken := Some v\<rparr>) r)])]"

definition decode_GetRsvpsRequest :: "wire \<Rightarrow> reader \<Rightarrow> int option \<Rightarrow> (GetRsvpsRequest \<times> reader) run" where
  "decode_GetRsvpsRequest W = decode_message W (switch_GetRsvpsRequest W) base_GetRsvpsRequest"

lemma builds_GetRsvpsRequest:
  assumes "wire_format W" "encode_GetRsvpsRequest W m [] = Inr b"
  shows "builds W (switch_GetRsvpsRequest W) base_GetRsvpsRequest m b"
proof (rule message_builds [OF assms(2) [unfolded encode_GetRsvpsRequest_def]])
  show "foldl (\<lambda>m u. u m) base_GetRsvpsRequest
      [plain GetRsvpsRequest_occasionId_update (GetRsvpsRequest_occasionId m) [],
       given GetRsvpsRequest_anonymousAttendeeAuthToken_update (GetRsvpsRequest_anonymousAttendeeAuthToken m)] = m"
    by (cases m) (simp add: field_changes base_GetRsvpsRequest_def)
qed (insert assms(1),
    (rule wire_fields message_codecs | (simp add: updater_def switch_GetRsvpsRequest_def list_all_iff; fail))+)

lemma decodes_GetRsvpsRequest [message_codecs]:
  assumes "wire_format W" "encode_GetRsvpsRequest W m [] = Inr b"
  shows "decodes (decode_GetRsvpsRequest W) m b"
  unfolding decode_GetRsvpsRequest_def by (rule builds_decodes [OF builds_GetRsvpsRequest [OF assms]])

lemma settles_GetRsvpsRequest [message_returns]: "wire_format W \<Longrightarrow> settles k (decode_GetRsvpsRequest W)"
  unfolding decode_GetRsvpsRequest_def
  by (rule wire_format.settles_message, assumption,
      unfold switch_GetRsvpsRequest_def switch_field.simps switch_alternatives.simps)
    (rule wire_ends message_returns | assumption)+

end
