(* ===== verification/Wire_Messages.thy ===== *)
theory Wire_Messages
  imports Wire_Media
begin

text \<open>
  The codecs of packages/api/generated/messages.ts: of each message the record, the empty message, writing, reading, and that
  reading what was written gives the message back.
\<close>

section \<open>MessageRead\<close>

record MessageRead =
  MessageRead_messageId :: string
  MessageRead_userId :: string
  MessageRead_readAt :: "string option"

definition base_MessageRead :: MessageRead where
  "base_MessageRead =
     \<lparr>MessageRead_messageId = [],
      MessageRead_userId = [],
      MessageRead_readAt = None\<rparr>"

definition encode_MessageRead :: "wire \<Rightarrow> MessageRead \<Rightarrow> bytes \<Rightarrow> bytes result" where
  "encode_MessageRead W m =
     write_all
       [write_when (MessageRead_messageId m \<noteq> []) (tagged W 10 (put_string W (MessageRead_messageId m))),
        write_when (MessageRead_userId m \<noteq> []) (tagged W 18 (put_string W (MessageRead_userId m))),
        write_given (MessageRead_readAt m) (\<lambda>v. nested W 162 (encode_date W v))]"

definition switch_MessageRead :: "wire \<Rightarrow> int \<Rightarrow> reader \<Rightarrow> MessageRead \<Rightarrow> MessageRead loop_step run" where
  "switch_MessageRead W tag r m =
     switch_field tag
       [(1, [(10, read_field (get_string W) (\<lambda>v. m\<lparr>MessageRead_messageId := v\<rparr>) r)]),
        (2, [(18, read_field (get_string W) (\<lambda>v. m\<lparr>MessageRead_userId := v\<rparr>) r)]),
        (20, [(162, read_message W (decode_date W) (\<lambda>v. m\<lparr>MessageRead_readAt := Some v\<rparr>) r)])]"

definition decode_MessageRead :: "wire \<Rightarrow> reader \<Rightarrow> int option \<Rightarrow> (MessageRead \<times> reader) run" where
  "decode_MessageRead W = decode_message W (switch_MessageRead W) base_MessageRead"

definition safe_MessageRead :: "wire \<Rightarrow> MessageRead \<Rightarrow> bool" where
  "safe_MessageRead W m \<longleftrightarrow>
     pred_option canonical_date (MessageRead_readAt m)"

lemma builds_MessageRead:
  assumes "wire_format W" "safe_MessageRead W m" "encode_MessageRead W m [] = Inr b"
  shows "builds W (switch_MessageRead W) base_MessageRead m b"
proof (rule message_builds [OF assms(3) [unfolded encode_MessageRead_def]])
  show "foldl (\<lambda>m u. u m) base_MessageRead
      [plain MessageRead_messageId_update (MessageRead_messageId m) [],
       plain MessageRead_userId_update (MessageRead_userId m) [],
       given MessageRead_readAt_update (MessageRead_readAt m)] = m"
    by (cases m) (simp add: field_changes base_MessageRead_def)
qed (insert assms(1,2),
    (rule wire_fields message_codecs | (simp add: updater_def switch_MessageRead_def safe_MessageRead_def list_all_iff; fail))+)

lemma decodes_MessageRead [message_codecs]:
  assumes "wire_format W" "safe_MessageRead W m" "encode_MessageRead W m [] = Inr b"
  shows "decodes (decode_MessageRead W) m b"
  unfolding decode_MessageRead_def by (rule builds_decodes [OF builds_MessageRead [OF assms]])

lemma settles_MessageRead [message_returns]: "wire_format W \<Longrightarrow> settles k (decode_MessageRead W)"
  unfolding decode_MessageRead_def
  by (rule wire_format.settles_message, assumption,
      unfold switch_MessageRead_def switch_field.simps switch_alternatives.simps)
    (rule wire_ends message_returns | assumption)+

section \<open>MessagingGroup\<close>

record MessagingGroup =
  MessagingGroup_id :: string
  MessagingGroup_members :: "Author list"
  MessagingGroup_createdAt :: "string option"

definition base_MessagingGroup :: MessagingGroup where
  "base_MessagingGroup =
     \<lparr>MessagingGroup_id = [],
      MessagingGroup_members = [],
      MessagingGroup_createdAt = None\<rparr>"

definition encode_MessagingGroup :: "wire \<Rightarrow> MessagingGroup \<Rightarrow> bytes \<Rightarrow> bytes result" where
  "encode_MessagingGroup W m =
     write_all
       [write_when (MessagingGroup_id m \<noteq> []) (tagged W 10 (put_string W (MessagingGroup_id m))),
        write_each (MessagingGroup_members m) (\<lambda>v. nested W 18 (encode_Author W v)),
        write_given (MessagingGroup_createdAt m) (\<lambda>v. nested W 82 (encode_date W v))]"

definition switch_MessagingGroup :: "wire \<Rightarrow> int \<Rightarrow> reader \<Rightarrow> MessagingGroup \<Rightarrow> MessagingGroup loop_step run" where
  "switch_MessagingGroup W tag r m =
     switch_field tag
       [(1, [(10, read_field (get_string W) (\<lambda>v. m\<lparr>MessagingGroup_id := v\<rparr>) r)]),
        (2, [(18, read_message W (decode_Author W) (\<lambda>v. MessagingGroup_members_update (\<lambda>old. old @ [v]) m) r)]),
        (10, [(82, read_message W (decode_date W) (\<lambda>v. m\<lparr>MessagingGroup_createdAt := Some v\<rparr>) r)])]"

definition decode_MessagingGroup :: "wire \<Rightarrow> reader \<Rightarrow> int option \<Rightarrow> (MessagingGroup \<times> reader) run" where
  "decode_MessagingGroup W = decode_message W (switch_MessagingGroup W) base_MessagingGroup"

definition safe_MessagingGroup :: "wire \<Rightarrow> MessagingGroup \<Rightarrow> bool" where
  "safe_MessagingGroup W m \<longleftrightarrow>
     list_all (safe_Author W) (MessagingGroup_members m) \<and>
     pred_option canonical_date (MessagingGroup_createdAt m)"

lemma builds_MessagingGroup:
  assumes "wire_format W" "safe_MessagingGroup W m" "encode_MessagingGroup W m [] = Inr b"
  shows "builds W (switch_MessagingGroup W) base_MessagingGroup m b"
proof (rule message_builds [OF assms(3) [unfolded encode_MessagingGroup_def]])
  show "foldl (\<lambda>m u. u m) base_MessagingGroup
      [plain MessagingGroup_id_update (MessagingGroup_id m) [],
       pushed MessagingGroup_members_update (MessagingGroup_members m),
       given MessagingGroup_createdAt_update (MessagingGroup_createdAt m)] = m"
    by (cases m) (simp add: field_changes base_MessagingGroup_def)
qed (insert assms(1,2),
    (rule wire_fields message_codecs | (simp add: updater_def switch_MessagingGroup_def safe_MessagingGroup_def list_all_iff; fail))+)

lemma decodes_MessagingGroup [message_codecs]:
  assumes "wire_format W" "safe_MessagingGroup W m" "encode_MessagingGroup W m [] = Inr b"
  shows "decodes (decode_MessagingGroup W) m b"
  unfolding decode_MessagingGroup_def by (rule builds_decodes [OF builds_MessagingGroup [OF assms]])

lemma settles_MessagingGroup [message_returns]: "wire_format W \<Longrightarrow> settles k (decode_MessagingGroup W)"
  unfolding decode_MessagingGroup_def
  by (rule wire_format.settles_message, assumption,
      unfold switch_MessagingGroup_def switch_field.simps switch_alternatives.simps)
    (rule wire_ends message_returns | assumption)+

section \<open>Message\<close>

record Message =
  Message_id :: string
  Message_sender :: "Author option"
  Message_messagingGroup :: "MessagingGroup option"
  Message_bodyText :: string
  Message_subject :: "string option"
  Message_emailMessageId :: "string option"
  Message_from :: "string option"
  Message_to :: "string option"
  Message_cc :: "string option"
  Message_bcc :: "string option"
  Message_currentUserRead :: "MessageRead option"
  Message_createdAt :: "string option"

definition base_Message :: Message where
  "base_Message =
     \<lparr>Message_id = [],
      Message_sender = None,
      Message_messagingGroup = None,
      Message_bodyText = [],
      Message_subject = None,
      Message_emailMessageId = None,
      Message_from = None,
      Message_to = None,
      Message_cc = None,
      Message_bcc = None,
      Message_currentUserRead = None,
      Message_createdAt = None\<rparr>"

definition encode_Message :: "wire \<Rightarrow> Message \<Rightarrow> bytes \<Rightarrow> bytes result" where
  "encode_Message W m =
     write_all
       [write_when (Message_id m \<noteq> []) (tagged W 10 (put_string W (Message_id m))),
        write_given (Message_sender m) (\<lambda>v. nested W 18 (encode_Author W v)),
        write_given (Message_messagingGroup m) (\<lambda>v. nested W 26 (encode_MessagingGroup W v)),
        write_when (Message_bodyText m \<noteq> []) (tagged W 34 (put_string W (Message_bodyText m))),
        write_given (Message_subject m) (\<lambda>v. tagged W 42 (put_string W v)),
        write_given (Message_emailMessageId m) (\<lambda>v. tagged W 50 (put_string W v)),
        write_given (Message_from m) (\<lambda>v. tagged W 58 (put_string W v)),
        write_given (Message_to m) (\<lambda>v. tagged W 66 (put_string W v)),
        write_given (Message_cc m) (\<lambda>v. tagged W 74 (put_string W v)),
        write_given (Message_bcc m) (\<lambda>v. tagged W 82 (put_string W v)),
        write_given (Message_currentUserRead m) (\<lambda>v. nested W 154 (encode_MessageRead W v)),
        write_given (Message_createdAt m) (\<lambda>v. nested W 162 (encode_date W v))]"

definition switch_Message :: "wire \<Rightarrow> int \<Rightarrow> reader \<Rightarrow> Message \<Rightarrow> Message loop_step run" where
  "switch_Message W tag r m =
     switch_field tag
       [(1, [(10, read_field (get_string W) (\<lambda>v. m\<lparr>Message_id := v\<rparr>) r)]),
        (2, [(18, read_message W (decode_Author W) (\<lambda>v. m\<lparr>Message_sender := Some v\<rparr>) r)]),
        (3, [(26, read_message W (decode_MessagingGroup W) (\<lambda>v. m\<lparr>Message_messagingGroup := Some v\<rparr>) r)]),
        (4, [(34, read_field (get_string W) (\<lambda>v. m\<lparr>Message_bodyText := v\<rparr>) r)]),
        (5, [(42, read_field (get_string W) (\<lambda>v. m\<lparr>Message_subject := Some v\<rparr>) r)]),
        (6, [(50, read_field (get_string W) (\<lambda>v. m\<lparr>Message_emailMessageId := Some v\<rparr>) r)]),
        (7, [(58, read_field (get_string W) (\<lambda>v. m\<lparr>Message_from := Some v\<rparr>) r)]),
        (8, [(66, read_field (get_string W) (\<lambda>v. m\<lparr>Message_to := Some v\<rparr>) r)]),
        (9, [(74, read_field (get_string W) (\<lambda>v. m\<lparr>Message_cc := Some v\<rparr>) r)]),
        (10, [(82, read_field (get_string W) (\<lambda>v. m\<lparr>Message_bcc := Some v\<rparr>) r)]),
        (19, [(154, read_message W (decode_MessageRead W) (\<lambda>v. m\<lparr>Message_currentUserRead := Some v\<rparr>) r)]),
        (20, [(162, read_message W (decode_date W) (\<lambda>v. m\<lparr>Message_createdAt := Some v\<rparr>) r)])]"

definition decode_Message :: "wire \<Rightarrow> reader \<Rightarrow> int option \<Rightarrow> (Message \<times> reader) run" where
  "decode_Message W = decode_message W (switch_Message W) base_Message"

definition safe_Message :: "wire \<Rightarrow> Message \<Rightarrow> bool" where
  "safe_Message W m \<longleftrightarrow>
     pred_option (safe_Author W) (Message_sender m) \<and>
     pred_option (safe_MessagingGroup W) (Message_messagingGroup m) \<and>
     pred_option (safe_MessageRead W) (Message_currentUserRead m) \<and>
     pred_option canonical_date (Message_createdAt m)"

lemma builds_Message:
  assumes "wire_format W" "safe_Message W m" "encode_Message W m [] = Inr b"
  shows "builds W (switch_Message W) base_Message m b"
proof (rule message_builds [OF assms(3) [unfolded encode_Message_def]])
  show "foldl (\<lambda>m u. u m) base_Message
      [plain Message_id_update (Message_id m) [],
       given Message_sender_update (Message_sender m),
       given Message_messagingGroup_update (Message_messagingGroup m),
       plain Message_bodyText_update (Message_bodyText m) [],
       given Message_subject_update (Message_subject m),
       given Message_emailMessageId_update (Message_emailMessageId m),
       given Message_from_update (Message_from m),
       given Message_to_update (Message_to m),
       given Message_cc_update (Message_cc m),
       given Message_bcc_update (Message_bcc m),
       given Message_currentUserRead_update (Message_currentUserRead m),
       given Message_createdAt_update (Message_createdAt m)] = m"
    by (cases m) (simp add: field_changes base_Message_def)
qed (insert assms(1,2),
    (rule wire_fields message_codecs | (simp add: updater_def switch_Message_def safe_Message_def list_all_iff; fail))+)

lemma decodes_Message [message_codecs]:
  assumes "wire_format W" "safe_Message W m" "encode_Message W m [] = Inr b"
  shows "decodes (decode_Message W) m b"
  unfolding decode_Message_def by (rule builds_decodes [OF builds_Message [OF assms]])

lemma settles_Message [message_returns]: "wire_format W \<Longrightarrow> settles k (decode_Message W)"
  unfolding decode_Message_def
  by (rule wire_format.settles_message, assumption,
      unfold switch_Message_def switch_field.simps switch_alternatives.simps)
    (rule wire_ends message_returns | assumption)+

section \<open>MarkMessagesReadRequest\<close>

record MarkMessagesReadRequest =
  MarkMessagesReadRequest_unread :: bool
  MarkMessagesReadRequest_messageIds :: "string list"

definition base_MarkMessagesReadRequest :: MarkMessagesReadRequest where
  "base_MarkMessagesReadRequest =
     \<lparr>MarkMessagesReadRequest_unread = False,
      MarkMessagesReadRequest_messageIds = []\<rparr>"

definition encode_MarkMessagesReadRequest :: "wire \<Rightarrow> MarkMessagesReadRequest \<Rightarrow> bytes \<Rightarrow> bytes result" where
  "encode_MarkMessagesReadRequest W m =
     write_all
       [write_when (MarkMessagesReadRequest_unread m \<noteq> False) (tagged W 8 (put_bool W (MarkMessagesReadRequest_unread m))),
        write_each (MarkMessagesReadRequest_messageIds m) (\<lambda>v. tagged W 18 (put_string W v))]"

definition switch_MarkMessagesReadRequest :: "wire \<Rightarrow> int \<Rightarrow> reader \<Rightarrow> MarkMessagesReadRequest \<Rightarrow> MarkMessagesReadRequest loop_step run" where
  "switch_MarkMessagesReadRequest W tag r m =
     switch_field tag
       [(1, [(8, read_field (get_bool W) (\<lambda>v. m\<lparr>MarkMessagesReadRequest_unread := v\<rparr>) r)]),
        (2, [(18, read_field (get_string W) (\<lambda>v. MarkMessagesReadRequest_messageIds_update (\<lambda>old. old @ [v]) m) r)])]"

definition decode_MarkMessagesReadRequest :: "wire \<Rightarrow> reader \<Rightarrow> int option \<Rightarrow> (MarkMessagesReadRequest \<times> reader) run" where
  "decode_MarkMessagesReadRequest W = decode_message W (switch_MarkMessagesReadRequest W) base_MarkMessagesReadRequest"

lemma builds_MarkMessagesReadRequest:
  assumes "wire_format W" "encode_MarkMessagesReadRequest W m [] = Inr b"
  shows "builds W (switch_MarkMessagesReadRequest W) base_MarkMessagesReadRequest m b"
proof (rule message_builds [OF assms(2) [unfolded encode_MarkMessagesReadRequest_def]])
  show "foldl (\<lambda>m u. u m) base_MarkMessagesReadRequest
      [plain MarkMessagesReadRequest_unread_update (MarkMessagesReadRequest_unread m) False,
       pushed MarkMessagesReadRequest_messageIds_update (MarkMessagesReadRequest_messageIds m)] = m"
    by (cases m) (simp add: field_changes base_MarkMessagesReadRequest_def)
qed (insert assms(1),
    (rule wire_fields message_codecs | (simp add: updater_def switch_MarkMessagesReadRequest_def list_all_iff; fail))+)

lemma decodes_MarkMessagesReadRequest [message_codecs]:
  assumes "wire_format W" "encode_MarkMessagesReadRequest W m [] = Inr b"
  shows "decodes (decode_MarkMessagesReadRequest W) m b"
  unfolding decode_MarkMessagesReadRequest_def by (rule builds_decodes [OF builds_MarkMessagesReadRequest [OF assms]])

lemma settles_MarkMessagesReadRequest [message_returns]: "wire_format W \<Longrightarrow> settles k (decode_MarkMessagesReadRequest W)"
  unfolding decode_MarkMessagesReadRequest_def
  by (rule wire_format.settles_message, assumption,
      unfold switch_MarkMessagesReadRequest_def switch_field.simps switch_alternatives.simps)
    (rule wire_ends message_returns | assumption)+

section \<open>MarkMessagesReadResponse\<close>

record MarkMessagesReadResponse =
  MarkMessagesReadResponse_messageReads :: "MessageRead list"

definition base_MarkMessagesReadResponse :: MarkMessagesReadResponse where
  "base_MarkMessagesReadResponse =
     \<lparr>MarkMessagesReadResponse_messageReads = []\<rparr>"

definition encode_MarkMessagesReadResponse :: "wire \<Rightarrow> MarkMessagesReadResponse \<Rightarrow> bytes \<Rightarrow> bytes result" where
  "encode_MarkMessagesReadResponse W m =
     write_all
       [write_each (MarkMessagesReadResponse_messageReads m) (\<lambda>v. nested W 10 (encode_MessageRead W v))]"

definition switch_MarkMessagesReadResponse :: "wire \<Rightarrow> int \<Rightarrow> reader \<Rightarrow> MarkMessagesReadResponse \<Rightarrow> MarkMessagesReadResponse loop_step run" where
  "switch_MarkMessagesReadResponse W tag r m =
     switch_field tag
       [(1, [(10, read_message W (decode_MessageRead W) (\<lambda>v. MarkMessagesReadResponse_messageReads_update (\<lambda>old. old @ [v]) m) r)])]"

definition decode_MarkMessagesReadResponse :: "wire \<Rightarrow> reader \<Rightarrow> int option \<Rightarrow> (MarkMessagesReadResponse \<times> reader) run" where
  "decode_MarkMessagesReadResponse W = decode_message W (switch_MarkMessagesReadResponse W) base_MarkMessagesReadResponse"

definition safe_MarkMessagesReadResponse :: "wire \<Rightarrow> MarkMessagesReadResponse \<Rightarrow> bool" where
  "safe_MarkMessagesReadResponse W m \<longleftrightarrow>
     list_all (safe_MessageRead W) (MarkMessagesReadResponse_messageReads m)"

lemma builds_MarkMessagesReadResponse:
  assumes "wire_format W" "safe_MarkMessagesReadResponse W m" "encode_MarkMessagesReadResponse W m [] = Inr b"
  shows "builds W (switch_MarkMessagesReadResponse W) base_MarkMessagesReadResponse m b"
proof (rule message_builds [OF assms(3) [unfolded encode_MarkMessagesReadResponse_def]])
  show "foldl (\<lambda>m u. u m) base_MarkMessagesReadResponse
      [pushed MarkMessagesReadResponse_messageReads_update (MarkMessagesReadResponse_messageReads m)] = m"
    by (cases m) (simp add: field_changes base_MarkMessagesReadResponse_def)
qed (insert assms(1,2),
    (rule wire_fields message_codecs | (simp add: updater_def switch_MarkMessagesReadResponse_def safe_MarkMessagesReadResponse_def list_all_iff; fail))+)

lemma decodes_MarkMessagesReadResponse [message_codecs]:
  assumes "wire_format W" "safe_MarkMessagesReadResponse W m" "encode_MarkMessagesReadResponse W m [] = Inr b"
  shows "decodes (decode_MarkMessagesReadResponse W) m b"
  unfolding decode_MarkMessagesReadResponse_def by (rule builds_decodes [OF builds_MarkMessagesReadResponse [OF assms]])

lemma settles_MarkMessagesReadResponse [message_returns]: "wire_format W \<Longrightarrow> settles k (decode_MarkMessagesReadResponse W)"
  unfolding decode_MarkMessagesReadResponse_def
  by (rule wire_format.settles_message, assumption,
      unfold switch_MarkMessagesReadResponse_def switch_field.simps switch_alternatives.simps)
    (rule wire_ends message_returns | assumption)+

section \<open>SendMessageRequest\<close>

record SendMessageRequest =
  SendMessageRequest_toUserIds :: "string list"
  SendMessageRequest_subject :: "string option"
  SendMessageRequest_bodyText :: "string option"

definition base_SendMessageRequest :: SendMessageRequest where
  "base_SendMessageRequest =
     \<lparr>SendMessageRequest_toUserIds = [],
      SendMessageRequest_subject = None,
      SendMessageRequest_bodyText = None\<rparr>"

definition encode_SendMessageRequest :: "wire \<Rightarrow> SendMessageRequest \<Rightarrow> bytes \<Rightarrow> bytes result" where
  "encode_SendMessageRequest W m =
     write_all
       [write_each (SendMessageRequest_toUserIds m) (\<lambda>v. tagged W 10 (put_string W v)),
        write_given (SendMessageRequest_subject m) (\<lambda>v. tagged W 18 (put_string W v)),
        write_given (SendMessageRequest_bodyText m) (\<lambda>v. tagged W 26 (put_string W v))]"

definition switch_SendMessageRequest :: "wire \<Rightarrow> int \<Rightarrow> reader \<Rightarrow> SendMessageRequest \<Rightarrow> SendMessageRequest loop_step run" where
  "switch_SendMessageRequest W tag r m =
     switch_field tag
       [(1, [(10, read_field (get_string W) (\<lambda>v. SendMessageRequest_toUserIds_update (\<lambda>old. old @ [v]) m) r)]),
        (2, [(18, read_field (get_string W) (\<lambda>v. m\<lparr>SendMessageRequest_subject := Some v\<rparr>) r)]),
        (3, [(26, read_field (get_string W) (\<lambda>v. m\<lparr>SendMessageRequest_bodyText := Some v\<rparr>) r)])]"

definition decode_SendMessageRequest :: "wire \<Rightarrow> reader \<Rightarrow> int option \<Rightarrow> (SendMessageRequest \<times> reader) run" where
  "decode_SendMessageRequest W = decode_message W (switch_SendMessageRequest W) base_SendMessageRequest"

lemma builds_SendMessageRequest:
  assumes "wire_format W" "encode_SendMessageRequest W m [] = Inr b"
  shows "builds W (switch_SendMessageRequest W) base_SendMessageRequest m b"
proof (rule message_builds [OF assms(2) [unfolded encode_SendMessageRequest_def]])
  show "foldl (\<lambda>m u. u m) base_SendMessageRequest
      [pushed SendMessageRequest_toUserIds_update (SendMessageRequest_toUserIds m),
       given SendMessageRequest_subject_update (SendMessageRequest_subject m),
       given SendMessageRequest_bodyText_update (SendMessageRequest_bodyText m)] = m"
    by (cases m) (simp add: field_changes base_SendMessageRequest_def)
qed (insert assms(1),
    (rule wire_fields message_codecs | (simp add: updater_def switch_SendMessageRequest_def list_all_iff; fail))+)

lemma decodes_SendMessageRequest [message_codecs]:
  assumes "wire_format W" "encode_SendMessageRequest W m [] = Inr b"
  shows "decodes (decode_SendMessageRequest W) m b"
  unfolding decode_SendMessageRequest_def by (rule builds_decodes [OF builds_SendMessageRequest [OF assms]])

lemma settles_SendMessageRequest [message_returns]: "wire_format W \<Longrightarrow> settles k (decode_SendMessageRequest W)"
  unfolding decode_SendMessageRequest_def
  by (rule wire_format.settles_message, assumption,
      unfold switch_SendMessageRequest_def switch_field.simps switch_alternatives.simps)
    (rule wire_ends message_returns | assumption)+

section \<open>GetMessagesRequest\<close>

record GetMessagesRequest =
  GetMessagesRequest_listingType :: int
  GetMessagesRequest_messageId :: "string option"
  GetMessagesRequest_messageGroupId :: "string option"
  GetMessagesRequest_searchText :: "string option"
  GetMessagesRequest_sentBefore :: "string option"
  GetMessagesRequest_fromEmail :: "string option"

definition base_GetMessagesRequest :: GetMessagesRequest where
  "base_GetMessagesRequest =
     \<lparr>GetMessagesRequest_listingType = 0,
      GetMessagesRequest_messageId = None,
      GetMessagesRequest_messageGroupId = None,
      GetMessagesRequest_searchText = None,
      GetMessagesRequest_sentBefore = None,
      GetMessagesRequest_fromEmail = None\<rparr>"

definition encode_GetMessagesRequest :: "wire \<Rightarrow> GetMessagesRequest \<Rightarrow> bytes \<Rightarrow> bytes result" where
  "encode_GetMessagesRequest W m =
     write_all
       [write_when (GetMessagesRequest_listingType m \<noteq> 0) (tagged W 8 (put_int32 W (GetMessagesRequest_listingType m))),
        write_given (GetMessagesRequest_messageId m) (\<lambda>v. tagged W 18 (put_string W v)),
        write_given (GetMessagesRequest_messageGroupId m) (\<lambda>v. tagged W 26 (put_string W v)),
        write_given (GetMessagesRequest_searchText m) (\<lambda>v. tagged W 58 (put_string W v)),
        write_given (GetMessagesRequest_sentBefore m) (\<lambda>v. nested W 66 (encode_date W v)),
        write_given (GetMessagesRequest_fromEmail m) (\<lambda>v. tagged W 74 (put_string W v))]"

definition switch_GetMessagesRequest :: "wire \<Rightarrow> int \<Rightarrow> reader \<Rightarrow> GetMessagesRequest \<Rightarrow> GetMessagesRequest loop_step run" where
  "switch_GetMessagesRequest W tag r m =
     switch_field tag
       [(1, [(8, read_field (get_int32 W) (\<lambda>v. m\<lparr>GetMessagesRequest_listingType := v\<rparr>) r)]),
        (2, [(18, read_field (get_string W) (\<lambda>v. m\<lparr>GetMessagesRequest_messageId := Some v\<rparr>) r)]),
        (3, [(26, read_field (get_string W) (\<lambda>v. m\<lparr>GetMessagesRequest_messageGroupId := Some v\<rparr>) r)]),
        (7, [(58, read_field (get_string W) (\<lambda>v. m\<lparr>GetMessagesRequest_searchText := Some v\<rparr>) r)]),
        (8, [(66, read_message W (decode_date W) (\<lambda>v. m\<lparr>GetMessagesRequest_sentBefore := Some v\<rparr>) r)]),
        (9, [(74, read_field (get_string W) (\<lambda>v. m\<lparr>GetMessagesRequest_fromEmail := Some v\<rparr>) r)])]"

definition decode_GetMessagesRequest :: "wire \<Rightarrow> reader \<Rightarrow> int option \<Rightarrow> (GetMessagesRequest \<times> reader) run" where
  "decode_GetMessagesRequest W = decode_message W (switch_GetMessagesRequest W) base_GetMessagesRequest"

definition safe_GetMessagesRequest :: "wire \<Rightarrow> GetMessagesRequest \<Rightarrow> bool" where
  "safe_GetMessagesRequest W m \<longleftrightarrow>
     pred_option canonical_date (GetMessagesRequest_sentBefore m)"

lemma builds_GetMessagesRequest:
  assumes "wire_format W" "safe_GetMessagesRequest W m" "encode_GetMessagesRequest W m [] = Inr b"
  shows "builds W (switch_GetMessagesRequest W) base_GetMessagesRequest m b"
proof (rule message_builds [OF assms(3) [unfolded encode_GetMessagesRequest_def]])
  show "foldl (\<lambda>m u. u m) base_GetMessagesRequest
      [plain GetMessagesRequest_listingType_update (GetMessagesRequest_listingType m) 0,
       given GetMessagesRequest_messageId_update (GetMessagesRequest_messageId m),
       given GetMessagesRequest_messageGroupId_update (GetMessagesRequest_messageGroupId m),
       given GetMessagesRequest_searchText_update (GetMessagesRequest_searchText m),
       given GetMessagesRequest_sentBefore_update (GetMessagesRequest_sentBefore m),
       given GetMessagesRequest_fromEmail_update (GetMessagesRequest_fromEmail m)] = m"
    by (cases m) (simp add: field_changes base_GetMessagesRequest_def)
qed (insert assms(1,2),
    (rule wire_fields message_codecs | (simp add: updater_def switch_GetMessagesRequest_def safe_GetMessagesRequest_def list_all_iff; fail))+)

lemma decodes_GetMessagesRequest [message_codecs]:
  assumes "wire_format W" "safe_GetMessagesRequest W m" "encode_GetMessagesRequest W m [] = Inr b"
  shows "decodes (decode_GetMessagesRequest W) m b"
  unfolding decode_GetMessagesRequest_def by (rule builds_decodes [OF builds_GetMessagesRequest [OF assms]])

lemma settles_GetMessagesRequest [message_returns]: "wire_format W \<Longrightarrow> settles k (decode_GetMessagesRequest W)"
  unfolding decode_GetMessagesRequest_def
  by (rule wire_format.settles_message, assumption,
      unfold switch_GetMessagesRequest_def switch_field.simps switch_alternatives.simps)
    (rule wire_ends message_returns | assumption)+

section \<open>GetMessagesResponse\<close>

record GetMessagesResponse =
  GetMessagesResponse_messages :: "Message list"

definition base_GetMessagesResponse :: GetMessagesResponse where
  "base_GetMessagesResponse =
     \<lparr>GetMessagesResponse_messages = []\<rparr>"

definition encode_GetMessagesResponse :: "wire \<Rightarrow> GetMessagesResponse \<Rightarrow> bytes \<Rightarrow> bytes result" where
  "encode_GetMessagesResponse W m =
     write_all
       [write_each (GetMessagesResponse_messages m) (\<lambda>v. nested W 10 (encode_Message W v))]"

definition switch_GetMessagesResponse :: "wire \<Rightarrow> int \<Rightarrow> reader \<Rightarrow> GetMessagesResponse \<Rightarrow> GetMessagesResponse loop_step run" where
  "switch_GetMessagesResponse W tag r m =
     switch_field tag
       [(1, [(10, read_message W (decode_Message W) (\<lambda>v. GetMessagesResponse_messages_update (\<lambda>old. old @ [v]) m) r)])]"

definition decode_GetMessagesResponse :: "wire \<Rightarrow> reader \<Rightarrow> int option \<Rightarrow> (GetMessagesResponse \<times> reader) run" where
  "decode_GetMessagesResponse W = decode_message W (switch_GetMessagesResponse W) base_GetMessagesResponse"

definition safe_GetMessagesResponse :: "wire \<Rightarrow> GetMessagesResponse \<Rightarrow> bool" where
  "safe_GetMessagesResponse W m \<longleftrightarrow>
     list_all (safe_Message W) (GetMessagesResponse_messages m)"

lemma builds_GetMessagesResponse:
  assumes "wire_format W" "safe_GetMessagesResponse W m" "encode_GetMessagesResponse W m [] = Inr b"
  shows "builds W (switch_GetMessagesResponse W) base_GetMessagesResponse m b"
proof (rule message_builds [OF assms(3) [unfolded encode_GetMessagesResponse_def]])
  show "foldl (\<lambda>m u. u m) base_GetMessagesResponse
      [pushed GetMessagesResponse_messages_update (GetMessagesResponse_messages m)] = m"
    by (cases m) (simp add: field_changes base_GetMessagesResponse_def)
qed (insert assms(1,2),
    (rule wire_fields message_codecs | (simp add: updater_def switch_GetMessagesResponse_def safe_GetMessagesResponse_def list_all_iff; fail))+)

lemma decodes_GetMessagesResponse [message_codecs]:
  assumes "wire_format W" "safe_GetMessagesResponse W m" "encode_GetMessagesResponse W m [] = Inr b"
  shows "decodes (decode_GetMessagesResponse W) m b"
  unfolding decode_GetMessagesResponse_def by (rule builds_decodes [OF builds_GetMessagesResponse [OF assms]])

lemma settles_GetMessagesResponse [message_returns]: "wire_format W \<Longrightarrow> settles k (decode_GetMessagesResponse W)"
  unfolding decode_GetMessagesResponse_def
  by (rule wire_format.settles_message, assumption,
      unfold switch_GetMessagesResponse_def switch_field.simps switch_alternatives.simps)
    (rule wire_ends message_returns | assumption)+

section \<open>PushSubscription\<close>

record PushSubscription =
  PushSubscription_id :: string
  PushSubscription_endpoint :: string
  PushSubscription_createdAt :: "string option"

definition base_PushSubscription :: PushSubscription where
  "base_PushSubscription =
     \<lparr>PushSubscription_id = [],
      PushSubscription_endpoint = [],
      PushSubscription_createdAt = None\<rparr>"

definition encode_PushSubscription :: "wire \<Rightarrow> PushSubscription \<Rightarrow> bytes \<Rightarrow> bytes result" where
  "encode_PushSubscription W m =
     write_all
       [write_when (PushSubscription_id m \<noteq> []) (tagged W 10 (put_string W (PushSubscription_id m))),
        write_when (PushSubscription_endpoint m \<noteq> []) (tagged W 18 (put_string W (PushSubscription_endpoint m))),
        write_given (PushSubscription_createdAt m) (\<lambda>v. nested W 162 (encode_date W v))]"

definition switch_PushSubscription :: "wire \<Rightarrow> int \<Rightarrow> reader \<Rightarrow> PushSubscription \<Rightarrow> PushSubscription loop_step run" where
  "switch_PushSubscription W tag r m =
     switch_field tag
       [(1, [(10, read_field (get_string W) (\<lambda>v. m\<lparr>PushSubscription_id := v\<rparr>) r)]),
        (2, [(18, read_field (get_string W) (\<lambda>v. m\<lparr>PushSubscription_endpoint := v\<rparr>) r)]),
        (20, [(162, read_message W (decode_date W) (\<lambda>v. m\<lparr>PushSubscription_createdAt := Some v\<rparr>) r)])]"

definition decode_PushSubscription :: "wire \<Rightarrow> reader \<Rightarrow> int option \<Rightarrow> (PushSubscription \<times> reader) run" where
  "decode_PushSubscription W = decode_message W (switch_PushSubscription W) base_PushSubscription"

definition safe_PushSubscription :: "wire \<Rightarrow> PushSubscription \<Rightarrow> bool" where
  "safe_PushSubscription W m \<longleftrightarrow>
     pred_option canonical_date (PushSubscription_createdAt m)"

lemma builds_PushSubscription:
  assumes "wire_format W" "safe_PushSubscription W m" "encode_PushSubscription W m [] = Inr b"
  shows "builds W (switch_PushSubscription W) base_PushSubscription m b"
proof (rule message_builds [OF assms(3) [unfolded encode_PushSubscription_def]])
  show "foldl (\<lambda>m u. u m) base_PushSubscription
      [plain PushSubscription_id_update (PushSubscription_id m) [],
       plain PushSubscription_endpoint_update (PushSubscription_endpoint m) [],
       given PushSubscription_createdAt_update (PushSubscription_createdAt m)] = m"
    by (cases m) (simp add: field_changes base_PushSubscription_def)
qed (insert assms(1,2),
    (rule wire_fields message_codecs | (simp add: updater_def switch_PushSubscription_def safe_PushSubscription_def list_all_iff; fail))+)

lemma decodes_PushSubscription [message_codecs]:
  assumes "wire_format W" "safe_PushSubscription W m" "encode_PushSubscription W m [] = Inr b"
  shows "decodes (decode_PushSubscription W) m b"
  unfolding decode_PushSubscription_def by (rule builds_decodes [OF builds_PushSubscription [OF assms]])

lemma settles_PushSubscription [message_returns]: "wire_format W \<Longrightarrow> settles k (decode_PushSubscription W)"
  unfolding decode_PushSubscription_def
  by (rule wire_format.settles_message, assumption,
      unfold switch_PushSubscription_def switch_field.simps switch_alternatives.simps)
    (rule wire_ends message_returns | assumption)+

section \<open>RegisterPushSubscriptionRequest\<close>

record RegisterPushSubscriptionRequest =
  RegisterPushSubscriptionRequest_endpoint :: string
  RegisterPushSubscriptionRequest_p256dhKey :: string
  RegisterPushSubscriptionRequest_authKey :: string

definition base_RegisterPushSubscriptionRequest :: RegisterPushSubscriptionRequest where
  "base_RegisterPushSubscriptionRequest =
     \<lparr>RegisterPushSubscriptionRequest_endpoint = [],
      RegisterPushSubscriptionRequest_p256dhKey = [],
      RegisterPushSubscriptionRequest_authKey = []\<rparr>"

definition encode_RegisterPushSubscriptionRequest :: "wire \<Rightarrow> RegisterPushSubscriptionRequest \<Rightarrow> bytes \<Rightarrow> bytes result" where
  "encode_RegisterPushSubscriptionRequest W m =
     write_all
       [write_when (RegisterPushSubscriptionRequest_endpoint m \<noteq> []) (tagged W 10 (put_string W (RegisterPushSubscriptionRequest_endpoint m))),
        write_when (RegisterPushSubscriptionRequest_p256dhKey m \<noteq> []) (tagged W 18 (put_string W (RegisterPushSubscriptionRequest_p256dhKey m))),
        write_when (RegisterPushSubscriptionRequest_authKey m \<noteq> []) (tagged W 26 (put_string W (RegisterPushSubscriptionRequest_authKey m)))]"

definition switch_RegisterPushSubscriptionRequest :: "wire \<Rightarrow> int \<Rightarrow> reader \<Rightarrow> RegisterPushSubscriptionRequest \<Rightarrow> RegisterPushSubscriptionRequest loop_step run" where
  "switch_RegisterPushSubscriptionRequest W tag r m =
     switch_field tag
       [(1, [(10, read_field (get_string W) (\<lambda>v. m\<lparr>RegisterPushSubscriptionRequest_endpoint := v\<rparr>) r)]),
        (2, [(18, read_field (get_string W) (\<lambda>v. m\<lparr>RegisterPushSubscriptionRequest_p256dhKey := v\<rparr>) r)]),
        (3, [(26, read_field (get_string W) (\<lambda>v. m\<lparr>RegisterPushSubscriptionRequest_authKey := v\<rparr>) r)])]"

definition decode_RegisterPushSubscriptionRequest :: "wire \<Rightarrow> reader \<Rightarrow> int option \<Rightarrow> (RegisterPushSubscriptionRequest \<times> reader) run" where
  "decode_RegisterPushSubscriptionRequest W = decode_message W (switch_RegisterPushSubscriptionRequest W) base_RegisterPushSubscriptionRequest"

lemma builds_RegisterPushSubscriptionRequest:
  assumes "wire_format W" "encode_RegisterPushSubscriptionRequest W m [] = Inr b"
  shows "builds W (switch_RegisterPushSubscriptionRequest W) base_RegisterPushSubscriptionRequest m b"
proof (rule message_builds [OF assms(2) [unfolded encode_RegisterPushSubscriptionRequest_def]])
  show "foldl (\<lambda>m u. u m) base_RegisterPushSubscriptionRequest
      [plain RegisterPushSubscriptionRequest_endpoint_update (RegisterPushSubscriptionRequest_endpoint m) [],
       plain RegisterPushSubscriptionRequest_p256dhKey_update (RegisterPushSubscriptionRequest_p256dhKey m) [],
       plain RegisterPushSubscriptionRequest_authKey_update (RegisterPushSubscriptionRequest_authKey m) []] = m"
    by (cases m) (simp add: field_changes base_RegisterPushSubscriptionRequest_def)
qed (insert assms(1),
    (rule wire_fields message_codecs | (simp add: updater_def switch_RegisterPushSubscriptionRequest_def list_all_iff; fail))+)

lemma decodes_RegisterPushSubscriptionRequest [message_codecs]:
  assumes "wire_format W" "encode_RegisterPushSubscriptionRequest W m [] = Inr b"
  shows "decodes (decode_RegisterPushSubscriptionRequest W) m b"
  unfolding decode_RegisterPushSubscriptionRequest_def by (rule builds_decodes [OF builds_RegisterPushSubscriptionRequest [OF assms]])

lemma settles_RegisterPushSubscriptionRequest [message_returns]: "wire_format W \<Longrightarrow> settles k (decode_RegisterPushSubscriptionRequest W)"
  unfolding decode_RegisterPushSubscriptionRequest_def
  by (rule wire_format.settles_message, assumption,
      unfold switch_RegisterPushSubscriptionRequest_def switch_field.simps switch_alternatives.simps)
    (rule wire_ends message_returns | assumption)+

section \<open>UnregisterPushSubscriptionRequest\<close>

record UnregisterPushSubscriptionRequest =
  UnregisterPushSubscriptionRequest_endpoint :: string

definition base_UnregisterPushSubscriptionRequest :: UnregisterPushSubscriptionRequest where
  "base_UnregisterPushSubscriptionRequest =
     \<lparr>UnregisterPushSubscriptionRequest_endpoint = []\<rparr>"

definition encode_UnregisterPushSubscriptionRequest :: "wire \<Rightarrow> UnregisterPushSubscriptionRequest \<Rightarrow> bytes \<Rightarrow> bytes result" where
  "encode_UnregisterPushSubscriptionRequest W m =
     write_all
       [write_when (UnregisterPushSubscriptionRequest_endpoint m \<noteq> []) (tagged W 10 (put_string W (UnregisterPushSubscriptionRequest_endpoint m)))]"

definition switch_UnregisterPushSubscriptionRequest :: "wire \<Rightarrow> int \<Rightarrow> reader \<Rightarrow> UnregisterPushSubscriptionRequest \<Rightarrow> UnregisterPushSubscriptionRequest loop_step run" where
  "switch_UnregisterPushSubscriptionRequest W tag r m =
     switch_field tag
       [(1, [(10, read_field (get_string W) (\<lambda>v. m\<lparr>UnregisterPushSubscriptionRequest_endpoint := v\<rparr>) r)])]"

definition decode_UnregisterPushSubscriptionRequest :: "wire \<Rightarrow> reader \<Rightarrow> int option \<Rightarrow> (UnregisterPushSubscriptionRequest \<times> reader) run" where
  "decode_UnregisterPushSubscriptionRequest W = decode_message W (switch_UnregisterPushSubscriptionRequest W) base_UnregisterPushSubscriptionRequest"

lemma builds_UnregisterPushSubscriptionRequest:
  assumes "wire_format W" "encode_UnregisterPushSubscriptionRequest W m [] = Inr b"
  shows "builds W (switch_UnregisterPushSubscriptionRequest W) base_UnregisterPushSubscriptionRequest m b"
proof (rule message_builds [OF assms(2) [unfolded encode_UnregisterPushSubscriptionRequest_def]])
  show "foldl (\<lambda>m u. u m) base_UnregisterPushSubscriptionRequest
      [plain UnregisterPushSubscriptionRequest_endpoint_update (UnregisterPushSubscriptionRequest_endpoint m) []] = m"
    by (cases m) (simp add: field_changes base_UnregisterPushSubscriptionRequest_def)
qed (insert assms(1),
    (rule wire_fields message_codecs | (simp add: updater_def switch_UnregisterPushSubscriptionRequest_def list_all_iff; fail))+)

lemma decodes_UnregisterPushSubscriptionRequest [message_codecs]:
  assumes "wire_format W" "encode_UnregisterPushSubscriptionRequest W m [] = Inr b"
  shows "decodes (decode_UnregisterPushSubscriptionRequest W) m b"
  unfolding decode_UnregisterPushSubscriptionRequest_def by (rule builds_decodes [OF builds_UnregisterPushSubscriptionRequest [OF assms]])

lemma settles_UnregisterPushSubscriptionRequest [message_returns]: "wire_format W \<Longrightarrow> settles k (decode_UnregisterPushSubscriptionRequest W)"
  unfolding decode_UnregisterPushSubscriptionRequest_def
  by (rule wire_format.settles_message, assumption,
      unfold switch_UnregisterPushSubscriptionRequest_def switch_field.simps switch_alternatives.simps)
    (rule wire_ends message_returns | assumption)+

section \<open>GetPushSubscriptionStatusRequest\<close>

record GetPushSubscriptionStatusRequest =
  GetPushSubscriptionStatusRequest_endpoint :: string

definition base_GetPushSubscriptionStatusRequest :: GetPushSubscriptionStatusRequest where
  "base_GetPushSubscriptionStatusRequest =
     \<lparr>GetPushSubscriptionStatusRequest_endpoint = []\<rparr>"

definition encode_GetPushSubscriptionStatusRequest :: "wire \<Rightarrow> GetPushSubscriptionStatusRequest \<Rightarrow> bytes \<Rightarrow> bytes result" where
  "encode_GetPushSubscriptionStatusRequest W m =
     write_all
       [write_when (GetPushSubscriptionStatusRequest_endpoint m \<noteq> []) (tagged W 10 (put_string W (GetPushSubscriptionStatusRequest_endpoint m)))]"

definition switch_GetPushSubscriptionStatusRequest :: "wire \<Rightarrow> int \<Rightarrow> reader \<Rightarrow> GetPushSubscriptionStatusRequest \<Rightarrow> GetPushSubscriptionStatusRequest loop_step run" where
  "switch_GetPushSubscriptionStatusRequest W tag r m =
     switch_field tag
       [(1, [(10, read_field (get_string W) (\<lambda>v. m\<lparr>GetPushSubscriptionStatusRequest_endpoint := v\<rparr>) r)])]"

definition decode_GetPushSubscriptionStatusRequest :: "wire \<Rightarrow> reader \<Rightarrow> int option \<Rightarrow> (GetPushSubscriptionStatusRequest \<times> reader) run" where
  "decode_GetPushSubscriptionStatusRequest W = decode_message W (switch_GetPushSubscriptionStatusRequest W) base_GetPushSubscriptionStatusRequest"

lemma builds_GetPushSubscriptionStatusRequest:
  assumes "wire_format W" "encode_GetPushSubscriptionStatusRequest W m [] = Inr b"
  shows "builds W (switch_GetPushSubscriptionStatusRequest W) base_GetPushSubscriptionStatusRequest m b"
proof (rule message_builds [OF assms(2) [unfolded encode_GetPushSubscriptionStatusRequest_def]])
  show "foldl (\<lambda>m u. u m) base_GetPushSubscriptionStatusRequest
      [plain GetPushSubscriptionStatusRequest_endpoint_update (GetPushSubscriptionStatusRequest_endpoint m) []] = m"
    by (cases m) (simp add: field_changes base_GetPushSubscriptionStatusRequest_def)
qed (insert assms(1),
    (rule wire_fields message_codecs | (simp add: updater_def switch_GetPushSubscriptionStatusRequest_def list_all_iff; fail))+)

lemma decodes_GetPushSubscriptionStatusRequest [message_codecs]:
  assumes "wire_format W" "encode_GetPushSubscriptionStatusRequest W m [] = Inr b"
  shows "decodes (decode_GetPushSubscriptionStatusRequest W) m b"
  unfolding decode_GetPushSubscriptionStatusRequest_def by (rule builds_decodes [OF builds_GetPushSubscriptionStatusRequest [OF assms]])

lemma settles_GetPushSubscriptionStatusRequest [message_returns]: "wire_format W \<Longrightarrow> settles k (decode_GetPushSubscriptionStatusRequest W)"
  unfolding decode_GetPushSubscriptionStatusRequest_def
  by (rule wire_format.settles_message, assumption,
      unfold switch_GetPushSubscriptionStatusRequest_def switch_field.simps switch_alternatives.simps)
    (rule wire_ends message_returns | assumption)+

section \<open>GetPushSubscriptionStatusResponse\<close>

record GetPushSubscriptionStatusResponse =
  GetPushSubscriptionStatusResponse_registered :: bool

definition base_GetPushSubscriptionStatusResponse :: GetPushSubscriptionStatusResponse where
  "base_GetPushSubscriptionStatusResponse =
     \<lparr>GetPushSubscriptionStatusResponse_registered = False\<rparr>"

definition encode_GetPushSubscriptionStatusResponse :: "wire \<Rightarrow> GetPushSubscriptionStatusResponse \<Rightarrow> bytes \<Rightarrow> bytes result" where
  "encode_GetPushSubscriptionStatusResponse W m =
     write_all
       [write_when (GetPushSubscriptionStatusResponse_registered m \<noteq> False) (tagged W 8 (put_bool W (GetPushSubscriptionStatusResponse_registered m)))]"

definition switch_GetPushSubscriptionStatusResponse :: "wire \<Rightarrow> int \<Rightarrow> reader \<Rightarrow> GetPushSubscriptionStatusResponse \<Rightarrow> GetPushSubscriptionStatusResponse loop_step run" where
  "switch_GetPushSubscriptionStatusResponse W tag r m =
     switch_field tag
       [(1, [(8, read_field (get_bool W) (\<lambda>v. m\<lparr>GetPushSubscriptionStatusResponse_registered := v\<rparr>) r)])]"

definition decode_GetPushSubscriptionStatusResponse :: "wire \<Rightarrow> reader \<Rightarrow> int option \<Rightarrow> (GetPushSubscriptionStatusResponse \<times> reader) run" where
  "decode_GetPushSubscriptionStatusResponse W = decode_message W (switch_GetPushSubscriptionStatusResponse W) base_GetPushSubscriptionStatusResponse"

lemma builds_GetPushSubscriptionStatusResponse:
  assumes "wire_format W" "encode_GetPushSubscriptionStatusResponse W m [] = Inr b"
  shows "builds W (switch_GetPushSubscriptionStatusResponse W) base_GetPushSubscriptionStatusResponse m b"
proof (rule message_builds [OF assms(2) [unfolded encode_GetPushSubscriptionStatusResponse_def]])
  show "foldl (\<lambda>m u. u m) base_GetPushSubscriptionStatusResponse
      [plain GetPushSubscriptionStatusResponse_registered_update (GetPushSubscriptionStatusResponse_registered m) False] = m"
    by (cases m) (simp add: field_changes base_GetPushSubscriptionStatusResponse_def)
qed (insert assms(1),
    (rule wire_fields message_codecs | (simp add: updater_def switch_GetPushSubscriptionStatusResponse_def list_all_iff; fail))+)

lemma decodes_GetPushSubscriptionStatusResponse [message_codecs]:
  assumes "wire_format W" "encode_GetPushSubscriptionStatusResponse W m [] = Inr b"
  shows "decodes (decode_GetPushSubscriptionStatusResponse W) m b"
  unfolding decode_GetPushSubscriptionStatusResponse_def by (rule builds_decodes [OF builds_GetPushSubscriptionStatusResponse [OF assms]])

lemma settles_GetPushSubscriptionStatusResponse [message_returns]: "wire_format W \<Longrightarrow> settles k (decode_GetPushSubscriptionStatusResponse W)"
  unfolding decode_GetPushSubscriptionStatusResponse_def
  by (rule wire_format.settles_message, assumption,
      unfold switch_GetPushSubscriptionStatusResponse_def switch_field.simps switch_alternatives.simps)
    (rule wire_ends message_returns | assumption)+

end
