(* ===== verification/Wire_Server_Configuration.thy ===== *)
theory Wire_Server_Configuration
  imports Wire_Federation
begin

text \<open>
  The codecs of packages/api/generated/server_configuration.ts: of each message the record, the empty message, writing, reading, and that
  reading what was written gives the message back.
\<close>

section \<open>BirdConfig\<close>

record BirdConfig =
  BirdConfig_birdEnabled :: bool
  BirdConfig_birdAccessKey :: string
  BirdConfig_birdFrom :: string
  BirdConfig_birdRegion :: string
  BirdConfig_birdWebhookSigningKey :: string
  BirdConfig_useBirdWebhookSigningKey :: bool

definition base_BirdConfig :: BirdConfig where
  "base_BirdConfig =
     \<lparr>BirdConfig_birdEnabled = False,
      BirdConfig_birdAccessKey = [],
      BirdConfig_birdFrom = [],
      BirdConfig_birdRegion = [],
      BirdConfig_birdWebhookSigningKey = [],
      BirdConfig_useBirdWebhookSigningKey = False\<rparr>"

definition encode_BirdConfig :: "wire \<Rightarrow> BirdConfig \<Rightarrow> bytes \<Rightarrow> bytes result" where
  "encode_BirdConfig W m =
     write_all
       [write_when (BirdConfig_birdEnabled m \<noteq> False) (tagged W 8 (put_bool W (BirdConfig_birdEnabled m))),
        write_when (BirdConfig_birdAccessKey m \<noteq> []) (tagged W 18 (put_string W (BirdConfig_birdAccessKey m))),
        write_when (BirdConfig_birdFrom m \<noteq> []) (tagged W 26 (put_string W (BirdConfig_birdFrom m))),
        write_when (BirdConfig_birdRegion m \<noteq> []) (tagged W 34 (put_string W (BirdConfig_birdRegion m))),
        write_when (BirdConfig_birdWebhookSigningKey m \<noteq> []) (tagged W 42 (put_string W (BirdConfig_birdWebhookSigningKey m))),
        write_when (BirdConfig_useBirdWebhookSigningKey m \<noteq> False) (tagged W 48 (put_bool W (BirdConfig_useBirdWebhookSigningKey m)))]"

definition switch_BirdConfig :: "wire \<Rightarrow> int \<Rightarrow> reader \<Rightarrow> BirdConfig \<Rightarrow> BirdConfig loop_step run" where
  "switch_BirdConfig W tag r m =
     switch_field tag
       [(1, [(8, read_field (get_bool W) (\<lambda>v. m\<lparr>BirdConfig_birdEnabled := v\<rparr>) r)]),
        (2, [(18, read_field (get_string W) (\<lambda>v. m\<lparr>BirdConfig_birdAccessKey := v\<rparr>) r)]),
        (3, [(26, read_field (get_string W) (\<lambda>v. m\<lparr>BirdConfig_birdFrom := v\<rparr>) r)]),
        (4, [(34, read_field (get_string W) (\<lambda>v. m\<lparr>BirdConfig_birdRegion := v\<rparr>) r)]),
        (5, [(42, read_field (get_string W) (\<lambda>v. m\<lparr>BirdConfig_birdWebhookSigningKey := v\<rparr>) r)]),
        (6, [(48, read_field (get_bool W) (\<lambda>v. m\<lparr>BirdConfig_useBirdWebhookSigningKey := v\<rparr>) r)])]"

definition decode_BirdConfig :: "wire \<Rightarrow> reader \<Rightarrow> int option \<Rightarrow> (BirdConfig \<times> reader) run" where
  "decode_BirdConfig W = decode_message W (switch_BirdConfig W) base_BirdConfig"

lemma builds_BirdConfig:
  assumes "wire_format W" "encode_BirdConfig W m [] = Inr b"
  shows "builds W (switch_BirdConfig W) base_BirdConfig m b"
proof (rule message_builds [OF assms(2) [unfolded encode_BirdConfig_def]])
  show "foldl (\<lambda>m u. u m) base_BirdConfig
      [plain BirdConfig_birdEnabled_update (BirdConfig_birdEnabled m) False,
       plain BirdConfig_birdAccessKey_update (BirdConfig_birdAccessKey m) [],
       plain BirdConfig_birdFrom_update (BirdConfig_birdFrom m) [],
       plain BirdConfig_birdRegion_update (BirdConfig_birdRegion m) [],
       plain BirdConfig_birdWebhookSigningKey_update (BirdConfig_birdWebhookSigningKey m) [],
       plain BirdConfig_useBirdWebhookSigningKey_update (BirdConfig_useBirdWebhookSigningKey m) False] = m"
    by (cases m) (simp add: field_changes base_BirdConfig_def)
qed (insert assms(1),
    (rule wire_fields message_codecs | (simp add: updater_def switch_BirdConfig_def list_all_iff; fail))+)

lemma decodes_BirdConfig [message_codecs]:
  assumes "wire_format W" "encode_BirdConfig W m [] = Inr b"
  shows "decodes (decode_BirdConfig W) m b"
  unfolding decode_BirdConfig_def by (rule builds_decodes [OF builds_BirdConfig [OF assms]])

lemma settles_BirdConfig [message_returns]: "wire_format W \<Longrightarrow> settles k (decode_BirdConfig W)"
  unfolding decode_BirdConfig_def
  by (rule wire_format.settles_message, assumption,
      unfold switch_BirdConfig_def switch_field.simps switch_alternatives.simps)
    (rule wire_ends message_returns | assumption)+

section \<open>ClusterResourceLimit\<close>

record ClusterResourceLimit =
  ClusterResourceLimit_resource :: "int list"
  ClusterResourceLimit_limit :: "int list"

definition base_ClusterResourceLimit :: ClusterResourceLimit where
  "base_ClusterResourceLimit =
     \<lparr>ClusterResourceLimit_resource = [],
      ClusterResourceLimit_limit = []\<rparr>"

definition encode_ClusterResourceLimit :: "wire \<Rightarrow> ClusterResourceLimit \<Rightarrow> bytes \<Rightarrow> bytes result" where
  "encode_ClusterResourceLimit W m =
     write_all
       [packed W 10 (put_int32 W) (ClusterResourceLimit_resource m),
        packed W 18 (put_uint32 W) (ClusterResourceLimit_limit m)]"

definition switch_ClusterResourceLimit :: "wire \<Rightarrow> int \<Rightarrow> reader \<Rightarrow> ClusterResourceLimit \<Rightarrow> ClusterResourceLimit loop_step run" where
  "switch_ClusterResourceLimit W tag r m =
     switch_field tag
       [(1, [(8, read_field (get_int32 W) (\<lambda>v. ClusterResourceLimit_resource_update (\<lambda>old. old @ [v]) m) r), (10, read_packed W (get_int32 W) (ClusterResourceLimit_resource m) (\<lambda>vs. m\<lparr>ClusterResourceLimit_resource := vs\<rparr>) r)]),
        (2, [(16, read_field (get_uint32 W) (\<lambda>v. ClusterResourceLimit_limit_update (\<lambda>old. old @ [v]) m) r), (18, read_packed W (get_uint32 W) (ClusterResourceLimit_limit m) (\<lambda>vs. m\<lparr>ClusterResourceLimit_limit := vs\<rparr>) r)])]"

definition decode_ClusterResourceLimit :: "wire \<Rightarrow> reader \<Rightarrow> int option \<Rightarrow> (ClusterResourceLimit \<times> reader) run" where
  "decode_ClusterResourceLimit W = decode_message W (switch_ClusterResourceLimit W) base_ClusterResourceLimit"

lemma builds_ClusterResourceLimit:
  assumes "wire_format W" "encode_ClusterResourceLimit W m [] = Inr b"
  shows "builds W (switch_ClusterResourceLimit W) base_ClusterResourceLimit m b"
proof (rule message_builds [OF assms(2) [unfolded encode_ClusterResourceLimit_def]])
  show "foldl (\<lambda>m u. u m) base_ClusterResourceLimit
      [pushed ClusterResourceLimit_resource_update (ClusterResourceLimit_resource m),
       pushed ClusterResourceLimit_limit_update (ClusterResourceLimit_limit m)] = m"
    by (cases m) (simp add: field_changes base_ClusterResourceLimit_def)
qed (insert assms(1),
    (rule wire_fields message_codecs | (simp add: updater_def switch_ClusterResourceLimit_def list_all_iff; fail))+)

lemma decodes_ClusterResourceLimit [message_codecs]:
  assumes "wire_format W" "encode_ClusterResourceLimit W m [] = Inr b"
  shows "decodes (decode_ClusterResourceLimit W) m b"
  unfolding decode_ClusterResourceLimit_def by (rule builds_decodes [OF builds_ClusterResourceLimit [OF assms]])

lemma settles_ClusterResourceLimit [message_returns]: "wire_format W \<Longrightarrow> settles k (decode_ClusterResourceLimit W)"
  unfolding decode_ClusterResourceLimit_def
  by (rule wire_format.settles_message, assumption,
      unfold switch_ClusterResourceLimit_def switch_field.simps switch_alternatives.simps)
    (rule wire_ends message_returns | assumption)+

section \<open>ClusterResourceLock\<close>

record ClusterResourceLock =
  ClusterResourceLock_lockHolderNamespaceId :: string
  ClusterResourceLock_resources :: "int list"
  ClusterResourceLock_acquiredAt :: "string option"

definition base_ClusterResourceLock :: ClusterResourceLock where
  "base_ClusterResourceLock =
     \<lparr>ClusterResourceLock_lockHolderNamespaceId = [],
      ClusterResourceLock_resources = [],
      ClusterResourceLock_acquiredAt = None\<rparr>"

definition encode_ClusterResourceLock :: "wire \<Rightarrow> ClusterResourceLock \<Rightarrow> bytes \<Rightarrow> bytes result" where
  "encode_ClusterResourceLock W m =
     write_all
       [write_when (ClusterResourceLock_lockHolderNamespaceId m \<noteq> []) (tagged W 10 (put_string W (ClusterResourceLock_lockHolderNamespaceId m))),
        packed W 18 (put_int32 W) (ClusterResourceLock_resources m),
        write_given (ClusterResourceLock_acquiredAt m) (\<lambda>v. nested W 162 (encode_date W v))]"

definition switch_ClusterResourceLock :: "wire \<Rightarrow> int \<Rightarrow> reader \<Rightarrow> ClusterResourceLock \<Rightarrow> ClusterResourceLock loop_step run" where
  "switch_ClusterResourceLock W tag r m =
     switch_field tag
       [(1, [(10, read_field (get_string W) (\<lambda>v. m\<lparr>ClusterResourceLock_lockHolderNamespaceId := v\<rparr>) r)]),
        (2, [(16, read_field (get_int32 W) (\<lambda>v. ClusterResourceLock_resources_update (\<lambda>old. old @ [v]) m) r), (18, read_packed W (get_int32 W) (ClusterResourceLock_resources m) (\<lambda>vs. m\<lparr>ClusterResourceLock_resources := vs\<rparr>) r)]),
        (20, [(162, read_message W (decode_date W) (\<lambda>v. m\<lparr>ClusterResourceLock_acquiredAt := Some v\<rparr>) r)])]"

definition decode_ClusterResourceLock :: "wire \<Rightarrow> reader \<Rightarrow> int option \<Rightarrow> (ClusterResourceLock \<times> reader) run" where
  "decode_ClusterResourceLock W = decode_message W (switch_ClusterResourceLock W) base_ClusterResourceLock"

definition safe_ClusterResourceLock :: "wire \<Rightarrow> ClusterResourceLock \<Rightarrow> bool" where
  "safe_ClusterResourceLock W m \<longleftrightarrow>
     pred_option canonical_date (ClusterResourceLock_acquiredAt m)"

lemma builds_ClusterResourceLock:
  assumes "wire_format W" "safe_ClusterResourceLock W m" "encode_ClusterResourceLock W m [] = Inr b"
  shows "builds W (switch_ClusterResourceLock W) base_ClusterResourceLock m b"
proof (rule message_builds [OF assms(3) [unfolded encode_ClusterResourceLock_def]])
  show "foldl (\<lambda>m u. u m) base_ClusterResourceLock
      [plain ClusterResourceLock_lockHolderNamespaceId_update (ClusterResourceLock_lockHolderNamespaceId m) [],
       pushed ClusterResourceLock_resources_update (ClusterResourceLock_resources m),
       given ClusterResourceLock_acquiredAt_update (ClusterResourceLock_acquiredAt m)] = m"
    by (cases m) (simp add: field_changes base_ClusterResourceLock_def)
qed (insert assms(1,2),
    (rule wire_fields message_codecs | (simp add: updater_def switch_ClusterResourceLock_def safe_ClusterResourceLock_def list_all_iff; fail))+)

lemma decodes_ClusterResourceLock [message_codecs]:
  assumes "wire_format W" "safe_ClusterResourceLock W m" "encode_ClusterResourceLock W m [] = Inr b"
  shows "decodes (decode_ClusterResourceLock W) m b"
  unfolding decode_ClusterResourceLock_def by (rule builds_decodes [OF builds_ClusterResourceLock [OF assms]])

lemma settles_ClusterResourceLock [message_returns]: "wire_format W \<Longrightarrow> settles k (decode_ClusterResourceLock W)"
  unfolding decode_ClusterResourceLock_def
  by (rule wire_format.settles_message, assumption,
      unfold switch_ClusterResourceLock_def switch_field.simps switch_alternatives.simps)
    (rule wire_ends message_returns | assumption)+

section \<open>ClusterConductorState\<close>

record ClusterConductorState =
  ClusterConductorState_locks :: "ClusterResourceLock list"
  ClusterConductorState_limits :: "ClusterResourceLimit list"

definition base_ClusterConductorState :: ClusterConductorState where
  "base_ClusterConductorState =
     \<lparr>ClusterConductorState_locks = [],
      ClusterConductorState_limits = []\<rparr>"

definition encode_ClusterConductorState :: "wire \<Rightarrow> ClusterConductorState \<Rightarrow> bytes \<Rightarrow> bytes result" where
  "encode_ClusterConductorState W m =
     write_all
       [write_each (ClusterConductorState_locks m) (\<lambda>v. nested W 10 (encode_ClusterResourceLock W v)),
        write_each (ClusterConductorState_limits m) (\<lambda>v. nested W 18 (encode_ClusterResourceLimit W v))]"

definition switch_ClusterConductorState :: "wire \<Rightarrow> int \<Rightarrow> reader \<Rightarrow> ClusterConductorState \<Rightarrow> ClusterConductorState loop_step run" where
  "switch_ClusterConductorState W tag r m =
     switch_field tag
       [(1, [(10, read_message W (decode_ClusterResourceLock W) (\<lambda>v. ClusterConductorState_locks_update (\<lambda>old. old @ [v]) m) r)]),
        (2, [(18, read_message W (decode_ClusterResourceLimit W) (\<lambda>v. ClusterConductorState_limits_update (\<lambda>old. old @ [v]) m) r)])]"

definition decode_ClusterConductorState :: "wire \<Rightarrow> reader \<Rightarrow> int option \<Rightarrow> (ClusterConductorState \<times> reader) run" where
  "decode_ClusterConductorState W = decode_message W (switch_ClusterConductorState W) base_ClusterConductorState"

definition safe_ClusterConductorState :: "wire \<Rightarrow> ClusterConductorState \<Rightarrow> bool" where
  "safe_ClusterConductorState W m \<longleftrightarrow>
     list_all (safe_ClusterResourceLock W) (ClusterConductorState_locks m)"

lemma builds_ClusterConductorState:
  assumes "wire_format W" "safe_ClusterConductorState W m" "encode_ClusterConductorState W m [] = Inr b"
  shows "builds W (switch_ClusterConductorState W) base_ClusterConductorState m b"
proof (rule message_builds [OF assms(3) [unfolded encode_ClusterConductorState_def]])
  show "foldl (\<lambda>m u. u m) base_ClusterConductorState
      [pushed ClusterConductorState_locks_update (ClusterConductorState_locks m),
       pushed ClusterConductorState_limits_update (ClusterConductorState_limits m)] = m"
    by (cases m) (simp add: field_changes base_ClusterConductorState_def)
qed (insert assms(1,2),
    (rule wire_fields message_codecs | (simp add: updater_def switch_ClusterConductorState_def safe_ClusterConductorState_def list_all_iff; fail))+)

lemma decodes_ClusterConductorState [message_codecs]:
  assumes "wire_format W" "safe_ClusterConductorState W m" "encode_ClusterConductorState W m [] = Inr b"
  shows "decodes (decode_ClusterConductorState W) m b"
  unfolding decode_ClusterConductorState_def by (rule builds_decodes [OF builds_ClusterConductorState [OF assms]])

lemma settles_ClusterConductorState [message_returns]: "wire_format W \<Longrightarrow> settles k (decode_ClusterConductorState W)"
  unfolding decode_ClusterConductorState_def
  by (rule wire_format.settles_message, assumption,
      unfold switch_ClusterConductorState_def switch_field.simps switch_alternatives.simps)
    (rule wire_ends message_returns | assumption)+

section \<open>ClusterResources\<close>

record ClusterResources =
  ClusterResources_namespaceId :: string
  ClusterResources_conductorHost :: string
  ClusterResources_clusterSharedSecret :: string
  ClusterResources_conductorState :: "ClusterConductorState option"

definition base_ClusterResources :: ClusterResources where
  "base_ClusterResources =
     \<lparr>ClusterResources_namespaceId = [],
      ClusterResources_conductorHost = [],
      ClusterResources_clusterSharedSecret = [],
      ClusterResources_conductorState = None\<rparr>"

definition encode_ClusterResources :: "wire \<Rightarrow> ClusterResources \<Rightarrow> bytes \<Rightarrow> bytes result" where
  "encode_ClusterResources W m =
     write_all
       [write_when (ClusterResources_namespaceId m \<noteq> []) (tagged W 10 (put_string W (ClusterResources_namespaceId m))),
        write_when (ClusterResources_conductorHost m \<noteq> []) (tagged W 18 (put_string W (ClusterResources_conductorHost m))),
        write_when (ClusterResources_clusterSharedSecret m \<noteq> []) (tagged W 26 (put_string W (ClusterResources_clusterSharedSecret m))),
        write_given (ClusterResources_conductorState m) (\<lambda>v. nested W 34 (encode_ClusterConductorState W v))]"

definition switch_ClusterResources :: "wire \<Rightarrow> int \<Rightarrow> reader \<Rightarrow> ClusterResources \<Rightarrow> ClusterResources loop_step run" where
  "switch_ClusterResources W tag r m =
     switch_field tag
       [(1, [(10, read_field (get_string W) (\<lambda>v. m\<lparr>ClusterResources_namespaceId := v\<rparr>) r)]),
        (2, [(18, read_field (get_string W) (\<lambda>v. m\<lparr>ClusterResources_conductorHost := v\<rparr>) r)]),
        (3, [(26, read_field (get_string W) (\<lambda>v. m\<lparr>ClusterResources_clusterSharedSecret := v\<rparr>) r)]),
        (4, [(34, read_message W (decode_ClusterConductorState W) (\<lambda>v. m\<lparr>ClusterResources_conductorState := Some v\<rparr>) r)])]"

definition decode_ClusterResources :: "wire \<Rightarrow> reader \<Rightarrow> int option \<Rightarrow> (ClusterResources \<times> reader) run" where
  "decode_ClusterResources W = decode_message W (switch_ClusterResources W) base_ClusterResources"

definition safe_ClusterResources :: "wire \<Rightarrow> ClusterResources \<Rightarrow> bool" where
  "safe_ClusterResources W m \<longleftrightarrow>
     pred_option (safe_ClusterConductorState W) (ClusterResources_conductorState m)"

lemma builds_ClusterResources:
  assumes "wire_format W" "safe_ClusterResources W m" "encode_ClusterResources W m [] = Inr b"
  shows "builds W (switch_ClusterResources W) base_ClusterResources m b"
proof (rule message_builds [OF assms(3) [unfolded encode_ClusterResources_def]])
  show "foldl (\<lambda>m u. u m) base_ClusterResources
      [plain ClusterResources_namespaceId_update (ClusterResources_namespaceId m) [],
       plain ClusterResources_conductorHost_update (ClusterResources_conductorHost m) [],
       plain ClusterResources_clusterSharedSecret_update (ClusterResources_clusterSharedSecret m) [],
       given ClusterResources_conductorState_update (ClusterResources_conductorState m)] = m"
    by (cases m) (simp add: field_changes base_ClusterResources_def)
qed (insert assms(1,2),
    (rule wire_fields message_codecs | (simp add: updater_def switch_ClusterResources_def safe_ClusterResources_def list_all_iff; fail))+)

lemma decodes_ClusterResources [message_codecs]:
  assumes "wire_format W" "safe_ClusterResources W m" "encode_ClusterResources W m [] = Inr b"
  shows "decodes (decode_ClusterResources W) m b"
  unfolding decode_ClusterResources_def by (rule builds_decodes [OF builds_ClusterResources [OF assms]])

lemma settles_ClusterResources [message_returns]: "wire_format W \<Longrightarrow> settles k (decode_ClusterResources W)"
  unfolding decode_ClusterResources_def
  by (rule wire_format.settles_message, assumption,
      unfold switch_ClusterResources_def switch_field.simps switch_alternatives.simps)
    (rule wire_ends message_returns | assumption)+

section \<open>CustomCSSConfiguration\<close>

record CustomCSSConfiguration =
  CustomCSSConfiguration_mediaIds :: "string list"
  CustomCSSConfiguration_customCss :: "string option"
  CustomCSSConfiguration_forceLightTheme :: bool
  CustomCSSConfiguration_forceDarkTheme :: bool

definition base_CustomCSSConfiguration :: CustomCSSConfiguration where
  "base_CustomCSSConfiguration =
     \<lparr>CustomCSSConfiguration_mediaIds = [],
      CustomCSSConfiguration_customCss = None,
      CustomCSSConfiguration_forceLightTheme = False,
      CustomCSSConfiguration_forceDarkTheme = False\<rparr>"

definition encode_CustomCSSConfiguration :: "wire \<Rightarrow> CustomCSSConfiguration \<Rightarrow> bytes \<Rightarrow> bytes result" where
  "encode_CustomCSSConfiguration W m =
     write_all
       [write_each (CustomCSSConfiguration_mediaIds m) (\<lambda>v. tagged W 10 (put_string W v)),
        write_given (CustomCSSConfiguration_customCss m) (\<lambda>v. tagged W 18 (put_string W v)),
        write_when (CustomCSSConfiguration_forceLightTheme m \<noteq> False) (tagged W 24 (put_bool W (CustomCSSConfiguration_forceLightTheme m))),
        write_when (CustomCSSConfiguration_forceDarkTheme m \<noteq> False) (tagged W 32 (put_bool W (CustomCSSConfiguration_forceDarkTheme m)))]"

definition switch_CustomCSSConfiguration :: "wire \<Rightarrow> int \<Rightarrow> reader \<Rightarrow> CustomCSSConfiguration \<Rightarrow> CustomCSSConfiguration loop_step run" where
  "switch_CustomCSSConfiguration W tag r m =
     switch_field tag
       [(1, [(10, read_field (get_string W) (\<lambda>v. CustomCSSConfiguration_mediaIds_update (\<lambda>old. old @ [v]) m) r)]),
        (2, [(18, read_field (get_string W) (\<lambda>v. m\<lparr>CustomCSSConfiguration_customCss := Some v\<rparr>) r)]),
        (3, [(24, read_field (get_bool W) (\<lambda>v. m\<lparr>CustomCSSConfiguration_forceLightTheme := v\<rparr>) r)]),
        (4, [(32, read_field (get_bool W) (\<lambda>v. m\<lparr>CustomCSSConfiguration_forceDarkTheme := v\<rparr>) r)])]"

definition decode_CustomCSSConfiguration :: "wire \<Rightarrow> reader \<Rightarrow> int option \<Rightarrow> (CustomCSSConfiguration \<times> reader) run" where
  "decode_CustomCSSConfiguration W = decode_message W (switch_CustomCSSConfiguration W) base_CustomCSSConfiguration"

lemma builds_CustomCSSConfiguration:
  assumes "wire_format W" "encode_CustomCSSConfiguration W m [] = Inr b"
  shows "builds W (switch_CustomCSSConfiguration W) base_CustomCSSConfiguration m b"
proof (rule message_builds [OF assms(2) [unfolded encode_CustomCSSConfiguration_def]])
  show "foldl (\<lambda>m u. u m) base_CustomCSSConfiguration
      [pushed CustomCSSConfiguration_mediaIds_update (CustomCSSConfiguration_mediaIds m),
       given CustomCSSConfiguration_customCss_update (CustomCSSConfiguration_customCss m),
       plain CustomCSSConfiguration_forceLightTheme_update (CustomCSSConfiguration_forceLightTheme m) False,
       plain CustomCSSConfiguration_forceDarkTheme_update (CustomCSSConfiguration_forceDarkTheme m) False] = m"
    by (cases m) (simp add: field_changes base_CustomCSSConfiguration_def)
qed (insert assms(1),
    (rule wire_fields message_codecs | (simp add: updater_def switch_CustomCSSConfiguration_def list_all_iff; fail))+)

lemma decodes_CustomCSSConfiguration [message_codecs]:
  assumes "wire_format W" "encode_CustomCSSConfiguration W m [] = Inr b"
  shows "decodes (decode_CustomCSSConfiguration W) m b"
  unfolding decode_CustomCSSConfiguration_def by (rule builds_decodes [OF builds_CustomCSSConfiguration [OF assms]])

lemma settles_CustomCSSConfiguration [message_returns]: "wire_format W \<Longrightarrow> settles k (decode_CustomCSSConfiguration W)"
  unfolding decode_CustomCSSConfiguration_def
  by (rule wire_format.settles_message, assumption,
      unfold switch_CustomCSSConfiguration_def switch_field.simps switch_alternatives.simps)
    (rule wire_ends message_returns | assumption)+

section \<open>CustomHomePage\<close>

record CustomHomePage =
  CustomHomePage_tab :: "int option"
  CustomHomePage_postId :: "string option"
  CustomHomePage_pinnedPostIds :: "string list"
  CustomHomePage_showEventsStrip :: bool
  CustomHomePage_defaultEventsStripToRow :: bool
  CustomHomePage_defaultEventsStripCalendarDisplayMode :: int

definition base_CustomHomePage :: CustomHomePage where
  "base_CustomHomePage =
     \<lparr>CustomHomePage_tab = None,
      CustomHomePage_postId = None,
      CustomHomePage_pinnedPostIds = [],
      CustomHomePage_showEventsStrip = False,
      CustomHomePage_defaultEventsStripToRow = False,
      CustomHomePage_defaultEventsStripCalendarDisplayMode = 0\<rparr>"

definition encode_CustomHomePage :: "wire \<Rightarrow> CustomHomePage \<Rightarrow> bytes \<Rightarrow> bytes result" where
  "encode_CustomHomePage W m =
     write_all
       [write_given (CustomHomePage_tab m) (\<lambda>v. tagged W 8 (put_int32 W v)),
        write_given (CustomHomePage_postId m) (\<lambda>v. tagged W 18 (put_string W v)),
        write_each (CustomHomePage_pinnedPostIds m) (\<lambda>v. tagged W 26 (put_string W v)),
        write_when (CustomHomePage_showEventsStrip m \<noteq> False) (tagged W 32 (put_bool W (CustomHomePage_showEventsStrip m))),
        write_when (CustomHomePage_defaultEventsStripToRow m \<noteq> False) (tagged W 40 (put_bool W (CustomHomePage_defaultEventsStripToRow m))),
        write_when (CustomHomePage_defaultEventsStripCalendarDisplayMode m \<noteq> 0) (tagged W 48 (put_int32 W (CustomHomePage_defaultEventsStripCalendarDisplayMode m)))]"

definition switch_CustomHomePage :: "wire \<Rightarrow> int \<Rightarrow> reader \<Rightarrow> CustomHomePage \<Rightarrow> CustomHomePage loop_step run" where
  "switch_CustomHomePage W tag r m =
     switch_field tag
       [(1, [(8, read_field (get_int32 W) (\<lambda>v. m\<lparr>CustomHomePage_tab := Some v\<rparr>) r)]),
        (2, [(18, read_field (get_string W) (\<lambda>v. m\<lparr>CustomHomePage_postId := Some v\<rparr>) r)]),
        (3, [(26, read_field (get_string W) (\<lambda>v. CustomHomePage_pinnedPostIds_update (\<lambda>old. old @ [v]) m) r)]),
        (4, [(32, read_field (get_bool W) (\<lambda>v. m\<lparr>CustomHomePage_showEventsStrip := v\<rparr>) r)]),
        (5, [(40, read_field (get_bool W) (\<lambda>v. m\<lparr>CustomHomePage_defaultEventsStripToRow := v\<rparr>) r)]),
        (6, [(48, read_field (get_int32 W) (\<lambda>v. m\<lparr>CustomHomePage_defaultEventsStripCalendarDisplayMode := v\<rparr>) r)])]"

definition decode_CustomHomePage :: "wire \<Rightarrow> reader \<Rightarrow> int option \<Rightarrow> (CustomHomePage \<times> reader) run" where
  "decode_CustomHomePage W = decode_message W (switch_CustomHomePage W) base_CustomHomePage"

lemma builds_CustomHomePage:
  assumes "wire_format W" "encode_CustomHomePage W m [] = Inr b"
  shows "builds W (switch_CustomHomePage W) base_CustomHomePage m b"
proof (rule message_builds [OF assms(2) [unfolded encode_CustomHomePage_def]])
  show "foldl (\<lambda>m u. u m) base_CustomHomePage
      [given CustomHomePage_tab_update (CustomHomePage_tab m),
       given CustomHomePage_postId_update (CustomHomePage_postId m),
       pushed CustomHomePage_pinnedPostIds_update (CustomHomePage_pinnedPostIds m),
       plain CustomHomePage_showEventsStrip_update (CustomHomePage_showEventsStrip m) False,
       plain CustomHomePage_defaultEventsStripToRow_update (CustomHomePage_defaultEventsStripToRow m) False,
       plain CustomHomePage_defaultEventsStripCalendarDisplayMode_update (CustomHomePage_defaultEventsStripCalendarDisplayMode m) 0] = m"
    by (cases m) (simp add: field_changes base_CustomHomePage_def)
qed (insert assms(1),
    (rule wire_fields message_codecs | (simp add: updater_def switch_CustomHomePage_def list_all_iff; fail))+)

lemma decodes_CustomHomePage [message_codecs]:
  assumes "wire_format W" "encode_CustomHomePage W m [] = Inr b"
  shows "decodes (decode_CustomHomePage W) m b"
  unfolding decode_CustomHomePage_def by (rule builds_decodes [OF builds_CustomHomePage [OF assms]])

lemma settles_CustomHomePage [message_returns]: "wire_format W \<Longrightarrow> settles k (decode_CustomHomePage W)"
  unfolding decode_CustomHomePage_def
  by (rule wire_format.settles_message, assumption,
      unfold switch_CustomHomePage_def switch_field.simps switch_alternatives.simps)
    (rule wire_ends message_returns | assumption)+

section \<open>CustomNavigationTab\<close>

record CustomNavigationTab =
  CustomNavigationTab_tab :: "int option"
  CustomNavigationTab_postId :: "string option"
  CustomNavigationTab_isProfile :: "bool option"
  CustomNavigationTab_emojiIcon :: "string option"
  CustomNavigationTab_iconMediaId :: "string option"
  CustomNavigationTab_title :: "string option"
  CustomNavigationTab_path :: string

definition base_CustomNavigationTab :: CustomNavigationTab where
  "base_CustomNavigationTab =
     \<lparr>CustomNavigationTab_tab = None,
      CustomNavigationTab_postId = None,
      CustomNavigationTab_isProfile = None,
      CustomNavigationTab_emojiIcon = None,
      CustomNavigationTab_iconMediaId = None,
      CustomNavigationTab_title = None,
      CustomNavigationTab_path = []\<rparr>"

definition encode_CustomNavigationTab :: "wire \<Rightarrow> CustomNavigationTab \<Rightarrow> bytes \<Rightarrow> bytes result" where
  "encode_CustomNavigationTab W m =
     write_all
       [write_given (CustomNavigationTab_tab m) (\<lambda>v. tagged W 8 (put_int32 W v)),
        write_given (CustomNavigationTab_postId m) (\<lambda>v. tagged W 18 (put_string W v)),
        write_given (CustomNavigationTab_isProfile m) (\<lambda>v. tagged W 24 (put_bool W v)),
        write_given (CustomNavigationTab_emojiIcon m) (\<lambda>v. tagged W 82 (put_string W v)),
        write_given (CustomNavigationTab_iconMediaId m) (\<lambda>v. tagged W 90 (put_string W v)),
        write_given (CustomNavigationTab_title m) (\<lambda>v. tagged W 98 (put_string W v)),
        write_when (CustomNavigationTab_path m \<noteq> []) (tagged W 106 (put_string W (CustomNavigationTab_path m)))]"

definition switch_CustomNavigationTab :: "wire \<Rightarrow> int \<Rightarrow> reader \<Rightarrow> CustomNavigationTab \<Rightarrow> CustomNavigationTab loop_step run" where
  "switch_CustomNavigationTab W tag r m =
     switch_field tag
       [(1, [(8, read_field (get_int32 W) (\<lambda>v. m\<lparr>CustomNavigationTab_tab := Some v\<rparr>) r)]),
        (2, [(18, read_field (get_string W) (\<lambda>v. m\<lparr>CustomNavigationTab_postId := Some v\<rparr>) r)]),
        (3, [(24, read_field (get_bool W) (\<lambda>v. m\<lparr>CustomNavigationTab_isProfile := Some v\<rparr>) r)]),
        (10, [(82, read_field (get_string W) (\<lambda>v. m\<lparr>CustomNavigationTab_emojiIcon := Some v\<rparr>) r)]),
        (11, [(90, read_field (get_string W) (\<lambda>v. m\<lparr>CustomNavigationTab_iconMediaId := Some v\<rparr>) r)]),
        (12, [(98, read_field (get_string W) (\<lambda>v. m\<lparr>CustomNavigationTab_title := Some v\<rparr>) r)]),
        (13, [(106, read_field (get_string W) (\<lambda>v. m\<lparr>CustomNavigationTab_path := v\<rparr>) r)])]"

definition decode_CustomNavigationTab :: "wire \<Rightarrow> reader \<Rightarrow> int option \<Rightarrow> (CustomNavigationTab \<times> reader) run" where
  "decode_CustomNavigationTab W = decode_message W (switch_CustomNavigationTab W) base_CustomNavigationTab"

lemma builds_CustomNavigationTab:
  assumes "wire_format W" "encode_CustomNavigationTab W m [] = Inr b"
  shows "builds W (switch_CustomNavigationTab W) base_CustomNavigationTab m b"
proof (rule message_builds [OF assms(2) [unfolded encode_CustomNavigationTab_def]])
  show "foldl (\<lambda>m u. u m) base_CustomNavigationTab
      [given CustomNavigationTab_tab_update (CustomNavigationTab_tab m),
       given CustomNavigationTab_postId_update (CustomNavigationTab_postId m),
       given CustomNavigationTab_isProfile_update (CustomNavigationTab_isProfile m),
       given CustomNavigationTab_emojiIcon_update (CustomNavigationTab_emojiIcon m),
       given CustomNavigationTab_iconMediaId_update (CustomNavigationTab_iconMediaId m),
       given CustomNavigationTab_title_update (CustomNavigationTab_title m),
       plain CustomNavigationTab_path_update (CustomNavigationTab_path m) []] = m"
    by (cases m) (simp add: field_changes base_CustomNavigationTab_def)
qed (insert assms(1),
    (rule wire_fields message_codecs | (simp add: updater_def switch_CustomNavigationTab_def list_all_iff; fail))+)

lemma decodes_CustomNavigationTab [message_codecs]:
  assumes "wire_format W" "encode_CustomNavigationTab W m [] = Inr b"
  shows "decodes (decode_CustomNavigationTab W) m b"
  unfolding decode_CustomNavigationTab_def by (rule builds_decodes [OF builds_CustomNavigationTab [OF assms]])

lemma settles_CustomNavigationTab [message_returns]: "wire_format W \<Longrightarrow> settles k (decode_CustomNavigationTab W)"
  unfolding decode_CustomNavigationTab_def
  by (rule wire_format.settles_message, assumption,
      unfold switch_CustomNavigationTab_def switch_field.simps switch_alternatives.simps)
    (rule wire_ends message_returns | assumption)+

section \<open>CustomNavigationTabSet\<close>

record CustomNavigationTabSet =
  CustomNavigationTabSet_home :: "CustomHomePage option"
  CustomNavigationTabSet_tabs :: "CustomNavigationTab list"
  CustomNavigationTabSet_tabStyle :: int

definition base_CustomNavigationTabSet :: CustomNavigationTabSet where
  "base_CustomNavigationTabSet =
     \<lparr>CustomNavigationTabSet_home = None,
      CustomNavigationTabSet_tabs = [],
      CustomNavigationTabSet_tabStyle = 0\<rparr>"

definition encode_CustomNavigationTabSet :: "wire \<Rightarrow> CustomNavigationTabSet \<Rightarrow> bytes \<Rightarrow> bytes result" where
  "encode_CustomNavigationTabSet W m =
     write_all
       [write_given (CustomNavigationTabSet_home m) (\<lambda>v. nested W 10 (encode_CustomHomePage W v)),
        write_each (CustomNavigationTabSet_tabs m) (\<lambda>v. nested W 18 (encode_CustomNavigationTab W v)),
        write_when (CustomNavigationTabSet_tabStyle m \<noteq> 0) (tagged W 24 (put_int32 W (CustomNavigationTabSet_tabStyle m)))]"

definition switch_CustomNavigationTabSet :: "wire \<Rightarrow> int \<Rightarrow> reader \<Rightarrow> CustomNavigationTabSet \<Rightarrow> CustomNavigationTabSet loop_step run" where
  "switch_CustomNavigationTabSet W tag r m =
     switch_field tag
       [(1, [(10, read_message W (decode_CustomHomePage W) (\<lambda>v. m\<lparr>CustomNavigationTabSet_home := Some v\<rparr>) r)]),
        (2, [(18, read_message W (decode_CustomNavigationTab W) (\<lambda>v. CustomNavigationTabSet_tabs_update (\<lambda>old. old @ [v]) m) r)]),
        (3, [(24, read_field (get_int32 W) (\<lambda>v. m\<lparr>CustomNavigationTabSet_tabStyle := v\<rparr>) r)])]"

definition decode_CustomNavigationTabSet :: "wire \<Rightarrow> reader \<Rightarrow> int option \<Rightarrow> (CustomNavigationTabSet \<times> reader) run" where
  "decode_CustomNavigationTabSet W = decode_message W (switch_CustomNavigationTabSet W) base_CustomNavigationTabSet"

lemma builds_CustomNavigationTabSet:
  assumes "wire_format W" "encode_CustomNavigationTabSet W m [] = Inr b"
  shows "builds W (switch_CustomNavigationTabSet W) base_CustomNavigationTabSet m b"
proof (rule message_builds [OF assms(2) [unfolded encode_CustomNavigationTabSet_def]])
  show "foldl (\<lambda>m u. u m) base_CustomNavigationTabSet
      [given CustomNavigationTabSet_home_update (CustomNavigationTabSet_home m),
       pushed CustomNavigationTabSet_tabs_update (CustomNavigationTabSet_tabs m),
       plain CustomNavigationTabSet_tabStyle_update (CustomNavigationTabSet_tabStyle m) 0] = m"
    by (cases m) (simp add: field_changes base_CustomNavigationTabSet_def)
qed (insert assms(1),
    (rule wire_fields message_codecs | (simp add: updater_def switch_CustomNavigationTabSet_def list_all_iff; fail))+)

lemma decodes_CustomNavigationTabSet [message_codecs]:
  assumes "wire_format W" "encode_CustomNavigationTabSet W m [] = Inr b"
  shows "decodes (decode_CustomNavigationTabSet W) m b"
  unfolding decode_CustomNavigationTabSet_def by (rule builds_decodes [OF builds_CustomNavigationTabSet [OF assms]])

lemma settles_CustomNavigationTabSet [message_returns]: "wire_format W \<Longrightarrow> settles k (decode_CustomNavigationTabSet W)"
  unfolding decode_CustomNavigationTabSet_def
  by (rule wire_format.settles_message, assumption,
      unfold switch_CustomNavigationTabSet_def switch_field.simps switch_alternatives.simps)
    (rule wire_ends message_returns | assumption)+

section \<open>EventSettings\<close>

record EventSettings =
  EventSettings_visible :: bool
  EventSettings_defaultModeration :: int
  EventSettings_defaultVisibility :: int
  EventSettings_aliasSingular :: "string option"
  EventSettings_aliasPlural :: "string option"
  EventSettings_enableReplies :: "bool option"
  EventSettings_calendarLookbackDays :: "int option"
  EventSettings_defaultCalendarDisplayMode :: int
  EventSettings_showStartedOrLongEventsByDefault :: bool

definition base_EventSettings :: EventSettings where
  "base_EventSettings =
     \<lparr>EventSettings_visible = False,
      EventSettings_defaultModeration = 0,
      EventSettings_defaultVisibility = 0,
      EventSettings_aliasSingular = None,
      EventSettings_aliasPlural = None,
      EventSettings_enableReplies = None,
      EventSettings_calendarLookbackDays = None,
      EventSettings_defaultCalendarDisplayMode = 0,
      EventSettings_showStartedOrLongEventsByDefault = False\<rparr>"

definition encode_EventSettings :: "wire \<Rightarrow> EventSettings \<Rightarrow> bytes \<Rightarrow> bytes result" where
  "encode_EventSettings W m =
     write_all
       [write_when (EventSettings_visible m \<noteq> False) (tagged W 8 (put_bool W (EventSettings_visible m))),
        write_when (EventSettings_defaultModeration m \<noteq> 0) (tagged W 16 (put_int32 W (EventSettings_defaultModeration m))),
        write_when (EventSettings_defaultVisibility m \<noteq> 0) (tagged W 24 (put_int32 W (EventSettings_defaultVisibility m))),
        write_given (EventSettings_aliasSingular m) (\<lambda>v. tagged W 34 (put_string W v)),
        write_given (EventSettings_aliasPlural m) (\<lambda>v. tagged W 42 (put_string W v)),
        write_given (EventSettings_enableReplies m) (\<lambda>v. tagged W 48 (put_bool W v)),
        write_given (EventSettings_calendarLookbackDays m) (\<lambda>v. tagged W 56 (put_uint32 W v)),
        write_when (EventSettings_defaultCalendarDisplayMode m \<noteq> 0) (tagged W 64 (put_int32 W (EventSettings_defaultCalendarDisplayMode m))),
        write_when (EventSettings_showStartedOrLongEventsByDefault m \<noteq> False) (tagged W 72 (put_bool W (EventSettings_showStartedOrLongEventsByDefault m)))]"

definition switch_EventSettings :: "wire \<Rightarrow> int \<Rightarrow> reader \<Rightarrow> EventSettings \<Rightarrow> EventSettings loop_step run" where
  "switch_EventSettings W tag r m =
     switch_field tag
       [(1, [(8, read_field (get_bool W) (\<lambda>v. m\<lparr>EventSettings_visible := v\<rparr>) r)]),
        (2, [(16, read_field (get_int32 W) (\<lambda>v. m\<lparr>EventSettings_defaultModeration := v\<rparr>) r)]),
        (3, [(24, read_field (get_int32 W) (\<lambda>v. m\<lparr>EventSettings_defaultVisibility := v\<rparr>) r)]),
        (4, [(34, read_field (get_string W) (\<lambda>v. m\<lparr>EventSettings_aliasSingular := Some v\<rparr>) r)]),
        (5, [(42, read_field (get_string W) (\<lambda>v. m\<lparr>EventSettings_aliasPlural := Some v\<rparr>) r)]),
        (6, [(48, read_field (get_bool W) (\<lambda>v. m\<lparr>EventSettings_enableReplies := Some v\<rparr>) r)]),
        (7, [(56, read_field (get_uint32 W) (\<lambda>v. m\<lparr>EventSettings_calendarLookbackDays := Some v\<rparr>) r)]),
        (8, [(64, read_field (get_int32 W) (\<lambda>v. m\<lparr>EventSettings_defaultCalendarDisplayMode := v\<rparr>) r)]),
        (9, [(72, read_field (get_bool W) (\<lambda>v. m\<lparr>EventSettings_showStartedOrLongEventsByDefault := v\<rparr>) r)])]"

definition decode_EventSettings :: "wire \<Rightarrow> reader \<Rightarrow> int option \<Rightarrow> (EventSettings \<times> reader) run" where
  "decode_EventSettings W = decode_message W (switch_EventSettings W) base_EventSettings"

lemma builds_EventSettings:
  assumes "wire_format W" "encode_EventSettings W m [] = Inr b"
  shows "builds W (switch_EventSettings W) base_EventSettings m b"
proof (rule message_builds [OF assms(2) [unfolded encode_EventSettings_def]])
  show "foldl (\<lambda>m u. u m) base_EventSettings
      [plain EventSettings_visible_update (EventSettings_visible m) False,
       plain EventSettings_defaultModeration_update (EventSettings_defaultModeration m) 0,
       plain EventSettings_defaultVisibility_update (EventSettings_defaultVisibility m) 0,
       given EventSettings_aliasSingular_update (EventSettings_aliasSingular m),
       given EventSettings_aliasPlural_update (EventSettings_aliasPlural m),
       given EventSettings_enableReplies_update (EventSettings_enableReplies m),
       given EventSettings_calendarLookbackDays_update (EventSettings_calendarLookbackDays m),
       plain EventSettings_defaultCalendarDisplayMode_update (EventSettings_defaultCalendarDisplayMode m) 0,
       plain EventSettings_showStartedOrLongEventsByDefault_update (EventSettings_showStartedOrLongEventsByDefault m) False] = m"
    by (cases m) (simp add: field_changes base_EventSettings_def)
qed (insert assms(1),
    (rule wire_fields message_codecs | (simp add: updater_def switch_EventSettings_def list_all_iff; fail))+)

lemma decodes_EventSettings [message_codecs]:
  assumes "wire_format W" "encode_EventSettings W m [] = Inr b"
  shows "decodes (decode_EventSettings W) m b"
  unfolding decode_EventSettings_def by (rule builds_decodes [OF builds_EventSettings [OF assms]])

lemma settles_EventSettings [message_returns]: "wire_format W \<Longrightarrow> settles k (decode_EventSettings W)"
  unfolding decode_EventSettings_def
  by (rule wire_format.settles_message, assumption,
      unfold switch_EventSettings_def switch_field.simps switch_alternatives.simps)
    (rule wire_ends message_returns | assumption)+

section \<open>ExternalCDNConfig\<close>

record ExternalCDNConfig =
  ExternalCDNConfig_frontendHost :: string
  ExternalCDNConfig_backendHost :: string
  ExternalCDNConfig_secureMedia :: bool
  ExternalCDNConfig_mediaIpv4Allowlist :: "string option"
  ExternalCDNConfig_mediaIpv6Allowlist :: "string option"
  ExternalCDNConfig_cdnGrpc :: bool

definition base_ExternalCDNConfig :: ExternalCDNConfig where
  "base_ExternalCDNConfig =
     \<lparr>ExternalCDNConfig_frontendHost = [],
      ExternalCDNConfig_backendHost = [],
      ExternalCDNConfig_secureMedia = False,
      ExternalCDNConfig_mediaIpv4Allowlist = None,
      ExternalCDNConfig_mediaIpv6Allowlist = None,
      ExternalCDNConfig_cdnGrpc = False\<rparr>"

definition encode_ExternalCDNConfig :: "wire \<Rightarrow> ExternalCDNConfig \<Rightarrow> bytes \<Rightarrow> bytes result" where
  "encode_ExternalCDNConfig W m =
     write_all
       [write_when (ExternalCDNConfig_frontendHost m \<noteq> []) (tagged W 10 (put_string W (ExternalCDNConfig_frontendHost m))),
        write_when (ExternalCDNConfig_backendHost m \<noteq> []) (tagged W 18 (put_string W (ExternalCDNConfig_backendHost m))),
        write_when (ExternalCDNConfig_secureMedia m \<noteq> False) (tagged W 24 (put_bool W (ExternalCDNConfig_secureMedia m))),
        write_given (ExternalCDNConfig_mediaIpv4Allowlist m) (\<lambda>v. tagged W 34 (put_string W v)),
        write_given (ExternalCDNConfig_mediaIpv6Allowlist m) (\<lambda>v. tagged W 42 (put_string W v)),
        write_when (ExternalCDNConfig_cdnGrpc m \<noteq> False) (tagged W 48 (put_bool W (ExternalCDNConfig_cdnGrpc m)))]"

definition switch_ExternalCDNConfig :: "wire \<Rightarrow> int \<Rightarrow> reader \<Rightarrow> ExternalCDNConfig \<Rightarrow> ExternalCDNConfig loop_step run" where
  "switch_ExternalCDNConfig W tag r m =
     switch_field tag
       [(1, [(10, read_field (get_string W) (\<lambda>v. m\<lparr>ExternalCDNConfig_frontendHost := v\<rparr>) r)]),
        (2, [(18, read_field (get_string W) (\<lambda>v. m\<lparr>ExternalCDNConfig_backendHost := v\<rparr>) r)]),
        (3, [(24, read_field (get_bool W) (\<lambda>v. m\<lparr>ExternalCDNConfig_secureMedia := v\<rparr>) r)]),
        (4, [(34, read_field (get_string W) (\<lambda>v. m\<lparr>ExternalCDNConfig_mediaIpv4Allowlist := Some v\<rparr>) r)]),
        (5, [(42, read_field (get_string W) (\<lambda>v. m\<lparr>ExternalCDNConfig_mediaIpv6Allowlist := Some v\<rparr>) r)]),
        (6, [(48, read_field (get_bool W) (\<lambda>v. m\<lparr>ExternalCDNConfig_cdnGrpc := v\<rparr>) r)])]"

definition decode_ExternalCDNConfig :: "wire \<Rightarrow> reader \<Rightarrow> int option \<Rightarrow> (ExternalCDNConfig \<times> reader) run" where
  "decode_ExternalCDNConfig W = decode_message W (switch_ExternalCDNConfig W) base_ExternalCDNConfig"

lemma builds_ExternalCDNConfig:
  assumes "wire_format W" "encode_ExternalCDNConfig W m [] = Inr b"
  shows "builds W (switch_ExternalCDNConfig W) base_ExternalCDNConfig m b"
proof (rule message_builds [OF assms(2) [unfolded encode_ExternalCDNConfig_def]])
  show "foldl (\<lambda>m u. u m) base_ExternalCDNConfig
      [plain ExternalCDNConfig_frontendHost_update (ExternalCDNConfig_frontendHost m) [],
       plain ExternalCDNConfig_backendHost_update (ExternalCDNConfig_backendHost m) [],
       plain ExternalCDNConfig_secureMedia_update (ExternalCDNConfig_secureMedia m) False,
       given ExternalCDNConfig_mediaIpv4Allowlist_update (ExternalCDNConfig_mediaIpv4Allowlist m),
       given ExternalCDNConfig_mediaIpv6Allowlist_update (ExternalCDNConfig_mediaIpv6Allowlist m),
       plain ExternalCDNConfig_cdnGrpc_update (ExternalCDNConfig_cdnGrpc m) False] = m"
    by (cases m) (simp add: field_changes base_ExternalCDNConfig_def)
qed (insert assms(1),
    (rule wire_fields message_codecs | (simp add: updater_def switch_ExternalCDNConfig_def list_all_iff; fail))+)

lemma decodes_ExternalCDNConfig [message_codecs]:
  assumes "wire_format W" "encode_ExternalCDNConfig W m [] = Inr b"
  shows "decodes (decode_ExternalCDNConfig W) m b"
  unfolding decode_ExternalCDNConfig_def by (rule builds_decodes [OF builds_ExternalCDNConfig [OF assms]])

lemma settles_ExternalCDNConfig [message_returns]: "wire_format W \<Longrightarrow> settles k (decode_ExternalCDNConfig W)"
  unfolding decode_ExternalCDNConfig_def
  by (rule wire_format.settles_message, assumption,
      unfold switch_ExternalCDNConfig_def switch_field.simps switch_alternatives.simps)
    (rule wire_ends message_returns | assumption)+

section \<open>FeatureSettings\<close>

record FeatureSettings =
  FeatureSettings_visible :: bool
  FeatureSettings_defaultModeration :: int
  FeatureSettings_defaultVisibility :: int
  FeatureSettings_aliasSingular :: "string option"
  FeatureSettings_aliasPlural :: "string option"

definition base_FeatureSettings :: FeatureSettings where
  "base_FeatureSettings =
     \<lparr>FeatureSettings_visible = False,
      FeatureSettings_defaultModeration = 0,
      FeatureSettings_defaultVisibility = 0,
      FeatureSettings_aliasSingular = None,
      FeatureSettings_aliasPlural = None\<rparr>"

definition encode_FeatureSettings :: "wire \<Rightarrow> FeatureSettings \<Rightarrow> bytes \<Rightarrow> bytes result" where
  "encode_FeatureSettings W m =
     write_all
       [write_when (FeatureSettings_visible m \<noteq> False) (tagged W 8 (put_bool W (FeatureSettings_visible m))),
        write_when (FeatureSettings_defaultModeration m \<noteq> 0) (tagged W 16 (put_int32 W (FeatureSettings_defaultModeration m))),
        write_when (FeatureSettings_defaultVisibility m \<noteq> 0) (tagged W 24 (put_int32 W (FeatureSettings_defaultVisibility m))),
        write_given (FeatureSettings_aliasSingular m) (\<lambda>v. tagged W 34 (put_string W v)),
        write_given (FeatureSettings_aliasPlural m) (\<lambda>v. tagged W 42 (put_string W v))]"

definition switch_FeatureSettings :: "wire \<Rightarrow> int \<Rightarrow> reader \<Rightarrow> FeatureSettings \<Rightarrow> FeatureSettings loop_step run" where
  "switch_FeatureSettings W tag r m =
     switch_field tag
       [(1, [(8, read_field (get_bool W) (\<lambda>v. m\<lparr>FeatureSettings_visible := v\<rparr>) r)]),
        (2, [(16, read_field (get_int32 W) (\<lambda>v. m\<lparr>FeatureSettings_defaultModeration := v\<rparr>) r)]),
        (3, [(24, read_field (get_int32 W) (\<lambda>v. m\<lparr>FeatureSettings_defaultVisibility := v\<rparr>) r)]),
        (4, [(34, read_field (get_string W) (\<lambda>v. m\<lparr>FeatureSettings_aliasSingular := Some v\<rparr>) r)]),
        (5, [(42, read_field (get_string W) (\<lambda>v. m\<lparr>FeatureSettings_aliasPlural := Some v\<rparr>) r)])]"

definition decode_FeatureSettings :: "wire \<Rightarrow> reader \<Rightarrow> int option \<Rightarrow> (FeatureSettings \<times> reader) run" where
  "decode_FeatureSettings W = decode_message W (switch_FeatureSettings W) base_FeatureSettings"

lemma builds_FeatureSettings:
  assumes "wire_format W" "encode_FeatureSettings W m [] = Inr b"
  shows "builds W (switch_FeatureSettings W) base_FeatureSettings m b"
proof (rule message_builds [OF assms(2) [unfolded encode_FeatureSettings_def]])
  show "foldl (\<lambda>m u. u m) base_FeatureSettings
      [plain FeatureSettings_visible_update (FeatureSettings_visible m) False,
       plain FeatureSettings_defaultModeration_update (FeatureSettings_defaultModeration m) 0,
       plain FeatureSettings_defaultVisibility_update (FeatureSettings_defaultVisibility m) 0,
       given FeatureSettings_aliasSingular_update (FeatureSettings_aliasSingular m),
       given FeatureSettings_aliasPlural_update (FeatureSettings_aliasPlural m)] = m"
    by (cases m) (simp add: field_changes base_FeatureSettings_def)
qed (insert assms(1),
    (rule wire_fields message_codecs | (simp add: updater_def switch_FeatureSettings_def list_all_iff; fail))+)

lemma decodes_FeatureSettings [message_codecs]:
  assumes "wire_format W" "encode_FeatureSettings W m [] = Inr b"
  shows "decodes (decode_FeatureSettings W) m b"
  unfolding decode_FeatureSettings_def by (rule builds_decodes [OF builds_FeatureSettings [OF assms]])

lemma settles_FeatureSettings [message_returns]: "wire_format W \<Longrightarrow> settles k (decode_FeatureSettings W)"
  unfolding decode_FeatureSettings_def
  by (rule wire_format.settles_message, assumption,
      unfold switch_FeatureSettings_def switch_field.simps switch_alternatives.simps)
    (rule wire_ends message_returns | assumption)+

section \<open>MarketSettings\<close>

record MarketSettings =
  MarketSettings_enabled :: bool
  MarketSettings_stripeConfigured :: bool

definition base_MarketSettings :: MarketSettings where
  "base_MarketSettings =
     \<lparr>MarketSettings_enabled = False,
      MarketSettings_stripeConfigured = False\<rparr>"

definition encode_MarketSettings :: "wire \<Rightarrow> MarketSettings \<Rightarrow> bytes \<Rightarrow> bytes result" where
  "encode_MarketSettings W m =
     write_all
       [write_when (MarketSettings_enabled m \<noteq> False) (tagged W 8 (put_bool W (MarketSettings_enabled m))),
        write_when (MarketSettings_stripeConfigured m \<noteq> False) (tagged W 16 (put_bool W (MarketSettings_stripeConfigured m)))]"

definition switch_MarketSettings :: "wire \<Rightarrow> int \<Rightarrow> reader \<Rightarrow> MarketSettings \<Rightarrow> MarketSettings loop_step run" where
  "switch_MarketSettings W tag r m =
     switch_field tag
       [(1, [(8, read_field (get_bool W) (\<lambda>v. m\<lparr>MarketSettings_enabled := v\<rparr>) r)]),
        (2, [(16, read_field (get_bool W) (\<lambda>v. m\<lparr>MarketSettings_stripeConfigured := v\<rparr>) r)])]"

definition decode_MarketSettings :: "wire \<Rightarrow> reader \<Rightarrow> int option \<Rightarrow> (MarketSettings \<times> reader) run" where
  "decode_MarketSettings W = decode_message W (switch_MarketSettings W) base_MarketSettings"

lemma builds_MarketSettings:
  assumes "wire_format W" "encode_MarketSettings W m [] = Inr b"
  shows "builds W (switch_MarketSettings W) base_MarketSettings m b"
proof (rule message_builds [OF assms(2) [unfolded encode_MarketSettings_def]])
  show "foldl (\<lambda>m u. u m) base_MarketSettings
      [plain MarketSettings_enabled_update (MarketSettings_enabled m) False,
       plain MarketSettings_stripeConfigured_update (MarketSettings_stripeConfigured m) False] = m"
    by (cases m) (simp add: field_changes base_MarketSettings_def)
qed (insert assms(1),
    (rule wire_fields message_codecs | (simp add: updater_def switch_MarketSettings_def list_all_iff; fail))+)

lemma decodes_MarketSettings [message_codecs]:
  assumes "wire_format W" "encode_MarketSettings W m [] = Inr b"
  shows "decodes (decode_MarketSettings W) m b"
  unfolding decode_MarketSettings_def by (rule builds_decodes [OF builds_MarketSettings [OF assms]])

lemma settles_MarketSettings [message_returns]: "wire_format W \<Longrightarrow> settles k (decode_MarketSettings W)"
  unfolding decode_MarketSettings_def
  by (rule wire_format.settles_message, assumption,
      unfold switch_MarketSettings_def switch_field.simps switch_alternatives.simps)
    (rule wire_ends message_returns | assumption)+

section \<open>MediaSettings\<close>

record MediaSettings =
  MediaSettings_visible :: bool
  MediaSettings_defaultModeration :: int
  MediaSettings_defaultVisibility :: int
  MediaSettings_defaultUserMediaAllocationBytes :: int
  MediaSettings_blockCorsAnonymousMediaAccess :: bool
  MediaSettings_licensedMediaVisibleGlobally :: bool
  MediaSettings_hlsStreamingEnabled :: bool
  MediaSettings_serverMediaAllocationBytes :: int
  MediaSettings_serverMediaUsageBytes :: int
  MediaSettings_serverMediaUsageCalculatedAt :: "string option"
  MediaSettings_serverObjectStorageUsageBytes :: int
  MediaSettings_serverObjectStorageUsageCalculatedAt :: "string option"
  MediaSettings_disableLinkPreviewImages :: bool
  MediaSettings_preferMetadataForLinkPreviewImages :: bool

definition base_MediaSettings :: MediaSettings where
  "base_MediaSettings =
     \<lparr>MediaSettings_visible = False,
      MediaSettings_defaultModeration = 0,
      MediaSettings_defaultVisibility = 0,
      MediaSettings_defaultUserMediaAllocationBytes = 0,
      MediaSettings_blockCorsAnonymousMediaAccess = False,
      MediaSettings_licensedMediaVisibleGlobally = False,
      MediaSettings_hlsStreamingEnabled = False,
      MediaSettings_serverMediaAllocationBytes = 0,
      MediaSettings_serverMediaUsageBytes = 0,
      MediaSettings_serverMediaUsageCalculatedAt = None,
      MediaSettings_serverObjectStorageUsageBytes = 0,
      MediaSettings_serverObjectStorageUsageCalculatedAt = None,
      MediaSettings_disableLinkPreviewImages = False,
      MediaSettings_preferMetadataForLinkPreviewImages = False\<rparr>"

definition encode_MediaSettings :: "wire \<Rightarrow> MediaSettings \<Rightarrow> bytes \<Rightarrow> bytes result" where
  "encode_MediaSettings W m =
     write_all
       [write_when (MediaSettings_visible m \<noteq> False) (tagged W 8 (put_bool W (MediaSettings_visible m))),
        write_when (MediaSettings_defaultModeration m \<noteq> 0) (tagged W 16 (put_int32 W (MediaSettings_defaultModeration m))),
        write_when (MediaSettings_defaultVisibility m \<noteq> 0) (tagged W 24 (put_int32 W (MediaSettings_defaultVisibility m))),
        write_when (MediaSettings_defaultUserMediaAllocationBytes m \<noteq> 0) (tagged W 32 (put_uint64 W (MediaSettings_defaultUserMediaAllocationBytes m))),
        write_when (MediaSettings_blockCorsAnonymousMediaAccess m \<noteq> False) (tagged W 160 (put_bool W (MediaSettings_blockCorsAnonymousMediaAccess m))),
        write_when (MediaSettings_licensedMediaVisibleGlobally m \<noteq> False) (tagged W 168 (put_bool W (MediaSettings_licensedMediaVisibleGlobally m))),
        write_when (MediaSettings_hlsStreamingEnabled m \<noteq> False) (tagged W 176 (put_bool W (MediaSettings_hlsStreamingEnabled m))),
        write_when (MediaSettings_serverMediaAllocationBytes m \<noteq> 0) (tagged W 40 (put_uint64 W (MediaSettings_serverMediaAllocationBytes m))),
        write_when (MediaSettings_serverMediaUsageBytes m \<noteq> 0) (tagged W 48 (put_uint64 W (MediaSettings_serverMediaUsageBytes m))),
        write_given (MediaSettings_serverMediaUsageCalculatedAt m) (\<lambda>v. nested W 58 (encode_date W v)),
        write_when (MediaSettings_serverObjectStorageUsageBytes m \<noteq> 0) (tagged W 64 (put_uint64 W (MediaSettings_serverObjectStorageUsageBytes m))),
        write_given (MediaSettings_serverObjectStorageUsageCalculatedAt m) (\<lambda>v. nested W 74 (encode_date W v)),
        write_when (MediaSettings_disableLinkPreviewImages m \<noteq> False) (tagged W 80 (put_bool W (MediaSettings_disableLinkPreviewImages m))),
        write_when (MediaSettings_preferMetadataForLinkPreviewImages m \<noteq> False) (tagged W 88 (put_bool W (MediaSettings_preferMetadataForLinkPreviewImages m)))]"

definition switch_MediaSettings :: "wire \<Rightarrow> int \<Rightarrow> reader \<Rightarrow> MediaSettings \<Rightarrow> MediaSettings loop_step run" where
  "switch_MediaSettings W tag r m =
     switch_field tag
       [(1, [(8, read_field (get_bool W) (\<lambda>v. m\<lparr>MediaSettings_visible := v\<rparr>) r)]),
        (2, [(16, read_field (get_int32 W) (\<lambda>v. m\<lparr>MediaSettings_defaultModeration := v\<rparr>) r)]),
        (3, [(24, read_field (get_int32 W) (\<lambda>v. m\<lparr>MediaSettings_defaultVisibility := v\<rparr>) r)]),
        (4, [(32, read_field (get_long (get_uint64 W)) (\<lambda>v. m\<lparr>MediaSettings_defaultUserMediaAllocationBytes := v\<rparr>) r)]),
        (20, [(160, read_field (get_bool W) (\<lambda>v. m\<lparr>MediaSettings_blockCorsAnonymousMediaAccess := v\<rparr>) r)]),
        (21, [(168, read_field (get_bool W) (\<lambda>v. m\<lparr>MediaSettings_licensedMediaVisibleGlobally := v\<rparr>) r)]),
        (22, [(176, read_field (get_bool W) (\<lambda>v. m\<lparr>MediaSettings_hlsStreamingEnabled := v\<rparr>) r)]),
        (5, [(40, read_field (get_long (get_uint64 W)) (\<lambda>v. m\<lparr>MediaSettings_serverMediaAllocationBytes := v\<rparr>) r)]),
        (6, [(48, read_field (get_long (get_uint64 W)) (\<lambda>v. m\<lparr>MediaSettings_serverMediaUsageBytes := v\<rparr>) r)]),
        (7, [(58, read_message W (decode_date W) (\<lambda>v. m\<lparr>MediaSettings_serverMediaUsageCalculatedAt := Some v\<rparr>) r)]),
        (8, [(64, read_field (get_long (get_uint64 W)) (\<lambda>v. m\<lparr>MediaSettings_serverObjectStorageUsageBytes := v\<rparr>) r)]),
        (9, [(74, read_message W (decode_date W) (\<lambda>v. m\<lparr>MediaSettings_serverObjectStorageUsageCalculatedAt := Some v\<rparr>) r)]),
        (10, [(80, read_field (get_bool W) (\<lambda>v. m\<lparr>MediaSettings_disableLinkPreviewImages := v\<rparr>) r)]),
        (11, [(88, read_field (get_bool W) (\<lambda>v. m\<lparr>MediaSettings_preferMetadataForLinkPreviewImages := v\<rparr>) r)])]"

definition decode_MediaSettings :: "wire \<Rightarrow> reader \<Rightarrow> int option \<Rightarrow> (MediaSettings \<times> reader) run" where
  "decode_MediaSettings W = decode_message W (switch_MediaSettings W) base_MediaSettings"

definition safe_MediaSettings :: "wire \<Rightarrow> MediaSettings \<Rightarrow> bool" where
  "safe_MediaSettings W m \<longleftrightarrow>
     safe_long (MediaSettings_defaultUserMediaAllocationBytes m) \<and>
     safe_long (MediaSettings_serverMediaAllocationBytes m) \<and>
     safe_long (MediaSettings_serverMediaUsageBytes m) \<and>
     pred_option canonical_date (MediaSettings_serverMediaUsageCalculatedAt m) \<and>
     safe_long (MediaSettings_serverObjectStorageUsageBytes m) \<and>
     pred_option canonical_date (MediaSettings_serverObjectStorageUsageCalculatedAt m)"

lemma builds_MediaSettings:
  assumes "wire_format W" "safe_MediaSettings W m" "encode_MediaSettings W m [] = Inr b"
  shows "builds W (switch_MediaSettings W) base_MediaSettings m b"
proof (rule message_builds [OF assms(3) [unfolded encode_MediaSettings_def]])
  show "foldl (\<lambda>m u. u m) base_MediaSettings
      [plain MediaSettings_visible_update (MediaSettings_visible m) False,
       plain MediaSettings_defaultModeration_update (MediaSettings_defaultModeration m) 0,
       plain MediaSettings_defaultVisibility_update (MediaSettings_defaultVisibility m) 0,
       plain MediaSettings_defaultUserMediaAllocationBytes_update (MediaSettings_defaultUserMediaAllocationBytes m) 0,
       plain MediaSettings_blockCorsAnonymousMediaAccess_update (MediaSettings_blockCorsAnonymousMediaAccess m) False,
       plain MediaSettings_licensedMediaVisibleGlobally_update (MediaSettings_licensedMediaVisibleGlobally m) False,
       plain MediaSettings_hlsStreamingEnabled_update (MediaSettings_hlsStreamingEnabled m) False,
       plain MediaSettings_serverMediaAllocationBytes_update (MediaSettings_serverMediaAllocationBytes m) 0,
       plain MediaSettings_serverMediaUsageBytes_update (MediaSettings_serverMediaUsageBytes m) 0,
       given MediaSettings_serverMediaUsageCalculatedAt_update (MediaSettings_serverMediaUsageCalculatedAt m),
       plain MediaSettings_serverObjectStorageUsageBytes_update (MediaSettings_serverObjectStorageUsageBytes m) 0,
       given MediaSettings_serverObjectStorageUsageCalculatedAt_update (MediaSettings_serverObjectStorageUsageCalculatedAt m),
       plain MediaSettings_disableLinkPreviewImages_update (MediaSettings_disableLinkPreviewImages m) False,
       plain MediaSettings_preferMetadataForLinkPreviewImages_update (MediaSettings_preferMetadataForLinkPreviewImages m) False] = m"
    by (cases m) (simp add: field_changes base_MediaSettings_def)
qed (insert assms(1,2),
    (rule wire_fields message_codecs | (simp add: updater_def switch_MediaSettings_def safe_MediaSettings_def list_all_iff; fail))+)

lemma decodes_MediaSettings [message_codecs]:
  assumes "wire_format W" "safe_MediaSettings W m" "encode_MediaSettings W m [] = Inr b"
  shows "decodes (decode_MediaSettings W) m b"
  unfolding decode_MediaSettings_def by (rule builds_decodes [OF builds_MediaSettings [OF assms]])

lemma settles_MediaSettings [message_returns]: "wire_format W \<Longrightarrow> settles k (decode_MediaSettings W)"
  unfolding decode_MediaSettings_def
  by (rule wire_format.settles_message, assumption,
      unfold switch_MediaSettings_def switch_field.simps switch_alternatives.simps)
    (rule wire_ends message_returns | assumption)+

section \<open>PostSettings\<close>

record PostSettings =
  PostSettings_visible :: bool
  PostSettings_defaultModeration :: int
  PostSettings_defaultVisibility :: int
  PostSettings_aliasSingular :: "string option"
  PostSettings_aliasPlural :: "string option"
  PostSettings_enableReplies :: "bool option"
  PostSettings_defaultSort :: int

definition base_PostSettings :: PostSettings where
  "base_PostSettings =
     \<lparr>PostSettings_visible = False,
      PostSettings_defaultModeration = 0,
      PostSettings_defaultVisibility = 0,
      PostSettings_aliasSingular = None,
      PostSettings_aliasPlural = None,
      PostSettings_enableReplies = None,
      PostSettings_defaultSort = 0\<rparr>"

definition encode_PostSettings :: "wire \<Rightarrow> PostSettings \<Rightarrow> bytes \<Rightarrow> bytes result" where
  "encode_PostSettings W m =
     write_all
       [write_when (PostSettings_visible m \<noteq> False) (tagged W 8 (put_bool W (PostSettings_visible m))),
        write_when (PostSettings_defaultModeration m \<noteq> 0) (tagged W 16 (put_int32 W (PostSettings_defaultModeration m))),
        write_when (PostSettings_defaultVisibility m \<noteq> 0) (tagged W 24 (put_int32 W (PostSettings_defaultVisibility m))),
        write_given (PostSettings_aliasSingular m) (\<lambda>v. tagged W 34 (put_string W v)),
        write_given (PostSettings_aliasPlural m) (\<lambda>v. tagged W 42 (put_string W v)),
        write_given (PostSettings_enableReplies m) (\<lambda>v. tagged W 48 (put_bool W v)),
        write_when (PostSettings_defaultSort m \<noteq> 0) (tagged W 56 (put_int32 W (PostSettings_defaultSort m)))]"

definition switch_PostSettings :: "wire \<Rightarrow> int \<Rightarrow> reader \<Rightarrow> PostSettings \<Rightarrow> PostSettings loop_step run" where
  "switch_PostSettings W tag r m =
     switch_field tag
       [(1, [(8, read_field (get_bool W) (\<lambda>v. m\<lparr>PostSettings_visible := v\<rparr>) r)]),
        (2, [(16, read_field (get_int32 W) (\<lambda>v. m\<lparr>PostSettings_defaultModeration := v\<rparr>) r)]),
        (3, [(24, read_field (get_int32 W) (\<lambda>v. m\<lparr>PostSettings_defaultVisibility := v\<rparr>) r)]),
        (4, [(34, read_field (get_string W) (\<lambda>v. m\<lparr>PostSettings_aliasSingular := Some v\<rparr>) r)]),
        (5, [(42, read_field (get_string W) (\<lambda>v. m\<lparr>PostSettings_aliasPlural := Some v\<rparr>) r)]),
        (6, [(48, read_field (get_bool W) (\<lambda>v. m\<lparr>PostSettings_enableReplies := Some v\<rparr>) r)]),
        (7, [(56, read_field (get_int32 W) (\<lambda>v. m\<lparr>PostSettings_defaultSort := v\<rparr>) r)])]"

definition decode_PostSettings :: "wire \<Rightarrow> reader \<Rightarrow> int option \<Rightarrow> (PostSettings \<times> reader) run" where
  "decode_PostSettings W = decode_message W (switch_PostSettings W) base_PostSettings"

lemma builds_PostSettings:
  assumes "wire_format W" "encode_PostSettings W m [] = Inr b"
  shows "builds W (switch_PostSettings W) base_PostSettings m b"
proof (rule message_builds [OF assms(2) [unfolded encode_PostSettings_def]])
  show "foldl (\<lambda>m u. u m) base_PostSettings
      [plain PostSettings_visible_update (PostSettings_visible m) False,
       plain PostSettings_defaultModeration_update (PostSettings_defaultModeration m) 0,
       plain PostSettings_defaultVisibility_update (PostSettings_defaultVisibility m) 0,
       given PostSettings_aliasSingular_update (PostSettings_aliasSingular m),
       given PostSettings_aliasPlural_update (PostSettings_aliasPlural m),
       given PostSettings_enableReplies_update (PostSettings_enableReplies m),
       plain PostSettings_defaultSort_update (PostSettings_defaultSort m) 0] = m"
    by (cases m) (simp add: field_changes base_PostSettings_def)
qed (insert assms(1),
    (rule wire_fields message_codecs | (simp add: updater_def switch_PostSettings_def list_all_iff; fail))+)

lemma decodes_PostSettings [message_codecs]:
  assumes "wire_format W" "encode_PostSettings W m [] = Inr b"
  shows "decodes (decode_PostSettings W) m b"
  unfolding decode_PostSettings_def by (rule builds_decodes [OF builds_PostSettings [OF assms]])

lemma settles_PostSettings [message_returns]: "wire_format W \<Longrightarrow> settles k (decode_PostSettings W)"
  unfolding decode_PostSettings_def
  by (rule wire_format.settles_message, assumption,
      unfold switch_PostSettings_def switch_field.simps switch_alternatives.simps)
    (rule wire_ends message_returns | assumption)+

section \<open>ServerColors\<close>

record ServerColors =
  ServerColors_primary :: "int option"
  ServerColors_navigation :: "int option"
  ServerColors_author :: "int option"
  ServerColors_admin :: "int option"
  ServerColors_moderator :: "int option"

definition base_ServerColors :: ServerColors where
  "base_ServerColors =
     \<lparr>ServerColors_primary = None,
      ServerColors_navigation = None,
      ServerColors_author = None,
      ServerColors_admin = None,
      ServerColors_moderator = None\<rparr>"

definition encode_ServerColors :: "wire \<Rightarrow> ServerColors \<Rightarrow> bytes \<Rightarrow> bytes result" where
  "encode_ServerColors W m =
     write_all
       [write_given (ServerColors_primary m) (\<lambda>v. tagged W 8 (put_uint32 W v)),
        write_given (ServerColors_navigation m) (\<lambda>v. tagged W 16 (put_uint32 W v)),
        write_given (ServerColors_author m) (\<lambda>v. tagged W 24 (put_uint32 W v)),
        write_given (ServerColors_admin m) (\<lambda>v. tagged W 32 (put_uint32 W v)),
        write_given (ServerColors_moderator m) (\<lambda>v. tagged W 40 (put_uint32 W v))]"

definition switch_ServerColors :: "wire \<Rightarrow> int \<Rightarrow> reader \<Rightarrow> ServerColors \<Rightarrow> ServerColors loop_step run" where
  "switch_ServerColors W tag r m =
     switch_field tag
       [(1, [(8, read_field (get_uint32 W) (\<lambda>v. m\<lparr>ServerColors_primary := Some v\<rparr>) r)]),
        (2, [(16, read_field (get_uint32 W) (\<lambda>v. m\<lparr>ServerColors_navigation := Some v\<rparr>) r)]),
        (3, [(24, read_field (get_uint32 W) (\<lambda>v. m\<lparr>ServerColors_author := Some v\<rparr>) r)]),
        (4, [(32, read_field (get_uint32 W) (\<lambda>v. m\<lparr>ServerColors_admin := Some v\<rparr>) r)]),
        (5, [(40, read_field (get_uint32 W) (\<lambda>v. m\<lparr>ServerColors_moderator := Some v\<rparr>) r)])]"

definition decode_ServerColors :: "wire \<Rightarrow> reader \<Rightarrow> int option \<Rightarrow> (ServerColors \<times> reader) run" where
  "decode_ServerColors W = decode_message W (switch_ServerColors W) base_ServerColors"

lemma builds_ServerColors:
  assumes "wire_format W" "encode_ServerColors W m [] = Inr b"
  shows "builds W (switch_ServerColors W) base_ServerColors m b"
proof (rule message_builds [OF assms(2) [unfolded encode_ServerColors_def]])
  show "foldl (\<lambda>m u. u m) base_ServerColors
      [given ServerColors_primary_update (ServerColors_primary m),
       given ServerColors_navigation_update (ServerColors_navigation m),
       given ServerColors_author_update (ServerColors_author m),
       given ServerColors_admin_update (ServerColors_admin m),
       given ServerColors_moderator_update (ServerColors_moderator m)] = m"
    by (cases m) (simp add: field_changes base_ServerColors_def)
qed (insert assms(1),
    (rule wire_fields message_codecs | (simp add: updater_def switch_ServerColors_def list_all_iff; fail))+)

lemma decodes_ServerColors [message_codecs]:
  assumes "wire_format W" "encode_ServerColors W m [] = Inr b"
  shows "decodes (decode_ServerColors W) m b"
  unfolding decode_ServerColors_def by (rule builds_decodes [OF builds_ServerColors [OF assms]])

lemma settles_ServerColors [message_returns]: "wire_format W \<Longrightarrow> settles k (decode_ServerColors W)"
  unfolding decode_ServerColors_def
  by (rule wire_format.settles_message, assumption,
      unfold switch_ServerColors_def switch_field.simps switch_alternatives.simps)
    (rule wire_ends message_returns | assumption)+

section \<open>ServerLogo\<close>

record ServerLogo =
  ServerLogo_squareMediaId :: "string option"
  ServerLogo_squareMediaIdDark :: "string option"
  ServerLogo_wideMediaId :: "string option"
  ServerLogo_wideMediaIdDark :: "string option"

definition base_ServerLogo :: ServerLogo where
  "base_ServerLogo =
     \<lparr>ServerLogo_squareMediaId = None,
      ServerLogo_squareMediaIdDark = None,
      ServerLogo_wideMediaId = None,
      ServerLogo_wideMediaIdDark = None\<rparr>"

definition encode_ServerLogo :: "wire \<Rightarrow> ServerLogo \<Rightarrow> bytes \<Rightarrow> bytes result" where
  "encode_ServerLogo W m =
     write_all
       [write_given (ServerLogo_squareMediaId m) (\<lambda>v. tagged W 10 (put_string W v)),
        write_given (ServerLogo_squareMediaIdDark m) (\<lambda>v. tagged W 18 (put_string W v)),
        write_given (ServerLogo_wideMediaId m) (\<lambda>v. tagged W 26 (put_string W v)),
        write_given (ServerLogo_wideMediaIdDark m) (\<lambda>v. tagged W 34 (put_string W v))]"

definition switch_ServerLogo :: "wire \<Rightarrow> int \<Rightarrow> reader \<Rightarrow> ServerLogo \<Rightarrow> ServerLogo loop_step run" where
  "switch_ServerLogo W tag r m =
     switch_field tag
       [(1, [(10, read_field (get_string W) (\<lambda>v. m\<lparr>ServerLogo_squareMediaId := Some v\<rparr>) r)]),
        (2, [(18, read_field (get_string W) (\<lambda>v. m\<lparr>ServerLogo_squareMediaIdDark := Some v\<rparr>) r)]),
        (3, [(26, read_field (get_string W) (\<lambda>v. m\<lparr>ServerLogo_wideMediaId := Some v\<rparr>) r)]),
        (4, [(34, read_field (get_string W) (\<lambda>v. m\<lparr>ServerLogo_wideMediaIdDark := Some v\<rparr>) r)])]"

definition decode_ServerLogo :: "wire \<Rightarrow> reader \<Rightarrow> int option \<Rightarrow> (ServerLogo \<times> reader) run" where
  "decode_ServerLogo W = decode_message W (switch_ServerLogo W) base_ServerLogo"

lemma builds_ServerLogo:
  assumes "wire_format W" "encode_ServerLogo W m [] = Inr b"
  shows "builds W (switch_ServerLogo W) base_ServerLogo m b"
proof (rule message_builds [OF assms(2) [unfolded encode_ServerLogo_def]])
  show "foldl (\<lambda>m u. u m) base_ServerLogo
      [given ServerLogo_squareMediaId_update (ServerLogo_squareMediaId m),
       given ServerLogo_squareMediaIdDark_update (ServerLogo_squareMediaIdDark m),
       given ServerLogo_wideMediaId_update (ServerLogo_wideMediaId m),
       given ServerLogo_wideMediaIdDark_update (ServerLogo_wideMediaIdDark m)] = m"
    by (cases m) (simp add: field_changes base_ServerLogo_def)
qed (insert assms(1),
    (rule wire_fields message_codecs | (simp add: updater_def switch_ServerLogo_def list_all_iff; fail))+)

lemma decodes_ServerLogo [message_codecs]:
  assumes "wire_format W" "encode_ServerLogo W m [] = Inr b"
  shows "decodes (decode_ServerLogo W) m b"
  unfolding decode_ServerLogo_def by (rule builds_decodes [OF builds_ServerLogo [OF assms]])

lemma settles_ServerLogo [message_returns]: "wire_format W \<Longrightarrow> settles k (decode_ServerLogo W)"
  unfolding decode_ServerLogo_def
  by (rule wire_format.settles_message, assumption,
      unfold switch_ServerLogo_def switch_field.simps switch_alternatives.simps)
    (rule wire_ends message_returns | assumption)+

section \<open>ServerInfo\<close>

record ServerInfo =
  ServerInfo_name :: "string option"
  ServerInfo_shortName :: "string option"
  ServerInfo_description :: "string option"
  ServerInfo_privacyPolicy :: "string option"
  ServerInfo_logo :: "ServerLogo option"
  ServerInfo_webUserInterface :: "int option"
  ServerInfo_colors :: "ServerColors option"
  ServerInfo_mediaPolicy :: "string option"
  ServerInfo_disableCountabilibar :: "bool option"

definition base_ServerInfo :: ServerInfo where
  "base_ServerInfo =
     \<lparr>ServerInfo_name = None,
      ServerInfo_shortName = None,
      ServerInfo_description = None,
      ServerInfo_privacyPolicy = None,
      ServerInfo_logo = None,
      ServerInfo_webUserInterface = None,
      ServerInfo_colors = None,
      ServerInfo_mediaPolicy = None,
      ServerInfo_disableCountabilibar = None\<rparr>"

definition encode_ServerInfo :: "wire \<Rightarrow> ServerInfo \<Rightarrow> bytes \<Rightarrow> bytes result" where
  "encode_ServerInfo W m =
     write_all
       [write_given (ServerInfo_name m) (\<lambda>v. tagged W 10 (put_string W v)),
        write_given (ServerInfo_shortName m) (\<lambda>v. tagged W 18 (put_string W v)),
        write_given (ServerInfo_description m) (\<lambda>v. tagged W 26 (put_string W v)),
        write_given (ServerInfo_privacyPolicy m) (\<lambda>v. tagged W 34 (put_string W v)),
        write_given (ServerInfo_logo m) (\<lambda>v. nested W 42 (encode_ServerLogo W v)),
        write_given (ServerInfo_webUserInterface m) (\<lambda>v. tagged W 48 (put_int32 W v)),
        write_given (ServerInfo_colors m) (\<lambda>v. nested W 58 (encode_ServerColors W v)),
        write_given (ServerInfo_mediaPolicy m) (\<lambda>v. tagged W 66 (put_string W v)),
        write_given (ServerInfo_disableCountabilibar m) (\<lambda>v. tagged W 72 (put_bool W v))]"

definition switch_ServerInfo :: "wire \<Rightarrow> int \<Rightarrow> reader \<Rightarrow> ServerInfo \<Rightarrow> ServerInfo loop_step run" where
  "switch_ServerInfo W tag r m =
     switch_field tag
       [(1, [(10, read_field (get_string W) (\<lambda>v. m\<lparr>ServerInfo_name := Some v\<rparr>) r)]),
        (2, [(18, read_field (get_string W) (\<lambda>v. m\<lparr>ServerInfo_shortName := Some v\<rparr>) r)]),
        (3, [(26, read_field (get_string W) (\<lambda>v. m\<lparr>ServerInfo_description := Some v\<rparr>) r)]),
        (4, [(34, read_field (get_string W) (\<lambda>v. m\<lparr>ServerInfo_privacyPolicy := Some v\<rparr>) r)]),
        (5, [(42, read_message W (decode_ServerLogo W) (\<lambda>v. m\<lparr>ServerInfo_logo := Some v\<rparr>) r)]),
        (6, [(48, read_field (get_int32 W) (\<lambda>v. m\<lparr>ServerInfo_webUserInterface := Some v\<rparr>) r)]),
        (7, [(58, read_message W (decode_ServerColors W) (\<lambda>v. m\<lparr>ServerInfo_colors := Some v\<rparr>) r)]),
        (8, [(66, read_field (get_string W) (\<lambda>v. m\<lparr>ServerInfo_mediaPolicy := Some v\<rparr>) r)]),
        (9, [(72, read_field (get_bool W) (\<lambda>v. m\<lparr>ServerInfo_disableCountabilibar := Some v\<rparr>) r)])]"

definition decode_ServerInfo :: "wire \<Rightarrow> reader \<Rightarrow> int option \<Rightarrow> (ServerInfo \<times> reader) run" where
  "decode_ServerInfo W = decode_message W (switch_ServerInfo W) base_ServerInfo"

lemma builds_ServerInfo:
  assumes "wire_format W" "encode_ServerInfo W m [] = Inr b"
  shows "builds W (switch_ServerInfo W) base_ServerInfo m b"
proof (rule message_builds [OF assms(2) [unfolded encode_ServerInfo_def]])
  show "foldl (\<lambda>m u. u m) base_ServerInfo
      [given ServerInfo_name_update (ServerInfo_name m),
       given ServerInfo_shortName_update (ServerInfo_shortName m),
       given ServerInfo_description_update (ServerInfo_description m),
       given ServerInfo_privacyPolicy_update (ServerInfo_privacyPolicy m),
       given ServerInfo_logo_update (ServerInfo_logo m),
       given ServerInfo_webUserInterface_update (ServerInfo_webUserInterface m),
       given ServerInfo_colors_update (ServerInfo_colors m),
       given ServerInfo_mediaPolicy_update (ServerInfo_mediaPolicy m),
       given ServerInfo_disableCountabilibar_update (ServerInfo_disableCountabilibar m)] = m"
    by (cases m) (simp add: field_changes base_ServerInfo_def)
qed (insert assms(1),
    (rule wire_fields message_codecs | (simp add: updater_def switch_ServerInfo_def list_all_iff; fail))+)

lemma decodes_ServerInfo [message_codecs]:
  assumes "wire_format W" "encode_ServerInfo W m [] = Inr b"
  shows "decodes (decode_ServerInfo W) m b"
  unfolding decode_ServerInfo_def by (rule builds_decodes [OF builds_ServerInfo [OF assms]])

lemma settles_ServerInfo [message_returns]: "wire_format W \<Longrightarrow> settles k (decode_ServerInfo W)"
  unfolding decode_ServerInfo_def
  by (rule wire_format.settles_message, assumption,
      unfold switch_ServerInfo_def switch_field.simps switch_alternatives.simps)
    (rule wire_ends message_returns | assumption)+

section \<open>StalwartConfig\<close>

record StalwartConfig =
  StalwartConfig_stalwartReceivingEnabled :: bool

definition base_StalwartConfig :: StalwartConfig where
  "base_StalwartConfig =
     \<lparr>StalwartConfig_stalwartReceivingEnabled = False\<rparr>"

definition encode_StalwartConfig :: "wire \<Rightarrow> StalwartConfig \<Rightarrow> bytes \<Rightarrow> bytes result" where
  "encode_StalwartConfig W m =
     write_all
       [write_when (StalwartConfig_stalwartReceivingEnabled m \<noteq> False) (tagged W 8 (put_bool W (StalwartConfig_stalwartReceivingEnabled m)))]"

definition switch_StalwartConfig :: "wire \<Rightarrow> int \<Rightarrow> reader \<Rightarrow> StalwartConfig \<Rightarrow> StalwartConfig loop_step run" where
  "switch_StalwartConfig W tag r m =
     switch_field tag
       [(1, [(8, read_field (get_bool W) (\<lambda>v. m\<lparr>StalwartConfig_stalwartReceivingEnabled := v\<rparr>) r)])]"

definition decode_StalwartConfig :: "wire \<Rightarrow> reader \<Rightarrow> int option \<Rightarrow> (StalwartConfig \<times> reader) run" where
  "decode_StalwartConfig W = decode_message W (switch_StalwartConfig W) base_StalwartConfig"

lemma builds_StalwartConfig:
  assumes "wire_format W" "encode_StalwartConfig W m [] = Inr b"
  shows "builds W (switch_StalwartConfig W) base_StalwartConfig m b"
proof (rule message_builds [OF assms(2) [unfolded encode_StalwartConfig_def]])
  show "foldl (\<lambda>m u. u m) base_StalwartConfig
      [plain StalwartConfig_stalwartReceivingEnabled_update (StalwartConfig_stalwartReceivingEnabled m) False] = m"
    by (cases m) (simp add: field_changes base_StalwartConfig_def)
qed (insert assms(1),
    (rule wire_fields message_codecs | (simp add: updater_def switch_StalwartConfig_def list_all_iff; fail))+)

lemma decodes_StalwartConfig [message_codecs]:
  assumes "wire_format W" "encode_StalwartConfig W m [] = Inr b"
  shows "decodes (decode_StalwartConfig W) m b"
  unfolding decode_StalwartConfig_def by (rule builds_decodes [OF builds_StalwartConfig [OF assms]])

lemma settles_StalwartConfig [message_returns]: "wire_format W \<Longrightarrow> settles k (decode_StalwartConfig W)"
  unfolding decode_StalwartConfig_def
  by (rule wire_format.settles_message, assumption,
      unfold switch_StalwartConfig_def switch_field.simps switch_alternatives.simps)
    (rule wire_ends message_returns | assumption)+

section \<open>StripeConfig\<close>

record StripeConfig =
  StripeConfig_stripeEnabled :: bool
  StripeConfig_stripeSecretKey :: string
  StripeConfig_stripePublishableKey :: string
  StripeConfig_stripeWebhookSigningSecret :: string

definition base_StripeConfig :: StripeConfig where
  "base_StripeConfig =
     \<lparr>StripeConfig_stripeEnabled = False,
      StripeConfig_stripeSecretKey = [],
      StripeConfig_stripePublishableKey = [],
      StripeConfig_stripeWebhookSigningSecret = []\<rparr>"

definition encode_StripeConfig :: "wire \<Rightarrow> StripeConfig \<Rightarrow> bytes \<Rightarrow> bytes result" where
  "encode_StripeConfig W m =
     write_all
       [write_when (StripeConfig_stripeEnabled m \<noteq> False) (tagged W 8 (put_bool W (StripeConfig_stripeEnabled m))),
        write_when (StripeConfig_stripeSecretKey m \<noteq> []) (tagged W 18 (put_string W (StripeConfig_stripeSecretKey m))),
        write_when (StripeConfig_stripePublishableKey m \<noteq> []) (tagged W 26 (put_string W (StripeConfig_stripePublishableKey m))),
        write_when (StripeConfig_stripeWebhookSigningSecret m \<noteq> []) (tagged W 34 (put_string W (StripeConfig_stripeWebhookSigningSecret m)))]"

definition switch_StripeConfig :: "wire \<Rightarrow> int \<Rightarrow> reader \<Rightarrow> StripeConfig \<Rightarrow> StripeConfig loop_step run" where
  "switch_StripeConfig W tag r m =
     switch_field tag
       [(1, [(8, read_field (get_bool W) (\<lambda>v. m\<lparr>StripeConfig_stripeEnabled := v\<rparr>) r)]),
        (2, [(18, read_field (get_string W) (\<lambda>v. m\<lparr>StripeConfig_stripeSecretKey := v\<rparr>) r)]),
        (3, [(26, read_field (get_string W) (\<lambda>v. m\<lparr>StripeConfig_stripePublishableKey := v\<rparr>) r)]),
        (4, [(34, read_field (get_string W) (\<lambda>v. m\<lparr>StripeConfig_stripeWebhookSigningSecret := v\<rparr>) r)])]"

definition decode_StripeConfig :: "wire \<Rightarrow> reader \<Rightarrow> int option \<Rightarrow> (StripeConfig \<times> reader) run" where
  "decode_StripeConfig W = decode_message W (switch_StripeConfig W) base_StripeConfig"

lemma builds_StripeConfig:
  assumes "wire_format W" "encode_StripeConfig W m [] = Inr b"
  shows "builds W (switch_StripeConfig W) base_StripeConfig m b"
proof (rule message_builds [OF assms(2) [unfolded encode_StripeConfig_def]])
  show "foldl (\<lambda>m u. u m) base_StripeConfig
      [plain StripeConfig_stripeEnabled_update (StripeConfig_stripeEnabled m) False,
       plain StripeConfig_stripeSecretKey_update (StripeConfig_stripeSecretKey m) [],
       plain StripeConfig_stripePublishableKey_update (StripeConfig_stripePublishableKey m) [],
       plain StripeConfig_stripeWebhookSigningSecret_update (StripeConfig_stripeWebhookSigningSecret m) []] = m"
    by (cases m) (simp add: field_changes base_StripeConfig_def)
qed (insert assms(1),
    (rule wire_fields message_codecs | (simp add: updater_def switch_StripeConfig_def list_all_iff; fail))+)

lemma decodes_StripeConfig [message_codecs]:
  assumes "wire_format W" "encode_StripeConfig W m [] = Inr b"
  shows "decodes (decode_StripeConfig W) m b"
  unfolding decode_StripeConfig_def by (rule builds_decodes [OF builds_StripeConfig [OF assms]])

lemma settles_StripeConfig [message_returns]: "wire_format W \<Longrightarrow> settles k (decode_StripeConfig W)"
  unfolding decode_StripeConfig_def
  by (rule wire_format.settles_message, assumption,
      unfold switch_StripeConfig_def switch_field.simps switch_alternatives.simps)
    (rule wire_ends message_returns | assumption)+

section \<open>TelnyxConfig\<close>

record TelnyxConfig =
  TelnyxConfig_telnyxEnabled :: bool
  TelnyxConfig_telnyxApiKey :: string
  TelnyxConfig_telnyxFromNumber :: string
  TelnyxConfig_telnyxMessagingProfileId :: string
  TelnyxConfig_telnyxWebhookSigningKey :: string
  TelnyxConfig_useTelnyxWebhookSigningKey :: bool

definition base_TelnyxConfig :: TelnyxConfig where
  "base_TelnyxConfig =
     \<lparr>TelnyxConfig_telnyxEnabled = False,
      TelnyxConfig_telnyxApiKey = [],
      TelnyxConfig_telnyxFromNumber = [],
      TelnyxConfig_telnyxMessagingProfileId = [],
      TelnyxConfig_telnyxWebhookSigningKey = [],
      TelnyxConfig_useTelnyxWebhookSigningKey = False\<rparr>"

definition encode_TelnyxConfig :: "wire \<Rightarrow> TelnyxConfig \<Rightarrow> bytes \<Rightarrow> bytes result" where
  "encode_TelnyxConfig W m =
     write_all
       [write_when (TelnyxConfig_telnyxEnabled m \<noteq> False) (tagged W 8 (put_bool W (TelnyxConfig_telnyxEnabled m))),
        write_when (TelnyxConfig_telnyxApiKey m \<noteq> []) (tagged W 18 (put_string W (TelnyxConfig_telnyxApiKey m))),
        write_when (TelnyxConfig_telnyxFromNumber m \<noteq> []) (tagged W 26 (put_string W (TelnyxConfig_telnyxFromNumber m))),
        write_when (TelnyxConfig_telnyxMessagingProfileId m \<noteq> []) (tagged W 34 (put_string W (TelnyxConfig_telnyxMessagingProfileId m))),
        write_when (TelnyxConfig_telnyxWebhookSigningKey m \<noteq> []) (tagged W 42 (put_string W (TelnyxConfig_telnyxWebhookSigningKey m))),
        write_when (TelnyxConfig_useTelnyxWebhookSigningKey m \<noteq> False) (tagged W 48 (put_bool W (TelnyxConfig_useTelnyxWebhookSigningKey m)))]"

definition switch_TelnyxConfig :: "wire \<Rightarrow> int \<Rightarrow> reader \<Rightarrow> TelnyxConfig \<Rightarrow> TelnyxConfig loop_step run" where
  "switch_TelnyxConfig W tag r m =
     switch_field tag
       [(1, [(8, read_field (get_bool W) (\<lambda>v. m\<lparr>TelnyxConfig_telnyxEnabled := v\<rparr>) r)]),
        (2, [(18, read_field (get_string W) (\<lambda>v. m\<lparr>TelnyxConfig_telnyxApiKey := v\<rparr>) r)]),
        (3, [(26, read_field (get_string W) (\<lambda>v. m\<lparr>TelnyxConfig_telnyxFromNumber := v\<rparr>) r)]),
        (4, [(34, read_field (get_string W) (\<lambda>v. m\<lparr>TelnyxConfig_telnyxMessagingProfileId := v\<rparr>) r)]),
        (5, [(42, read_field (get_string W) (\<lambda>v. m\<lparr>TelnyxConfig_telnyxWebhookSigningKey := v\<rparr>) r)]),
        (6, [(48, read_field (get_bool W) (\<lambda>v. m\<lparr>TelnyxConfig_useTelnyxWebhookSigningKey := v\<rparr>) r)])]"

definition decode_TelnyxConfig :: "wire \<Rightarrow> reader \<Rightarrow> int option \<Rightarrow> (TelnyxConfig \<times> reader) run" where
  "decode_TelnyxConfig W = decode_message W (switch_TelnyxConfig W) base_TelnyxConfig"

lemma builds_TelnyxConfig:
  assumes "wire_format W" "encode_TelnyxConfig W m [] = Inr b"
  shows "builds W (switch_TelnyxConfig W) base_TelnyxConfig m b"
proof (rule message_builds [OF assms(2) [unfolded encode_TelnyxConfig_def]])
  show "foldl (\<lambda>m u. u m) base_TelnyxConfig
      [plain TelnyxConfig_telnyxEnabled_update (TelnyxConfig_telnyxEnabled m) False,
       plain TelnyxConfig_telnyxApiKey_update (TelnyxConfig_telnyxApiKey m) [],
       plain TelnyxConfig_telnyxFromNumber_update (TelnyxConfig_telnyxFromNumber m) [],
       plain TelnyxConfig_telnyxMessagingProfileId_update (TelnyxConfig_telnyxMessagingProfileId m) [],
       plain TelnyxConfig_telnyxWebhookSigningKey_update (TelnyxConfig_telnyxWebhookSigningKey m) [],
       plain TelnyxConfig_useTelnyxWebhookSigningKey_update (TelnyxConfig_useTelnyxWebhookSigningKey m) False] = m"
    by (cases m) (simp add: field_changes base_TelnyxConfig_def)
qed (insert assms(1),
    (rule wire_fields message_codecs | (simp add: updater_def switch_TelnyxConfig_def list_all_iff; fail))+)

lemma decodes_TelnyxConfig [message_codecs]:
  assumes "wire_format W" "encode_TelnyxConfig W m [] = Inr b"
  shows "decodes (decode_TelnyxConfig W) m b"
  unfolding decode_TelnyxConfig_def by (rule builds_decodes [OF builds_TelnyxConfig [OF assms]])

lemma settles_TelnyxConfig [message_returns]: "wire_format W \<Longrightarrow> settles k (decode_TelnyxConfig W)"
  unfolding decode_TelnyxConfig_def
  by (rule wire_format.settles_message, assumption,
      unfold switch_TelnyxConfig_def switch_field.simps switch_alternatives.simps)
    (rule wire_ends message_returns | assumption)+

section \<open>TwilioConfig\<close>

record TwilioConfig =
  TwilioConfig_twilioEnabled :: bool
  TwilioConfig_twilioAccountSid :: string
  TwilioConfig_twilioApiKeySid :: string
  TwilioConfig_twilioApiKeySecret :: string
  TwilioConfig_twilioFromNumber :: string
  TwilioConfig_twilioWebhookSigningKey :: string
  TwilioConfig_useTwilioWebhookSigningKey :: bool

definition base_TwilioConfig :: TwilioConfig where
  "base_TwilioConfig =
     \<lparr>TwilioConfig_twilioEnabled = False,
      TwilioConfig_twilioAccountSid = [],
      TwilioConfig_twilioApiKeySid = [],
      TwilioConfig_twilioApiKeySecret = [],
      TwilioConfig_twilioFromNumber = [],
      TwilioConfig_twilioWebhookSigningKey = [],
      TwilioConfig_useTwilioWebhookSigningKey = False\<rparr>"

definition encode_TwilioConfig :: "wire \<Rightarrow> TwilioConfig \<Rightarrow> bytes \<Rightarrow> bytes result" where
  "encode_TwilioConfig W m =
     write_all
       [write_when (TwilioConfig_twilioEnabled m \<noteq> False) (tagged W 8 (put_bool W (TwilioConfig_twilioEnabled m))),
        write_when (TwilioConfig_twilioAccountSid m \<noteq> []) (tagged W 26 (put_string W (TwilioConfig_twilioAccountSid m))),
        write_when (TwilioConfig_twilioApiKeySid m \<noteq> []) (tagged W 42 (put_string W (TwilioConfig_twilioApiKeySid m))),
        write_when (TwilioConfig_twilioApiKeySecret m \<noteq> []) (tagged W 18 (put_string W (TwilioConfig_twilioApiKeySecret m))),
        write_when (TwilioConfig_twilioFromNumber m \<noteq> []) (tagged W 34 (put_string W (TwilioConfig_twilioFromNumber m))),
        write_when (TwilioConfig_twilioWebhookSigningKey m \<noteq> []) (tagged W 50 (put_string W (TwilioConfig_twilioWebhookSigningKey m))),
        write_when (TwilioConfig_useTwilioWebhookSigningKey m \<noteq> False) (tagged W 56 (put_bool W (TwilioConfig_useTwilioWebhookSigningKey m)))]"

definition switch_TwilioConfig :: "wire \<Rightarrow> int \<Rightarrow> reader \<Rightarrow> TwilioConfig \<Rightarrow> TwilioConfig loop_step run" where
  "switch_TwilioConfig W tag r m =
     switch_field tag
       [(1, [(8, read_field (get_bool W) (\<lambda>v. m\<lparr>TwilioConfig_twilioEnabled := v\<rparr>) r)]),
        (3, [(26, read_field (get_string W) (\<lambda>v. m\<lparr>TwilioConfig_twilioAccountSid := v\<rparr>) r)]),
        (5, [(42, read_field (get_string W) (\<lambda>v. m\<lparr>TwilioConfig_twilioApiKeySid := v\<rparr>) r)]),
        (2, [(18, read_field (get_string W) (\<lambda>v. m\<lparr>TwilioConfig_twilioApiKeySecret := v\<rparr>) r)]),
        (4, [(34, read_field (get_string W) (\<lambda>v. m\<lparr>TwilioConfig_twilioFromNumber := v\<rparr>) r)]),
        (6, [(50, read_field (get_string W) (\<lambda>v. m\<lparr>TwilioConfig_twilioWebhookSigningKey := v\<rparr>) r)]),
        (7, [(56, read_field (get_bool W) (\<lambda>v. m\<lparr>TwilioConfig_useTwilioWebhookSigningKey := v\<rparr>) r)])]"

definition decode_TwilioConfig :: "wire \<Rightarrow> reader \<Rightarrow> int option \<Rightarrow> (TwilioConfig \<times> reader) run" where
  "decode_TwilioConfig W = decode_message W (switch_TwilioConfig W) base_TwilioConfig"

lemma builds_TwilioConfig:
  assumes "wire_format W" "encode_TwilioConfig W m [] = Inr b"
  shows "builds W (switch_TwilioConfig W) base_TwilioConfig m b"
proof (rule message_builds [OF assms(2) [unfolded encode_TwilioConfig_def]])
  show "foldl (\<lambda>m u. u m) base_TwilioConfig
      [plain TwilioConfig_twilioEnabled_update (TwilioConfig_twilioEnabled m) False,
       plain TwilioConfig_twilioAccountSid_update (TwilioConfig_twilioAccountSid m) [],
       plain TwilioConfig_twilioApiKeySid_update (TwilioConfig_twilioApiKeySid m) [],
       plain TwilioConfig_twilioApiKeySecret_update (TwilioConfig_twilioApiKeySecret m) [],
       plain TwilioConfig_twilioFromNumber_update (TwilioConfig_twilioFromNumber m) [],
       plain TwilioConfig_twilioWebhookSigningKey_update (TwilioConfig_twilioWebhookSigningKey m) [],
       plain TwilioConfig_useTwilioWebhookSigningKey_update (TwilioConfig_useTwilioWebhookSigningKey m) False] = m"
    by (cases m) (simp add: field_changes base_TwilioConfig_def)
qed (insert assms(1),
    (rule wire_fields message_codecs | (simp add: updater_def switch_TwilioConfig_def list_all_iff; fail))+)

lemma decodes_TwilioConfig [message_codecs]:
  assumes "wire_format W" "encode_TwilioConfig W m [] = Inr b"
  shows "decodes (decode_TwilioConfig W) m b"
  unfolding decode_TwilioConfig_def by (rule builds_decodes [OF builds_TwilioConfig [OF assms]])

lemma settles_TwilioConfig [message_returns]: "wire_format W \<Longrightarrow> settles k (decode_TwilioConfig W)"
  unfolding decode_TwilioConfig_def
  by (rule wire_format.settles_message, assumption,
      unfold switch_TwilioConfig_def switch_field.simps switch_alternatives.simps)
    (rule wire_ends message_returns | assumption)+

section \<open>WebPushConfig\<close>

record WebPushConfig =
  WebPushConfig_publicVapidKey :: string
  WebPushConfig_privateVapidKey :: string

definition base_WebPushConfig :: WebPushConfig where
  "base_WebPushConfig =
     \<lparr>WebPushConfig_publicVapidKey = [],
      WebPushConfig_privateVapidKey = []\<rparr>"

definition encode_WebPushConfig :: "wire \<Rightarrow> WebPushConfig \<Rightarrow> bytes \<Rightarrow> bytes result" where
  "encode_WebPushConfig W m =
     write_all
       [write_when (WebPushConfig_publicVapidKey m \<noteq> []) (tagged W 10 (put_string W (WebPushConfig_publicVapidKey m))),
        write_when (WebPushConfig_privateVapidKey m \<noteq> []) (tagged W 18 (put_string W (WebPushConfig_privateVapidKey m)))]"

definition switch_WebPushConfig :: "wire \<Rightarrow> int \<Rightarrow> reader \<Rightarrow> WebPushConfig \<Rightarrow> WebPushConfig loop_step run" where
  "switch_WebPushConfig W tag r m =
     switch_field tag
       [(1, [(10, read_field (get_string W) (\<lambda>v. m\<lparr>WebPushConfig_publicVapidKey := v\<rparr>) r)]),
        (2, [(18, read_field (get_string W) (\<lambda>v. m\<lparr>WebPushConfig_privateVapidKey := v\<rparr>) r)])]"

definition decode_WebPushConfig :: "wire \<Rightarrow> reader \<Rightarrow> int option \<Rightarrow> (WebPushConfig \<times> reader) run" where
  "decode_WebPushConfig W = decode_message W (switch_WebPushConfig W) base_WebPushConfig"

lemma builds_WebPushConfig:
  assumes "wire_format W" "encode_WebPushConfig W m [] = Inr b"
  shows "builds W (switch_WebPushConfig W) base_WebPushConfig m b"
proof (rule message_builds [OF assms(2) [unfolded encode_WebPushConfig_def]])
  show "foldl (\<lambda>m u. u m) base_WebPushConfig
      [plain WebPushConfig_publicVapidKey_update (WebPushConfig_publicVapidKey m) [],
       plain WebPushConfig_privateVapidKey_update (WebPushConfig_privateVapidKey m) []] = m"
    by (cases m) (simp add: field_changes base_WebPushConfig_def)
qed (insert assms(1),
    (rule wire_fields message_codecs | (simp add: updater_def switch_WebPushConfig_def list_all_iff; fail))+)

lemma decodes_WebPushConfig [message_codecs]:
  assumes "wire_format W" "encode_WebPushConfig W m [] = Inr b"
  shows "decodes (decode_WebPushConfig W) m b"
  unfolding decode_WebPushConfig_def by (rule builds_decodes [OF builds_WebPushConfig [OF assms]])

lemma settles_WebPushConfig [message_returns]: "wire_format W \<Longrightarrow> settles k (decode_WebPushConfig W)"
  unfolding decode_WebPushConfig_def
  by (rule wire_format.settles_message, assumption,
      unfold switch_WebPushConfig_def switch_field.simps switch_alternatives.simps)
    (rule wire_ends message_returns | assumption)+

section \<open>ServerConfiguration\<close>

record ServerConfiguration =
  ServerConfiguration_serverInfo :: "ServerInfo option"
  ServerConfiguration_federationInfo :: "FederationInfo option"
  ServerConfiguration_anonymousUserPermissions :: "int list"
  ServerConfiguration_defaultUserPermissions :: "int list"
  ServerConfiguration_basicUserPermissions :: "int list"
  ServerConfiguration_customTabs :: "CustomNavigationTabSet option"
  ServerConfiguration_peopleSettings :: "FeatureSettings option"
  ServerConfiguration_groupSettings :: "FeatureSettings option"
  ServerConfiguration_postSettings :: "PostSettings option"
  ServerConfiguration_eventSettings :: "EventSettings option"
  ServerConfiguration_mediaSettings :: "MediaSettings option"
  ServerConfiguration_marketSettings :: "MarketSettings option"
  ServerConfiguration_externalCdnConfig :: "ExternalCDNConfig option"
  ServerConfiguration_clusterResources :: "ClusterResources option"
  ServerConfiguration_privateUserStrategy :: int
  ServerConfiguration_authenticationFeatures :: "int list"
  ServerConfiguration_webPushConfig :: "WebPushConfig option"
  ServerConfiguration_supportedContactProtocols :: "int list"
  ServerConfiguration_preferredVerificationApis :: "int list"
  ServerConfiguration_availableVerificationApis :: "int list"
  ServerConfiguration_twilioConfig :: "TwilioConfig option"
  ServerConfiguration_birdConfig :: "BirdConfig option"
  ServerConfiguration_stripeConfig :: "StripeConfig option"
  ServerConfiguration_telnyxConfig :: "TelnyxConfig option"
  ServerConfiguration_stalwartConfig :: "StalwartConfig option"
  ServerConfiguration_customCssConfiguration :: "CustomCSSConfiguration option"

definition base_ServerConfiguration :: ServerConfiguration where
  "base_ServerConfiguration =
     \<lparr>ServerConfiguration_serverInfo = None,
      ServerConfiguration_federationInfo = None,
      ServerConfiguration_anonymousUserPermissions = [],
      ServerConfiguration_defaultUserPermissions = [],
      ServerConfiguration_basicUserPermissions = [],
      ServerConfiguration_customTabs = None,
      ServerConfiguration_peopleSettings = None,
      ServerConfiguration_groupSettings = None,
      ServerConfiguration_postSettings = None,
      ServerConfiguration_eventSettings = None,
      ServerConfiguration_mediaSettings = None,
      ServerConfiguration_marketSettings = None,
      ServerConfiguration_externalCdnConfig = None,
      ServerConfiguration_clusterResources = None,
      ServerConfiguration_privateUserStrategy = 0,
      ServerConfiguration_authenticationFeatures = [],
      ServerConfiguration_webPushConfig = None,
      ServerConfiguration_supportedContactProtocols = [],
      ServerConfiguration_preferredVerificationApis = [],
      ServerConfiguration_availableVerificationApis = [],
      ServerConfiguration_twilioConfig = None,
      ServerConfiguration_birdConfig = None,
      ServerConfiguration_stripeConfig = None,
      ServerConfiguration_telnyxConfig = None,
      ServerConfiguration_stalwartConfig = None,
      ServerConfiguration_customCssConfiguration = None\<rparr>"

definition encode_ServerConfiguration :: "wire \<Rightarrow> ServerConfiguration \<Rightarrow> bytes \<Rightarrow> bytes result" where
  "encode_ServerConfiguration W m =
     write_all
       [write_given (ServerConfiguration_serverInfo m) (\<lambda>v. nested W 10 (encode_ServerInfo W v)),
        write_given (ServerConfiguration_federationInfo m) (\<lambda>v. nested W 18 (encode_FederationInfo W v)),
        packed W 82 (put_int32 W) (ServerConfiguration_anonymousUserPermissions m),
        packed W 90 (put_int32 W) (ServerConfiguration_defaultUserPermissions m),
        packed W 98 (put_int32 W) (ServerConfiguration_basicUserPermissions m),
        write_given (ServerConfiguration_customTabs m) (\<lambda>v. nested W 154 (encode_CustomNavigationTabSet W v)),
        write_given (ServerConfiguration_peopleSettings m) (\<lambda>v. nested W 162 (encode_FeatureSettings W v)),
        write_given (ServerConfiguration_groupSettings m) (\<lambda>v. nested W 170 (encode_FeatureSettings W v)),
        write_given (ServerConfiguration_postSettings m) (\<lambda>v. nested W 178 (encode_PostSettings W v)),
        write_given (ServerConfiguration_eventSettings m) (\<lambda>v. nested W 186 (encode_EventSettings W v)),
        write_given (ServerConfiguration_mediaSettings m) (\<lambda>v. nested W 194 (encode_MediaSettings W v)),
        write_given (ServerConfiguration_marketSettings m) (\<lambda>v. nested W 202 (encode_MarketSettings W v)),
        write_given (ServerConfiguration_externalCdnConfig m) (\<lambda>v. nested W 722 (encode_ExternalCDNConfig W v)),
        write_given (ServerConfiguration_clusterResources m) (\<lambda>v. nested W 730 (encode_ClusterResources W v)),
        write_when (ServerConfiguration_privateUserStrategy m \<noteq> 0) (tagged W 800 (put_int32 W (ServerConfiguration_privateUserStrategy m))),
        packed W 810 (put_int32 W) (ServerConfiguration_authenticationFeatures m),
        write_given (ServerConfiguration_webPushConfig m) (\<lambda>v. nested W 882 (encode_WebPushConfig W v)),
        packed W 954 (put_int32 W) (ServerConfiguration_supportedContactProtocols m),
        packed W 962 (put_int32 W) (ServerConfiguration_preferredVerificationApis m),
        packed W 970 (put_int32 W) (ServerConfiguration_availableVerificationApis m),
        write_given (ServerConfiguration_twilioConfig m) (\<lambda>v. nested W 978 (encode_TwilioConfig W v)),
        write_given (ServerConfiguration_birdConfig m) (\<lambda>v. nested W 986 (encode_BirdConfig W v)),
        write_given (ServerConfiguration_stripeConfig m) (\<lambda>v. nested W 994 (encode_StripeConfig W v)),
        write_given (ServerConfiguration_telnyxConfig m) (\<lambda>v. nested W 1002 (encode_TelnyxConfig W v)),
        write_given (ServerConfiguration_stalwartConfig m) (\<lambda>v. nested W 1010 (encode_StalwartConfig W v)),
        write_given (ServerConfiguration_customCssConfiguration m) (\<lambda>v. nested W 1018 (encode_CustomCSSConfiguration W v))]"

definition switch_ServerConfiguration :: "wire \<Rightarrow> int \<Rightarrow> reader \<Rightarrow> ServerConfiguration \<Rightarrow> ServerConfiguration loop_step run" where
  "switch_ServerConfiguration W tag r m =
     switch_field tag
       [(1, [(10, read_message W (decode_ServerInfo W) (\<lambda>v. m\<lparr>ServerConfiguration_serverInfo := Some v\<rparr>) r)]),
        (2, [(18, read_message W (decode_FederationInfo W) (\<lambda>v. m\<lparr>ServerConfiguration_federationInfo := Some v\<rparr>) r)]),
        (10, [(80, read_field (get_int32 W) (\<lambda>v. ServerConfiguration_anonymousUserPermissions_update (\<lambda>old. old @ [v]) m) r), (82, read_packed W (get_int32 W) (ServerConfiguration_anonymousUserPermissions m) (\<lambda>vs. m\<lparr>ServerConfiguration_anonymousUserPermissions := vs\<rparr>) r)]),
        (11, [(88, read_field (get_int32 W) (\<lambda>v. ServerConfiguration_defaultUserPermissions_update (\<lambda>old. old @ [v]) m) r), (90, read_packed W (get_int32 W) (ServerConfiguration_defaultUserPermissions m) (\<lambda>vs. m\<lparr>ServerConfiguration_defaultUserPermissions := vs\<rparr>) r)]),
        (12, [(96, read_field (get_int32 W) (\<lambda>v. ServerConfiguration_basicUserPermissions_update (\<lambda>old. old @ [v]) m) r), (98, read_packed W (get_int32 W) (ServerConfiguration_basicUserPermissions m) (\<lambda>vs. m\<lparr>ServerConfiguration_basicUserPermissions := vs\<rparr>) r)]),
        (19, [(154, read_message W (decode_CustomNavigationTabSet W) (\<lambda>v. m\<lparr>ServerConfiguration_customTabs := Some v\<rparr>) r)]),
        (20, [(162, read_message W (decode_FeatureSettings W) (\<lambda>v. m\<lparr>ServerConfiguration_peopleSettings := Some v\<rparr>) r)]),
        (21, [(170, read_message W (decode_FeatureSettings W) (\<lambda>v. m\<lparr>ServerConfiguration_groupSettings := Some v\<rparr>) r)]),
        (22, [(178, read_message W (decode_PostSettings W) (\<lambda>v. m\<lparr>ServerConfiguration_postSettings := Some v\<rparr>) r)]),
        (23, [(186, read_message W (decode_EventSettings W) (\<lambda>v. m\<lparr>ServerConfiguration_eventSettings := Some v\<rparr>) r)]),
        (24, [(194, read_message W (decode_MediaSettings W) (\<lambda>v. m\<lparr>ServerConfiguration_mediaSettings := Some v\<rparr>) r)]),
        (25, [(202, read_message W (decode_MarketSettings W) (\<lambda>v. m\<lparr>ServerConfiguration_marketSettings := Some v\<rparr>) r)]),
        (90, [(722, read_message W (decode_ExternalCDNConfig W) (\<lambda>v. m\<lparr>ServerConfiguration_externalCdnConfig := Some v\<rparr>) r)]),
        (91, [(730, read_message W (decode_ClusterResources W) (\<lambda>v. m\<lparr>ServerConfiguration_clusterResources := Some v\<rparr>) r)]),
        (100, [(800, read_field (get_int32 W) (\<lambda>v. m\<lparr>ServerConfiguration_privateUserStrategy := v\<rparr>) r)]),
        (101, [(808, read_field (get_int32 W) (\<lambda>v. ServerConfiguration_authenticationFeatures_update (\<lambda>old. old @ [v]) m) r), (810, read_packed W (get_int32 W) (ServerConfiguration_authenticationFeatures m) (\<lambda>vs. m\<lparr>ServerConfiguration_authenticationFeatures := vs\<rparr>) r)]),
        (110, [(882, read_message W (decode_WebPushConfig W) (\<lambda>v. m\<lparr>ServerConfiguration_webPushConfig := Some v\<rparr>) r)]),
        (119, [(952, read_field (get_int32 W) (\<lambda>v. ServerConfiguration_supportedContactProtocols_update (\<lambda>old. old @ [v]) m) r), (954, read_packed W (get_int32 W) (ServerConfiguration_supportedContactProtocols m) (\<lambda>vs. m\<lparr>ServerConfiguration_supportedContactProtocols := vs\<rparr>) r)]),
        (120, [(960, read_field (get_int32 W) (\<lambda>v. ServerConfiguration_preferredVerificationApis_update (\<lambda>old. old @ [v]) m) r), (962, read_packed W (get_int32 W) (ServerConfiguration_preferredVerificationApis m) (\<lambda>vs. m\<lparr>ServerConfiguration_preferredVerificationApis := vs\<rparr>) r)]),
        (121, [(968, read_field (get_int32 W) (\<lambda>v. ServerConfiguration_availableVerificationApis_update (\<lambda>old. old @ [v]) m) r), (970, read_packed W (get_int32 W) (ServerConfiguration_availableVerificationApis m) (\<lambda>vs. m\<lparr>ServerConfiguration_availableVerificationApis := vs\<rparr>) r)]),
        (122, [(978, read_message W (decode_TwilioConfig W) (\<lambda>v. m\<lparr>ServerConfiguration_twilioConfig := Some v\<rparr>) r)]),
        (123, [(986, read_message W (decode_BirdConfig W) (\<lambda>v. m\<lparr>ServerConfiguration_birdConfig := Some v\<rparr>) r)]),
        (124, [(994, read_message W (decode_StripeConfig W) (\<lambda>v. m\<lparr>ServerConfiguration_stripeConfig := Some v\<rparr>) r)]),
        (125, [(1002, read_message W (decode_TelnyxConfig W) (\<lambda>v. m\<lparr>ServerConfiguration_telnyxConfig := Some v\<rparr>) r)]),
        (126, [(1010, read_message W (decode_StalwartConfig W) (\<lambda>v. m\<lparr>ServerConfiguration_stalwartConfig := Some v\<rparr>) r)]),
        (127, [(1018, read_message W (decode_CustomCSSConfiguration W) (\<lambda>v. m\<lparr>ServerConfiguration_customCssConfiguration := Some v\<rparr>) r)])]"

definition decode_ServerConfiguration :: "wire \<Rightarrow> reader \<Rightarrow> int option \<Rightarrow> (ServerConfiguration \<times> reader) run" where
  "decode_ServerConfiguration W = decode_message W (switch_ServerConfiguration W) base_ServerConfiguration"

definition safe_ServerConfiguration :: "wire \<Rightarrow> ServerConfiguration \<Rightarrow> bool" where
  "safe_ServerConfiguration W m \<longleftrightarrow>
     pred_option (safe_MediaSettings W) (ServerConfiguration_mediaSettings m) \<and>
     pred_option (safe_ClusterResources W) (ServerConfiguration_clusterResources m)"

lemma builds_ServerConfiguration:
  assumes "wire_format W" "safe_ServerConfiguration W m" "encode_ServerConfiguration W m [] = Inr b"
  shows "builds W (switch_ServerConfiguration W) base_ServerConfiguration m b"
proof (rule message_builds [OF assms(3) [unfolded encode_ServerConfiguration_def]])
  show "foldl (\<lambda>m u. u m) base_ServerConfiguration
      [given ServerConfiguration_serverInfo_update (ServerConfiguration_serverInfo m),
       given ServerConfiguration_federationInfo_update (ServerConfiguration_federationInfo m),
       pushed ServerConfiguration_anonymousUserPermissions_update (ServerConfiguration_anonymousUserPermissions m),
       pushed ServerConfiguration_defaultUserPermissions_update (ServerConfiguration_defaultUserPermissions m),
       pushed ServerConfiguration_basicUserPermissions_update (ServerConfiguration_basicUserPermissions m),
       given ServerConfiguration_customTabs_update (ServerConfiguration_customTabs m),
       given ServerConfiguration_peopleSettings_update (ServerConfiguration_peopleSettings m),
       given ServerConfiguration_groupSettings_update (ServerConfiguration_groupSettings m),
       given ServerConfiguration_postSettings_update (ServerConfiguration_postSettings m),
       given ServerConfiguration_eventSettings_update (ServerConfiguration_eventSettings m),
       given ServerConfiguration_mediaSettings_update (ServerConfiguration_mediaSettings m),
       given ServerConfiguration_marketSettings_update (ServerConfiguration_marketSettings m),
       given ServerConfiguration_externalCdnConfig_update (ServerConfiguration_externalCdnConfig m),
       given ServerConfiguration_clusterResources_update (ServerConfiguration_clusterResources m),
       plain ServerConfiguration_privateUserStrategy_update (ServerConfiguration_privateUserStrategy m) 0,
       pushed ServerConfiguration_authenticationFeatures_update (ServerConfiguration_authenticationFeatures m),
       given ServerConfiguration_webPushConfig_update (ServerConfiguration_webPushConfig m),
       pushed ServerConfiguration_supportedContactProtocols_update (ServerConfiguration_supportedContactProtocols m),
       pushed ServerConfiguration_preferredVerificationApis_update (ServerConfiguration_preferredVerificationApis m),
       pushed ServerConfiguration_availableVerificationApis_update (ServerConfiguration_availableVerificationApis m),
       given ServerConfiguration_twilioConfig_update (ServerConfiguration_twilioConfig m),
       given ServerConfiguration_birdConfig_update (ServerConfiguration_birdConfig m),
       given ServerConfiguration_stripeConfig_update (ServerConfiguration_stripeConfig m),
       given ServerConfiguration_telnyxConfig_update (ServerConfiguration_telnyxConfig m),
       given ServerConfiguration_stalwartConfig_update (ServerConfiguration_stalwartConfig m),
       given ServerConfiguration_customCssConfiguration_update (ServerConfiguration_customCssConfiguration m)] = m"
    by (cases m) (simp add: field_changes base_ServerConfiguration_def)
qed (insert assms(1,2),
    (rule wire_fields message_codecs | (simp add: updater_def switch_ServerConfiguration_def safe_ServerConfiguration_def list_all_iff; fail))+)

lemma decodes_ServerConfiguration [message_codecs]:
  assumes "wire_format W" "safe_ServerConfiguration W m" "encode_ServerConfiguration W m [] = Inr b"
  shows "decodes (decode_ServerConfiguration W) m b"
  unfolding decode_ServerConfiguration_def by (rule builds_decodes [OF builds_ServerConfiguration [OF assms]])

lemma settles_ServerConfiguration [message_returns]: "wire_format W \<Longrightarrow> settles k (decode_ServerConfiguration W)"
  unfolding decode_ServerConfiguration_def
  by (rule wire_format.settles_message, assumption,
      unfold switch_ServerConfiguration_def switch_field.simps switch_alternatives.simps)
    (rule wire_ends message_returns | assumption)+

section \<open>LockClusterResourcesRequest\<close>

record LockClusterResourcesRequest =
  LockClusterResourcesRequest_namespaceId :: string
  LockClusterResourcesRequest_resources :: "int list"

definition base_LockClusterResourcesRequest :: LockClusterResourcesRequest where
  "base_LockClusterResourcesRequest =
     \<lparr>LockClusterResourcesRequest_namespaceId = [],
      LockClusterResourcesRequest_resources = []\<rparr>"

definition encode_LockClusterResourcesRequest :: "wire \<Rightarrow> LockClusterResourcesRequest \<Rightarrow> bytes \<Rightarrow> bytes result" where
  "encode_LockClusterResourcesRequest W m =
     write_all
       [write_when (LockClusterResourcesRequest_namespaceId m \<noteq> []) (tagged W 10 (put_string W (LockClusterResourcesRequest_namespaceId m))),
        packed W 18 (put_int32 W) (LockClusterResourcesRequest_resources m)]"

definition switch_LockClusterResourcesRequest :: "wire \<Rightarrow> int \<Rightarrow> reader \<Rightarrow> LockClusterResourcesRequest \<Rightarrow> LockClusterResourcesRequest loop_step run" where
  "switch_LockClusterResourcesRequest W tag r m =
     switch_field tag
       [(1, [(10, read_field (get_string W) (\<lambda>v. m\<lparr>LockClusterResourcesRequest_namespaceId := v\<rparr>) r)]),
        (2, [(16, read_field (get_int32 W) (\<lambda>v. LockClusterResourcesRequest_resources_update (\<lambda>old. old @ [v]) m) r), (18, read_packed W (get_int32 W) (LockClusterResourcesRequest_resources m) (\<lambda>vs. m\<lparr>LockClusterResourcesRequest_resources := vs\<rparr>) r)])]"

definition decode_LockClusterResourcesRequest :: "wire \<Rightarrow> reader \<Rightarrow> int option \<Rightarrow> (LockClusterResourcesRequest \<times> reader) run" where
  "decode_LockClusterResourcesRequest W = decode_message W (switch_LockClusterResourcesRequest W) base_LockClusterResourcesRequest"

lemma builds_LockClusterResourcesRequest:
  assumes "wire_format W" "encode_LockClusterResourcesRequest W m [] = Inr b"
  shows "builds W (switch_LockClusterResourcesRequest W) base_LockClusterResourcesRequest m b"
proof (rule message_builds [OF assms(2) [unfolded encode_LockClusterResourcesRequest_def]])
  show "foldl (\<lambda>m u. u m) base_LockClusterResourcesRequest
      [plain LockClusterResourcesRequest_namespaceId_update (LockClusterResourcesRequest_namespaceId m) [],
       pushed LockClusterResourcesRequest_resources_update (LockClusterResourcesRequest_resources m)] = m"
    by (cases m) (simp add: field_changes base_LockClusterResourcesRequest_def)
qed (insert assms(1),
    (rule wire_fields message_codecs | (simp add: updater_def switch_LockClusterResourcesRequest_def list_all_iff; fail))+)

lemma decodes_LockClusterResourcesRequest [message_codecs]:
  assumes "wire_format W" "encode_LockClusterResourcesRequest W m [] = Inr b"
  shows "decodes (decode_LockClusterResourcesRequest W) m b"
  unfolding decode_LockClusterResourcesRequest_def by (rule builds_decodes [OF builds_LockClusterResourcesRequest [OF assms]])

lemma settles_LockClusterResourcesRequest [message_returns]: "wire_format W \<Longrightarrow> settles k (decode_LockClusterResourcesRequest W)"
  unfolding decode_LockClusterResourcesRequest_def
  by (rule wire_format.settles_message, assumption,
      unfold switch_LockClusterResourcesRequest_def switch_field.simps switch_alternatives.simps)
    (rule wire_ends message_returns | assumption)+

section \<open>LockClusterResourcesResponse\<close>

record LockClusterResourcesResponse =
  LockClusterResourcesResponse_granted :: bool
  LockClusterResourcesResponse_holder :: "string option"

definition base_LockClusterResourcesResponse :: LockClusterResourcesResponse where
  "base_LockClusterResourcesResponse =
     \<lparr>LockClusterResourcesResponse_granted = False,
      LockClusterResourcesResponse_holder = None\<rparr>"

definition encode_LockClusterResourcesResponse :: "wire \<Rightarrow> LockClusterResourcesResponse \<Rightarrow> bytes \<Rightarrow> bytes result" where
  "encode_LockClusterResourcesResponse W m =
     write_all
       [write_when (LockClusterResourcesResponse_granted m \<noteq> False) (tagged W 8 (put_bool W (LockClusterResourcesResponse_granted m))),
        write_given (LockClusterResourcesResponse_holder m) (\<lambda>v. tagged W 18 (put_string W v))]"

definition switch_LockClusterResourcesResponse :: "wire \<Rightarrow> int \<Rightarrow> reader \<Rightarrow> LockClusterResourcesResponse \<Rightarrow> LockClusterResourcesResponse loop_step run" where
  "switch_LockClusterResourcesResponse W tag r m =
     switch_field tag
       [(1, [(8, read_field (get_bool W) (\<lambda>v. m\<lparr>LockClusterResourcesResponse_granted := v\<rparr>) r)]),
        (2, [(18, read_field (get_string W) (\<lambda>v. m\<lparr>LockClusterResourcesResponse_holder := Some v\<rparr>) r)])]"

definition decode_LockClusterResourcesResponse :: "wire \<Rightarrow> reader \<Rightarrow> int option \<Rightarrow> (LockClusterResourcesResponse \<times> reader) run" where
  "decode_LockClusterResourcesResponse W = decode_message W (switch_LockClusterResourcesResponse W) base_LockClusterResourcesResponse"

lemma builds_LockClusterResourcesResponse:
  assumes "wire_format W" "encode_LockClusterResourcesResponse W m [] = Inr b"
  shows "builds W (switch_LockClusterResourcesResponse W) base_LockClusterResourcesResponse m b"
proof (rule message_builds [OF assms(2) [unfolded encode_LockClusterResourcesResponse_def]])
  show "foldl (\<lambda>m u. u m) base_LockClusterResourcesResponse
      [plain LockClusterResourcesResponse_granted_update (LockClusterResourcesResponse_granted m) False,
       given LockClusterResourcesResponse_holder_update (LockClusterResourcesResponse_holder m)] = m"
    by (cases m) (simp add: field_changes base_LockClusterResourcesResponse_def)
qed (insert assms(1),
    (rule wire_fields message_codecs | (simp add: updater_def switch_LockClusterResourcesResponse_def list_all_iff; fail))+)

lemma decodes_LockClusterResourcesResponse [message_codecs]:
  assumes "wire_format W" "encode_LockClusterResourcesResponse W m [] = Inr b"
  shows "decodes (decode_LockClusterResourcesResponse W) m b"
  unfolding decode_LockClusterResourcesResponse_def by (rule builds_decodes [OF builds_LockClusterResourcesResponse [OF assms]])

lemma settles_LockClusterResourcesResponse [message_returns]: "wire_format W \<Longrightarrow> settles k (decode_LockClusterResourcesResponse W)"
  unfolding decode_LockClusterResourcesResponse_def
  by (rule wire_format.settles_message, assumption,
      unfold switch_LockClusterResourcesResponse_def switch_field.simps switch_alternatives.simps)
    (rule wire_ends message_returns | assumption)+

section \<open>FreeClusterResourcesRequest\<close>

record FreeClusterResourcesRequest =
  FreeClusterResourcesRequest_namespaceId :: string
  FreeClusterResourcesRequest_resources :: "int list"

definition base_FreeClusterResourcesRequest :: FreeClusterResourcesRequest where
  "base_FreeClusterResourcesRequest =
     \<lparr>FreeClusterResourcesRequest_namespaceId = [],
      FreeClusterResourcesRequest_resources = []\<rparr>"

definition encode_FreeClusterResourcesRequest :: "wire \<Rightarrow> FreeClusterResourcesRequest \<Rightarrow> bytes \<Rightarrow> bytes result" where
  "encode_FreeClusterResourcesRequest W m =
     write_all
       [write_when (FreeClusterResourcesRequest_namespaceId m \<noteq> []) (tagged W 10 (put_string W (FreeClusterResourcesRequest_namespaceId m))),
        packed W 18 (put_int32 W) (FreeClusterResourcesRequest_resources m)]"

definition switch_FreeClusterResourcesRequest :: "wire \<Rightarrow> int \<Rightarrow> reader \<Rightarrow> FreeClusterResourcesRequest \<Rightarrow> FreeClusterResourcesRequest loop_step run" where
  "switch_FreeClusterResourcesRequest W tag r m =
     switch_field tag
       [(1, [(10, read_field (get_string W) (\<lambda>v. m\<lparr>FreeClusterResourcesRequest_namespaceId := v\<rparr>) r)]),
        (2, [(16, read_field (get_int32 W) (\<lambda>v. FreeClusterResourcesRequest_resources_update (\<lambda>old. old @ [v]) m) r), (18, read_packed W (get_int32 W) (FreeClusterResourcesRequest_resources m) (\<lambda>vs. m\<lparr>FreeClusterResourcesRequest_resources := vs\<rparr>) r)])]"

definition decode_FreeClusterResourcesRequest :: "wire \<Rightarrow> reader \<Rightarrow> int option \<Rightarrow> (FreeClusterResourcesRequest \<times> reader) run" where
  "decode_FreeClusterResourcesRequest W = decode_message W (switch_FreeClusterResourcesRequest W) base_FreeClusterResourcesRequest"

lemma builds_FreeClusterResourcesRequest:
  assumes "wire_format W" "encode_FreeClusterResourcesRequest W m [] = Inr b"
  shows "builds W (switch_FreeClusterResourcesRequest W) base_FreeClusterResourcesRequest m b"
proof (rule message_builds [OF assms(2) [unfolded encode_FreeClusterResourcesRequest_def]])
  show "foldl (\<lambda>m u. u m) base_FreeClusterResourcesRequest
      [plain FreeClusterResourcesRequest_namespaceId_update (FreeClusterResourcesRequest_namespaceId m) [],
       pushed FreeClusterResourcesRequest_resources_update (FreeClusterResourcesRequest_resources m)] = m"
    by (cases m) (simp add: field_changes base_FreeClusterResourcesRequest_def)
qed (insert assms(1),
    (rule wire_fields message_codecs | (simp add: updater_def switch_FreeClusterResourcesRequest_def list_all_iff; fail))+)

lemma decodes_FreeClusterResourcesRequest [message_codecs]:
  assumes "wire_format W" "encode_FreeClusterResourcesRequest W m [] = Inr b"
  shows "decodes (decode_FreeClusterResourcesRequest W) m b"
  unfolding decode_FreeClusterResourcesRequest_def by (rule builds_decodes [OF builds_FreeClusterResourcesRequest [OF assms]])

lemma settles_FreeClusterResourcesRequest [message_returns]: "wire_format W \<Longrightarrow> settles k (decode_FreeClusterResourcesRequest W)"
  unfolding decode_FreeClusterResourcesRequest_def
  by (rule wire_format.settles_message, assumption,
      unfold switch_FreeClusterResourcesRequest_def switch_field.simps switch_alternatives.simps)
    (rule wire_ends message_returns | assumption)+

end
