(* ===== verification/Wire_Promises.thy ===== *)
theory Wire_Promises
  imports Wire_Reference Wire_Authentication Wire_Groups Wire_Events Wire_Messages Wire_Server_Configuration
begin

text \<open>
  What the generated codecs promise the app: an answer of the server arrives as it was sent, fields of a newer
  protocol are skipped, lists of enumerations are read in both of their forms, reading ends on any bytes, and what
  cannot be sent or read throws.
\<close>

section \<open>Whole buffers\<close>

lemma all_decoded:
  assumes "decodes dec m b" "dec = decode_message W sw base"
  shows "dec (new_reader b) None = Some (Inr (m, between b []))"
  using decodes_all assms by fastforce

lemma builds_all:
  assumes "chunk W sw b u"
  shows "decode_message W sw base (new_reader b) None = Some (Inr (u base, between b []))"
  using builds_decodes [of W sw base "u base" b, THEN decodes_all] assms by (auto simp: builds_def)


definition example_post :: Post where
  "example_post = Post_upd (Post_id_update (\<lambda>_. ''p1'')) base_Post"

definition example_events :: GetEventsResponse where
  "example_events =
     \<lparr>GetEventsResponse_events =
        [\<lparr>Event_post = Some example_post, Event_info = None,
          Event_occasions =
            [base_Occasion\<lparr>Occasion_startsAt := Some ''2024-02-29T18:30:00.000Z'', Occasion_timezone := Some ''UTC''\<rparr>],
          Event_occasionCount = 300\<rparr>]\<rparr>"

definition example_configuration :: ServerConfiguration where
  "example_configuration = base_ServerConfiguration
     \<lparr>ServerConfiguration_serverInfo := Some (base_ServerInfo\<lparr>ServerInfo_name := Some ''Rellm''\<rparr>),
      ServerConfiguration_defaultUserPermissions := [1, 20, 300], ServerConfiguration_privateUserStrategy := 1\<rparr>"

lemma varint_digits:
  "n < 128 \<Longrightarrow> varint n = [of_nat n]"
  "\<not> n < 128 \<Longrightarrow> varint n = of_nat (128 + n mod 128) # varint (n div 128)"
  by (simp_all add: varint.simps [of n])

lemma ref_puts:
  "put_uint32 ref_wire = put_number 0 (2 ^ 32)" "put_int32 ref_wire = put_number (- (2 ^ 31)) (2 ^ 31)"
  "put_uint64 ref_wire = put_number 0 (2 ^ 64)" "put_int64 ref_wire = put_number (- (2 ^ 63)) (2 ^ 63)"
  "put_bool ref_wire v = Inr (varint (if v then 1 else 0))"
  "put_string ref_wire s = put_bytes (map (\<lambda>c. of_nat (of_char c)) s)" "put_delimited ref_wire = put_bytes"
  by (simp_all add: ref_wire_def)

lemma example_date:
  "toTimestamp other ''2024-02-29T18:30:00.000Z'' = Some \<lparr>Timestamp_seconds = 1709231400, Timestamp_nanos = 0\<rparr>"
  by code_simp

lemmas writing = write_all_def write_when_def write_given_def write_each_def nested_def packed_def tagged_def
  ref_puts put_number_def put_bytes_def varint_digits

lemma example_post_written: "\<exists>b. encode_Post ref_wire example_post [] = Inr b \<and> length b = 4"
  unfolding encode_Post.simps [of ref_wire example_post]
  by (simp add: writing example_post_def base_Post_def Post_upd_def)

lemma example_events_written: "\<exists>b. encode_GetEventsResponse ref_wire example_events [] = Inr b"
  using example_post_written
  by (auto simp: writing encode_GetEventsResponse_def encode_Event_def encode_Occasion_def base_Occasion_def
      example_events_def encode_date_def example_date encode_Timestamp_def)

lemma example_post_safe: "safe_Post ref_wire example_post"
  unfolding safe_Post.simps [of ref_wire example_post]
  by (simp add: example_post_def base_Post_def Post_upd_def safe_long_def max_safe_integer_def)

lemma example_events_safe: "safe_GetEventsResponse ref_wire example_events"
proof -
  have "canonical_date ''2024-02-29T18:30:00.000Z''" by code_simp
  then show ?thesis
    unfolding safe_GetEventsResponse_def safe_Event_def safe_Occasion_def example_events_def
    using example_post_safe by (simp add: base_Occasion_def safe_long_def max_safe_integer_def)
qed

section \<open>An answer arrives as it was sent\<close>

text \<open>
  C5: an answer with events -- with their posts, replies, authors, media, occasions, attendances and
  dates -- that could be written is read back as it was, from the first byte to the last.
\<close>

theorem events_arrive:
  assumes "wire_format W" "safe_GetEventsResponse W m" "encode_GetEventsResponse W m [] = Inr b"
  shows "decode_GetEventsResponse W (new_reader b) None = Some (Inr (m, between b []))"
  using decodes_GetEventsResponse [OF assms] decode_GetEventsResponse_def by (rule all_decoded)

theorem events_arrive_witness:
  "\<exists>b. encode_GetEventsResponse ref_wire example_events [] = Inr b \<and>
       decode_GetEventsResponse ref_wire (new_reader b) None = Some (Inr (example_events, between b []))"
  using example_events_written events_arrive [OF reference.wire_format_axioms example_events_safe] by blast

text \<open>
  so does the configuration of a server.
\<close>

theorem configuration_arrives:
  assumes "wire_format W" "safe_ServerConfiguration W m" "encode_ServerConfiguration W m [] = Inr b"
  shows "decode_ServerConfiguration W (new_reader b) None = Some (Inr (m, between b []))"
  using decodes_ServerConfiguration [OF assms] decode_ServerConfiguration_def by (rule all_decoded)

theorem configuration_arrives_witness:
  "\<exists>b. encode_ServerConfiguration ref_wire example_configuration [] = Inr b \<and>
       decode_ServerConfiguration ref_wire (new_reader b) None = Some (Inr (example_configuration, between b []))"
proof -
  have "\<exists>b. encode_ServerConfiguration ref_wire example_configuration [] = Inr b"
    by (simp add: writing encode_ServerConfiguration_def encode_ServerInfo_def example_configuration_def
        base_ServerConfiguration_def base_ServerInfo_def)
  moreover have "safe_ServerConfiguration ref_wire example_configuration"
    by (simp add: safe_ServerConfiguration_def example_configuration_def base_ServerConfiguration_def)
  ultimately show ?thesis
    using configuration_arrives [OF reference.wire_format_axioms] by blast
qed


section \<open>Newer servers\<close>

lemma unknown_user_field:
  assumes "101 < n" "0 \<le> t" "t < 8"
  shows "switch_User W (8 * n + t) r m = Some (Inr Break)"
proof -
  have "(8 * n + t) div 8 = n" using assms(2,3) by simp
  then show ?thesis
    unfolding switch_User_def using assms(1) by (intro switch_field_unknown) auto
qed

text \<open>
  C19: fields a newer server adds to a user -- numbers above those this version knows, with a
  number or a length-prefixed value -- are skipped wherever they stand: the user is read as if they were not there.
\<close>

theorem unknown_fields_skipped:
  assumes "wire_format W" "safe_User W m" "encode_User W m [] = Inr b" "101 < n" "101 < n'"
    and "put_uint32 W (8 * n) = Inr t" "put_uint32 W v = Inr p"
    and "put_uint32 W (8 * n' + 2) = Inr t'" "put_delimited W s = Inr p'"
  shows "decode_User W (new_reader ((t @ p) @ b @ (t' @ p'))) None = Some (Inr (m, between ((t @ p) @ b @ (t' @ p')) []))"
proof -
  have new: "chunk W (switch_User W) (t @ p) (\<lambda>m. m)"
    using assms(1,4,6,7) unknown_user_field [of n 0] wire_format.varint_skipped [OF assms(1,7)]
    by (intro wire_format.chunk_unknown [OF assms(1,6)]) auto
  have new': "chunk W (switch_User W) (t' @ p') (\<lambda>m. m)"
    using assms(1,5,8,9) unknown_user_field [of n' 2] wire_format.delimited_skipped [OF assms(1,9)]
    by (intro wire_format.chunk_unknown [OF assms(1,8)]) auto
  obtain u where u: "chunk W (switch_User W) b u" "u base_User = m"
    using builds_User [OF assms(1-3)] by (auto simp: builds_def)
  have "chunk W (switch_User W) ((t @ p) @ b @ (t' @ p')) u"
    using chunk_append [OF new chunk_append [OF u(1) new']] by simp
  then show ?thesis
    using builds_all [of W "switch_User W" _ u base_User] u(2) by (simp add: decode_User_def)
qed

definition example_user :: User where
  "example_user = base_User\<lparr>User_username := ''ann'', User_permissions := [10, 20]\<rparr>"

lemma example_user_written: "\<exists>b. encode_User ref_wire example_user [] = Inr b"
  by (simp add: encode_User_def example_user_def base_User_def writing)

lemma example_user_safe: "safe_User ref_wire example_user"
  by (simp add: safe_User_def example_user_def base_User_def safe_long_def max_safe_integer_def)

theorem unknown_fields_skipped_witness:
  "\<exists>b f f'. encode_User ref_wire example_user [] = Inr b \<and> f \<noteq> [] \<and> f' \<noteq> [] \<and>
     decode_User ref_wire (new_reader (f @ b @ f')) None = Some (Inr (example_user, between (f @ b @ f') []))"
proof -
  obtain b where b: "encode_User ref_wire example_user [] = Inr b" using example_user_written by blast
  obtain t p t' p' where f: "put_uint32 ref_wire (8 * 110) = Inr t" "put_uint32 ref_wire 7 = Inr p"
    "put_uint32 ref_wire (8 * 120 + 2) = Inr t'" "put_delimited ref_wire [1, 2, 3] = Inr p'" "t \<noteq> []" "t' \<noteq> []"
    by (simp add: writing)
  then show ?thesis
    using unknown_fields_skipped [OF reference.wire_format_axioms example_user_safe b, of 110 120 t 7 p t' "[1, 2, 3]" p'] b
    by (intro exI [of _ b] exI [of _ "t @ p"] exI [of _ "t' @ p'"]) simp
qed

text \<open>
  permissions written one by one, each with a tag of its own, as writers before packed
  lists do, are read like the packed list this client writes.
\<close>

theorem unpacked_permissions_read:
  assumes "wire_format W" "packed W 50 (put_int32 W) ps = Inr b"
    and "write_each ps (\<lambda>p. tagged W 48 (put_int32 W p)) = Inr b'"
  shows "decode_User W (new_reader b') None = Some (Inr (base_User\<lparr>User_permissions := ps\<rparr>, between b' []))
       \<and> decode_User W (new_reader b) None = Some (Inr (base_User\<lparr>User_permissions := ps\<rparr>, between b []))"
proof -
  let ?u = "pushed User_permissions_update ps"
  have "carries W (switch_User W) (packed W 50 (put_int32 W) ps) ?u"
    by (rule wire_format.carries_list_field(2) [OF assms(1), where sel = User_permissions])
      (simp_all add: switch_User_def)
  moreover have "carries W (switch_User W) (write_each ps (\<lambda>p. tagged W 48 (put_int32 W p))) ?u"
    by (rule wire_format.carries_each_field [OF assms(1), where get = "get_int32 W"])
      (simp_all add: switch_User_def updater_def wire_format.int32_back [OF assms(1)])
  ultimately have c: "chunk W (switch_User W) b ?u" "chunk W (switch_User W) b' ?u"
    using assms(2,3) by (auto simp: carries_def)
  moreover have "?u base_User = base_User\<lparr>User_permissions := ps\<rparr>"
    by (simp add: pushed_def base_User_def)
  ultimately show ?thesis
    using builds_all [OF c(1), of base_User] builds_all [OF c(2), of base_User] by (simp add: decode_User_def)
qed

theorem unpacked_permissions_read_witness:
  "\<exists>b b'. packed ref_wire 50 (put_int32 ref_wire) [10, 300] = Inr b \<and> b \<noteq> b' \<and>
     write_each [10, 300] (\<lambda>p. tagged ref_wire 48 (put_int32 ref_wire p)) = Inr b' \<and>
     decode_User ref_wire (new_reader b') None = Some (Inr (base_User\<lparr>User_permissions := [10, 300]\<rparr>, between b' []))"
proof -
  obtain b b' where b: "packed ref_wire 50 (put_int32 ref_wire) [10, 300] = Inr b"
    "write_each [10, 300] (\<lambda>p. tagged ref_wire 48 (put_int32 ref_wire p)) = Inr b'" "b \<noteq> b'"
    by (simp add: writing)
  then show ?thesis
    using unpacked_permissions_read [OF reference.wire_format_axioms b(1,2)] by blast
qed


section \<open>Any bytes, and what throws\<close>

text \<open>
  C18: whatever bytes arrive as an answer with posts, however their replies and quoted posts
  are nested, the decoder returns or throws; it never runs on.
\<close>

theorem answers_read_to_an_end:
  assumes "wire_format W"
  shows "\<exists>x. decode_GetPostsResponse W (new_reader b) None = Some x"
  using settles_GetPostsResponse [OF assms] by (rule settles_all)

theorem answers_read_to_an_end_witness:
  "\<exists>x. decode_GetPostsResponse ref_wire (new_reader [10, 200, 3, 255]) None = Some x"
  by (rule answers_read_to_an_end [OF reference.wire_format_axioms])

lemma concat_results_throws:
  "c \<in> set cs \<Longrightarrow> (\<And>b. c \<noteq> Inr b) \<Longrightarrow> \<exists>e. concat_results cs = Inl e"
proof (induction cs)
  case (Cons d cs)
  then show ?case by (cases d; cases "concat_results cs") auto
qed simp

text \<open>
  an occasion whose start is no date is not written: the encoder throws instead of
  sending another time.
\<close>

theorem unreadable_start_throws:
  assumes "wire_format W" "Occasion_startsAt m = Some s" "toTimestamp (other_dates W) s = None"
  shows "\<exists>e. encode_Occasion W m w = Inl e"
proof -
  have "encode_date W s [] \<noteq> Inr b" for b
    using assms(3) wire_format.NaN_throws [OF assms(1)]
    by (auto simp: encode_date_def write_all_def tagged_def bind_result_eq_Inr)
  then have "nested W 42 (encode_date W s) \<noteq> Inr b" for b
    by (auto simp: nested_def tagged_def bind_result_eq_Inr)
  then have "\<exists>e. concat_results cs = Inl e" if "write_given (Some s) (\<lambda>v. nested W 42 (encode_date W v)) \<in> set cs" for cs
    using concat_results_throws [OF that] by (simp add: write_given_def)
  then show ?thesis
    unfolding encode_Occasion_def write_all_def assms(2) by (metis (no_types, lifting) bind_result_simps(1) list.set_intros)
qed

theorem unreadable_start_throws_witness:
  "\<exists>e. encode_Occasion ref_wire (base_Occasion\<lparr>Occasion_startsAt := Some ''tomorrow''\<rparr>) [] = Inl e"
proof (rule unreadable_start_throws [OF reference.wire_format_axioms])
  have "parse_iso ''tomorrow'' = None" by code_simp
  then show "toTimestamp (other_dates ref_wire) ''tomorrow'' = None"
    by (simp add: toTimestamp_def date_value_def ref_wire_def)
qed simp

text \<open>
  C35: a 64-bit count that a JavaScript number cannot hold exactly is not read as a neighbouring
  one: decoding an event with it throws.
\<close>

theorem large_count_throws:
  assumes "wire_format W" "max_safe_integer < n" "put_uint32 W 40 = Inr t" "put_uint64 W n = Inr p"
  shows "decode_Event W (new_reader (t @ p @ rest)) None =
    Some (Inl (Thrown ''Value is larger than Number.MAX_SAFE_INTEGER''))"
proof -
  have tag: "get_uint32 W (between [] (t @ p @ rest)) = Inr (40, between t (p @ rest))"
    using wire_format.uint32_back [OF assms(1,3)] by (auto simp: reads_def dest: spec [of _ "[]"])
  have "get_uint64 W (between t (p @ rest)) = Inr (n, between (t @ p) rest)"
    using wire_format.uint64_back [OF assms(1,4)] by (simp add: reads_def)
  then have "switch_Event W 40 (between t (p @ rest)) m =
      Some (Inl (Thrown ''Value is larger than Number.MAX_SAFE_INTEGER''))" for m
    using assms(2) by (simp add: switch_Event_def read_field_def get_long_def longToNumber_def)
  moreover have "new_reader (t @ p @ rest) = between [] (t @ p @ rest)"
    by (simp add: new_reader_def between_def)
  moreover have "0 < rd_len (between [] (t @ p @ rest))"
    using wire_format.uint32_bytes [OF assms(1,3)] by (simp add: rd_len_def between_def)
  ultimately show ?thesis
    using tag by (simp add: decode_Event_def decode_message_def decode_end_def decode_loop.simps)
qed

theorem large_count_throws_witness:
  "\<exists>t p. put_uint32 ref_wire 40 = Inr t \<and> put_uint64 ref_wire (2 ^ 53) = Inr p \<and>
     decode_Event ref_wire (new_reader (t @ p @ [26, 0])) None =
       Some (Inl (Thrown ''Value is larger than Number.MAX_SAFE_INTEGER''))"
proof -
  obtain t p where b: "put_uint32 ref_wire 40 = Inr t" "put_uint64 ref_wire (2 ^ 53) = Inr p"
    by (simp add: writing)
  then show ?thesis
    using large_count_throws [OF reference.wire_format_axioms _ b] by (simp add: max_safe_integer_def)
qed

end
