(* ===== verification/Rpc.thy ===== *)
theory Rpc
  imports Wire_Promises
begin

text \<open>
  The service of packages/api/generated/rellm.ts: its methods with the messages they take and give, as the table the
  gRPC client is made from and as the two interfaces, and that every one of these messages is carried by its codec.
\<close>

section \<open>Messages\<close>

text \<open>The messages that are sent and answered, by the names of their codecs.\<close>

datatype (plugins only:) message_type =
    T_Empty
  | T_GetServiceVersionResponse
  | T_ServerConfiguration
  | T_CreateAccountRequest
  | T_RefreshTokenResponse
  | T_LoginRequest
  | T_AccessTokenRequest
  | T_AccessTokenResponse
  | T_User
  | T_ResetPasswordRequest
  | T_GetMediaRequest
  | T_GetMediaResponse
  | T_Media
  | T_GetUsersRequest
  | T_GetUsersResponse
  | T_ContactMethod
  | T_VerifyContactMethodRequest
  | T_SendMessageRequest
  | T_Message
  | T_GetMessagesRequest
  | T_GetMessagesResponse
  | T_MarkMessagesReadRequest
  | T_MarkMessagesReadResponse
  | T_RegisterPushSubscriptionRequest
  | T_PushSubscription
  | T_UnregisterPushSubscriptionRequest
  | T_GetPushSubscriptionStatusRequest
  | T_GetPushSubscriptionStatusResponse
  | T_Follow
  | T_GetGroupsRequest
  | T_GetGroupsResponse
  | T_Group
  | T_GetMembersRequest
  | T_GetMembersResponse
  | T_Membership
  | T_GetPostsRequest
  | T_GetPostsResponse
  | T_Post
  | T_SyncPostRequest
  | T_DeletePostSyncDestinationRequest
  | T_GetGroupPostsRequest
  | T_GetGroupPostsResponse
  | T_GroupPost
  | T_GetEventsRequest
  | T_GetEventsResponse
  | T_Event
  | T_GetSyncSourcesResponse
  | T_SyncSource
  | T_DeleteSyncSourceRequest
  | T_GetSyncDestinationsResponse
  | T_SyncDestination
  | T_DeleteSyncDestinationRequest
  | T_SyncOccasionRequest
  | T_Occasion
  | T_DeleteOccasionSyncDestinationRequest
  | T_GetAIProvidersResponse
  | T_AIProvider
  | T_DeleteAIProviderRequest
  | T_GrantAIProviderRequest
  | T_AIProviderGrant
  | T_RevokeAIProviderRequest
  | T_GetMarketProductsRequest
  | T_GetMarketProductsResponse
  | T_MarketProduct
  | T_GetMarketSubscriptionsRequest
  | T_GetMarketSubscriptionsResponse
  | T_MakeMarketPurchaseRequest
  | T_MakeMarketPurchaseResponse
  | T_MarketSubscription
  | T_GenerateMediaRequest
  | T_GetRsvpsRequest
  | T_Rsvps
  | T_Rsvp
  | T_FederatedAccount
  | T_CustomCSSConfiguration
  | T_LockClusterResourcesRequest
  | T_LockClusterResourcesResponse
  | T_FreeClusterResourcesRequest

text \<open>
  What a codec owes to a call: what could be written is read back to the last byte, if its dates are ones the client
  prints and its numbers ones it can hold, and reading any bytes ends.
\<close>

definition carries_messages ::
  "wire \<Rightarrow> (wire \<Rightarrow> 'm \<Rightarrow> bytes \<Rightarrow> bytes result) \<Rightarrow> (wire \<Rightarrow> reader \<Rightarrow> int option \<Rightarrow> ('m \<times> reader) run) \<Rightarrow>
     (wire \<Rightarrow> 'm \<Rightarrow> bool) \<Rightarrow> bool"
where
  "carries_messages W enc dec safe \<longleftrightarrow>
     (\<forall>m b. safe W m \<longrightarrow> enc W m [] = Inr b \<longrightarrow> dec W (new_reader b) None = Some (Inr (m, between b []))) \<and>
     (\<forall>b. \<exists>x. dec W (new_reader b) None = Some x)"

lemma carries_messagesI:
  assumes "\<And>m b. safe W m \<Longrightarrow> enc W m [] = Inr b \<Longrightarrow> decodes (dec W) m b" "dec W = decode_message W sw base"
    and "\<And>k. settles k (dec W)"
  shows "carries_messages W enc dec safe"
  unfolding carries_messages_def
proof (intro conjI allI impI)
  fix m b assume "safe W m" "enc W m [] = Inr b"
  then show "dec W (new_reader b) None = Some (Inr (m, between b []))"
    using assms(1) assms(2) all_decoded by metis
next
  show "\<exists>x. dec W (new_reader b) None = Some x" for b
    using assms(3) by (rule settles_all)
qed

primrec carried :: "wire \<Rightarrow> message_type \<Rightarrow> bool" where
  "carried W T_Empty \<longleftrightarrow> carries_messages W encode_Empty decode_Empty (\<lambda>_ _. True)"
| "carried W T_GetServiceVersionResponse \<longleftrightarrow> carries_messages W encode_GetServiceVersionResponse decode_GetServiceVersionResponse (\<lambda>_ _. True)"
| "carried W T_ServerConfiguration \<longleftrightarrow> carries_messages W encode_ServerConfiguration decode_ServerConfiguration safe_ServerConfiguration"
| "carried W T_CreateAccountRequest \<longleftrightarrow> carries_messages W encode_CreateAccountRequest decode_CreateAccountRequest safe_CreateAccountRequest"
| "carried W T_RefreshTokenResponse \<longleftrightarrow> carries_messages W encode_RefreshTokenResponse decode_RefreshTokenResponse safe_RefreshTokenResponse"
| "carried W T_LoginRequest \<longleftrightarrow> carries_messages W encode_LoginRequest decode_LoginRequest safe_LoginRequest"
| "carried W T_AccessTokenRequest \<longleftrightarrow> carries_messages W encode_AccessTokenRequest decode_AccessTokenRequest safe_AccessTokenRequest"
| "carried W T_AccessTokenResponse \<longleftrightarrow> carries_messages W encode_AccessTokenResponse decode_AccessTokenResponse safe_AccessTokenResponse"
| "carried W T_User \<longleftrightarrow> carries_messages W encode_User decode_User safe_User"
| "carried W T_ResetPasswordRequest \<longleftrightarrow> carries_messages W encode_ResetPasswordRequest decode_ResetPasswordRequest (\<lambda>_ _. True)"
| "carried W T_GetMediaRequest \<longleftrightarrow> carries_messages W encode_GetMediaRequest decode_GetMediaRequest (\<lambda>_ _. True)"
| "carried W T_GetMediaResponse \<longleftrightarrow> carries_messages W encode_GetMediaResponse decode_GetMediaResponse safe_GetMediaResponse"
| "carried W T_Media \<longleftrightarrow> carries_messages W encode_Media decode_Media safe_Media"
| "carried W T_GetUsersRequest \<longleftrightarrow> carries_messages W encode_GetUsersRequest decode_GetUsersRequest (\<lambda>_ _. True)"
| "carried W T_GetUsersResponse \<longleftrightarrow> carries_messages W encode_GetUsersResponse decode_GetUsersResponse safe_GetUsersResponse"
| "carried W T_ContactMethod \<longleftrightarrow> carries_messages W encode_ContactMethod decode_ContactMethod safe_ContactMethod"
| "carried W T_VerifyContactMethodRequest \<longleftrightarrow> carries_messages W encode_VerifyContactMethodRequest decode_VerifyContactMethodRequest (\<lambda>_ _. True)"
| "carried W T_SendMessageRequest \<longleftrightarrow> carries_messages W encode_SendMessageRequest decode_SendMessageRequest (\<lambda>_ _. True)"
| "carried W T_Message \<longleftrightarrow> carries_messages W encode_Message decode_Message safe_Message"
| "carried W T_GetMessagesRequest \<longleftrightarrow> carries_messages W encode_GetMessagesRequest decode_GetMessagesRequest safe_GetMessagesRequest"
| "carried W T_GetMessagesResponse \<longleftrightarrow> carries_messages W encode_GetMessagesResponse decode_GetMessagesResponse safe_GetMessagesResponse"
| "carried W T_MarkMessagesReadRequest \<longleftrightarrow> carries_messages W encode_MarkMessagesReadRequest decode_MarkMessagesReadRequest (\<lambda>_ _. True)"
| "carried W T_MarkMessagesReadResponse \<longleftrightarrow> carries_messages W encode_MarkMessagesReadResponse decode_MarkMessagesReadResponse safe_MarkMessagesReadResponse"
| "carried W T_RegisterPushSubscriptionRequest \<longleftrightarrow> carries_messages W encode_RegisterPushSubscriptionRequest decode_RegisterPushSubscriptionRequest (\<lambda>_ _. True)"
| "carried W T_PushSubscription \<longleftrightarrow> carries_messages W encode_PushSubscription decode_PushSubscription safe_PushSubscription"
| "carried W T_UnregisterPushSubscriptionRequest \<longleftrightarrow> carries_messages W encode_UnregisterPushSubscriptionRequest decode_UnregisterPushSubscriptionRequest (\<lambda>_ _. True)"
| "carried W T_GetPushSubscriptionStatusRequest \<longleftrightarrow> carries_messages W encode_GetPushSubscriptionStatusRequest decode_GetPushSubscriptionStatusRequest (\<lambda>_ _. True)"
| "carried W T_GetPushSubscriptionStatusResponse \<longleftrightarrow> carries_messages W encode_GetPushSubscriptionStatusResponse decode_GetPushSubscriptionStatusResponse (\<lambda>_ _. True)"
| "carried W T_Follow \<longleftrightarrow> carries_messages W encode_Follow decode_Follow safe_Follow"
| "carried W T_GetGroupsRequest \<longleftrightarrow> carries_messages W encode_GetGroupsRequest decode_GetGroupsRequest (\<lambda>_ _. True)"
| "carried W T_GetGroupsResponse \<longleftrightarrow> carries_messages W encode_GetGroupsResponse decode_GetGroupsResponse safe_GetGroupsResponse"
| "carried W T_Group \<longleftrightarrow> carries_messages W encode_Group decode_Group safe_Group"
| "carried W T_GetMembersRequest \<longleftrightarrow> carries_messages W encode_GetMembersRequest decode_GetMembersRequest (\<lambda>_ _. True)"
| "carried W T_GetMembersResponse \<longleftrightarrow> carries_messages W encode_GetMembersResponse decode_GetMembersResponse safe_GetMembersResponse"
| "carried W T_Membership \<longleftrightarrow> carries_messages W encode_Membership decode_Membership safe_Membership"
| "carried W T_GetPostsRequest \<longleftrightarrow> carries_messages W encode_GetPostsRequest decode_GetPostsRequest safe_GetPostsRequest"
| "carried W T_GetPostsResponse \<longleftrightarrow> carries_messages W encode_GetPostsResponse decode_GetPostsResponse safe_GetPostsResponse"
| "carried W T_Post \<longleftrightarrow> carries_messages W encode_Post decode_Post safe_Post"
| "carried W T_SyncPostRequest \<longleftrightarrow> carries_messages W encode_SyncPostRequest decode_SyncPostRequest (\<lambda>_ _. True)"
| "carried W T_DeletePostSyncDestinationRequest \<longleftrightarrow> carries_messages W encode_DeletePostSyncDestinationRequest decode_DeletePostSyncDestinationRequest (\<lambda>_ _. True)"
| "carried W T_GetGroupPostsRequest \<longleftrightarrow> carries_messages W encode_GetGroupPostsRequest decode_GetGroupPostsRequest (\<lambda>_ _. True)"
| "carried W T_GetGroupPostsResponse \<longleftrightarrow> carries_messages W encode_GetGroupPostsResponse decode_GetGroupPostsResponse safe_GetGroupPostsResponse"
| "carried W T_GroupPost \<longleftrightarrow> carries_messages W encode_GroupPost decode_GroupPost safe_GroupPost"
| "carried W T_GetEventsRequest \<longleftrightarrow> carries_messages W encode_GetEventsRequest decode_GetEventsRequest safe_GetEventsRequest"
| "carried W T_GetEventsResponse \<longleftrightarrow> carries_messages W encode_GetEventsResponse decode_GetEventsResponse safe_GetEventsResponse"
| "carried W T_Event \<longleftrightarrow> carries_messages W encode_Event decode_Event safe_Event"
| "carried W T_GetSyncSourcesResponse \<longleftrightarrow> carries_messages W encode_GetSyncSourcesResponse decode_GetSyncSourcesResponse safe_GetSyncSourcesResponse"
| "carried W T_SyncSource \<longleftrightarrow> carries_messages W encode_SyncSource decode_SyncSource safe_SyncSource"
| "carried W T_DeleteSyncSourceRequest \<longleftrightarrow> carries_messages W encode_DeleteSyncSourceRequest decode_DeleteSyncSourceRequest safe_DeleteSyncSourceRequest"
| "carried W T_GetSyncDestinationsResponse \<longleftrightarrow> carries_messages W encode_GetSyncDestinationsResponse decode_GetSyncDestinationsResponse safe_GetSyncDestinationsResponse"
| "carried W T_SyncDestination \<longleftrightarrow> carries_messages W encode_SyncDestination decode_SyncDestination safe_SyncDestination"
| "carried W T_DeleteSyncDestinationRequest \<longleftrightarrow> carries_messages W encode_DeleteSyncDestinationRequest decode_DeleteSyncDestinationRequest safe_DeleteSyncDestinationRequest"
| "carried W T_SyncOccasionRequest \<longleftrightarrow> carries_messages W encode_SyncOccasionRequest decode_SyncOccasionRequest (\<lambda>_ _. True)"
| "carried W T_Occasion \<longleftrightarrow> carries_messages W encode_Occasion decode_Occasion safe_Occasion"
| "carried W T_DeleteOccasionSyncDestinationRequest \<longleftrightarrow> carries_messages W encode_DeleteOccasionSyncDestinationRequest decode_DeleteOccasionSyncDestinationRequest (\<lambda>_ _. True)"
| "carried W T_GetAIProvidersResponse \<longleftrightarrow> carries_messages W encode_GetAIProvidersResponse decode_GetAIProvidersResponse safe_GetAIProvidersResponse"
| "carried W T_AIProvider \<longleftrightarrow> carries_messages W encode_AIProvider decode_AIProvider safe_AIProvider"
| "carried W T_DeleteAIProviderRequest \<longleftrightarrow> carries_messages W encode_DeleteAIProviderRequest decode_DeleteAIProviderRequest safe_DeleteAIProviderRequest"
| "carried W T_GrantAIProviderRequest \<longleftrightarrow> carries_messages W encode_GrantAIProviderRequest decode_GrantAIProviderRequest safe_GrantAIProviderRequest"
| "carried W T_AIProviderGrant \<longleftrightarrow> carries_messages W encode_AIProviderGrant decode_AIProviderGrant safe_AIProviderGrant"
| "carried W T_RevokeAIProviderRequest \<longleftrightarrow> carries_messages W encode_RevokeAIProviderRequest decode_RevokeAIProviderRequest (\<lambda>_ _. True)"
| "carried W T_GetMarketProductsRequest \<longleftrightarrow> carries_messages W encode_GetMarketProductsRequest decode_GetMarketProductsRequest (\<lambda>_ _. True)"
| "carried W T_GetMarketProductsResponse \<longleftrightarrow> carries_messages W encode_GetMarketProductsResponse decode_GetMarketProductsResponse safe_GetMarketProductsResponse"
| "carried W T_MarketProduct \<longleftrightarrow> carries_messages W encode_MarketProduct decode_MarketProduct safe_MarketProduct"
| "carried W T_GetMarketSubscriptionsRequest \<longleftrightarrow> carries_messages W encode_GetMarketSubscriptionsRequest decode_GetMarketSubscriptionsRequest (\<lambda>_ _. True)"
| "carried W T_GetMarketSubscriptionsResponse \<longleftrightarrow> carries_messages W encode_GetMarketSubscriptionsResponse decode_GetMarketSubscriptionsResponse safe_GetMarketSubscriptionsResponse"
| "carried W T_MakeMarketPurchaseRequest \<longleftrightarrow> carries_messages W encode_MakeMarketPurchaseRequest decode_MakeMarketPurchaseRequest safe_MakeMarketPurchaseRequest"
| "carried W T_MakeMarketPurchaseResponse \<longleftrightarrow> carries_messages W encode_MakeMarketPurchaseResponse decode_MakeMarketPurchaseResponse (\<lambda>_ _. True)"
| "carried W T_MarketSubscription \<longleftrightarrow> carries_messages W encode_MarketSubscription decode_MarketSubscription safe_MarketSubscription"
| "carried W T_GenerateMediaRequest \<longleftrightarrow> carries_messages W encode_GenerateMediaRequest decode_GenerateMediaRequest safe_GenerateMediaRequest"
| "carried W T_GetRsvpsRequest \<longleftrightarrow> carries_messages W encode_GetRsvpsRequest decode_GetRsvpsRequest (\<lambda>_ _. True)"
| "carried W T_Rsvps \<longleftrightarrow> carries_messages W encode_Rsvps decode_Rsvps safe_Rsvps"
| "carried W T_Rsvp \<longleftrightarrow> carries_messages W encode_Rsvp decode_Rsvp safe_Rsvp"
| "carried W T_FederatedAccount \<longleftrightarrow> carries_messages W encode_FederatedAccount decode_FederatedAccount (\<lambda>_ _. True)"
| "carried W T_CustomCSSConfiguration \<longleftrightarrow> carries_messages W encode_CustomCSSConfiguration decode_CustomCSSConfiguration (\<lambda>_ _. True)"
| "carried W T_LockClusterResourcesRequest \<longleftrightarrow> carries_messages W encode_LockClusterResourcesRequest decode_LockClusterResourcesRequest (\<lambda>_ _. True)"
| "carried W T_LockClusterResourcesResponse \<longleftrightarrow> carries_messages W encode_LockClusterResourcesResponse decode_LockClusterResourcesResponse (\<lambda>_ _. True)"
| "carried W T_FreeClusterResourcesRequest \<longleftrightarrow> carries_messages W encode_FreeClusterResourcesRequest decode_FreeClusterResourcesRequest (\<lambda>_ _. True)"

section \<open>Methods\<close>

record rpc_method =
  rpc_name :: string
  rpc_requestType :: message_type
  rpc_requestStream :: bool
  rpc_responseType :: message_type
  rpc_responseStream :: bool

text \<open>What the interfaces say of a method: the message it takes, the one it gives, and whether it gives a stream of them.\<close>

record signature =
  sig_request :: message_type
  sig_response :: message_type
  sig_stream :: bool

definition unary :: "string \<Rightarrow> message_type \<Rightarrow> message_type \<Rightarrow> rpc_method" where
  "unary n req res =
     \<lparr>rpc_name = n, rpc_requestType = req, rpc_requestStream = False, rpc_responseType = res, rpc_responseStream = False\<rparr>"

definition takes_gives :: "message_type \<Rightarrow> message_type \<Rightarrow> bool \<Rightarrow> signature" where
  "takes_gives req res stream = \<lparr>sig_request = req, sig_response = res, sig_stream = stream\<rparr>"

text \<open>\<open>RellmDefinition\<close>, in the order of the source.\<close>

definition methods_one :: "(string \<times> rpc_method) list" where
  "methods_one =
     [(''getServiceVersion'', unary ''GetServiceVersion'' T_Empty T_GetServiceVersionResponse),
      (''getServerConfiguration'', unary ''GetServerConfiguration'' T_Empty T_ServerConfiguration),
      (''createAccount'', unary ''CreateAccount'' T_CreateAccountRequest T_RefreshTokenResponse),
      (''login'', unary ''Login'' T_LoginRequest T_RefreshTokenResponse),
      (''accessToken'', unary ''AccessToken'' T_AccessTokenRequest T_AccessTokenResponse),
      (''getCurrentUser'', unary ''GetCurrentUser'' T_Empty T_User),
      (''resetPassword'', unary ''ResetPassword'' T_ResetPasswordRequest T_Empty),
      (''getMedia'', unary ''GetMedia'' T_GetMediaRequest T_GetMediaResponse),
      (''deleteMedia'', unary ''DeleteMedia'' T_Media T_Empty),
      (''updateMedia'', unary ''UpdateMedia'' T_Media T_Media),
      (''deleteMediaSizes'', unary ''DeleteMediaSizes'' T_Media T_Media),
      (''getUsers'', unary ''GetUsers'' T_GetUsersRequest T_GetUsersResponse),
      (''updateUser'', unary ''UpdateUser'' T_User T_User)]"

definition methods_two :: "(string \<times> rpc_method) list" where
  "methods_two =
     [(''startContactMethodVerification'', unary ''StartContactMethodVerification'' T_ContactMethod T_ContactMethod),
      (''verifyContactMethod'', unary ''VerifyContactMethod'' T_VerifyContactMethodRequest T_ContactMethod),
      (''deleteUser'', unary ''DeleteUser'' T_User T_Empty),
      (''sendMessage'', unary ''SendMessage'' T_SendMessageRequest T_Message),
      (''getMessages'', unary ''GetMessages'' T_GetMessagesRequest T_GetMessagesResponse),
      (''markMessagesRead'', unary ''MarkMessagesRead'' T_MarkMessagesReadRequest T_MarkMessagesReadResponse),
      (''registerPushSubscription'', unary ''RegisterPushSubscription'' T_RegisterPushSubscriptionRequest T_PushSubscription),
      (''unregisterPushSubscription'', unary ''UnregisterPushSubscription'' T_UnregisterPushSubscriptionRequest T_Empty),
      (''getPushSubscriptionStatus'', unary ''GetPushSubscriptionStatus'' T_GetPushSubscriptionStatusRequest T_GetPushSubscriptionStatusResponse),
      (''createFollow'', unary ''CreateFollow'' T_Follow T_Follow)]"

definition methods_three :: "(string \<times> rpc_method) list" where
  "methods_three =
     [(''updateFollow'', unary ''UpdateFollow'' T_Follow T_Follow),
      (''deleteFollow'', unary ''DeleteFollow'' T_Follow T_Empty),
      (''getGroups'', unary ''GetGroups'' T_GetGroupsRequest T_GetGroupsResponse),
      (''createGroup'', unary ''CreateGroup'' T_Group T_Group),
      (''updateGroup'', unary ''UpdateGroup'' T_Group T_Group),
      (''deleteGroup'', unary ''DeleteGroup'' T_Group T_Empty),
      (''getMembers'', unary ''GetMembers'' T_GetMembersRequest T_GetMembersResponse),
      (''createMembership'', unary ''CreateMembership'' T_Membership T_Membership),
      (''updateMembership'', unary ''UpdateMembership'' T_Membership T_Membership),
      (''deleteMembership'', unary ''DeleteMembership'' T_Membership T_Empty),
      (''getPosts'', unary ''GetPosts'' T_GetPostsRequest T_GetPostsResponse),
      (''createPost'', unary ''CreatePost'' T_Post T_Post),
      (''updatePost'', unary ''UpdatePost'' T_Post T_Post),
      (''deletePost'', unary ''DeletePost'' T_Post T_Post)]"

definition methods_four :: "(string \<times> rpc_method) list" where
  "methods_four =
     [(''starPost'', unary ''StarPost'' T_Post T_Post),
      (''unstarPost'', unary ''UnstarPost'' T_Post T_Post),
      (''syncPost'', unary ''SyncPost'' T_SyncPostRequest T_Post),
      (''deletePostSyncDestination'', unary ''DeletePostSyncDestination'' T_DeletePostSyncDestinationRequest T_Empty),
      (''getGroupPosts'', unary ''GetGroupPosts'' T_GetGroupPostsRequest T_GetGroupPostsResponse),
      (''createGroupPost'', unary ''CreateGroupPost'' T_GroupPost T_GroupPost),
      (''updateGroupPost'', unary ''UpdateGroupPost'' T_GroupPost T_GroupPost),
      (''deleteGroupPost'', unary ''DeleteGroupPost'' T_GroupPost T_Empty),
      (''getEvents'', unary ''GetEvents'' T_GetEventsRequest T_GetEventsResponse),
      (''createEvent'', unary ''CreateEvent'' T_Event T_Event),
      (''updateEvent'', unary ''UpdateEvent'' T_Event T_Event),
      (''deleteEvent'', unary ''DeleteEvent'' T_Event T_Event),
      (''updateEventDetails'', unary ''UpdateEventDetails'' T_Event T_Event),
      (''createNewOccasions'', unary ''CreateNewOccasions'' T_Event T_Event)]"

definition methods_five :: "(string \<times> rpc_method) list" where
  "methods_five =
     [(''updateOccasions'', unary ''UpdateOccasions'' T_Event T_Event),
      (''deleteRemovedOccasions'', unary ''DeleteRemovedOccasions'' T_Event T_Event),
      (''getSyncSources'', unary ''GetSyncSources'' T_User T_GetSyncSourcesResponse),
      (''createSyncSource'', unary ''CreateSyncSource'' T_SyncSource T_SyncSource),
      (''updateSyncSource'', unary ''UpdateSyncSource'' T_SyncSource T_SyncSource),
      (''deleteSyncSource'', unary ''DeleteSyncSource'' T_DeleteSyncSourceRequest T_Empty),
      (''getSyncDestinations'', unary ''GetSyncDestinations'' T_User T_GetSyncDestinationsResponse),
      (''createSyncDestination'', unary ''CreateSyncDestination'' T_SyncDestination T_SyncDestination),
      (''updateSyncDestination'', unary ''UpdateSyncDestination'' T_SyncDestination T_SyncDestination),
      (''deleteSyncDestination'', unary ''DeleteSyncDestination'' T_DeleteSyncDestinationRequest T_Empty),
      (''syncOccasion'', unary ''SyncOccasion'' T_SyncOccasionRequest T_Occasion),
      (''deleteOccasionSyncDestination'', unary ''DeleteOccasionSyncDestination'' T_DeleteOccasionSyncDestinationRequest T_Empty),
      (''getAIProviders'', unary ''GetAIProviders'' T_User T_GetAIProvidersResponse),
      (''createAIProvider'', unary ''CreateAIProvider'' T_AIProvider T_AIProvider),
      (''updateAIProvider'', unary ''UpdateAIProvider'' T_AIProvider T_AIProvider)]"

definition methods_six :: "(string \<times> rpc_method) list" where
  "methods_six =
     [(''deleteAIProvider'', unary ''DeleteAIProvider'' T_DeleteAIProviderRequest T_Empty),
      (''grantAIProvider'', unary ''GrantAIProvider'' T_GrantAIProviderRequest T_AIProviderGrant),
      (''revokeAIProvider'', unary ''RevokeAIProvider'' T_RevokeAIProviderRequest T_Empty),
      (''getMarketProducts'', unary ''GetMarketProducts'' T_GetMarketProductsRequest T_GetMarketProductsResponse),
      (''createMarketProduct'', unary ''CreateMarketProduct'' T_MarketProduct T_MarketProduct),
      (''updateMarketProduct'', unary ''UpdateMarketProduct'' T_MarketProduct T_MarketProduct),
      (''getMarketSubscriptions'', unary ''GetMarketSubscriptions'' T_GetMarketSubscriptionsRequest T_GetMarketSubscriptionsResponse),
      (''makeMarketPurchase'', unary ''MakeMarketPurchase'' T_MakeMarketPurchaseRequest T_MakeMarketPurchaseResponse),
      (''cancelMarketSubscription'', unary ''CancelMarketSubscription'' T_MarketSubscription T_MarketSubscription),
      (''updateMarketSubscription'', unary ''UpdateMarketSubscription'' T_MarketSubscription T_MarketSubscription),
      (''generateMedia'', unary ''GenerateMedia'' T_GenerateMediaRequest T_Media),
      (''getRsvps'', unary ''GetRsvps'' T_GetRsvpsRequest T_Rsvps)]"

definition methods_seven :: "(string \<times> rpc_method) list" where
  "methods_seven =
     [(''upsertRsvp'', unary ''UpsertRsvp'' T_Rsvp T_Rsvp),
      (''deleteRsvp'', unary ''DeleteRsvp'' T_Rsvp T_Empty),
      (''federateProfile'', unary ''FederateProfile'' T_FederatedAccount T_FederatedAccount),
      (''defederateProfile'', unary ''DefederateProfile'' T_FederatedAccount T_Empty),
      (''configureServer'', unary ''ConfigureServer'' T_ServerConfiguration T_ServerConfiguration),
      (''getCustomCSS'', unary ''GetCustomCSS'' T_Empty T_CustomCSSConfiguration),
      (''configureCustomCSS'', unary ''ConfigureCustomCSS'' T_CustomCSSConfiguration T_CustomCSSConfiguration),
      (''deleteLinkPreviewImages'', unary ''DeleteLinkPreviewImages'' T_Empty T_Empty),
      (''deleteUnownedMedia'', unary ''DeleteUnownedMedia'' T_Empty T_Empty),
      (''lockClusterResources'', unary ''LockClusterResources'' T_LockClusterResourcesRequest T_LockClusterResourcesResponse)]"

definition methods_eight :: "(string \<times> rpc_method) list" where
  "methods_eight =
     [(''freeClusterResources'', unary ''FreeClusterResources'' T_FreeClusterResourcesRequest T_Empty),
      (''resetData'', unary ''ResetData'' T_Empty T_Empty),
      (''streamReplies'', (unary ''StreamReplies'' T_Post T_Post)\<lparr>rpc_responseStream := True\<rparr>)]"

definition RellmDefinition :: "(string \<times> rpc_method) list" where
  "RellmDefinition = methods_one @ methods_two @ methods_three @ methods_four @ methods_five @ methods_six @ methods_seven @ methods_eight"

text \<open>The interface of a server: full requests, partial answers.\<close>

definition service_one :: "(string \<times> signature) list" where
  "service_one =
     [(''getServiceVersion'', takes_gives T_Empty T_GetServiceVersionResponse False),
      (''getServerConfiguration'', takes_gives T_Empty T_ServerConfiguration False),
      (''createAccount'', takes_gives T_CreateAccountRequest T_RefreshTokenResponse False),
      (''login'', takes_gives T_LoginRequest T_RefreshTokenResponse False),
      (''accessToken'', takes_gives T_AccessTokenRequest T_AccessTokenResponse False),
      (''getCurrentUser'', takes_gives T_Empty T_User False),
      (''resetPassword'', takes_gives T_ResetPasswordRequest T_Empty False),
      (''getMedia'', takes_gives T_GetMediaRequest T_GetMediaResponse False),
      (''deleteMedia'', takes_gives T_Media T_Empty False),
      (''updateMedia'', takes_gives T_Media T_Media False),
      (''deleteMediaSizes'', takes_gives T_Media T_Media False),
      (''getUsers'', takes_gives T_GetUsersRequest T_GetUsersResponse False),
      (''updateUser'', takes_gives T_User T_User False),
      (''startContactMethodVerification'', takes_gives T_ContactMethod T_ContactMethod False),
      (''verifyContactMethod'', takes_gives T_VerifyContactMethodRequest T_ContactMethod False),
      (''deleteUser'', takes_gives T_User T_Empty False),
      (''sendMessage'', takes_gives T_SendMessageRequest T_Message False),
      (''getMessages'', takes_gives T_GetMessagesRequest T_GetMessagesResponse False),
      (''markMessagesRead'', takes_gives T_MarkMessagesReadRequest T_MarkMessagesReadResponse False),
      (''registerPushSubscription'', takes_gives T_RegisterPushSubscriptionRequest T_PushSubscription False)]"

definition service_two :: "(string \<times> signature) list" where
  "service_two =
     [(''unregisterPushSubscription'', takes_gives T_UnregisterPushSubscriptionRequest T_Empty False),
      (''getPushSubscriptionStatus'', takes_gives T_GetPushSubscriptionStatusRequest T_GetPushSubscriptionStatusResponse False),
      (''createFollow'', takes_gives T_Follow T_Follow False),
      (''updateFollow'', takes_gives T_Follow T_Follow False),
      (''deleteFollow'', takes_gives T_Follow T_Empty False),
      (''getGroups'', takes_gives T_GetGroupsRequest T_GetGroupsResponse False),
      (''createGroup'', takes_gives T_Group T_Group False),
      (''updateGroup'', takes_gives T_Group T_Group False),
      (''deleteGroup'', takes_gives T_Group T_Empty False),
      (''getMembers'', takes_gives T_GetMembersRequest T_GetMembersResponse False),
      (''createMembership'', takes_gives T_Membership T_Membership False),
      (''updateMembership'', takes_gives T_Membership T_Membership False),
      (''deleteMembership'', takes_gives T_Membership T_Empty False),
      (''getPosts'', takes_gives T_GetPostsRequest T_GetPostsResponse False),
      (''createPost'', takes_gives T_Post T_Post False),
      (''updatePost'', takes_gives T_Post T_Post False),
      (''deletePost'', takes_gives T_Post T_Post False),
      (''starPost'', takes_gives T_Post T_Post False),
      (''unstarPost'', takes_gives T_Post T_Post False),
      (''syncPost'', takes_gives T_SyncPostRequest T_Post False),
      (''deletePostSyncDestination'', takes_gives T_DeletePostSyncDestinationRequest T_Empty False),
      (''getGroupPosts'', takes_gives T_GetGroupPostsRequest T_GetGroupPostsResponse False),
      (''createGroupPost'', takes_gives T_GroupPost T_GroupPost False),
      (''updateGroupPost'', takes_gives T_GroupPost T_GroupPost False),
      (''deleteGroupPost'', takes_gives T_GroupPost T_Empty False),
      (''getEvents'', takes_gives T_GetEventsRequest T_GetEventsResponse False),
      (''createEvent'', takes_gives T_Event T_Event False),
      (''updateEvent'', takes_gives T_Event T_Event False),
      (''deleteEvent'', takes_gives T_Event T_Event False),
      (''updateEventDetails'', takes_gives T_Event T_Event False),
      (''createNewOccasions'', takes_gives T_Event T_Event False),
      (''updateOccasions'', takes_gives T_Event T_Event False),
      (''deleteRemovedOccasions'', takes_gives T_Event T_Event False),
      (''getSyncSources'', takes_gives T_User T_GetSyncSourcesResponse False),
      (''createSyncSource'', takes_gives T_SyncSource T_SyncSource False),
      (''updateSyncSource'', takes_gives T_SyncSource T_SyncSource False),
      (''deleteSyncSource'', takes_gives T_DeleteSyncSourceRequest T_Empty False)]"

definition service_three :: "(string \<times> signature) list" where
  "service_three =
     [(''getSyncDestinations'', takes_gives T_User T_GetSyncDestinationsResponse False),
      (''createSyncDestination'', takes_gives T_SyncDestination T_SyncDestination False),
      (''updateSyncDestination'', takes_gives T_SyncDestination T_SyncDestination False),
      (''deleteSyncDestination'', takes_gives T_DeleteSyncDestinationRequest T_Empty False),
      (''syncOccasion'', takes_gives T_SyncOccasionRequest T_Occasion False),
      (''deleteOccasionSyncDestination'', takes_gives T_DeleteOccasionSyncDestinationRequest T_Empty False),
      (''getAIProviders'', takes_gives T_User T_GetAIProvidersResponse False),
      (''createAIProvider'', takes_gives T_AIProvider T_AIProvider False),
      (''updateAIProvider'', takes_gives T_AIProvider T_AIProvider False),
      (''deleteAIProvider'', takes_gives T_DeleteAIProviderRequest T_Empty False),
      (''grantAIProvider'', takes_gives T_GrantAIProviderRequest T_AIProviderGrant False),
      (''revokeAIProvider'', takes_gives T_RevokeAIProviderRequest T_Empty False),
      (''getMarketProducts'', takes_gives T_GetMarketProductsRequest T_GetMarketProductsResponse False),
      (''createMarketProduct'', takes_gives T_MarketProduct T_MarketProduct False),
      (''updateMarketProduct'', takes_gives T_MarketProduct T_MarketProduct False),
      (''getMarketSubscriptions'', takes_gives T_GetMarketSubscriptionsRequest T_GetMarketSubscriptionsResponse False),
      (''makeMarketPurchase'', takes_gives T_MakeMarketPurchaseRequest T_MakeMarketPurchaseResponse False),
      (''cancelMarketSubscription'', takes_gives T_MarketSubscription T_MarketSubscription False),
      (''updateMarketSubscription'', takes_gives T_MarketSubscription T_MarketSubscription False),
      (''generateMedia'', takes_gives T_GenerateMediaRequest T_Media False),
      (''getRsvps'', takes_gives T_GetRsvpsRequest T_Rsvps False),
      (''upsertRsvp'', takes_gives T_Rsvp T_Rsvp False),
      (''deleteRsvp'', takes_gives T_Rsvp T_Empty False),
      (''federateProfile'', takes_gives T_FederatedAccount T_FederatedAccount False),
      (''defederateProfile'', takes_gives T_FederatedAccount T_Empty False)]"

definition service_four :: "(string \<times> signature) list" where
  "service_four =
     [(''configureServer'', takes_gives T_ServerConfiguration T_ServerConfiguration False),
      (''getCustomCSS'', takes_gives T_Empty T_CustomCSSConfiguration False),
      (''configureCustomCSS'', takes_gives T_CustomCSSConfiguration T_CustomCSSConfiguration False),
      (''deleteLinkPreviewImages'', takes_gives T_Empty T_Empty False),
      (''deleteUnownedMedia'', takes_gives T_Empty T_Empty False),
      (''lockClusterResources'', takes_gives T_LockClusterResourcesRequest T_LockClusterResourcesResponse False),
      (''freeClusterResources'', takes_gives T_FreeClusterResourcesRequest T_Empty False),
      (''resetData'', takes_gives T_Empty T_Empty False),
      (''streamReplies'', takes_gives T_Post T_Post True)]"

definition RellmServiceImplementation :: "(string \<times> signature) list" where
  "RellmServiceImplementation = service_one @ service_two @ service_three @ service_four"

text \<open>The interface of a client: partial requests, full answers.\<close>

definition client_one :: "(string \<times> signature) list" where
  "client_one =
     [(''getServiceVersion'', takes_gives T_Empty T_GetServiceVersionResponse False),
      (''getServerConfiguration'', takes_gives T_Empty T_ServerConfiguration False),
      (''createAccount'', takes_gives T_CreateAccountRequest T_RefreshTokenResponse False),
      (''login'', takes_gives T_LoginRequest T_RefreshTokenResponse False),
      (''accessToken'', takes_gives T_AccessTokenRequest T_AccessTokenResponse False),
      (''getCurrentUser'', takes_gives T_Empty T_User False),
      (''resetPassword'', takes_gives T_ResetPasswordRequest T_Empty False),
      (''getMedia'', takes_gives T_GetMediaRequest T_GetMediaResponse False),
      (''deleteMedia'', takes_gives T_Media T_Empty False),
      (''updateMedia'', takes_gives T_Media T_Media False),
      (''deleteMediaSizes'', takes_gives T_Media T_Media False),
      (''getUsers'', takes_gives T_GetUsersRequest T_GetUsersResponse False),
      (''updateUser'', takes_gives T_User T_User False),
      (''startContactMethodVerification'', takes_gives T_ContactMethod T_ContactMethod False),
      (''verifyContactMethod'', takes_gives T_VerifyContactMethodRequest T_ContactMethod False),
      (''deleteUser'', takes_gives T_User T_Empty False),
      (''sendMessage'', takes_gives T_SendMessageRequest T_Message False),
      (''getMessages'', takes_gives T_GetMessagesRequest T_GetMessagesResponse False),
      (''markMessagesRead'', takes_gives T_MarkMessagesReadRequest T_MarkMessagesReadResponse False),
      (''registerPushSubscription'', takes_gives T_RegisterPushSubscriptionRequest T_PushSubscription False)]"

definition client_two :: "(string \<times> signature) list" where
  "client_two =
     [(''unregisterPushSubscription'', takes_gives T_UnregisterPushSubscriptionRequest T_Empty False),
      (''getPushSubscriptionStatus'', takes_gives T_GetPushSubscriptionStatusRequest T_GetPushSubscriptionStatusResponse False),
      (''createFollow'', takes_gives T_Follow T_Follow False),
      (''updateFollow'', takes_gives T_Follow T_Follow False),
      (''deleteFollow'', takes_gives T_Follow T_Empty False),
      (''getGroups'', takes_gives T_GetGroupsRequest T_GetGroupsResponse False),
      (''createGroup'', takes_gives T_Group T_Group False),
      (''updateGroup'', takes_gives T_Group T_Group False),
      (''deleteGroup'', takes_gives T_Group T_Empty False),
      (''getMembers'', takes_gives T_GetMembersRequest T_GetMembersResponse False),
      (''createMembership'', takes_gives T_Membership T_Membership False),
      (''updateMembership'', takes_gives T_Membership T_Membership False),
      (''deleteMembership'', takes_gives T_Membership T_Empty False),
      (''getPosts'', takes_gives T_GetPostsRequest T_GetPostsResponse False),
      (''createPost'', takes_gives T_Post T_Post False),
      (''updatePost'', takes_gives T_Post T_Post False),
      (''deletePost'', takes_gives T_Post T_Post False),
      (''starPost'', takes_gives T_Post T_Post False),
      (''unstarPost'', takes_gives T_Post T_Post False),
      (''syncPost'', takes_gives T_SyncPostRequest T_Post False),
      (''deletePostSyncDestination'', takes_gives T_DeletePostSyncDestinationRequest T_Empty False),
      (''getGroupPosts'', takes_gives T_GetGroupPostsRequest T_GetGroupPostsResponse False),
      (''createGroupPost'', takes_gives T_GroupPost T_GroupPost False),
      (''updateGroupPost'', takes_gives T_GroupPost T_GroupPost False),
      (''deleteGroupPost'', takes_gives T_GroupPost T_Empty False),
      (''getEvents'', takes_gives T_GetEventsRequest T_GetEventsResponse False),
      (''createEvent'', takes_gives T_Event T_Event False),
      (''updateEvent'', takes_gives T_Event T_Event False),
      (''deleteEvent'', takes_gives T_Event T_Event False),
      (''updateEventDetails'', takes_gives T_Event T_Event False),
      (''createNewOccasions'', takes_gives T_Event T_Event False),
      (''updateOccasions'', takes_gives T_Event T_Event False),
      (''deleteRemovedOccasions'', takes_gives T_Event T_Event False),
      (''getSyncSources'', takes_gives T_User T_GetSyncSourcesResponse False),
      (''createSyncSource'', takes_gives T_SyncSource T_SyncSource False),
      (''updateSyncSource'', takes_gives T_SyncSource T_SyncSource False),
      (''deleteSyncSource'', takes_gives T_DeleteSyncSourceRequest T_Empty False)]"

definition client_three :: "(string \<times> signature) list" where
  "client_three =
     [(''getSyncDestinations'', takes_gives T_User T_GetSyncDestinationsResponse False),
      (''createSyncDestination'', takes_gives T_SyncDestination T_SyncDestination False),
      (''updateSyncDestination'', takes_gives T_SyncDestination T_SyncDestination False),
      (''deleteSyncDestination'', takes_gives T_DeleteSyncDestinationRequest T_Empty False),
      (''syncOccasion'', takes_gives T_SyncOccasionRequest T_Occasion False),
      (''deleteOccasionSyncDestination'', takes_gives T_DeleteOccasionSyncDestinationRequest T_Empty False),
      (''getAIProviders'', takes_gives T_User T_GetAIProvidersResponse False),
      (''createAIProvider'', takes_gives T_AIProvider T_AIProvider False),
      (''updateAIProvider'', takes_gives T_AIProvider T_AIProvider False),
      (''deleteAIProvider'', takes_gives T_DeleteAIProviderRequest T_Empty False),
      (''grantAIProvider'', takes_gives T_GrantAIProviderRequest T_AIProviderGrant False),
      (''revokeAIProvider'', takes_gives T_RevokeAIProviderRequest T_Empty False),
      (''getMarketProducts'', takes_gives T_GetMarketProductsRequest T_GetMarketProductsResponse False),
      (''createMarketProduct'', takes_gives T_MarketProduct T_MarketProduct False),
      (''updateMarketProduct'', takes_gives T_MarketProduct T_MarketProduct False),
      (''getMarketSubscriptions'', takes_gives T_GetMarketSubscriptionsRequest T_GetMarketSubscriptionsResponse False),
      (''makeMarketPurchase'', takes_gives T_MakeMarketPurchaseRequest T_MakeMarketPurchaseResponse False),
      (''cancelMarketSubscription'', takes_gives T_MarketSubscription T_MarketSubscription False),
      (''updateMarketSubscription'', takes_gives T_MarketSubscription T_MarketSubscription False),
      (''generateMedia'', takes_gives T_GenerateMediaRequest T_Media False),
      (''getRsvps'', takes_gives T_GetRsvpsRequest T_Rsvps False),
      (''upsertRsvp'', takes_gives T_Rsvp T_Rsvp False),
      (''deleteRsvp'', takes_gives T_Rsvp T_Empty False),
      (''federateProfile'', takes_gives T_FederatedAccount T_FederatedAccount False),
      (''defederateProfile'', takes_gives T_FederatedAccount T_Empty False)]"

definition client_four :: "(string \<times> signature) list" where
  "client_four =
     [(''configureServer'', takes_gives T_ServerConfiguration T_ServerConfiguration False),
      (''getCustomCSS'', takes_gives T_Empty T_CustomCSSConfiguration False),
      (''configureCustomCSS'', takes_gives T_CustomCSSConfiguration T_CustomCSSConfiguration False),
      (''deleteLinkPreviewImages'', takes_gives T_Empty T_Empty False),
      (''deleteUnownedMedia'', takes_gives T_Empty T_Empty False),
      (''lockClusterResources'', takes_gives T_LockClusterResourcesRequest T_LockClusterResourcesResponse False),
      (''freeClusterResources'', takes_gives T_FreeClusterResourcesRequest T_Empty False),
      (''resetData'', takes_gives T_Empty T_Empty False),
      (''streamReplies'', takes_gives T_Post T_Post True)]"

definition RellmClient :: "(string \<times> signature) list" where
  "RellmClient = client_one @ client_two @ client_three @ client_four"


lemmas method_tables = methods_one_def methods_two_def methods_three_def methods_four_def methods_five_def methods_six_def methods_seven_def methods_eight_def RellmDefinition_def service_one_def service_two_def service_three_def service_four_def RellmServiceImplementation_def client_one_def client_two_def client_three_def client_four_def RellmClient_def

section \<open>What the tables owe to each other\<close>

definition signature_of :: "rpc_method \<Rightarrow> signature" where
  "signature_of m = takes_gives (rpc_requestType m) (rpc_responseType m) (rpc_responseStream m)"

lemma inner_decoders:
  "decode_Post W = decode_message W (switch_Post_with (decode_Post W) W) base_Post"
  "decode_MarketSubscription W =
     decode_message W (switch_MarketSubscription_with (decode_MarketSubscription W) W) base_MarketSubscription"
  by (intro ext, rule decode_Post.simps decode_MarketSubscription.simps)+

lemmas decoder_equations = inner_decoders
  decode_Empty_def
  decode_GetServiceVersionResponse_def
  decode_ServerConfiguration_def
  decode_CreateAccountRequest_def
  decode_RefreshTokenResponse_def
  decode_LoginRequest_def
  decode_AccessTokenRequest_def
  decode_AccessTokenResponse_def
  decode_User_def
  decode_ResetPasswordRequest_def
  decode_GetMediaRequest_def
  decode_GetMediaResponse_def
  decode_Media_def
  decode_GetUsersRequest_def
  decode_GetUsersResponse_def
  decode_ContactMethod_def
  decode_VerifyContactMethodRequest_def
  decode_SendMessageRequest_def
  decode_Message_def
  decode_GetMessagesRequest_def
  decode_GetMessagesResponse_def
  decode_MarkMessagesReadRequest_def
  decode_MarkMessagesReadResponse_def
  decode_RegisterPushSubscriptionRequest_def
  decode_PushSubscription_def
  decode_UnregisterPushSubscriptionRequest_def
  decode_GetPushSubscriptionStatusRequest_def
  decode_GetPushSubscriptionStatusResponse_def
  decode_Follow_def
  decode_GetGroupsRequest_def
  decode_GetGroupsResponse_def
  decode_Group_def
  decode_GetMembersRequest_def
  decode_GetMembersResponse_def
  decode_Membership_def
  decode_GetPostsRequest_def
  decode_GetPostsResponse_def
  decode_SyncPostRequest_def
  decode_DeletePostSyncDestinationRequest_def
  decode_GetGroupPostsRequest_def
  decode_GetGroupPostsResponse_def
  decode_GroupPost_def
  decode_GetEventsRequest_def
  decode_GetEventsResponse_def
  decode_Event_def
  decode_GetSyncSourcesResponse_def
  decode_SyncSource_def
  decode_DeleteSyncSourceRequest_def
  decode_GetSyncDestinationsResponse_def
  decode_SyncDestination_def
  decode_DeleteSyncDestinationRequest_def
  decode_SyncOccasionRequest_def
  decode_Occasion_def
  decode_DeleteOccasionSyncDestinationRequest_def
  decode_GetAIProvidersResponse_def
  decode_AIProvider_def
  decode_DeleteAIProviderRequest_def
  decode_GrantAIProviderRequest_def
  decode_AIProviderGrant_def
  decode_RevokeAIProviderRequest_def
  decode_GetMarketProductsRequest_def
  decode_GetMarketProductsResponse_def
  decode_MarketProduct_def
  decode_GetMarketSubscriptionsRequest_def
  decode_GetMarketSubscriptionsResponse_def
  decode_MakeMarketPurchaseRequest_def
  decode_MakeMarketPurchaseResponse_def
  decode_GenerateMediaRequest_def
  decode_GetRsvpsRequest_def
  decode_Rsvps_def
  decode_Rsvp_def
  decode_FederatedAccount_def
  decode_CustomCSSConfiguration_def
  decode_LockClusterResourcesRequest_def
  decode_LockClusterResourcesResponse_def
  decode_FreeClusterResourcesRequest_def

text \<open>
  the interface a client is typed with and the one a server is typed with declare the methods of the
  definition the gRPC library works from, in their order, with the same messages and the same kind of answer.
\<close>

theorem interfaces_agree:
  "RellmClient = map (\<lambda>(k, m). (k, signature_of m)) RellmDefinition \<and>
   RellmServiceImplementation = map (\<lambda>(k, m). (k, signature_of m)) RellmDefinition"
  unfolding method_tables append.simps list.map prod.case signature_of_def unary_def rpc_method.simps
  by (rule conjI; rule refl)

text \<open>The path of a method is made of its name, which is the name of the function with a capital letter.\<close>

definition capital :: "string \<Rightarrow> string" where
  "capital s = (case s of [] \<Rightarrow> [] | c # cs \<Rightarrow> char_of (of_char c - 32 :: nat) # cs)"

lemma method_names: "list_all (\<lambda>(k, m). rpc_name m = capital k \<and> \<not> rpc_requestStream m) RellmDefinition"
  unfolding method_tables append.simps list.pred_inject prod.case unary_def rpc_method.simps capital_def list.case
  by (simp add: char_of_def bit_0)

text \<open>
  C4: a method the client declares is declared with the same messages by the server, the gRPC library calls it
  by its name with just these messages, and both come through their codecs: a request or an answer that could be written is
  read as it was, if its dates are in the notation of \<open>toISOString\<close> and its 64-bit numbers are ones the client can hold, and
  reading ends on any bytes.  A date in another notation, such as one with an offset, is read as the same moment in that
  notation.
\<close>

theorem calls_carried:
  assumes "wire_format W" "map_of RellmClient k = Some sig"
  shows "map_of RellmServiceImplementation k = Some sig \<and>
    (\<exists>m. map_of RellmDefinition k = Some m \<and> signature_of m = sig \<and> rpc_name m = capital k \<and> \<not> rpc_requestStream m) \<and>
    carried W (sig_request sig) \<and> carried W (sig_response sig) \<and>
    (\<forall>s t. date_value (other_dates W) s = Some t \<and> \<bar>t\<bar> \<le> max_time \<longrightarrow>
      (\<exists>ts. toTimestamp (other_dates W) s = Some ts \<and> fromTimestamp ts = Inr (toISOString t)))"
proof -
  have "carried W t" for t
    by (cases t; simp only: carried.simps)
      (rule carries_messagesI, rule message_codecs [OF assms(1)], assumption+,
        rule decoder_equations, rule message_returns [OF assms(1)])+
  moreover obtain m where "map_of RellmDefinition k = Some m" "signature_of m = sig"
    using assms(2) unfolding interfaces_agree [THEN conjunct1] map_of_map by auto
  moreover from this(1) method_names have "rpc_name m = capital k" "\<not> rpc_requestStream m"
    by (auto simp: list_all_iff dest!: map_of_SomeD)
  moreover have "map_of RellmServiceImplementation k = Some sig"
    using assms(2) interfaces_agree [THEN conjunct1] interfaces_agree [THEN conjunct2] by metis
  ultimately show ?thesis
    using timestamp_moment [of "other_dates W"] by auto
qed

theorem calls_carried_witness:
  "carried ref_wire T_LoginRequest \<and> carried ref_wire T_RefreshTokenResponse"
proof -
  have "map_of RellmClient ''login'' = Some (takes_gives T_LoginRequest T_RefreshTokenResponse False)"
    by (simp add: RellmClient_def client_one_def)
  from calls_carried [OF reference.wire_format_axioms this] show ?thesis by (simp add: takes_gives_def)
qed

end
