(* ===== verification/Json.thy ===== *)
theory Json
  imports Js_Date
begin

text \<open>
  What the JSON side of the generated codecs has in common: JavaScript values as JSON documents hold them, the
  conversions \<open>String(x)\<close>, \<open>Number(x)\<close> and \<open>Boolean(x)\<close>, the way a field is read off an object and put on one, and
  the calculus that carries the round trip of every message.
\<close>

section \<open>Values\<close>

text \<open>
  An object is the list of its properties, whose names are distinct; a property that is not there is \<open>undefined\<close>.
  Numbers are finite; where the code would go on with \<open>NaN\<close> or an infinity, or with a value its types exclude, the
  model stops with \<open>Untyped\<close>.
\<close>

datatype json =
    JNull
  | JBool bool
  | JNum rat
  | JStr string
  | JArr "json list"
  | JObj "(string \<times> json) list"

text \<open>
  \<open>object.f\<close>.  A string has the methods of its prototype: of the names of fields only \<open>link\<close> is one, and what the code
  makes of that function is outside the model.
\<close>

fun get_prop :: "json \<Rightarrow> string \<Rightarrow> json option result" where
  "get_prop JNull k = Inl TypeError"
| "get_prop (JObj ms) k = Inr (map_of ms k)"
| "get_prop (JStr s) k = (if k = ''link'' then Inl Untyped else Inr None)"
| "get_prop v k = Inr None"

text \<open>\<open>isSet(object.f)\<close>, and the value if it is set.\<close>

definition set_value :: "json option \<Rightarrow> json option" where
  "set_value x = (case x of Some JNull \<Rightarrow> None | _ \<Rightarrow> x)"

lemma set_value_simps [simp]:
  "set_value None = None" "set_value (Some JNull) = None" "v \<noteq> JNull \<Longrightarrow> set_value (Some v) = Some v"
  by (auto simp: set_value_def split: json.splits)

lemma set_value_Some: "set_value x = Some v \<longleftrightarrow> x = Some v \<and> v \<noteq> JNull"
  by (auto simp: set_value_def split: option.splits json.splits)


section \<open>Numbers as strings\<close>

text \<open>The digits of a number and its decimal magnitude: \<open>10 powi (n - 1) \<le> x < 10 powi n\<close> for \<open>n = magnitude x\<close>.\<close>

fun decimal_digits :: "nat \<Rightarrow> string" where
  "decimal_digits n = (if n < 10 then [digit (int n)] else decimal_digits (n div 10) @ [digit (int (n mod 10))])"

declare decimal_digits.simps [simp del]

definition magnitude :: "rat \<Rightarrow> int" where
  "magnitude x =
     (if x \<ge> 1 then int (floorlog 10 (nat \<lfloor>x\<rfloor>)) else 1 - int (floorlog 10 (nat (\<lceil>1 / x\<rceil> - 1))))"

text \<open>
  The double a decimal value denotes: 53 significant bits, no bit below \<open>2 powi (-1074)\<close>; a value of at least
  \<open>2 ^ 1024\<close> after rounding is infinite, which is \<open>None\<close> here.
\<close>

definition to_double :: "rat \<Rightarrow> rat option" where
  "to_double x =
     (if x = 0 then Some 0
      else (let e = max (double_exponent \<bar>x\<bar>) (- 1074); y = of_int (round_even (x / 2 powi e)) * 2 powi e
            in if \<bar>y\<bar> < 2 ^ 1024 then Some y else None))"

text \<open>
  \<open>Number::toString\<close>: the shortest digits \<open>s\<close> and the exponent \<open>n\<close> such that \<open>s * 10 powi (n - k)\<close> denotes the number,
  \<open>k\<close> being the number of digits; of two candidates the closer one.
\<close>

definition decimal_candidate :: "rat \<Rightarrow> nat \<Rightarrow> (nat \<times> int) option" where
  "decimal_candidate x k =
     (let n = magnitude x; lo = nat \<lfloor>x / 10 powi (n - int k)\<rfloor>;
          fits = (\<lambda>(s, n). to_double (of_nat s * 10 powi (n - int k)) = Some x);
          up = (if lo + 1 = 10 ^ k then (10 ^ (k - 1), n + 1) else (lo + 1, n));
          dist = (\<lambda>(s, n). \<bar>of_nat s * 10 powi (n - int k) - x\<bar>)
      in if fits (lo, n) \<and> (\<not> fits up \<or> dist (lo, n) \<le> dist up) then Some (lo, n)
         else if fits up then Some up else None)"

fun shortest_decimal :: "rat \<Rightarrow> nat list \<Rightarrow> nat \<times> nat \<times> int" where
  "shortest_decimal x [] = (0, 1, 1)"
| "shortest_decimal x (k # ks) =
     (case decimal_candidate x k of Some (s, n) \<Rightarrow> (s, k, n) | None \<Rightarrow> shortest_decimal x ks)"

definition positive_number_string :: "rat \<Rightarrow> string" where
  "positive_number_string x =
     (let (s, k, n) = shortest_decimal x [1..<18]; ds = decimal_digits s; e = n - 1
      in if int k \<le> n \<and> n \<le> 21 then ds @ replicate (nat (n - int k)) (CHR ''0'')
         else if 0 < n \<and> n \<le> 21 then take (nat n) ds @ ''.'' @ drop (nat n) ds
         else if - 6 < n \<and> n \<le> 0 then ''0.'' @ replicate (nat (- n)) (CHR ''0'') @ ds
         else take 1 ds @ (if k = 1 then [] else ''.'' @ drop 1 ds) @ ''e'' @ (if e < 0 then ''-'' else ''+'')
           @ decimal_digits (nat \<bar>e\<bar>))"

definition number_string :: "rat \<Rightarrow> string" where
  "number_string x =
     (if x = 0 then ''0'' else if x < 0 then CHR ''-'' # positive_number_string (- x) else positive_number_string x)"

text \<open>Reading a string as a number: white space around it, a radix prefix, or a decimal literal.\<close>

definition white :: "char \<Rightarrow> bool" where
  "white c \<longleftrightarrow> (of_char c :: nat) \<in> {9, 10, 11, 12, 13, 32, 160}"

definition trim_white :: "string \<Rightarrow> string" where
  "trim_white s = rev (dropWhile white (rev (dropWhile white s)))"

definition digit_in :: "nat \<Rightarrow> char \<Rightarrow> nat option" where
  "digit_in base c =
     (let v = of_char c :: nat;
          d = (if 48 \<le> v \<and> v \<le> 57 then Some (v - 48)
               else if 97 \<le> v \<and> v \<le> 102 then Some (v - 87)
               else if 65 \<le> v \<and> v \<le> 70 then Some (v - 55) else None)
      in case d of Some n \<Rightarrow> if n < base then Some n else None | None \<Rightarrow> None)"

fun digits_in :: "nat \<Rightarrow> nat \<Rightarrow> string \<Rightarrow> nat option" where
  "digits_in base n [] = Some n"
| "digits_in base n (c # cs) = (case digit_in base c of Some d \<Rightarrow> digits_in base (base * n + d) cs | None \<Rightarrow> None)"

definition is_digit :: "char \<Rightarrow> bool" where
  "is_digit c \<longleftrightarrow> digit_in 10 c \<noteq> None"

definition exponent_part :: "string \<Rightarrow> int option" where
  "exponent_part s =
     (case s of
        [] \<Rightarrow> Some 0
      | c # cs \<Rightarrow>
          if c = CHR ''e'' \<or> c = CHR ''E''
          then (let neg = take 1 cs = ''-''; ds = (if neg \<or> take 1 cs = ''+'' then drop 1 cs else cs)
                in if ds = [] then None
                   else map_option (\<lambda>n. if neg then - int n else int n) (digits_in 10 0 ds))
          else None)"

definition unsigned_decimal :: "string \<Rightarrow> rat option" where
  "unsigned_decimal s =
     (let whole = takeWhile is_digit s; r = dropWhile is_digit s;
          dotted = take 1 r = ''.''; r1 = (if dotted then drop 1 r else r);
          part = (if dotted then takeWhile is_digit r1 else []); r2 = (if dotted then dropWhile is_digit r1 else r1)
      in if whole = [] \<and> part = [] then None
         else case (digits_in 10 0 (whole @ part), exponent_part r2) of
                (Some n, Some e) \<Rightarrow> to_double (of_nat n * 10 powi (e - int (length part)))
              | _ \<Rightarrow> None)"

definition string_number :: "string \<Rightarrow> rat option" where
  "string_number s =
     (let t = trim_white s; prefix = take 2 t; rest = drop 2 t;
          radix = (\<lambda>b. if rest = [] then None else Option.bind (map_option of_nat (digits_in b 0 rest)) to_double)
      in if t = [] then Some 0
         else if prefix = ''0x'' \<or> prefix = ''0X'' then radix 16
         else if prefix = ''0o'' \<or> prefix = ''0O'' then radix 8
         else if prefix = ''0b'' \<or> prefix = ''0B'' then radix 2
         else if take 1 t = ''-'' then map_option uminus (unsigned_decimal (drop 1 t))
         else if take 1 t = ''+'' then unsigned_decimal (drop 1 t)
         else unsigned_decimal t)"


section \<open>Conversions\<close>

text \<open>
  \<open>String(v)\<close>: an array is joined with commas, an object is its tag, unless a property of its own hides the
  \<open>toString\<close> of its prototype.
\<close>

fun join_strings :: "string list \<Rightarrow> string" where
  "join_strings [] = []"
| "join_strings [s] = s"
| "join_strings (s # t # ss) = s @ '','' @ join_strings (t # ss)"

fun all_results :: "'a result list \<Rightarrow> 'a list result" where
  "all_results [] = Inr []"
| "all_results (r # rs) = bind_result r (\<lambda>x. bind_result (all_results rs) (\<lambda>xs. Inr (x # xs)))"

fun js_String :: "json \<Rightarrow> string result" where
  "js_String JNull = Inr ''null''"
| "js_String (JBool b) = Inr (if b then ''true'' else ''false'')"
| "js_String (JNum x) = Inr (number_string x)"
| "js_String (JStr s) = Inr s"
| "js_String (JArr vs) =
     bind_result (all_results (map (\<lambda>v. if v = JNull then Inr [] else js_String v) vs)) (\<lambda>ss. Inr (join_strings ss))"
| "js_String (JObj ms) = (if ''toString'' \<in> fst ` set ms then Inl TypeError else Inr ''[object Object]'')"

text \<open>\<open>Number(v)\<close>; \<open>NaN\<close> and the infinities are outside the model.\<close>

definition js_Number :: "json \<Rightarrow> rat result" where
  "js_Number v =
     (let read = (\<lambda>s. case string_number s of Some x \<Rightarrow> Inr x | None \<Rightarrow> Inl Untyped)
      in case v of
           JNull \<Rightarrow> Inr 0
         | JBool b \<Rightarrow> Inr (if b then 1 else 0)
         | JNum x \<Rightarrow> Inr x
         | JStr s \<Rightarrow> read s
         | _ \<Rightarrow> bind_result (js_String v) read)"

text \<open>The fields with whole numbers are integers in the model; a fraction in one of them is outside of it.\<close>

definition whole :: "rat \<Rightarrow> int result" where
  "whole x = (if of_int \<lfloor>x\<rfloor> = x then Inr \<lfloor>x\<rfloor> else Inl Untyped)"

definition js_Integer :: "json \<Rightarrow> int result" where
  "js_Integer v = bind_result (js_Number v) whole"

text \<open>\<open>Boolean(v)\<close>.\<close>

definition js_Boolean :: "json \<Rightarrow> bool result" where
  "js_Boolean v =
     Inr (case v of JNull \<Rightarrow> False | JBool b \<Rightarrow> b | JNum x \<Rightarrow> x \<noteq> 0 | JStr s \<Rightarrow> s \<noteq> [] | _ \<Rightarrow> True)"

lemma conversions_back [simp]:
  "js_String (JStr s) = Inr s" "js_Number (JNum x) = Inr x" "js_Integer (JNum (of_int n)) = Inr n"
  "js_Boolean (JBool b) = Inr b"
  by (simp_all add: js_Number_def js_Integer_def whole_def js_Boolean_def)

text \<open>
  A value where \<open>fromPartial\<close> expects one of a type: it is taken as it is, and one of another type is outside the
  model.
\<close>

definition as_string :: "json \<Rightarrow> string result" where
  "as_string v = (case v of JStr s \<Rightarrow> Inr s | _ \<Rightarrow> Inl Untyped)"

definition as_number :: "json \<Rightarrow> rat result" where
  "as_number v = (case v of JNum x \<Rightarrow> Inr x | _ \<Rightarrow> Inl Untyped)"

definition as_integer :: "json \<Rightarrow> int result" where
  "as_integer v = bind_result (as_number v) whole"

definition as_bool :: "json \<Rightarrow> bool result" where
  "as_bool v = (case v of JBool b \<Rightarrow> Inr b | _ \<Rightarrow> Inl Untyped)"


section \<open>Enumerations\<close>

text \<open>
  The two switches of an enumeration over the table of its numbers and names; a value of neither is
  \<open>UNRECOGNIZED\<close>, the number -1.
\<close>

type_synonym enumeration = "(int \<times> string) list"

definition enumFromJSON :: "enumeration \<Rightarrow> json \<Rightarrow> int" where
  "enumFromJSON table v =
     (case find (\<lambda>(n, s). v = JNum (of_int n) \<or> v = JStr s) table of Some (n, s) \<Rightarrow> n | None \<Rightarrow> - 1)"

definition enumToJSON :: "enumeration \<Rightarrow> int \<Rightarrow> string" where
  "enumToJSON table n =
     (case find (\<lambda>(n', s). n' = n) table of Some (n', s) \<Rightarrow> s | None \<Rightarrow> ''UNRECOGNIZED'')"

definition from_enum :: "enumeration \<Rightarrow> json \<Rightarrow> int result" where
  "from_enum table v = Inr (enumFromJSON table v)"

definition to_enum :: "enumeration \<Rightarrow> int \<Rightarrow> json" where
  "to_enum table n = JStr (enumToJSON table n)"

definition known_enum :: "enumeration \<Rightarrow> int \<Rightarrow> bool" where
  "known_enum table n \<longleftrightarrow> n \<in> fst ` set table \<or> n = - 1"

definition proper_enum :: "enumeration \<Rightarrow> bool" where
  "proper_enum table \<longleftrightarrow>
     distinct (map fst table) \<and> distinct (map snd table) \<and> ''UNRECOGNIZED'' \<notin> snd ` set table \<and> - 1 \<notin> fst ` set table"

lemma enum_back:
  assumes "proper_enum table" "known_enum table n"
  shows "enumFromJSON table (JStr (enumToJSON table n)) = n"
proof (cases "n = - 1")
  case True
  have "find (\<lambda>(n', s). n' = n) table = None" "find (\<lambda>(n', s). s = ''UNRECOGNIZED'') table = None"
    using assms(1) True by (force simp: find_None_iff proper_enum_def)+
  then show ?thesis using True by (simp add: enumFromJSON_def enumToJSON_def eq_commute [of "''UNRECOGNIZED''"])
next
  case False
  then obtain s where s: "(n, s) \<in> set table" using assms(2) by (auto simp: known_enum_def)
  have "find (\<lambda>(n', s). n' = n) t = Some (n, s)" "find (\<lambda>(n', s'). s' = s) t = Some (n, s)"
    if "(n, s) \<in> set t" "distinct (map fst t)" "distinct (map snd t)" for t
    using that by (induction t) force+
  then have "find (\<lambda>(n', s). n' = n) table = Some (n, s)" "find (\<lambda>(n', s'). s' = s) table = Some (n, s)"
    using assms(1) s by (simp_all add: proper_enum_def)
  then show ?thesis by (simp add: enumFromJSON_def enumToJSON_def eq_commute [of s])
qed

lemma from_to_enum [simp]: "proper_enum table \<Longrightarrow> known_enum table n \<Longrightarrow> from_enum table (to_enum table n) = Inr n"
  by (simp add: from_enum_def to_enum_def enum_back)


section \<open>Reading a message off an object\<close>

text \<open>
  The fields are read in the order of the source, and the first that throws ends it.
  \<open>f: isSet(object.f) ? conv(object.f) : d\<close>; \<open>f: isSet(object.f) ? conv(object.f) : undefined\<close>;
  \<open>f: Array.isArray(object?.f) ? object.f.map(conv) : []\<close>.
\<close>

definition plain_field ::
  "json \<Rightarrow> string \<Rightarrow> (json \<Rightarrow> 'a result) \<Rightarrow> 'a \<Rightarrow> (('a \<Rightarrow> 'a) \<Rightarrow> 'm \<Rightarrow> 'm) \<Rightarrow> 'm \<Rightarrow> 'm result" where
  "plain_field obj k conv d upd m =
     bind_result (get_prop obj k) (\<lambda>x. case set_value x of
         None \<Rightarrow> Inr (upd (\<lambda>_. d) m)
       | Some v \<Rightarrow> bind_result (conv v) (\<lambda>y. Inr (upd (\<lambda>_. y) m)))"

definition optional_field ::
  "json \<Rightarrow> string \<Rightarrow> (json \<Rightarrow> 'a result) \<Rightarrow> (('a option \<Rightarrow> 'a option) \<Rightarrow> 'm \<Rightarrow> 'm) \<Rightarrow> 'm \<Rightarrow> 'm result" where
  "optional_field obj k conv upd m =
     bind_result (get_prop obj k) (\<lambda>x. case set_value x of
         None \<Rightarrow> Inr (upd (\<lambda>_. None) m)
       | Some v \<Rightarrow> bind_result (conv v) (\<lambda>y. Inr (upd (\<lambda>_. Some y) m)))"

definition list_field ::
  "json \<Rightarrow> string \<Rightarrow> (json \<Rightarrow> 'a result) \<Rightarrow> (('a list \<Rightarrow> 'a list) \<Rightarrow> 'm \<Rightarrow> 'm) \<Rightarrow> 'm \<Rightarrow> 'm result" where
  "list_field obj k conv upd m =
     (if obj = JNull then Inr (upd (\<lambda>_. []) m)
      else bind_result (get_prop obj k) (\<lambda>x. case x of
         Some (JArr vs) \<Rightarrow> bind_result (all_results (map conv vs)) (\<lambda>ys. Inr (upd (\<lambda>_. ys) m))
       | _ \<Rightarrow> Inr (upd (\<lambda>_. []) m)))"

text \<open>\<open>message.f = object.f?.map(conv) || []\<close> of \<open>fromPartial\<close>.\<close>

definition mapped_field ::
  "json \<Rightarrow> string \<Rightarrow> (json \<Rightarrow> 'a result) \<Rightarrow> (('a list \<Rightarrow> 'a list) \<Rightarrow> 'm \<Rightarrow> 'm) \<Rightarrow> 'm \<Rightarrow> 'm result" where
  "mapped_field obj k conv upd m =
     bind_result (get_prop obj k) (\<lambda>x. case set_value x of
         None \<Rightarrow> Inr (upd (\<lambda>_. []) m)
       | Some (JArr vs) \<Rightarrow> bind_result (all_results (map conv vs)) (\<lambda>ys. Inr (upd (\<lambda>_. ys) m))
       | Some _ \<Rightarrow> Inl TypeError)"

fun read_fields :: "('m \<Rightarrow> 'm result) list \<Rightarrow> 'm \<Rightarrow> 'm result" where
  "read_fields [] m = Inr m"
| "read_fields (s # ss) m = bind_result (s m) (read_fields ss)"

text \<open>\<open>X.create(base)\<close>: \<open>X.fromPartial(base ?? {})\<close>.\<close>

definition create_with :: "(json \<Rightarrow> 'm result) \<Rightarrow> json option \<Rightarrow> 'm result" where
  "create_with fromPartial base = fromPartial (nullish (Option.bind base (\<lambda>v. set_value (Some v))) (JObj []))"


text \<open>Nothing is given: every field has its default.\<close>

lemma nothing_given [simp]:
  "plain_field (JObj []) k conv d upd m = Inr (upd (\<lambda>_. d) m)"
  "optional_field (JObj []) k conv' upd' m = Inr (upd' (\<lambda>_. None) m)"
  "mapped_field (JObj []) k conv'' upd'' m = Inr (upd'' (\<lambda>_. []) m)"
  by (simp_all add: plain_field_def optional_field_def mapped_field_def)

lemma create_with_nothing [simp]: "create_with fromPartial None = fromPartial (JObj [])"
  by (simp add: create_with_def nullish_def)


section \<open>Putting a message on an object\<close>

text \<open>\<open>if (c) { obj.f = v; }\<close>.\<close>

definition put_when :: "bool \<Rightarrow> json \<Rightarrow> json option" where
  "put_when c v = (if c then Some v else None)"

definition put_given :: "'a option \<Rightarrow> ('a \<Rightarrow> json) \<Rightarrow> json option" where
  "put_given x conv = map_option conv x"

definition put_list :: "'a list \<Rightarrow> ('a \<Rightarrow> json) \<Rightarrow> json option" where
  "put_list vs conv = (if vs = [] then None else Some (JArr (map conv vs)))"

definition object_of :: "(string \<times> json option) list \<Rightarrow> json" where
  "object_of ps = JObj (concat (map (\<lambda>(k, x). case x of None \<Rightarrow> [] | Some v \<Rightarrow> [(k, v)]) ps))"

text \<open>\<open>Math.round(n)\<close> of a whole number.\<close>

definition number :: "int \<Rightarrow> json" where
  "number n = JNum (of_int n)"

lemma map_of_given:
  "distinct (map fst ps) \<Longrightarrow>
     map_of (concat (map (\<lambda>(k, x). case x of None \<Rightarrow> [] | Some v \<Rightarrow> [(k, v)]) ps)) k = Option.bind (map_of ps k) id"
proof (induction ps)
  case (Cons p ps)
  obtain k' x where p: "p = (k', x)" by fastforce
  have "map_of ps k' = None" using Cons.prems p by (simp add: map_of_eq_None_iff)
  then show ?case using Cons p by (cases x) auto
qed simp

lemma object_of_get:
  assumes "distinct (map fst ps)"
  shows "list_all (\<lambda>(k, x). get_prop (object_of ps) k = Inr x) ps"
proof -
  have "get_prop (object_of ps) k = Inr x" if "(k, x) \<in> set ps" for k x
    using map_of_is_SomeI [OF assms that] by (simp add: object_of_def map_of_given [OF assms])
  then show ?thesis by (auto simp: list_all_iff)
qed

lemma object_of_not_null [simp]: "object_of ps \<noteq> JNull"
  by (simp add: object_of_def)


section \<open>A field that comes back\<close>

definition restores :: "('m \<Rightarrow> 'm result) \<Rightarrow> ('m \<Rightarrow> 'm) \<Rightarrow> bool" where
  "restores step u \<longleftrightarrow> (\<forall>m. step m = Inr (u m))"

lemma read_fields_restored:
  assumes "list_all2 restores steps us"
  shows "read_fields steps m = Inr (foldl (\<lambda>m u. u m) m us)"
  using assms by (induction steps us arbitrary: m rule: list_all2_induct) (simp_all add: restores_def)

lemma restores_plain:
  assumes "get_prop obj k = Inr (put_when (v \<noteq> d) c)" "v \<noteq> d \<Longrightarrow> c \<noteq> JNull \<and> conv c = Inr v"
  shows "restores (plain_field obj k conv d upd) (upd (\<lambda>_. v))"
  using assms by (auto simp: restores_def plain_field_def put_when_def)

lemma restores_optional:
  assumes "get_prop obj k = Inr (put_given x c)" "\<And>v. x = Some v \<Longrightarrow> c v \<noteq> JNull \<and> conv (c v) = Inr v"
  shows "restores (optional_field obj k conv upd) (upd (\<lambda>_. x))"
  using assms by (cases x) (auto simp: restores_def optional_field_def put_given_def)

lemma all_results_back:
  "(\<And>v. v \<in> set vs \<Longrightarrow> conv (c v) = Inr v) \<Longrightarrow> all_results (map conv (map c vs)) = Inr vs"
  by (induction vs) simp_all

lemma restores_list:
  assumes "get_prop obj k = Inr (put_list vs c)" "\<And>v. v \<in> set vs \<Longrightarrow> conv (c v) = Inr v" "obj \<noteq> JNull"
  shows "restores (list_field obj k conv upd) (upd (\<lambda>_. vs))"
  using assms all_results_back [of vs conv c]
  by (auto simp: restores_def list_field_def put_list_def)

text \<open>A whole message.\<close>

lemma message_restored:
  assumes "j = object_of ps" "distinct (map fst ps)"
    and "list_all (\<lambda>(k, x). get_prop j k = Inr x) ps \<Longrightarrow> list_all2 restores steps us"
    and "foldl (\<lambda>m u. u m) base us = m"
  shows "read_fields steps base = Inr m"
  using read_fields_restored assms object_of_get by metis

text \<open>
  The rules per type of field.  For enumerations a premise about the value is left, for messages what is known of
  their round trip.
\<close>

lemma restores_plain_values:
  "get_prop obj k = Inr (put_when (s \<noteq> []) (JStr s)) \<Longrightarrow> restores (plain_field obj k js_String [] us) (us (\<lambda>_. s))"
  "get_prop obj k = Inr (put_when (n \<noteq> 0) (number n)) \<Longrightarrow> restores (plain_field obj k js_Integer 0 un) (un (\<lambda>_. n))"
  "get_prop obj k = Inr (put_when (b \<noteq> False) (JBool b)) \<Longrightarrow> restores (plain_field obj k js_Boolean False ub) (ub (\<lambda>_. b))"
  by (rule restores_plain, assumption, simp add: number_def)+

lemma restores_optional_values:
  "get_prop obj k = Inr (put_given s JStr) \<Longrightarrow> restores (optional_field obj k js_String us) (us (\<lambda>_. s))"
  "get_prop obj k = Inr (put_given n number) \<Longrightarrow> restores (optional_field obj k js_Integer un) (un (\<lambda>_. n))"
  "get_prop obj k = Inr (put_given x JNum) \<Longrightarrow> restores (optional_field obj k js_Number ux) (ux (\<lambda>_. x))"
  "get_prop obj k = Inr (put_given b JBool) \<Longrightarrow> restores (optional_field obj k js_Boolean ub) (ub (\<lambda>_. b))"
  by (rule restores_optional, assumption, simp add: number_def)+

lemma restores_list_values:
  "get_prop obj k = Inr (put_list ss JStr) \<Longrightarrow> obj \<noteq> JNull \<Longrightarrow> restores (list_field obj k js_String us) (us (\<lambda>_. ss))"
  "get_prop obj k = Inr (put_list ns number) \<Longrightarrow> obj \<noteq> JNull \<Longrightarrow> restores (list_field obj k js_Integer un) (un (\<lambda>_. ns))"
  by (rule restores_list, assumption, simp add: number_def, assumption)+

lemma to_enum_set: "to_enum table n \<noteq> JNull"
  by (simp add: to_enum_def)

lemma restores_enums:
  "get_prop obj k = Inr (put_when (n \<noteq> 0) (to_enum table n)) \<Longrightarrow> known_enum table n \<Longrightarrow> proper_enum table \<Longrightarrow>
     restores (plain_field obj k (from_enum table) 0 u) (u (\<lambda>_. n))"
  "get_prop obj k = Inr (put_given x (to_enum table)) \<Longrightarrow> pred_option (known_enum table) x \<Longrightarrow> proper_enum table \<Longrightarrow>
     restores (optional_field obj k (from_enum table) u') (u' (\<lambda>_. x))"
  "get_prop obj k = Inr (put_list ns (to_enum table)) \<Longrightarrow> list_all (known_enum table) ns \<Longrightarrow> proper_enum table \<Longrightarrow>
     obj \<noteq> JNull \<Longrightarrow> restores (list_field obj k (from_enum table) u'') (u'' (\<lambda>_. ns))"
  by (rule restores_plain, assumption, simp add: to_enum_set)
    (rule restores_optional restores_list, assumption, simp add: to_enum_set list_all_iff, assumption?)+

definition comes_back :: "(json \<Rightarrow> 'a result) \<Rightarrow> ('a \<Rightarrow> json) \<Rightarrow> 'a \<Rightarrow> bool" where
  "comes_back conv c v \<longleftrightarrow> c v \<noteq> JNull \<and> conv (c v) = Inr v"

lemma comes_backI: "conv (c v) = Inr v \<Longrightarrow> c v \<noteq> JNull \<Longrightarrow> comes_back conv c v"
  by (simp add: comes_back_def)

lemma restores_messages:
  "get_prop obj k = Inr (put_given x c) \<Longrightarrow> pred_option (comes_back conv c) x \<Longrightarrow>
     restores (optional_field obj k conv u) (u (\<lambda>_. x))"
  "get_prop obj k = Inr (put_list vs c) \<Longrightarrow> list_all (comes_back conv c) vs \<Longrightarrow> obj \<noteq> JNull \<Longrightarrow>
     restores (list_field obj k conv u') (u' (\<lambda>_. vs))"
  by (rule restores_optional restores_list, assumption, simp add: comes_back_def list_all_iff, assumption?)+

lemma known_values:
  "pred_option K x \<Longrightarrow> (\<And>v. K v \<Longrightarrow> P v) \<Longrightarrow> pred_option P x"
  "list_all K vs \<Longrightarrow> (\<And>v. K v \<Longrightarrow> P v) \<Longrightarrow> list_all P vs"
  by (cases x; simp) (simp add: list_all_iff)

lemma any_values: "(\<And>v. P v) \<Longrightarrow> pred_option P x" "(\<And>v. P v) \<Longrightarrow> list_all P vs"
  by (cases x; simp) (simp add: list_all_iff)

lemmas json_fields = list.rel_intros restores_plain_values restores_optional_values restores_list_values
  restores_enums restores_messages

named_theorems json_set
  "what a message or an enumeration is written as is no \<open>null\<close>"

named_theorems json_codecs
  "a message read off the object made of it, for the messages that contain it"


section \<open>Messages that contain themselves\<close>

lemma get_prop_smaller: "get_prop obj k = Inr (Some v) \<Longrightarrow> size v < size obj"
  by (induction obj k rule: get_prop.induct)
    (force dest!: map_of_SomeD split: if_splits simp: less_Suc_eq_le intro: size_list_estimation')+

lemma plain_field_cong [fundef_cong]:
  "obj = obj' \<Longrightarrow> (\<And>v. size v < size obj' \<Longrightarrow> f v = g v) \<Longrightarrow> plain_field obj k f d upd m = plain_field obj' k g d upd m"
  using get_prop_smaller
  by (auto simp: plain_field_def bind_result_def set_value_Some split: sum.splits option.splits)

lemma optional_field_cong [fundef_cong]:
  "obj = obj' \<Longrightarrow> (\<And>v. size v < size obj' \<Longrightarrow> f v = g v) \<Longrightarrow> optional_field obj k f upd = optional_field obj' k g upd"
  using get_prop_smaller
  by (auto simp: optional_field_def fun_eq_iff bind_result_def set_value_Some split: sum.splits option.splits)

lemma element_smaller: "v \<in> set vs \<Longrightarrow> size v < size (JArr vs)"
  by (simp add: less_Suc_eq_le size_list_estimation')

lemma list_field_cong [fundef_cong]:
  assumes "obj = obj'" "\<And>v. size v < size obj' \<Longrightarrow> f v = g v"
  shows "list_field obj k f upd = list_field obj' k g upd"
proof -
  have "all_results (map f vs) = all_results (map g vs)" if "get_prop obj' k = Inr (Some (JArr vs))" for vs
    using get_prop_smaller [OF that] element_smaller assms(2)
    by (intro arg_cong [of _ _ all_results] map_cong refl) (auto intro: less_trans)
  then show ?thesis
    unfolding list_field_def fun_eq_iff bind_result_def assms(1)
    by (auto split: sum.splits option.splits json.splits)
qed

lemma mapped_field_cong [fundef_cong]:
  assumes "obj = obj'" "\<And>v. size v < size obj' \<Longrightarrow> f v = g v"
  shows "mapped_field obj k f upd = mapped_field obj' k g upd"
proof -
  have "all_results (map f vs) = all_results (map g vs)" if "get_prop obj' k = Inr (Some (JArr vs))" for vs
    using get_prop_smaller [OF that] element_smaller assms(2)
    by (intro arg_cong [of _ _ all_results] map_cong refl) (auto intro: less_trans)
  then show ?thesis
    unfolding mapped_field_def fun_eq_iff bind_result_def assms(1)
    by (auto split: sum.splits option.splits json.splits simp: set_value_Some)
qed

lemma put_given_cong [fundef_cong]:
  "x = y \<Longrightarrow> (\<And>v. y = Some v \<Longrightarrow> p v = q v) \<Longrightarrow> put_given x p = put_given y q"
  by (cases y) (simp_all add: put_given_def)

lemma put_list_cong [fundef_cong]:
  "vs = ws \<Longrightarrow> (\<And>v. v \<in> set ws \<Longrightarrow> p v = q v) \<Longrightarrow> put_list vs p = put_list ws q"
  by (simp add: put_list_def)

end
