(* ===== verification/Json_Enums.thy ===== *)
theory Json_Enums
  imports Json Api_Enums
begin

text \<open>
  The enumerations of packages/api/generated as the codecs use them: the numbers and names of each, over which its two
  switches run (\<open>enumFromJSON\<close>, \<open>enumToJSON\<close>).
\<close>

definition AIModelCapability_numbers :: enumeration where
  "AIModelCapability_numbers =
     [(0, ''AI_MODEL_CAPABILITY_UNKNOWN''),
      (1, ''AI_MODEL_CAPABILITY_TEXT_GENERATION''),
      (2, ''AI_MODEL_CAPABILITY_IMAGE_GENERATION''),
      (3, ''AI_MODEL_CAPABILITY_IMAGE_EDITING'')]"

definition AuthenticationFeature_numbers :: enumeration where
  "AuthenticationFeature_numbers =
     [(0, ''AUTHENTICATION_FEATURE_UNKNOWN''),
      (1, ''CREATE_ACCOUNT''),
      (2, ''LOGIN'')]"

definition CalendarDisplayMode_numbers :: enumeration where
  "CalendarDisplayMode_numbers =
     [(0, ''CALENDAR_DISPLAY_WEEK''),
      (1, ''CALENDAR_DISPLAY_MONTH''),
      (3, ''CALENDAR_DISPLAY_DAY'')]"

definition ClusterResource_numbers :: enumeration where
  "ClusterResource_numbers =
     [(0, ''CLUSTER_RESOURCE_BROWSER''),
      (1, ''CLUSTER_RESOURCE_FFMPEG''),
      (2, ''CLUSTER_RESOURCE_IMAGEMAGICK'')]"

definition ContactConsentState_numbers :: enumeration where
  "ContactConsentState_numbers =
     [(0, ''CONTACT_CONSENT_REVOKED''),
      (1, ''CONTACT_CONSENT_GRANTED'')]"

definition ContactProtocol_numbers :: enumeration where
  "ContactProtocol_numbers =
     [(0, ''CONTACT_PROTOCOL_TEL''),
      (1, ''CONTACT_PROTOCOL_MAILTO'')]"

definition ContactVerificationAPI_numbers :: enumeration where
  "ContactVerificationAPI_numbers =
     [(0, ''CONTACT_VERIFICATION_API_TWILIO''),
      (1, ''CONTACT_VERIFICATION_API_BIRD''),
      (2, ''CONTACT_VERIFICATION_API_TELNYX'')]"

definition DefaultPostsSort_numbers :: enumeration where
  "DefaultPostsSort_numbers =
     [(0, ''DEFAULT_POSTS_SORT_RECENT''),
      (1, ''DEFAULT_POSTS_SORT_POPULAR''),
      (2, ''DEFAULT_POSTS_SORT_FOLLOWING'')]"

definition EventListingType_numbers :: enumeration where
  "EventListingType_numbers =
     [(0, ''ALL_ACCESSIBLE_EVENTS''),
      (1, ''FOLLOWING_EVENTS''),
      (2, ''MY_GROUPS_EVENTS''),
      (3, ''DIRECT_EVENTS''),
      (4, ''EVENTS_PENDING_MODERATION''),
      (5, ''EVENT_TEXT_SEARCH''),
      (10, ''GROUP_EVENTS''),
      (11, ''GROUP_EVENTS_PENDING_MODERATION''),
      (20, ''NEWLY_ADDED_EVENTS'')]"

definition FulfillmentStatus_numbers :: enumeration where
  "FulfillmentStatus_numbers =
     [(0, ''FULFILLMENT_STATUS_AWAITING_HOST_ADMIN''),
      (1, ''FULFILLMENT_STATUS_FULFILLED''),
      (2, ''FULFILLMENT_STATUS_IN_PROGRESS'')]"

definition GetMarketSubscriptionsRequestType_numbers :: enumeration where
  "GetMarketSubscriptionsRequestType_numbers =
     [(0, ''GET_MARKET_SUBSCRIPTIONS_REQUEST_FOR_PURCHASE''),
      (1, ''GET_MARKET_SUBSCRIPTIONS_REQUEST_FOR_FULFILLMENT_ADMIN'')]"

definition GroupListingType_numbers :: enumeration where
  "GroupListingType_numbers =
     [(0, ''ALL_GROUPS''),
      (1, ''MY_GROUPS''),
      (2, ''REQUESTED_GROUPS''),
      (3, ''INVITED_GROUPS'')]"

definition MediaConversion_numbers :: enumeration where
  "MediaConversion_numbers =
     [(0, ''MEDIA_CONVERSION_ORIGINAL''),
      (1, ''MEDIA_CONVERSION_SMALL''),
      (2, ''MEDIA_CONVERSION_MEDIUM''),
      (3, ''MEDIA_CONVERSION_LARGE''),
      (5, ''VIDEO_PREVIEW_THUMBNAIL_SMALL''),
      (6, ''VIDEO_PREVIEW_THUMBNAIL_MEDIUM''),
      (7, ''VIDEO_PREVIEW_THUMBNAIL_LARGE''),
      (10, ''AUDIO_PREVIEW_THUMBNAIL_SMALL''),
      (11, ''AUDIO_PREVIEW_THUMBNAIL_MEDIUM''),
      (12, ''AUDIO_PREVIEW_THUMBNAIL_LARGE''),
      (13, ''UNLICENSED_PREVIEW_MEDIUM''),
      (15, ''AUDIO_COVER_ART_SMALL''),
      (16, ''AUDIO_COVER_ART_MEDIUM''),
      (17, ''AUDIO_COVER_ART_LARGE'')]"

definition MessageListingType_numbers :: enumeration where
  "MessageListingType_numbers =
     [(0, ''PERSONAL_MESSAGES''),
      (1, ''PERSONAL_MESSAGES_TEXT_SEARCH''),
      (10, ''ALL_SYSTEM_MESSAGES''),
      (11, ''ALL_SYSTEM_MESSAGES_TEXT_SEARCH'')]"

definition Moderation_numbers :: enumeration where
  "Moderation_numbers =
     [(0, ''MODERATION_UNKNOWN''),
      (1, ''UNMODERATED''),
      (2, ''PENDING''),
      (3, ''APPROVED''),
      (4, ''REJECTED'')]"

definition NavigationTab_numbers :: enumeration where
  "NavigationTab_numbers =
     [(0, ''HOME_TAB''),
      (10, ''EVENTS_TAB''),
      (11, ''POSTS_TAB''),
      (12, ''PEOPLE_TAB''),
      (15, ''ABOUT_TAB''),
      (16, ''MARKET_TAB''),
      (17, ''MEDIA_TAB''),
      (18, ''VIDEO_TAB''),
      (19, ''AUDIO_TAB''),
      (20, ''IMAGES_TAB'')]"

definition NavigationTabStyle_numbers :: enumeration where
  "NavigationTabStyle_numbers =
     [(0, ''NAVIGATION_TAB_ICON_ONLY''),
      (1, ''NAVIGATION_TAB_TEXT_ONLY''),
      (2, ''NAVIGATION_TAB_ICON_AND_TEXT_BELOW''),
      (3, ''NAVIGATION_TAB_ICON_AND_TEXT_RIGHT'')]"

definition Permission_numbers :: enumeration where
  "Permission_numbers =
     [(0, ''PERMISSION_UNKNOWN''),
      (1, ''VIEW_USERS''),
      (2, ''PUBLISH_USERS_LOCALLY''),
      (3, ''PUBLISH_USERS_GLOBALLY''),
      (4, ''MODERATE_USERS''),
      (5, ''FOLLOW_USERS''),
      (6, ''GRANT_BASIC_PERMISSIONS''),
      (10, ''VIEW_GROUPS''),
      (11, ''CREATE_GROUPS''),
      (12, ''PUBLISH_GROUPS_LOCALLY''),
      (13, ''PUBLISH_GROUPS_GLOBALLY''),
      (14, ''MODERATE_GROUPS''),
      (15, ''JOIN_GROUPS''),
      (16, ''INVITE_GROUP_MEMBERS''),
      (20, ''VIEW_POSTS''),
      (21, ''CREATE_POSTS''),
      (22, ''PUBLISH_POSTS_LOCALLY''),
      (23, ''PUBLISH_POSTS_GLOBALLY''),
      (24, ''MODERATE_POSTS''),
      (25, ''REPLY_TO_POSTS''),
      (26, ''EDIT_POST_TITLES_AND_LINKS''),
      (30, ''VIEW_EVENTS''),
      (31, ''CREATE_EVENTS''),
      (32, ''PUBLISH_EVENTS_LOCALLY''),
      (33, ''PUBLISH_EVENTS_GLOBALLY''),
      (34, ''MODERATE_EVENTS''),
      (35, ''RSVP_TO_EVENTS''),
      (40, ''VIEW_MEDIA''),
      (41, ''CREATE_MEDIA''),
      (42, ''PUBLISH_MEDIA_LOCALLY''),
      (43, ''PUBLISH_MEDIA_GLOBALLY''),
      (44, ''MODERATE_MEDIA''),
      (50, ''READ_PERSONAL_MESSAGES''),
      (51, ''READ_ALL_SYSTEM_MESSAGES''),
      (60, ''CREATE_AI_PROVIDERS''),
      (700, ''SYNC_EVENTS_FROM_ICS''),
      (701, ''SYNC_POSTS_FROM_RSS''),
      (702, ''SYNC_POSTS_FROM_ATOM''),
      (1000, ''SYNC_EVENTS_TO_FACEBOOK''),
      (1001, ''SYNC_POSTS_TO_FACEBOOK''),
      (1010, ''SYNC_EVENTS_TO_INSTAGRAM''),
      (1011, ''SYNC_POSTS_TO_INSTAGRAM''),
      (1020, ''SYNC_EVENTS_TO_MASTODON''),
      (1021, ''SYNC_POSTS_TO_MASTODON''),
      (1030, ''SYNC_EVENTS_TO_BLUESKY''),
      (1031, ''SYNC_POSTS_TO_BLUESKY''),
      (1040, ''SYNC_EVENTS_TO_X_TWITTER''),
      (1041, ''SYNC_POSTS_TO_X_TWITTER''),
      (1050, ''SYNC_EVENTS_TO_THREADS''),
      (1051, ''SYNC_POSTS_TO_THREADS''),
      (9998, ''BUSINESS''),
      (9999, ''RUN_BOTS''),
      (10000, ''ADMIN''),
      (10001, ''VIEW_PRIVATE_CONTACT_METHODS''),
      (10002, ''EDIT_CLUSTER_SETTINGS''),
      (10003, ''EDIT_SERVER_MEDIA_ALLOCATION''),
      (10004, ''VIEW_SERVER_LOGS'')]"

definition PostContext_numbers :: enumeration where
  "PostContext_numbers =
     [(0, ''POST''),
      (1, ''REPLY''),
      (2, ''EVENT''),
      (3, ''OCCASION''),
      (10, ''FEDERATED_REPLY'')]"

definition PostListingType_numbers :: enumeration where
  "PostListingType_numbers =
     [(0, ''ALL_ACCESSIBLE_POSTS''),
      (1, ''FOLLOWING_POSTS''),
      (2, ''MY_GROUPS_POSTS''),
      (3, ''DIRECT_POSTS''),
      (4, ''POSTS_PENDING_MODERATION''),
      (5, ''TEXT_SEARCH''),
      (6, ''RECENTLY_POPULAR_POSTS''),
      (10, ''GROUP_POSTS''),
      (11, ''GROUP_POSTS_PENDING_MODERATION'')]"

definition PostMediaLayout_numbers :: enumeration where
  "PostMediaLayout_numbers =
     [(0, ''MEDIA_LAYOUT_STANDARD''),
      (1, ''MEDIA_LAYOUT_DYNAMIC_VERTICAL_SCROLL'')]"

definition PrivateUserStrategy_numbers :: enumeration where
  "PrivateUserStrategy_numbers =
     [(0, ''ACCOUNT_IS_FROZEN''),
      (1, ''LIMITED_CREEPINESS''),
      (2, ''LET_ME_CREEP_ON_PPL'')]"

definition PurchasePeriod_numbers :: enumeration where
  "PurchasePeriod_numbers =
     [(0, ''PURCHASE_PERIOD_INDEFINITE''),
      (1, ''PURCHASE_PERIOD_ANNUAL''),
      (2, ''PURCHASE_PERIOD_MONTHLY'')]"

definition PurchaseType_numbers :: enumeration where
  "PurchaseType_numbers =
     [(0, ''PURCHASE_TYPE_MEDIA_STORAGE''),
      (1, ''PURCHASE_TYPE_AI_GRANTS''),
      (2, ''PURCHASE_TYPE_RELLM_HOSTING''),
      (3, ''PURCHASE_TYPE_PERMISSIONS_ACCESS'')]"

definition RsvpStatus_numbers :: enumeration where
  "RsvpStatus_numbers =
     [(0, ''INTERESTED''),
      (1, ''REQUESTED''),
      (2, ''GOING''),
      (3, ''NOT_GOING'')]"

definition SyncSourceUserAgent_numbers :: enumeration where
  "SyncSourceUserAgent_numbers =
     [(0, ''NO_USER_AGENT''),
      (1, ''RELLM''),
      (2, ''CURL'')]"

definition UserListingType_numbers :: enumeration where
  "UserListingType_numbers =
     [(0, ''EVERYONE''),
      (1, ''FOLLOWING''),
      (2, ''FRIENDS''),
      (3, ''FOLLOWERS''),
      (4, ''FOLLOW_REQUESTS''),
      (5, ''USERS_TEXT_SEARCH''),
      (6, ''FOLLOWERS_TEXT_SEARCH''),
      (7, ''FOLLOWING_TEXT_SEARCH''),
      (8, ''FRIENDS_TEXT_SEARCH''),
      (9, ''FOLLOW_REQUESTS_TEXT_SEARCH''),
      (10, ''ADMINS'')]"

definition Visibility_numbers :: enumeration where
  "Visibility_numbers =
     [(0, ''VISIBILITY_UNKNOWN''),
      (1, ''PRIVATE''),
      (2, ''LIMITED''),
      (3, ''SERVER_PUBLIC''),
      (4, ''GLOBAL_PUBLIC''),
      (5, ''DIRECT''),
      (6, ''LICENSED'')]"

definition WebUserInterface_numbers :: enumeration where
  "WebUserInterface_numbers =
     [(0, ''FLUTTER_WEB''),
      (1, ''HANDLEBARS_TEMPLATES''),
      (2, ''REACT_TAMAGUI''),
      (3, ''ELM_SPA'')]"

text \<open>No number and no name stands twice.\<close>

named_theorems enum_proper
  "the tables of the enumerations are proper"

lemma AIModelCapability_proper [enum_proper]: "proper_enum AIModelCapability_numbers"
  by code_simp

lemma AuthenticationFeature_proper [enum_proper]: "proper_enum AuthenticationFeature_numbers"
  by code_simp

lemma CalendarDisplayMode_proper [enum_proper]: "proper_enum CalendarDisplayMode_numbers"
  by code_simp

lemma ClusterResource_proper [enum_proper]: "proper_enum ClusterResource_numbers"
  by code_simp

lemma ContactConsentState_proper [enum_proper]: "proper_enum ContactConsentState_numbers"
  by code_simp

lemma ContactProtocol_proper [enum_proper]: "proper_enum ContactProtocol_numbers"
  by code_simp

lemma ContactVerificationAPI_proper [enum_proper]: "proper_enum ContactVerificationAPI_numbers"
  by code_simp

lemma DefaultPostsSort_proper [enum_proper]: "proper_enum DefaultPostsSort_numbers"
  by code_simp

lemma EventListingType_proper [enum_proper]: "proper_enum EventListingType_numbers"
  by code_simp

lemma FulfillmentStatus_proper [enum_proper]: "proper_enum FulfillmentStatus_numbers"
  by code_simp

lemma GetMarketSubscriptionsRequestType_proper [enum_proper]: "proper_enum GetMarketSubscriptionsRequestType_numbers"
  by code_simp

lemma GroupListingType_proper [enum_proper]: "proper_enum GroupListingType_numbers"
  by code_simp

lemma MediaConversion_proper [enum_proper]: "proper_enum MediaConversion_numbers"
  by code_simp

lemma MessageListingType_proper [enum_proper]: "proper_enum MessageListingType_numbers"
  by code_simp

lemma Moderation_proper [enum_proper]: "proper_enum Moderation_numbers"
  by code_simp

lemma NavigationTab_proper [enum_proper]: "proper_enum NavigationTab_numbers"
  by code_simp

lemma NavigationTabStyle_proper [enum_proper]: "proper_enum NavigationTabStyle_numbers"
  by code_simp

lemma Permission_proper [enum_proper]: "proper_enum Permission_numbers"
  by code_simp

lemma PostContext_proper [enum_proper]: "proper_enum PostContext_numbers"
  by code_simp

lemma PostListingType_proper [enum_proper]: "proper_enum PostListingType_numbers"
  by code_simp

lemma PostMediaLayout_proper [enum_proper]: "proper_enum PostMediaLayout_numbers"
  by code_simp

lemma PrivateUserStrategy_proper [enum_proper]: "proper_enum PrivateUserStrategy_numbers"
  by code_simp

lemma PurchasePeriod_proper [enum_proper]: "proper_enum PurchasePeriod_numbers"
  by code_simp

lemma PurchaseType_proper [enum_proper]: "proper_enum PurchaseType_numbers"
  by code_simp

lemma RsvpStatus_proper [enum_proper]: "proper_enum RsvpStatus_numbers"
  by code_simp

lemma SyncSourceUserAgent_proper [enum_proper]: "proper_enum SyncSourceUserAgent_numbers"
  by code_simp

lemma UserListingType_proper [enum_proper]: "proper_enum UserListingType_numbers"
  by code_simp

lemma Visibility_proper [enum_proper]: "proper_enum Visibility_numbers"
  by code_simp

lemma WebUserInterface_proper [enum_proper]: "proper_enum WebUserInterface_numbers"
  by code_simp

end
