(* ===== verification/Json_Time.thy ===== *)
theory Json_Time
  imports Wire_Time Json_Enums
begin

text \<open>
  The JSON side of google.protobuf.Timestamp and google.protobuf.Empty.
\<close>

section \<open>Timestamp\<close>

definition fromJSON_Timestamp :: "json \<Rightarrow> Timestamp result" where
  "fromJSON_Timestamp obj =
     read_fields
       [plain_field obj ''seconds'' js_Integer 0 Timestamp_seconds_update,
        plain_field obj ''nanos'' js_Integer 0 Timestamp_nanos_update]
       base_Timestamp"

definition toJSON_Timestamp :: "Timestamp \<Rightarrow> json" where
  "toJSON_Timestamp m =
     object_of
       [(''seconds'', put_when (Timestamp_seconds m \<noteq> 0) (number (Timestamp_seconds m))),
        (''nanos'', put_when (Timestamp_nanos m \<noteq> 0) (number (Timestamp_nanos m)))]"

definition fromPartial_Timestamp :: "json \<Rightarrow> Timestamp result" where
  "fromPartial_Timestamp obj =
     read_fields
       [plain_field obj ''seconds'' as_integer 0 Timestamp_seconds_update,
        plain_field obj ''nanos'' as_integer 0 Timestamp_nanos_update]
       base_Timestamp"

definition create_Timestamp :: "json option \<Rightarrow> Timestamp result" where
  "create_Timestamp = create_with fromPartial_Timestamp"

lemma created_Timestamp: "create_Timestamp None = Inr base_Timestamp"
  by (simp add: create_Timestamp_def fromPartial_Timestamp_def base_Timestamp_def)

lemma toJSON_Timestamp_set [json_set]: "toJSON_Timestamp m \<noteq> JNull"
  by (simp add: toJSON_Timestamp_def)

lemma json_Timestamp [json_codecs]:
  "fromJSON_Timestamp (toJSON_Timestamp m) = Inr m"
  unfolding fromJSON_Timestamp_def
proof (rule message_restored [OF toJSON_Timestamp_def [of m]])
  show "foldl (\<lambda>m u. u m) base_Timestamp
      [Timestamp_seconds_update (\<lambda>_. Timestamp_seconds m),
       Timestamp_nanos_update (\<lambda>_. Timestamp_nanos m)] = m"
    by (cases m) (simp add: base_Timestamp_def)
qed (simp, simp only: list.pred_inject prod.case, elim conjE, (rule json_fields | assumption | erule known_values
      | rule any_values comes_backI json_codecs json_set enum_proper)+)

section \<open>Empty\<close>

definition fromJSON_Empty :: "json \<Rightarrow> Empty result" where
  "fromJSON_Empty obj = Inr base_Empty"

definition toJSON_Empty :: "Empty \<Rightarrow> json" where
  "toJSON_Empty m = object_of []"

definition fromPartial_Empty :: "json \<Rightarrow> Empty result" where
  "fromPartial_Empty obj = Inr base_Empty"

definition create_Empty :: "json option \<Rightarrow> Empty result" where
  "create_Empty = create_with fromPartial_Empty"

lemma json_Empty [json_codecs]: "fromJSON_Empty (toJSON_Empty m) = Inr m"
  by (cases m) (simp add: fromJSON_Empty_def base_Empty_def)

lemma toJSON_Empty_set [json_set]: "toJSON_Empty m \<noteq> JNull"
  by (simp add: toJSON_Empty_def)

end
