(* ===== verification/Json_Location.thy ===== *)
theory Json_Location
  imports Wire_Location Json_Enums
begin

text \<open>
  The JSON side of packages/api/generated/location.ts: of each message reading it off an object, the object made of it, and
  building one from the fields given.
\<close>

section \<open>Location\<close>

definition fromJSON_Location :: "json \<Rightarrow> Location result" where
  "fromJSON_Location obj =
     read_fields
       [plain_field obj ''id'' js_String [] Location_id_update,
        plain_field obj ''creatorId'' js_String [] Location_creatorId_update,
        plain_field obj ''uniformlyFormattedAddress'' js_String [] Location_uniformlyFormattedAddress_update]
       base_Location"

definition toJSON_Location :: "Location \<Rightarrow> json" where
  "toJSON_Location m =
     object_of
       [(''id'', put_when (Location_id m \<noteq> []) (JStr (Location_id m))),
        (''creatorId'', put_when (Location_creatorId m \<noteq> []) (JStr (Location_creatorId m))),
        (''uniformlyFormattedAddress'', put_when (Location_uniformlyFormattedAddress m \<noteq> []) (JStr (Location_uniformlyFormattedAddress m)))]"

definition fromPartial_Location :: "json \<Rightarrow> Location result" where
  "fromPartial_Location obj =
     read_fields
       [plain_field obj ''id'' as_string [] Location_id_update,
        plain_field obj ''creatorId'' as_string [] Location_creatorId_update,
        plain_field obj ''uniformlyFormattedAddress'' as_string [] Location_uniformlyFormattedAddress_update]
       base_Location"

definition create_Location :: "json option \<Rightarrow> Location result" where
  "create_Location = create_with fromPartial_Location"

lemma created_Location: "create_Location None = Inr base_Location"
  by (simp add: create_Location_def fromPartial_Location_def base_Location_def)

lemma toJSON_Location_set [json_set]: "toJSON_Location m \<noteq> JNull"
  by (simp add: toJSON_Location_def)

lemma json_Location [json_codecs]:
  "fromJSON_Location (toJSON_Location m) = Inr m"
  unfolding fromJSON_Location_def
proof (rule message_restored [OF toJSON_Location_def [of m]])
  show "foldl (\<lambda>m u. u m) base_Location
      [Location_id_update (\<lambda>_. Location_id m),
       Location_creatorId_update (\<lambda>_. Location_creatorId m),
       Location_uniformlyFormattedAddress_update (\<lambda>_. Location_uniformlyFormattedAddress m)] = m"
    by (cases m) (simp add: base_Location_def)
qed (simp, simp only: list.pred_inject prod.case, elim conjE, (rule json_fields | assumption | erule known_values
      | rule any_values comes_backI json_codecs json_set enum_proper)+)

end
