(* ===== verification/Json_Media.thy ===== *)
theory Json_Media
  imports Wire_Media Json_Enums
begin

text \<open>
  The JSON side of packages/api/generated/media.ts: of each message reading it off an object, the object made of it, and
  building one from the fields given.
\<close>

section \<open>MediaMetadata\<close>

definition fromJSON_MediaMetadata :: "json \<Rightarrow> MediaMetadata result" where
  "fromJSON_MediaMetadata obj =
     read_fields
       [optional_field obj ''videoPreviewTimeMs'' js_Integer MediaMetadata_videoPreviewTimeMs_update,
        optional_field obj ''artist'' js_String MediaMetadata_artist_update,
        optional_field obj ''album'' js_String MediaMetadata_album_update,
        optional_field obj ''composer'' js_String MediaMetadata_composer_update,
        optional_field obj ''director'' js_String MediaMetadata_director_update,
        optional_field obj ''producer'' js_String MediaMetadata_producer_update,
        optional_field obj ''starring'' js_String MediaMetadata_starring_update,
        optional_field obj ''cast'' js_String MediaMetadata_cast_update,
        optional_field obj ''crew'' js_String MediaMetadata_crew_update,
        optional_field obj ''narrator'' js_String MediaMetadata_narrator_update,
        optional_field obj ''publisher'' js_String MediaMetadata_publisher_update,
        optional_field obj ''unlicensedPreviewStartMs'' js_Integer MediaMetadata_unlicensedPreviewStartMs_update,
        optional_field obj ''unlicensedPreviewEndMs'' js_Integer MediaMetadata_unlicensedPreviewEndMs_update,
        optional_field obj ''coverArtMediaId'' js_String MediaMetadata_coverArtMediaId_update,
        optional_field obj ''startBpm'' js_Number MediaMetadata_startBpm_update,
        optional_field obj ''endBpm'' js_Number MediaMetadata_endBpm_update,
        optional_field obj ''minBpm'' js_Number MediaMetadata_minBpm_update,
        optional_field obj ''maxBpm'' js_Number MediaMetadata_maxBpm_update,
        optional_field obj ''startKey'' js_String MediaMetadata_startKey_update,
        optional_field obj ''endKey'' js_String MediaMetadata_endKey_update]
       base_MediaMetadata"

definition toJSON_MediaMetadata :: "MediaMetadata \<Rightarrow> json" where
  "toJSON_MediaMetadata m =
     object_of
       [(''videoPreviewTimeMs'', put_given (MediaMetadata_videoPreviewTimeMs m) number),
        (''artist'', put_given (MediaMetadata_artist m) JStr),
        (''album'', put_given (MediaMetadata_album m) JStr),
        (''composer'', put_given (MediaMetadata_composer m) JStr),
        (''director'', put_given (MediaMetadata_director m) JStr),
        (''producer'', put_given (MediaMetadata_producer m) JStr),
        (''starring'', put_given (MediaMetadata_starring m) JStr),
        (''cast'', put_given (MediaMetadata_cast m) JStr),
        (''crew'', put_given (MediaMetadata_crew m) JStr),
        (''narrator'', put_given (MediaMetadata_narrator m) JStr),
        (''publisher'', put_given (MediaMetadata_publisher m) JStr),
        (''unlicensedPreviewStartMs'', put_given (MediaMetadata_unlicensedPreviewStartMs m) number),
        (''unlicensedPreviewEndMs'', put_given (MediaMetadata_unlicensedPreviewEndMs m) number),
        (''coverArtMediaId'', put_given (MediaMetadata_coverArtMediaId m) JStr),
        (''startBpm'', put_given (MediaMetadata_startBpm m) JNum),
        (''endBpm'', put_given (MediaMetadata_endBpm m) JNum),
        (''minBpm'', put_given (MediaMetadata_minBpm m) JNum),
        (''maxBpm'', put_given (MediaMetadata_maxBpm m) JNum),
        (''startKey'', put_given (MediaMetadata_startKey m) JStr),
        (''endKey'', put_given (MediaMetadata_endKey m) JStr)]"

definition fromPartial_MediaMetadata :: "json \<Rightarrow> MediaMetadata result" where
  "fromPartial_MediaMetadata obj =
     read_fields
       [optional_field obj ''videoPreviewTimeMs'' as_integer MediaMetadata_videoPreviewTimeMs_update,
        optional_field obj ''artist'' as_string MediaMetadata_artist_update,
        optional_field obj ''album'' as_string MediaMetadata_album_update,
        optional_field obj ''composer'' as_string MediaMetadata_composer_update,
        optional_field obj ''director'' as_string MediaMetadata_director_update,
        optional_field obj ''producer'' as_string MediaMetadata_producer_update,
        optional_field obj ''starring'' as_string MediaMetadata_starring_update,
        optional_field obj ''cast'' as_string MediaMetadata_cast_update,
        optional_field obj ''crew'' as_string MediaMetadata_crew_update,
        optional_field obj ''narrator'' as_string MediaMetadata_narrator_update,
        optional_field obj ''publisher'' as_string MediaMetadata_publisher_update,
        optional_field obj ''unlicensedPreviewStartMs'' as_integer MediaMetadata_unlicensedPreviewStartMs_update,
        optional_field obj ''unlicensedPreviewEndMs'' as_integer MediaMetadata_unlicensedPreviewEndMs_update,
        optional_field obj ''coverArtMediaId'' as_string MediaMetadata_coverArtMediaId_update,
        optional_field obj ''startBpm'' as_number MediaMetadata_startBpm_update,
        optional_field obj ''endBpm'' as_number MediaMetadata_endBpm_update,
        optional_field obj ''minBpm'' as_number MediaMetadata_minBpm_update,
        optional_field obj ''maxBpm'' as_number MediaMetadata_maxBpm_update,
        optional_field obj ''startKey'' as_string MediaMetadata_startKey_update,
        optional_field obj ''endKey'' as_string MediaMetadata_endKey_update]
       base_MediaMetadata"

definition create_MediaMetadata :: "json option \<Rightarrow> MediaMetadata result" where
  "create_MediaMetadata = create_with fromPartial_MediaMetadata"

lemma created_MediaMetadata: "create_MediaMetadata None = Inr base_MediaMetadata"
  by (simp add: create_MediaMetadata_def fromPartial_MediaMetadata_def base_MediaMetadata_def)

lemma toJSON_MediaMetadata_set [json_set]: "toJSON_MediaMetadata m \<noteq> JNull"
  by (simp add: toJSON_MediaMetadata_def)

lemma json_MediaMetadata [json_codecs]:
  "fromJSON_MediaMetadata (toJSON_MediaMetadata m) = Inr m"
  unfolding fromJSON_MediaMetadata_def
proof (rule message_restored [OF toJSON_MediaMetadata_def [of m]])
  show "foldl (\<lambda>m u. u m) base_MediaMetadata
      [MediaMetadata_videoPreviewTimeMs_update (\<lambda>_. MediaMetadata_videoPreviewTimeMs m),
       MediaMetadata_artist_update (\<lambda>_. MediaMetadata_artist m),
       MediaMetadata_album_update (\<lambda>_. MediaMetadata_album m),
       MediaMetadata_composer_update (\<lambda>_. MediaMetadata_composer m),
       MediaMetadata_director_update (\<lambda>_. MediaMetadata_director m),
       MediaMetadata_producer_update (\<lambda>_. MediaMetadata_producer m),
       MediaMetadata_starring_update (\<lambda>_. MediaMetadata_starring m),
       MediaMetadata_cast_update (\<lambda>_. MediaMetadata_cast m),
       MediaMetadata_crew_update (\<lambda>_. MediaMetadata_crew m),
       MediaMetadata_narrator_update (\<lambda>_. MediaMetadata_narrator m),
       MediaMetadata_publisher_update (\<lambda>_. MediaMetadata_publisher m),
       MediaMetadata_unlicensedPreviewStartMs_update (\<lambda>_. MediaMetadata_unlicensedPreviewStartMs m),
       MediaMetadata_unlicensedPreviewEndMs_update (\<lambda>_. MediaMetadata_unlicensedPreviewEndMs m),
       MediaMetadata_coverArtMediaId_update (\<lambda>_. MediaMetadata_coverArtMediaId m),
       MediaMetadata_startBpm_update (\<lambda>_. MediaMetadata_startBpm m),
       MediaMetadata_endBpm_update (\<lambda>_. MediaMetadata_endBpm m),
       MediaMetadata_minBpm_update (\<lambda>_. MediaMetadata_minBpm m),
       MediaMetadata_maxBpm_update (\<lambda>_. MediaMetadata_maxBpm m),
       MediaMetadata_startKey_update (\<lambda>_. MediaMetadata_startKey m),
       MediaMetadata_endKey_update (\<lambda>_. MediaMetadata_endKey m)] = m"
    by (cases m) (simp add: base_MediaMetadata_def)
qed (simp, simp only: list.pred_inject prod.case, elim conjE, (rule json_fields | assumption | erule known_values
      | rule any_values comes_backI json_codecs json_set enum_proper)+)

section \<open>MediaSize\<close>

definition fromJSON_MediaSize :: "json \<Rightarrow> MediaSize result" where
  "fromJSON_MediaSize obj =
     read_fields
       [plain_field obj ''conversion'' (from_enum MediaConversion_numbers) 0 MediaSize_conversion_update,
        plain_field obj ''sizeBytes'' js_Integer 0 MediaSize_sizeBytes_update,
        optional_field obj ''aspectRatio'' js_Number MediaSize_aspectRatio_update,
        plain_field obj ''contentType'' js_String [] MediaSize_contentType_update]
       base_MediaSize"

definition toJSON_MediaSize :: "MediaSize \<Rightarrow> json" where
  "toJSON_MediaSize m =
     object_of
       [(''conversion'', put_when (MediaSize_conversion m \<noteq> 0) ((to_enum MediaConversion_numbers) (MediaSize_conversion m))),
        (''sizeBytes'', put_when (MediaSize_sizeBytes m \<noteq> 0) (number (MediaSize_sizeBytes m))),
        (''aspectRatio'', put_given (MediaSize_aspectRatio m) JNum),
        (''contentType'', put_when (MediaSize_contentType m \<noteq> []) (JStr (MediaSize_contentType m)))]"

definition fromPartial_MediaSize :: "json \<Rightarrow> MediaSize result" where
  "fromPartial_MediaSize obj =
     read_fields
       [plain_field obj ''conversion'' as_integer 0 MediaSize_conversion_update,
        plain_field obj ''sizeBytes'' as_integer 0 MediaSize_sizeBytes_update,
        optional_field obj ''aspectRatio'' as_number MediaSize_aspectRatio_update,
        plain_field obj ''contentType'' as_string [] MediaSize_contentType_update]
       base_MediaSize"

definition create_MediaSize :: "json option \<Rightarrow> MediaSize result" where
  "create_MediaSize = create_with fromPartial_MediaSize"

definition known_MediaSize :: "MediaSize \<Rightarrow> bool" where
  "known_MediaSize m \<longleftrightarrow>
     known_enum MediaConversion_numbers (MediaSize_conversion m)"

lemma created_MediaSize: "create_MediaSize None = Inr base_MediaSize"
  by (simp add: create_MediaSize_def fromPartial_MediaSize_def base_MediaSize_def)

lemma toJSON_MediaSize_set [json_set]: "toJSON_MediaSize m \<noteq> JNull"
  by (simp add: toJSON_MediaSize_def)

lemma json_MediaSize [json_codecs]:
  assumes "known_MediaSize m"
  shows "fromJSON_MediaSize (toJSON_MediaSize m) = Inr m"
  unfolding fromJSON_MediaSize_def
proof (rule message_restored [OF toJSON_MediaSize_def [of m]])
  show "foldl (\<lambda>m u. u m) base_MediaSize
      [MediaSize_conversion_update (\<lambda>_. MediaSize_conversion m),
       MediaSize_sizeBytes_update (\<lambda>_. MediaSize_sizeBytes m),
       MediaSize_aspectRatio_update (\<lambda>_. MediaSize_aspectRatio m),
       MediaSize_contentType_update (\<lambda>_. MediaSize_contentType m)] = m"
    by (cases m) (simp add: base_MediaSize_def)
qed (simp, insert assms [unfolded known_MediaSize_def], simp only: list.pred_inject prod.case, elim conjE, (rule json_fields | assumption | erule known_values
      | rule any_values comes_backI json_codecs json_set enum_proper)+)

section \<open>MediaReference\<close>

definition fromJSON_Author_with :: "(json \<Rightarrow> 'r result) \<Rightarrow> json \<Rightarrow> 'r AuthorOf result" where
  "fromJSON_Author_with rec obj =
     read_fields
       [plain_field obj ''userId'' js_String [] (\<lambda>f. Author_upd (Author_userId_update f)),
        optional_field obj ''username'' js_String (\<lambda>f. Author_upd (Author_username_update f)),
        optional_field obj ''avatar'' rec Author_avatar_upd,
        optional_field obj ''realName'' js_String (\<lambda>f. Author_upd (Author_realName_update f)),
        list_field obj ''permissions'' (from_enum Permission_numbers) (\<lambda>f. Author_upd (Author_permissions_update f))]
       base_Author"

lemma fromJSON_Author_with_cong [fundef_cong]:
  assumes "obj = obj'" "\<And>v. size v < size obj' \<Longrightarrow> f v = g v"
  shows "fromJSON_Author_with f obj = fromJSON_Author_with g obj'"
  using optional_field_cong [where upd = Author_avatar_upd and k = "''avatar''", OF assms] by (simp add: fromJSON_Author_with_def assms(1))

function fromJSON_MediaReference :: "json \<Rightarrow> MediaReference result" where
  "fromJSON_MediaReference obj =
     read_fields
       [plain_field obj ''id'' js_String [] (\<lambda>f. MediaReference_upd (MediaReference_id_update f)),
        optional_field obj ''name'' js_String (\<lambda>f. MediaReference_upd (MediaReference_name_update f)),
        plain_field obj ''generated'' js_Boolean False (\<lambda>f. MediaReference_upd (MediaReference_generated_update f)),
        optional_field obj ''metadata'' fromJSON_MediaMetadata (\<lambda>f. MediaReference_upd (MediaReference_metadata_update f)),
        list_field obj ''sizes'' fromJSON_MediaSize (\<lambda>f. MediaReference_upd (MediaReference_sizes_update f)),
        optional_field obj ''url'' js_String (\<lambda>f. MediaReference_upd (MediaReference_url_update f)),
        optional_field obj ''description'' js_String (\<lambda>f. MediaReference_upd (MediaReference_description_update f)),
        optional_field obj ''author'' (fromJSON_Author_with fromJSON_MediaReference) MediaReference_author_upd,
        plain_field obj ''visibility'' (from_enum Visibility_numbers) 0 (\<lambda>f. MediaReference_upd (MediaReference_visibility_update f))]
       base_MediaReference"
  by pat_completeness auto

termination
  by (relation "measure size") auto

declare fromJSON_MediaReference.simps [simp del]

definition fromJSON_Author :: "json \<Rightarrow> Author result" where
  "fromJSON_Author = fromJSON_Author_with fromJSON_MediaReference"

definition toJSON_Author_with :: "('r \<Rightarrow> json) \<Rightarrow> 'r AuthorOf \<Rightarrow> json" where
  "toJSON_Author_with rec m =
     object_of
       [(''userId'', put_when (Author_userId (Author_own m) \<noteq> []) (JStr (Author_userId (Author_own m)))),
        (''username'', put_given (Author_username (Author_own m)) JStr),
        (''avatar'', put_given (Author_avatar m) rec),
        (''realName'', put_given (Author_realName (Author_own m)) JStr),
        (''permissions'', put_list (Author_permissions (Author_own m)) (to_enum Permission_numbers))]"

lemma toJSON_Author_with_cong [fundef_cong]:
  "m = m' \<Longrightarrow> (\<And>x. Author_avatar m' = Some x \<Longrightarrow> f x = g x) \<Longrightarrow> toJSON_Author_with f m = toJSON_Author_with g m'"
  by (simp add: toJSON_Author_with_def cong: put_given_cong)

function toJSON_MediaReference :: "MediaReference \<Rightarrow> json" where
  "toJSON_MediaReference m =
     object_of
       [(''id'', put_when (MediaReference_id (MediaReference_own m) \<noteq> []) (JStr (MediaReference_id (MediaReference_own m)))),
        (''name'', put_given (MediaReference_name (MediaReference_own m)) JStr),
        (''generated'', put_when (MediaReference_generated (MediaReference_own m) \<noteq> False) (JBool (MediaReference_generated (MediaReference_own m)))),
        (''metadata'', put_given (MediaReference_metadata (MediaReference_own m)) toJSON_MediaMetadata),
        (''sizes'', put_list (MediaReference_sizes (MediaReference_own m)) toJSON_MediaSize),
        (''url'', put_given (MediaReference_url (MediaReference_own m)) JStr),
        (''description'', put_given (MediaReference_description (MediaReference_own m)) JStr),
        (''author'', put_given (MediaReference_author m) (toJSON_Author_with toJSON_MediaReference)),
        (''visibility'', put_when (MediaReference_visibility (MediaReference_own m) \<noteq> 0) ((to_enum Visibility_numbers) (MediaReference_visibility (MediaReference_own m))))]"
  by pat_completeness auto

termination
  by (relation "measure size") (auto intro: reference_smaller)

declare toJSON_MediaReference.simps [simp del]

definition toJSON_Author :: "Author \<Rightarrow> json" where
  "toJSON_Author = toJSON_Author_with toJSON_MediaReference"

definition fromPartial_Author_with :: "(json \<Rightarrow> 'r result) \<Rightarrow> json \<Rightarrow> 'r AuthorOf result" where
  "fromPartial_Author_with rec obj =
     read_fields
       [plain_field obj ''userId'' as_string [] (\<lambda>f. Author_upd (Author_userId_update f)),
        optional_field obj ''username'' as_string (\<lambda>f. Author_upd (Author_username_update f)),
        optional_field obj ''avatar'' rec Author_avatar_upd,
        optional_field obj ''realName'' as_string (\<lambda>f. Author_upd (Author_realName_update f)),
        mapped_field obj ''permissions'' as_integer (\<lambda>f. Author_upd (Author_permissions_update f))]
       base_Author"

lemma fromPartial_Author_with_cong [fundef_cong]:
  assumes "obj = obj'" "\<And>v. size v < size obj' \<Longrightarrow> f v = g v"
  shows "fromPartial_Author_with f obj = fromPartial_Author_with g obj'"
  using optional_field_cong [where upd = Author_avatar_upd and k = "''avatar''", OF assms] by (simp add: fromPartial_Author_with_def assms(1))

function fromPartial_MediaReference :: "json \<Rightarrow> MediaReference result" where
  "fromPartial_MediaReference obj =
     read_fields
       [plain_field obj ''id'' as_string [] (\<lambda>f. MediaReference_upd (MediaReference_id_update f)),
        optional_field obj ''name'' as_string (\<lambda>f. MediaReference_upd (MediaReference_name_update f)),
        plain_field obj ''generated'' as_bool False (\<lambda>f. MediaReference_upd (MediaReference_generated_update f)),
        optional_field obj ''metadata'' fromPartial_MediaMetadata (\<lambda>f. MediaReference_upd (MediaReference_metadata_update f)),
        mapped_field obj ''sizes'' fromPartial_MediaSize (\<lambda>f. MediaReference_upd (MediaReference_sizes_update f)),
        optional_field obj ''url'' as_string (\<lambda>f. MediaReference_upd (MediaReference_url_update f)),
        optional_field obj ''description'' as_string (\<lambda>f. MediaReference_upd (MediaReference_description_update f)),
        optional_field obj ''author'' (fromPartial_Author_with fromPartial_MediaReference) MediaReference_author_upd,
        plain_field obj ''visibility'' as_integer 0 (\<lambda>f. MediaReference_upd (MediaReference_visibility_update f))]
       base_MediaReference"
  by pat_completeness auto

termination
  by (relation "measure size") auto

declare fromPartial_MediaReference.simps [simp del]

definition fromPartial_Author :: "json \<Rightarrow> Author result" where
  "fromPartial_Author = fromPartial_Author_with fromPartial_MediaReference"

definition create_MediaReference :: "json option \<Rightarrow> MediaReference result" where
  "create_MediaReference = create_with fromPartial_MediaReference"

definition create_Author :: "json option \<Rightarrow> Author result" where
  "create_Author = create_with fromPartial_Author"

lemma created_MediaReference: "create_MediaReference None = Inr base_MediaReference"
  by (simp add: create_MediaReference_def fromPartial_MediaReference.simps [of "JObj []"] base_MediaReference_def reference_updates)

lemma created_Author: "create_Author None = Inr base_Author"
  by (simp add: create_Author_def fromPartial_Author_def fromPartial_Author_with_def base_Author_def reference_updates)

definition known_Author_with :: "('r \<Rightarrow> bool) \<Rightarrow> 'r AuthorOf \<Rightarrow> bool" where
  "known_Author_with known m \<longleftrightarrow>
     pred_option known (Author_avatar m) \<and>
     list_all (known_enum Permission_numbers) (Author_permissions (Author_own m))"

lemma known_Author_with_cong [fundef_cong]:
  "m = m' \<Longrightarrow> (\<And>x. Author_avatar m' = Some x \<Longrightarrow> f x = g x) \<Longrightarrow> known_Author_with f m = known_Author_with g m'"
  by (cases "Author_avatar m'") (simp_all add: known_Author_with_def)

function known_MediaReference :: "MediaReference \<Rightarrow> bool" where
  "known_MediaReference m \<longleftrightarrow>
     list_all known_MediaSize (MediaReference_sizes (MediaReference_own m)) \<and>
     pred_option (known_Author_with known_MediaReference) (MediaReference_author m) \<and>
     known_enum Visibility_numbers (MediaReference_visibility (MediaReference_own m))"
  by pat_completeness auto

termination
  by (relation "measure size") (auto intro: reference_smaller)

declare known_MediaReference.simps [simp del]

definition known_Author :: "Author \<Rightarrow> bool" where
  "known_Author = known_Author_with known_MediaReference"

lemma toJSON_MediaReference_set [json_set]:
  "toJSON_MediaReference m \<noteq> JNull" "toJSON_Author_with rec a \<noteq> JNull" "toJSON_Author a' \<noteq> JNull"
  by (simp_all add: toJSON_MediaReference.simps [of m] toJSON_Author_with_def toJSON_Author_def)

lemma json_Author_with:
  assumes "known_Author_with known m"
    and "\<And>x. Author_avatar m = Some x \<Longrightarrow> known x \<Longrightarrow> comes_back from to x"
  shows "fromJSON_Author_with from (toJSON_Author_with to m) = Inr m"
proof -
  have inner: "pred_option (comes_back from to) (Author_avatar m)"
    using assms by (cases "Author_avatar m") (simp_all add: known_Author_with_def)
  show ?thesis
    unfolding fromJSON_Author_with_def
  proof (rule message_restored [OF toJSON_Author_with_def [of to m]])
    show "foldl (\<lambda>m u. u m) base_Author
      [(\<lambda>f. Author_upd (Author_userId_update f)) (\<lambda>_. Author_userId (Author_own m)),
       (\<lambda>f. Author_upd (Author_username_update f)) (\<lambda>_. Author_username (Author_own m)),
       Author_avatar_upd (\<lambda>_. Author_avatar m),
       (\<lambda>f. Author_upd (Author_realName_update f)) (\<lambda>_. Author_realName (Author_own m)),
       (\<lambda>f. Author_upd (Author_permissions_update f)) (\<lambda>_. Author_permissions (Author_own m))] = m"
      by (cases m) (simp add: base_Author_def reference_updates)
  qed (simp, insert assms(1) [unfolded known_Author_with_def], simp only: list.pred_inject prod.case, elim conjE,
      (rule json_fields inner | assumption | erule known_values
        | rule any_values comes_backI json_codecs json_set enum_proper)+)
qed

lemma json_MediaReference [json_codecs]: "known_MediaReference m \<Longrightarrow> fromJSON_MediaReference (toJSON_MediaReference m) = Inr m"
proof (induction m rule: measure_induct_rule [where f = size])
  case (less m)
  have "comes_back (fromJSON_Author_with fromJSON_MediaReference) (toJSON_Author_with toJSON_MediaReference) a" if "MediaReference_author m = Some a" for a
    using that less.prems less.IH reference_smaller [OF that]
    by (intro comes_backI json_set json_Author_with [where known = known_MediaReference])
      (auto simp: known_MediaReference.simps [of m] list_all_iff intro!: comes_backI json_set)
  then have inner: "pred_option (comes_back (fromJSON_Author_with fromJSON_MediaReference) (toJSON_Author_with toJSON_MediaReference)) (MediaReference_author m)"
    by (auto simp: list_all_iff pred_option_def)
  show ?case
    unfolding fromJSON_MediaReference.simps [of "toJSON_MediaReference m"]
  proof (rule message_restored [OF toJSON_MediaReference.simps [of m]])
    show "foldl (\<lambda>m u. u m) base_MediaReference
      [(\<lambda>f. MediaReference_upd (MediaReference_id_update f)) (\<lambda>_. MediaReference_id (MediaReference_own m)),
       (\<lambda>f. MediaReference_upd (MediaReference_name_update f)) (\<lambda>_. MediaReference_name (MediaReference_own m)),
       (\<lambda>f. MediaReference_upd (MediaReference_generated_update f)) (\<lambda>_. MediaReference_generated (MediaReference_own m)),
       (\<lambda>f. MediaReference_upd (MediaReference_metadata_update f)) (\<lambda>_. MediaReference_metadata (MediaReference_own m)),
       (\<lambda>f. MediaReference_upd (MediaReference_sizes_update f)) (\<lambda>_. MediaReference_sizes (MediaReference_own m)),
       (\<lambda>f. MediaReference_upd (MediaReference_url_update f)) (\<lambda>_. MediaReference_url (MediaReference_own m)),
       (\<lambda>f. MediaReference_upd (MediaReference_description_update f)) (\<lambda>_. MediaReference_description (MediaReference_own m)),
       MediaReference_author_upd (\<lambda>_. MediaReference_author m),
       (\<lambda>f. MediaReference_upd (MediaReference_visibility_update f)) (\<lambda>_. MediaReference_visibility (MediaReference_own m))] = m"
      by (cases m) (simp add: base_MediaReference_def reference_updates)
  qed (simp, insert less.prems [unfolded known_MediaReference.simps [of m]], simp only: list.pred_inject prod.case, elim conjE,
      (rule json_fields inner | assumption | erule known_values
        | rule any_values comes_backI json_codecs json_set enum_proper)+)
qed

lemma json_Author [json_codecs]: "known_Author m \<Longrightarrow> fromJSON_Author (toJSON_Author m) = Inr m"
  unfolding fromJSON_Author_def toJSON_Author_def known_Author_def
  by (rule json_Author_with [where known = known_MediaReference]) (simp_all add: comes_back_def json_MediaReference json_set)

section \<open>Media\<close>

definition fromJSON_Media :: "json \<Rightarrow> Media result" where
  "fromJSON_Media obj =
     read_fields
       [plain_field obj ''id'' js_String [] Media_id_update,
        optional_field obj ''author'' fromJSON_Author Media_author_update,
        optional_field obj ''name'' js_String Media_name_update,
        optional_field obj ''description'' js_String Media_description_update,
        plain_field obj ''visibility'' (from_enum Visibility_numbers) 0 Media_visibility_update,
        plain_field obj ''moderation'' (from_enum Moderation_numbers) 0 Media_moderation_update,
        plain_field obj ''generated'' js_Boolean False Media_generated_update,
        plain_field obj ''processed'' js_Boolean False Media_processed_update,
        optional_field obj ''createdAt'' js_String Media_createdAt_update,
        optional_field obj ''updatedAt'' js_String Media_updatedAt_update,
        optional_field obj ''metadata'' fromJSON_MediaMetadata Media_metadata_update,
        optional_field obj ''url'' js_String Media_url_update,
        list_field obj ''sizes'' fromJSON_MediaSize Media_sizes_update]
       base_Media"

definition toJSON_Media :: "Media \<Rightarrow> json" where
  "toJSON_Media m =
     object_of
       [(''id'', put_when (Media_id m \<noteq> []) (JStr (Media_id m))),
        (''author'', put_given (Media_author m) toJSON_Author),
        (''name'', put_given (Media_name m) JStr),
        (''description'', put_given (Media_description m) JStr),
        (''visibility'', put_when (Media_visibility m \<noteq> 0) ((to_enum Visibility_numbers) (Media_visibility m))),
        (''moderation'', put_when (Media_moderation m \<noteq> 0) ((to_enum Moderation_numbers) (Media_moderation m))),
        (''generated'', put_when (Media_generated m \<noteq> False) (JBool (Media_generated m))),
        (''processed'', put_when (Media_processed m \<noteq> False) (JBool (Media_processed m))),
        (''createdAt'', put_given (Media_createdAt m) JStr),
        (''updatedAt'', put_given (Media_updatedAt m) JStr),
        (''metadata'', put_given (Media_metadata m) toJSON_MediaMetadata),
        (''url'', put_given (Media_url m) JStr),
        (''sizes'', put_list (Media_sizes m) toJSON_MediaSize)]"

definition fromPartial_Media :: "json \<Rightarrow> Media result" where
  "fromPartial_Media obj =
     read_fields
       [plain_field obj ''id'' as_string [] Media_id_update,
        optional_field obj ''author'' fromPartial_Author Media_author_update,
        optional_field obj ''name'' as_string Media_name_update,
        optional_field obj ''description'' as_string Media_description_update,
        plain_field obj ''visibility'' as_integer 0 Media_visibility_update,
        plain_field obj ''moderation'' as_integer 0 Media_moderation_update,
        plain_field obj ''generated'' as_bool False Media_generated_update,
        plain_field obj ''processed'' as_bool False Media_processed_update,
        optional_field obj ''createdAt'' as_string Media_createdAt_update,
        optional_field obj ''updatedAt'' as_string Media_updatedAt_update,
        optional_field obj ''metadata'' fromPartial_MediaMetadata Media_metadata_update,
        optional_field obj ''url'' as_string Media_url_update,
        mapped_field obj ''sizes'' fromPartial_MediaSize Media_sizes_update]
       base_Media"

definition create_Media :: "json option \<Rightarrow> Media result" where
  "create_Media = create_with fromPartial_Media"

definition known_Media :: "Media \<Rightarrow> bool" where
  "known_Media m \<longleftrightarrow>
     pred_option known_Author (Media_author m) \<and>
     known_enum Visibility_numbers (Media_visibility m) \<and>
     known_enum Moderation_numbers (Media_moderation m) \<and>
     list_all known_MediaSize (Media_sizes m)"

lemma created_Media: "create_Media None = Inr base_Media"
  by (simp add: create_Media_def fromPartial_Media_def base_Media_def)

lemma toJSON_Media_set [json_set]: "toJSON_Media m \<noteq> JNull"
  by (simp add: toJSON_Media_def)

lemma json_Media [json_codecs]:
  assumes "known_Media m"
  shows "fromJSON_Media (toJSON_Media m) = Inr m"
  unfolding fromJSON_Media_def
proof (rule message_restored [OF toJSON_Media_def [of m]])
  show "foldl (\<lambda>m u. u m) base_Media
      [Media_id_update (\<lambda>_. Media_id m),
       Media_author_update (\<lambda>_. Media_author m),
       Media_name_update (\<lambda>_. Media_name m),
       Media_description_update (\<lambda>_. Media_description m),
       Media_visibility_update (\<lambda>_. Media_visibility m),
       Media_moderation_update (\<lambda>_. Media_moderation m),
       Media_generated_update (\<lambda>_. Media_generated m),
       Media_processed_update (\<lambda>_. Media_processed m),
       Media_createdAt_update (\<lambda>_. Media_createdAt m),
       Media_updatedAt_update (\<lambda>_. Media_updatedAt m),
       Media_metadata_update (\<lambda>_. Media_metadata m),
       Media_url_update (\<lambda>_. Media_url m),
       Media_sizes_update (\<lambda>_. Media_sizes m)] = m"
    by (cases m) (simp add: base_Media_def)
qed (simp, insert assms [unfolded known_Media_def], simp only: list.pred_inject prod.case, elim conjE, (rule json_fields | assumption | erule known_values
      | rule any_values comes_backI json_codecs json_set enum_proper)+)

section \<open>License\<close>

definition fromJSON_License :: "json \<Rightarrow> License result" where
  "fromJSON_License obj =
     read_fields
       [plain_field obj ''id'' js_String [] License_id_update,
        optional_field obj ''licensedTo'' fromJSON_Author License_licensedTo_update,
        optional_field obj ''media'' fromJSON_MediaReference License_media_update,
        optional_field obj ''createdAt'' js_String License_createdAt_update,
        optional_field obj ''revokedAt'' js_String License_revokedAt_update]
       base_License"

definition toJSON_License :: "License \<Rightarrow> json" where
  "toJSON_License m =
     object_of
       [(''id'', put_when (License_id m \<noteq> []) (JStr (License_id m))),
        (''licensedTo'', put_given (License_licensedTo m) toJSON_Author),
        (''media'', put_given (License_media m) toJSON_MediaReference),
        (''createdAt'', put_given (License_createdAt m) JStr),
        (''revokedAt'', put_given (License_revokedAt m) JStr)]"

definition fromPartial_License :: "json \<Rightarrow> License result" where
  "fromPartial_License obj =
     read_fields
       [plain_field obj ''id'' as_string [] License_id_update,
        optional_field obj ''licensedTo'' fromPartial_Author License_licensedTo_update,
        optional_field obj ''media'' fromPartial_MediaReference License_media_update,
        optional_field obj ''createdAt'' as_string License_createdAt_update,
        optional_field obj ''revokedAt'' as_string License_revokedAt_update]
       base_License"

definition create_License :: "json option \<Rightarrow> License result" where
  "create_License = create_with fromPartial_License"

definition known_License :: "License \<Rightarrow> bool" where
  "known_License m \<longleftrightarrow>
     pred_option known_Author (License_licensedTo m) \<and>
     pred_option known_MediaReference (License_media m)"

lemma created_License: "create_License None = Inr base_License"
  by (simp add: create_License_def fromPartial_License_def base_License_def)

lemma toJSON_License_set [json_set]: "toJSON_License m \<noteq> JNull"
  by (simp add: toJSON_License_def)

lemma json_License [json_codecs]:
  assumes "known_License m"
  shows "fromJSON_License (toJSON_License m) = Inr m"
  unfolding fromJSON_License_def
proof (rule message_restored [OF toJSON_License_def [of m]])
  show "foldl (\<lambda>m u. u m) base_License
      [License_id_update (\<lambda>_. License_id m),
       License_licensedTo_update (\<lambda>_. License_licensedTo m),
       License_media_update (\<lambda>_. License_media m),
       License_createdAt_update (\<lambda>_. License_createdAt m),
       License_revokedAt_update (\<lambda>_. License_revokedAt m)] = m"
    by (cases m) (simp add: base_License_def)
qed (simp, insert assms [unfolded known_License_def], simp only: list.pred_inject prod.case, elim conjE, (rule json_fields | assumption | erule known_values
      | rule any_values comes_backI json_codecs json_set enum_proper)+)

section \<open>GetMediaRequest\<close>

definition fromJSON_GetMediaRequest :: "json \<Rightarrow> GetMediaRequest result" where
  "fromJSON_GetMediaRequest obj =
     read_fields
       [optional_field obj ''mediaId'' js_String GetMediaRequest_mediaId_update,
        optional_field obj ''userId'' js_String GetMediaRequest_userId_update,
        optional_field obj ''contentType'' js_String GetMediaRequest_contentType_update,
        optional_field obj ''searchText'' js_String GetMediaRequest_searchText_update,
        plain_field obj ''page'' js_Integer 0 GetMediaRequest_page_update]
       base_GetMediaRequest"

definition toJSON_GetMediaRequest :: "GetMediaRequest \<Rightarrow> json" where
  "toJSON_GetMediaRequest m =
     object_of
       [(''mediaId'', put_given (GetMediaRequest_mediaId m) JStr),
        (''userId'', put_given (GetMediaRequest_userId m) JStr),
        (''contentType'', put_given (GetMediaRequest_contentType m) JStr),
        (''searchText'', put_given (GetMediaRequest_searchText m) JStr),
        (''page'', put_when (GetMediaRequest_page m \<noteq> 0) (number (GetMediaRequest_page m)))]"

definition fromPartial_GetMediaRequest :: "json \<Rightarrow> GetMediaRequest result" where
  "fromPartial_GetMediaRequest obj =
     read_fields
       [optional_field obj ''mediaId'' as_string GetMediaRequest_mediaId_update,
        optional_field obj ''userId'' as_string GetMediaRequest_userId_update,
        optional_field obj ''contentType'' as_string GetMediaRequest_contentType_update,
        optional_field obj ''searchText'' as_string GetMediaRequest_searchText_update,
        plain_field obj ''page'' as_integer 0 GetMediaRequest_page_update]
       base_GetMediaRequest"

definition create_GetMediaRequest :: "json option \<Rightarrow> GetMediaRequest result" where
  "create_GetMediaRequest = create_with fromPartial_GetMediaRequest"

lemma created_GetMediaRequest: "create_GetMediaRequest None = Inr base_GetMediaRequest"
  by (simp add: create_GetMediaRequest_def fromPartial_GetMediaRequest_def base_GetMediaRequest_def)

lemma toJSON_GetMediaRequest_set [json_set]: "toJSON_GetMediaRequest m \<noteq> JNull"
  by (simp add: toJSON_GetMediaRequest_def)

lemma json_GetMediaRequest [json_codecs]:
  "fromJSON_GetMediaRequest (toJSON_GetMediaRequest m) = Inr m"
  unfolding fromJSON_GetMediaRequest_def
proof (rule message_restored [OF toJSON_GetMediaRequest_def [of m]])
  show "foldl (\<lambda>m u. u m) base_GetMediaRequest
      [GetMediaRequest_mediaId_update (\<lambda>_. GetMediaRequest_mediaId m),
       GetMediaRequest_userId_update (\<lambda>_. GetMediaRequest_userId m),
       GetMediaRequest_contentType_update (\<lambda>_. GetMediaRequest_contentType m),
       GetMediaRequest_searchText_update (\<lambda>_. GetMediaRequest_searchText m),
       GetMediaRequest_page_update (\<lambda>_. GetMediaRequest_page m)] = m"
    by (cases m) (simp add: base_GetMediaRequest_def)
qed (simp, simp only: list.pred_inject prod.case, elim conjE, (rule json_fields | assumption | erule known_values
      | rule any_values comes_backI json_codecs json_set enum_proper)+)

section \<open>GetMediaResponse\<close>

definition fromJSON_GetMediaResponse :: "json \<Rightarrow> GetMediaResponse result" where
  "fromJSON_GetMediaResponse obj =
     read_fields
       [list_field obj ''media'' fromJSON_Media GetMediaResponse_media_update,
        plain_field obj ''hasNextPage'' js_Boolean False GetMediaResponse_hasNextPage_update]
       base_GetMediaResponse"

definition toJSON_GetMediaResponse :: "GetMediaResponse \<Rightarrow> json" where
  "toJSON_GetMediaResponse m =
     object_of
       [(''media'', put_list (GetMediaResponse_media m) toJSON_Media),
        (''hasNextPage'', put_when (GetMediaResponse_hasNextPage m \<noteq> False) (JBool (GetMediaResponse_hasNextPage m)))]"

definition fromPartial_GetMediaResponse :: "json \<Rightarrow> GetMediaResponse result" where
  "fromPartial_GetMediaResponse obj =
     read_fields
       [mapped_field obj ''media'' fromPartial_Media GetMediaResponse_media_update,
        plain_field obj ''hasNextPage'' as_bool False GetMediaResponse_hasNextPage_update]
       base_GetMediaResponse"

definition create_GetMediaResponse :: "json option \<Rightarrow> GetMediaResponse result" where
  "create_GetMediaResponse = create_with fromPartial_GetMediaResponse"

definition known_GetMediaResponse :: "GetMediaResponse \<Rightarrow> bool" where
  "known_GetMediaResponse m \<longleftrightarrow>
     list_all known_Media (GetMediaResponse_media m)"

lemma created_GetMediaResponse: "create_GetMediaResponse None = Inr base_GetMediaResponse"
  by (simp add: create_GetMediaResponse_def fromPartial_GetMediaResponse_def base_GetMediaResponse_def)

lemma toJSON_GetMediaResponse_set [json_set]: "toJSON_GetMediaResponse m \<noteq> JNull"
  by (simp add: toJSON_GetMediaResponse_def)

lemma json_GetMediaResponse [json_codecs]:
  assumes "known_GetMediaResponse m"
  shows "fromJSON_GetMediaResponse (toJSON_GetMediaResponse m) = Inr m"
  unfolding fromJSON_GetMediaResponse_def
proof (rule message_restored [OF toJSON_GetMediaResponse_def [of m]])
  show "foldl (\<lambda>m u. u m) base_GetMediaResponse
      [GetMediaResponse_media_update (\<lambda>_. GetMediaResponse_media m),
       GetMediaResponse_hasNextPage_update (\<lambda>_. GetMediaResponse_hasNextPage m)] = m"
    by (cases m) (simp add: base_GetMediaResponse_def)
qed (simp, insert assms [unfolded known_GetMediaResponse_def], simp only: list.pred_inject prod.case, elim conjE, (rule json_fields | assumption | erule known_values
      | rule any_values comes_backI json_codecs json_set enum_proper)+)

end
