(* ===== verification/Json_Sync.thy ===== *)
theory Json_Sync
  imports Wire_Sync Json_Media
begin

text \<open>
  The JSON side of packages/api/generated/sync.ts: of each message reading it off an object, the object made of it, and
  building one from the fields given.
\<close>

section \<open>BlueskyAccount\<close>

definition fromJSON_BlueskyAccount :: "json \<Rightarrow> BlueskyAccount result" where
  "fromJSON_BlueskyAccount obj =
     read_fields
       [plain_field obj ''handle'' js_String [] BlueskyAccount_handle_update,
        plain_field obj ''did'' js_String [] BlueskyAccount_did_update,
        optional_field obj ''appPassword'' js_String BlueskyAccount_appPassword_update]
       base_BlueskyAccount"

definition toJSON_BlueskyAccount :: "BlueskyAccount \<Rightarrow> json" where
  "toJSON_BlueskyAccount m =
     object_of
       [(''handle'', put_when (BlueskyAccount_handle m \<noteq> []) (JStr (BlueskyAccount_handle m))),
        (''did'', put_when (BlueskyAccount_did m \<noteq> []) (JStr (BlueskyAccount_did m))),
        (''appPassword'', put_given (BlueskyAccount_appPassword m) JStr)]"

definition fromPartial_BlueskyAccount :: "json \<Rightarrow> BlueskyAccount result" where
  "fromPartial_BlueskyAccount obj =
     read_fields
       [plain_field obj ''handle'' as_string [] BlueskyAccount_handle_update,
        plain_field obj ''did'' as_string [] BlueskyAccount_did_update,
        optional_field obj ''appPassword'' as_string BlueskyAccount_appPassword_update]
       base_BlueskyAccount"

definition create_BlueskyAccount :: "json option \<Rightarrow> BlueskyAccount result" where
  "create_BlueskyAccount = create_with fromPartial_BlueskyAccount"

lemma created_BlueskyAccount: "create_BlueskyAccount None = Inr base_BlueskyAccount"
  by (simp add: create_BlueskyAccount_def fromPartial_BlueskyAccount_def base_BlueskyAccount_def)

lemma toJSON_BlueskyAccount_set [json_set]: "toJSON_BlueskyAccount m \<noteq> JNull"
  by (simp add: toJSON_BlueskyAccount_def)

lemma json_BlueskyAccount [json_codecs]:
  "fromJSON_BlueskyAccount (toJSON_BlueskyAccount m) = Inr m"
  unfolding fromJSON_BlueskyAccount_def
proof (rule message_restored [OF toJSON_BlueskyAccount_def [of m]])
  show "foldl (\<lambda>m u. u m) base_BlueskyAccount
      [BlueskyAccount_handle_update (\<lambda>_. BlueskyAccount_handle m),
       BlueskyAccount_did_update (\<lambda>_. BlueskyAccount_did m),
       BlueskyAccount_appPassword_update (\<lambda>_. BlueskyAccount_appPassword m)] = m"
    by (cases m) (simp add: base_BlueskyAccount_def)
qed (simp, simp only: list.pred_inject prod.case, elim conjE, (rule json_fields | assumption | erule known_values
      | rule any_values comes_backI json_codecs json_set enum_proper)+)

section \<open>FacebookPage\<close>

definition fromJSON_FacebookPage :: "json \<Rightarrow> FacebookPage result" where
  "fromJSON_FacebookPage obj =
     read_fields
       [plain_field obj ''pageId'' js_String [] FacebookPage_pageId_update,
        plain_field obj ''pageName'' js_String [] FacebookPage_pageName_update,
        optional_field obj ''shortLivedUserAccessToken'' js_String FacebookPage_shortLivedUserAccessToken_update]
       base_FacebookPage"

definition toJSON_FacebookPage :: "FacebookPage \<Rightarrow> json" where
  "toJSON_FacebookPage m =
     object_of
       [(''pageId'', put_when (FacebookPage_pageId m \<noteq> []) (JStr (FacebookPage_pageId m))),
        (''pageName'', put_when (FacebookPage_pageName m \<noteq> []) (JStr (FacebookPage_pageName m))),
        (''shortLivedUserAccessToken'', put_given (FacebookPage_shortLivedUserAccessToken m) JStr)]"

definition fromPartial_FacebookPage :: "json \<Rightarrow> FacebookPage result" where
  "fromPartial_FacebookPage obj =
     read_fields
       [plain_field obj ''pageId'' as_string [] FacebookPage_pageId_update,
        plain_field obj ''pageName'' as_string [] FacebookPage_pageName_update,
        optional_field obj ''shortLivedUserAccessToken'' as_string FacebookPage_shortLivedUserAccessToken_update]
       base_FacebookPage"

definition create_FacebookPage :: "json option \<Rightarrow> FacebookPage result" where
  "create_FacebookPage = create_with fromPartial_FacebookPage"

lemma created_FacebookPage: "create_FacebookPage None = Inr base_FacebookPage"
  by (simp add: create_FacebookPage_def fromPartial_FacebookPage_def base_FacebookPage_def)

lemma toJSON_FacebookPage_set [json_set]: "toJSON_FacebookPage m \<noteq> JNull"
  by (simp add: toJSON_FacebookPage_def)

lemma json_FacebookPage [json_codecs]:
  "fromJSON_FacebookPage (toJSON_FacebookPage m) = Inr m"
  unfolding fromJSON_FacebookPage_def
proof (rule message_restored [OF toJSON_FacebookPage_def [of m]])
  show "foldl (\<lambda>m u. u m) base_FacebookPage
      [FacebookPage_pageId_update (\<lambda>_. FacebookPage_pageId m),
       FacebookPage_pageName_update (\<lambda>_. FacebookPage_pageName m),
       FacebookPage_shortLivedUserAccessToken_update (\<lambda>_. FacebookPage_shortLivedUserAccessToken m)] = m"
    by (cases m) (simp add: base_FacebookPage_def)
qed (simp, simp only: list.pred_inject prod.case, elim conjE, (rule json_fields | assumption | erule known_values
      | rule any_values comes_backI json_codecs json_set enum_proper)+)

section \<open>InstagramAccount\<close>

definition fromJSON_InstagramAccount :: "json \<Rightarrow> InstagramAccount result" where
  "fromJSON_InstagramAccount obj =
     read_fields
       [plain_field obj ''instagramBusinessAccountId'' js_String [] InstagramAccount_instagramBusinessAccountId_update,
        plain_field obj ''username'' js_String [] InstagramAccount_username_update,
        plain_field obj ''pageId'' js_String [] InstagramAccount_pageId_update,
        optional_field obj ''shortLivedUserAccessToken'' js_String InstagramAccount_shortLivedUserAccessToken_update]
       base_InstagramAccount"

definition toJSON_InstagramAccount :: "InstagramAccount \<Rightarrow> json" where
  "toJSON_InstagramAccount m =
     object_of
       [(''instagramBusinessAccountId'', put_when (InstagramAccount_instagramBusinessAccountId m \<noteq> []) (JStr (InstagramAccount_instagramBusinessAccountId m))),
        (''username'', put_when (InstagramAccount_username m \<noteq> []) (JStr (InstagramAccount_username m))),
        (''pageId'', put_when (InstagramAccount_pageId m \<noteq> []) (JStr (InstagramAccount_pageId m))),
        (''shortLivedUserAccessToken'', put_given (InstagramAccount_shortLivedUserAccessToken m) JStr)]"

definition fromPartial_InstagramAccount :: "json \<Rightarrow> InstagramAccount result" where
  "fromPartial_InstagramAccount obj =
     read_fields
       [plain_field obj ''instagramBusinessAccountId'' as_string [] InstagramAccount_instagramBusinessAccountId_update,
        plain_field obj ''username'' as_string [] InstagramAccount_username_update,
        plain_field obj ''pageId'' as_string [] InstagramAccount_pageId_update,
        optional_field obj ''shortLivedUserAccessToken'' as_string InstagramAccount_shortLivedUserAccessToken_update]
       base_InstagramAccount"

definition create_InstagramAccount :: "json option \<Rightarrow> InstagramAccount result" where
  "create_InstagramAccount = create_with fromPartial_InstagramAccount"

lemma created_InstagramAccount: "create_InstagramAccount None = Inr base_InstagramAccount"
  by (simp add: create_InstagramAccount_def fromPartial_InstagramAccount_def base_InstagramAccount_def)

lemma toJSON_InstagramAccount_set [json_set]: "toJSON_InstagramAccount m \<noteq> JNull"
  by (simp add: toJSON_InstagramAccount_def)

lemma json_InstagramAccount [json_codecs]:
  "fromJSON_InstagramAccount (toJSON_InstagramAccount m) = Inr m"
  unfolding fromJSON_InstagramAccount_def
proof (rule message_restored [OF toJSON_InstagramAccount_def [of m]])
  show "foldl (\<lambda>m u. u m) base_InstagramAccount
      [InstagramAccount_instagramBusinessAccountId_update (\<lambda>_. InstagramAccount_instagramBusinessAccountId m),
       InstagramAccount_username_update (\<lambda>_. InstagramAccount_username m),
       InstagramAccount_pageId_update (\<lambda>_. InstagramAccount_pageId m),
       InstagramAccount_shortLivedUserAccessToken_update (\<lambda>_. InstagramAccount_shortLivedUserAccessToken m)] = m"
    by (cases m) (simp add: base_InstagramAccount_def)
qed (simp, simp only: list.pred_inject prod.case, elim conjE, (rule json_fields | assumption | erule known_values
      | rule any_values comes_backI json_codecs json_set enum_proper)+)

section \<open>MastodonAccount\<close>

definition fromJSON_MastodonAccount :: "json \<Rightarrow> MastodonAccount result" where
  "fromJSON_MastodonAccount obj =
     read_fields
       [plain_field obj ''instanceHost'' js_String [] MastodonAccount_instanceHost_update,
        plain_field obj ''username'' js_String [] MastodonAccount_username_update,
        optional_field obj ''accessToken'' js_String MastodonAccount_accessToken_update]
       base_MastodonAccount"

definition toJSON_MastodonAccount :: "MastodonAccount \<Rightarrow> json" where
  "toJSON_MastodonAccount m =
     object_of
       [(''instanceHost'', put_when (MastodonAccount_instanceHost m \<noteq> []) (JStr (MastodonAccount_instanceHost m))),
        (''username'', put_when (MastodonAccount_username m \<noteq> []) (JStr (MastodonAccount_username m))),
        (''accessToken'', put_given (MastodonAccount_accessToken m) JStr)]"

definition fromPartial_MastodonAccount :: "json \<Rightarrow> MastodonAccount result" where
  "fromPartial_MastodonAccount obj =
     read_fields
       [plain_field obj ''instanceHost'' as_string [] MastodonAccount_instanceHost_update,
        plain_field obj ''username'' as_string [] MastodonAccount_username_update,
        optional_field obj ''accessToken'' as_string MastodonAccount_accessToken_update]
       base_MastodonAccount"

definition create_MastodonAccount :: "json option \<Rightarrow> MastodonAccount result" where
  "create_MastodonAccount = create_with fromPartial_MastodonAccount"

lemma created_MastodonAccount: "create_MastodonAccount None = Inr base_MastodonAccount"
  by (simp add: create_MastodonAccount_def fromPartial_MastodonAccount_def base_MastodonAccount_def)

lemma toJSON_MastodonAccount_set [json_set]: "toJSON_MastodonAccount m \<noteq> JNull"
  by (simp add: toJSON_MastodonAccount_def)

lemma json_MastodonAccount [json_codecs]:
  "fromJSON_MastodonAccount (toJSON_MastodonAccount m) = Inr m"
  unfolding fromJSON_MastodonAccount_def
proof (rule message_restored [OF toJSON_MastodonAccount_def [of m]])
  show "foldl (\<lambda>m u. u m) base_MastodonAccount
      [MastodonAccount_instanceHost_update (\<lambda>_. MastodonAccount_instanceHost m),
       MastodonAccount_username_update (\<lambda>_. MastodonAccount_username m),
       MastodonAccount_accessToken_update (\<lambda>_. MastodonAccount_accessToken m)] = m"
    by (cases m) (simp add: base_MastodonAccount_def)
qed (simp, simp only: list.pred_inject prod.case, elim conjE, (rule json_fields | assumption | erule known_values
      | rule any_values comes_backI json_codecs json_set enum_proper)+)

section \<open>ThreadsAccount\<close>

definition fromJSON_ThreadsAccount :: "json \<Rightarrow> ThreadsAccount result" where
  "fromJSON_ThreadsAccount obj =
     read_fields
       [plain_field obj ''threadsUserId'' js_String [] ThreadsAccount_threadsUserId_update,
        plain_field obj ''username'' js_String [] ThreadsAccount_username_update,
        optional_field obj ''authorizationCode'' js_String ThreadsAccount_authorizationCode_update]
       base_ThreadsAccount"

definition toJSON_ThreadsAccount :: "ThreadsAccount \<Rightarrow> json" where
  "toJSON_ThreadsAccount m =
     object_of
       [(''threadsUserId'', put_when (ThreadsAccount_threadsUserId m \<noteq> []) (JStr (ThreadsAccount_threadsUserId m))),
        (''username'', put_when (ThreadsAccount_username m \<noteq> []) (JStr (ThreadsAccount_username m))),
        (''authorizationCode'', put_given (ThreadsAccount_authorizationCode m) JStr)]"

definition fromPartial_ThreadsAccount :: "json \<Rightarrow> ThreadsAccount result" where
  "fromPartial_ThreadsAccount obj =
     read_fields
       [plain_field obj ''threadsUserId'' as_string [] ThreadsAccount_threadsUserId_update,
        plain_field obj ''username'' as_string [] ThreadsAccount_username_update,
        optional_field obj ''authorizationCode'' as_string ThreadsAccount_authorizationCode_update]
       base_ThreadsAccount"

definition create_ThreadsAccount :: "json option \<Rightarrow> ThreadsAccount result" where
  "create_ThreadsAccount = create_with fromPartial_ThreadsAccount"

lemma created_ThreadsAccount: "create_ThreadsAccount None = Inr base_ThreadsAccount"
  by (simp add: create_ThreadsAccount_def fromPartial_ThreadsAccount_def base_ThreadsAccount_def)

lemma toJSON_ThreadsAccount_set [json_set]: "toJSON_ThreadsAccount m \<noteq> JNull"
  by (simp add: toJSON_ThreadsAccount_def)

lemma json_ThreadsAccount [json_codecs]:
  "fromJSON_ThreadsAccount (toJSON_ThreadsAccount m) = Inr m"
  unfolding fromJSON_ThreadsAccount_def
proof (rule message_restored [OF toJSON_ThreadsAccount_def [of m]])
  show "foldl (\<lambda>m u. u m) base_ThreadsAccount
      [ThreadsAccount_threadsUserId_update (\<lambda>_. ThreadsAccount_threadsUserId m),
       ThreadsAccount_username_update (\<lambda>_. ThreadsAccount_username m),
       ThreadsAccount_authorizationCode_update (\<lambda>_. ThreadsAccount_authorizationCode m)] = m"
    by (cases m) (simp add: base_ThreadsAccount_def)
qed (simp, simp only: list.pred_inject prod.case, elim conjE, (rule json_fields | assumption | erule known_values
      | rule any_values comes_backI json_codecs json_set enum_proper)+)

section \<open>XTwitterAccount\<close>

definition fromJSON_XTwitterAccount :: "json \<Rightarrow> XTwitterAccount result" where
  "fromJSON_XTwitterAccount obj =
     read_fields
       [plain_field obj ''username'' js_String [] XTwitterAccount_username_update,
        plain_field obj ''xUserId'' js_String [] XTwitterAccount_xUserId_update,
        optional_field obj ''authorizationCode'' js_String XTwitterAccount_authorizationCode_update,
        optional_field obj ''codeVerifier'' js_String XTwitterAccount_codeVerifier_update]
       base_XTwitterAccount"

definition toJSON_XTwitterAccount :: "XTwitterAccount \<Rightarrow> json" where
  "toJSON_XTwitterAccount m =
     object_of
       [(''username'', put_when (XTwitterAccount_username m \<noteq> []) (JStr (XTwitterAccount_username m))),
        (''xUserId'', put_when (XTwitterAccount_xUserId m \<noteq> []) (JStr (XTwitterAccount_xUserId m))),
        (''authorizationCode'', put_given (XTwitterAccount_authorizationCode m) JStr),
        (''codeVerifier'', put_given (XTwitterAccount_codeVerifier m) JStr)]"

definition fromPartial_XTwitterAccount :: "json \<Rightarrow> XTwitterAccount result" where
  "fromPartial_XTwitterAccount obj =
     read_fields
       [plain_field obj ''username'' as_string [] XTwitterAccount_username_update,
        plain_field obj ''xUserId'' as_string [] XTwitterAccount_xUserId_update,
        optional_field obj ''authorizationCode'' as_string XTwitterAccount_authorizationCode_update,
        optional_field obj ''codeVerifier'' as_string XTwitterAccount_codeVerifier_update]
       base_XTwitterAccount"

definition create_XTwitterAccount :: "json option \<Rightarrow> XTwitterAccount result" where
  "create_XTwitterAccount = create_with fromPartial_XTwitterAccount"

lemma created_XTwitterAccount: "create_XTwitterAccount None = Inr base_XTwitterAccount"
  by (simp add: create_XTwitterAccount_def fromPartial_XTwitterAccount_def base_XTwitterAccount_def)

lemma toJSON_XTwitterAccount_set [json_set]: "toJSON_XTwitterAccount m \<noteq> JNull"
  by (simp add: toJSON_XTwitterAccount_def)

lemma json_XTwitterAccount [json_codecs]:
  "fromJSON_XTwitterAccount (toJSON_XTwitterAccount m) = Inr m"
  unfolding fromJSON_XTwitterAccount_def
proof (rule message_restored [OF toJSON_XTwitterAccount_def [of m]])
  show "foldl (\<lambda>m u. u m) base_XTwitterAccount
      [XTwitterAccount_username_update (\<lambda>_. XTwitterAccount_username m),
       XTwitterAccount_xUserId_update (\<lambda>_. XTwitterAccount_xUserId m),
       XTwitterAccount_authorizationCode_update (\<lambda>_. XTwitterAccount_authorizationCode m),
       XTwitterAccount_codeVerifier_update (\<lambda>_. XTwitterAccount_codeVerifier m)] = m"
    by (cases m) (simp add: base_XTwitterAccount_def)
qed (simp, simp only: list.pred_inject prod.case, elim conjE, (rule json_fields | assumption | erule known_values
      | rule any_values comes_backI json_codecs json_set enum_proper)+)

section \<open>SyncDestination\<close>

definition fromJSON_SyncDestination :: "json \<Rightarrow> SyncDestination result" where
  "fromJSON_SyncDestination obj =
     read_fields
       [plain_field obj ''id'' js_String [] SyncDestination_id_update,
        optional_field obj ''owner'' fromJSON_Author SyncDestination_owner_update,
        optional_field obj ''createdAt'' js_String SyncDestination_createdAt_update,
        optional_field obj ''updatedAt'' js_String SyncDestination_updatedAt_update,
        optional_field obj ''syncedOccasionCount'' js_Integer SyncDestination_syncedOccasionCount_update,
        optional_field obj ''syncedPostCount'' js_Integer SyncDestination_syncedPostCount_update,
        optional_field obj ''facebookPage'' fromJSON_FacebookPage SyncDestination_facebookPage_update,
        optional_field obj ''instagramAccount'' fromJSON_InstagramAccount SyncDestination_instagramAccount_update,
        optional_field obj ''mastodonAccount'' fromJSON_MastodonAccount SyncDestination_mastodonAccount_update,
        optional_field obj ''blueskyAccount'' fromJSON_BlueskyAccount SyncDestination_blueskyAccount_update,
        optional_field obj ''xTwitterAccount'' fromJSON_XTwitterAccount SyncDestination_xTwitterAccount_update,
        optional_field obj ''threadsAccount'' fromJSON_ThreadsAccount SyncDestination_threadsAccount_update]
       base_SyncDestination"

definition toJSON_SyncDestination :: "SyncDestination \<Rightarrow> json" where
  "toJSON_SyncDestination m =
     object_of
       [(''id'', put_when (SyncDestination_id m \<noteq> []) (JStr (SyncDestination_id m))),
        (''owner'', put_given (SyncDestination_owner m) toJSON_Author),
        (''createdAt'', put_given (SyncDestination_createdAt m) JStr),
        (''updatedAt'', put_given (SyncDestination_updatedAt m) JStr),
        (''syncedOccasionCount'', put_given (SyncDestination_syncedOccasionCount m) number),
        (''syncedPostCount'', put_given (SyncDestination_syncedPostCount m) number),
        (''facebookPage'', put_given (SyncDestination_facebookPage m) toJSON_FacebookPage),
        (''instagramAccount'', put_given (SyncDestination_instagramAccount m) toJSON_InstagramAccount),
        (''mastodonAccount'', put_given (SyncDestination_mastodonAccount m) toJSON_MastodonAccount),
        (''blueskyAccount'', put_given (SyncDestination_blueskyAccount m) toJSON_BlueskyAccount),
        (''xTwitterAccount'', put_given (SyncDestination_xTwitterAccount m) toJSON_XTwitterAccount),
        (''threadsAccount'', put_given (SyncDestination_threadsAccount m) toJSON_ThreadsAccount)]"

definition fromPartial_SyncDestination :: "json \<Rightarrow> SyncDestination result" where
  "fromPartial_SyncDestination obj =
     read_fields
       [plain_field obj ''id'' as_string [] SyncDestination_id_update,
        optional_field obj ''owner'' fromPartial_Author SyncDestination_owner_update,
        optional_field obj ''createdAt'' as_string SyncDestination_createdAt_update,
        optional_field obj ''updatedAt'' as_string SyncDestination_updatedAt_update,
        optional_field obj ''syncedOccasionCount'' as_integer SyncDestination_syncedOccasionCount_update,
        optional_field obj ''syncedPostCount'' as_integer SyncDestination_syncedPostCount_update,
        optional_field obj ''facebookPage'' fromPartial_FacebookPage SyncDestination_facebookPage_update,
        optional_field obj ''instagramAccount'' fromPartial_InstagramAccount SyncDestination_instagramAccount_update,
        optional_field obj ''mastodonAccount'' fromPartial_MastodonAccount SyncDestination_mastodonAccount_update,
        optional_field obj ''blueskyAccount'' fromPartial_BlueskyAccount SyncDestination_blueskyAccount_update,
        optional_field obj ''xTwitterAccount'' fromPartial_XTwitterAccount SyncDestination_xTwitterAccount_update,
        optional_field obj ''threadsAccount'' fromPartial_ThreadsAccount SyncDestination_threadsAccount_update]
       base_SyncDestination"

definition create_SyncDestination :: "json option \<Rightarrow> SyncDestination result" where
  "create_SyncDestination = create_with fromPartial_SyncDestination"

definition known_SyncDestination :: "SyncDestination \<Rightarrow> bool" where
  "known_SyncDestination m \<longleftrightarrow>
     pred_option known_Author (SyncDestination_owner m)"

lemma created_SyncDestination: "create_SyncDestination None = Inr base_SyncDestination"
  by (simp add: create_SyncDestination_def fromPartial_SyncDestination_def base_SyncDestination_def)

lemma toJSON_SyncDestination_set [json_set]: "toJSON_SyncDestination m \<noteq> JNull"
  by (simp add: toJSON_SyncDestination_def)

lemma json_SyncDestination [json_codecs]:
  assumes "known_SyncDestination m"
  shows "fromJSON_SyncDestination (toJSON_SyncDestination m) = Inr m"
  unfolding fromJSON_SyncDestination_def
proof (rule message_restored [OF toJSON_SyncDestination_def [of m]])
  show "foldl (\<lambda>m u. u m) base_SyncDestination
      [SyncDestination_id_update (\<lambda>_. SyncDestination_id m),
       SyncDestination_owner_update (\<lambda>_. SyncDestination_owner m),
       SyncDestination_createdAt_update (\<lambda>_. SyncDestination_createdAt m),
       SyncDestination_updatedAt_update (\<lambda>_. SyncDestination_updatedAt m),
       SyncDestination_syncedOccasionCount_update (\<lambda>_. SyncDestination_syncedOccasionCount m),
       SyncDestination_syncedPostCount_update (\<lambda>_. SyncDestination_syncedPostCount m),
       SyncDestination_facebookPage_update (\<lambda>_. SyncDestination_facebookPage m),
       SyncDestination_instagramAccount_update (\<lambda>_. SyncDestination_instagramAccount m),
       SyncDestination_mastodonAccount_update (\<lambda>_. SyncDestination_mastodonAccount m),
       SyncDestination_blueskyAccount_update (\<lambda>_. SyncDestination_blueskyAccount m),
       SyncDestination_xTwitterAccount_update (\<lambda>_. SyncDestination_xTwitterAccount m),
       SyncDestination_threadsAccount_update (\<lambda>_. SyncDestination_threadsAccount m)] = m"
    by (cases m) (simp add: base_SyncDestination_def)
qed (simp, insert assms [unfolded known_SyncDestination_def], simp only: list.pred_inject prod.case, elim conjE, (rule json_fields | assumption | erule known_values
      | rule any_values comes_backI json_codecs json_set enum_proper)+)

section \<open>GetSyncDestinationsResponse\<close>

definition fromJSON_GetSyncDestinationsResponse :: "json \<Rightarrow> GetSyncDestinationsResponse result" where
  "fromJSON_GetSyncDestinationsResponse obj =
     read_fields
       [list_field obj ''destinations'' fromJSON_SyncDestination GetSyncDestinationsResponse_destinations_update]
       base_GetSyncDestinationsResponse"

definition toJSON_GetSyncDestinationsResponse :: "GetSyncDestinationsResponse \<Rightarrow> json" where
  "toJSON_GetSyncDestinationsResponse m =
     object_of
       [(''destinations'', put_list (GetSyncDestinationsResponse_destinations m) toJSON_SyncDestination)]"

definition fromPartial_GetSyncDestinationsResponse :: "json \<Rightarrow> GetSyncDestinationsResponse result" where
  "fromPartial_GetSyncDestinationsResponse obj =
     read_fields
       [mapped_field obj ''destinations'' fromPartial_SyncDestination GetSyncDestinationsResponse_destinations_update]
       base_GetSyncDestinationsResponse"

definition create_GetSyncDestinationsResponse :: "json option \<Rightarrow> GetSyncDestinationsResponse result" where
  "create_GetSyncDestinationsResponse = create_with fromPartial_GetSyncDestinationsResponse"

definition known_GetSyncDestinationsResponse :: "GetSyncDestinationsResponse \<Rightarrow> bool" where
  "known_GetSyncDestinationsResponse m \<longleftrightarrow>
     list_all known_SyncDestination (GetSyncDestinationsResponse_destinations m)"

lemma created_GetSyncDestinationsResponse: "create_GetSyncDestinationsResponse None = Inr base_GetSyncDestinationsResponse"
  by (simp add: create_GetSyncDestinationsResponse_def fromPartial_GetSyncDestinationsResponse_def base_GetSyncDestinationsResponse_def)

lemma toJSON_GetSyncDestinationsResponse_set [json_set]: "toJSON_GetSyncDestinationsResponse m \<noteq> JNull"
  by (simp add: toJSON_GetSyncDestinationsResponse_def)

lemma json_GetSyncDestinationsResponse [json_codecs]:
  assumes "known_GetSyncDestinationsResponse m"
  shows "fromJSON_GetSyncDestinationsResponse (toJSON_GetSyncDestinationsResponse m) = Inr m"
  unfolding fromJSON_GetSyncDestinationsResponse_def
proof (rule message_restored [OF toJSON_GetSyncDestinationsResponse_def [of m]])
  show "foldl (\<lambda>m u. u m) base_GetSyncDestinationsResponse
      [GetSyncDestinationsResponse_destinations_update (\<lambda>_. GetSyncDestinationsResponse_destinations m)] = m"
    by (cases m) (simp add: base_GetSyncDestinationsResponse_def)
qed (simp, insert assms [unfolded known_GetSyncDestinationsResponse_def], simp only: list.pred_inject prod.case, elim conjE, (rule json_fields | assumption | erule known_values
      | rule any_values comes_backI json_codecs json_set enum_proper)+)

section \<open>DeleteSyncDestinationRequest\<close>

definition fromJSON_DeleteSyncDestinationRequest :: "json \<Rightarrow> DeleteSyncDestinationRequest result" where
  "fromJSON_DeleteSyncDestinationRequest obj =
     read_fields
       [optional_field obj ''destination'' fromJSON_SyncDestination DeleteSyncDestinationRequest_destination_update,
        plain_field obj ''deleteSyncedPosts'' js_Boolean False DeleteSyncDestinationRequest_deleteSyncedPosts_update]
       base_DeleteSyncDestinationRequest"

definition toJSON_DeleteSyncDestinationRequest :: "DeleteSyncDestinationRequest \<Rightarrow> json" where
  "toJSON_DeleteSyncDestinationRequest m =
     object_of
       [(''destination'', put_given (DeleteSyncDestinationRequest_destination m) toJSON_SyncDestination),
        (''deleteSyncedPosts'', put_when (DeleteSyncDestinationRequest_deleteSyncedPosts m \<noteq> False) (JBool (DeleteSyncDestinationRequest_deleteSyncedPosts m)))]"

definition fromPartial_DeleteSyncDestinationRequest :: "json \<Rightarrow> DeleteSyncDestinationRequest result" where
  "fromPartial_DeleteSyncDestinationRequest obj =
     read_fields
       [optional_field obj ''destination'' fromPartial_SyncDestination DeleteSyncDestinationRequest_destination_update,
        plain_field obj ''deleteSyncedPosts'' as_bool False DeleteSyncDestinationRequest_deleteSyncedPosts_update]
       base_DeleteSyncDestinationRequest"

definition create_DeleteSyncDestinationRequest :: "json option \<Rightarrow> DeleteSyncDestinationRequest result" where
  "create_DeleteSyncDestinationRequest = create_with fromPartial_DeleteSyncDestinationRequest"

definition known_DeleteSyncDestinationRequest :: "DeleteSyncDestinationRequest \<Rightarrow> bool" where
  "known_DeleteSyncDestinationRequest m \<longleftrightarrow>
     pred_option known_SyncDestination (DeleteSyncDestinationRequest_destination m)"

lemma created_DeleteSyncDestinationRequest: "create_DeleteSyncDestinationRequest None = Inr base_DeleteSyncDestinationRequest"
  by (simp add: create_DeleteSyncDestinationRequest_def fromPartial_DeleteSyncDestinationRequest_def base_DeleteSyncDestinationRequest_def)

lemma toJSON_DeleteSyncDestinationRequest_set [json_set]: "toJSON_DeleteSyncDestinationRequest m \<noteq> JNull"
  by (simp add: toJSON_DeleteSyncDestinationRequest_def)

lemma json_DeleteSyncDestinationRequest [json_codecs]:
  assumes "known_DeleteSyncDestinationRequest m"
  shows "fromJSON_DeleteSyncDestinationRequest (toJSON_DeleteSyncDestinationRequest m) = Inr m"
  unfolding fromJSON_DeleteSyncDestinationRequest_def
proof (rule message_restored [OF toJSON_DeleteSyncDestinationRequest_def [of m]])
  show "foldl (\<lambda>m u. u m) base_DeleteSyncDestinationRequest
      [DeleteSyncDestinationRequest_destination_update (\<lambda>_. DeleteSyncDestinationRequest_destination m),
       DeleteSyncDestinationRequest_deleteSyncedPosts_update (\<lambda>_. DeleteSyncDestinationRequest_deleteSyncedPosts m)] = m"
    by (cases m) (simp add: base_DeleteSyncDestinationRequest_def)
qed (simp, insert assms [unfolded known_DeleteSyncDestinationRequest_def], simp only: list.pred_inject prod.case, elim conjE, (rule json_fields | assumption | erule known_values
      | rule any_values comes_backI json_codecs json_set enum_proper)+)

section \<open>SyncDestinationStatus\<close>

definition fromJSON_SyncDestinationStatus :: "json \<Rightarrow> SyncDestinationStatus result" where
  "fromJSON_SyncDestinationStatus obj =
     read_fields
       [plain_field obj ''syncDestinationId'' js_String [] SyncDestinationStatus_syncDestinationId_update,
        optional_field obj ''destinationInstanceId'' js_String SyncDestinationStatus_destinationInstanceId_update,
        optional_field obj ''destinationUrl'' js_String SyncDestinationStatus_destinationUrl_update,
        optional_field obj ''syncedAt'' js_String SyncDestinationStatus_syncedAt_update]
       base_SyncDestinationStatus"

definition toJSON_SyncDestinationStatus :: "SyncDestinationStatus \<Rightarrow> json" where
  "toJSON_SyncDestinationStatus m =
     object_of
       [(''syncDestinationId'', put_when (SyncDestinationStatus_syncDestinationId m \<noteq> []) (JStr (SyncDestinationStatus_syncDestinationId m))),
        (''destinationInstanceId'', put_given (SyncDestinationStatus_destinationInstanceId m) JStr),
        (''destinationUrl'', put_given (SyncDestinationStatus_destinationUrl m) JStr),
        (''syncedAt'', put_given (SyncDestinationStatus_syncedAt m) JStr)]"

definition fromPartial_SyncDestinationStatus :: "json \<Rightarrow> SyncDestinationStatus result" where
  "fromPartial_SyncDestinationStatus obj =
     read_fields
       [plain_field obj ''syncDestinationId'' as_string [] SyncDestinationStatus_syncDestinationId_update,
        optional_field obj ''destinationInstanceId'' as_string SyncDestinationStatus_destinationInstanceId_update,
        optional_field obj ''destinationUrl'' as_string SyncDestinationStatus_destinationUrl_update,
        optional_field obj ''syncedAt'' as_string SyncDestinationStatus_syncedAt_update]
       base_SyncDestinationStatus"

definition create_SyncDestinationStatus :: "json option \<Rightarrow> SyncDestinationStatus result" where
  "create_SyncDestinationStatus = create_with fromPartial_SyncDestinationStatus"

lemma created_SyncDestinationStatus: "create_SyncDestinationStatus None = Inr base_SyncDestinationStatus"
  by (simp add: create_SyncDestinationStatus_def fromPartial_SyncDestinationStatus_def base_SyncDestinationStatus_def)

lemma toJSON_SyncDestinationStatus_set [json_set]: "toJSON_SyncDestinationStatus m \<noteq> JNull"
  by (simp add: toJSON_SyncDestinationStatus_def)

lemma json_SyncDestinationStatus [json_codecs]:
  "fromJSON_SyncDestinationStatus (toJSON_SyncDestinationStatus m) = Inr m"
  unfolding fromJSON_SyncDestinationStatus_def
proof (rule message_restored [OF toJSON_SyncDestinationStatus_def [of m]])
  show "foldl (\<lambda>m u. u m) base_SyncDestinationStatus
      [SyncDestinationStatus_syncDestinationId_update (\<lambda>_. SyncDestinationStatus_syncDestinationId m),
       SyncDestinationStatus_destinationInstanceId_update (\<lambda>_. SyncDestinationStatus_destinationInstanceId m),
       SyncDestinationStatus_destinationUrl_update (\<lambda>_. SyncDestinationStatus_destinationUrl m),
       SyncDestinationStatus_syncedAt_update (\<lambda>_. SyncDestinationStatus_syncedAt m)] = m"
    by (cases m) (simp add: base_SyncDestinationStatus_def)
qed (simp, simp only: list.pred_inject prod.case, elim conjE, (rule json_fields | assumption | erule known_values
      | rule any_values comes_backI json_codecs json_set enum_proper)+)

section \<open>SyncSource\<close>

definition fromJSON_SyncSource :: "json \<Rightarrow> SyncSource result" where
  "fromJSON_SyncSource obj =
     read_fields
       [plain_field obj ''id'' js_String [] SyncSource_id_update,
        optional_field obj ''owner'' fromJSON_Author SyncSource_owner_update,
        plain_field obj ''syncIntervalSeconds'' js_Integer 0 SyncSource_syncIntervalSeconds_update,
        optional_field obj ''createdAt'' js_String SyncSource_createdAt_update,
        optional_field obj ''updatedAt'' js_String SyncSource_updatedAt_update,
        optional_field obj ''lastSyncedAt'' js_String SyncSource_lastSyncedAt_update,
        plain_field obj ''eventCount'' js_Integer 0 SyncSource_eventCount_update,
        plain_field obj ''occasionCount'' js_Integer 0 SyncSource_occasionCount_update,
        plain_field obj ''postCount'' js_Integer 0 SyncSource_postCount_update,
        optional_field obj ''userAgent'' (from_enum SyncSourceUserAgent_numbers) SyncSource_userAgent_update,
        optional_field obj ''icsSubscriptionUrl'' js_String SyncSource_icsSubscriptionUrl_update,
        optional_field obj ''stellarwpIcsSubscriptionUrl'' js_String SyncSource_stellarwpIcsSubscriptionUrl_update,
        optional_field obj ''rssSubscriptionUrl'' js_String SyncSource_rssSubscriptionUrl_update,
        optional_field obj ''atomSubscriptionUrl'' js_String SyncSource_atomSubscriptionUrl_update]
       base_SyncSource"

definition toJSON_SyncSource :: "SyncSource \<Rightarrow> json" where
  "toJSON_SyncSource m =
     object_of
       [(''id'', put_when (SyncSource_id m \<noteq> []) (JStr (SyncSource_id m))),
        (''owner'', put_given (SyncSource_owner m) toJSON_Author),
        (''syncIntervalSeconds'', put_when (SyncSource_syncIntervalSeconds m \<noteq> 0) (number (SyncSource_syncIntervalSeconds m))),
        (''createdAt'', put_given (SyncSource_createdAt m) JStr),
        (''updatedAt'', put_given (SyncSource_updatedAt m) JStr),
        (''lastSyncedAt'', put_given (SyncSource_lastSyncedAt m) JStr),
        (''eventCount'', put_when (SyncSource_eventCount m \<noteq> 0) (number (SyncSource_eventCount m))),
        (''occasionCount'', put_when (SyncSource_occasionCount m \<noteq> 0) (number (SyncSource_occasionCount m))),
        (''postCount'', put_when (SyncSource_postCount m \<noteq> 0) (number (SyncSource_postCount m))),
        (''userAgent'', put_given (SyncSource_userAgent m) (to_enum SyncSourceUserAgent_numbers)),
        (''icsSubscriptionUrl'', put_given (SyncSource_icsSubscriptionUrl m) JStr),
        (''stellarwpIcsSubscriptionUrl'', put_given (SyncSource_stellarwpIcsSubscriptionUrl m) JStr),
        (''rssSubscriptionUrl'', put_given (SyncSource_rssSubscriptionUrl m) JStr),
        (''atomSubscriptionUrl'', put_given (SyncSource_atomSubscriptionUrl m) JStr)]"

definition fromPartial_SyncSource :: "json \<Rightarrow> SyncSource result" where
  "fromPartial_SyncSource obj =
     read_fields
       [plain_field obj ''id'' as_string [] SyncSource_id_update,
        optional_field obj ''owner'' fromPartial_Author SyncSource_owner_update,
        plain_field obj ''syncIntervalSeconds'' as_integer 0 SyncSource_syncIntervalSeconds_update,
        optional_field obj ''createdAt'' as_string SyncSource_createdAt_update,
        optional_field obj ''updatedAt'' as_string SyncSource_updatedAt_update,
        optional_field obj ''lastSyncedAt'' as_string SyncSource_lastSyncedAt_update,
        plain_field obj ''eventCount'' as_integer 0 SyncSource_eventCount_update,
        plain_field obj ''occasionCount'' as_integer 0 SyncSource_occasionCount_update,
        plain_field obj ''postCount'' as_integer 0 SyncSource_postCount_update,
        optional_field obj ''userAgent'' as_integer SyncSource_userAgent_update,
        optional_field obj ''icsSubscriptionUrl'' as_string SyncSource_icsSubscriptionUrl_update,
        optional_field obj ''stellarwpIcsSubscriptionUrl'' as_string SyncSource_stellarwpIcsSubscriptionUrl_update,
        optional_field obj ''rssSubscriptionUrl'' as_string SyncSource_rssSubscriptionUrl_update,
        optional_field obj ''atomSubscriptionUrl'' as_string SyncSource_atomSubscriptionUrl_update]
       base_SyncSource"

definition create_SyncSource :: "json option \<Rightarrow> SyncSource result" where
  "create_SyncSource = create_with fromPartial_SyncSource"

definition known_SyncSource :: "SyncSource \<Rightarrow> bool" where
  "known_SyncSource m \<longleftrightarrow>
     pred_option known_Author (SyncSource_owner m) \<and>
     pred_option (known_enum SyncSourceUserAgent_numbers) (SyncSource_userAgent m)"

lemma created_SyncSource: "create_SyncSource None = Inr base_SyncSource"
  by (simp add: create_SyncSource_def fromPartial_SyncSource_def base_SyncSource_def)

lemma toJSON_SyncSource_set [json_set]: "toJSON_SyncSource m \<noteq> JNull"
  by (simp add: toJSON_SyncSource_def)

lemma json_SyncSource [json_codecs]:
  assumes "known_SyncSource m"
  shows "fromJSON_SyncSource (toJSON_SyncSource m) = Inr m"
  unfolding fromJSON_SyncSource_def
proof (rule message_restored [OF toJSON_SyncSource_def [of m]])
  show "foldl (\<lambda>m u. u m) base_SyncSource
      [SyncSource_id_update (\<lambda>_. SyncSource_id m),
       SyncSource_owner_update (\<lambda>_. SyncSource_owner m),
       SyncSource_syncIntervalSeconds_update (\<lambda>_. SyncSource_syncIntervalSeconds m),
       SyncSource_createdAt_update (\<lambda>_. SyncSource_createdAt m),
       SyncSource_updatedAt_update (\<lambda>_. SyncSource_updatedAt m),
       SyncSource_lastSyncedAt_update (\<lambda>_. SyncSource_lastSyncedAt m),
       SyncSource_eventCount_update (\<lambda>_. SyncSource_eventCount m),
       SyncSource_occasionCount_update (\<lambda>_. SyncSource_occasionCount m),
       SyncSource_postCount_update (\<lambda>_. SyncSource_postCount m),
       SyncSource_userAgent_update (\<lambda>_. SyncSource_userAgent m),
       SyncSource_icsSubscriptionUrl_update (\<lambda>_. SyncSource_icsSubscriptionUrl m),
       SyncSource_stellarwpIcsSubscriptionUrl_update (\<lambda>_. SyncSource_stellarwpIcsSubscriptionUrl m),
       SyncSource_rssSubscriptionUrl_update (\<lambda>_. SyncSource_rssSubscriptionUrl m),
       SyncSource_atomSubscriptionUrl_update (\<lambda>_. SyncSource_atomSubscriptionUrl m)] = m"
    by (cases m) (simp add: base_SyncSource_def)
qed (simp, insert assms [unfolded known_SyncSource_def], simp only: list.pred_inject prod.case, elim conjE, (rule json_fields | assumption | erule known_values
      | rule any_values comes_backI json_codecs json_set enum_proper)+)

section \<open>GetSyncSourcesResponse\<close>

definition fromJSON_GetSyncSourcesResponse :: "json \<Rightarrow> GetSyncSourcesResponse result" where
  "fromJSON_GetSyncSourcesResponse obj =
     read_fields
       [list_field obj ''sources'' fromJSON_SyncSource GetSyncSourcesResponse_sources_update]
       base_GetSyncSourcesResponse"

definition toJSON_GetSyncSourcesResponse :: "GetSyncSourcesResponse \<Rightarrow> json" where
  "toJSON_GetSyncSourcesResponse m =
     object_of
       [(''sources'', put_list (GetSyncSourcesResponse_sources m) toJSON_SyncSource)]"

definition fromPartial_GetSyncSourcesResponse :: "json \<Rightarrow> GetSyncSourcesResponse result" where
  "fromPartial_GetSyncSourcesResponse obj =
     read_fields
       [mapped_field obj ''sources'' fromPartial_SyncSource GetSyncSourcesResponse_sources_update]
       base_GetSyncSourcesResponse"

definition create_GetSyncSourcesResponse :: "json option \<Rightarrow> GetSyncSourcesResponse result" where
  "create_GetSyncSourcesResponse = create_with fromPartial_GetSyncSourcesResponse"

definition known_GetSyncSourcesResponse :: "GetSyncSourcesResponse \<Rightarrow> bool" where
  "known_GetSyncSourcesResponse m \<longleftrightarrow>
     list_all known_SyncSource (GetSyncSourcesResponse_sources m)"

lemma created_GetSyncSourcesResponse: "create_GetSyncSourcesResponse None = Inr base_GetSyncSourcesResponse"
  by (simp add: create_GetSyncSourcesResponse_def fromPartial_GetSyncSourcesResponse_def base_GetSyncSourcesResponse_def)

lemma toJSON_GetSyncSourcesResponse_set [json_set]: "toJSON_GetSyncSourcesResponse m \<noteq> JNull"
  by (simp add: toJSON_GetSyncSourcesResponse_def)

lemma json_GetSyncSourcesResponse [json_codecs]:
  assumes "known_GetSyncSourcesResponse m"
  shows "fromJSON_GetSyncSourcesResponse (toJSON_GetSyncSourcesResponse m) = Inr m"
  unfolding fromJSON_GetSyncSourcesResponse_def
proof (rule message_restored [OF toJSON_GetSyncSourcesResponse_def [of m]])
  show "foldl (\<lambda>m u. u m) base_GetSyncSourcesResponse
      [GetSyncSourcesResponse_sources_update (\<lambda>_. GetSyncSourcesResponse_sources m)] = m"
    by (cases m) (simp add: base_GetSyncSourcesResponse_def)
qed (simp, insert assms [unfolded known_GetSyncSourcesResponse_def], simp only: list.pred_inject prod.case, elim conjE, (rule json_fields | assumption | erule known_values
      | rule any_values comes_backI json_codecs json_set enum_proper)+)

section \<open>DeleteSyncSourceRequest\<close>

definition fromJSON_DeleteSyncSourceRequest :: "json \<Rightarrow> DeleteSyncSourceRequest result" where
  "fromJSON_DeleteSyncSourceRequest obj =
     read_fields
       [optional_field obj ''source'' fromJSON_SyncSource DeleteSyncSourceRequest_source_update,
        plain_field obj ''deleteSyncedEvents'' js_Boolean False DeleteSyncSourceRequest_deleteSyncedEvents_update]
       base_DeleteSyncSourceRequest"

definition toJSON_DeleteSyncSourceRequest :: "DeleteSyncSourceRequest \<Rightarrow> json" where
  "toJSON_DeleteSyncSourceRequest m =
     object_of
       [(''source'', put_given (DeleteSyncSourceRequest_source m) toJSON_SyncSource),
        (''deleteSyncedEvents'', put_when (DeleteSyncSourceRequest_deleteSyncedEvents m \<noteq> False) (JBool (DeleteSyncSourceRequest_deleteSyncedEvents m)))]"

definition fromPartial_DeleteSyncSourceRequest :: "json \<Rightarrow> DeleteSyncSourceRequest result" where
  "fromPartial_DeleteSyncSourceRequest obj =
     read_fields
       [optional_field obj ''source'' fromPartial_SyncSource DeleteSyncSourceRequest_source_update,
        plain_field obj ''deleteSyncedEvents'' as_bool False DeleteSyncSourceRequest_deleteSyncedEvents_update]
       base_DeleteSyncSourceRequest"

definition create_DeleteSyncSourceRequest :: "json option \<Rightarrow> DeleteSyncSourceRequest result" where
  "create_DeleteSyncSourceRequest = create_with fromPartial_DeleteSyncSourceRequest"

definition known_DeleteSyncSourceRequest :: "DeleteSyncSourceRequest \<Rightarrow> bool" where
  "known_DeleteSyncSourceRequest m \<longleftrightarrow>
     pred_option known_SyncSource (DeleteSyncSourceRequest_source m)"

lemma created_DeleteSyncSourceRequest: "create_DeleteSyncSourceRequest None = Inr base_DeleteSyncSourceRequest"
  by (simp add: create_DeleteSyncSourceRequest_def fromPartial_DeleteSyncSourceRequest_def base_DeleteSyncSourceRequest_def)

lemma toJSON_DeleteSyncSourceRequest_set [json_set]: "toJSON_DeleteSyncSourceRequest m \<noteq> JNull"
  by (simp add: toJSON_DeleteSyncSourceRequest_def)

lemma json_DeleteSyncSourceRequest [json_codecs]:
  assumes "known_DeleteSyncSourceRequest m"
  shows "fromJSON_DeleteSyncSourceRequest (toJSON_DeleteSyncSourceRequest m) = Inr m"
  unfolding fromJSON_DeleteSyncSourceRequest_def
proof (rule message_restored [OF toJSON_DeleteSyncSourceRequest_def [of m]])
  show "foldl (\<lambda>m u. u m) base_DeleteSyncSourceRequest
      [DeleteSyncSourceRequest_source_update (\<lambda>_. DeleteSyncSourceRequest_source m),
       DeleteSyncSourceRequest_deleteSyncedEvents_update (\<lambda>_. DeleteSyncSourceRequest_deleteSyncedEvents m)] = m"
    by (cases m) (simp add: base_DeleteSyncSourceRequest_def)
qed (simp, insert assms [unfolded known_DeleteSyncSourceRequest_def], simp only: list.pred_inject prod.case, elim conjE, (rule json_fields | assumption | erule known_values
      | rule any_values comes_backI json_codecs json_set enum_proper)+)

end
