(* ===== verification/Json_Posts.thy ===== *)
theory Json_Posts
  imports Wire_Posts Json_Sync
begin

text \<open>
  The JSON side of packages/api/generated/posts.ts: of each message reading it off an object, the object made of it, and
  building one from the fields given.
\<close>

section \<open>GetPostsRequest\<close>

definition fromJSON_GetPostsRequest :: "json \<Rightarrow> GetPostsRequest result" where
  "fromJSON_GetPostsRequest obj =
     read_fields
       [optional_field obj ''postId'' js_String GetPostsRequest_postId_update,
        optional_field obj ''authorUserId'' js_String GetPostsRequest_authorUserId_update,
        list_field obj ''excludedAuthorUserIds'' js_String GetPostsRequest_excludedAuthorUserIds_update,
        optional_field obj ''groupId'' js_String GetPostsRequest_groupId_update,
        optional_field obj ''replyDepth'' js_Integer GetPostsRequest_replyDepth_update,
        optional_field obj ''context'' (from_enum PostContext_numbers) GetPostsRequest_context_update,
        optional_field obj ''postIds'' js_String GetPostsRequest_postIds_update,
        plain_field obj ''listingType'' (from_enum PostListingType_numbers) 0 GetPostsRequest_listingType_update,
        plain_field obj ''page'' js_Integer 0 GetPostsRequest_page_update,
        optional_field obj ''searchText'' js_String GetPostsRequest_searchText_update,
        optional_field obj ''publishedOrCreatedBefore'' js_String GetPostsRequest_publishedOrCreatedBefore_update]
       base_GetPostsRequest"

definition toJSON_GetPostsRequest :: "GetPostsRequest \<Rightarrow> json" where
  "toJSON_GetPostsRequest m =
     object_of
       [(''postId'', put_given (GetPostsRequest_postId m) JStr),
        (''authorUserId'', put_given (GetPostsRequest_authorUserId m) JStr),
        (''excludedAuthorUserIds'', put_list (GetPostsRequest_excludedAuthorUserIds m) JStr),
        (''groupId'', put_given (GetPostsRequest_groupId m) JStr),
        (''replyDepth'', put_given (GetPostsRequest_replyDepth m) number),
        (''context'', put_given (GetPostsRequest_context m) (to_enum PostContext_numbers)),
        (''postIds'', put_given (GetPostsRequest_postIds m) JStr),
        (''listingType'', put_when (GetPostsRequest_listingType m \<noteq> 0) ((to_enum PostListingType_numbers) (GetPostsRequest_listingType m))),
        (''page'', put_when (GetPostsRequest_page m \<noteq> 0) (number (GetPostsRequest_page m))),
        (''searchText'', put_given (GetPostsRequest_searchText m) JStr),
        (''publishedOrCreatedBefore'', put_given (GetPostsRequest_publishedOrCreatedBefore m) JStr)]"

definition fromPartial_GetPostsRequest :: "json \<Rightarrow> GetPostsRequest result" where
  "fromPartial_GetPostsRequest obj =
     read_fields
       [optional_field obj ''postId'' as_string GetPostsRequest_postId_update,
        optional_field obj ''authorUserId'' as_string GetPostsRequest_authorUserId_update,
        mapped_field obj ''excludedAuthorUserIds'' as_string GetPostsRequest_excludedAuthorUserIds_update,
        optional_field obj ''groupId'' as_string GetPostsRequest_groupId_update,
        optional_field obj ''replyDepth'' as_integer GetPostsRequest_replyDepth_update,
        optional_field obj ''context'' as_integer GetPostsRequest_context_update,
        optional_field obj ''postIds'' as_string GetPostsRequest_postIds_update,
        plain_field obj ''listingType'' as_integer 0 GetPostsRequest_listingType_update,
        plain_field obj ''page'' as_integer 0 GetPostsRequest_page_update,
        optional_field obj ''searchText'' as_string GetPostsRequest_searchText_update,
        optional_field obj ''publishedOrCreatedBefore'' as_string GetPostsRequest_publishedOrCreatedBefore_update]
       base_GetPostsRequest"

definition create_GetPostsRequest :: "json option \<Rightarrow> GetPostsRequest result" where
  "create_GetPostsRequest = create_with fromPartial_GetPostsRequest"

definition known_GetPostsRequest :: "GetPostsRequest \<Rightarrow> bool" where
  "known_GetPostsRequest m \<longleftrightarrow>
     pred_option (known_enum PostContext_numbers) (GetPostsRequest_context m) \<and>
     known_enum PostListingType_numbers (GetPostsRequest_listingType m)"

lemma created_GetPostsRequest: "create_GetPostsRequest None = Inr base_GetPostsRequest"
  by (simp add: create_GetPostsRequest_def fromPartial_GetPostsRequest_def base_GetPostsRequest_def)

lemma toJSON_GetPostsRequest_set [json_set]: "toJSON_GetPostsRequest m \<noteq> JNull"
  by (simp add: toJSON_GetPostsRequest_def)

lemma json_GetPostsRequest [json_codecs]:
  assumes "known_GetPostsRequest m"
  shows "fromJSON_GetPostsRequest (toJSON_GetPostsRequest m) = Inr m"
  unfolding fromJSON_GetPostsRequest_def
proof (rule message_restored [OF toJSON_GetPostsRequest_def [of m]])
  show "foldl (\<lambda>m u. u m) base_GetPostsRequest
      [GetPostsRequest_postId_update (\<lambda>_. GetPostsRequest_postId m),
       GetPostsRequest_authorUserId_update (\<lambda>_. GetPostsRequest_authorUserId m),
       GetPostsRequest_excludedAuthorUserIds_update (\<lambda>_. GetPostsRequest_excludedAuthorUserIds m),
       GetPostsRequest_groupId_update (\<lambda>_. GetPostsRequest_groupId m),
       GetPostsRequest_replyDepth_update (\<lambda>_. GetPostsRequest_replyDepth m),
       GetPostsRequest_context_update (\<lambda>_. GetPostsRequest_context m),
       GetPostsRequest_postIds_update (\<lambda>_. GetPostsRequest_postIds m),
       GetPostsRequest_listingType_update (\<lambda>_. GetPostsRequest_listingType m),
       GetPostsRequest_page_update (\<lambda>_. GetPostsRequest_page m),
       GetPostsRequest_searchText_update (\<lambda>_. GetPostsRequest_searchText m),
       GetPostsRequest_publishedOrCreatedBefore_update (\<lambda>_. GetPostsRequest_publishedOrCreatedBefore m)] = m"
    by (cases m) (simp add: base_GetPostsRequest_def)
qed (simp, insert assms [unfolded known_GetPostsRequest_def], simp only: list.pred_inject prod.case, elim conjE, (rule json_fields | assumption | erule known_values
      | rule any_values comes_backI json_codecs json_set enum_proper)+)

section \<open>GroupPost\<close>

definition fromJSON_GroupPost :: "json \<Rightarrow> GroupPost result" where
  "fromJSON_GroupPost obj =
     read_fields
       [plain_field obj ''groupId'' js_String [] GroupPost_groupId_update,
        plain_field obj ''postId'' js_String [] GroupPost_postId_update,
        plain_field obj ''userId'' js_String [] GroupPost_userId_update,
        plain_field obj ''groupModeration'' (from_enum Moderation_numbers) 0 GroupPost_groupModeration_update,
        optional_field obj ''createdAt'' js_String GroupPost_createdAt_update,
        optional_field obj ''sharedBy'' fromJSON_Author GroupPost_sharedBy_update]
       base_GroupPost"

definition toJSON_GroupPost :: "GroupPost \<Rightarrow> json" where
  "toJSON_GroupPost m =
     object_of
       [(''groupId'', put_when (GroupPost_groupId m \<noteq> []) (JStr (GroupPost_groupId m))),
        (''postId'', put_when (GroupPost_postId m \<noteq> []) (JStr (GroupPost_postId m))),
        (''userId'', put_when (GroupPost_userId m \<noteq> []) (JStr (GroupPost_userId m))),
        (''groupModeration'', put_when (GroupPost_groupModeration m \<noteq> 0) ((to_enum Moderation_numbers) (GroupPost_groupModeration m))),
        (''createdAt'', put_given (GroupPost_createdAt m) JStr),
        (''sharedBy'', put_given (GroupPost_sharedBy m) toJSON_Author)]"

definition fromPartial_GroupPost :: "json \<Rightarrow> GroupPost result" where
  "fromPartial_GroupPost obj =
     read_fields
       [plain_field obj ''groupId'' as_string [] GroupPost_groupId_update,
        plain_field obj ''postId'' as_string [] GroupPost_postId_update,
        plain_field obj ''userId'' as_string [] GroupPost_userId_update,
        plain_field obj ''groupModeration'' as_integer 0 GroupPost_groupModeration_update,
        optional_field obj ''createdAt'' as_string GroupPost_createdAt_update,
        optional_field obj ''sharedBy'' fromPartial_Author GroupPost_sharedBy_update]
       base_GroupPost"

definition create_GroupPost :: "json option \<Rightarrow> GroupPost result" where
  "create_GroupPost = create_with fromPartial_GroupPost"

definition known_GroupPost :: "GroupPost \<Rightarrow> bool" where
  "known_GroupPost m \<longleftrightarrow>
     known_enum Moderation_numbers (GroupPost_groupModeration m) \<and>
     pred_option known_Author (GroupPost_sharedBy m)"

lemma created_GroupPost: "create_GroupPost None = Inr base_GroupPost"
  by (simp add: create_GroupPost_def fromPartial_GroupPost_def base_GroupPost_def)

lemma toJSON_GroupPost_set [json_set]: "toJSON_GroupPost m \<noteq> JNull"
  by (simp add: toJSON_GroupPost_def)

lemma json_GroupPost [json_codecs]:
  assumes "known_GroupPost m"
  shows "fromJSON_GroupPost (toJSON_GroupPost m) = Inr m"
  unfolding fromJSON_GroupPost_def
proof (rule message_restored [OF toJSON_GroupPost_def [of m]])
  show "foldl (\<lambda>m u. u m) base_GroupPost
      [GroupPost_groupId_update (\<lambda>_. GroupPost_groupId m),
       GroupPost_postId_update (\<lambda>_. GroupPost_postId m),
       GroupPost_userId_update (\<lambda>_. GroupPost_userId m),
       GroupPost_groupModeration_update (\<lambda>_. GroupPost_groupModeration m),
       GroupPost_createdAt_update (\<lambda>_. GroupPost_createdAt m),
       GroupPost_sharedBy_update (\<lambda>_. GroupPost_sharedBy m)] = m"
    by (cases m) (simp add: base_GroupPost_def)
qed (simp, insert assms [unfolded known_GroupPost_def], simp only: list.pred_inject prod.case, elim conjE, (rule json_fields | assumption | erule known_values
      | rule any_values comes_backI json_codecs json_set enum_proper)+)

section \<open>Post\<close>

function fromJSON_Post :: "json \<Rightarrow> Post result" where
  "fromJSON_Post obj =
     read_fields
       [plain_field obj ''id'' js_String [] (\<lambda>f. Post_upd (Post_id_update f)),
        optional_field obj ''author'' fromJSON_Author (\<lambda>f. Post_upd (Post_author_update f)),
        optional_field obj ''replyToPostId'' js_String (\<lambda>f. Post_upd (Post_replyToPostId_update f)),
        optional_field obj ''title'' js_String (\<lambda>f. Post_upd (Post_title_update f)),
        optional_field obj ''link'' js_String (\<lambda>f. Post_upd (Post_link_update f)),
        optional_field obj ''content'' js_String (\<lambda>f. Post_upd (Post_content_update f)),
        plain_field obj ''responseCount'' js_Integer 0 (\<lambda>f. Post_upd (Post_responseCount_update f)),
        plain_field obj ''replyCount'' js_Integer 0 (\<lambda>f. Post_upd (Post_replyCount_update f)),
        plain_field obj ''groupCount'' js_Integer 0 (\<lambda>f. Post_upd (Post_groupCount_update f)),
        list_field obj ''media'' fromJSON_MediaReference (\<lambda>f. Post_upd (Post_media_update f)),
        plain_field obj ''mediaGenerated'' js_Boolean False (\<lambda>f. Post_upd (Post_mediaGenerated_update f)),
        plain_field obj ''shareable'' js_Boolean False (\<lambda>f. Post_upd (Post_shareable_update f)),
        plain_field obj ''context'' (from_enum PostContext_numbers) 0 (\<lambda>f. Post_upd (Post_context_update f)),
        plain_field obj ''visibility'' (from_enum Visibility_numbers) 0 (\<lambda>f. Post_upd (Post_visibility_update f)),
        plain_field obj ''moderation'' (from_enum Moderation_numbers) 0 (\<lambda>f. Post_upd (Post_moderation_update f)),
        plain_field obj ''postMediaLayout'' (from_enum PostMediaLayout_numbers) 0 (\<lambda>f. Post_upd (Post_postMediaLayout_update f)),
        optional_field obj ''currentGroupPost'' fromJSON_GroupPost (\<lambda>f. Post_upd (Post_currentGroupPost_update f)),
        list_field obj ''replies'' fromJSON_Post Post_replies_upd,
        optional_field obj ''createdAt'' js_String (\<lambda>f. Post_upd (Post_createdAt_update f)),
        optional_field obj ''updatedAt'' js_String (\<lambda>f. Post_upd (Post_updatedAt_update f)),
        optional_field obj ''publishedAt'' js_String (\<lambda>f. Post_upd (Post_publishedAt_update f)),
        optional_field obj ''lastActivityAt'' js_String (\<lambda>f. Post_upd (Post_lastActivityAt_update f)),
        plain_field obj ''unauthenticatedStarCount'' js_Integer 0 (\<lambda>f. Post_upd (Post_unauthenticatedStarCount_update f)),
        list_field obj ''syncDestinations'' fromJSON_SyncDestinationStatus (\<lambda>f. Post_upd (Post_syncDestinations_update f)),
        optional_field obj ''syncSource'' fromJSON_SyncSource (\<lambda>f. Post_upd (Post_syncSource_update f)),
        optional_field obj ''quotedPost'' fromJSON_Post Post_quotedPost_upd]
       base_Post"
  by pat_completeness auto

termination
  by (relation "measure size") auto

declare fromJSON_Post.simps [simp del]

function toJSON_Post :: "Post \<Rightarrow> json" where
  "toJSON_Post m =
     object_of
       [(''id'', put_when (Post_id (Post_own m) \<noteq> []) (JStr (Post_id (Post_own m)))),
        (''author'', put_given (Post_author (Post_own m)) toJSON_Author),
        (''replyToPostId'', put_given (Post_replyToPostId (Post_own m)) JStr),
        (''title'', put_given (Post_title (Post_own m)) JStr),
        (''link'', put_given (Post_link (Post_own m)) JStr),
        (''content'', put_given (Post_content (Post_own m)) JStr),
        (''responseCount'', put_when (Post_responseCount (Post_own m) \<noteq> 0) (number (Post_responseCount (Post_own m)))),
        (''replyCount'', put_when (Post_replyCount (Post_own m) \<noteq> 0) (number (Post_replyCount (Post_own m)))),
        (''groupCount'', put_when (Post_groupCount (Post_own m) \<noteq> 0) (number (Post_groupCount (Post_own m)))),
        (''media'', put_list (Post_media (Post_own m)) toJSON_MediaReference),
        (''mediaGenerated'', put_when (Post_mediaGenerated (Post_own m) \<noteq> False) (JBool (Post_mediaGenerated (Post_own m)))),
        (''shareable'', put_when (Post_shareable (Post_own m) \<noteq> False) (JBool (Post_shareable (Post_own m)))),
        (''context'', put_when (Post_context (Post_own m) \<noteq> 0) ((to_enum PostContext_numbers) (Post_context (Post_own m)))),
        (''visibility'', put_when (Post_visibility (Post_own m) \<noteq> 0) ((to_enum Visibility_numbers) (Post_visibility (Post_own m)))),
        (''moderation'', put_when (Post_moderation (Post_own m) \<noteq> 0) ((to_enum Moderation_numbers) (Post_moderation (Post_own m)))),
        (''postMediaLayout'', put_when (Post_postMediaLayout (Post_own m) \<noteq> 0) ((to_enum PostMediaLayout_numbers) (Post_postMediaLayout (Post_own m)))),
        (''currentGroupPost'', put_given (Post_currentGroupPost (Post_own m)) toJSON_GroupPost),
        (''replies'', put_list (Post_replies m) toJSON_Post),
        (''createdAt'', put_given (Post_createdAt (Post_own m)) JStr),
        (''updatedAt'', put_given (Post_updatedAt (Post_own m)) JStr),
        (''publishedAt'', put_given (Post_publishedAt (Post_own m)) JStr),
        (''lastActivityAt'', put_given (Post_lastActivityAt (Post_own m)) JStr),
        (''unauthenticatedStarCount'', put_when (Post_unauthenticatedStarCount (Post_own m) \<noteq> 0) (number (Post_unauthenticatedStarCount (Post_own m)))),
        (''syncDestinations'', put_list (Post_syncDestinations (Post_own m)) toJSON_SyncDestinationStatus),
        (''syncSource'', put_given (Post_syncSource (Post_own m)) toJSON_SyncSource),
        (''quotedPost'', put_given (Post_quotedPost m) toJSON_Post)]"
  by pat_completeness auto

termination
  by (relation "measure size") (auto intro: inner_post_smaller)

declare toJSON_Post.simps [simp del]

function fromPartial_Post :: "json \<Rightarrow> Post result" where
  "fromPartial_Post obj =
     read_fields
       [plain_field obj ''id'' as_string [] (\<lambda>f. Post_upd (Post_id_update f)),
        optional_field obj ''author'' fromPartial_Author (\<lambda>f. Post_upd (Post_author_update f)),
        optional_field obj ''replyToPostId'' as_string (\<lambda>f. Post_upd (Post_replyToPostId_update f)),
        optional_field obj ''title'' as_string (\<lambda>f. Post_upd (Post_title_update f)),
        optional_field obj ''link'' as_string (\<lambda>f. Post_upd (Post_link_update f)),
        optional_field obj ''content'' as_string (\<lambda>f. Post_upd (Post_content_update f)),
        plain_field obj ''responseCount'' as_integer 0 (\<lambda>f. Post_upd (Post_responseCount_update f)),
        plain_field obj ''replyCount'' as_integer 0 (\<lambda>f. Post_upd (Post_replyCount_update f)),
        plain_field obj ''groupCount'' as_integer 0 (\<lambda>f. Post_upd (Post_groupCount_update f)),
        mapped_field obj ''media'' fromPartial_MediaReference (\<lambda>f. Post_upd (Post_media_update f)),
        plain_field obj ''mediaGenerated'' as_bool False (\<lambda>f. Post_upd (Post_mediaGenerated_update f)),
        plain_field obj ''shareable'' as_bool False (\<lambda>f. Post_upd (Post_shareable_update f)),
        plain_field obj ''context'' as_integer 0 (\<lambda>f. Post_upd (Post_context_update f)),
        plain_field obj ''visibility'' as_integer 0 (\<lambda>f. Post_upd (Post_visibility_update f)),
        plain_field obj ''moderation'' as_integer 0 (\<lambda>f. Post_upd (Post_moderation_update f)),
        plain_field obj ''postMediaLayout'' as_integer 0 (\<lambda>f. Post_upd (Post_postMediaLayout_update f)),
        optional_field obj ''currentGroupPost'' fromPartial_GroupPost (\<lambda>f. Post_upd (Post_currentGroupPost_update f)),
        mapped_field obj ''replies'' fromPartial_Post Post_replies_upd,
        optional_field obj ''createdAt'' as_string (\<lambda>f. Post_upd (Post_createdAt_update f)),
        optional_field obj ''updatedAt'' as_string (\<lambda>f. Post_upd (Post_updatedAt_update f)),
        optional_field obj ''publishedAt'' as_string (\<lambda>f. Post_upd (Post_publishedAt_update f)),
        optional_field obj ''lastActivityAt'' as_string (\<lambda>f. Post_upd (Post_lastActivityAt_update f)),
        plain_field obj ''unauthenticatedStarCount'' as_integer 0 (\<lambda>f. Post_upd (Post_unauthenticatedStarCount_update f)),
        mapped_field obj ''syncDestinations'' fromPartial_SyncDestinationStatus (\<lambda>f. Post_upd (Post_syncDestinations_update f)),
        optional_field obj ''syncSource'' fromPartial_SyncSource (\<lambda>f. Post_upd (Post_syncSource_update f)),
        optional_field obj ''quotedPost'' fromPartial_Post Post_quotedPost_upd]
       base_Post"
  by pat_completeness auto

termination
  by (relation "measure size") auto

declare fromPartial_Post.simps [simp del]

definition create_Post :: "json option \<Rightarrow> Post result" where
  "create_Post = create_with fromPartial_Post"

lemma created_Post: "create_Post None = Inr base_Post"
  by (simp add: create_Post_def fromPartial_Post.simps [of "JObj []"] base_Post_def post_updates)

function known_Post :: "Post \<Rightarrow> bool" where
  "known_Post m \<longleftrightarrow>
     pred_option known_Author (Post_author (Post_own m)) \<and>
     list_all known_MediaReference (Post_media (Post_own m)) \<and>
     known_enum PostContext_numbers (Post_context (Post_own m)) \<and>
     known_enum Visibility_numbers (Post_visibility (Post_own m)) \<and>
     known_enum Moderation_numbers (Post_moderation (Post_own m)) \<and>
     known_enum PostMediaLayout_numbers (Post_postMediaLayout (Post_own m)) \<and>
     pred_option known_GroupPost (Post_currentGroupPost (Post_own m)) \<and>
     list_all known_Post (Post_replies m) \<and>
     pred_option known_SyncSource (Post_syncSource (Post_own m)) \<and>
     pred_option known_Post (Post_quotedPost m)"
  by pat_completeness auto

termination
  by (relation "measure size") (auto intro: inner_post_smaller)

declare known_Post.simps [simp del]

lemma toJSON_Post_set [json_set]: "toJSON_Post m \<noteq> JNull"
  by (simp add: toJSON_Post.simps [of m])

lemma json_Post [json_codecs]: "known_Post m \<Longrightarrow> fromJSON_Post (toJSON_Post m) = Inr m"
proof (induction m rule: measure_induct_rule [where f = size])
  case (less m)
  have "comes_back fromJSON_Post toJSON_Post x" if "x \<in> set (Post_replies m) \<or> Post_quotedPost m = Some x" for x
    using that less.prems
    by (intro comes_backI json_set less.IH) (auto simp: known_Post.simps [of m] list_all_iff intro: inner_post_smaller)
  then have inner: "list_all (comes_back fromJSON_Post toJSON_Post) (Post_replies m)"
    "pred_option (comes_back fromJSON_Post toJSON_Post) (Post_quotedPost m)"
    by (auto simp: list_all_iff pred_option_def)
  show ?case
    unfolding fromJSON_Post.simps [of "toJSON_Post m"]
  proof (rule message_restored [OF toJSON_Post.simps [of m]])
    show "foldl (\<lambda>m u. u m) base_Post
      [(\<lambda>f. Post_upd (Post_id_update f)) (\<lambda>_. Post_id (Post_own m)),
       (\<lambda>f. Post_upd (Post_author_update f)) (\<lambda>_. Post_author (Post_own m)),
       (\<lambda>f. Post_upd (Post_replyToPostId_update f)) (\<lambda>_. Post_replyToPostId (Post_own m)),
       (\<lambda>f. Post_upd (Post_title_update f)) (\<lambda>_. Post_title (Post_own m)),
       (\<lambda>f. Post_upd (Post_link_update f)) (\<lambda>_. Post_link (Post_own m)),
       (\<lambda>f. Post_upd (Post_content_update f)) (\<lambda>_. Post_content (Post_own m)),
       (\<lambda>f. Post_upd (Post_responseCount_update f)) (\<lambda>_. Post_responseCount (Post_own m)),
       (\<lambda>f. Post_upd (Post_replyCount_update f)) (\<lambda>_. Post_replyCount (Post_own m)),
       (\<lambda>f. Post_upd (Post_groupCount_update f)) (\<lambda>_. Post_groupCount (Post_own m)),
       (\<lambda>f. Post_upd (Post_media_update f)) (\<lambda>_. Post_media (Post_own m)),
       (\<lambda>f. Post_upd (Post_mediaGenerated_update f)) (\<lambda>_. Post_mediaGenerated (Post_own m)),
       (\<lambda>f. Post_upd (Post_shareable_update f)) (\<lambda>_. Post_shareable (Post_own m)),
       (\<lambda>f. Post_upd (Post_context_update f)) (\<lambda>_. Post_context (Post_own m)),
       (\<lambda>f. Post_upd (Post_visibility_update f)) (\<lambda>_. Post_visibility (Post_own m)),
       (\<lambda>f. Post_upd (Post_moderation_update f)) (\<lambda>_. Post_moderation (Post_own m)),
       (\<lambda>f. Post_upd (Post_postMediaLayout_update f)) (\<lambda>_. Post_postMediaLayout (Post_own m)),
       (\<lambda>f. Post_upd (Post_currentGroupPost_update f)) (\<lambda>_. Post_currentGroupPost (Post_own m)),
       Post_replies_upd (\<lambda>_. Post_replies m),
       (\<lambda>f. Post_upd (Post_createdAt_update f)) (\<lambda>_. Post_createdAt (Post_own m)),
       (\<lambda>f. Post_upd (Post_updatedAt_update f)) (\<lambda>_. Post_updatedAt (Post_own m)),
       (\<lambda>f. Post_upd (Post_publishedAt_update f)) (\<lambda>_. Post_publishedAt (Post_own m)),
       (\<lambda>f. Post_upd (Post_lastActivityAt_update f)) (\<lambda>_. Post_lastActivityAt (Post_own m)),
       (\<lambda>f. Post_upd (Post_unauthenticatedStarCount_update f)) (\<lambda>_. Post_unauthenticatedStarCount (Post_own m)),
       (\<lambda>f. Post_upd (Post_syncDestinations_update f)) (\<lambda>_. Post_syncDestinations (Post_own m)),
       (\<lambda>f. Post_upd (Post_syncSource_update f)) (\<lambda>_. Post_syncSource (Post_own m)),
       Post_quotedPost_upd (\<lambda>_. Post_quotedPost m)] = m"
      by (cases m) (simp add: base_Post_def post_updates)
  qed (simp, insert less.prems [unfolded known_Post.simps [of m]], simp only: list.pred_inject prod.case, elim conjE,
      (rule json_fields inner | assumption | erule known_values
        | rule any_values comes_backI json_codecs json_set enum_proper)+)
qed

section \<open>GetPostsResponse\<close>

definition fromJSON_GetPostsResponse :: "json \<Rightarrow> GetPostsResponse result" where
  "fromJSON_GetPostsResponse obj =
     read_fields
       [list_field obj ''posts'' fromJSON_Post GetPostsResponse_posts_update]
       base_GetPostsResponse"

definition toJSON_GetPostsResponse :: "GetPostsResponse \<Rightarrow> json" where
  "toJSON_GetPostsResponse m =
     object_of
       [(''posts'', put_list (GetPostsResponse_posts m) toJSON_Post)]"

definition fromPartial_GetPostsResponse :: "json \<Rightarrow> GetPostsResponse result" where
  "fromPartial_GetPostsResponse obj =
     read_fields
       [mapped_field obj ''posts'' fromPartial_Post GetPostsResponse_posts_update]
       base_GetPostsResponse"

definition create_GetPostsResponse :: "json option \<Rightarrow> GetPostsResponse result" where
  "create_GetPostsResponse = create_with fromPartial_GetPostsResponse"

definition known_GetPostsResponse :: "GetPostsResponse \<Rightarrow> bool" where
  "known_GetPostsResponse m \<longleftrightarrow>
     list_all known_Post (GetPostsResponse_posts m)"

lemma created_GetPostsResponse: "create_GetPostsResponse None = Inr base_GetPostsResponse"
  by (simp add: create_GetPostsResponse_def fromPartial_GetPostsResponse_def base_GetPostsResponse_def)

lemma toJSON_GetPostsResponse_set [json_set]: "toJSON_GetPostsResponse m \<noteq> JNull"
  by (simp add: toJSON_GetPostsResponse_def)

lemma json_GetPostsResponse [json_codecs]:
  assumes "known_GetPostsResponse m"
  shows "fromJSON_GetPostsResponse (toJSON_GetPostsResponse m) = Inr m"
  unfolding fromJSON_GetPostsResponse_def
proof (rule message_restored [OF toJSON_GetPostsResponse_def [of m]])
  show "foldl (\<lambda>m u. u m) base_GetPostsResponse
      [GetPostsResponse_posts_update (\<lambda>_. GetPostsResponse_posts m)] = m"
    by (cases m) (simp add: base_GetPostsResponse_def)
qed (simp, insert assms [unfolded known_GetPostsResponse_def], simp only: list.pred_inject prod.case, elim conjE, (rule json_fields | assumption | erule known_values
      | rule any_values comes_backI json_codecs json_set enum_proper)+)

section \<open>SyncPostRequest\<close>

definition fromJSON_SyncPostRequest :: "json \<Rightarrow> SyncPostRequest result" where
  "fromJSON_SyncPostRequest obj =
     read_fields
       [plain_field obj ''postId'' js_String [] SyncPostRequest_postId_update,
        plain_field obj ''syncDestinationId'' js_String [] SyncPostRequest_syncDestinationId_update]
       base_SyncPostRequest"

definition toJSON_SyncPostRequest :: "SyncPostRequest \<Rightarrow> json" where
  "toJSON_SyncPostRequest m =
     object_of
       [(''postId'', put_when (SyncPostRequest_postId m \<noteq> []) (JStr (SyncPostRequest_postId m))),
        (''syncDestinationId'', put_when (SyncPostRequest_syncDestinationId m \<noteq> []) (JStr (SyncPostRequest_syncDestinationId m)))]"

definition fromPartial_SyncPostRequest :: "json \<Rightarrow> SyncPostRequest result" where
  "fromPartial_SyncPostRequest obj =
     read_fields
       [plain_field obj ''postId'' as_string [] SyncPostRequest_postId_update,
        plain_field obj ''syncDestinationId'' as_string [] SyncPostRequest_syncDestinationId_update]
       base_SyncPostRequest"

definition create_SyncPostRequest :: "json option \<Rightarrow> SyncPostRequest result" where
  "create_SyncPostRequest = create_with fromPartial_SyncPostRequest"

lemma created_SyncPostRequest: "create_SyncPostRequest None = Inr base_SyncPostRequest"
  by (simp add: create_SyncPostRequest_def fromPartial_SyncPostRequest_def base_SyncPostRequest_def)

lemma toJSON_SyncPostRequest_set [json_set]: "toJSON_SyncPostRequest m \<noteq> JNull"
  by (simp add: toJSON_SyncPostRequest_def)

lemma json_SyncPostRequest [json_codecs]:
  "fromJSON_SyncPostRequest (toJSON_SyncPostRequest m) = Inr m"
  unfolding fromJSON_SyncPostRequest_def
proof (rule message_restored [OF toJSON_SyncPostRequest_def [of m]])
  show "foldl (\<lambda>m u. u m) base_SyncPostRequest
      [SyncPostRequest_postId_update (\<lambda>_. SyncPostRequest_postId m),
       SyncPostRequest_syncDestinationId_update (\<lambda>_. SyncPostRequest_syncDestinationId m)] = m"
    by (cases m) (simp add: base_SyncPostRequest_def)
qed (simp, simp only: list.pred_inject prod.case, elim conjE, (rule json_fields | assumption | erule known_values
      | rule any_values comes_backI json_codecs json_set enum_proper)+)

section \<open>DeletePostSyncDestinationRequest\<close>

definition fromJSON_DeletePostSyncDestinationRequest :: "json \<Rightarrow> DeletePostSyncDestinationRequest result" where
  "fromJSON_DeletePostSyncDestinationRequest obj =
     read_fields
       [plain_field obj ''postId'' js_String [] DeletePostSyncDestinationRequest_postId_update,
        plain_field obj ''syncDestinationId'' js_String [] DeletePostSyncDestinationRequest_syncDestinationId_update]
       base_DeletePostSyncDestinationRequest"

definition toJSON_DeletePostSyncDestinationRequest :: "DeletePostSyncDestinationRequest \<Rightarrow> json" where
  "toJSON_DeletePostSyncDestinationRequest m =
     object_of
       [(''postId'', put_when (DeletePostSyncDestinationRequest_postId m \<noteq> []) (JStr (DeletePostSyncDestinationRequest_postId m))),
        (''syncDestinationId'', put_when (DeletePostSyncDestinationRequest_syncDestinationId m \<noteq> []) (JStr (DeletePostSyncDestinationRequest_syncDestinationId m)))]"

definition fromPartial_DeletePostSyncDestinationRequest :: "json \<Rightarrow> DeletePostSyncDestinationRequest result" where
  "fromPartial_DeletePostSyncDestinationRequest obj =
     read_fields
       [plain_field obj ''postId'' as_string [] DeletePostSyncDestinationRequest_postId_update,
        plain_field obj ''syncDestinationId'' as_string [] DeletePostSyncDestinationRequest_syncDestinationId_update]
       base_DeletePostSyncDestinationRequest"

definition create_DeletePostSyncDestinationRequest :: "json option \<Rightarrow> DeletePostSyncDestinationRequest result" where
  "create_DeletePostSyncDestinationRequest = create_with fromPartial_DeletePostSyncDestinationRequest"

lemma created_DeletePostSyncDestinationRequest: "create_DeletePostSyncDestinationRequest None = Inr base_DeletePostSyncDestinationRequest"
  by (simp add: create_DeletePostSyncDestinationRequest_def fromPartial_DeletePostSyncDestinationRequest_def base_DeletePostSyncDestinationRequest_def)

lemma toJSON_DeletePostSyncDestinationRequest_set [json_set]: "toJSON_DeletePostSyncDestinationRequest m \<noteq> JNull"
  by (simp add: toJSON_DeletePostSyncDestinationRequest_def)

lemma json_DeletePostSyncDestinationRequest [json_codecs]:
  "fromJSON_DeletePostSyncDestinationRequest (toJSON_DeletePostSyncDestinationRequest m) = Inr m"
  unfolding fromJSON_DeletePostSyncDestinationRequest_def
proof (rule message_restored [OF toJSON_DeletePostSyncDestinationRequest_def [of m]])
  show "foldl (\<lambda>m u. u m) base_DeletePostSyncDestinationRequest
      [DeletePostSyncDestinationRequest_postId_update (\<lambda>_. DeletePostSyncDestinationRequest_postId m),
       DeletePostSyncDestinationRequest_syncDestinationId_update (\<lambda>_. DeletePostSyncDestinationRequest_syncDestinationId m)] = m"
    by (cases m) (simp add: base_DeletePostSyncDestinationRequest_def)
qed (simp, simp only: list.pred_inject prod.case, elim conjE, (rule json_fields | assumption | erule known_values
      | rule any_values comes_backI json_codecs json_set enum_proper)+)

section \<open>UserPost\<close>

definition fromJSON_UserPost :: "json \<Rightarrow> UserPost result" where
  "fromJSON_UserPost obj =
     read_fields
       [plain_field obj ''userId'' js_String [] UserPost_userId_update,
        plain_field obj ''postId'' js_String [] UserPost_postId_update,
        optional_field obj ''createdAt'' js_String UserPost_createdAt_update]
       base_UserPost"

definition toJSON_UserPost :: "UserPost \<Rightarrow> json" where
  "toJSON_UserPost m =
     object_of
       [(''userId'', put_when (UserPost_userId m \<noteq> []) (JStr (UserPost_userId m))),
        (''postId'', put_when (UserPost_postId m \<noteq> []) (JStr (UserPost_postId m))),
        (''createdAt'', put_given (UserPost_createdAt m) JStr)]"

definition fromPartial_UserPost :: "json \<Rightarrow> UserPost result" where
  "fromPartial_UserPost obj =
     read_fields
       [plain_field obj ''userId'' as_string [] UserPost_userId_update,
        plain_field obj ''postId'' as_string [] UserPost_postId_update,
        optional_field obj ''createdAt'' as_string UserPost_createdAt_update]
       base_UserPost"

definition create_UserPost :: "json option \<Rightarrow> UserPost result" where
  "create_UserPost = create_with fromPartial_UserPost"

lemma created_UserPost: "create_UserPost None = Inr base_UserPost"
  by (simp add: create_UserPost_def fromPartial_UserPost_def base_UserPost_def)

lemma toJSON_UserPost_set [json_set]: "toJSON_UserPost m \<noteq> JNull"
  by (simp add: toJSON_UserPost_def)

lemma json_UserPost [json_codecs]:
  "fromJSON_UserPost (toJSON_UserPost m) = Inr m"
  unfolding fromJSON_UserPost_def
proof (rule message_restored [OF toJSON_UserPost_def [of m]])
  show "foldl (\<lambda>m u. u m) base_UserPost
      [UserPost_userId_update (\<lambda>_. UserPost_userId m),
       UserPost_postId_update (\<lambda>_. UserPost_postId m),
       UserPost_createdAt_update (\<lambda>_. UserPost_createdAt m)] = m"
    by (cases m) (simp add: base_UserPost_def)
qed (simp, simp only: list.pred_inject prod.case, elim conjE, (rule json_fields | assumption | erule known_values
      | rule any_values comes_backI json_codecs json_set enum_proper)+)

section \<open>GetGroupPostsRequest\<close>

definition fromJSON_GetGroupPostsRequest :: "json \<Rightarrow> GetGroupPostsRequest result" where
  "fromJSON_GetGroupPostsRequest obj =
     read_fields
       [plain_field obj ''postId'' js_String [] GetGroupPostsRequest_postId_update,
        optional_field obj ''groupId'' js_String GetGroupPostsRequest_groupId_update]
       base_GetGroupPostsRequest"

definition toJSON_GetGroupPostsRequest :: "GetGroupPostsRequest \<Rightarrow> json" where
  "toJSON_GetGroupPostsRequest m =
     object_of
       [(''postId'', put_when (GetGroupPostsRequest_postId m \<noteq> []) (JStr (GetGroupPostsRequest_postId m))),
        (''groupId'', put_given (GetGroupPostsRequest_groupId m) JStr)]"

definition fromPartial_GetGroupPostsRequest :: "json \<Rightarrow> GetGroupPostsRequest result" where
  "fromPartial_GetGroupPostsRequest obj =
     read_fields
       [plain_field obj ''postId'' as_string [] GetGroupPostsRequest_postId_update,
        optional_field obj ''groupId'' as_string GetGroupPostsRequest_groupId_update]
       base_GetGroupPostsRequest"

definition create_GetGroupPostsRequest :: "json option \<Rightarrow> GetGroupPostsRequest result" where
  "create_GetGroupPostsRequest = create_with fromPartial_GetGroupPostsRequest"

lemma created_GetGroupPostsRequest: "create_GetGroupPostsRequest None = Inr base_GetGroupPostsRequest"
  by (simp add: create_GetGroupPostsRequest_def fromPartial_GetGroupPostsRequest_def base_GetGroupPostsRequest_def)

lemma toJSON_GetGroupPostsRequest_set [json_set]: "toJSON_GetGroupPostsRequest m \<noteq> JNull"
  by (simp add: toJSON_GetGroupPostsRequest_def)

lemma json_GetGroupPostsRequest [json_codecs]:
  "fromJSON_GetGroupPostsRequest (toJSON_GetGroupPostsRequest m) = Inr m"
  unfolding fromJSON_GetGroupPostsRequest_def
proof (rule message_restored [OF toJSON_GetGroupPostsRequest_def [of m]])
  show "foldl (\<lambda>m u. u m) base_GetGroupPostsRequest
      [GetGroupPostsRequest_postId_update (\<lambda>_. GetGroupPostsRequest_postId m),
       GetGroupPostsRequest_groupId_update (\<lambda>_. GetGroupPostsRequest_groupId m)] = m"
    by (cases m) (simp add: base_GetGroupPostsRequest_def)
qed (simp, simp only: list.pred_inject prod.case, elim conjE, (rule json_fields | assumption | erule known_values
      | rule any_values comes_backI json_codecs json_set enum_proper)+)

section \<open>GetGroupPostsResponse\<close>

definition fromJSON_GetGroupPostsResponse :: "json \<Rightarrow> GetGroupPostsResponse result" where
  "fromJSON_GetGroupPostsResponse obj =
     read_fields
       [list_field obj ''groupPosts'' fromJSON_GroupPost GetGroupPostsResponse_groupPosts_update]
       base_GetGroupPostsResponse"

definition toJSON_GetGroupPostsResponse :: "GetGroupPostsResponse \<Rightarrow> json" where
  "toJSON_GetGroupPostsResponse m =
     object_of
       [(''groupPosts'', put_list (GetGroupPostsResponse_groupPosts m) toJSON_GroupPost)]"

definition fromPartial_GetGroupPostsResponse :: "json \<Rightarrow> GetGroupPostsResponse result" where
  "fromPartial_GetGroupPostsResponse obj =
     read_fields
       [mapped_field obj ''groupPosts'' fromPartial_GroupPost GetGroupPostsResponse_groupPosts_update]
       base_GetGroupPostsResponse"

definition create_GetGroupPostsResponse :: "json option \<Rightarrow> GetGroupPostsResponse result" where
  "create_GetGroupPostsResponse = create_with fromPartial_GetGroupPostsResponse"

definition known_GetGroupPostsResponse :: "GetGroupPostsResponse \<Rightarrow> bool" where
  "known_GetGroupPostsResponse m \<longleftrightarrow>
     list_all known_GroupPost (GetGroupPostsResponse_groupPosts m)"

lemma created_GetGroupPostsResponse: "create_GetGroupPostsResponse None = Inr base_GetGroupPostsResponse"
  by (simp add: create_GetGroupPostsResponse_def fromPartial_GetGroupPostsResponse_def base_GetGroupPostsResponse_def)

lemma toJSON_GetGroupPostsResponse_set [json_set]: "toJSON_GetGroupPostsResponse m \<noteq> JNull"
  by (simp add: toJSON_GetGroupPostsResponse_def)

lemma json_GetGroupPostsResponse [json_codecs]:
  assumes "known_GetGroupPostsResponse m"
  shows "fromJSON_GetGroupPostsResponse (toJSON_GetGroupPostsResponse m) = Inr m"
  unfolding fromJSON_GetGroupPostsResponse_def
proof (rule message_restored [OF toJSON_GetGroupPostsResponse_def [of m]])
  show "foldl (\<lambda>m u. u m) base_GetGroupPostsResponse
      [GetGroupPostsResponse_groupPosts_update (\<lambda>_. GetGroupPostsResponse_groupPosts m)] = m"
    by (cases m) (simp add: base_GetGroupPostsResponse_def)
qed (simp, insert assms [unfolded known_GetGroupPostsResponse_def], simp only: list.pred_inject prod.case, elim conjE, (rule json_fields | assumption | erule known_values
      | rule any_values comes_backI json_codecs json_set enum_proper)+)

end
