(* ===== verification/Json_Ai_Providers.thy ===== *)
theory Json_Ai_Providers
  imports Wire_Ai_Providers Json_Media
begin

text \<open>
  The JSON side of packages/api/generated/ai_providers.ts: of each message reading it off an object, the object made of it, and
  building one from the fields given.
\<close>

section \<open>AIProviderGrant\<close>

definition fromJSON_AIProviderGrant :: "json \<Rightarrow> AIProviderGrant result" where
  "fromJSON_AIProviderGrant obj =
     read_fields
       [plain_field obj ''aiProviderId'' js_String [] AIProviderGrant_aiProviderId_update,
        optional_field obj ''aiModelGrantee'' fromJSON_Author AIProviderGrant_aiModelGrantee_update,
        list_field obj ''modelNames'' js_String AIProviderGrant_modelNames_update,
        plain_field obj ''tokensRemaining'' js_Integer 0 AIProviderGrant_tokensRemaining_update,
        plain_field obj ''overage'' js_Integer 0 AIProviderGrant_overage_update,
        optional_field obj ''createdAt'' js_String AIProviderGrant_createdAt_update,
        optional_field obj ''updatedAt'' js_String AIProviderGrant_updatedAt_update]
       base_AIProviderGrant"

definition toJSON_AIProviderGrant :: "AIProviderGrant \<Rightarrow> json" where
  "toJSON_AIProviderGrant m =
     object_of
       [(''aiProviderId'', put_when (AIProviderGrant_aiProviderId m \<noteq> []) (JStr (AIProviderGrant_aiProviderId m))),
        (''aiModelGrantee'', put_given (AIProviderGrant_aiModelGrantee m) toJSON_Author),
        (''modelNames'', put_list (AIProviderGrant_modelNames m) JStr),
        (''tokensRemaining'', put_when (AIProviderGrant_tokensRemaining m \<noteq> 0) (number (AIProviderGrant_tokensRemaining m))),
        (''overage'', put_when (AIProviderGrant_overage m \<noteq> 0) (number (AIProviderGrant_overage m))),
        (''createdAt'', put_given (AIProviderGrant_createdAt m) JStr),
        (''updatedAt'', put_given (AIProviderGrant_updatedAt m) JStr)]"

definition fromPartial_AIProviderGrant :: "json \<Rightarrow> AIProviderGrant result" where
  "fromPartial_AIProviderGrant obj =
     read_fields
       [plain_field obj ''aiProviderId'' as_string [] AIProviderGrant_aiProviderId_update,
        optional_field obj ''aiModelGrantee'' fromPartial_Author AIProviderGrant_aiModelGrantee_update,
        mapped_field obj ''modelNames'' as_string AIProviderGrant_modelNames_update,
        plain_field obj ''tokensRemaining'' as_integer 0 AIProviderGrant_tokensRemaining_update,
        plain_field obj ''overage'' as_integer 0 AIProviderGrant_overage_update,
        optional_field obj ''createdAt'' as_string AIProviderGrant_createdAt_update,
        optional_field obj ''updatedAt'' as_string AIProviderGrant_updatedAt_update]
       base_AIProviderGrant"

definition create_AIProviderGrant :: "json option \<Rightarrow> AIProviderGrant result" where
  "create_AIProviderGrant = create_with fromPartial_AIProviderGrant"

definition known_AIProviderGrant :: "AIProviderGrant \<Rightarrow> bool" where
  "known_AIProviderGrant m \<longleftrightarrow>
     pred_option known_Author (AIProviderGrant_aiModelGrantee m)"

lemma created_AIProviderGrant: "create_AIProviderGrant None = Inr base_AIProviderGrant"
  by (simp add: create_AIProviderGrant_def fromPartial_AIProviderGrant_def base_AIProviderGrant_def)

lemma toJSON_AIProviderGrant_set [json_set]: "toJSON_AIProviderGrant m \<noteq> JNull"
  by (simp add: toJSON_AIProviderGrant_def)

lemma json_AIProviderGrant [json_codecs]:
  assumes "known_AIProviderGrant m"
  shows "fromJSON_AIProviderGrant (toJSON_AIProviderGrant m) = Inr m"
  unfolding fromJSON_AIProviderGrant_def
proof (rule message_restored [OF toJSON_AIProviderGrant_def [of m]])
  show "foldl (\<lambda>m u. u m) base_AIProviderGrant
      [AIProviderGrant_aiProviderId_update (\<lambda>_. AIProviderGrant_aiProviderId m),
       AIProviderGrant_aiModelGrantee_update (\<lambda>_. AIProviderGrant_aiModelGrantee m),
       AIProviderGrant_modelNames_update (\<lambda>_. AIProviderGrant_modelNames m),
       AIProviderGrant_tokensRemaining_update (\<lambda>_. AIProviderGrant_tokensRemaining m),
       AIProviderGrant_overage_update (\<lambda>_. AIProviderGrant_overage m),
       AIProviderGrant_createdAt_update (\<lambda>_. AIProviderGrant_createdAt m),
       AIProviderGrant_updatedAt_update (\<lambda>_. AIProviderGrant_updatedAt m)] = m"
    by (cases m) (simp add: base_AIProviderGrant_def)
qed (simp, insert assms [unfolded known_AIProviderGrant_def], simp only: list.pred_inject prod.case, elim conjE, (rule json_fields | assumption | erule known_values
      | rule any_values comes_backI json_codecs json_set enum_proper)+)

section \<open>AnthropicCredentials\<close>

definition fromJSON_AnthropicCredentials :: "json \<Rightarrow> AnthropicCredentials result" where
  "fromJSON_AnthropicCredentials obj =
     read_fields
       [optional_field obj ''anthropicApiKey'' js_String AnthropicCredentials_anthropicApiKey_update]
       base_AnthropicCredentials"

definition toJSON_AnthropicCredentials :: "AnthropicCredentials \<Rightarrow> json" where
  "toJSON_AnthropicCredentials m =
     object_of
       [(''anthropicApiKey'', put_given (AnthropicCredentials_anthropicApiKey m) JStr)]"

definition fromPartial_AnthropicCredentials :: "json \<Rightarrow> AnthropicCredentials result" where
  "fromPartial_AnthropicCredentials obj =
     read_fields
       [optional_field obj ''anthropicApiKey'' as_string AnthropicCredentials_anthropicApiKey_update]
       base_AnthropicCredentials"

definition create_AnthropicCredentials :: "json option \<Rightarrow> AnthropicCredentials result" where
  "create_AnthropicCredentials = create_with fromPartial_AnthropicCredentials"

lemma created_AnthropicCredentials: "create_AnthropicCredentials None = Inr base_AnthropicCredentials"
  by (simp add: create_AnthropicCredentials_def fromPartial_AnthropicCredentials_def base_AnthropicCredentials_def)

lemma toJSON_AnthropicCredentials_set [json_set]: "toJSON_AnthropicCredentials m \<noteq> JNull"
  by (simp add: toJSON_AnthropicCredentials_def)

lemma json_AnthropicCredentials [json_codecs]:
  "fromJSON_AnthropicCredentials (toJSON_AnthropicCredentials m) = Inr m"
  unfolding fromJSON_AnthropicCredentials_def
proof (rule message_restored [OF toJSON_AnthropicCredentials_def [of m]])
  show "foldl (\<lambda>m u. u m) base_AnthropicCredentials
      [AnthropicCredentials_anthropicApiKey_update (\<lambda>_. AnthropicCredentials_anthropicApiKey m)] = m"
    by (cases m) (simp add: base_AnthropicCredentials_def)
qed (simp, simp only: list.pred_inject prod.case, elim conjE, (rule json_fields | assumption | erule known_values
      | rule any_values comes_backI json_codecs json_set enum_proper)+)

section \<open>DigitalOceanCredentials\<close>

definition fromJSON_DigitalOceanCredentials :: "json \<Rightarrow> DigitalOceanCredentials result" where
  "fromJSON_DigitalOceanCredentials obj =
     read_fields
       [optional_field obj ''digitaloceanApiKey'' js_String DigitalOceanCredentials_digitaloceanApiKey_update]
       base_DigitalOceanCredentials"

definition toJSON_DigitalOceanCredentials :: "DigitalOceanCredentials \<Rightarrow> json" where
  "toJSON_DigitalOceanCredentials m =
     object_of
       [(''digitaloceanApiKey'', put_given (DigitalOceanCredentials_digitaloceanApiKey m) JStr)]"

definition fromPartial_DigitalOceanCredentials :: "json \<Rightarrow> DigitalOceanCredentials result" where
  "fromPartial_DigitalOceanCredentials obj =
     read_fields
       [optional_field obj ''digitaloceanApiKey'' as_string DigitalOceanCredentials_digitaloceanApiKey_update]
       base_DigitalOceanCredentials"

definition create_DigitalOceanCredentials :: "json option \<Rightarrow> DigitalOceanCredentials result" where
  "create_DigitalOceanCredentials = create_with fromPartial_DigitalOceanCredentials"

lemma created_DigitalOceanCredentials: "create_DigitalOceanCredentials None = Inr base_DigitalOceanCredentials"
  by (simp add: create_DigitalOceanCredentials_def fromPartial_DigitalOceanCredentials_def base_DigitalOceanCredentials_def)

lemma toJSON_DigitalOceanCredentials_set [json_set]: "toJSON_DigitalOceanCredentials m \<noteq> JNull"
  by (simp add: toJSON_DigitalOceanCredentials_def)

lemma json_DigitalOceanCredentials [json_codecs]:
  "fromJSON_DigitalOceanCredentials (toJSON_DigitalOceanCredentials m) = Inr m"
  unfolding fromJSON_DigitalOceanCredentials_def
proof (rule message_restored [OF toJSON_DigitalOceanCredentials_def [of m]])
  show "foldl (\<lambda>m u. u m) base_DigitalOceanCredentials
      [DigitalOceanCredentials_digitaloceanApiKey_update (\<lambda>_. DigitalOceanCredentials_digitaloceanApiKey m)] = m"
    by (cases m) (simp add: base_DigitalOceanCredentials_def)
qed (simp, simp only: list.pred_inject prod.case, elim conjE, (rule json_fields | assumption | erule known_values
      | rule any_values comes_backI json_codecs json_set enum_proper)+)

section \<open>GeminiCredentials\<close>

definition fromJSON_GeminiCredentials :: "json \<Rightarrow> GeminiCredentials result" where
  "fromJSON_GeminiCredentials obj =
     read_fields
       [optional_field obj ''geminiApiKey'' js_String GeminiCredentials_geminiApiKey_update]
       base_GeminiCredentials"

definition toJSON_GeminiCredentials :: "GeminiCredentials \<Rightarrow> json" where
  "toJSON_GeminiCredentials m =
     object_of
       [(''geminiApiKey'', put_given (GeminiCredentials_geminiApiKey m) JStr)]"

definition fromPartial_GeminiCredentials :: "json \<Rightarrow> GeminiCredentials result" where
  "fromPartial_GeminiCredentials obj =
     read_fields
       [optional_field obj ''geminiApiKey'' as_string GeminiCredentials_geminiApiKey_update]
       base_GeminiCredentials"

definition create_GeminiCredentials :: "json option \<Rightarrow> GeminiCredentials result" where
  "create_GeminiCredentials = create_with fromPartial_GeminiCredentials"

lemma created_GeminiCredentials: "create_GeminiCredentials None = Inr base_GeminiCredentials"
  by (simp add: create_GeminiCredentials_def fromPartial_GeminiCredentials_def base_GeminiCredentials_def)

lemma toJSON_GeminiCredentials_set [json_set]: "toJSON_GeminiCredentials m \<noteq> JNull"
  by (simp add: toJSON_GeminiCredentials_def)

lemma json_GeminiCredentials [json_codecs]:
  "fromJSON_GeminiCredentials (toJSON_GeminiCredentials m) = Inr m"
  unfolding fromJSON_GeminiCredentials_def
proof (rule message_restored [OF toJSON_GeminiCredentials_def [of m]])
  show "foldl (\<lambda>m u. u m) base_GeminiCredentials
      [GeminiCredentials_geminiApiKey_update (\<lambda>_. GeminiCredentials_geminiApiKey m)] = m"
    by (cases m) (simp add: base_GeminiCredentials_def)
qed (simp, simp only: list.pred_inject prod.case, elim conjE, (rule json_fields | assumption | erule known_values
      | rule any_values comes_backI json_codecs json_set enum_proper)+)

section \<open>OpenAICredentials\<close>

definition fromJSON_OpenAICredentials :: "json \<Rightarrow> OpenAICredentials result" where
  "fromJSON_OpenAICredentials obj =
     read_fields
       [optional_field obj ''openaiApiKey'' js_String OpenAICredentials_openaiApiKey_update]
       base_OpenAICredentials"

definition toJSON_OpenAICredentials :: "OpenAICredentials \<Rightarrow> json" where
  "toJSON_OpenAICredentials m =
     object_of
       [(''openaiApiKey'', put_given (OpenAICredentials_openaiApiKey m) JStr)]"

definition fromPartial_OpenAICredentials :: "json \<Rightarrow> OpenAICredentials result" where
  "fromPartial_OpenAICredentials obj =
     read_fields
       [optional_field obj ''openaiApiKey'' as_string OpenAICredentials_openaiApiKey_update]
       base_OpenAICredentials"

definition create_OpenAICredentials :: "json option \<Rightarrow> OpenAICredentials result" where
  "create_OpenAICredentials = create_with fromPartial_OpenAICredentials"

lemma created_OpenAICredentials: "create_OpenAICredentials None = Inr base_OpenAICredentials"
  by (simp add: create_OpenAICredentials_def fromPartial_OpenAICredentials_def base_OpenAICredentials_def)

lemma toJSON_OpenAICredentials_set [json_set]: "toJSON_OpenAICredentials m \<noteq> JNull"
  by (simp add: toJSON_OpenAICredentials_def)

lemma json_OpenAICredentials [json_codecs]:
  "fromJSON_OpenAICredentials (toJSON_OpenAICredentials m) = Inr m"
  unfolding fromJSON_OpenAICredentials_def
proof (rule message_restored [OF toJSON_OpenAICredentials_def [of m]])
  show "foldl (\<lambda>m u. u m) base_OpenAICredentials
      [OpenAICredentials_openaiApiKey_update (\<lambda>_. OpenAICredentials_openaiApiKey m)] = m"
    by (cases m) (simp add: base_OpenAICredentials_def)
qed (simp, simp only: list.pred_inject prod.case, elim conjE, (rule json_fields | assumption | erule known_values
      | rule any_values comes_backI json_codecs json_set enum_proper)+)

section \<open>AIProvider\<close>

definition fromJSON_AIProvider :: "json \<Rightarrow> AIProvider result" where
  "fromJSON_AIProvider obj =
     read_fields
       [plain_field obj ''id'' js_String [] AIProvider_id_update,
        optional_field obj ''owner'' fromJSON_Author AIProvider_owner_update,
        plain_field obj ''name'' js_String [] AIProvider_name_update,
        optional_field obj ''geminiCredentials'' fromJSON_GeminiCredentials AIProvider_geminiCredentials_update,
        optional_field obj ''openaiCredentials'' fromJSON_OpenAICredentials AIProvider_openaiCredentials_update,
        optional_field obj ''anthropicCredentials'' fromJSON_AnthropicCredentials AIProvider_anthropicCredentials_update,
        optional_field obj ''digitaloceanCredentials'' fromJSON_DigitalOceanCredentials AIProvider_digitaloceanCredentials_update,
        list_field obj ''grants'' fromJSON_AIProviderGrant AIProvider_grants_update,
        optional_field obj ''createdAt'' js_String AIProvider_createdAt_update,
        optional_field obj ''updatedAt'' js_String AIProvider_updatedAt_update]
       base_AIProvider"

definition toJSON_AIProvider :: "AIProvider \<Rightarrow> json" where
  "toJSON_AIProvider m =
     object_of
       [(''id'', put_when (AIProvider_id m \<noteq> []) (JStr (AIProvider_id m))),
        (''owner'', put_given (AIProvider_owner m) toJSON_Author),
        (''name'', put_when (AIProvider_name m \<noteq> []) (JStr (AIProvider_name m))),
        (''geminiCredentials'', put_given (AIProvider_geminiCredentials m) toJSON_GeminiCredentials),
        (''openaiCredentials'', put_given (AIProvider_openaiCredentials m) toJSON_OpenAICredentials),
        (''anthropicCredentials'', put_given (AIProvider_anthropicCredentials m) toJSON_AnthropicCredentials),
        (''digitaloceanCredentials'', put_given (AIProvider_digitaloceanCredentials m) toJSON_DigitalOceanCredentials),
        (''grants'', put_list (AIProvider_grants m) toJSON_AIProviderGrant),
        (''createdAt'', put_given (AIProvider_createdAt m) JStr),
        (''updatedAt'', put_given (AIProvider_updatedAt m) JStr)]"

definition fromPartial_AIProvider :: "json \<Rightarrow> AIProvider result" where
  "fromPartial_AIProvider obj =
     read_fields
       [plain_field obj ''id'' as_string [] AIProvider_id_update,
        optional_field obj ''owner'' fromPartial_Author AIProvider_owner_update,
        plain_field obj ''name'' as_string [] AIProvider_name_update,
        optional_field obj ''geminiCredentials'' fromPartial_GeminiCredentials AIProvider_geminiCredentials_update,
        optional_field obj ''openaiCredentials'' fromPartial_OpenAICredentials AIProvider_openaiCredentials_update,
        optional_field obj ''anthropicCredentials'' fromPartial_AnthropicCredentials AIProvider_anthropicCredentials_update,
        optional_field obj ''digitaloceanCredentials'' fromPartial_DigitalOceanCredentials AIProvider_digitaloceanCredentials_update,
        mapped_field obj ''grants'' fromPartial_AIProviderGrant AIProvider_grants_update,
        optional_field obj ''createdAt'' as_string AIProvider_createdAt_update,
        optional_field obj ''updatedAt'' as_string AIProvider_updatedAt_update]
       base_AIProvider"

definition create_AIProvider :: "json option \<Rightarrow> AIProvider result" where
  "create_AIProvider = create_with fromPartial_AIProvider"

definition known_AIProvider :: "AIProvider \<Rightarrow> bool" where
  "known_AIProvider m \<longleftrightarrow>
     pred_option known_Author (AIProvider_owner m) \<and>
     list_all known_AIProviderGrant (AIProvider_grants m)"

lemma created_AIProvider: "create_AIProvider None = Inr base_AIProvider"
  by (simp add: create_AIProvider_def fromPartial_AIProvider_def base_AIProvider_def)

lemma toJSON_AIProvider_set [json_set]: "toJSON_AIProvider m \<noteq> JNull"
  by (simp add: toJSON_AIProvider_def)

lemma json_AIProvider [json_codecs]:
  assumes "known_AIProvider m"
  shows "fromJSON_AIProvider (toJSON_AIProvider m) = Inr m"
  unfolding fromJSON_AIProvider_def
proof (rule message_restored [OF toJSON_AIProvider_def [of m]])
  show "foldl (\<lambda>m u. u m) base_AIProvider
      [AIProvider_id_update (\<lambda>_. AIProvider_id m),
       AIProvider_owner_update (\<lambda>_. AIProvider_owner m),
       AIProvider_name_update (\<lambda>_. AIProvider_name m),
       AIProvider_geminiCredentials_update (\<lambda>_. AIProvider_geminiCredentials m),
       AIProvider_openaiCredentials_update (\<lambda>_. AIProvider_openaiCredentials m),
       AIProvider_anthropicCredentials_update (\<lambda>_. AIProvider_anthropicCredentials m),
       AIProvider_digitaloceanCredentials_update (\<lambda>_. AIProvider_digitaloceanCredentials m),
       AIProvider_grants_update (\<lambda>_. AIProvider_grants m),
       AIProvider_createdAt_update (\<lambda>_. AIProvider_createdAt m),
       AIProvider_updatedAt_update (\<lambda>_. AIProvider_updatedAt m)] = m"
    by (cases m) (simp add: base_AIProvider_def)
qed (simp, insert assms [unfolded known_AIProvider_def], simp only: list.pred_inject prod.case, elim conjE, (rule json_fields | assumption | erule known_values
      | rule any_values comes_backI json_codecs json_set enum_proper)+)

section \<open>AIModel\<close>

definition fromJSON_AIModel :: "json \<Rightarrow> AIModel result" where
  "fromJSON_AIModel obj =
     read_fields
       [plain_field obj ''modelName'' js_String [] AIModel_modelName_update,
        list_field obj ''capabilities'' (from_enum AIModelCapability_numbers) AIModel_capabilities_update,
        optional_field obj ''grant'' fromJSON_AIProviderGrant AIModel_grant_update,
        optional_field obj ''provider'' fromJSON_AIProvider AIModel_provider_update]
       base_AIModel"

definition toJSON_AIModel :: "AIModel \<Rightarrow> json" where
  "toJSON_AIModel m =
     object_of
       [(''modelName'', put_when (AIModel_modelName m \<noteq> []) (JStr (AIModel_modelName m))),
        (''capabilities'', put_list (AIModel_capabilities m) (to_enum AIModelCapability_numbers)),
        (''grant'', put_given (AIModel_grant m) toJSON_AIProviderGrant),
        (''provider'', put_given (AIModel_provider m) toJSON_AIProvider)]"

definition fromPartial_AIModel :: "json \<Rightarrow> AIModel result" where
  "fromPartial_AIModel obj =
     read_fields
       [plain_field obj ''modelName'' as_string [] AIModel_modelName_update,
        mapped_field obj ''capabilities'' as_integer AIModel_capabilities_update,
        optional_field obj ''grant'' fromPartial_AIProviderGrant AIModel_grant_update,
        optional_field obj ''provider'' fromPartial_AIProvider AIModel_provider_update]
       base_AIModel"

definition create_AIModel :: "json option \<Rightarrow> AIModel result" where
  "create_AIModel = create_with fromPartial_AIModel"

definition known_AIModel :: "AIModel \<Rightarrow> bool" where
  "known_AIModel m \<longleftrightarrow>
     list_all (known_enum AIModelCapability_numbers) (AIModel_capabilities m) \<and>
     pred_option known_AIProviderGrant (AIModel_grant m) \<and>
     pred_option known_AIProvider (AIModel_provider m)"

lemma created_AIModel: "create_AIModel None = Inr base_AIModel"
  by (simp add: create_AIModel_def fromPartial_AIModel_def base_AIModel_def)

lemma toJSON_AIModel_set [json_set]: "toJSON_AIModel m \<noteq> JNull"
  by (simp add: toJSON_AIModel_def)

lemma json_AIModel [json_codecs]:
  assumes "known_AIModel m"
  shows "fromJSON_AIModel (toJSON_AIModel m) = Inr m"
  unfolding fromJSON_AIModel_def
proof (rule message_restored [OF toJSON_AIModel_def [of m]])
  show "foldl (\<lambda>m u. u m) base_AIModel
      [AIModel_modelName_update (\<lambda>_. AIModel_modelName m),
       AIModel_capabilities_update (\<lambda>_. AIModel_capabilities m),
       AIModel_grant_update (\<lambda>_. AIModel_grant m),
       AIModel_provider_update (\<lambda>_. AIModel_provider m)] = m"
    by (cases m) (simp add: base_AIModel_def)
qed (simp, insert assms [unfolded known_AIModel_def], simp only: list.pred_inject prod.case, elim conjE, (rule json_fields | assumption | erule known_values
      | rule any_values comes_backI json_codecs json_set enum_proper)+)

section \<open>GenerateMediaRequest\<close>

definition fromJSON_GenerateMediaRequest :: "json \<Rightarrow> GenerateMediaRequest result" where
  "fromJSON_GenerateMediaRequest obj =
     read_fields
       [optional_field obj ''model'' fromJSON_AIModel GenerateMediaRequest_model_update,
        plain_field obj ''userPrompt'' js_String [] GenerateMediaRequest_userPrompt_update,
        list_field obj ''mediaIds'' js_String GenerateMediaRequest_mediaIds_update,
        optional_field obj ''postId'' js_String GenerateMediaRequest_postId_update,
        optional_field obj ''occasionId'' js_String GenerateMediaRequest_occasionId_update]
       base_GenerateMediaRequest"

definition toJSON_GenerateMediaRequest :: "GenerateMediaRequest \<Rightarrow> json" where
  "toJSON_GenerateMediaRequest m =
     object_of
       [(''model'', put_given (GenerateMediaRequest_model m) toJSON_AIModel),
        (''userPrompt'', put_when (GenerateMediaRequest_userPrompt m \<noteq> []) (JStr (GenerateMediaRequest_userPrompt m))),
        (''mediaIds'', put_list (GenerateMediaRequest_mediaIds m) JStr),
        (''postId'', put_given (GenerateMediaRequest_postId m) JStr),
        (''occasionId'', put_given (GenerateMediaRequest_occasionId m) JStr)]"

definition fromPartial_GenerateMediaRequest :: "json \<Rightarrow> GenerateMediaRequest result" where
  "fromPartial_GenerateMediaRequest obj =
     read_fields
       [optional_field obj ''model'' fromPartial_AIModel GenerateMediaRequest_model_update,
        plain_field obj ''userPrompt'' as_string [] GenerateMediaRequest_userPrompt_update,
        mapped_field obj ''mediaIds'' as_string GenerateMediaRequest_mediaIds_update,
        optional_field obj ''postId'' as_string GenerateMediaRequest_postId_update,
        optional_field obj ''occasionId'' as_string GenerateMediaRequest_occasionId_update]
       base_GenerateMediaRequest"

definition create_GenerateMediaRequest :: "json option \<Rightarrow> GenerateMediaRequest result" where
  "create_GenerateMediaRequest = create_with fromPartial_GenerateMediaRequest"

definition known_GenerateMediaRequest :: "GenerateMediaRequest \<Rightarrow> bool" where
  "known_GenerateMediaRequest m \<longleftrightarrow>
     pred_option known_AIModel (GenerateMediaRequest_model m)"

lemma created_GenerateMediaRequest: "create_GenerateMediaRequest None = Inr base_GenerateMediaRequest"
  by (simp add: create_GenerateMediaRequest_def fromPartial_GenerateMediaRequest_def base_GenerateMediaRequest_def)

lemma toJSON_GenerateMediaRequest_set [json_set]: "toJSON_GenerateMediaRequest m \<noteq> JNull"
  by (simp add: toJSON_GenerateMediaRequest_def)

lemma json_GenerateMediaRequest [json_codecs]:
  assumes "known_GenerateMediaRequest m"
  shows "fromJSON_GenerateMediaRequest (toJSON_GenerateMediaRequest m) = Inr m"
  unfolding fromJSON_GenerateMediaRequest_def
proof (rule message_restored [OF toJSON_GenerateMediaRequest_def [of m]])
  show "foldl (\<lambda>m u. u m) base_GenerateMediaRequest
      [GenerateMediaRequest_model_update (\<lambda>_. GenerateMediaRequest_model m),
       GenerateMediaRequest_userPrompt_update (\<lambda>_. GenerateMediaRequest_userPrompt m),
       GenerateMediaRequest_mediaIds_update (\<lambda>_. GenerateMediaRequest_mediaIds m),
       GenerateMediaRequest_postId_update (\<lambda>_. GenerateMediaRequest_postId m),
       GenerateMediaRequest_occasionId_update (\<lambda>_. GenerateMediaRequest_occasionId m)] = m"
    by (cases m) (simp add: base_GenerateMediaRequest_def)
qed (simp, insert assms [unfolded known_GenerateMediaRequest_def], simp only: list.pred_inject prod.case, elim conjE, (rule json_fields | assumption | erule known_values
      | rule any_values comes_backI json_codecs json_set enum_proper)+)

section \<open>GetAIProvidersResponse\<close>

definition fromJSON_GetAIProvidersResponse :: "json \<Rightarrow> GetAIProvidersResponse result" where
  "fromJSON_GetAIProvidersResponse obj =
     read_fields
       [list_field obj ''providers'' fromJSON_AIProvider GetAIProvidersResponse_providers_update,
        list_field obj ''aiModels'' fromJSON_AIModel GetAIProvidersResponse_aiModels_update]
       base_GetAIProvidersResponse"

definition toJSON_GetAIProvidersResponse :: "GetAIProvidersResponse \<Rightarrow> json" where
  "toJSON_GetAIProvidersResponse m =
     object_of
       [(''providers'', put_list (GetAIProvidersResponse_providers m) toJSON_AIProvider),
        (''aiModels'', put_list (GetAIProvidersResponse_aiModels m) toJSON_AIModel)]"

definition fromPartial_GetAIProvidersResponse :: "json \<Rightarrow> GetAIProvidersResponse result" where
  "fromPartial_GetAIProvidersResponse obj =
     read_fields
       [mapped_field obj ''providers'' fromPartial_AIProvider GetAIProvidersResponse_providers_update,
        mapped_field obj ''aiModels'' fromPartial_AIModel GetAIProvidersResponse_aiModels_update]
       base_GetAIProvidersResponse"

definition create_GetAIProvidersResponse :: "json option \<Rightarrow> GetAIProvidersResponse result" where
  "create_GetAIProvidersResponse = create_with fromPartial_GetAIProvidersResponse"

definition known_GetAIProvidersResponse :: "GetAIProvidersResponse \<Rightarrow> bool" where
  "known_GetAIProvidersResponse m \<longleftrightarrow>
     list_all known_AIProvider (GetAIProvidersResponse_providers m) \<and>
     list_all known_AIModel (GetAIProvidersResponse_aiModels m)"

lemma created_GetAIProvidersResponse: "create_GetAIProvidersResponse None = Inr base_GetAIProvidersResponse"
  by (simp add: create_GetAIProvidersResponse_def fromPartial_GetAIProvidersResponse_def base_GetAIProvidersResponse_def)

lemma toJSON_GetAIProvidersResponse_set [json_set]: "toJSON_GetAIProvidersResponse m \<noteq> JNull"
  by (simp add: toJSON_GetAIProvidersResponse_def)

lemma json_GetAIProvidersResponse [json_codecs]:
  assumes "known_GetAIProvidersResponse m"
  shows "fromJSON_GetAIProvidersResponse (toJSON_GetAIProvidersResponse m) = Inr m"
  unfolding fromJSON_GetAIProvidersResponse_def
proof (rule message_restored [OF toJSON_GetAIProvidersResponse_def [of m]])
  show "foldl (\<lambda>m u. u m) base_GetAIProvidersResponse
      [GetAIProvidersResponse_providers_update (\<lambda>_. GetAIProvidersResponse_providers m),
       GetAIProvidersResponse_aiModels_update (\<lambda>_. GetAIProvidersResponse_aiModels m)] = m"
    by (cases m) (simp add: base_GetAIProvidersResponse_def)
qed (simp, insert assms [unfolded known_GetAIProvidersResponse_def], simp only: list.pred_inject prod.case, elim conjE, (rule json_fields | assumption | erule known_values
      | rule any_values comes_backI json_codecs json_set enum_proper)+)

section \<open>DeleteAIProviderRequest\<close>

definition fromJSON_DeleteAIProviderRequest :: "json \<Rightarrow> DeleteAIProviderRequest result" where
  "fromJSON_DeleteAIProviderRequest obj =
     read_fields
       [optional_field obj ''provider'' fromJSON_AIProvider DeleteAIProviderRequest_provider_update]
       base_DeleteAIProviderRequest"

definition toJSON_DeleteAIProviderRequest :: "DeleteAIProviderRequest \<Rightarrow> json" where
  "toJSON_DeleteAIProviderRequest m =
     object_of
       [(''provider'', put_given (DeleteAIProviderRequest_provider m) toJSON_AIProvider)]"

definition fromPartial_DeleteAIProviderRequest :: "json \<Rightarrow> DeleteAIProviderRequest result" where
  "fromPartial_DeleteAIProviderRequest obj =
     read_fields
       [optional_field obj ''provider'' fromPartial_AIProvider DeleteAIProviderRequest_provider_update]
       base_DeleteAIProviderRequest"

definition create_DeleteAIProviderRequest :: "json option \<Rightarrow> DeleteAIProviderRequest result" where
  "create_DeleteAIProviderRequest = create_with fromPartial_DeleteAIProviderRequest"

definition known_DeleteAIProviderRequest :: "DeleteAIProviderRequest \<Rightarrow> bool" where
  "known_DeleteAIProviderRequest m \<longleftrightarrow>
     pred_option known_AIProvider (DeleteAIProviderRequest_provider m)"

lemma created_DeleteAIProviderRequest: "create_DeleteAIProviderRequest None = Inr base_DeleteAIProviderRequest"
  by (simp add: create_DeleteAIProviderRequest_def fromPartial_DeleteAIProviderRequest_def base_DeleteAIProviderRequest_def)

lemma toJSON_DeleteAIProviderRequest_set [json_set]: "toJSON_DeleteAIProviderRequest m \<noteq> JNull"
  by (simp add: toJSON_DeleteAIProviderRequest_def)

lemma json_DeleteAIProviderRequest [json_codecs]:
  assumes "known_DeleteAIProviderRequest m"
  shows "fromJSON_DeleteAIProviderRequest (toJSON_DeleteAIProviderRequest m) = Inr m"
  unfolding fromJSON_DeleteAIProviderRequest_def
proof (rule message_restored [OF toJSON_DeleteAIProviderRequest_def [of m]])
  show "foldl (\<lambda>m u. u m) base_DeleteAIProviderRequest
      [DeleteAIProviderRequest_provider_update (\<lambda>_. DeleteAIProviderRequest_provider m)] = m"
    by (cases m) (simp add: base_DeleteAIProviderRequest_def)
qed (simp, insert assms [unfolded known_DeleteAIProviderRequest_def], simp only: list.pred_inject prod.case, elim conjE, (rule json_fields | assumption | erule known_values
      | rule any_values comes_backI json_codecs json_set enum_proper)+)

section \<open>GrantAIProviderRequest\<close>

definition fromJSON_GrantAIProviderRequest :: "json \<Rightarrow> GrantAIProviderRequest result" where
  "fromJSON_GrantAIProviderRequest obj =
     read_fields
       [plain_field obj ''userId'' js_String [] GrantAIProviderRequest_userId_update,
        plain_field obj ''aiProviderId'' js_String [] GrantAIProviderRequest_aiProviderId_update,
        plain_field obj ''tokens'' js_Integer 0 GrantAIProviderRequest_tokens_update,
        list_field obj ''modelNames'' js_String GrantAIProviderRequest_modelNames_update]
       base_GrantAIProviderRequest"

definition toJSON_GrantAIProviderRequest :: "GrantAIProviderRequest \<Rightarrow> json" where
  "toJSON_GrantAIProviderRequest m =
     object_of
       [(''userId'', put_when (GrantAIProviderRequest_userId m \<noteq> []) (JStr (GrantAIProviderRequest_userId m))),
        (''aiProviderId'', put_when (GrantAIProviderRequest_aiProviderId m \<noteq> []) (JStr (GrantAIProviderRequest_aiProviderId m))),
        (''tokens'', put_when (GrantAIProviderRequest_tokens m \<noteq> 0) (number (GrantAIProviderRequest_tokens m))),
        (''modelNames'', put_list (GrantAIProviderRequest_modelNames m) JStr)]"

definition fromPartial_GrantAIProviderRequest :: "json \<Rightarrow> GrantAIProviderRequest result" where
  "fromPartial_GrantAIProviderRequest obj =
     read_fields
       [plain_field obj ''userId'' as_string [] GrantAIProviderRequest_userId_update,
        plain_field obj ''aiProviderId'' as_string [] GrantAIProviderRequest_aiProviderId_update,
        plain_field obj ''tokens'' as_integer 0 GrantAIProviderRequest_tokens_update,
        mapped_field obj ''modelNames'' as_string GrantAIProviderRequest_modelNames_update]
       base_GrantAIProviderRequest"

definition create_GrantAIProviderRequest :: "json option \<Rightarrow> GrantAIProviderRequest result" where
  "create_GrantAIProviderRequest = create_with fromPartial_GrantAIProviderRequest"

lemma created_GrantAIProviderRequest: "create_GrantAIProviderRequest None = Inr base_GrantAIProviderRequest"
  by (simp add: create_GrantAIProviderRequest_def fromPartial_GrantAIProviderRequest_def base_GrantAIProviderRequest_def)

lemma toJSON_GrantAIProviderRequest_set [json_set]: "toJSON_GrantAIProviderRequest m \<noteq> JNull"
  by (simp add: toJSON_GrantAIProviderRequest_def)

lemma json_GrantAIProviderRequest [json_codecs]:
  "fromJSON_GrantAIProviderRequest (toJSON_GrantAIProviderRequest m) = Inr m"
  unfolding fromJSON_GrantAIProviderRequest_def
proof (rule message_restored [OF toJSON_GrantAIProviderRequest_def [of m]])
  show "foldl (\<lambda>m u. u m) base_GrantAIProviderRequest
      [GrantAIProviderRequest_userId_update (\<lambda>_. GrantAIProviderRequest_userId m),
       GrantAIProviderRequest_aiProviderId_update (\<lambda>_. GrantAIProviderRequest_aiProviderId m),
       GrantAIProviderRequest_tokens_update (\<lambda>_. GrantAIProviderRequest_tokens m),
       GrantAIProviderRequest_modelNames_update (\<lambda>_. GrantAIProviderRequest_modelNames m)] = m"
    by (cases m) (simp add: base_GrantAIProviderRequest_def)
qed (simp, simp only: list.pred_inject prod.case, elim conjE, (rule json_fields | assumption | erule known_values
      | rule any_values comes_backI json_codecs json_set enum_proper)+)

section \<open>RevokeAIProviderRequest\<close>

definition fromJSON_RevokeAIProviderRequest :: "json \<Rightarrow> RevokeAIProviderRequest result" where
  "fromJSON_RevokeAIProviderRequest obj =
     read_fields
       [plain_field obj ''userId'' js_String [] RevokeAIProviderRequest_userId_update,
        plain_field obj ''aiProviderId'' js_String [] RevokeAIProviderRequest_aiProviderId_update]
       base_RevokeAIProviderRequest"

definition toJSON_RevokeAIProviderRequest :: "RevokeAIProviderRequest \<Rightarrow> json" where
  "toJSON_RevokeAIProviderRequest m =
     object_of
       [(''userId'', put_when (RevokeAIProviderRequest_userId m \<noteq> []) (JStr (RevokeAIProviderRequest_userId m))),
        (''aiProviderId'', put_when (RevokeAIProviderRequest_aiProviderId m \<noteq> []) (JStr (RevokeAIProviderRequest_aiProviderId m)))]"

definition fromPartial_RevokeAIProviderRequest :: "json \<Rightarrow> RevokeAIProviderRequest result" where
  "fromPartial_RevokeAIProviderRequest obj =
     read_fields
       [plain_field obj ''userId'' as_string [] RevokeAIProviderRequest_userId_update,
        plain_field obj ''aiProviderId'' as_string [] RevokeAIProviderRequest_aiProviderId_update]
       base_RevokeAIProviderRequest"

definition create_RevokeAIProviderRequest :: "json option \<Rightarrow> RevokeAIProviderRequest result" where
  "create_RevokeAIProviderRequest = create_with fromPartial_RevokeAIProviderRequest"

lemma created_RevokeAIProviderRequest: "create_RevokeAIProviderRequest None = Inr base_RevokeAIProviderRequest"
  by (simp add: create_RevokeAIProviderRequest_def fromPartial_RevokeAIProviderRequest_def base_RevokeAIProviderRequest_def)

lemma toJSON_RevokeAIProviderRequest_set [json_set]: "toJSON_RevokeAIProviderRequest m \<noteq> JNull"
  by (simp add: toJSON_RevokeAIProviderRequest_def)

lemma json_RevokeAIProviderRequest [json_codecs]:
  "fromJSON_RevokeAIProviderRequest (toJSON_RevokeAIProviderRequest m) = Inr m"
  unfolding fromJSON_RevokeAIProviderRequest_def
proof (rule message_restored [OF toJSON_RevokeAIProviderRequest_def [of m]])
  show "foldl (\<lambda>m u. u m) base_RevokeAIProviderRequest
      [RevokeAIProviderRequest_userId_update (\<lambda>_. RevokeAIProviderRequest_userId m),
       RevokeAIProviderRequest_aiProviderId_update (\<lambda>_. RevokeAIProviderRequest_aiProviderId m)] = m"
    by (cases m) (simp add: base_RevokeAIProviderRequest_def)
qed (simp, simp only: list.pred_inject prod.case, elim conjE, (rule json_fields | assumption | erule known_values
      | rule any_values comes_backI json_codecs json_set enum_proper)+)

end
