(* ===== verification/Json_Federation.thy ===== *)
theory Json_Federation
  imports Wire_Federation Json_Enums
begin

text \<open>
  The JSON side of packages/api/generated/federation.ts: of each message reading it off an object, the object made of it, and
  building one from the fields given.
\<close>

section \<open>GetServiceVersionResponse\<close>

definition fromJSON_GetServiceVersionResponse :: "json \<Rightarrow> GetServiceVersionResponse result" where
  "fromJSON_GetServiceVersionResponse obj =
     read_fields
       [plain_field obj ''version'' js_String [] GetServiceVersionResponse_version_update]
       base_GetServiceVersionResponse"

definition toJSON_GetServiceVersionResponse :: "GetServiceVersionResponse \<Rightarrow> json" where
  "toJSON_GetServiceVersionResponse m =
     object_of
       [(''version'', put_when (GetServiceVersionResponse_version m \<noteq> []) (JStr (GetServiceVersionResponse_version m)))]"

definition fromPartial_GetServiceVersionResponse :: "json \<Rightarrow> GetServiceVersionResponse result" where
  "fromPartial_GetServiceVersionResponse obj =
     read_fields
       [plain_field obj ''version'' as_string [] GetServiceVersionResponse_version_update]
       base_GetServiceVersionResponse"

definition create_GetServiceVersionResponse :: "json option \<Rightarrow> GetServiceVersionResponse result" where
  "create_GetServiceVersionResponse = create_with fromPartial_GetServiceVersionResponse"

lemma created_GetServiceVersionResponse: "create_GetServiceVersionResponse None = Inr base_GetServiceVersionResponse"
  by (simp add: create_GetServiceVersionResponse_def fromPartial_GetServiceVersionResponse_def base_GetServiceVersionResponse_def)

lemma toJSON_GetServiceVersionResponse_set [json_set]: "toJSON_GetServiceVersionResponse m \<noteq> JNull"
  by (simp add: toJSON_GetServiceVersionResponse_def)

lemma json_GetServiceVersionResponse [json_codecs]:
  "fromJSON_GetServiceVersionResponse (toJSON_GetServiceVersionResponse m) = Inr m"
  unfolding fromJSON_GetServiceVersionResponse_def
proof (rule message_restored [OF toJSON_GetServiceVersionResponse_def [of m]])
  show "foldl (\<lambda>m u. u m) base_GetServiceVersionResponse
      [GetServiceVersionResponse_version_update (\<lambda>_. GetServiceVersionResponse_version m)] = m"
    by (cases m) (simp add: base_GetServiceVersionResponse_def)
qed (simp, simp only: list.pred_inject prod.case, elim conjE, (rule json_fields | assumption | erule known_values
      | rule any_values comes_backI json_codecs json_set enum_proper)+)

section \<open>BlueskyServer\<close>

definition fromJSON_BlueskyServer :: "json \<Rightarrow> BlueskyServer result" where
  "fromJSON_BlueskyServer obj =
     read_fields
       [plain_field obj ''host'' js_String [] BlueskyServer_host_update,
        optional_field obj ''configuredByDefault'' js_Boolean BlueskyServer_configuredByDefault_update,
        optional_field obj ''pinnedByDefault'' js_Boolean BlueskyServer_pinnedByDefault_update,
        optional_field obj ''logoUrl'' js_String BlueskyServer_logoUrl_update]
       base_BlueskyServer"

definition toJSON_BlueskyServer :: "BlueskyServer \<Rightarrow> json" where
  "toJSON_BlueskyServer m =
     object_of
       [(''host'', put_when (BlueskyServer_host m \<noteq> []) (JStr (BlueskyServer_host m))),
        (''configuredByDefault'', put_given (BlueskyServer_configuredByDefault m) JBool),
        (''pinnedByDefault'', put_given (BlueskyServer_pinnedByDefault m) JBool),
        (''logoUrl'', put_given (BlueskyServer_logoUrl m) JStr)]"

definition fromPartial_BlueskyServer :: "json \<Rightarrow> BlueskyServer result" where
  "fromPartial_BlueskyServer obj =
     read_fields
       [plain_field obj ''host'' as_string [] BlueskyServer_host_update,
        optional_field obj ''configuredByDefault'' as_bool BlueskyServer_configuredByDefault_update,
        optional_field obj ''pinnedByDefault'' as_bool BlueskyServer_pinnedByDefault_update,
        optional_field obj ''logoUrl'' as_string BlueskyServer_logoUrl_update]
       base_BlueskyServer"

definition create_BlueskyServer :: "json option \<Rightarrow> BlueskyServer result" where
  "create_BlueskyServer = create_with fromPartial_BlueskyServer"

lemma created_BlueskyServer: "create_BlueskyServer None = Inr base_BlueskyServer"
  by (simp add: create_BlueskyServer_def fromPartial_BlueskyServer_def base_BlueskyServer_def)

lemma toJSON_BlueskyServer_set [json_set]: "toJSON_BlueskyServer m \<noteq> JNull"
  by (simp add: toJSON_BlueskyServer_def)

lemma json_BlueskyServer [json_codecs]:
  "fromJSON_BlueskyServer (toJSON_BlueskyServer m) = Inr m"
  unfolding fromJSON_BlueskyServer_def
proof (rule message_restored [OF toJSON_BlueskyServer_def [of m]])
  show "foldl (\<lambda>m u. u m) base_BlueskyServer
      [BlueskyServer_host_update (\<lambda>_. BlueskyServer_host m),
       BlueskyServer_configuredByDefault_update (\<lambda>_. BlueskyServer_configuredByDefault m),
       BlueskyServer_pinnedByDefault_update (\<lambda>_. BlueskyServer_pinnedByDefault m),
       BlueskyServer_logoUrl_update (\<lambda>_. BlueskyServer_logoUrl m)] = m"
    by (cases m) (simp add: base_BlueskyServer_def)
qed (simp, simp only: list.pred_inject prod.case, elim conjE, (rule json_fields | assumption | erule known_values
      | rule any_values comes_backI json_codecs json_set enum_proper)+)

section \<open>FacebookAuthConfig\<close>

definition fromJSON_FacebookAuthConfig :: "json \<Rightarrow> FacebookAuthConfig result" where
  "fromJSON_FacebookAuthConfig obj =
     read_fields
       [plain_field obj ''appId'' js_String [] FacebookAuthConfig_appId_update,
        plain_field obj ''appSecret'' js_String [] FacebookAuthConfig_appSecret_update]
       base_FacebookAuthConfig"

definition toJSON_FacebookAuthConfig :: "FacebookAuthConfig \<Rightarrow> json" where
  "toJSON_FacebookAuthConfig m =
     object_of
       [(''appId'', put_when (FacebookAuthConfig_appId m \<noteq> []) (JStr (FacebookAuthConfig_appId m))),
        (''appSecret'', put_when (FacebookAuthConfig_appSecret m \<noteq> []) (JStr (FacebookAuthConfig_appSecret m)))]"

definition fromPartial_FacebookAuthConfig :: "json \<Rightarrow> FacebookAuthConfig result" where
  "fromPartial_FacebookAuthConfig obj =
     read_fields
       [plain_field obj ''appId'' as_string [] FacebookAuthConfig_appId_update,
        plain_field obj ''appSecret'' as_string [] FacebookAuthConfig_appSecret_update]
       base_FacebookAuthConfig"

definition create_FacebookAuthConfig :: "json option \<Rightarrow> FacebookAuthConfig result" where
  "create_FacebookAuthConfig = create_with fromPartial_FacebookAuthConfig"

lemma created_FacebookAuthConfig: "create_FacebookAuthConfig None = Inr base_FacebookAuthConfig"
  by (simp add: create_FacebookAuthConfig_def fromPartial_FacebookAuthConfig_def base_FacebookAuthConfig_def)

lemma toJSON_FacebookAuthConfig_set [json_set]: "toJSON_FacebookAuthConfig m \<noteq> JNull"
  by (simp add: toJSON_FacebookAuthConfig_def)

lemma json_FacebookAuthConfig [json_codecs]:
  "fromJSON_FacebookAuthConfig (toJSON_FacebookAuthConfig m) = Inr m"
  unfolding fromJSON_FacebookAuthConfig_def
proof (rule message_restored [OF toJSON_FacebookAuthConfig_def [of m]])
  show "foldl (\<lambda>m u. u m) base_FacebookAuthConfig
      [FacebookAuthConfig_appId_update (\<lambda>_. FacebookAuthConfig_appId m),
       FacebookAuthConfig_appSecret_update (\<lambda>_. FacebookAuthConfig_appSecret m)] = m"
    by (cases m) (simp add: base_FacebookAuthConfig_def)
qed (simp, simp only: list.pred_inject prod.case, elim conjE, (rule json_fields | assumption | erule known_values
      | rule any_values comes_backI json_codecs json_set enum_proper)+)

section \<open>FederatedServer\<close>

definition fromJSON_FederatedServer :: "json \<Rightarrow> FederatedServer result" where
  "fromJSON_FederatedServer obj =
     read_fields
       [plain_field obj ''host'' js_String [] FederatedServer_host_update,
        optional_field obj ''configuredByDefault'' js_Boolean FederatedServer_configuredByDefault_update,
        optional_field obj ''pinnedByDefault'' js_Boolean FederatedServer_pinnedByDefault_update]
       base_FederatedServer"

definition toJSON_FederatedServer :: "FederatedServer \<Rightarrow> json" where
  "toJSON_FederatedServer m =
     object_of
       [(''host'', put_when (FederatedServer_host m \<noteq> []) (JStr (FederatedServer_host m))),
        (''configuredByDefault'', put_given (FederatedServer_configuredByDefault m) JBool),
        (''pinnedByDefault'', put_given (FederatedServer_pinnedByDefault m) JBool)]"

definition fromPartial_FederatedServer :: "json \<Rightarrow> FederatedServer result" where
  "fromPartial_FederatedServer obj =
     read_fields
       [plain_field obj ''host'' as_string [] FederatedServer_host_update,
        optional_field obj ''configuredByDefault'' as_bool FederatedServer_configuredByDefault_update,
        optional_field obj ''pinnedByDefault'' as_bool FederatedServer_pinnedByDefault_update]
       base_FederatedServer"

definition create_FederatedServer :: "json option \<Rightarrow> FederatedServer result" where
  "create_FederatedServer = create_with fromPartial_FederatedServer"

lemma created_FederatedServer: "create_FederatedServer None = Inr base_FederatedServer"
  by (simp add: create_FederatedServer_def fromPartial_FederatedServer_def base_FederatedServer_def)

lemma toJSON_FederatedServer_set [json_set]: "toJSON_FederatedServer m \<noteq> JNull"
  by (simp add: toJSON_FederatedServer_def)

lemma json_FederatedServer [json_codecs]:
  "fromJSON_FederatedServer (toJSON_FederatedServer m) = Inr m"
  unfolding fromJSON_FederatedServer_def
proof (rule message_restored [OF toJSON_FederatedServer_def [of m]])
  show "foldl (\<lambda>m u. u m) base_FederatedServer
      [FederatedServer_host_update (\<lambda>_. FederatedServer_host m),
       FederatedServer_configuredByDefault_update (\<lambda>_. FederatedServer_configuredByDefault m),
       FederatedServer_pinnedByDefault_update (\<lambda>_. FederatedServer_pinnedByDefault m)] = m"
    by (cases m) (simp add: base_FederatedServer_def)
qed (simp, simp only: list.pred_inject prod.case, elim conjE, (rule json_fields | assumption | erule known_values
      | rule any_values comes_backI json_codecs json_set enum_proper)+)

section \<open>MastodonServer\<close>

definition fromJSON_MastodonServer :: "json \<Rightarrow> MastodonServer result" where
  "fromJSON_MastodonServer obj =
     read_fields
       [plain_field obj ''domain'' js_String [] MastodonServer_domain_update,
        plain_field obj ''appId'' js_String [] MastodonServer_appId_update,
        plain_field obj ''appSecret'' js_String [] MastodonServer_appSecret_update,
        optional_field obj ''configuredByDefault'' js_Boolean MastodonServer_configuredByDefault_update,
        optional_field obj ''pinnedByDefault'' js_Boolean MastodonServer_pinnedByDefault_update]
       base_MastodonServer"

definition toJSON_MastodonServer :: "MastodonServer \<Rightarrow> json" where
  "toJSON_MastodonServer m =
     object_of
       [(''domain'', put_when (MastodonServer_domain m \<noteq> []) (JStr (MastodonServer_domain m))),
        (''appId'', put_when (MastodonServer_appId m \<noteq> []) (JStr (MastodonServer_appId m))),
        (''appSecret'', put_when (MastodonServer_appSecret m \<noteq> []) (JStr (MastodonServer_appSecret m))),
        (''configuredByDefault'', put_given (MastodonServer_configuredByDefault m) JBool),
        (''pinnedByDefault'', put_given (MastodonServer_pinnedByDefault m) JBool)]"

definition fromPartial_MastodonServer :: "json \<Rightarrow> MastodonServer result" where
  "fromPartial_MastodonServer obj =
     read_fields
       [plain_field obj ''domain'' as_string [] MastodonServer_domain_update,
        plain_field obj ''appId'' as_string [] MastodonServer_appId_update,
        plain_field obj ''appSecret'' as_string [] MastodonServer_appSecret_update,
        optional_field obj ''configuredByDefault'' as_bool MastodonServer_configuredByDefault_update,
        optional_field obj ''pinnedByDefault'' as_bool MastodonServer_pinnedByDefault_update]
       base_MastodonServer"

definition create_MastodonServer :: "json option \<Rightarrow> MastodonServer result" where
  "create_MastodonServer = create_with fromPartial_MastodonServer"

lemma created_MastodonServer: "create_MastodonServer None = Inr base_MastodonServer"
  by (simp add: create_MastodonServer_def fromPartial_MastodonServer_def base_MastodonServer_def)

lemma toJSON_MastodonServer_set [json_set]: "toJSON_MastodonServer m \<noteq> JNull"
  by (simp add: toJSON_MastodonServer_def)

lemma json_MastodonServer [json_codecs]:
  "fromJSON_MastodonServer (toJSON_MastodonServer m) = Inr m"
  unfolding fromJSON_MastodonServer_def
proof (rule message_restored [OF toJSON_MastodonServer_def [of m]])
  show "foldl (\<lambda>m u. u m) base_MastodonServer
      [MastodonServer_domain_update (\<lambda>_. MastodonServer_domain m),
       MastodonServer_appId_update (\<lambda>_. MastodonServer_appId m),
       MastodonServer_appSecret_update (\<lambda>_. MastodonServer_appSecret m),
       MastodonServer_configuredByDefault_update (\<lambda>_. MastodonServer_configuredByDefault m),
       MastodonServer_pinnedByDefault_update (\<lambda>_. MastodonServer_pinnedByDefault m)] = m"
    by (cases m) (simp add: base_MastodonServer_def)
qed (simp, simp only: list.pred_inject prod.case, elim conjE, (rule json_fields | assumption | erule known_values
      | rule any_values comes_backI json_codecs json_set enum_proper)+)

section \<open>XTwitterAuthConfig\<close>

definition fromJSON_XTwitterAuthConfig :: "json \<Rightarrow> XTwitterAuthConfig result" where
  "fromJSON_XTwitterAuthConfig obj =
     read_fields
       [plain_field obj ''clientId'' js_String [] XTwitterAuthConfig_clientId_update,
        plain_field obj ''clientSecret'' js_String [] XTwitterAuthConfig_clientSecret_update]
       base_XTwitterAuthConfig"

definition toJSON_XTwitterAuthConfig :: "XTwitterAuthConfig \<Rightarrow> json" where
  "toJSON_XTwitterAuthConfig m =
     object_of
       [(''clientId'', put_when (XTwitterAuthConfig_clientId m \<noteq> []) (JStr (XTwitterAuthConfig_clientId m))),
        (''clientSecret'', put_when (XTwitterAuthConfig_clientSecret m \<noteq> []) (JStr (XTwitterAuthConfig_clientSecret m)))]"

definition fromPartial_XTwitterAuthConfig :: "json \<Rightarrow> XTwitterAuthConfig result" where
  "fromPartial_XTwitterAuthConfig obj =
     read_fields
       [plain_field obj ''clientId'' as_string [] XTwitterAuthConfig_clientId_update,
        plain_field obj ''clientSecret'' as_string [] XTwitterAuthConfig_clientSecret_update]
       base_XTwitterAuthConfig"

definition create_XTwitterAuthConfig :: "json option \<Rightarrow> XTwitterAuthConfig result" where
  "create_XTwitterAuthConfig = create_with fromPartial_XTwitterAuthConfig"

lemma created_XTwitterAuthConfig: "create_XTwitterAuthConfig None = Inr base_XTwitterAuthConfig"
  by (simp add: create_XTwitterAuthConfig_def fromPartial_XTwitterAuthConfig_def base_XTwitterAuthConfig_def)

lemma toJSON_XTwitterAuthConfig_set [json_set]: "toJSON_XTwitterAuthConfig m \<noteq> JNull"
  by (simp add: toJSON_XTwitterAuthConfig_def)

lemma json_XTwitterAuthConfig [json_codecs]:
  "fromJSON_XTwitterAuthConfig (toJSON_XTwitterAuthConfig m) = Inr m"
  unfolding fromJSON_XTwitterAuthConfig_def
proof (rule message_restored [OF toJSON_XTwitterAuthConfig_def [of m]])
  show "foldl (\<lambda>m u. u m) base_XTwitterAuthConfig
      [XTwitterAuthConfig_clientId_update (\<lambda>_. XTwitterAuthConfig_clientId m),
       XTwitterAuthConfig_clientSecret_update (\<lambda>_. XTwitterAuthConfig_clientSecret m)] = m"
    by (cases m) (simp add: base_XTwitterAuthConfig_def)
qed (simp, simp only: list.pred_inject prod.case, elim conjE, (rule json_fields | assumption | erule known_values
      | rule any_values comes_backI json_codecs json_set enum_proper)+)

section \<open>FederationInfo\<close>

definition fromJSON_FederationInfo :: "json \<Rightarrow> FederationInfo result" where
  "fromJSON_FederationInfo obj =
     read_fields
       [list_field obj ''servers'' fromJSON_FederatedServer FederationInfo_servers_update,
        optional_field obj ''unsecureLocalhostFederatedAuthEnabled'' js_Boolean FederationInfo_unsecureLocalhostFederatedAuthEnabled_update,
        optional_field obj ''facebookAuthConfig'' fromJSON_FacebookAuthConfig FederationInfo_facebookAuthConfig_update,
        optional_field obj ''xTwitterAuthConfig'' fromJSON_XTwitterAuthConfig FederationInfo_xTwitterAuthConfig_update,
        list_field obj ''mastodonServers'' fromJSON_MastodonServer FederationInfo_mastodonServers_update,
        list_field obj ''blueskyServers'' fromJSON_BlueskyServer FederationInfo_blueskyServers_update]
       base_FederationInfo"

definition toJSON_FederationInfo :: "FederationInfo \<Rightarrow> json" where
  "toJSON_FederationInfo m =
     object_of
       [(''servers'', put_list (FederationInfo_servers m) toJSON_FederatedServer),
        (''unsecureLocalhostFederatedAuthEnabled'', put_given (FederationInfo_unsecureLocalhostFederatedAuthEnabled m) JBool),
        (''facebookAuthConfig'', put_given (FederationInfo_facebookAuthConfig m) toJSON_FacebookAuthConfig),
        (''xTwitterAuthConfig'', put_given (FederationInfo_xTwitterAuthConfig m) toJSON_XTwitterAuthConfig),
        (''mastodonServers'', put_list (FederationInfo_mastodonServers m) toJSON_MastodonServer),
        (''blueskyServers'', put_list (FederationInfo_blueskyServers m) toJSON_BlueskyServer)]"

definition fromPartial_FederationInfo :: "json \<Rightarrow> FederationInfo result" where
  "fromPartial_FederationInfo obj =
     read_fields
       [mapped_field obj ''servers'' fromPartial_FederatedServer FederationInfo_servers_update,
        optional_field obj ''unsecureLocalhostFederatedAuthEnabled'' as_bool FederationInfo_unsecureLocalhostFederatedAuthEnabled_update,
        optional_field obj ''facebookAuthConfig'' fromPartial_FacebookAuthConfig FederationInfo_facebookAuthConfig_update,
        optional_field obj ''xTwitterAuthConfig'' fromPartial_XTwitterAuthConfig FederationInfo_xTwitterAuthConfig_update,
        mapped_field obj ''mastodonServers'' fromPartial_MastodonServer FederationInfo_mastodonServers_update,
        mapped_field obj ''blueskyServers'' fromPartial_BlueskyServer FederationInfo_blueskyServers_update]
       base_FederationInfo"

definition create_FederationInfo :: "json option \<Rightarrow> FederationInfo result" where
  "create_FederationInfo = create_with fromPartial_FederationInfo"

lemma created_FederationInfo: "create_FederationInfo None = Inr base_FederationInfo"
  by (simp add: create_FederationInfo_def fromPartial_FederationInfo_def base_FederationInfo_def)

lemma toJSON_FederationInfo_set [json_set]: "toJSON_FederationInfo m \<noteq> JNull"
  by (simp add: toJSON_FederationInfo_def)

lemma json_FederationInfo [json_codecs]:
  "fromJSON_FederationInfo (toJSON_FederationInfo m) = Inr m"
  unfolding fromJSON_FederationInfo_def
proof (rule message_restored [OF toJSON_FederationInfo_def [of m]])
  show "foldl (\<lambda>m u. u m) base_FederationInfo
      [FederationInfo_servers_update (\<lambda>_. FederationInfo_servers m),
       FederationInfo_unsecureLocalhostFederatedAuthEnabled_update (\<lambda>_. FederationInfo_unsecureLocalhostFederatedAuthEnabled m),
       FederationInfo_facebookAuthConfig_update (\<lambda>_. FederationInfo_facebookAuthConfig m),
       FederationInfo_xTwitterAuthConfig_update (\<lambda>_. FederationInfo_xTwitterAuthConfig m),
       FederationInfo_mastodonServers_update (\<lambda>_. FederationInfo_mastodonServers m),
       FederationInfo_blueskyServers_update (\<lambda>_. FederationInfo_blueskyServers m)] = m"
    by (cases m) (simp add: base_FederationInfo_def)
qed (simp, simp only: list.pred_inject prod.case, elim conjE, (rule json_fields | assumption | erule known_values
      | rule any_values comes_backI json_codecs json_set enum_proper)+)

section \<open>FederatedAccount\<close>

definition fromJSON_FederatedAccount :: "json \<Rightarrow> FederatedAccount result" where
  "fromJSON_FederatedAccount obj =
     read_fields
       [plain_field obj ''host'' js_String [] FederatedAccount_host_update,
        plain_field obj ''userId'' js_String [] FederatedAccount_userId_update]
       base_FederatedAccount"

definition toJSON_FederatedAccount :: "FederatedAccount \<Rightarrow> json" where
  "toJSON_FederatedAccount m =
     object_of
       [(''host'', put_when (FederatedAccount_host m \<noteq> []) (JStr (FederatedAccount_host m))),
        (''userId'', put_when (FederatedAccount_userId m \<noteq> []) (JStr (FederatedAccount_userId m)))]"

definition fromPartial_FederatedAccount :: "json \<Rightarrow> FederatedAccount result" where
  "fromPartial_FederatedAccount obj =
     read_fields
       [plain_field obj ''host'' as_string [] FederatedAccount_host_update,
        plain_field obj ''userId'' as_string [] FederatedAccount_userId_update]
       base_FederatedAccount"

definition create_FederatedAccount :: "json option \<Rightarrow> FederatedAccount result" where
  "create_FederatedAccount = create_with fromPartial_FederatedAccount"

lemma created_FederatedAccount: "create_FederatedAccount None = Inr base_FederatedAccount"
  by (simp add: create_FederatedAccount_def fromPartial_FederatedAccount_def base_FederatedAccount_def)

lemma toJSON_FederatedAccount_set [json_set]: "toJSON_FederatedAccount m \<noteq> JNull"
  by (simp add: toJSON_FederatedAccount_def)

lemma json_FederatedAccount [json_codecs]:
  "fromJSON_FederatedAccount (toJSON_FederatedAccount m) = Inr m"
  unfolding fromJSON_FederatedAccount_def
proof (rule message_restored [OF toJSON_FederatedAccount_def [of m]])
  show "foldl (\<lambda>m u. u m) base_FederatedAccount
      [FederatedAccount_host_update (\<lambda>_. FederatedAccount_host m),
       FederatedAccount_userId_update (\<lambda>_. FederatedAccount_userId m)] = m"
    by (cases m) (simp add: base_FederatedAccount_def)
qed (simp, simp only: list.pred_inject prod.case, elim conjE, (rule json_fields | assumption | erule known_values
      | rule any_values comes_backI json_codecs json_set enum_proper)+)

end
