(* ===== verification/Json_Market.thy ===== *)
theory Json_Market
  imports Wire_Market Json_Media
begin

text \<open>
  The JSON side of packages/api/generated/market.ts: of each message reading it off an object, the object made of it, and
  building one from the fields given.
\<close>

section \<open>AIGrantSubscriptionDetails\<close>

definition fromJSON_AIGrantSubscriptionDetails :: "json \<Rightarrow> AIGrantSubscriptionDetails result" where
  "fromJSON_AIGrantSubscriptionDetails obj =
     read_fields
       [plain_field obj ''aiProviderId'' js_String [] AIGrantSubscriptionDetails_aiProviderId_update,
        list_field obj ''modelNames'' js_String AIGrantSubscriptionDetails_modelNames_update,
        plain_field obj ''tokens'' js_Integer 0 AIGrantSubscriptionDetails_tokens_update]
       base_AIGrantSubscriptionDetails"

definition toJSON_AIGrantSubscriptionDetails :: "AIGrantSubscriptionDetails \<Rightarrow> json" where
  "toJSON_AIGrantSubscriptionDetails m =
     object_of
       [(''aiProviderId'', put_when (AIGrantSubscriptionDetails_aiProviderId m \<noteq> []) (JStr (AIGrantSubscriptionDetails_aiProviderId m))),
        (''modelNames'', put_list (AIGrantSubscriptionDetails_modelNames m) JStr),
        (''tokens'', put_when (AIGrantSubscriptionDetails_tokens m \<noteq> 0) (number (AIGrantSubscriptionDetails_tokens m)))]"

definition fromPartial_AIGrantSubscriptionDetails :: "json \<Rightarrow> AIGrantSubscriptionDetails result" where
  "fromPartial_AIGrantSubscriptionDetails obj =
     read_fields
       [plain_field obj ''aiProviderId'' as_string [] AIGrantSubscriptionDetails_aiProviderId_update,
        mapped_field obj ''modelNames'' as_string AIGrantSubscriptionDetails_modelNames_update,
        plain_field obj ''tokens'' as_integer 0 AIGrantSubscriptionDetails_tokens_update]
       base_AIGrantSubscriptionDetails"

definition create_AIGrantSubscriptionDetails :: "json option \<Rightarrow> AIGrantSubscriptionDetails result" where
  "create_AIGrantSubscriptionDetails = create_with fromPartial_AIGrantSubscriptionDetails"

lemma created_AIGrantSubscriptionDetails: "create_AIGrantSubscriptionDetails None = Inr base_AIGrantSubscriptionDetails"
  by (simp add: create_AIGrantSubscriptionDetails_def fromPartial_AIGrantSubscriptionDetails_def base_AIGrantSubscriptionDetails_def)

lemma toJSON_AIGrantSubscriptionDetails_set [json_set]: "toJSON_AIGrantSubscriptionDetails m \<noteq> JNull"
  by (simp add: toJSON_AIGrantSubscriptionDetails_def)

lemma json_AIGrantSubscriptionDetails [json_codecs]:
  "fromJSON_AIGrantSubscriptionDetails (toJSON_AIGrantSubscriptionDetails m) = Inr m"
  unfolding fromJSON_AIGrantSubscriptionDetails_def
proof (rule message_restored [OF toJSON_AIGrantSubscriptionDetails_def [of m]])
  show "foldl (\<lambda>m u. u m) base_AIGrantSubscriptionDetails
      [AIGrantSubscriptionDetails_aiProviderId_update (\<lambda>_. AIGrantSubscriptionDetails_aiProviderId m),
       AIGrantSubscriptionDetails_modelNames_update (\<lambda>_. AIGrantSubscriptionDetails_modelNames m),
       AIGrantSubscriptionDetails_tokens_update (\<lambda>_. AIGrantSubscriptionDetails_tokens m)] = m"
    by (cases m) (simp add: base_AIGrantSubscriptionDetails_def)
qed (simp, simp only: list.pred_inject prod.case, elim conjE, (rule json_fields | assumption | erule known_values
      | rule any_values comes_backI json_codecs json_set enum_proper)+)

section \<open>MediaStorageSubscriptionDetails\<close>

definition fromJSON_MediaStorageSubscriptionDetails :: "json \<Rightarrow> MediaStorageSubscriptionDetails result" where
  "fromJSON_MediaStorageSubscriptionDetails obj =
     read_fields
       [plain_field obj ''allocationBytes'' js_Integer 0 MediaStorageSubscriptionDetails_allocationBytes_update]
       base_MediaStorageSubscriptionDetails"

definition toJSON_MediaStorageSubscriptionDetails :: "MediaStorageSubscriptionDetails \<Rightarrow> json" where
  "toJSON_MediaStorageSubscriptionDetails m =
     object_of
       [(''allocationBytes'', put_when (MediaStorageSubscriptionDetails_allocationBytes m \<noteq> 0) (number (MediaStorageSubscriptionDetails_allocationBytes m)))]"

definition fromPartial_MediaStorageSubscriptionDetails :: "json \<Rightarrow> MediaStorageSubscriptionDetails result" where
  "fromPartial_MediaStorageSubscriptionDetails obj =
     read_fields
       [plain_field obj ''allocationBytes'' as_integer 0 MediaStorageSubscriptionDetails_allocationBytes_update]
       base_MediaStorageSubscriptionDetails"

definition create_MediaStorageSubscriptionDetails :: "json option \<Rightarrow> MediaStorageSubscriptionDetails result" where
  "create_MediaStorageSubscriptionDetails = create_with fromPartial_MediaStorageSubscriptionDetails"

lemma created_MediaStorageSubscriptionDetails: "create_MediaStorageSubscriptionDetails None = Inr base_MediaStorageSubscriptionDetails"
  by (simp add: create_MediaStorageSubscriptionDetails_def fromPartial_MediaStorageSubscriptionDetails_def base_MediaStorageSubscriptionDetails_def)

lemma toJSON_MediaStorageSubscriptionDetails_set [json_set]: "toJSON_MediaStorageSubscriptionDetails m \<noteq> JNull"
  by (simp add: toJSON_MediaStorageSubscriptionDetails_def)

lemma json_MediaStorageSubscriptionDetails [json_codecs]:
  "fromJSON_MediaStorageSubscriptionDetails (toJSON_MediaStorageSubscriptionDetails m) = Inr m"
  unfolding fromJSON_MediaStorageSubscriptionDetails_def
proof (rule message_restored [OF toJSON_MediaStorageSubscriptionDetails_def [of m]])
  show "foldl (\<lambda>m u. u m) base_MediaStorageSubscriptionDetails
      [MediaStorageSubscriptionDetails_allocationBytes_update (\<lambda>_. MediaStorageSubscriptionDetails_allocationBytes m)] = m"
    by (cases m) (simp add: base_MediaStorageSubscriptionDetails_def)
qed (simp, simp only: list.pred_inject prod.case, elim conjE, (rule json_fields | assumption | erule known_values
      | rule any_values comes_backI json_codecs json_set enum_proper)+)

section \<open>PermissionsAccessSubscriptionDetails\<close>

definition fromJSON_PermissionsAccessSubscriptionDetails :: "json \<Rightarrow> PermissionsAccessSubscriptionDetails result" where
  "fromJSON_PermissionsAccessSubscriptionDetails obj =
     read_fields
       [list_field obj ''permissions'' (from_enum Permission_numbers) PermissionsAccessSubscriptionDetails_permissions_update,
        plain_field obj ''name'' js_String [] PermissionsAccessSubscriptionDetails_name_update,
        plain_field obj ''description'' js_String [] PermissionsAccessSubscriptionDetails_description_update]
       base_PermissionsAccessSubscriptionDetails"

definition toJSON_PermissionsAccessSubscriptionDetails :: "PermissionsAccessSubscriptionDetails \<Rightarrow> json" where
  "toJSON_PermissionsAccessSubscriptionDetails m =
     object_of
       [(''permissions'', put_list (PermissionsAccessSubscriptionDetails_permissions m) (to_enum Permission_numbers)),
        (''name'', put_when (PermissionsAccessSubscriptionDetails_name m \<noteq> []) (JStr (PermissionsAccessSubscriptionDetails_name m))),
        (''description'', put_when (PermissionsAccessSubscriptionDetails_description m \<noteq> []) (JStr (PermissionsAccessSubscriptionDetails_description m)))]"

definition fromPartial_PermissionsAccessSubscriptionDetails :: "json \<Rightarrow> PermissionsAccessSubscriptionDetails result" where
  "fromPartial_PermissionsAccessSubscriptionDetails obj =
     read_fields
       [mapped_field obj ''permissions'' as_integer PermissionsAccessSubscriptionDetails_permissions_update,
        plain_field obj ''name'' as_string [] PermissionsAccessSubscriptionDetails_name_update,
        plain_field obj ''description'' as_string [] PermissionsAccessSubscriptionDetails_description_update]
       base_PermissionsAccessSubscriptionDetails"

definition create_PermissionsAccessSubscriptionDetails :: "json option \<Rightarrow> PermissionsAccessSubscriptionDetails result" where
  "create_PermissionsAccessSubscriptionDetails = create_with fromPartial_PermissionsAccessSubscriptionDetails"

definition known_PermissionsAccessSubscriptionDetails :: "PermissionsAccessSubscriptionDetails \<Rightarrow> bool" where
  "known_PermissionsAccessSubscriptionDetails m \<longleftrightarrow>
     list_all (known_enum Permission_numbers) (PermissionsAccessSubscriptionDetails_permissions m)"

lemma created_PermissionsAccessSubscriptionDetails: "create_PermissionsAccessSubscriptionDetails None = Inr base_PermissionsAccessSubscriptionDetails"
  by (simp add: create_PermissionsAccessSubscriptionDetails_def fromPartial_PermissionsAccessSubscriptionDetails_def base_PermissionsAccessSubscriptionDetails_def)

lemma toJSON_PermissionsAccessSubscriptionDetails_set [json_set]: "toJSON_PermissionsAccessSubscriptionDetails m \<noteq> JNull"
  by (simp add: toJSON_PermissionsAccessSubscriptionDetails_def)

lemma json_PermissionsAccessSubscriptionDetails [json_codecs]:
  assumes "known_PermissionsAccessSubscriptionDetails m"
  shows "fromJSON_PermissionsAccessSubscriptionDetails (toJSON_PermissionsAccessSubscriptionDetails m) = Inr m"
  unfolding fromJSON_PermissionsAccessSubscriptionDetails_def
proof (rule message_restored [OF toJSON_PermissionsAccessSubscriptionDetails_def [of m]])
  show "foldl (\<lambda>m u. u m) base_PermissionsAccessSubscriptionDetails
      [PermissionsAccessSubscriptionDetails_permissions_update (\<lambda>_. PermissionsAccessSubscriptionDetails_permissions m),
       PermissionsAccessSubscriptionDetails_name_update (\<lambda>_. PermissionsAccessSubscriptionDetails_name m),
       PermissionsAccessSubscriptionDetails_description_update (\<lambda>_. PermissionsAccessSubscriptionDetails_description m)] = m"
    by (cases m) (simp add: base_PermissionsAccessSubscriptionDetails_def)
qed (simp, insert assms [unfolded known_PermissionsAccessSubscriptionDetails_def], simp only: list.pred_inject prod.case, elim conjE, (rule json_fields | assumption | erule known_values
      | rule any_values comes_backI json_codecs json_set enum_proper)+)

section \<open>FulfillmentNote\<close>

definition fromJSON_FulfillmentNote :: "json \<Rightarrow> FulfillmentNote result" where
  "fromJSON_FulfillmentNote obj =
     read_fields
       [plain_field obj ''userId'' js_String [] FulfillmentNote_userId_update,
        plain_field obj ''note'' js_String [] FulfillmentNote_note_update,
        plain_field obj ''fulfillmentStatus'' (from_enum FulfillmentStatus_numbers) 0 FulfillmentNote_fulfillmentStatus_update,
        optional_field obj ''createdAt'' js_String FulfillmentNote_createdAt_update]
       base_FulfillmentNote"

definition toJSON_FulfillmentNote :: "FulfillmentNote \<Rightarrow> json" where
  "toJSON_FulfillmentNote m =
     object_of
       [(''userId'', put_when (FulfillmentNote_userId m \<noteq> []) (JStr (FulfillmentNote_userId m))),
        (''note'', put_when (FulfillmentNote_note m \<noteq> []) (JStr (FulfillmentNote_note m))),
        (''fulfillmentStatus'', put_when (FulfillmentNote_fulfillmentStatus m \<noteq> 0) ((to_enum FulfillmentStatus_numbers) (FulfillmentNote_fulfillmentStatus m))),
        (''createdAt'', put_given (FulfillmentNote_createdAt m) JStr)]"

definition fromPartial_FulfillmentNote :: "json \<Rightarrow> FulfillmentNote result" where
  "fromPartial_FulfillmentNote obj =
     read_fields
       [plain_field obj ''userId'' as_string [] FulfillmentNote_userId_update,
        plain_field obj ''note'' as_string [] FulfillmentNote_note_update,
        plain_field obj ''fulfillmentStatus'' as_integer 0 FulfillmentNote_fulfillmentStatus_update,
        optional_field obj ''createdAt'' as_string FulfillmentNote_createdAt_update]
       base_FulfillmentNote"

definition create_FulfillmentNote :: "json option \<Rightarrow> FulfillmentNote result" where
  "create_FulfillmentNote = create_with fromPartial_FulfillmentNote"

definition known_FulfillmentNote :: "FulfillmentNote \<Rightarrow> bool" where
  "known_FulfillmentNote m \<longleftrightarrow>
     known_enum FulfillmentStatus_numbers (FulfillmentNote_fulfillmentStatus m)"

lemma created_FulfillmentNote: "create_FulfillmentNote None = Inr base_FulfillmentNote"
  by (simp add: create_FulfillmentNote_def fromPartial_FulfillmentNote_def base_FulfillmentNote_def)

lemma toJSON_FulfillmentNote_set [json_set]: "toJSON_FulfillmentNote m \<noteq> JNull"
  by (simp add: toJSON_FulfillmentNote_def)

lemma json_FulfillmentNote [json_codecs]:
  assumes "known_FulfillmentNote m"
  shows "fromJSON_FulfillmentNote (toJSON_FulfillmentNote m) = Inr m"
  unfolding fromJSON_FulfillmentNote_def
proof (rule message_restored [OF toJSON_FulfillmentNote_def [of m]])
  show "foldl (\<lambda>m u. u m) base_FulfillmentNote
      [FulfillmentNote_userId_update (\<lambda>_. FulfillmentNote_userId m),
       FulfillmentNote_note_update (\<lambda>_. FulfillmentNote_note m),
       FulfillmentNote_fulfillmentStatus_update (\<lambda>_. FulfillmentNote_fulfillmentStatus m),
       FulfillmentNote_createdAt_update (\<lambda>_. FulfillmentNote_createdAt m)] = m"
    by (cases m) (simp add: base_FulfillmentNote_def)
qed (simp, insert assms [unfolded known_FulfillmentNote_def], simp only: list.pred_inject prod.case, elim conjE, (rule json_fields | assumption | erule known_values
      | rule any_values comes_backI json_codecs json_set enum_proper)+)

section \<open>RellmHostingSubscriptionDetails\<close>

definition fromJSON_RellmHostingSubscriptionDetails :: "json \<Rightarrow> RellmHostingSubscriptionDetails result" where
  "fromJSON_RellmHostingSubscriptionDetails obj =
     read_fields
       [plain_field obj ''dbSizeBytes'' js_Integer 0 RellmHostingSubscriptionDetails_dbSizeBytes_update,
        plain_field obj ''objectStorageSizeBytes'' js_Integer 0 RellmHostingSubscriptionDetails_objectStorageSizeBytes_update,
        plain_field obj ''additionalDescription'' js_String [] RellmHostingSubscriptionDetails_additionalDescription_update,
        plain_field obj ''domain'' js_String [] RellmHostingSubscriptionDetails_domain_update,
        plain_field obj ''contactEmail'' js_String [] RellmHostingSubscriptionDetails_contactEmail_update,
        plain_field obj ''additionalInformation'' js_String [] RellmHostingSubscriptionDetails_additionalInformation_update,
        plain_field obj ''fulfillmentStatus'' (from_enum FulfillmentStatus_numbers) 0 RellmHostingSubscriptionDetails_fulfillmentStatus_update,
        list_field obj ''fulfillmentNotes'' fromJSON_FulfillmentNote RellmHostingSubscriptionDetails_fulfillmentNotes_update]
       base_RellmHostingSubscriptionDetails"

definition toJSON_RellmHostingSubscriptionDetails :: "RellmHostingSubscriptionDetails \<Rightarrow> json" where
  "toJSON_RellmHostingSubscriptionDetails m =
     object_of
       [(''dbSizeBytes'', put_when (RellmHostingSubscriptionDetails_dbSizeBytes m \<noteq> 0) (number (RellmHostingSubscriptionDetails_dbSizeBytes m))),
        (''objectStorageSizeBytes'', put_when (RellmHostingSubscriptionDetails_objectStorageSizeBytes m \<noteq> 0) (number (RellmHostingSubscriptionDetails_objectStorageSizeBytes m))),
        (''additionalDescription'', put_when (RellmHostingSubscriptionDetails_additionalDescription m \<noteq> []) (JStr (RellmHostingSubscriptionDetails_additionalDescription m))),
        (''domain'', put_when (RellmHostingSubscriptionDetails_domain m \<noteq> []) (JStr (RellmHostingSubscriptionDetails_domain m))),
        (''contactEmail'', put_when (RellmHostingSubscriptionDetails_contactEmail m \<noteq> []) (JStr (RellmHostingSubscriptionDetails_contactEmail m))),
        (''additionalInformation'', put_when (RellmHostingSubscriptionDetails_additionalInformation m \<noteq> []) (JStr (RellmHostingSubscriptionDetails_additionalInformation m))),
        (''fulfillmentStatus'', put_when (RellmHostingSubscriptionDetails_fulfillmentStatus m \<noteq> 0) ((to_enum FulfillmentStatus_numbers) (RellmHostingSubscriptionDetails_fulfillmentStatus m))),
        (''fulfillmentNotes'', put_list (RellmHostingSubscriptionDetails_fulfillmentNotes m) toJSON_FulfillmentNote)]"

definition fromPartial_RellmHostingSubscriptionDetails :: "json \<Rightarrow> RellmHostingSubscriptionDetails result" where
  "fromPartial_RellmHostingSubscriptionDetails obj =
     read_fields
       [plain_field obj ''dbSizeBytes'' as_integer 0 RellmHostingSubscriptionDetails_dbSizeBytes_update,
        plain_field obj ''objectStorageSizeBytes'' as_integer 0 RellmHostingSubscriptionDetails_objectStorageSizeBytes_update,
        plain_field obj ''additionalDescription'' as_string [] RellmHostingSubscriptionDetails_additionalDescription_update,
        plain_field obj ''domain'' as_string [] RellmHostingSubscriptionDetails_domain_update,
        plain_field obj ''contactEmail'' as_string [] RellmHostingSubscriptionDetails_contactEmail_update,
        plain_field obj ''additionalInformation'' as_string [] RellmHostingSubscriptionDetails_additionalInformation_update,
        plain_field obj ''fulfillmentStatus'' as_integer 0 RellmHostingSubscriptionDetails_fulfillmentStatus_update,
        mapped_field obj ''fulfillmentNotes'' fromPartial_FulfillmentNote RellmHostingSubscriptionDetails_fulfillmentNotes_update]
       base_RellmHostingSubscriptionDetails"

definition create_RellmHostingSubscriptionDetails :: "json option \<Rightarrow> RellmHostingSubscriptionDetails result" where
  "create_RellmHostingSubscriptionDetails = create_with fromPartial_RellmHostingSubscriptionDetails"

definition known_RellmHostingSubscriptionDetails :: "RellmHostingSubscriptionDetails \<Rightarrow> bool" where
  "known_RellmHostingSubscriptionDetails m \<longleftrightarrow>
     known_enum FulfillmentStatus_numbers (RellmHostingSubscriptionDetails_fulfillmentStatus m) \<and>
     list_all known_FulfillmentNote (RellmHostingSubscriptionDetails_fulfillmentNotes m)"

lemma created_RellmHostingSubscriptionDetails: "create_RellmHostingSubscriptionDetails None = Inr base_RellmHostingSubscriptionDetails"
  by (simp add: create_RellmHostingSubscriptionDetails_def fromPartial_RellmHostingSubscriptionDetails_def base_RellmHostingSubscriptionDetails_def)

lemma toJSON_RellmHostingSubscriptionDetails_set [json_set]: "toJSON_RellmHostingSubscriptionDetails m \<noteq> JNull"
  by (simp add: toJSON_RellmHostingSubscriptionDetails_def)

lemma json_RellmHostingSubscriptionDetails [json_codecs]:
  assumes "known_RellmHostingSubscriptionDetails m"
  shows "fromJSON_RellmHostingSubscriptionDetails (toJSON_RellmHostingSubscriptionDetails m) = Inr m"
  unfolding fromJSON_RellmHostingSubscriptionDetails_def
proof (rule message_restored [OF toJSON_RellmHostingSubscriptionDetails_def [of m]])
  show "foldl (\<lambda>m u. u m) base_RellmHostingSubscriptionDetails
      [RellmHostingSubscriptionDetails_dbSizeBytes_update (\<lambda>_. RellmHostingSubscriptionDetails_dbSizeBytes m),
       RellmHostingSubscriptionDetails_objectStorageSizeBytes_update (\<lambda>_. RellmHostingSubscriptionDetails_objectStorageSizeBytes m),
       RellmHostingSubscriptionDetails_additionalDescription_update (\<lambda>_. RellmHostingSubscriptionDetails_additionalDescription m),
       RellmHostingSubscriptionDetails_domain_update (\<lambda>_. RellmHostingSubscriptionDetails_domain m),
       RellmHostingSubscriptionDetails_contactEmail_update (\<lambda>_. RellmHostingSubscriptionDetails_contactEmail m),
       RellmHostingSubscriptionDetails_additionalInformation_update (\<lambda>_. RellmHostingSubscriptionDetails_additionalInformation m),
       RellmHostingSubscriptionDetails_fulfillmentStatus_update (\<lambda>_. RellmHostingSubscriptionDetails_fulfillmentStatus m),
       RellmHostingSubscriptionDetails_fulfillmentNotes_update (\<lambda>_. RellmHostingSubscriptionDetails_fulfillmentNotes m)] = m"
    by (cases m) (simp add: base_RellmHostingSubscriptionDetails_def)
qed (simp, insert assms [unfolded known_RellmHostingSubscriptionDetails_def], simp only: list.pred_inject prod.case, elim conjE, (rule json_fields | assumption | erule known_values
      | rule any_values comes_backI json_codecs json_set enum_proper)+)

section \<open>MarketProduct\<close>

definition fromJSON_MarketProduct :: "json \<Rightarrow> MarketProduct result" where
  "fromJSON_MarketProduct obj =
     read_fields
       [plain_field obj ''id'' js_String [] MarketProduct_id_update,
        plain_field obj ''type'' (from_enum PurchaseType_numbers) 0 MarketProduct_type_update,
        plain_field obj ''period'' (from_enum PurchasePeriod_numbers) 0 MarketProduct_period_update,
        plain_field obj ''amount'' js_Integer 0 MarketProduct_amount_update,
        plain_field obj ''currency'' js_Integer 0 MarketProduct_currency_update,
        plain_field obj ''availableCount'' js_Integer 0 MarketProduct_availableCount_update,
        plain_field obj ''soldCount'' js_Integer 0 MarketProduct_soldCount_update,
        optional_field obj ''mediaStorageSubscriptionDetails'' fromJSON_MediaStorageSubscriptionDetails MarketProduct_mediaStorageSubscriptionDetails_update,
        optional_field obj ''aiGrantSubscriptionDetails'' fromJSON_AIGrantSubscriptionDetails MarketProduct_aiGrantSubscriptionDetails_update,
        optional_field obj ''rellmHostingSubscriptionDetails'' fromJSON_RellmHostingSubscriptionDetails MarketProduct_rellmHostingSubscriptionDetails_update,
        optional_field obj ''permissionsAccessSubscriptionDetails'' fromJSON_PermissionsAccessSubscriptionDetails MarketProduct_permissionsAccessSubscriptionDetails_update,
        optional_field obj ''createdAt'' js_String MarketProduct_createdAt_update,
        optional_field obj ''delistedAt'' js_String MarketProduct_delistedAt_update]
       base_MarketProduct"

definition toJSON_MarketProduct :: "MarketProduct \<Rightarrow> json" where
  "toJSON_MarketProduct m =
     object_of
       [(''id'', put_when (MarketProduct_id m \<noteq> []) (JStr (MarketProduct_id m))),
        (''type'', put_when (MarketProduct_type m \<noteq> 0) ((to_enum PurchaseType_numbers) (MarketProduct_type m))),
        (''period'', put_when (MarketProduct_period m \<noteq> 0) ((to_enum PurchasePeriod_numbers) (MarketProduct_period m))),
        (''amount'', put_when (MarketProduct_amount m \<noteq> 0) (number (MarketProduct_amount m))),
        (''currency'', put_when (MarketProduct_currency m \<noteq> 0) (number (MarketProduct_currency m))),
        (''availableCount'', put_when (MarketProduct_availableCount m \<noteq> 0) (number (MarketProduct_availableCount m))),
        (''soldCount'', put_when (MarketProduct_soldCount m \<noteq> 0) (number (MarketProduct_soldCount m))),
        (''mediaStorageSubscriptionDetails'', put_given (MarketProduct_mediaStorageSubscriptionDetails m) toJSON_MediaStorageSubscriptionDetails),
        (''aiGrantSubscriptionDetails'', put_given (MarketProduct_aiGrantSubscriptionDetails m) toJSON_AIGrantSubscriptionDetails),
        (''rellmHostingSubscriptionDetails'', put_given (MarketProduct_rellmHostingSubscriptionDetails m) toJSON_RellmHostingSubscriptionDetails),
        (''permissionsAccessSubscriptionDetails'', put_given (MarketProduct_permissionsAccessSubscriptionDetails m) toJSON_PermissionsAccessSubscriptionDetails),
        (''createdAt'', put_given (MarketProduct_createdAt m) JStr),
        (''delistedAt'', put_given (MarketProduct_delistedAt m) JStr)]"

definition fromPartial_MarketProduct :: "json \<Rightarrow> MarketProduct result" where
  "fromPartial_MarketProduct obj =
     read_fields
       [plain_field obj ''id'' as_string [] MarketProduct_id_update,
        plain_field obj ''type'' as_integer 0 MarketProduct_type_update,
        plain_field obj ''period'' as_integer 0 MarketProduct_period_update,
        plain_field obj ''amount'' as_integer 0 MarketProduct_amount_update,
        plain_field obj ''currency'' as_integer 0 MarketProduct_currency_update,
        plain_field obj ''availableCount'' as_integer 0 MarketProduct_availableCount_update,
        plain_field obj ''soldCount'' as_integer 0 MarketProduct_soldCount_update,
        optional_field obj ''mediaStorageSubscriptionDetails'' fromPartial_MediaStorageSubscriptionDetails MarketProduct_mediaStorageSubscriptionDetails_update,
        optional_field obj ''aiGrantSubscriptionDetails'' fromPartial_AIGrantSubscriptionDetails MarketProduct_aiGrantSubscriptionDetails_update,
        optional_field obj ''rellmHostingSubscriptionDetails'' fromPartial_RellmHostingSubscriptionDetails MarketProduct_rellmHostingSubscriptionDetails_update,
        optional_field obj ''permissionsAccessSubscriptionDetails'' fromPartial_PermissionsAccessSubscriptionDetails MarketProduct_permissionsAccessSubscriptionDetails_update,
        optional_field obj ''createdAt'' as_string MarketProduct_createdAt_update,
        optional_field obj ''delistedAt'' as_string MarketProduct_delistedAt_update]
       base_MarketProduct"

definition create_MarketProduct :: "json option \<Rightarrow> MarketProduct result" where
  "create_MarketProduct = create_with fromPartial_MarketProduct"

definition known_MarketProduct :: "MarketProduct \<Rightarrow> bool" where
  "known_MarketProduct m \<longleftrightarrow>
     known_enum PurchaseType_numbers (MarketProduct_type m) \<and>
     known_enum PurchasePeriod_numbers (MarketProduct_period m) \<and>
     pred_option known_RellmHostingSubscriptionDetails (MarketProduct_rellmHostingSubscriptionDetails m) \<and>
     pred_option known_PermissionsAccessSubscriptionDetails (MarketProduct_permissionsAccessSubscriptionDetails m)"

lemma created_MarketProduct: "create_MarketProduct None = Inr base_MarketProduct"
  by (simp add: create_MarketProduct_def fromPartial_MarketProduct_def base_MarketProduct_def)

lemma toJSON_MarketProduct_set [json_set]: "toJSON_MarketProduct m \<noteq> JNull"
  by (simp add: toJSON_MarketProduct_def)

lemma json_MarketProduct [json_codecs]:
  assumes "known_MarketProduct m"
  shows "fromJSON_MarketProduct (toJSON_MarketProduct m) = Inr m"
  unfolding fromJSON_MarketProduct_def
proof (rule message_restored [OF toJSON_MarketProduct_def [of m]])
  show "foldl (\<lambda>m u. u m) base_MarketProduct
      [MarketProduct_id_update (\<lambda>_. MarketProduct_id m),
       MarketProduct_type_update (\<lambda>_. MarketProduct_type m),
       MarketProduct_period_update (\<lambda>_. MarketProduct_period m),
       MarketProduct_amount_update (\<lambda>_. MarketProduct_amount m),
       MarketProduct_currency_update (\<lambda>_. MarketProduct_currency m),
       MarketProduct_availableCount_update (\<lambda>_. MarketProduct_availableCount m),
       MarketProduct_soldCount_update (\<lambda>_. MarketProduct_soldCount m),
       MarketProduct_mediaStorageSubscriptionDetails_update (\<lambda>_. MarketProduct_mediaStorageSubscriptionDetails m),
       MarketProduct_aiGrantSubscriptionDetails_update (\<lambda>_. MarketProduct_aiGrantSubscriptionDetails m),
       MarketProduct_rellmHostingSubscriptionDetails_update (\<lambda>_. MarketProduct_rellmHostingSubscriptionDetails m),
       MarketProduct_permissionsAccessSubscriptionDetails_update (\<lambda>_. MarketProduct_permissionsAccessSubscriptionDetails m),
       MarketProduct_createdAt_update (\<lambda>_. MarketProduct_createdAt m),
       MarketProduct_delistedAt_update (\<lambda>_. MarketProduct_delistedAt m)] = m"
    by (cases m) (simp add: base_MarketProduct_def)
qed (simp, insert assms [unfolded known_MarketProduct_def], simp only: list.pred_inject prod.case, elim conjE, (rule json_fields | assumption | erule known_values
      | rule any_values comes_backI json_codecs json_set enum_proper)+)

section \<open>GetMarketProductsRequest\<close>

definition fromJSON_GetMarketProductsRequest :: "json \<Rightarrow> GetMarketProductsRequest result" where
  "fromJSON_GetMarketProductsRequest obj = Inr base_GetMarketProductsRequest"

definition toJSON_GetMarketProductsRequest :: "GetMarketProductsRequest \<Rightarrow> json" where
  "toJSON_GetMarketProductsRequest m = object_of []"

definition fromPartial_GetMarketProductsRequest :: "json \<Rightarrow> GetMarketProductsRequest result" where
  "fromPartial_GetMarketProductsRequest obj = Inr base_GetMarketProductsRequest"

definition create_GetMarketProductsRequest :: "json option \<Rightarrow> GetMarketProductsRequest result" where
  "create_GetMarketProductsRequest = create_with fromPartial_GetMarketProductsRequest"

lemma json_GetMarketProductsRequest [json_codecs]: "fromJSON_GetMarketProductsRequest (toJSON_GetMarketProductsRequest m) = Inr m"
  by (cases m) (simp add: fromJSON_GetMarketProductsRequest_def base_GetMarketProductsRequest_def)

lemma toJSON_GetMarketProductsRequest_set [json_set]: "toJSON_GetMarketProductsRequest m \<noteq> JNull"
  by (simp add: toJSON_GetMarketProductsRequest_def)

section \<open>GetMarketProductsResponse\<close>

definition fromJSON_GetMarketProductsResponse :: "json \<Rightarrow> GetMarketProductsResponse result" where
  "fromJSON_GetMarketProductsResponse obj =
     read_fields
       [list_field obj ''marketProducts'' fromJSON_MarketProduct GetMarketProductsResponse_marketProducts_update]
       base_GetMarketProductsResponse"

definition toJSON_GetMarketProductsResponse :: "GetMarketProductsResponse \<Rightarrow> json" where
  "toJSON_GetMarketProductsResponse m =
     object_of
       [(''marketProducts'', put_list (GetMarketProductsResponse_marketProducts m) toJSON_MarketProduct)]"

definition fromPartial_GetMarketProductsResponse :: "json \<Rightarrow> GetMarketProductsResponse result" where
  "fromPartial_GetMarketProductsResponse obj =
     read_fields
       [mapped_field obj ''marketProducts'' fromPartial_MarketProduct GetMarketProductsResponse_marketProducts_update]
       base_GetMarketProductsResponse"

definition create_GetMarketProductsResponse :: "json option \<Rightarrow> GetMarketProductsResponse result" where
  "create_GetMarketProductsResponse = create_with fromPartial_GetMarketProductsResponse"

definition known_GetMarketProductsResponse :: "GetMarketProductsResponse \<Rightarrow> bool" where
  "known_GetMarketProductsResponse m \<longleftrightarrow>
     list_all known_MarketProduct (GetMarketProductsResponse_marketProducts m)"

lemma created_GetMarketProductsResponse: "create_GetMarketProductsResponse None = Inr base_GetMarketProductsResponse"
  by (simp add: create_GetMarketProductsResponse_def fromPartial_GetMarketProductsResponse_def base_GetMarketProductsResponse_def)

lemma toJSON_GetMarketProductsResponse_set [json_set]: "toJSON_GetMarketProductsResponse m \<noteq> JNull"
  by (simp add: toJSON_GetMarketProductsResponse_def)

lemma json_GetMarketProductsResponse [json_codecs]:
  assumes "known_GetMarketProductsResponse m"
  shows "fromJSON_GetMarketProductsResponse (toJSON_GetMarketProductsResponse m) = Inr m"
  unfolding fromJSON_GetMarketProductsResponse_def
proof (rule message_restored [OF toJSON_GetMarketProductsResponse_def [of m]])
  show "foldl (\<lambda>m u. u m) base_GetMarketProductsResponse
      [GetMarketProductsResponse_marketProducts_update (\<lambda>_. GetMarketProductsResponse_marketProducts m)] = m"
    by (cases m) (simp add: base_GetMarketProductsResponse_def)
qed (simp, insert assms [unfolded known_GetMarketProductsResponse_def], simp only: list.pred_inject prod.case, elim conjE, (rule json_fields | assumption | erule known_values
      | rule any_values comes_backI json_codecs json_set enum_proper)+)

section \<open>GetMarketSubscriptionsRequest\<close>

definition fromJSON_GetMarketSubscriptionsRequest :: "json \<Rightarrow> GetMarketSubscriptionsRequest result" where
  "fromJSON_GetMarketSubscriptionsRequest obj =
     read_fields
       [plain_field obj ''requestType'' (from_enum GetMarketSubscriptionsRequestType_numbers) 0 GetMarketSubscriptionsRequest_requestType_update]
       base_GetMarketSubscriptionsRequest"

definition toJSON_GetMarketSubscriptionsRequest :: "GetMarketSubscriptionsRequest \<Rightarrow> json" where
  "toJSON_GetMarketSubscriptionsRequest m =
     object_of
       [(''requestType'', put_when (GetMarketSubscriptionsRequest_requestType m \<noteq> 0) ((to_enum GetMarketSubscriptionsRequestType_numbers) (GetMarketSubscriptionsRequest_requestType m)))]"

definition fromPartial_GetMarketSubscriptionsRequest :: "json \<Rightarrow> GetMarketSubscriptionsRequest result" where
  "fromPartial_GetMarketSubscriptionsRequest obj =
     read_fields
       [plain_field obj ''requestType'' as_integer 0 GetMarketSubscriptionsRequest_requestType_update]
       base_GetMarketSubscriptionsRequest"

definition create_GetMarketSubscriptionsRequest :: "json option \<Rightarrow> GetMarketSubscriptionsRequest result" where
  "create_GetMarketSubscriptionsRequest = create_with fromPartial_GetMarketSubscriptionsRequest"

definition known_GetMarketSubscriptionsRequest :: "GetMarketSubscriptionsRequest \<Rightarrow> bool" where
  "known_GetMarketSubscriptionsRequest m \<longleftrightarrow>
     known_enum GetMarketSubscriptionsRequestType_numbers (GetMarketSubscriptionsRequest_requestType m)"

lemma created_GetMarketSubscriptionsRequest: "create_GetMarketSubscriptionsRequest None = Inr base_GetMarketSubscriptionsRequest"
  by (simp add: create_GetMarketSubscriptionsRequest_def fromPartial_GetMarketSubscriptionsRequest_def base_GetMarketSubscriptionsRequest_def)

lemma toJSON_GetMarketSubscriptionsRequest_set [json_set]: "toJSON_GetMarketSubscriptionsRequest m \<noteq> JNull"
  by (simp add: toJSON_GetMarketSubscriptionsRequest_def)

lemma json_GetMarketSubscriptionsRequest [json_codecs]:
  assumes "known_GetMarketSubscriptionsRequest m"
  shows "fromJSON_GetMarketSubscriptionsRequest (toJSON_GetMarketSubscriptionsRequest m) = Inr m"
  unfolding fromJSON_GetMarketSubscriptionsRequest_def
proof (rule message_restored [OF toJSON_GetMarketSubscriptionsRequest_def [of m]])
  show "foldl (\<lambda>m u. u m) base_GetMarketSubscriptionsRequest
      [GetMarketSubscriptionsRequest_requestType_update (\<lambda>_. GetMarketSubscriptionsRequest_requestType m)] = m"
    by (cases m) (simp add: base_GetMarketSubscriptionsRequest_def)
qed (simp, insert assms [unfolded known_GetMarketSubscriptionsRequest_def], simp only: list.pred_inject prod.case, elim conjE, (rule json_fields | assumption | erule known_values
      | rule any_values comes_backI json_codecs json_set enum_proper)+)

section \<open>AIGrantPurchaseDetails\<close>

definition fromJSON_AIGrantPurchaseDetails :: "json \<Rightarrow> AIGrantPurchaseDetails result" where
  "fromJSON_AIGrantPurchaseDetails obj =
     read_fields
       [plain_field obj ''aiProviderId'' js_String [] AIGrantPurchaseDetails_aiProviderId_update,
        list_field obj ''modelNames'' js_String AIGrantPurchaseDetails_modelNames_update,
        plain_field obj ''tokens'' js_Integer 0 AIGrantPurchaseDetails_tokens_update]
       base_AIGrantPurchaseDetails"

definition toJSON_AIGrantPurchaseDetails :: "AIGrantPurchaseDetails \<Rightarrow> json" where
  "toJSON_AIGrantPurchaseDetails m =
     object_of
       [(''aiProviderId'', put_when (AIGrantPurchaseDetails_aiProviderId m \<noteq> []) (JStr (AIGrantPurchaseDetails_aiProviderId m))),
        (''modelNames'', put_list (AIGrantPurchaseDetails_modelNames m) JStr),
        (''tokens'', put_when (AIGrantPurchaseDetails_tokens m \<noteq> 0) (number (AIGrantPurchaseDetails_tokens m)))]"

definition fromPartial_AIGrantPurchaseDetails :: "json \<Rightarrow> AIGrantPurchaseDetails result" where
  "fromPartial_AIGrantPurchaseDetails obj =
     read_fields
       [plain_field obj ''aiProviderId'' as_string [] AIGrantPurchaseDetails_aiProviderId_update,
        mapped_field obj ''modelNames'' as_string AIGrantPurchaseDetails_modelNames_update,
        plain_field obj ''tokens'' as_integer 0 AIGrantPurchaseDetails_tokens_update]
       base_AIGrantPurchaseDetails"

definition create_AIGrantPurchaseDetails :: "json option \<Rightarrow> AIGrantPurchaseDetails result" where
  "create_AIGrantPurchaseDetails = create_with fromPartial_AIGrantPurchaseDetails"

lemma created_AIGrantPurchaseDetails: "create_AIGrantPurchaseDetails None = Inr base_AIGrantPurchaseDetails"
  by (simp add: create_AIGrantPurchaseDetails_def fromPartial_AIGrantPurchaseDetails_def base_AIGrantPurchaseDetails_def)

lemma toJSON_AIGrantPurchaseDetails_set [json_set]: "toJSON_AIGrantPurchaseDetails m \<noteq> JNull"
  by (simp add: toJSON_AIGrantPurchaseDetails_def)

lemma json_AIGrantPurchaseDetails [json_codecs]:
  "fromJSON_AIGrantPurchaseDetails (toJSON_AIGrantPurchaseDetails m) = Inr m"
  unfolding fromJSON_AIGrantPurchaseDetails_def
proof (rule message_restored [OF toJSON_AIGrantPurchaseDetails_def [of m]])
  show "foldl (\<lambda>m u. u m) base_AIGrantPurchaseDetails
      [AIGrantPurchaseDetails_aiProviderId_update (\<lambda>_. AIGrantPurchaseDetails_aiProviderId m),
       AIGrantPurchaseDetails_modelNames_update (\<lambda>_. AIGrantPurchaseDetails_modelNames m),
       AIGrantPurchaseDetails_tokens_update (\<lambda>_. AIGrantPurchaseDetails_tokens m)] = m"
    by (cases m) (simp add: base_AIGrantPurchaseDetails_def)
qed (simp, simp only: list.pred_inject prod.case, elim conjE, (rule json_fields | assumption | erule known_values
      | rule any_values comes_backI json_codecs json_set enum_proper)+)

section \<open>MarketPaymentMethod\<close>

definition fromJSON_MarketPaymentMethod :: "json \<Rightarrow> MarketPaymentMethod result" where
  "fromJSON_MarketPaymentMethod obj =
     read_fields
       [plain_field obj ''cardBrand'' js_String [] MarketPaymentMethod_cardBrand_update,
        plain_field obj ''cardLast4'' js_String [] MarketPaymentMethod_cardLast4_update,
        plain_field obj ''cardExpMonth'' js_Integer 0 MarketPaymentMethod_cardExpMonth_update,
        plain_field obj ''cardExpYear'' js_Integer 0 MarketPaymentMethod_cardExpYear_update]
       base_MarketPaymentMethod"

definition toJSON_MarketPaymentMethod :: "MarketPaymentMethod \<Rightarrow> json" where
  "toJSON_MarketPaymentMethod m =
     object_of
       [(''cardBrand'', put_when (MarketPaymentMethod_cardBrand m \<noteq> []) (JStr (MarketPaymentMethod_cardBrand m))),
        (''cardLast4'', put_when (MarketPaymentMethod_cardLast4 m \<noteq> []) (JStr (MarketPaymentMethod_cardLast4 m))),
        (''cardExpMonth'', put_when (MarketPaymentMethod_cardExpMonth m \<noteq> 0) (number (MarketPaymentMethod_cardExpMonth m))),
        (''cardExpYear'', put_when (MarketPaymentMethod_cardExpYear m \<noteq> 0) (number (MarketPaymentMethod_cardExpYear m)))]"

definition fromPartial_MarketPaymentMethod :: "json \<Rightarrow> MarketPaymentMethod result" where
  "fromPartial_MarketPaymentMethod obj =
     read_fields
       [plain_field obj ''cardBrand'' as_string [] MarketPaymentMethod_cardBrand_update,
        plain_field obj ''cardLast4'' as_string [] MarketPaymentMethod_cardLast4_update,
        plain_field obj ''cardExpMonth'' as_integer 0 MarketPaymentMethod_cardExpMonth_update,
        plain_field obj ''cardExpYear'' as_integer 0 MarketPaymentMethod_cardExpYear_update]
       base_MarketPaymentMethod"

definition create_MarketPaymentMethod :: "json option \<Rightarrow> MarketPaymentMethod result" where
  "create_MarketPaymentMethod = create_with fromPartial_MarketPaymentMethod"

lemma created_MarketPaymentMethod: "create_MarketPaymentMethod None = Inr base_MarketPaymentMethod"
  by (simp add: create_MarketPaymentMethod_def fromPartial_MarketPaymentMethod_def base_MarketPaymentMethod_def)

lemma toJSON_MarketPaymentMethod_set [json_set]: "toJSON_MarketPaymentMethod m \<noteq> JNull"
  by (simp add: toJSON_MarketPaymentMethod_def)

lemma json_MarketPaymentMethod [json_codecs]:
  "fromJSON_MarketPaymentMethod (toJSON_MarketPaymentMethod m) = Inr m"
  unfolding fromJSON_MarketPaymentMethod_def
proof (rule message_restored [OF toJSON_MarketPaymentMethod_def [of m]])
  show "foldl (\<lambda>m u. u m) base_MarketPaymentMethod
      [MarketPaymentMethod_cardBrand_update (\<lambda>_. MarketPaymentMethod_cardBrand m),
       MarketPaymentMethod_cardLast4_update (\<lambda>_. MarketPaymentMethod_cardLast4 m),
       MarketPaymentMethod_cardExpMonth_update (\<lambda>_. MarketPaymentMethod_cardExpMonth m),
       MarketPaymentMethod_cardExpYear_update (\<lambda>_. MarketPaymentMethod_cardExpYear m)] = m"
    by (cases m) (simp add: base_MarketPaymentMethod_def)
qed (simp, simp only: list.pred_inject prod.case, elim conjE, (rule json_fields | assumption | erule known_values
      | rule any_values comes_backI json_codecs json_set enum_proper)+)

section \<open>MarketPayment\<close>

definition fromJSON_MarketPayment :: "json \<Rightarrow> MarketPayment result" where
  "fromJSON_MarketPayment obj =
     read_fields
       [plain_field obj ''amount'' js_Integer 0 MarketPayment_amount_update,
        plain_field obj ''currency'' js_Integer 0 MarketPayment_currency_update,
        plain_field obj ''marketPurchaseId'' js_String [] MarketPayment_marketPurchaseId_update,
        optional_field obj ''method'' fromJSON_MarketPaymentMethod MarketPayment_method_update,
        optional_field obj ''createdAt'' js_String MarketPayment_createdAt_update]
       base_MarketPayment"

definition toJSON_MarketPayment :: "MarketPayment \<Rightarrow> json" where
  "toJSON_MarketPayment m =
     object_of
       [(''amount'', put_when (MarketPayment_amount m \<noteq> 0) (number (MarketPayment_amount m))),
        (''currency'', put_when (MarketPayment_currency m \<noteq> 0) (number (MarketPayment_currency m))),
        (''marketPurchaseId'', put_when (MarketPayment_marketPurchaseId m \<noteq> []) (JStr (MarketPayment_marketPurchaseId m))),
        (''method'', put_given (MarketPayment_method m) toJSON_MarketPaymentMethod),
        (''createdAt'', put_given (MarketPayment_createdAt m) JStr)]"

definition fromPartial_MarketPayment :: "json \<Rightarrow> MarketPayment result" where
  "fromPartial_MarketPayment obj =
     read_fields
       [plain_field obj ''amount'' as_integer 0 MarketPayment_amount_update,
        plain_field obj ''currency'' as_integer 0 MarketPayment_currency_update,
        plain_field obj ''marketPurchaseId'' as_string [] MarketPayment_marketPurchaseId_update,
        optional_field obj ''method'' fromPartial_MarketPaymentMethod MarketPayment_method_update,
        optional_field obj ''createdAt'' as_string MarketPayment_createdAt_update]
       base_MarketPayment"

definition create_MarketPayment :: "json option \<Rightarrow> MarketPayment result" where
  "create_MarketPayment = create_with fromPartial_MarketPayment"

lemma created_MarketPayment: "create_MarketPayment None = Inr base_MarketPayment"
  by (simp add: create_MarketPayment_def fromPartial_MarketPayment_def base_MarketPayment_def)

lemma toJSON_MarketPayment_set [json_set]: "toJSON_MarketPayment m \<noteq> JNull"
  by (simp add: toJSON_MarketPayment_def)

lemma json_MarketPayment [json_codecs]:
  "fromJSON_MarketPayment (toJSON_MarketPayment m) = Inr m"
  unfolding fromJSON_MarketPayment_def
proof (rule message_restored [OF toJSON_MarketPayment_def [of m]])
  show "foldl (\<lambda>m u. u m) base_MarketPayment
      [MarketPayment_amount_update (\<lambda>_. MarketPayment_amount m),
       MarketPayment_currency_update (\<lambda>_. MarketPayment_currency m),
       MarketPayment_marketPurchaseId_update (\<lambda>_. MarketPayment_marketPurchaseId m),
       MarketPayment_method_update (\<lambda>_. MarketPayment_method m),
       MarketPayment_createdAt_update (\<lambda>_. MarketPayment_createdAt m)] = m"
    by (cases m) (simp add: base_MarketPayment_def)
qed (simp, simp only: list.pred_inject prod.case, elim conjE, (rule json_fields | assumption | erule known_values
      | rule any_values comes_backI json_codecs json_set enum_proper)+)

section \<open>MarketRefundMethod\<close>

definition fromJSON_MarketRefundMethod :: "json \<Rightarrow> MarketRefundMethod result" where
  "fromJSON_MarketRefundMethod obj =
     read_fields
       [plain_field obj ''cardBrand'' js_String [] MarketRefundMethod_cardBrand_update,
        plain_field obj ''cardLast4'' js_String [] MarketRefundMethod_cardLast4_update,
        plain_field obj ''cardExpMonth'' js_Integer 0 MarketRefundMethod_cardExpMonth_update,
        plain_field obj ''cardExpYear'' js_Integer 0 MarketRefundMethod_cardExpYear_update]
       base_MarketRefundMethod"

definition toJSON_MarketRefundMethod :: "MarketRefundMethod \<Rightarrow> json" where
  "toJSON_MarketRefundMethod m =
     object_of
       [(''cardBrand'', put_when (MarketRefundMethod_cardBrand m \<noteq> []) (JStr (MarketRefundMethod_cardBrand m))),
        (''cardLast4'', put_when (MarketRefundMethod_cardLast4 m \<noteq> []) (JStr (MarketRefundMethod_cardLast4 m))),
        (''cardExpMonth'', put_when (MarketRefundMethod_cardExpMonth m \<noteq> 0) (number (MarketRefundMethod_cardExpMonth m))),
        (''cardExpYear'', put_when (MarketRefundMethod_cardExpYear m \<noteq> 0) (number (MarketRefundMethod_cardExpYear m)))]"

definition fromPartial_MarketRefundMethod :: "json \<Rightarrow> MarketRefundMethod result" where
  "fromPartial_MarketRefundMethod obj =
     read_fields
       [plain_field obj ''cardBrand'' as_string [] MarketRefundMethod_cardBrand_update,
        plain_field obj ''cardLast4'' as_string [] MarketRefundMethod_cardLast4_update,
        plain_field obj ''cardExpMonth'' as_integer 0 MarketRefundMethod_cardExpMonth_update,
        plain_field obj ''cardExpYear'' as_integer 0 MarketRefundMethod_cardExpYear_update]
       base_MarketRefundMethod"

definition create_MarketRefundMethod :: "json option \<Rightarrow> MarketRefundMethod result" where
  "create_MarketRefundMethod = create_with fromPartial_MarketRefundMethod"

lemma created_MarketRefundMethod: "create_MarketRefundMethod None = Inr base_MarketRefundMethod"
  by (simp add: create_MarketRefundMethod_def fromPartial_MarketRefundMethod_def base_MarketRefundMethod_def)

lemma toJSON_MarketRefundMethod_set [json_set]: "toJSON_MarketRefundMethod m \<noteq> JNull"
  by (simp add: toJSON_MarketRefundMethod_def)

lemma json_MarketRefundMethod [json_codecs]:
  "fromJSON_MarketRefundMethod (toJSON_MarketRefundMethod m) = Inr m"
  unfolding fromJSON_MarketRefundMethod_def
proof (rule message_restored [OF toJSON_MarketRefundMethod_def [of m]])
  show "foldl (\<lambda>m u. u m) base_MarketRefundMethod
      [MarketRefundMethod_cardBrand_update (\<lambda>_. MarketRefundMethod_cardBrand m),
       MarketRefundMethod_cardLast4_update (\<lambda>_. MarketRefundMethod_cardLast4 m),
       MarketRefundMethod_cardExpMonth_update (\<lambda>_. MarketRefundMethod_cardExpMonth m),
       MarketRefundMethod_cardExpYear_update (\<lambda>_. MarketRefundMethod_cardExpYear m)] = m"
    by (cases m) (simp add: base_MarketRefundMethod_def)
qed (simp, simp only: list.pred_inject prod.case, elim conjE, (rule json_fields | assumption | erule known_values
      | rule any_values comes_backI json_codecs json_set enum_proper)+)

section \<open>MarketRefund\<close>

definition fromJSON_MarketRefund :: "json \<Rightarrow> MarketRefund result" where
  "fromJSON_MarketRefund obj =
     read_fields
       [plain_field obj ''amount'' js_Integer 0 MarketRefund_amount_update,
        plain_field obj ''currency'' js_Integer 0 MarketRefund_currency_update,
        plain_field obj ''marketPurchaseId'' js_String [] MarketRefund_marketPurchaseId_update,
        optional_field obj ''method'' fromJSON_MarketRefundMethod MarketRefund_method_update,
        optional_field obj ''createdAt'' js_String MarketRefund_createdAt_update]
       base_MarketRefund"

definition toJSON_MarketRefund :: "MarketRefund \<Rightarrow> json" where
  "toJSON_MarketRefund m =
     object_of
       [(''amount'', put_when (MarketRefund_amount m \<noteq> 0) (number (MarketRefund_amount m))),
        (''currency'', put_when (MarketRefund_currency m \<noteq> 0) (number (MarketRefund_currency m))),
        (''marketPurchaseId'', put_when (MarketRefund_marketPurchaseId m \<noteq> []) (JStr (MarketRefund_marketPurchaseId m))),
        (''method'', put_given (MarketRefund_method m) toJSON_MarketRefundMethod),
        (''createdAt'', put_given (MarketRefund_createdAt m) JStr)]"

definition fromPartial_MarketRefund :: "json \<Rightarrow> MarketRefund result" where
  "fromPartial_MarketRefund obj =
     read_fields
       [plain_field obj ''amount'' as_integer 0 MarketRefund_amount_update,
        plain_field obj ''currency'' as_integer 0 MarketRefund_currency_update,
        plain_field obj ''marketPurchaseId'' as_string [] MarketRefund_marketPurchaseId_update,
        optional_field obj ''method'' fromPartial_MarketRefundMethod MarketRefund_method_update,
        optional_field obj ''createdAt'' as_string MarketRefund_createdAt_update]
       base_MarketRefund"

definition create_MarketRefund :: "json option \<Rightarrow> MarketRefund result" where
  "create_MarketRefund = create_with fromPartial_MarketRefund"

lemma created_MarketRefund: "create_MarketRefund None = Inr base_MarketRefund"
  by (simp add: create_MarketRefund_def fromPartial_MarketRefund_def base_MarketRefund_def)

lemma toJSON_MarketRefund_set [json_set]: "toJSON_MarketRefund m \<noteq> JNull"
  by (simp add: toJSON_MarketRefund_def)

lemma json_MarketRefund [json_codecs]:
  "fromJSON_MarketRefund (toJSON_MarketRefund m) = Inr m"
  unfolding fromJSON_MarketRefund_def
proof (rule message_restored [OF toJSON_MarketRefund_def [of m]])
  show "foldl (\<lambda>m u. u m) base_MarketRefund
      [MarketRefund_amount_update (\<lambda>_. MarketRefund_amount m),
       MarketRefund_currency_update (\<lambda>_. MarketRefund_currency m),
       MarketRefund_marketPurchaseId_update (\<lambda>_. MarketRefund_marketPurchaseId m),
       MarketRefund_method_update (\<lambda>_. MarketRefund_method m),
       MarketRefund_createdAt_update (\<lambda>_. MarketRefund_createdAt m)] = m"
    by (cases m) (simp add: base_MarketRefund_def)
qed (simp, simp only: list.pred_inject prod.case, elim conjE, (rule json_fields | assumption | erule known_values
      | rule any_values comes_backI json_codecs json_set enum_proper)+)

section \<open>MediaStoragePurchaseDetails\<close>

definition fromJSON_MediaStoragePurchaseDetails :: "json \<Rightarrow> MediaStoragePurchaseDetails result" where
  "fromJSON_MediaStoragePurchaseDetails obj =
     read_fields
       [plain_field obj ''allocationBytes'' js_Integer 0 MediaStoragePurchaseDetails_allocationBytes_update]
       base_MediaStoragePurchaseDetails"

definition toJSON_MediaStoragePurchaseDetails :: "MediaStoragePurchaseDetails \<Rightarrow> json" where
  "toJSON_MediaStoragePurchaseDetails m =
     object_of
       [(''allocationBytes'', put_when (MediaStoragePurchaseDetails_allocationBytes m \<noteq> 0) (number (MediaStoragePurchaseDetails_allocationBytes m)))]"

definition fromPartial_MediaStoragePurchaseDetails :: "json \<Rightarrow> MediaStoragePurchaseDetails result" where
  "fromPartial_MediaStoragePurchaseDetails obj =
     read_fields
       [plain_field obj ''allocationBytes'' as_integer 0 MediaStoragePurchaseDetails_allocationBytes_update]
       base_MediaStoragePurchaseDetails"

definition create_MediaStoragePurchaseDetails :: "json option \<Rightarrow> MediaStoragePurchaseDetails result" where
  "create_MediaStoragePurchaseDetails = create_with fromPartial_MediaStoragePurchaseDetails"

lemma created_MediaStoragePurchaseDetails: "create_MediaStoragePurchaseDetails None = Inr base_MediaStoragePurchaseDetails"
  by (simp add: create_MediaStoragePurchaseDetails_def fromPartial_MediaStoragePurchaseDetails_def base_MediaStoragePurchaseDetails_def)

lemma toJSON_MediaStoragePurchaseDetails_set [json_set]: "toJSON_MediaStoragePurchaseDetails m \<noteq> JNull"
  by (simp add: toJSON_MediaStoragePurchaseDetails_def)

lemma json_MediaStoragePurchaseDetails [json_codecs]:
  "fromJSON_MediaStoragePurchaseDetails (toJSON_MediaStoragePurchaseDetails m) = Inr m"
  unfolding fromJSON_MediaStoragePurchaseDetails_def
proof (rule message_restored [OF toJSON_MediaStoragePurchaseDetails_def [of m]])
  show "foldl (\<lambda>m u. u m) base_MediaStoragePurchaseDetails
      [MediaStoragePurchaseDetails_allocationBytes_update (\<lambda>_. MediaStoragePurchaseDetails_allocationBytes m)] = m"
    by (cases m) (simp add: base_MediaStoragePurchaseDetails_def)
qed (simp, simp only: list.pred_inject prod.case, elim conjE, (rule json_fields | assumption | erule known_values
      | rule any_values comes_backI json_codecs json_set enum_proper)+)

section \<open>PermissionsAccessPurchaseDetails\<close>

definition fromJSON_PermissionsAccessPurchaseDetails :: "json \<Rightarrow> PermissionsAccessPurchaseDetails result" where
  "fromJSON_PermissionsAccessPurchaseDetails obj =
     read_fields
       [list_field obj ''permissions'' (from_enum Permission_numbers) PermissionsAccessPurchaseDetails_permissions_update,
        plain_field obj ''name'' js_String [] PermissionsAccessPurchaseDetails_name_update,
        plain_field obj ''description'' js_String [] PermissionsAccessPurchaseDetails_description_update]
       base_PermissionsAccessPurchaseDetails"

definition toJSON_PermissionsAccessPurchaseDetails :: "PermissionsAccessPurchaseDetails \<Rightarrow> json" where
  "toJSON_PermissionsAccessPurchaseDetails m =
     object_of
       [(''permissions'', put_list (PermissionsAccessPurchaseDetails_permissions m) (to_enum Permission_numbers)),
        (''name'', put_when (PermissionsAccessPurchaseDetails_name m \<noteq> []) (JStr (PermissionsAccessPurchaseDetails_name m))),
        (''description'', put_when (PermissionsAccessPurchaseDetails_description m \<noteq> []) (JStr (PermissionsAccessPurchaseDetails_description m)))]"

definition fromPartial_PermissionsAccessPurchaseDetails :: "json \<Rightarrow> PermissionsAccessPurchaseDetails result" where
  "fromPartial_PermissionsAccessPurchaseDetails obj =
     read_fields
       [mapped_field obj ''permissions'' as_integer PermissionsAccessPurchaseDetails_permissions_update,
        plain_field obj ''name'' as_string [] PermissionsAccessPurchaseDetails_name_update,
        plain_field obj ''description'' as_string [] PermissionsAccessPurchaseDetails_description_update]
       base_PermissionsAccessPurchaseDetails"

definition create_PermissionsAccessPurchaseDetails :: "json option \<Rightarrow> PermissionsAccessPurchaseDetails result" where
  "create_PermissionsAccessPurchaseDetails = create_with fromPartial_PermissionsAccessPurchaseDetails"

definition known_PermissionsAccessPurchaseDetails :: "PermissionsAccessPurchaseDetails \<Rightarrow> bool" where
  "known_PermissionsAccessPurchaseDetails m \<longleftrightarrow>
     list_all (known_enum Permission_numbers) (PermissionsAccessPurchaseDetails_permissions m)"

lemma created_PermissionsAccessPurchaseDetails: "create_PermissionsAccessPurchaseDetails None = Inr base_PermissionsAccessPurchaseDetails"
  by (simp add: create_PermissionsAccessPurchaseDetails_def fromPartial_PermissionsAccessPurchaseDetails_def base_PermissionsAccessPurchaseDetails_def)

lemma toJSON_PermissionsAccessPurchaseDetails_set [json_set]: "toJSON_PermissionsAccessPurchaseDetails m \<noteq> JNull"
  by (simp add: toJSON_PermissionsAccessPurchaseDetails_def)

lemma json_PermissionsAccessPurchaseDetails [json_codecs]:
  assumes "known_PermissionsAccessPurchaseDetails m"
  shows "fromJSON_PermissionsAccessPurchaseDetails (toJSON_PermissionsAccessPurchaseDetails m) = Inr m"
  unfolding fromJSON_PermissionsAccessPurchaseDetails_def
proof (rule message_restored [OF toJSON_PermissionsAccessPurchaseDetails_def [of m]])
  show "foldl (\<lambda>m u. u m) base_PermissionsAccessPurchaseDetails
      [PermissionsAccessPurchaseDetails_permissions_update (\<lambda>_. PermissionsAccessPurchaseDetails_permissions m),
       PermissionsAccessPurchaseDetails_name_update (\<lambda>_. PermissionsAccessPurchaseDetails_name m),
       PermissionsAccessPurchaseDetails_description_update (\<lambda>_. PermissionsAccessPurchaseDetails_description m)] = m"
    by (cases m) (simp add: base_PermissionsAccessPurchaseDetails_def)
qed (simp, insert assms [unfolded known_PermissionsAccessPurchaseDetails_def], simp only: list.pred_inject prod.case, elim conjE, (rule json_fields | assumption | erule known_values
      | rule any_values comes_backI json_codecs json_set enum_proper)+)

section \<open>RellmHostingPurchaseDetails\<close>

definition fromJSON_RellmHostingPurchaseDetails :: "json \<Rightarrow> RellmHostingPurchaseDetails result" where
  "fromJSON_RellmHostingPurchaseDetails obj =
     read_fields
       [plain_field obj ''dbSizeBytes'' js_Integer 0 RellmHostingPurchaseDetails_dbSizeBytes_update,
        plain_field obj ''objectStorageSizeBytes'' js_Integer 0 RellmHostingPurchaseDetails_objectStorageSizeBytes_update,
        plain_field obj ''additionalDescription'' js_String [] RellmHostingPurchaseDetails_additionalDescription_update,
        plain_field obj ''domain'' js_String [] RellmHostingPurchaseDetails_domain_update,
        plain_field obj ''contactEmail'' js_String [] RellmHostingPurchaseDetails_contactEmail_update,
        plain_field obj ''additionalInformation'' js_String [] RellmHostingPurchaseDetails_additionalInformation_update]
       base_RellmHostingPurchaseDetails"

definition toJSON_RellmHostingPurchaseDetails :: "RellmHostingPurchaseDetails \<Rightarrow> json" where
  "toJSON_RellmHostingPurchaseDetails m =
     object_of
       [(''dbSizeBytes'', put_when (RellmHostingPurchaseDetails_dbSizeBytes m \<noteq> 0) (number (RellmHostingPurchaseDetails_dbSizeBytes m))),
        (''objectStorageSizeBytes'', put_when (RellmHostingPurchaseDetails_objectStorageSizeBytes m \<noteq> 0) (number (RellmHostingPurchaseDetails_objectStorageSizeBytes m))),
        (''additionalDescription'', put_when (RellmHostingPurchaseDetails_additionalDescription m \<noteq> []) (JStr (RellmHostingPurchaseDetails_additionalDescription m))),
        (''domain'', put_when (RellmHostingPurchaseDetails_domain m \<noteq> []) (JStr (RellmHostingPurchaseDetails_domain m))),
        (''contactEmail'', put_when (RellmHostingPurchaseDetails_contactEmail m \<noteq> []) (JStr (RellmHostingPurchaseDetails_contactEmail m))),
        (''additionalInformation'', put_when (RellmHostingPurchaseDetails_additionalInformation m \<noteq> []) (JStr (RellmHostingPurchaseDetails_additionalInformation m)))]"

definition fromPartial_RellmHostingPurchaseDetails :: "json \<Rightarrow> RellmHostingPurchaseDetails result" where
  "fromPartial_RellmHostingPurchaseDetails obj =
     read_fields
       [plain_field obj ''dbSizeBytes'' as_integer 0 RellmHostingPurchaseDetails_dbSizeBytes_update,
        plain_field obj ''objectStorageSizeBytes'' as_integer 0 RellmHostingPurchaseDetails_objectStorageSizeBytes_update,
        plain_field obj ''additionalDescription'' as_string [] RellmHostingPurchaseDetails_additionalDescription_update,
        plain_field obj ''domain'' as_string [] RellmHostingPurchaseDetails_domain_update,
        plain_field obj ''contactEmail'' as_string [] RellmHostingPurchaseDetails_contactEmail_update,
        plain_field obj ''additionalInformation'' as_string [] RellmHostingPurchaseDetails_additionalInformation_update]
       base_RellmHostingPurchaseDetails"

definition create_RellmHostingPurchaseDetails :: "json option \<Rightarrow> RellmHostingPurchaseDetails result" where
  "create_RellmHostingPurchaseDetails = create_with fromPartial_RellmHostingPurchaseDetails"

lemma created_RellmHostingPurchaseDetails: "create_RellmHostingPurchaseDetails None = Inr base_RellmHostingPurchaseDetails"
  by (simp add: create_RellmHostingPurchaseDetails_def fromPartial_RellmHostingPurchaseDetails_def base_RellmHostingPurchaseDetails_def)

lemma toJSON_RellmHostingPurchaseDetails_set [json_set]: "toJSON_RellmHostingPurchaseDetails m \<noteq> JNull"
  by (simp add: toJSON_RellmHostingPurchaseDetails_def)

lemma json_RellmHostingPurchaseDetails [json_codecs]:
  "fromJSON_RellmHostingPurchaseDetails (toJSON_RellmHostingPurchaseDetails m) = Inr m"
  unfolding fromJSON_RellmHostingPurchaseDetails_def
proof (rule message_restored [OF toJSON_RellmHostingPurchaseDetails_def [of m]])
  show "foldl (\<lambda>m u. u m) base_RellmHostingPurchaseDetails
      [RellmHostingPurchaseDetails_dbSizeBytes_update (\<lambda>_. RellmHostingPurchaseDetails_dbSizeBytes m),
       RellmHostingPurchaseDetails_objectStorageSizeBytes_update (\<lambda>_. RellmHostingPurchaseDetails_objectStorageSizeBytes m),
       RellmHostingPurchaseDetails_additionalDescription_update (\<lambda>_. RellmHostingPurchaseDetails_additionalDescription m),
       RellmHostingPurchaseDetails_domain_update (\<lambda>_. RellmHostingPurchaseDetails_domain m),
       RellmHostingPurchaseDetails_contactEmail_update (\<lambda>_. RellmHostingPurchaseDetails_contactEmail m),
       RellmHostingPurchaseDetails_additionalInformation_update (\<lambda>_. RellmHostingPurchaseDetails_additionalInformation m)] = m"
    by (cases m) (simp add: base_RellmHostingPurchaseDetails_def)
qed (simp, simp only: list.pred_inject prod.case, elim conjE, (rule json_fields | assumption | erule known_values
      | rule any_values comes_backI json_codecs json_set enum_proper)+)

section \<open>MarketSubscription\<close>

definition fromJSON_MarketPurchase_with :: "(json \<Rightarrow> 'r result) \<Rightarrow> json \<Rightarrow> 'r MarketPurchaseOf result" where
  "fromJSON_MarketPurchase_with rec obj =
     read_fields
       [plain_field obj ''id'' js_String [] (\<lambda>f. MarketPurchase_upd (MarketPurchase_id_update f)),
        optional_field obj ''buyer'' fromJSON_Author (\<lambda>f. MarketPurchase_upd (MarketPurchase_buyer_update f)),
        plain_field obj ''type'' (from_enum PurchaseType_numbers) 0 (\<lambda>f. MarketPurchase_upd (MarketPurchase_type_update f)),
        optional_field obj ''marketProduct'' fromJSON_MarketProduct (\<lambda>f. MarketPurchase_upd (MarketPurchase_marketProduct_update f)),
        optional_field obj ''marketSubscription'' rec MarketPurchase_marketSubscription_upd,
        list_field obj ''marketPayments'' fromJSON_MarketPayment (\<lambda>f. MarketPurchase_upd (MarketPurchase_marketPayments_update f)),
        list_field obj ''marketRefunds'' fromJSON_MarketRefund (\<lambda>f. MarketPurchase_upd (MarketPurchase_marketRefunds_update f)),
        optional_field obj ''mediaStoragePurchaseDetails'' fromJSON_MediaStoragePurchaseDetails (\<lambda>f. MarketPurchase_upd (MarketPurchase_mediaStoragePurchaseDetails_update f)),
        optional_field obj ''aiGrantPurchaseDetails'' fromJSON_AIGrantPurchaseDetails (\<lambda>f. MarketPurchase_upd (MarketPurchase_aiGrantPurchaseDetails_update f)),
        optional_field obj ''rellmHostingPurchaseDetails'' fromJSON_RellmHostingPurchaseDetails (\<lambda>f. MarketPurchase_upd (MarketPurchase_rellmHostingPurchaseDetails_update f)),
        optional_field obj ''permissionsAccessPurchaseDetails'' fromJSON_PermissionsAccessPurchaseDetails (\<lambda>f. MarketPurchase_upd (MarketPurchase_permissionsAccessPurchaseDetails_update f)),
        optional_field obj ''createdAt'' js_String (\<lambda>f. MarketPurchase_upd (MarketPurchase_createdAt_update f))]
       base_MarketPurchase"

lemma fromJSON_MarketPurchase_with_cong [fundef_cong]:
  assumes "obj = obj'" "\<And>v. size v < size obj' \<Longrightarrow> f v = g v"
  shows "fromJSON_MarketPurchase_with f obj = fromJSON_MarketPurchase_with g obj'"
  using optional_field_cong [where upd = MarketPurchase_marketSubscription_upd and k = "''marketSubscription''", OF assms] by (simp add: fromJSON_MarketPurchase_with_def assms(1))

function fromJSON_MarketSubscription :: "json \<Rightarrow> MarketSubscription result" where
  "fromJSON_MarketSubscription obj =
     read_fields
       [plain_field obj ''id'' js_String [] (\<lambda>f. MarketSubscription_upd (MarketSubscription_id_update f)),
        optional_field obj ''buyer'' fromJSON_Author (\<lambda>f. MarketSubscription_upd (MarketSubscription_buyer_update f)),
        plain_field obj ''type'' (from_enum PurchaseType_numbers) 0 (\<lambda>f. MarketSubscription_upd (MarketSubscription_type_update f)),
        plain_field obj ''period'' (from_enum PurchasePeriod_numbers) 0 (\<lambda>f. MarketSubscription_upd (MarketSubscription_period_update f)),
        plain_field obj ''amount'' js_Integer 0 (\<lambda>f. MarketSubscription_upd (MarketSubscription_amount_update f)),
        plain_field obj ''currency'' js_Integer 0 (\<lambda>f. MarketSubscription_upd (MarketSubscription_currency_update f)),
        optional_field obj ''marketProduct'' fromJSON_MarketProduct (\<lambda>f. MarketSubscription_upd (MarketSubscription_marketProduct_update f)),
        list_field obj ''billingHistory'' (fromJSON_MarketPurchase_with fromJSON_MarketSubscription) MarketSubscription_billingHistory_upd,
        optional_field obj ''mediaStorageSubscriptionDetails'' fromJSON_MediaStorageSubscriptionDetails (\<lambda>f. MarketSubscription_upd (MarketSubscription_mediaStorageSubscriptionDetails_update f)),
        optional_field obj ''aiGrantSubscriptionDetails'' fromJSON_AIGrantSubscriptionDetails (\<lambda>f. MarketSubscription_upd (MarketSubscription_aiGrantSubscriptionDetails_update f)),
        optional_field obj ''rellmHostingSubscriptionDetails'' fromJSON_RellmHostingSubscriptionDetails (\<lambda>f. MarketSubscription_upd (MarketSubscription_rellmHostingSubscriptionDetails_update f)),
        optional_field obj ''permissionsAccessSubscriptionDetails'' fromJSON_PermissionsAccessSubscriptionDetails (\<lambda>f. MarketSubscription_upd (MarketSubscription_permissionsAccessSubscriptionDetails_update f)),
        optional_field obj ''createdAt'' js_String (\<lambda>f. MarketSubscription_upd (MarketSubscription_createdAt_update f)),
        optional_field obj ''renewsAt'' js_String (\<lambda>f. MarketSubscription_upd (MarketSubscription_renewsAt_update f)),
        optional_field obj ''canceledAt'' js_String (\<lambda>f. MarketSubscription_upd (MarketSubscription_canceledAt_update f)),
        optional_field obj ''serviceTerminatedAt'' js_String (\<lambda>f. MarketSubscription_upd (MarketSubscription_serviceTerminatedAt_update f))]
       base_MarketSubscription"
  by pat_completeness auto

termination
  by (relation "measure size") auto

declare fromJSON_MarketSubscription.simps [simp del]

definition fromJSON_MarketPurchase :: "json \<Rightarrow> MarketPurchase result" where
  "fromJSON_MarketPurchase = fromJSON_MarketPurchase_with fromJSON_MarketSubscription"

definition toJSON_MarketPurchase_with :: "('r \<Rightarrow> json) \<Rightarrow> 'r MarketPurchaseOf \<Rightarrow> json" where
  "toJSON_MarketPurchase_with rec m =
     object_of
       [(''id'', put_when (MarketPurchase_id (MarketPurchase_own m) \<noteq> []) (JStr (MarketPurchase_id (MarketPurchase_own m)))),
        (''buyer'', put_given (MarketPurchase_buyer (MarketPurchase_own m)) toJSON_Author),
        (''type'', put_when (MarketPurchase_type (MarketPurchase_own m) \<noteq> 0) ((to_enum PurchaseType_numbers) (MarketPurchase_type (MarketPurchase_own m)))),
        (''marketProduct'', put_given (MarketPurchase_marketProduct (MarketPurchase_own m)) toJSON_MarketProduct),
        (''marketSubscription'', put_given (MarketPurchase_marketSubscription m) rec),
        (''marketPayments'', put_list (MarketPurchase_marketPayments (MarketPurchase_own m)) toJSON_MarketPayment),
        (''marketRefunds'', put_list (MarketPurchase_marketRefunds (MarketPurchase_own m)) toJSON_MarketRefund),
        (''mediaStoragePurchaseDetails'', put_given (MarketPurchase_mediaStoragePurchaseDetails (MarketPurchase_own m)) toJSON_MediaStoragePurchaseDetails),
        (''aiGrantPurchaseDetails'', put_given (MarketPurchase_aiGrantPurchaseDetails (MarketPurchase_own m)) toJSON_AIGrantPurchaseDetails),
        (''rellmHostingPurchaseDetails'', put_given (MarketPurchase_rellmHostingPurchaseDetails (MarketPurchase_own m)) toJSON_RellmHostingPurchaseDetails),
        (''permissionsAccessPurchaseDetails'', put_given (MarketPurchase_permissionsAccessPurchaseDetails (MarketPurchase_own m)) toJSON_PermissionsAccessPurchaseDetails),
        (''createdAt'', put_given (MarketPurchase_createdAt (MarketPurchase_own m)) JStr)]"

lemma toJSON_MarketPurchase_with_cong [fundef_cong]:
  "m = m' \<Longrightarrow> (\<And>x. MarketPurchase_marketSubscription m' = Some x \<Longrightarrow> f x = g x) \<Longrightarrow> toJSON_MarketPurchase_with f m = toJSON_MarketPurchase_with g m'"
  by (simp add: toJSON_MarketPurchase_with_def cong: put_given_cong)

function toJSON_MarketSubscription :: "MarketSubscription \<Rightarrow> json" where
  "toJSON_MarketSubscription m =
     object_of
       [(''id'', put_when (MarketSubscription_id (MarketSubscription_own m) \<noteq> []) (JStr (MarketSubscription_id (MarketSubscription_own m)))),
        (''buyer'', put_given (MarketSubscription_buyer (MarketSubscription_own m)) toJSON_Author),
        (''type'', put_when (MarketSubscription_type (MarketSubscription_own m) \<noteq> 0) ((to_enum PurchaseType_numbers) (MarketSubscription_type (MarketSubscription_own m)))),
        (''period'', put_when (MarketSubscription_period (MarketSubscription_own m) \<noteq> 0) ((to_enum PurchasePeriod_numbers) (MarketSubscription_period (MarketSubscription_own m)))),
        (''amount'', put_when (MarketSubscription_amount (MarketSubscription_own m) \<noteq> 0) (number (MarketSubscription_amount (MarketSubscription_own m)))),
        (''currency'', put_when (MarketSubscription_currency (MarketSubscription_own m) \<noteq> 0) (number (MarketSubscription_currency (MarketSubscription_own m)))),
        (''marketProduct'', put_given (MarketSubscription_marketProduct (MarketSubscription_own m)) toJSON_MarketProduct),
        (''billingHistory'', put_list (MarketSubscription_billingHistory m) (toJSON_MarketPurchase_with toJSON_MarketSubscription)),
        (''mediaStorageSubscriptionDetails'', put_given (MarketSubscription_mediaStorageSubscriptionDetails (MarketSubscription_own m)) toJSON_MediaStorageSubscriptionDetails),
        (''aiGrantSubscriptionDetails'', put_given (MarketSubscription_aiGrantSubscriptionDetails (MarketSubscription_own m)) toJSON_AIGrantSubscriptionDetails),
        (''rellmHostingSubscriptionDetails'', put_given (MarketSubscription_rellmHostingSubscriptionDetails (MarketSubscription_own m)) toJSON_RellmHostingSubscriptionDetails),
        (''permissionsAccessSubscriptionDetails'', put_given (MarketSubscription_permissionsAccessSubscriptionDetails (MarketSubscription_own m)) toJSON_PermissionsAccessSubscriptionDetails),
        (''createdAt'', put_given (MarketSubscription_createdAt (MarketSubscription_own m)) JStr),
        (''renewsAt'', put_given (MarketSubscription_renewsAt (MarketSubscription_own m)) JStr),
        (''canceledAt'', put_given (MarketSubscription_canceledAt (MarketSubscription_own m)) JStr),
        (''serviceTerminatedAt'', put_given (MarketSubscription_serviceTerminatedAt (MarketSubscription_own m)) JStr)]"
  by pat_completeness auto

termination
  by (relation "measure size") (auto intro: subscription_smaller)

declare toJSON_MarketSubscription.simps [simp del]

definition toJSON_MarketPurchase :: "MarketPurchase \<Rightarrow> json" where
  "toJSON_MarketPurchase = toJSON_MarketPurchase_with toJSON_MarketSubscription"

definition fromPartial_MarketPurchase_with :: "(json \<Rightarrow> 'r result) \<Rightarrow> json \<Rightarrow> 'r MarketPurchaseOf result" where
  "fromPartial_MarketPurchase_with rec obj =
     read_fields
       [plain_field obj ''id'' as_string [] (\<lambda>f. MarketPurchase_upd (MarketPurchase_id_update f)),
        optional_field obj ''buyer'' fromPartial_Author (\<lambda>f. MarketPurchase_upd (MarketPurchase_buyer_update f)),
        plain_field obj ''type'' as_integer 0 (\<lambda>f. MarketPurchase_upd (MarketPurchase_type_update f)),
        optional_field obj ''marketProduct'' fromPartial_MarketProduct (\<lambda>f. MarketPurchase_upd (MarketPurchase_marketProduct_update f)),
        optional_field obj ''marketSubscription'' rec MarketPurchase_marketSubscription_upd,
        mapped_field obj ''marketPayments'' fromPartial_MarketPayment (\<lambda>f. MarketPurchase_upd (MarketPurchase_marketPayments_update f)),
        mapped_field obj ''marketRefunds'' fromPartial_MarketRefund (\<lambda>f. MarketPurchase_upd (MarketPurchase_marketRefunds_update f)),
        optional_field obj ''mediaStoragePurchaseDetails'' fromPartial_MediaStoragePurchaseDetails (\<lambda>f. MarketPurchase_upd (MarketPurchase_mediaStoragePurchaseDetails_update f)),
        optional_field obj ''aiGrantPurchaseDetails'' fromPartial_AIGrantPurchaseDetails (\<lambda>f. MarketPurchase_upd (MarketPurchase_aiGrantPurchaseDetails_update f)),
        optional_field obj ''rellmHostingPurchaseDetails'' fromPartial_RellmHostingPurchaseDetails (\<lambda>f. MarketPurchase_upd (MarketPurchase_rellmHostingPurchaseDetails_update f)),
        optional_field obj ''permissionsAccessPurchaseDetails'' fromPartial_PermissionsAccessPurchaseDetails (\<lambda>f. MarketPurchase_upd (MarketPurchase_permissionsAccessPurchaseDetails_update f)),
        optional_field obj ''createdAt'' as_string (\<lambda>f. MarketPurchase_upd (MarketPurchase_createdAt_update f))]
       base_MarketPurchase"

lemma fromPartial_MarketPurchase_with_cong [fundef_cong]:
  assumes "obj = obj'" "\<And>v. size v < size obj' \<Longrightarrow> f v = g v"
  shows "fromPartial_MarketPurchase_with f obj = fromPartial_MarketPurchase_with g obj'"
  using optional_field_cong [where upd = MarketPurchase_marketSubscription_upd and k = "''marketSubscription''", OF assms] by (simp add: fromPartial_MarketPurchase_with_def assms(1))

function fromPartial_MarketSubscription :: "json \<Rightarrow> MarketSubscription result" where
  "fromPartial_MarketSubscription obj =
     read_fields
       [plain_field obj ''id'' as_string [] (\<lambda>f. MarketSubscription_upd (MarketSubscription_id_update f)),
        optional_field obj ''buyer'' fromPartial_Author (\<lambda>f. MarketSubscription_upd (MarketSubscription_buyer_update f)),
        plain_field obj ''type'' as_integer 0 (\<lambda>f. MarketSubscription_upd (MarketSubscription_type_update f)),
        plain_field obj ''period'' as_integer 0 (\<lambda>f. MarketSubscription_upd (MarketSubscription_period_update f)),
        plain_field obj ''amount'' as_integer 0 (\<lambda>f. MarketSubscription_upd (MarketSubscription_amount_update f)),
        plain_field obj ''currency'' as_integer 0 (\<lambda>f. MarketSubscription_upd (MarketSubscription_currency_update f)),
        optional_field obj ''marketProduct'' fromPartial_MarketProduct (\<lambda>f. MarketSubscription_upd (MarketSubscription_marketProduct_update f)),
        mapped_field obj ''billingHistory'' (fromPartial_MarketPurchase_with fromPartial_MarketSubscription) MarketSubscription_billingHistory_upd,
        optional_field obj ''mediaStorageSubscriptionDetails'' fromPartial_MediaStorageSubscriptionDetails (\<lambda>f. MarketSubscription_upd (MarketSubscription_mediaStorageSubscriptionDetails_update f)),
        optional_field obj ''aiGrantSubscriptionDetails'' fromPartial_AIGrantSubscriptionDetails (\<lambda>f. MarketSubscription_upd (MarketSubscription_aiGrantSubscriptionDetails_update f)),
        optional_field obj ''rellmHostingSubscriptionDetails'' fromPartial_RellmHostingSubscriptionDetails (\<lambda>f. MarketSubscription_upd (MarketSubscription_rellmHostingSubscriptionDetails_update f)),
        optional_field obj ''permissionsAccessSubscriptionDetails'' fromPartial_PermissionsAccessSubscriptionDetails (\<lambda>f. MarketSubscription_upd (MarketSubscription_permissionsAccessSubscriptionDetails_update f)),
        optional_field obj ''createdAt'' as_string (\<lambda>f. MarketSubscription_upd (MarketSubscription_createdAt_update f)),
        optional_field obj ''renewsAt'' as_string (\<lambda>f. MarketSubscription_upd (MarketSubscription_renewsAt_update f)),
        optional_field obj ''canceledAt'' as_string (\<lambda>f. MarketSubscription_upd (MarketSubscription_canceledAt_update f)),
        optional_field obj ''serviceTerminatedAt'' as_string (\<lambda>f. MarketSubscription_upd (MarketSubscription_serviceTerminatedAt_update f))]
       base_MarketSubscription"
  by pat_completeness auto

termination
  by (relation "measure size") auto

declare fromPartial_MarketSubscription.simps [simp del]

definition fromPartial_MarketPurchase :: "json \<Rightarrow> MarketPurchase result" where
  "fromPartial_MarketPurchase = fromPartial_MarketPurchase_with fromPartial_MarketSubscription"

definition create_MarketSubscription :: "json option \<Rightarrow> MarketSubscription result" where
  "create_MarketSubscription = create_with fromPartial_MarketSubscription"

definition create_MarketPurchase :: "json option \<Rightarrow> MarketPurchase result" where
  "create_MarketPurchase = create_with fromPartial_MarketPurchase"

lemma created_MarketSubscription: "create_MarketSubscription None = Inr base_MarketSubscription"
  by (simp add: create_MarketSubscription_def fromPartial_MarketSubscription.simps [of "JObj []"] base_MarketSubscription_def subscription_updates)

lemma created_MarketPurchase: "create_MarketPurchase None = Inr base_MarketPurchase"
  by (simp add: create_MarketPurchase_def fromPartial_MarketPurchase_def fromPartial_MarketPurchase_with_def base_MarketPurchase_def subscription_updates)

definition known_MarketPurchase_with :: "('r \<Rightarrow> bool) \<Rightarrow> 'r MarketPurchaseOf \<Rightarrow> bool" where
  "known_MarketPurchase_with known m \<longleftrightarrow>
     pred_option known_Author (MarketPurchase_buyer (MarketPurchase_own m)) \<and>
     known_enum PurchaseType_numbers (MarketPurchase_type (MarketPurchase_own m)) \<and>
     pred_option known_MarketProduct (MarketPurchase_marketProduct (MarketPurchase_own m)) \<and>
     pred_option known (MarketPurchase_marketSubscription m) \<and>
     pred_option known_PermissionsAccessPurchaseDetails (MarketPurchase_permissionsAccessPurchaseDetails (MarketPurchase_own m))"

lemma known_MarketPurchase_with_cong [fundef_cong]:
  "m = m' \<Longrightarrow> (\<And>x. MarketPurchase_marketSubscription m' = Some x \<Longrightarrow> f x = g x) \<Longrightarrow> known_MarketPurchase_with f m = known_MarketPurchase_with g m'"
  by (cases "MarketPurchase_marketSubscription m'") (simp_all add: known_MarketPurchase_with_def)

function known_MarketSubscription :: "MarketSubscription \<Rightarrow> bool" where
  "known_MarketSubscription m \<longleftrightarrow>
     pred_option known_Author (MarketSubscription_buyer (MarketSubscription_own m)) \<and>
     known_enum PurchaseType_numbers (MarketSubscription_type (MarketSubscription_own m)) \<and>
     known_enum PurchasePeriod_numbers (MarketSubscription_period (MarketSubscription_own m)) \<and>
     pred_option known_MarketProduct (MarketSubscription_marketProduct (MarketSubscription_own m)) \<and>
     list_all (known_MarketPurchase_with known_MarketSubscription) (MarketSubscription_billingHistory m) \<and>
     pred_option known_RellmHostingSubscriptionDetails (MarketSubscription_rellmHostingSubscriptionDetails (MarketSubscription_own m)) \<and>
     pred_option known_PermissionsAccessSubscriptionDetails (MarketSubscription_permissionsAccessSubscriptionDetails (MarketSubscription_own m))"
  by pat_completeness auto

termination
  by (relation "measure size") (auto intro: subscription_smaller)

declare known_MarketSubscription.simps [simp del]

definition known_MarketPurchase :: "MarketPurchase \<Rightarrow> bool" where
  "known_MarketPurchase = known_MarketPurchase_with known_MarketSubscription"

lemma toJSON_MarketSubscription_set [json_set]:
  "toJSON_MarketSubscription m \<noteq> JNull" "toJSON_MarketPurchase_with rec a \<noteq> JNull" "toJSON_MarketPurchase a' \<noteq> JNull"
  by (simp_all add: toJSON_MarketSubscription.simps [of m] toJSON_MarketPurchase_with_def toJSON_MarketPurchase_def)

lemma json_MarketPurchase_with:
  assumes "known_MarketPurchase_with known m"
    and "\<And>x. MarketPurchase_marketSubscription m = Some x \<Longrightarrow> known x \<Longrightarrow> comes_back from to x"
  shows "fromJSON_MarketPurchase_with from (toJSON_MarketPurchase_with to m) = Inr m"
proof -
  have inner: "pred_option (comes_back from to) (MarketPurchase_marketSubscription m)"
    using assms by (cases "MarketPurchase_marketSubscription m") (simp_all add: known_MarketPurchase_with_def)
  show ?thesis
    unfolding fromJSON_MarketPurchase_with_def
  proof (rule message_restored [OF toJSON_MarketPurchase_with_def [of to m]])
    show "foldl (\<lambda>m u. u m) base_MarketPurchase
      [(\<lambda>f. MarketPurchase_upd (MarketPurchase_id_update f)) (\<lambda>_. MarketPurchase_id (MarketPurchase_own m)),
       (\<lambda>f. MarketPurchase_upd (MarketPurchase_buyer_update f)) (\<lambda>_. MarketPurchase_buyer (MarketPurchase_own m)),
       (\<lambda>f. MarketPurchase_upd (MarketPurchase_type_update f)) (\<lambda>_. MarketPurchase_type (MarketPurchase_own m)),
       (\<lambda>f. MarketPurchase_upd (MarketPurchase_marketProduct_update f)) (\<lambda>_. MarketPurchase_marketProduct (MarketPurchase_own m)),
       MarketPurchase_marketSubscription_upd (\<lambda>_. MarketPurchase_marketSubscription m),
       (\<lambda>f. MarketPurchase_upd (MarketPurchase_marketPayments_update f)) (\<lambda>_. MarketPurchase_marketPayments (MarketPurchase_own m)),
       (\<lambda>f. MarketPurchase_upd (MarketPurchase_marketRefunds_update f)) (\<lambda>_. MarketPurchase_marketRefunds (MarketPurchase_own m)),
       (\<lambda>f. MarketPurchase_upd (MarketPurchase_mediaStoragePurchaseDetails_update f)) (\<lambda>_. MarketPurchase_mediaStoragePurchaseDetails (MarketPurchase_own m)),
       (\<lambda>f. MarketPurchase_upd (MarketPurchase_aiGrantPurchaseDetails_update f)) (\<lambda>_. MarketPurchase_aiGrantPurchaseDetails (MarketPurchase_own m)),
       (\<lambda>f. MarketPurchase_upd (MarketPurchase_rellmHostingPurchaseDetails_update f)) (\<lambda>_. MarketPurchase_rellmHostingPurchaseDetails (MarketPurchase_own m)),
       (\<lambda>f. MarketPurchase_upd (MarketPurchase_permissionsAccessPurchaseDetails_update f)) (\<lambda>_. MarketPurchase_permissionsAccessPurchaseDetails (MarketPurchase_own m)),
       (\<lambda>f. MarketPurchase_upd (MarketPurchase_createdAt_update f)) (\<lambda>_. MarketPurchase_createdAt (MarketPurchase_own m))] = m"
      by (cases m) (simp add: base_MarketPurchase_def subscription_updates)
  qed (simp, insert assms(1) [unfolded known_MarketPurchase_with_def], simp only: list.pred_inject prod.case, elim conjE,
      (rule json_fields inner | assumption | erule known_values
        | rule any_values comes_backI json_codecs json_set enum_proper)+)
qed

lemma json_MarketSubscription [json_codecs]: "known_MarketSubscription m \<Longrightarrow> fromJSON_MarketSubscription (toJSON_MarketSubscription m) = Inr m"
proof (induction m rule: measure_induct_rule [where f = size])
  case (less m)
  have "comes_back (fromJSON_MarketPurchase_with fromJSON_MarketSubscription) (toJSON_MarketPurchase_with toJSON_MarketSubscription) a" if "a \<in> set (MarketSubscription_billingHistory m)" for a
    using that less.prems less.IH subscription_smaller [OF that]
    by (intro comes_backI json_set json_MarketPurchase_with [where known = known_MarketSubscription])
      (auto simp: known_MarketSubscription.simps [of m] list_all_iff intro!: comes_backI json_set)
  then have inner: "list_all (comes_back (fromJSON_MarketPurchase_with fromJSON_MarketSubscription) (toJSON_MarketPurchase_with toJSON_MarketSubscription)) (MarketSubscription_billingHistory m)"
    by (auto simp: list_all_iff pred_option_def)
  show ?case
    unfolding fromJSON_MarketSubscription.simps [of "toJSON_MarketSubscription m"]
  proof (rule message_restored [OF toJSON_MarketSubscription.simps [of m]])
    show "foldl (\<lambda>m u. u m) base_MarketSubscription
      [(\<lambda>f. MarketSubscription_upd (MarketSubscription_id_update f)) (\<lambda>_. MarketSubscription_id (MarketSubscription_own m)),
       (\<lambda>f. MarketSubscription_upd (MarketSubscription_buyer_update f)) (\<lambda>_. MarketSubscription_buyer (MarketSubscription_own m)),
       (\<lambda>f. MarketSubscription_upd (MarketSubscription_type_update f)) (\<lambda>_. MarketSubscription_type (MarketSubscription_own m)),
       (\<lambda>f. MarketSubscription_upd (MarketSubscription_period_update f)) (\<lambda>_. MarketSubscription_period (MarketSubscription_own m)),
       (\<lambda>f. MarketSubscription_upd (MarketSubscription_amount_update f)) (\<lambda>_. MarketSubscription_amount (MarketSubscription_own m)),
       (\<lambda>f. MarketSubscription_upd (MarketSubscription_currency_update f)) (\<lambda>_. MarketSubscription_currency (MarketSubscription_own m)),
       (\<lambda>f. MarketSubscription_upd (MarketSubscription_marketProduct_update f)) (\<lambda>_. MarketSubscription_marketProduct (MarketSubscription_own m)),
       MarketSubscription_billingHistory_upd (\<lambda>_. MarketSubscription_billingHistory m),
       (\<lambda>f. MarketSubscription_upd (MarketSubscription_mediaStorageSubscriptionDetails_update f)) (\<lambda>_. MarketSubscription_mediaStorageSubscriptionDetails (MarketSubscription_own m)),
       (\<lambda>f. MarketSubscription_upd (MarketSubscription_aiGrantSubscriptionDetails_update f)) (\<lambda>_. MarketSubscription_aiGrantSubscriptionDetails (MarketSubscription_own m)),
       (\<lambda>f. MarketSubscription_upd (MarketSubscription_rellmHostingSubscriptionDetails_update f)) (\<lambda>_. MarketSubscription_rellmHostingSubscriptionDetails (MarketSubscription_own m)),
       (\<lambda>f. MarketSubscription_upd (MarketSubscription_permissionsAccessSubscriptionDetails_update f)) (\<lambda>_. MarketSubscription_permissionsAccessSubscriptionDetails (MarketSubscription_own m)),
       (\<lambda>f. MarketSubscription_upd (MarketSubscription_createdAt_update f)) (\<lambda>_. MarketSubscription_createdAt (MarketSubscription_own m)),
       (\<lambda>f. MarketSubscription_upd (MarketSubscription_renewsAt_update f)) (\<lambda>_. MarketSubscription_renewsAt (MarketSubscription_own m)),
       (\<lambda>f. MarketSubscription_upd (MarketSubscription_canceledAt_update f)) (\<lambda>_. MarketSubscription_canceledAt (MarketSubscription_own m)),
       (\<lambda>f. MarketSubscription_upd (MarketSubscription_serviceTerminatedAt_update f)) (\<lambda>_. MarketSubscription_serviceTerminatedAt (MarketSubscription_own m))] = m"
      by (cases m) (simp add: base_MarketSubscription_def subscription_updates)
  qed (simp, insert less.prems [unfolded known_MarketSubscription.simps [of m]], simp only: list.pred_inject prod.case, elim conjE,
      (rule json_fields inner | assumption | erule known_values
        | rule any_values comes_backI json_codecs json_set enum_proper)+)
qed

lemma json_MarketPurchase [json_codecs]: "known_MarketPurchase m \<Longrightarrow> fromJSON_MarketPurchase (toJSON_MarketPurchase m) = Inr m"
  unfolding fromJSON_MarketPurchase_def toJSON_MarketPurchase_def known_MarketPurchase_def
  by (rule json_MarketPurchase_with [where known = known_MarketSubscription]) (simp_all add: comes_back_def json_MarketSubscription json_set)

section \<open>GetMarketSubscriptionsResponse\<close>

definition fromJSON_GetMarketSubscriptionsResponse :: "json \<Rightarrow> GetMarketSubscriptionsResponse result" where
  "fromJSON_GetMarketSubscriptionsResponse obj =
     read_fields
       [list_field obj ''marketSubscriptions'' fromJSON_MarketSubscription GetMarketSubscriptionsResponse_marketSubscriptions_update]
       base_GetMarketSubscriptionsResponse"

definition toJSON_GetMarketSubscriptionsResponse :: "GetMarketSubscriptionsResponse \<Rightarrow> json" where
  "toJSON_GetMarketSubscriptionsResponse m =
     object_of
       [(''marketSubscriptions'', put_list (GetMarketSubscriptionsResponse_marketSubscriptions m) toJSON_MarketSubscription)]"

definition fromPartial_GetMarketSubscriptionsResponse :: "json \<Rightarrow> GetMarketSubscriptionsResponse result" where
  "fromPartial_GetMarketSubscriptionsResponse obj =
     read_fields
       [mapped_field obj ''marketSubscriptions'' fromPartial_MarketSubscription GetMarketSubscriptionsResponse_marketSubscriptions_update]
       base_GetMarketSubscriptionsResponse"

definition create_GetMarketSubscriptionsResponse :: "json option \<Rightarrow> GetMarketSubscriptionsResponse result" where
  "create_GetMarketSubscriptionsResponse = create_with fromPartial_GetMarketSubscriptionsResponse"

definition known_GetMarketSubscriptionsResponse :: "GetMarketSubscriptionsResponse \<Rightarrow> bool" where
  "known_GetMarketSubscriptionsResponse m \<longleftrightarrow>
     list_all known_MarketSubscription (GetMarketSubscriptionsResponse_marketSubscriptions m)"

lemma created_GetMarketSubscriptionsResponse: "create_GetMarketSubscriptionsResponse None = Inr base_GetMarketSubscriptionsResponse"
  by (simp add: create_GetMarketSubscriptionsResponse_def fromPartial_GetMarketSubscriptionsResponse_def base_GetMarketSubscriptionsResponse_def)

lemma toJSON_GetMarketSubscriptionsResponse_set [json_set]: "toJSON_GetMarketSubscriptionsResponse m \<noteq> JNull"
  by (simp add: toJSON_GetMarketSubscriptionsResponse_def)

lemma json_GetMarketSubscriptionsResponse [json_codecs]:
  assumes "known_GetMarketSubscriptionsResponse m"
  shows "fromJSON_GetMarketSubscriptionsResponse (toJSON_GetMarketSubscriptionsResponse m) = Inr m"
  unfolding fromJSON_GetMarketSubscriptionsResponse_def
proof (rule message_restored [OF toJSON_GetMarketSubscriptionsResponse_def [of m]])
  show "foldl (\<lambda>m u. u m) base_GetMarketSubscriptionsResponse
      [GetMarketSubscriptionsResponse_marketSubscriptions_update (\<lambda>_. GetMarketSubscriptionsResponse_marketSubscriptions m)] = m"
    by (cases m) (simp add: base_GetMarketSubscriptionsResponse_def)
qed (simp, insert assms [unfolded known_GetMarketSubscriptionsResponse_def], simp only: list.pred_inject prod.case, elim conjE, (rule json_fields | assumption | erule known_values
      | rule any_values comes_backI json_codecs json_set enum_proper)+)

section \<open>MakeMarketPurchaseRequest\<close>

definition fromJSON_MakeMarketPurchaseRequest :: "json \<Rightarrow> MakeMarketPurchaseRequest result" where
  "fromJSON_MakeMarketPurchaseRequest obj =
     read_fields
       [plain_field obj ''marketProductId'' js_String [] MakeMarketPurchaseRequest_marketProductId_update,
        optional_field obj ''rellmHostingDetails'' fromJSON_RellmHostingPurchaseDetails MakeMarketPurchaseRequest_rellmHostingDetails_update]
       base_MakeMarketPurchaseRequest"

definition toJSON_MakeMarketPurchaseRequest :: "MakeMarketPurchaseRequest \<Rightarrow> json" where
  "toJSON_MakeMarketPurchaseRequest m =
     object_of
       [(''marketProductId'', put_when (MakeMarketPurchaseRequest_marketProductId m \<noteq> []) (JStr (MakeMarketPurchaseRequest_marketProductId m))),
        (''rellmHostingDetails'', put_given (MakeMarketPurchaseRequest_rellmHostingDetails m) toJSON_RellmHostingPurchaseDetails)]"

definition fromPartial_MakeMarketPurchaseRequest :: "json \<Rightarrow> MakeMarketPurchaseRequest result" where
  "fromPartial_MakeMarketPurchaseRequest obj =
     read_fields
       [plain_field obj ''marketProductId'' as_string [] MakeMarketPurchaseRequest_marketProductId_update,
        optional_field obj ''rellmHostingDetails'' fromPartial_RellmHostingPurchaseDetails MakeMarketPurchaseRequest_rellmHostingDetails_update]
       base_MakeMarketPurchaseRequest"

definition create_MakeMarketPurchaseRequest :: "json option \<Rightarrow> MakeMarketPurchaseRequest result" where
  "create_MakeMarketPurchaseRequest = create_with fromPartial_MakeMarketPurchaseRequest"

lemma created_MakeMarketPurchaseRequest: "create_MakeMarketPurchaseRequest None = Inr base_MakeMarketPurchaseRequest"
  by (simp add: create_MakeMarketPurchaseRequest_def fromPartial_MakeMarketPurchaseRequest_def base_MakeMarketPurchaseRequest_def)

lemma toJSON_MakeMarketPurchaseRequest_set [json_set]: "toJSON_MakeMarketPurchaseRequest m \<noteq> JNull"
  by (simp add: toJSON_MakeMarketPurchaseRequest_def)

lemma json_MakeMarketPurchaseRequest [json_codecs]:
  "fromJSON_MakeMarketPurchaseRequest (toJSON_MakeMarketPurchaseRequest m) = Inr m"
  unfolding fromJSON_MakeMarketPurchaseRequest_def
proof (rule message_restored [OF toJSON_MakeMarketPurchaseRequest_def [of m]])
  show "foldl (\<lambda>m u. u m) base_MakeMarketPurchaseRequest
      [MakeMarketPurchaseRequest_marketProductId_update (\<lambda>_. MakeMarketPurchaseRequest_marketProductId m),
       MakeMarketPurchaseRequest_rellmHostingDetails_update (\<lambda>_. MakeMarketPurchaseRequest_rellmHostingDetails m)] = m"
    by (cases m) (simp add: base_MakeMarketPurchaseRequest_def)
qed (simp, simp only: list.pred_inject prod.case, elim conjE, (rule json_fields | assumption | erule known_values
      | rule any_values comes_backI json_codecs json_set enum_proper)+)

section \<open>MakeMarketPurchaseResponse\<close>

definition fromJSON_MakeMarketPurchaseResponse :: "json \<Rightarrow> MakeMarketPurchaseResponse result" where
  "fromJSON_MakeMarketPurchaseResponse obj =
     read_fields
       [plain_field obj ''checkoutUrl'' js_String [] MakeMarketPurchaseResponse_checkoutUrl_update]
       base_MakeMarketPurchaseResponse"

definition toJSON_MakeMarketPurchaseResponse :: "MakeMarketPurchaseResponse \<Rightarrow> json" where
  "toJSON_MakeMarketPurchaseResponse m =
     object_of
       [(''checkoutUrl'', put_when (MakeMarketPurchaseResponse_checkoutUrl m \<noteq> []) (JStr (MakeMarketPurchaseResponse_checkoutUrl m)))]"

definition fromPartial_MakeMarketPurchaseResponse :: "json \<Rightarrow> MakeMarketPurchaseResponse result" where
  "fromPartial_MakeMarketPurchaseResponse obj =
     read_fields
       [plain_field obj ''checkoutUrl'' as_string [] MakeMarketPurchaseResponse_checkoutUrl_update]
       base_MakeMarketPurchaseResponse"

definition create_MakeMarketPurchaseResponse :: "json option \<Rightarrow> MakeMarketPurchaseResponse result" where
  "create_MakeMarketPurchaseResponse = create_with fromPartial_MakeMarketPurchaseResponse"

lemma created_MakeMarketPurchaseResponse: "create_MakeMarketPurchaseResponse None = Inr base_MakeMarketPurchaseResponse"
  by (simp add: create_MakeMarketPurchaseResponse_def fromPartial_MakeMarketPurchaseResponse_def base_MakeMarketPurchaseResponse_def)

lemma toJSON_MakeMarketPurchaseResponse_set [json_set]: "toJSON_MakeMarketPurchaseResponse m \<noteq> JNull"
  by (simp add: toJSON_MakeMarketPurchaseResponse_def)

lemma json_MakeMarketPurchaseResponse [json_codecs]:
  "fromJSON_MakeMarketPurchaseResponse (toJSON_MakeMarketPurchaseResponse m) = Inr m"
  unfolding fromJSON_MakeMarketPurchaseResponse_def
proof (rule message_restored [OF toJSON_MakeMarketPurchaseResponse_def [of m]])
  show "foldl (\<lambda>m u. u m) base_MakeMarketPurchaseResponse
      [MakeMarketPurchaseResponse_checkoutUrl_update (\<lambda>_. MakeMarketPurchaseResponse_checkoutUrl m)] = m"
    by (cases m) (simp add: base_MakeMarketPurchaseResponse_def)
qed (simp, simp only: list.pred_inject prod.case, elim conjE, (rule json_fields | assumption | erule known_values
      | rule any_values comes_backI json_codecs json_set enum_proper)+)

end
