(* ===== verification/Json_Users.thy ===== *)
theory Json_Users
  imports Wire_Users Json_Ai_Providers Json_Federation Json_Market Json_Sync
begin

text \<open>
  The JSON side of packages/api/generated/users.ts: of each message reading it off an object, the object made of it, and
  building one from the fields given.
\<close>

section \<open>ContactConsentChange\<close>

definition fromJSON_ContactConsentChange :: "json \<Rightarrow> ContactConsentChange result" where
  "fromJSON_ContactConsentChange obj =
     read_fields
       [plain_field obj ''state'' (from_enum ContactConsentState_numbers) 0 ContactConsentChange_state_update,
        optional_field obj ''changedAt'' js_String ContactConsentChange_changedAt_update]
       base_ContactConsentChange"

definition toJSON_ContactConsentChange :: "ContactConsentChange \<Rightarrow> json" where
  "toJSON_ContactConsentChange m =
     object_of
       [(''state'', put_when (ContactConsentChange_state m \<noteq> 0) ((to_enum ContactConsentState_numbers) (ContactConsentChange_state m))),
        (''changedAt'', put_given (ContactConsentChange_changedAt m) JStr)]"

definition fromPartial_ContactConsentChange :: "json \<Rightarrow> ContactConsentChange result" where
  "fromPartial_ContactConsentChange obj =
     read_fields
       [plain_field obj ''state'' as_integer 0 ContactConsentChange_state_update,
        optional_field obj ''changedAt'' as_string ContactConsentChange_changedAt_update]
       base_ContactConsentChange"

definition create_ContactConsentChange :: "json option \<Rightarrow> ContactConsentChange result" where
  "create_ContactConsentChange = create_with fromPartial_ContactConsentChange"

definition known_ContactConsentChange :: "ContactConsentChange \<Rightarrow> bool" where
  "known_ContactConsentChange m \<longleftrightarrow>
     known_enum ContactConsentState_numbers (ContactConsentChange_state m)"

lemma created_ContactConsentChange: "create_ContactConsentChange None = Inr base_ContactConsentChange"
  by (simp add: create_ContactConsentChange_def fromPartial_ContactConsentChange_def base_ContactConsentChange_def)

lemma toJSON_ContactConsentChange_set [json_set]: "toJSON_ContactConsentChange m \<noteq> JNull"
  by (simp add: toJSON_ContactConsentChange_def)

lemma json_ContactConsentChange [json_codecs]:
  assumes "known_ContactConsentChange m"
  shows "fromJSON_ContactConsentChange (toJSON_ContactConsentChange m) = Inr m"
  unfolding fromJSON_ContactConsentChange_def
proof (rule message_restored [OF toJSON_ContactConsentChange_def [of m]])
  show "foldl (\<lambda>m u. u m) base_ContactConsentChange
      [ContactConsentChange_state_update (\<lambda>_. ContactConsentChange_state m),
       ContactConsentChange_changedAt_update (\<lambda>_. ContactConsentChange_changedAt m)] = m"
    by (cases m) (simp add: base_ContactConsentChange_def)
qed (simp, insert assms [unfolded known_ContactConsentChange_def], simp only: list.pred_inject prod.case, elim conjE, (rule json_fields | assumption | erule known_values
      | rule any_values comes_backI json_codecs json_set enum_proper)+)

section \<open>ContactMethodVerification\<close>

definition fromJSON_ContactMethodVerification :: "json \<Rightarrow> ContactMethodVerification result" where
  "fromJSON_ContactMethodVerification obj =
     read_fields
       [plain_field obj ''verificationCode'' js_String [] ContactMethodVerification_verificationCode_update,
        optional_field obj ''verificationStartedAt'' js_String ContactMethodVerification_verificationStartedAt_update,
        plain_field obj ''attempts'' js_Integer 0 ContactMethodVerification_attempts_update]
       base_ContactMethodVerification"

definition toJSON_ContactMethodVerification :: "ContactMethodVerification \<Rightarrow> json" where
  "toJSON_ContactMethodVerification m =
     object_of
       [(''verificationCode'', put_when (ContactMethodVerification_verificationCode m \<noteq> []) (JStr (ContactMethodVerification_verificationCode m))),
        (''verificationStartedAt'', put_given (ContactMethodVerification_verificationStartedAt m) JStr),
        (''attempts'', put_when (ContactMethodVerification_attempts m \<noteq> 0) (number (ContactMethodVerification_attempts m)))]"

definition fromPartial_ContactMethodVerification :: "json \<Rightarrow> ContactMethodVerification result" where
  "fromPartial_ContactMethodVerification obj =
     read_fields
       [plain_field obj ''verificationCode'' as_string [] ContactMethodVerification_verificationCode_update,
        optional_field obj ''verificationStartedAt'' as_string ContactMethodVerification_verificationStartedAt_update,
        plain_field obj ''attempts'' as_integer 0 ContactMethodVerification_attempts_update]
       base_ContactMethodVerification"

definition create_ContactMethodVerification :: "json option \<Rightarrow> ContactMethodVerification result" where
  "create_ContactMethodVerification = create_with fromPartial_ContactMethodVerification"

lemma created_ContactMethodVerification: "create_ContactMethodVerification None = Inr base_ContactMethodVerification"
  by (simp add: create_ContactMethodVerification_def fromPartial_ContactMethodVerification_def base_ContactMethodVerification_def)

lemma toJSON_ContactMethodVerification_set [json_set]: "toJSON_ContactMethodVerification m \<noteq> JNull"
  by (simp add: toJSON_ContactMethodVerification_def)

lemma json_ContactMethodVerification [json_codecs]:
  "fromJSON_ContactMethodVerification (toJSON_ContactMethodVerification m) = Inr m"
  unfolding fromJSON_ContactMethodVerification_def
proof (rule message_restored [OF toJSON_ContactMethodVerification_def [of m]])
  show "foldl (\<lambda>m u. u m) base_ContactMethodVerification
      [ContactMethodVerification_verificationCode_update (\<lambda>_. ContactMethodVerification_verificationCode m),
       ContactMethodVerification_verificationStartedAt_update (\<lambda>_. ContactMethodVerification_verificationStartedAt m),
       ContactMethodVerification_attempts_update (\<lambda>_. ContactMethodVerification_attempts m)] = m"
    by (cases m) (simp add: base_ContactMethodVerification_def)
qed (simp, simp only: list.pred_inject prod.case, elim conjE, (rule json_fields | assumption | erule known_values
      | rule any_values comes_backI json_codecs json_set enum_proper)+)

section \<open>ContactMethod\<close>

definition fromJSON_ContactMethod :: "json \<Rightarrow> ContactMethod result" where
  "fromJSON_ContactMethod obj =
     read_fields
       [optional_field obj ''value'' js_String ContactMethod_value_update,
        plain_field obj ''visibility'' (from_enum Visibility_numbers) 0 ContactMethod_visibility_update,
        plain_field obj ''supportedByServer'' js_Boolean False ContactMethod_supportedByServer_update,
        optional_field obj ''verifiedAt'' js_String ContactMethod_verifiedAt_update,
        optional_field obj ''verificationInProgress'' fromJSON_ContactMethodVerification ContactMethod_verificationInProgress_update,
        plain_field obj ''consentState'' (from_enum ContactConsentState_numbers) 0 ContactMethod_consentState_update,
        list_field obj ''consentHistory'' fromJSON_ContactConsentChange ContactMethod_consentHistory_update]
       base_ContactMethod"

definition toJSON_ContactMethod :: "ContactMethod \<Rightarrow> json" where
  "toJSON_ContactMethod m =
     object_of
       [(''value'', put_given (ContactMethod_value m) JStr),
        (''visibility'', put_when (ContactMethod_visibility m \<noteq> 0) ((to_enum Visibility_numbers) (ContactMethod_visibility m))),
        (''supportedByServer'', put_when (ContactMethod_supportedByServer m \<noteq> False) (JBool (ContactMethod_supportedByServer m))),
        (''verifiedAt'', put_given (ContactMethod_verifiedAt m) JStr),
        (''verificationInProgress'', put_given (ContactMethod_verificationInProgress m) toJSON_ContactMethodVerification),
        (''consentState'', put_when (ContactMethod_consentState m \<noteq> 0) ((to_enum ContactConsentState_numbers) (ContactMethod_consentState m))),
        (''consentHistory'', put_list (ContactMethod_consentHistory m) toJSON_ContactConsentChange)]"

definition fromPartial_ContactMethod :: "json \<Rightarrow> ContactMethod result" where
  "fromPartial_ContactMethod obj =
     read_fields
       [optional_field obj ''value'' as_string ContactMethod_value_update,
        plain_field obj ''visibility'' as_integer 0 ContactMethod_visibility_update,
        plain_field obj ''supportedByServer'' as_bool False ContactMethod_supportedByServer_update,
        optional_field obj ''verifiedAt'' as_string ContactMethod_verifiedAt_update,
        optional_field obj ''verificationInProgress'' fromPartial_ContactMethodVerification ContactMethod_verificationInProgress_update,
        plain_field obj ''consentState'' as_integer 0 ContactMethod_consentState_update,
        mapped_field obj ''consentHistory'' fromPartial_ContactConsentChange ContactMethod_consentHistory_update]
       base_ContactMethod"

definition create_ContactMethod :: "json option \<Rightarrow> ContactMethod result" where
  "create_ContactMethod = create_with fromPartial_ContactMethod"

definition known_ContactMethod :: "ContactMethod \<Rightarrow> bool" where
  "known_ContactMethod m \<longleftrightarrow>
     known_enum Visibility_numbers (ContactMethod_visibility m) \<and>
     known_enum ContactConsentState_numbers (ContactMethod_consentState m) \<and>
     list_all known_ContactConsentChange (ContactMethod_consentHistory m)"

lemma created_ContactMethod: "create_ContactMethod None = Inr base_ContactMethod"
  by (simp add: create_ContactMethod_def fromPartial_ContactMethod_def base_ContactMethod_def)

lemma toJSON_ContactMethod_set [json_set]: "toJSON_ContactMethod m \<noteq> JNull"
  by (simp add: toJSON_ContactMethod_def)

lemma json_ContactMethod [json_codecs]:
  assumes "known_ContactMethod m"
  shows "fromJSON_ContactMethod (toJSON_ContactMethod m) = Inr m"
  unfolding fromJSON_ContactMethod_def
proof (rule message_restored [OF toJSON_ContactMethod_def [of m]])
  show "foldl (\<lambda>m u. u m) base_ContactMethod
      [ContactMethod_value_update (\<lambda>_. ContactMethod_value m),
       ContactMethod_visibility_update (\<lambda>_. ContactMethod_visibility m),
       ContactMethod_supportedByServer_update (\<lambda>_. ContactMethod_supportedByServer m),
       ContactMethod_verifiedAt_update (\<lambda>_. ContactMethod_verifiedAt m),
       ContactMethod_verificationInProgress_update (\<lambda>_. ContactMethod_verificationInProgress m),
       ContactMethod_consentState_update (\<lambda>_. ContactMethod_consentState m),
       ContactMethod_consentHistory_update (\<lambda>_. ContactMethod_consentHistory m)] = m"
    by (cases m) (simp add: base_ContactMethod_def)
qed (simp, insert assms [unfolded known_ContactMethod_def], simp only: list.pred_inject prod.case, elim conjE, (rule json_fields | assumption | erule known_values
      | rule any_values comes_backI json_codecs json_set enum_proper)+)

section \<open>Follow\<close>

definition fromJSON_Follow :: "json \<Rightarrow> Follow result" where
  "fromJSON_Follow obj =
     read_fields
       [plain_field obj ''userId'' js_String [] Follow_userId_update,
        plain_field obj ''targetUserId'' js_String [] Follow_targetUserId_update,
        plain_field obj ''targetUserModeration'' (from_enum Moderation_numbers) 0 Follow_targetUserModeration_update,
        optional_field obj ''createdAt'' js_String Follow_createdAt_update,
        optional_field obj ''updatedAt'' js_String Follow_updatedAt_update]
       base_Follow"

definition toJSON_Follow :: "Follow \<Rightarrow> json" where
  "toJSON_Follow m =
     object_of
       [(''userId'', put_when (Follow_userId m \<noteq> []) (JStr (Follow_userId m))),
        (''targetUserId'', put_when (Follow_targetUserId m \<noteq> []) (JStr (Follow_targetUserId m))),
        (''targetUserModeration'', put_when (Follow_targetUserModeration m \<noteq> 0) ((to_enum Moderation_numbers) (Follow_targetUserModeration m))),
        (''createdAt'', put_given (Follow_createdAt m) JStr),
        (''updatedAt'', put_given (Follow_updatedAt m) JStr)]"

definition fromPartial_Follow :: "json \<Rightarrow> Follow result" where
  "fromPartial_Follow obj =
     read_fields
       [plain_field obj ''userId'' as_string [] Follow_userId_update,
        plain_field obj ''targetUserId'' as_string [] Follow_targetUserId_update,
        plain_field obj ''targetUserModeration'' as_integer 0 Follow_targetUserModeration_update,
        optional_field obj ''createdAt'' as_string Follow_createdAt_update,
        optional_field obj ''updatedAt'' as_string Follow_updatedAt_update]
       base_Follow"

definition create_Follow :: "json option \<Rightarrow> Follow result" where
  "create_Follow = create_with fromPartial_Follow"

definition known_Follow :: "Follow \<Rightarrow> bool" where
  "known_Follow m \<longleftrightarrow>
     known_enum Moderation_numbers (Follow_targetUserModeration m)"

lemma created_Follow: "create_Follow None = Inr base_Follow"
  by (simp add: create_Follow_def fromPartial_Follow_def base_Follow_def)

lemma toJSON_Follow_set [json_set]: "toJSON_Follow m \<noteq> JNull"
  by (simp add: toJSON_Follow_def)

lemma json_Follow [json_codecs]:
  assumes "known_Follow m"
  shows "fromJSON_Follow (toJSON_Follow m) = Inr m"
  unfolding fromJSON_Follow_def
proof (rule message_restored [OF toJSON_Follow_def [of m]])
  show "foldl (\<lambda>m u. u m) base_Follow
      [Follow_userId_update (\<lambda>_. Follow_userId m),
       Follow_targetUserId_update (\<lambda>_. Follow_targetUserId m),
       Follow_targetUserModeration_update (\<lambda>_. Follow_targetUserModeration m),
       Follow_createdAt_update (\<lambda>_. Follow_createdAt m),
       Follow_updatedAt_update (\<lambda>_. Follow_updatedAt m)] = m"
    by (cases m) (simp add: base_Follow_def)
qed (simp, insert assms [unfolded known_Follow_def], simp only: list.pred_inject prod.case, elim conjE, (rule json_fields | assumption | erule known_values
      | rule any_values comes_backI json_codecs json_set enum_proper)+)

section \<open>Membership\<close>

definition fromJSON_Membership :: "json \<Rightarrow> Membership result" where
  "fromJSON_Membership obj =
     read_fields
       [plain_field obj ''userId'' js_String [] Membership_userId_update,
        plain_field obj ''groupId'' js_String [] Membership_groupId_update,
        list_field obj ''permissions'' (from_enum Permission_numbers) Membership_permissions_update,
        plain_field obj ''groupModeration'' (from_enum Moderation_numbers) 0 Membership_groupModeration_update,
        plain_field obj ''userModeration'' (from_enum Moderation_numbers) 0 Membership_userModeration_update,
        optional_field obj ''createdAt'' js_String Membership_createdAt_update,
        optional_field obj ''updatedAt'' js_String Membership_updatedAt_update]
       base_Membership"

definition toJSON_Membership :: "Membership \<Rightarrow> json" where
  "toJSON_Membership m =
     object_of
       [(''userId'', put_when (Membership_userId m \<noteq> []) (JStr (Membership_userId m))),
        (''groupId'', put_when (Membership_groupId m \<noteq> []) (JStr (Membership_groupId m))),
        (''permissions'', put_list (Membership_permissions m) (to_enum Permission_numbers)),
        (''groupModeration'', put_when (Membership_groupModeration m \<noteq> 0) ((to_enum Moderation_numbers) (Membership_groupModeration m))),
        (''userModeration'', put_when (Membership_userModeration m \<noteq> 0) ((to_enum Moderation_numbers) (Membership_userModeration m))),
        (''createdAt'', put_given (Membership_createdAt m) JStr),
        (''updatedAt'', put_given (Membership_updatedAt m) JStr)]"

definition fromPartial_Membership :: "json \<Rightarrow> Membership result" where
  "fromPartial_Membership obj =
     read_fields
       [plain_field obj ''userId'' as_string [] Membership_userId_update,
        plain_field obj ''groupId'' as_string [] Membership_groupId_update,
        mapped_field obj ''permissions'' as_integer Membership_permissions_update,
        plain_field obj ''groupModeration'' as_integer 0 Membership_groupModeration_update,
        plain_field obj ''userModeration'' as_integer 0 Membership_userModeration_update,
        optional_field obj ''createdAt'' as_string Membership_createdAt_update,
        optional_field obj ''updatedAt'' as_string Membership_updatedAt_update]
       base_Membership"

definition create_Membership :: "json option \<Rightarrow> Membership result" where
  "create_Membership = create_with fromPartial_Membership"

definition known_Membership :: "Membership \<Rightarrow> bool" where
  "known_Membership m \<longleftrightarrow>
     list_all (known_enum Permission_numbers) (Membership_permissions m) \<and>
     known_enum Moderation_numbers (Membership_groupModeration m) \<and>
     known_enum Moderation_numbers (Membership_userModeration m)"

lemma created_Membership: "create_Membership None = Inr base_Membership"
  by (simp add: create_Membership_def fromPartial_Membership_def base_Membership_def)

lemma toJSON_Membership_set [json_set]: "toJSON_Membership m \<noteq> JNull"
  by (simp add: toJSON_Membership_def)

lemma json_Membership [json_codecs]:
  assumes "known_Membership m"
  shows "fromJSON_Membership (toJSON_Membership m) = Inr m"
  unfolding fromJSON_Membership_def
proof (rule message_restored [OF toJSON_Membership_def [of m]])
  show "foldl (\<lambda>m u. u m) base_Membership
      [Membership_userId_update (\<lambda>_. Membership_userId m),
       Membership_groupId_update (\<lambda>_. Membership_groupId m),
       Membership_permissions_update (\<lambda>_. Membership_permissions m),
       Membership_groupModeration_update (\<lambda>_. Membership_groupModeration m),
       Membership_userModeration_update (\<lambda>_. Membership_userModeration m),
       Membership_createdAt_update (\<lambda>_. Membership_createdAt m),
       Membership_updatedAt_update (\<lambda>_. Membership_updatedAt m)] = m"
    by (cases m) (simp add: base_Membership_def)
qed (simp, insert assms [unfolded known_Membership_def], simp only: list.pred_inject prod.case, elim conjE, (rule json_fields | assumption | erule known_values
      | rule any_values comes_backI json_codecs json_set enum_proper)+)

section \<open>User\<close>

definition fromJSON_User :: "json \<Rightarrow> User result" where
  "fromJSON_User obj =
     read_fields
       [plain_field obj ''id'' js_String [] User_id_update,
        plain_field obj ''username'' js_String [] User_username_update,
        plain_field obj ''realName'' js_String [] User_realName_update,
        optional_field obj ''email'' fromJSON_ContactMethod User_email_update,
        optional_field obj ''phone'' fromJSON_ContactMethod User_phone_update,
        list_field obj ''permissions'' (from_enum Permission_numbers) User_permissions_update,
        optional_field obj ''avatar'' fromJSON_MediaReference User_avatar_update,
        plain_field obj ''bio'' js_String [] User_bio_update,
        optional_field obj ''mediaStorageLimitBytes'' js_Integer User_mediaStorageLimitBytes_update,
        plain_field obj ''mediaStorageBytesUsed'' js_Integer 0 User_mediaStorageBytesUsed_update,
        plain_field obj ''visibility'' (from_enum Visibility_numbers) 0 User_visibility_update,
        plain_field obj ''moderation'' (from_enum Moderation_numbers) 0 User_moderation_update,
        plain_field obj ''defaultFollowModeration'' (from_enum Moderation_numbers) 0 User_defaultFollowModeration_update,
        optional_field obj ''followerCount'' js_Integer User_followerCount_update,
        optional_field obj ''followingCount'' js_Integer User_followingCount_update,
        optional_field obj ''friendCount'' js_Integer User_friendCount_update,
        optional_field obj ''groupCount'' js_Integer User_groupCount_update,
        optional_field obj ''postCount'' js_Integer User_postCount_update,
        optional_field obj ''responseCount'' js_Integer User_responseCount_update,
        optional_field obj ''eventCount'' js_Integer User_eventCount_update,
        optional_field obj ''occasionCount'' js_Integer User_occasionCount_update,
        optional_field obj ''currentUserFollow'' fromJSON_Follow User_currentUserFollow_update,
        optional_field obj ''targetCurrentUserFollow'' fromJSON_Follow User_targetCurrentUserFollow_update,
        optional_field obj ''currentGroupMembership'' fromJSON_Membership User_currentGroupMembership_update,
        list_field obj ''federatedProfiles'' fromJSON_FederatedAccount User_federatedProfiles_update,
        list_field obj ''syncDestinations'' fromJSON_SyncDestination User_syncDestinations_update,
        list_field obj ''syncSources'' fromJSON_SyncSource User_syncSources_update,
        list_field obj ''aiModels'' fromJSON_AIModel User_aiModels_update,
        list_field obj ''marketSubscriptions'' fromJSON_MarketSubscription User_marketSubscriptions_update,
        optional_field obj ''createdAt'' js_String User_createdAt_update,
        optional_field obj ''updatedAt'' js_String User_updatedAt_update]
       base_User"

definition toJSON_User :: "User \<Rightarrow> json" where
  "toJSON_User m =
     object_of
       [(''id'', put_when (User_id m \<noteq> []) (JStr (User_id m))),
        (''username'', put_when (User_username m \<noteq> []) (JStr (User_username m))),
        (''realName'', put_when (User_realName m \<noteq> []) (JStr (User_realName m))),
        (''email'', put_given (User_email m) toJSON_ContactMethod),
        (''phone'', put_given (User_phone m) toJSON_ContactMethod),
        (''permissions'', put_list (User_permissions m) (to_enum Permission_numbers)),
        (''avatar'', put_given (User_avatar m) toJSON_MediaReference),
        (''bio'', put_when (User_bio m \<noteq> []) (JStr (User_bio m))),
        (''mediaStorageLimitBytes'', put_given (User_mediaStorageLimitBytes m) number),
        (''mediaStorageBytesUsed'', put_when (User_mediaStorageBytesUsed m \<noteq> 0) (number (User_mediaStorageBytesUsed m))),
        (''visibility'', put_when (User_visibility m \<noteq> 0) ((to_enum Visibility_numbers) (User_visibility m))),
        (''moderation'', put_when (User_moderation m \<noteq> 0) ((to_enum Moderation_numbers) (User_moderation m))),
        (''defaultFollowModeration'', put_when (User_defaultFollowModeration m \<noteq> 0) ((to_enum Moderation_numbers) (User_defaultFollowModeration m))),
        (''followerCount'', put_given (User_followerCount m) number),
        (''followingCount'', put_given (User_followingCount m) number),
        (''friendCount'', put_given (User_friendCount m) number),
        (''groupCount'', put_given (User_groupCount m) number),
        (''postCount'', put_given (User_postCount m) number),
        (''responseCount'', put_given (User_responseCount m) number),
        (''eventCount'', put_given (User_eventCount m) number),
        (''occasionCount'', put_given (User_occasionCount m) number),
        (''currentUserFollow'', put_given (User_currentUserFollow m) toJSON_Follow),
        (''targetCurrentUserFollow'', put_given (User_targetCurrentUserFollow m) toJSON_Follow),
        (''currentGroupMembership'', put_given (User_currentGroupMembership m) toJSON_Membership),
        (''federatedProfiles'', put_list (User_federatedProfiles m) toJSON_FederatedAccount),
        (''syncDestinations'', put_list (User_syncDestinations m) toJSON_SyncDestination),
        (''syncSources'', put_list (User_syncSources m) toJSON_SyncSource),
        (''aiModels'', put_list (User_aiModels m) toJSON_AIModel),
        (''marketSubscriptions'', put_list (User_marketSubscriptions m) toJSON_MarketSubscription),
        (''createdAt'', put_given (User_createdAt m) JStr),
        (''updatedAt'', put_given (User_updatedAt m) JStr)]"

definition fromPartial_User :: "json \<Rightarrow> User result" where
  "fromPartial_User obj =
     read_fields
       [plain_field obj ''id'' as_string [] User_id_update,
        plain_field obj ''username'' as_string [] User_username_update,
        plain_field obj ''realName'' as_string [] User_realName_update,
        optional_field obj ''email'' fromPartial_ContactMethod User_email_update,
        optional_field obj ''phone'' fromPartial_ContactMethod User_phone_update,
        mapped_field obj ''permissions'' as_integer User_permissions_update,
        optional_field obj ''avatar'' fromPartial_MediaReference User_avatar_update,
        plain_field obj ''bio'' as_string [] User_bio_update,
        optional_field obj ''mediaStorageLimitBytes'' as_integer User_mediaStorageLimitBytes_update,
        plain_field obj ''mediaStorageBytesUsed'' as_integer 0 User_mediaStorageBytesUsed_update,
        plain_field obj ''visibility'' as_integer 0 User_visibility_update,
        plain_field obj ''moderation'' as_integer 0 User_moderation_update,
        plain_field obj ''defaultFollowModeration'' as_integer 0 User_defaultFollowModeration_update,
        optional_field obj ''followerCount'' as_integer User_followerCount_update,
        optional_field obj ''followingCount'' as_integer User_followingCount_update,
        optional_field obj ''friendCount'' as_integer User_friendCount_update,
        optional_field obj ''groupCount'' as_integer User_groupCount_update,
        optional_field obj ''postCount'' as_integer User_postCount_update,
        optional_field obj ''responseCount'' as_integer User_responseCount_update,
        optional_field obj ''eventCount'' as_integer User_eventCount_update,
        optional_field obj ''occasionCount'' as_integer User_occasionCount_update,
        optional_field obj ''currentUserFollow'' fromPartial_Follow User_currentUserFollow_update,
        optional_field obj ''targetCurrentUserFollow'' fromPartial_Follow User_targetCurrentUserFollow_update,
        optional_field obj ''currentGroupMembership'' fromPartial_Membership User_currentGroupMembership_update,
        mapped_field obj ''federatedProfiles'' fromPartial_FederatedAccount User_federatedProfiles_update,
        mapped_field obj ''syncDestinations'' fromPartial_SyncDestination User_syncDestinations_update,
        mapped_field obj ''syncSources'' fromPartial_SyncSource User_syncSources_update,
        mapped_field obj ''aiModels'' fromPartial_AIModel User_aiModels_update,
        mapped_field obj ''marketSubscriptions'' fromPartial_MarketSubscription User_marketSubscriptions_update,
        optional_field obj ''createdAt'' as_string User_createdAt_update,
        optional_field obj ''updatedAt'' as_string User_updatedAt_update]
       base_User"

definition create_User :: "json option \<Rightarrow> User result" where
  "create_User = create_with fromPartial_User"

definition known_User :: "User \<Rightarrow> bool" where
  "known_User m \<longleftrightarrow>
     pred_option known_ContactMethod (User_email m) \<and>
     pred_option known_ContactMethod (User_phone m) \<and>
     list_all (known_enum Permission_numbers) (User_permissions m) \<and>
     pred_option known_MediaReference (User_avatar m) \<and>
     known_enum Visibility_numbers (User_visibility m) \<and>
     known_enum Moderation_numbers (User_moderation m) \<and>
     known_enum Moderation_numbers (User_defaultFollowModeration m) \<and>
     pred_option known_Follow (User_currentUserFollow m) \<and>
     pred_option known_Follow (User_targetCurrentUserFollow m) \<and>
     pred_option known_Membership (User_currentGroupMembership m) \<and>
     list_all known_SyncDestination (User_syncDestinations m) \<and>
     list_all known_SyncSource (User_syncSources m) \<and>
     list_all known_AIModel (User_aiModels m) \<and>
     list_all known_MarketSubscription (User_marketSubscriptions m)"

lemma created_User: "create_User None = Inr base_User"
  by (simp add: create_User_def fromPartial_User_def base_User_def)

lemma toJSON_User_set [json_set]: "toJSON_User m \<noteq> JNull"
  by (simp add: toJSON_User_def)

lemma json_User [json_codecs]:
  assumes "known_User m"
  shows "fromJSON_User (toJSON_User m) = Inr m"
  unfolding fromJSON_User_def
proof (rule message_restored [OF toJSON_User_def [of m]])
  show "foldl (\<lambda>m u. u m) base_User
      [User_id_update (\<lambda>_. User_id m),
       User_username_update (\<lambda>_. User_username m),
       User_realName_update (\<lambda>_. User_realName m),
       User_email_update (\<lambda>_. User_email m),
       User_phone_update (\<lambda>_. User_phone m),
       User_permissions_update (\<lambda>_. User_permissions m),
       User_avatar_update (\<lambda>_. User_avatar m),
       User_bio_update (\<lambda>_. User_bio m),
       User_mediaStorageLimitBytes_update (\<lambda>_. User_mediaStorageLimitBytes m),
       User_mediaStorageBytesUsed_update (\<lambda>_. User_mediaStorageBytesUsed m),
       User_visibility_update (\<lambda>_. User_visibility m),
       User_moderation_update (\<lambda>_. User_moderation m),
       User_defaultFollowModeration_update (\<lambda>_. User_defaultFollowModeration m),
       User_followerCount_update (\<lambda>_. User_followerCount m),
       User_followingCount_update (\<lambda>_. User_followingCount m),
       User_friendCount_update (\<lambda>_. User_friendCount m),
       User_groupCount_update (\<lambda>_. User_groupCount m),
       User_postCount_update (\<lambda>_. User_postCount m),
       User_responseCount_update (\<lambda>_. User_responseCount m),
       User_eventCount_update (\<lambda>_. User_eventCount m),
       User_occasionCount_update (\<lambda>_. User_occasionCount m),
       User_currentUserFollow_update (\<lambda>_. User_currentUserFollow m),
       User_targetCurrentUserFollow_update (\<lambda>_. User_targetCurrentUserFollow m),
       User_currentGroupMembership_update (\<lambda>_. User_currentGroupMembership m),
       User_federatedProfiles_update (\<lambda>_. User_federatedProfiles m),
       User_syncDestinations_update (\<lambda>_. User_syncDestinations m),
       User_syncSources_update (\<lambda>_. User_syncSources m),
       User_aiModels_update (\<lambda>_. User_aiModels m),
       User_marketSubscriptions_update (\<lambda>_. User_marketSubscriptions m),
       User_createdAt_update (\<lambda>_. User_createdAt m),
       User_updatedAt_update (\<lambda>_. User_updatedAt m)] = m"
    by (cases m) (simp add: base_User_def)
qed (simp, insert assms [unfolded known_User_def], simp only: list.pred_inject prod.case, elim conjE, (rule json_fields | assumption | erule known_values
      | rule any_values comes_backI json_codecs json_set enum_proper)+)

section \<open>GetUsersRequest\<close>

definition fromJSON_GetUsersRequest :: "json \<Rightarrow> GetUsersRequest result" where
  "fromJSON_GetUsersRequest obj =
     read_fields
       [optional_field obj ''username'' js_String GetUsersRequest_username_update,
        optional_field obj ''userId'' js_String GetUsersRequest_userId_update,
        optional_field obj ''searchText'' js_String GetUsersRequest_searchText_update,
        optional_field obj ''page'' js_Integer GetUsersRequest_page_update,
        plain_field obj ''listingType'' (from_enum UserListingType_numbers) 0 GetUsersRequest_listingType_update]
       base_GetUsersRequest"

definition toJSON_GetUsersRequest :: "GetUsersRequest \<Rightarrow> json" where
  "toJSON_GetUsersRequest m =
     object_of
       [(''username'', put_given (GetUsersRequest_username m) JStr),
        (''userId'', put_given (GetUsersRequest_userId m) JStr),
        (''searchText'', put_given (GetUsersRequest_searchText m) JStr),
        (''page'', put_given (GetUsersRequest_page m) number),
        (''listingType'', put_when (GetUsersRequest_listingType m \<noteq> 0) ((to_enum UserListingType_numbers) (GetUsersRequest_listingType m)))]"

definition fromPartial_GetUsersRequest :: "json \<Rightarrow> GetUsersRequest result" where
  "fromPartial_GetUsersRequest obj =
     read_fields
       [optional_field obj ''username'' as_string GetUsersRequest_username_update,
        optional_field obj ''userId'' as_string GetUsersRequest_userId_update,
        optional_field obj ''searchText'' as_string GetUsersRequest_searchText_update,
        optional_field obj ''page'' as_integer GetUsersRequest_page_update,
        plain_field obj ''listingType'' as_integer 0 GetUsersRequest_listingType_update]
       base_GetUsersRequest"

definition create_GetUsersRequest :: "json option \<Rightarrow> GetUsersRequest result" where
  "create_GetUsersRequest = create_with fromPartial_GetUsersRequest"

definition known_GetUsersRequest :: "GetUsersRequest \<Rightarrow> bool" where
  "known_GetUsersRequest m \<longleftrightarrow>
     known_enum UserListingType_numbers (GetUsersRequest_listingType m)"

lemma created_GetUsersRequest: "create_GetUsersRequest None = Inr base_GetUsersRequest"
  by (simp add: create_GetUsersRequest_def fromPartial_GetUsersRequest_def base_GetUsersRequest_def)

lemma toJSON_GetUsersRequest_set [json_set]: "toJSON_GetUsersRequest m \<noteq> JNull"
  by (simp add: toJSON_GetUsersRequest_def)

lemma json_GetUsersRequest [json_codecs]:
  assumes "known_GetUsersRequest m"
  shows "fromJSON_GetUsersRequest (toJSON_GetUsersRequest m) = Inr m"
  unfolding fromJSON_GetUsersRequest_def
proof (rule message_restored [OF toJSON_GetUsersRequest_def [of m]])
  show "foldl (\<lambda>m u. u m) base_GetUsersRequest
      [GetUsersRequest_username_update (\<lambda>_. GetUsersRequest_username m),
       GetUsersRequest_userId_update (\<lambda>_. GetUsersRequest_userId m),
       GetUsersRequest_searchText_update (\<lambda>_. GetUsersRequest_searchText m),
       GetUsersRequest_page_update (\<lambda>_. GetUsersRequest_page m),
       GetUsersRequest_listingType_update (\<lambda>_. GetUsersRequest_listingType m)] = m"
    by (cases m) (simp add: base_GetUsersRequest_def)
qed (simp, insert assms [unfolded known_GetUsersRequest_def], simp only: list.pred_inject prod.case, elim conjE, (rule json_fields | assumption | erule known_values
      | rule any_values comes_backI json_codecs json_set enum_proper)+)

section \<open>GetUsersResponse\<close>

definition fromJSON_GetUsersResponse :: "json \<Rightarrow> GetUsersResponse result" where
  "fromJSON_GetUsersResponse obj =
     read_fields
       [list_field obj ''users'' fromJSON_User GetUsersResponse_users_update,
        plain_field obj ''hasNextPage'' js_Boolean False GetUsersResponse_hasNextPage_update]
       base_GetUsersResponse"

definition toJSON_GetUsersResponse :: "GetUsersResponse \<Rightarrow> json" where
  "toJSON_GetUsersResponse m =
     object_of
       [(''users'', put_list (GetUsersResponse_users m) toJSON_User),
        (''hasNextPage'', put_when (GetUsersResponse_hasNextPage m \<noteq> False) (JBool (GetUsersResponse_hasNextPage m)))]"

definition fromPartial_GetUsersResponse :: "json \<Rightarrow> GetUsersResponse result" where
  "fromPartial_GetUsersResponse obj =
     read_fields
       [mapped_field obj ''users'' fromPartial_User GetUsersResponse_users_update,
        plain_field obj ''hasNextPage'' as_bool False GetUsersResponse_hasNextPage_update]
       base_GetUsersResponse"

definition create_GetUsersResponse :: "json option \<Rightarrow> GetUsersResponse result" where
  "create_GetUsersResponse = create_with fromPartial_GetUsersResponse"

definition known_GetUsersResponse :: "GetUsersResponse \<Rightarrow> bool" where
  "known_GetUsersResponse m \<longleftrightarrow>
     list_all known_User (GetUsersResponse_users m)"

lemma created_GetUsersResponse: "create_GetUsersResponse None = Inr base_GetUsersResponse"
  by (simp add: create_GetUsersResponse_def fromPartial_GetUsersResponse_def base_GetUsersResponse_def)

lemma toJSON_GetUsersResponse_set [json_set]: "toJSON_GetUsersResponse m \<noteq> JNull"
  by (simp add: toJSON_GetUsersResponse_def)

lemma json_GetUsersResponse [json_codecs]:
  assumes "known_GetUsersResponse m"
  shows "fromJSON_GetUsersResponse (toJSON_GetUsersResponse m) = Inr m"
  unfolding fromJSON_GetUsersResponse_def
proof (rule message_restored [OF toJSON_GetUsersResponse_def [of m]])
  show "foldl (\<lambda>m u. u m) base_GetUsersResponse
      [GetUsersResponse_users_update (\<lambda>_. GetUsersResponse_users m),
       GetUsersResponse_hasNextPage_update (\<lambda>_. GetUsersResponse_hasNextPage m)] = m"
    by (cases m) (simp add: base_GetUsersResponse_def)
qed (simp, insert assms [unfolded known_GetUsersResponse_def], simp only: list.pred_inject prod.case, elim conjE, (rule json_fields | assumption | erule known_values
      | rule any_values comes_backI json_codecs json_set enum_proper)+)

section \<open>VerifyContactMethodRequest\<close>

definition fromJSON_VerifyContactMethodRequest :: "json \<Rightarrow> VerifyContactMethodRequest result" where
  "fromJSON_VerifyContactMethodRequest obj =
     read_fields
       [plain_field obj ''value'' js_String [] VerifyContactMethodRequest_value_update,
        plain_field obj ''code'' js_String [] VerifyContactMethodRequest_code_update]
       base_VerifyContactMethodRequest"

definition toJSON_VerifyContactMethodRequest :: "VerifyContactMethodRequest \<Rightarrow> json" where
  "toJSON_VerifyContactMethodRequest m =
     object_of
       [(''value'', put_when (VerifyContactMethodRequest_value m \<noteq> []) (JStr (VerifyContactMethodRequest_value m))),
        (''code'', put_when (VerifyContactMethodRequest_code m \<noteq> []) (JStr (VerifyContactMethodRequest_code m)))]"

definition fromPartial_VerifyContactMethodRequest :: "json \<Rightarrow> VerifyContactMethodRequest result" where
  "fromPartial_VerifyContactMethodRequest obj =
     read_fields
       [plain_field obj ''value'' as_string [] VerifyContactMethodRequest_value_update,
        plain_field obj ''code'' as_string [] VerifyContactMethodRequest_code_update]
       base_VerifyContactMethodRequest"

definition create_VerifyContactMethodRequest :: "json option \<Rightarrow> VerifyContactMethodRequest result" where
  "create_VerifyContactMethodRequest = create_with fromPartial_VerifyContactMethodRequest"

lemma created_VerifyContactMethodRequest: "create_VerifyContactMethodRequest None = Inr base_VerifyContactMethodRequest"
  by (simp add: create_VerifyContactMethodRequest_def fromPartial_VerifyContactMethodRequest_def base_VerifyContactMethodRequest_def)

lemma toJSON_VerifyContactMethodRequest_set [json_set]: "toJSON_VerifyContactMethodRequest m \<noteq> JNull"
  by (simp add: toJSON_VerifyContactMethodRequest_def)

lemma json_VerifyContactMethodRequest [json_codecs]:
  "fromJSON_VerifyContactMethodRequest (toJSON_VerifyContactMethodRequest m) = Inr m"
  unfolding fromJSON_VerifyContactMethodRequest_def
proof (rule message_restored [OF toJSON_VerifyContactMethodRequest_def [of m]])
  show "foldl (\<lambda>m u. u m) base_VerifyContactMethodRequest
      [VerifyContactMethodRequest_value_update (\<lambda>_. VerifyContactMethodRequest_value m),
       VerifyContactMethodRequest_code_update (\<lambda>_. VerifyContactMethodRequest_code m)] = m"
    by (cases m) (simp add: base_VerifyContactMethodRequest_def)
qed (simp, simp only: list.pred_inject prod.case, elim conjE, (rule json_fields | assumption | erule known_values
      | rule any_values comes_backI json_codecs json_set enum_proper)+)

end
