(* ===== verification/Json_Events.thy ===== *)
theory Json_Events
  imports Wire_Events Json_Location Json_Posts Json_Users
begin

text \<open>
  The JSON side of packages/api/generated/events.ts: of each message reading it off an object, the object made of it, and
  building one from the fields given.
\<close>

section \<open>TimeFilter\<close>

definition fromJSON_TimeFilter :: "json \<Rightarrow> TimeFilter result" where
  "fromJSON_TimeFilter obj =
     read_fields
       [optional_field obj ''startsAfter'' js_String TimeFilter_startsAfter_update,
        optional_field obj ''endsAfter'' js_String TimeFilter_endsAfter_update,
        optional_field obj ''startsBefore'' js_String TimeFilter_startsBefore_update,
        optional_field obj ''endsBefore'' js_String TimeFilter_endsBefore_update]
       base_TimeFilter"

definition toJSON_TimeFilter :: "TimeFilter \<Rightarrow> json" where
  "toJSON_TimeFilter m =
     object_of
       [(''startsAfter'', put_given (TimeFilter_startsAfter m) JStr),
        (''endsAfter'', put_given (TimeFilter_endsAfter m) JStr),
        (''startsBefore'', put_given (TimeFilter_startsBefore m) JStr),
        (''endsBefore'', put_given (TimeFilter_endsBefore m) JStr)]"

definition fromPartial_TimeFilter :: "json \<Rightarrow> TimeFilter result" where
  "fromPartial_TimeFilter obj =
     read_fields
       [optional_field obj ''startsAfter'' as_string TimeFilter_startsAfter_update,
        optional_field obj ''endsAfter'' as_string TimeFilter_endsAfter_update,
        optional_field obj ''startsBefore'' as_string TimeFilter_startsBefore_update,
        optional_field obj ''endsBefore'' as_string TimeFilter_endsBefore_update]
       base_TimeFilter"

definition create_TimeFilter :: "json option \<Rightarrow> TimeFilter result" where
  "create_TimeFilter = create_with fromPartial_TimeFilter"

lemma created_TimeFilter: "create_TimeFilter None = Inr base_TimeFilter"
  by (simp add: create_TimeFilter_def fromPartial_TimeFilter_def base_TimeFilter_def)

lemma toJSON_TimeFilter_set [json_set]: "toJSON_TimeFilter m \<noteq> JNull"
  by (simp add: toJSON_TimeFilter_def)

lemma json_TimeFilter [json_codecs]:
  "fromJSON_TimeFilter (toJSON_TimeFilter m) = Inr m"
  unfolding fromJSON_TimeFilter_def
proof (rule message_restored [OF toJSON_TimeFilter_def [of m]])
  show "foldl (\<lambda>m u. u m) base_TimeFilter
      [TimeFilter_startsAfter_update (\<lambda>_. TimeFilter_startsAfter m),
       TimeFilter_endsAfter_update (\<lambda>_. TimeFilter_endsAfter m),
       TimeFilter_startsBefore_update (\<lambda>_. TimeFilter_startsBefore m),
       TimeFilter_endsBefore_update (\<lambda>_. TimeFilter_endsBefore m)] = m"
    by (cases m) (simp add: base_TimeFilter_def)
qed (simp, simp only: list.pred_inject prod.case, elim conjE, (rule json_fields | assumption | erule known_values
      | rule any_values comes_backI json_codecs json_set enum_proper)+)

section \<open>GetEventsRequest\<close>

definition fromJSON_GetEventsRequest :: "json \<Rightarrow> GetEventsRequest result" where
  "fromJSON_GetEventsRequest obj =
     read_fields
       [optional_field obj ''authorUserId'' js_String GetEventsRequest_authorUserId_update,
        list_field obj ''excludedAuthorUserIds'' js_String GetEventsRequest_excludedAuthorUserIds_update,
        optional_field obj ''groupId'' js_String GetEventsRequest_groupId_update,
        optional_field obj ''timeFilter'' fromJSON_TimeFilter GetEventsRequest_timeFilter_update,
        optional_field obj ''attendeeId'' js_String GetEventsRequest_attendeeId_update,
        list_field obj ''rsvpStatuses'' (from_enum RsvpStatus_numbers) GetEventsRequest_rsvpStatuses_update,
        optional_field obj ''postId'' js_String GetEventsRequest_postId_update,
        plain_field obj ''listingType'' (from_enum EventListingType_numbers) 0 GetEventsRequest_listingType_update,
        optional_field obj ''searchText'' js_String GetEventsRequest_searchText_update,
        list_field obj ''occasionPostIds'' js_String GetEventsRequest_occasionPostIds_update,
        optional_field obj ''anonymousAttendeeAuthToken'' js_String GetEventsRequest_anonymousAttendeeAuthToken_update]
       base_GetEventsRequest"

definition toJSON_GetEventsRequest :: "GetEventsRequest \<Rightarrow> json" where
  "toJSON_GetEventsRequest m =
     object_of
       [(''authorUserId'', put_given (GetEventsRequest_authorUserId m) JStr),
        (''excludedAuthorUserIds'', put_list (GetEventsRequest_excludedAuthorUserIds m) JStr),
        (''groupId'', put_given (GetEventsRequest_groupId m) JStr),
        (''timeFilter'', put_given (GetEventsRequest_timeFilter m) toJSON_TimeFilter),
        (''attendeeId'', put_given (GetEventsRequest_attendeeId m) JStr),
        (''rsvpStatuses'', put_list (GetEventsRequest_rsvpStatuses m) (to_enum RsvpStatus_numbers)),
        (''postId'', put_given (GetEventsRequest_postId m) JStr),
        (''listingType'', put_when (GetEventsRequest_listingType m \<noteq> 0) ((to_enum EventListingType_numbers) (GetEventsRequest_listingType m))),
        (''searchText'', put_given (GetEventsRequest_searchText m) JStr),
        (''occasionPostIds'', put_list (GetEventsRequest_occasionPostIds m) JStr),
        (''anonymousAttendeeAuthToken'', put_given (GetEventsRequest_anonymousAttendeeAuthToken m) JStr)]"

definition fromPartial_GetEventsRequest :: "json \<Rightarrow> GetEventsRequest result" where
  "fromPartial_GetEventsRequest obj =
     read_fields
       [optional_field obj ''authorUserId'' as_string GetEventsRequest_authorUserId_update,
        mapped_field obj ''excludedAuthorUserIds'' as_string GetEventsRequest_excludedAuthorUserIds_update,
        optional_field obj ''groupId'' as_string GetEventsRequest_groupId_update,
        optional_field obj ''timeFilter'' fromPartial_TimeFilter GetEventsRequest_timeFilter_update,
        optional_field obj ''attendeeId'' as_string GetEventsRequest_attendeeId_update,
        mapped_field obj ''rsvpStatuses'' as_integer GetEventsRequest_rsvpStatuses_update,
        optional_field obj ''postId'' as_string GetEventsRequest_postId_update,
        plain_field obj ''listingType'' as_integer 0 GetEventsRequest_listingType_update,
        optional_field obj ''searchText'' as_string GetEventsRequest_searchText_update,
        mapped_field obj ''occasionPostIds'' as_string GetEventsRequest_occasionPostIds_update,
        optional_field obj ''anonymousAttendeeAuthToken'' as_string GetEventsRequest_anonymousAttendeeAuthToken_update]
       base_GetEventsRequest"

definition create_GetEventsRequest :: "json option \<Rightarrow> GetEventsRequest result" where
  "create_GetEventsRequest = create_with fromPartial_GetEventsRequest"

definition known_GetEventsRequest :: "GetEventsRequest \<Rightarrow> bool" where
  "known_GetEventsRequest m \<longleftrightarrow>
     list_all (known_enum RsvpStatus_numbers) (GetEventsRequest_rsvpStatuses m) \<and>
     known_enum EventListingType_numbers (GetEventsRequest_listingType m)"

lemma created_GetEventsRequest: "create_GetEventsRequest None = Inr base_GetEventsRequest"
  by (simp add: create_GetEventsRequest_def fromPartial_GetEventsRequest_def base_GetEventsRequest_def)

lemma toJSON_GetEventsRequest_set [json_set]: "toJSON_GetEventsRequest m \<noteq> JNull"
  by (simp add: toJSON_GetEventsRequest_def)

lemma json_GetEventsRequest [json_codecs]:
  assumes "known_GetEventsRequest m"
  shows "fromJSON_GetEventsRequest (toJSON_GetEventsRequest m) = Inr m"
  unfolding fromJSON_GetEventsRequest_def
proof (rule message_restored [OF toJSON_GetEventsRequest_def [of m]])
  show "foldl (\<lambda>m u. u m) base_GetEventsRequest
      [GetEventsRequest_authorUserId_update (\<lambda>_. GetEventsRequest_authorUserId m),
       GetEventsRequest_excludedAuthorUserIds_update (\<lambda>_. GetEventsRequest_excludedAuthorUserIds m),
       GetEventsRequest_groupId_update (\<lambda>_. GetEventsRequest_groupId m),
       GetEventsRequest_timeFilter_update (\<lambda>_. GetEventsRequest_timeFilter m),
       GetEventsRequest_attendeeId_update (\<lambda>_. GetEventsRequest_attendeeId m),
       GetEventsRequest_rsvpStatuses_update (\<lambda>_. GetEventsRequest_rsvpStatuses m),
       GetEventsRequest_postId_update (\<lambda>_. GetEventsRequest_postId m),
       GetEventsRequest_listingType_update (\<lambda>_. GetEventsRequest_listingType m),
       GetEventsRequest_searchText_update (\<lambda>_. GetEventsRequest_searchText m),
       GetEventsRequest_occasionPostIds_update (\<lambda>_. GetEventsRequest_occasionPostIds m),
       GetEventsRequest_anonymousAttendeeAuthToken_update (\<lambda>_. GetEventsRequest_anonymousAttendeeAuthToken m)] = m"
    by (cases m) (simp add: base_GetEventsRequest_def)
qed (simp, insert assms [unfolded known_GetEventsRequest_def], simp only: list.pred_inject prod.case, elim conjE, (rule json_fields | assumption | erule known_values
      | rule any_values comes_backI json_codecs json_set enum_proper)+)

section \<open>EventInfo\<close>

definition fromJSON_EventInfo :: "json \<Rightarrow> EventInfo result" where
  "fromJSON_EventInfo obj =
     read_fields
       [optional_field obj ''allowsRsvps'' js_Boolean EventInfo_allowsRsvps_update,
        optional_field obj ''allowsAnonymousRsvps'' js_Boolean EventInfo_allowsAnonymousRsvps_update,
        optional_field obj ''maxAttendees'' js_Integer EventInfo_maxAttendees_update,
        optional_field obj ''hideLocationUntilRsvpApproved'' js_Boolean EventInfo_hideLocationUntilRsvpApproved_update,
        optional_field obj ''defaultRsvpModeration'' (from_enum Moderation_numbers) EventInfo_defaultRsvpModeration_update]
       base_EventInfo"

definition toJSON_EventInfo :: "EventInfo \<Rightarrow> json" where
  "toJSON_EventInfo m =
     object_of
       [(''allowsRsvps'', put_given (EventInfo_allowsRsvps m) JBool),
        (''allowsAnonymousRsvps'', put_given (EventInfo_allowsAnonymousRsvps m) JBool),
        (''maxAttendees'', put_given (EventInfo_maxAttendees m) number),
        (''hideLocationUntilRsvpApproved'', put_given (EventInfo_hideLocationUntilRsvpApproved m) JBool),
        (''defaultRsvpModeration'', put_given (EventInfo_defaultRsvpModeration m) (to_enum Moderation_numbers))]"

definition fromPartial_EventInfo :: "json \<Rightarrow> EventInfo result" where
  "fromPartial_EventInfo obj =
     read_fields
       [optional_field obj ''allowsRsvps'' as_bool EventInfo_allowsRsvps_update,
        optional_field obj ''allowsAnonymousRsvps'' as_bool EventInfo_allowsAnonymousRsvps_update,
        optional_field obj ''maxAttendees'' as_integer EventInfo_maxAttendees_update,
        optional_field obj ''hideLocationUntilRsvpApproved'' as_bool EventInfo_hideLocationUntilRsvpApproved_update,
        optional_field obj ''defaultRsvpModeration'' as_integer EventInfo_defaultRsvpModeration_update]
       base_EventInfo"

definition create_EventInfo :: "json option \<Rightarrow> EventInfo result" where
  "create_EventInfo = create_with fromPartial_EventInfo"

definition known_EventInfo :: "EventInfo \<Rightarrow> bool" where
  "known_EventInfo m \<longleftrightarrow>
     pred_option (known_enum Moderation_numbers) (EventInfo_defaultRsvpModeration m)"

lemma created_EventInfo: "create_EventInfo None = Inr base_EventInfo"
  by (simp add: create_EventInfo_def fromPartial_EventInfo_def base_EventInfo_def)

lemma toJSON_EventInfo_set [json_set]: "toJSON_EventInfo m \<noteq> JNull"
  by (simp add: toJSON_EventInfo_def)

lemma json_EventInfo [json_codecs]:
  assumes "known_EventInfo m"
  shows "fromJSON_EventInfo (toJSON_EventInfo m) = Inr m"
  unfolding fromJSON_EventInfo_def
proof (rule message_restored [OF toJSON_EventInfo_def [of m]])
  show "foldl (\<lambda>m u. u m) base_EventInfo
      [EventInfo_allowsRsvps_update (\<lambda>_. EventInfo_allowsRsvps m),
       EventInfo_allowsAnonymousRsvps_update (\<lambda>_. EventInfo_allowsAnonymousRsvps m),
       EventInfo_maxAttendees_update (\<lambda>_. EventInfo_maxAttendees m),
       EventInfo_hideLocationUntilRsvpApproved_update (\<lambda>_. EventInfo_hideLocationUntilRsvpApproved m),
       EventInfo_defaultRsvpModeration_update (\<lambda>_. EventInfo_defaultRsvpModeration m)] = m"
    by (cases m) (simp add: base_EventInfo_def)
qed (simp, insert assms [unfolded known_EventInfo_def], simp only: list.pred_inject prod.case, elim conjE, (rule json_fields | assumption | erule known_values
      | rule any_values comes_backI json_codecs json_set enum_proper)+)

section \<open>OccasionRsvpInfo\<close>

definition fromJSON_OccasionRsvpInfo :: "json \<Rightarrow> OccasionRsvpInfo result" where
  "fromJSON_OccasionRsvpInfo obj =
     read_fields
       [optional_field obj ''allowsRsvps'' js_Boolean OccasionRsvpInfo_allowsRsvps_update,
        optional_field obj ''allowsAnonymousRsvps'' js_Boolean OccasionRsvpInfo_allowsAnonymousRsvps_update,
        optional_field obj ''maxAttendees'' js_Integer OccasionRsvpInfo_maxAttendees_update,
        optional_field obj ''goingRsvps'' js_Integer OccasionRsvpInfo_goingRsvps_update,
        optional_field obj ''goingAttendees'' js_Integer OccasionRsvpInfo_goingAttendees_update,
        optional_field obj ''interestedRsvps'' js_Integer OccasionRsvpInfo_interestedRsvps_update,
        optional_field obj ''interestedAttendees'' js_Integer OccasionRsvpInfo_interestedAttendees_update,
        optional_field obj ''invitedRsvps'' js_Integer OccasionRsvpInfo_invitedRsvps_update,
        optional_field obj ''invitedAttendees'' js_Integer OccasionRsvpInfo_invitedAttendees_update]
       base_OccasionRsvpInfo"

definition toJSON_OccasionRsvpInfo :: "OccasionRsvpInfo \<Rightarrow> json" where
  "toJSON_OccasionRsvpInfo m =
     object_of
       [(''allowsRsvps'', put_given (OccasionRsvpInfo_allowsRsvps m) JBool),
        (''allowsAnonymousRsvps'', put_given (OccasionRsvpInfo_allowsAnonymousRsvps m) JBool),
        (''maxAttendees'', put_given (OccasionRsvpInfo_maxAttendees m) number),
        (''goingRsvps'', put_given (OccasionRsvpInfo_goingRsvps m) number),
        (''goingAttendees'', put_given (OccasionRsvpInfo_goingAttendees m) number),
        (''interestedRsvps'', put_given (OccasionRsvpInfo_interestedRsvps m) number),
        (''interestedAttendees'', put_given (OccasionRsvpInfo_interestedAttendees m) number),
        (''invitedRsvps'', put_given (OccasionRsvpInfo_invitedRsvps m) number),
        (''invitedAttendees'', put_given (OccasionRsvpInfo_invitedAttendees m) number)]"

definition fromPartial_OccasionRsvpInfo :: "json \<Rightarrow> OccasionRsvpInfo result" where
  "fromPartial_OccasionRsvpInfo obj =
     read_fields
       [optional_field obj ''allowsRsvps'' as_bool OccasionRsvpInfo_allowsRsvps_update,
        optional_field obj ''allowsAnonymousRsvps'' as_bool OccasionRsvpInfo_allowsAnonymousRsvps_update,
        optional_field obj ''maxAttendees'' as_integer OccasionRsvpInfo_maxAttendees_update,
        optional_field obj ''goingRsvps'' as_integer OccasionRsvpInfo_goingRsvps_update,
        optional_field obj ''goingAttendees'' as_integer OccasionRsvpInfo_goingAttendees_update,
        optional_field obj ''interestedRsvps'' as_integer OccasionRsvpInfo_interestedRsvps_update,
        optional_field obj ''interestedAttendees'' as_integer OccasionRsvpInfo_interestedAttendees_update,
        optional_field obj ''invitedRsvps'' as_integer OccasionRsvpInfo_invitedRsvps_update,
        optional_field obj ''invitedAttendees'' as_integer OccasionRsvpInfo_invitedAttendees_update]
       base_OccasionRsvpInfo"

definition create_OccasionRsvpInfo :: "json option \<Rightarrow> OccasionRsvpInfo result" where
  "create_OccasionRsvpInfo = create_with fromPartial_OccasionRsvpInfo"

lemma created_OccasionRsvpInfo: "create_OccasionRsvpInfo None = Inr base_OccasionRsvpInfo"
  by (simp add: create_OccasionRsvpInfo_def fromPartial_OccasionRsvpInfo_def base_OccasionRsvpInfo_def)

lemma toJSON_OccasionRsvpInfo_set [json_set]: "toJSON_OccasionRsvpInfo m \<noteq> JNull"
  by (simp add: toJSON_OccasionRsvpInfo_def)

lemma json_OccasionRsvpInfo [json_codecs]:
  "fromJSON_OccasionRsvpInfo (toJSON_OccasionRsvpInfo m) = Inr m"
  unfolding fromJSON_OccasionRsvpInfo_def
proof (rule message_restored [OF toJSON_OccasionRsvpInfo_def [of m]])
  show "foldl (\<lambda>m u. u m) base_OccasionRsvpInfo
      [OccasionRsvpInfo_allowsRsvps_update (\<lambda>_. OccasionRsvpInfo_allowsRsvps m),
       OccasionRsvpInfo_allowsAnonymousRsvps_update (\<lambda>_. OccasionRsvpInfo_allowsAnonymousRsvps m),
       OccasionRsvpInfo_maxAttendees_update (\<lambda>_. OccasionRsvpInfo_maxAttendees m),
       OccasionRsvpInfo_goingRsvps_update (\<lambda>_. OccasionRsvpInfo_goingRsvps m),
       OccasionRsvpInfo_goingAttendees_update (\<lambda>_. OccasionRsvpInfo_goingAttendees m),
       OccasionRsvpInfo_interestedRsvps_update (\<lambda>_. OccasionRsvpInfo_interestedRsvps m),
       OccasionRsvpInfo_interestedAttendees_update (\<lambda>_. OccasionRsvpInfo_interestedAttendees m),
       OccasionRsvpInfo_invitedRsvps_update (\<lambda>_. OccasionRsvpInfo_invitedRsvps m),
       OccasionRsvpInfo_invitedAttendees_update (\<lambda>_. OccasionRsvpInfo_invitedAttendees m)] = m"
    by (cases m) (simp add: base_OccasionRsvpInfo_def)
qed (simp, simp only: list.pred_inject prod.case, elim conjE, (rule json_fields | assumption | erule known_values
      | rule any_values comes_backI json_codecs json_set enum_proper)+)

section \<open>OccasionInfo\<close>

definition fromJSON_OccasionInfo :: "json \<Rightarrow> OccasionInfo result" where
  "fromJSON_OccasionInfo obj =
     read_fields
       [optional_field obj ''rsvpInfo'' fromJSON_OccasionRsvpInfo OccasionInfo_rsvpInfo_update]
       base_OccasionInfo"

definition toJSON_OccasionInfo :: "OccasionInfo \<Rightarrow> json" where
  "toJSON_OccasionInfo m =
     object_of
       [(''rsvpInfo'', put_given (OccasionInfo_rsvpInfo m) toJSON_OccasionRsvpInfo)]"

definition fromPartial_OccasionInfo :: "json \<Rightarrow> OccasionInfo result" where
  "fromPartial_OccasionInfo obj =
     read_fields
       [optional_field obj ''rsvpInfo'' fromPartial_OccasionRsvpInfo OccasionInfo_rsvpInfo_update]
       base_OccasionInfo"

definition create_OccasionInfo :: "json option \<Rightarrow> OccasionInfo result" where
  "create_OccasionInfo = create_with fromPartial_OccasionInfo"

lemma created_OccasionInfo: "create_OccasionInfo None = Inr base_OccasionInfo"
  by (simp add: create_OccasionInfo_def fromPartial_OccasionInfo_def base_OccasionInfo_def)

lemma toJSON_OccasionInfo_set [json_set]: "toJSON_OccasionInfo m \<noteq> JNull"
  by (simp add: toJSON_OccasionInfo_def)

lemma json_OccasionInfo [json_codecs]:
  "fromJSON_OccasionInfo (toJSON_OccasionInfo m) = Inr m"
  unfolding fromJSON_OccasionInfo_def
proof (rule message_restored [OF toJSON_OccasionInfo_def [of m]])
  show "foldl (\<lambda>m u. u m) base_OccasionInfo
      [OccasionInfo_rsvpInfo_update (\<lambda>_. OccasionInfo_rsvpInfo m)] = m"
    by (cases m) (simp add: base_OccasionInfo_def)
qed (simp, simp only: list.pred_inject prod.case, elim conjE, (rule json_fields | assumption | erule known_values
      | rule any_values comes_backI json_codecs json_set enum_proper)+)

section \<open>AnonymousAttendee\<close>

definition fromJSON_AnonymousAttendee :: "json \<Rightarrow> AnonymousAttendee result" where
  "fromJSON_AnonymousAttendee obj =
     read_fields
       [plain_field obj ''name'' js_String [] AnonymousAttendee_name_update,
        list_field obj ''contactMethods'' fromJSON_ContactMethod AnonymousAttendee_contactMethods_update,
        optional_field obj ''authToken'' js_String AnonymousAttendee_authToken_update]
       base_AnonymousAttendee"

definition toJSON_AnonymousAttendee :: "AnonymousAttendee \<Rightarrow> json" where
  "toJSON_AnonymousAttendee m =
     object_of
       [(''name'', put_when (AnonymousAttendee_name m \<noteq> []) (JStr (AnonymousAttendee_name m))),
        (''contactMethods'', put_list (AnonymousAttendee_contactMethods m) toJSON_ContactMethod),
        (''authToken'', put_given (AnonymousAttendee_authToken m) JStr)]"

definition fromPartial_AnonymousAttendee :: "json \<Rightarrow> AnonymousAttendee result" where
  "fromPartial_AnonymousAttendee obj =
     read_fields
       [plain_field obj ''name'' as_string [] AnonymousAttendee_name_update,
        mapped_field obj ''contactMethods'' fromPartial_ContactMethod AnonymousAttendee_contactMethods_update,
        optional_field obj ''authToken'' as_string AnonymousAttendee_authToken_update]
       base_AnonymousAttendee"

definition create_AnonymousAttendee :: "json option \<Rightarrow> AnonymousAttendee result" where
  "create_AnonymousAttendee = create_with fromPartial_AnonymousAttendee"

definition known_AnonymousAttendee :: "AnonymousAttendee \<Rightarrow> bool" where
  "known_AnonymousAttendee m \<longleftrightarrow>
     list_all known_ContactMethod (AnonymousAttendee_contactMethods m)"

lemma created_AnonymousAttendee: "create_AnonymousAttendee None = Inr base_AnonymousAttendee"
  by (simp add: create_AnonymousAttendee_def fromPartial_AnonymousAttendee_def base_AnonymousAttendee_def)

lemma toJSON_AnonymousAttendee_set [json_set]: "toJSON_AnonymousAttendee m \<noteq> JNull"
  by (simp add: toJSON_AnonymousAttendee_def)

lemma json_AnonymousAttendee [json_codecs]:
  assumes "known_AnonymousAttendee m"
  shows "fromJSON_AnonymousAttendee (toJSON_AnonymousAttendee m) = Inr m"
  unfolding fromJSON_AnonymousAttendee_def
proof (rule message_restored [OF toJSON_AnonymousAttendee_def [of m]])
  show "foldl (\<lambda>m u. u m) base_AnonymousAttendee
      [AnonymousAttendee_name_update (\<lambda>_. AnonymousAttendee_name m),
       AnonymousAttendee_contactMethods_update (\<lambda>_. AnonymousAttendee_contactMethods m),
       AnonymousAttendee_authToken_update (\<lambda>_. AnonymousAttendee_authToken m)] = m"
    by (cases m) (simp add: base_AnonymousAttendee_def)
qed (simp, insert assms [unfolded known_AnonymousAttendee_def], simp only: list.pred_inject prod.case, elim conjE, (rule json_fields | assumption | erule known_values
      | rule any_values comes_backI json_codecs json_set enum_proper)+)

section \<open>UserAttendee\<close>

definition fromJSON_UserAttendee :: "json \<Rightarrow> UserAttendee result" where
  "fromJSON_UserAttendee obj =
     read_fields
       [plain_field obj ''userId'' js_String [] UserAttendee_userId_update,
        optional_field obj ''username'' js_String UserAttendee_username_update,
        optional_field obj ''avatar'' fromJSON_MediaReference UserAttendee_avatar_update,
        optional_field obj ''realName'' js_String UserAttendee_realName_update,
        list_field obj ''permissions'' (from_enum Permission_numbers) UserAttendee_permissions_update]
       base_UserAttendee"

definition toJSON_UserAttendee :: "UserAttendee \<Rightarrow> json" where
  "toJSON_UserAttendee m =
     object_of
       [(''userId'', put_when (UserAttendee_userId m \<noteq> []) (JStr (UserAttendee_userId m))),
        (''username'', put_given (UserAttendee_username m) JStr),
        (''avatar'', put_given (UserAttendee_avatar m) toJSON_MediaReference),
        (''realName'', put_given (UserAttendee_realName m) JStr),
        (''permissions'', put_list (UserAttendee_permissions m) (to_enum Permission_numbers))]"

definition fromPartial_UserAttendee :: "json \<Rightarrow> UserAttendee result" where
  "fromPartial_UserAttendee obj =
     read_fields
       [plain_field obj ''userId'' as_string [] UserAttendee_userId_update,
        optional_field obj ''username'' as_string UserAttendee_username_update,
        optional_field obj ''avatar'' fromPartial_MediaReference UserAttendee_avatar_update,
        optional_field obj ''realName'' as_string UserAttendee_realName_update,
        mapped_field obj ''permissions'' as_integer UserAttendee_permissions_update]
       base_UserAttendee"

definition create_UserAttendee :: "json option \<Rightarrow> UserAttendee result" where
  "create_UserAttendee = create_with fromPartial_UserAttendee"

definition known_UserAttendee :: "UserAttendee \<Rightarrow> bool" where
  "known_UserAttendee m \<longleftrightarrow>
     pred_option known_MediaReference (UserAttendee_avatar m) \<and>
     list_all (known_enum Permission_numbers) (UserAttendee_permissions m)"

lemma created_UserAttendee: "create_UserAttendee None = Inr base_UserAttendee"
  by (simp add: create_UserAttendee_def fromPartial_UserAttendee_def base_UserAttendee_def)

lemma toJSON_UserAttendee_set [json_set]: "toJSON_UserAttendee m \<noteq> JNull"
  by (simp add: toJSON_UserAttendee_def)

lemma json_UserAttendee [json_codecs]:
  assumes "known_UserAttendee m"
  shows "fromJSON_UserAttendee (toJSON_UserAttendee m) = Inr m"
  unfolding fromJSON_UserAttendee_def
proof (rule message_restored [OF toJSON_UserAttendee_def [of m]])
  show "foldl (\<lambda>m u. u m) base_UserAttendee
      [UserAttendee_userId_update (\<lambda>_. UserAttendee_userId m),
       UserAttendee_username_update (\<lambda>_. UserAttendee_username m),
       UserAttendee_avatar_update (\<lambda>_. UserAttendee_avatar m),
       UserAttendee_realName_update (\<lambda>_. UserAttendee_realName m),
       UserAttendee_permissions_update (\<lambda>_. UserAttendee_permissions m)] = m"
    by (cases m) (simp add: base_UserAttendee_def)
qed (simp, insert assms [unfolded known_UserAttendee_def], simp only: list.pred_inject prod.case, elim conjE, (rule json_fields | assumption | erule known_values
      | rule any_values comes_backI json_codecs json_set enum_proper)+)

section \<open>Rsvp\<close>

definition fromJSON_Rsvp :: "json \<Rightarrow> Rsvp result" where
  "fromJSON_Rsvp obj =
     read_fields
       [plain_field obj ''id'' js_String [] Rsvp_id_update,
        plain_field obj ''occasionId'' js_String [] Rsvp_occasionId_update,
        optional_field obj ''userAttendee'' fromJSON_UserAttendee Rsvp_userAttendee_update,
        optional_field obj ''anonymousAttendee'' fromJSON_AnonymousAttendee Rsvp_anonymousAttendee_update,
        plain_field obj ''numberOfGuests'' js_Integer 0 Rsvp_numberOfGuests_update,
        plain_field obj ''status'' (from_enum RsvpStatus_numbers) 0 Rsvp_status_update,
        optional_field obj ''invitingUserId'' js_String Rsvp_invitingUserId_update,
        plain_field obj ''privateNote'' js_String [] Rsvp_privateNote_update,
        plain_field obj ''publicNote'' js_String [] Rsvp_publicNote_update,
        plain_field obj ''moderation'' (from_enum Moderation_numbers) 0 Rsvp_moderation_update,
        optional_field obj ''createdAt'' js_String Rsvp_createdAt_update,
        optional_field obj ''updatedAt'' js_String Rsvp_updatedAt_update]
       base_Rsvp"

definition toJSON_Rsvp :: "Rsvp \<Rightarrow> json" where
  "toJSON_Rsvp m =
     object_of
       [(''id'', put_when (Rsvp_id m \<noteq> []) (JStr (Rsvp_id m))),
        (''occasionId'', put_when (Rsvp_occasionId m \<noteq> []) (JStr (Rsvp_occasionId m))),
        (''userAttendee'', put_given (Rsvp_userAttendee m) toJSON_UserAttendee),
        (''anonymousAttendee'', put_given (Rsvp_anonymousAttendee m) toJSON_AnonymousAttendee),
        (''numberOfGuests'', put_when (Rsvp_numberOfGuests m \<noteq> 0) (number (Rsvp_numberOfGuests m))),
        (''status'', put_when (Rsvp_status m \<noteq> 0) ((to_enum RsvpStatus_numbers) (Rsvp_status m))),
        (''invitingUserId'', put_given (Rsvp_invitingUserId m) JStr),
        (''privateNote'', put_when (Rsvp_privateNote m \<noteq> []) (JStr (Rsvp_privateNote m))),
        (''publicNote'', put_when (Rsvp_publicNote m \<noteq> []) (JStr (Rsvp_publicNote m))),
        (''moderation'', put_when (Rsvp_moderation m \<noteq> 0) ((to_enum Moderation_numbers) (Rsvp_moderation m))),
        (''createdAt'', put_given (Rsvp_createdAt m) JStr),
        (''updatedAt'', put_given (Rsvp_updatedAt m) JStr)]"

definition fromPartial_Rsvp :: "json \<Rightarrow> Rsvp result" where
  "fromPartial_Rsvp obj =
     read_fields
       [plain_field obj ''id'' as_string [] Rsvp_id_update,
        plain_field obj ''occasionId'' as_string [] Rsvp_occasionId_update,
        optional_field obj ''userAttendee'' fromPartial_UserAttendee Rsvp_userAttendee_update,
        optional_field obj ''anonymousAttendee'' fromPartial_AnonymousAttendee Rsvp_anonymousAttendee_update,
        plain_field obj ''numberOfGuests'' as_integer 0 Rsvp_numberOfGuests_update,
        plain_field obj ''status'' as_integer 0 Rsvp_status_update,
        optional_field obj ''invitingUserId'' as_string Rsvp_invitingUserId_update,
        plain_field obj ''privateNote'' as_string [] Rsvp_privateNote_update,
        plain_field obj ''publicNote'' as_string [] Rsvp_publicNote_update,
        plain_field obj ''moderation'' as_integer 0 Rsvp_moderation_update,
        optional_field obj ''createdAt'' as_string Rsvp_createdAt_update,
        optional_field obj ''updatedAt'' as_string Rsvp_updatedAt_update]
       base_Rsvp"

definition create_Rsvp :: "json option \<Rightarrow> Rsvp result" where
  "create_Rsvp = create_with fromPartial_Rsvp"

definition known_Rsvp :: "Rsvp \<Rightarrow> bool" where
  "known_Rsvp m \<longleftrightarrow>
     pred_option known_UserAttendee (Rsvp_userAttendee m) \<and>
     pred_option known_AnonymousAttendee (Rsvp_anonymousAttendee m) \<and>
     known_enum RsvpStatus_numbers (Rsvp_status m) \<and>
     known_enum Moderation_numbers (Rsvp_moderation m)"

lemma created_Rsvp: "create_Rsvp None = Inr base_Rsvp"
  by (simp add: create_Rsvp_def fromPartial_Rsvp_def base_Rsvp_def)

lemma toJSON_Rsvp_set [json_set]: "toJSON_Rsvp m \<noteq> JNull"
  by (simp add: toJSON_Rsvp_def)

lemma json_Rsvp [json_codecs]:
  assumes "known_Rsvp m"
  shows "fromJSON_Rsvp (toJSON_Rsvp m) = Inr m"
  unfolding fromJSON_Rsvp_def
proof (rule message_restored [OF toJSON_Rsvp_def [of m]])
  show "foldl (\<lambda>m u. u m) base_Rsvp
      [Rsvp_id_update (\<lambda>_. Rsvp_id m),
       Rsvp_occasionId_update (\<lambda>_. Rsvp_occasionId m),
       Rsvp_userAttendee_update (\<lambda>_. Rsvp_userAttendee m),
       Rsvp_anonymousAttendee_update (\<lambda>_. Rsvp_anonymousAttendee m),
       Rsvp_numberOfGuests_update (\<lambda>_. Rsvp_numberOfGuests m),
       Rsvp_status_update (\<lambda>_. Rsvp_status m),
       Rsvp_invitingUserId_update (\<lambda>_. Rsvp_invitingUserId m),
       Rsvp_privateNote_update (\<lambda>_. Rsvp_privateNote m),
       Rsvp_publicNote_update (\<lambda>_. Rsvp_publicNote m),
       Rsvp_moderation_update (\<lambda>_. Rsvp_moderation m),
       Rsvp_createdAt_update (\<lambda>_. Rsvp_createdAt m),
       Rsvp_updatedAt_update (\<lambda>_. Rsvp_updatedAt m)] = m"
    by (cases m) (simp add: base_Rsvp_def)
qed (simp, insert assms [unfolded known_Rsvp_def], simp only: list.pred_inject prod.case, elim conjE, (rule json_fields | assumption | erule known_values
      | rule any_values comes_backI json_codecs json_set enum_proper)+)

section \<open>Rsvps\<close>

definition fromJSON_Rsvps :: "json \<Rightarrow> Rsvps result" where
  "fromJSON_Rsvps obj =
     read_fields
       [list_field obj ''rsvps'' fromJSON_Rsvp Rsvps_rsvps_update,
        optional_field obj ''hiddenLocation'' fromJSON_Location Rsvps_hiddenLocation_update,
        plain_field obj ''goingCount'' js_Integer 0 Rsvps_goingCount_update,
        plain_field obj ''goingAttendees'' js_Integer 0 Rsvps_goingAttendees_update,
        plain_field obj ''interestedCount'' js_Integer 0 Rsvps_interestedCount_update,
        plain_field obj ''interestedAttendees'' js_Integer 0 Rsvps_interestedAttendees_update,
        plain_field obj ''requestedCount'' js_Integer 0 Rsvps_requestedCount_update,
        plain_field obj ''requestedAttendees'' js_Integer 0 Rsvps_requestedAttendees_update,
        plain_field obj ''notGoingCount'' js_Integer 0 Rsvps_notGoingCount_update,
        plain_field obj ''notGoingAttendees'' js_Integer 0 Rsvps_notGoingAttendees_update,
        plain_field obj ''pendingCount'' js_Integer 0 Rsvps_pendingCount_update,
        plain_field obj ''pendingAttendees'' js_Integer 0 Rsvps_pendingAttendees_update]
       base_Rsvps"

definition toJSON_Rsvps :: "Rsvps \<Rightarrow> json" where
  "toJSON_Rsvps m =
     object_of
       [(''rsvps'', put_list (Rsvps_rsvps m) toJSON_Rsvp),
        (''hiddenLocation'', put_given (Rsvps_hiddenLocation m) toJSON_Location),
        (''goingCount'', put_when (Rsvps_goingCount m \<noteq> 0) (number (Rsvps_goingCount m))),
        (''goingAttendees'', put_when (Rsvps_goingAttendees m \<noteq> 0) (number (Rsvps_goingAttendees m))),
        (''interestedCount'', put_when (Rsvps_interestedCount m \<noteq> 0) (number (Rsvps_interestedCount m))),
        (''interestedAttendees'', put_when (Rsvps_interestedAttendees m \<noteq> 0) (number (Rsvps_interestedAttendees m))),
        (''requestedCount'', put_when (Rsvps_requestedCount m \<noteq> 0) (number (Rsvps_requestedCount m))),
        (''requestedAttendees'', put_when (Rsvps_requestedAttendees m \<noteq> 0) (number (Rsvps_requestedAttendees m))),
        (''notGoingCount'', put_when (Rsvps_notGoingCount m \<noteq> 0) (number (Rsvps_notGoingCount m))),
        (''notGoingAttendees'', put_when (Rsvps_notGoingAttendees m \<noteq> 0) (number (Rsvps_notGoingAttendees m))),
        (''pendingCount'', put_when (Rsvps_pendingCount m \<noteq> 0) (number (Rsvps_pendingCount m))),
        (''pendingAttendees'', put_when (Rsvps_pendingAttendees m \<noteq> 0) (number (Rsvps_pendingAttendees m)))]"

definition fromPartial_Rsvps :: "json \<Rightarrow> Rsvps result" where
  "fromPartial_Rsvps obj =
     read_fields
       [mapped_field obj ''rsvps'' fromPartial_Rsvp Rsvps_rsvps_update,
        optional_field obj ''hiddenLocation'' fromPartial_Location Rsvps_hiddenLocation_update,
        plain_field obj ''goingCount'' as_integer 0 Rsvps_goingCount_update,
        plain_field obj ''goingAttendees'' as_integer 0 Rsvps_goingAttendees_update,
        plain_field obj ''interestedCount'' as_integer 0 Rsvps_interestedCount_update,
        plain_field obj ''interestedAttendees'' as_integer 0 Rsvps_interestedAttendees_update,
        plain_field obj ''requestedCount'' as_integer 0 Rsvps_requestedCount_update,
        plain_field obj ''requestedAttendees'' as_integer 0 Rsvps_requestedAttendees_update,
        plain_field obj ''notGoingCount'' as_integer 0 Rsvps_notGoingCount_update,
        plain_field obj ''notGoingAttendees'' as_integer 0 Rsvps_notGoingAttendees_update,
        plain_field obj ''pendingCount'' as_integer 0 Rsvps_pendingCount_update,
        plain_field obj ''pendingAttendees'' as_integer 0 Rsvps_pendingAttendees_update]
       base_Rsvps"

definition create_Rsvps :: "json option \<Rightarrow> Rsvps result" where
  "create_Rsvps = create_with fromPartial_Rsvps"

definition known_Rsvps :: "Rsvps \<Rightarrow> bool" where
  "known_Rsvps m \<longleftrightarrow>
     list_all known_Rsvp (Rsvps_rsvps m)"

lemma created_Rsvps: "create_Rsvps None = Inr base_Rsvps"
  by (simp add: create_Rsvps_def fromPartial_Rsvps_def base_Rsvps_def)

lemma toJSON_Rsvps_set [json_set]: "toJSON_Rsvps m \<noteq> JNull"
  by (simp add: toJSON_Rsvps_def)

lemma json_Rsvps [json_codecs]:
  assumes "known_Rsvps m"
  shows "fromJSON_Rsvps (toJSON_Rsvps m) = Inr m"
  unfolding fromJSON_Rsvps_def
proof (rule message_restored [OF toJSON_Rsvps_def [of m]])
  show "foldl (\<lambda>m u. u m) base_Rsvps
      [Rsvps_rsvps_update (\<lambda>_. Rsvps_rsvps m),
       Rsvps_hiddenLocation_update (\<lambda>_. Rsvps_hiddenLocation m),
       Rsvps_goingCount_update (\<lambda>_. Rsvps_goingCount m),
       Rsvps_goingAttendees_update (\<lambda>_. Rsvps_goingAttendees m),
       Rsvps_interestedCount_update (\<lambda>_. Rsvps_interestedCount m),
       Rsvps_interestedAttendees_update (\<lambda>_. Rsvps_interestedAttendees m),
       Rsvps_requestedCount_update (\<lambda>_. Rsvps_requestedCount m),
       Rsvps_requestedAttendees_update (\<lambda>_. Rsvps_requestedAttendees m),
       Rsvps_notGoingCount_update (\<lambda>_. Rsvps_notGoingCount m),
       Rsvps_notGoingAttendees_update (\<lambda>_. Rsvps_notGoingAttendees m),
       Rsvps_pendingCount_update (\<lambda>_. Rsvps_pendingCount m),
       Rsvps_pendingAttendees_update (\<lambda>_. Rsvps_pendingAttendees m)] = m"
    by (cases m) (simp add: base_Rsvps_def)
qed (simp, insert assms [unfolded known_Rsvps_def], simp only: list.pred_inject prod.case, elim conjE, (rule json_fields | assumption | erule known_values
      | rule any_values comes_backI json_codecs json_set enum_proper)+)

section \<open>Occasion\<close>

definition fromJSON_Occasion :: "json \<Rightarrow> Occasion result" where
  "fromJSON_Occasion obj =
     read_fields
       [plain_field obj ''eventId'' js_String [] Occasion_eventId_update,
        optional_field obj ''post'' fromJSON_Post Occasion_post_update,
        optional_field obj ''info'' fromJSON_OccasionInfo Occasion_info_update,
        optional_field obj ''startsAt'' js_String Occasion_startsAt_update,
        optional_field obj ''endsAt'' js_String Occasion_endsAt_update,
        optional_field obj ''location'' fromJSON_Location Occasion_location_update,
        optional_field obj ''syncMissingSince'' js_String Occasion_syncMissingSince_update,
        optional_field obj ''rsvps'' fromJSON_Rsvps Occasion_rsvps_update,
        optional_field obj ''currentUserRsvp'' fromJSON_Rsvp Occasion_currentUserRsvp_update,
        list_field obj ''syncDestinations'' fromJSON_SyncDestinationStatus Occasion_syncDestinations_update,
        optional_field obj ''timezone'' js_String Occasion_timezone_update]
       base_Occasion"

definition toJSON_Occasion :: "Occasion \<Rightarrow> json" where
  "toJSON_Occasion m =
     object_of
       [(''eventId'', put_when (Occasion_eventId m \<noteq> []) (JStr (Occasion_eventId m))),
        (''post'', put_given (Occasion_post m) toJSON_Post),
        (''info'', put_given (Occasion_info m) toJSON_OccasionInfo),
        (''startsAt'', put_given (Occasion_startsAt m) JStr),
        (''endsAt'', put_given (Occasion_endsAt m) JStr),
        (''location'', put_given (Occasion_location m) toJSON_Location),
        (''syncMissingSince'', put_given (Occasion_syncMissingSince m) JStr),
        (''rsvps'', put_given (Occasion_rsvps m) toJSON_Rsvps),
        (''currentUserRsvp'', put_given (Occasion_currentUserRsvp m) toJSON_Rsvp),
        (''syncDestinations'', put_list (Occasion_syncDestinations m) toJSON_SyncDestinationStatus),
        (''timezone'', put_given (Occasion_timezone m) JStr)]"

definition fromPartial_Occasion :: "json \<Rightarrow> Occasion result" where
  "fromPartial_Occasion obj =
     read_fields
       [plain_field obj ''eventId'' as_string [] Occasion_eventId_update,
        optional_field obj ''post'' fromPartial_Post Occasion_post_update,
        optional_field obj ''info'' fromPartial_OccasionInfo Occasion_info_update,
        optional_field obj ''startsAt'' as_string Occasion_startsAt_update,
        optional_field obj ''endsAt'' as_string Occasion_endsAt_update,
        optional_field obj ''location'' fromPartial_Location Occasion_location_update,
        optional_field obj ''syncMissingSince'' as_string Occasion_syncMissingSince_update,
        optional_field obj ''rsvps'' fromPartial_Rsvps Occasion_rsvps_update,
        optional_field obj ''currentUserRsvp'' fromPartial_Rsvp Occasion_currentUserRsvp_update,
        mapped_field obj ''syncDestinations'' fromPartial_SyncDestinationStatus Occasion_syncDestinations_update,
        optional_field obj ''timezone'' as_string Occasion_timezone_update]
       base_Occasion"

definition create_Occasion :: "json option \<Rightarrow> Occasion result" where
  "create_Occasion = create_with fromPartial_Occasion"

definition known_Occasion :: "Occasion \<Rightarrow> bool" where
  "known_Occasion m \<longleftrightarrow>
     pred_option known_Post (Occasion_post m) \<and>
     pred_option known_Rsvps (Occasion_rsvps m) \<and>
     pred_option known_Rsvp (Occasion_currentUserRsvp m)"

lemma created_Occasion: "create_Occasion None = Inr base_Occasion"
  by (simp add: create_Occasion_def fromPartial_Occasion_def base_Occasion_def)

lemma toJSON_Occasion_set [json_set]: "toJSON_Occasion m \<noteq> JNull"
  by (simp add: toJSON_Occasion_def)

lemma json_Occasion [json_codecs]:
  assumes "known_Occasion m"
  shows "fromJSON_Occasion (toJSON_Occasion m) = Inr m"
  unfolding fromJSON_Occasion_def
proof (rule message_restored [OF toJSON_Occasion_def [of m]])
  show "foldl (\<lambda>m u. u m) base_Occasion
      [Occasion_eventId_update (\<lambda>_. Occasion_eventId m),
       Occasion_post_update (\<lambda>_. Occasion_post m),
       Occasion_info_update (\<lambda>_. Occasion_info m),
       Occasion_startsAt_update (\<lambda>_. Occasion_startsAt m),
       Occasion_endsAt_update (\<lambda>_. Occasion_endsAt m),
       Occasion_location_update (\<lambda>_. Occasion_location m),
       Occasion_syncMissingSince_update (\<lambda>_. Occasion_syncMissingSince m),
       Occasion_rsvps_update (\<lambda>_. Occasion_rsvps m),
       Occasion_currentUserRsvp_update (\<lambda>_. Occasion_currentUserRsvp m),
       Occasion_syncDestinations_update (\<lambda>_. Occasion_syncDestinations m),
       Occasion_timezone_update (\<lambda>_. Occasion_timezone m)] = m"
    by (cases m) (simp add: base_Occasion_def)
qed (simp, insert assms [unfolded known_Occasion_def], simp only: list.pred_inject prod.case, elim conjE, (rule json_fields | assumption | erule known_values
      | rule any_values comes_backI json_codecs json_set enum_proper)+)

section \<open>Event\<close>

definition fromJSON_Event :: "json \<Rightarrow> Event result" where
  "fromJSON_Event obj =
     read_fields
       [optional_field obj ''post'' fromJSON_Post Event_post_update,
        optional_field obj ''info'' fromJSON_EventInfo Event_info_update,
        list_field obj ''occasions'' fromJSON_Occasion Event_occasions_update,
        plain_field obj ''occasionCount'' js_Integer 0 Event_occasionCount_update]
       base_Event"

definition toJSON_Event :: "Event \<Rightarrow> json" where
  "toJSON_Event m =
     object_of
       [(''post'', put_given (Event_post m) toJSON_Post),
        (''info'', put_given (Event_info m) toJSON_EventInfo),
        (''occasions'', put_list (Event_occasions m) toJSON_Occasion),
        (''occasionCount'', put_when (Event_occasionCount m \<noteq> 0) (number (Event_occasionCount m)))]"

definition fromPartial_Event :: "json \<Rightarrow> Event result" where
  "fromPartial_Event obj =
     read_fields
       [optional_field obj ''post'' fromPartial_Post Event_post_update,
        optional_field obj ''info'' fromPartial_EventInfo Event_info_update,
        mapped_field obj ''occasions'' fromPartial_Occasion Event_occasions_update,
        plain_field obj ''occasionCount'' as_integer 0 Event_occasionCount_update]
       base_Event"

definition create_Event :: "json option \<Rightarrow> Event result" where
  "create_Event = create_with fromPartial_Event"

definition known_Event :: "Event \<Rightarrow> bool" where
  "known_Event m \<longleftrightarrow>
     pred_option known_Post (Event_post m) \<and>
     pred_option known_EventInfo (Event_info m) \<and>
     list_all known_Occasion (Event_occasions m)"

lemma created_Event: "create_Event None = Inr base_Event"
  by (simp add: create_Event_def fromPartial_Event_def base_Event_def)

lemma toJSON_Event_set [json_set]: "toJSON_Event m \<noteq> JNull"
  by (simp add: toJSON_Event_def)

lemma json_Event [json_codecs]:
  assumes "known_Event m"
  shows "fromJSON_Event (toJSON_Event m) = Inr m"
  unfolding fromJSON_Event_def
proof (rule message_restored [OF toJSON_Event_def [of m]])
  show "foldl (\<lambda>m u. u m) base_Event
      [Event_post_update (\<lambda>_. Event_post m),
       Event_info_update (\<lambda>_. Event_info m),
       Event_occasions_update (\<lambda>_. Event_occasions m),
       Event_occasionCount_update (\<lambda>_. Event_occasionCount m)] = m"
    by (cases m) (simp add: base_Event_def)
qed (simp, insert assms [unfolded known_Event_def], simp only: list.pred_inject prod.case, elim conjE, (rule json_fields | assumption | erule known_values
      | rule any_values comes_backI json_codecs json_set enum_proper)+)

section \<open>GetEventsResponse\<close>

definition fromJSON_GetEventsResponse :: "json \<Rightarrow> GetEventsResponse result" where
  "fromJSON_GetEventsResponse obj =
     read_fields
       [list_field obj ''events'' fromJSON_Event GetEventsResponse_events_update]
       base_GetEventsResponse"

definition toJSON_GetEventsResponse :: "GetEventsResponse \<Rightarrow> json" where
  "toJSON_GetEventsResponse m =
     object_of
       [(''events'', put_list (GetEventsResponse_events m) toJSON_Event)]"

definition fromPartial_GetEventsResponse :: "json \<Rightarrow> GetEventsResponse result" where
  "fromPartial_GetEventsResponse obj =
     read_fields
       [mapped_field obj ''events'' fromPartial_Event GetEventsResponse_events_update]
       base_GetEventsResponse"

definition create_GetEventsResponse :: "json option \<Rightarrow> GetEventsResponse result" where
  "create_GetEventsResponse = create_with fromPartial_GetEventsResponse"

definition known_GetEventsResponse :: "GetEventsResponse \<Rightarrow> bool" where
  "known_GetEventsResponse m \<longleftrightarrow>
     list_all known_Event (GetEventsResponse_events m)"

lemma created_GetEventsResponse: "create_GetEventsResponse None = Inr base_GetEventsResponse"
  by (simp add: create_GetEventsResponse_def fromPartial_GetEventsResponse_def base_GetEventsResponse_def)

lemma toJSON_GetEventsResponse_set [json_set]: "toJSON_GetEventsResponse m \<noteq> JNull"
  by (simp add: toJSON_GetEventsResponse_def)

lemma json_GetEventsResponse [json_codecs]:
  assumes "known_GetEventsResponse m"
  shows "fromJSON_GetEventsResponse (toJSON_GetEventsResponse m) = Inr m"
  unfolding fromJSON_GetEventsResponse_def
proof (rule message_restored [OF toJSON_GetEventsResponse_def [of m]])
  show "foldl (\<lambda>m u. u m) base_GetEventsResponse
      [GetEventsResponse_events_update (\<lambda>_. GetEventsResponse_events m)] = m"
    by (cases m) (simp add: base_GetEventsResponse_def)
qed (simp, insert assms [unfolded known_GetEventsResponse_def], simp only: list.pred_inject prod.case, elim conjE, (rule json_fields | assumption | erule known_values
      | rule any_values comes_backI json_codecs json_set enum_proper)+)

section \<open>SyncOccasionRequest\<close>

definition fromJSON_SyncOccasionRequest :: "json \<Rightarrow> SyncOccasionRequest result" where
  "fromJSON_SyncOccasionRequest obj =
     read_fields
       [plain_field obj ''occasionId'' js_String [] SyncOccasionRequest_occasionId_update,
        plain_field obj ''syncDestinationId'' js_String [] SyncOccasionRequest_syncDestinationId_update]
       base_SyncOccasionRequest"

definition toJSON_SyncOccasionRequest :: "SyncOccasionRequest \<Rightarrow> json" where
  "toJSON_SyncOccasionRequest m =
     object_of
       [(''occasionId'', put_when (SyncOccasionRequest_occasionId m \<noteq> []) (JStr (SyncOccasionRequest_occasionId m))),
        (''syncDestinationId'', put_when (SyncOccasionRequest_syncDestinationId m \<noteq> []) (JStr (SyncOccasionRequest_syncDestinationId m)))]"

definition fromPartial_SyncOccasionRequest :: "json \<Rightarrow> SyncOccasionRequest result" where
  "fromPartial_SyncOccasionRequest obj =
     read_fields
       [plain_field obj ''occasionId'' as_string [] SyncOccasionRequest_occasionId_update,
        plain_field obj ''syncDestinationId'' as_string [] SyncOccasionRequest_syncDestinationId_update]
       base_SyncOccasionRequest"

definition create_SyncOccasionRequest :: "json option \<Rightarrow> SyncOccasionRequest result" where
  "create_SyncOccasionRequest = create_with fromPartial_SyncOccasionRequest"

lemma created_SyncOccasionRequest: "create_SyncOccasionRequest None = Inr base_SyncOccasionRequest"
  by (simp add: create_SyncOccasionRequest_def fromPartial_SyncOccasionRequest_def base_SyncOccasionRequest_def)

lemma toJSON_SyncOccasionRequest_set [json_set]: "toJSON_SyncOccasionRequest m \<noteq> JNull"
  by (simp add: toJSON_SyncOccasionRequest_def)

lemma json_SyncOccasionRequest [json_codecs]:
  "fromJSON_SyncOccasionRequest (toJSON_SyncOccasionRequest m) = Inr m"
  unfolding fromJSON_SyncOccasionRequest_def
proof (rule message_restored [OF toJSON_SyncOccasionRequest_def [of m]])
  show "foldl (\<lambda>m u. u m) base_SyncOccasionRequest
      [SyncOccasionRequest_occasionId_update (\<lambda>_. SyncOccasionRequest_occasionId m),
       SyncOccasionRequest_syncDestinationId_update (\<lambda>_. SyncOccasionRequest_syncDestinationId m)] = m"
    by (cases m) (simp add: base_SyncOccasionRequest_def)
qed (simp, simp only: list.pred_inject prod.case, elim conjE, (rule json_fields | assumption | erule known_values
      | rule any_values comes_backI json_codecs json_set enum_proper)+)

section \<open>DeleteOccasionSyncDestinationRequest\<close>

definition fromJSON_DeleteOccasionSyncDestinationRequest :: "json \<Rightarrow> DeleteOccasionSyncDestinationRequest result" where
  "fromJSON_DeleteOccasionSyncDestinationRequest obj =
     read_fields
       [plain_field obj ''occasionId'' js_String [] DeleteOccasionSyncDestinationRequest_occasionId_update,
        plain_field obj ''syncDestinationId'' js_String [] DeleteOccasionSyncDestinationRequest_syncDestinationId_update]
       base_DeleteOccasionSyncDestinationRequest"

definition toJSON_DeleteOccasionSyncDestinationRequest :: "DeleteOccasionSyncDestinationRequest \<Rightarrow> json" where
  "toJSON_DeleteOccasionSyncDestinationRequest m =
     object_of
       [(''occasionId'', put_when (DeleteOccasionSyncDestinationRequest_occasionId m \<noteq> []) (JStr (DeleteOccasionSyncDestinationRequest_occasionId m))),
        (''syncDestinationId'', put_when (DeleteOccasionSyncDestinationRequest_syncDestinationId m \<noteq> []) (JStr (DeleteOccasionSyncDestinationRequest_syncDestinationId m)))]"

definition fromPartial_DeleteOccasionSyncDestinationRequest :: "json \<Rightarrow> DeleteOccasionSyncDestinationRequest result" where
  "fromPartial_DeleteOccasionSyncDestinationRequest obj =
     read_fields
       [plain_field obj ''occasionId'' as_string [] DeleteOccasionSyncDestinationRequest_occasionId_update,
        plain_field obj ''syncDestinationId'' as_string [] DeleteOccasionSyncDestinationRequest_syncDestinationId_update]
       base_DeleteOccasionSyncDestinationRequest"

definition create_DeleteOccasionSyncDestinationRequest :: "json option \<Rightarrow> DeleteOccasionSyncDestinationRequest result" where
  "create_DeleteOccasionSyncDestinationRequest = create_with fromPartial_DeleteOccasionSyncDestinationRequest"

lemma created_DeleteOccasionSyncDestinationRequest: "create_DeleteOccasionSyncDestinationRequest None = Inr base_DeleteOccasionSyncDestinationRequest"
  by (simp add: create_DeleteOccasionSyncDestinationRequest_def fromPartial_DeleteOccasionSyncDestinationRequest_def base_DeleteOccasionSyncDestinationRequest_def)

lemma toJSON_DeleteOccasionSyncDestinationRequest_set [json_set]: "toJSON_DeleteOccasionSyncDestinationRequest m \<noteq> JNull"
  by (simp add: toJSON_DeleteOccasionSyncDestinationRequest_def)

lemma json_DeleteOccasionSyncDestinationRequest [json_codecs]:
  "fromJSON_DeleteOccasionSyncDestinationRequest (toJSON_DeleteOccasionSyncDestinationRequest m) = Inr m"
  unfolding fromJSON_DeleteOccasionSyncDestinationRequest_def
proof (rule message_restored [OF toJSON_DeleteOccasionSyncDestinationRequest_def [of m]])
  show "foldl (\<lambda>m u. u m) base_DeleteOccasionSyncDestinationRequest
      [DeleteOccasionSyncDestinationRequest_occasionId_update (\<lambda>_. DeleteOccasionSyncDestinationRequest_occasionId m),
       DeleteOccasionSyncDestinationRequest_syncDestinationId_update (\<lambda>_. DeleteOccasionSyncDestinationRequest_syncDestinationId m)] = m"
    by (cases m) (simp add: base_DeleteOccasionSyncDestinationRequest_def)
qed (simp, simp only: list.pred_inject prod.case, elim conjE, (rule json_fields | assumption | erule known_values
      | rule any_values comes_backI json_codecs json_set enum_proper)+)

section \<open>GetRsvpsRequest\<close>

definition fromJSON_GetRsvpsRequest :: "json \<Rightarrow> GetRsvpsRequest result" where
  "fromJSON_GetRsvpsRequest obj =
     read_fields
       [plain_field obj ''occasionId'' js_String [] GetRsvpsRequest_occasionId_update,
        optional_field obj ''anonymousAttendeeAuthToken'' js_String GetRsvpsRequest_anonymousAttendeeAuthToken_update]
       base_GetRsvpsRequest"

definition toJSON_GetRsvpsRequest :: "GetRsvpsRequest \<Rightarrow> json" where
  "toJSON_GetRsvpsRequest m =
     object_of
       [(''occasionId'', put_when (GetRsvpsRequest_occasionId m \<noteq> []) (JStr (GetRsvpsRequest_occasionId m))),
        (''anonymousAttendeeAuthToken'', put_given (GetRsvpsRequest_anonymousAttendeeAuthToken m) JStr)]"

definition fromPartial_GetRsvpsRequest :: "json \<Rightarrow> GetRsvpsRequest result" where
  "fromPartial_GetRsvpsRequest obj =
     read_fields
       [plain_field obj ''occasionId'' as_string [] GetRsvpsRequest_occasionId_update,
        optional_field obj ''anonymousAttendeeAuthToken'' as_string GetRsvpsRequest_anonymousAttendeeAuthToken_update]
       base_GetRsvpsRequest"

definition create_GetRsvpsRequest :: "json option \<Rightarrow> GetRsvpsRequest result" where
  "create_GetRsvpsRequest = create_with fromPartial_GetRsvpsRequest"

lemma created_GetRsvpsRequest: "create_GetRsvpsRequest None = Inr base_GetRsvpsRequest"
  by (simp add: create_GetRsvpsRequest_def fromPartial_GetRsvpsRequest_def base_GetRsvpsRequest_def)

lemma toJSON_GetRsvpsRequest_set [json_set]: "toJSON_GetRsvpsRequest m \<noteq> JNull"
  by (simp add: toJSON_GetRsvpsRequest_def)

lemma json_GetRsvpsRequest [json_codecs]:
  "fromJSON_GetRsvpsRequest (toJSON_GetRsvpsRequest m) = Inr m"
  unfolding fromJSON_GetRsvpsRequest_def
proof (rule message_restored [OF toJSON_GetRsvpsRequest_def [of m]])
  show "foldl (\<lambda>m u. u m) base_GetRsvpsRequest
      [GetRsvpsRequest_occasionId_update (\<lambda>_. GetRsvpsRequest_occasionId m),
       GetRsvpsRequest_anonymousAttendeeAuthToken_update (\<lambda>_. GetRsvpsRequest_anonymousAttendeeAuthToken m)] = m"
    by (cases m) (simp add: base_GetRsvpsRequest_def)
qed (simp, simp only: list.pred_inject prod.case, elim conjE, (rule json_fields | assumption | erule known_values
      | rule any_values comes_backI json_codecs json_set enum_proper)+)

end
