(* ===== verification/Json_Groups.thy ===== *)
theory Json_Groups
  imports Wire_Groups Json_Users
begin

text \<open>
  The JSON side of packages/api/generated/groups.ts: of each message reading it off an object, the object made of it, and
  building one from the fields given.
\<close>

section \<open>Group\<close>

definition fromJSON_Group :: "json \<Rightarrow> Group result" where
  "fromJSON_Group obj =
     read_fields
       [plain_field obj ''id'' js_String [] Group_id_update,
        plain_field obj ''name'' js_String [] Group_name_update,
        plain_field obj ''shortname'' js_String [] Group_shortname_update,
        plain_field obj ''description'' js_String [] Group_description_update,
        optional_field obj ''avatar'' fromJSON_MediaReference Group_avatar_update,
        list_field obj ''defaultMembershipPermissions'' (from_enum Permission_numbers) Group_defaultMembershipPermissions_update,
        plain_field obj ''defaultMembershipModeration'' (from_enum Moderation_numbers) 0 Group_defaultMembershipModeration_update,
        plain_field obj ''defaultPostModeration'' (from_enum Moderation_numbers) 0 Group_defaultPostModeration_update,
        plain_field obj ''defaultEventModeration'' (from_enum Moderation_numbers) 0 Group_defaultEventModeration_update,
        plain_field obj ''visibility'' (from_enum Visibility_numbers) 0 Group_visibility_update,
        plain_field obj ''memberCount'' js_Integer 0 Group_memberCount_update,
        plain_field obj ''postCount'' js_Integer 0 Group_postCount_update,
        plain_field obj ''eventCount'' js_Integer 0 Group_eventCount_update,
        list_field obj ''nonMemberPermissions'' (from_enum Permission_numbers) Group_nonMemberPermissions_update,
        optional_field obj ''currentUserMembership'' fromJSON_Membership Group_currentUserMembership_update,
        optional_field obj ''createdAt'' js_String Group_createdAt_update,
        optional_field obj ''updatedAt'' js_String Group_updatedAt_update]
       base_Group"

definition toJSON_Group :: "Group \<Rightarrow> json" where
  "toJSON_Group m =
     object_of
       [(''id'', put_when (Group_id m \<noteq> []) (JStr (Group_id m))),
        (''name'', put_when (Group_name m \<noteq> []) (JStr (Group_name m))),
        (''shortname'', put_when (Group_shortname m \<noteq> []) (JStr (Group_shortname m))),
        (''description'', put_when (Group_description m \<noteq> []) (JStr (Group_description m))),
        (''avatar'', put_given (Group_avatar m) toJSON_MediaReference),
        (''defaultMembershipPermissions'', put_list (Group_defaultMembershipPermissions m) (to_enum Permission_numbers)),
        (''defaultMembershipModeration'', put_when (Group_defaultMembershipModeration m \<noteq> 0) ((to_enum Moderation_numbers) (Group_defaultMembershipModeration m))),
        (''defaultPostModeration'', put_when (Group_defaultPostModeration m \<noteq> 0) ((to_enum Moderation_numbers) (Group_defaultPostModeration m))),
        (''defaultEventModeration'', put_when (Group_defaultEventModeration m \<noteq> 0) ((to_enum Moderation_numbers) (Group_defaultEventModeration m))),
        (''visibility'', put_when (Group_visibility m \<noteq> 0) ((to_enum Visibility_numbers) (Group_visibility m))),
        (''memberCount'', put_when (Group_memberCount m \<noteq> 0) (number (Group_memberCount m))),
        (''postCount'', put_when (Group_postCount m \<noteq> 0) (number (Group_postCount m))),
        (''eventCount'', put_when (Group_eventCount m \<noteq> 0) (number (Group_eventCount m))),
        (''nonMemberPermissions'', put_list (Group_nonMemberPermissions m) (to_enum Permission_numbers)),
        (''currentUserMembership'', put_given (Group_currentUserMembership m) toJSON_Membership),
        (''createdAt'', put_given (Group_createdAt m) JStr),
        (''updatedAt'', put_given (Group_updatedAt m) JStr)]"

definition fromPartial_Group :: "json \<Rightarrow> Group result" where
  "fromPartial_Group obj =
     read_fields
       [plain_field obj ''id'' as_string [] Group_id_update,
        plain_field obj ''name'' as_string [] Group_name_update,
        plain_field obj ''shortname'' as_string [] Group_shortname_update,
        plain_field obj ''description'' as_string [] Group_description_update,
        optional_field obj ''avatar'' fromPartial_MediaReference Group_avatar_update,
        mapped_field obj ''defaultMembershipPermissions'' as_integer Group_defaultMembershipPermissions_update,
        plain_field obj ''defaultMembershipModeration'' as_integer 0 Group_defaultMembershipModeration_update,
        plain_field obj ''defaultPostModeration'' as_integer 0 Group_defaultPostModeration_update,
        plain_field obj ''defaultEventModeration'' as_integer 0 Group_defaultEventModeration_update,
        plain_field obj ''visibility'' as_integer 0 Group_visibility_update,
        plain_field obj ''memberCount'' as_integer 0 Group_memberCount_update,
        plain_field obj ''postCount'' as_integer 0 Group_postCount_update,
        plain_field obj ''eventCount'' as_integer 0 Group_eventCount_update,
        mapped_field obj ''nonMemberPermissions'' as_integer Group_nonMemberPermissions_update,
        optional_field obj ''currentUserMembership'' fromPartial_Membership Group_currentUserMembership_update,
        optional_field obj ''createdAt'' as_string Group_createdAt_update,
        optional_field obj ''updatedAt'' as_string Group_updatedAt_update]
       base_Group"

definition create_Group :: "json option \<Rightarrow> Group result" where
  "create_Group = create_with fromPartial_Group"

definition known_Group :: "Group \<Rightarrow> bool" where
  "known_Group m \<longleftrightarrow>
     pred_option known_MediaReference (Group_avatar m) \<and>
     list_all (known_enum Permission_numbers) (Group_defaultMembershipPermissions m) \<and>
     known_enum Moderation_numbers (Group_defaultMembershipModeration m) \<and>
     known_enum Moderation_numbers (Group_defaultPostModeration m) \<and>
     known_enum Moderation_numbers (Group_defaultEventModeration m) \<and>
     known_enum Visibility_numbers (Group_visibility m) \<and>
     list_all (known_enum Permission_numbers) (Group_nonMemberPermissions m) \<and>
     pred_option known_Membership (Group_currentUserMembership m)"

lemma created_Group: "create_Group None = Inr base_Group"
  by (simp add: create_Group_def fromPartial_Group_def base_Group_def)

lemma toJSON_Group_set [json_set]: "toJSON_Group m \<noteq> JNull"
  by (simp add: toJSON_Group_def)

lemma json_Group [json_codecs]:
  assumes "known_Group m"
  shows "fromJSON_Group (toJSON_Group m) = Inr m"
  unfolding fromJSON_Group_def
proof (rule message_restored [OF toJSON_Group_def [of m]])
  show "foldl (\<lambda>m u. u m) base_Group
      [Group_id_update (\<lambda>_. Group_id m),
       Group_name_update (\<lambda>_. Group_name m),
       Group_shortname_update (\<lambda>_. Group_shortname m),
       Group_description_update (\<lambda>_. Group_description m),
       Group_avatar_update (\<lambda>_. Group_avatar m),
       Group_defaultMembershipPermissions_update (\<lambda>_. Group_defaultMembershipPermissions m),
       Group_defaultMembershipModeration_update (\<lambda>_. Group_defaultMembershipModeration m),
       Group_defaultPostModeration_update (\<lambda>_. Group_defaultPostModeration m),
       Group_defaultEventModeration_update (\<lambda>_. Group_defaultEventModeration m),
       Group_visibility_update (\<lambda>_. Group_visibility m),
       Group_memberCount_update (\<lambda>_. Group_memberCount m),
       Group_postCount_update (\<lambda>_. Group_postCount m),
       Group_eventCount_update (\<lambda>_. Group_eventCount m),
       Group_nonMemberPermissions_update (\<lambda>_. Group_nonMemberPermissions m),
       Group_currentUserMembership_update (\<lambda>_. Group_currentUserMembership m),
       Group_createdAt_update (\<lambda>_. Group_createdAt m),
       Group_updatedAt_update (\<lambda>_. Group_updatedAt m)] = m"
    by (cases m) (simp add: base_Group_def)
qed (simp, insert assms [unfolded known_Group_def], simp only: list.pred_inject prod.case, elim conjE, (rule json_fields | assumption | erule known_values
      | rule any_values comes_backI json_codecs json_set enum_proper)+)

section \<open>GetGroupsRequest\<close>

definition fromJSON_GetGroupsRequest :: "json \<Rightarrow> GetGroupsRequest result" where
  "fromJSON_GetGroupsRequest obj =
     read_fields
       [optional_field obj ''groupId'' js_String GetGroupsRequest_groupId_update,
        optional_field obj ''groupName'' js_String GetGroupsRequest_groupName_update,
        optional_field obj ''groupShortname'' js_String GetGroupsRequest_groupShortname_update,
        plain_field obj ''listingType'' (from_enum GroupListingType_numbers) 0 GetGroupsRequest_listingType_update,
        optional_field obj ''page'' js_Integer GetGroupsRequest_page_update]
       base_GetGroupsRequest"

definition toJSON_GetGroupsRequest :: "GetGroupsRequest \<Rightarrow> json" where
  "toJSON_GetGroupsRequest m =
     object_of
       [(''groupId'', put_given (GetGroupsRequest_groupId m) JStr),
        (''groupName'', put_given (GetGroupsRequest_groupName m) JStr),
        (''groupShortname'', put_given (GetGroupsRequest_groupShortname m) JStr),
        (''listingType'', put_when (GetGroupsRequest_listingType m \<noteq> 0) ((to_enum GroupListingType_numbers) (GetGroupsRequest_listingType m))),
        (''page'', put_given (GetGroupsRequest_page m) number)]"

definition fromPartial_GetGroupsRequest :: "json \<Rightarrow> GetGroupsRequest result" where
  "fromPartial_GetGroupsRequest obj =
     read_fields
       [optional_field obj ''groupId'' as_string GetGroupsRequest_groupId_update,
        optional_field obj ''groupName'' as_string GetGroupsRequest_groupName_update,
        optional_field obj ''groupShortname'' as_string GetGroupsRequest_groupShortname_update,
        plain_field obj ''listingType'' as_integer 0 GetGroupsRequest_listingType_update,
        optional_field obj ''page'' as_integer GetGroupsRequest_page_update]
       base_GetGroupsRequest"

definition create_GetGroupsRequest :: "json option \<Rightarrow> GetGroupsRequest result" where
  "create_GetGroupsRequest = create_with fromPartial_GetGroupsRequest"

definition known_GetGroupsRequest :: "GetGroupsRequest \<Rightarrow> bool" where
  "known_GetGroupsRequest m \<longleftrightarrow>
     known_enum GroupListingType_numbers (GetGroupsRequest_listingType m)"

lemma created_GetGroupsRequest: "create_GetGroupsRequest None = Inr base_GetGroupsRequest"
  by (simp add: create_GetGroupsRequest_def fromPartial_GetGroupsRequest_def base_GetGroupsRequest_def)

lemma toJSON_GetGroupsRequest_set [json_set]: "toJSON_GetGroupsRequest m \<noteq> JNull"
  by (simp add: toJSON_GetGroupsRequest_def)

lemma json_GetGroupsRequest [json_codecs]:
  assumes "known_GetGroupsRequest m"
  shows "fromJSON_GetGroupsRequest (toJSON_GetGroupsRequest m) = Inr m"
  unfolding fromJSON_GetGroupsRequest_def
proof (rule message_restored [OF toJSON_GetGroupsRequest_def [of m]])
  show "foldl (\<lambda>m u. u m) base_GetGroupsRequest
      [GetGroupsRequest_groupId_update (\<lambda>_. GetGroupsRequest_groupId m),
       GetGroupsRequest_groupName_update (\<lambda>_. GetGroupsRequest_groupName m),
       GetGroupsRequest_groupShortname_update (\<lambda>_. GetGroupsRequest_groupShortname m),
       GetGroupsRequest_listingType_update (\<lambda>_. GetGroupsRequest_listingType m),
       GetGroupsRequest_page_update (\<lambda>_. GetGroupsRequest_page m)] = m"
    by (cases m) (simp add: base_GetGroupsRequest_def)
qed (simp, insert assms [unfolded known_GetGroupsRequest_def], simp only: list.pred_inject prod.case, elim conjE, (rule json_fields | assumption | erule known_values
      | rule any_values comes_backI json_codecs json_set enum_proper)+)

section \<open>GetGroupsResponse\<close>

definition fromJSON_GetGroupsResponse :: "json \<Rightarrow> GetGroupsResponse result" where
  "fromJSON_GetGroupsResponse obj =
     read_fields
       [list_field obj ''groups'' fromJSON_Group GetGroupsResponse_groups_update,
        plain_field obj ''hasNextPage'' js_Boolean False GetGroupsResponse_hasNextPage_update]
       base_GetGroupsResponse"

definition toJSON_GetGroupsResponse :: "GetGroupsResponse \<Rightarrow> json" where
  "toJSON_GetGroupsResponse m =
     object_of
       [(''groups'', put_list (GetGroupsResponse_groups m) toJSON_Group),
        (''hasNextPage'', put_when (GetGroupsResponse_hasNextPage m \<noteq> False) (JBool (GetGroupsResponse_hasNextPage m)))]"

definition fromPartial_GetGroupsResponse :: "json \<Rightarrow> GetGroupsResponse result" where
  "fromPartial_GetGroupsResponse obj =
     read_fields
       [mapped_field obj ''groups'' fromPartial_Group GetGroupsResponse_groups_update,
        plain_field obj ''hasNextPage'' as_bool False GetGroupsResponse_hasNextPage_update]
       base_GetGroupsResponse"

definition create_GetGroupsResponse :: "json option \<Rightarrow> GetGroupsResponse result" where
  "create_GetGroupsResponse = create_with fromPartial_GetGroupsResponse"

definition known_GetGroupsResponse :: "GetGroupsResponse \<Rightarrow> bool" where
  "known_GetGroupsResponse m \<longleftrightarrow>
     list_all known_Group (GetGroupsResponse_groups m)"

lemma created_GetGroupsResponse: "create_GetGroupsResponse None = Inr base_GetGroupsResponse"
  by (simp add: create_GetGroupsResponse_def fromPartial_GetGroupsResponse_def base_GetGroupsResponse_def)

lemma toJSON_GetGroupsResponse_set [json_set]: "toJSON_GetGroupsResponse m \<noteq> JNull"
  by (simp add: toJSON_GetGroupsResponse_def)

lemma json_GetGroupsResponse [json_codecs]:
  assumes "known_GetGroupsResponse m"
  shows "fromJSON_GetGroupsResponse (toJSON_GetGroupsResponse m) = Inr m"
  unfolding fromJSON_GetGroupsResponse_def
proof (rule message_restored [OF toJSON_GetGroupsResponse_def [of m]])
  show "foldl (\<lambda>m u. u m) base_GetGroupsResponse
      [GetGroupsResponse_groups_update (\<lambda>_. GetGroupsResponse_groups m),
       GetGroupsResponse_hasNextPage_update (\<lambda>_. GetGroupsResponse_hasNextPage m)] = m"
    by (cases m) (simp add: base_GetGroupsResponse_def)
qed (simp, insert assms [unfolded known_GetGroupsResponse_def], simp only: list.pred_inject prod.case, elim conjE, (rule json_fields | assumption | erule known_values
      | rule any_values comes_backI json_codecs json_set enum_proper)+)

section \<open>Member\<close>

definition fromJSON_Member :: "json \<Rightarrow> Member result" where
  "fromJSON_Member obj =
     read_fields
       [optional_field obj ''user'' fromJSON_User Member_user_update,
        optional_field obj ''membership'' fromJSON_Membership Member_membership_update]
       base_Member"

definition toJSON_Member :: "Member \<Rightarrow> json" where
  "toJSON_Member m =
     object_of
       [(''user'', put_given (Member_user m) toJSON_User),
        (''membership'', put_given (Member_membership m) toJSON_Membership)]"

definition fromPartial_Member :: "json \<Rightarrow> Member result" where
  "fromPartial_Member obj =
     read_fields
       [optional_field obj ''user'' fromPartial_User Member_user_update,
        optional_field obj ''membership'' fromPartial_Membership Member_membership_update]
       base_Member"

definition create_Member :: "json option \<Rightarrow> Member result" where
  "create_Member = create_with fromPartial_Member"

definition known_Member :: "Member \<Rightarrow> bool" where
  "known_Member m \<longleftrightarrow>
     pred_option known_User (Member_user m) \<and>
     pred_option known_Membership (Member_membership m)"

lemma created_Member: "create_Member None = Inr base_Member"
  by (simp add: create_Member_def fromPartial_Member_def base_Member_def)

lemma toJSON_Member_set [json_set]: "toJSON_Member m \<noteq> JNull"
  by (simp add: toJSON_Member_def)

lemma json_Member [json_codecs]:
  assumes "known_Member m"
  shows "fromJSON_Member (toJSON_Member m) = Inr m"
  unfolding fromJSON_Member_def
proof (rule message_restored [OF toJSON_Member_def [of m]])
  show "foldl (\<lambda>m u. u m) base_Member
      [Member_user_update (\<lambda>_. Member_user m),
       Member_membership_update (\<lambda>_. Member_membership m)] = m"
    by (cases m) (simp add: base_Member_def)
qed (simp, insert assms [unfolded known_Member_def], simp only: list.pred_inject prod.case, elim conjE, (rule json_fields | assumption | erule known_values
      | rule any_values comes_backI json_codecs json_set enum_proper)+)

section \<open>GetMembersRequest\<close>

definition fromJSON_GetMembersRequest :: "json \<Rightarrow> GetMembersRequest result" where
  "fromJSON_GetMembersRequest obj =
     read_fields
       [plain_field obj ''groupId'' js_String [] GetMembersRequest_groupId_update,
        optional_field obj ''username'' js_String GetMembersRequest_username_update,
        optional_field obj ''groupModeration'' (from_enum Moderation_numbers) GetMembersRequest_groupModeration_update,
        optional_field obj ''page'' js_Integer GetMembersRequest_page_update]
       base_GetMembersRequest"

definition toJSON_GetMembersRequest :: "GetMembersRequest \<Rightarrow> json" where
  "toJSON_GetMembersRequest m =
     object_of
       [(''groupId'', put_when (GetMembersRequest_groupId m \<noteq> []) (JStr (GetMembersRequest_groupId m))),
        (''username'', put_given (GetMembersRequest_username m) JStr),
        (''groupModeration'', put_given (GetMembersRequest_groupModeration m) (to_enum Moderation_numbers)),
        (''page'', put_given (GetMembersRequest_page m) number)]"

definition fromPartial_GetMembersRequest :: "json \<Rightarrow> GetMembersRequest result" where
  "fromPartial_GetMembersRequest obj =
     read_fields
       [plain_field obj ''groupId'' as_string [] GetMembersRequest_groupId_update,
        optional_field obj ''username'' as_string GetMembersRequest_username_update,
        optional_field obj ''groupModeration'' as_integer GetMembersRequest_groupModeration_update,
        optional_field obj ''page'' as_integer GetMembersRequest_page_update]
       base_GetMembersRequest"

definition create_GetMembersRequest :: "json option \<Rightarrow> GetMembersRequest result" where
  "create_GetMembersRequest = create_with fromPartial_GetMembersRequest"

definition known_GetMembersRequest :: "GetMembersRequest \<Rightarrow> bool" where
  "known_GetMembersRequest m \<longleftrightarrow>
     pred_option (known_enum Moderation_numbers) (GetMembersRequest_groupModeration m)"

lemma created_GetMembersRequest: "create_GetMembersRequest None = Inr base_GetMembersRequest"
  by (simp add: create_GetMembersRequest_def fromPartial_GetMembersRequest_def base_GetMembersRequest_def)

lemma toJSON_GetMembersRequest_set [json_set]: "toJSON_GetMembersRequest m \<noteq> JNull"
  by (simp add: toJSON_GetMembersRequest_def)

lemma json_GetMembersRequest [json_codecs]:
  assumes "known_GetMembersRequest m"
  shows "fromJSON_GetMembersRequest (toJSON_GetMembersRequest m) = Inr m"
  unfolding fromJSON_GetMembersRequest_def
proof (rule message_restored [OF toJSON_GetMembersRequest_def [of m]])
  show "foldl (\<lambda>m u. u m) base_GetMembersRequest
      [GetMembersRequest_groupId_update (\<lambda>_. GetMembersRequest_groupId m),
       GetMembersRequest_username_update (\<lambda>_. GetMembersRequest_username m),
       GetMembersRequest_groupModeration_update (\<lambda>_. GetMembersRequest_groupModeration m),
       GetMembersRequest_page_update (\<lambda>_. GetMembersRequest_page m)] = m"
    by (cases m) (simp add: base_GetMembersRequest_def)
qed (simp, insert assms [unfolded known_GetMembersRequest_def], simp only: list.pred_inject prod.case, elim conjE, (rule json_fields | assumption | erule known_values
      | rule any_values comes_backI json_codecs json_set enum_proper)+)

section \<open>GetMembersResponse\<close>

definition fromJSON_GetMembersResponse :: "json \<Rightarrow> GetMembersResponse result" where
  "fromJSON_GetMembersResponse obj =
     read_fields
       [list_field obj ''members'' fromJSON_Member GetMembersResponse_members_update,
        plain_field obj ''hasNextPage'' js_Boolean False GetMembersResponse_hasNextPage_update]
       base_GetMembersResponse"

definition toJSON_GetMembersResponse :: "GetMembersResponse \<Rightarrow> json" where
  "toJSON_GetMembersResponse m =
     object_of
       [(''members'', put_list (GetMembersResponse_members m) toJSON_Member),
        (''hasNextPage'', put_when (GetMembersResponse_hasNextPage m \<noteq> False) (JBool (GetMembersResponse_hasNextPage m)))]"

definition fromPartial_GetMembersResponse :: "json \<Rightarrow> GetMembersResponse result" where
  "fromPartial_GetMembersResponse obj =
     read_fields
       [mapped_field obj ''members'' fromPartial_Member GetMembersResponse_members_update,
        plain_field obj ''hasNextPage'' as_bool False GetMembersResponse_hasNextPage_update]
       base_GetMembersResponse"

definition create_GetMembersResponse :: "json option \<Rightarrow> GetMembersResponse result" where
  "create_GetMembersResponse = create_with fromPartial_GetMembersResponse"

definition known_GetMembersResponse :: "GetMembersResponse \<Rightarrow> bool" where
  "known_GetMembersResponse m \<longleftrightarrow>
     list_all known_Member (GetMembersResponse_members m)"

lemma created_GetMembersResponse: "create_GetMembersResponse None = Inr base_GetMembersResponse"
  by (simp add: create_GetMembersResponse_def fromPartial_GetMembersResponse_def base_GetMembersResponse_def)

lemma toJSON_GetMembersResponse_set [json_set]: "toJSON_GetMembersResponse m \<noteq> JNull"
  by (simp add: toJSON_GetMembersResponse_def)

lemma json_GetMembersResponse [json_codecs]:
  assumes "known_GetMembersResponse m"
  shows "fromJSON_GetMembersResponse (toJSON_GetMembersResponse m) = Inr m"
  unfolding fromJSON_GetMembersResponse_def
proof (rule message_restored [OF toJSON_GetMembersResponse_def [of m]])
  show "foldl (\<lambda>m u. u m) base_GetMembersResponse
      [GetMembersResponse_members_update (\<lambda>_. GetMembersResponse_members m),
       GetMembersResponse_hasNextPage_update (\<lambda>_. GetMembersResponse_hasNextPage m)] = m"
    by (cases m) (simp add: base_GetMembersResponse_def)
qed (simp, insert assms [unfolded known_GetMembersResponse_def], simp only: list.pred_inject prod.case, elim conjE, (rule json_fields | assumption | erule known_values
      | rule any_values comes_backI json_codecs json_set enum_proper)+)

end
