(* ===== verification/Json_Authentication.thy ===== *)
theory Json_Authentication
  imports Wire_Authentication Json_Users
begin

text \<open>
  The JSON side of packages/api/generated/authentication.ts: of each message reading it off an object, the object made of it, and
  building one from the fields given.
\<close>

section \<open>CreateAccountRequest\<close>

definition fromJSON_CreateAccountRequest :: "json \<Rightarrow> CreateAccountRequest result" where
  "fromJSON_CreateAccountRequest obj =
     read_fields
       [plain_field obj ''username'' js_String [] CreateAccountRequest_username_update,
        plain_field obj ''password'' js_String [] CreateAccountRequest_password_update,
        optional_field obj ''email'' fromJSON_ContactMethod CreateAccountRequest_email_update,
        optional_field obj ''phone'' fromJSON_ContactMethod CreateAccountRequest_phone_update,
        optional_field obj ''expiresAt'' js_String CreateAccountRequest_expiresAt_update,
        optional_field obj ''deviceName'' js_String CreateAccountRequest_deviceName_update]
       base_CreateAccountRequest"

definition toJSON_CreateAccountRequest :: "CreateAccountRequest \<Rightarrow> json" where
  "toJSON_CreateAccountRequest m =
     object_of
       [(''username'', put_when (CreateAccountRequest_username m \<noteq> []) (JStr (CreateAccountRequest_username m))),
        (''password'', put_when (CreateAccountRequest_password m \<noteq> []) (JStr (CreateAccountRequest_password m))),
        (''email'', put_given (CreateAccountRequest_email m) toJSON_ContactMethod),
        (''phone'', put_given (CreateAccountRequest_phone m) toJSON_ContactMethod),
        (''expiresAt'', put_given (CreateAccountRequest_expiresAt m) JStr),
        (''deviceName'', put_given (CreateAccountRequest_deviceName m) JStr)]"

definition fromPartial_CreateAccountRequest :: "json \<Rightarrow> CreateAccountRequest result" where
  "fromPartial_CreateAccountRequest obj =
     read_fields
       [plain_field obj ''username'' as_string [] CreateAccountRequest_username_update,
        plain_field obj ''password'' as_string [] CreateAccountRequest_password_update,
        optional_field obj ''email'' fromPartial_ContactMethod CreateAccountRequest_email_update,
        optional_field obj ''phone'' fromPartial_ContactMethod CreateAccountRequest_phone_update,
        optional_field obj ''expiresAt'' as_string CreateAccountRequest_expiresAt_update,
        optional_field obj ''deviceName'' as_string CreateAccountRequest_deviceName_update]
       base_CreateAccountRequest"

definition create_CreateAccountRequest :: "json option \<Rightarrow> CreateAccountRequest result" where
  "create_CreateAccountRequest = create_with fromPartial_CreateAccountRequest"

definition known_CreateAccountRequest :: "CreateAccountRequest \<Rightarrow> bool" where
  "known_CreateAccountRequest m \<longleftrightarrow>
     pred_option known_ContactMethod (CreateAccountRequest_email m) \<and>
     pred_option known_ContactMethod (CreateAccountRequest_phone m)"

lemma created_CreateAccountRequest: "create_CreateAccountRequest None = Inr base_CreateAccountRequest"
  by (simp add: create_CreateAccountRequest_def fromPartial_CreateAccountRequest_def base_CreateAccountRequest_def)

lemma toJSON_CreateAccountRequest_set [json_set]: "toJSON_CreateAccountRequest m \<noteq> JNull"
  by (simp add: toJSON_CreateAccountRequest_def)

lemma json_CreateAccountRequest [json_codecs]:
  assumes "known_CreateAccountRequest m"
  shows "fromJSON_CreateAccountRequest (toJSON_CreateAccountRequest m) = Inr m"
  unfolding fromJSON_CreateAccountRequest_def
proof (rule message_restored [OF toJSON_CreateAccountRequest_def [of m]])
  show "foldl (\<lambda>m u. u m) base_CreateAccountRequest
      [CreateAccountRequest_username_update (\<lambda>_. CreateAccountRequest_username m),
       CreateAccountRequest_password_update (\<lambda>_. CreateAccountRequest_password m),
       CreateAccountRequest_email_update (\<lambda>_. CreateAccountRequest_email m),
       CreateAccountRequest_phone_update (\<lambda>_. CreateAccountRequest_phone m),
       CreateAccountRequest_expiresAt_update (\<lambda>_. CreateAccountRequest_expiresAt m),
       CreateAccountRequest_deviceName_update (\<lambda>_. CreateAccountRequest_deviceName m)] = m"
    by (cases m) (simp add: base_CreateAccountRequest_def)
qed (simp, insert assms [unfolded known_CreateAccountRequest_def], simp only: list.pred_inject prod.case, elim conjE, (rule json_fields | assumption | erule known_values
      | rule any_values comes_backI json_codecs json_set enum_proper)+)

section \<open>LoginRequest\<close>

definition fromJSON_LoginRequest :: "json \<Rightarrow> LoginRequest result" where
  "fromJSON_LoginRequest obj =
     read_fields
       [plain_field obj ''username'' js_String [] LoginRequest_username_update,
        plain_field obj ''password'' js_String [] LoginRequest_password_update,
        optional_field obj ''expiresAt'' js_String LoginRequest_expiresAt_update,
        optional_field obj ''deviceName'' js_String LoginRequest_deviceName_update,
        optional_field obj ''userId'' js_String LoginRequest_userId_update]
       base_LoginRequest"

definition toJSON_LoginRequest :: "LoginRequest \<Rightarrow> json" where
  "toJSON_LoginRequest m =
     object_of
       [(''username'', put_when (LoginRequest_username m \<noteq> []) (JStr (LoginRequest_username m))),
        (''password'', put_when (LoginRequest_password m \<noteq> []) (JStr (LoginRequest_password m))),
        (''expiresAt'', put_given (LoginRequest_expiresAt m) JStr),
        (''deviceName'', put_given (LoginRequest_deviceName m) JStr),
        (''userId'', put_given (LoginRequest_userId m) JStr)]"

definition fromPartial_LoginRequest :: "json \<Rightarrow> LoginRequest result" where
  "fromPartial_LoginRequest obj =
     read_fields
       [plain_field obj ''username'' as_string [] LoginRequest_username_update,
        plain_field obj ''password'' as_string [] LoginRequest_password_update,
        optional_field obj ''expiresAt'' as_string LoginRequest_expiresAt_update,
        optional_field obj ''deviceName'' as_string LoginRequest_deviceName_update,
        optional_field obj ''userId'' as_string LoginRequest_userId_update]
       base_LoginRequest"

definition create_LoginRequest :: "json option \<Rightarrow> LoginRequest result" where
  "create_LoginRequest = create_with fromPartial_LoginRequest"

lemma created_LoginRequest: "create_LoginRequest None = Inr base_LoginRequest"
  by (simp add: create_LoginRequest_def fromPartial_LoginRequest_def base_LoginRequest_def)

lemma toJSON_LoginRequest_set [json_set]: "toJSON_LoginRequest m \<noteq> JNull"
  by (simp add: toJSON_LoginRequest_def)

lemma json_LoginRequest [json_codecs]:
  "fromJSON_LoginRequest (toJSON_LoginRequest m) = Inr m"
  unfolding fromJSON_LoginRequest_def
proof (rule message_restored [OF toJSON_LoginRequest_def [of m]])
  show "foldl (\<lambda>m u. u m) base_LoginRequest
      [LoginRequest_username_update (\<lambda>_. LoginRequest_username m),
       LoginRequest_password_update (\<lambda>_. LoginRequest_password m),
       LoginRequest_expiresAt_update (\<lambda>_. LoginRequest_expiresAt m),
       LoginRequest_deviceName_update (\<lambda>_. LoginRequest_deviceName m),
       LoginRequest_userId_update (\<lambda>_. LoginRequest_userId m)] = m"
    by (cases m) (simp add: base_LoginRequest_def)
qed (simp, simp only: list.pred_inject prod.case, elim conjE, (rule json_fields | assumption | erule known_values
      | rule any_values comes_backI json_codecs json_set enum_proper)+)

section \<open>CreateThirdPartyRefreshTokenRequest\<close>

definition fromJSON_CreateThirdPartyRefreshTokenRequest :: "json \<Rightarrow> CreateThirdPartyRefreshTokenRequest result" where
  "fromJSON_CreateThirdPartyRefreshTokenRequest obj =
     read_fields
       [optional_field obj ''expiresAt'' js_String CreateThirdPartyRefreshTokenRequest_expiresAt_update,
        plain_field obj ''userId'' js_String [] CreateThirdPartyRefreshTokenRequest_userId_update,
        plain_field obj ''deviceName'' js_String [] CreateThirdPartyRefreshTokenRequest_deviceName_update]
       base_CreateThirdPartyRefreshTokenRequest"

definition toJSON_CreateThirdPartyRefreshTokenRequest :: "CreateThirdPartyRefreshTokenRequest \<Rightarrow> json" where
  "toJSON_CreateThirdPartyRefreshTokenRequest m =
     object_of
       [(''expiresAt'', put_given (CreateThirdPartyRefreshTokenRequest_expiresAt m) JStr),
        (''userId'', put_when (CreateThirdPartyRefreshTokenRequest_userId m \<noteq> []) (JStr (CreateThirdPartyRefreshTokenRequest_userId m))),
        (''deviceName'', put_when (CreateThirdPartyRefreshTokenRequest_deviceName m \<noteq> []) (JStr (CreateThirdPartyRefreshTokenRequest_deviceName m)))]"

definition fromPartial_CreateThirdPartyRefreshTokenRequest :: "json \<Rightarrow> CreateThirdPartyRefreshTokenRequest result" where
  "fromPartial_CreateThirdPartyRefreshTokenRequest obj =
     read_fields
       [optional_field obj ''expiresAt'' as_string CreateThirdPartyRefreshTokenRequest_expiresAt_update,
        plain_field obj ''userId'' as_string [] CreateThirdPartyRefreshTokenRequest_userId_update,
        plain_field obj ''deviceName'' as_string [] CreateThirdPartyRefreshTokenRequest_deviceName_update]
       base_CreateThirdPartyRefreshTokenRequest"

definition create_CreateThirdPartyRefreshTokenRequest :: "json option \<Rightarrow> CreateThirdPartyRefreshTokenRequest result" where
  "create_CreateThirdPartyRefreshTokenRequest = create_with fromPartial_CreateThirdPartyRefreshTokenRequest"

lemma created_CreateThirdPartyRefreshTokenRequest: "create_CreateThirdPartyRefreshTokenRequest None = Inr base_CreateThirdPartyRefreshTokenRequest"
  by (simp add: create_CreateThirdPartyRefreshTokenRequest_def fromPartial_CreateThirdPartyRefreshTokenRequest_def base_CreateThirdPartyRefreshTokenRequest_def)

lemma toJSON_CreateThirdPartyRefreshTokenRequest_set [json_set]: "toJSON_CreateThirdPartyRefreshTokenRequest m \<noteq> JNull"
  by (simp add: toJSON_CreateThirdPartyRefreshTokenRequest_def)

lemma json_CreateThirdPartyRefreshTokenRequest [json_codecs]:
  "fromJSON_CreateThirdPartyRefreshTokenRequest (toJSON_CreateThirdPartyRefreshTokenRequest m) = Inr m"
  unfolding fromJSON_CreateThirdPartyRefreshTokenRequest_def
proof (rule message_restored [OF toJSON_CreateThirdPartyRefreshTokenRequest_def [of m]])
  show "foldl (\<lambda>m u. u m) base_CreateThirdPartyRefreshTokenRequest
      [CreateThirdPartyRefreshTokenRequest_expiresAt_update (\<lambda>_. CreateThirdPartyRefreshTokenRequest_expiresAt m),
       CreateThirdPartyRefreshTokenRequest_userId_update (\<lambda>_. CreateThirdPartyRefreshTokenRequest_userId m),
       CreateThirdPartyRefreshTokenRequest_deviceName_update (\<lambda>_. CreateThirdPartyRefreshTokenRequest_deviceName m)] = m"
    by (cases m) (simp add: base_CreateThirdPartyRefreshTokenRequest_def)
qed (simp, simp only: list.pred_inject prod.case, elim conjE, (rule json_fields | assumption | erule known_values
      | rule any_values comes_backI json_codecs json_set enum_proper)+)

section \<open>ExpirableToken\<close>

definition fromJSON_ExpirableToken :: "json \<Rightarrow> ExpirableToken result" where
  "fromJSON_ExpirableToken obj =
     read_fields
       [plain_field obj ''token'' js_String [] ExpirableToken_token_update,
        optional_field obj ''expiresAt'' js_String ExpirableToken_expiresAt_update]
       base_ExpirableToken"

definition toJSON_ExpirableToken :: "ExpirableToken \<Rightarrow> json" where
  "toJSON_ExpirableToken m =
     object_of
       [(''token'', put_when (ExpirableToken_token m \<noteq> []) (JStr (ExpirableToken_token m))),
        (''expiresAt'', put_given (ExpirableToken_expiresAt m) JStr)]"

definition fromPartial_ExpirableToken :: "json \<Rightarrow> ExpirableToken result" where
  "fromPartial_ExpirableToken obj =
     read_fields
       [plain_field obj ''token'' as_string [] ExpirableToken_token_update,
        optional_field obj ''expiresAt'' as_string ExpirableToken_expiresAt_update]
       base_ExpirableToken"

definition create_ExpirableToken :: "json option \<Rightarrow> ExpirableToken result" where
  "create_ExpirableToken = create_with fromPartial_ExpirableToken"

lemma created_ExpirableToken: "create_ExpirableToken None = Inr base_ExpirableToken"
  by (simp add: create_ExpirableToken_def fromPartial_ExpirableToken_def base_ExpirableToken_def)

lemma toJSON_ExpirableToken_set [json_set]: "toJSON_ExpirableToken m \<noteq> JNull"
  by (simp add: toJSON_ExpirableToken_def)

lemma json_ExpirableToken [json_codecs]:
  "fromJSON_ExpirableToken (toJSON_ExpirableToken m) = Inr m"
  unfolding fromJSON_ExpirableToken_def
proof (rule message_restored [OF toJSON_ExpirableToken_def [of m]])
  show "foldl (\<lambda>m u. u m) base_ExpirableToken
      [ExpirableToken_token_update (\<lambda>_. ExpirableToken_token m),
       ExpirableToken_expiresAt_update (\<lambda>_. ExpirableToken_expiresAt m)] = m"
    by (cases m) (simp add: base_ExpirableToken_def)
qed (simp, simp only: list.pred_inject prod.case, elim conjE, (rule json_fields | assumption | erule known_values
      | rule any_values comes_backI json_codecs json_set enum_proper)+)

section \<open>RefreshTokenResponse\<close>

definition fromJSON_RefreshTokenResponse :: "json \<Rightarrow> RefreshTokenResponse result" where
  "fromJSON_RefreshTokenResponse obj =
     read_fields
       [optional_field obj ''refreshToken'' fromJSON_ExpirableToken RefreshTokenResponse_refreshToken_update,
        optional_field obj ''accessToken'' fromJSON_ExpirableToken RefreshTokenResponse_accessToken_update,
        optional_field obj ''user'' fromJSON_User RefreshTokenResponse_user_update]
       base_RefreshTokenResponse"

definition toJSON_RefreshTokenResponse :: "RefreshTokenResponse \<Rightarrow> json" where
  "toJSON_RefreshTokenResponse m =
     object_of
       [(''refreshToken'', put_given (RefreshTokenResponse_refreshToken m) toJSON_ExpirableToken),
        (''accessToken'', put_given (RefreshTokenResponse_accessToken m) toJSON_ExpirableToken),
        (''user'', put_given (RefreshTokenResponse_user m) toJSON_User)]"

definition fromPartial_RefreshTokenResponse :: "json \<Rightarrow> RefreshTokenResponse result" where
  "fromPartial_RefreshTokenResponse obj =
     read_fields
       [optional_field obj ''refreshToken'' fromPartial_ExpirableToken RefreshTokenResponse_refreshToken_update,
        optional_field obj ''accessToken'' fromPartial_ExpirableToken RefreshTokenResponse_accessToken_update,
        optional_field obj ''user'' fromPartial_User RefreshTokenResponse_user_update]
       base_RefreshTokenResponse"

definition create_RefreshTokenResponse :: "json option \<Rightarrow> RefreshTokenResponse result" where
  "create_RefreshTokenResponse = create_with fromPartial_RefreshTokenResponse"

definition known_RefreshTokenResponse :: "RefreshTokenResponse \<Rightarrow> bool" where
  "known_RefreshTokenResponse m \<longleftrightarrow>
     pred_option known_User (RefreshTokenResponse_user m)"

lemma created_RefreshTokenResponse: "create_RefreshTokenResponse None = Inr base_RefreshTokenResponse"
  by (simp add: create_RefreshTokenResponse_def fromPartial_RefreshTokenResponse_def base_RefreshTokenResponse_def)

lemma toJSON_RefreshTokenResponse_set [json_set]: "toJSON_RefreshTokenResponse m \<noteq> JNull"
  by (simp add: toJSON_RefreshTokenResponse_def)

lemma json_RefreshTokenResponse [json_codecs]:
  assumes "known_RefreshTokenResponse m"
  shows "fromJSON_RefreshTokenResponse (toJSON_RefreshTokenResponse m) = Inr m"
  unfolding fromJSON_RefreshTokenResponse_def
proof (rule message_restored [OF toJSON_RefreshTokenResponse_def [of m]])
  show "foldl (\<lambda>m u. u m) base_RefreshTokenResponse
      [RefreshTokenResponse_refreshToken_update (\<lambda>_. RefreshTokenResponse_refreshToken m),
       RefreshTokenResponse_accessToken_update (\<lambda>_. RefreshTokenResponse_accessToken m),
       RefreshTokenResponse_user_update (\<lambda>_. RefreshTokenResponse_user m)] = m"
    by (cases m) (simp add: base_RefreshTokenResponse_def)
qed (simp, insert assms [unfolded known_RefreshTokenResponse_def], simp only: list.pred_inject prod.case, elim conjE, (rule json_fields | assumption | erule known_values
      | rule any_values comes_backI json_codecs json_set enum_proper)+)

section \<open>AccessTokenRequest\<close>

definition fromJSON_AccessTokenRequest :: "json \<Rightarrow> AccessTokenRequest result" where
  "fromJSON_AccessTokenRequest obj =
     read_fields
       [plain_field obj ''refreshToken'' js_String [] AccessTokenRequest_refreshToken_update,
        optional_field obj ''expiresAt'' js_String AccessTokenRequest_expiresAt_update]
       base_AccessTokenRequest"

definition toJSON_AccessTokenRequest :: "AccessTokenRequest \<Rightarrow> json" where
  "toJSON_AccessTokenRequest m =
     object_of
       [(''refreshToken'', put_when (AccessTokenRequest_refreshToken m \<noteq> []) (JStr (AccessTokenRequest_refreshToken m))),
        (''expiresAt'', put_given (AccessTokenRequest_expiresAt m) JStr)]"

definition fromPartial_AccessTokenRequest :: "json \<Rightarrow> AccessTokenRequest result" where
  "fromPartial_AccessTokenRequest obj =
     read_fields
       [plain_field obj ''refreshToken'' as_string [] AccessTokenRequest_refreshToken_update,
        optional_field obj ''expiresAt'' as_string AccessTokenRequest_expiresAt_update]
       base_AccessTokenRequest"

definition create_AccessTokenRequest :: "json option \<Rightarrow> AccessTokenRequest result" where
  "create_AccessTokenRequest = create_with fromPartial_AccessTokenRequest"

lemma created_AccessTokenRequest: "create_AccessTokenRequest None = Inr base_AccessTokenRequest"
  by (simp add: create_AccessTokenRequest_def fromPartial_AccessTokenRequest_def base_AccessTokenRequest_def)

lemma toJSON_AccessTokenRequest_set [json_set]: "toJSON_AccessTokenRequest m \<noteq> JNull"
  by (simp add: toJSON_AccessTokenRequest_def)

lemma json_AccessTokenRequest [json_codecs]:
  "fromJSON_AccessTokenRequest (toJSON_AccessTokenRequest m) = Inr m"
  unfolding fromJSON_AccessTokenRequest_def
proof (rule message_restored [OF toJSON_AccessTokenRequest_def [of m]])
  show "foldl (\<lambda>m u. u m) base_AccessTokenRequest
      [AccessTokenRequest_refreshToken_update (\<lambda>_. AccessTokenRequest_refreshToken m),
       AccessTokenRequest_expiresAt_update (\<lambda>_. AccessTokenRequest_expiresAt m)] = m"
    by (cases m) (simp add: base_AccessTokenRequest_def)
qed (simp, simp only: list.pred_inject prod.case, elim conjE, (rule json_fields | assumption | erule known_values
      | rule any_values comes_backI json_codecs json_set enum_proper)+)

section \<open>AccessTokenResponse\<close>

definition fromJSON_AccessTokenResponse :: "json \<Rightarrow> AccessTokenResponse result" where
  "fromJSON_AccessTokenResponse obj =
     read_fields
       [optional_field obj ''refreshToken'' fromJSON_ExpirableToken AccessTokenResponse_refreshToken_update,
        optional_field obj ''accessToken'' fromJSON_ExpirableToken AccessTokenResponse_accessToken_update]
       base_AccessTokenResponse"

definition toJSON_AccessTokenResponse :: "AccessTokenResponse \<Rightarrow> json" where
  "toJSON_AccessTokenResponse m =
     object_of
       [(''refreshToken'', put_given (AccessTokenResponse_refreshToken m) toJSON_ExpirableToken),
        (''accessToken'', put_given (AccessTokenResponse_accessToken m) toJSON_ExpirableToken)]"

definition fromPartial_AccessTokenResponse :: "json \<Rightarrow> AccessTokenResponse result" where
  "fromPartial_AccessTokenResponse obj =
     read_fields
       [optional_field obj ''refreshToken'' fromPartial_ExpirableToken AccessTokenResponse_refreshToken_update,
        optional_field obj ''accessToken'' fromPartial_ExpirableToken AccessTokenResponse_accessToken_update]
       base_AccessTokenResponse"

definition create_AccessTokenResponse :: "json option \<Rightarrow> AccessTokenResponse result" where
  "create_AccessTokenResponse = create_with fromPartial_AccessTokenResponse"

lemma created_AccessTokenResponse: "create_AccessTokenResponse None = Inr base_AccessTokenResponse"
  by (simp add: create_AccessTokenResponse_def fromPartial_AccessTokenResponse_def base_AccessTokenResponse_def)

lemma toJSON_AccessTokenResponse_set [json_set]: "toJSON_AccessTokenResponse m \<noteq> JNull"
  by (simp add: toJSON_AccessTokenResponse_def)

lemma json_AccessTokenResponse [json_codecs]:
  "fromJSON_AccessTokenResponse (toJSON_AccessTokenResponse m) = Inr m"
  unfolding fromJSON_AccessTokenResponse_def
proof (rule message_restored [OF toJSON_AccessTokenResponse_def [of m]])
  show "foldl (\<lambda>m u. u m) base_AccessTokenResponse
      [AccessTokenResponse_refreshToken_update (\<lambda>_. AccessTokenResponse_refreshToken m),
       AccessTokenResponse_accessToken_update (\<lambda>_. AccessTokenResponse_accessToken m)] = m"
    by (cases m) (simp add: base_AccessTokenResponse_def)
qed (simp, simp only: list.pred_inject prod.case, elim conjE, (rule json_fields | assumption | erule known_values
      | rule any_values comes_backI json_codecs json_set enum_proper)+)

section \<open>ResetPasswordRequest\<close>

definition fromJSON_ResetPasswordRequest :: "json \<Rightarrow> ResetPasswordRequest result" where
  "fromJSON_ResetPasswordRequest obj =
     read_fields
       [optional_field obj ''userId'' js_String ResetPasswordRequest_userId_update,
        plain_field obj ''password'' js_String [] ResetPasswordRequest_password_update]
       base_ResetPasswordRequest"

definition toJSON_ResetPasswordRequest :: "ResetPasswordRequest \<Rightarrow> json" where
  "toJSON_ResetPasswordRequest m =
     object_of
       [(''userId'', put_given (ResetPasswordRequest_userId m) JStr),
        (''password'', put_when (ResetPasswordRequest_password m \<noteq> []) (JStr (ResetPasswordRequest_password m)))]"

definition fromPartial_ResetPasswordRequest :: "json \<Rightarrow> ResetPasswordRequest result" where
  "fromPartial_ResetPasswordRequest obj =
     read_fields
       [optional_field obj ''userId'' as_string ResetPasswordRequest_userId_update,
        plain_field obj ''password'' as_string [] ResetPasswordRequest_password_update]
       base_ResetPasswordRequest"

definition create_ResetPasswordRequest :: "json option \<Rightarrow> ResetPasswordRequest result" where
  "create_ResetPasswordRequest = create_with fromPartial_ResetPasswordRequest"

lemma created_ResetPasswordRequest: "create_ResetPasswordRequest None = Inr base_ResetPasswordRequest"
  by (simp add: create_ResetPasswordRequest_def fromPartial_ResetPasswordRequest_def base_ResetPasswordRequest_def)

lemma toJSON_ResetPasswordRequest_set [json_set]: "toJSON_ResetPasswordRequest m \<noteq> JNull"
  by (simp add: toJSON_ResetPasswordRequest_def)

lemma json_ResetPasswordRequest [json_codecs]:
  "fromJSON_ResetPasswordRequest (toJSON_ResetPasswordRequest m) = Inr m"
  unfolding fromJSON_ResetPasswordRequest_def
proof (rule message_restored [OF toJSON_ResetPasswordRequest_def [of m]])
  show "foldl (\<lambda>m u. u m) base_ResetPasswordRequest
      [ResetPasswordRequest_userId_update (\<lambda>_. ResetPasswordRequest_userId m),
       ResetPasswordRequest_password_update (\<lambda>_. ResetPasswordRequest_password m)] = m"
    by (cases m) (simp add: base_ResetPasswordRequest_def)
qed (simp, simp only: list.pred_inject prod.case, elim conjE, (rule json_fields | assumption | erule known_values
      | rule any_values comes_backI json_codecs json_set enum_proper)+)

section \<open>RefreshTokenMetadata\<close>

definition fromJSON_RefreshTokenMetadata :: "json \<Rightarrow> RefreshTokenMetadata result" where
  "fromJSON_RefreshTokenMetadata obj =
     read_fields
       [plain_field obj ''id'' js_Integer 0 RefreshTokenMetadata_id_update,
        optional_field obj ''expiresAt'' js_String RefreshTokenMetadata_expiresAt_update,
        optional_field obj ''deviceName'' js_String RefreshTokenMetadata_deviceName_update,
        plain_field obj ''isThisDevice'' js_Boolean False RefreshTokenMetadata_isThisDevice_update,
        plain_field obj ''thirdParty'' js_Boolean False RefreshTokenMetadata_thirdParty_update]
       base_RefreshTokenMetadata"

definition toJSON_RefreshTokenMetadata :: "RefreshTokenMetadata \<Rightarrow> json" where
  "toJSON_RefreshTokenMetadata m =
     object_of
       [(''id'', put_when (RefreshTokenMetadata_id m \<noteq> 0) (number (RefreshTokenMetadata_id m))),
        (''expiresAt'', put_given (RefreshTokenMetadata_expiresAt m) JStr),
        (''deviceName'', put_given (RefreshTokenMetadata_deviceName m) JStr),
        (''isThisDevice'', put_when (RefreshTokenMetadata_isThisDevice m \<noteq> False) (JBool (RefreshTokenMetadata_isThisDevice m))),
        (''thirdParty'', put_when (RefreshTokenMetadata_thirdParty m \<noteq> False) (JBool (RefreshTokenMetadata_thirdParty m)))]"

definition fromPartial_RefreshTokenMetadata :: "json \<Rightarrow> RefreshTokenMetadata result" where
  "fromPartial_RefreshTokenMetadata obj =
     read_fields
       [plain_field obj ''id'' as_integer 0 RefreshTokenMetadata_id_update,
        optional_field obj ''expiresAt'' as_string RefreshTokenMetadata_expiresAt_update,
        optional_field obj ''deviceName'' as_string RefreshTokenMetadata_deviceName_update,
        plain_field obj ''isThisDevice'' as_bool False RefreshTokenMetadata_isThisDevice_update,
        plain_field obj ''thirdParty'' as_bool False RefreshTokenMetadata_thirdParty_update]
       base_RefreshTokenMetadata"

definition create_RefreshTokenMetadata :: "json option \<Rightarrow> RefreshTokenMetadata result" where
  "create_RefreshTokenMetadata = create_with fromPartial_RefreshTokenMetadata"

lemma created_RefreshTokenMetadata: "create_RefreshTokenMetadata None = Inr base_RefreshTokenMetadata"
  by (simp add: create_RefreshTokenMetadata_def fromPartial_RefreshTokenMetadata_def base_RefreshTokenMetadata_def)

lemma toJSON_RefreshTokenMetadata_set [json_set]: "toJSON_RefreshTokenMetadata m \<noteq> JNull"
  by (simp add: toJSON_RefreshTokenMetadata_def)

lemma json_RefreshTokenMetadata [json_codecs]:
  "fromJSON_RefreshTokenMetadata (toJSON_RefreshTokenMetadata m) = Inr m"
  unfolding fromJSON_RefreshTokenMetadata_def
proof (rule message_restored [OF toJSON_RefreshTokenMetadata_def [of m]])
  show "foldl (\<lambda>m u. u m) base_RefreshTokenMetadata
      [RefreshTokenMetadata_id_update (\<lambda>_. RefreshTokenMetadata_id m),
       RefreshTokenMetadata_expiresAt_update (\<lambda>_. RefreshTokenMetadata_expiresAt m),
       RefreshTokenMetadata_deviceName_update (\<lambda>_. RefreshTokenMetadata_deviceName m),
       RefreshTokenMetadata_isThisDevice_update (\<lambda>_. RefreshTokenMetadata_isThisDevice m),
       RefreshTokenMetadata_thirdParty_update (\<lambda>_. RefreshTokenMetadata_thirdParty m)] = m"
    by (cases m) (simp add: base_RefreshTokenMetadata_def)
qed (simp, simp only: list.pred_inject prod.case, elim conjE, (rule json_fields | assumption | erule known_values
      | rule any_values comes_backI json_codecs json_set enum_proper)+)

section \<open>UserRefreshTokensResponse\<close>

definition fromJSON_UserRefreshTokensResponse :: "json \<Rightarrow> UserRefreshTokensResponse result" where
  "fromJSON_UserRefreshTokensResponse obj =
     read_fields
       [list_field obj ''refreshTokens'' fromJSON_RefreshTokenMetadata UserRefreshTokensResponse_refreshTokens_update]
       base_UserRefreshTokensResponse"

definition toJSON_UserRefreshTokensResponse :: "UserRefreshTokensResponse \<Rightarrow> json" where
  "toJSON_UserRefreshTokensResponse m =
     object_of
       [(''refreshTokens'', put_list (UserRefreshTokensResponse_refreshTokens m) toJSON_RefreshTokenMetadata)]"

definition fromPartial_UserRefreshTokensResponse :: "json \<Rightarrow> UserRefreshTokensResponse result" where
  "fromPartial_UserRefreshTokensResponse obj =
     read_fields
       [mapped_field obj ''refreshTokens'' fromPartial_RefreshTokenMetadata UserRefreshTokensResponse_refreshTokens_update]
       base_UserRefreshTokensResponse"

definition create_UserRefreshTokensResponse :: "json option \<Rightarrow> UserRefreshTokensResponse result" where
  "create_UserRefreshTokensResponse = create_with fromPartial_UserRefreshTokensResponse"

lemma created_UserRefreshTokensResponse: "create_UserRefreshTokensResponse None = Inr base_UserRefreshTokensResponse"
  by (simp add: create_UserRefreshTokensResponse_def fromPartial_UserRefreshTokensResponse_def base_UserRefreshTokensResponse_def)

lemma toJSON_UserRefreshTokensResponse_set [json_set]: "toJSON_UserRefreshTokensResponse m \<noteq> JNull"
  by (simp add: toJSON_UserRefreshTokensResponse_def)

lemma json_UserRefreshTokensResponse [json_codecs]:
  "fromJSON_UserRefreshTokensResponse (toJSON_UserRefreshTokensResponse m) = Inr m"
  unfolding fromJSON_UserRefreshTokensResponse_def
proof (rule message_restored [OF toJSON_UserRefreshTokensResponse_def [of m]])
  show "foldl (\<lambda>m u. u m) base_UserRefreshTokensResponse
      [UserRefreshTokensResponse_refreshTokens_update (\<lambda>_. UserRefreshTokensResponse_refreshTokens m)] = m"
    by (cases m) (simp add: base_UserRefreshTokensResponse_def)
qed (simp, simp only: list.pred_inject prod.case, elim conjE, (rule json_fields | assumption | erule known_values
      | rule any_values comes_backI json_codecs json_set enum_proper)+)

end
