(* ===== verification/Json_Messages.thy ===== *)
theory Json_Messages
  imports Wire_Messages Json_Media
begin

text \<open>
  The JSON side of packages/api/generated/messages.ts: of each message reading it off an object, the object made of it, and
  building one from the fields given.
\<close>

section \<open>MessageRead\<close>

definition fromJSON_MessageRead :: "json \<Rightarrow> MessageRead result" where
  "fromJSON_MessageRead obj =
     read_fields
       [plain_field obj ''messageId'' js_String [] MessageRead_messageId_update,
        plain_field obj ''userId'' js_String [] MessageRead_userId_update,
        optional_field obj ''readAt'' js_String MessageRead_readAt_update]
       base_MessageRead"

definition toJSON_MessageRead :: "MessageRead \<Rightarrow> json" where
  "toJSON_MessageRead m =
     object_of
       [(''messageId'', put_when (MessageRead_messageId m \<noteq> []) (JStr (MessageRead_messageId m))),
        (''userId'', put_when (MessageRead_userId m \<noteq> []) (JStr (MessageRead_userId m))),
        (''readAt'', put_given (MessageRead_readAt m) JStr)]"

definition fromPartial_MessageRead :: "json \<Rightarrow> MessageRead result" where
  "fromPartial_MessageRead obj =
     read_fields
       [plain_field obj ''messageId'' as_string [] MessageRead_messageId_update,
        plain_field obj ''userId'' as_string [] MessageRead_userId_update,
        optional_field obj ''readAt'' as_string MessageRead_readAt_update]
       base_MessageRead"

definition create_MessageRead :: "json option \<Rightarrow> MessageRead result" where
  "create_MessageRead = create_with fromPartial_MessageRead"

lemma created_MessageRead: "create_MessageRead None = Inr base_MessageRead"
  by (simp add: create_MessageRead_def fromPartial_MessageRead_def base_MessageRead_def)

lemma toJSON_MessageRead_set [json_set]: "toJSON_MessageRead m \<noteq> JNull"
  by (simp add: toJSON_MessageRead_def)

lemma json_MessageRead [json_codecs]:
  "fromJSON_MessageRead (toJSON_MessageRead m) = Inr m"
  unfolding fromJSON_MessageRead_def
proof (rule message_restored [OF toJSON_MessageRead_def [of m]])
  show "foldl (\<lambda>m u. u m) base_MessageRead
      [MessageRead_messageId_update (\<lambda>_. MessageRead_messageId m),
       MessageRead_userId_update (\<lambda>_. MessageRead_userId m),
       MessageRead_readAt_update (\<lambda>_. MessageRead_readAt m)] = m"
    by (cases m) (simp add: base_MessageRead_def)
qed (simp, simp only: list.pred_inject prod.case, elim conjE, (rule json_fields | assumption | erule known_values
      | rule any_values comes_backI json_codecs json_set enum_proper)+)

section \<open>MessagingGroup\<close>

definition fromJSON_MessagingGroup :: "json \<Rightarrow> MessagingGroup result" where
  "fromJSON_MessagingGroup obj =
     read_fields
       [plain_field obj ''id'' js_String [] MessagingGroup_id_update,
        list_field obj ''members'' fromJSON_Author MessagingGroup_members_update,
        optional_field obj ''createdAt'' js_String MessagingGroup_createdAt_update]
       base_MessagingGroup"

definition toJSON_MessagingGroup :: "MessagingGroup \<Rightarrow> json" where
  "toJSON_MessagingGroup m =
     object_of
       [(''id'', put_when (MessagingGroup_id m \<noteq> []) (JStr (MessagingGroup_id m))),
        (''members'', put_list (MessagingGroup_members m) toJSON_Author),
        (''createdAt'', put_given (MessagingGroup_createdAt m) JStr)]"

definition fromPartial_MessagingGroup :: "json \<Rightarrow> MessagingGroup result" where
  "fromPartial_MessagingGroup obj =
     read_fields
       [plain_field obj ''id'' as_string [] MessagingGroup_id_update,
        mapped_field obj ''members'' fromPartial_Author MessagingGroup_members_update,
        optional_field obj ''createdAt'' as_string MessagingGroup_createdAt_update]
       base_MessagingGroup"

definition create_MessagingGroup :: "json option \<Rightarrow> MessagingGroup result" where
  "create_MessagingGroup = create_with fromPartial_MessagingGroup"

definition known_MessagingGroup :: "MessagingGroup \<Rightarrow> bool" where
  "known_MessagingGroup m \<longleftrightarrow>
     list_all known_Author (MessagingGroup_members m)"

lemma created_MessagingGroup: "create_MessagingGroup None = Inr base_MessagingGroup"
  by (simp add: create_MessagingGroup_def fromPartial_MessagingGroup_def base_MessagingGroup_def)

lemma toJSON_MessagingGroup_set [json_set]: "toJSON_MessagingGroup m \<noteq> JNull"
  by (simp add: toJSON_MessagingGroup_def)

lemma json_MessagingGroup [json_codecs]:
  assumes "known_MessagingGroup m"
  shows "fromJSON_MessagingGroup (toJSON_MessagingGroup m) = Inr m"
  unfolding fromJSON_MessagingGroup_def
proof (rule message_restored [OF toJSON_MessagingGroup_def [of m]])
  show "foldl (\<lambda>m u. u m) base_MessagingGroup
      [MessagingGroup_id_update (\<lambda>_. MessagingGroup_id m),
       MessagingGroup_members_update (\<lambda>_. MessagingGroup_members m),
       MessagingGroup_createdAt_update (\<lambda>_. MessagingGroup_createdAt m)] = m"
    by (cases m) (simp add: base_MessagingGroup_def)
qed (simp, insert assms [unfolded known_MessagingGroup_def], simp only: list.pred_inject prod.case, elim conjE, (rule json_fields | assumption | erule known_values
      | rule any_values comes_backI json_codecs json_set enum_proper)+)

section \<open>Message\<close>

definition fromJSON_Message :: "json \<Rightarrow> Message result" where
  "fromJSON_Message obj =
     read_fields
       [plain_field obj ''id'' js_String [] Message_id_update,
        optional_field obj ''sender'' fromJSON_Author Message_sender_update,
        optional_field obj ''messagingGroup'' fromJSON_MessagingGroup Message_messagingGroup_update,
        plain_field obj ''bodyText'' js_String [] Message_bodyText_update,
        optional_field obj ''subject'' js_String Message_subject_update,
        optional_field obj ''emailMessageId'' js_String Message_emailMessageId_update,
        optional_field obj ''from'' js_String Message_from_update,
        optional_field obj ''to'' js_String Message_to_update,
        optional_field obj ''cc'' js_String Message_cc_update,
        optional_field obj ''bcc'' js_String Message_bcc_update,
        optional_field obj ''currentUserRead'' fromJSON_MessageRead Message_currentUserRead_update,
        optional_field obj ''createdAt'' js_String Message_createdAt_update]
       base_Message"

definition toJSON_Message :: "Message \<Rightarrow> json" where
  "toJSON_Message m =
     object_of
       [(''id'', put_when (Message_id m \<noteq> []) (JStr (Message_id m))),
        (''sender'', put_given (Message_sender m) toJSON_Author),
        (''messagingGroup'', put_given (Message_messagingGroup m) toJSON_MessagingGroup),
        (''bodyText'', put_when (Message_bodyText m \<noteq> []) (JStr (Message_bodyText m))),
        (''subject'', put_given (Message_subject m) JStr),
        (''emailMessageId'', put_given (Message_emailMessageId m) JStr),
        (''from'', put_given (Message_from m) JStr),
        (''to'', put_given (Message_to m) JStr),
        (''cc'', put_given (Message_cc m) JStr),
        (''bcc'', put_given (Message_bcc m) JStr),
        (''currentUserRead'', put_given (Message_currentUserRead m) toJSON_MessageRead),
        (''createdAt'', put_given (Message_createdAt m) JStr)]"

definition fromPartial_Message :: "json \<Rightarrow> Message result" where
  "fromPartial_Message obj =
     read_fields
       [plain_field obj ''id'' as_string [] Message_id_update,
        optional_field obj ''sender'' fromPartial_Author Message_sender_update,
        optional_field obj ''messagingGroup'' fromPartial_MessagingGroup Message_messagingGroup_update,
        plain_field obj ''bodyText'' as_string [] Message_bodyText_update,
        optional_field obj ''subject'' as_string Message_subject_update,
        optional_field obj ''emailMessageId'' as_string Message_emailMessageId_update,
        optional_field obj ''from'' as_string Message_from_update,
        optional_field obj ''to'' as_string Message_to_update,
        optional_field obj ''cc'' as_string Message_cc_update,
        optional_field obj ''bcc'' as_string Message_bcc_update,
        optional_field obj ''currentUserRead'' fromPartial_MessageRead Message_currentUserRead_update,
        optional_field obj ''createdAt'' as_string Message_createdAt_update]
       base_Message"

definition create_Message :: "json option \<Rightarrow> Message result" where
  "create_Message = create_with fromPartial_Message"

definition known_Message :: "Message \<Rightarrow> bool" where
  "known_Message m \<longleftrightarrow>
     pred_option known_Author (Message_sender m) \<and>
     pred_option known_MessagingGroup (Message_messagingGroup m)"

lemma created_Message: "create_Message None = Inr base_Message"
  by (simp add: create_Message_def fromPartial_Message_def base_Message_def)

lemma toJSON_Message_set [json_set]: "toJSON_Message m \<noteq> JNull"
  by (simp add: toJSON_Message_def)

lemma json_Message [json_codecs]:
  assumes "known_Message m"
  shows "fromJSON_Message (toJSON_Message m) = Inr m"
  unfolding fromJSON_Message_def
proof (rule message_restored [OF toJSON_Message_def [of m]])
  show "foldl (\<lambda>m u. u m) base_Message
      [Message_id_update (\<lambda>_. Message_id m),
       Message_sender_update (\<lambda>_. Message_sender m),
       Message_messagingGroup_update (\<lambda>_. Message_messagingGroup m),
       Message_bodyText_update (\<lambda>_. Message_bodyText m),
       Message_subject_update (\<lambda>_. Message_subject m),
       Message_emailMessageId_update (\<lambda>_. Message_emailMessageId m),
       Message_from_update (\<lambda>_. Message_from m),
       Message_to_update (\<lambda>_. Message_to m),
       Message_cc_update (\<lambda>_. Message_cc m),
       Message_bcc_update (\<lambda>_. Message_bcc m),
       Message_currentUserRead_update (\<lambda>_. Message_currentUserRead m),
       Message_createdAt_update (\<lambda>_. Message_createdAt m)] = m"
    by (cases m) (simp add: base_Message_def)
qed (simp, insert assms [unfolded known_Message_def], simp only: list.pred_inject prod.case, elim conjE, (rule json_fields | assumption | erule known_values
      | rule any_values comes_backI json_codecs json_set enum_proper)+)

section \<open>MarkMessagesReadRequest\<close>

definition fromJSON_MarkMessagesReadRequest :: "json \<Rightarrow> MarkMessagesReadRequest result" where
  "fromJSON_MarkMessagesReadRequest obj =
     read_fields
       [plain_field obj ''unread'' js_Boolean False MarkMessagesReadRequest_unread_update,
        list_field obj ''messageIds'' js_String MarkMessagesReadRequest_messageIds_update]
       base_MarkMessagesReadRequest"

definition toJSON_MarkMessagesReadRequest :: "MarkMessagesReadRequest \<Rightarrow> json" where
  "toJSON_MarkMessagesReadRequest m =
     object_of
       [(''unread'', put_when (MarkMessagesReadRequest_unread m \<noteq> False) (JBool (MarkMessagesReadRequest_unread m))),
        (''messageIds'', put_list (MarkMessagesReadRequest_messageIds m) JStr)]"

definition fromPartial_MarkMessagesReadRequest :: "json \<Rightarrow> MarkMessagesReadRequest result" where
  "fromPartial_MarkMessagesReadRequest obj =
     read_fields
       [plain_field obj ''unread'' as_bool False MarkMessagesReadRequest_unread_update,
        mapped_field obj ''messageIds'' as_string MarkMessagesReadRequest_messageIds_update]
       base_MarkMessagesReadRequest"

definition create_MarkMessagesReadRequest :: "json option \<Rightarrow> MarkMessagesReadRequest result" where
  "create_MarkMessagesReadRequest = create_with fromPartial_MarkMessagesReadRequest"

lemma created_MarkMessagesReadRequest: "create_MarkMessagesReadRequest None = Inr base_MarkMessagesReadRequest"
  by (simp add: create_MarkMessagesReadRequest_def fromPartial_MarkMessagesReadRequest_def base_MarkMessagesReadRequest_def)

lemma toJSON_MarkMessagesReadRequest_set [json_set]: "toJSON_MarkMessagesReadRequest m \<noteq> JNull"
  by (simp add: toJSON_MarkMessagesReadRequest_def)

lemma json_MarkMessagesReadRequest [json_codecs]:
  "fromJSON_MarkMessagesReadRequest (toJSON_MarkMessagesReadRequest m) = Inr m"
  unfolding fromJSON_MarkMessagesReadRequest_def
proof (rule message_restored [OF toJSON_MarkMessagesReadRequest_def [of m]])
  show "foldl (\<lambda>m u. u m) base_MarkMessagesReadRequest
      [MarkMessagesReadRequest_unread_update (\<lambda>_. MarkMessagesReadRequest_unread m),
       MarkMessagesReadRequest_messageIds_update (\<lambda>_. MarkMessagesReadRequest_messageIds m)] = m"
    by (cases m) (simp add: base_MarkMessagesReadRequest_def)
qed (simp, simp only: list.pred_inject prod.case, elim conjE, (rule json_fields | assumption | erule known_values
      | rule any_values comes_backI json_codecs json_set enum_proper)+)

section \<open>MarkMessagesReadResponse\<close>

definition fromJSON_MarkMessagesReadResponse :: "json \<Rightarrow> MarkMessagesReadResponse result" where
  "fromJSON_MarkMessagesReadResponse obj =
     read_fields
       [list_field obj ''messageReads'' fromJSON_MessageRead MarkMessagesReadResponse_messageReads_update]
       base_MarkMessagesReadResponse"

definition toJSON_MarkMessagesReadResponse :: "MarkMessagesReadResponse \<Rightarrow> json" where
  "toJSON_MarkMessagesReadResponse m =
     object_of
       [(''messageReads'', put_list (MarkMessagesReadResponse_messageReads m) toJSON_MessageRead)]"

definition fromPartial_MarkMessagesReadResponse :: "json \<Rightarrow> MarkMessagesReadResponse result" where
  "fromPartial_MarkMessagesReadResponse obj =
     read_fields
       [mapped_field obj ''messageReads'' fromPartial_MessageRead MarkMessagesReadResponse_messageReads_update]
       base_MarkMessagesReadResponse"

definition create_MarkMessagesReadResponse :: "json option \<Rightarrow> MarkMessagesReadResponse result" where
  "create_MarkMessagesReadResponse = create_with fromPartial_MarkMessagesReadResponse"

lemma created_MarkMessagesReadResponse: "create_MarkMessagesReadResponse None = Inr base_MarkMessagesReadResponse"
  by (simp add: create_MarkMessagesReadResponse_def fromPartial_MarkMessagesReadResponse_def base_MarkMessagesReadResponse_def)

lemma toJSON_MarkMessagesReadResponse_set [json_set]: "toJSON_MarkMessagesReadResponse m \<noteq> JNull"
  by (simp add: toJSON_MarkMessagesReadResponse_def)

lemma json_MarkMessagesReadResponse [json_codecs]:
  "fromJSON_MarkMessagesReadResponse (toJSON_MarkMessagesReadResponse m) = Inr m"
  unfolding fromJSON_MarkMessagesReadResponse_def
proof (rule message_restored [OF toJSON_MarkMessagesReadResponse_def [of m]])
  show "foldl (\<lambda>m u. u m) base_MarkMessagesReadResponse
      [MarkMessagesReadResponse_messageReads_update (\<lambda>_. MarkMessagesReadResponse_messageReads m)] = m"
    by (cases m) (simp add: base_MarkMessagesReadResponse_def)
qed (simp, simp only: list.pred_inject prod.case, elim conjE, (rule json_fields | assumption | erule known_values
      | rule any_values comes_backI json_codecs json_set enum_proper)+)

section \<open>SendMessageRequest\<close>

definition fromJSON_SendMessageRequest :: "json \<Rightarrow> SendMessageRequest result" where
  "fromJSON_SendMessageRequest obj =
     read_fields
       [list_field obj ''toUserIds'' js_String SendMessageRequest_toUserIds_update,
        optional_field obj ''subject'' js_String SendMessageRequest_subject_update,
        optional_field obj ''bodyText'' js_String SendMessageRequest_bodyText_update]
       base_SendMessageRequest"

definition toJSON_SendMessageRequest :: "SendMessageRequest \<Rightarrow> json" where
  "toJSON_SendMessageRequest m =
     object_of
       [(''toUserIds'', put_list (SendMessageRequest_toUserIds m) JStr),
        (''subject'', put_given (SendMessageRequest_subject m) JStr),
        (''bodyText'', put_given (SendMessageRequest_bodyText m) JStr)]"

definition fromPartial_SendMessageRequest :: "json \<Rightarrow> SendMessageRequest result" where
  "fromPartial_SendMessageRequest obj =
     read_fields
       [mapped_field obj ''toUserIds'' as_string SendMessageRequest_toUserIds_update,
        optional_field obj ''subject'' as_string SendMessageRequest_subject_update,
        optional_field obj ''bodyText'' as_string SendMessageRequest_bodyText_update]
       base_SendMessageRequest"

definition create_SendMessageRequest :: "json option \<Rightarrow> SendMessageRequest result" where
  "create_SendMessageRequest = create_with fromPartial_SendMessageRequest"

lemma created_SendMessageRequest: "create_SendMessageRequest None = Inr base_SendMessageRequest"
  by (simp add: create_SendMessageRequest_def fromPartial_SendMessageRequest_def base_SendMessageRequest_def)

lemma toJSON_SendMessageRequest_set [json_set]: "toJSON_SendMessageRequest m \<noteq> JNull"
  by (simp add: toJSON_SendMessageRequest_def)

lemma json_SendMessageRequest [json_codecs]:
  "fromJSON_SendMessageRequest (toJSON_SendMessageRequest m) = Inr m"
  unfolding fromJSON_SendMessageRequest_def
proof (rule message_restored [OF toJSON_SendMessageRequest_def [of m]])
  show "foldl (\<lambda>m u. u m) base_SendMessageRequest
      [SendMessageRequest_toUserIds_update (\<lambda>_. SendMessageRequest_toUserIds m),
       SendMessageRequest_subject_update (\<lambda>_. SendMessageRequest_subject m),
       SendMessageRequest_bodyText_update (\<lambda>_. SendMessageRequest_bodyText m)] = m"
    by (cases m) (simp add: base_SendMessageRequest_def)
qed (simp, simp only: list.pred_inject prod.case, elim conjE, (rule json_fields | assumption | erule known_values
      | rule any_values comes_backI json_codecs json_set enum_proper)+)

section \<open>GetMessagesRequest\<close>

definition fromJSON_GetMessagesRequest :: "json \<Rightarrow> GetMessagesRequest result" where
  "fromJSON_GetMessagesRequest obj =
     read_fields
       [plain_field obj ''listingType'' (from_enum MessageListingType_numbers) 0 GetMessagesRequest_listingType_update,
        optional_field obj ''messageId'' js_String GetMessagesRequest_messageId_update,
        optional_field obj ''messageGroupId'' js_String GetMessagesRequest_messageGroupId_update,
        optional_field obj ''searchText'' js_String GetMessagesRequest_searchText_update,
        optional_field obj ''sentBefore'' js_String GetMessagesRequest_sentBefore_update,
        optional_field obj ''fromEmail'' js_String GetMessagesRequest_fromEmail_update]
       base_GetMessagesRequest"

definition toJSON_GetMessagesRequest :: "GetMessagesRequest \<Rightarrow> json" where
  "toJSON_GetMessagesRequest m =
     object_of
       [(''listingType'', put_when (GetMessagesRequest_listingType m \<noteq> 0) ((to_enum MessageListingType_numbers) (GetMessagesRequest_listingType m))),
        (''messageId'', put_given (GetMessagesRequest_messageId m) JStr),
        (''messageGroupId'', put_given (GetMessagesRequest_messageGroupId m) JStr),
        (''searchText'', put_given (GetMessagesRequest_searchText m) JStr),
        (''sentBefore'', put_given (GetMessagesRequest_sentBefore m) JStr),
        (''fromEmail'', put_given (GetMessagesRequest_fromEmail m) JStr)]"

definition fromPartial_GetMessagesRequest :: "json \<Rightarrow> GetMessagesRequest result" where
  "fromPartial_GetMessagesRequest obj =
     read_fields
       [plain_field obj ''listingType'' as_integer 0 GetMessagesRequest_listingType_update,
        optional_field obj ''messageId'' as_string GetMessagesRequest_messageId_update,
        optional_field obj ''messageGroupId'' as_string GetMessagesRequest_messageGroupId_update,
        optional_field obj ''searchText'' as_string GetMessagesRequest_searchText_update,
        optional_field obj ''sentBefore'' as_string GetMessagesRequest_sentBefore_update,
        optional_field obj ''fromEmail'' as_string GetMessagesRequest_fromEmail_update]
       base_GetMessagesRequest"

definition create_GetMessagesRequest :: "json option \<Rightarrow> GetMessagesRequest result" where
  "create_GetMessagesRequest = create_with fromPartial_GetMessagesRequest"

definition known_GetMessagesRequest :: "GetMessagesRequest \<Rightarrow> bool" where
  "known_GetMessagesRequest m \<longleftrightarrow>
     known_enum MessageListingType_numbers (GetMessagesRequest_listingType m)"

lemma created_GetMessagesRequest: "create_GetMessagesRequest None = Inr base_GetMessagesRequest"
  by (simp add: create_GetMessagesRequest_def fromPartial_GetMessagesRequest_def base_GetMessagesRequest_def)

lemma toJSON_GetMessagesRequest_set [json_set]: "toJSON_GetMessagesRequest m \<noteq> JNull"
  by (simp add: toJSON_GetMessagesRequest_def)

lemma json_GetMessagesRequest [json_codecs]:
  assumes "known_GetMessagesRequest m"
  shows "fromJSON_GetMessagesRequest (toJSON_GetMessagesRequest m) = Inr m"
  unfolding fromJSON_GetMessagesRequest_def
proof (rule message_restored [OF toJSON_GetMessagesRequest_def [of m]])
  show "foldl (\<lambda>m u. u m) base_GetMessagesRequest
      [GetMessagesRequest_listingType_update (\<lambda>_. GetMessagesRequest_listingType m),
       GetMessagesRequest_messageId_update (\<lambda>_. GetMessagesRequest_messageId m),
       GetMessagesRequest_messageGroupId_update (\<lambda>_. GetMessagesRequest_messageGroupId m),
       GetMessagesRequest_searchText_update (\<lambda>_. GetMessagesRequest_searchText m),
       GetMessagesRequest_sentBefore_update (\<lambda>_. GetMessagesRequest_sentBefore m),
       GetMessagesRequest_fromEmail_update (\<lambda>_. GetMessagesRequest_fromEmail m)] = m"
    by (cases m) (simp add: base_GetMessagesRequest_def)
qed (simp, insert assms [unfolded known_GetMessagesRequest_def], simp only: list.pred_inject prod.case, elim conjE, (rule json_fields | assumption | erule known_values
      | rule any_values comes_backI json_codecs json_set enum_proper)+)

section \<open>GetMessagesResponse\<close>

definition fromJSON_GetMessagesResponse :: "json \<Rightarrow> GetMessagesResponse result" where
  "fromJSON_GetMessagesResponse obj =
     read_fields
       [list_field obj ''messages'' fromJSON_Message GetMessagesResponse_messages_update]
       base_GetMessagesResponse"

definition toJSON_GetMessagesResponse :: "GetMessagesResponse \<Rightarrow> json" where
  "toJSON_GetMessagesResponse m =
     object_of
       [(''messages'', put_list (GetMessagesResponse_messages m) toJSON_Message)]"

definition fromPartial_GetMessagesResponse :: "json \<Rightarrow> GetMessagesResponse result" where
  "fromPartial_GetMessagesResponse obj =
     read_fields
       [mapped_field obj ''messages'' fromPartial_Message GetMessagesResponse_messages_update]
       base_GetMessagesResponse"

definition create_GetMessagesResponse :: "json option \<Rightarrow> GetMessagesResponse result" where
  "create_GetMessagesResponse = create_with fromPartial_GetMessagesResponse"

definition known_GetMessagesResponse :: "GetMessagesResponse \<Rightarrow> bool" where
  "known_GetMessagesResponse m \<longleftrightarrow>
     list_all known_Message (GetMessagesResponse_messages m)"

lemma created_GetMessagesResponse: "create_GetMessagesResponse None = Inr base_GetMessagesResponse"
  by (simp add: create_GetMessagesResponse_def fromPartial_GetMessagesResponse_def base_GetMessagesResponse_def)

lemma toJSON_GetMessagesResponse_set [json_set]: "toJSON_GetMessagesResponse m \<noteq> JNull"
  by (simp add: toJSON_GetMessagesResponse_def)

lemma json_GetMessagesResponse [json_codecs]:
  assumes "known_GetMessagesResponse m"
  shows "fromJSON_GetMessagesResponse (toJSON_GetMessagesResponse m) = Inr m"
  unfolding fromJSON_GetMessagesResponse_def
proof (rule message_restored [OF toJSON_GetMessagesResponse_def [of m]])
  show "foldl (\<lambda>m u. u m) base_GetMessagesResponse
      [GetMessagesResponse_messages_update (\<lambda>_. GetMessagesResponse_messages m)] = m"
    by (cases m) (simp add: base_GetMessagesResponse_def)
qed (simp, insert assms [unfolded known_GetMessagesResponse_def], simp only: list.pred_inject prod.case, elim conjE, (rule json_fields | assumption | erule known_values
      | rule any_values comes_backI json_codecs json_set enum_proper)+)

section \<open>PushSubscription\<close>

definition fromJSON_PushSubscription :: "json \<Rightarrow> PushSubscription result" where
  "fromJSON_PushSubscription obj =
     read_fields
       [plain_field obj ''id'' js_String [] PushSubscription_id_update,
        plain_field obj ''endpoint'' js_String [] PushSubscription_endpoint_update,
        optional_field obj ''createdAt'' js_String PushSubscription_createdAt_update]
       base_PushSubscription"

definition toJSON_PushSubscription :: "PushSubscription \<Rightarrow> json" where
  "toJSON_PushSubscription m =
     object_of
       [(''id'', put_when (PushSubscription_id m \<noteq> []) (JStr (PushSubscription_id m))),
        (''endpoint'', put_when (PushSubscription_endpoint m \<noteq> []) (JStr (PushSubscription_endpoint m))),
        (''createdAt'', put_given (PushSubscription_createdAt m) JStr)]"

definition fromPartial_PushSubscription :: "json \<Rightarrow> PushSubscription result" where
  "fromPartial_PushSubscription obj =
     read_fields
       [plain_field obj ''id'' as_string [] PushSubscription_id_update,
        plain_field obj ''endpoint'' as_string [] PushSubscription_endpoint_update,
        optional_field obj ''createdAt'' as_string PushSubscription_createdAt_update]
       base_PushSubscription"

definition create_PushSubscription :: "json option \<Rightarrow> PushSubscription result" where
  "create_PushSubscription = create_with fromPartial_PushSubscription"

lemma created_PushSubscription: "create_PushSubscription None = Inr base_PushSubscription"
  by (simp add: create_PushSubscription_def fromPartial_PushSubscription_def base_PushSubscription_def)

lemma toJSON_PushSubscription_set [json_set]: "toJSON_PushSubscription m \<noteq> JNull"
  by (simp add: toJSON_PushSubscription_def)

lemma json_PushSubscription [json_codecs]:
  "fromJSON_PushSubscription (toJSON_PushSubscription m) = Inr m"
  unfolding fromJSON_PushSubscription_def
proof (rule message_restored [OF toJSON_PushSubscription_def [of m]])
  show "foldl (\<lambda>m u. u m) base_PushSubscription
      [PushSubscription_id_update (\<lambda>_. PushSubscription_id m),
       PushSubscription_endpoint_update (\<lambda>_. PushSubscription_endpoint m),
       PushSubscription_createdAt_update (\<lambda>_. PushSubscription_createdAt m)] = m"
    by (cases m) (simp add: base_PushSubscription_def)
qed (simp, simp only: list.pred_inject prod.case, elim conjE, (rule json_fields | assumption | erule known_values
      | rule any_values comes_backI json_codecs json_set enum_proper)+)

section \<open>RegisterPushSubscriptionRequest\<close>

definition fromJSON_RegisterPushSubscriptionRequest :: "json \<Rightarrow> RegisterPushSubscriptionRequest result" where
  "fromJSON_RegisterPushSubscriptionRequest obj =
     read_fields
       [plain_field obj ''endpoint'' js_String [] RegisterPushSubscriptionRequest_endpoint_update,
        plain_field obj ''p256dhKey'' js_String [] RegisterPushSubscriptionRequest_p256dhKey_update,
        plain_field obj ''authKey'' js_String [] RegisterPushSubscriptionRequest_authKey_update]
       base_RegisterPushSubscriptionRequest"

definition toJSON_RegisterPushSubscriptionRequest :: "RegisterPushSubscriptionRequest \<Rightarrow> json" where
  "toJSON_RegisterPushSubscriptionRequest m =
     object_of
       [(''endpoint'', put_when (RegisterPushSubscriptionRequest_endpoint m \<noteq> []) (JStr (RegisterPushSubscriptionRequest_endpoint m))),
        (''p256dhKey'', put_when (RegisterPushSubscriptionRequest_p256dhKey m \<noteq> []) (JStr (RegisterPushSubscriptionRequest_p256dhKey m))),
        (''authKey'', put_when (RegisterPushSubscriptionRequest_authKey m \<noteq> []) (JStr (RegisterPushSubscriptionRequest_authKey m)))]"

definition fromPartial_RegisterPushSubscriptionRequest :: "json \<Rightarrow> RegisterPushSubscriptionRequest result" where
  "fromPartial_RegisterPushSubscriptionRequest obj =
     read_fields
       [plain_field obj ''endpoint'' as_string [] RegisterPushSubscriptionRequest_endpoint_update,
        plain_field obj ''p256dhKey'' as_string [] RegisterPushSubscriptionRequest_p256dhKey_update,
        plain_field obj ''authKey'' as_string [] RegisterPushSubscriptionRequest_authKey_update]
       base_RegisterPushSubscriptionRequest"

definition create_RegisterPushSubscriptionRequest :: "json option \<Rightarrow> RegisterPushSubscriptionRequest result" where
  "create_RegisterPushSubscriptionRequest = create_with fromPartial_RegisterPushSubscriptionRequest"

lemma created_RegisterPushSubscriptionRequest: "create_RegisterPushSubscriptionRequest None = Inr base_RegisterPushSubscriptionRequest"
  by (simp add: create_RegisterPushSubscriptionRequest_def fromPartial_RegisterPushSubscriptionRequest_def base_RegisterPushSubscriptionRequest_def)

lemma toJSON_RegisterPushSubscriptionRequest_set [json_set]: "toJSON_RegisterPushSubscriptionRequest m \<noteq> JNull"
  by (simp add: toJSON_RegisterPushSubscriptionRequest_def)

lemma json_RegisterPushSubscriptionRequest [json_codecs]:
  "fromJSON_RegisterPushSubscriptionRequest (toJSON_RegisterPushSubscriptionRequest m) = Inr m"
  unfolding fromJSON_RegisterPushSubscriptionRequest_def
proof (rule message_restored [OF toJSON_RegisterPushSubscriptionRequest_def [of m]])
  show "foldl (\<lambda>m u. u m) base_RegisterPushSubscriptionRequest
      [RegisterPushSubscriptionRequest_endpoint_update (\<lambda>_. RegisterPushSubscriptionRequest_endpoint m),
       RegisterPushSubscriptionRequest_p256dhKey_update (\<lambda>_. RegisterPushSubscriptionRequest_p256dhKey m),
       RegisterPushSubscriptionRequest_authKey_update (\<lambda>_. RegisterPushSubscriptionRequest_authKey m)] = m"
    by (cases m) (simp add: base_RegisterPushSubscriptionRequest_def)
qed (simp, simp only: list.pred_inject prod.case, elim conjE, (rule json_fields | assumption | erule known_values
      | rule any_values comes_backI json_codecs json_set enum_proper)+)

section \<open>UnregisterPushSubscriptionRequest\<close>

definition fromJSON_UnregisterPushSubscriptionRequest :: "json \<Rightarrow> UnregisterPushSubscriptionRequest result" where
  "fromJSON_UnregisterPushSubscriptionRequest obj =
     read_fields
       [plain_field obj ''endpoint'' js_String [] UnregisterPushSubscriptionRequest_endpoint_update]
       base_UnregisterPushSubscriptionRequest"

definition toJSON_UnregisterPushSubscriptionRequest :: "UnregisterPushSubscriptionRequest \<Rightarrow> json" where
  "toJSON_UnregisterPushSubscriptionRequest m =
     object_of
       [(''endpoint'', put_when (UnregisterPushSubscriptionRequest_endpoint m \<noteq> []) (JStr (UnregisterPushSubscriptionRequest_endpoint m)))]"

definition fromPartial_UnregisterPushSubscriptionRequest :: "json \<Rightarrow> UnregisterPushSubscriptionRequest result" where
  "fromPartial_UnregisterPushSubscriptionRequest obj =
     read_fields
       [plain_field obj ''endpoint'' as_string [] UnregisterPushSubscriptionRequest_endpoint_update]
       base_UnregisterPushSubscriptionRequest"

definition create_UnregisterPushSubscriptionRequest :: "json option \<Rightarrow> UnregisterPushSubscriptionRequest result" where
  "create_UnregisterPushSubscriptionRequest = create_with fromPartial_UnregisterPushSubscriptionRequest"

lemma created_UnregisterPushSubscriptionRequest: "create_UnregisterPushSubscriptionRequest None = Inr base_UnregisterPushSubscriptionRequest"
  by (simp add: create_UnregisterPushSubscriptionRequest_def fromPartial_UnregisterPushSubscriptionRequest_def base_UnregisterPushSubscriptionRequest_def)

lemma toJSON_UnregisterPushSubscriptionRequest_set [json_set]: "toJSON_UnregisterPushSubscriptionRequest m \<noteq> JNull"
  by (simp add: toJSON_UnregisterPushSubscriptionRequest_def)

lemma json_UnregisterPushSubscriptionRequest [json_codecs]:
  "fromJSON_UnregisterPushSubscriptionRequest (toJSON_UnregisterPushSubscriptionRequest m) = Inr m"
  unfolding fromJSON_UnregisterPushSubscriptionRequest_def
proof (rule message_restored [OF toJSON_UnregisterPushSubscriptionRequest_def [of m]])
  show "foldl (\<lambda>m u. u m) base_UnregisterPushSubscriptionRequest
      [UnregisterPushSubscriptionRequest_endpoint_update (\<lambda>_. UnregisterPushSubscriptionRequest_endpoint m)] = m"
    by (cases m) (simp add: base_UnregisterPushSubscriptionRequest_def)
qed (simp, simp only: list.pred_inject prod.case, elim conjE, (rule json_fields | assumption | erule known_values
      | rule any_values comes_backI json_codecs json_set enum_proper)+)

section \<open>GetPushSubscriptionStatusRequest\<close>

definition fromJSON_GetPushSubscriptionStatusRequest :: "json \<Rightarrow> GetPushSubscriptionStatusRequest result" where
  "fromJSON_GetPushSubscriptionStatusRequest obj =
     read_fields
       [plain_field obj ''endpoint'' js_String [] GetPushSubscriptionStatusRequest_endpoint_update]
       base_GetPushSubscriptionStatusRequest"

definition toJSON_GetPushSubscriptionStatusRequest :: "GetPushSubscriptionStatusRequest \<Rightarrow> json" where
  "toJSON_GetPushSubscriptionStatusRequest m =
     object_of
       [(''endpoint'', put_when (GetPushSubscriptionStatusRequest_endpoint m \<noteq> []) (JStr (GetPushSubscriptionStatusRequest_endpoint m)))]"

definition fromPartial_GetPushSubscriptionStatusRequest :: "json \<Rightarrow> GetPushSubscriptionStatusRequest result" where
  "fromPartial_GetPushSubscriptionStatusRequest obj =
     read_fields
       [plain_field obj ''endpoint'' as_string [] GetPushSubscriptionStatusRequest_endpoint_update]
       base_GetPushSubscriptionStatusRequest"

definition create_GetPushSubscriptionStatusRequest :: "json option \<Rightarrow> GetPushSubscriptionStatusRequest result" where
  "create_GetPushSubscriptionStatusRequest = create_with fromPartial_GetPushSubscriptionStatusRequest"

lemma created_GetPushSubscriptionStatusRequest: "create_GetPushSubscriptionStatusRequest None = Inr base_GetPushSubscriptionStatusRequest"
  by (simp add: create_GetPushSubscriptionStatusRequest_def fromPartial_GetPushSubscriptionStatusRequest_def base_GetPushSubscriptionStatusRequest_def)

lemma toJSON_GetPushSubscriptionStatusRequest_set [json_set]: "toJSON_GetPushSubscriptionStatusRequest m \<noteq> JNull"
  by (simp add: toJSON_GetPushSubscriptionStatusRequest_def)

lemma json_GetPushSubscriptionStatusRequest [json_codecs]:
  "fromJSON_GetPushSubscriptionStatusRequest (toJSON_GetPushSubscriptionStatusRequest m) = Inr m"
  unfolding fromJSON_GetPushSubscriptionStatusRequest_def
proof (rule message_restored [OF toJSON_GetPushSubscriptionStatusRequest_def [of m]])
  show "foldl (\<lambda>m u. u m) base_GetPushSubscriptionStatusRequest
      [GetPushSubscriptionStatusRequest_endpoint_update (\<lambda>_. GetPushSubscriptionStatusRequest_endpoint m)] = m"
    by (cases m) (simp add: base_GetPushSubscriptionStatusRequest_def)
qed (simp, simp only: list.pred_inject prod.case, elim conjE, (rule json_fields | assumption | erule known_values
      | rule any_values comes_backI json_codecs json_set enum_proper)+)

section \<open>GetPushSubscriptionStatusResponse\<close>

definition fromJSON_GetPushSubscriptionStatusResponse :: "json \<Rightarrow> GetPushSubscriptionStatusResponse result" where
  "fromJSON_GetPushSubscriptionStatusResponse obj =
     read_fields
       [plain_field obj ''registered'' js_Boolean False GetPushSubscriptionStatusResponse_registered_update]
       base_GetPushSubscriptionStatusResponse"

definition toJSON_GetPushSubscriptionStatusResponse :: "GetPushSubscriptionStatusResponse \<Rightarrow> json" where
  "toJSON_GetPushSubscriptionStatusResponse m =
     object_of
       [(''registered'', put_when (GetPushSubscriptionStatusResponse_registered m \<noteq> False) (JBool (GetPushSubscriptionStatusResponse_registered m)))]"

definition fromPartial_GetPushSubscriptionStatusResponse :: "json \<Rightarrow> GetPushSubscriptionStatusResponse result" where
  "fromPartial_GetPushSubscriptionStatusResponse obj =
     read_fields
       [plain_field obj ''registered'' as_bool False GetPushSubscriptionStatusResponse_registered_update]
       base_GetPushSubscriptionStatusResponse"

definition create_GetPushSubscriptionStatusResponse :: "json option \<Rightarrow> GetPushSubscriptionStatusResponse result" where
  "create_GetPushSubscriptionStatusResponse = create_with fromPartial_GetPushSubscriptionStatusResponse"

lemma created_GetPushSubscriptionStatusResponse: "create_GetPushSubscriptionStatusResponse None = Inr base_GetPushSubscriptionStatusResponse"
  by (simp add: create_GetPushSubscriptionStatusResponse_def fromPartial_GetPushSubscriptionStatusResponse_def base_GetPushSubscriptionStatusResponse_def)

lemma toJSON_GetPushSubscriptionStatusResponse_set [json_set]: "toJSON_GetPushSubscriptionStatusResponse m \<noteq> JNull"
  by (simp add: toJSON_GetPushSubscriptionStatusResponse_def)

lemma json_GetPushSubscriptionStatusResponse [json_codecs]:
  "fromJSON_GetPushSubscriptionStatusResponse (toJSON_GetPushSubscriptionStatusResponse m) = Inr m"
  unfolding fromJSON_GetPushSubscriptionStatusResponse_def
proof (rule message_restored [OF toJSON_GetPushSubscriptionStatusResponse_def [of m]])
  show "foldl (\<lambda>m u. u m) base_GetPushSubscriptionStatusResponse
      [GetPushSubscriptionStatusResponse_registered_update (\<lambda>_. GetPushSubscriptionStatusResponse_registered m)] = m"
    by (cases m) (simp add: base_GetPushSubscriptionStatusResponse_def)
qed (simp, simp only: list.pred_inject prod.case, elim conjE, (rule json_fields | assumption | erule known_values
      | rule any_values comes_backI json_codecs json_set enum_proper)+)

end
