(* ===== verification/Json_Server_Configuration.thy ===== *)
theory Json_Server_Configuration
  imports Wire_Server_Configuration Json_Federation
begin

text \<open>
  The JSON side of packages/api/generated/server_configuration.ts: of each message reading it off an object, the object made of it, and
  building one from the fields given.
\<close>

section \<open>BirdConfig\<close>

definition fromJSON_BirdConfig :: "json \<Rightarrow> BirdConfig result" where
  "fromJSON_BirdConfig obj =
     read_fields
       [plain_field obj ''birdEnabled'' js_Boolean False BirdConfig_birdEnabled_update,
        plain_field obj ''birdAccessKey'' js_String [] BirdConfig_birdAccessKey_update,
        plain_field obj ''birdFrom'' js_String [] BirdConfig_birdFrom_update,
        plain_field obj ''birdRegion'' js_String [] BirdConfig_birdRegion_update,
        plain_field obj ''birdWebhookSigningKey'' js_String [] BirdConfig_birdWebhookSigningKey_update,
        plain_field obj ''useBirdWebhookSigningKey'' js_Boolean False BirdConfig_useBirdWebhookSigningKey_update]
       base_BirdConfig"

definition toJSON_BirdConfig :: "BirdConfig \<Rightarrow> json" where
  "toJSON_BirdConfig m =
     object_of
       [(''birdEnabled'', put_when (BirdConfig_birdEnabled m \<noteq> False) (JBool (BirdConfig_birdEnabled m))),
        (''birdAccessKey'', put_when (BirdConfig_birdAccessKey m \<noteq> []) (JStr (BirdConfig_birdAccessKey m))),
        (''birdFrom'', put_when (BirdConfig_birdFrom m \<noteq> []) (JStr (BirdConfig_birdFrom m))),
        (''birdRegion'', put_when (BirdConfig_birdRegion m \<noteq> []) (JStr (BirdConfig_birdRegion m))),
        (''birdWebhookSigningKey'', put_when (BirdConfig_birdWebhookSigningKey m \<noteq> []) (JStr (BirdConfig_birdWebhookSigningKey m))),
        (''useBirdWebhookSigningKey'', put_when (BirdConfig_useBirdWebhookSigningKey m \<noteq> False) (JBool (BirdConfig_useBirdWebhookSigningKey m)))]"

definition fromPartial_BirdConfig :: "json \<Rightarrow> BirdConfig result" where
  "fromPartial_BirdConfig obj =
     read_fields
       [plain_field obj ''birdEnabled'' as_bool False BirdConfig_birdEnabled_update,
        plain_field obj ''birdAccessKey'' as_string [] BirdConfig_birdAccessKey_update,
        plain_field obj ''birdFrom'' as_string [] BirdConfig_birdFrom_update,
        plain_field obj ''birdRegion'' as_string [] BirdConfig_birdRegion_update,
        plain_field obj ''birdWebhookSigningKey'' as_string [] BirdConfig_birdWebhookSigningKey_update,
        plain_field obj ''useBirdWebhookSigningKey'' as_bool False BirdConfig_useBirdWebhookSigningKey_update]
       base_BirdConfig"

definition create_BirdConfig :: "json option \<Rightarrow> BirdConfig result" where
  "create_BirdConfig = create_with fromPartial_BirdConfig"

lemma created_BirdConfig: "create_BirdConfig None = Inr base_BirdConfig"
  by (simp add: create_BirdConfig_def fromPartial_BirdConfig_def base_BirdConfig_def)

lemma toJSON_BirdConfig_set [json_set]: "toJSON_BirdConfig m \<noteq> JNull"
  by (simp add: toJSON_BirdConfig_def)

lemma json_BirdConfig [json_codecs]:
  "fromJSON_BirdConfig (toJSON_BirdConfig m) = Inr m"
  unfolding fromJSON_BirdConfig_def
proof (rule message_restored [OF toJSON_BirdConfig_def [of m]])
  show "foldl (\<lambda>m u. u m) base_BirdConfig
      [BirdConfig_birdEnabled_update (\<lambda>_. BirdConfig_birdEnabled m),
       BirdConfig_birdAccessKey_update (\<lambda>_. BirdConfig_birdAccessKey m),
       BirdConfig_birdFrom_update (\<lambda>_. BirdConfig_birdFrom m),
       BirdConfig_birdRegion_update (\<lambda>_. BirdConfig_birdRegion m),
       BirdConfig_birdWebhookSigningKey_update (\<lambda>_. BirdConfig_birdWebhookSigningKey m),
       BirdConfig_useBirdWebhookSigningKey_update (\<lambda>_. BirdConfig_useBirdWebhookSigningKey m)] = m"
    by (cases m) (simp add: base_BirdConfig_def)
qed (simp, simp only: list.pred_inject prod.case, elim conjE, (rule json_fields | assumption | erule known_values
      | rule any_values comes_backI json_codecs json_set enum_proper)+)

section \<open>ClusterResourceLimit\<close>

definition fromJSON_ClusterResourceLimit :: "json \<Rightarrow> ClusterResourceLimit result" where
  "fromJSON_ClusterResourceLimit obj =
     read_fields
       [list_field obj ''resource'' (from_enum ClusterResource_numbers) ClusterResourceLimit_resource_update,
        list_field obj ''limit'' js_Integer ClusterResourceLimit_limit_update]
       base_ClusterResourceLimit"

definition toJSON_ClusterResourceLimit :: "ClusterResourceLimit \<Rightarrow> json" where
  "toJSON_ClusterResourceLimit m =
     object_of
       [(''resource'', put_list (ClusterResourceLimit_resource m) (to_enum ClusterResource_numbers)),
        (''limit'', put_list (ClusterResourceLimit_limit m) number)]"

definition fromPartial_ClusterResourceLimit :: "json \<Rightarrow> ClusterResourceLimit result" where
  "fromPartial_ClusterResourceLimit obj =
     read_fields
       [mapped_field obj ''resource'' as_integer ClusterResourceLimit_resource_update,
        mapped_field obj ''limit'' as_integer ClusterResourceLimit_limit_update]
       base_ClusterResourceLimit"

definition create_ClusterResourceLimit :: "json option \<Rightarrow> ClusterResourceLimit result" where
  "create_ClusterResourceLimit = create_with fromPartial_ClusterResourceLimit"

definition known_ClusterResourceLimit :: "ClusterResourceLimit \<Rightarrow> bool" where
  "known_ClusterResourceLimit m \<longleftrightarrow>
     list_all (known_enum ClusterResource_numbers) (ClusterResourceLimit_resource m)"

lemma created_ClusterResourceLimit: "create_ClusterResourceLimit None = Inr base_ClusterResourceLimit"
  by (simp add: create_ClusterResourceLimit_def fromPartial_ClusterResourceLimit_def base_ClusterResourceLimit_def)

lemma toJSON_ClusterResourceLimit_set [json_set]: "toJSON_ClusterResourceLimit m \<noteq> JNull"
  by (simp add: toJSON_ClusterResourceLimit_def)

lemma json_ClusterResourceLimit [json_codecs]:
  assumes "known_ClusterResourceLimit m"
  shows "fromJSON_ClusterResourceLimit (toJSON_ClusterResourceLimit m) = Inr m"
  unfolding fromJSON_ClusterResourceLimit_def
proof (rule message_restored [OF toJSON_ClusterResourceLimit_def [of m]])
  show "foldl (\<lambda>m u. u m) base_ClusterResourceLimit
      [ClusterResourceLimit_resource_update (\<lambda>_. ClusterResourceLimit_resource m),
       ClusterResourceLimit_limit_update (\<lambda>_. ClusterResourceLimit_limit m)] = m"
    by (cases m) (simp add: base_ClusterResourceLimit_def)
qed (simp, insert assms [unfolded known_ClusterResourceLimit_def], simp only: list.pred_inject prod.case, elim conjE, (rule json_fields | assumption | erule known_values
      | rule any_values comes_backI json_codecs json_set enum_proper)+)

section \<open>ClusterResourceLock\<close>

definition fromJSON_ClusterResourceLock :: "json \<Rightarrow> ClusterResourceLock result" where
  "fromJSON_ClusterResourceLock obj =
     read_fields
       [plain_field obj ''lockHolderNamespaceId'' js_String [] ClusterResourceLock_lockHolderNamespaceId_update,
        list_field obj ''resources'' (from_enum ClusterResource_numbers) ClusterResourceLock_resources_update,
        optional_field obj ''acquiredAt'' js_String ClusterResourceLock_acquiredAt_update]
       base_ClusterResourceLock"

definition toJSON_ClusterResourceLock :: "ClusterResourceLock \<Rightarrow> json" where
  "toJSON_ClusterResourceLock m =
     object_of
       [(''lockHolderNamespaceId'', put_when (ClusterResourceLock_lockHolderNamespaceId m \<noteq> []) (JStr (ClusterResourceLock_lockHolderNamespaceId m))),
        (''resources'', put_list (ClusterResourceLock_resources m) (to_enum ClusterResource_numbers)),
        (''acquiredAt'', put_given (ClusterResourceLock_acquiredAt m) JStr)]"

definition fromPartial_ClusterResourceLock :: "json \<Rightarrow> ClusterResourceLock result" where
  "fromPartial_ClusterResourceLock obj =
     read_fields
       [plain_field obj ''lockHolderNamespaceId'' as_string [] ClusterResourceLock_lockHolderNamespaceId_update,
        mapped_field obj ''resources'' as_integer ClusterResourceLock_resources_update,
        optional_field obj ''acquiredAt'' as_string ClusterResourceLock_acquiredAt_update]
       base_ClusterResourceLock"

definition create_ClusterResourceLock :: "json option \<Rightarrow> ClusterResourceLock result" where
  "create_ClusterResourceLock = create_with fromPartial_ClusterResourceLock"

definition known_ClusterResourceLock :: "ClusterResourceLock \<Rightarrow> bool" where
  "known_ClusterResourceLock m \<longleftrightarrow>
     list_all (known_enum ClusterResource_numbers) (ClusterResourceLock_resources m)"

lemma created_ClusterResourceLock: "create_ClusterResourceLock None = Inr base_ClusterResourceLock"
  by (simp add: create_ClusterResourceLock_def fromPartial_ClusterResourceLock_def base_ClusterResourceLock_def)

lemma toJSON_ClusterResourceLock_set [json_set]: "toJSON_ClusterResourceLock m \<noteq> JNull"
  by (simp add: toJSON_ClusterResourceLock_def)

lemma json_ClusterResourceLock [json_codecs]:
  assumes "known_ClusterResourceLock m"
  shows "fromJSON_ClusterResourceLock (toJSON_ClusterResourceLock m) = Inr m"
  unfolding fromJSON_ClusterResourceLock_def
proof (rule message_restored [OF toJSON_ClusterResourceLock_def [of m]])
  show "foldl (\<lambda>m u. u m) base_ClusterResourceLock
      [ClusterResourceLock_lockHolderNamespaceId_update (\<lambda>_. ClusterResourceLock_lockHolderNamespaceId m),
       ClusterResourceLock_resources_update (\<lambda>_. ClusterResourceLock_resources m),
       ClusterResourceLock_acquiredAt_update (\<lambda>_. ClusterResourceLock_acquiredAt m)] = m"
    by (cases m) (simp add: base_ClusterResourceLock_def)
qed (simp, insert assms [unfolded known_ClusterResourceLock_def], simp only: list.pred_inject prod.case, elim conjE, (rule json_fields | assumption | erule known_values
      | rule any_values comes_backI json_codecs json_set enum_proper)+)

section \<open>ClusterConductorState\<close>

definition fromJSON_ClusterConductorState :: "json \<Rightarrow> ClusterConductorState result" where
  "fromJSON_ClusterConductorState obj =
     read_fields
       [list_field obj ''locks'' fromJSON_ClusterResourceLock ClusterConductorState_locks_update,
        list_field obj ''limits'' fromJSON_ClusterResourceLimit ClusterConductorState_limits_update]
       base_ClusterConductorState"

definition toJSON_ClusterConductorState :: "ClusterConductorState \<Rightarrow> json" where
  "toJSON_ClusterConductorState m =
     object_of
       [(''locks'', put_list (ClusterConductorState_locks m) toJSON_ClusterResourceLock),
        (''limits'', put_list (ClusterConductorState_limits m) toJSON_ClusterResourceLimit)]"

definition fromPartial_ClusterConductorState :: "json \<Rightarrow> ClusterConductorState result" where
  "fromPartial_ClusterConductorState obj =
     read_fields
       [mapped_field obj ''locks'' fromPartial_ClusterResourceLock ClusterConductorState_locks_update,
        mapped_field obj ''limits'' fromPartial_ClusterResourceLimit ClusterConductorState_limits_update]
       base_ClusterConductorState"

definition create_ClusterConductorState :: "json option \<Rightarrow> ClusterConductorState result" where
  "create_ClusterConductorState = create_with fromPartial_ClusterConductorState"

definition known_ClusterConductorState :: "ClusterConductorState \<Rightarrow> bool" where
  "known_ClusterConductorState m \<longleftrightarrow>
     list_all known_ClusterResourceLock (ClusterConductorState_locks m) \<and>
     list_all known_ClusterResourceLimit (ClusterConductorState_limits m)"

lemma created_ClusterConductorState: "create_ClusterConductorState None = Inr base_ClusterConductorState"
  by (simp add: create_ClusterConductorState_def fromPartial_ClusterConductorState_def base_ClusterConductorState_def)

lemma toJSON_ClusterConductorState_set [json_set]: "toJSON_ClusterConductorState m \<noteq> JNull"
  by (simp add: toJSON_ClusterConductorState_def)

lemma json_ClusterConductorState [json_codecs]:
  assumes "known_ClusterConductorState m"
  shows "fromJSON_ClusterConductorState (toJSON_ClusterConductorState m) = Inr m"
  unfolding fromJSON_ClusterConductorState_def
proof (rule message_restored [OF toJSON_ClusterConductorState_def [of m]])
  show "foldl (\<lambda>m u. u m) base_ClusterConductorState
      [ClusterConductorState_locks_update (\<lambda>_. ClusterConductorState_locks m),
       ClusterConductorState_limits_update (\<lambda>_. ClusterConductorState_limits m)] = m"
    by (cases m) (simp add: base_ClusterConductorState_def)
qed (simp, insert assms [unfolded known_ClusterConductorState_def], simp only: list.pred_inject prod.case, elim conjE, (rule json_fields | assumption | erule known_values
      | rule any_values comes_backI json_codecs json_set enum_proper)+)

section \<open>ClusterResources\<close>

definition fromJSON_ClusterResources :: "json \<Rightarrow> ClusterResources result" where
  "fromJSON_ClusterResources obj =
     read_fields
       [plain_field obj ''namespaceId'' js_String [] ClusterResources_namespaceId_update,
        plain_field obj ''conductorHost'' js_String [] ClusterResources_conductorHost_update,
        plain_field obj ''clusterSharedSecret'' js_String [] ClusterResources_clusterSharedSecret_update,
        optional_field obj ''conductorState'' fromJSON_ClusterConductorState ClusterResources_conductorState_update]
       base_ClusterResources"

definition toJSON_ClusterResources :: "ClusterResources \<Rightarrow> json" where
  "toJSON_ClusterResources m =
     object_of
       [(''namespaceId'', put_when (ClusterResources_namespaceId m \<noteq> []) (JStr (ClusterResources_namespaceId m))),
        (''conductorHost'', put_when (ClusterResources_conductorHost m \<noteq> []) (JStr (ClusterResources_conductorHost m))),
        (''clusterSharedSecret'', put_when (ClusterResources_clusterSharedSecret m \<noteq> []) (JStr (ClusterResources_clusterSharedSecret m))),
        (''conductorState'', put_given (ClusterResources_conductorState m) toJSON_ClusterConductorState)]"

definition fromPartial_ClusterResources :: "json \<Rightarrow> ClusterResources result" where
  "fromPartial_ClusterResources obj =
     read_fields
       [plain_field obj ''namespaceId'' as_string [] ClusterResources_namespaceId_update,
        plain_field obj ''conductorHost'' as_string [] ClusterResources_conductorHost_update,
        plain_field obj ''clusterSharedSecret'' as_string [] ClusterResources_clusterSharedSecret_update,
        optional_field obj ''conductorState'' fromPartial_ClusterConductorState ClusterResources_conductorState_update]
       base_ClusterResources"

definition create_ClusterResources :: "json option \<Rightarrow> ClusterResources result" where
  "create_ClusterResources = create_with fromPartial_ClusterResources"

definition known_ClusterResources :: "ClusterResources \<Rightarrow> bool" where
  "known_ClusterResources m \<longleftrightarrow>
     pred_option known_ClusterConductorState (ClusterResources_conductorState m)"

lemma created_ClusterResources: "create_ClusterResources None = Inr base_ClusterResources"
  by (simp add: create_ClusterResources_def fromPartial_ClusterResources_def base_ClusterResources_def)

lemma toJSON_ClusterResources_set [json_set]: "toJSON_ClusterResources m \<noteq> JNull"
  by (simp add: toJSON_ClusterResources_def)

lemma json_ClusterResources [json_codecs]:
  assumes "known_ClusterResources m"
  shows "fromJSON_ClusterResources (toJSON_ClusterResources m) = Inr m"
  unfolding fromJSON_ClusterResources_def
proof (rule message_restored [OF toJSON_ClusterResources_def [of m]])
  show "foldl (\<lambda>m u. u m) base_ClusterResources
      [ClusterResources_namespaceId_update (\<lambda>_. ClusterResources_namespaceId m),
       ClusterResources_conductorHost_update (\<lambda>_. ClusterResources_conductorHost m),
       ClusterResources_clusterSharedSecret_update (\<lambda>_. ClusterResources_clusterSharedSecret m),
       ClusterResources_conductorState_update (\<lambda>_. ClusterResources_conductorState m)] = m"
    by (cases m) (simp add: base_ClusterResources_def)
qed (simp, insert assms [unfolded known_ClusterResources_def], simp only: list.pred_inject prod.case, elim conjE, (rule json_fields | assumption | erule known_values
      | rule any_values comes_backI json_codecs json_set enum_proper)+)

section \<open>CustomCSSConfiguration\<close>

definition fromJSON_CustomCSSConfiguration :: "json \<Rightarrow> CustomCSSConfiguration result" where
  "fromJSON_CustomCSSConfiguration obj =
     read_fields
       [list_field obj ''mediaIds'' js_String CustomCSSConfiguration_mediaIds_update,
        optional_field obj ''customCss'' js_String CustomCSSConfiguration_customCss_update,
        plain_field obj ''forceLightTheme'' js_Boolean False CustomCSSConfiguration_forceLightTheme_update,
        plain_field obj ''forceDarkTheme'' js_Boolean False CustomCSSConfiguration_forceDarkTheme_update]
       base_CustomCSSConfiguration"

definition toJSON_CustomCSSConfiguration :: "CustomCSSConfiguration \<Rightarrow> json" where
  "toJSON_CustomCSSConfiguration m =
     object_of
       [(''mediaIds'', put_list (CustomCSSConfiguration_mediaIds m) JStr),
        (''customCss'', put_given (CustomCSSConfiguration_customCss m) JStr),
        (''forceLightTheme'', put_when (CustomCSSConfiguration_forceLightTheme m \<noteq> False) (JBool (CustomCSSConfiguration_forceLightTheme m))),
        (''forceDarkTheme'', put_when (CustomCSSConfiguration_forceDarkTheme m \<noteq> False) (JBool (CustomCSSConfiguration_forceDarkTheme m)))]"

definition fromPartial_CustomCSSConfiguration :: "json \<Rightarrow> CustomCSSConfiguration result" where
  "fromPartial_CustomCSSConfiguration obj =
     read_fields
       [mapped_field obj ''mediaIds'' as_string CustomCSSConfiguration_mediaIds_update,
        optional_field obj ''customCss'' as_string CustomCSSConfiguration_customCss_update,
        plain_field obj ''forceLightTheme'' as_bool False CustomCSSConfiguration_forceLightTheme_update,
        plain_field obj ''forceDarkTheme'' as_bool False CustomCSSConfiguration_forceDarkTheme_update]
       base_CustomCSSConfiguration"

definition create_CustomCSSConfiguration :: "json option \<Rightarrow> CustomCSSConfiguration result" where
  "create_CustomCSSConfiguration = create_with fromPartial_CustomCSSConfiguration"

lemma created_CustomCSSConfiguration: "create_CustomCSSConfiguration None = Inr base_CustomCSSConfiguration"
  by (simp add: create_CustomCSSConfiguration_def fromPartial_CustomCSSConfiguration_def base_CustomCSSConfiguration_def)

lemma toJSON_CustomCSSConfiguration_set [json_set]: "toJSON_CustomCSSConfiguration m \<noteq> JNull"
  by (simp add: toJSON_CustomCSSConfiguration_def)

lemma json_CustomCSSConfiguration [json_codecs]:
  "fromJSON_CustomCSSConfiguration (toJSON_CustomCSSConfiguration m) = Inr m"
  unfolding fromJSON_CustomCSSConfiguration_def
proof (rule message_restored [OF toJSON_CustomCSSConfiguration_def [of m]])
  show "foldl (\<lambda>m u. u m) base_CustomCSSConfiguration
      [CustomCSSConfiguration_mediaIds_update (\<lambda>_. CustomCSSConfiguration_mediaIds m),
       CustomCSSConfiguration_customCss_update (\<lambda>_. CustomCSSConfiguration_customCss m),
       CustomCSSConfiguration_forceLightTheme_update (\<lambda>_. CustomCSSConfiguration_forceLightTheme m),
       CustomCSSConfiguration_forceDarkTheme_update (\<lambda>_. CustomCSSConfiguration_forceDarkTheme m)] = m"
    by (cases m) (simp add: base_CustomCSSConfiguration_def)
qed (simp, simp only: list.pred_inject prod.case, elim conjE, (rule json_fields | assumption | erule known_values
      | rule any_values comes_backI json_codecs json_set enum_proper)+)

section \<open>CustomHomePage\<close>

definition fromJSON_CustomHomePage :: "json \<Rightarrow> CustomHomePage result" where
  "fromJSON_CustomHomePage obj =
     read_fields
       [optional_field obj ''tab'' (from_enum NavigationTab_numbers) CustomHomePage_tab_update,
        optional_field obj ''postId'' js_String CustomHomePage_postId_update,
        list_field obj ''pinnedPostIds'' js_String CustomHomePage_pinnedPostIds_update,
        plain_field obj ''showEventsStrip'' js_Boolean False CustomHomePage_showEventsStrip_update,
        plain_field obj ''defaultEventsStripToRow'' js_Boolean False CustomHomePage_defaultEventsStripToRow_update,
        plain_field obj ''defaultEventsStripCalendarDisplayMode'' (from_enum CalendarDisplayMode_numbers) 0 CustomHomePage_defaultEventsStripCalendarDisplayMode_update]
       base_CustomHomePage"

definition toJSON_CustomHomePage :: "CustomHomePage \<Rightarrow> json" where
  "toJSON_CustomHomePage m =
     object_of
       [(''tab'', put_given (CustomHomePage_tab m) (to_enum NavigationTab_numbers)),
        (''postId'', put_given (CustomHomePage_postId m) JStr),
        (''pinnedPostIds'', put_list (CustomHomePage_pinnedPostIds m) JStr),
        (''showEventsStrip'', put_when (CustomHomePage_showEventsStrip m \<noteq> False) (JBool (CustomHomePage_showEventsStrip m))),
        (''defaultEventsStripToRow'', put_when (CustomHomePage_defaultEventsStripToRow m \<noteq> False) (JBool (CustomHomePage_defaultEventsStripToRow m))),
        (''defaultEventsStripCalendarDisplayMode'', put_when (CustomHomePage_defaultEventsStripCalendarDisplayMode m \<noteq> 0) ((to_enum CalendarDisplayMode_numbers) (CustomHomePage_defaultEventsStripCalendarDisplayMode m)))]"

definition fromPartial_CustomHomePage :: "json \<Rightarrow> CustomHomePage result" where
  "fromPartial_CustomHomePage obj =
     read_fields
       [optional_field obj ''tab'' as_integer CustomHomePage_tab_update,
        optional_field obj ''postId'' as_string CustomHomePage_postId_update,
        mapped_field obj ''pinnedPostIds'' as_string CustomHomePage_pinnedPostIds_update,
        plain_field obj ''showEventsStrip'' as_bool False CustomHomePage_showEventsStrip_update,
        plain_field obj ''defaultEventsStripToRow'' as_bool False CustomHomePage_defaultEventsStripToRow_update,
        plain_field obj ''defaultEventsStripCalendarDisplayMode'' as_integer 0 CustomHomePage_defaultEventsStripCalendarDisplayMode_update]
       base_CustomHomePage"

definition create_CustomHomePage :: "json option \<Rightarrow> CustomHomePage result" where
  "create_CustomHomePage = create_with fromPartial_CustomHomePage"

definition known_CustomHomePage :: "CustomHomePage \<Rightarrow> bool" where
  "known_CustomHomePage m \<longleftrightarrow>
     pred_option (known_enum NavigationTab_numbers) (CustomHomePage_tab m) \<and>
     known_enum CalendarDisplayMode_numbers (CustomHomePage_defaultEventsStripCalendarDisplayMode m)"

lemma created_CustomHomePage: "create_CustomHomePage None = Inr base_CustomHomePage"
  by (simp add: create_CustomHomePage_def fromPartial_CustomHomePage_def base_CustomHomePage_def)

lemma toJSON_CustomHomePage_set [json_set]: "toJSON_CustomHomePage m \<noteq> JNull"
  by (simp add: toJSON_CustomHomePage_def)

lemma json_CustomHomePage [json_codecs]:
  assumes "known_CustomHomePage m"
  shows "fromJSON_CustomHomePage (toJSON_CustomHomePage m) = Inr m"
  unfolding fromJSON_CustomHomePage_def
proof (rule message_restored [OF toJSON_CustomHomePage_def [of m]])
  show "foldl (\<lambda>m u. u m) base_CustomHomePage
      [CustomHomePage_tab_update (\<lambda>_. CustomHomePage_tab m),
       CustomHomePage_postId_update (\<lambda>_. CustomHomePage_postId m),
       CustomHomePage_pinnedPostIds_update (\<lambda>_. CustomHomePage_pinnedPostIds m),
       CustomHomePage_showEventsStrip_update (\<lambda>_. CustomHomePage_showEventsStrip m),
       CustomHomePage_defaultEventsStripToRow_update (\<lambda>_. CustomHomePage_defaultEventsStripToRow m),
       CustomHomePage_defaultEventsStripCalendarDisplayMode_update (\<lambda>_. CustomHomePage_defaultEventsStripCalendarDisplayMode m)] = m"
    by (cases m) (simp add: base_CustomHomePage_def)
qed (simp, insert assms [unfolded known_CustomHomePage_def], simp only: list.pred_inject prod.case, elim conjE, (rule json_fields | assumption | erule known_values
      | rule any_values comes_backI json_codecs json_set enum_proper)+)

section \<open>CustomNavigationTab\<close>

definition fromJSON_CustomNavigationTab :: "json \<Rightarrow> CustomNavigationTab result" where
  "fromJSON_CustomNavigationTab obj =
     read_fields
       [optional_field obj ''tab'' (from_enum NavigationTab_numbers) CustomNavigationTab_tab_update,
        optional_field obj ''postId'' js_String CustomNavigationTab_postId_update,
        optional_field obj ''isProfile'' js_Boolean CustomNavigationTab_isProfile_update,
        optional_field obj ''emojiIcon'' js_String CustomNavigationTab_emojiIcon_update,
        optional_field obj ''iconMediaId'' js_String CustomNavigationTab_iconMediaId_update,
        optional_field obj ''title'' js_String CustomNavigationTab_title_update,
        plain_field obj ''path'' js_String [] CustomNavigationTab_path_update]
       base_CustomNavigationTab"

definition toJSON_CustomNavigationTab :: "CustomNavigationTab \<Rightarrow> json" where
  "toJSON_CustomNavigationTab m =
     object_of
       [(''tab'', put_given (CustomNavigationTab_tab m) (to_enum NavigationTab_numbers)),
        (''postId'', put_given (CustomNavigationTab_postId m) JStr),
        (''isProfile'', put_given (CustomNavigationTab_isProfile m) JBool),
        (''emojiIcon'', put_given (CustomNavigationTab_emojiIcon m) JStr),
        (''iconMediaId'', put_given (CustomNavigationTab_iconMediaId m) JStr),
        (''title'', put_given (CustomNavigationTab_title m) JStr),
        (''path'', put_when (CustomNavigationTab_path m \<noteq> []) (JStr (CustomNavigationTab_path m)))]"

definition fromPartial_CustomNavigationTab :: "json \<Rightarrow> CustomNavigationTab result" where
  "fromPartial_CustomNavigationTab obj =
     read_fields
       [optional_field obj ''tab'' as_integer CustomNavigationTab_tab_update,
        optional_field obj ''postId'' as_string CustomNavigationTab_postId_update,
        optional_field obj ''isProfile'' as_bool CustomNavigationTab_isProfile_update,
        optional_field obj ''emojiIcon'' as_string CustomNavigationTab_emojiIcon_update,
        optional_field obj ''iconMediaId'' as_string CustomNavigationTab_iconMediaId_update,
        optional_field obj ''title'' as_string CustomNavigationTab_title_update,
        plain_field obj ''path'' as_string [] CustomNavigationTab_path_update]
       base_CustomNavigationTab"

definition create_CustomNavigationTab :: "json option \<Rightarrow> CustomNavigationTab result" where
  "create_CustomNavigationTab = create_with fromPartial_CustomNavigationTab"

definition known_CustomNavigationTab :: "CustomNavigationTab \<Rightarrow> bool" where
  "known_CustomNavigationTab m \<longleftrightarrow>
     pred_option (known_enum NavigationTab_numbers) (CustomNavigationTab_tab m)"

lemma created_CustomNavigationTab: "create_CustomNavigationTab None = Inr base_CustomNavigationTab"
  by (simp add: create_CustomNavigationTab_def fromPartial_CustomNavigationTab_def base_CustomNavigationTab_def)

lemma toJSON_CustomNavigationTab_set [json_set]: "toJSON_CustomNavigationTab m \<noteq> JNull"
  by (simp add: toJSON_CustomNavigationTab_def)

lemma json_CustomNavigationTab [json_codecs]:
  assumes "known_CustomNavigationTab m"
  shows "fromJSON_CustomNavigationTab (toJSON_CustomNavigationTab m) = Inr m"
  unfolding fromJSON_CustomNavigationTab_def
proof (rule message_restored [OF toJSON_CustomNavigationTab_def [of m]])
  show "foldl (\<lambda>m u. u m) base_CustomNavigationTab
      [CustomNavigationTab_tab_update (\<lambda>_. CustomNavigationTab_tab m),
       CustomNavigationTab_postId_update (\<lambda>_. CustomNavigationTab_postId m),
       CustomNavigationTab_isProfile_update (\<lambda>_. CustomNavigationTab_isProfile m),
       CustomNavigationTab_emojiIcon_update (\<lambda>_. CustomNavigationTab_emojiIcon m),
       CustomNavigationTab_iconMediaId_update (\<lambda>_. CustomNavigationTab_iconMediaId m),
       CustomNavigationTab_title_update (\<lambda>_. CustomNavigationTab_title m),
       CustomNavigationTab_path_update (\<lambda>_. CustomNavigationTab_path m)] = m"
    by (cases m) (simp add: base_CustomNavigationTab_def)
qed (simp, insert assms [unfolded known_CustomNavigationTab_def], simp only: list.pred_inject prod.case, elim conjE, (rule json_fields | assumption | erule known_values
      | rule any_values comes_backI json_codecs json_set enum_proper)+)

section \<open>CustomNavigationTabSet\<close>

definition fromJSON_CustomNavigationTabSet :: "json \<Rightarrow> CustomNavigationTabSet result" where
  "fromJSON_CustomNavigationTabSet obj =
     read_fields
       [optional_field obj ''home'' fromJSON_CustomHomePage CustomNavigationTabSet_home_update,
        list_field obj ''tabs'' fromJSON_CustomNavigationTab CustomNavigationTabSet_tabs_update,
        plain_field obj ''tabStyle'' (from_enum NavigationTabStyle_numbers) 0 CustomNavigationTabSet_tabStyle_update]
       base_CustomNavigationTabSet"

definition toJSON_CustomNavigationTabSet :: "CustomNavigationTabSet \<Rightarrow> json" where
  "toJSON_CustomNavigationTabSet m =
     object_of
       [(''home'', put_given (CustomNavigationTabSet_home m) toJSON_CustomHomePage),
        (''tabs'', put_list (CustomNavigationTabSet_tabs m) toJSON_CustomNavigationTab),
        (''tabStyle'', put_when (CustomNavigationTabSet_tabStyle m \<noteq> 0) ((to_enum NavigationTabStyle_numbers) (CustomNavigationTabSet_tabStyle m)))]"

definition fromPartial_CustomNavigationTabSet :: "json \<Rightarrow> CustomNavigationTabSet result" where
  "fromPartial_CustomNavigationTabSet obj =
     read_fields
       [optional_field obj ''home'' fromPartial_CustomHomePage CustomNavigationTabSet_home_update,
        mapped_field obj ''tabs'' fromPartial_CustomNavigationTab CustomNavigationTabSet_tabs_update,
        plain_field obj ''tabStyle'' as_integer 0 CustomNavigationTabSet_tabStyle_update]
       base_CustomNavigationTabSet"

definition create_CustomNavigationTabSet :: "json option \<Rightarrow> CustomNavigationTabSet result" where
  "create_CustomNavigationTabSet = create_with fromPartial_CustomNavigationTabSet"

definition known_CustomNavigationTabSet :: "CustomNavigationTabSet \<Rightarrow> bool" where
  "known_CustomNavigationTabSet m \<longleftrightarrow>
     pred_option known_CustomHomePage (CustomNavigationTabSet_home m) \<and>
     list_all known_CustomNavigationTab (CustomNavigationTabSet_tabs m) \<and>
     known_enum NavigationTabStyle_numbers (CustomNavigationTabSet_tabStyle m)"

lemma created_CustomNavigationTabSet: "create_CustomNavigationTabSet None = Inr base_CustomNavigationTabSet"
  by (simp add: create_CustomNavigationTabSet_def fromPartial_CustomNavigationTabSet_def base_CustomNavigationTabSet_def)

lemma toJSON_CustomNavigationTabSet_set [json_set]: "toJSON_CustomNavigationTabSet m \<noteq> JNull"
  by (simp add: toJSON_CustomNavigationTabSet_def)

lemma json_CustomNavigationTabSet [json_codecs]:
  assumes "known_CustomNavigationTabSet m"
  shows "fromJSON_CustomNavigationTabSet (toJSON_CustomNavigationTabSet m) = Inr m"
  unfolding fromJSON_CustomNavigationTabSet_def
proof (rule message_restored [OF toJSON_CustomNavigationTabSet_def [of m]])
  show "foldl (\<lambda>m u. u m) base_CustomNavigationTabSet
      [CustomNavigationTabSet_home_update (\<lambda>_. CustomNavigationTabSet_home m),
       CustomNavigationTabSet_tabs_update (\<lambda>_. CustomNavigationTabSet_tabs m),
       CustomNavigationTabSet_tabStyle_update (\<lambda>_. CustomNavigationTabSet_tabStyle m)] = m"
    by (cases m) (simp add: base_CustomNavigationTabSet_def)
qed (simp, insert assms [unfolded known_CustomNavigationTabSet_def], simp only: list.pred_inject prod.case, elim conjE, (rule json_fields | assumption | erule known_values
      | rule any_values comes_backI json_codecs json_set enum_proper)+)

section \<open>EventSettings\<close>

definition fromJSON_EventSettings :: "json \<Rightarrow> EventSettings result" where
  "fromJSON_EventSettings obj =
     read_fields
       [plain_field obj ''visible'' js_Boolean False EventSettings_visible_update,
        plain_field obj ''defaultModeration'' (from_enum Moderation_numbers) 0 EventSettings_defaultModeration_update,
        plain_field obj ''defaultVisibility'' (from_enum Visibility_numbers) 0 EventSettings_defaultVisibility_update,
        optional_field obj ''aliasSingular'' js_String EventSettings_aliasSingular_update,
        optional_field obj ''aliasPlural'' js_String EventSettings_aliasPlural_update,
        optional_field obj ''enableReplies'' js_Boolean EventSettings_enableReplies_update,
        optional_field obj ''calendarLookbackDays'' js_Integer EventSettings_calendarLookbackDays_update,
        plain_field obj ''defaultCalendarDisplayMode'' (from_enum CalendarDisplayMode_numbers) 0 EventSettings_defaultCalendarDisplayMode_update,
        plain_field obj ''showStartedOrLongEventsByDefault'' js_Boolean False EventSettings_showStartedOrLongEventsByDefault_update]
       base_EventSettings"

definition toJSON_EventSettings :: "EventSettings \<Rightarrow> json" where
  "toJSON_EventSettings m =
     object_of
       [(''visible'', put_when (EventSettings_visible m \<noteq> False) (JBool (EventSettings_visible m))),
        (''defaultModeration'', put_when (EventSettings_defaultModeration m \<noteq> 0) ((to_enum Moderation_numbers) (EventSettings_defaultModeration m))),
        (''defaultVisibility'', put_when (EventSettings_defaultVisibility m \<noteq> 0) ((to_enum Visibility_numbers) (EventSettings_defaultVisibility m))),
        (''aliasSingular'', put_given (EventSettings_aliasSingular m) JStr),
        (''aliasPlural'', put_given (EventSettings_aliasPlural m) JStr),
        (''enableReplies'', put_given (EventSettings_enableReplies m) JBool),
        (''calendarLookbackDays'', put_given (EventSettings_calendarLookbackDays m) number),
        (''defaultCalendarDisplayMode'', put_when (EventSettings_defaultCalendarDisplayMode m \<noteq> 0) ((to_enum CalendarDisplayMode_numbers) (EventSettings_defaultCalendarDisplayMode m))),
        (''showStartedOrLongEventsByDefault'', put_when (EventSettings_showStartedOrLongEventsByDefault m \<noteq> False) (JBool (EventSettings_showStartedOrLongEventsByDefault m)))]"

definition fromPartial_EventSettings :: "json \<Rightarrow> EventSettings result" where
  "fromPartial_EventSettings obj =
     read_fields
       [plain_field obj ''visible'' as_bool False EventSettings_visible_update,
        plain_field obj ''defaultModeration'' as_integer 0 EventSettings_defaultModeration_update,
        plain_field obj ''defaultVisibility'' as_integer 0 EventSettings_defaultVisibility_update,
        optional_field obj ''aliasSingular'' as_string EventSettings_aliasSingular_update,
        optional_field obj ''aliasPlural'' as_string EventSettings_aliasPlural_update,
        optional_field obj ''enableReplies'' as_bool EventSettings_enableReplies_update,
        optional_field obj ''calendarLookbackDays'' as_integer EventSettings_calendarLookbackDays_update,
        plain_field obj ''defaultCalendarDisplayMode'' as_integer 0 EventSettings_defaultCalendarDisplayMode_update,
        plain_field obj ''showStartedOrLongEventsByDefault'' as_bool False EventSettings_showStartedOrLongEventsByDefault_update]
       base_EventSettings"

definition create_EventSettings :: "json option \<Rightarrow> EventSettings result" where
  "create_EventSettings = create_with fromPartial_EventSettings"

definition known_EventSettings :: "EventSettings \<Rightarrow> bool" where
  "known_EventSettings m \<longleftrightarrow>
     known_enum Moderation_numbers (EventSettings_defaultModeration m) \<and>
     known_enum Visibility_numbers (EventSettings_defaultVisibility m) \<and>
     known_enum CalendarDisplayMode_numbers (EventSettings_defaultCalendarDisplayMode m)"

lemma created_EventSettings: "create_EventSettings None = Inr base_EventSettings"
  by (simp add: create_EventSettings_def fromPartial_EventSettings_def base_EventSettings_def)

lemma toJSON_EventSettings_set [json_set]: "toJSON_EventSettings m \<noteq> JNull"
  by (simp add: toJSON_EventSettings_def)

lemma json_EventSettings [json_codecs]:
  assumes "known_EventSettings m"
  shows "fromJSON_EventSettings (toJSON_EventSettings m) = Inr m"
  unfolding fromJSON_EventSettings_def
proof (rule message_restored [OF toJSON_EventSettings_def [of m]])
  show "foldl (\<lambda>m u. u m) base_EventSettings
      [EventSettings_visible_update (\<lambda>_. EventSettings_visible m),
       EventSettings_defaultModeration_update (\<lambda>_. EventSettings_defaultModeration m),
       EventSettings_defaultVisibility_update (\<lambda>_. EventSettings_defaultVisibility m),
       EventSettings_aliasSingular_update (\<lambda>_. EventSettings_aliasSingular m),
       EventSettings_aliasPlural_update (\<lambda>_. EventSettings_aliasPlural m),
       EventSettings_enableReplies_update (\<lambda>_. EventSettings_enableReplies m),
       EventSettings_calendarLookbackDays_update (\<lambda>_. EventSettings_calendarLookbackDays m),
       EventSettings_defaultCalendarDisplayMode_update (\<lambda>_. EventSettings_defaultCalendarDisplayMode m),
       EventSettings_showStartedOrLongEventsByDefault_update (\<lambda>_. EventSettings_showStartedOrLongEventsByDefault m)] = m"
    by (cases m) (simp add: base_EventSettings_def)
qed (simp, insert assms [unfolded known_EventSettings_def], simp only: list.pred_inject prod.case, elim conjE, (rule json_fields | assumption | erule known_values
      | rule any_values comes_backI json_codecs json_set enum_proper)+)

section \<open>ExternalCDNConfig\<close>

definition fromJSON_ExternalCDNConfig :: "json \<Rightarrow> ExternalCDNConfig result" where
  "fromJSON_ExternalCDNConfig obj =
     read_fields
       [plain_field obj ''frontendHost'' js_String [] ExternalCDNConfig_frontendHost_update,
        plain_field obj ''backendHost'' js_String [] ExternalCDNConfig_backendHost_update,
        plain_field obj ''secureMedia'' js_Boolean False ExternalCDNConfig_secureMedia_update,
        optional_field obj ''mediaIpv4Allowlist'' js_String ExternalCDNConfig_mediaIpv4Allowlist_update,
        optional_field obj ''mediaIpv6Allowlist'' js_String ExternalCDNConfig_mediaIpv6Allowlist_update,
        plain_field obj ''cdnGrpc'' js_Boolean False ExternalCDNConfig_cdnGrpc_update]
       base_ExternalCDNConfig"

definition toJSON_ExternalCDNConfig :: "ExternalCDNConfig \<Rightarrow> json" where
  "toJSON_ExternalCDNConfig m =
     object_of
       [(''frontendHost'', put_when (ExternalCDNConfig_frontendHost m \<noteq> []) (JStr (ExternalCDNConfig_frontendHost m))),
        (''backendHost'', put_when (ExternalCDNConfig_backendHost m \<noteq> []) (JStr (ExternalCDNConfig_backendHost m))),
        (''secureMedia'', put_when (ExternalCDNConfig_secureMedia m \<noteq> False) (JBool (ExternalCDNConfig_secureMedia m))),
        (''mediaIpv4Allowlist'', put_given (ExternalCDNConfig_mediaIpv4Allowlist m) JStr),
        (''mediaIpv6Allowlist'', put_given (ExternalCDNConfig_mediaIpv6Allowlist m) JStr),
        (''cdnGrpc'', put_when (ExternalCDNConfig_cdnGrpc m \<noteq> False) (JBool (ExternalCDNConfig_cdnGrpc m)))]"

definition fromPartial_ExternalCDNConfig :: "json \<Rightarrow> ExternalCDNConfig result" where
  "fromPartial_ExternalCDNConfig obj =
     read_fields
       [plain_field obj ''frontendHost'' as_string [] ExternalCDNConfig_frontendHost_update,
        plain_field obj ''backendHost'' as_string [] ExternalCDNConfig_backendHost_update,
        plain_field obj ''secureMedia'' as_bool False ExternalCDNConfig_secureMedia_update,
        optional_field obj ''mediaIpv4Allowlist'' as_string ExternalCDNConfig_mediaIpv4Allowlist_update,
        optional_field obj ''mediaIpv6Allowlist'' as_string ExternalCDNConfig_mediaIpv6Allowlist_update,
        plain_field obj ''cdnGrpc'' as_bool False ExternalCDNConfig_cdnGrpc_update]
       base_ExternalCDNConfig"

definition create_ExternalCDNConfig :: "json option \<Rightarrow> ExternalCDNConfig result" where
  "create_ExternalCDNConfig = create_with fromPartial_ExternalCDNConfig"

lemma created_ExternalCDNConfig: "create_ExternalCDNConfig None = Inr base_ExternalCDNConfig"
  by (simp add: create_ExternalCDNConfig_def fromPartial_ExternalCDNConfig_def base_ExternalCDNConfig_def)

lemma toJSON_ExternalCDNConfig_set [json_set]: "toJSON_ExternalCDNConfig m \<noteq> JNull"
  by (simp add: toJSON_ExternalCDNConfig_def)

lemma json_ExternalCDNConfig [json_codecs]:
  "fromJSON_ExternalCDNConfig (toJSON_ExternalCDNConfig m) = Inr m"
  unfolding fromJSON_ExternalCDNConfig_def
proof (rule message_restored [OF toJSON_ExternalCDNConfig_def [of m]])
  show "foldl (\<lambda>m u. u m) base_ExternalCDNConfig
      [ExternalCDNConfig_frontendHost_update (\<lambda>_. ExternalCDNConfig_frontendHost m),
       ExternalCDNConfig_backendHost_update (\<lambda>_. ExternalCDNConfig_backendHost m),
       ExternalCDNConfig_secureMedia_update (\<lambda>_. ExternalCDNConfig_secureMedia m),
       ExternalCDNConfig_mediaIpv4Allowlist_update (\<lambda>_. ExternalCDNConfig_mediaIpv4Allowlist m),
       ExternalCDNConfig_mediaIpv6Allowlist_update (\<lambda>_. ExternalCDNConfig_mediaIpv6Allowlist m),
       ExternalCDNConfig_cdnGrpc_update (\<lambda>_. ExternalCDNConfig_cdnGrpc m)] = m"
    by (cases m) (simp add: base_ExternalCDNConfig_def)
qed (simp, simp only: list.pred_inject prod.case, elim conjE, (rule json_fields | assumption | erule known_values
      | rule any_values comes_backI json_codecs json_set enum_proper)+)

section \<open>FeatureSettings\<close>

definition fromJSON_FeatureSettings :: "json \<Rightarrow> FeatureSettings result" where
  "fromJSON_FeatureSettings obj =
     read_fields
       [plain_field obj ''visible'' js_Boolean False FeatureSettings_visible_update,
        plain_field obj ''defaultModeration'' (from_enum Moderation_numbers) 0 FeatureSettings_defaultModeration_update,
        plain_field obj ''defaultVisibility'' (from_enum Visibility_numbers) 0 FeatureSettings_defaultVisibility_update,
        optional_field obj ''aliasSingular'' js_String FeatureSettings_aliasSingular_update,
        optional_field obj ''aliasPlural'' js_String FeatureSettings_aliasPlural_update]
       base_FeatureSettings"

definition toJSON_FeatureSettings :: "FeatureSettings \<Rightarrow> json" where
  "toJSON_FeatureSettings m =
     object_of
       [(''visible'', put_when (FeatureSettings_visible m \<noteq> False) (JBool (FeatureSettings_visible m))),
        (''defaultModeration'', put_when (FeatureSettings_defaultModeration m \<noteq> 0) ((to_enum Moderation_numbers) (FeatureSettings_defaultModeration m))),
        (''defaultVisibility'', put_when (FeatureSettings_defaultVisibility m \<noteq> 0) ((to_enum Visibility_numbers) (FeatureSettings_defaultVisibility m))),
        (''aliasSingular'', put_given (FeatureSettings_aliasSingular m) JStr),
        (''aliasPlural'', put_given (FeatureSettings_aliasPlural m) JStr)]"

definition fromPartial_FeatureSettings :: "json \<Rightarrow> FeatureSettings result" where
  "fromPartial_FeatureSettings obj =
     read_fields
       [plain_field obj ''visible'' as_bool False FeatureSettings_visible_update,
        plain_field obj ''defaultModeration'' as_integer 0 FeatureSettings_defaultModeration_update,
        plain_field obj ''defaultVisibility'' as_integer 0 FeatureSettings_defaultVisibility_update,
        optional_field obj ''aliasSingular'' as_string FeatureSettings_aliasSingular_update,
        optional_field obj ''aliasPlural'' as_string FeatureSettings_aliasPlural_update]
       base_FeatureSettings"

definition create_FeatureSettings :: "json option \<Rightarrow> FeatureSettings result" where
  "create_FeatureSettings = create_with fromPartial_FeatureSettings"

definition known_FeatureSettings :: "FeatureSettings \<Rightarrow> bool" where
  "known_FeatureSettings m \<longleftrightarrow>
     known_enum Moderation_numbers (FeatureSettings_defaultModeration m) \<and>
     known_enum Visibility_numbers (FeatureSettings_defaultVisibility m)"

lemma created_FeatureSettings: "create_FeatureSettings None = Inr base_FeatureSettings"
  by (simp add: create_FeatureSettings_def fromPartial_FeatureSettings_def base_FeatureSettings_def)

lemma toJSON_FeatureSettings_set [json_set]: "toJSON_FeatureSettings m \<noteq> JNull"
  by (simp add: toJSON_FeatureSettings_def)

lemma json_FeatureSettings [json_codecs]:
  assumes "known_FeatureSettings m"
  shows "fromJSON_FeatureSettings (toJSON_FeatureSettings m) = Inr m"
  unfolding fromJSON_FeatureSettings_def
proof (rule message_restored [OF toJSON_FeatureSettings_def [of m]])
  show "foldl (\<lambda>m u. u m) base_FeatureSettings
      [FeatureSettings_visible_update (\<lambda>_. FeatureSettings_visible m),
       FeatureSettings_defaultModeration_update (\<lambda>_. FeatureSettings_defaultModeration m),
       FeatureSettings_defaultVisibility_update (\<lambda>_. FeatureSettings_defaultVisibility m),
       FeatureSettings_aliasSingular_update (\<lambda>_. FeatureSettings_aliasSingular m),
       FeatureSettings_aliasPlural_update (\<lambda>_. FeatureSettings_aliasPlural m)] = m"
    by (cases m) (simp add: base_FeatureSettings_def)
qed (simp, insert assms [unfolded known_FeatureSettings_def], simp only: list.pred_inject prod.case, elim conjE, (rule json_fields | assumption | erule known_values
      | rule any_values comes_backI json_codecs json_set enum_proper)+)

section \<open>MarketSettings\<close>

definition fromJSON_MarketSettings :: "json \<Rightarrow> MarketSettings result" where
  "fromJSON_MarketSettings obj =
     read_fields
       [plain_field obj ''enabled'' js_Boolean False MarketSettings_enabled_update,
        plain_field obj ''stripeConfigured'' js_Boolean False MarketSettings_stripeConfigured_update]
       base_MarketSettings"

definition toJSON_MarketSettings :: "MarketSettings \<Rightarrow> json" where
  "toJSON_MarketSettings m =
     object_of
       [(''enabled'', put_when (MarketSettings_enabled m \<noteq> False) (JBool (MarketSettings_enabled m))),
        (''stripeConfigured'', put_when (MarketSettings_stripeConfigured m \<noteq> False) (JBool (MarketSettings_stripeConfigured m)))]"

definition fromPartial_MarketSettings :: "json \<Rightarrow> MarketSettings result" where
  "fromPartial_MarketSettings obj =
     read_fields
       [plain_field obj ''enabled'' as_bool False MarketSettings_enabled_update,
        plain_field obj ''stripeConfigured'' as_bool False MarketSettings_stripeConfigured_update]
       base_MarketSettings"

definition create_MarketSettings :: "json option \<Rightarrow> MarketSettings result" where
  "create_MarketSettings = create_with fromPartial_MarketSettings"

lemma created_MarketSettings: "create_MarketSettings None = Inr base_MarketSettings"
  by (simp add: create_MarketSettings_def fromPartial_MarketSettings_def base_MarketSettings_def)

lemma toJSON_MarketSettings_set [json_set]: "toJSON_MarketSettings m \<noteq> JNull"
  by (simp add: toJSON_MarketSettings_def)

lemma json_MarketSettings [json_codecs]:
  "fromJSON_MarketSettings (toJSON_MarketSettings m) = Inr m"
  unfolding fromJSON_MarketSettings_def
proof (rule message_restored [OF toJSON_MarketSettings_def [of m]])
  show "foldl (\<lambda>m u. u m) base_MarketSettings
      [MarketSettings_enabled_update (\<lambda>_. MarketSettings_enabled m),
       MarketSettings_stripeConfigured_update (\<lambda>_. MarketSettings_stripeConfigured m)] = m"
    by (cases m) (simp add: base_MarketSettings_def)
qed (simp, simp only: list.pred_inject prod.case, elim conjE, (rule json_fields | assumption | erule known_values
      | rule any_values comes_backI json_codecs json_set enum_proper)+)

section \<open>MediaSettings\<close>

definition fromJSON_MediaSettings :: "json \<Rightarrow> MediaSettings result" where
  "fromJSON_MediaSettings obj =
     read_fields
       [plain_field obj ''visible'' js_Boolean False MediaSettings_visible_update,
        plain_field obj ''defaultModeration'' (from_enum Moderation_numbers) 0 MediaSettings_defaultModeration_update,
        plain_field obj ''defaultVisibility'' (from_enum Visibility_numbers) 0 MediaSettings_defaultVisibility_update,
        plain_field obj ''defaultUserMediaAllocationBytes'' js_Integer 0 MediaSettings_defaultUserMediaAllocationBytes_update,
        plain_field obj ''blockCorsAnonymousMediaAccess'' js_Boolean False MediaSettings_blockCorsAnonymousMediaAccess_update,
        plain_field obj ''licensedMediaVisibleGlobally'' js_Boolean False MediaSettings_licensedMediaVisibleGlobally_update,
        plain_field obj ''hlsStreamingEnabled'' js_Boolean False MediaSettings_hlsStreamingEnabled_update,
        plain_field obj ''serverMediaAllocationBytes'' js_Integer 0 MediaSettings_serverMediaAllocationBytes_update,
        plain_field obj ''serverMediaUsageBytes'' js_Integer 0 MediaSettings_serverMediaUsageBytes_update,
        optional_field obj ''serverMediaUsageCalculatedAt'' js_String MediaSettings_serverMediaUsageCalculatedAt_update,
        plain_field obj ''serverObjectStorageUsageBytes'' js_Integer 0 MediaSettings_serverObjectStorageUsageBytes_update,
        optional_field obj ''serverObjectStorageUsageCalculatedAt'' js_String MediaSettings_serverObjectStorageUsageCalculatedAt_update,
        plain_field obj ''disableLinkPreviewImages'' js_Boolean False MediaSettings_disableLinkPreviewImages_update,
        plain_field obj ''preferMetadataForLinkPreviewImages'' js_Boolean False MediaSettings_preferMetadataForLinkPreviewImages_update]
       base_MediaSettings"

definition toJSON_MediaSettings :: "MediaSettings \<Rightarrow> json" where
  "toJSON_MediaSettings m =
     object_of
       [(''visible'', put_when (MediaSettings_visible m \<noteq> False) (JBool (MediaSettings_visible m))),
        (''defaultModeration'', put_when (MediaSettings_defaultModeration m \<noteq> 0) ((to_enum Moderation_numbers) (MediaSettings_defaultModeration m))),
        (''defaultVisibility'', put_when (MediaSettings_defaultVisibility m \<noteq> 0) ((to_enum Visibility_numbers) (MediaSettings_defaultVisibility m))),
        (''defaultUserMediaAllocationBytes'', put_when (MediaSettings_defaultUserMediaAllocationBytes m \<noteq> 0) (number (MediaSettings_defaultUserMediaAllocationBytes m))),
        (''blockCorsAnonymousMediaAccess'', put_when (MediaSettings_blockCorsAnonymousMediaAccess m \<noteq> False) (JBool (MediaSettings_blockCorsAnonymousMediaAccess m))),
        (''licensedMediaVisibleGlobally'', put_when (MediaSettings_licensedMediaVisibleGlobally m \<noteq> False) (JBool (MediaSettings_licensedMediaVisibleGlobally m))),
        (''hlsStreamingEnabled'', put_when (MediaSettings_hlsStreamingEnabled m \<noteq> False) (JBool (MediaSettings_hlsStreamingEnabled m))),
        (''serverMediaAllocationBytes'', put_when (MediaSettings_serverMediaAllocationBytes m \<noteq> 0) (number (MediaSettings_serverMediaAllocationBytes m))),
        (''serverMediaUsageBytes'', put_when (MediaSettings_serverMediaUsageBytes m \<noteq> 0) (number (MediaSettings_serverMediaUsageBytes m))),
        (''serverMediaUsageCalculatedAt'', put_given (MediaSettings_serverMediaUsageCalculatedAt m) JStr),
        (''serverObjectStorageUsageBytes'', put_when (MediaSettings_serverObjectStorageUsageBytes m \<noteq> 0) (number (MediaSettings_serverObjectStorageUsageBytes m))),
        (''serverObjectStorageUsageCalculatedAt'', put_given (MediaSettings_serverObjectStorageUsageCalculatedAt m) JStr),
        (''disableLinkPreviewImages'', put_when (MediaSettings_disableLinkPreviewImages m \<noteq> False) (JBool (MediaSettings_disableLinkPreviewImages m))),
        (''preferMetadataForLinkPreviewImages'', put_when (MediaSettings_preferMetadataForLinkPreviewImages m \<noteq> False) (JBool (MediaSettings_preferMetadataForLinkPreviewImages m)))]"

definition fromPartial_MediaSettings :: "json \<Rightarrow> MediaSettings result" where
  "fromPartial_MediaSettings obj =
     read_fields
       [plain_field obj ''visible'' as_bool False MediaSettings_visible_update,
        plain_field obj ''defaultModeration'' as_integer 0 MediaSettings_defaultModeration_update,
        plain_field obj ''defaultVisibility'' as_integer 0 MediaSettings_defaultVisibility_update,
        plain_field obj ''defaultUserMediaAllocationBytes'' as_integer 0 MediaSettings_defaultUserMediaAllocationBytes_update,
        plain_field obj ''blockCorsAnonymousMediaAccess'' as_bool False MediaSettings_blockCorsAnonymousMediaAccess_update,
        plain_field obj ''licensedMediaVisibleGlobally'' as_bool False MediaSettings_licensedMediaVisibleGlobally_update,
        plain_field obj ''hlsStreamingEnabled'' as_bool False MediaSettings_hlsStreamingEnabled_update,
        plain_field obj ''serverMediaAllocationBytes'' as_integer 0 MediaSettings_serverMediaAllocationBytes_update,
        plain_field obj ''serverMediaUsageBytes'' as_integer 0 MediaSettings_serverMediaUsageBytes_update,
        optional_field obj ''serverMediaUsageCalculatedAt'' as_string MediaSettings_serverMediaUsageCalculatedAt_update,
        plain_field obj ''serverObjectStorageUsageBytes'' as_integer 0 MediaSettings_serverObjectStorageUsageBytes_update,
        optional_field obj ''serverObjectStorageUsageCalculatedAt'' as_string MediaSettings_serverObjectStorageUsageCalculatedAt_update,
        plain_field obj ''disableLinkPreviewImages'' as_bool False MediaSettings_disableLinkPreviewImages_update,
        plain_field obj ''preferMetadataForLinkPreviewImages'' as_bool False MediaSettings_preferMetadataForLinkPreviewImages_update]
       base_MediaSettings"

definition create_MediaSettings :: "json option \<Rightarrow> MediaSettings result" where
  "create_MediaSettings = create_with fromPartial_MediaSettings"

definition known_MediaSettings :: "MediaSettings \<Rightarrow> bool" where
  "known_MediaSettings m \<longleftrightarrow>
     known_enum Moderation_numbers (MediaSettings_defaultModeration m) \<and>
     known_enum Visibility_numbers (MediaSettings_defaultVisibility m)"

lemma created_MediaSettings: "create_MediaSettings None = Inr base_MediaSettings"
  by (simp add: create_MediaSettings_def fromPartial_MediaSettings_def base_MediaSettings_def)

lemma toJSON_MediaSettings_set [json_set]: "toJSON_MediaSettings m \<noteq> JNull"
  by (simp add: toJSON_MediaSettings_def)

lemma json_MediaSettings [json_codecs]:
  assumes "known_MediaSettings m"
  shows "fromJSON_MediaSettings (toJSON_MediaSettings m) = Inr m"
  unfolding fromJSON_MediaSettings_def
proof (rule message_restored [OF toJSON_MediaSettings_def [of m]])
  show "foldl (\<lambda>m u. u m) base_MediaSettings
      [MediaSettings_visible_update (\<lambda>_. MediaSettings_visible m),
       MediaSettings_defaultModeration_update (\<lambda>_. MediaSettings_defaultModeration m),
       MediaSettings_defaultVisibility_update (\<lambda>_. MediaSettings_defaultVisibility m),
       MediaSettings_defaultUserMediaAllocationBytes_update (\<lambda>_. MediaSettings_defaultUserMediaAllocationBytes m),
       MediaSettings_blockCorsAnonymousMediaAccess_update (\<lambda>_. MediaSettings_blockCorsAnonymousMediaAccess m),
       MediaSettings_licensedMediaVisibleGlobally_update (\<lambda>_. MediaSettings_licensedMediaVisibleGlobally m),
       MediaSettings_hlsStreamingEnabled_update (\<lambda>_. MediaSettings_hlsStreamingEnabled m),
       MediaSettings_serverMediaAllocationBytes_update (\<lambda>_. MediaSettings_serverMediaAllocationBytes m),
       MediaSettings_serverMediaUsageBytes_update (\<lambda>_. MediaSettings_serverMediaUsageBytes m),
       MediaSettings_serverMediaUsageCalculatedAt_update (\<lambda>_. MediaSettings_serverMediaUsageCalculatedAt m),
       MediaSettings_serverObjectStorageUsageBytes_update (\<lambda>_. MediaSettings_serverObjectStorageUsageBytes m),
       MediaSettings_serverObjectStorageUsageCalculatedAt_update (\<lambda>_. MediaSettings_serverObjectStorageUsageCalculatedAt m),
       MediaSettings_disableLinkPreviewImages_update (\<lambda>_. MediaSettings_disableLinkPreviewImages m),
       MediaSettings_preferMetadataForLinkPreviewImages_update (\<lambda>_. MediaSettings_preferMetadataForLinkPreviewImages m)] = m"
    by (cases m) (simp add: base_MediaSettings_def)
qed (simp, insert assms [unfolded known_MediaSettings_def], simp only: list.pred_inject prod.case, elim conjE, (rule json_fields | assumption | erule known_values
      | rule any_values comes_backI json_codecs json_set enum_proper)+)

section \<open>PostSettings\<close>

definition fromJSON_PostSettings :: "json \<Rightarrow> PostSettings result" where
  "fromJSON_PostSettings obj =
     read_fields
       [plain_field obj ''visible'' js_Boolean False PostSettings_visible_update,
        plain_field obj ''defaultModeration'' (from_enum Moderation_numbers) 0 PostSettings_defaultModeration_update,
        plain_field obj ''defaultVisibility'' (from_enum Visibility_numbers) 0 PostSettings_defaultVisibility_update,
        optional_field obj ''aliasSingular'' js_String PostSettings_aliasSingular_update,
        optional_field obj ''aliasPlural'' js_String PostSettings_aliasPlural_update,
        optional_field obj ''enableReplies'' js_Boolean PostSettings_enableReplies_update,
        plain_field obj ''defaultSort'' (from_enum DefaultPostsSort_numbers) 0 PostSettings_defaultSort_update]
       base_PostSettings"

definition toJSON_PostSettings :: "PostSettings \<Rightarrow> json" where
  "toJSON_PostSettings m =
     object_of
       [(''visible'', put_when (PostSettings_visible m \<noteq> False) (JBool (PostSettings_visible m))),
        (''defaultModeration'', put_when (PostSettings_defaultModeration m \<noteq> 0) ((to_enum Moderation_numbers) (PostSettings_defaultModeration m))),
        (''defaultVisibility'', put_when (PostSettings_defaultVisibility m \<noteq> 0) ((to_enum Visibility_numbers) (PostSettings_defaultVisibility m))),
        (''aliasSingular'', put_given (PostSettings_aliasSingular m) JStr),
        (''aliasPlural'', put_given (PostSettings_aliasPlural m) JStr),
        (''enableReplies'', put_given (PostSettings_enableReplies m) JBool),
        (''defaultSort'', put_when (PostSettings_defaultSort m \<noteq> 0) ((to_enum DefaultPostsSort_numbers) (PostSettings_defaultSort m)))]"

definition fromPartial_PostSettings :: "json \<Rightarrow> PostSettings result" where
  "fromPartial_PostSettings obj =
     read_fields
       [plain_field obj ''visible'' as_bool False PostSettings_visible_update,
        plain_field obj ''defaultModeration'' as_integer 0 PostSettings_defaultModeration_update,
        plain_field obj ''defaultVisibility'' as_integer 0 PostSettings_defaultVisibility_update,
        optional_field obj ''aliasSingular'' as_string PostSettings_aliasSingular_update,
        optional_field obj ''aliasPlural'' as_string PostSettings_aliasPlural_update,
        optional_field obj ''enableReplies'' as_bool PostSettings_enableReplies_update,
        plain_field obj ''defaultSort'' as_integer 0 PostSettings_defaultSort_update]
       base_PostSettings"

definition create_PostSettings :: "json option \<Rightarrow> PostSettings result" where
  "create_PostSettings = create_with fromPartial_PostSettings"

definition known_PostSettings :: "PostSettings \<Rightarrow> bool" where
  "known_PostSettings m \<longleftrightarrow>
     known_enum Moderation_numbers (PostSettings_defaultModeration m) \<and>
     known_enum Visibility_numbers (PostSettings_defaultVisibility m) \<and>
     known_enum DefaultPostsSort_numbers (PostSettings_defaultSort m)"

lemma created_PostSettings: "create_PostSettings None = Inr base_PostSettings"
  by (simp add: create_PostSettings_def fromPartial_PostSettings_def base_PostSettings_def)

lemma toJSON_PostSettings_set [json_set]: "toJSON_PostSettings m \<noteq> JNull"
  by (simp add: toJSON_PostSettings_def)

lemma json_PostSettings [json_codecs]:
  assumes "known_PostSettings m"
  shows "fromJSON_PostSettings (toJSON_PostSettings m) = Inr m"
  unfolding fromJSON_PostSettings_def
proof (rule message_restored [OF toJSON_PostSettings_def [of m]])
  show "foldl (\<lambda>m u. u m) base_PostSettings
      [PostSettings_visible_update (\<lambda>_. PostSettings_visible m),
       PostSettings_defaultModeration_update (\<lambda>_. PostSettings_defaultModeration m),
       PostSettings_defaultVisibility_update (\<lambda>_. PostSettings_defaultVisibility m),
       PostSettings_aliasSingular_update (\<lambda>_. PostSettings_aliasSingular m),
       PostSettings_aliasPlural_update (\<lambda>_. PostSettings_aliasPlural m),
       PostSettings_enableReplies_update (\<lambda>_. PostSettings_enableReplies m),
       PostSettings_defaultSort_update (\<lambda>_. PostSettings_defaultSort m)] = m"
    by (cases m) (simp add: base_PostSettings_def)
qed (simp, insert assms [unfolded known_PostSettings_def], simp only: list.pred_inject prod.case, elim conjE, (rule json_fields | assumption | erule known_values
      | rule any_values comes_backI json_codecs json_set enum_proper)+)

section \<open>ServerColors\<close>

definition fromJSON_ServerColors :: "json \<Rightarrow> ServerColors result" where
  "fromJSON_ServerColors obj =
     read_fields
       [optional_field obj ''primary'' js_Integer ServerColors_primary_update,
        optional_field obj ''navigation'' js_Integer ServerColors_navigation_update,
        optional_field obj ''author'' js_Integer ServerColors_author_update,
        optional_field obj ''admin'' js_Integer ServerColors_admin_update,
        optional_field obj ''moderator'' js_Integer ServerColors_moderator_update]
       base_ServerColors"

definition toJSON_ServerColors :: "ServerColors \<Rightarrow> json" where
  "toJSON_ServerColors m =
     object_of
       [(''primary'', put_given (ServerColors_primary m) number),
        (''navigation'', put_given (ServerColors_navigation m) number),
        (''author'', put_given (ServerColors_author m) number),
        (''admin'', put_given (ServerColors_admin m) number),
        (''moderator'', put_given (ServerColors_moderator m) number)]"

definition fromPartial_ServerColors :: "json \<Rightarrow> ServerColors result" where
  "fromPartial_ServerColors obj =
     read_fields
       [optional_field obj ''primary'' as_integer ServerColors_primary_update,
        optional_field obj ''navigation'' as_integer ServerColors_navigation_update,
        optional_field obj ''author'' as_integer ServerColors_author_update,
        optional_field obj ''admin'' as_integer ServerColors_admin_update,
        optional_field obj ''moderator'' as_integer ServerColors_moderator_update]
       base_ServerColors"

definition create_ServerColors :: "json option \<Rightarrow> ServerColors result" where
  "create_ServerColors = create_with fromPartial_ServerColors"

lemma created_ServerColors: "create_ServerColors None = Inr base_ServerColors"
  by (simp add: create_ServerColors_def fromPartial_ServerColors_def base_ServerColors_def)

lemma toJSON_ServerColors_set [json_set]: "toJSON_ServerColors m \<noteq> JNull"
  by (simp add: toJSON_ServerColors_def)

lemma json_ServerColors [json_codecs]:
  "fromJSON_ServerColors (toJSON_ServerColors m) = Inr m"
  unfolding fromJSON_ServerColors_def
proof (rule message_restored [OF toJSON_ServerColors_def [of m]])
  show "foldl (\<lambda>m u. u m) base_ServerColors
      [ServerColors_primary_update (\<lambda>_. ServerColors_primary m),
       ServerColors_navigation_update (\<lambda>_. ServerColors_navigation m),
       ServerColors_author_update (\<lambda>_. ServerColors_author m),
       ServerColors_admin_update (\<lambda>_. ServerColors_admin m),
       ServerColors_moderator_update (\<lambda>_. ServerColors_moderator m)] = m"
    by (cases m) (simp add: base_ServerColors_def)
qed (simp, simp only: list.pred_inject prod.case, elim conjE, (rule json_fields | assumption | erule known_values
      | rule any_values comes_backI json_codecs json_set enum_proper)+)

section \<open>ServerLogo\<close>

definition fromJSON_ServerLogo :: "json \<Rightarrow> ServerLogo result" where
  "fromJSON_ServerLogo obj =
     read_fields
       [optional_field obj ''squareMediaId'' js_String ServerLogo_squareMediaId_update,
        optional_field obj ''squareMediaIdDark'' js_String ServerLogo_squareMediaIdDark_update,
        optional_field obj ''wideMediaId'' js_String ServerLogo_wideMediaId_update,
        optional_field obj ''wideMediaIdDark'' js_String ServerLogo_wideMediaIdDark_update]
       base_ServerLogo"

definition toJSON_ServerLogo :: "ServerLogo \<Rightarrow> json" where
  "toJSON_ServerLogo m =
     object_of
       [(''squareMediaId'', put_given (ServerLogo_squareMediaId m) JStr),
        (''squareMediaIdDark'', put_given (ServerLogo_squareMediaIdDark m) JStr),
        (''wideMediaId'', put_given (ServerLogo_wideMediaId m) JStr),
        (''wideMediaIdDark'', put_given (ServerLogo_wideMediaIdDark m) JStr)]"

definition fromPartial_ServerLogo :: "json \<Rightarrow> ServerLogo result" where
  "fromPartial_ServerLogo obj =
     read_fields
       [optional_field obj ''squareMediaId'' as_string ServerLogo_squareMediaId_update,
        optional_field obj ''squareMediaIdDark'' as_string ServerLogo_squareMediaIdDark_update,
        optional_field obj ''wideMediaId'' as_string ServerLogo_wideMediaId_update,
        optional_field obj ''wideMediaIdDark'' as_string ServerLogo_wideMediaIdDark_update]
       base_ServerLogo"

definition create_ServerLogo :: "json option \<Rightarrow> ServerLogo result" where
  "create_ServerLogo = create_with fromPartial_ServerLogo"

lemma created_ServerLogo: "create_ServerLogo None = Inr base_ServerLogo"
  by (simp add: create_ServerLogo_def fromPartial_ServerLogo_def base_ServerLogo_def)

lemma toJSON_ServerLogo_set [json_set]: "toJSON_ServerLogo m \<noteq> JNull"
  by (simp add: toJSON_ServerLogo_def)

lemma json_ServerLogo [json_codecs]:
  "fromJSON_ServerLogo (toJSON_ServerLogo m) = Inr m"
  unfolding fromJSON_ServerLogo_def
proof (rule message_restored [OF toJSON_ServerLogo_def [of m]])
  show "foldl (\<lambda>m u. u m) base_ServerLogo
      [ServerLogo_squareMediaId_update (\<lambda>_. ServerLogo_squareMediaId m),
       ServerLogo_squareMediaIdDark_update (\<lambda>_. ServerLogo_squareMediaIdDark m),
       ServerLogo_wideMediaId_update (\<lambda>_. ServerLogo_wideMediaId m),
       ServerLogo_wideMediaIdDark_update (\<lambda>_. ServerLogo_wideMediaIdDark m)] = m"
    by (cases m) (simp add: base_ServerLogo_def)
qed (simp, simp only: list.pred_inject prod.case, elim conjE, (rule json_fields | assumption | erule known_values
      | rule any_values comes_backI json_codecs json_set enum_proper)+)

section \<open>ServerInfo\<close>

definition fromJSON_ServerInfo :: "json \<Rightarrow> ServerInfo result" where
  "fromJSON_ServerInfo obj =
     read_fields
       [optional_field obj ''name'' js_String ServerInfo_name_update,
        optional_field obj ''shortName'' js_String ServerInfo_shortName_update,
        optional_field obj ''description'' js_String ServerInfo_description_update,
        optional_field obj ''privacyPolicy'' js_String ServerInfo_privacyPolicy_update,
        optional_field obj ''logo'' fromJSON_ServerLogo ServerInfo_logo_update,
        optional_field obj ''webUserInterface'' (from_enum WebUserInterface_numbers) ServerInfo_webUserInterface_update,
        optional_field obj ''colors'' fromJSON_ServerColors ServerInfo_colors_update,
        optional_field obj ''mediaPolicy'' js_String ServerInfo_mediaPolicy_update,
        optional_field obj ''disableCountabilibar'' js_Boolean ServerInfo_disableCountabilibar_update]
       base_ServerInfo"

definition toJSON_ServerInfo :: "ServerInfo \<Rightarrow> json" where
  "toJSON_ServerInfo m =
     object_of
       [(''name'', put_given (ServerInfo_name m) JStr),
        (''shortName'', put_given (ServerInfo_shortName m) JStr),
        (''description'', put_given (ServerInfo_description m) JStr),
        (''privacyPolicy'', put_given (ServerInfo_privacyPolicy m) JStr),
        (''logo'', put_given (ServerInfo_logo m) toJSON_ServerLogo),
        (''webUserInterface'', put_given (ServerInfo_webUserInterface m) (to_enum WebUserInterface_numbers)),
        (''colors'', put_given (ServerInfo_colors m) toJSON_ServerColors),
        (''mediaPolicy'', put_given (ServerInfo_mediaPolicy m) JStr),
        (''disableCountabilibar'', put_given (ServerInfo_disableCountabilibar m) JBool)]"

definition fromPartial_ServerInfo :: "json \<Rightarrow> ServerInfo result" where
  "fromPartial_ServerInfo obj =
     read_fields
       [optional_field obj ''name'' as_string ServerInfo_name_update,
        optional_field obj ''shortName'' as_string ServerInfo_shortName_update,
        optional_field obj ''description'' as_string ServerInfo_description_update,
        optional_field obj ''privacyPolicy'' as_string ServerInfo_privacyPolicy_update,
        optional_field obj ''logo'' fromPartial_ServerLogo ServerInfo_logo_update,
        optional_field obj ''webUserInterface'' as_integer ServerInfo_webUserInterface_update,
        optional_field obj ''colors'' fromPartial_ServerColors ServerInfo_colors_update,
        optional_field obj ''mediaPolicy'' as_string ServerInfo_mediaPolicy_update,
        optional_field obj ''disableCountabilibar'' as_bool ServerInfo_disableCountabilibar_update]
       base_ServerInfo"

definition create_ServerInfo :: "json option \<Rightarrow> ServerInfo result" where
  "create_ServerInfo = create_with fromPartial_ServerInfo"

definition known_ServerInfo :: "ServerInfo \<Rightarrow> bool" where
  "known_ServerInfo m \<longleftrightarrow>
     pred_option (known_enum WebUserInterface_numbers) (ServerInfo_webUserInterface m)"

lemma created_ServerInfo: "create_ServerInfo None = Inr base_ServerInfo"
  by (simp add: create_ServerInfo_def fromPartial_ServerInfo_def base_ServerInfo_def)

lemma toJSON_ServerInfo_set [json_set]: "toJSON_ServerInfo m \<noteq> JNull"
  by (simp add: toJSON_ServerInfo_def)

lemma json_ServerInfo [json_codecs]:
  assumes "known_ServerInfo m"
  shows "fromJSON_ServerInfo (toJSON_ServerInfo m) = Inr m"
  unfolding fromJSON_ServerInfo_def
proof (rule message_restored [OF toJSON_ServerInfo_def [of m]])
  show "foldl (\<lambda>m u. u m) base_ServerInfo
      [ServerInfo_name_update (\<lambda>_. ServerInfo_name m),
       ServerInfo_shortName_update (\<lambda>_. ServerInfo_shortName m),
       ServerInfo_description_update (\<lambda>_. ServerInfo_description m),
       ServerInfo_privacyPolicy_update (\<lambda>_. ServerInfo_privacyPolicy m),
       ServerInfo_logo_update (\<lambda>_. ServerInfo_logo m),
       ServerInfo_webUserInterface_update (\<lambda>_. ServerInfo_webUserInterface m),
       ServerInfo_colors_update (\<lambda>_. ServerInfo_colors m),
       ServerInfo_mediaPolicy_update (\<lambda>_. ServerInfo_mediaPolicy m),
       ServerInfo_disableCountabilibar_update (\<lambda>_. ServerInfo_disableCountabilibar m)] = m"
    by (cases m) (simp add: base_ServerInfo_def)
qed (simp, insert assms [unfolded known_ServerInfo_def], simp only: list.pred_inject prod.case, elim conjE, (rule json_fields | assumption | erule known_values
      | rule any_values comes_backI json_codecs json_set enum_proper)+)

section \<open>StalwartConfig\<close>

definition fromJSON_StalwartConfig :: "json \<Rightarrow> StalwartConfig result" where
  "fromJSON_StalwartConfig obj =
     read_fields
       [plain_field obj ''stalwartReceivingEnabled'' js_Boolean False StalwartConfig_stalwartReceivingEnabled_update]
       base_StalwartConfig"

definition toJSON_StalwartConfig :: "StalwartConfig \<Rightarrow> json" where
  "toJSON_StalwartConfig m =
     object_of
       [(''stalwartReceivingEnabled'', put_when (StalwartConfig_stalwartReceivingEnabled m \<noteq> False) (JBool (StalwartConfig_stalwartReceivingEnabled m)))]"

definition fromPartial_StalwartConfig :: "json \<Rightarrow> StalwartConfig result" where
  "fromPartial_StalwartConfig obj =
     read_fields
       [plain_field obj ''stalwartReceivingEnabled'' as_bool False StalwartConfig_stalwartReceivingEnabled_update]
       base_StalwartConfig"

definition create_StalwartConfig :: "json option \<Rightarrow> StalwartConfig result" where
  "create_StalwartConfig = create_with fromPartial_StalwartConfig"

lemma created_StalwartConfig: "create_StalwartConfig None = Inr base_StalwartConfig"
  by (simp add: create_StalwartConfig_def fromPartial_StalwartConfig_def base_StalwartConfig_def)

lemma toJSON_StalwartConfig_set [json_set]: "toJSON_StalwartConfig m \<noteq> JNull"
  by (simp add: toJSON_StalwartConfig_def)

lemma json_StalwartConfig [json_codecs]:
  "fromJSON_StalwartConfig (toJSON_StalwartConfig m) = Inr m"
  unfolding fromJSON_StalwartConfig_def
proof (rule message_restored [OF toJSON_StalwartConfig_def [of m]])
  show "foldl (\<lambda>m u. u m) base_StalwartConfig
      [StalwartConfig_stalwartReceivingEnabled_update (\<lambda>_. StalwartConfig_stalwartReceivingEnabled m)] = m"
    by (cases m) (simp add: base_StalwartConfig_def)
qed (simp, simp only: list.pred_inject prod.case, elim conjE, (rule json_fields | assumption | erule known_values
      | rule any_values comes_backI json_codecs json_set enum_proper)+)

section \<open>StripeConfig\<close>

definition fromJSON_StripeConfig :: "json \<Rightarrow> StripeConfig result" where
  "fromJSON_StripeConfig obj =
     read_fields
       [plain_field obj ''stripeEnabled'' js_Boolean False StripeConfig_stripeEnabled_update,
        plain_field obj ''stripeSecretKey'' js_String [] StripeConfig_stripeSecretKey_update,
        plain_field obj ''stripePublishableKey'' js_String [] StripeConfig_stripePublishableKey_update,
        plain_field obj ''stripeWebhookSigningSecret'' js_String [] StripeConfig_stripeWebhookSigningSecret_update]
       base_StripeConfig"

definition toJSON_StripeConfig :: "StripeConfig \<Rightarrow> json" where
  "toJSON_StripeConfig m =
     object_of
       [(''stripeEnabled'', put_when (StripeConfig_stripeEnabled m \<noteq> False) (JBool (StripeConfig_stripeEnabled m))),
        (''stripeSecretKey'', put_when (StripeConfig_stripeSecretKey m \<noteq> []) (JStr (StripeConfig_stripeSecretKey m))),
        (''stripePublishableKey'', put_when (StripeConfig_stripePublishableKey m \<noteq> []) (JStr (StripeConfig_stripePublishableKey m))),
        (''stripeWebhookSigningSecret'', put_when (StripeConfig_stripeWebhookSigningSecret m \<noteq> []) (JStr (StripeConfig_stripeWebhookSigningSecret m)))]"

definition fromPartial_StripeConfig :: "json \<Rightarrow> StripeConfig result" where
  "fromPartial_StripeConfig obj =
     read_fields
       [plain_field obj ''stripeEnabled'' as_bool False StripeConfig_stripeEnabled_update,
        plain_field obj ''stripeSecretKey'' as_string [] StripeConfig_stripeSecretKey_update,
        plain_field obj ''stripePublishableKey'' as_string [] StripeConfig_stripePublishableKey_update,
        plain_field obj ''stripeWebhookSigningSecret'' as_string [] StripeConfig_stripeWebhookSigningSecret_update]
       base_StripeConfig"

definition create_StripeConfig :: "json option \<Rightarrow> StripeConfig result" where
  "create_StripeConfig = create_with fromPartial_StripeConfig"

lemma created_StripeConfig: "create_StripeConfig None = Inr base_StripeConfig"
  by (simp add: create_StripeConfig_def fromPartial_StripeConfig_def base_StripeConfig_def)

lemma toJSON_StripeConfig_set [json_set]: "toJSON_StripeConfig m \<noteq> JNull"
  by (simp add: toJSON_StripeConfig_def)

lemma json_StripeConfig [json_codecs]:
  "fromJSON_StripeConfig (toJSON_StripeConfig m) = Inr m"
  unfolding fromJSON_StripeConfig_def
proof (rule message_restored [OF toJSON_StripeConfig_def [of m]])
  show "foldl (\<lambda>m u. u m) base_StripeConfig
      [StripeConfig_stripeEnabled_update (\<lambda>_. StripeConfig_stripeEnabled m),
       StripeConfig_stripeSecretKey_update (\<lambda>_. StripeConfig_stripeSecretKey m),
       StripeConfig_stripePublishableKey_update (\<lambda>_. StripeConfig_stripePublishableKey m),
       StripeConfig_stripeWebhookSigningSecret_update (\<lambda>_. StripeConfig_stripeWebhookSigningSecret m)] = m"
    by (cases m) (simp add: base_StripeConfig_def)
qed (simp, simp only: list.pred_inject prod.case, elim conjE, (rule json_fields | assumption | erule known_values
      | rule any_values comes_backI json_codecs json_set enum_proper)+)

section \<open>TelnyxConfig\<close>

definition fromJSON_TelnyxConfig :: "json \<Rightarrow> TelnyxConfig result" where
  "fromJSON_TelnyxConfig obj =
     read_fields
       [plain_field obj ''telnyxEnabled'' js_Boolean False TelnyxConfig_telnyxEnabled_update,
        plain_field obj ''telnyxApiKey'' js_String [] TelnyxConfig_telnyxApiKey_update,
        plain_field obj ''telnyxFromNumber'' js_String [] TelnyxConfig_telnyxFromNumber_update,
        plain_field obj ''telnyxMessagingProfileId'' js_String [] TelnyxConfig_telnyxMessagingProfileId_update,
        plain_field obj ''telnyxWebhookSigningKey'' js_String [] TelnyxConfig_telnyxWebhookSigningKey_update,
        plain_field obj ''useTelnyxWebhookSigningKey'' js_Boolean False TelnyxConfig_useTelnyxWebhookSigningKey_update]
       base_TelnyxConfig"

definition toJSON_TelnyxConfig :: "TelnyxConfig \<Rightarrow> json" where
  "toJSON_TelnyxConfig m =
     object_of
       [(''telnyxEnabled'', put_when (TelnyxConfig_telnyxEnabled m \<noteq> False) (JBool (TelnyxConfig_telnyxEnabled m))),
        (''telnyxApiKey'', put_when (TelnyxConfig_telnyxApiKey m \<noteq> []) (JStr (TelnyxConfig_telnyxApiKey m))),
        (''telnyxFromNumber'', put_when (TelnyxConfig_telnyxFromNumber m \<noteq> []) (JStr (TelnyxConfig_telnyxFromNumber m))),
        (''telnyxMessagingProfileId'', put_when (TelnyxConfig_telnyxMessagingProfileId m \<noteq> []) (JStr (TelnyxConfig_telnyxMessagingProfileId m))),
        (''telnyxWebhookSigningKey'', put_when (TelnyxConfig_telnyxWebhookSigningKey m \<noteq> []) (JStr (TelnyxConfig_telnyxWebhookSigningKey m))),
        (''useTelnyxWebhookSigningKey'', put_when (TelnyxConfig_useTelnyxWebhookSigningKey m \<noteq> False) (JBool (TelnyxConfig_useTelnyxWebhookSigningKey m)))]"

definition fromPartial_TelnyxConfig :: "json \<Rightarrow> TelnyxConfig result" where
  "fromPartial_TelnyxConfig obj =
     read_fields
       [plain_field obj ''telnyxEnabled'' as_bool False TelnyxConfig_telnyxEnabled_update,
        plain_field obj ''telnyxApiKey'' as_string [] TelnyxConfig_telnyxApiKey_update,
        plain_field obj ''telnyxFromNumber'' as_string [] TelnyxConfig_telnyxFromNumber_update,
        plain_field obj ''telnyxMessagingProfileId'' as_string [] TelnyxConfig_telnyxMessagingProfileId_update,
        plain_field obj ''telnyxWebhookSigningKey'' as_string [] TelnyxConfig_telnyxWebhookSigningKey_update,
        plain_field obj ''useTelnyxWebhookSigningKey'' as_bool False TelnyxConfig_useTelnyxWebhookSigningKey_update]
       base_TelnyxConfig"

definition create_TelnyxConfig :: "json option \<Rightarrow> TelnyxConfig result" where
  "create_TelnyxConfig = create_with fromPartial_TelnyxConfig"

lemma created_TelnyxConfig: "create_TelnyxConfig None = Inr base_TelnyxConfig"
  by (simp add: create_TelnyxConfig_def fromPartial_TelnyxConfig_def base_TelnyxConfig_def)

lemma toJSON_TelnyxConfig_set [json_set]: "toJSON_TelnyxConfig m \<noteq> JNull"
  by (simp add: toJSON_TelnyxConfig_def)

lemma json_TelnyxConfig [json_codecs]:
  "fromJSON_TelnyxConfig (toJSON_TelnyxConfig m) = Inr m"
  unfolding fromJSON_TelnyxConfig_def
proof (rule message_restored [OF toJSON_TelnyxConfig_def [of m]])
  show "foldl (\<lambda>m u. u m) base_TelnyxConfig
      [TelnyxConfig_telnyxEnabled_update (\<lambda>_. TelnyxConfig_telnyxEnabled m),
       TelnyxConfig_telnyxApiKey_update (\<lambda>_. TelnyxConfig_telnyxApiKey m),
       TelnyxConfig_telnyxFromNumber_update (\<lambda>_. TelnyxConfig_telnyxFromNumber m),
       TelnyxConfig_telnyxMessagingProfileId_update (\<lambda>_. TelnyxConfig_telnyxMessagingProfileId m),
       TelnyxConfig_telnyxWebhookSigningKey_update (\<lambda>_. TelnyxConfig_telnyxWebhookSigningKey m),
       TelnyxConfig_useTelnyxWebhookSigningKey_update (\<lambda>_. TelnyxConfig_useTelnyxWebhookSigningKey m)] = m"
    by (cases m) (simp add: base_TelnyxConfig_def)
qed (simp, simp only: list.pred_inject prod.case, elim conjE, (rule json_fields | assumption | erule known_values
      | rule any_values comes_backI json_codecs json_set enum_proper)+)

section \<open>TwilioConfig\<close>

definition fromJSON_TwilioConfig :: "json \<Rightarrow> TwilioConfig result" where
  "fromJSON_TwilioConfig obj =
     read_fields
       [plain_field obj ''twilioEnabled'' js_Boolean False TwilioConfig_twilioEnabled_update,
        plain_field obj ''twilioAccountSid'' js_String [] TwilioConfig_twilioAccountSid_update,
        plain_field obj ''twilioApiKeySid'' js_String [] TwilioConfig_twilioApiKeySid_update,
        plain_field obj ''twilioApiKeySecret'' js_String [] TwilioConfig_twilioApiKeySecret_update,
        plain_field obj ''twilioFromNumber'' js_String [] TwilioConfig_twilioFromNumber_update,
        plain_field obj ''twilioWebhookSigningKey'' js_String [] TwilioConfig_twilioWebhookSigningKey_update,
        plain_field obj ''useTwilioWebhookSigningKey'' js_Boolean False TwilioConfig_useTwilioWebhookSigningKey_update]
       base_TwilioConfig"

definition toJSON_TwilioConfig :: "TwilioConfig \<Rightarrow> json" where
  "toJSON_TwilioConfig m =
     object_of
       [(''twilioEnabled'', put_when (TwilioConfig_twilioEnabled m \<noteq> False) (JBool (TwilioConfig_twilioEnabled m))),
        (''twilioAccountSid'', put_when (TwilioConfig_twilioAccountSid m \<noteq> []) (JStr (TwilioConfig_twilioAccountSid m))),
        (''twilioApiKeySid'', put_when (TwilioConfig_twilioApiKeySid m \<noteq> []) (JStr (TwilioConfig_twilioApiKeySid m))),
        (''twilioApiKeySecret'', put_when (TwilioConfig_twilioApiKeySecret m \<noteq> []) (JStr (TwilioConfig_twilioApiKeySecret m))),
        (''twilioFromNumber'', put_when (TwilioConfig_twilioFromNumber m \<noteq> []) (JStr (TwilioConfig_twilioFromNumber m))),
        (''twilioWebhookSigningKey'', put_when (TwilioConfig_twilioWebhookSigningKey m \<noteq> []) (JStr (TwilioConfig_twilioWebhookSigningKey m))),
        (''useTwilioWebhookSigningKey'', put_when (TwilioConfig_useTwilioWebhookSigningKey m \<noteq> False) (JBool (TwilioConfig_useTwilioWebhookSigningKey m)))]"

definition fromPartial_TwilioConfig :: "json \<Rightarrow> TwilioConfig result" where
  "fromPartial_TwilioConfig obj =
     read_fields
       [plain_field obj ''twilioEnabled'' as_bool False TwilioConfig_twilioEnabled_update,
        plain_field obj ''twilioAccountSid'' as_string [] TwilioConfig_twilioAccountSid_update,
        plain_field obj ''twilioApiKeySid'' as_string [] TwilioConfig_twilioApiKeySid_update,
        plain_field obj ''twilioApiKeySecret'' as_string [] TwilioConfig_twilioApiKeySecret_update,
        plain_field obj ''twilioFromNumber'' as_string [] TwilioConfig_twilioFromNumber_update,
        plain_field obj ''twilioWebhookSigningKey'' as_string [] TwilioConfig_twilioWebhookSigningKey_update,
        plain_field obj ''useTwilioWebhookSigningKey'' as_bool False TwilioConfig_useTwilioWebhookSigningKey_update]
       base_TwilioConfig"

definition create_TwilioConfig :: "json option \<Rightarrow> TwilioConfig result" where
  "create_TwilioConfig = create_with fromPartial_TwilioConfig"

lemma created_TwilioConfig: "create_TwilioConfig None = Inr base_TwilioConfig"
  by (simp add: create_TwilioConfig_def fromPartial_TwilioConfig_def base_TwilioConfig_def)

lemma toJSON_TwilioConfig_set [json_set]: "toJSON_TwilioConfig m \<noteq> JNull"
  by (simp add: toJSON_TwilioConfig_def)

lemma json_TwilioConfig [json_codecs]:
  "fromJSON_TwilioConfig (toJSON_TwilioConfig m) = Inr m"
  unfolding fromJSON_TwilioConfig_def
proof (rule message_restored [OF toJSON_TwilioConfig_def [of m]])
  show "foldl (\<lambda>m u. u m) base_TwilioConfig
      [TwilioConfig_twilioEnabled_update (\<lambda>_. TwilioConfig_twilioEnabled m),
       TwilioConfig_twilioAccountSid_update (\<lambda>_. TwilioConfig_twilioAccountSid m),
       TwilioConfig_twilioApiKeySid_update (\<lambda>_. TwilioConfig_twilioApiKeySid m),
       TwilioConfig_twilioApiKeySecret_update (\<lambda>_. TwilioConfig_twilioApiKeySecret m),
       TwilioConfig_twilioFromNumber_update (\<lambda>_. TwilioConfig_twilioFromNumber m),
       TwilioConfig_twilioWebhookSigningKey_update (\<lambda>_. TwilioConfig_twilioWebhookSigningKey m),
       TwilioConfig_useTwilioWebhookSigningKey_update (\<lambda>_. TwilioConfig_useTwilioWebhookSigningKey m)] = m"
    by (cases m) (simp add: base_TwilioConfig_def)
qed (simp, simp only: list.pred_inject prod.case, elim conjE, (rule json_fields | assumption | erule known_values
      | rule any_values comes_backI json_codecs json_set enum_proper)+)

section \<open>WebPushConfig\<close>

definition fromJSON_WebPushConfig :: "json \<Rightarrow> WebPushConfig result" where
  "fromJSON_WebPushConfig obj =
     read_fields
       [plain_field obj ''publicVapidKey'' js_String [] WebPushConfig_publicVapidKey_update,
        plain_field obj ''privateVapidKey'' js_String [] WebPushConfig_privateVapidKey_update]
       base_WebPushConfig"

definition toJSON_WebPushConfig :: "WebPushConfig \<Rightarrow> json" where
  "toJSON_WebPushConfig m =
     object_of
       [(''publicVapidKey'', put_when (WebPushConfig_publicVapidKey m \<noteq> []) (JStr (WebPushConfig_publicVapidKey m))),
        (''privateVapidKey'', put_when (WebPushConfig_privateVapidKey m \<noteq> []) (JStr (WebPushConfig_privateVapidKey m)))]"

definition fromPartial_WebPushConfig :: "json \<Rightarrow> WebPushConfig result" where
  "fromPartial_WebPushConfig obj =
     read_fields
       [plain_field obj ''publicVapidKey'' as_string [] WebPushConfig_publicVapidKey_update,
        plain_field obj ''privateVapidKey'' as_string [] WebPushConfig_privateVapidKey_update]
       base_WebPushConfig"

definition create_WebPushConfig :: "json option \<Rightarrow> WebPushConfig result" where
  "create_WebPushConfig = create_with fromPartial_WebPushConfig"

lemma created_WebPushConfig: "create_WebPushConfig None = Inr base_WebPushConfig"
  by (simp add: create_WebPushConfig_def fromPartial_WebPushConfig_def base_WebPushConfig_def)

lemma toJSON_WebPushConfig_set [json_set]: "toJSON_WebPushConfig m \<noteq> JNull"
  by (simp add: toJSON_WebPushConfig_def)

lemma json_WebPushConfig [json_codecs]:
  "fromJSON_WebPushConfig (toJSON_WebPushConfig m) = Inr m"
  unfolding fromJSON_WebPushConfig_def
proof (rule message_restored [OF toJSON_WebPushConfig_def [of m]])
  show "foldl (\<lambda>m u. u m) base_WebPushConfig
      [WebPushConfig_publicVapidKey_update (\<lambda>_. WebPushConfig_publicVapidKey m),
       WebPushConfig_privateVapidKey_update (\<lambda>_. WebPushConfig_privateVapidKey m)] = m"
    by (cases m) (simp add: base_WebPushConfig_def)
qed (simp, simp only: list.pred_inject prod.case, elim conjE, (rule json_fields | assumption | erule known_values
      | rule any_values comes_backI json_codecs json_set enum_proper)+)

section \<open>ServerConfiguration\<close>

definition fromJSON_ServerConfiguration :: "json \<Rightarrow> ServerConfiguration result" where
  "fromJSON_ServerConfiguration obj =
     read_fields
       [optional_field obj ''serverInfo'' fromJSON_ServerInfo ServerConfiguration_serverInfo_update,
        optional_field obj ''federationInfo'' fromJSON_FederationInfo ServerConfiguration_federationInfo_update,
        list_field obj ''anonymousUserPermissions'' (from_enum Permission_numbers) ServerConfiguration_anonymousUserPermissions_update,
        list_field obj ''defaultUserPermissions'' (from_enum Permission_numbers) ServerConfiguration_defaultUserPermissions_update,
        list_field obj ''basicUserPermissions'' (from_enum Permission_numbers) ServerConfiguration_basicUserPermissions_update,
        optional_field obj ''customTabs'' fromJSON_CustomNavigationTabSet ServerConfiguration_customTabs_update,
        optional_field obj ''peopleSettings'' fromJSON_FeatureSettings ServerConfiguration_peopleSettings_update,
        optional_field obj ''groupSettings'' fromJSON_FeatureSettings ServerConfiguration_groupSettings_update,
        optional_field obj ''postSettings'' fromJSON_PostSettings ServerConfiguration_postSettings_update,
        optional_field obj ''eventSettings'' fromJSON_EventSettings ServerConfiguration_eventSettings_update,
        optional_field obj ''mediaSettings'' fromJSON_MediaSettings ServerConfiguration_mediaSettings_update,
        optional_field obj ''marketSettings'' fromJSON_MarketSettings ServerConfiguration_marketSettings_update,
        optional_field obj ''externalCdnConfig'' fromJSON_ExternalCDNConfig ServerConfiguration_externalCdnConfig_update,
        optional_field obj ''clusterResources'' fromJSON_ClusterResources ServerConfiguration_clusterResources_update,
        plain_field obj ''privateUserStrategy'' (from_enum PrivateUserStrategy_numbers) 0 ServerConfiguration_privateUserStrategy_update,
        list_field obj ''authenticationFeatures'' (from_enum AuthenticationFeature_numbers) ServerConfiguration_authenticationFeatures_update,
        optional_field obj ''webPushConfig'' fromJSON_WebPushConfig ServerConfiguration_webPushConfig_update,
        list_field obj ''supportedContactProtocols'' (from_enum ContactProtocol_numbers) ServerConfiguration_supportedContactProtocols_update,
        list_field obj ''preferredVerificationApis'' (from_enum ContactVerificationAPI_numbers) ServerConfiguration_preferredVerificationApis_update,
        list_field obj ''availableVerificationApis'' (from_enum ContactVerificationAPI_numbers) ServerConfiguration_availableVerificationApis_update,
        optional_field obj ''twilioConfig'' fromJSON_TwilioConfig ServerConfiguration_twilioConfig_update,
        optional_field obj ''birdConfig'' fromJSON_BirdConfig ServerConfiguration_birdConfig_update,
        optional_field obj ''stripeConfig'' fromJSON_StripeConfig ServerConfiguration_stripeConfig_update,
        optional_field obj ''telnyxConfig'' fromJSON_TelnyxConfig ServerConfiguration_telnyxConfig_update,
        optional_field obj ''stalwartConfig'' fromJSON_StalwartConfig ServerConfiguration_stalwartConfig_update,
        optional_field obj ''customCssConfiguration'' fromJSON_CustomCSSConfiguration ServerConfiguration_customCssConfiguration_update]
       base_ServerConfiguration"

definition toJSON_ServerConfiguration :: "ServerConfiguration \<Rightarrow> json" where
  "toJSON_ServerConfiguration m =
     object_of
       [(''serverInfo'', put_given (ServerConfiguration_serverInfo m) toJSON_ServerInfo),
        (''federationInfo'', put_given (ServerConfiguration_federationInfo m) toJSON_FederationInfo),
        (''anonymousUserPermissions'', put_list (ServerConfiguration_anonymousUserPermissions m) (to_enum Permission_numbers)),
        (''defaultUserPermissions'', put_list (ServerConfiguration_defaultUserPermissions m) (to_enum Permission_numbers)),
        (''basicUserPermissions'', put_list (ServerConfiguration_basicUserPermissions m) (to_enum Permission_numbers)),
        (''customTabs'', put_given (ServerConfiguration_customTabs m) toJSON_CustomNavigationTabSet),
        (''peopleSettings'', put_given (ServerConfiguration_peopleSettings m) toJSON_FeatureSettings),
        (''groupSettings'', put_given (ServerConfiguration_groupSettings m) toJSON_FeatureSettings),
        (''postSettings'', put_given (ServerConfiguration_postSettings m) toJSON_PostSettings),
        (''eventSettings'', put_given (ServerConfiguration_eventSettings m) toJSON_EventSettings),
        (''mediaSettings'', put_given (ServerConfiguration_mediaSettings m) toJSON_MediaSettings),
        (''marketSettings'', put_given (ServerConfiguration_marketSettings m) toJSON_MarketSettings),
        (''externalCdnConfig'', put_given (ServerConfiguration_externalCdnConfig m) toJSON_ExternalCDNConfig),
        (''clusterResources'', put_given (ServerConfiguration_clusterResources m) toJSON_ClusterResources),
        (''privateUserStrategy'', put_when (ServerConfiguration_privateUserStrategy m \<noteq> 0) ((to_enum PrivateUserStrategy_numbers) (ServerConfiguration_privateUserStrategy m))),
        (''authenticationFeatures'', put_list (ServerConfiguration_authenticationFeatures m) (to_enum AuthenticationFeature_numbers)),
        (''webPushConfig'', put_given (ServerConfiguration_webPushConfig m) toJSON_WebPushConfig),
        (''supportedContactProtocols'', put_list (ServerConfiguration_supportedContactProtocols m) (to_enum ContactProtocol_numbers)),
        (''preferredVerificationApis'', put_list (ServerConfiguration_preferredVerificationApis m) (to_enum ContactVerificationAPI_numbers)),
        (''availableVerificationApis'', put_list (ServerConfiguration_availableVerificationApis m) (to_enum ContactVerificationAPI_numbers)),
        (''twilioConfig'', put_given (ServerConfiguration_twilioConfig m) toJSON_TwilioConfig),
        (''birdConfig'', put_given (ServerConfiguration_birdConfig m) toJSON_BirdConfig),
        (''stripeConfig'', put_given (ServerConfiguration_stripeConfig m) toJSON_StripeConfig),
        (''telnyxConfig'', put_given (ServerConfiguration_telnyxConfig m) toJSON_TelnyxConfig),
        (''stalwartConfig'', put_given (ServerConfiguration_stalwartConfig m) toJSON_StalwartConfig),
        (''customCssConfiguration'', put_given (ServerConfiguration_customCssConfiguration m) toJSON_CustomCSSConfiguration)]"

definition fromPartial_ServerConfiguration :: "json \<Rightarrow> ServerConfiguration result" where
  "fromPartial_ServerConfiguration obj =
     read_fields
       [optional_field obj ''serverInfo'' fromPartial_ServerInfo ServerConfiguration_serverInfo_update,
        optional_field obj ''federationInfo'' fromPartial_FederationInfo ServerConfiguration_federationInfo_update,
        mapped_field obj ''anonymousUserPermissions'' as_integer ServerConfiguration_anonymousUserPermissions_update,
        mapped_field obj ''defaultUserPermissions'' as_integer ServerConfiguration_defaultUserPermissions_update,
        mapped_field obj ''basicUserPermissions'' as_integer ServerConfiguration_basicUserPermissions_update,
        optional_field obj ''customTabs'' fromPartial_CustomNavigationTabSet ServerConfiguration_customTabs_update,
        optional_field obj ''peopleSettings'' fromPartial_FeatureSettings ServerConfiguration_peopleSettings_update,
        optional_field obj ''groupSettings'' fromPartial_FeatureSettings ServerConfiguration_groupSettings_update,
        optional_field obj ''postSettings'' fromPartial_PostSettings ServerConfiguration_postSettings_update,
        optional_field obj ''eventSettings'' fromPartial_EventSettings ServerConfiguration_eventSettings_update,
        optional_field obj ''mediaSettings'' fromPartial_MediaSettings ServerConfiguration_mediaSettings_update,
        optional_field obj ''marketSettings'' fromPartial_MarketSettings ServerConfiguration_marketSettings_update,
        optional_field obj ''externalCdnConfig'' fromPartial_ExternalCDNConfig ServerConfiguration_externalCdnConfig_update,
        optional_field obj ''clusterResources'' fromPartial_ClusterResources ServerConfiguration_clusterResources_update,
        plain_field obj ''privateUserStrategy'' as_integer 0 ServerConfiguration_privateUserStrategy_update,
        mapped_field obj ''authenticationFeatures'' as_integer ServerConfiguration_authenticationFeatures_update,
        optional_field obj ''webPushConfig'' fromPartial_WebPushConfig ServerConfiguration_webPushConfig_update,
        mapped_field obj ''supportedContactProtocols'' as_integer ServerConfiguration_supportedContactProtocols_update,
        mapped_field obj ''preferredVerificationApis'' as_integer ServerConfiguration_preferredVerificationApis_update,
        mapped_field obj ''availableVerificationApis'' as_integer ServerConfiguration_availableVerificationApis_update,
        optional_field obj ''twilioConfig'' fromPartial_TwilioConfig ServerConfiguration_twilioConfig_update,
        optional_field obj ''birdConfig'' fromPartial_BirdConfig ServerConfiguration_birdConfig_update,
        optional_field obj ''stripeConfig'' fromPartial_StripeConfig ServerConfiguration_stripeConfig_update,
        optional_field obj ''telnyxConfig'' fromPartial_TelnyxConfig ServerConfiguration_telnyxConfig_update,
        optional_field obj ''stalwartConfig'' fromPartial_StalwartConfig ServerConfiguration_stalwartConfig_update,
        optional_field obj ''customCssConfiguration'' fromPartial_CustomCSSConfiguration ServerConfiguration_customCssConfiguration_update]
       base_ServerConfiguration"

definition create_ServerConfiguration :: "json option \<Rightarrow> ServerConfiguration result" where
  "create_ServerConfiguration = create_with fromPartial_ServerConfiguration"

definition known_ServerConfiguration :: "ServerConfiguration \<Rightarrow> bool" where
  "known_ServerConfiguration m \<longleftrightarrow>
     pred_option known_ServerInfo (ServerConfiguration_serverInfo m) \<and>
     list_all (known_enum Permission_numbers) (ServerConfiguration_anonymousUserPermissions m) \<and>
     list_all (known_enum Permission_numbers) (ServerConfiguration_defaultUserPermissions m) \<and>
     list_all (known_enum Permission_numbers) (ServerConfiguration_basicUserPermissions m) \<and>
     pred_option known_CustomNavigationTabSet (ServerConfiguration_customTabs m) \<and>
     pred_option known_FeatureSettings (ServerConfiguration_peopleSettings m) \<and>
     pred_option known_FeatureSettings (ServerConfiguration_groupSettings m) \<and>
     pred_option known_PostSettings (ServerConfiguration_postSettings m) \<and>
     pred_option known_EventSettings (ServerConfiguration_eventSettings m) \<and>
     pred_option known_MediaSettings (ServerConfiguration_mediaSettings m) \<and>
     pred_option known_ClusterResources (ServerConfiguration_clusterResources m) \<and>
     known_enum PrivateUserStrategy_numbers (ServerConfiguration_privateUserStrategy m) \<and>
     list_all (known_enum AuthenticationFeature_numbers) (ServerConfiguration_authenticationFeatures m) \<and>
     list_all (known_enum ContactProtocol_numbers) (ServerConfiguration_supportedContactProtocols m) \<and>
     list_all (known_enum ContactVerificationAPI_numbers) (ServerConfiguration_preferredVerificationApis m) \<and>
     list_all (known_enum ContactVerificationAPI_numbers) (ServerConfiguration_availableVerificationApis m)"

lemma created_ServerConfiguration: "create_ServerConfiguration None = Inr base_ServerConfiguration"
  by (simp add: create_ServerConfiguration_def fromPartial_ServerConfiguration_def base_ServerConfiguration_def)

lemma toJSON_ServerConfiguration_set [json_set]: "toJSON_ServerConfiguration m \<noteq> JNull"
  by (simp add: toJSON_ServerConfiguration_def)

lemma json_ServerConfiguration [json_codecs]:
  assumes "known_ServerConfiguration m"
  shows "fromJSON_ServerConfiguration (toJSON_ServerConfiguration m) = Inr m"
  unfolding fromJSON_ServerConfiguration_def
proof (rule message_restored [OF toJSON_ServerConfiguration_def [of m]])
  show "foldl (\<lambda>m u. u m) base_ServerConfiguration
      [ServerConfiguration_serverInfo_update (\<lambda>_. ServerConfiguration_serverInfo m),
       ServerConfiguration_federationInfo_update (\<lambda>_. ServerConfiguration_federationInfo m),
       ServerConfiguration_anonymousUserPermissions_update (\<lambda>_. ServerConfiguration_anonymousUserPermissions m),
       ServerConfiguration_defaultUserPermissions_update (\<lambda>_. ServerConfiguration_defaultUserPermissions m),
       ServerConfiguration_basicUserPermissions_update (\<lambda>_. ServerConfiguration_basicUserPermissions m),
       ServerConfiguration_customTabs_update (\<lambda>_. ServerConfiguration_customTabs m),
       ServerConfiguration_peopleSettings_update (\<lambda>_. ServerConfiguration_peopleSettings m),
       ServerConfiguration_groupSettings_update (\<lambda>_. ServerConfiguration_groupSettings m),
       ServerConfiguration_postSettings_update (\<lambda>_. ServerConfiguration_postSettings m),
       ServerConfiguration_eventSettings_update (\<lambda>_. ServerConfiguration_eventSettings m),
       ServerConfiguration_mediaSettings_update (\<lambda>_. ServerConfiguration_mediaSettings m),
       ServerConfiguration_marketSettings_update (\<lambda>_. ServerConfiguration_marketSettings m),
       ServerConfiguration_externalCdnConfig_update (\<lambda>_. ServerConfiguration_externalCdnConfig m),
       ServerConfiguration_clusterResources_update (\<lambda>_. ServerConfiguration_clusterResources m),
       ServerConfiguration_privateUserStrategy_update (\<lambda>_. ServerConfiguration_privateUserStrategy m),
       ServerConfiguration_authenticationFeatures_update (\<lambda>_. ServerConfiguration_authenticationFeatures m),
       ServerConfiguration_webPushConfig_update (\<lambda>_. ServerConfiguration_webPushConfig m),
       ServerConfiguration_supportedContactProtocols_update (\<lambda>_. ServerConfiguration_supportedContactProtocols m),
       ServerConfiguration_preferredVerificationApis_update (\<lambda>_. ServerConfiguration_preferredVerificationApis m),
       ServerConfiguration_availableVerificationApis_update (\<lambda>_. ServerConfiguration_availableVerificationApis m),
       ServerConfiguration_twilioConfig_update (\<lambda>_. ServerConfiguration_twilioConfig m),
       ServerConfiguration_birdConfig_update (\<lambda>_. ServerConfiguration_birdConfig m),
       ServerConfiguration_stripeConfig_update (\<lambda>_. ServerConfiguration_stripeConfig m),
       ServerConfiguration_telnyxConfig_update (\<lambda>_. ServerConfiguration_telnyxConfig m),
       ServerConfiguration_stalwartConfig_update (\<lambda>_. ServerConfiguration_stalwartConfig m),
       ServerConfiguration_customCssConfiguration_update (\<lambda>_. ServerConfiguration_customCssConfiguration m)] = m"
    by (cases m) (simp add: base_ServerConfiguration_def)
qed (simp, insert assms [unfolded known_ServerConfiguration_def], simp only: list.pred_inject prod.case, elim conjE, (rule json_fields | assumption | erule known_values
      | rule any_values comes_backI json_codecs json_set enum_proper)+)

section \<open>LockClusterResourcesRequest\<close>

definition fromJSON_LockClusterResourcesRequest :: "json \<Rightarrow> LockClusterResourcesRequest result" where
  "fromJSON_LockClusterResourcesRequest obj =
     read_fields
       [plain_field obj ''namespaceId'' js_String [] LockClusterResourcesRequest_namespaceId_update,
        list_field obj ''resources'' (from_enum ClusterResource_numbers) LockClusterResourcesRequest_resources_update]
       base_LockClusterResourcesRequest"

definition toJSON_LockClusterResourcesRequest :: "LockClusterResourcesRequest \<Rightarrow> json" where
  "toJSON_LockClusterResourcesRequest m =
     object_of
       [(''namespaceId'', put_when (LockClusterResourcesRequest_namespaceId m \<noteq> []) (JStr (LockClusterResourcesRequest_namespaceId m))),
        (''resources'', put_list (LockClusterResourcesRequest_resources m) (to_enum ClusterResource_numbers))]"

definition fromPartial_LockClusterResourcesRequest :: "json \<Rightarrow> LockClusterResourcesRequest result" where
  "fromPartial_LockClusterResourcesRequest obj =
     read_fields
       [plain_field obj ''namespaceId'' as_string [] LockClusterResourcesRequest_namespaceId_update,
        mapped_field obj ''resources'' as_integer LockClusterResourcesRequest_resources_update]
       base_LockClusterResourcesRequest"

definition create_LockClusterResourcesRequest :: "json option \<Rightarrow> LockClusterResourcesRequest result" where
  "create_LockClusterResourcesRequest = create_with fromPartial_LockClusterResourcesRequest"

definition known_LockClusterResourcesRequest :: "LockClusterResourcesRequest \<Rightarrow> bool" where
  "known_LockClusterResourcesRequest m \<longleftrightarrow>
     list_all (known_enum ClusterResource_numbers) (LockClusterResourcesRequest_resources m)"

lemma created_LockClusterResourcesRequest: "create_LockClusterResourcesRequest None = Inr base_LockClusterResourcesRequest"
  by (simp add: create_LockClusterResourcesRequest_def fromPartial_LockClusterResourcesRequest_def base_LockClusterResourcesRequest_def)

lemma toJSON_LockClusterResourcesRequest_set [json_set]: "toJSON_LockClusterResourcesRequest m \<noteq> JNull"
  by (simp add: toJSON_LockClusterResourcesRequest_def)

lemma json_LockClusterResourcesRequest [json_codecs]:
  assumes "known_LockClusterResourcesRequest m"
  shows "fromJSON_LockClusterResourcesRequest (toJSON_LockClusterResourcesRequest m) = Inr m"
  unfolding fromJSON_LockClusterResourcesRequest_def
proof (rule message_restored [OF toJSON_LockClusterResourcesRequest_def [of m]])
  show "foldl (\<lambda>m u. u m) base_LockClusterResourcesRequest
      [LockClusterResourcesRequest_namespaceId_update (\<lambda>_. LockClusterResourcesRequest_namespaceId m),
       LockClusterResourcesRequest_resources_update (\<lambda>_. LockClusterResourcesRequest_resources m)] = m"
    by (cases m) (simp add: base_LockClusterResourcesRequest_def)
qed (simp, insert assms [unfolded known_LockClusterResourcesRequest_def], simp only: list.pred_inject prod.case, elim conjE, (rule json_fields | assumption | erule known_values
      | rule any_values comes_backI json_codecs json_set enum_proper)+)

section \<open>LockClusterResourcesResponse\<close>

definition fromJSON_LockClusterResourcesResponse :: "json \<Rightarrow> LockClusterResourcesResponse result" where
  "fromJSON_LockClusterResourcesResponse obj =
     read_fields
       [plain_field obj ''granted'' js_Boolean False LockClusterResourcesResponse_granted_update,
        optional_field obj ''holder'' js_String LockClusterResourcesResponse_holder_update]
       base_LockClusterResourcesResponse"

definition toJSON_LockClusterResourcesResponse :: "LockClusterResourcesResponse \<Rightarrow> json" where
  "toJSON_LockClusterResourcesResponse m =
     object_of
       [(''granted'', put_when (LockClusterResourcesResponse_granted m \<noteq> False) (JBool (LockClusterResourcesResponse_granted m))),
        (''holder'', put_given (LockClusterResourcesResponse_holder m) JStr)]"

definition fromPartial_LockClusterResourcesResponse :: "json \<Rightarrow> LockClusterResourcesResponse result" where
  "fromPartial_LockClusterResourcesResponse obj =
     read_fields
       [plain_field obj ''granted'' as_bool False LockClusterResourcesResponse_granted_update,
        optional_field obj ''holder'' as_string LockClusterResourcesResponse_holder_update]
       base_LockClusterResourcesResponse"

definition create_LockClusterResourcesResponse :: "json option \<Rightarrow> LockClusterResourcesResponse result" where
  "create_LockClusterResourcesResponse = create_with fromPartial_LockClusterResourcesResponse"

lemma created_LockClusterResourcesResponse: "create_LockClusterResourcesResponse None = Inr base_LockClusterResourcesResponse"
  by (simp add: create_LockClusterResourcesResponse_def fromPartial_LockClusterResourcesResponse_def base_LockClusterResourcesResponse_def)

lemma toJSON_LockClusterResourcesResponse_set [json_set]: "toJSON_LockClusterResourcesResponse m \<noteq> JNull"
  by (simp add: toJSON_LockClusterResourcesResponse_def)

lemma json_LockClusterResourcesResponse [json_codecs]:
  "fromJSON_LockClusterResourcesResponse (toJSON_LockClusterResourcesResponse m) = Inr m"
  unfolding fromJSON_LockClusterResourcesResponse_def
proof (rule message_restored [OF toJSON_LockClusterResourcesResponse_def [of m]])
  show "foldl (\<lambda>m u. u m) base_LockClusterResourcesResponse
      [LockClusterResourcesResponse_granted_update (\<lambda>_. LockClusterResourcesResponse_granted m),
       LockClusterResourcesResponse_holder_update (\<lambda>_. LockClusterResourcesResponse_holder m)] = m"
    by (cases m) (simp add: base_LockClusterResourcesResponse_def)
qed (simp, simp only: list.pred_inject prod.case, elim conjE, (rule json_fields | assumption | erule known_values
      | rule any_values comes_backI json_codecs json_set enum_proper)+)

section \<open>FreeClusterResourcesRequest\<close>

definition fromJSON_FreeClusterResourcesRequest :: "json \<Rightarrow> FreeClusterResourcesRequest result" where
  "fromJSON_FreeClusterResourcesRequest obj =
     read_fields
       [plain_field obj ''namespaceId'' js_String [] FreeClusterResourcesRequest_namespaceId_update,
        list_field obj ''resources'' (from_enum ClusterResource_numbers) FreeClusterResourcesRequest_resources_update]
       base_FreeClusterResourcesRequest"

definition toJSON_FreeClusterResourcesRequest :: "FreeClusterResourcesRequest \<Rightarrow> json" where
  "toJSON_FreeClusterResourcesRequest m =
     object_of
       [(''namespaceId'', put_when (FreeClusterResourcesRequest_namespaceId m \<noteq> []) (JStr (FreeClusterResourcesRequest_namespaceId m))),
        (''resources'', put_list (FreeClusterResourcesRequest_resources m) (to_enum ClusterResource_numbers))]"

definition fromPartial_FreeClusterResourcesRequest :: "json \<Rightarrow> FreeClusterResourcesRequest result" where
  "fromPartial_FreeClusterResourcesRequest obj =
     read_fields
       [plain_field obj ''namespaceId'' as_string [] FreeClusterResourcesRequest_namespaceId_update,
        mapped_field obj ''resources'' as_integer FreeClusterResourcesRequest_resources_update]
       base_FreeClusterResourcesRequest"

definition create_FreeClusterResourcesRequest :: "json option \<Rightarrow> FreeClusterResourcesRequest result" where
  "create_FreeClusterResourcesRequest = create_with fromPartial_FreeClusterResourcesRequest"

definition known_FreeClusterResourcesRequest :: "FreeClusterResourcesRequest \<Rightarrow> bool" where
  "known_FreeClusterResourcesRequest m \<longleftrightarrow>
     list_all (known_enum ClusterResource_numbers) (FreeClusterResourcesRequest_resources m)"

lemma created_FreeClusterResourcesRequest: "create_FreeClusterResourcesRequest None = Inr base_FreeClusterResourcesRequest"
  by (simp add: create_FreeClusterResourcesRequest_def fromPartial_FreeClusterResourcesRequest_def base_FreeClusterResourcesRequest_def)

lemma toJSON_FreeClusterResourcesRequest_set [json_set]: "toJSON_FreeClusterResourcesRequest m \<noteq> JNull"
  by (simp add: toJSON_FreeClusterResourcesRequest_def)

lemma json_FreeClusterResourcesRequest [json_codecs]:
  assumes "known_FreeClusterResourcesRequest m"
  shows "fromJSON_FreeClusterResourcesRequest (toJSON_FreeClusterResourcesRequest m) = Inr m"
  unfolding fromJSON_FreeClusterResourcesRequest_def
proof (rule message_restored [OF toJSON_FreeClusterResourcesRequest_def [of m]])
  show "foldl (\<lambda>m u. u m) base_FreeClusterResourcesRequest
      [FreeClusterResourcesRequest_namespaceId_update (\<lambda>_. FreeClusterResourcesRequest_namespaceId m),
       FreeClusterResourcesRequest_resources_update (\<lambda>_. FreeClusterResourcesRequest_resources m)] = m"
    by (cases m) (simp add: base_FreeClusterResourcesRequest_def)
qed (simp, insert assms [unfolded known_FreeClusterResourcesRequest_def], simp only: list.pred_inject prod.case, elim conjE, (rule json_fields | assumption | erule known_values
      | rule any_values comes_backI json_codecs json_set enum_proper)+)

end
