(* ===== verification/Json_Promises.thy ===== *)
theory Json_Promises
  imports Json_Time Json_Events Json_Groups Json_Authentication Json_Messages Json_Server_Configuration
begin

text \<open>
  What the JSON side of the codecs promises: what is written comes back, apart from the numbers of enumerations this
  version does not know, and an absent message is refused.
\<close>

section \<open>The numbers of the store's enumerations\<close>

text \<open>The store's enumerations (theory Api_Enums) and the codecs' have the same numbers and names.\<close>

lemma same_numbers:
  "map snd visibility_table = Visibility_numbers" "map snd moderation_table = Moderation_numbers"
  "map snd permission_table = Permission_numbers" "map snd postListingType_table = PostListingType_numbers"
  "map snd eventListingType_table = EventListingType_numbers" "map snd groupListingType_table = GroupListingType_numbers"
  "map snd userListingType_table = UserListingType_numbers" "map snd mediaConversion_table = MediaConversion_numbers"
  by code_simp+

section \<open>Posts\<close>

definition example_reply :: Post where
  "example_reply = Post_upd (Post_content_update (\<lambda>_. Some ''Hello'') \<circ> Post_visibility_update (\<lambda>_. 1)) base_Post"

definition example_thread :: Post where
  "example_thread =
     Post_replies_upd (\<lambda>_. [example_reply])
       (Post_upd (Post_id_update (\<lambda>_. ''p1'') \<circ> Post_createdAt_update (\<lambda>_. Some ''2024-02-29T18:30:00.000Z'')) base_Post)"

text \<open>
  C17: a post with its replies, the posts they quote, authors, media and attachments is read back from
  the object \<open>toJSON\<close> makes of it, if this version knows the numbers of its enumerations.
\<close>

theorem post_json_roundtrip:
  assumes "known_Post m"
  shows "fromJSON_Post (toJSON_Post m) = Inr m"
  using assms by (rule json_Post)

theorem post_json_roundtrip_witness:
  "fromJSON_Post (toJSON_Post example_thread) = Inr example_thread"
proof (rule post_json_roundtrip)
  have "known_Post example_reply"
    unfolding known_Post.simps [of example_reply]
    by (simp add: example_reply_def base_Post_def Post_upd_def known_enum_def Visibility_numbers_def
        Moderation_numbers_def PostContext_numbers_def PostMediaLayout_numbers_def)
  then show "known_Post example_thread"
    unfolding known_Post.simps [of example_thread]
    by (simp add: example_thread_def base_Post_def Post_upd_def Post_replies_upd_def known_enum_def
        Visibility_numbers_def Moderation_numbers_def PostContext_numbers_def PostMediaLayout_numbers_def)
qed

text \<open>
  the number of a listing type a newer version adds does not survive: it is written as
  \<open>UNRECOGNIZED\<close> and read back as -1.
\<close>

theorem new_numbers_lost:
  assumes "n \<notin> fst ` set UserListingType_numbers"
  shows "fromJSON_GetUsersRequest (toJSON_GetUsersRequest (m\<lparr>GetUsersRequest_listingType := n\<rparr>)) =
    Inr (m\<lparr>GetUsersRequest_listingType := - 1\<rparr>)"
proof -
  have "n \<noteq> 0" using assms by (auto simp: UserListingType_numbers_def)
  moreover have "find (\<lambda>(n', s). n' = n) UserListingType_numbers = None"
    using assms by (force simp: find_None_iff)
  then have "enumToJSON UserListingType_numbers n = ''UNRECOGNIZED''"
    by (simp add: enumToJSON_def)
  ultimately have "toJSON_GetUsersRequest (m\<lparr>GetUsersRequest_listingType := n\<rparr>) =
      toJSON_GetUsersRequest (m\<lparr>GetUsersRequest_listingType := - 1\<rparr>)"
    by (simp add: toJSON_GetUsersRequest_def put_when_def to_enum_def enumToJSON_def UserListingType_numbers_def)
  moreover have "known_GetUsersRequest (m\<lparr>GetUsersRequest_listingType := - 1\<rparr>)"
    by (simp add: known_GetUsersRequest_def known_enum_def)
  ultimately show ?thesis using json_GetUsersRequest by simp
qed

theorem new_numbers_lost_witness:
  "fromJSON_GetUsersRequest (toJSON_GetUsersRequest (base_GetUsersRequest\<lparr>GetUsersRequest_listingType := 77\<rparr>)) =
    Inr (base_GetUsersRequest\<lparr>GetUsersRequest_listingType := - 1\<rparr>)"
  by (rule new_numbers_lost) (simp add: UserListingType_numbers_def)

text \<open>
  \<open>null\<close> is refused where an event is expected; where only lists are read it is an empty answer.
\<close>

theorem null_refused:
  "fromJSON_Event JNull = Inl TypeError" "fromJSON_GetEventsResponse JNull = Inr base_GetEventsResponse"
  by (simp_all add: fromJSON_Event_def optional_field_def fromJSON_GetEventsResponse_def list_field_def
      base_GetEventsResponse_def)

end
