(* ===== verification/List_Hooks.thy ===== *)
theory List_Hooks
  imports Paging_Hooks
begin

text \<open>
  The hooks behind the lists of the app (hooks/pagination/*_pagination_hooks.ts): what they return of the store, when
  their effects send a request, and which requests a reload makes.  \<open>A\<close> is the entity adapter of the list and \<open>loc\<close> is
  \<open>localeCompare\<close>, as in Pagination.
\<close>

section \<open>Further pages\<close>

text \<open>
  The selectors of the federated lists read the host as a property of the \<open>Federated\<close> value itself, which has the
  properties \<open>defaultValue\<close> and \<open>values\<close>.  The latter holds pages by host, not by listing; a server whose host is the
  word \<open>values\<close> is left out.
\<close>

definition own_property :: "'v federated \<Rightarrow> string \<Rightarrow> 'v option" where
  "own_property f h = (if h = ''defaultValue'' then Some (defaultValue f) else None)"

definition some_ids :: "string list option \<Rightarrow> bool" where
  "some_ids found \<longleftrightarrow> nullish (map_option length found) 0 > 0"

definition getHasMorePostPages :: "posts_state \<Rightarrow> post_listing_type \<Rightarrow> nat \<Rightarrow> account_or_server list \<Rightarrow> bool" where
  "getHasMorePostPages s listingType currentPage servers \<longleftrightarrow>
     list_ex (\<lambda>server. case aos_server server of
         None \<Rightarrow> False
       | Some sv \<Rightarrow> some_ids (page_at (nullish (own_property (postPages s) (host sv)) Map.empty) listingType currentPage))
       servers"

definition getHasMoreGroupPages :: "groups_state \<Rightarrow> group_listing_type \<Rightarrow> nat \<Rightarrow> account_or_server list \<Rightarrow> bool" where
  "getHasMoreGroupPages s listingType currentPage servers \<longleftrightarrow>
     list_ex (\<lambda>server. case aos_server server of
         None \<Rightarrow> False
       | Some sv \<Rightarrow> some_ids (page_at (nullish (own_property (groupPages s) (host sv)) Map.empty) listingType currentPage))
       servers"

definition getHasMoreMediaPages :: "media_state \<Rightarrow> nat \<Rightarrow> account_or_server list \<Rightarrow> bool" where
  "getHasMoreMediaPages s currentPage servers \<longleftrightarrow>
     list_ex (\<lambda>server. case aos_server server of
         None \<Rightarrow> False
       | Some sv \<Rightarrow>
           some_ids (page_at (nullish (own_property (userMediaPages s) (host sv)) Map.empty) (media_owner server) currentPage))
       servers"

text \<open>The one of the events leaves the time filter out: it takes the page number for one.\<close>

definition getHasMoreEventPages ::
  "events_state \<Rightarrow> event_listing_type \<Rightarrow> string \<Rightarrow> nat \<Rightarrow> account_or_server list \<Rightarrow> bool" where
  "getHasMoreEventPages s listingType timeFilter currentPage servers \<longleftrightarrow>
     list_ex (\<lambda>server. case aos_server server of
         None \<Rightarrow> False
       | Some sv \<Rightarrow>
           (case Option.bind (own_property (occasionPages s) (host sv)) (\<lambda>p. p listingType) of
              None \<Rightarrow> False
            | Some filters \<Rightarrow>
                (case filters (to_decimal currentPage) of None \<Rightarrow> False | Some pages \<Rightarrow> pages \<noteq> Map.empty)))
       servers"


section \<open>What the hooks return\<close>

record 'e page_results =
  pr_results :: "'e list"
  pr_loading :: bool
  pr_hasMorePages :: bool
  pr_firstPageLoaded :: bool

definition useServerPostPages ::
  "federated_post adapter \<Rightarrow> (string \<Rightarrow> string \<Rightarrow> int) \<Rightarrow> posts_state \<Rightarrow> account_or_server list \<Rightarrow> post_listing_type \<Rightarrow> nat \<Rightarrow>
     federated_post page_results"
where
  "useServerPostPages A loc s servers listingType throughPage =
     \<lparr>pr_results = getPostsPages A loc s listingType throughPage servers,
      pr_loading = someLoading (posts_pagesStatus s) servers,
      pr_hasMorePages = getHasMorePostPages s listingType throughPage servers,
      pr_firstPageLoaded = getHasPostsPage s listingType 0 servers\<rparr>"

definition useGroupPostPages ::
  "federated_post adapter \<Rightarrow> posts_state \<Rightarrow> groups_state \<Rightarrow> bool \<Rightarrow> federated_group option \<Rightarrow> nat \<Rightarrow> federated_post page_results"
where
  "useGroupPostPages A posts groups loading g throughPage =
     (case g of
        None \<Rightarrow> \<lparr>pr_results = [], pr_loading = False, pr_hasMorePages = False, pr_firstPageLoaded = True\<rparr>
      | Some g \<Rightarrow>
          \<lparr>pr_results = getGroupPostPages A posts groups g throughPage, pr_loading = loading,
           pr_hasMorePages = getHasMoreGroupPostPages groups g throughPage,
           pr_firstPageLoaded = getHasGroupPostsPage groups g 0\<rparr>)"

text \<open>\<open>usePostPages\<close>; the page it shows is never changed from 0.\<close>

definition usePostPages ::
  "federated_post adapter \<Rightarrow> (string \<Rightarrow> string \<Rightarrow> int) \<Rightarrow> posts_state \<Rightarrow> groups_state \<Rightarrow> account_or_server list \<Rightarrow> bool \<Rightarrow>
     post_listing_type \<Rightarrow> federated_group option \<Rightarrow> federated_post page_results"
where
  "usePostPages A loc posts groups servers groupLoading listingType selectedGroup =
     (if selectedGroup \<noteq> None then useGroupPostPages A posts groups groupLoading selectedGroup 0
      else useServerPostPages A loc posts servers listingType 0)"

definition useServerEventPages ::
  "federated_event adapter \<Rightarrow> (string \<Rightarrow> string \<Rightarrow> int) \<Rightarrow> events_state \<Rightarrow> account_or_server list \<Rightarrow> event_listing_type \<Rightarrow>
     string \<Rightarrow> nat \<Rightarrow> federated_event page_results"
where
  "useServerEventPages A loc s servers listingType timeFilter throughPage =
     \<lparr>pr_results = getEventsPages A loc s listingType timeFilter throughPage servers,
      pr_loading = selectEventsLoading s servers,
      pr_hasMorePages = getHasMoreEventPages s listingType timeFilter throughPage servers,
      pr_firstPageLoaded = getHasEventsPage s listingType timeFilter 0 servers\<rparr>"

definition useGroupEventPages ::
  "federated_event adapter \<Rightarrow> events_state \<Rightarrow> groups_state \<Rightarrow> bool \<Rightarrow> federated_group option \<Rightarrow> string \<Rightarrow> nat \<Rightarrow>
     federated_event page_results"
where
  "useGroupEventPages A events groups loading g timeFilter throughPage =
     (case g of
        None \<Rightarrow> \<lparr>pr_results = [], pr_loading = False, pr_hasMorePages = False, pr_firstPageLoaded = False\<rparr>
      | Some g \<Rightarrow>
          \<lparr>pr_results = getGroupEventPages A events groups g timeFilter throughPage, pr_loading = loading,
           pr_hasMorePages = getHasMoreGroupEventPages groups g timeFilter throughPage,
           pr_firstPageLoaded = getHasGroupEventsPage groups g timeFilter 0\<rparr>)"

definition useEventPages ::
  "federated_event adapter \<Rightarrow> (string \<Rightarrow> string \<Rightarrow> int) \<Rightarrow> events_state \<Rightarrow> groups_state \<Rightarrow> account_or_server list \<Rightarrow> bool \<Rightarrow>
     event_listing_type \<Rightarrow> federated_group option \<Rightarrow> string \<Rightarrow> federated_event page_results"
where
  "useEventPages A loc events groups servers groupLoading listingType selectedGroup timeFilter =
     (if selectedGroup \<noteq> None then useGroupEventPages A events groups groupLoading selectedGroup timeFilter 0
      else useServerEventPages A loc events servers listingType timeFilter 0)"

definition useGroupPages ::
  "federated_group adapter \<Rightarrow> groups_state \<Rightarrow> account_or_server list \<Rightarrow> group_listing_type \<Rightarrow> nat \<Rightarrow>
     federated_group page_results"
where
  "useGroupPages A s servers listingType throughPage =
     \<lparr>pr_results = getGroupsPages A s listingType throughPage servers,
      pr_loading = someLoading (groups_pagesStatus s) servers,
      pr_hasMorePages = getHasMoreGroupPages s listingType throughPage servers,
      pr_firstPageLoaded = getHasGroupsPage s listingType 0 servers\<rparr>"

text \<open>The media of one server, the one of the surrounding context or the one for new entities, if an account is used.\<close>

definition media_servers :: "account_or_server option \<Rightarrow> account_or_server \<Rightarrow> account_or_server list" where
  "media_servers accountOrServerContext currentAccountOrServer =
     (let accountOrServer = nullish accountOrServerContext currentAccountOrServer
      in if aos_account accountOrServer \<noteq> None then [accountOrServer] else [])"

definition useServerMediaPages ::
  "federated_media adapter \<Rightarrow> (string \<Rightarrow> string \<Rightarrow> int) \<Rightarrow> media_state \<Rightarrow> account_or_server list \<Rightarrow> nat \<Rightarrow>
     federated_media page_results"
where
  "useServerMediaPages A loc s servers throughPage =
     \<lparr>pr_results = getMediaPages A loc s throughPage servers,
      pr_loading = someLoading (media_pagesStatus s) servers,
      pr_hasMorePages = getHasMoreMediaPages s throughPage servers,
      pr_firstPageLoaded = getHasMediaPage s 0 servers\<rparr>"

text \<open>The users and members hooks return no \<open>hasMorePages\<close>; an array is never \<open>undefined\<close>.\<close>

definition useUsersPage ::
  "federated_user adapter \<Rightarrow> users_state \<Rightarrow> account_or_server list \<Rightarrow> user_listing_type option \<Rightarrow> nat \<Rightarrow>
     federated_user page_results"
where
  "useUsersPage A s servers listingType page =
     \<lparr>pr_results = up_users (getUsersPage A s (nullish listingType UserListingType_EVERYONE) page servers),
      pr_loading = someLoading (users_pagesStatus s) servers, pr_hasMorePages = False, pr_firstPageLoaded = True\<rparr>"


section \<open>Requests\<close>

text \<open>Effects and reloads: the servers (or the listing types with them) that are asked.\<close>

definition groups_reload :: "groups_state \<Rightarrow> group_listing_type \<Rightarrow> account_or_server list \<Rightarrow> account_or_server list" where
  "groups_reload s listingType servers =
     (if someLoading (groups_pagesStatus s) servers then [] else getServersMissingGroupsPage s listingType 0 servers)"

definition groups_effect ::
  "bool \<Rightarrow> groups_state \<Rightarrow> group_listing_type \<Rightarrow> account_or_server list \<Rightarrow> account_or_server list" where
  "groups_effect disableLoading s listingType servers =
     (if \<not> someLoading (groups_pagesStatus s) servers \<and> \<not> disableLoading \<and> someUnloaded (groups_pagesStatus s) servers
      then groups_reload s listingType servers else [])"

definition media_reload :: "media_state \<Rightarrow> account_or_server list \<Rightarrow> (account_or_server \<times> string) list" where
  "media_reload s servers =
     (if someLoading (media_pagesStatus s) servers then []
      else List.map_filter (\<lambda>server.
        (case aos_account server of
           None \<Rightarrow> None
         | Some a \<Rightarrow> if u_id (acct_user a) = [] then None else Some (server, u_id (acct_user a)))) servers)"

definition media_effect :: "media_state \<Rightarrow> account_or_server list \<Rightarrow> (account_or_server \<times> string) list" where
  "media_effect s servers =
     (if \<not> someLoading (media_pagesStatus s) servers \<and> serversAllDefined servers \<and>
         someUnloaded (media_pagesStatus s) (filter (\<lambda>server. aos_account server \<noteq> None) servers)
      then media_reload s servers else [])"

definition users_reload ::
  "bool \<Rightarrow> users_state \<Rightarrow> user_listing_type option \<Rightarrow> account_or_server list \<Rightarrow>
     (account_or_server \<times> user_listing_type option) list"
where
  "users_reload force s listingType servers =
     (if someLoading (users_pagesStatus s) servers then []
      else map (\<lambda>server. (server, listingType))
        (if force then servers
         else getServersMissingUsersPage s (nullish listingType UserListingType_EVERYONE) 0 servers))"

definition users_effect ::
  "federated_user adapter \<Rightarrow> users_state \<Rightarrow> user_listing_type option \<Rightarrow> nat \<Rightarrow> account_or_server list \<Rightarrow>
     (account_or_server \<times> user_listing_type option) list"
where
  "users_effect A s listingType page servers =
     (if listingType \<noteq> None \<and>
         up_hadUndefinedServers (getUsersPage A s (nullish listingType UserListingType_EVERYONE) page servers) \<and>
         \<not> someLoading (users_pagesStatus s) servers
      then users_reload False s listingType servers else [])"

text \<open>The effects of the group lists, for the server of the group: whether they send a request.\<close>

definition group_posts_effect ::
  "groups_state \<Rightarrow> account_or_server \<Rightarrow> bool \<Rightarrow> federated_group option \<Rightarrow> bool" where
  "group_posts_effect groups accountOrServer loading g \<longleftrightarrow>
     (case g of
        None \<Rightarrow> False
      | Some g \<Rightarrow> \<not> getHasGroupPostsPage groups g 0 \<and> \<not> loading \<and> aos_server accountOrServer \<noteq> None)"

definition group_events_effect ::
  "groups_state \<Rightarrow> account_or_server \<Rightarrow> bool \<Rightarrow> string \<Rightarrow> federated_group option \<Rightarrow> bool" where
  "group_events_effect groups accountOrServer loading timeFilter g \<longleftrightarrow>
     (case g of
        None \<Rightarrow> False
      | Some g \<Rightarrow> \<not> getHasGroupEventsPage groups g timeFilter 0 \<and> \<not> loading \<and> aos_server accountOrServer \<noteq> None)"


section \<open>The members of a group\<close>

text \<open>
  The hook with the slices it reads, the flag it keeps and the requests it has sent.  The effect sends a request without
  page and moderation; an answer reaches both slices, a failure none, and both end the loading.
\<close>

record members_hook =
  mh_users :: users_state
  mh_groups :: groups_state
  mh_loadingMembers :: bool
  mh_requests :: "load_members_request list"

definition useMembersPage ::
  "federated_user adapter \<Rightarrow> string \<Rightarrow> nat \<Rightarrow> moderation option \<Rightarrow> members_hook \<Rightarrow> federated_user page_results" where
  "useMembersPage A groupId page groupModeration st =
     \<lparr>pr_results =
        (if groupId \<noteq> [] then up_users (getMembersPage A (mh_users st) (mh_groups st) groupId page groupModeration) else []),
      pr_loading = mh_loadingMembers st, pr_hasMorePages = False, pr_firstPageLoaded = True\<rparr>"

definition members_effect ::
  "federated_user adapter \<Rightarrow> account_or_server \<Rightarrow> string \<Rightarrow> nat \<Rightarrow> moderation option \<Rightarrow> members_hook \<Rightarrow> members_hook" where
  "members_effect A accountOrServer groupId page groupModeration st =
     (if groupId \<noteq> [] \<and>
         up_hadUndefinedServers (getMembersPage A (mh_users st) (mh_groups st) groupId page groupModeration) \<and>
         \<not> mh_loadingMembers st \<and> aos_server accountOrServer \<noteq> None
      then st\<lparr>mh_loadingMembers := True,
              mh_requests := mh_requests st @
                [\<lparr>lmb_server = aos_server accountOrServer, lmb_id = groupId, lmb_page = None, lmb_groupModeration = None\<rparr>]\<rparr>
      else st)"

definition members_answered ::
  "federated_user adapter \<Rightarrow> account_or_server \<Rightarrow> string \<Rightarrow> api_member list option \<Rightarrow> members_hook \<Rightarrow> members_hook" where
  "members_answered A accountOrServer groupId answer st =
     (if \<not> mh_loadingMembers st then st
      else (case answer of
          None \<Rightarrow> st\<lparr>mh_loadingMembers := False\<rparr>
        | Some members \<Rightarrow>
            st\<lparr>mh_users := loadGroupMembers_users A (aos_server accountOrServer) members (mh_users st),
               mh_groups := loadGroupMembers_fulfilled
                 \<lparr>lmb_server = aos_server accountOrServer, lmb_id = groupId, lmb_page = None, lmb_groupModeration = None\<rparr>
                 members (mh_groups st),
               mh_loadingMembers := False\<rparr>))"

text \<open>A run of the hook: the effect, and what comes back of the request it has sent, again and again.\<close>

definition members_round ::
  "federated_user adapter \<Rightarrow> account_or_server \<Rightarrow> string \<Rightarrow> nat \<Rightarrow> moderation option \<Rightarrow> members_hook \<Rightarrow>
     api_member list option \<Rightarrow> members_hook"
where
  "members_round A accountOrServer groupId page groupModeration st answer =
     members_answered A accountOrServer groupId answer (members_effect A accountOrServer groupId page groupModeration st)"

definition members_run ::
  "federated_user adapter \<Rightarrow> account_or_server \<Rightarrow> string \<Rightarrow> nat \<Rightarrow> moderation option \<Rightarrow> api_member list option list \<Rightarrow>
     members_hook \<Rightarrow> members_hook"
where
  "members_run A accountOrServer groupId page groupModeration answers st =
     foldl (members_round A accountOrServer groupId page groupModeration) st answers"

lemma members_undefined_iff:
  "up_hadUndefinedServers (getMembersPage A users groups groupId page groupModeration) \<longleftrightarrow>
     Option.bind (groupMembershipPages groups groupId)
       (\<lambda>p. page_at p (nullish groupModeration Moderation_MODERATION_UNKNOWN) page) = None"
  by (simp add: getMembersPage_def Let_def)

text \<open>Where an answer to such a request is filed.\<close>

lemma members_filed:
  "Option.bind (groupMembershipPages (loadGroupMembers_fulfilled
       \<lparr>lmb_server = sv, lmb_id = i, lmb_page = None, lmb_groupModeration = None\<rparr> members gs) groupId)
     (\<lambda>p. page_at p moderation page) =
   (if groupId = toFederatedId (parseFederatedIdOr i (Some (serverHost (FederatedAction sv)))) \<and>
       moderation = Moderation_MODERATION_UNKNOWN \<and> page = 0
    then Some (List.map_filter member_membership members)
    else Option.bind (groupMembershipPages gs groupId) (\<lambda>p. page_at p moderation page))"
  by (auto simp: loadGroupMembers_fulfilled_def Let_def page_at_def split: option.splits bind_splits)

lemma members_run_Cons:
  "members_run A aos groupId page md (a # answers) st =
     members_run A aos groupId page md answers (members_round A aos groupId page md st a)"
  by (simp add: members_run_def)

text \<open>A round with a page that is missing and one with a page that is there.\<close>

lemma members_round_missing:
  assumes "groupId \<noteq> []" "aos_server aos \<noteq> None" "\<not> mh_loadingMembers st"
    and "up_hadUndefinedServers (getMembersPage A (mh_users st) (mh_groups st) groupId page md)"
  shows "length (mh_requests (members_round A aos groupId page md st answer)) = length (mh_requests st) + 1"
    and "\<not> mh_loadingMembers (members_round A aos groupId page md st answer)"
    and "mh_groups (members_round A aos groupId page md st answer) =
      (case answer of None \<Rightarrow> mh_groups st
       | Some members \<Rightarrow> loadGroupMembers_fulfilled
           \<lparr>lmb_server = aos_server aos, lmb_id = groupId, lmb_page = None, lmb_groupModeration = None\<rparr> members
           (mh_groups st))"
  using assms by (auto simp: members_round_def members_effect_def members_answered_def split: option.splits)

lemma members_round_there:
  assumes "\<not> up_hadUndefinedServers (getMembersPage A (mh_users st) (mh_groups st) groupId page md)"
    and "\<not> mh_loadingMembers st"
  shows "members_round A aos groupId page md st answer = st"
  using assms by (simp add: members_round_def members_effect_def members_answered_def)

lemma members_run_there:
  "\<not> up_hadUndefinedServers (getMembersPage A (mh_users st) (mh_groups st) groupId page md) \<Longrightarrow>
   \<not> mh_loadingMembers st \<Longrightarrow> members_run A aos groupId page md answers st = st"
  by (induction answers) (simp_all add: members_run_Cons members_round_there, simp add: members_run_def)


section \<open>What the hooks promise, and what they do not\<close>

text \<open>
  whatever pages of posts, groups, media and events the store holds, none of the lists says that
  there are more, as long as no server has the word \<open>defaultValue\<close> for its host.
\<close>

theorem no_further_pages_offered:
  assumes "\<forall>server \<in> set servers. \<forall>sv. aos_server server = Some sv \<longrightarrow> host sv \<noteq> ''defaultValue''"
  shows "\<not> pr_hasMorePages (useServerPostPages A1 loc1 posts servers l1 p) \<and>
    \<not> pr_hasMorePages (useServerEventPages A2 loc2 events servers l2 f p) \<and>
    \<not> pr_hasMorePages (useGroupPages A3 groups servers l3 p) \<and>
    \<not> pr_hasMorePages (useServerMediaPages A4 loc4 media servers p)"
  using assms
  by (auto simp: useServerPostPages_def useServerEventPages_def useGroupPages_def useServerMediaPages_def
      getHasMorePostPages_def getHasMoreEventPages_def getHasMoreGroupPages_def getHasMoreMediaPages_def
      own_property_def list_ex_iff page_at_def some_ids_def split: option.splits)

theorem no_further_pages_offered_witness:
  "\<not> pr_hasMorePages (useServerPostPages (ref_adapter post_key replace_all None) (\<lambda>_ _. 0)
      (loadPostsPage_fulfilled (ref_adapter post_key replace_all None)
        \<lparr>lpr_server = Some sample_server, lpr_listingType = None, lpr_page = None\<rparr> [bare_post ''a'' []] initial_posts)
      [\<lparr>aos_account = None, aos_server = Some sample_server\<rparr>] PostListingType_ALL_ACCESSIBLE_POSTS 0)"
  using no_further_pages_offered [of "[\<lparr>aos_account = None, aos_server = Some sample_server\<rparr>]"]
  by (simp add: sample_server_def)

text \<open>The first page of all members is asked for until it is there.\<close>

lemma first_members_asked:
  assumes "groupId \<noteq> []" "aos_server aos \<noteq> None" "\<not> mh_loadingMembers st"
    and "up_hadUndefinedServers (getMembersPage A (mh_users st) (mh_groups st) groupId 0 md)"
    and "nullish md Moderation_MODERATION_UNKNOWN = Moderation_MODERATION_UNKNOWN"
    and "groupId = toFederatedId (parseFederatedIdOr groupId (Some (serverHost (FederatedAction (aos_server aos)))))"
  shows "length (mh_requests (members_run A aos groupId 0 md answers st)) =
    length (mh_requests st) + length (takeWhile (\<lambda>a. a = None) answers) + (if list_all (\<lambda>a. a = None) answers then 0 else 1)"
  using assms
proof (induction answers arbitrary: st)
  case Nil
  then show ?case by (simp add: members_run_def)
next
  case (Cons a answers)
  note round = members_round_missing [OF Cons.prems(1-4), of a]
  show ?case
  proof (cases a)
    case None
    have "up_hadUndefinedServers (getMembersPage A u (mh_groups (members_round A aos groupId 0 md st a)) groupId 0 md)"
      for u
      using Cons.prems(4) round(3) None by (simp add: members_undefined_iff)
    then show ?thesis
      using Cons.IH [OF Cons.prems(1,2) round(2) _ Cons.prems(5,6)] round(1) None by (simp add: members_run_Cons)
  next
    case (Some members)
    have "\<not> up_hadUndefinedServers (getMembersPage A u (mh_groups (members_round A aos groupId 0 md st a)) groupId 0 md)"
      for u
      using Cons.prems(5,6) round(3) Some by (simp add: members_undefined_iff members_filed)
    then show ?thesis
      using members_run_there [OF _ round(2)] round(1) Some by (simp add: members_run_Cons)
  qed
qed

text \<open>
  asked for members with another moderation than the default, or for another page than the
  first, the hook sends a request that leaves both out, so no answer ever fills the page: every answer is followed by one
  more request.
\<close>

theorem other_members_asked_forever:
  assumes "groupId \<noteq> []" "aos_server aos \<noteq> None" "\<not> mh_loadingMembers st"
    and "up_hadUndefinedServers (getMembersPage A (mh_users st) (mh_groups st) groupId page md)"
    and "nullish md Moderation_MODERATION_UNKNOWN \<noteq> Moderation_MODERATION_UNKNOWN \<or> page \<noteq> 0"
  shows "length (mh_requests (members_run A aos groupId page md answers st)) = length (mh_requests st) + length answers \<and>
    up_hadUndefinedServers (getMembersPage A (mh_users st) (mh_groups (members_run A aos groupId page md answers st))
      groupId page md)"
  using assms
proof (induction answers arbitrary: st)
  case Nil
  then show ?case by (simp add: members_run_def)
next
  case (Cons a answers)
  note round = members_round_missing [OF Cons.prems(1-4), of a]
  have "up_hadUndefinedServers (getMembersPage A u (mh_groups (members_round A aos groupId page md st a)) groupId page md)"
    for u
    using Cons.prems(4,5) round(3) by (auto simp: members_undefined_iff members_filed split: option.splits)
  then show ?case
    using Cons.IH [OF Cons.prems(1,2) round(2) _ Cons.prems(5)] round(1)
    by (simp add: members_run_Cons members_undefined_iff)
qed

definition sample_hook :: members_hook where
  "sample_hook = \<lparr>mh_users = sample_users, mh_groups = initial_groups, mh_loadingMembers = False, mh_requests = []\<rparr>"

theorem other_members_asked_forever_witness:
  "length (mh_requests (members_run sample_users_adapter \<lparr>aos_account = None, aos_server = Some sample_server\<rparr> ''g@h'' 0
     (Some Moderation_PENDING) [Some [], Some []] sample_hook)) = 2"
  using other_members_asked_forever [of "''g@h''" "\<lparr>aos_account = None, aos_server = Some sample_server\<rparr>" sample_hook
      sample_users_adapter 0 "Some Moderation_PENDING" "[Some [], Some []]"]
  by (simp add: sample_hook_def initial_groups_def members_undefined_iff parseFederatedIdOr_def toFederatedId_def mk_federated_id_def)

text \<open>
  C33: A list of members that is missing is asked for again after every failure.  The first page
  of all members of a group is asked for until the first answer and not after it.  Any other list of the hook, of another
  moderation or another page, is asked for again after every answer as well: no answer fills it.
\<close>

theorem members_asked_until_answered:
  assumes "groupId \<noteq> []" "aos_server aos \<noteq> None" "\<not> mh_loadingMembers st"
    and "up_hadUndefinedServers (getMembersPage A (mh_users st) (mh_groups st) groupId page md)"
    and "groupId = toFederatedId (parseFederatedIdOr groupId (Some (serverHost (FederatedAction (aos_server aos)))))"
  shows "length (mh_requests (members_run A aos groupId page md answers st)) = length (mh_requests st) +
    (if page = 0 \<and> nullish md Moderation_MODERATION_UNKNOWN = Moderation_MODERATION_UNKNOWN
     then length (takeWhile (\<lambda>a. a = None) answers) + (if list_all (\<lambda>a. a = None) answers then 0 else 1)
     else length answers)"
proof (cases "page = 0 \<and> nullish md Moderation_MODERATION_UNKNOWN = Moderation_MODERATION_UNKNOWN")
  case True
  then show ?thesis using first_members_asked [of groupId aos st A md answers] assms by simp
next
  case False
  then have "nullish md Moderation_MODERATION_UNKNOWN \<noteq> Moderation_MODERATION_UNKNOWN \<or> page \<noteq> 0" by auto
  from other_members_asked_forever [OF assms(1-4) this] False show ?thesis by auto
qed

theorem members_asked_until_answered_witness:
  "length (mh_requests (members_run sample_users_adapter \<lparr>aos_account = None, aos_server = Some sample_server\<rparr> ''g@h'' 0 None
     [None, None, Some [], None] sample_hook)) = 3"
  using members_asked_until_answered [of "''g@h''" "\<lparr>aos_account = None, aos_server = Some sample_server\<rparr>" sample_hook
      sample_users_adapter 0 None "[None, None, Some [], None]"]
  by (simp add: sample_hook_def initial_groups_def members_undefined_iff parseFederatedIdOr_def toFederatedId_def mk_federated_id_def)

end
