(* ===== verification/Anonymous_Tokens.thy ===== *)
theory Anonymous_Tokens
  imports Json
begin

text \<open>
  The private tokens of anonymous attendees (hooks/use_anonymous_auth_token.tsx): one query parameter of the address
  holds the tokens of several occasions, as \<open>id-token--id-token\<close>.  The parameter is an optional string; what the setter
  of the parameter is called with is the result of the functions that write it.
\<close>

section \<open>The parameter\<close>

text \<open>\<open>s.split('--')\<close>.\<close>

fun split_pairs :: "string \<Rightarrow> string list" where
  "split_pairs [] = [[]]"
| "split_pairs [c] = [[c]]"
| "split_pairs (c # d # cs) =
     (if c = CHR ''-'' \<and> d = CHR ''-'' then [] # split_pairs cs
      else (case split_pairs (d # cs) of [] \<Rightarrow> [] | p # ps \<Rightarrow> (c # p) # ps))"

fun join_with :: "string \<Rightarrow> string list \<Rightarrow> string" where
  "join_with sep [] = []"
| "join_with sep [s] = s"
| "join_with sep (s # t # ss) = s @ sep @ join_with sep (t # ss)"

text \<open>The parts of each entry; the first one is the identifier of the occasion, and an entry without one is dropped.\<close>

definition anonymousAuthTokens :: "string option \<Rightarrow> string list list" where
  "anonymousAuthTokens query =
     filter (\<lambda>t. case t of [] \<Rightarrow> False | i # _ \<Rightarrow> i \<noteq> [])
       (map (\<lambda>t. js_split (CHR ''-'') (trim_white t)) (split_pairs (nullish query [])))"

definition anonymousAuthToken :: "string \<Rightarrow> string option \<Rightarrow> string option" where
  "anonymousAuthToken occasionId query =
     (case find (\<lambda>t. hd t = occasionId) (anonymousAuthTokens query) of
        None \<Rightarrow> None
      | Some t \<Rightarrow> (case js_at t 1 of None \<Rightarrow> None | Some token \<Rightarrow> if token = [] then None else Some token))"

text \<open>
  The entries that are kept are arrays, and \<open>join\<close> turns each of them into a string with commas.
\<close>

definition removeAnonymousAuthToken :: "string \<Rightarrow> string option \<Rightarrow> string" where
  "removeAnonymousAuthToken occasionId query =
     join_with ''--'' (map (join_with '','')
       (filter (\<lambda>t. occasionId \<noteq> [] \<and> hd t = occasionId) (anonymousAuthTokens query)))"

definition setAnonymousAuthToken :: "string \<Rightarrow> string option \<Rightarrow> string \<Rightarrow> string" where
  "setAnonymousAuthToken occasionId query token =
     (if token = [] then removeAnonymousAuthToken occasionId query
      else join_with ''--''
        (map (join_with ''-'') (filter (\<lambda>t. hd t \<noteq> occasionId) (anonymousAuthTokens query)) @
         [occasionId @ ''-'' @ token]))"

text \<open>The effect: a first entry without a token is a token of this occasion.\<close>

definition adoptFirstToken :: "string \<Rightarrow> string option \<Rightarrow> string option" where
  "adoptFirstToken occasionId query =
     (case anonymousAuthTokens query of
        [] \<Rightarrow> query
      | t # ts \<Rightarrow>
          if (case js_at t 1 of None \<Rightarrow> True | Some token \<Rightarrow> token = [])
          then Some (join_with ''--'' ((occasionId @ ''-'' @ hd t) # map (join_with ''-'') ts))
          else query)"


section \<open>Parameters the app writes\<close>

text \<open>
  A list of pairs whose parts are plain -- not empty, without a dash and without white space at their ends -- and the
  parameter it is written as.
\<close>

definition plain_part :: "string \<Rightarrow> bool" where
  "plain_part s \<longleftrightarrow> s \<noteq> [] \<and> CHR ''-'' \<notin> set s \<and> \<not> white (hd s) \<and> \<not> white (last s)"

definition plain_pairs :: "(string \<times> string) list \<Rightarrow> bool" where
  "plain_pairs ps \<longleftrightarrow> list_all (\<lambda>(i, t). plain_part i \<and> plain_part t) ps"

definition query_of :: "(string \<times> string) list \<Rightarrow> string" where
  "query_of ps = join_with ''--'' (map (\<lambda>(i, t). i @ ''-'' @ t) ps)"

lemma split_pairs_not_Nil [simp]: "split_pairs s \<noteq> []"
  by (induction s rule: split_pairs.induct) (auto split: list.splits)

lemma split_pairs_plain:
  assumes "CHR ''-'' \<notin> set w"
  shows "split_pairs (w @ s) = (case split_pairs s of [] \<Rightarrow> [] | p # ps \<Rightarrow> (w @ p) # ps)"
  using assms
proof (induction w)
  case Nil
  then show ?case by (cases "split_pairs s") auto
next
  case (Cons c w)
  have "split_pairs (c # v) = (case split_pairs v of [] \<Rightarrow> [] | p # ps \<Rightarrow> (c # p) # ps)" for v
    using Cons.prems by (cases v) auto
  then show ?case using Cons by (cases "split_pairs s") auto
qed

lemma split_pairs_dash:
  "d \<noteq> CHR ''-'' \<Longrightarrow> split_pairs (CHR ''-'' # d # s) =
     (case split_pairs (d # s) of [] \<Rightarrow> [] | p # ps \<Rightarrow> (CHR ''-'' # p) # ps)"
  by simp

lemma split_entry:
  assumes "plain_part i" "plain_part t"
  shows "split_pairs (i @ ''-'' @ t) = [i @ ''-'' @ t]"
    and "split_pairs (i @ ''-'' @ t @ ''--'' @ s) = (i @ ''-'' @ t) # split_pairs s"
proof -
  have t: "split_pairs t = [t]" "split_pairs (t @ ''--'' @ s) = t # split_pairs s"
    using split_pairs_plain [of t "[]"] split_pairs_plain [of t "''--'' @ s"] assms(2) by (auto simp: plain_part_def)
  obtain d ds where d: "t = d # ds" "d \<noteq> CHR ''-''"
    using assms(2) by (cases t) (auto simp: plain_part_def)
  show "split_pairs (i @ ''-'' @ t) = [i @ ''-'' @ t]"
    using split_pairs_plain [of i "''-'' @ t"] assms(1) t(1) d split_pairs_dash [of d ds] by (simp add: plain_part_def)
  show "split_pairs (i @ ''-'' @ t @ ''--'' @ s) = (i @ ''-'' @ t) # split_pairs s"
    using split_pairs_plain [of i "''-'' @ t @ ''--'' @ s"] assms(1) t(2) d
      split_pairs_dash [of d "ds @ ''--'' @ s"] by (simp add: plain_part_def)
qed

lemma split_query:
  "plain_pairs ps \<Longrightarrow> ps \<noteq> [] \<Longrightarrow> split_pairs (query_of ps) = map (\<lambda>(i, t). i @ ''-'' @ t) ps"
proof (induction ps)
  case (Cons p ps)
  obtain i t where p: "p = (i, t)" by fastforce
  show ?case
  proof (cases ps)
    case Nil
    then show ?thesis using Cons.prems p split_entry(1) [of i t] by (simp add: query_of_def plain_pairs_def)
  next
    case (Cons q qs)
    then have "query_of (p # ps) = i @ ''-'' @ t @ ''--'' @ query_of ps"
      using p by (simp add: query_of_def)
    then show ?thesis
      using Cons.prems Cons.IH Cons p split_entry(2) [of i t "query_of ps"] by (simp add: plain_pairs_def)
  qed
qed simp

lemma js_split_plain: "plain_part i \<Longrightarrow> plain_part t \<Longrightarrow> js_split (CHR ''-'') (i @ ''-'' @ t) = [i, t]"
  using js_split_append [of "CHR ''-''" i t] by (simp add: plain_part_def js_split_absent)

lemma trim_white_id: "s \<noteq> [] \<Longrightarrow> \<not> white (hd s) \<Longrightarrow> \<not> white (last s) \<Longrightarrow> trim_white s = s"
  by (simp add: trim_white_def dropWhile_eq_self_iff [THEN iffD2] hd_rev)

lemma trim_plain: "plain_part i \<Longrightarrow> plain_part t \<Longrightarrow> trim_white (i @ sep @ t) = i @ sep @ t"
  by (rule trim_white_id) (auto simp: plain_part_def)

text \<open>Reading a parameter the app has written.\<close>

lemma tokens_query:
  assumes "plain_pairs ps"
  shows "anonymousAuthTokens (Some (query_of ps)) = map (\<lambda>(i, t). [i, t]) ps"
proof (cases "ps = []")
  case True
  then show ?thesis by (simp add: anonymousAuthTokens_def query_of_def trim_white_def)
next
  case False
  have "map (\<lambda>t. js_split (CHR ''-'') (trim_white t)) (map (\<lambda>(i, t). i @ ''-'' @ t) ps) = map (\<lambda>(i, t). [i, t]) ps"
    using assms js_split_plain trim_plain [where sep = "''-''"]
    by (auto simp: plain_pairs_def list_all_iff)
  moreover have "filter (\<lambda>t. case t of [] \<Rightarrow> False | i # _ \<Rightarrow> i \<noteq> []) (map (\<lambda>(i, t). [i, t]) ps) = map (\<lambda>(i, t). [i, t]) ps"
    using assms by (auto simp: plain_pairs_def list_all_iff plain_part_def filter_id_conv)
  ultimately show ?thesis
    by (simp only: anonymousAuthTokens_def nullish_simps split_query [OF assms False])
qed

lemma token_query:
  assumes "plain_pairs ps"
  shows "anonymousAuthToken i (Some (query_of ps)) = map_of ps i"
  unfolding anonymousAuthToken_def tokens_query [OF assms]
  using assms by (induction ps) (auto simp: plain_pairs_def plain_part_def)

lemma set_query:
  assumes "plain_pairs ps" "token \<noteq> []"
  shows "setAnonymousAuthToken i (Some (query_of ps)) token = query_of (filter (\<lambda>(i', t). i' \<noteq> i) ps @ [(i, token)])"
proof -
  have "map (join_with ''-'') (filter (\<lambda>t. hd t \<noteq> i) (map (\<lambda>(i, t). [i, t]) ps)) =
      map (\<lambda>(i, t). i @ ''-'' @ t) (filter (\<lambda>(i', t). i' \<noteq> i) ps)"
    by (induction ps) auto
  then show ?thesis
    using assms(2) unfolding setAnonymousAuthToken_def tokens_query [OF assms(1)] by (simp add: query_of_def)
qed


lemma token_after_set:
  assumes "plain_pairs ps" "plain_part i" "plain_part token"
  shows "anonymousAuthToken i' (Some (setAnonymousAuthToken i (Some (query_of ps)) token)) =
    (if i' = i then Some token else anonymousAuthToken i' (Some (query_of ps)))"
proof -
  have "plain_pairs (filter (\<lambda>(i', t). i' \<noteq> i) ps @ [(i, token)])"
    using assms by (auto simp: plain_pairs_def list_all_iff)
  moreover have "map_of (filter (\<lambda>(i', t). i' \<noteq> i) ps @ [(i, token)]) i' = (if i' = i then Some token else map_of ps i')"
    by (induction ps) auto
  ultimately show ?thesis
    using assms by (simp add: set_query token_query plain_part_def)
qed


section \<open>What the hook promises, and what it does not\<close>

text \<open>
  C27: setting the token of an occasion makes it the token of that occasion and leaves those of the
  other occasions on the page as they are.
\<close>

theorem token_kept_per_occasion:
  assumes "plain_pairs ps" "plain_part i" "plain_part token"
  shows "anonymousAuthToken i' (Some (setAnonymousAuthToken i (Some (query_of ps)) token)) =
    (if i' = i then Some token else anonymousAuthToken i' (Some (query_of ps)))"
  by (rule token_after_set [OF assms])

theorem token_kept_per_occasion_witness:
  "anonymousAuthToken ''o1'' (Some (setAnonymousAuthToken ''o2'' (Some (query_of [(''o1'', ''abc'')])) ''xyz'')) =
     anonymousAuthToken ''o1'' (Some (query_of [(''o1'', ''abc'')]))"
  using token_kept_per_occasion [of "[(''o1'', ''abc'')]" "''o2''" "''xyz''" "''o1''"]
  by (simp add: plain_pairs_def plain_part_def white_def)

text \<open>
  removing the token of an occasion removes those of the others instead, and the effect of
  the hook then adopts what is left as a new token of the occasion: the identifier, a comma and the old token.
\<close>

theorem removed_token_comes_back:
  assumes "plain_pairs ps" "distinct (map fst ps)" "(i, token) \<in> set ps" "i' \<noteq> i"
    and "query = Some (removeAnonymousAuthToken i (Some (query_of ps)))"
  shows "anonymousAuthToken i' query = None \<and>
    anonymousAuthToken i (adoptFirstToken i query) = Some (i @ '','' @ token)"
proof -
  have part: "plain_part i" "plain_part token"
    using assms(1,3) by (auto simp: plain_pairs_def list_all_iff)
  have junk: "plain_part (i @ '','' @ token)"
    using part by (auto simp: plain_part_def)
  have "filter (\<lambda>t. hd t = i) (map (\<lambda>(i, t). [i, t]) ps) = [[i, token]]"
    using assms(2,3) by (induction ps) (auto simp: filter_empty_conv image_iff)
  then have query: "query = Some (i @ '','' @ token)"
    using assms(1,5) part by (simp add: removeAnonymousAuthToken_def tokens_query plain_part_def)
  have left: "anonymousAuthTokens query = [[i @ '','' @ token]]"
    using junk split_pairs_plain [of "i @ '','' @ token" "[]"] trim_white_id [of "i @ '','' @ token"]
    by (simp add: query anonymousAuthTokens_def plain_part_def js_split_absent)
  have "adoptFirstToken i query = Some (query_of [(i, i @ '','' @ token)])"
    by (simp add: adoptFirstToken_def left query_of_def)
  moreover have "anonymousAuthToken i (Some (query_of [(i, i @ '','' @ token)])) = Some (i @ '','' @ token)"
    using part junk token_query [of "[(i, i @ '','' @ token)]" i] by (simp add: plain_pairs_def)
  ultimately show ?thesis
    by (simp add: anonymousAuthToken_def left)
qed

theorem removed_token_comes_back_witness:
  "anonymousAuthToken ''o1'' (Some (removeAnonymousAuthToken ''o2'' (Some (query_of [(''o1'', ''abc''), (''o2'', ''xyz'')]))))
     = None"
  using removed_token_comes_back [of "[(''o1'', ''abc''), (''o2'', ''xyz'')]" "''o2''" "''xyz''" "''o1''", OF _ _ _ _ refl]
  by (simp add: plain_pairs_def plain_part_def white_def)

end
