(* ===== verification/Rsvp_Manager.thy ===== *)
theory Rsvp_Manager
  imports Wire_Events Js_Sort Anonymous_Tokens
begin

text \<open>
  Answering an invitation (features/event/event_rsvp_manager.tsx): the answers to an occasion, which of them are one's
  own, the form that edits one, the request it makes, the automatic saving, and the lists and counts that are shown.
  The effects are functions of the state; when React runs them, and the rendering, are left out.
\<close>

section \<open>Own answers\<close>

text \<open>
  \<open>account\<close> is the identifier of the user signed in on the server of the event, \<open>authToken\<close> the private token of the
  address bar.
\<close>

datatype rsvp_mode = Mode_anonymous | Mode_user

definition user_of :: "Rsvp \<Rightarrow> string option" where
  "user_of a = map_option UserAttendee_userId (Rsvp_userAttendee a)"

definition token_of :: "Rsvp \<Rightarrow> string option" where
  "token_of a = Option.bind (Rsvp_anonymousAttendee a) AnonymousAttendee_authToken"

definition currentRsvp :: "string option \<Rightarrow> Rsvp list \<Rightarrow> Rsvp option" where
  "currentRsvp account rsvps = find (\<lambda>a. account \<noteq> None \<and> user_of a = account) rsvps"

definition currentAnonRsvp :: "string option \<Rightarrow> Rsvp list \<Rightarrow> Rsvp option" where
  "currentAnonRsvp authToken rsvps =
     find (\<lambda>a. authToken \<noteq> None \<and> authToken \<noteq> Some [] \<and> Rsvp_anonymousAttendee a \<noteq> None \<and> token_of a = authToken) rsvps"

text \<open>\<open>canRsvpAnonymously\<close> and \<open>showRsvpSection\<close>.\<close>

definition canRsvpAnonymously :: "Event option \<Rightarrow> bool" where
  "canRsvpAnonymously event =
     (Option.bind (Option.bind event Event_info) EventInfo_allowsAnonymousRsvps = Some True)"

definition showRsvpSection :: "Event option \<Rightarrow> bool" where
  "showRsvpSection event = (Option.bind (Option.bind event Event_info) EventInfo_allowsRsvps = Some True)"


section \<open>The state of the form\<close>

record rsvp_form =
  newRsvpMode :: "rsvp_mode option"
  rsvps :: "Rsvp list"
  rsvpStatus :: int
  anonymousRsvpName :: string
  numberOfGuests :: int
  publicNote :: string
  privateNote :: string
  showRsvpCards :: bool
  loading :: bool
  loaded :: bool
  upserting :: bool
  upsertSuccess :: bool
  deleting :: bool

text \<open>The numbers of \<open>RsvpStatus\<close>.\<close>

abbreviation "status_INTERESTED \<equiv> 0 :: int"
abbreviation "status_REQUESTED \<equiv> 1 :: int"
abbreviation "status_GOING \<equiv> 2 :: int"
abbreviation "status_NOT_GOING \<equiv> 3 :: int"
abbreviation "status_UNRECOGNIZED \<equiv> - 1 :: int"

definition initial_form :: rsvp_form where
  "initial_form =
     \<lparr>newRsvpMode = None, rsvps = [], rsvpStatus = status_INTERESTED, anonymousRsvpName = [], numberOfGuests = 1,
      publicNote = [], privateNote = [], showRsvpCards = False, loading = False, loaded = False, upserting = False,
      upsertSuccess = False, deleting = False\<rparr>"

definition editingRsvp :: "string option \<Rightarrow> string option \<Rightarrow> rsvp_form \<Rightarrow> Rsvp option" where
  "editingRsvp account authToken s =
     (case newRsvpMode s of
        Some Mode_anonymous \<Rightarrow> currentAnonRsvp authToken (rsvps s)
      | Some Mode_user \<Rightarrow> currentRsvp account (rsvps s)
      | None \<Rightarrow> None)"

text \<open>The effect that fills the form when the mode or one of the own answers changes.\<close>

definition fill_form :: "string option \<Rightarrow> string option \<Rightarrow> rsvp_form \<Rightarrow> rsvp_form" where
  "fill_form account authToken s =
     (case editingRsvp account authToken s of
        Some r \<Rightarrow>
          s\<lparr>anonymousRsvpName :=
              (if newRsvpMode s = Some Mode_anonymous
               then nullish (map_option AnonymousAttendee_name (Rsvp_anonymousAttendee r)) []
               else anonymousRsvpName s),
            numberOfGuests := Rsvp_numberOfGuests r, publicNote := Rsvp_publicNote r,
            privateNote := Rsvp_privateNote r, rsvpStatus := Rsvp_status r\<rparr>
      | None \<Rightarrow>
          s\<lparr>anonymousRsvpName := [], numberOfGuests := 1, publicNote := [], privateNote := [],
            rsvpStatus := status_UNRECOGNIZED\<rparr>)"

text \<open>
  The two effects on the mode: one chooses a mode where none is chosen, the other drops one that is not allowed.
  \<open>active\<close> is \<open>!isPreview || isModalPreview\<close>.
\<close>

definition choose_mode :: "bool \<Rightarrow> bool \<Rightarrow> bool \<Rightarrow> string option \<Rightarrow> rsvp_form \<Rightarrow> rsvp_form" where
  "choose_mode active canAnonymous canUser authToken s =
     (if active
      then (if canUser \<and> newRsvpMode s = None \<and> authToken \<noteq> Some [] then s\<lparr>newRsvpMode := Some Mode_user\<rparr>
            else if canAnonymous \<and> newRsvpMode s = None then s\<lparr>newRsvpMode := Some Mode_anonymous\<rparr> else s)
      else s)"

definition drop_mode :: "bool \<Rightarrow> bool \<Rightarrow> rsvp_form \<Rightarrow> rsvp_form" where
  "drop_mode canAnonymous canUser s =
     (if newRsvpMode s = Some Mode_anonymous \<and> \<not> canAnonymous then s\<lparr>newRsvpMode := None\<rparr>
      else if newRsvpMode s = Some Mode_user \<and> \<not> canUser then s\<lparr>newRsvpMode := None\<rparr> else s)"

text \<open>The answers the store has loaded.\<close>

definition take_loaded :: "Rsvp list option \<Rightarrow> rsvp_form \<Rightarrow> rsvp_form" where
  "take_loaded data s = s\<lparr>rsvps := nullish data []\<rparr>"

definition wants_load :: "Rsvp list option \<Rightarrow> rsvp_form \<Rightarrow> bool" where
  "wants_load data s \<longleftrightarrow> \<not> loading s \<and> \<not> loaded s \<and> data = None"


section \<open>Saving\<close>

definition hasModifiedRsvp :: "string option \<Rightarrow> string option \<Rightarrow> rsvp_form \<Rightarrow> bool" where
  "hasModifiedRsvp account authToken s \<longleftrightarrow>
     (case editingRsvp account authToken s of
        None \<Rightarrow> False
      | Some r \<Rightarrow>
          Rsvp_status r \<noteq> rsvpStatus s \<or> Rsvp_numberOfGuests r \<noteq> numberOfGuests s \<or>
          Rsvp_publicNote r \<noteq> publicNote s \<or> Rsvp_privateNote r \<noteq> privateNote s \<or>
          (newRsvpMode s = Some Mode_anonymous \<and>
           (case currentAnonRsvp authToken (rsvps s) of
              None \<Rightarrow> False
            | Some a \<Rightarrow> Some (anonymousRsvpName s) \<noteq> map_option AnonymousAttendee_name (Rsvp_anonymousAttendee a))))"

definition canRsvpWhenStatusSet :: "string option \<Rightarrow> rsvp_form \<Rightarrow> bool" where
  "canRsvpWhenStatusSet account s \<longleftrightarrow>
     (newRsvpMode s = Some Mode_user \<and> account \<noteq> None) \<or> anonymousRsvpName s \<noteq> []"

definition rsvpValid :: "string option \<Rightarrow> string option \<Rightarrow> rsvp_form \<Rightarrow> bool" where
  "rsvpValid account authToken s \<longleftrightarrow>
     canRsvpWhenStatusSet account s \<and>
     nullish (map_option Rsvp_status (editingRsvp account authToken s)) status_UNRECOGNIZED
       \<in> set [status_GOING, status_INTERESTED, status_REQUESTED, status_NOT_GOING]"

text \<open>The request, as the client completes it (\<open>Rsvp.fromPartial\<close>).\<close>

definition upsertableRsvp :: "string \<Rightarrow> string option \<Rightarrow> string option \<Rightarrow> rsvp_form \<Rightarrow> Rsvp" where
  "upsertableRsvp occasionId account authToken s =
     base_Rsvp
       \<lparr>Rsvp_occasionId := occasionId,
        Rsvp_userAttendee :=
          (if newRsvpMode s = Some Mode_user
           then Some (base_UserAttendee\<lparr>UserAttendee_userId := nullish account []\<rparr>) else None),
        Rsvp_anonymousAttendee :=
          (if newRsvpMode s = Some Mode_anonymous
           then Some (base_AnonymousAttendee
             \<lparr>AnonymousAttendee_name := anonymousRsvpName s, AnonymousAttendee_authToken := authToken\<rparr>)
           else None),
        Rsvp_status := rsvpStatus s,
        Rsvp_numberOfGuests := numberOfGuests s,
        Rsvp_privateNote := privateNote s,
        Rsvp_publicNote := publicNote s\<rparr>"

text \<open>The effect of the debounced form: the request it sends, if any.\<close>

definition auto_save :: "string \<Rightarrow> string option \<Rightarrow> string option \<Rightarrow> rsvp_form \<Rightarrow> Rsvp option" where
  "auto_save occasionId account authToken s =
     (if hasModifiedRsvp account authToken s \<and> editingRsvp account authToken s \<noteq> None \<and> rsvpValid account authToken s \<and>
         \<not> upserting s \<and> \<not> deleting s
      then Some (upsertableRsvp occasionId account authToken s) else None)"

text \<open>
  Choosing a status in the form (\<open>onValueChange\<close>): the form with the status, and the request, which is made of the form as
  it was with the new status.
\<close>

definition choose_status ::
  "string \<Rightarrow> string option \<Rightarrow> string option \<Rightarrow> int \<Rightarrow> rsvp_form \<Rightarrow> rsvp_form \<times> Rsvp option" where
  "choose_status occasionId account authToken status s =
     (if canRsvpWhenStatusSet account s \<and> \<not> upserting s \<and> \<not> deleting s
      then (s\<lparr>rsvpStatus := status, upserting := True, upsertSuccess := False\<rparr>,
            Some ((upsertableRsvp occasionId account authToken s)\<lparr>Rsvp_status := status\<rparr>))
      else (s\<lparr>rsvpStatus := status\<rparr>, None))"

definition updateRsvp :: "Rsvp \<Rightarrow> rsvp_form \<Rightarrow> rsvp_form" where
  "updateRsvp rsvp s = s\<lparr>rsvps := rsvp # filter (\<lambda>a. Rsvp_id a \<noteq> Rsvp_id rsvp) (rsvps s)\<rparr>"

text \<open>
  \<open>upsertRsvp\<close>: its start, the answer with the token it sets, and the timer of its end; \<open>deleteRsvp\<close> likewise.  What runs with
  the answer reads the answers and the mode of \<open>seen\<close>, the form as it was rendered when the request was started.
\<close>

definition upsert_starts :: "rsvp_form \<Rightarrow> rsvp_form" where
  "upsert_starts s = s\<lparr>upserting := True, upsertSuccess := False\<rparr>"

definition upsert_succeeds :: "rsvp_form \<Rightarrow> Rsvp \<Rightarrow> rsvp_form \<Rightarrow> rsvp_form \<times> string option" where
  "upsert_succeeds seen result s =
     (s\<lparr>upsertSuccess := True, rsvps := rsvps (updateRsvp result seen)\<rparr>,
      if newRsvpMode seen = Some Mode_anonymous
      then (case token_of result of Some t \<Rightarrow> if t = [] then None else Some t | None \<Rightarrow> None) else None)"

definition upsert_ends :: "rsvp_form \<Rightarrow> rsvp_form" where
  "upsert_ends s = s\<lparr>upserting := False\<rparr>"

definition delete_starts :: "rsvp_form \<Rightarrow> rsvp_form" where
  "delete_starts s = s\<lparr>deleting := True\<rparr>"

text \<open>With the answer the token goes if the answer was anonymous.\<close>

definition delete_succeeds :: "rsvp_form \<Rightarrow> Rsvp \<Rightarrow> rsvp_form \<Rightarrow> rsvp_form \<times> bool" where
  "delete_succeeds seen rsvp s =
     (s\<lparr>rsvps := filter (\<lambda>a. Rsvp_id a \<noteq> Rsvp_id rsvp) (rsvps seen), newRsvpMode := None\<rparr>,
      Rsvp_anonymousAttendee rsvp \<noteq> None)"

definition delete_ends :: "rsvp_form \<Rightarrow> rsvp_form" where
  "delete_ends s = s\<lparr>deleting := False\<rparr>"


section \<open>What is shown\<close>

text \<open>Moderation arrives as a number.\<close>

definition moderation_number :: "int \<Rightarrow> moderation" where
  "moderation_number n = moderationFromJSON (JNumber n)"

definition rsvp_passes :: "Rsvp \<Rightarrow> bool" where
  "rsvp_passes a = passes (Some (moderation_number (Rsvp_moderation a)))"

definition rsvp_pending :: "Rsvp \<Rightarrow> bool" where
  "rsvp_pending a = pending (Some (moderation_number (Rsvp_moderation a)))"

definition rsvp_rejected :: "Rsvp \<Rightarrow> bool" where
  "rsvp_rejected a = rejected (Some (moderation_number (Rsvp_moderation a)))"

definition yourRsvps :: "string option \<Rightarrow> string option \<Rightarrow> Rsvp list \<Rightarrow> Rsvp list" where
  "yourRsvps account authToken rs =
     concat (map (\<lambda>r. case r of None \<Rightarrow> [] | Some a \<Rightarrow> [a]) [currentAnonRsvp authToken rs, currentRsvp account rs])"

definition sortedStatus :: "Rsvp \<Rightarrow> int" where
  "sortedStatus rsvp = (if Rsvp_status rsvp = status_NOT_GOING then status_UNRECOGNIZED else Rsvp_status rsvp)"

definition user_rank :: "Rsvp \<Rightarrow> int" where
  "user_rank a = (if Rsvp_userAttendee a \<noteq> None then -1 else 1)"

definition sortedRsvps :: "Rsvp list \<Rightarrow> Rsvp list" where
  "sortedRsvps rs =
     js_sort (\<lambda>a b. sortedStatus b - sortedStatus a) (js_sort (\<lambda>a b. user_rank a - user_rank b) rs)"

definition nonPendingRsvps :: "Rsvp list \<Rightarrow> Rsvp list" where
  "nonPendingRsvps rs = filter rsvp_passes (sortedRsvps rs)"

definition pendingRsvps :: "Rsvp list \<Rightarrow> Rsvp list" where
  "pendingRsvps rs = filter rsvp_pending (sortedRsvps rs)"

definition rejectedRsvps :: "Rsvp list \<Rightarrow> Rsvp list" where
  "rejectedRsvps rs = filter rsvp_rejected (sortedRsvps rs)"

text \<open>The answers and the attendees with a status.\<close>

definition rsvp_counts :: "Rsvp list \<Rightarrow> int \<times> int" where
  "rsvp_counts rs = foldl (\<lambda>(n, m) a. (n + 1, m + Rsvp_numberOfGuests a)) (0, 0) rs"

definition status_counts :: "int \<Rightarrow> Rsvp list \<Rightarrow> int \<times> int" where
  "status_counts st rs = rsvp_counts (filter (\<lambda>a. Rsvp_status a = st) (nonPendingRsvps rs))"

definition others_than_yours :: "string option \<Rightarrow> string option \<Rightarrow> Rsvp list \<Rightarrow> Rsvp \<Rightarrow> bool" where
  "others_than_yours account authToken rs a \<longleftrightarrow> \<not> list_ex (\<lambda>b. Rsvp_id b = Rsvp_id a) (yourRsvps account authToken rs)"

definition displayedPendingRsvps :: "string option \<Rightarrow> string option \<Rightarrow> Rsvp list \<Rightarrow> Rsvp list" where
  "displayedPendingRsvps account authToken rs = filter (others_than_yours account authToken rs) (pendingRsvps rs)"

definition displayedRejectedRsvps :: "string option \<Rightarrow> string option \<Rightarrow> Rsvp list \<Rightarrow> Rsvp list" where
  "displayedRejectedRsvps account authToken rs = filter (others_than_yours account authToken rs) (rejectedRsvps rs)"

definition displayedOthersRsvps :: "string option \<Rightarrow> string option \<Rightarrow> Rsvp list \<Rightarrow> Rsvp list" where
  "displayedOthersRsvps account authToken rs =
     filter (others_than_yours account authToken rs)
       (filter (\<lambda>a. list_all (\<lambda>c. map_option Rsvp_id c \<noteq> Some (Rsvp_id a)) [currentRsvp account rs, currentAnonRsvp authToken rs])
         (nonPendingRsvps rs))"

definition rsvpName :: "int \<Rightarrow> bool \<Rightarrow> string" where
  "rsvpName status isPast =
     (if status = status_GOING then (if isPast then ''Went'' else ''Going'')
      else if status = status_INTERESTED then ''Interested''
      else if status = status_NOT_GOING then (if isPast then ''Didn'' @ [char_of (39 :: nat)] @ ''t Go'' else ''Not Going'')
      else if status = status_REQUESTED then ''Invited'' else ''Unknown'')"


section \<open>What the manager promises, and what it does not\<close>

text \<open>After an answer that is one's own, the answer is the one that is edited, and the form is filled with it.\<close>

lemma own_answer_first:
  "currentRsvp (Some i) (rsvps (updateRsvp r s)) = Some r" if "user_of r = Some i"
  using that by (simp add: currentRsvp_def updateRsvp_def)

lemma anonymous_answer_first:
  "currentAnonRsvp (Some t) (rsvps (updateRsvp r s)) = Some r" if "token_of r = Some t" "t \<noteq> []"
  using that by (cases "Rsvp_anonymousAttendee r") (simp_all add: currentAnonRsvp_def updateRsvp_def token_of_def)

lemma editing_unfilled [simp]: "editingRsvp account authToken (fill_form account authToken s) = editingRsvp account authToken s"
  by (simp add: editingRsvp_def fill_form_def split: option.splits rsvp_mode.splits)

lemma filled_unmodified:
  assumes "newRsvpMode s = Some Mode_anonymous \<longrightarrow>
      (\<forall>r. currentAnonRsvp authToken (rsvps s) = Some r \<longrightarrow> Rsvp_anonymousAttendee r \<noteq> None)"
  shows "\<not> hasModifiedRsvp account authToken (fill_form account authToken s)"
  using assms
  by (auto simp: hasModifiedRsvp_def editingRsvp_def fill_form_def split: option.splits rsvp_mode.splits)

lemma anonymous_found: "currentAnonRsvp authToken rs = Some r \<Longrightarrow> Rsvp_anonymousAttendee r \<noteq> None"
  by (auto simp: currentAnonRsvp_def find_Some_iff)

lemma filled_form_settled: "auto_save occasionId account authToken (fill_form account authToken s) = None"
  using filled_unmodified [of s authToken account] anonymous_found by (auto simp: auto_save_def)

text \<open>Both effects on the mode leave a mode that is allowed, and one is chosen where one is allowed.\<close>

lemma mode_allowed:
  assumes "s' = drop_mode canAnonymous canUser s"
  shows "newRsvpMode s' = Some Mode_anonymous \<Longrightarrow> canAnonymous"
    and "newRsvpMode s' = Some Mode_user \<Longrightarrow> canUser"
  using assms by (auto simp: drop_mode_def split: if_splits)

lemma mode_chosen:
  "authToken \<noteq> Some [] \<Longrightarrow> canAnonymous \<or> canUser \<Longrightarrow>
   newRsvpMode (choose_mode True canAnonymous canUser authToken (drop_mode canAnonymous canUser s)) \<noteq> None"
  by (auto simp: choose_mode_def drop_mode_def)

lemma updateRsvp_distinct:
  "distinct (map Rsvp_id (rsvps s)) \<Longrightarrow> distinct (map Rsvp_id (rsvps (updateRsvp r s)))"
  by (auto simp: updateRsvp_def distinct_map inj_on_def)

lemma counts_sum:
  "rsvp_counts rs = (int (length rs), sum_list (map Rsvp_numberOfGuests rs))"
proof -
  have "foldl (\<lambda>(n, m) a. (n + 1, m + Rsvp_numberOfGuests a)) (x, y) rs =
      (x + int (length rs), y + sum_list (map Rsvp_numberOfGuests rs))" for x y
    by (induction rs arbitrary: x y) auto
  then show ?thesis by (simp add: rsvp_counts_def)
qed

interpretation by_status: js_comparator "\<lambda>a b. sortedStatus b - sortedStatus a"
  by unfold_locales (auto simp: sgn_if)

interpretation by_kind: js_comparator "\<lambda>a b. user_rank a - user_rank b"
  by unfold_locales (auto simp: sgn_if)

lemma filter_three_mset:
  assumes "\<And>a. \<not> (P a \<and> R a)" "\<And>a. \<not> (P a \<and> S a)" "\<And>a. \<not> (R a \<and> S a)"
  shows "{#a \<in># M. Q a \<and> R a#} + {#a \<in># M. Q a \<and> P a#} + {#a \<in># M. Q a \<and> S a#} = {#a \<in># M. Q a \<and> (R a \<or> P a \<or> S a)#}"
proof (induction M)
  case (add x M)
  then show ?case using assms [of x] by auto
qed simp

lemma sorted_within_ties:
  assumes "sorted_wrt P xs" "\<And>z. sorted_wrt Q (filter (\<lambda>y. key z = key y) xs)"
  shows "sorted_wrt (\<lambda>a b. P a b \<and> (key a = key b \<longrightarrow> Q a b)) xs"
  using assms
proof (induction xs)
  case (Cons x xs)
  have "sorted_wrt Q (filter (\<lambda>y. key z = key y) xs)" for z
    using Cons.prems(2) [of z] by (simp split: if_splits)
  moreover have "\<forall>y \<in> set xs. key x = key y \<longrightarrow> Q x y"
    using Cons.prems(2) [of x] by auto
  ultimately show ?case using Cons by auto
qed simp

lemma sortedRsvps_sorted:
  "sorted_wrt (\<lambda>a b. sortedStatus b < sortedStatus a \<or> sortedStatus b = sortedStatus a \<and> user_rank a \<le> user_rank b)
     (sortedRsvps rs)"
proof -
  have same: "(sortedStatus b - sortedStatus a = 0) = (sortedStatus a = sortedStatus b)" for a b by auto
  have "sorted_wrt (\<lambda>a b. user_rank a - user_rank b \<le> 0) (filter (\<lambda>b. sortedStatus a = sortedStatus b) (sortedRsvps rs))"
    for a
    using by_status.js_sort_stable [of a "js_sort (\<lambda>a b. user_rank a - user_rank b) rs"] by_kind.js_sort_sorted [of rs]
    unfolding same by (simp add: sortedRsvps_def sorted_wrt_filter)
  then have "sorted_wrt (\<lambda>a b. sortedStatus b - sortedStatus a \<le> 0 \<and>
      (sortedStatus a = sortedStatus b \<longrightarrow> user_rank a - user_rank b \<le> 0)) (sortedRsvps rs)"
    unfolding sortedRsvps_def by (intro sorted_within_ties by_status.js_sort_sorted)
  then show ?thesis
    by (rule sorted_wrt_mono_rel [rotated]) auto
qed

lemma mset_sortedRsvps: "mset (sortedRsvps rs) = mset rs"
  by (simp add: sortedRsvps_def)

text \<open>The first filter of the list of others is implied by the second.\<close>

lemma displayedOthers_eq:
  "displayedOthersRsvps account authToken rs =
     filter (\<lambda>a. others_than_yours account authToken rs a \<and> rsvp_passes a) (sortedRsvps rs)"
  unfolding displayedOthersRsvps_def nonPendingRsvps_def filter_filter
  by (rule filter_cong) (auto simp: others_than_yours_def yourRsvps_def split: option.splits)

lemma one_verdict:
  "\<not> (rsvp_passes a \<and> rsvp_pending a)" "\<not> (rsvp_passes a \<and> rsvp_rejected a)" "\<not> (rsvp_pending a \<and> rsvp_rejected a)"
  using moderation_verdicts_disjoint by (auto simp: rsvp_passes_def rsvp_pending_def rsvp_rejected_def)

text \<open>
  C14: once the first anonymous answer is saved, the token that comes with it is put into the
  address, by which the answer is found as the one that is edited; the form is filled with it and nothing is left to save.
\<close>

theorem anonymous_answer_found_again:
  assumes "newRsvpMode seen = Some Mode_anonymous" "newRsvpMode s = Some Mode_anonymous" "token_of r = Some t"
    and "plain_pairs ps" "plain_part occasionId" "plain_part t"
  shows "let (s', written) = upsert_succeeds seen r s;
             query = Some (setAnonymousAuthToken occasionId (Some (query_of ps)) (nullish written []));
             found = anonymousAuthToken occasionId query;
             s'' = fill_form account found s'
         in editingRsvp account found s'' = Some r \<and> rsvpStatus s'' = Rsvp_status r \<and>
            publicNote s'' = Rsvp_publicNote r \<and> auto_save occasionId account found s'' = None"
proof -
  define s1 where "s1 = s\<lparr>upsertSuccess := True, rsvps := rsvps (updateRsvp r seen)\<rparr>"
  have t: "t \<noteq> []" using assms(6) by (simp add: plain_part_def)
  have found: "anonymousAuthToken occasionId (Some (setAnonymousAuthToken occasionId (Some (query_of ps)) t)) = Some t"
    using token_after_set [OF assms(4-6), of occasionId] by simp
  have editing: "editingRsvp account (Some t) s1 = Some r"
    using anonymous_answer_first [OF assms(3) t] assms(2) by (simp add: editingRsvp_def s1_def)
  then have "rsvpStatus (fill_form account (Some t) s1) = Rsvp_status r"
    "publicNote (fill_form account (Some t) s1) = Rsvp_publicNote r"
    by (simp_all add: fill_form_def)
  moreover have "upsert_succeeds seen r s = (s1, Some t)"
    using assms(1,3) t by (simp add: upsert_succeeds_def s1_def)
  ultimately show ?thesis
    using editing by (simp add: found filled_form_settled)
qed

definition sample_anonymous_answer :: Rsvp where
  "sample_anonymous_answer =
     base_Rsvp\<lparr>Rsvp_id := ''r1'', Rsvp_status := status_GOING,
       Rsvp_anonymousAttendee := Some (base_AnonymousAttendee\<lparr>AnonymousAttendee_authToken := Some ''xyz''\<rparr>)\<rparr>"

theorem anonymous_answer_found_again_witness:
  "let seen = initial_form\<lparr>newRsvpMode := Some Mode_anonymous\<rparr>;
       (s', written) = upsert_succeeds seen sample_anonymous_answer seen;
       found = anonymousAuthToken ''o1'' (Some (setAnonymousAuthToken ''o1'' (Some (query_of [])) (nullish written [])))
   in editingRsvp None found (fill_form None found s') = Some sample_anonymous_answer"
  using anonymous_answer_found_again [of "initial_form\<lparr>newRsvpMode := Some Mode_anonymous\<rparr>"
      "initial_form\<lparr>newRsvpMode := Some Mode_anonymous\<rparr>" sample_anonymous_answer "''xyz''" "[]" "''o1''" None]
  by (simp add: sample_anonymous_answer_def token_of_def plain_pairs_def plain_part_def white_def Let_def split: prod.splits)

text \<open>
  whatever is typed into the public note while an answer is being saved, the answer of the server
  overwrites it, and it is not saved later: nothing of the form differs from the answer any more.
\<close>

theorem edits_during_save_lost:
  assumes "newRsvpMode s = Some Mode_user" "user_of r = Some i"
  shows "let s' = fill_form (Some i) authToken (fst (upsert_succeeds seen r (s\<lparr>publicNote := typed\<rparr>)))
         in publicNote s' = Rsvp_publicNote r \<and> auto_save occasionId (Some i) authToken (upsert_ends s') = None"
proof -
  define s1 where "s1 = fst (upsert_succeeds seen r (s\<lparr>publicNote := typed\<rparr>))"
  have "editingRsvp (Some i) authToken s1 = Some r"
    using assms own_answer_first [of r i] by (simp add: editingRsvp_def s1_def upsert_succeeds_def)
  then have "publicNote (fill_form (Some i) authToken s1) = Rsvp_publicNote r"
    by (simp add: fill_form_def)
  moreover have "upsert_ends (fill_form (Some i) authToken s1) = fill_form (Some i) authToken (upsert_ends s1)"
    by (simp add: upsert_ends_def fill_form_def editingRsvp_def split: option.split rsvp_mode.split)
  ultimately show ?thesis
    by (simp flip: s1_def add: filled_form_settled)
qed

theorem edits_during_save_lost_witness:
  "publicNote (fill_form (Some ''u1'') None (fst (upsert_succeeds (initial_form\<lparr>newRsvpMode := Some Mode_user\<rparr>)
     (base_Rsvp\<lparr>Rsvp_userAttendee := Some (base_UserAttendee\<lparr>UserAttendee_userId := ''u1''\<rparr>), Rsvp_publicNote := ''hello''\<rparr>)
     (initial_form\<lparr>newRsvpMode := Some Mode_user, publicNote := ''hello, and thanks''\<rparr>)))) = ''hello''"
  using edits_during_save_lost [of "initial_form\<lparr>newRsvpMode := Some Mode_user\<rparr>"
      "base_Rsvp\<lparr>Rsvp_userAttendee := Some (base_UserAttendee\<lparr>UserAttendee_userId := ''u1''\<rparr>), Rsvp_publicNote := ''hello''\<rparr>"
      "''u1''" None "initial_form\<lparr>newRsvpMode := Some Mode_user\<rparr>" "''hello, and thanks''"]
  by (simp add: user_of_def Let_def)

text \<open>
  C25: the lists below one's own answers -- pending, others and rejected -- show every other answer with
  one of these verdicts exactly once, and the answers of the others come by status, those of users first within a status.
\<close>

theorem answers_listed_once:
  "mset (displayedPendingRsvps account authToken rs @ displayedOthersRsvps account authToken rs @
       displayedRejectedRsvps account authToken rs) =
     {#a \<in># mset rs. others_than_yours account authToken rs a \<and> (rsvp_pending a \<or> rsvp_passes a \<or> rsvp_rejected a)#} \<and>
   sorted_wrt (\<lambda>a b. sortedStatus b < sortedStatus a \<or> sortedStatus b = sortedStatus a \<and> user_rank a \<le> user_rank b)
     (displayedOthersRsvps account authToken rs)"
proof
  let ?own = "others_than_yours account authToken rs"
  have "mset (displayedPendingRsvps account authToken rs @ displayedOthersRsvps account authToken rs @
      displayedRejectedRsvps account authToken rs) =
    {#a \<in># mset rs. ?own a \<and> rsvp_pending a#} + {#a \<in># mset rs. ?own a \<and> rsvp_passes a#} +
    {#a \<in># mset rs. ?own a \<and> rsvp_rejected a#}"
    by (simp add: displayedOthers_eq displayedPendingRsvps_def displayedRejectedRsvps_def pendingRsvps_def
        rejectedRsvps_def mset_sortedRsvps filter_filter_mset conj_commute)
  also have "\<dots> = {#a \<in># mset rs. ?own a \<and> (rsvp_pending a \<or> rsvp_passes a \<or> rsvp_rejected a)#}"
    by (rule filter_three_mset) (rule one_verdict)+
  finally show "mset (displayedPendingRsvps account authToken rs @ displayedOthersRsvps account authToken rs @
      displayedRejectedRsvps account authToken rs) =
    {#a \<in># mset rs. ?own a \<and> (rsvp_pending a \<or> rsvp_passes a \<or> rsvp_rejected a)#}" .
qed (simp add: displayedOthers_eq sortedRsvps_sorted sorted_wrt_filter)

end
