(* ===== verification/Create_Sheet.thy ===== *)
theory Create_Sheet
  imports Wire_Posts Utils
begin

text \<open>
  The sheet a post or an event is written in (features/post/base_create_post_sheet.tsx, create_post_sheet.tsx,
  features/event/create_event_sheet.tsx) and the picker of a visibility (components/visibility_picker.tsx): its fields and
  the effects that keep them together, the request it makes, and the times of an event.  Enumerations of the form are the
  datatypes of Api_Enums; the media are the references of the protocol.  What is drawn is left out.
\<close>

section \<open>The picker of a visibility\<close>

text \<open>
  A property that is \<open>undefined\<close> takes its default, \<open>true\<close>.  The visibility that is set is always offered.
\<close>

definition offered_visibilities :: "bool option \<Rightarrow> bool option \<Rightarrow> visibility \<Rightarrow> visibility list" where
  "offered_visibilities canPublishLocally canPublishGlobally visibility =
     filter (\<lambda>item. item = visibility \<or>
         \<not> (item = Visibility_SERVER_PUBLIC \<and> \<not> nullish canPublishLocally True) \<and>
         \<not> (item = Visibility_GLOBAL_PUBLIC \<and> \<not> nullish canPublishGlobally True))
       [Visibility_PRIVATE, Visibility_LIMITED, Visibility_SERVER_PUBLIC, Visibility_GLOBAL_PUBLIC]"

definition visibilityName :: "visibility \<Rightarrow> string" where
  "visibilityName visibility =
     (case visibility of
        Visibility_PRIVATE \<Rightarrow> ''Private''
      | Visibility_LIMITED \<Rightarrow> ''Limited''
      | Visibility_SERVER_PUBLIC \<Rightarrow> ''Server Public''
      | Visibility_GLOBAL_PUBLIC \<Rightarrow> ''Global Public''
      | _ \<Rightarrow> ''Unknown'')"

definition defaultVisibilityDescription :: "visibility \<Rightarrow> string option" where
  "defaultVisibilityDescription v =
     (case v of
        Visibility_GLOBAL_PUBLIC \<Rightarrow> Some ''Visible to anyone on the internet.''
      | Visibility_SERVER_PUBLIC \<Rightarrow> Some ''Visible to anyone on this server.''
      | Visibility_LIMITED \<Rightarrow> Some ''Visible only to specific users or groups.''
      | Visibility_PRIVATE \<Rightarrow> Some ''Visible only to you.''
      | _ \<Rightarrow> None)"

lemma offered_named: "v \<in> set (offered_visibilities l g v') \<Longrightarrow> v \<noteq> v' \<Longrightarrow> visibilityName v \<noteq> ''Unknown''"
  by (auto simp: offered_visibilities_def visibilityName_def split: if_splits)



section \<open>The sheet\<close>

datatype render_type = RenderType_Edit | RenderType_FullPreview | RenderType_ShortPreview

record create_sheet =
  cs_open :: bool
  cs_renderType :: render_type
  cs_showSettings :: bool
  cs_showMedia :: bool
  cs_group :: "string option"  \<comment> \<open>the identifier of the group that is chosen\<close>
  cs_visibility :: visibility
  cs_shareable :: bool
  cs_title :: string
  cs_link :: string
  cs_content :: string
  cs_media :: "MediaReference list"
  cs_posting :: bool
  cs_postingError :: "string option"

definition defaultVisibility :: "bool option \<Rightarrow> bool option \<Rightarrow> visibility" where
  "defaultVisibility canPublishLocally canPublishGlobally =
     (if canPublishGlobally = Some True then Visibility_GLOBAL_PUBLIC
      else if canPublishLocally = Some True then Visibility_SERVER_PUBLIC else Visibility_LIMITED)"

definition new_sheet :: "bool option \<Rightarrow> bool option \<Rightarrow> string option \<Rightarrow> create_sheet" where
  "new_sheet canPublishLocally canPublishGlobally selectedGroup =
     \<lparr>cs_open = False, cs_renderType = RenderType_Edit, cs_showSettings = True, cs_showMedia = False,
      cs_group = selectedGroup, cs_visibility = defaultVisibility canPublishLocally canPublishGlobally,
      cs_shareable = (selectedGroup = None), cs_title = [], cs_link = [], cs_content = [], cs_media = [],
      cs_posting = False, cs_postingError = None\<rparr>"

definition setShowSettings :: "bool \<Rightarrow> create_sheet \<Rightarrow> create_sheet" where
  "setShowSettings v s = (if v then s\<lparr>cs_showSettings := v, cs_showMedia := False\<rparr> else s\<lparr>cs_showSettings := v\<rparr>)"

definition setShowMedia :: "bool \<Rightarrow> create_sheet \<Rightarrow> create_sheet" where
  "setShowMedia v s = (if v then s\<lparr>cs_showMedia := v, cs_showSettings := False\<rparr> else s\<lparr>cs_showMedia := v\<rparr>)"

text \<open>A post that becomes private or stops being public stops being shareable; one that becomes public gets it.\<close>

definition sheet_setVisibility :: "visibility \<Rightarrow> create_sheet \<Rightarrow> create_sheet" where
  "sheet_setVisibility v s =
     (let currentlyPublic = publicVisibility (Some (cs_visibility s));
          willBePublic = publicVisibility (Some v);
          willBePrivate = (v = Visibility_PRIVATE);
          s1 = (if cs_shareable s
                then (if willBePrivate \<or> (currentlyPublic \<and> \<not> willBePublic) then s\<lparr>cs_shareable := False\<rparr> else s)
                else if \<not> currentlyPublic \<and> willBePublic then s\<lparr>cs_shareable := True\<rparr> else s)
      in s1\<lparr>cs_visibility := v\<rparr>)"

text \<open>The switch of the sheet, disabled while a post is private.\<close>

definition toggle_shareable :: "bool \<Rightarrow> create_sheet \<Rightarrow> create_sheet" where
  "toggle_shareable v s = (if cs_posting s \<or> cs_visibility s = Visibility_PRIVATE then s else s\<lparr>cs_shareable := v\<rparr>)"

definition choose_group :: "string \<Rightarrow> create_sheet \<Rightarrow> create_sheet" where
  "choose_group g s = s\<lparr>cs_group := (if cs_group s = Some g then None else Some g)\<rparr>"

text \<open>The effect on the link.\<close>

definition link_effect :: "string \<Rightarrow> string" where
  "link_effect link =
     (if link \<noteq> [] \<and> take 4 link \<noteq> ''http'' then ''https://'' @ link
      else if link = ''https://'' \<or> link = ''http://'' then [] else link)"

text \<open>
  \<open>resetPost\<close> sets the visibility through \<open>setVisibility\<close>, and the switch after it.
\<close>

definition resetPost :: "bool option \<Rightarrow> bool option \<Rightarrow> string option \<Rightarrow> create_sheet \<Rightarrow> create_sheet" where
  "resetPost canPublishLocally canPublishGlobally selectedGroup s =
     (sheet_setVisibility (defaultVisibility canPublishLocally canPublishGlobally)
        (s\<lparr>cs_open := False, cs_group := selectedGroup\<rparr>))
       \<lparr>cs_shareable := (selectedGroup = None), cs_title := [], cs_link := [], cs_content := [], cs_media := [],
        cs_renderType := RenderType_Edit, cs_posting := False\<rparr>"


section \<open>Creating\<close>

text \<open>
  \<open>account\<close> holds the permissions of the account that is used, \<open>invalid\<close> what the form around the sheet says.
\<close>

definition canCreate :: "permission list option \<Rightarrow> permission list option \<Rightarrow> bool" where
  "canCreate requiredPermissions account \<longleftrightarrow>
     (case requiredPermissions of
        None \<Rightarrow> True
      | Some req \<Rightarrow> (case account of None \<Rightarrow> False | Some has \<Rightarrow> \<not> list_ex (\<lambda>p. p \<notin> set has) req))"

definition disableCreate ::
  "permission list option \<Rightarrow> permission list option \<Rightarrow> bool \<Rightarrow> create_sheet \<Rightarrow> bool" where
  "disableCreate requiredPermissions account invalid s \<longleftrightarrow>
     cs_posting s \<or> \<not> (length (cs_title s) > 0 \<and> \<not> invalid) \<or> \<not> canCreate requiredPermissions account"

text \<open>
  The post the sheet shows and sends; \<open>author\<close> is the account's user.
\<close>

definition previewPost :: "Author option \<Rightarrow> create_sheet \<Rightarrow> Post" where
  "previewPost author s =
     Post_upd (\<lambda>f. f\<lparr>Post_title := Some (cs_title s), Post_link := Some (cs_link s), Post_content := Some (cs_content s),
         Post_shareable := cs_shareable s, Post_media := cs_media s,
         Post_visibility := enum_number visibility_table (cs_visibility s), Post_author := author\<rparr>)
       base_Post"

text \<open>
  Pressing the button: the post and the group that \<open>doCreate\<close> gets.  Nothing of the sheet changes: \<open>setPosting\<close> is only
  ever called with \<open>false\<close>.
\<close>

definition create_pressed ::
  "permission list option \<Rightarrow> permission list option \<Rightarrow> bool \<Rightarrow> Author option \<Rightarrow> create_sheet \<Rightarrow>
     create_sheet \<times> (Post \<times> string option) option"
where
  "create_pressed requiredPermissions account invalid author s =
     (if disableCreate requiredPermissions account invalid s then (s, None)
      else (s, Some (previewPost author s, cs_group s)))"

text \<open>
  The answer to the request: an error, or the identifier of what has been created.  With a group it is shared to it by a
  second request, after whose answer, whatever it is, the sheet is reset.
\<close>

definition doCreate_answered ::
  "bool option \<Rightarrow> bool option \<Rightarrow> string option \<Rightarrow> string option \<Rightarrow> string + string \<Rightarrow> create_sheet \<Rightarrow>
     create_sheet \<times> (string \<times> string) option"
where
  "doCreate_answered canPublishLocally canPublishGlobally selectedGroup sentGroup answer s =
     (case answer of
        Inl e \<Rightarrow> (s\<lparr>cs_postingError := Some e\<rparr>, None)
      | Inr postId \<Rightarrow>
          (case sentGroup of
             None \<Rightarrow> (resetPost canPublishLocally canPublishGlobally selectedGroup s, None)
           | Some g \<Rightarrow> (s\<lparr>cs_posting := False\<rparr>, Some (g, postId))))"


section \<open>The account and the visibility\<close>

text \<open>What \<open>create_post_sheet.tsx\<close> computes of the account.\<close>

definition publish_locally :: "permission list option \<Rightarrow> bool option" where
  "publish_locally account = map_option (\<lambda>has. Permission_PUBLISH_POSTS_LOCALLY \<in> set has) account"

definition publish_globally :: "permission list option \<Rightarrow> bool option" where
  "publish_globally account = map_option (\<lambda>has. Permission_PUBLISH_POSTS_GLOBALLY \<in> set has) account"

text \<open>
  What a user does with the sheet.  It contains the selectors of the server and of the account that is used, so the account
  changes while the sheet keeps its fields.  An answer comes back to the account that was used when the button was pressed.
\<close>

datatype sheet_action =
    Pick_visibility visibility
  | Toggle_shareable bool
  | Choose_group string
  | Edit_text "string \<Rightarrow> string" "string \<Rightarrow> string" "string \<Rightarrow> string"  \<comment> \<open>title, link and content\<close>
  | Choose_media "MediaReference list"
  | Show_settings bool
  | Show_media bool
  | Choose_account "permission list option"
  | Created "permission list option" "string option" "string + string"
  | Shared "permission list option"  \<comment> \<open>the answer to the second request\<close>

type_synonym sheet_world = "permission list option \<times> create_sheet"

fun sheet_step :: "string option \<Rightarrow> sheet_world \<Rightarrow> sheet_action \<Rightarrow> sheet_world" where
  "sheet_step selectedGroup (account, s) (Pick_visibility v) =
     (account,
      if v \<in> set (offered_visibilities (publish_locally account) (publish_globally account) (cs_visibility s))
      then sheet_setVisibility v s else s)"
| "sheet_step selectedGroup (account, s) (Toggle_shareable v) = (account, toggle_shareable v s)"
| "sheet_step selectedGroup (account, s) (Choose_group g) = (account, choose_group g s)"
| "sheet_step selectedGroup (account, s) (Edit_text f g h) =
     (account, s\<lparr>cs_title := f (cs_title s), cs_link := link_effect (g (cs_link s)), cs_content := h (cs_content s)\<rparr>)"
| "sheet_step selectedGroup (account, s) (Choose_media ms) = (account, s\<lparr>cs_media := ms\<rparr>)"
| "sheet_step selectedGroup (account, s) (Show_settings v) = (account, setShowSettings v s)"
| "sheet_step selectedGroup (account, s) (Show_media v) = (account, setShowMedia v s)"
| "sheet_step selectedGroup (account, s) (Choose_account a) = (a, s)"
| "sheet_step selectedGroup (account, s) (Created a sentGroup answer) =
     (account, fst (doCreate_answered (publish_locally a) (publish_globally a) selectedGroup sentGroup answer s))"
| "sheet_step selectedGroup (account, s) (Shared a) =
     (account, resetPost (publish_locally a) (publish_globally a) selectedGroup s)"

definition sheet_run :: "permission list option \<Rightarrow> string option \<Rightarrow> sheet_action list \<Rightarrow> sheet_world" where
  "sheet_run account selectedGroup steps =
     foldl (sheet_step selectedGroup)
       (account, new_sheet (publish_locally account) (publish_globally account) selectedGroup) steps"




named_theorems sheet_simps

lemmas [sheet_simps] = sheet_setVisibility_def toggle_shareable_def choose_group_def setShowSettings_def setShowMedia_def
  resetPost_def doCreate_answered_def new_sheet_def











section \<open>The times of an event\<close>

text \<open>
  \<open>parse\<close> is \<open>moment\<close> on a local time, in milliseconds, \<open>print\<close> is \<open>supportDateInput\<close>; \<open>store\<close> is what the field keeps of an
  input: the sheet keeps it, the editor of an event makes it an ISO time (\<open>toProtoISOString\<close>).  A duration is in minutes,
  truncated, and absent for \<open>NaN\<close>.
\<close>

record event_times =
  et_startsAt :: string
  et_endsAt :: string
  et_duration :: "int option"

definition diff_minutes :: "int \<Rightarrow> int \<Rightarrow> int" where
  "diff_minutes e s = sgn (e - s) * (\<bar>e - s\<bar> div 60000)"

definition times_set_end :: "(string \<Rightarrow> int option) \<Rightarrow> (string \<Rightarrow> string) \<Rightarrow> string \<Rightarrow> event_times \<Rightarrow> event_times" where
  "times_set_end parse store v t =
     (let t1 = t\<lparr>et_endsAt := store v\<rparr>
      in if et_endsAt t1 = et_endsAt t then t
         else if et_startsAt t1 \<noteq> [] \<and> et_endsAt t1 \<noteq> []
         then t1\<lparr>et_duration :=
           (case (parse (et_startsAt t1), parse (et_endsAt t1)) of
              (Some s, Some e) \<Rightarrow> Some (diff_minutes e s) | _ \<Rightarrow> None)\<rparr>
         else t1)"

text \<open>The effect of the start sets the end, whose effect then sets the duration.\<close>

definition times_set_start ::
  "(string \<Rightarrow> int option) \<Rightarrow> (int option \<Rightarrow> string) \<Rightarrow> (string \<Rightarrow> string) \<Rightarrow> string \<Rightarrow> event_times \<Rightarrow> event_times" where
  "times_set_start parse print store v t =
     (let t1 = t\<lparr>et_startsAt := store v\<rparr>
      in if et_startsAt t1 = et_startsAt t then t
         else (case et_duration t1 of
             None \<Rightarrow> t1
           | Some d \<Rightarrow>
               if et_startsAt t1 = [] \<or> d = 0 then t1
               else times_set_end parse store (print (map_option (\<lambda>s. s + d * 60000) (parse (et_startsAt t1)))) t1))"

definition endDateInvalid :: "(string \<Rightarrow> int option) \<Rightarrow> event_times \<Rightarrow> bool" where
  "endDateInvalid parse t \<longleftrightarrow> \<not> isAfter (parse (et_endsAt t)) (parse (et_startsAt t))"


section \<open>What the sheet promises\<close>



text \<open>
  a post that is written for an account that may publish it to everybody is sent to everybody
  by one that may not, when the account is changed before the button is pressed: the visibility stays.
\<close>

theorem switched_account_publishes:
  assumes "Permission_PUBLISH_POSTS_GLOBALLY \<in> set may" "set required \<subseteq> set maynot" "title \<noteq> []"
    and "sheet_run (Some may) None [Edit_text (\<lambda>_. title) id id, Choose_account (Some maynot)] = (account, sheet)"
  shows "\<exists>post. create_pressed (Some required) account False author sheet = (sheet, Some (post, None)) \<and>
    Post_visibility (Post_own post) = 4"
proof -
  have "account = Some maynot" "cs_visibility sheet = Visibility_GLOBAL_PUBLIC" "cs_title sheet = title"
    "\<not> cs_posting sheet" "cs_group sheet = None"
    using assms(1,4)
    by (auto simp: sheet_run_def new_sheet_def defaultVisibility_def publish_globally_def link_effect_def)
  moreover have "enum_number visibility_table Visibility_GLOBAL_PUBLIC = 4"
    by (simp add: enum_number_def visibility_table_def)
  ultimately show ?thesis
    using assms(2,3)
    by (auto simp: create_pressed_def disableCreate_def canCreate_def previewPost_def Post_upd_def base_Post_def list_ex_iff)
qed

theorem switched_account_publishes_witness:
  "\<exists>post. create_pressed (Some [Permission_CREATE_POSTS]) (Some [Permission_CREATE_POSTS]) False None
     (snd (sheet_run (Some [Permission_CREATE_POSTS, Permission_PUBLISH_POSTS_GLOBALLY]) None
       [Edit_text (\<lambda>_. ''Hi'') id id, Choose_account (Some [Permission_CREATE_POSTS])])) =
     (snd (sheet_run (Some [Permission_CREATE_POSTS, Permission_PUBLISH_POSTS_GLOBALLY]) None
       [Edit_text (\<lambda>_. ''Hi'') id id, Choose_account (Some [Permission_CREATE_POSTS])]), Some (post, None))"
proof -
  obtain sheet where run: "sheet_run (Some [Permission_CREATE_POSTS, Permission_PUBLISH_POSTS_GLOBALLY]) None
       [Edit_text (\<lambda>_. ''Hi'') id id, Choose_account (Some [Permission_CREATE_POSTS])] = (Some [Permission_CREATE_POSTS], sheet)"
    by (simp add: sheet_run_def)
  from switched_account_publishes [OF _ _ _ run, of "[Permission_CREATE_POSTS]" None] show ?thesis
    by (auto simp: run)
qed

text \<open>
  nothing locks the sheet while a post is being created: a second press of the button before
  the answer sends the same post once more.
\<close>

theorem second_press_sends_again:
  assumes "create_pressed required account invalid author s = (s', Some r)"
  shows "create_pressed required account invalid author s' = (s', Some r)"
  using assms by (auto simp: create_pressed_def split: if_splits)

theorem second_press_sends_again_witness:
  "snd (create_pressed None None False None ((new_sheet None None None)\<lparr>cs_title := ''Hi''\<rparr>)) \<noteq> None"
proof -
  let ?s = "(new_sheet None None None)\<lparr>cs_title := ''Hi''\<rparr>"
  have "create_pressed None None False None ?s = (?s, Some (previewPost None ?s, None))"
    by (simp add: create_pressed_def disableCreate_def canCreate_def new_sheet_def)
  from second_press_sends_again [OF this] show ?thesis by simp
qed

text \<open>
  C26: When an event has a start and an end and the duration held is the one between them, moving the start
  moves the end by as much, so that the end is invalid afterwards just if it was before, unless the two are the same: then
  the end stays.  All times are whole minutes, and the new end is one whose local notation is read back, which is not so for
  an hour that the clocks skip or repeat.
\<close>

theorem start_moves_end:
  assumes "parse (et_startsAt t) = Some s" "parse (et_endsAt t) = Some e" "et_duration t = Some (diff_minutes e s)"
    and "parse (store v) = Some i" "store v \<noteq> []" "store v \<noteq> et_startsAt t"
    and "s mod 60000 = 0" "e mod 60000 = 0" "i mod 60000 = 0"
    and "parse (store (print (Some (e + (i - s))))) = Some (e + (i - s))" "store (print (Some (e + (i - s)))) \<noteq> []"
  shows "let t' = times_set_start parse print store v t
    in parse (et_startsAt t') = Some i \<and>
       (if e = s then et_endsAt t' = et_endsAt t
        else parse (et_endsAt t') = Some (e + (i - s)) \<and> et_duration t' = Some (diff_minutes e s) \<and>
             endDateInvalid parse t' = endDateInvalid parse t)"
proof -
  define d where "d = diff_minutes e s"
  have whole: "d * 60000 = e - s"
  proof -
    have "60000 dvd e - s" using assms(7,8) by (simp add: dvd_eq_mod_eq_0 [symmetric])
    then obtain m where m: "e - s = m * 60000" by (metis dvd_def mult.commute)
    have "\<bar>m * 60000\<bar> div 60000 = \<bar>m\<bar>" by (simp add: abs_mult)
    then have "d = m" unfolding d_def diff_minutes_def m by (simp add: sgn_mult mult_sgn_abs)
    then show ?thesis by (simp add: m)
  qed
  have again: "diff_minutes (e + (i - s)) i = d" by (simp add: d_def diff_minutes_def)
  have zero: "d = 0 \<longleftrightarrow> e = s" using whole by auto
  have moved: "i + d * 60000 = e + (i - s)" using whole by simp
  show ?thesis
    using assms(1-6,10,11) again zero
    by (auto simp: times_set_start_def times_set_end_def Let_def endDateInvalid_def isAfter_def moved d_def [symmetric])
qed

text \<open>A notation of minutes that can be read back, for the witness: strokes, an odd number of them from 0 on.\<close>

definition stroke_print :: "int option \<Rightarrow> string" where
  "stroke_print v =
     (case v of
        None \<Rightarrow> ''Invalid date''
      | Some i \<Rightarrow>
          let m = i div 60000
          in if m \<ge> 0 then replicate (2 * nat m + 1) (CHR ''x'') else replicate (2 * nat (- m)) (CHR ''x''))"

definition stroke_parse :: "string \<Rightarrow> int option" where
  "stroke_parse s =
     (if odd (length s) then Some (60000 * int (length s div 2)) else Some (- 60000 * int (length s div 2)))"

lemma stroke_read: "i mod 60000 = 0 \<Longrightarrow> stroke_parse (stroke_print (Some i)) = Some i \<and> stroke_print (Some i) \<noteq> []"
  by (auto simp: stroke_print_def stroke_parse_def Let_def div_mult_mod_eq split: if_splits)

theorem start_moves_end_witness:
  "let t' = times_set_start stroke_parse stroke_print id (stroke_print (Some 120000))
       \<lparr>et_startsAt = stroke_print (Some 0), et_endsAt = stroke_print (Some 3600000), et_duration = Some 60\<rparr>
   in stroke_parse (et_endsAt t') = Some 3720000"
proof -
  let ?t = "\<lparr>et_startsAt = stroke_print (Some 0), et_endsAt = stroke_print (Some 3600000), et_duration = Some 60\<rparr>"
  have read: "stroke_parse (id (stroke_print (Some 120000))) = Some 120000" "id (stroke_print (Some 120000)) \<noteq> []"
    "stroke_parse (stroke_print (Some 0)) = Some 0" "stroke_parse (stroke_print (Some 3600000)) = Some 3600000"
    "stroke_parse (stroke_print (Some 3720000)) = Some 3720000" "stroke_print (Some 3720000) \<noteq> []"
    using stroke_read [of 120000] stroke_read [of 0] stroke_read [of 3600000] stroke_read [of 3720000] by simp_all
  then have "id (stroke_print (Some 120000)) \<noteq> et_startsAt ?t"
    by (metis event_times.select_convs(1) id_apply option.inject zero_neq_numeral)
  with start_moves_end [of stroke_parse ?t 0 3600000 id "stroke_print (Some 120000)" 120000 stroke_print] read
  show ?thesis by (simp add: Let_def diff_minutes_def)
qed

end
