(* ===== verification/Event_Editor.thy ===== *)
theory Event_Editor
  imports Create_Sheet Paging_Hooks Anonymous_Tokens
begin

text \<open>
  Editing an event on its card (features/event/event_card.tsx): the occasions that are edited, the one that is open, the
  effects that run after a change, repeating an occasion weekly, and saving.  Parameters are \<open>moment\<close> on a string
  (\<open>parse\<close>), \<open>supportDateInput\<close> (\<open>print\<close>), \<open>toProtoISOString\<close> (\<open>store\<close>), adding weeks to a time (\<open>add_weeks\<close>), the sharing
  flag inside the text that stands for the rest of a post (\<open>with_shareable\<close>), and the place the card shows (\<open>location\<close>, the
  text of the fields of a new occasion at that place, and \<open>address\<close> in it).  A function of the component that changes the
  state is an operation here, and \<open>settle\<close> is what React runs after it, and when the card is mounted.
\<close>

section \<open>State\<close>

text \<open>An occasion on the card; one that has been added has no post until an effect gives it one.\<close>

record edited_occasion =
  eo_id :: string
  eo_post :: "post option"
  eo_startsAt :: "string option"
  eo_endsAt :: "string option"
  eo_rest :: string

definition edited_of :: "ident_occasion \<Rightarrow> edited_occasion" where
  "edited_of i = \<lparr>eo_id = io_id i, eo_post = Some (io_post i), eo_startsAt = io_startsAt i, eo_endsAt = io_endsAt i,
     eo_rest = io_rest i\<rparr>"

text \<open>
  \<open>ed_stamped\<close>, \<open>ed_seenStart\<close>, \<open>ed_seenEnd\<close> and \<open>ed_memo\<close> are the values the effects and the memo ran with last; none before
  the first render.  \<open>ed_newEventId\<close> is the counter of the module, which the cards of a page share.  The callbacks
  of the component are created with the state of a render and keep it until one of their dependencies changes:
  \<open>ed_removeSees\<close> is the open occasion \<open>removeOccasion\<close> was created with (when the occasions change, \<open>ed_changed\<close>),
  \<open>ed_setterSees\<close> the occasions \<open>setStartTime\<close> and \<open>setEndTime\<close> were created with (when the open occasion changes,
  \<open>ed_opened\<close>), \<open>ed_placeSees\<close> the open occasion and the occasions \<open>setCurrentOccasionLocation\<close> was created with (when the
  identifier of the open occasion changes).
\<close>

record event_editor =
  ed_occasions :: "edited_occasion list option"
  ed_editingOccasion :: "edited_occasion option"
  ed_visibility :: visibility
  ed_shareable :: bool
  ed_duration :: "int option"
  ed_repeatWeeks :: nat
  ed_repeated :: "edited_occasion list"
  ed_newEventId :: nat
  ed_editing :: bool
  ed_previewingEdits :: bool
  ed_savingEdits :: bool
  ed_stamped :: "(string option \<times> visibility \<times> bool) option"
  ed_seenStart :: "string option"
  ed_seenEnd :: "string option"
  ed_memo :: "(nat \<times> string option \<times> string option \<times> string option) option"
  ed_changed :: bool
  ed_removeSees :: "string option"
  ed_opened :: bool
  ed_setterSees :: "edited_occasion list option"
  ed_placeSees :: "edited_occasion option \<times> edited_occasion list option"

definition occasion_ids :: "event_editor \<Rightarrow> string option" where
  "occasion_ids ed = map_option (\<lambda>os. join_with '','' (map eo_id os)) (ed_occasions ed)"

text \<open>The state of a card when it is mounted, before its first effects.\<close>

definition open_editor :: "nat \<Rightarrow> visibility \<Rightarrow> bool \<Rightarrow> ident_occasion list \<Rightarrow> event_editor" where
  "open_editor counter visibility shareable occasions =
     \<lparr>ed_occasions = Some (map edited_of occasions), ed_editingOccasion = None, ed_visibility = visibility,
      ed_shareable = shareable, ed_duration = Some 0, ed_repeatWeeks = 1, ed_repeated = [], ed_newEventId = counter,
      ed_editing = False, ed_previewingEdits = False, ed_savingEdits = False, ed_stamped = None, ed_seenStart = None,
      ed_seenEnd = None, ed_memo = None, ed_changed = False, ed_removeSees = None, ed_opened = False,
      ed_setterSees = Some (map edited_of occasions), ed_placeSees = (None, Some (map edited_of occasions))\<rparr>"


section \<open>Operations\<close>

definition unsynchronized :: "nat \<Rightarrow> string" where
  "unsynchronized n = ''unsynchronized-event-occasion-'' @ to_decimal n"

definition setEditedOccasions :: "edited_occasion list option \<Rightarrow> event_editor \<Rightarrow> event_editor" where
  "setEditedOccasions os ed = ed\<lparr>ed_occasions := os, ed_changed := True\<rparr>"

text \<open>
  \<open>setEditingOccasion\<close> is called with an object that is not the open one; where it may be (\<open>another\<close> tells whether it is a
  copy of it), \<open>openOccasion\<close> does nothing for the same one, as \<open>useState\<close> does.
\<close>

definition setEditingOccasion :: "edited_occasion option \<Rightarrow> event_editor \<Rightarrow> event_editor" where
  "setEditingOccasion i ed = ed\<lparr>ed_editingOccasion := i, ed_opened := True\<rparr>"

definition openOccasion :: "bool \<Rightarrow> edited_occasion option \<Rightarrow> event_editor \<Rightarrow> event_editor" where
  "openOccasion another i ed = (if another \<or> i \<noteq> ed_editingOccasion ed then setEditingOccasion i ed else ed)"

definition addOccasion :: "string \<Rightarrow> string \<Rightarrow> event_editor \<Rightarrow> event_editor result" where
  "addOccasion now inAnHour ed =
     (let newOccasion = \<lparr>eo_id = unsynchronized (ed_newEventId ed), eo_post = None, eo_startsAt = Some now,
            eo_endsAt = Some inAnHour, eo_rest = []\<rparr>
      in bind_result (deref (ed_occasions ed)) (\<lambda>os.
           Inr ((setEditingOccasion (Some newOccasion) (setEditedOccasions (Some (newOccasion # os)) ed))
             \<lparr>ed_newEventId := ed_newEventId ed + 1\<rparr>)))"

text \<open>\<open>removeOccasion\<close> compares with the open occasion it was created with.\<close>

definition removeOccasion :: "edited_occasion \<Rightarrow> event_editor \<Rightarrow> event_editor result" where
  "removeOccasion target ed =
     (let ed1 = (if Some (eo_id target) = ed_removeSees ed then openOccasion False None ed else ed)
      in bind_result (deref (ed_occasions ed)) (\<lambda>os.
           Inr (setEditedOccasions (Some (filter (\<lambda>i. eo_id i \<noteq> eo_id target) os)) ed1)))"

text \<open>\<open>updateEditingOccasion\<close>, created with the occasions \<open>sees\<close> and the open occasion \<open>sees_open\<close>.\<close>

definition updateEditingOccasion ::
  "edited_occasion list option \<Rightarrow> edited_occasion option \<Rightarrow> edited_occasion \<Rightarrow> event_editor \<Rightarrow> event_editor result" where
  "updateEditingOccasion sees sees_open target ed =
     bind_result (deref sees) (\<lambda>os.
       let ed1 = setEditedOccasions (Some (map (\<lambda>i. if eo_id i = eo_id target then target else i) os)) ed
       in Inr (if map_option eo_id sees_open = Some (eo_id target) then setEditingOccasion (Some target) ed1 else ed1))"

definition setStartTime :: "(string \<Rightarrow> string) \<Rightarrow> string \<Rightarrow> event_editor \<Rightarrow> event_editor result" where
  "setStartTime store v ed =
     (case ed_editingOccasion ed of
        None \<Rightarrow> Inr ed
      | Some i \<Rightarrow> updateEditingOccasion (ed_setterSees ed) (Some i) (i\<lparr>eo_startsAt := Some (store v)\<rparr>) ed)"

definition setEndTime :: "(string \<Rightarrow> string) \<Rightarrow> string \<Rightarrow> event_editor \<Rightarrow> event_editor result" where
  "setEndTime store v ed =
     (case ed_editingOccasion ed of
        None \<Rightarrow> Inr ed
      | Some i \<Rightarrow> updateEditingOccasion (ed_setterSees ed) (Some i) (i\<lparr>eo_endsAt := Some (store v)\<rparr>) ed)"

text \<open>The place is a part of \<open>eo_rest\<close>, set by \<open>place\<close>.\<close>

definition setCurrentOccasionLocation :: "(string \<Rightarrow> string) \<Rightarrow> event_editor \<Rightarrow> event_editor result" where
  "setCurrentOccasionLocation place ed =
     (case fst (ed_placeSees ed) of
        None \<Rightarrow> Inr ed
      | Some i \<Rightarrow>
          updateEditingOccasion (snd (ed_placeSees ed)) (fst (ed_placeSees ed)) (i\<lparr>eo_rest := place (eo_rest i)\<rparr>) ed)"

text \<open>The button of an occasion opens it, or closes it.\<close>

definition selectOccasion :: "edited_occasion \<Rightarrow> event_editor \<Rightarrow> event_editor" where
  "selectOccasion i ed =
     setEditingOccasion (if Some (eo_id i) \<noteq> map_option eo_id (ed_editingOccasion ed) then Some i else None) ed"

definition doRepeatOccasion :: "event_editor \<Rightarrow> event_editor result" where
  "doRepeatOccasion ed =
     bind_result (deref (ed_occasions ed)) (\<lambda>os. Inr (setEditedOccasions (Some (os @ ed_repeated ed)) ed))"

text \<open>The button that starts editing opens the occasion that is shown, when it is one of those that are edited.\<close>

definition press_edit :: "edited_occasion option \<Rightarrow> bool \<Rightarrow> event_editor \<Rightarrow> event_editor result" where
  "press_edit selected another ed =
     bind_result (deref (ed_occasions ed)) (\<lambda>os.
       let ed1 = ed\<lparr>ed_editing := True\<rparr>
       in Inr (if list_ex (\<lambda>i. Some (eo_id i) = map_option eo_id selected) os then openOccasion another selected ed1 else ed1))"

text \<open>The card shows the occasion that was chosen, else the first one that is not past, else the first.\<close>

definition selectedOccasion ::
  "('i \<Rightarrow> bool) \<Rightarrow> 'i option \<Rightarrow> 'i list \<Rightarrow> 'i option" where
  "selectedOccasion notPast chosen occasions =
     (case chosen of
        Some i \<Rightarrow> Some i
      | None \<Rightarrow> (case find notPast occasions of Some i \<Rightarrow> Some i | None \<Rightarrow> js_at occasions 0))"


section \<open>What React runs after an operation\<close>

text \<open>The effect that gives every occasion the visibility and the sharing of the event.\<close>

definition empty_post_fields :: post_fields where
  "empty_post_fields =
     \<lparr>p_id = [], p_author = None, p_replyToPostId = None, p_title = None, p_link = None, p_content = None,
      p_responseCount = 0, p_replyCount = 0, p_visibility = Visibility_VISIBILITY_UNKNOWN, p_createdAt = None, p_rest = []\<rparr>"

definition stamp_post :: "(bool \<Rightarrow> string \<Rightarrow> string) \<Rightarrow> visibility \<Rightarrow> bool \<Rightarrow> post option \<Rightarrow> post" where
  "stamp_post with_shareable v sh p =
     update_fields (\<lambda>f. f\<lparr>p_visibility := v, p_rest := with_shareable sh (p_rest f)\<rparr>)
       (nullish p (Post empty_post_fields []))"

definition stamp_effect :: "(bool \<Rightarrow> string \<Rightarrow> string) \<Rightarrow> event_editor \<Rightarrow> event_editor result" where
  "stamp_effect with_shareable ed =
     (let deps = (occasion_ids ed, ed_visibility ed, ed_shareable ed)
      in if Some deps = ed_stamped ed then Inr ed
         else bind_result (deref (ed_occasions ed)) (\<lambda>os.
           Inr ((setEditedOccasions
               (Some (map (\<lambda>i. i\<lparr>eo_post := Some (stamp_post with_shareable (ed_visibility ed) (ed_shareable ed) (eo_post i))\<rparr>) os))
               ed)\<lparr>ed_stamped := Some deps\<rparr>)))"

text \<open>
  The effects of \<open>useStartAndEndTime\<close>.  Both see the duration from before; the first sets it from the times, the second
  moves the end.  \<open>truthy\<close> is a time that is neither absent nor empty.
\<close>

definition truthy :: "string option \<Rightarrow> bool" where
  "truthy v \<longleftrightarrow> v \<noteq> None \<and> v \<noteq> Some []"

definition times_effect ::
  "(string \<Rightarrow> int option) \<Rightarrow> (int option \<Rightarrow> string) \<Rightarrow> (string \<Rightarrow> string) \<Rightarrow> event_editor \<Rightarrow> event_editor result" where
  "times_effect parse print store ed =
     (let start = Option.bind (ed_editingOccasion ed) eo_startsAt;
          end = Option.bind (ed_editingOccasion ed) eo_endsAt;
          ed1 = ed\<lparr>ed_seenStart := start, ed_seenEnd := end,
            ed_duration :=
              (if end \<noteq> ed_seenEnd ed \<and> truthy start \<and> truthy end
               then (case (Option.bind start parse, Option.bind end parse) of
                       (Some s, Some e) \<Rightarrow> Some (diff_minutes e s) | _ \<Rightarrow> None)
               else ed_duration ed)\<rparr>
      in case ed_duration ed of
           None \<Rightarrow> Inr ed1
         | Some d \<Rightarrow>
             if start \<noteq> ed_seenStart ed \<and> truthy start \<and> d \<noteq> 0
             then setEndTime store (print (map_option (\<lambda>s. s + d * 60000) (Option.bind start parse))) ed1
             else Inr ed1)"

text \<open>
  \<open>env_location\<close> may look at the whole state: at the open occasion, else at the one the card shows.  A callback that throws is
  an error here; what the others return is not used.
\<close>

record editor_env =
  env_parse :: "string \<Rightarrow> int option"
  env_print :: "int option \<Rightarrow> string"
  env_store :: "string \<Rightarrow> string"
  env_addWeeks :: "nat \<Rightarrow> string option \<Rightarrow> string option"
  env_withShareable :: "bool \<Rightarrow> string \<Rightarrow> string"
  env_eventVisibility :: visibility
  env_location :: "event_editor \<Rightarrow> string"
  env_address :: "string \<Rightarrow> string option"
  env_onOccasionsUpdated :: "(ident_occasion list option \<Rightarrow> string option result) option"

text \<open>
  The weekly occasions: computed when the number of weeks, the times of the open occasion or the address of its place
  change, with identifiers of their own.
\<close>

definition repeated_occasion ::
  "(nat \<Rightarrow> string option \<Rightarrow> string option) \<Rightarrow> visibility \<Rightarrow> string \<Rightarrow> edited_occasion \<Rightarrow> nat \<Rightarrow> nat \<Rightarrow> edited_occasion" where
  "repeated_occasion add_weeks eventVisibility location i newId weeksAfter =
     \<lparr>eo_id = unsynchronized newId,
      eo_post = Some (Post (empty_post_fields\<lparr>p_id := unsynchronized newId, p_visibility := eventVisibility\<rparr>) []),
      eo_startsAt = add_weeks weeksAfter (eo_startsAt i), eo_endsAt = add_weeks weeksAfter (eo_endsAt i), eo_rest = location\<rparr>"

definition repeat_memo :: "editor_env \<Rightarrow> event_editor \<Rightarrow> event_editor" where
  "repeat_memo env ed =
     (let deps = (ed_repeatWeeks ed, Option.bind (ed_editingOccasion ed) eo_startsAt,
            Option.bind (ed_editingOccasion ed) eo_endsAt, env_address env (env_location env ed))
      in if Some deps = ed_memo ed then ed
         else (case ed_editingOccasion ed of
             None \<Rightarrow> ed\<lparr>ed_memo := Some deps, ed_repeated := []\<rparr>
           | Some i \<Rightarrow>
               ed\<lparr>ed_memo := Some deps, ed_newEventId := ed_newEventId ed + ed_repeatWeeks ed,
                  ed_repeated :=
                    map (\<lambda>k. repeated_occasion (env_addWeeks env) (env_eventVisibility env) (env_location env ed) i
                          (ed_newEventId ed + k) (k + 1))
                      [0..<ed_repeatWeeks ed]\<rparr>))"

text \<open>The callbacks whose dependencies have changed are created anew.\<close>

definition recreate_callbacks :: "event_editor \<Rightarrow> event_editor" where
  "recreate_callbacks ed =
     ed\<lparr>ed_changed := False, ed_opened := False,
        ed_removeSees := (if ed_changed ed then map_option eo_id (ed_editingOccasion ed) else ed_removeSees ed),
        ed_setterSees := (if ed_opened ed then ed_occasions ed else ed_setterSees ed),
        ed_placeSees :=
          (if map_option eo_id (ed_editingOccasion ed) \<noteq> map_option eo_id (fst (ed_placeSees ed))
           then (ed_editingOccasion ed, ed_occasions ed) else ed_placeSees ed)\<rparr>"

text \<open>
  One render and its effects.  What they change makes React render again: the end of the times, the stamps of a list that
  came back, and then nothing.
\<close>

definition render :: "editor_env \<Rightarrow> event_editor \<Rightarrow> event_editor result" where
  "render env ed =
     (let ed1 = repeat_memo env (recreate_callbacks ed)
      in bind_result (stamp_effect (env_withShareable env) ed1)
           (times_effect (env_parse env) (env_print env) (env_store env)))"

definition settle :: "editor_env \<Rightarrow> event_editor \<Rightarrow> event_editor result" where
  "settle env ed = bind_result (render env ed) (\<lambda>ed1. bind_result (render env ed1) (render env))"


section \<open>Saving\<close>

text \<open>
  What \<open>saveEdits\<close> sends of the occasions, and what it does with the answer; a failure has no payload.  The callback of the
  screen comes first, and when it throws nothing else is done with the answer.  Saving is over in a later frame.
\<close>

definition saveEdits :: "event_editor \<Rightarrow> event_editor \<times> edited_occasion list option option" where
  "saveEdits ed = (if ed_savingEdits ed then (ed, None) else (ed\<lparr>ed_savingEdits := True\<rparr>, Some (ed_occasions ed)))"

definition edits_answered ::
  "(ident_occasion list option \<Rightarrow> string option result) option \<Rightarrow> ident_event option \<Rightarrow> event_editor \<Rightarrow> event_editor" where
  "edits_answered onUpdated payload ed =
     (let occasions = map_option ie_occasions payload
      in case (case onUpdated of None \<Rightarrow> Inr None | Some f \<Rightarrow> f occasions) of
           Inl _ \<Rightarrow> ed
         | Inr _ \<Rightarrow> (setEditedOccasions (map_option (map edited_of) occasions) ed)
             \<lparr>ed_editing := False, ed_previewingEdits := False\<rparr>)"

text \<open>
  The callback of the screen of one event (event_details_screen.tsx): when the occasion it shows is gone, the first one that
  is not past, else the first, becomes the parameter.
\<close>

definition onOccasionsUpdated_details ::
  "(ident_occasion \<Rightarrow> bool) \<Rightarrow> bool \<Rightarrow> string \<Rightarrow> string option \<Rightarrow> ident_occasion list option \<Rightarrow> string option result" where
  "onOccasionsUpdated_details isPast here eventHost occasionId occasions =
     bind_result (deref occasions) (\<lambda>os.
       if list_ex (\<lambda>i. Some (io_id i) = occasionId) os then Inr None
       else bind_result (deref (case find (\<lambda>i. \<not> isPast i) os of Some i \<Rightarrow> Some i | None \<Rightarrow> js_at os 0))
         (\<lambda>i. Inr (Some (io_id i @ (if here then [] else ''@'' @ eventHost)))))"


section \<open>Identifiers\<close>

text \<open>
  What is done with the card, each followed by the effects until the next input.  \<open>Press_edit\<close> has the occasion the card
  shows, and whether that is another object than the open one, as \<open>Open_repeat\<close> does, the button that opens the dialog of the
  weekly occasions.  \<open>Other_card\<close> is an occasion that has been given an identifier on another card of the page.
\<close>

datatype edit_action =
    Add_occasion string string
  | Remove_occasion edited_occasion
  | Select_occasion edited_occasion
  | Open_repeat edited_occasion bool
  | Set_weeks nat
  | Repeat_occasions
  | Set_start string
  | Set_end string
  | Set_place "string \<Rightarrow> string"
  | Set_visibility visibility
  | Set_shareable bool
  | Press_edit "edited_occasion option" bool
  | Toggle_preview
  | Cancel
  | Save
  | Answered "ident_event option"
  | Saved
  | Other_card

fun edit_step :: "editor_env \<Rightarrow> event_editor \<Rightarrow> edit_action \<Rightarrow> event_editor result" where
  "edit_step env ed (Add_occasion now inAnHour) = addOccasion now inAnHour ed"
| "edit_step env ed (Remove_occasion i) = removeOccasion i ed"
| "edit_step env ed (Select_occasion i) = Inr (selectOccasion i ed)"
| "edit_step env ed (Open_repeat i another) = Inr (openOccasion another (Some i) ed)"
| "edit_step env ed (Set_weeks n) = Inr (ed\<lparr>ed_repeatWeeks := n\<rparr>)"
| "edit_step env ed Repeat_occasions = doRepeatOccasion ed"
| "edit_step env ed (Set_start v) = setStartTime (env_store env) v ed"
| "edit_step env ed (Set_end v) = setEndTime (env_store env) v ed"
| "edit_step env ed (Set_place f) = setCurrentOccasionLocation f ed"
| "edit_step env ed (Set_visibility v) = Inr (ed\<lparr>ed_visibility := v\<rparr>)"
| "edit_step env ed (Set_shareable v) = Inr (ed\<lparr>ed_shareable := v\<rparr>)"
| "edit_step env ed (Press_edit selected another) = press_edit selected another ed"
| "edit_step env ed Toggle_preview = Inr (ed\<lparr>ed_previewingEdits := \<not> ed_previewingEdits ed\<rparr>)"
| "edit_step env ed Cancel = Inr (ed\<lparr>ed_editing := False, ed_previewingEdits := False\<rparr>)"
| "edit_step env ed Save = Inr (fst (saveEdits ed))"
| "edit_step env ed (Answered payload) = Inr (edits_answered (env_onOccasionsUpdated env) payload ed)"
| "edit_step env ed Saved = Inr (ed\<lparr>ed_savingEdits := False\<rparr>)"
| "edit_step env ed Other_card = Inr (ed\<lparr>ed_newEventId := ed_newEventId ed + 1\<rparr>)"

fun edit_run :: "editor_env \<Rightarrow> event_editor \<Rightarrow> edit_action list \<Rightarrow> event_editor result" where
  "edit_run env ed [] = Inr ed"
| "edit_run env ed (a # as) =
     bind_result (edit_step env ed a) (\<lambda>ed1. bind_result (settle env ed1) (\<lambda>ed2. edit_run env ed2 as))"

text \<open>
  An answer has the occasions the server knows, each with an identifier of its own; one without a payload is a failure, which
  only a screen whose callback throws survives.  No two \<open>Repeat_occasions\<close> add the same weekly occasions: \<open>added\<close> has the
  identifiers of the ones that were added last.
\<close>

definition answer_fine :: "editor_env \<Rightarrow> edit_action \<Rightarrow> bool" where
  "answer_fine env a =
     (case a of
        Answered (Some e) \<Rightarrow> distinct (map io_id (ie_occasions e)) \<and> (\<forall>k. unsynchronized k \<notin> io_id ` set (ie_occasions e))
      | Answered None \<Rightarrow> (case env_onOccasionsUpdated env of Some f \<Rightarrow> (case f None of Inl _ \<Rightarrow> True | _ \<Rightarrow> False) | None \<Rightarrow> False)
      | _ \<Rightarrow> True)"

definition repeated_ids :: "event_editor \<Rightarrow> string list" where
  "repeated_ids ed = map eo_id (ed_repeated ed)"

definition repeat_fine :: "string list option \<Rightarrow> event_editor \<Rightarrow> edit_action \<Rightarrow> bool" where
  "repeat_fine added ed a = (case a of Repeat_occasions \<Rightarrow> ed_repeated ed = [] \<or> added \<noteq> Some (repeated_ids ed) | _ \<Rightarrow> True)"

definition last_repeated :: "string list option \<Rightarrow> event_editor \<Rightarrow> edit_action \<Rightarrow> string list option" where
  "last_repeated added ed a = (case a of Repeat_occasions \<Rightarrow> Some (repeated_ids ed) | _ \<Rightarrow> added)"

fun repeats_renewed :: "editor_env \<Rightarrow> string list option \<Rightarrow> event_editor \<Rightarrow> edit_action list \<Rightarrow> bool" where
  "repeats_renewed env added ed [] = True"
| "repeats_renewed env added ed (a # as) =
     (repeat_fine added ed a \<and>
      (case bind_result (edit_step env ed a) (settle env) of
         Inl _ \<Rightarrow> True
       | Inr ed1 \<Rightarrow> repeats_renewed env (last_repeated added ed a) ed1 as))"

text \<open>
  Every list of the card has occasions with identifiers of their own, none that is still to be given out, and none of those
  that a repetition would add, unless they have just been added.
\<close>

definition own_ids :: "nat \<Rightarrow> string list \<Rightarrow> bool" where
  "own_ids n is \<longleftrightarrow> distinct is \<and> (\<forall>k \<ge> n. unsynchronized k \<notin> set is)"

definition fine_list :: "string list option \<Rightarrow> event_editor \<Rightarrow> edited_occasion list option \<Rightarrow> bool" where
  "fine_list added ed x \<longleftrightarrow> (\<exists>os. x = Some os \<and> own_ids (ed_newEventId ed) (map eo_id os) \<and>
     (added = Some (repeated_ids ed) \<or> set (repeated_ids ed) \<inter> set (map eo_id os) = {}))"

definition ids_ok :: "string list option \<Rightarrow> event_editor \<Rightarrow> bool" where
  "ids_ok added ed \<longleftrightarrow> own_ids (ed_newEventId ed) (repeated_ids ed) \<and> set (repeated_ids ed) \<subseteq> range unsynchronized \<and>
     fine_list added ed (ed_occasions ed) \<and> fine_list added ed (ed_setterSees ed) \<and> fine_list added ed (snd (ed_placeSees ed))"

lemma to_decimal_eq [simp]: "to_decimal m = to_decimal n \<longleftrightarrow> m = n"
  using to_decimal_value by metis

lemma unsynchronized_eq [simp]: "unsynchronized m = unsynchronized n \<longleftrightarrow> m = n"
  by (simp add: unsynchronized_def)

lemma own_ids_mono: "own_ids m is \<Longrightarrow> m \<le> n \<Longrightarrow> own_ids n is"
  by (auto simp: own_ids_def)

lemma own_ids_Cons: "own_ids n is \<Longrightarrow> own_ids (Suc n) (unsynchronized n # is)"
  by (auto simp: own_ids_def)

lemma own_ids_filter: "own_ids n (map eo_id os) \<Longrightarrow> own_ids n (map eo_id (filter P os))"
  by (auto simp: own_ids_def distinct_map_filter)

lemma own_ids_append: "own_ids n is \<Longrightarrow> own_ids n js \<Longrightarrow> set js \<inter> set is = {} \<Longrightarrow> own_ids n (is @ js)"
  by (auto simp: own_ids_def)

lemma own_ids_fresh: "own_ids (n + w) (map (\<lambda>k. unsynchronized (n + k)) [0..<w])"
  by (auto simp: own_ids_def distinct_map inj_on_def)

text \<open>Only the counter, the repeated occasions and the three lists matter.\<close>

lemma fine_list_cong:
  "fine_list added ed x \<Longrightarrow> ed_newEventId ed' = ed_newEventId ed \<Longrightarrow> ed_repeated ed' = ed_repeated ed \<Longrightarrow> fine_list added ed' x"
  by (auto simp: fine_list_def repeated_ids_def)

lemma fine_list_ids:
  assumes "fine_list added ed x" "map_option (map eo_id) x = map_option (map eo_id) y"
  shows "fine_list added ed y"
  using assms by (cases y) (auto simp: fine_list_def simp del: set_map)

lemma ids_ok_lists:
  assumes "ids_ok added ed"
  shows "fine_list added ed (ed_occasions ed)" "fine_list added ed (ed_setterSees ed)" "fine_list added ed (snd (ed_placeSees ed))"
  using assms by (simp_all add: ids_ok_def)

lemma ids_ok_cong:
  assumes "ids_ok added ed" "ed_newEventId ed' = ed_newEventId ed" "ed_repeated ed' = ed_repeated ed"
    and "ed_occasions ed' = ed_occasions ed \<or> fine_list added ed (ed_occasions ed')"
    and "ed_setterSees ed' \<in> {ed_setterSees ed, ed_occasions ed}"
    and "snd (ed_placeSees ed') \<in> {snd (ed_placeSees ed), ed_occasions ed}"
  shows "ids_ok added ed'"
  using assms fine_list_cong [OF _ assms(2,3), of added] by (auto simp: ids_ok_def repeated_ids_def)

lemma updated_ids: "map eo_id (map (\<lambda>i. if eo_id i = eo_id t then t else i) os) = map eo_id os"
  by (induction os) auto

lemma ids_ok_update:
  assumes "ids_ok added ed" "fine_list added ed sees"
  shows "\<exists>ed'. updateEditingOccasion sees opened t ed = Inr ed' \<and> ids_ok added ed'"
proof -
  obtain os where os: "sees = Some os" using assms(2) by (auto simp: fine_list_def)
  have "fine_list added ed (Some (map (\<lambda>i. if eo_id i = eo_id t then t else i) os))"
    by (rule fine_list_ids [OF assms(2)]) (simp add: os updated_ids del: map_map)
  then show ?thesis
    by (auto simp: updateEditingOccasion_def os Let_def setEditedOccasions_def setEditingOccasion_def
        intro!: ids_ok_cong [OF assms(1)])
qed

lemma ids_ok_set_start: "ids_ok added ed \<Longrightarrow> \<exists>ed'. setStartTime store v ed = Inr ed' \<and> ids_ok added ed'"
  unfolding setStartTime_def by (cases "ed_editingOccasion ed") (simp_all add: ids_ok_update ids_ok_lists)

lemma ids_ok_set_end: "ids_ok added ed \<Longrightarrow> \<exists>ed'. setEndTime store v ed = Inr ed' \<and> ids_ok added ed'"
  unfolding setEndTime_def by (cases "ed_editingOccasion ed") (simp_all add: ids_ok_update ids_ok_lists)

lemma ids_ok_place: "ids_ok added ed \<Longrightarrow> \<exists>ed'. setCurrentOccasionLocation f ed = Inr ed' \<and> ids_ok added ed'"
  unfolding setCurrentOccasionLocation_def
  by (cases "fst (ed_placeSees ed)") (simp_all add: ids_ok_update ids_ok_lists)

lemma fine_list_count:
  assumes "fine_list added ed x" "ed_newEventId ed' = Suc (ed_newEventId ed)" "ed_repeated ed' = ed_repeated ed"
  shows "fine_list added ed' x"
  using assms own_ids_mono [of "ed_newEventId ed" _ "ed_newEventId ed'"] by (auto simp: fine_list_def repeated_ids_def)

lemma ids_ok_count:
  assumes "ids_ok added ed"
  shows "ids_ok added (ed\<lparr>ed_newEventId := Suc (ed_newEventId ed)\<rparr>)"
  using assms own_ids_mono [of "ed_newEventId ed" "repeated_ids ed" "Suc (ed_newEventId ed)"]
    fine_list_count [of added ed _ "ed\<lparr>ed_newEventId := Suc (ed_newEventId ed)\<rparr>"]
  by (simp add: ids_ok_def) (simp add: repeated_ids_def)

lemma ids_ok_add:
  assumes "ids_ok added ed"
  shows "\<exists>ed'. addOccasion now later ed = Inr ed' \<and> ids_ok added ed'"
proof -
  let ?ed = "ed\<lparr>ed_newEventId := Suc (ed_newEventId ed)\<rparr>"
  obtain os where os: "ed_occasions ed = Some os" "own_ids (ed_newEventId ed) (map eo_id os)"
      "added = Some (repeated_ids ed) \<or> set (repeated_ids ed) \<inter> set (map eo_id os) = {}"
    using assms by (auto simp: ids_ok_def fine_list_def)
  have "unsynchronized (ed_newEventId ed) \<notin> set (repeated_ids ed)"
    using assms by (auto simp: ids_ok_def own_ids_def)
  moreover have "repeated_ids ?ed = repeated_ids ed" by (simp add: repeated_ids_def)
  ultimately have "fine_list added ?ed (Some (i # os))" if "eo_id i = unsynchronized (ed_newEventId ed)" for i
    using os(3) own_ids_Cons [OF os(2)] that by (auto simp: fine_list_def)
  then show ?thesis
    by (auto simp: addOccasion_def setEditedOccasions_def setEditingOccasion_def Let_def os(1)
        intro!: ids_ok_cong [OF ids_ok_count [OF assms]])
qed

lemma fine_list_filter: "fine_list added ed (Some os) \<Longrightarrow> fine_list added ed (Some (filter P os))"
  using own_ids_filter [of "ed_newEventId ed" os P] by (auto simp: fine_list_def)

lemma ids_ok_remove:
  assumes "ids_ok added ed"
  shows "\<exists>ed'. removeOccasion i ed = Inr ed' \<and> ids_ok added ed'"
proof -
  obtain os where os: "ed_occasions ed = Some os" "fine_list added ed (Some os)"
    using assms by (auto simp: ids_ok_def fine_list_def)
  then show ?thesis
    using fine_list_filter [OF os(2)]
    by (auto simp: removeOccasion_def setEditedOccasions_def setEditingOccasion_def openOccasion_def Let_def
        intro!: ids_ok_cong [OF assms])
qed

lemma ids_ok_repeat:
  assumes "ids_ok added ed" "repeat_fine added ed Repeat_occasions"
  shows "\<exists>ed'. doRepeatOccasion ed = Inr ed' \<and> ids_ok (Some (repeated_ids ed)) ed'"
proof -
  obtain os where os: "ed_occasions ed = Some os" "own_ids (ed_newEventId ed) (map eo_id os)"
      "added = Some (repeated_ids ed) \<or> set (repeated_ids ed) \<inter> set (map eo_id os) = {}"
    using assms(1) by (auto simp: ids_ok_def fine_list_def)
  have added: "ids_ok (Some (repeated_ids ed)) ed" using assms(1) by (auto simp: ids_ok_def fine_list_def)
  have "set (repeated_ids ed) \<inter> set (map eo_id os) = {}"
    using os(3) assms(2) by (auto simp: repeat_fine_def repeated_ids_def)
  then have "own_ids (ed_newEventId ed) (map eo_id (os @ ed_repeated ed))"
    using own_ids_append [OF os(2), of "repeated_ids ed"] assms(1) by (simp add: ids_ok_def repeated_ids_def)
  then have "fine_list (Some (repeated_ids ed)) ed (Some (os @ ed_repeated ed))" by (simp add: fine_list_def)
  then show ?thesis
    by (auto simp: doRepeatOccasion_def setEditedOccasions_def os(1) intro!: ids_ok_cong [OF added])
qed

lemma ids_ok_answered:
  assumes "ids_ok added ed" "answer_fine env (Answered p)"
  shows "ids_ok added (edits_answered (env_onOccasionsUpdated env) p ed)"
proof (cases p)
  case None
  then show ?thesis
    using assms by (auto simp: edits_answered_def answer_fine_def split: option.splits sum.splits)
next
  case (Some e)
  have "map eo_id (map edited_of (ie_occasions e)) = map io_id (ie_occasions e)" by (simp add: edited_of_def)
  moreover have known: "distinct (map io_id (ie_occasions e))" "\<forall>k. unsynchronized k \<notin> set (map io_id (ie_occasions e))"
    using assms(2) Some by (simp_all add: answer_fine_def)
  then have "own_ids (ed_newEventId ed) (map io_id (ie_occasions e))" by (simp add: own_ids_def)
  moreover have "set (repeated_ids ed) \<inter> set (map io_id (ie_occasions e)) = {}"
    using assms(1) known(2) unfolding ids_ok_def by blast
  ultimately have "fine_list added ed (Some (map edited_of (ie_occasions e)))" by (simp add: fine_list_def del: map_map set_map)
  then show ?thesis
    by (simp add: edits_answered_def Some Let_def setEditedOccasions_def assms(1) split: sum.split)
      (auto intro!: ids_ok_cong [OF assms(1)])
qed

lemma ids_ok_press:
  assumes "ids_ok added ed"
  shows "\<exists>ed'. press_edit selected another ed = Inr ed' \<and> ids_ok added ed'"
proof -
  obtain os where "ed_occasions ed = Some os" using assms by (auto simp: ids_ok_def fine_list_def)
  then show ?thesis
    by (auto simp: press_edit_def openOccasion_def setEditingOccasion_def Let_def intro!: ids_ok_cong [OF assms])
qed

lemma ids_ok_step:
  assumes "ids_ok added ed" "repeat_fine added ed a" "answer_fine env a"
  shows "\<exists>ed'. edit_step env ed a = Inr ed' \<and> ids_ok (last_repeated added ed a) ed'"
proof (cases a)
  case Repeat_occasions
  then show ?thesis using ids_ok_repeat [OF assms(1)] assms(2) by (simp add: last_repeated_def)
next
  case (Answered p)
  then show ?thesis using ids_ok_answered [OF assms(1)] assms(3) by (simp add: last_repeated_def)
qed (use ids_ok_add [OF assms(1)] ids_ok_remove [OF assms(1)] ids_ok_set_start [OF assms(1)] ids_ok_set_end [OF assms(1)]
    ids_ok_place [OF assms(1)] ids_ok_press [OF assms(1)] ids_ok_count [OF assms(1)] in
    \<open>auto simp: last_repeated_def selectOccasion_def openOccasion_def setEditingOccasion_def saveEdits_def
      intro!: ids_ok_cong [OF assms(1)] assms(1)\<close>)

text \<open>The render: the callbacks and the memo, then the two groups of effects.\<close>

definition memoed :: "editor_env \<Rightarrow> event_editor \<Rightarrow> event_editor" where
  "memoed env ed = repeat_memo env (recreate_callbacks ed)"

lemma memoed_simps [simp]:
  "ed_occasions (memoed env ed) = ed_occasions ed" "ed_editingOccasion (memoed env ed) = ed_editingOccasion ed"
  "ed_duration (memoed env ed) = ed_duration ed" "ed_stamped (memoed env ed) = ed_stamped ed"
  "ed_visibility (memoed env ed) = ed_visibility ed" "ed_shareable (memoed env ed) = ed_shareable ed"
  "ed_seenStart (memoed env ed) = ed_seenStart ed" "ed_savingEdits (memoed env ed) = ed_savingEdits ed"
  "ed_opened (memoed env ed) = False" "ed_setterSees (memoed env ed) = ed_setterSees (recreate_callbacks ed)"
  "ed_placeSees (memoed env ed) = ed_placeSees (recreate_callbacks ed)"
  "ed_newEventId (recreate_callbacks ed) = ed_newEventId ed" "ed_repeated (recreate_callbacks ed) = ed_repeated ed"
  by (auto simp: memoed_def repeat_memo_def recreate_callbacks_def Let_def split: option.split)

lemma render_eq:
  "render env ed = bind_result (stamp_effect (env_withShareable env) (memoed env ed))
     (times_effect (env_parse env) (env_print env) (env_store env))"
  by (simp add: render_def memoed_def Let_def)

lemma stamp_cases:
  assumes "stamp_effect sh ed = Inr ed'"
  obtains "ed' = ed" "Some (occasion_ids ed, ed_visibility ed, ed_shareable ed) = ed_stamped ed"
  | f os where "ed_occasions ed = Some os" "\<And>i. \<exists>p. f i = i\<lparr>eo_post := p\<rparr>"
    "ed' = (setEditedOccasions (Some (map f os)) ed)\<lparr>ed_stamped := Some (occasion_ids ed, ed_visibility ed, ed_shareable ed)\<rparr>"
  using assms
  by (fastforce simp: stamp_effect_def Let_def bind_result_eq_Inr deref_eq_Inr split: if_splits)

lemma times_cases:
  assumes "times_effect parse print store ed = Inr ed'"
  obtains y z where
      "ed' = ed\<lparr>ed_seenStart := Option.bind (ed_editingOccasion ed) eo_startsAt, ed_seenEnd := y, ed_duration := z\<rparr>"
  | y z t w where "ed_editingOccasion ed = Some t" "eo_startsAt t \<noteq> ed_seenStart ed" "ed_duration ed \<noteq> Some 0"
    "updateEditingOccasion (ed_setterSees ed) (Some t) (t\<lparr>eo_endsAt := w\<rparr>)
       (ed\<lparr>ed_seenStart := eo_startsAt t, ed_seenEnd := y, ed_duration := z\<rparr>) = Inr ed'"
proof (cases "ed_editingOccasion ed")
  case None
  then show thesis
    using assms that(1) by (auto simp: times_effect_def Let_def truthy_def split: option.splits)
next
  case (Some t)
  define z where "z =
    (if eo_endsAt t \<noteq> ed_seenEnd ed \<and> truthy (eo_startsAt t) \<and> truthy (eo_endsAt t)
     then (case (Option.bind (eo_startsAt t) parse, Option.bind (eo_endsAt t) parse) of
             (Some s, Some e) \<Rightarrow> Some (diff_minutes e s) | _ \<Rightarrow> None)
     else ed_duration ed)"
  define ed2 where "ed2 = ed\<lparr>ed_seenStart := eo_startsAt t, ed_seenEnd := eo_endsAt t, ed_duration := z\<rparr>"
  have "times_effect parse print store ed =
    (case ed_duration ed of None \<Rightarrow> Inr ed2
     | Some d \<Rightarrow> if eo_startsAt t \<noteq> ed_seenStart ed \<and> truthy (eo_startsAt t) \<and> d \<noteq> 0
         then setEndTime store (print (map_option (\<lambda>s. s + d * 60000) (Option.bind (eo_startsAt t) parse))) ed2 else Inr ed2)"
    unfolding times_effect_def ed2_def z_def Some Let_def bind.simps by (rule refl)
  then consider "ed' = ed2"
    | d v where "ed_duration ed = Some d" "d \<noteq> 0" "eo_startsAt t \<noteq> ed_seenStart ed" "setEndTime store v ed2 = Inr ed'"
    using assms by (auto split: option.splits if_splits)
  then show thesis
  proof cases
    case 1
    then show thesis using that(1) [where y = "eo_endsAt t" and z = z] Some by (simp add: ed2_def)
  next
    case 2
    then show thesis
      using that(2) [where t = t and w = "Some (store v)" and y = "eo_endsAt t" and z = z] Some by (simp add: ed2_def setEndTime_def)
  qed
qed

lemma times_fires:
  assumes "ed_editingOccasion ed = Some t" "ed_duration ed = Some d"
    and "eo_startsAt t \<noteq> ed_seenStart ed \<and> truthy (eo_startsAt t) \<and> d \<noteq> 0"
  shows "\<exists>y z. times_effect parse print store ed =
    setEndTime store (print (map_option (\<lambda>s. s + d * 60000) (Option.bind (eo_startsAt t) parse)))
      (ed\<lparr>ed_seenStart := eo_startsAt t, ed_seenEnd := y, ed_duration := z\<rparr>)"
  unfolding times_effect_def Let_def assms(1,2) bind.simps option.case if_P [OF assms(3)] by (intro exI, rule refl)

text \<open>The memo keeps the repeated occasions, or computes new ones with identifiers that nothing has.\<close>

lemma memoed_cases:
  obtains "ed_newEventId (memoed env ed) = ed_newEventId ed" "ed_repeated (memoed env ed) = ed_repeated ed"
  | w where "ed_newEventId (memoed env ed) = ed_newEventId ed + w"
    "repeated_ids (memoed env ed) = map (\<lambda>k. unsynchronized (ed_newEventId ed + k)) [0..<w]"
proof -
  let ?c = "recreate_callbacks ed"
  let ?deps = "Some (ed_repeatWeeks ?c, Option.bind (ed_editingOccasion ?c) eo_startsAt,
    Option.bind (ed_editingOccasion ?c) eo_endsAt, env_address env (env_location env ?c))"
  consider "?deps = ed_memo ?c" | "?deps \<noteq> ed_memo ?c" "ed_editingOccasion ?c = None"
    | i where "?deps \<noteq> ed_memo ?c" "ed_editingOccasion ?c = Some i" by (cases "ed_editingOccasion ?c") blast+
  then show thesis
  proof cases
    case 1
    then show ?thesis using that(1) by (simp add: memoed_def repeat_memo_def)
  next
    case 2
    then show ?thesis using that(2) [of 0] by (simp add: memoed_def repeat_memo_def repeated_ids_def)
  next
    case 3
    then show ?thesis
      using that(2) [of "ed_repeatWeeks ?c"] by (simp add: memoed_def repeat_memo_def repeated_ids_def repeated_occasion_def comp_def)
  qed
qed

lemma ids_ok_memoed:
  assumes "ids_ok added ed"
  shows "ids_ok added (memoed env ed)"
proof (cases rule: memoed_cases [of env ed])
  case 1
  then show ?thesis by (intro ids_ok_cong [OF assms]) (simp_all add: recreate_callbacks_def)
next
  case (2 w)
  have "fine_list added (memoed env ed) x" if "fine_list added ed x" for x
  proof -
    obtain os where os: "x = Some os" "own_ids (ed_newEventId ed) (map eo_id os)" using \<open>fine_list added ed x\<close> by (auto simp: fine_list_def)
    have "unsynchronized (ed_newEventId ed + k) \<notin> set (map eo_id os)" for k using os(2) unfolding own_ids_def by simp
    then have "set (repeated_ids (memoed env ed)) \<inter> set (map eo_id os) = {}" unfolding 2 by auto
    then show ?thesis using os 2(1) own_ids_mono [OF os(2), of "ed_newEventId ed + w"] by (simp add: fine_list_def del: set_map)
  qed
  moreover have "own_ids (ed_newEventId (memoed env ed)) (repeated_ids (memoed env ed))"
    "set (repeated_ids (memoed env ed)) \<subseteq> range unsynchronized"
    unfolding 2 by (rule own_ids_fresh) auto
  ultimately show ?thesis using assms by (auto simp: ids_ok_def recreate_callbacks_def)
qed

lemma ids_ok_stamp:
  assumes "ids_ok added ed"
  shows "\<exists>ed'. stamp_effect with_shareable ed = Inr ed' \<and> ids_ok added ed'"
proof -
  obtain os where os: "ed_occasions ed = Some os" using assms by (auto simp: ids_ok_def fine_list_def)
  let ?stamp = "\<lambda>i. i\<lparr>eo_post := Some (stamp_post with_shareable (ed_visibility ed) (ed_shareable ed) (eo_post i))\<rparr>"
  have "fine_list added ed (Some (map ?stamp os))"
    by (rule fine_list_ids [OF ids_ok_lists(1) [OF assms]]) (simp add: os comp_def)
  then show ?thesis
    by (auto simp: stamp_effect_def Let_def os setEditedOccasions_def intro!: assms ids_ok_cong [OF assms])
qed

lemma ids_ok_times:
  assumes "ids_ok added ed"
  shows "\<exists>ed'. times_effect parse print store ed = Inr ed' \<and> ids_ok added ed'"
proof -
  have "ids_ok added (ed\<lparr>ed_seenStart := x, ed_seenEnd := y, ed_duration := z\<rparr>)" for x y z
    by (rule ids_ok_cong [OF assms]) simp_all
  then show ?thesis
    using ids_ok_set_end by (simp add: times_effect_def Let_def split: option.split)
qed

lemma ids_ok_render:
  assumes "ids_ok added ed"
  shows "\<exists>ed'. render env ed = Inr ed' \<and> ids_ok added ed'"
proof -
  obtain ed1 where "stamp_effect (env_withShareable env) (memoed env ed) = Inr ed1" "ids_ok added ed1"
    using ids_ok_stamp [OF ids_ok_memoed [OF assms]] by blast
  then show ?thesis using ids_ok_times by (simp add: render_eq)
qed

lemma ids_ok_settle:
  assumes "ids_ok added ed"
  shows "\<exists>ed'. settle env ed = Inr ed' \<and> ids_ok added ed'"
proof -
  obtain ed1 where ed1: "render env ed = Inr ed1" "ids_ok added ed1" using ids_ok_render [OF assms] by blast
  obtain ed2 where "render env ed1 = Inr ed2" "ids_ok added ed2" using ids_ok_render [OF ed1(2)] by blast
  then show ?thesis using ids_ok_render by (simp add: settle_def ed1(1))
qed

lemma ids_ok_run:
  "ids_ok added ed \<Longrightarrow> repeats_renewed env added ed as \<Longrightarrow> \<forall>a \<in> set as. answer_fine env a \<Longrightarrow>
   \<exists>ed' added'. edit_run env ed as = Inr ed' \<and> ids_ok added' ed'"
proof (induction "as" arbitrary: ed added)
  case (Cons a as)
  obtain ed1 where ed1: "edit_step env ed a = Inr ed1" "ids_ok (last_repeated added ed a) ed1"
    using ids_ok_step [OF Cons.prems(1), of a env] Cons.prems(2,3) by auto
  obtain ed2 where ed2: "settle env ed1 = Inr ed2" "ids_ok (last_repeated added ed a) ed2"
    using ids_ok_settle [OF ed1(2)] by blast
  have "repeats_renewed env (last_repeated added ed a) ed2 as" using Cons.prems(2) by (simp add: ed1(1) ed2(1))
  from Cons.IH [OF ed2(2) this] Cons.prems(3) show ?case by (simp add: ed1(1) ed2(1))
qed auto


text \<open>With at most one repetition, nothing is added twice.\<close>

definition repeats :: "edit_action \<Rightarrow> bool" where
  "repeats a = (case a of Repeat_occasions \<Rightarrow> True | _ \<Rightarrow> False)"

lemma no_repeat:
  assumes "\<not> repeats a"
  shows "repeat_fine added ed a" "last_repeated added ed a = added"
  using assms by (cases a; simp add: repeats_def repeat_fine_def last_repeated_def)+

lemma no_repeat_renewed: "\<forall>a \<in> set as. \<not> repeats a \<Longrightarrow> repeats_renewed env added ed as"
  by (induction "as" arbitrary: ed) (simp_all add: no_repeat split: sum.split)

lemma one_repeat_renewed: "length (filter repeats as) \<le> 1 \<Longrightarrow> repeats_renewed env None ed as"
proof (induction "as" arbitrary: ed)
  case (Cons a as)
  show ?case
  proof (cases "repeats a")
    case True
    then have "\<forall>b \<in> set as. \<not> repeats b" using Cons.prems by (simp add: filter_empty_conv)
    moreover have "repeat_fine None ed a" by (cases a; simp add: repeat_fine_def)
    ultimately show ?thesis by (simp add: no_repeat_renewed split: sum.split)
  next
    case False
    then show ?thesis using Cons by (simp add: no_repeat split: sum.split)
  qed
qed simp

lemma ids_ok_runs:
  assumes "ids_ok added ed" "\<forall>a \<in> set as. \<not> repeats a \<and> answer_fine env a"
  shows "\<exists>ed'. edit_run env ed as = Inr ed'"
  using ids_ok_run [OF assms(1) no_repeat_renewed] assms(2) by blast

lemma ids_ok_open:
  assumes "distinct (map io_id occasions)" "\<forall>k. unsynchronized k \<notin> set (map io_id occasions)"
  shows "ids_ok None (open_editor counter visibility shareable occasions)"
proof -
  have "map eo_id (map edited_of occasions) = map io_id occasions" by (simp add: edited_of_def)
  then show ?thesis
    using assms by (simp add: ids_ok_def open_editor_def fine_list_def own_ids_def repeated_ids_def del: set_map map_map)
qed


section \<open>What a render keeps\<close>

lemma settle_keeps:
  assumes "settle env ed = Inr ed'" "P ed" "\<And>ed ed'. P ed \<Longrightarrow> render env ed = Inr ed' \<Longrightarrow> P ed'"
  shows "P ed'"
proof -
  obtain ed1 ed2 where r: "render env ed = Inr ed1" "render env ed1 = Inr ed2" "render env ed2 = Inr ed'"
    using assms(1) by (auto simp: settle_def bind_result_eq_Inr)
  show ?thesis
    by (rule assms(3) [OF assms(3) [OF assms(3) [OF assms(2) r(1)] r(2)] r(3)])
qed

text \<open>Nothing moves the open occasion while it is not opened anew: neither its start, nor the list its setters were made with.\<close>

definition at_rest :: "edited_occasion \<Rightarrow> edited_occasion list \<Rightarrow> event_editor \<Rightarrow> bool" where
  "at_rest i ss ed \<longleftrightarrow> ed_editingOccasion ed = Some i \<and> \<not> ed_opened ed \<and> ed_setterSees ed = Some ss \<and>
     ed_seenStart ed = eo_startsAt i"



lemma updated_list:
  assumes "updateEditingOccasion (Some ss) (Some i) t ed = Inr ed'" "eo_id t = eo_id i"
  shows "ed' = setEditingOccasion (Some t) (setEditedOccasions (Some (map (\<lambda>i. if eo_id i = eo_id t then t else i) ss)) ed)"
  using assms by (simp add: updateEditingOccasion_def Let_def)

lemma updated_image: "eo_id ` set (map (\<lambda>i. if eo_id i = eo_id t then t else i) ss) = eo_id ` set ss"
  using arg_cong [OF updated_ids [of t ss], of set] by (simp only: set_map)



text \<open>An end stays while the start of the open occasion is the one the effects have seen.\<close>

definition ended :: "string \<Rightarrow> string option \<Rightarrow> string option \<Rightarrow> event_editor \<Rightarrow> bool" where
  "ended u v e ed \<longleftrightarrow> (\<exists>t. ed_editingOccasion ed = Some t \<and> eo_startsAt t = v) \<and> ed_seenStart ed = v \<and>
     (\<exists>os. ed_occasions ed = Some os \<and> u \<in> eo_id ` set os \<and> (\<forall>j \<in> set os. eo_id j = u \<longrightarrow> eo_endsAt j = e))"

lemma ended_render:
  assumes "ended u v e ed" "render env ed = Inr ed'"
  shows "ended u v e ed'"
proof -
  obtain ed1 where ed1: "stamp_effect (env_withShareable env) (memoed env ed) = Inr ed1"
    "times_effect (env_parse env) (env_print env) (env_store env) ed1 = Inr ed'"
    using assms(2) by (auto simp: render_eq bind_result_eq_Inr)
  have m: "ended u v e (memoed env ed)" using assms(1) by (simp add: ended_def)
  from ed1(1) have "ended u v e ed1"
  proof (cases rule: stamp_cases)
    case 1
    then show ?thesis using m by simp
  next
    case (2 f os)
    have f: "eo_id (f i) = eo_id i" "eo_endsAt (f i) = eo_endsAt i" for i
      using 2(2) [of i] by auto
    have "eo_id ` set (map f os) = eo_id ` set os" using f(1) by (force simp: image_image)
    moreover have "\<forall>j \<in> set (map f os). eo_id j = u \<longrightarrow> eo_endsAt j = e"
      using m f 2(1) by (auto simp: ended_def)
    ultimately show ?thesis
      using m 2(1,3) by (simp add: ended_def setEditedOccasions_def del: set_map)
  qed
  with ed1(2) show ?thesis
    by (rule_tac times_cases [OF ed1(2)]) (auto simp: ended_def)
qed

text \<open>
  The open occasion, and what the list has under its identifier, have a property that neither a new end nor a stamp
  changes; without the second condition, the list is one that needs no stamp.
\<close>

definition holding :: "bool \<Rightarrow> (edited_occasion \<Rightarrow> bool) \<Rightarrow> string \<Rightarrow> event_editor \<Rightarrow> bool" where
  "holding stamps Q u ed \<longleftrightarrow>
     (\<exists>t. ed_editingOccasion ed = Some t \<and> eo_id t = u \<and> Q t) \<and>
     (\<exists>os. ed_occasions ed = Some os \<and> u \<in> eo_id ` set os \<and> (\<forall>j \<in> set os. eo_id j = u \<longrightarrow> Q j)) \<and>
     (ed_opened ed \<or>
      (\<exists>ss. ed_setterSees ed = Some ss \<and> u \<in> eo_id ` set ss \<and> (stamps \<or> Some (map eo_id ss) = map_option (map eo_id) (ed_occasions ed)))) \<and>
     (stamps \<or> ed_stamped ed = Some (occasion_ids ed, ed_visibility ed, ed_shareable ed))"

lemma updated_holding:
  assumes "updateEditingOccasion (Some ss) (Some i) t ed = Inr ed'" "eo_id t = eo_id i" "Q t" "eo_id i \<in> eo_id ` set ss"
    and "stamps \<or> ed_stamped ed = Some (Some (join_with '','' (map eo_id ss)), ed_visibility ed, ed_shareable ed)"
  shows "holding stamps Q (eo_id i) ed'"
proof -
  have "eo_id i \<in> eo_id ` set (map (\<lambda>i. if eo_id i = eo_id t then t else i) ss)"
    using assms(4) unfolding updated_image .
  moreover have "\<forall>j \<in> set (map (\<lambda>i. if eo_id i = eo_id t then t else i) ss). eo_id j = eo_id i \<longrightarrow> Q j"
    using assms(2,3) by auto
  ultimately show ?thesis
    using updated_list [OF assms(1,2)] assms(2,3,5) updated_ids [of t ss]
    by (simp add: holding_def setEditingOccasion_def setEditedOccasions_def occasion_ids_def del: set_map map_map)
qed

lemma holding_render:
  assumes "holding stamps Q u ed" "render env ed = Inr ed'"
    and moved: "\<And>t w. Q t \<Longrightarrow> Q (t\<lparr>eo_endsAt := w\<rparr>)" and stamped: "\<And>t p. stamps \<Longrightarrow> Q t \<Longrightarrow> Q (t\<lparr>eo_post := p\<rparr>)"
  shows "holding stamps Q u ed'"
proof -
  obtain ed1 where ed1: "stamp_effect (env_withShareable env) (memoed env ed) = Inr ed1"
    "times_effect (env_parse env) (env_print env) (env_store env) ed1 = Inr ed'"
    using assms(2) by (auto simp: render_eq bind_result_eq_Inr)
  have m: "holding stamps Q u (memoed env ed)" "\<exists>ss. ed_setterSees (memoed env ed) = Some ss"
    using assms(1) by (auto simp: holding_def recreate_callbacks_def occasion_ids_def)
  from ed1(1) have l1: "holding stamps Q u ed1 \<and> \<not> ed_opened ed1"
  proof (cases rule: stamp_cases)
    case 1
    then show ?thesis using m by simp
  next
    case (2 f os)
    have f: "eo_id (f i) = eo_id i" "stamps \<Longrightarrow> Q i \<Longrightarrow> Q (f i)" for i
      using 2(2) [of i] stamped by auto
    show ?thesis
    proof (cases stamps)
      case True
      have "eo_id ` set (map f os) = eo_id ` set os" using f(1) by (force simp: image_image)
      moreover have "\<forall>j \<in> set (map f os). eo_id j = u \<longrightarrow> Q j"
        using m(1) f True 2(1) by (auto simp: holding_def)
      ultimately show ?thesis
        using m True 2(1,3) by (simp add: holding_def setEditedOccasions_def del: set_map)
    next
      case False
      then show ?thesis
        using ed1(1) m by (auto simp: holding_def stamp_effect_def)
    qed
  qed
  from ed1(2) show ?thesis
  proof (cases rule: times_cases)
    case (1 y z)
    have same: "ed_opened ed' = ed_opened ed1" "ed_occasions ed' = ed_occasions ed1" "ed_setterSees ed' = ed_setterSees ed1"
      "ed_editingOccasion ed' = ed_editingOccasion ed1" "ed_stamped ed' = ed_stamped ed1"
      "ed_visibility ed' = ed_visibility ed1" "ed_shareable ed' = ed_shareable ed1"
      using 1 by simp_all
    then show ?thesis
      using l1 unfolding holding_def occasion_ids_def same by (rule_tac conjunct1)
  next
    case (2 y z t w)
    obtain ss where ss: "ed_setterSees ed1 = Some ss" "u \<in> eo_id ` set ss"
      "stamps \<or> Some (map eo_id ss) = map_option (map eo_id) (ed_occasions ed1)"
      using l1 by (auto simp: holding_def)
    have t: "eo_id t = u" "Q t" using l1 2(1) by (auto simp: holding_def)
    have "stamps \<or> ed_stamped ed1 = Some (Some (join_with '','' (map eo_id ss)), ed_visibility ed1, ed_shareable ed1)"
      using l1 ss(3) by (auto simp: holding_def occasion_ids_def)
    then show ?thesis
      using updated_holding [of ss t "t\<lparr>eo_endsAt := w\<rparr>" _ ed' Q stamps] 2(4) ss(1,2) t moved by simp
  qed
qed


lemma render_saving:
  assumes "render env ed = Inr ed'"
  shows "ed_savingEdits ed' = ed_savingEdits ed"
proof -
  obtain ed1 where ed1: "stamp_effect (env_withShareable env) (memoed env ed) = Inr ed1"
    "times_effect (env_parse env) (env_print env) (env_store env) ed1 = Inr ed'"
    using assms by (auto simp: render_eq bind_result_eq_Inr)
  have "ed_savingEdits ed1 = ed_savingEdits ed"
    by (rule stamp_cases [OF ed1(1)]) (simp_all add: setEditedOccasions_def)
  with ed1(2) show ?thesis
    by (rule_tac times_cases [OF ed1(2)])
      (auto simp: updateEditingOccasion_def Let_def bind_result_eq_Inr setEditingOccasion_def setEditedOccasions_def)
qed

text \<open>The place is set with the occasion as it was when it was opened.\<close>

definition placed :: "edited_occasion \<Rightarrow> edited_occasion list \<Rightarrow> event_editor \<Rightarrow> bool" where
  "placed i ps ed \<longleftrightarrow> ed_placeSees ed = (Some i, Some ps) \<and> map_option eo_id (ed_editingOccasion ed) = Some (eo_id i)"

lemma placed_render:
  assumes "placed i ps ed" "render env ed = Inr ed'"
  shows "placed i ps ed'"
proof -
  obtain ed1 where ed1: "stamp_effect (env_withShareable env) (memoed env ed) = Inr ed1"
    "times_effect (env_parse env) (env_print env) (env_store env) ed1 = Inr ed'"
    using assms(2) by (auto simp: render_eq bind_result_eq_Inr)
  have "placed i ps (memoed env ed)"
    using assms(1) by (simp add: placed_def recreate_callbacks_def)
  with ed1(1) have "placed i ps ed1"
    by (rule_tac stamp_cases [OF ed1(1)]) (simp_all add: placed_def setEditedOccasions_def)
  with ed1(2) show ?thesis
    by (rule_tac times_cases [OF ed1(2)])
      (auto simp: placed_def updateEditingOccasion_def Let_def bind_result_eq_Inr setEditingOccasion_def
        setEditedOccasions_def)
qed

text \<open>An occasion that has been opened while the duration is 0 comes to rest, and the list is stamped.\<close>

definition come_to_rest :: "edited_occasion \<Rightarrow> edited_occasion list \<Rightarrow> event_editor \<Rightarrow> bool" where
  "come_to_rest i ss ed \<longleftrightarrow> at_rest i ss ed \<and> \<not> ed_savingEdits ed \<and>
     occasion_ids ed = Some (join_with '','' (map eo_id ss)) \<and>
     ed_stamped ed = Some (Some (join_with '','' (map eo_id ss)), ed_visibility ed, ed_shareable ed)"

lemma stamped_ids:
  assumes "stamp_effect sh ed = Inr ed'"
  shows "occasion_ids ed' = occasion_ids ed" "ed_stamped ed' = Some (occasion_ids ed, ed_visibility ed, ed_shareable ed)"
    "ed_editingOccasion ed' = ed_editingOccasion ed" "ed_opened ed' = ed_opened ed" "ed_duration ed' = ed_duration ed"
    "ed_setterSees ed' = ed_setterSees ed" "ed_seenStart ed' = ed_seenStart ed" "ed_savingEdits ed' = ed_savingEdits ed"
    "ed_visibility ed' = ed_visibility ed" "ed_shareable ed' = ed_shareable ed"
  using assms by (auto simp: stamp_effect_def Let_def bind_result_eq_Inr deref_eq_Inr setEditedOccasions_def occasion_ids_def
      comp_def split: if_splits)

lemma quiet_times:
  assumes "times_effect parse print store ed = Inr ed'" "ed_editingOccasion ed = Some i"
    and "ed_duration ed = Some 0 \<or> ed_seenStart ed = eo_startsAt i"
  shows "\<exists>y z. ed' = ed\<lparr>ed_seenStart := eo_startsAt i, ed_seenEnd := y, ed_duration := z\<rparr>"
  using assms by (rule_tac times_cases [OF assms(1)]) auto

lemma opened_at_rest:
  assumes "ed_editingOccasion ed = Some i" "ed_opened ed" "ed_occasions ed = Some ss" "ed_duration ed = Some 0"
    and "\<not> ed_savingEdits ed" "settle env ed = Inr ed'"
  shows "come_to_rest i ss ed'"
proof -
  obtain ed1 ed2 where r: "render env ed = Inr ed1" "render env ed1 = Inr ed2" "render env ed2 = Inr ed'"
    using assms(6) by (auto simp: settle_def bind_result_eq_Inr)
  have step: "come_to_rest i ss s'" if h: "render env s = Inr s'" "ed_editingOccasion s = Some i" "\<not> ed_savingEdits s"
    "ed_duration s = Some 0 \<or> ed_seenStart s = eo_startsAt i" "ed_setterSees (memoed env s) = Some ss"
    "occasion_ids s = Some (join_with '','' (map eo_id ss))" for s s'
  proof -
    obtain s1 where s1: "stamp_effect (env_withShareable env) (memoed env s) = Inr s1"
      "times_effect (env_parse env) (env_print env) (env_store env) s1 = Inr s'"
      using h(1) by (auto simp: render_eq bind_result_eq_Inr)
    note st = stamped_ids [OF s1(1)]
    have "ed_editingOccasion s1 = Some i" "ed_duration s1 = Some 0 \<or> ed_seenStart s1 = eo_startsAt i"
      using h(2,4) st(3,5,7) by auto
    from quiet_times [OF s1(2) this]
    obtain y z where "s' = s1\<lparr>ed_seenStart := eo_startsAt i, ed_seenEnd := y, ed_duration := z\<rparr>" by blast
    then show ?thesis
      using st h(2-6) by (simp add: come_to_rest_def at_rest_def occasion_ids_def)
  qed
  have "come_to_rest i ss ed1"
    using step [OF r(1)] assms(1-5) by (simp add: recreate_callbacks_def occasion_ids_def)
  moreover have "come_to_rest i ss s'" if g: "come_to_rest i ss s" "render env s = Inr s'" for s s'
    using step [OF g(2)] g(1) by (simp add: come_to_rest_def at_rest_def recreate_callbacks_def)
  ultimately show ?thesis using r(2,3) by blast
qed


section \<open>Three renders are enough\<close>

lemma times_seen:
  assumes "ed_seenStart ed = Option.bind (ed_editingOccasion ed) eo_startsAt"
  shows "\<exists>z. times_effect parse print store ed = Inr (ed\<lparr>ed_seenEnd := Option.bind (ed_editingOccasion ed) eo_endsAt, ed_duration := z\<rparr>)"
    and "ed_seenEnd ed = Option.bind (ed_editingOccasion ed) eo_endsAt \<Longrightarrow> times_effect parse print store ed = Inr ed"
  by (cases ed, use assms in \<open>auto simp: times_effect_def Let_def split: option.split\<close>)+

text \<open>After one render the effects have seen the start of the open occasion, after the next its end and the stamps.\<close>

lemma render_sees_start:
  assumes "render env ed = Inr ed'"
  shows "ed_seenStart ed' = Option.bind (ed_editingOccasion ed') eo_startsAt"
proof -
  obtain ed1 where "times_effect (env_parse env) (env_print env) (env_store env) ed1 = Inr ed'"
    using assms by (auto simp: render_eq bind_result_eq_Inr)
  then show ?thesis
    by (cases rule: times_cases)
      (auto simp: updateEditingOccasion_def Let_def bind_result_eq_Inr setEditingOccasion_def setEditedOccasions_def)
qed

definition all_seen :: "event_editor \<Rightarrow> bool" where
  "all_seen ed \<longleftrightarrow> ed_seenStart ed = Option.bind (ed_editingOccasion ed) eo_startsAt \<and>
     ed_seenEnd ed = Option.bind (ed_editingOccasion ed) eo_endsAt \<and>
     ed_stamped ed = Some (occasion_ids ed, ed_visibility ed, ed_shareable ed)"

lemma render_sees_all:
  assumes "render env ed = Inr ed'" "ed_seenStart ed = Option.bind (ed_editingOccasion ed) eo_startsAt"
  shows "all_seen ed'"
proof -
  obtain ed1 where ed1: "stamp_effect (env_withShareable env) (memoed env ed) = Inr ed1"
    "times_effect (env_parse env) (env_print env) (env_store env) ed1 = Inr ed'"
    using assms(1) by (auto simp: render_eq bind_result_eq_Inr)
  note st = stamped_ids [OF ed1(1)]
  have "ed_seenStart ed1 = Option.bind (ed_editingOccasion ed1) eo_startsAt" using st assms(2) by simp
  from times_seen(1) [OF this] ed1(2) obtain z where
    "ed' = ed1\<lparr>ed_seenEnd := Option.bind (ed_editingOccasion ed1) eo_endsAt, ed_duration := z\<rparr>"
    by (metis sum.inject(2))
  then show ?thesis using st assms(2) by (simp add: all_seen_def occasion_ids_def)
qed

lemma render_seen:
  assumes "all_seen ed"
  shows "render env ed = Inr (memoed env ed)"
proof -
  have same: "occasion_ids (memoed env ed) = occasion_ids ed" by (simp add: occasion_ids_def)
  have seen: "ed_seenEnd (memoed env ed) = ed_seenEnd ed"
    by (auto simp: memoed_def repeat_memo_def recreate_callbacks_def Let_def split: option.split)
  have "stamp_effect (env_withShareable env) (memoed env ed) = Inr (memoed env ed)"
    using assms by (simp add: stamp_effect_def all_seen_def same)
  moreover have "times_effect (env_parse env) (env_print env) (env_store env) (memoed env ed) = Inr (memoed env ed)"
    using assms by (intro times_seen) (simp_all add: all_seen_def seen)
  ultimately show ?thesis by (simp add: render_eq)
qed

lemma repeat_memo_keeps:
  "ed_editingOccasion (repeat_memo env ed) = ed_editingOccasion ed" "ed_repeatWeeks (repeat_memo env ed) = ed_repeatWeeks ed"
  "ed_changed (repeat_memo env ed) = ed_changed ed" "ed_opened (repeat_memo env ed) = ed_opened ed"
  "ed_placeSees (repeat_memo env ed) = ed_placeSees ed"
  "ed_memo (repeat_memo env ed) = Some (ed_repeatWeeks ed, Option.bind (ed_editingOccasion ed) eo_startsAt,
     Option.bind (ed_editingOccasion ed) eo_endsAt, env_address env (env_location env ed))"
  by (auto simp: repeat_memo_def Let_def split: option.split)

lemma repeat_memo_same:
  "ed_memo ed = Some (ed_repeatWeeks ed, Option.bind (ed_editingOccasion ed) eo_startsAt,
     Option.bind (ed_editingOccasion ed) eo_endsAt, env_address env (env_location env ed)) \<Longrightarrow> repeat_memo env ed = ed"
  by (simp add: repeat_memo_def)

lemma recreate_same:
  "\<not> ed_changed ed \<Longrightarrow> \<not> ed_opened ed \<Longrightarrow> map_option eo_id (ed_editingOccasion ed) = map_option eo_id (fst (ed_placeSees ed)) \<Longrightarrow>
   recreate_callbacks ed = ed"
  by (simp add: recreate_callbacks_def)

lemma memoed_memoed:
  assumes "\<forall>e e'. ed_editingOccasion e = ed_editingOccasion e' \<longrightarrow> env_location env e = env_location env e'"
  shows "memoed env (memoed env ed) = memoed env ed"
proof -
  let ?c = "recreate_callbacks ed"
  have "recreate_callbacks (repeat_memo env ?c) = repeat_memo env ?c"
    by (rule recreate_same) (simp_all add: repeat_memo_keeps, simp_all add: recreate_callbacks_def)
  moreover have "env_location env (repeat_memo env ?c) = env_location env ?c"
    using assms repeat_memo_keeps(1) by blast
  then have "repeat_memo env (repeat_memo env ?c) = repeat_memo env ?c"
    by (intro repeat_memo_same) (simp add: repeat_memo_keeps)
  ultimately show ?thesis by (simp add: memoed_def)
qed

text \<open>
  After \<open>settle\<close> another render changes nothing, if the place the card shows is that of the open occasion: there is no effect
  left to run.
\<close>

theorem settled:
  assumes "settle env ed = Inr ed'"
    and "\<forall>e e'. ed_editingOccasion e = ed_editingOccasion e' \<longrightarrow> env_location env e = env_location env e'"
  shows "render env ed' = Inr ed'"
proof -
  obtain ed1 ed2 where r: "render env ed = Inr ed1" "render env ed1 = Inr ed2" "render env ed2 = Inr ed'"
    using assms(1) by (auto simp: settle_def bind_result_eq_Inr)
  have "all_seen ed2" using render_sees_all [OF r(2) render_sees_start [OF r(1)]] .
  with r(3) have ed': "ed' = memoed env ed2" using render_seen by simp
  have "ed_seenEnd (memoed env ed2) = ed_seenEnd ed2"
    by (auto simp: memoed_def repeat_memo_def recreate_callbacks_def Let_def split: option.split)
  then have "all_seen ed'" using \<open>all_seen ed2\<close> by (simp add: ed' all_seen_def occasion_ids_def)
  then show ?thesis using render_seen memoed_memoed [OF assms(2)] ed' by simp
qed


section \<open>What editing promises, and what it does not\<close>

text \<open>
  C12: a card of an event whose occasions have their own identifiers is mounted, and then anything is
  done with it -- editing is started or cancelled, occasions are opened, added, removed, moved and repeated, the visibility is
  changed, the edits are saved and answered -- nothing throws, and every occasion keeps an identifier of its own, provided
  that the same weekly occasions are not added twice in a row, that the server answers with occasions of its own, and that a
  save fails only on a screen whose callback throws then.
\<close>

theorem edited_occasions_distinct:
  assumes "distinct (map io_id occasions)" "\<forall>k. unsynchronized k \<notin> set (map io_id occasions)"
    and "\<forall>a \<in> set actions. answer_fine env a"
    and "\<forall>ed. settle env (open_editor counter visibility shareable occasions) = Inr ed \<longrightarrow>
      repeats_renewed env None ed actions"
  shows "\<exists>ed0 ed os. settle env (open_editor counter visibility shareable occasions) = Inr ed0 \<and>
    edit_run env ed0 actions = Inr ed \<and> ed_occasions ed = Some os \<and> distinct (map eo_id os)"
proof -
  obtain ed0 where ed0: "settle env (open_editor counter visibility shareable occasions) = Inr ed0" "ids_ok None ed0"
    using ids_ok_settle [OF ids_ok_open [OF assms(1,2)]] by blast
  then obtain ed added where "edit_run env ed0 actions = Inr ed" "ids_ok added ed"
    using ids_ok_run [OF ed0(2) _ assms(3)] assms(4) by blast
  then show ?thesis
    using ed0(1) by (auto simp: ids_ok_def fine_list_def own_ids_def)
qed

definition sample_env :: editor_env where
  "sample_env = \<lparr>env_parse = stroke_parse, env_print = stroke_print, env_store = id, env_addWeeks = (\<lambda>_ t. t),
     env_withShareable = (\<lambda>_ r. r), env_eventVisibility = Visibility_GLOBAL_PUBLIC, env_location = (\<lambda>_. []),
     env_address = (\<lambda>_. None), env_onOccasionsUpdated = None\<rparr>"

definition sample_edited :: "string \<Rightarrow> nat \<Rightarrow> nat \<Rightarrow> ident_occasion" where
  "sample_edited i start end =
     \<lparr>io_id = i, io_post = Post empty_post_fields [], io_startsAt = Some (stroke_print (Some (60000 * int start))),
      io_endsAt = Some (stroke_print (Some (60000 * int end))), io_eventId = ''e'', io_rest = []\<rparr>"

definition sample_answer :: ident_event where
  "sample_answer =
     \<lparr>ie_id = ''e'', ie_post = Post empty_post_fields [], ie_occasions = [sample_edited ''c'' 0 60], ie_rest = []\<rparr>"

theorem edited_occasions_distinct_witness:
  "\<exists>ed0 ed os. settle sample_env
       (open_editor 7 Visibility_LIMITED True [sample_edited ''a'' 0 60, sample_edited ''b'' 5 6]) = Inr ed0 \<and>
     edit_run sample_env ed0
       [Press_edit None True, Add_occasion ''x'' ''xxx'', Set_weeks 3, Repeat_occasions, Set_visibility Visibility_PRIVATE,
        Save, Answered (Some sample_answer), Saved] = Inr ed \<and>
     ed_occasions ed = Some os \<and> distinct (map eo_id os)"
proof (rule edited_occasions_distinct)
  show "\<forall>ed. settle sample_env (open_editor 7 Visibility_LIMITED True [sample_edited ''a'' 0 60, sample_edited ''b'' 5 6]) =
      Inr ed \<longrightarrow> repeats_renewed sample_env None ed
        [Press_edit None True, Add_occasion ''x'' ''xxx'', Set_weeks 3, Repeat_occasions, Set_visibility Visibility_PRIVATE,
         Save, Answered (Some sample_answer), Saved]"
    by (intro allI impI one_repeat_renewed) (simp add: repeats_def)
qed (simp_all add: sample_edited_def sample_answer_def unsynchronized_def answer_fine_def)

text \<open>
  opening an occasion after another one that was open with a duration of its own sets the
  end of the newly opened one: to its start and the other's duration.  Nothing has been typed.
\<close>

theorem opened_occasion_overwritten:
  assumes "ed_occasions ed = Some os" "i \<in> set os" "ed_duration ed = Some d" "d \<noteq> 0"
    and "map_option eo_id (ed_editingOccasion ed) \<noteq> Some (eo_id i)"
    and "eo_startsAt i = Some v" "v \<noteq> []" "ed_seenStart ed \<noteq> Some v"
    and "ed_stamped ed = Some (occasion_ids ed, ed_visibility ed, ed_shareable ed)"
    and "edit_run env ed [Select_occasion i] = Inr ed'"
  shows "\<exists>os'. ed_occasions ed' = Some os' \<and> eo_id i \<in> eo_id ` set os' \<and>
    (\<forall>j \<in> set os'. eo_id j = eo_id i \<longrightarrow>
       eo_endsAt j = Some (env_store env (env_print env (map_option (\<lambda>s. s + d * 60000) (env_parse env v)))))"
proof -
  let ?e = "Some (env_store env (env_print env (map_option (\<lambda>s. s + d * 60000) (env_parse env v))))"
  define ed1 where "ed1 = selectOccasion i ed"
  have ed1: "ed_editingOccasion ed1 = Some i" "ed_opened ed1" "ed_occasions ed1 = Some os" "ed_duration ed1 = Some d"
    "ed_seenStart ed1 \<noteq> Some v" "ed_stamped ed1 = Some (occasion_ids ed1, ed_visibility ed1, ed_shareable ed1)"
    using assms(1,3,5,8,9) assms(5) [symmetric]
    by (simp_all add: ed1_def selectOccasion_def setEditingOccasion_def occasion_ids_def)
  obtain ed2 ed3 where r: "render env ed1 = Inr ed2" "render env ed2 = Inr ed3" "render env ed3 = Inr ed'"
    using assms(10) by (auto simp: settle_def bind_result_eq_Inr ed1_def)
  have sees: "ed_setterSees (memoed env ed1) = Some os" using ed1 by (simp add: recreate_callbacks_def)
  have "stamp_effect (env_withShareable env) (memoed env ed1) = Inr (memoed env ed1)"
    using ed1(6) by (simp add: stamp_effect_def occasion_ids_def)
  then have "times_effect (env_parse env) (env_print env) (env_store env) (memoed env ed1) = Inr ed2"
    using r(1) by (simp add: render_eq)
  moreover have "eo_startsAt i \<noteq> ed_seenStart (memoed env ed1) \<and> truthy (eo_startsAt i) \<and> d \<noteq> 0"
    using ed1(5) not_sym [OF ed1(5)] assms(4,6,7) by (simp add: truthy_def)
  then obtain y z where "times_effect (env_parse env) (env_print env) (env_store env) (memoed env ed1) =
      setEndTime (env_store env) (env_print env (map_option (\<lambda>s. s + d * 60000) (Option.bind (eo_startsAt i) (env_parse env))))
        ((memoed env ed1)\<lparr>ed_seenStart := eo_startsAt i, ed_seenEnd := y, ed_duration := z\<rparr>)"
    using times_fires [of "memoed env ed1" i d "env_parse env" "env_print env" "env_store env"] ed1(1,4) by auto
  ultimately have "updateEditingOccasion (Some os) (Some i) (i\<lparr>eo_endsAt := ?e\<rparr>)
      ((memoed env ed1)\<lparr>ed_seenStart := Some v, ed_seenEnd := y, ed_duration := z\<rparr>) = Inr ed2"
    using ed1(1) sees assms(6) by (simp add: setEndTime_def)
  from updated_list [OF this] have ed2: "ed_editingOccasion ed2 = Some (i\<lparr>eo_endsAt := ?e\<rparr>)" "ed_seenStart ed2 = Some v"
    "ed_occasions ed2 = Some (map (\<lambda>j. if eo_id j = eo_id i then i\<lparr>eo_endsAt := ?e\<rparr> else j) os)"
    by (simp_all add: setEditingOccasion_def setEditedOccasions_def)
  define os2 where "os2 = map (\<lambda>j. if eo_id j = eo_id i then i\<lparr>eo_endsAt := ?e\<rparr> else j) os"
  have "eo_id ` set os2 = eo_id ` set os"
    using updated_image [of "i\<lparr>eo_endsAt := ?e\<rparr>" os] by (simp add: os2_def del: set_map)
  moreover have "\<forall>j \<in> set os2. eo_id j = eo_id i \<longrightarrow> eo_endsAt j = ?e" by (auto simp: os2_def)
  ultimately have "ended (eo_id i) (Some v) ?e ed2"
    using assms(2,6) by (simp add: ended_def ed2 os2_def [symmetric])
  then have "ended (eo_id i) (Some v) ?e ed'" using ended_render r(2,3) by blast
  then show ?thesis by (simp add: ended_def)
qed

text \<open>An editor with the first of two occasions open, which lasts an hour; the second lasts a minute.\<close>

definition opened_editor :: event_editor where
  "opened_editor =
     (open_editor 0 Visibility_LIMITED True [sample_edited ''a'' 0 60, sample_edited ''b'' 5 6])
       \<lparr>ed_editing := True, ed_stamped := Some (Some ''a,b'', Visibility_LIMITED, True),
        ed_editingOccasion := Some (edited_of (sample_edited ''a'' 0 60)), ed_duration := Some 60,
        ed_seenStart := io_startsAt (sample_edited ''a'' 0 60), ed_seenEnd := io_endsAt (sample_edited ''a'' 0 60)\<rparr>"

lemma opened_ids: "ids_ok None opened_editor"
  by (simp add: opened_editor_def ids_ok_def fine_list_def open_editor_def own_ids_def repeated_ids_def edited_of_def
      sample_edited_def unsynchronized_def)

theorem opened_occasion_overwritten_witness:
  "\<exists>ed' os'. edit_run sample_env opened_editor [Select_occasion (edited_of (sample_edited ''b'' 5 6))] = Inr ed' \<and>
     ed_occasions ed' = Some os' \<and>
     (\<forall>j \<in> set os'. eo_id j = ''b'' \<longrightarrow> eo_endsAt j = Some (stroke_print (Some 3900000)))"
proof -
  let ?i = "edited_of (sample_edited ''b'' 5 6)"
  have read: "stroke_parse (stroke_print (Some 300000)) = Some 300000" "stroke_print (Some 300000) \<noteq> []"
    "stroke_parse (stroke_print (Some 0)) = Some 0"
    using stroke_read [of 300000] stroke_read [of 0] by simp_all
  then have "stroke_print (Some 0) \<noteq> stroke_print (Some 300000)" by (metis option.inject zero_neq_numeral)
  moreover obtain ed' where "edit_run sample_env opened_editor [Select_occasion ?i] = Inr ed'"
    using ids_ok_runs [OF opened_ids, of "[Select_occasion ?i]" sample_env] by (auto simp: repeats_def answer_fine_def)
  ultimately show ?thesis
    using opened_occasion_overwritten [of opened_editor "map edited_of [sample_edited ''a'' 0 60, sample_edited ''b'' 5 6]"
      ?i 60 "stroke_print (Some 300000)" sample_env ed'] read
    by (auto simp: opened_editor_def open_editor_def edited_of_def sample_edited_def sample_env_def occasion_ids_def
        simp del: edit_run.simps)
qed

definition added_editor :: event_editor where
  "added_editor = open_editor 0 Visibility_LIMITED True [sample_edited ''a'' 0 60]"


text \<open>
  an occasion that is added and then moved is sent without a post, and so without the
  visibility of the event: the effect gives a post to the one in the list, and moving it puts the open one, which has none,
  in its place.
\<close>

theorem added_occasion_sent_bare:
  assumes "ed_occasions ed = Some os" "ed_duration ed = Some 0" "\<not> ed_savingEdits ed"
    and "edit_run env ed [Add_occasion now later, Set_start v] = Inr ed'"
  shows "\<exists>sent i. snd (saveEdits ed') = Some (Some sent) \<and> i \<in> set sent \<and> eo_id i = unsynchronized (ed_newEventId ed) \<and>
    eo_startsAt i = Some (env_store env v) \<and> eo_post i = None"
proof -
  define i where "i = \<lparr>eo_id = unsynchronized (ed_newEventId ed), eo_post = None, eo_startsAt = Some now,
    eo_endsAt = Some later, eo_rest = []\<rparr>"
  obtain ed1 ed2 ed3 where e: "addOccasion now later ed = Inr ed1" "settle env ed1 = Inr ed2"
    "setStartTime (env_store env) v ed2 = Inr ed3" "settle env ed3 = Inr ed'"
    using assms(4) by (auto simp: bind_result_eq_Inr)
  have "ed_editingOccasion ed1 = Some i" "ed_opened ed1" "ed_occasions ed1 = Some (i # os)" "ed_duration ed1 = Some 0"
    "\<not> ed_savingEdits ed1"
    using e(1) assms(1-3) by (auto simp: addOccasion_def i_def Let_def setEditedOccasions_def setEditingOccasion_def)
  from opened_at_rest [OF this e(2)] have ed2: "come_to_rest i (i # os) ed2" .
  then have "updateEditingOccasion (Some (i # os)) (Some i) (i\<lparr>eo_startsAt := Some (env_store env v)\<rparr>) ed2 = Inr ed3"
    using e(3) by (simp add: come_to_rest_def at_rest_def setStartTime_def)
  note up = this updated_list [OF this]
  have "holding False (\<lambda>t. eo_startsAt t = Some (env_store env v) \<and> eo_post t = None) (eo_id i) ed3"
    by (rule updated_holding [OF up(1)]) (use ed2 in \<open>auto simp: i_def come_to_rest_def\<close>)
  then have "holding False (\<lambda>t. eo_startsAt t = Some (env_store env v) \<and> eo_post t = None) (eo_id i) ed'"
    by (rule settle_keeps [OF e(4)]) (erule (1) holding_render, simp_all)
  moreover have "\<not> ed_savingEdits ed3"
    using up(2) ed2 by (simp add: come_to_rest_def setEditingOccasion_def setEditedOccasions_def)
  then have "\<not> ed_savingEdits ed'"
    by (rule settle_keeps [OF e(4)]) (simp add: render_saving)
  moreover obtain sent k where "ed_occasions ed' = Some sent" "k \<in> set sent" "eo_id k = eo_id i"
    "eo_startsAt k = Some (env_store env v)" "eo_post k = None"
    using calculation(1) by (auto simp: holding_def)
  ultimately show ?thesis by (auto simp: saveEdits_def i_def)
qed

theorem added_occasion_sent_bare_witness:
  "\<exists>ed' sent i. edit_run sample_env added_editor [Add_occasion ''x'' ''xxx'', Set_start ''xx''] = Inr ed' \<and>
     snd (saveEdits ed') = Some (Some sent) \<and> i \<in> set sent \<and> eo_post i = None"
proof -
  have "ids_ok None added_editor"
    unfolding added_editor_def by (rule ids_ok_open) (simp_all add: sample_edited_def unsynchronized_def)
  then obtain ed' where "edit_run sample_env added_editor [Add_occasion ''x'' ''xxx'', Set_start ''xx''] = Inr ed'"
    using ids_ok_runs [of None added_editor "[Add_occasion ''x'' ''xxx'', Set_start ''xx'']" sample_env]
    by (auto simp: repeats_def answer_fine_def simp del: edit_run.simps)
  with added_occasion_sent_bare [OF _ _ _ this] show ?thesis
    by (auto simp: added_editor_def open_editor_def)
qed



text \<open>
  C29: changing the place of an occasion after its start has been moved moves it back:
  \<open>setCurrentOccasionLocation\<close> keeps the occasion as it was when it was opened.
\<close>

theorem place_resets_start:
  assumes "at_rest i ss ed" "ed_placeSees ed = (Some i, Some ps)" "eo_id i \<in> eo_id ` set ps"
    and "edit_run env ed [Set_start v, Set_place f] = Inr ed'"
  shows "\<exists>t os'. ed_editingOccasion ed' = Some t \<and> eo_startsAt t = eo_startsAt i \<and> ed_occasions ed' = Some os' \<and>
    eo_id i \<in> eo_id ` set os' \<and> (\<forall>j \<in> set os'. eo_id j = eo_id i \<longrightarrow> eo_startsAt j = eo_startsAt i)"
proof -
  obtain ed1 ed2 ed3 where e: "setStartTime (env_store env) v ed = Inr ed1" "settle env ed1 = Inr ed2"
    "setCurrentOccasionLocation f ed2 = Inr ed3" "settle env ed3 = Inr ed'"
    using assms(4) by (auto simp: bind_result_eq_Inr)
  have "updateEditingOccasion (Some ss) (Some i) (i\<lparr>eo_startsAt := Some (env_store env v)\<rparr>) ed = Inr ed1"
    using e(1) assms(1) by (simp add: at_rest_def setStartTime_def)
  from updated_list [OF this] have "placed i ps ed1"
    using assms(2) by (simp add: placed_def setEditingOccasion_def setEditedOccasions_def)
  from settle_keeps [where P = "placed i ps", OF e(2) this placed_render]
  have "updateEditingOccasion (Some ps) (Some i) (i\<lparr>eo_rest := f (eo_rest i)\<rparr>) ed2 = Inr ed3"
    using e(3) by (simp add: placed_def setCurrentOccasionLocation_def)
  then have "holding True (\<lambda>t. eo_startsAt t = eo_startsAt i) (eo_id i) ed3"
    by (rule updated_holding) (use assms(3) in auto)
  then have "holding True (\<lambda>t. eo_startsAt t = eo_startsAt i) (eo_id i) ed'"
    by (rule settle_keeps [OF e(4)]) (erule (1) holding_render, simp_all)
  then show ?thesis by (auto simp: holding_def)
qed

theorem place_resets_start_witness:
  "\<exists>ed' t. edit_run sample_env
       (opened_editor\<lparr>ed_placeSees := (ed_editingOccasion opened_editor, ed_occasions opened_editor)\<rparr>)
       [Set_start ''xx'', Set_place (\<lambda>_. ''here'')] = Inr ed' \<and>
     ed_editingOccasion ed' = Some t \<and> eo_startsAt t = io_startsAt (sample_edited ''a'' 0 60)"
proof -
  let ?ed = "opened_editor\<lparr>ed_placeSees := (ed_editingOccasion opened_editor, ed_occasions opened_editor)\<rparr>"
  have "ids_ok None ?ed" by (rule ids_ok_cong [OF opened_ids]) simp_all
  then obtain ed' where "edit_run sample_env ?ed [Set_start ''xx'', Set_place (\<lambda>_. ''here'')] = Inr ed'"
    using ids_ok_runs [of None ?ed "[Set_start ''xx'', Set_place (\<lambda>_. ''here'')]" sample_env]
    by (auto simp: repeats_def answer_fine_def simp del: edit_run.simps)
  with place_resets_start [OF _ _ _ this, of "edited_of (sample_edited ''a'' 0 60)"
      "map edited_of [sample_edited ''a'' 0 60, sample_edited ''b'' 5 6]"
      "map edited_of [sample_edited ''a'' 0 60, sample_edited ''b'' 5 6]"]
  show ?thesis
    by (auto simp: opened_editor_def open_editor_def at_rest_def edited_of_def simp del: edit_run.simps)
qed

text \<open>
  C34: after a save that failed there is no list of occasions any more on a card without a callback, and the
  effects throw; on the screen of one event the callback throws before, and the card stays as it was, open for editing.
\<close>

theorem failed_save_throws:
  assumes "\<forall>visibility shareable. ed_stamped ed \<noteq> Some (None, visibility, shareable)"
  shows "settle env (edits_answered None None ed) = Inl TypeError \<and>
    edits_answered (Some (onOccasionsUpdated_details isPast here eventHost occasionId)) None ed = ed"
proof
  define ed1 where "ed1 = repeat_memo env (recreate_callbacks (edits_answered None None ed))"
  have "ed_occasions ed1 = None" "ed_stamped ed1 = ed_stamped ed"
    by (auto simp: ed1_def repeat_memo_def recreate_callbacks_def edits_answered_def setEditedOccasions_def Let_def
        split: option.split)
  moreover have "Some (occasion_ids ed1, ed_visibility ed1, ed_shareable ed1) \<noteq> ed_stamped ed"
    using assms calculation(1) by (metis occasion_ids_def option.map(1))
  ultimately show "settle env (edits_answered None None ed) = Inl TypeError"
    by (simp add: settle_def render_def ed1_def [symmetric] Let_def stamp_effect_def)
  show "edits_answered (Some (onOccasionsUpdated_details isPast here eventHost occasionId)) None ed = ed"
    by (simp add: edits_answered_def onOccasionsUpdated_details_def)
qed

theorem failed_save_throws_witness:
  "settle sample_env (edits_answered None None opened_editor) = Inl TypeError \<and>
    edits_answered (Some (onOccasionsUpdated_details (\<lambda>_. False) True ''b.org'' (Some ''a''))) None opened_editor = opened_editor"
  by (rule failed_save_throws) (simp add: opened_editor_def)

text \<open>
  Repeating again, with nothing changed in between, adds the same occasions once more: the memo of the weekly occasions does
  not depend on the list they are added to.
\<close>

definition repeating :: "editor_env \<Rightarrow> edited_occasion \<Rightarrow> edited_occasion list \<Rightarrow> string list \<Rightarrow> string list \<Rightarrow> event_editor \<Rightarrow> bool" where
  "repeating env i ss is rs ed \<longleftrightarrow> at_rest i ss ed \<and> map_option (map eo_id) (ed_occasions ed) = Some is \<and> repeated_ids ed = rs \<and>
     (\<exists>place. (\<forall>e. ed_editingOccasion e = Some i \<longrightarrow> env_location env e = place) \<and>
       ed_memo ed = Some (ed_repeatWeeks ed, eo_startsAt i, eo_endsAt i, env_address env place))"

lemma stamped_more:
  assumes "stamp_effect sh ed = Inr ed'"
  shows "map_option (map eo_id) (ed_occasions ed') = map_option (map eo_id) (ed_occasions ed)" "ed_memo ed' = ed_memo ed"
    "ed_repeated ed' = ed_repeated ed" "ed_repeatWeeks ed' = ed_repeatWeeks ed"
  using assms by (auto simp: stamp_effect_def Let_def bind_result_eq_Inr deref_eq_Inr setEditedOccasions_def comp_def split: if_splits)

lemma repeating_render:
  assumes "repeating env i ss is rs ed" "render env ed = Inr ed'"
  shows "repeating env i ss is rs ed'"
proof -
  obtain ed1 where ed1: "stamp_effect (env_withShareable env) (memoed env ed) = Inr ed1"
    "times_effect (env_parse env) (env_print env) (env_store env) ed1 = Inr ed'"
    using assms(2) by (auto simp: render_eq bind_result_eq_Inr)
  have "memoed env ed = recreate_callbacks ed"
    using assms(1) by (auto simp: memoed_def repeat_memo_def Let_def repeating_def at_rest_def recreate_callbacks_def)
  then have m: "repeating env i ss is rs (memoed env ed)"
    using assms(1) by (auto simp: repeating_def at_rest_def recreate_callbacks_def repeated_ids_def)
  have "repeating env i ss is rs ed1"
    using m stamped_ids [OF ed1(1)] stamped_more [OF ed1(1)] by (simp add: repeating_def at_rest_def repeated_ids_def)
  with ed1(2) show ?thesis
    by (rule_tac times_cases [OF ed1(2)]) (auto simp: repeating_def at_rest_def repeated_ids_def)
qed

theorem repeated_twice_duplicates:
  assumes "repeating env i ss is rs ed" "edit_run env ed [Repeat_occasions, Repeat_occasions] = Inr ed'"
  shows "map_option (map eo_id) (ed_occasions ed') = Some (is @ rs @ rs)"
proof -
  have step: "repeating env i ss (is' @ rs) rs e'" if h: "repeating env i ss is' rs e"
    "bind_result (doRepeatOccasion e) (settle env) = Inr e'" for is' e e'
  proof -
    obtain e1 where e1: "doRepeatOccasion e = Inr e1" "settle env e1 = Inr e'"
      using h(2) by (auto simp: bind_result_eq_Inr)
    have "repeating env i ss (is' @ rs) rs e1"
      using h(1) e1(1) by (auto simp: repeating_def at_rest_def doRepeatOccasion_def bind_result_eq_Inr deref_eq_Inr
          setEditedOccasions_def repeated_ids_def)
    from settle_keeps [where P = "repeating env i ss (is' @ rs) rs", OF e1(2) this repeating_render] show ?thesis .
  qed
  obtain e where e: "bind_result (doRepeatOccasion ed) (settle env) = Inr e"
    "bind_result (doRepeatOccasion e) (settle env) = Inr ed'"
    using assms(2) by (auto simp: bind_result_eq_Inr)
  show ?thesis using step [OF step [OF assms(1) e(1)] e(2)] by (simp add: repeating_def)
qed

end
