(* ===== verification/Star_Button.thy ===== *)
theory Star_Button
  imports Config
begin

text \<open>
  The stars of a post (features/post/star_button.tsx).  Every button of the post reads whether the post is starred from the
  configuration, which a press changes at once; a while after the last change its timer fires and the button tells the
  server.  It does so through the client the last render has found in the cache; without one the call is left out, and
  without a server nothing is done.
\<close>

section \<open>The buttons of a post\<close>

record star_button =
  firstStarred :: bool
  pendingStarChange :: bool

record star_world =
  sw_config :: config
  sw_buttons :: "star_button list"
  sw_changes :: "(nat \<times> bool \<times> bool) list"  \<comment> \<open>the button, whether it starred, and whether the call was sent, in order\<close>
  sw_before :: "bool list"  \<comment> \<open>how the post was when the button appeared\<close>

definition starred :: "string \<Rightarrow> config \<Rightarrow> bool" where
  "starred postId cfg = (case starredPostIds cfg of None \<Rightarrow> False | Some found \<Rightarrow> postId \<in> set found)"

definition mount :: "string \<Rightarrow> config \<Rightarrow> star_button" where
  "mount postId cfg = \<lparr>firstStarred = starred postId cfg, pendingStarChange = starred postId cfg\<rparr>"

definition onPress :: "string \<Rightarrow> config \<Rightarrow> config result" where
  "onPress postId cfg = (if starred postId cfg then unstarPost postId cfg else starPost postId cfg)"

text \<open>What a render finds: no server of the post, no client of the server, or both.\<close>

datatype link = No_server | No_client | Client

text \<open>
  The effect of a debounced value that has changed: the button after it, the change it makes and whether a call is sent.
\<close>

definition star_effect :: "link \<Rightarrow> bool \<Rightarrow> star_button \<Rightarrow> star_button \<times> (bool \<times> bool) option" where
  "star_effect link isStarred b =
     (if link = No_server \<or> firstStarred b = isStarred then (b, None)
      else (b\<lparr>firstStarred := pendingStarChange b\<rparr>, Some (pendingStarChange b, link = Client)))"

definition star_timer :: "link \<Rightarrow> bool \<Rightarrow> star_button \<Rightarrow> star_button \<times> (bool \<times> bool) option" where
  "star_timer link isStarred b =
     (if pendingStarChange b = isStarred then (b, None)
      else star_effect link isStarred (b\<lparr>pendingStarChange := isStarred\<rparr>))"

definition fire :: "link \<Rightarrow> string \<Rightarrow> nat \<Rightarrow> star_world \<Rightarrow> star_world" where
  "fire link postId k w =
     (case star_timer link (starred postId (sw_config w)) (sw_buttons w ! k) of
        (b, change) \<Rightarrow> w\<lparr>sw_buttons := (sw_buttons w)[k := b],
          sw_changes := sw_changes w @ (case change of None \<Rightarrow> [] | Some (v, sent) \<Rightarrow> [(k, v, sent)])\<rparr>)"

text \<open>What happens to the post: presses of any button, timers with what the render has found, and cards that appear.\<close>

datatype star_event = Pressed | Fired nat link | Mounted

inductive star_step :: "string \<Rightarrow> star_world \<Rightarrow> star_event \<Rightarrow> star_world \<Rightarrow> bool" for postId where
  Press: "onPress postId (sw_config w) = Inr cfg \<Longrightarrow> star_step postId w Pressed (w\<lparr>sw_config := cfg\<rparr>)"
| Timer: "k < length (sw_buttons w) \<Longrightarrow> star_step postId w (Fired k link) (fire link postId k w)"
| Mount: "star_step postId w Mounted
    (w\<lparr>sw_buttons := sw_buttons w @ [mount postId (sw_config w)], sw_before := sw_before w @ [starred postId (sw_config w)]\<rparr>)"

inductive star_reachable :: "string \<Rightarrow> config \<Rightarrow> star_event list \<Rightarrow> star_world \<Rightarrow> bool" for postId cfg where
  Start: "star_reachable postId cfg [] \<lparr>sw_config = cfg, sw_buttons = [], sw_changes = [], sw_before = []\<rparr>"
| Step: "star_reachable postId cfg evs w \<Longrightarrow> star_step postId w ev w' \<Longrightarrow> star_reachable postId cfg (evs @ [ev]) w'"


section \<open>What a button has told the server\<close>

definition changes_of :: "nat \<Rightarrow> star_world \<Rightarrow> bool list" where
  "changes_of k w = map (\<lambda>(j, v, sent). v) (filter (\<lambda>(j, v, sent). j = k) (sw_changes w))"

definition calls_of :: "nat \<Rightarrow> star_world \<Rightarrow> bool list" where
  "calls_of k w = map (\<lambda>(j, v, sent). v) (filter (\<lambda>(j, v, sent). j = k \<and> sent) (sw_changes w))"

text \<open>A list of calls that alternate, after the state \<open>b\<close>; and the state the server has after them.\<close>

fun alternates :: "bool \<Rightarrow> bool list \<Rightarrow> bool" where
  "alternates b [] \<longleftrightarrow> True"
| "alternates b (v # vs) \<longleftrightarrow> v = (\<not> b) \<and> alternates v vs"

definition told :: "bool \<Rightarrow> bool list \<Rightarrow> bool" where
  "told b vs = (if vs = [] then b else last vs)"

lemma alternates_snoc: "alternates b (vs @ [v]) \<longleftrightarrow> alternates b vs \<and> v = (\<not> told b vs)"
  by (induction vs arbitrary: b) (auto simp: told_def)

text \<open>A button at rest has made the change it shows as pending; without a missing client every change is a call.\<close>

definition star_ok :: "star_world \<Rightarrow> bool" where
  "star_ok w \<longleftrightarrow> length (sw_before w) = length (sw_buttons w) \<and> (\<forall>(k, v, sent) \<in> set (sw_changes w). k < length (sw_buttons w)) \<and>
     (\<forall>k < length (sw_buttons w).
       firstStarred (sw_buttons w ! k) = pendingStarChange (sw_buttons w ! k) \<and>
       alternates (sw_before w ! k) (changes_of k w) \<and>
       told (sw_before w ! k) (changes_of k w) = firstStarred (sw_buttons w ! k))"

lemma fire_effect:
  assumes "k < length (sw_buttons w)" "link \<noteq> No_server"
    and "firstStarred (sw_buttons w ! k) = pendingStarChange (sw_buttons w ! k)"
  shows "fire link postId k w =
    (if pendingStarChange (sw_buttons w ! k) = starred postId (sw_config w) then w
     else w\<lparr>sw_buttons := (sw_buttons w)[k := \<lparr>firstStarred = starred postId (sw_config w),
              pendingStarChange = starred postId (sw_config w)\<rparr>],
            sw_changes := sw_changes w @ [(k, starred postId (sw_config w), link = Client)]\<rparr>)"
proof (cases "pendingStarChange (sw_buttons w ! k) = starred postId (sw_config w)")
  case True
  then show ?thesis by (simp add: fire_def star_timer_def)
next
  case False
  then show ?thesis
    using assms by (cases "sw_buttons w ! k") (simp add: fire_def star_timer_def star_effect_def)
qed

lemma star_ok_fire:
  assumes "star_ok w" "k < length (sw_buttons w)" "link \<noteq> No_server"
  shows "star_ok (fire link postId k w)"
proof -
  have k: "firstStarred (sw_buttons w ! k) = pendingStarChange (sw_buttons w ! k)"
    "alternates (sw_before w ! k) (changes_of k w)"
    "told (sw_before w ! k) (changes_of k w) = firstStarred (sw_buttons w ! k)"
    using assms(1,2) by (auto simp: star_ok_def)
  show ?thesis
    using assms(1,2) k unfolding fire_effect [OF assms(2,3) k(1)]
    by (auto simp: star_ok_def changes_of_def nth_list_update alternates_snoc told_def)
qed

definition served :: "star_event \<Rightarrow> bool" where
  "served ev \<longleftrightarrow> (\<forall>k. ev \<noteq> Fired k No_server)"

lemma star_ok_reachable:
  "star_reachable postId cfg evs w \<Longrightarrow> list_all served evs \<Longrightarrow> star_ok w"
proof (induction rule: star_reachable.induct)
  case (Step evs w ev w')
  then have ok: "star_ok w" by simp
  from Step.hyps(2) show ?case
  proof cases
    case (Press cfg)
    then show ?thesis using ok by (simp add: star_ok_def changes_of_def)
  next
    case (Timer k link)
    then show ?thesis using star_ok_fire [OF ok] Step.prems by (auto simp: served_def)
  next
    case Mount
    have "changes_of (length (sw_buttons w)) w = []"
      using ok by (auto simp: star_ok_def changes_of_def filter_empty_conv)
    then show ?thesis
      using ok Mount by (auto simp: star_ok_def nth_append changes_of_def mount_def told_def less_Suc_eq)
  qed
qed (simp add: star_ok_def)

text \<open>With a client at every timer every change is a call.\<close>

lemma calls_reachable:
  "star_reachable postId cfg evs w \<Longrightarrow> (\<forall>j link. Fired j link \<in> set evs \<longrightarrow> link = Client) \<Longrightarrow>
   (\<forall>(j, v, sent) \<in> set (sw_changes w). sent)"
proof (induction rule: star_reachable.induct)
  case (Step evs w ev w')
  from Step.hyps(2) show ?case
  proof cases
    case (Timer k link)
    then have "link = Client" using Step.prems by auto
    then show ?thesis
      using Step.IH Step.prems Timer by (auto simp: fire_def star_timer_def star_effect_def split: prod.splits if_splits)
  qed (use Step in auto)
qed simp

lemma all_sent_calls:
  "(\<forall>(j, v, sent) \<in> set (sw_changes w). sent) \<Longrightarrow> calls_of k w = changes_of k w"
  unfolding calls_of_def changes_of_def by (intro arg_cong [where f = "map _"] filter_cong) auto


lemma press_toggles: "onPress postId cfg = Inr cfg' \<Longrightarrow> starred postId cfg' = (\<not> starred postId cfg)"
  by (auto simp: onPress_def starPost_def unstarPost_def starred_def bind_result_eq_Inr deref_def split: if_splits option.splits)


section \<open>What the buttons promise, and what they do not\<close>

text \<open>
  C16: Over any presses and timers and cards that appear, as long as the server of the post is known, the
  changes a button makes alternate between starring and unstarring, beginning with the opposite of how the post was when the
  button appeared, and once its timer has fired after the last press the last of them is what the user sees.  The calls are
  the changes that were made with a client in the cache: all of them if there always was one.
\<close>

theorem star_calls_alternate:
  assumes "star_reachable postId cfg evs w" "list_all served evs" "k < length (sw_buttons w)" "link \<noteq> No_server"
  shows "alternates (sw_before w ! k) (changes_of k w) \<and>
    told (sw_before w ! k) (changes_of k (fire link postId k w)) = starred postId (sw_config w) \<and>
    ((\<forall>j l. Fired j l \<in> set evs \<longrightarrow> l = Client) \<longrightarrow> calls_of k w = changes_of k w \<and>
       (link = Client \<longrightarrow> told (sw_before w ! k) (calls_of k (fire link postId k w)) = starred postId (sw_config w)))"
proof -
  have ok: "star_ok w" using star_ok_reachable [OF assms(1,2)] .
  have k: "firstStarred (sw_buttons w ! k) = pendingStarChange (sw_buttons w ! k)"
    "alternates (sw_before w ! k) (changes_of k w)"
    "told (sw_before w ! k) (changes_of k w) = firstStarred (sw_buttons w ! k)"
    using ok assms(3) by (auto simp: star_ok_def)
  have told: "told (sw_before w ! k) (changes_of k (fire link postId k w)) = starred postId (sw_config w)"
    using k unfolding fire_effect [OF assms(3,4) k(1)] by (auto simp: changes_of_def told_def)
  have "calls_of k w = changes_of k w \<and> (link = Client \<longrightarrow> calls_of k (fire link postId k w) = changes_of k (fire link postId k w))"
    if "\<forall>j l. Fired j l \<in> set evs \<longrightarrow> l = Client"
  proof -
    have "\<forall>(j, v, sent) \<in> set (sw_changes w). sent" using calls_reachable [OF assms(1) that] .
    moreover from this have "\<forall>(j, v, sent) \<in> set (sw_changes (fire Client postId k w)). sent"
      by (auto simp: fire_def star_timer_def star_effect_def split: prod.splits if_splits)
    ultimately show ?thesis using all_sent_calls by metis
  qed
  with k(2) told show ?thesis by auto
qed

definition unstarred_config :: config where
  "unstarred_config = initial_config ''web'' False"

text \<open>A post with \<open>n\<close> cards.\<close>

definition cards :: "string \<Rightarrow> nat \<Rightarrow> config \<Rightarrow> star_world" where
  "cards postId n cfg =
     \<lparr>sw_config = cfg, sw_buttons = replicate n (mount postId cfg), sw_changes = [], sw_before = replicate n (starred postId cfg)\<rparr>"

lemma cards_reachable: "star_reachable postId cfg (replicate n Mounted) (cards postId n cfg)"
proof (induction n)
  case (Suc n)
  from star_reachable.Step [OF Suc star_step.Mount] show ?case
    by (simp add: cards_def replicate_append_same)
qed (use star_reachable.Start in \<open>simp add: cards_def\<close>)

theorem star_calls_alternate_witness:
  "told False (calls_of 0 (fire Client ''p@h'' 0 ((cards ''p@h'' 1 unstarred_config)
       \<lparr>sw_config := unstarred_config\<lparr>starredPostIds := Some [''p@h'']\<rparr>\<rparr>)))"
proof -
  have "star_reachable ''p@h'' unstarred_config (replicate 1 Mounted @ [Pressed]) ((cards ''p@h'' 1 unstarred_config)
      \<lparr>sw_config := unstarred_config\<lparr>starredPostIds := Some [''p@h'']\<rparr>\<rparr>)"
    by (rule star_reachable.Step [OF cards_reachable], rule star_step.Press)
      (simp add: onPress_def starred_def cards_def unstarred_config_def initial_config_def starPost_def)
  from star_calls_alternate [OF this, of 0 Client] show ?thesis
    by (simp add: starred_def served_def cards_def unstarred_config_def initial_config_def)
qed

text \<open>
  a star that is given while there is no client in the cache never reaches the server: the button takes
  it for told, and the next thing it tells is that the post is not starred any more.
\<close>

theorem skipped_star_lost:
  assumes "onPress postId cfg = Inr cfg1" "onPress postId cfg1 = Inr cfg2"
  shows "let w1 = fire No_client postId 0 ((cards postId 1 cfg)\<lparr>sw_config := cfg1\<rparr>);
      w2 = fire Client postId 0 (w1\<lparr>sw_config := cfg2\<rparr>)
    in (\<forall>link. fire link postId 0 w1 = w1) \<and> calls_of 0 w1 = [] \<and> calls_of 0 w2 = [starred postId cfg]"
  using press_toggles [OF assms(1)] press_toggles [OF assms(2)]
  by (simp add: fire_def star_timer_def star_effect_def mount_def cards_def calls_of_def Let_def)

theorem skipped_star_lost_witness:
  "calls_of 0 (fire No_client ''p@h'' 0 ((cards ''p@h'' 1 unstarred_config)
     \<lparr>sw_config := unstarred_config\<lparr>starredPostIds := Some [''p@h'']\<rparr>\<rparr>)) = []"
  using skipped_star_lost [of "''p@h''" unstarred_config "unstarred_config\<lparr>starredPostIds := Some [''p@h'']\<rparr>"]
  by (simp add: onPress_def starred_def unstarred_config_def initial_config_def starPost_def unstarPost_def Let_def)

text \<open>
  when a post is shown by several cards, one press makes the button of every one of them tell the
  server, which counts the star as often as the post is shown.
\<close>

theorem every_button_calls:
  assumes "onPress postId cfg = Inr cfg'"
  shows "sw_changes (foldl (\<lambda>w k. fire Client postId k w) ((cards postId n cfg)\<lparr>sw_config := cfg'\<rparr>) [0..<n]) =
    map (\<lambda>k. (k, \<not> starred postId cfg, True)) [0..<n]"
proof -
  have toggled: "starred postId cfg' = (\<not> starred postId cfg)"
    using press_toggles [OF assms] .
  let ?w = "(cards postId n cfg)\<lparr>sw_config := cfg'\<rparr>"
  have "m \<le> n \<Longrightarrow> (let w = foldl (\<lambda>w k. fire Client postId k w) ?w [0..<m]
      in sw_changes w = map (\<lambda>k. (k, \<not> starred postId cfg, True)) [0..<m] \<and> sw_config w = cfg' \<and>
         (\<forall>k. m \<le> k \<and> k < n \<longrightarrow> sw_buttons w ! k = mount postId cfg))" for m
  proof (induction m)
    case (Suc m)
    then show ?case
      using toggled by (auto simp: Let_def fire_def star_timer_def star_effect_def mount_def)
  qed (simp add: cards_def Let_def)
  from this [of n] show ?thesis by (simp add: Let_def)
qed

theorem every_button_calls_witness:
  "sw_changes (foldl (\<lambda>w k. fire Client ''p@h'' k w) ((cards ''p@h'' 3 unstarred_config)
     \<lparr>sw_config := unstarred_config\<lparr>starredPostIds := Some [''p@h'']\<rparr>\<rparr>) [0..<3]) = [(0, True, True), (1, True, True), (2, True, True)]"
  using every_button_calls [of "''p@h''" unstarred_config "unstarred_config\<lparr>starredPostIds := Some [''p@h'']\<rparr>" 3]
  by (simp add: onPress_def starred_def unstarred_config_def initial_config_def starPost_def upt_rec numeral_eq_Suc)

end
