(* ===== verification/Member_Manager.thy ===== *)
theory Member_Manager
  imports Pagination Json
begin

text \<open>
  Members and permissions: the editor of a list of permissions (components/permissions_editor.tsx), the pickers of a
  moderation (components/moderation_picker.tsx), the card that manages the membership of a user
  (features/user/membership_manager.tsx), and what a group's card says of a shared post
  (features/groups/group_post_manager.tsx).  What is drawn is left out.
\<close>

section \<open>Permissions\<close>

text \<open>
  The words of \<open>toTitleCase\<close>: a word starts at a letter, digit or underscore and ends at white space.
\<close>

definition title_char :: "char \<Rightarrow> bool" where
  "title_char c \<longleftrightarrow>
     (let n = of_char c :: nat in n \<in> {48..57} \<or> n \<in> {65..90} \<or> n \<in> {97..122} \<or> n = 95)"

definition title_upper :: "char \<Rightarrow> char" where
  "title_upper c = (let n = of_char c :: nat in if 97 \<le> n \<and> n \<le> 122 then char_of (n - 32) else c)"

fun title_case :: "bool \<Rightarrow> string \<Rightarrow> string" where
  "title_case inWord [] = []"
| "title_case inWord (c # cs) =
     (if inWord then (if white c then c # title_case False cs else char_lower c # title_case True cs)
      else if title_char c then title_upper c # title_case True cs else c # title_case False cs)"

definition permissionName :: "permission \<Rightarrow> string" where
  "permissionName p = title_case False (map (\<lambda>c. if c = CHR ''_'' then CHR '' '' else c) (permissionToJSON p))"

definition permissionDescription :: "permission \<Rightarrow> string option" where
  "permissionDescription p =
     (if p = Permission_ADMIN
      then Some (''Grants access to server configuration and all other permissions, '' @
        ''such as moderation, creation, and publishing of media, posts, and events.'')
      else None)"

definition every_permission :: "permission list" where
  "every_permission = filter (\<lambda>p. p \<noteq> Permission_PERMISSION_UNKNOWN \<and> p \<noteq> Permission_UNRECOGNIZED) (map fst permission_table)"

definition allPermissions :: "permission list option \<Rightarrow> permission list" where
  "allPermissions selectablePermissions = nullish selectablePermissions every_permission"

definition addablePermissions :: "permission list option \<Rightarrow> permission list \<Rightarrow> permission list" where
  "addablePermissions selectablePermissions selected = filter (\<lambda>p. p \<notin> set selected) (allPermissions selectablePermissions)"

text \<open>The two ways a screen keeps the list: a toggle, and the card of a member, which appends.\<close>

definition selectPermission :: "permission \<Rightarrow> permission list \<Rightarrow> permission list" where
  "selectPermission p permissions =
     (if p \<in> set permissions then filter (\<lambda>q. q \<noteq> p) permissions else permissions @ [p])"

definition deselectPermission :: "permission \<Rightarrow> permission list \<Rightarrow> permission list" where
  "deselectPermission p permissions = filter (\<lambda>q. q \<noteq> p) permissions"

text \<open>The names a moderation has in its picker, and the descriptions below it.\<close>

definition moderationName :: "moderation \<Rightarrow> string" where
  "moderationName m =
     (case m of
        Moderation_UNMODERATED \<Rightarrow> ''Unmoderated'' | Moderation_REJECTED \<Rightarrow> ''Rejected''
      | Moderation_APPROVED \<Rightarrow> ''Approved'' | Moderation_PENDING \<Rightarrow> ''Pending'' | _ \<Rightarrow> ''Unknown'')"

definition defaultModerationDescription :: "moderation \<Rightarrow> string option" where
  "defaultModerationDescription m =
     (case m of
        Moderation_UNMODERATED \<Rightarrow> Some ''Not moderated, nor awaiting moderation. Visible to users.''
      | Moderation_REJECTED \<Rightarrow> Some ''Rejected by moderators. Visible only to you.''
      | Moderation_APPROVED \<Rightarrow> Some ''Approved by moderators. Visible to users.''
      | Moderation_PENDING \<Rightarrow> Some ''Awaiting moderation. Visible only to you.''
      | _ \<Rightarrow> None)"

definition pickable_moderations :: "moderation list" where
  "pickable_moderations = [Moderation_APPROVED, Moderation_PENDING, Moderation_REJECTED, Moderation_UNMODERATED]"


section \<open>The membership of a user\<close>

text \<open>The one that came with the user if it is of the group, else the one on the first page of the members.\<close>

definition managed_membership ::
  "groups_state \<Rightarrow> federated_user \<Rightarrow> federated_group option \<Rightarrow> membership option" where
  "managed_membership groups user selectedGroup =
     (case selectedGroup of
        None \<Rightarrow> None
      | Some g \<Rightarrow>
          if serverHostOf user = serverHostOf g
          then (if map_option m_groupId (u_currentGroupMembership (entity user)) = Some (g_id (entity g))
                then u_currentGroupMembership (entity user)
                else Option.bind (groupMembershipPages groups (group_key g))
                  (\<lambda>pages. Option.bind (page_at pages Moderation_MODERATION_UNKNOWN 0)
                    (find (\<lambda>m. m_userId m = u_id (entity user)))))
          else None)"

definition permissions_of :: "user option \<Rightarrow> has_permissions" where
  "permissions_of u = (case u of None \<Rightarrow> NoPermissions | Some u \<Rightarrow> ContainsPermissions (Some (u_permissions u)))"

definition membership_permissions :: "membership option \<Rightarrow> has_permissions" where
  "membership_permissions m = (case m of None \<Rightarrow> NoPermissions | Some m \<Rightarrow> ContainsPermissions (Some (m_permissions m)))"

definition isGroupOrSystemAdmin :: "user option \<Rightarrow> federated_group option \<Rightarrow> bool" where
  "isGroupOrSystemAdmin currentUser selectedGroup \<longleftrightarrow>
     hasPermission (permissions_of currentUser) Permission_ADMIN \<or>
     hasPermission (membership_permissions (Option.bind selectedGroup (\<lambda>g. g_currentUserMembership (entity g))))
       Permission_ADMIN"

definition canEditGroupModeration :: "user option \<Rightarrow> federated_group option \<Rightarrow> bool" where
  "canEditGroupModeration currentUser selectedGroup \<longleftrightarrow>
     isGroupOrSystemAdmin currentUser selectedGroup \<or>
     hasPermission (membership_permissions (Option.bind selectedGroup (\<lambda>g. g_currentUserMembership (entity g))))
       Permission_MODERATE_USERS"

definition isForCurrentUser :: "user option \<Rightarrow> membership option \<Rightarrow> bool" where
  "isForCurrentUser currentUser m \<longleftrightarrow> m \<noteq> None \<and> currentUser \<noteq> None \<and> map_option u_id currentUser = map_option m_userId m"

text \<open>What the card writes into the membership it saves.\<close>

definition select_member_permission :: "permission \<Rightarrow> membership \<Rightarrow> membership" where
  "select_member_permission p m = m\<lparr>m_permissions := m_permissions m @ [p]\<rparr>"

definition deselect_member_permission :: "permission \<Rightarrow> membership \<Rightarrow> membership" where
  "deselect_member_permission p m = m\<lparr>m_permissions := filter (\<lambda>q. q \<noteq> p) (m_permissions m)\<rparr>"

definition choose_user_moderation :: "moderation \<Rightarrow> membership \<Rightarrow> membership" where
  "choose_user_moderation v m = m\<lparr>m_userModeration := v\<rparr>"

definition choose_group_moderation :: "moderation \<Rightarrow> membership \<Rightarrow> membership" where
  "choose_group_moderation v m = m\<lparr>m_groupModeration := v\<rparr>"

definition membershipHeading :: "membership \<Rightarrow> string" where
  "membershipHeading m =
     (let userPasses = passes (Some (m_userModeration m)); groupPasses = passes (Some (m_groupModeration m))
      in if userPasses \<and> groupPasses then ''Member Since''
         else if \<not> userPasses \<and> groupPasses then ''Invited Since''
         else if userPasses \<and> \<not> groupPasses then ''Requsted Membership'' else ''Non-Member Since'')"

text \<open>
  Saving: the membership that is managed is changed and sent, and the answer reaches the groups; a card without a
  membership does nothing.  \<open>serv\<close> is the server.
\<close>

definition saveMembership ::
  "federated_group adapter \<Rightarrow> (membership \<Rightarrow> membership option) \<Rightarrow> rellm_server option \<Rightarrow> federated_user \<Rightarrow>
     federated_group option \<Rightarrow> (membership \<Rightarrow> membership) \<Rightarrow> groups_state \<Rightarrow> groups_state"
where
  "saveMembership A serv server user selectedGroup edit groups =
     (case managed_membership groups user selectedGroup of
        None \<Rightarrow> groups
      | Some m \<Rightarrow>
          (case serv (edit m) of
             None \<Rightarrow> groups
           | Some answer \<Rightarrow> updateMembership_fulfilled A server (m_groupId (edit m)) (Some answer) groups))"


text \<open>
  The card of a member in the list of a group's members: it gets the user as \<open>getMembersPage\<close> makes it, with the membership
  of the page inside, anew with every render.
\<close>

definition member_card ::
  "federated_user adapter \<Rightarrow> users_state \<Rightarrow> federated_group \<Rightarrow> string \<Rightarrow> groups_state \<Rightarrow> federated_user option" where
  "member_card U users g u groups =
     find (\<lambda>fu. u_id (entity fu) = u) (up_users (getMembersPage U users groups (group_key g) 0 None))"

definition card_membership ::
  "federated_user adapter \<Rightarrow> users_state \<Rightarrow> federated_group \<Rightarrow> string \<Rightarrow> groups_state \<Rightarrow> membership option" where
  "card_membership U users g u groups =
     Option.bind (member_card U users g u groups) (\<lambda>user. managed_membership groups user (Some g))"

definition save_from_card ::
  "federated_group adapter \<Rightarrow> (membership \<Rightarrow> membership option) \<Rightarrow> rellm_server option \<Rightarrow> federated_user adapter \<Rightarrow>
     users_state \<Rightarrow> federated_group \<Rightarrow> string \<Rightarrow> groups_state \<Rightarrow> (membership \<Rightarrow> membership) \<Rightarrow> groups_state"
where
  "save_from_card A serv server U users g u groups edit =
     (case member_card U users g u groups of
        None \<Rightarrow> groups
      | Some user \<Rightarrow> saveMembership A serv server user (Some g) edit groups)"


section \<open>Posts shared to groups\<close>

definition useMostRecentGroup :: "string list option \<Rightarrow> federated_group list \<Rightarrow> federated_group option" where
  "useMostRecentGroup recentGroups groups =
     (case List.map_filter (\<lambda>i. find (\<lambda>g. group_key g = i) groups) (nullish recentGroups []) of
        g # _ \<Rightarrow> Some g | [] \<Rightarrow> js_at groups 0)"

definition sharedToSelectedGroup :: "group_post list option \<Rightarrow> federated_group option \<Rightarrow> bool option" where
  "sharedToSelectedGroup groupPostData selectedGroup =
     Option.bind selectedGroup (\<lambda>g.
       map_option (list_ex (\<lambda>gp. gp_groupId gp = g_id (entity g))) groupPostData)"

definition otherGroupCount :: "group_post list option \<Rightarrow> federated_group option \<Rightarrow> nat option" where
  "otherGroupCount groupPostData selectedGroup =
     map_option (\<lambda>gps. length gps - (if sharedToSelectedGroup groupPostData selectedGroup = Some True then 1 else 0))
       groupPostData"

definition canShare :: "federated_group \<Rightarrow> group_post option \<Rightarrow> bool" where
  "canShare g groupPost \<longleftrightarrow>
     groupPost = None \<and> hasPermission (membership_permissions (g_currentUserMembership (entity g))) Permission_CREATE_POSTS"

definition canUnshare :: "user option \<Rightarrow> federated_group \<Rightarrow> group_post option \<Rightarrow> bool" where
  "canUnshare currentUser g groupPost \<longleftrightarrow>
     (case groupPost of
        None \<Rightarrow> False
      | Some gp \<Rightarrow>
          map_option u_id currentUser = Some (gp_userId gp) \<or> hasAdminPermission (permissions_of currentUser) \<or>
          hasAdminPermission (membership_permissions (g_currentUserMembership (entity g))))"

text \<open>Sharing and unsharing are never offered together, and an administrator of the group can always do one of them.\<close>

lemma share_or_unshare: "\<not> (canShare g gp \<and> canUnshare u g gp)"
  by (auto simp: canShare_def canUnshare_def split: option.splits)

lemma group_admin_shares:
  assumes "g_currentUserMembership (entity g) = Some m" "Permission_ADMIN \<in> set (m_permissions m)"
  shows "canShare g gp \<or> canUnshare u g gp"
  using assms
  by (cases gp) (simp_all add: canShare_def canUnshare_def membership_permissions_def hasPermission_def
      has_permission_list_def hasAdminPermission_def has_admin_list_def)


section \<open>Editing permissions\<close>

lemma every_permission_set:
  "set every_permission = UNIV - {Permission_PERMISSION_UNKNOWN, Permission_UNRECOGNIZED}"
  unfolding every_permission_def UNIV_permission by (auto simp: permission_table_def)

lemma distinct_select: "distinct ps \<Longrightarrow> distinct (selectPermission p ps)"
  by (simp add: selectPermission_def)


section \<open>What the card of a member promises\<close>

text \<open>The members that are stored, after one of them has been saved.\<close>

lemma saved_members:
  assumes "groupMembershipPages gs k = Some pages" "page_at pages Moderation_MODERATION_UNKNOWN 0 = Some ms"
    and "federateId (m_groupId m) (FederatedAction sv) = k" "argId = m_groupId m"
  shows "Option.bind (groupMembershipPages (updateMembership_fulfilled A sv argId (Some m) gs) k)
      (\<lambda>pages. page_at pages Moderation_MODERATION_UNKNOWN 0) = Some (map (\<lambda>n. if m_userId n = m_userId m then m else n) ms)"
proof -
  have "groupMembershipPages (replace_membership k (Some m) (unlockGroup gs k)) k =
      Some (pages(Moderation_MODERATION_UNKNOWN \<mapsto> (nullish (pages Moderation_MODERATION_UNKNOWN) Map.empty)
        (0 \<mapsto> map (\<lambda>n. if m_userId n = m_userId m then m else n) ms)))"
    using assms(1,2) by (simp add: replace_membership_def unlockGroup_def Let_def)
  then show ?thesis
    using assms by (simp add: updateMembership_fulfilled_def Let_def unlockGroup_def page_at_def split: option.split)
      (simp add: upsertGroup_def)
qed

text \<open>The edits of the card.\<close>

definition member_edit :: "(membership \<Rightarrow> membership) \<Rightarrow> bool" where
  "member_edit e \<longleftrightarrow> (\<exists>p v. e = select_member_permission p \<or> e = deselect_member_permission p \<or>
     e = choose_user_moderation v \<or> e = choose_group_moderation v)"

lemma find_replaced:
  "find (\<lambda>m. m_userId m = u) ms = Some n \<Longrightarrow> m_userId new = u \<Longrightarrow>
   find (\<lambda>m. m_userId m = u) (map (\<lambda>n. if m_userId n = u then new else n) ms) = Some new"
  by (induction ms) (auto split: if_splits)

lemma find_replaced_other:
  "m_userId new = u \<Longrightarrow> u' \<noteq> u \<Longrightarrow>
   find (\<lambda>m. m_userId m = u') (map (\<lambda>n. if m_userId n = u then new else n) ms) = find (\<lambda>m. m_userId m = u') ms"
  by (induction ms) auto

text \<open>What the card manages is the membership of the page, if the user is stored.\<close>

definition stored_members :: "federated_user adapter \<Rightarrow> users_state \<Rightarrow> federated_group \<Rightarrow> membership list \<Rightarrow> bool" where
  "stored_members U users g ms \<longleftrightarrow>
     (\<forall>n \<in> set ms. \<forall>fu. listed_member U users (parsed_serverHost (parseFederatedId (group_key g))) n = Some fu \<longrightarrow>
        u_id (entity fu) = m_userId n \<and> serverHostOf fu = serverHostOf g)"

lemma listed_same_user: "m_userId n = m_userId m \<Longrightarrow> (listed_member U users h n = None) = (listed_member U users h m = None)"
  by (simp add: listed_member_def)

lemma stored_members_replaced:
  assumes "stored_members U users g ms" "m \<in> set ms" "m_userId a = m_userId m" "u = m_userId m"
  shows "stored_members U users g (map (\<lambda>n. if m_userId n = u then a else n) ms)"
proof -
  let ?h = "parsed_serverHost (parseFederatedId (group_key g))"
  have "u_id (entity fu) = m_userId a \<and> serverHostOf fu = serverHostOf g" if fu: "listed_member U users ?h a = Some fu" for fu
  proof -
    obtain su where su: "selectById U (users_entities users) (federateId (m_userId m) (FromHost ?h)) = Some su"
      "fu = edit_user (\<lambda>u. u\<lparr>u_currentGroupMembership := Some a\<rparr>) su"
      using fu assms(3) by (auto simp: listed_member_def)
    then have "listed_member U users ?h m = Some (edit_user (\<lambda>u. u\<lparr>u_currentGroupMembership := Some m\<rparr>) su)"
      by (simp add: listed_member_def)
    with assms(1,2) have "u_id (entity su) = m_userId m" "serverHostOf su = serverHostOf g"
      unfolding stored_members_def by fastforce+
    then show ?thesis by (simp add: su(2) assms(3))
  qed
  then show ?thesis
    using assms(1) unfolding stored_members_def by auto
qed

lemma card_of_page:
  assumes "\<forall>n \<in> set ms. \<forall>fu. lm n = Some fu \<longrightarrow> f fu = m_userId n"
    and "\<forall>n m. m_userId n = m_userId m \<longrightarrow> (lm n = None) = (lm m = None)"
  shows "find (\<lambda>fu. f fu = u) (List.map_filter lm ms) = Option.bind (find (\<lambda>n. m_userId n = u) ms) lm"
  using assms(1)
proof (induction ms)
  case (Cons n ms)
  show ?case
  proof (cases "lm n")
    case None
    have "Option.bind (find (\<lambda>n. m_userId n = u) ms) lm = None" if "m_userId n = u"
    proof (cases "find (\<lambda>n. m_userId n = u) ms")
      case (Some m)
      then have "m_userId n = m_userId m" using that by (auto simp: find_Some_iff)
      then have "lm m = None" using assms(2) None by metis
      with Some show ?thesis by simp
    qed simp
    then show ?thesis using Cons None by (auto simp: map_filter_simps)
  next
    case (Some fu)
    then show ?thesis using Cons by (auto simp: map_filter_simps)
  qed
qed (simp add: map_filter_simps)

lemma card_membership_page:
  assumes "Option.bind (groupMembershipPages groups (group_key g)) (\<lambda>pages. page_at pages Moderation_MODERATION_UNKNOWN 0) =
      Some ms" "stored_members U users g ms"
  shows "card_membership U users g u groups = Option.bind (find (\<lambda>n. m_userId n = u) ms) (\<lambda>n.
    if listed_member U users (parsed_serverHost (parseFederatedId (group_key g))) n = None then None else Some n)"
proof -
  let ?lm = "listed_member U users (parsed_serverHost (parseFederatedId (group_key g)))"
  have card: "member_card U users g u groups = Option.bind (find (\<lambda>n. m_userId n = u) ms) ?lm"
  proof -
    have "up_users (getMembersPage U users groups (group_key g) 0 None) = List.map_filter ?lm ms"
      using assms(1) by (simp add: getMembersPage_def Let_def)
    moreover have "find (\<lambda>fu. u_id (entity fu) = u) (List.map_filter ?lm ms) = Option.bind (find (\<lambda>n. m_userId n = u) ms) ?lm"
    proof (rule card_of_page)
      show "\<forall>n \<in> set ms. \<forall>fu. ?lm n = Some fu \<longrightarrow> u_id (entity fu) = m_userId n"
        using assms(2) unfolding stored_members_def by blast
      show "\<forall>n m. m_userId n = m_userId m \<longrightarrow> (?lm n = None) = (?lm m = None)"
        using listed_same_user by blast
    qed
    ultimately show ?thesis by (simp only: member_card_def)
  qed
  show ?thesis
  proof (cases "find (\<lambda>n. m_userId n = u) ms")
    case (Some n)
    then have n: "n \<in> set ms" "m_userId n = u" by (auto simp: find_Some_iff)
    have "managed_membership groups fu (Some g) = Some n" if "?lm n = Some fu" for fu
    proof -
      have "u_id (entity fu) = m_userId n" "serverHostOf fu = serverHostOf g"
        using assms(2) n(1) that unfolding stored_members_def by blast+
      moreover have "u_currentGroupMembership (entity fu) = Some n"
        using that by (auto simp: listed_member_def edit_user_def)
      moreover have "Option.bind (groupMembershipPages groups (group_key g)) (\<lambda>pages.
          Option.bind (page_at pages Moderation_MODERATION_UNKNOWN 0) (find (\<lambda>m. m_userId m = u))) = Some n"
        using assms(1) Some by (auto simp: bind_eq_Some_conv)
      ultimately show ?thesis using n(2) by (simp add: managed_membership_def)
    qed
    then show ?thesis using card Some by (cases "?lm n") (auto simp: card_membership_def)
  qed (simp add: card_membership_def card)
qed

text \<open>A group with one member.\<close>

definition members_sample :: groups_state where
  "members_sample =
     initial_groups\<lparr>groupMembershipPages :=
       [''g@default'' \<mapsto> [Moderation_MODERATION_UNKNOWN \<mapsto> [0 \<mapsto> [sample_membership]]]]\<rparr>"

text \<open>
  the permissions an editor offers to add and those that are selected share none and together
  are all it knows of; adding one moves it from the one to the other, and removing it again leaves the list as it was.
\<close>

theorem permissions_partitioned:
  assumes "distinct ps" "p \<in> set (addablePermissions selectable ps)"
  shows "deselectPermission p (selectPermission p ps) = ps \<and> distinct (selectPermission p ps) \<and>
    addablePermissions selectable (selectPermission p ps) = filter (\<lambda>q. q \<noteq> p) (addablePermissions selectable ps) \<and>
    set (addablePermissions selectable ps) \<inter> set ps = {} \<and>
    set (allPermissions selectable) \<subseteq> set (addablePermissions selectable ps) \<union> set ps"
proof -
  have "p \<notin> set ps" using assms(2) by (simp add: addablePermissions_def)
  then have "selectPermission p ps = ps @ [p]" "filter (\<lambda>q. q \<noteq> p) ps = ps"
    by (auto simp: selectPermission_def filter_id_conv)
  moreover have "filter (\<lambda>q. q \<notin> set (ps @ [p])) qs = filter (\<lambda>q. q \<noteq> p) (filter (\<lambda>q. q \<notin> set ps) qs)" for qs
    by (induction qs) auto
  ultimately show ?thesis
    using assms(1) \<open>p \<notin> set ps\<close> by (auto simp: deselectPermission_def addablePermissions_def)
qed

theorem permissions_partitioned_witness:
  "deselectPermission Permission_ADMIN (selectPermission Permission_ADMIN [Permission_VIEW_POSTS]) = [Permission_VIEW_POSTS]"
  using permissions_partitioned [of "[Permission_VIEW_POSTS]" Permission_ADMIN "Some [Permission_VIEW_POSTS, Permission_ADMIN]"]
  by (simp add: addablePermissions_def allPermissions_def)

text \<open>
  C15: A member of a group's list of members is edited on the card again and again.  After every
  edit the card manages what the server has answered, or the membership as it was if the request has failed; the next edit
  starts from that, and the cards of the others are as they were.  So with a server that takes every edit none is lost.
\<close>

theorem membership_edits_accumulate:
  assumes "Option.bind (groupMembershipPages gs (group_key g)) (\<lambda>pages. page_at pages Moderation_MODERATION_UNKNOWN 0) = Some ms"
    and "stored_members U users g ms" "card_membership U users g u gs = Some m" "m_groupId m = g_id (entity g)"
    and "federateId (g_id (entity g)) (FederatedAction sv) = group_key g" "\<forall>e \<in> set edits. member_edit e"
    and "\<forall>m a. serv m = Some a \<longrightarrow> m_userId a = m_userId m \<and> m_groupId a = m_groupId m"
  shows "let gs' = foldl (save_from_card A serv sv U users g u) gs edits
    in card_membership U users g u gs' = Some (foldl (\<lambda>m e. nullish (serv (e m)) m) m edits) \<and>
       (\<forall>other. other \<noteq> u \<longrightarrow> card_membership U users g other gs' = card_membership U users g other gs)"
  using assms(1-4,6)
proof (induction edits arbitrary: gs m ms)
  case (Cons e edits)
  let ?page = "\<lambda>gs. Option.bind (groupMembershipPages gs (group_key g)) (\<lambda>pages. page_at pages Moderation_MODERATION_UNKNOWN 0)"
  have e: "m_userId (e m) = m_userId m" "m_groupId (e m) = m_groupId m"
    using Cons.prems(5) by (auto simp: member_edit_def select_member_permission_def deselect_member_permission_def
        choose_user_moderation_def choose_group_moderation_def)
  note card = card_membership_page [OF Cons.prems(1,2)]
  have m: "find (\<lambda>n. m_userId n = u) ms = Some m"
    "listed_member U users (parsed_serverHost (parseFederatedId (group_key g))) m \<noteq> None"
    using Cons.prems(3) card [of u] by (auto simp: bind_eq_Some_conv split: if_splits)
  then have user: "m_userId m = u" "m \<in> set ms" by (auto simp: find_Some_iff)
  obtain fu where fu: "member_card U users g u gs = Some fu" "managed_membership gs fu (Some g) = Some m"
    using Cons.prems(3) by (auto simp: card_membership_def bind_eq_Some_conv)
  let ?gs = "save_from_card A serv sv U users g u gs e" and ?m = "nullish (serv (e m)) m"
  obtain ms' where ms': "?page ?gs = Some ms'" "stored_members U users g ms'" "find (\<lambda>n. m_userId n = u) ms' = Some ?m"
    "\<forall>other. other \<noteq> u \<longrightarrow> find (\<lambda>n. m_userId n = other) ms' = find (\<lambda>n. m_userId n = other) ms"
  proof (cases "serv (e m)")
    case None
    then have "?gs = gs" by (simp add: save_from_card_def saveMembership_def fu)
    then show thesis using that [of ms] Cons.prems(1,2) m(1) None by simp
  next
    case (Some a)
    have a: "m_userId a = u" "m_groupId a = g_id (entity g)" using assms(7) Some e user Cons.prems(4) by auto
    obtain pages where pages: "groupMembershipPages gs (group_key g) = Some pages"
      "page_at pages Moderation_MODERATION_UNKNOWN 0 = Some ms"
      using Cons.prems(1) by (auto simp: bind_eq_Some_conv)
    have "?page ?gs = Some (map (\<lambda>n. if m_userId n = u then a else n) ms)"
      using saved_members [OF pages, of a sv "m_groupId (e m)" A] a assms(5) e Cons.prems(4)
      by (simp add: save_from_card_def saveMembership_def fu Some)
    moreover have "stored_members U users g (map (\<lambda>n. if m_userId n = u then a else n) ms)"
      by (rule stored_members_replaced [OF Cons.prems(2) user(2)]) (simp_all add: a(1) user(1))
    ultimately show thesis
      using that find_replaced [OF m(1) a(1)] find_replaced_other [OF a(1)] Some by simp
  qed
  note card' = card_membership_page [OF ms'(1,2)]
  have "m_userId ?m = m_userId m \<and> m_groupId ?m = m_groupId m"
    using assms(7) e by (cases "serv (e m)") auto
  moreover from this have "listed_member U users (parsed_serverHost (parseFederatedId (group_key g))) ?m \<noteq> None"
    using m(2) listed_same_user [of ?m m U users "parsed_serverHost (parseFederatedId (group_key g))"] by simp
  then have "card_membership U users g u ?gs = Some ?m" by (simp add: card' ms'(3))
  moreover have "card_membership U users g other ?gs = card_membership U users g other gs" if "other \<noteq> u" for other
    using ms'(4) that by (simp add: card card')
  ultimately show ?case
    using Cons.IH [OF ms'(1,2), of ?m] Cons.prems(4,5) by (simp add: Let_def)
qed simp

text \<open>The user of that member, and a server that takes every edit but the ones that make somebody an administrator.\<close>

definition members_users :: users_state where
  "members_users =
     initial_users\<lparr>users_entities := \<lparr>ids = [''u@default''],
       entities = [''u@default'' \<mapsto> fed_user (sample_user ''u'') (FromHost ''default'') None]\<rparr>\<rparr>"

definition careful_server :: "membership \<Rightarrow> membership option" where
  "careful_server m = (if Permission_ADMIN \<in> set (m_permissions m) then None else Some m)"

theorem membership_edits_accumulate_witness:
  "card_membership (ref_adapter user_key merge_user None) members_users (federatedEntity sample_group (FromHost ''default'')) ''u''
     (foldl (save_from_card (ref_adapter group_key replace_all None) careful_server None (ref_adapter user_key merge_user None)
        members_users (federatedEntity sample_group (FromHost ''default'')) ''u'') members_sample
       [select_member_permission Permission_VIEW_POSTS, select_member_permission Permission_ADMIN,
        select_member_permission Permission_CREATE_POSTS]) =
   Some (sample_membership\<lparr>m_permissions := [Permission_VIEW_POSTS, Permission_CREATE_POSTS]\<rparr>)"
proof -
  let ?U = "ref_adapter user_key merge_user None" and ?g = "federatedEntity sample_group (FromHost ''default'')"
  let ?edits = "[select_member_permission Permission_VIEW_POSTS, select_member_permission Permission_ADMIN,
        select_member_permission Permission_CREATE_POSTS]"
  have key: "group_key ?g = ''g@default''" by (simp add: sample_group_def mk_federated_id_def)
  have listed: "listed_member ?U members_users (parsed_serverHost (parseFederatedId ''g@default'')) sample_membership =
      Some (edit_user (\<lambda>u. u\<lparr>u_currentGroupMembership := Some sample_membership\<rparr>)
        (fed_user (sample_user ''u'') (FromHost ''default'') None))"
    by (simp add: listed_member_def members_users_def ref_adapter_def sample_membership_def federateId_def defederateId_def
        mk_federated_id_def parseFederatedIdOr_def)
  have page: "Option.bind (groupMembershipPages members_sample (group_key ?g))
      (\<lambda>pages. page_at pages Moderation_MODERATION_UNKNOWN 0) = Some [sample_membership]"
    unfolding key by (simp add: members_sample_def page_at_def)
  have stored: "stored_members ?U members_users ?g [sample_membership]"
    unfolding stored_members_def key
    by (simp add: listed) (simp add: fed_user_def sample_user_def sample_membership_def)
  have "card_membership ?U members_users ?g ''u'' members_sample = Some sample_membership"
    unfolding card_membership_page [OF page stored] key by (simp add: listed) (simp add: sample_membership_def)
  moreover have "\<forall>e \<in> set ?edits. member_edit e"
    by (auto simp: member_edit_def)
  ultimately show ?thesis
    using membership_edits_accumulate [OF page stored, of "''u''" sample_membership None ?edits careful_server
        "ref_adapter group_key replace_all None"] key
    by (simp add: Let_def careful_server_def federateId_def select_member_permission_def sample_membership_def sample_group_def)
qed

end
