(* ===== verification/Server_Settings.thy ===== *)
theory Server_Settings
  imports Wire_Server_Configuration Theme Json "HOL-Library.Multiset"
begin

text \<open>
  The settings of a server on its screen (features/accounts/server_details_screen.tsx): the form, how it is filled from the
  configuration, the configuration it sends, and the list of recommended servers.  Enumerations are the numbers of the
  protocol.  The button that sends is there for administrators of the server; what is drawn is left out.
\<close>

section \<open>Colours\<close>

text \<open>\<open>#${n.toString(16).slice(-6)}\<close> and \<open>parseInt(hex.slice(1), 16)\<close> on the digits of a valid colour.\<close>

definition last_chars :: "nat \<Rightarrow> string \<Rightarrow> string" where
  "last_chars k s = drop (length s - k) s"

definition color_text :: "int \<Rightarrow> string" where
  "color_text n = ''#'' @ last_chars 6 (to_hex (nat n))"

definition hex_number :: "string \<Rightarrow> nat" where
  "hex_number s = foldl (\<lambda>n c. 16 * n + nullish (hex_value c) 0) 0 s"

definition color_valid :: "string \<Rightarrow> bool" where
  "color_valid s \<longleftrightarrow> length s = 7 \<and> take 1 s = ''#'' \<and> list_all (\<lambda>c. hex_value c \<noteq> None) (drop 1 s)"

definition color_number :: "string \<Rightarrow> int" where
  "color_number s = int (hex_number (drop 1 s)) + 4278190080"


section \<open>The form\<close>

record server_form =
  sf_name :: "string option"
  sf_description :: "string option"
  sf_privacyPolicy :: "string option"
  sf_mediaPolicy :: "string option"
  sf_logo :: "ServerLogo option"
  sf_webUserInterface :: int
  sf_externalCdnConfig :: "ExternalCDNConfig option"
  sf_federatedServers :: "FederatedServer list option"
  sf_newHost :: string
  sf_primaryColorHex :: string
  sf_navColorHex :: string
  sf_defaultPermissions :: "int list"
  sf_anonymousPermissions :: "int list"
  sf_basicPermissions :: "int list"
  sf_updating :: bool
  sf_updated :: bool
  sf_updateError :: string

abbreviation "react_tamagui \<equiv> 2 :: int"

definition info_of :: "ServerConfiguration option \<Rightarrow> ServerInfo option" where
  "info_of cfg = Option.bind cfg ServerConfiguration_serverInfo"

definition primary_text :: "ServerConfiguration option \<Rightarrow> string" where
  "primary_text cfg =
     color_text (nullish (Option.bind (Option.bind (info_of cfg) ServerInfo_colors) ServerColors_primary) 4342338)"

definition nav_text :: "ServerConfiguration option \<Rightarrow> string" where
  "nav_text cfg =
     color_text (nullish (Option.bind (Option.bind (info_of cfg) ServerInfo_colors) ServerColors_navigation) 16777215)"

text \<open>The effect on the configuration; it has no line for the media policy.\<close>

definition fill_server_form :: "ServerConfiguration option \<Rightarrow> server_form \<Rightarrow> server_form" where
  "fill_server_form cfg f =
     f\<lparr>sf_name := Option.bind (info_of cfg) ServerInfo_name,
       sf_description := Option.bind (info_of cfg) ServerInfo_description,
       sf_privacyPolicy := Option.bind (info_of cfg) ServerInfo_privacyPolicy,
       sf_logo := Option.bind (info_of cfg) ServerInfo_logo,
       sf_webUserInterface := nullish (Option.bind (info_of cfg) ServerInfo_webUserInterface) react_tamagui,
       sf_externalCdnConfig := Option.bind cfg ServerConfiguration_externalCdnConfig,
       sf_defaultPermissions := (case cfg of None \<Rightarrow> [] | Some c \<Rightarrow> ServerConfiguration_defaultUserPermissions c),
       sf_anonymousPermissions := (case cfg of None \<Rightarrow> [] | Some c \<Rightarrow> ServerConfiguration_anonymousUserPermissions c),
       sf_basicPermissions := (case cfg of None \<Rightarrow> [] | Some c \<Rightarrow> ServerConfiguration_basicUserPermissions c),
       sf_primaryColorHex := primary_text cfg,
       sf_navColorHex := nav_text cfg,
       sf_federatedServers :=
         map_option FederationInfo_servers (Option.bind cfg ServerConfiguration_federationInfo)\<rparr>"

text \<open>\<open>useState(v || undefined)\<close>; the effect runs after the first render too.\<close>

definition truthy_or :: "string option \<Rightarrow> string option" where
  "truthy_or v = (if v = Some [] then None else v)"

definition new_server_form :: "ServerConfiguration option \<Rightarrow> server_form" where
  "new_server_form cfg =
     (let f = fill_server_form cfg
            \<lparr>sf_name = None, sf_description = None, sf_privacyPolicy = None,
             sf_mediaPolicy = Option.bind (info_of cfg) ServerInfo_mediaPolicy,
             sf_logo = None, sf_webUserInterface = react_tamagui, sf_externalCdnConfig = None, sf_federatedServers = None,
             sf_newHost = [], sf_primaryColorHex = [], sf_navColorHex = [], sf_defaultPermissions = [],
             sf_anonymousPermissions = [], sf_basicPermissions = [], sf_updating = False, sf_updated = False,
             sf_updateError = []\<rparr>
      in f\<lparr>sf_name := truthy_or (sf_name f), sf_description := truthy_or (sf_description f)\<rparr>)"

definition inputsValid :: "server_form \<Rightarrow> bool" where
  "inputsValid f \<longleftrightarrow> color_valid (sf_primaryColorHex f) \<and> color_valid (sf_navColorHex f)"

definition toggle_permission :: "int \<Rightarrow> int list \<Rightarrow> int list" where
  "toggle_permission p ps = (if p \<in> set ps then filter (\<lambda>q. q \<noteq> p) ps else ps @ [p])"

definition updatedConfiguration :: "ServerConfiguration option \<Rightarrow> server_form \<Rightarrow> ServerConfiguration" where
  "updatedConfiguration cfg f =
     (nullish cfg base_ServerConfiguration)
       \<lparr>ServerConfiguration_serverInfo := Some
          ((nullish (info_of cfg) base_ServerInfo)
             \<lparr>ServerInfo_name := sf_name f, ServerInfo_description := sf_description f,
              ServerInfo_privacyPolicy := sf_privacyPolicy f, ServerInfo_mediaPolicy := sf_mediaPolicy f,
              ServerInfo_logo := sf_logo f, ServerInfo_webUserInterface := Some (sf_webUserInterface f),
              ServerInfo_colors := Some
                ((nullish (Option.bind (info_of cfg) ServerInfo_colors) base_ServerColors)
                   \<lparr>ServerColors_primary := Some (color_number (sf_primaryColorHex f)),
                    ServerColors_navigation := Some (color_number (sf_navColorHex f))\<rparr>)\<rparr>),
        ServerConfiguration_federationInfo := Some
          ((nullish (Option.bind cfg ServerConfiguration_federationInfo) base_FederationInfo)
             \<lparr>FederationInfo_servers := nullish (sf_federatedServers f) []\<rparr>),
        ServerConfiguration_defaultUserPermissions := sf_defaultPermissions f,
        ServerConfiguration_anonymousUserPermissions := sf_anonymousPermissions f,
        ServerConfiguration_basicUserPermissions := sf_basicPermissions f,
        ServerConfiguration_externalCdnConfig := sf_externalCdnConfig f\<rparr>"

text \<open>
  Sending: the button is disabled while an update runs or its success shows; the answer is the configuration the server
  returns, or a message.
\<close>

definition updateServer :: "ServerConfiguration option \<Rightarrow> server_form \<Rightarrow> server_form \<times> ServerConfiguration option" where
  "updateServer cfg f =
     (if sf_updating f \<or> sf_updated f \<or> \<not> inputsValid f then (f, None)
      else (f\<lparr>sf_updating := True, sf_updated := False, sf_updateError := []\<rparr>, Some (updatedConfiguration cfg f)))"

definition update_answered ::
  "string + ServerConfiguration \<Rightarrow> ServerConfiguration option \<Rightarrow> server_form \<Rightarrow> ServerConfiguration option \<times> server_form" where
  "update_answered answer cfg f =
     (case answer of
        Inl e \<Rightarrow> (cfg, f\<lparr>sf_updateError := e, sf_updating := False\<rparr>)
      | Inr c \<Rightarrow> (Some c, fill_server_form (Some c) (f\<lparr>sf_updated := True, sf_updating := False\<rparr>)))"


text \<open>The timer that hides the success.\<close>

definition update_hidden :: "server_form \<Rightarrow> server_form" where
  "update_hidden f = f\<lparr>sf_updated := False\<rparr>"


section \<open>Recommended servers\<close>

text \<open>\<open>/^([a-z0-9]+(-[a-z0-9]+)*\.)+[a-z]{2,}$/\<close>.\<close>

definition lower_letter :: "char \<Rightarrow> bool" where
  "lower_letter c \<longleftrightarrow> (let n = of_char c :: nat in 97 \<le> n \<and> n \<le> 122)"

definition lower_alnum :: "char \<Rightarrow> bool" where
  "lower_alnum c \<longleftrightarrow> lower_letter c \<or> (let n = of_char c :: nat in 48 \<le> n \<and> n \<le> 57)"

definition host_label :: "string \<Rightarrow> bool" where
  "host_label s \<longleftrightarrow> list_all (\<lambda>p. p \<noteq> [] \<and> list_all lower_alnum p) (js_split (CHR ''-'') s)"

definition host_name :: "string \<Rightarrow> bool" where
  "host_name s \<longleftrightarrow>
     (let labels = js_split (CHR ''.'') s
      in length labels \<ge> 2 \<and> list_all host_label (butlast labels) \<and>
         length (last labels) \<ge> 2 \<and> list_all lower_letter (last labels))"

definition isNewRecommendedHostNameValid :: "string \<Rightarrow> server_form \<Rightarrow> bool" where
  "isNewRecommendedHostNameValid here f \<longleftrightarrow>
     host_name (sf_newHost f) \<and> \<not> list_ex (\<lambda>s. FederatedServer_host s = sf_newHost f) (nullish (sf_federatedServers f) []) \<and>
     here \<noteq> sf_newHost f"

definition recommendServer :: "string \<Rightarrow> server_form \<Rightarrow> server_form" where
  "recommendServer here f =
     (if isNewRecommendedHostNameValid here f
      then f\<lparr>sf_federatedServers := Some (nullish (sf_federatedServers f) [] @
               [\<lparr>FederatedServer_host = map char_lower (sf_newHost f), FederatedServer_configuredByDefault = Some False,
                 FederatedServer_pinnedByDefault = Some False\<rparr>]),
             sf_newHost := []\<rparr>
      else f)"

text \<open>Moving by index: \<open>splice\<close> takes an element out and puts it beside its neighbour.\<close>

definition move_to :: "nat \<Rightarrow> nat \<Rightarrow> 'a list \<Rightarrow> 'a list" where
  "move_to i j xs =
     (let element = xs ! i; rest = take i xs @ drop (Suc i) xs in take j rest @ element # drop j rest)"

definition server_up :: "nat \<Rightarrow> FederatedServer list \<Rightarrow> FederatedServer list" where
  "server_up i xs = (if i > 0 \<and> i < length xs then move_to i (i - 1) xs else xs)"

definition server_down :: "nat \<Rightarrow> FederatedServer list \<Rightarrow> FederatedServer list" where
  "server_down i xs = (if i + 1 < length xs then move_to i (i + 1) xs else xs)"

definition server_delete :: "string \<Rightarrow> FederatedServer list \<Rightarrow> FederatedServer list" where
  "server_delete h xs = filter (\<lambda>s. FederatedServer_host s \<noteq> h) xs"

definition change_at :: "nat \<Rightarrow> ('a \<Rightarrow> 'a) \<Rightarrow> 'a list \<Rightarrow> 'a list" where
  "change_at i f xs = map (\<lambda>(k, s). if k = i then f s else s) (enumerate 0 xs)"

definition set_configured :: "bool \<Rightarrow> FederatedServer \<Rightarrow> FederatedServer" where
  "set_configured checked s =
     s\<lparr>FederatedServer_configuredByDefault := Some checked,
       FederatedServer_pinnedByDefault := (if checked then FederatedServer_pinnedByDefault s else Some False)\<rparr>"

definition set_pinned :: "bool \<Rightarrow> FederatedServer \<Rightarrow> FederatedServer" where
  "set_pinned checked s =
     s\<lparr>FederatedServer_pinnedByDefault := Some checked,
       FederatedServer_configuredByDefault := (if checked then Some True else FederatedServer_configuredByDefault s)\<rparr>"

datatype recommend_action =
    Type_host string
  | Recommend
  | Server_up nat
  | Server_down nat
  | Server_delete string
  | Set_configured nat bool
  | Set_pinned nat bool

fun recommend_step :: "string \<Rightarrow> server_form \<Rightarrow> recommend_action \<Rightarrow> server_form" where
  "recommend_step here f (Type_host h) = f\<lparr>sf_newHost := h\<rparr>"
| "recommend_step here f Recommend = recommendServer here f"
| "recommend_step here f (Server_up i) = f\<lparr>sf_federatedServers := map_option (server_up i) (sf_federatedServers f)\<rparr>"
| "recommend_step here f (Server_down i) = f\<lparr>sf_federatedServers := map_option (server_down i) (sf_federatedServers f)\<rparr>"
| "recommend_step here f (Server_delete h) = f\<lparr>sf_federatedServers := map_option (server_delete h) (sf_federatedServers f)\<rparr>"
| "recommend_step here f (Set_configured i b) =
     f\<lparr>sf_federatedServers := map_option (change_at i (set_configured b)) (sf_federatedServers f)\<rparr>"
| "recommend_step here f (Set_pinned i b) =
     f\<lparr>sf_federatedServers := map_option (change_at i (set_pinned b)) (sf_federatedServers f)\<rparr>"


section \<open>Colours that are read back\<close>

lemma hex_number_snoc: "hex_number (s @ [c]) = 16 * hex_number s + nullish (hex_value c) 0"
  by (simp add: hex_number_def)

lemma last_chars_hex:
  "16 ^ k \<le> n \<Longrightarrow>
   length (last_chars (Suc k) (to_hex n)) = Suc k \<and> hex_number (last_chars (Suc k) (to_hex n)) = n mod 16 ^ Suc k \<and>
   list_all (\<lambda>c. hex_value c \<noteq> None) (last_chars (Suc k) (to_hex n)) \<and> Suc k \<le> length (to_hex n)"
proof (induction k arbitrary: n)
  case 0
  have "\<exists>s. to_hex n = s @ [hex_digit (n mod 16)]"
    by (subst to_hex.simps) auto
  then obtain s where "to_hex n = s @ [hex_digit (n mod 16)]" by blast
  then show ?case
    by (simp add: last_chars_def hex_number_def hex_value_digit)
next
  case (Suc k)
  then have "16 \<le> n" "16 ^ k \<le> n div 16" by (simp_all add: less_eq_div_iff_mult_less_eq mult.commute)
      (metis power_Suc power_increasing le_trans one_le_numeral le_add1 power_one_right plus_1_eq_Suc add.commute)
  moreover from this have "to_hex n = to_hex (n div 16) @ [hex_digit (n mod 16)]"
    by (subst to_hex.simps) simp
  moreover have "n mod 16 ^ Suc (Suc k) = 16 * (n div 16 mod 16 ^ Suc k) + n mod 16"
    by (metis mod_mult2_eq power_Suc)
  ultimately show ?case
    using Suc.IH [of "n div 16"]
    by (simp add: last_chars_def hex_number_snoc hex_value_digit Suc_diff_le del: power_Suc)
qed

definition opaque :: "int \<Rightarrow> bool" where
  "opaque n \<longleftrightarrow> 4278190080 \<le> n \<and> n < 4294967296"

lemma opaque_read:
  assumes "opaque n"
  shows "color_valid (color_text n)" "color_number (color_text n) = n"
proof -
  have "16 ^ 5 \<le> nat n" using assms by (simp add: opaque_def le_nat_iff)
  moreover have six: "Suc 5 = 6" by simp
  ultimately have l: "length (last_chars 6 (to_hex (nat n))) = 6" "hex_number (last_chars 6 (to_hex (nat n))) = nat n mod 16 ^ 6"
    "list_all (\<lambda>c. hex_value c \<noteq> None) (last_chars 6 (to_hex (nat n)))"
    using last_chars_hex [of 5 "nat n"] unfolding six by blast+
  then show "color_valid (color_text n)" by (simp add: color_valid_def color_text_def)
  have "n = (n - 4278190080) + 16777216 * 255" by simp
  then have "n mod 16777216 = (n - 4278190080) mod 16777216" by (metis mod_mult_self2)
  also have "\<dots> = n - 4278190080" using assms by (simp add: opaque_def mod_pos_pos_trivial)
  finally have "n mod 16777216 = n - 4278190080" .
  moreover have "int (nat n mod 16777216) = n mod 16777216"
    using assms by (simp only: zmod_int) (simp add: opaque_def)
  ultimately have "int (nat n mod 16 ^ 6) = n - 4278190080" by simp
  then show "color_number (color_text n) = n" using l(2) by (simp add: color_number_def color_text_def)
qed


section \<open>The list of recommended servers\<close>

lemma lower_alnum_lower: "lower_alnum c \<Longrightarrow> char_lower c = c"
  by (auto simp: lower_alnum_def lower_letter_def char_lower_def Let_def)

lemma split_parts: "c \<in> set s \<Longrightarrow> c = sep \<or> (\<exists>p \<in> set (js_split sep s). c \<in> set p)"
  by (induction s) (auto split: list.splits)

lemma host_label_lower: "host_label s \<Longrightarrow> c \<in> set s \<Longrightarrow> char_lower c = c"
  using split_parts [of c s "CHR ''-''"] lower_alnum_lower
  by (auto simp: host_label_def list_all_iff char_lower_def)

lemma host_name_lower:
  assumes "host_name s"
  shows "map char_lower s = s"
proof (rule map_idI)
  fix c assume "c \<in> set s"
  then consider "c = CHR ''.''" | p where "p \<in> set (js_split (CHR ''.'') s)" "c \<in> set p"
    using split_parts by blast
  then show "char_lower c = c"
  proof cases
    case 2
    have "js_split (CHR ''.'') s \<noteq> []" using assms by (auto simp: host_name_def Let_def)
    then have "p = last (js_split (CHR ''.'') s) \<or> p \<in> set (butlast (js_split (CHR ''.'') s))"
      using 2(1) by (metis append_butlast_last_id in_set_conv_decomp rotate1.simps(2) set_ConsD set_rotate1)
    then show ?thesis
      using assms 2(2) host_label_lower lower_alnum_lower
      by (auto simp: host_name_def Let_def list_all_iff lower_alnum_def)
  qed (simp add: char_lower_def)
qed

definition recommended_ok :: "string \<Rightarrow> FederatedServer list \<Rightarrow> bool" where
  "recommended_ok here ss \<longleftrightarrow> distinct (map FederatedServer_host ss) \<and> here \<notin> FederatedServer_host ` set ss \<and>
     (\<forall>s \<in> set ss. FederatedServer_pinnedByDefault s = Some True \<longrightarrow> FederatedServer_configuredByDefault s = Some True)"

lemma mset_move_to: "i < length xs \<Longrightarrow> mset (move_to i j xs) = mset (xs :: 'a list)"
proof -
  assume i: "i < length xs"
  have "mset (take j ys @ x # drop j ys) = add_mset x (mset ys)" for x and ys :: "'a list"
    by (metis append_take_drop_id mset.simps(2) mset_append union_mset_add_mset_right)
  then have "mset (move_to i j xs) = add_mset (xs ! i) (mset (take i xs @ drop (Suc i) xs))"
    by (simp only: move_to_def Let_def)
  also have "\<dots> = mset (take i xs @ xs ! i # drop (Suc i) xs)" by simp
  finally show ?thesis by (simp add: id_take_nth_drop [OF i, symmetric])
qed

lemma recommended_mset:
  "mset ss' = mset ss \<Longrightarrow> recommended_ok here ss \<Longrightarrow> recommended_ok here ss'"
  unfolding recommended_ok_def
  using mset_eq_setD [of ss' ss] mset_eq_imp_distinct_iff [of "map FederatedServer_host ss'" "map FederatedServer_host ss"]
  by simp

lemma change_at_hosts:
  assumes "\<And>s. FederatedServer_host (g s) = FederatedServer_host s"
  shows "map FederatedServer_host (change_at i g ss) = map FederatedServer_host ss"
proof -
  have "map FederatedServer_host (change_at i g ss) = map (FederatedServer_host \<circ> snd) (enumerate 0 ss)"
    using assms by (auto simp: change_at_def)
  then show ?thesis by (metis map_map map_snd_enumerate)
qed

lemma change_at_ok:
  assumes "recommended_ok here ss" "\<And>s. FederatedServer_host (g s) = FederatedServer_host s"
    and "\<And>s. (FederatedServer_pinnedByDefault s = Some True \<longrightarrow> FederatedServer_configuredByDefault s = Some True) \<Longrightarrow>
      FederatedServer_pinnedByDefault (g s) = Some True \<longrightarrow> FederatedServer_configuredByDefault (g s) = Some True"
  shows "recommended_ok here (change_at i g ss)"
proof -
  have "set (change_at i g ss) \<subseteq> set ss \<union> g ` set ss"
    by (fastforce simp: change_at_def enumerate_eq_zip dest: set_zip_rightD)
  moreover have "FederatedServer_host ` set (change_at i g ss) = FederatedServer_host ` set ss"
    using change_at_hosts [of g i ss] assms(2) by (metis image_set)
  ultimately show ?thesis
    using assms change_at_hosts [of g i ss] by (auto simp: recommended_ok_def)
qed

lemma recommended_step:
  assumes "pred_option (recommended_ok here) (sf_federatedServers f)"
  shows "pred_option (recommended_ok here) (sf_federatedServers (recommend_step here f a))"
proof (cases a)
  case Recommend
  have "recommended_ok here (nullish (sf_federatedServers f) [])"
    using assms by (cases "sf_federatedServers f") (simp_all add: recommended_ok_def)
  then show ?thesis
    using assms Recommend host_name_lower [of "sf_newHost f"]
    by (auto simp: recommendServer_def isNewRecommendedHostNameValid_def recommended_ok_def list_ex_iff)
next
  case (Server_up i)
  then show ?thesis
    using assms by (cases "sf_federatedServers f") (auto simp: server_up_def intro: recommended_mset [OF mset_move_to])
next
  case (Server_down i)
  then show ?thesis
    using assms by (cases "sf_federatedServers f") (auto simp: server_down_def intro: recommended_mset [OF mset_move_to])
next
  case (Server_delete h)
  then show ?thesis
    using assms by (cases "sf_federatedServers f") (auto simp: server_delete_def recommended_ok_def distinct_map_filter)
next
  case (Set_configured i b)
  then show ?thesis
    using assms by (cases "sf_federatedServers f") (auto intro!: change_at_ok simp: set_configured_def split: if_splits)
next
  case (Set_pinned i b)
  then show ?thesis
    using assms by (cases "sf_federatedServers f") (auto intro!: change_at_ok simp: set_pinned_def)
qed (use assms in simp)


section \<open>What the screen promises, and what it does not\<close>

lemma filled_forms:
  "sf_mediaPolicy (foldl (\<lambda>f c. fill_server_form (Some c) f) f cs) = sf_mediaPolicy f"
  "sf_updating (foldl (\<lambda>f c. fill_server_form (Some c) f) f cs) = sf_updating f"
  "sf_updated (foldl (\<lambda>f c. fill_server_form (Some c) f) f cs) = sf_updated f"
  by (induction cs arbitrary: f) (simp_all add: fill_server_form_def)

text \<open>
  C31: Settings of a screen that is opened with a configuration, or before there is one, and is left
  untouched while others are loaded, are sent as the one loaded last, if its colours are opaque as the form writes them, with
  three exceptions: the media policy is the one the screen was opened with, a web interface that is not set is set to the
  default, and federation settings that are absent become empty ones.  So a configuration that has the two and that the
  screen was opened with comes back as it was, with the settings the form does not show.
\<close>

theorem untouched_settings_kept:
  assumes "ServerConfiguration_serverInfo cfg = Some info" "ServerInfo_colors info = Some colors"
    and "ServerColors_primary colors = Some p" "opaque p" "ServerColors_navigation colors = Some q" "opaque q"
  shows "let sent = snd (updateServer (Some cfg)
        (foldl (\<lambda>f c. fill_server_form (Some c) f) (new_server_form first) (loaded @ [cfg])))
    in sent = Some (cfg
         \<lparr>ServerConfiguration_serverInfo := Some (info
            \<lparr>ServerInfo_mediaPolicy := Option.bind (info_of first) ServerInfo_mediaPolicy,
             ServerInfo_webUserInterface := Some (nullish (ServerInfo_webUserInterface info) react_tamagui)\<rparr>),
          ServerConfiguration_federationInfo :=
            Some (nullish (ServerConfiguration_federationInfo cfg) base_FederationInfo)\<rparr>) \<and>
       (first = Some cfg \<and> ServerInfo_webUserInterface info \<noteq> None \<and> ServerConfiguration_federationInfo cfg \<noteq> None \<longrightarrow>
          sent = Some cfg)"
proof -
  define f0 where "f0 = foldl (\<lambda>f c. fill_server_form (Some c) f) (new_server_form first) loaded"
  have f0: "sf_mediaPolicy f0 = Option.bind (info_of first) ServerInfo_mediaPolicy" "\<not> sf_updating f0" "\<not> sf_updated f0"
    by (simp_all add: f0_def filled_forms) (simp_all add: new_server_form_def fill_server_form_def Let_def)
  let ?f = "fill_server_form (Some cfg) f0"
  have info: "info_of (Some cfg) = Some info" using assms(1) by (simp add: info_of_def)
  have texts: "primary_text (Some cfg) = color_text p" "nav_text (Some cfg) = color_text q"
    using assms by (simp_all add: primary_text_def nav_text_def info)
  have colors: "colors\<lparr>ServerColors_primary := Some p, ServerColors_navigation := Some q\<rparr> = colors"
    using assms(3,5) by simp
  have "updatedConfiguration (Some cfg) ?f = cfg
         \<lparr>ServerConfiguration_serverInfo := Some (info
            \<lparr>ServerInfo_mediaPolicy := Option.bind (info_of first) ServerInfo_mediaPolicy,
             ServerInfo_webUserInterface := Some (nullish (ServerInfo_webUserInterface info) react_tamagui)\<rparr>),
          ServerConfiguration_federationInfo :=
            Some (nullish (ServerConfiguration_federationInfo cfg) base_FederationInfo)\<rparr>"
    using assms info texts opaque_read colors f0
    by (cases "ServerConfiguration_federationInfo cfg")
      (simp_all add: updatedConfiguration_def fill_server_form_def base_FederationInfo_def)
  moreover have "inputsValid ?f" "\<not> sf_updating ?f" "\<not> sf_updated ?f"
    using assms(4,6) texts opaque_read f0 by (simp_all add: inputsValid_def fill_server_form_def)
  ultimately have sent: "snd (updateServer (Some cfg) ?f) = Some (cfg
         \<lparr>ServerConfiguration_serverInfo := Some (info
            \<lparr>ServerInfo_mediaPolicy := Option.bind (info_of first) ServerInfo_mediaPolicy,
             ServerInfo_webUserInterface := Some (nullish (ServerInfo_webUserInterface info) react_tamagui)\<rparr>),
          ServerConfiguration_federationInfo :=
            Some (nullish (ServerConfiguration_federationInfo cfg) base_FederationInfo)\<rparr>)"
    by (simp add: updateServer_def)
  then show ?thesis
    using assms(1) info by (auto simp: Let_def f0_def)
qed

definition sample_settings :: ServerConfiguration where
  "sample_settings =
     base_ServerConfiguration
       \<lparr>ServerConfiguration_serverInfo := Some
          (base_ServerInfo\<lparr>ServerInfo_webUserInterface := Some react_tamagui, ServerInfo_mediaPolicy := Some ''be kind'',
             ServerInfo_colors := Some
               (base_ServerColors\<lparr>ServerColors_primary := Some 4278190335, ServerColors_navigation := Some 4294967295\<rparr>)\<rparr>),
        ServerConfiguration_federationInfo := Some base_FederationInfo\<rparr>"

theorem untouched_settings_kept_witness:
  "snd (updateServer (Some sample_settings)
     (foldl (\<lambda>f c. fill_server_form (Some c) f) (new_server_form (Some sample_settings)) ([] @ [sample_settings]))) =
     Some sample_settings"
proof -
  let ?info = "the (ServerConfiguration_serverInfo sample_settings)" and ?colors = "base_ServerColors
         \<lparr>ServerColors_primary := Some 4278190335, ServerColors_navigation := Some 4294967295\<rparr>"
  have "ServerConfiguration_serverInfo sample_settings = Some ?info" "ServerInfo_colors ?info = Some ?colors"
    "ServerColors_primary ?colors = Some 4278190335" "opaque 4278190335" "ServerColors_navigation ?colors = Some 4294967295"
    "opaque 4294967295" "ServerInfo_webUserInterface ?info \<noteq> None" "ServerConfiguration_federationInfo sample_settings \<noteq> None"
    by (simp_all add: sample_settings_def opaque_def)
  then show ?thesis
    using untouched_settings_kept [of sample_settings ?info ?colors 4278190335 4294967295 "Some sample_settings" "[]",
        unfolded Let_def]
    by blast
qed

text \<open>
  the media policy that is sent is that of the configuration the screen was opened with, none if it
  was opened before the configuration was there: the configurations that are loaded after it do not reach the form.
\<close>

theorem media_policy_of_first:
  assumes "snd (updateServer (Some cfg) (foldl (\<lambda>f c. fill_server_form (Some c) f) (new_server_form first) loaded)) = Some sent"
  shows "Option.bind (ServerConfiguration_serverInfo sent) ServerInfo_mediaPolicy =
    Option.bind (info_of first) ServerInfo_mediaPolicy"
  using assms filled_forms(1)
  by (auto simp: updateServer_def updatedConfiguration_def new_server_form_def fill_server_form_def Let_def split: if_splits)

theorem media_policy_of_first_witness:
  "\<exists>sent. snd (updateServer (Some sample_settings) (foldl (\<lambda>f c. fill_server_form (Some c) f) (new_server_form None)
       [sample_settings])) = Some sent \<and>
     Option.bind (ServerConfiguration_serverInfo sent) ServerInfo_mediaPolicy = None"
proof -
  let ?f = "foldl (\<lambda>f c. fill_server_form (Some c) f) (new_server_form None) [sample_settings]"
  have "opaque 4278190335" "opaque 4294967295" by (simp_all add: opaque_def)
  then have "inputsValid ?f" "\<not> sf_updating ?f" "\<not> sf_updated ?f"
    by (simp_all add: inputsValid_def fill_server_form_def new_server_form_def Let_def primary_text_def nav_text_def
        info_of_def sample_settings_def opaque_read)
  then have "snd (updateServer (Some sample_settings) ?f) = Some (updatedConfiguration (Some sample_settings) ?f)"
    by (simp add: updateServer_def)
  with media_policy_of_first [OF this] show ?thesis by (simp add: info_of_def)
qed

text \<open>
  C32: whatever is done with the recommended servers of a server, no host is recommended twice, a
  server never recommends itself, and one that is pinned by default is added by default.
\<close>

theorem recommended_servers_distinct:
  assumes "recommended_ok here servers"
  shows "pred_option (recommended_ok here)
    (sf_federatedServers (foldl (recommend_step here) (f\<lparr>sf_federatedServers := Some servers\<rparr>) actions))"
proof -
  have "pred_option (recommended_ok here) (sf_federatedServers f) \<Longrightarrow>
      pred_option (recommended_ok here) (sf_federatedServers (foldl (recommend_step here) f actions))" for f
    by (induction actions arbitrary: f) (auto simp: recommended_step)
  then show ?thesis using assms by simp
qed

theorem recommended_servers_distinct_witness:
  "pred_option (recommended_ok ''a.org'') (sf_federatedServers (foldl (recommend_step ''a.org'')
     ((new_server_form None)\<lparr>sf_federatedServers := Some []\<rparr>)
     [Type_host ''b.org'', Recommend, Type_host ''b.org'', Recommend, Set_pinned 0 True]))"
  by (rule recommended_servers_distinct) (simp add: recommended_ok_def)

end
