(* ===== verification/Profile_Editor.thy ===== *)
theory Profile_Editor
  imports Wire_Users Create_Sheet Federation
begin

text \<open>
  Editing a profile on its screen (features/user/username_details_screen.tsx): the form, when it is filled from the user in
  the store, whether it differs from the user, and what it sends.  A user is the message of the protocol.
\<close>

section \<open>The form\<close>

record profile_form =
  pf_username :: "string option"
  pf_realName :: "string option"
  pf_bio :: "string option"
  pf_avatar :: "MediaReference option"
  pf_defaultFollowModeration :: int
  pf_visibility :: int
  pf_permissions :: "int list"
  pf_editMode :: bool
  pf_saving :: bool
  pf_successSaving :: bool

abbreviation "visibility_unknown \<equiv> 0 :: int"
abbreviation "visibility_global_public \<equiv> 4 :: int"
abbreviation "moderation_unknown \<equiv> 0 :: int"

definition new_profile_form :: "User option \<Rightarrow> profile_form" where
  "new_profile_form user =
     \<lparr>pf_username = map_option User_username user, pf_realName = map_option User_realName user,
      pf_bio = map_option User_bio user, pf_avatar = Option.bind user User_avatar,
      pf_defaultFollowModeration = nullish (map_option User_defaultFollowModeration user) moderation_unknown,
      pf_visibility = visibility_global_public, pf_permissions = nullish (map_option User_permissions user) [],
      pf_editMode = False, pf_saving = False, pf_successSaving = False\<rparr>"

definition resetFormData :: "User option \<Rightarrow> profile_form \<Rightarrow> profile_form" where
  "resetFormData user f =
     (case user of
        None \<Rightarrow>
          f\<lparr>pf_username := None, pf_realName := None, pf_bio := None, pf_avatar := None,
            pf_defaultFollowModeration := moderation_unknown, pf_visibility := visibility_unknown, pf_permissions := []\<rparr>
      | Some u \<Rightarrow>
          f\<lparr>pf_username := Some (User_username u), pf_realName := Some (User_realName u), pf_bio := Some (User_bio u),
            pf_avatar := User_avatar u, pf_defaultFollowModeration := User_defaultFollowModeration u,
            pf_visibility := User_visibility u, pf_permissions := User_permissions u\<rparr>)"

definition avatar_id :: "MediaReference option \<Rightarrow> string option" where
  "avatar_id a = map_option (\<lambda>r. MediaReference_id (MediaReference_own r)) a"

definition dirtyData :: "User option \<Rightarrow> profile_form \<Rightarrow> bool" where
  "dirtyData user f \<longleftrightarrow>
     (case user of
        None \<Rightarrow> False
      | Some u \<Rightarrow>
          pf_username f \<noteq> Some (User_username u) \<or> pf_realName f \<noteq> Some (User_realName u) \<or>
          pf_bio f \<noteq> Some (User_bio u) \<or> avatar_id (pf_avatar f) \<noteq> avatar_id (User_avatar u) \<or>
          pf_defaultFollowModeration f \<noteq> User_defaultFollowModeration u \<or> pf_visibility f \<noteq> User_visibility u \<or>
          pf_permissions f \<noteq> User_permissions u)"

text \<open>
  What is sent: the user of the store with the fields of the form, all of them.  The button does not look whether a request
  is under way.
\<close>

definition profile_request :: "User option \<Rightarrow> profile_form \<Rightarrow> User" where
  "profile_request user f =
     (nullish user base_User)
       \<lparr>User_username := nullish (pf_username f) [], User_realName := nullish (pf_realName f) [],
        User_bio := nullish (pf_bio f) [], User_avatar := pf_avatar f,
        User_defaultFollowModeration := pf_defaultFollowModeration f, User_visibility := pf_visibility f,
        User_permissions := pf_permissions f\<rparr>"

definition saveUser :: "bool \<Rightarrow> User option \<Rightarrow> profile_form \<Rightarrow> profile_form \<times> User option" where
  "saveUser canEdit user f =
     (if \<not> canEdit \<and> user = None then (f, None) else (f\<lparr>pf_saving := True\<rparr>, Some (profile_request user f)))"

text \<open>The answer: whether the page moves to the new name, and the form.\<close>

definition user_saved :: "bool \<Rightarrow> User option \<Rightarrow> profile_form \<Rightarrow> profile_form \<times> string option" where
  "user_saved success user f =
     (f\<lparr>pf_successSaving := success, pf_saving := False\<rparr>,
      if success \<and> pf_username f \<noteq> map_option User_username user then pf_username f else None)"


section \<open>The screen\<close>

text \<open>
  The user of the store comes with the host of its server.  \<open>ps_key\<close> are the identifier of the user, the name in the path and
  the server the effect ran with last, \<open>ps_resets\<close> the user \<open>resetFormData\<close> was created with: it is created anew when the
  federated identifier of the user changes.
\<close>

type_synonym profile_key = "string option \<times> string option \<times> string option"
type_synonym hosted_user = "string \<times> User"

definition hosted_id :: "hosted_user \<Rightarrow> string" where
  "hosted_id u = mk_federated_id (User_id (snd u)) (fst u)"

record profile_screen =
  ps_form :: profile_form
  ps_key :: "profile_key option"
  ps_resets :: "hosted_user option"

definition open_profile :: "hosted_user option \<Rightarrow> profile_screen" where
  "open_profile user = \<lparr>ps_form = new_profile_form (map_option snd user), ps_key = None, ps_resets = user\<rparr>"

text \<open>One render and its effects: filling the form, and leaving the edit mode where editing is not allowed.\<close>

definition profile_render :: "bool \<Rightarrow> profile_key \<Rightarrow> hosted_user option \<Rightarrow> profile_screen \<Rightarrow> profile_screen" where
  "profile_render canEdit key user st =
     (let resets = (if map_option hosted_id user \<noteq> map_option hosted_id (ps_resets st) then user else ps_resets st);
          form = (if Some key \<noteq> ps_key st then resetFormData (map_option snd resets) (ps_form st) else ps_form st)
      in \<lparr>ps_form = form\<lparr>pf_editMode := (pf_editMode form \<and> canEdit)\<rparr>, ps_key = Some key, ps_resets = resets\<rparr>)"

definition profile_renders :: "bool \<Rightarrow> profile_key \<Rightarrow> hosted_user list \<Rightarrow> profile_screen \<Rightarrow> profile_screen" where
  "profile_renders canEdit key versions st = foldl (\<lambda>st u. profile_render canEdit key (Some u) st) st versions"


section \<open>What the screen promises, and what it does not\<close>

lemma request_reset: "profile_request (Some u) (resetFormData (Some u) f) = u"
  by (simp add: profile_request_def resetFormData_def)

lemma same_user_keeps_form:
  assumes "ps_key st = Some key" "map_option hosted_id (ps_resets st) = Some i" "\<forall>u \<in> set versions. hosted_id u = i"
  shows "profile_request user (ps_form (profile_renders canEdit key versions st)) = profile_request user (ps_form st) \<and>
    dirtyData user (ps_form (profile_renders canEdit key versions st)) = dirtyData user (ps_form st)"
  using assms
proof (induction versions arbitrary: st)
  case (Cons u versions)
  define st1 where "st1 = profile_render canEdit key (Some u) st"
  have "map_option hosted_id (Some u) = map_option hosted_id (ps_resets st)"
    using Cons.prems(2,3) by (metis list.set_intros(1) option.map(2))
  then have "st1 = st\<lparr>ps_form := (ps_form st)\<lparr>pf_editMode := (pf_editMode (ps_form st) \<and> canEdit)\<rparr>\<rparr>"
    using Cons.prems(1) unfolding st1_def profile_render_def Let_def by simp
  then have "ps_key st1 = Some key" "map_option hosted_id (ps_resets st1) = Some i"
    "profile_request user (ps_form st1) = profile_request user (ps_form st)"
    "dirtyData user (ps_form st1) = dirtyData user (ps_form st)"
    using Cons.prems(1,2) by (simp_all add: profile_request_def dirtyData_def avatar_id_def split: option.split)
  with Cons.IH [of st1] Cons.prems(3) show ?case by (simp add: profile_renders_def st1_def [symmetric])
qed (simp add: profile_renders_def)

text \<open>
  when the screen turns to a user -- another identifier, or the first one -- the form shows that
  user: nothing differs, and saving sends the user as it is.
\<close>

theorem untouched_profile_kept:
  assumes "map_option hosted_id (ps_resets st) \<noteq> Some (hosted_id (h, u))" "ps_key st \<noteq> Some key"
  shows "let f = ps_form (profile_render canEdit key (Some (h, u)) st)
    in \<not> dirtyData (Some u) f \<and> snd (saveUser canEdit (Some u) f) = Some u \<and> snd (user_saved True (Some u) f) = None"
  using assms not_sym [OF assms(1)] not_sym [OF assms(2)]
  by (simp add: profile_render_def Let_def dirtyData_def resetFormData_def saveUser_def user_saved_def profile_request_def)

theorem untouched_profile_kept_witness:
  "snd (saveUser True (Some (base_User\<lparr>User_id := ''u1'', User_bio := ''hello''\<rparr>))
     (ps_form (profile_render True (Some ''u1@a'', Some ''jo'', None)
        (Some (''a'', base_User\<lparr>User_id := ''u1'', User_bio := ''hello''\<rparr>))
        (open_profile None)))) = Some (base_User\<lparr>User_id := ''u1'', User_bio := ''hello''\<rparr>)"
  using untouched_profile_kept [of "open_profile None" "''a''" "base_User\<lparr>User_id := ''u1'', User_bio := ''hello''\<rparr>"
      "(Some ''u1@a'', Some ''jo'', None)" True]
  by (simp add: open_profile_def Let_def)

text \<open>
  C30: versions of the user that are loaded while the screen stays on the user do not reach the form:
  saving sends the permissions, the visibility and the texts of the first version, and undoes what has changed since.
\<close>

theorem newer_profile_undone:
  assumes "map_option hosted_id (ps_resets st) \<noteq> Some (hosted_id (h, u))" "ps_key st \<noteq> Some key"
    and "\<forall>v \<in> set versions. hosted_id v = hosted_id (h, u)"
  shows "snd (saveUser True (Some newest) (ps_form (profile_renders True key ((h, u) # versions) st))) =
    Some (newest\<lparr>User_username := User_username u, User_realName := User_realName u, User_bio := User_bio u,
      User_avatar := User_avatar u, User_defaultFollowModeration := User_defaultFollowModeration u,
      User_visibility := User_visibility u, User_permissions := User_permissions u\<rparr>)"
proof -
  define st1 where "st1 = profile_render True key (Some (h, u)) st"
  have st1: "ps_key st1 = Some key" "map_option hosted_id (ps_resets st1) = Some (hosted_id (h, u))"
    "ps_form st1 = (resetFormData (Some u) (ps_form st))\<lparr>pf_editMode := pf_editMode (resetFormData (Some u) (ps_form st))\<rparr>"
    using assms(1,2) not_sym [OF assms(1)] not_sym [OF assms(2)] by (simp_all add: st1_def profile_render_def Let_def)
  have "profile_renders True key ((h, u) # versions) st = profile_renders True key versions st1"
    by (simp add: profile_renders_def st1_def)
  then show ?thesis
    using same_user_keeps_form [OF st1(1,2) assms(3), of "Some newest" True] st1(3)
    by (simp add: saveUser_def profile_request_def resetFormData_def)
qed

theorem newer_profile_undone_witness:
  "snd (saveUser True (Some (base_User\<lparr>User_id := ''u1'', User_permissions := [9]\<rparr>))
     (ps_form (profile_renders True (Some ''u1@a'', Some ''jo'', None)
        [(''a'', base_User\<lparr>User_id := ''u1''\<rparr>), (''a'', base_User\<lparr>User_id := ''u1'', User_permissions := [9]\<rparr>)]
        (open_profile None)))) =
   Some (base_User\<lparr>User_id := ''u1''\<rparr>)"
  using newer_profile_undone [of "open_profile None" "''a''" "base_User\<lparr>User_id := ''u1''\<rparr>" "(Some ''u1@a'', Some ''jo'', None)"
      "[(''a'', base_User\<lparr>User_id := ''u1'', User_permissions := [9]\<rparr>)]"
      "base_User\<lparr>User_id := ''u1'', User_permissions := [9]\<rparr>"]
  by (simp add: open_profile_def base_User_def hosted_id_def)

end
