(* ===== verification/Spec2Isabelle.thy ===== *)
theory Spec2Isabelle
  imports Utils Store Theme Paging_Hooks Account_Selection Conversation Thunks Post_Catalogue Rpc Json_Promises
    List_Hooks Rsvp_Manager Event_Editor Star_Button Member_Manager Server_Settings Profile_Editor
begin

text \<open>
  The federated client of Rellm: a model of the TypeScript client (src/frontends/tamagui/packages), of its store with the
  actions, selectors and hooks around it (package app), and of the protocol it speaks (package api).  Paths below are
  relative to src/frontends/tamagui/packages.

  \<^bold>\<open>The parts and how they interact\<close>

  One client talks to many servers at once.  Every entity is kept under the identifier its server gave it, joined
  with the host of the server (\<open>id@host\<close>), and every page of a list is kept per host.  A component asks for the account and the
  server an entity belongs to (hooks), an asynchronous action asks that server over gRPC with a cached client and
  a cached access token (clients, credentials), the root reducer hands the settled action to every slice, and a slice may
  schedule a callback -- clearing an alert, resetting everything loaded from a host -- that dispatches again.  Selectors
  gather the pages of all servers into the lists that are shown.

  \<^bold>\<open>The client: theory, source, what the lemmas show\<close>

  \<^item> Rellm_Prelude: failures as values, the string and array primitives, dictionaries; Js_Sort: the stable sort of
    arrays.
  \<^item> Api_Enums, Api_Types: the enumerations and messages the store keeps, the fields no operation reads bundled in one;
    round trips of the enumerations (locale enum_codec).
  \<^item> Federation (app/store/federation.ts), Store_Types (app/store/types.ts): identifiers are injective, values per host.
  \<^item> Entity_Adapter: the entity adapter of Redux Toolkit, a parameter of every slice, with its laws as a locale and an
    interpretation on association lists.
  \<^item> Utils (app/utils): moderation, visibility, permissions, media sizes.  Movable_List, Pages, Locks: the reordered lists of
    three slices, page status and grouped pages, the locks of groups and users; one locale each, interpreted on the slices.
  \<^item> Config, Media, Identified_Events, Events, Reply_Trees, Posts, Groups_Slice, Users, Servers, Accounts
    (app/store/modules): every reducer of the slices.  Invariants, what each action does to what is shown, what undoes
    it.
  \<^item> Post_Catalogue: the posts slice refines a catalogue of posts per host, action by action and error by error.
  \<^item> Clients (app/store/clients.ts): the callers of the client cache as an interleaving of steps: one of them connects,
    the others wait, and each ends after at most six attempts; a removal of the server lets one more connect.
  \<^item> Credentials (app/store/credentialed_data.ts): access tokens, and the debounced reset of a host.
  \<^item> Store (app/store/store.ts): runs of dispatched actions and fired timers; the invariant of all slices holds after every
    run, that of the servers as long as every order they are given lists each of them once.
  \<^item> Thunks (app/store/modules/*_actions.ts), Pagination (app/store/pagination), Paging_Hooks and Account_Selection
    (app/hooks), Conversation (app/features/post/conversation_manager.tsx), Theme (app/hooks/server_theme_hooks.ts),
    Error_Parsing (ui/src/error_parsing.ts): what is asked, what is shown, where it is asked.
  \<^item> List_Hooks (app/hooks/pagination): what every list hook returns of the store, when it asks a server and which; the
    first page of all members of a group is asked for until a server answers, any other list of members without end.
  \<^item> Anonymous_Tokens (app/hooks/use_anonymous_auth_token.tsx), Rsvp_Manager (app/features/event/event_rsvp_manager.tsx):
    answering an invitation, with or without an account; the token of an anonymous answer finds it again.
  \<^item> Create_Sheet (app/features/post/base_create_post_sheet.tsx, create_post_sheet.tsx, app/features/event/create_event_sheet.tsx,
    app/components/visibility_picker.tsx): the sheet a post or an event is written in sends what an account it has been used
    with may publish; the account can be changed while the visibility stays.
  \<^item> Event_Editor (app/features/event/event_card.tsx, event_details_screen.tsx): editing the occasions of an event from the
    first render to the answer of the server, with callbacks that keep the state of the render they were created in; what this
    loses, and that identifiers stay distinct unless the same occasions are added twice.  Three renders after an input are
    enough (settled): the end of the times, the stamps of a list that came back, and then nothing.
  \<^item> Star_Button (app/features/post/star_button.tsx): the buttons of one post as a step relation of presses, timers and
    buttons that appear; every timer meets a client in the cache or none.
  \<^item> Member_Manager (app/components/permissions_editor.tsx, moderation_picker.tsx, app/features/user/membership_manager.tsx,
    app/features/groups/group_post_manager.tsx): lists of permissions, the membership a card of the list of members shows and
    saves, sharing to groups.
  \<^item> Server_Settings (app/features/accounts/server_details_screen.tsx), Profile_Editor
    (app/features/user/username_details_screen.tsx): two forms that are filled from the store and sent whole; what survives
    untouched, and what a form filled too early or once too seldom overwrites.

  \<^bold>\<open>The protocol: theory, source, what the lemmas show\<close>

  \<^item> Wire: the writer, the reader and the decoding loop of api/generated, and the calculus of the round trip: a field
    that is written is a chunk of bytes the loop reads back (carries), a message is its chunks (builds), and
    decoding ends on any bytes (settles).  Js_Date: dates as JavaScript prints and reads them.
  \<^item> Wire_Time, Wire_Location, Wire_Media, Wire_Ai_Providers, Wire_Federation, Wire_Market, Wire_Sync, Wire_Users,
    Wire_Authentication, Wire_Groups, Wire_Posts, Wire_Events, Wire_Messages, Wire_Server_Configuration: the 155 messages of
    the file of that name, each as record, empty message, encode, the switch of its decode, and decode.  Messages that
    contain themselves (posts, media and authors, subscriptions and purchases) are datatypes with a decoder defined by
    its equation.
  \<^item> Json, Json_Enums and Json_X for every Wire_X: fromJSON, toJSON, fromPartial and create of the same messages over JSON
    values, and the 29 enumerations.
  \<^item> Rpc (api/generated/rellm.ts): the methods of the service, and that every request and answer comes through.
  \<^item> Wire_Reference: the format as documented, the instance the witnesses run on; Wire_Promises and Json_Promises: the
    properties of the codecs.

  \<^bold>\<open>Parameters\<close>

  Code outside the repository is an argument of the definitions that use it: the entity adapters, the gRPC library and the
  network (\<open>connect\<close>, \<open>api\<close>, \<open>net\<close>), the date library (\<open>unix\<close>, \<open>parse\<close>), \<open>localeCompare\<close> (\<open>loc\<close>), the order sort leaves
  to the implementation for equal elements (\<open>tie\<close>), the backgrounds of the theme library, the binary reader and writer
  (\<open>W\<close>, with the laws of the locale wire_format), and what the implementation makes of date strings the language
  leaves to it (\<open>other_dates\<close>).  Each set of laws is a locale with an interpretation on concrete definitions.

  \<^bold>\<open>Bounds\<close>

  A client is tried six times (fuel 2 * 6 + 1 steps of a caller suffice: each attempt is a check and a connection).  Numbers
  are exact: page numbers and counts are integers below 2^53, beyond which longToNumber throws; dates are within the 8.64e15
  milliseconds of the language.  Fields of type float are rationals.  The decoding loop is a partial function whose result
  may be missing; the properties about it say that it is not.

  \<^bold>\<open>What is not modelled, and why\<close>

  \<^item> Rendering: what the components under app/features, app/components and the package ui draw, and the screens that only
    arrange them, apart from the logic named above; when React runs an effect (an effect is a function of the state, and the
    theories say in which order they compose); animation, navigation and clipboards.
  \<^item> Persistence and the set-up of the store (library configuration), app/store/apis (no reducer reads it), logging.
  \<^item> Colours in hsl notation (floating point), the types Exact and DeepPartial (erased), and how the gRPC library sends a
    call.
  \<^item> The backend (Rust), the Elm and Flutter clients, deployment.

  \<^bold>\<open>Assumptions worth knowing\<close>

  An action carries a host that is not the name of a key of a Federated value, and timestamps the server sends are
  dates.  SetServerIdOrder writes an order unchecked, so the invariant of the servers asks for full orders.  The payload of loaded
  events is sorted in place, so later slices of the root reducer see it sorted.  In JSON a field with whole numbers is an
  integer: NaN, infinities and fractions in it are outside the model (\<open>Untyped\<close>).
\<close>

end
